(* ===== verification/Py_Prelude.thy ===== *)
theory Py_Prelude
  imports Complex_Main "HOL-Library.AList" "HOL-Library.List_Lexorder"
    "HOL-Library.Product_Lexorder" "HOL-Library.Char_ord" "HOL-Library.Multiset"
begin

text \<open>
  The Python fragment the components share. A configuration, a trace row, a worker node or an
  actor's answer is a JSON-like value of type \<open>pyval\<close>; a \<open>dict\<close> is an association list in
  insertion order, updated in place by \<open>AList.update\<close> exactly as Python keeps the position of
  an existing key. Every conversion the code calls (\<open>bool\<close>, \<open>int\<close>, \<open>float\<close>, \<open>str\<close>,
  \<open>dict\<close>, iteration, \<open>d[k]\<close>) is a function here, and a conversion that may raise returns a
  sum with the exception on the left.

  Floats are exact rationals: there is no rounding, no infinity and no NaN. Where Python would
  leave this universe (the text \<open>"inf"\<close> read by \<open>float\<close>, a dictionary with a key that is no
  string) the operation ends in \<open>OutOfModel\<close>, which is no Python exception and which no
  \<open>except\<close> clause of the model catches. A float is printed in positional notation with at most
  16 decimals.
\<close>

section \<open>Collections of facts\<close>

named_theorems res_simps \<open>how the error monad computes\<close>
named_theorems dict_simps \<open>lookups in updated dictionaries\<close>

section \<open>Values and exceptions\<close>

datatype pyval =
    PNone
  | PBool bool
  | PInt int
  | PFloat rat
  | PStr string
  | PList "pyval list"
  | PTuple "pyval list"
  | PDict "(string \<times> pyval) list"

type_synonym dict = "(string \<times> pyval) list"

datatype pyexc =
    TypeError
  | ValueError string
  | KeyError string
  | IndexError
  | AttributeError
  | ZeroDivisionError
  | RuntimeError string
  | AssertionError string
  | UnboundLocalError string
  | OutOfModel

type_synonym 'a res = "pyexc + 'a"

subsection \<open>Raising, sequencing, catching\<close>

fun rbind :: "'a res \<Rightarrow> ('a \<Rightarrow> 'b res) \<Rightarrow> 'b res" where
  "rbind (Inl e) f = Inl e"
| "rbind (Inr x) f = f x"

fun rmap :: "('a \<Rightarrow> 'b res) \<Rightarrow> 'a list \<Rightarrow> 'b list res" where
  "rmap f [] = Inr []"
| "rmap f (x # xs) = rbind (f x) (\<lambda>y. rbind (rmap f xs) (\<lambda>ys. Inr (y # ys)))"

fun rfold :: "('a \<Rightarrow> 's \<Rightarrow> 's res) \<Rightarrow> 'a list \<Rightarrow> 's \<Rightarrow> 's res" where
  "rfold f [] s = Inr s"
| "rfold f (x # xs) s = rbind (f x s) (rfold f xs)"

text \<open>\<open>except (TypeError, ValueError)\<close>: the handler's value replaces these two only.\<close>

fun except_tv :: "'a res \<Rightarrow> 'a res \<Rightarrow> 'a res" where
  "except_tv (Inl TypeError) h = h"
| "except_tv (Inl (ValueError m)) h = h"
| "except_tv r h = r"

lemma rbind_cong [fundef_cong]:
  "m = m' \<Longrightarrow> (\<And>x. m' = Inr x \<Longrightarrow> f x = f' x) \<Longrightarrow> rbind m f = rbind m' f'"
  by (cases m') auto

lemma rbind_eq_Inr [simp]: "rbind m f = Inr y \<longleftrightarrow> (\<exists>x. m = Inr x \<and> f x = Inr y)"
  by (cases m) auto

lemma rbind_eq_Inl:
  "rbind m f = Inl e \<longleftrightarrow> m = Inl e \<or> (\<exists>x. m = Inr x \<and> f x = Inl e)"
  by (cases m) auto

lemma rbind_assoc [res_simps]: "rbind (rbind m f) g = rbind m (\<lambda>x. rbind (f x) g)"
  by (cases m) auto

lemma except_tv_Inr [simp]:
  "except_tv m (Inr d) = Inr x \<longleftrightarrow>
     m = Inr x \<or> (x = d \<and> (m = Inl TypeError \<or> (\<exists>s. m = Inl (ValueError s))))"
  by (cases "(m, Inr d :: _ res)" rule: except_tv.cases) auto

lemma rmap_Inr_length: "rmap f xs = Inr ys \<Longrightarrow> length ys = length xs"
  by (induction xs arbitrary: ys) auto

lemma rmap_Inr_nth:
  "rmap f xs = Inr ys \<Longrightarrow> i < length xs \<Longrightarrow> f (xs ! i) = Inr (ys ! i)"
proof (induction xs arbitrary: ys i)
  case Nil
  then show ?case by simp
next
  case (Cons x xs)
  then show ?case by (cases i) auto
qed

lemma rmap_Inr_set:
  "rmap f xs = Inr ys \<Longrightarrow> y \<in> set ys \<Longrightarrow> \<exists>x \<in> set xs. f x = Inr y"
  by (induction xs arbitrary: ys) auto

lemma rmap_total: "(\<And>x. x \<in> set xs \<Longrightarrow> f x = Inr (g x)) \<Longrightarrow> rmap f xs = Inr (map g xs)"
  by (induction xs) auto

lemma rfold_invariant:
  "rfold f xs s = Inr t \<Longrightarrow> P s \<Longrightarrow>
   (\<And>x s t. x \<in> set xs \<Longrightarrow> P s \<Longrightarrow> f x s = Inr t \<Longrightarrow> P t) \<Longrightarrow> P t"
proof (induction xs arbitrary: s)
  case Nil
  then show ?case by simp
next
  case (Cons x xs)
  from Cons.prems(1) obtain u where u: "f x s = Inr u" and rest: "rfold f xs u = Inr t"
    by auto
  have "P u" using Cons.prems(3) [OF _ Cons.prems(2) u] by simp
  with rest show ?case
  proof (rule Cons.IH)
    fix y a b
    assume "y \<in> set xs" and "P a" and "f y a = Inr b"
    then show "P b" using Cons.prems(3) [of y a b] by simp
  qed
qed

section \<open>Dictionaries\<close>

definition dget :: "('k \<times> 'v) list \<Rightarrow> 'k \<Rightarrow> 'v \<Rightarrow> 'v" where
  "dget d k z = (case map_of d k of None \<Rightarrow> z | Some v \<Rightarrow> v)"

definition dgetn :: "dict \<Rightarrow> string \<Rightarrow> pyval" where
  "dgetn d k = dget d k PNone"

definition dhas :: "('k \<times> 'v) list \<Rightarrow> 'k \<Rightarrow> bool" where
  "dhas d k = (map_of d k \<noteq> None)"

definition dindex :: "(string \<times> 'v) list \<Rightarrow> string \<Rightarrow> 'v res" where
  "dindex d k = (case map_of d k of None \<Rightarrow> Inl (KeyError k) | Some v \<Rightarrow> Inr v)"

definition dsetdefault :: "('k \<times> 'v) list \<Rightarrow> 'k \<Rightarrow> 'v \<Rightarrow> ('k \<times> 'v) list" where
  "dsetdefault d k v = (if dhas d k then d else AList.update k v d)"

text \<open>\<open>d.update(e)\<close>, also \<open>{**d, **e}\<close>.\<close>

definition dmerge :: "('k \<times> 'v) list \<Rightarrow> ('k \<times> 'v) list \<Rightarrow> ('k \<times> 'v) list" where
  "dmerge d e = fold (\<lambda>(k, v). AList.update k v) e d"

lemma map_of_update [simp]: "map_of (AList.update k v d) = (map_of d)(k \<mapsto> v)"
  by (simp add: update_conv')

lemma update_new: "k \<notin> fst ` set d \<Longrightarrow> AList.update k v d = d @ [(k, v)]"
  by (induction d) auto

lemma dget_update [dict_simps]:
  "dget (AList.update k v d) k' z = (if k' = k then v else dget d k' z)"
  by (simp add: dget_def)

lemma dgetn_update [dict_simps]:
  "dgetn (AList.update k v d) k' = (if k' = k then v else dgetn d k')"
  by (simp add: dgetn_def dget_update)

lemma dhas_update [dict_simps]: "dhas (AList.update k v d) k' = (k' = k \<or> dhas d k')"
  by (simp add: dhas_def)

lemma dhas_iff: "dhas d k \<longleftrightarrow> k \<in> fst ` set d"
  by (induction d) (auto simp: dhas_def)

text \<open>
  A loop over a dictionary \<open>al\<close> that changes, for each of its keys, only that key of another
  dictionary: the changes are independent.
\<close>

lemma rfold_pointwise:
  assumes "rfold f al w = Inr w'" and "distinct (map fst al)"
    and step: "\<And>k v w w'. (k, v) \<in> set al \<Longrightarrow> f (k, v) w = Inr w' \<Longrightarrow>
      R k v (map_of w k) (map_of w' k) \<and> (\<forall>n. n \<noteq> k \<longrightarrow> map_of w' n = map_of w n)"
  shows "case map_of al n of None \<Rightarrow> map_of w' n = map_of w n | Some v \<Rightarrow> R n v (map_of w n) (map_of w' n)"
  using assms
proof (induction al arbitrary: w)
  case Nil
  then show ?case by simp
next
  case (Cons p al)
  obtain k v where p: "p = (k, v)" by (cases p)
  from Cons.prems(1) obtain u where u: "f (k, v) w = Inr u" and rest: "rfold f al u = Inr w'" by (auto simp: p)
  have first: "R k v (map_of w k) (map_of u k)" "\<forall>n. n \<noteq> k \<longrightarrow> map_of u n = map_of w n"
    using Cons.prems(3) [OF _ u] by (simp_all add: p)
  have IH: "case map_of al n of None \<Rightarrow> map_of w' n = map_of u n | Some v \<Rightarrow> R n v (map_of u n) (map_of w' n)"
  proof (rule Cons.IH [OF rest])
    show "distinct (map fst al)" using Cons.prems(2) by simp
    fix k v a b
    assume "(k, v) \<in> set al" and "f (k, v) a = Inr b"
    then show "R k v (map_of a k) (map_of b k) \<and> (\<forall>n. n \<noteq> k \<longrightarrow> map_of b n = map_of a n)"
      using Cons.prems(3) [of k v a b] by simp
  qed
  have "k \<notin> fst ` set al" using Cons.prems(2) by (simp add: p)
  then have "map_of al k = None" by (simp add: map_of_eq_None_iff)
  then show ?case using IH first by (cases "n = k") (auto simp: p split: option.splits)
qed

lemma map_of_fold_update: "map_of (fold (\<lambda>(k, v). AList.update k v) e d) = map_of d ++ map_of (rev e)"
proof (induction e arbitrary: d)
  case Nil
  then show ?case by simp
next
  case (Cons p e)
  then show ?case by (cases p) (simp add: map_add_def fun_eq_iff split: option.splits)
qed

lemma map_of_dmerge:
  assumes "distinct (map fst e)"
  shows "map_of (dmerge d e) = map_of d ++ map_of e"
proof -
  have "map_of (rev e) = map_of e"
    using assms by (intro map_of_eqI) (auto simp: rev_map [symmetric] distinct_map intro: map_of_inject_set)
  then show ?thesis by (simp add: dmerge_def map_of_fold_update)
qed

lemma distinct_fold_update:
  "distinct (map fst d) \<Longrightarrow> distinct (map fst (fold (\<lambda>(k, v). AList.update k v) e d))"
  by (induction e arbitrary: d) (auto simp: distinct_update split: prod.splits)

section \<open>Strings\<close>

definition is_space :: "char \<Rightarrow> bool" where
  "is_space c = (c \<in> {CHR '' '', CHR 0x09, CHR 0x0A, CHR 0x0B, CHR 0x0C, CHR 0x0D,
                       CHR 0x1C, CHR 0x1D, CHR 0x1E, CHR 0x1F})"

definition py_strip :: "string \<Rightarrow> string" where
  "py_strip s = rev (dropWhile is_space (rev (dropWhile is_space s)))"

definition is_digit :: "char \<Rightarrow> bool" where
  "is_digit c = (c \<in> set ''0123456789'')"

definition digit_value :: "char \<Rightarrow> int" where
  "digit_value c = int (length (takeWhile (\<lambda>d. d \<noteq> c) ''0123456789''))"

definition py_isdigit :: "string \<Rightarrow> bool" where
  "py_isdigit s = (s \<noteq> [] \<and> list_all is_digit s)"

definition lower_char :: "char \<Rightarrow> char" where
  "lower_char c =
     (case map_of (zip ''ABCDEFGHIJKLMNOPQRSTUVWXYZ'' ''abcdefghijklmnopqrstuvwxyz'') c of
        None \<Rightarrow> c | Some l \<Rightarrow> l)"

definition py_lower :: "string \<Rightarrow> string" where
  "py_lower s = map lower_char s"

fun starts_with :: "string \<Rightarrow> string \<Rightarrow> bool" where
  "starts_with s [] = True"
| "starts_with [] (p # ps) = False"
| "starts_with (c # s) (p # ps) = (c = p \<and> starts_with s ps)"

text \<open>\<open>part in text\<close>.\<close>

fun str_contains :: "string \<Rightarrow> string \<Rightarrow> bool" where
  "str_contains [] p = (p = [])"
| "str_contains (c # s) p = (starts_with (c # s) p \<or> str_contains s p)"

text \<open>\<open>text.split(c)\<close> for a one-character separator.\<close>

fun split_on :: "char \<Rightarrow> string \<Rightarrow> string list" where
  "split_on c [] = [[]]"
| "split_on c (x # xs) =
     (if x = c then [] # split_on c xs
      else case split_on c xs of [] \<Rightarrow> [[x]] | p # ps \<Rightarrow> (x # p) # ps)"

fun py_join :: "string \<Rightarrow> string list \<Rightarrow> string" where
  "py_join sep [] = []"
| "py_join sep [s] = s"
| "py_join sep (s # t # ts) = s @ sep @ py_join sep (t # ts)"

section \<open>Numbers\<close>

text \<open>The decimal digits of a non-negative integer.\<close>

function int_digits :: "int \<Rightarrow> string" where
  "int_digits i =
     (if i < 10 then [''0123456789'' ! nat i]
      else int_digits (i div 10) @ [''0123456789'' ! nat (i mod 10)])"
  by pat_completeness auto
termination
  by (relation "measure nat") auto

declare int_digits.simps [simp del]

definition int_str :: "int \<Rightarrow> string" where
  "int_str i = (if i < 0 then ''-'' @ int_digits (- i) else int_digits i)"

text \<open>\<open>int(x)\<close> of a float truncates towards zero; \<open>round(x)\<close> rounds half to even.\<close>

definition rat_trunc :: "rat \<Rightarrow> int" where
  "rat_trunc r = (if 0 \<le> r then \<lfloor>r\<rfloor> else \<lceil>r\<rceil>)"

definition py_round :: "rat \<Rightarrow> int" where
  "py_round r =
     (let f = \<lfloor>r\<rfloor>; d = r - of_int f in
      if d < 1/2 then f else if 1/2 < d then f + 1 else if even f then f else f + 1)"

text \<open>
  A float in positional notation: its sign, its integer part and its decimals, sixteen at most
  and without trailing zeros, but at least one.
\<close>

definition float_str :: "rat \<Rightarrow> string" where
  "float_str r =
     (let a = \<bar>r\<bar>; n = \<lfloor>a\<rfloor>; f = \<lfloor>(a - of_int n) * 10 ^ 16\<rfloor>;
          ds = int_digits f; padded = replicate (16 - length ds) (CHR ''0'') @ ds;
          cut = rev (dropWhile (\<lambda>c. c = CHR ''0'') (rev padded))
      in (if r < 0 then ''-'' else []) @ int_digits n @ ''.'' @
         (if cut = [] then ''0'' else cut))"

text \<open>
  A run of decimal digits with single underscores between digits, as \<open>int\<close> and \<open>float\<close>
  accept it: the value and the number of digits.
\<close>

fun digits_from :: "string \<Rightarrow> int \<Rightarrow> nat \<Rightarrow> bool \<Rightarrow> (int \<times> nat) option" where
  "digits_from [] acc n after_digit = (if after_digit then Some (acc, n) else None)"
| "digits_from (c # cs) acc n after_digit =
     (if is_digit c then digits_from cs (acc * 10 + digit_value c) (Suc n) True
      else if c = CHR ''_'' \<and> after_digit then digits_from cs acc n False
      else None)"

fun split_sign :: "string \<Rightarrow> bool \<times> string" where
  "split_sign [] = (False, [])"
| "split_sign (c # cs) =
     (if c = CHR ''-'' then (True, cs) else if c = CHR ''+'' then (False, cs) else (False, c # cs))"

definition parse_int :: "string \<Rightarrow> int option" where
  "parse_int s =
     (let (neg, ds) = split_sign (py_strip s) in
      map_option (\<lambda>(i, _). if neg then - i else i) (digits_from ds 0 0 False))"

definition optional_digits :: "string \<Rightarrow> (int \<times> nat) option" where
  "optional_digits s = (if s = [] then Some (0, 0) else digits_from s 0 0 False)"

definition parse_exponent :: "string \<Rightarrow> int option" where
  "parse_exponent s =
     (if s = [] then Some 0
      else let (neg, ds) = split_sign (tl s) in
        map_option (\<lambda>(i, _). if neg then - i else i) (digits_from ds 0 0 False))"

definition parse_unsigned :: "string \<Rightarrow> rat option" where
  "parse_unsigned s =
     (let is_e = (\<lambda>c. c = CHR ''e'' \<or> c = CHR ''E'');
          mant = takeWhile (\<lambda>c. \<not> is_e c) s; expo = dropWhile (\<lambda>c. \<not> is_e c) s;
          ip = takeWhile (\<lambda>c. c \<noteq> CHR ''.'') mant; fp = tl (dropWhile (\<lambda>c. c \<noteq> CHR ''.'') mant)
      in if ip = [] \<and> fp = [] then None
         else case (optional_digits ip, optional_digits fp, parse_exponent expo) of
           (Some (i, _), Some (f, n), Some e) \<Rightarrow>
             Some ((of_int i + of_int f / 10 ^ n) *
                   (if 0 \<le> e then 10 ^ nat e else 1 / 10 ^ nat (- e)))
         | _ \<Rightarrow> None)"

definition parse_float :: "string \<Rightarrow> rat res" where
  "parse_float s =
     (let (neg, t) = split_sign (py_strip s) in
      if py_lower t \<in> {''inf'', ''infinity'', ''nan''} then Inl OutOfModel
      else case parse_unsigned t of
        None \<Rightarrow> Inl (ValueError ''could not convert string to float'')
      | Some r \<Rightarrow> Inr (if neg then - r else r))"

lemma rat_trunc_of_int [simp]: "rat_trunc (of_int i) = i"
  by (simp add: rat_trunc_def)

lemma rat_trunc_nonneg: "0 \<le> r \<Longrightarrow> 0 \<le> rat_trunc r"
  by (simp add: rat_trunc_def)

lemma rat_trunc_le: "0 \<le> r \<Longrightarrow> of_int (rat_trunc r) \<le> r"
  by (simp add: rat_trunc_def)

lemma py_round_of_int [simp]: "py_round (of_int i) = i"
  by (simp add: py_round_def Let_def)

lemma py_round_zero [simp]: "py_round 0 = 0"
  using py_round_of_int [of 0] by simp

section \<open>Conversions of values\<close>

fun truthy :: "pyval \<Rightarrow> bool" where
  "truthy PNone = False"
| "truthy (PBool b) = b"
| "truthy (PInt i) = (i \<noteq> 0)"
| "truthy (PFloat r) = (r \<noteq> 0)"
| "truthy (PStr s) = (s \<noteq> [])"
| "truthy (PList xs) = (xs \<noteq> [])"
| "truthy (PTuple xs) = (xs \<noteq> [])"
| "truthy (PDict d) = (d \<noteq> [])"

text \<open>\<open>x or y\<close>\<close>

definition por :: "pyval \<Rightarrow> pyval \<Rightarrow> pyval" where
  "por x y = (if truthy x then x else y)"

fun py_int :: "pyval \<Rightarrow> int res" where
  "py_int (PBool b) = Inr (if b then 1 else 0)"
| "py_int (PInt i) = Inr i"
| "py_int (PFloat r) = Inr (rat_trunc r)"
| "py_int (PStr s) =
     (case parse_int s of None \<Rightarrow> Inl (ValueError ''invalid literal for int()'') | Some i \<Rightarrow> Inr i)"
| "py_int _ = Inl TypeError"

fun py_float :: "pyval \<Rightarrow> rat res" where
  "py_float (PBool b) = Inr (if b then 1 else 0)"
| "py_float (PInt i) = Inr (of_int i)"
| "py_float (PFloat r) = Inr r"
| "py_float (PStr s) = parse_float s"
| "py_float _ = Inl TypeError"

lemma rmap_py_int: "rmap py_int (map PInt xs) = Inr xs"
  by (induction xs) auto

text \<open>\<open>repr\<close> and \<open>str\<close>: they differ on strings only.\<close>

definition hex_digit :: "nat \<Rightarrow> char" where
  "hex_digit n = ''0123456789abcdef'' ! n"

definition repr_char :: "char \<Rightarrow> char \<Rightarrow> string" where
  "repr_char q c =
     (if c = CHR 0x5C then [CHR 0x5C, CHR 0x5C]
      else if c = q then [CHR 0x5C, c]
      else if c = CHR 0x0A then [CHR 0x5C, CHR ''n'']
      else if c = CHR 0x09 then [CHR 0x5C, CHR ''t'']
      else if c = CHR 0x0D then [CHR 0x5C, CHR ''r'']
      else let n = (of_char c :: nat) in
        if n < 32 \<or> n = 127 then [CHR 0x5C, CHR ''x'', hex_digit (n div 16), hex_digit (n mod 16)]
        else [c])"

definition repr_str :: "string \<Rightarrow> string" where
  "repr_str s =
     (let q = (if CHR 0x27 \<in> set s \<and> CHR 0x22 \<notin> set s then CHR 0x22 else CHR 0x27)
      in [q] @ concat (map (repr_char q) s) @ [q])"

fun py_repr :: "pyval \<Rightarrow> string"
  and py_repr_seq :: "pyval list \<Rightarrow> string list"
  and py_repr_items :: "(string \<times> pyval) list \<Rightarrow> string list" where
  "py_repr PNone = ''None''"
| "py_repr (PBool b) = (if b then ''True'' else ''False'')"
| "py_repr (PInt i) = int_str i"
| "py_repr (PFloat r) = float_str r"
| "py_repr (PStr s) = repr_str s"
| "py_repr (PList xs) = ''['' @ py_join '', '' (py_repr_seq xs) @ '']''"
| "py_repr (PTuple xs) =
     ''('' @ py_join '', '' (py_repr_seq xs) @ (if length xs = 1 then '','' else []) @ '')''"
| "py_repr (PDict d) = ''{'' @ py_join '', '' (py_repr_items d) @ ''}''"
| "py_repr_seq [] = []"
| "py_repr_seq (x # xs) = py_repr x # py_repr_seq xs"
| "py_repr_items [] = []"
| "py_repr_items ((k, v) # d) = (repr_str k @ '': '' @ py_repr v) # py_repr_items d"

fun py_str :: "pyval \<Rightarrow> string" where
  "py_str (PStr s) = s"
| "py_str v = py_repr v"

fun is_mapping :: "pyval \<Rightarrow> bool" where
  "is_mapping (PDict d) = True"
| "is_mapping v = False"

fun is_sequence :: "pyval \<Rightarrow> bool" where
  "is_sequence (PList xs) = True"
| "is_sequence (PTuple xs) = True"
| "is_sequence v = False"

text \<open>\<open>for x in v\<close>, \<open>v.items()\<close>, \<open>dict(v)\<close>.\<close>

fun py_iter :: "pyval \<Rightarrow> pyval list res" where
  "py_iter (PList xs) = Inr xs"
| "py_iter (PTuple xs) = Inr xs"
| "py_iter (PStr s) = Inr (map (\<lambda>c. PStr [c]) s)"
| "py_iter (PDict d) = Inr (map (\<lambda>(k, _). PStr k) d)"
| "py_iter _ = Inl TypeError"

fun py_items :: "pyval \<Rightarrow> dict res" where
  "py_items (PDict d) = Inr d"
| "py_items _ = Inl AttributeError"

definition pair_entry :: "pyval \<Rightarrow> dict \<Rightarrow> dict res" where
  "pair_entry p d = rbind (py_iter p) (\<lambda>xs. case xs of
       [PStr k, v] \<Rightarrow> Inr (AList.update k v d)
     | [_, _] \<Rightarrow> Inl OutOfModel
     | _ \<Rightarrow> Inl (ValueError ''dictionary update sequence element''))"

fun py_dict :: "pyval \<Rightarrow> dict res" where
  "py_dict (PDict d) = Inr d"
| "py_dict v = rbind (py_iter v) (\<lambda>xs. rfold pair_entry xs [])"

text \<open>\<open>==\<close>: numbers compare by value, dictionaries by their entries in any order.\<close>

fun py_number :: "pyval \<Rightarrow> rat option" where
  "py_number (PBool b) = Some (if b then 1 else 0)"
| "py_number (PInt i) = Some (of_int i)"
| "py_number (PFloat r) = Some r"
| "py_number _ = None"

fun py_eq :: "pyval \<Rightarrow> pyval \<Rightarrow> bool" and py_eq_list :: "pyval list \<Rightarrow> pyval list \<Rightarrow> bool"
  and py_eq_items :: "(string \<times> pyval) list \<Rightarrow> (string \<times> pyval) list \<Rightarrow> bool" where
  "py_eq PNone w = (w = PNone)"
| "py_eq (PStr s) w = (w = PStr s)"
| "py_eq (PList vs) w = (case w of PList ws \<Rightarrow> py_eq_list vs ws | _ \<Rightarrow> False)"
| "py_eq (PTuple vs) w = (case w of PTuple ws \<Rightarrow> py_eq_list vs ws | _ \<Rightarrow> False)"
| "py_eq (PDict d) w = (case w of PDict e \<Rightarrow> length d = length e \<and> py_eq_items d e | _ \<Rightarrow> False)"
| "py_eq (PBool b) w = (py_number w = Some (if b then 1 else 0))"
| "py_eq (PInt i) w = (py_number w = Some (of_int i))"
| "py_eq (PFloat r) w = (py_number w = Some r)"
| "py_eq_list [] ws = (ws = [])"
| "py_eq_list (v # vs) ws = (case ws of [] \<Rightarrow> False | w # ws \<Rightarrow> py_eq v w \<and> py_eq_list vs ws)"
| "py_eq_items [] e = True"
| "py_eq_items ((k, v) # d) e = ((case map_of e k of Some w \<Rightarrow> py_eq v w | None \<Rightarrow> False) \<and> py_eq_items d e)"

text \<open>
  \<open>d.get(k)\<close> for a key of any type: a list or a dict cannot be hashed, and only a string can
  be a key of the dictionaries modelled here.
\<close>

fun hashable :: "pyval \<Rightarrow> bool" where
  "hashable (PList xs) = False"
| "hashable (PDict d) = False"
| "hashable (PTuple xs) = list_all hashable xs"
| "hashable v = True"

definition key_lookup :: "dict \<Rightarrow> pyval \<Rightarrow> pyval res" where
  "key_lookup d k =
     (if hashable k then Inr (case k of PStr s \<Rightarrow> dgetn d s | _ \<Rightarrow> PNone) else Inl TypeError)"

text \<open>The dictionary inside a value that \<open>isinstance(v, Mapping)\<close> accepted.\<close>

fun dict_of :: "pyval \<Rightarrow> dict" where
  "dict_of (PDict d) = d"
| "dict_of v = []"

fun of_opt_int :: "int option \<Rightarrow> pyval" where
  "of_opt_int None = PNone"
| "of_opt_int (Some i) = PInt i"

fun of_opt_float :: "rat option \<Rightarrow> pyval" where
  "of_opt_float None = PNone"
| "of_opt_float (Some r) = PFloat r"

fun of_opt_str :: "string option \<Rightarrow> pyval" where
  "of_opt_str None = PNone"
| "of_opt_str (Some s) = PStr s"

definition of_counts :: "(string \<times> int) list \<Rightarrow> pyval" where
  "of_counts h = PDict (map (\<lambda>(k, n). (k, PInt n)) h)"

text \<open>\<open>int(d.get(k, 0) or 0)\<close>, \<open>float(d.get(k, 0.0) or 0.0)\<close> and \<open>str(d.get(k, "") or "")\<close>.\<close>

definition int_or_zero :: "dict \<Rightarrow> string \<Rightarrow> int res" where
  "int_or_zero payload name = py_int (por (dget payload name (PInt 0)) (PInt 0))"

definition float_or_zero :: "dict \<Rightarrow> string \<Rightarrow> rat res" where
  "float_or_zero payload name = py_float (por (dget payload name (PFloat 0)) (PFloat 0))"

definition str_or_empty :: "dict \<Rightarrow> string \<Rightarrow> string" where
  "str_or_empty payload name = py_str (por (dget payload name (PStr [])) (PStr []))"

text \<open>\<open>value.strip().lower() in {"1", "true", "yes", "on"}\<close>\<close>

definition flag_text :: "string \<Rightarrow> bool" where
  "flag_text s = (py_lower (py_strip s) \<in> {''1'', ''true'', ''yes'', ''on''})"

section \<open>Sorting\<close>

text \<open>
  \<open>sorted\<close> is stable, and so is \<open>sorted(..., reverse=True)\<close>: elements with equal keys keep
  their order in both.
\<close>

definition py_sort_rev :: "('a \<Rightarrow> 'b::linorder) \<Rightarrow> 'a list \<Rightarrow> 'a list" where
  "py_sort_rev f xs = rev (sort_key f (rev xs))"

text \<open>\<open>list(dict.fromkeys(xs))\<close>: the first occurrence of each element, in order.\<close>

definition py_unique :: "'a list \<Rightarrow> 'a list" where
  "py_unique xs = rev (remdups (rev xs))"

text \<open>\<open>sorted(set(xs))\<close>\<close>

definition sorted_set :: "'a::linorder list \<Rightarrow> 'a list" where
  "sorted_set xs = sort (remdups xs)"

lemma set_py_sort_rev [simp]: "set (py_sort_rev f xs) = set xs"
  by (simp add: py_sort_rev_def)

lemma mset_py_sort_rev: "mset (py_sort_rev f xs) = mset xs"
  by (simp add: py_sort_rev_def)

lemma sorted_py_sort_rev: "sorted_wrt (\<lambda>x y. f y \<le> f x) (py_sort_rev f xs)"
  using sorted_sort_key [of f "rev xs"]
  by (simp add: py_sort_rev_def sorted_wrt_rev sorted_map)

lemma py_sort_rev_Nil_iff [simp]: "py_sort_rev f xs = [] \<longleftrightarrow> xs = []"
  by (metis set_empty set_py_sort_rev)

lemma set_py_unique [simp]: "set (py_unique xs) = set xs"
  by (simp add: py_unique_def)

lemma distinct_py_unique [simp]: "distinct (py_unique xs)"
  by (simp add: py_unique_def)

lemma py_unique_Nil_iff [simp]: "py_unique xs = [] \<longleftrightarrow> xs = []"
  by (metis set_empty set_py_unique)

section \<open>Ranking candidates\<close>

text \<open>
  The contract the planners rely on when they sort candidates and take the first ones: a ranking
  keeps exactly the candidates, and an earlier one is at least as good as a later one.
\<close>

locale ranking =
  fixes rank :: "'a list \<Rightarrow> 'a list"
    and better :: "'a \<Rightarrow> 'a \<Rightarrow> bool"
  assumes rank_mset: "mset (rank xs) = mset xs"
    and rank_sorted: "sorted_wrt better (rank xs)"
    and better_refl: "better x x"
begin

lemma set_rank: "set (rank xs) = set xs"
  using rank_mset [of xs] by (metis set_mset_mset)

lemma length_rank: "length (rank xs) = length xs"
  using rank_mset [of xs] by (metis size_mset)

lemma rank_Nil_iff: "rank xs = [] \<longleftrightarrow> xs = []"
  by (metis length_rank length_0_conv)

lemma distinct_rank: "distinct (rank xs) \<longleftrightarrow> distinct xs"
  by (rule mset_eq_imp_distinct_iff [OF rank_mset])

lemma first_is_best:
  assumes "rank xs = y # ys"
  shows "y \<in> set xs" and "x \<in> set xs \<Longrightarrow> better y x"
proof -
  have set: "set xs = insert y (set ys)" using set_rank [of xs] assms by simp
  then show "y \<in> set xs" by simp
  have "\<forall>z \<in> set ys. better y z" using rank_sorted [of xs] assms by simp
  then show "x \<in> set xs \<Longrightarrow> better y x" using set better_refl by auto
qed

lemma taken_beat_dropped:
  assumes "x \<in> set (take n (rank xs))" and "y \<in> set (drop n (rank xs))"
  shows "better x y"
proof -
  have "sorted_wrt better (take n (rank xs) @ drop n (rank xs))"
    using rank_sorted [of xs] by simp
  with assms show ?thesis by (auto simp only: sorted_wrt_append)
qed

end

lemma ranking_sort_key: "ranking (sort_key f) (\<lambda>x y. f x \<le> f y)"
  using sorted_sort_key [of f] by unfold_locales (simp_all add: sorted_map)

lemma ranking_py_sort_rev: "ranking (py_sort_rev f) (\<lambda>x y. f y \<le> f x)"
  by unfold_locales (simp_all add: mset_py_sort_rev sorted_py_sort_rev)

end
