(* ===== verification/Context_Migration.thy ===== *)
theory Context_Migration
  imports Py_Prelude
begin

text \<open>
  The context-migration planner, \<open>src/sllm/spot/context_migration.py\<close>: requests whose KV
  context lives on a preempted instance (sources) are mapped to ready instances (targets) at
  the lowest estimated cost. The dataclasses are records; the dictionaries the code builds with
  a fixed set of keys (the dispatch estimate, the queue estimate, the KV estimate, the placement
  marker) are records too, with a function that gives the dictionary back where the code hands
  it on. The dynamic programme \<open>solve\<close> of \<open>_fixed_warmup_assignment\<close> is written over an
  arbitrary cost estimate, as the nested function of the source is over the estimate it closes
  over; its memoisation does not change results.
\<close>

unbundle bit_operations_syntax

section \<open>Data\<close>

definition MOE_LOCALITY_DEFINITION :: string where
  "MOE_LOCALITY_DEFINITION = ''target_placement_coverage''"

definition MOE_LOCALITY_GRANULARITY :: string where
  "MOE_LOCALITY_GRANULARITY = ''target_instance_or_deployment''"

definition MOE_REMOTE_ROUTING_DEFINITION :: string where
  "MOE_REMOTE_ROUTING_DEFINITION = ''missing_from_target_placement_snapshot''"

type_synonym counts = "(string \<times> int) list"

record context_metadata =
  cm_request_id :: pyval
  cm_instance_id :: string
  cm_node_id :: string
  cm_num_tokens :: int
  cm_context_blocks :: int
  cm_tokens :: "int list"
  cm_cache_block_size :: int
  cm_cache_dtype :: string
  cm_cache_layout :: string
  cm_reusable_tokens_by_target :: counts
  cm_reusable_blocks_by_target :: counts
  cm_metadata :: dict

text \<open>\<open>{str(key): int(value) for key, value in (payload.get(name, {}) or {}).items()}\<close>\<close>

definition int_entries :: "dict \<Rightarrow> string \<Rightarrow> counts res" where
  "int_entries payload name =
     rbind (py_items (por (dget payload name (PDict [])) (PDict []))) (\<lambda>items.
       rfold (\<lambda>(k, v) acc. rbind (py_int v) (\<lambda>i. Inr (AList.update k i acc))) items [])"

definition ContextMetadata_from_dict :: "dict \<Rightarrow> context_metadata res" where
  "ContextMetadata_from_dict payload =
     rbind (dindex payload ''instance_id'') (\<lambda>instance_id.
     rbind (dindex payload ''node_id'') (\<lambda>node_id.
     rbind (int_or_zero payload ''num_tokens'') (\<lambda>num_tokens.
     rbind (int_or_zero payload ''context_blocks'') (\<lambda>context_blocks.
     rbind (rbind (py_iter (por (dget payload ''tokens'' (PList [])) (PList []))) (rmap py_int))
       (\<lambda>tokens.
     rbind (int_or_zero payload ''cache_block_size'') (\<lambda>cache_block_size.
     rbind (int_entries payload ''reusable_tokens_by_target'') (\<lambda>reusable_tokens.
     rbind (int_entries payload ''reusable_blocks_by_target'') (\<lambda>reusable_blocks.
     rbind (py_dict (por (dget payload ''metadata'' (PDict [])) (PDict []))) (\<lambda>metadata.
     Inr \<lparr>cm_request_id = dgetn payload ''request_id'',
          cm_instance_id = py_str instance_id,
          cm_node_id = py_str node_id,
          cm_num_tokens = max 0 num_tokens,
          cm_context_blocks = max 0 context_blocks,
          cm_tokens = tokens,
          cm_cache_block_size = max 0 cache_block_size,
          cm_cache_dtype = str_or_empty payload ''cache_dtype'',
          cm_cache_layout = str_or_empty payload ''cache_layout'',
          cm_reusable_tokens_by_target = reusable_tokens,
          cm_reusable_blocks_by_target = reusable_blocks,
          cm_metadata = metadata\<rparr>)))))))))"

definition ContextMetadata_to_dict :: "context_metadata \<Rightarrow> dict" where
  "ContextMetadata_to_dict self =
     [(''request_id'', cm_request_id self),
      (''instance_id'', PStr (cm_instance_id self)),
      (''node_id'', PStr (cm_node_id self)),
      (''num_tokens'', PInt (cm_num_tokens self)),
      (''context_blocks'', PInt (cm_context_blocks self)),
      (''tokens'', PList (map PInt (cm_tokens self))),
      (''cache_block_size'', PInt (cm_cache_block_size self)),
      (''cache_dtype'', PStr (cm_cache_dtype self)),
      (''cache_layout'', PStr (cm_cache_layout self)),
      (''reusable_tokens_by_target'', of_counts (cm_reusable_tokens_by_target self)),
      (''reusable_blocks_by_target'', of_counts (cm_reusable_blocks_by_target self)),
      (''metadata'', PDict (cm_metadata self))]"

record migration_target =
  mt_instance_id :: string
  mt_node_id :: string
  mt_capacity :: int
  mt_warmup_cost :: rat
  mt_concurrency :: int
  mt_max_queue_length :: int
  mt_queue_depth :: "int option"
  mt_queue_penalty :: rat
  mt_metadata :: dict

definition as_non_negative_int :: "pyval \<Rightarrow> int option" where
  "as_non_negative_int v = (case py_int v of Inl _ \<Rightarrow> None | Inr i \<Rightarrow> Some (max i 0))"

definition MigrationTarget_from_dict :: "dict \<Rightarrow> migration_target res" where
  "MigrationTarget_from_dict payload =
     rbind (dindex payload ''instance_id'') (\<lambda>instance_id.
     rbind (dindex payload ''node_id'') (\<lambda>node_id.
     rbind (py_int (por (dget payload ''capacity'' (PInt 1)) (PInt 0))) (\<lambda>capacity.
     rbind (float_or_zero payload ''warmup_cost'') (\<lambda>warmup_cost.
     rbind (int_or_zero payload ''concurrency'') (\<lambda>concurrency.
     rbind (int_or_zero payload ''max_queue_length'') (\<lambda>max_queue_length.
     rbind (float_or_zero payload ''queue_penalty'') (\<lambda>queue_penalty.
     rbind (py_dict (por (dget payload ''metadata'' (PDict [])) (PDict []))) (\<lambda>metadata.
     Inr \<lparr>mt_instance_id = py_str instance_id,
          mt_node_id = py_str node_id,
          mt_capacity = max 0 capacity,
          mt_warmup_cost = warmup_cost,
          mt_concurrency = max 0 concurrency,
          mt_max_queue_length = max 0 max_queue_length,
          mt_queue_depth = as_non_negative_int (dgetn payload ''queue_depth''),
          mt_queue_penalty = queue_penalty,
          mt_metadata = metadata\<rparr>))))))))"

definition MigrationTarget_to_dict :: "migration_target \<Rightarrow> dict" where
  "MigrationTarget_to_dict self =
     [(''instance_id'', PStr (mt_instance_id self)),
      (''node_id'', PStr (mt_node_id self)),
      (''capacity'', PInt (mt_capacity self)),
      (''warmup_cost'', PFloat (mt_warmup_cost self)),
      (''concurrency'', PInt (mt_concurrency self)),
      (''max_queue_length'', PInt (mt_max_queue_length self)),
      (''queue_depth'', of_opt_int (mt_queue_depth self)),
      (''queue_penalty'', PFloat (mt_queue_penalty self)),
      (''metadata'', PDict (mt_metadata self))]"

section \<open>Small conversions\<close>

definition positive_float :: "dict \<Rightarrow> string \<Rightarrow> rat \<Rightarrow> rat res" where
  "positive_float config key z =
     (let value = dget config key (PFloat z);
          value = (if value = PNone then PFloat z else value)
      in rbind (py_float value) (\<lambda>x. Inr (max 0 x)))"

fun to_bool :: "pyval \<Rightarrow> bool \<Rightarrow> bool" where
  "to_bool PNone z = z"
| "to_bool (PStr s) z = flag_text s"
| "to_bool v z = truthy v"

section \<open>Expert keys and histograms\<close>

definition expert_key_from_parts :: "pyval list \<Rightarrow> string" where
  "expert_key_from_parts parts =
     (let cleaned = filter (\<lambda>s. s \<notin> {'''', ''None''}) (map py_str parts); n = length cleaned in
      if cleaned = [] then ''''
      else if 2 \<le> n \<and> py_isdigit (cleaned ! (n - 2)) \<and> py_isdigit (cleaned ! (n - 1))
        then ''layer:'' @ cleaned ! (n - 2) @ ''/expert:'' @ cleaned ! (n - 1)
      else if n = 1 then cleaned ! 0
      else py_join ''/'' cleaned)"

definition add_tokens :: "string \<Rightarrow> int \<Rightarrow> counts \<Rightarrow> counts" where
  "add_tokens key n h = AList.update key (dget h key 0 + n) h"

definition is_expert_entry :: "dict \<Rightarrow> bool" where
  "is_expert_entry d = (dhas d ''layer_id'' \<and> dhas d ''expert_id'')"

definition expert_entry_key :: "dict \<Rightarrow> string" where
  "expert_entry_key d = expert_key_from_parts [dgetn d ''layer_id'', dgetn d ''expert_id'']"

text \<open>The leaves of the traversal: a count under a path of keys, an entry that names its expert.\<close>

definition visit_count :: "int \<Rightarrow> pyval list \<Rightarrow> counts \<Rightarrow> counts" where
  "visit_count parsed parts h =
     (let key = expert_key_from_parts parts in
      if key \<noteq> '''' \<and> 0 < parsed then add_tokens key parsed h else h)"

definition visit_expert_entry :: "dict \<Rightarrow> counts \<Rightarrow> counts" where
  "visit_expert_entry d h =
     (case as_non_negative_int (dget d ''routed_tokens'' (dget d ''tokens'' (PInt 0))) of
        None \<Rightarrow> h
      | Some routed \<Rightarrow> if routed = 0 then h else add_tokens (expert_entry_key d) routed h)"

function (sequential) visit :: "pyval \<Rightarrow> pyval list \<Rightarrow> counts \<Rightarrow> counts"
  and visit_items :: "dict \<Rightarrow> pyval list \<Rightarrow> counts \<Rightarrow> counts"
  and visit_seq :: "pyval list \<Rightarrow> int \<Rightarrow> pyval list \<Rightarrow> counts \<Rightarrow> counts" where
  "visit node parts h =
     (case as_non_negative_int node of
        Some parsed \<Rightarrow> visit_count parsed parts h
      | None \<Rightarrow>
         (case node of
            PDict d \<Rightarrow> if is_expert_entry d then visit_expert_entry d h else visit_items d parts h
          | PList xs \<Rightarrow> visit_seq xs 0 parts h
          | PTuple xs \<Rightarrow> visit_seq xs 0 parts h
          | _ \<Rightarrow> h))"
| "visit_items [] parts h = h"
| "visit_items ((k, child) # d) parts h = visit_items d parts (visit child (parts @ [PStr k]) h)"
| "visit_seq [] i parts h = h"
| "visit_seq (child # xs) i parts h = visit_seq xs (i + 1) parts (visit child (parts @ [PInt i]) h)"
  by pat_completeness auto
termination
  by (relation "measure (\<lambda>x. case x of Inl (n, _) \<Rightarrow> size n
        | Inr (Inl (d, _)) \<Rightarrow> size_list (size_prod (\<lambda>_. 0) size) d
        | Inr (Inr (xs, _)) \<Rightarrow> size_list size xs)") auto

declare visit.simps [simp del]

definition flatten_expert_histogram :: "pyval \<Rightarrow> pyval \<Rightarrow> counts res" where
  "flatten_expert_histogram v request_id =
     (case v of
        PDict d \<Rightarrow>
          if truthy request_id then
            rbind (key_lookup d request_id) (\<lambda>own.
              Inr (visit (if is_mapping own then own else v) [] []))
          else Inr (visit v [] [])
      | _ \<Rightarrow> Inr [])"

definition normalize_expert_key :: "string \<Rightarrow> string" where
  "normalize_expert_key t =
     (if str_contains t ''layer:'' \<and> str_contains t ''expert:'' then t
      else let parts = filter (\<lambda>p. p \<noteq> [])
                  (split_on (CHR '':'') (map (\<lambda>c. if c = CHR ''/'' then CHR '':'' else c) t));
               n = length parts
        in if 2 \<le> n \<and> py_isdigit (parts ! (n - 2)) \<and> py_isdigit (parts ! (n - 1))
           then expert_key_from_parts [PStr (parts ! (n - 2)), PStr (parts ! (n - 1))]
           else t)"

definition expert_layer_key :: "string \<Rightarrow> string" where
  "expert_layer_key expert_key =
     (case filter (\<lambda>p. starts_with p ''layer:'') (split_on (CHR ''/'') expert_key) of
        [] \<Rightarrow> ''layer:unknown'' | part # _ \<Rightarrow> part)"

definition routed_tokens_by_layer :: "counts \<Rightarrow> counts" where
  "routed_tokens_by_layer histogram =
     fold (\<lambda>(expert_key, tokens). add_tokens (expert_layer_key expert_key) tokens) histogram []"

definition names_expert :: "string \<Rightarrow> bool" where
  "names_expert k = (str_contains k ''expert'' \<or> str_contains k ''layer'')"

text \<open>The set of expert keys is the list of the keys the traversal adds, in that order.\<close>

fun placement_visit :: "pyval \<Rightarrow> string option \<Rightarrow> string list"
  and placement_items :: "dict \<Rightarrow> string list"
  and placement_seq :: "pyval list \<Rightarrow> string list" where
  "placement_visit node parent_key =
     (case node of
        PDict d \<Rightarrow>
          (if is_expert_entry d then [expert_entry_key d]
           else case parent_key of None \<Rightarrow> [] | Some p \<Rightarrow> [normalize_expert_key p])
          @ placement_items d
      | PList xs \<Rightarrow> placement_seq xs
      | PTuple xs \<Rightarrow> placement_seq xs
      | _ \<Rightarrow> [])"
| "placement_items [] = []"
| "placement_items ((k, child) # d) =
     (if names_expert k then [normalize_expert_key k] else [])
     @ (if is_mapping child \<or> is_sequence child then placement_visit child (Some k) else [])
     @ placement_items d"
| "placement_seq [] = []"
| "placement_seq (child # xs) = placement_visit child None @ placement_seq xs"

definition placement_expert_keys :: "pyval \<Rightarrow> string list" where
  "placement_expert_keys v = filter (\<lambda>k. k \<noteq> []) (placement_visit v None)"

fun metadata_value :: "dict \<Rightarrow> string list \<Rightarrow> pyval" where
  "metadata_value metadata [] = PNone"
| "metadata_value metadata (k # ks) =
     (if dhas metadata k then dgetn metadata k else metadata_value metadata ks)"

definition source_expert_route_histogram :: "context_metadata \<Rightarrow> counts res" where
  "source_expert_route_histogram source =
     flatten_expert_histogram
       (metadata_value (cm_metadata source) [''per_request_expert_route_histogram''])
       (cm_request_id source)"

definition source_has_available_expert_route_histogram :: "context_metadata \<Rightarrow> bool res" where
  "source_has_available_expert_route_histogram source =
     rbind (source_expert_route_histogram source) (\<lambda>histogram.
       if histogram = [] then Inr False
       else Inr (to_bool (metadata_value (cm_metadata source) [''moe_route_histogram_available''])
                   True))"

definition target_expert_placement_keys :: "migration_target \<Rightarrow> string list" where
  "target_expert_placement_keys target =
     (let m = mt_metadata target;
          raw = (if to_bool (metadata_value m [''runtime_expert_placement_available'']) False
                 then metadata_value m [''runtime_expert_placement_shards''] else PNone);
          raw = (if raw = PNone
                 then metadata_value m [''expert_placement_snapshot'', ''expert_placement'']
                 else raw)
      in placement_expert_keys raw)"

section \<open>The placement marker of a target\<close>

record placement_marker =
  target_placement_epoch :: "int option"
  target_placement_version :: "int option"
  target_expert_placement_epoch :: "int option"
  target_expert_placement_fingerprint :: string
  target_expert_placement_plan_fingerprint :: string
  target_expert_placement_snapshot_fingerprint :: string
  target_expert_placement_contract_available :: bool
  target_expert_placement_plan_applied :: bool
  target_expert_placement_plan_verified :: bool
  target_expert_placement_contract_seen_by_runtime :: bool
  target_expert_placement_contract_seen_by_all_workers :: bool
  target_expert_placement_contract_reason :: string
  target_expert_placement_runtime_verification_level :: string
  target_expert_placement_runtime_verified_placement :: bool
  target_expert_placement_runtime_can_verify_physical_placement :: bool
  target_expert_placement_runtime_can_remap_live_ep_rank :: bool
  target_expert_placement_runtime_can_measure_all_to_all :: bool
  target_expert_placement_runtime_capability_reason :: string
  target_expert_placement_apply_hook_available :: bool
  target_expert_placement_apply_attempted :: bool
  target_expert_placement_apply_success :: bool
  target_expert_placement_apply_reason :: string
  target_expert_placement_verify_hook_available :: bool
  target_expert_placement_verify_attempted :: bool
  target_expert_placement_verify_success :: bool
  target_expert_placement_verify_reason :: string
  target_placement_source :: string

definition target_placement_marker :: "migration_target \<Rightarrow> placement_marker" where
  "target_placement_marker target =
     (let v = metadata_value (mt_metadata target);
          flag = (\<lambda>key. to_bool (v [key]) False);
          text_of = (\<lambda>keys. py_str (por (v keys) (PStr '''')));
          reason_of = (\<lambda>key. py_str (por (v [key]) (PStr ''unavailable'')));
          placement_epoch = as_non_negative_int
            (v [''placement_epoch'', ''placement_version'', ''expert_placement_epoch'']);
          expert_placement_epoch = as_non_negative_int
            (v [''expert_placement_epoch'', ''placement_epoch'', ''placement_version''])
      in \<lparr>target_placement_epoch = placement_epoch,
         target_placement_version = placement_epoch,
         target_expert_placement_epoch = expert_placement_epoch,
         target_expert_placement_fingerprint = text_of [''expert_placement_fingerprint''],
         target_expert_placement_plan_fingerprint =
           text_of [''expert_placement_plan_fingerprint'', ''expert_placement_contract_fingerprint''],
         target_expert_placement_snapshot_fingerprint =
           text_of [''expert_placement_snapshot_fingerprint''],
         target_expert_placement_contract_available =
           flag ''expert_placement_contract_available'',
         target_expert_placement_plan_applied = flag ''expert_placement_plan_applied'',
         target_expert_placement_plan_verified = flag ''expert_placement_plan_verified'',
         target_expert_placement_contract_seen_by_runtime =
           flag ''expert_placement_contract_seen_by_runtime'',
         target_expert_placement_contract_seen_by_all_workers =
           flag ''expert_placement_contract_seen_by_all_workers'',
         target_expert_placement_contract_reason =
           reason_of ''expert_placement_contract_reason'',
         target_expert_placement_runtime_verification_level =
           reason_of ''expert_placement_runtime_verification_level'',
         target_expert_placement_runtime_verified_placement =
           flag ''expert_placement_runtime_verified_placement'',
         target_expert_placement_runtime_can_verify_physical_placement =
           flag ''expert_placement_runtime_can_verify_physical_placement'',
         target_expert_placement_runtime_can_remap_live_ep_rank =
           flag ''expert_placement_runtime_can_remap_live_ep_rank'',
         target_expert_placement_runtime_can_measure_all_to_all =
           flag ''expert_placement_runtime_can_measure_all_to_all'',
         target_expert_placement_runtime_capability_reason =
           text_of [''expert_placement_runtime_capability_reason''],
         target_expert_placement_apply_hook_available =
           flag ''expert_placement_apply_hook_available'',
         target_expert_placement_apply_attempted = flag ''expert_placement_apply_attempted'',
         target_expert_placement_apply_success = flag ''expert_placement_apply_success'',
         target_expert_placement_apply_reason = text_of [''expert_placement_apply_reason''],
         target_expert_placement_verify_hook_available =
           flag ''expert_placement_verify_hook_available'',
         target_expert_placement_verify_attempted =
           flag ''expert_placement_verify_attempted'',
         target_expert_placement_verify_success = flag ''expert_placement_verify_success'',
         target_expert_placement_verify_reason = text_of [''expert_placement_verify_reason''],
         target_placement_source = text_of [''placement_source'']\<rparr>)"

definition placement_marker_dict :: "placement_marker \<Rightarrow> dict" where
  "placement_marker_dict p =
     [(''target_placement_epoch'', of_opt_int (target_placement_epoch p)),
      (''target_placement_version'', of_opt_int (target_placement_version p)),
      (''target_expert_placement_epoch'', of_opt_int (target_expert_placement_epoch p)),
      (''target_expert_placement_fingerprint'', PStr (target_expert_placement_fingerprint p)),
      (''target_expert_placement_plan_fingerprint'',
       PStr (target_expert_placement_plan_fingerprint p)),
      (''target_expert_placement_snapshot_fingerprint'',
       PStr (target_expert_placement_snapshot_fingerprint p)),
      (''target_expert_placement_contract_available'',
       PBool (target_expert_placement_contract_available p)),
      (''target_expert_placement_plan_applied'', PBool (target_expert_placement_plan_applied p)),
      (''target_expert_placement_plan_verified'',
       PBool (target_expert_placement_plan_verified p)),
      (''target_expert_placement_contract_seen_by_runtime'',
       PBool (target_expert_placement_contract_seen_by_runtime p)),
      (''target_expert_placement_contract_seen_by_all_workers'',
       PBool (target_expert_placement_contract_seen_by_all_workers p)),
      (''target_expert_placement_contract_reason'',
       PStr (target_expert_placement_contract_reason p)),
      (''target_expert_placement_runtime_verification_level'',
       PStr (target_expert_placement_runtime_verification_level p)),
      (''target_expert_placement_runtime_verified_placement'',
       PBool (target_expert_placement_runtime_verified_placement p)),
      (''target_expert_placement_runtime_can_verify_physical_placement'',
       PBool (target_expert_placement_runtime_can_verify_physical_placement p)),
      (''target_expert_placement_runtime_can_remap_live_ep_rank'',
       PBool (target_expert_placement_runtime_can_remap_live_ep_rank p)),
      (''target_expert_placement_runtime_can_measure_all_to_all'',
       PBool (target_expert_placement_runtime_can_measure_all_to_all p)),
      (''target_expert_placement_runtime_capability_reason'',
       PStr (target_expert_placement_runtime_capability_reason p)),
      (''target_expert_placement_apply_hook_available'',
       PBool (target_expert_placement_apply_hook_available p)),
      (''target_expert_placement_apply_attempted'',
       PBool (target_expert_placement_apply_attempted p)),
      (''target_expert_placement_apply_success'',
       PBool (target_expert_placement_apply_success p)),
      (''target_expert_placement_apply_reason'', PStr (target_expert_placement_apply_reason p)),
      (''target_expert_placement_verify_hook_available'',
       PBool (target_expert_placement_verify_hook_available p)),
      (''target_expert_placement_verify_attempted'',
       PBool (target_expert_placement_verify_attempted p)),
      (''target_expert_placement_verify_success'',
       PBool (target_expert_placement_verify_success p)),
      (''target_expert_placement_verify_reason'',
       PStr (target_expert_placement_verify_reason p)),
      (''target_placement_source'', PStr (target_placement_source p))]"

section \<open>Expert dispatch: tokens routed to experts the target does not hold\<close>

record expert_dispatch =
  ed_available :: bool
  ed_histogram_available :: bool
  ed_placement_available :: bool
  ed_locality_ratio :: rat
  ed_estimated_remote_routing_ratio :: rat
  ed_estimated_remote_routed_tokens :: int
  ed_dispatch_observation_available :: bool
  ed_routed_tokens :: int
  ed_local_routed_tokens :: int
  ed_remote_routed_tokens :: int
  ed_local_routing_ratio :: rat
  ed_remote_routing_ratio :: rat
  ed_local_routed_tokens_by_expert :: counts
  ed_remote_routed_tokens_by_expert :: counts
  ed_local_routed_tokens_by_layer :: counts
  ed_remote_routed_tokens_by_layer :: counts
  ed_locality_definition :: string
  ed_locality_granularity :: string
  ed_remote_routing_definition :: string
  ed_rank_locality_available :: bool
  ed_physical_dispatch_traffic_available :: bool
  ed_cost :: rat
  ed_route_histogram_source :: string
  ed_route_histogram_kind :: string

definition unavailable_dispatch :: "context_metadata \<Rightarrow> bool \<Rightarrow> bool \<Rightarrow> expert_dispatch" where
  "unavailable_dispatch source histogram_available placement_available =
     \<lparr>ed_available = False,
      ed_histogram_available = histogram_available,
      ed_placement_available = placement_available,
      ed_locality_ratio = 0,
      ed_estimated_remote_routing_ratio = 0,
      ed_estimated_remote_routed_tokens = 0,
      ed_dispatch_observation_available = False,
      ed_routed_tokens = 0,
      ed_local_routed_tokens = 0,
      ed_remote_routed_tokens = 0,
      ed_local_routing_ratio = 0,
      ed_remote_routing_ratio = 0,
      ed_local_routed_tokens_by_expert = [],
      ed_remote_routed_tokens_by_expert = [],
      ed_local_routed_tokens_by_layer = [],
      ed_remote_routed_tokens_by_layer = [],
      ed_locality_definition = ''unavailable'',
      ed_locality_granularity = ''unavailable'',
      ed_remote_routing_definition = ''unavailable'',
      ed_rank_locality_available = False,
      ed_physical_dispatch_traffic_available = False,
      ed_cost = 0,
      ed_route_histogram_source = py_str
        (por (metadata_value (cm_metadata source) [''moe_route_histogram_source''])
          (PStr ''unavailable'')),
      ed_route_histogram_kind = py_str
        (por (metadata_value (cm_metadata source) [''moe_route_histogram_kind''])
          (PStr ''unavailable''))\<rparr>"

definition total_tokens :: "counts \<Rightarrow> int" where
  "total_tokens h = sum_list (map snd h)"

text \<open>The loop that sends each expert's tokens to the local or to the remote histogram.\<close>

definition split_step :: "string list \<Rightarrow> string \<times> int \<Rightarrow> counts \<times> counts \<Rightarrow> counts \<times> counts" where
  "split_step placement_keys entry acc =
     (let k = normalize_expert_key (fst entry) in
      if k \<in> set placement_keys then (add_tokens k (snd entry) (fst acc), snd acc)
      else (fst acc, add_tokens k (snd entry) (snd acc)))"

definition split_histogram :: "string list \<Rightarrow> counts \<Rightarrow> counts \<times> counts" where
  "split_histogram placement_keys histogram = fold (split_step placement_keys) histogram ([], [])"

definition observed_dispatch ::
  "context_metadata \<Rightarrow> counts \<Rightarrow> string list \<Rightarrow> rat \<Rightarrow> expert_dispatch" where
  "observed_dispatch source histogram placement_keys weight =
     (let total = total_tokens histogram;
          (local_histogram, remote_histogram) = split_histogram placement_keys histogram;
          local_tokens = total_tokens local_histogram;
          locality_ratio = (if total \<noteq> 0 then of_int local_tokens / of_int total else 0);
          remote_tokens = total_tokens remote_histogram;
          remote_ratio = (if total \<noteq> 0 then 1 - locality_ratio else 0);
          cost = remote_ratio * weight
      in \<lparr>ed_available = True,
          ed_histogram_available = True,
          ed_placement_available = True,
          ed_locality_ratio = locality_ratio,
          ed_estimated_remote_routing_ratio = remote_ratio,
          ed_estimated_remote_routed_tokens = remote_tokens,
          ed_dispatch_observation_available = True,
          ed_routed_tokens = total,
          ed_local_routed_tokens = local_tokens,
          ed_remote_routed_tokens = remote_tokens,
          ed_local_routing_ratio = locality_ratio,
          ed_remote_routing_ratio = remote_ratio,
          ed_local_routed_tokens_by_expert = local_histogram,
          ed_remote_routed_tokens_by_expert = remote_histogram,
          ed_local_routed_tokens_by_layer = routed_tokens_by_layer local_histogram,
          ed_remote_routed_tokens_by_layer = routed_tokens_by_layer remote_histogram,
          ed_locality_definition = MOE_LOCALITY_DEFINITION,
          ed_locality_granularity = MOE_LOCALITY_GRANULARITY,
          ed_remote_routing_definition = MOE_REMOTE_ROUTING_DEFINITION,
          ed_rank_locality_available = False,
          ed_physical_dispatch_traffic_available = False,
          ed_cost = cost,
          ed_route_histogram_source = py_str
            (por (metadata_value (cm_metadata source) [''moe_route_histogram_source''])
              (PStr ''runtime_or_instrumentation'')),
          ed_route_histogram_kind = py_str
            (por (metadata_value (cm_metadata source) [''moe_route_histogram_kind''])
              (PStr ''instrumentation_derived''))\<rparr>)"

definition estimate_expert_dispatch_cost ::
  "context_metadata \<Rightarrow> migration_target \<Rightarrow> dict \<Rightarrow> expert_dispatch res" where
  "estimate_expert_dispatch_cost source target planner_config =
     (let enabled = to_bool (dgetn planner_config ''enable_moe_expert_locality'')
            (dhas planner_config ''expert_dispatch_weight'') in
      rbind (source_expert_route_histogram source) (\<lambda>histogram.
        let placement_keys = target_expert_placement_keys target;
            histogram_available = (histogram \<noteq> []);
            placement_available = (placement_keys \<noteq> []);
            source_declares_histogram = to_bool
              (metadata_value (cm_metadata source) [''moe_route_histogram_available''])
              histogram_available;
            target_declares_placement = to_bool
              (metadata_value (mt_metadata target) [''expert_placement_available''])
              placement_available
        in if \<not> enabled \<or> \<not> histogram_available \<or> \<not> placement_available
              \<or> \<not> source_declares_histogram \<or> \<not> target_declares_placement
           then Inr (unavailable_dispatch source histogram_available placement_available)
           else rbind (positive_float planner_config ''expert_dispatch_weight'' 1) (\<lambda>weight.
             Inr (observed_dispatch source histogram placement_keys weight))))"

section \<open>Queue pressure, reuse and KV movement\<close>

record queue_penalty =
  qp_queue_depth :: int
  qp_queue_capacity :: int
  qp_queue_pressure :: rat
  qp_cost :: rat

definition estimate_queue_penalty_cost ::
  "migration_target \<Rightarrow> dict \<Rightarrow> int \<Rightarrow> queue_penalty res" where
  "estimate_queue_penalty_cost target planner_config planned_requests_ahead =
     (let current_depth = (case mt_queue_depth target of Some d \<Rightarrow> d | None \<Rightarrow> mt_concurrency target);
          queue_depth = max 0 current_depth + max 0 planned_requests_ahead;
          queue_capacity = (if mt_max_queue_length target \<le> 0 \<and> 0 < mt_capacity target
            then queue_depth + mt_capacity target else mt_max_queue_length target);
          queue_pressure = (if 0 < queue_capacity
            then min 1 (of_int queue_depth / of_int queue_capacity) else 0)
      in rbind (positive_float planner_config ''queue_penalty_weight'' 0) (\<lambda>depth_weight.
         rbind (positive_float planner_config ''queue_pressure_weight'' 0) (\<lambda>pressure_weight.
         Inr \<lparr>qp_queue_depth = queue_depth,
              qp_queue_capacity = max 0 queue_capacity,
              qp_queue_pressure = queue_pressure,
              qp_cost = max 0 (mt_queue_penalty target) + of_int queue_depth * depth_weight
                + queue_pressure * pressure_weight\<rparr>)))"

definition reuse_value ::
  "context_metadata \<Rightarrow> migration_target \<Rightarrow> counts \<Rightarrow> int \<Rightarrow> rat \<Rightarrow> rat \<Rightarrow> int" where
  "reuse_value source target values_by_target total_value same_node_ratio cross_node_ratio =
     (case map_of values_by_target (mt_instance_id target) of
        Some v \<Rightarrow> max 0 (min total_value v)
      | None \<Rightarrow>
         (case map_of values_by_target (mt_node_id target) of
            Some v \<Rightarrow> max 0 (min total_value v)
          | None \<Rightarrow>
              let ratio = (if cm_node_id source = mt_node_id target
                           then same_node_ratio else cross_node_ratio)
              in max 0 (min total_value (py_round (of_int total_value * ratio)))))"

definition reusable_context ::
  "context_metadata \<Rightarrow> migration_target \<Rightarrow> dict \<Rightarrow> (int \<times> int) res" where
  "reusable_context source target planner_config =
     rbind (positive_float planner_config ''same_node_token_reuse_ratio'' 1) (\<lambda>same_token.
     rbind (positive_float planner_config ''cross_node_token_reuse_ratio'' 0) (\<lambda>cross_token.
     rbind (positive_float planner_config ''same_node_block_reuse_ratio'' 1) (\<lambda>same_block.
     rbind (positive_float planner_config ''cross_node_block_reuse_ratio'' 0) (\<lambda>cross_block.
     Inr (reuse_value source target (cm_reusable_tokens_by_target source)
            (cm_num_tokens source) same_token cross_token,
          reuse_value source target (cm_reusable_blocks_by_target source)
            (cm_context_blocks source) same_block cross_block)))))"

record kv_migration =
  kv_cost :: rat
  kv_base_migration_cost :: rat
  kv_token_migration_cost :: rat
  kv_context_block_migration_cost :: rat
  kv_warmup_cost :: rat
  kv_cross_node_penalty_cost :: rat
  kv_reusable_tokens :: int
  kv_reusable_context_blocks :: int
  kv_non_reusable_tokens :: int
  kv_non_reusable_context_blocks :: int

definition estimate_kv_migration_cost ::
  "context_metadata \<Rightarrow> migration_target \<Rightarrow> dict \<Rightarrow> bool \<Rightarrow> kv_migration res" where
  "estimate_kv_migration_cost source target planner_config include_warmup =
     rbind (positive_float planner_config ''token_transfer_cost'' 1) (\<lambda>token_transfer_cost.
     rbind (positive_float planner_config ''context_block_transfer_cost'' 4) (\<lambda>block_transfer_cost.
     rbind (positive_float planner_config ''base_migration_cost'' 0) (\<lambda>base_migration_cost.
     rbind (positive_float planner_config ''cross_node_penalty'' 10) (\<lambda>cross_node_penalty.
     rbind (reusable_context source target planner_config) (\<lambda>(reusable_tokens, reusable_blocks).
     let non_reusable_tokens = max (cm_num_tokens source - reusable_tokens) 0;
         non_reusable_blocks = max (cm_context_blocks source - reusable_blocks) 0;
         token_cost = of_int non_reusable_tokens * token_transfer_cost;
         block_cost = of_int non_reusable_blocks * block_transfer_cost;
         warmup_cost = (if include_warmup then mt_warmup_cost target else 0);
         cross_node_cost = (if cm_node_id source \<noteq> mt_node_id target then cross_node_penalty else 0)
     in Inr \<lparr>kv_cost = base_migration_cost + token_cost + block_cost + warmup_cost + cross_node_cost,
             kv_base_migration_cost = base_migration_cost,
             kv_token_migration_cost = token_cost,
             kv_context_block_migration_cost = block_cost,
             kv_warmup_cost = warmup_cost,
             kv_cross_node_penalty_cost = cross_node_cost,
             kv_reusable_tokens = reusable_tokens,
             kv_reusable_context_blocks = reusable_blocks,
             kv_non_reusable_tokens = non_reusable_tokens,
             kv_non_reusable_context_blocks = non_reusable_blocks\<rparr>)))))"

definition estimate_migration_cost ::
  "context_metadata \<Rightarrow> migration_target \<Rightarrow> dict \<Rightarrow> bool \<Rightarrow> int \<Rightarrow> (rat \<times> int \<times> int) res" where
  "estimate_migration_cost source target planner_config include_warmup planned_requests_ahead =
     rbind (estimate_kv_migration_cost source target planner_config include_warmup) (\<lambda>kv.
     rbind (estimate_expert_dispatch_cost source target planner_config) (\<lambda>dispatch.
     rbind (estimate_queue_penalty_cost target planner_config planned_requests_ahead) (\<lambda>queue.
     Inr (kv_cost kv + ed_cost dispatch + qp_cost queue,
          kv_reusable_tokens kv, kv_reusable_context_blocks kv))))"

definition build_cost_matrix ::
  "context_metadata list \<Rightarrow> migration_target list \<Rightarrow> dict \<Rightarrow> bool
   \<Rightarrow> (rat list list \<times> migration_target list) res" where
  "build_cost_matrix sources targets planner_config include_warmup =
     (let target_slots = concat (map (\<lambda>t. replicate (nat (mt_capacity t)) t) targets) in
      rbind (rmap (\<lambda>source. rmap (\<lambda>target.
               rbind (estimate_migration_cost source target planner_config include_warmup 0)
                 (\<lambda>(cost, _, _). Inr cost)) target_slots) sources)
        (\<lambda>matrix. Inr (matrix, target_slots)))"

definition component_cost_entry ::
  "context_metadata \<Rightarrow> migration_target \<Rightarrow> dict \<Rightarrow> dict res" where
  "component_cost_entry source target planner_config =
     rbind (estimate_kv_migration_cost source target planner_config True) (\<lambda>kv.
     rbind (estimate_expert_dispatch_cost source target planner_config) (\<lambda>dispatch.
     rbind (estimate_queue_penalty_cost target planner_config 0) (\<lambda>queue.
     Inr ([(''total_estimated_cost'', PFloat (kv_cost kv + ed_cost dispatch + qp_cost queue)),
           (''kv_migration_cost'', PFloat (kv_cost kv)),
           (''expert_dispatch_cost'', PFloat (ed_cost dispatch)),
           (''queue_penalty_cost'', PFloat (qp_cost queue)),
           (''reusable_tokens'', PInt (kv_reusable_tokens kv)),
           (''reusable_context_blocks'', PInt (kv_reusable_context_blocks kv)),
           (''hot_expert_locality_ratio'', PFloat (ed_locality_ratio dispatch)),
           (''estimated_remote_routing_ratio'', PFloat (ed_estimated_remote_routing_ratio dispatch)),
           (''estimated_remote_routed_tokens'', PInt (ed_estimated_remote_routed_tokens dispatch)),
           (''moe_dispatch_observation_available'', PBool (ed_dispatch_observation_available dispatch)),
           (''moe_routed_tokens'', PInt (ed_routed_tokens dispatch)),
           (''moe_local_routed_tokens'', PInt (ed_local_routed_tokens dispatch)),
           (''moe_remote_routed_tokens'', PInt (ed_remote_routed_tokens dispatch)),
           (''moe_local_routing_ratio'', PFloat (ed_local_routing_ratio dispatch)),
           (''moe_remote_routing_ratio'', PFloat (ed_remote_routing_ratio dispatch)),
           (''moe_local_routed_tokens_by_expert'', of_counts (ed_local_routed_tokens_by_expert dispatch)),
           (''moe_remote_routed_tokens_by_expert'', of_counts (ed_remote_routed_tokens_by_expert dispatch)),
           (''moe_local_routed_tokens_by_layer'', of_counts (ed_local_routed_tokens_by_layer dispatch)),
           (''moe_remote_routed_tokens_by_layer'', of_counts (ed_remote_routed_tokens_by_layer dispatch)),
           (''queue_depth'', PInt (qp_queue_depth queue)),
           (''queue_pressure'', PFloat (qp_queue_pressure queue)),
           (''expert_locality_available'', PBool (ed_available dispatch)),
           (''route_histogram_source'', PStr (ed_route_histogram_source dispatch)),
           (''route_histogram_kind'', PStr (ed_route_histogram_kind dispatch))]
          @ placement_marker_dict (target_placement_marker target)))))"

definition build_candidate_component_costs ::
  "context_metadata list \<Rightarrow> migration_target list \<Rightarrow> dict
   \<Rightarrow> (string \<times> (string \<times> dict) list) list res" where
  "build_candidate_component_costs sources targets planner_config =
     rfold (\<lambda>source rows.
       let source_key = py_str (por (cm_request_id source) (PStr (cm_instance_id source))) in
       rbind (rfold (\<lambda>target row.
                rbind (component_cost_entry source target planner_config) (\<lambda>entry.
                Inr (AList.update (mt_instance_id target) entry row))) targets [])
         (\<lambda>row. Inr (AList.update source_key row rows))) sources []"

section \<open>The assignment: capacities, and a warm-up paid once per opened target\<close>

text \<open>
  \<open>solve\<close> decides the source at the head of the list; \<open>solve_targets\<close> is its loop over the
  targets, from index \<open>i\<close> on, with the best cost and choices so far. \<open>remaining\<close> are the
  capacities left, \<open>opened\<close> is the bit mask of targets that already paid their warm-up.
\<close>

function (sequential) solve ::
  "('s \<Rightarrow> 't \<Rightarrow> int \<Rightarrow> rat res) \<Rightarrow> ('t \<Rightarrow> rat) \<Rightarrow> rat \<Rightarrow> 't list \<Rightarrow> int list
   \<Rightarrow> 's list \<Rightarrow> int list \<Rightarrow> int \<Rightarrow> (rat \<times> int list) res"
  and solve_targets ::
  "('s \<Rightarrow> 't \<Rightarrow> int \<Rightarrow> rat res) \<Rightarrow> ('t \<Rightarrow> rat) \<Rightarrow> rat \<Rightarrow> 't list \<Rightarrow> int list
   \<Rightarrow> 's \<Rightarrow> 's list \<Rightarrow> int list \<Rightarrow> int \<Rightarrow> nat \<Rightarrow> 't list \<Rightarrow> rat \<times> int list \<Rightarrow> (rat \<times> int list) res"
where
  "solve est warmup penalty targets capacities [] remaining opened = Inr (0, [])"
| "solve est warmup penalty targets capacities (source # sources) remaining opened =
     rbind (solve est warmup penalty targets capacities sources remaining opened) (\<lambda>(c, choices).
       solve_targets est warmup penalty targets capacities source sources remaining opened 0 targets
         (c + penalty, -1 # choices))"
| "solve_targets est warmup penalty targets capacities source sources remaining opened i [] best =
     Inr best"
| "solve_targets est warmup penalty targets capacities source sources remaining opened i (t # ts) best =
     (if remaining ! i \<le> 0
      then solve_targets est warmup penalty targets capacities source sources remaining opened
             (Suc i) ts best
      else rbind (est source t (capacities ! i - remaining ! i)) (\<lambda>c.
        rbind (solve est warmup penalty targets capacities sources
                 (remaining[i := remaining ! i - 1]) (opened OR push_bit i 1))
          (\<lambda>(rest_cost, rest_choices).
           let c = (if opened AND push_bit i 1 = 0 then c + warmup t else c);
               total_cost = c + rest_cost
           in solve_targets est warmup penalty targets capacities source sources remaining opened
                (Suc i) ts
                (if total_cost < fst best then (total_cost, int i # rest_choices) else best))))"
  by pat_completeness auto
termination
  by (relation "measures
        [\<lambda>x. case x of Inl (_, _, _, _, _, ss, _) \<Rightarrow> 2 * length ss
              | Inr (_, _, _, _, _, _, ss, _) \<Rightarrow> 2 * length ss + 1,
         \<lambda>x. case x of Inl _ \<Rightarrow> 0 | Inr (_, _, _, _, _, _, _, _, _, _, ts, _) \<Rightarrow> length ts]") auto

definition migration_cost_only ::
  "dict \<Rightarrow> context_metadata \<Rightarrow> migration_target \<Rightarrow> int \<Rightarrow> rat res" where
  "migration_cost_only planner_config source target ahead =
     rbind (estimate_migration_cost source target planner_config False ahead) (\<lambda>(c, _, _). Inr c)"

definition fixed_warmup_assignment ::
  "context_metadata list \<Rightarrow> migration_target list \<Rightarrow> dict \<Rightarrow> rat \<Rightarrow> int list res" where
  "fixed_warmup_assignment sources targets planner_config unmatched_penalty =
     (let capacities = map mt_capacity targets in
      rbind (solve (migration_cost_only planner_config) mt_warmup_cost unmatched_penalty targets
               capacities sources capacities 0)
        (\<lambda>(_, choices). Inr choices))"

section \<open>Plans and the decision\<close>

text \<open>
  The twenty-seven \<open>target_*\<close> fields of \<open>MigrationPlan\<close> are the placement marker of the
  target, copied field by field in the source; here they are one field.
\<close>

record migration_plan =
  mp_request_id :: pyval
  mp_old_instance_id :: string
  mp_new_instance_id :: string
  mp_old_node_id :: string
  mp_new_node_id :: string
  mp_estimated_cost :: rat
  mp_kv_migration_cost :: rat
  mp_reusable_tokens :: int
  mp_reusable_context_blocks :: int
  mp_reason :: string
  mp_expert_locality_available :: bool
  mp_hot_expert_locality_ratio :: rat
  mp_estimated_remote_routing_ratio :: rat
  mp_estimated_remote_routed_tokens :: int
  mp_expert_dispatch_cost :: rat
  mp_moe_dispatch_observation_available :: bool
  mp_moe_routed_tokens :: int
  mp_moe_local_routed_tokens :: int
  mp_moe_remote_routed_tokens :: int
  mp_moe_local_routing_ratio :: rat
  mp_moe_remote_routing_ratio :: rat
  mp_moe_local_routed_tokens_by_expert :: counts
  mp_moe_remote_routed_tokens_by_expert :: counts
  mp_moe_local_routed_tokens_by_layer :: counts
  mp_moe_remote_routed_tokens_by_layer :: counts
  mp_moe_locality_definition :: string
  mp_moe_locality_granularity :: string
  mp_moe_remote_routing_definition :: string
  mp_moe_rank_locality_available :: bool
  mp_moe_physical_dispatch_traffic_available :: bool
  mp_marker :: placement_marker
  mp_queue_depth :: int
  mp_queue_pressure :: rat
  mp_queue_penalty_cost :: rat

definition MigrationPlan_to_dict :: "migration_plan \<Rightarrow> dict" where
  "MigrationPlan_to_dict self =
     [(''request_id'', mp_request_id self),
      (''old_instance_id'', PStr (mp_old_instance_id self)),
      (''new_instance_id'', PStr (mp_new_instance_id self)),
      (''old_node_id'', PStr (mp_old_node_id self)),
      (''new_node_id'', PStr (mp_new_node_id self)),
      (''estimated_cost'', PFloat (mp_estimated_cost self)),
      (''kv_migration_cost'', PFloat (mp_kv_migration_cost self)),
      (''reusable_tokens'', PInt (mp_reusable_tokens self)),
      (''reusable_context_blocks'', PInt (mp_reusable_context_blocks self)),
      (''reason'', PStr (mp_reason self)),
      (''expert_locality_available'', PBool (mp_expert_locality_available self)),
      (''hot_expert_locality_ratio'', PFloat (mp_hot_expert_locality_ratio self)),
      (''estimated_remote_routing_ratio'', PFloat (mp_estimated_remote_routing_ratio self)),
      (''estimated_remote_routed_tokens'', PInt (mp_estimated_remote_routed_tokens self)),
      (''expert_dispatch_cost'', PFloat (mp_expert_dispatch_cost self)),
      (''moe_dispatch_observation_available'', PBool (mp_moe_dispatch_observation_available self)),
      (''moe_routed_tokens'', PInt (mp_moe_routed_tokens self)),
      (''moe_local_routed_tokens'', PInt (mp_moe_local_routed_tokens self)),
      (''moe_remote_routed_tokens'', PInt (mp_moe_remote_routed_tokens self)),
      (''moe_local_routing_ratio'', PFloat (mp_moe_local_routing_ratio self)),
      (''moe_remote_routing_ratio'', PFloat (mp_moe_remote_routing_ratio self)),
      (''moe_local_routed_tokens_by_expert'', of_counts (mp_moe_local_routed_tokens_by_expert self)),
      (''moe_remote_routed_tokens_by_expert'', of_counts (mp_moe_remote_routed_tokens_by_expert self)),
      (''moe_local_routed_tokens_by_layer'', of_counts (mp_moe_local_routed_tokens_by_layer self)),
      (''moe_remote_routed_tokens_by_layer'', of_counts (mp_moe_remote_routed_tokens_by_layer self)),
      (''moe_locality_definition'', PStr (mp_moe_locality_definition self)),
      (''moe_locality_granularity'', PStr (mp_moe_locality_granularity self)),
      (''moe_remote_routing_definition'', PStr (mp_moe_remote_routing_definition self)),
      (''moe_rank_locality_available'', PBool (mp_moe_rank_locality_available self)),
      (''moe_physical_dispatch_traffic_available'', PBool (mp_moe_physical_dispatch_traffic_available self))]
     @ placement_marker_dict (mp_marker self)
     @ [(''queue_depth'', PInt (mp_queue_depth self)),
      (''queue_pressure'', PFloat (mp_queue_pressure self)),
      (''queue_penalty_cost'', PFloat (mp_queue_penalty_cost self))]"

definition make_plan ::
  "context_metadata \<Rightarrow> migration_target \<Rightarrow> rat \<Rightarrow> int \<Rightarrow> int \<Rightarrow> kv_migration
   \<Rightarrow> expert_dispatch \<Rightarrow> queue_penalty \<Rightarrow> migration_plan" where
  "make_plan source target estimated_cost reusable_tokens reusable_blocks kv dispatch queue =
     \<lparr>mp_request_id = cm_request_id source,
      mp_old_instance_id = cm_instance_id source,
      mp_new_instance_id = mt_instance_id target,
      mp_old_node_id = cm_node_id source,
      mp_new_node_id = mt_node_id target,
      mp_estimated_cost = estimated_cost,
      mp_kv_migration_cost = kv_cost kv,
      mp_reusable_tokens = reusable_tokens,
      mp_reusable_context_blocks = reusable_blocks,
      mp_reason = (if ed_available dispatch then ''kv_and_expert_locality'' else ''low_cost_mapping''),
      mp_expert_locality_available = ed_available dispatch,
      mp_hot_expert_locality_ratio = ed_locality_ratio dispatch,
      mp_estimated_remote_routing_ratio = ed_estimated_remote_routing_ratio dispatch,
      mp_estimated_remote_routed_tokens = ed_estimated_remote_routed_tokens dispatch,
      mp_expert_dispatch_cost = ed_cost dispatch,
      mp_moe_dispatch_observation_available = ed_dispatch_observation_available dispatch,
      mp_moe_routed_tokens = ed_routed_tokens dispatch,
      mp_moe_local_routed_tokens = ed_local_routed_tokens dispatch,
      mp_moe_remote_routed_tokens = ed_remote_routed_tokens dispatch,
      mp_moe_local_routing_ratio = ed_local_routing_ratio dispatch,
      mp_moe_remote_routing_ratio = ed_remote_routing_ratio dispatch,
      mp_moe_local_routed_tokens_by_expert = ed_local_routed_tokens_by_expert dispatch,
      mp_moe_remote_routed_tokens_by_expert = ed_remote_routed_tokens_by_expert dispatch,
      mp_moe_local_routed_tokens_by_layer = ed_local_routed_tokens_by_layer dispatch,
      mp_moe_remote_routed_tokens_by_layer = ed_remote_routed_tokens_by_layer dispatch,
      mp_moe_locality_definition = ed_locality_definition dispatch,
      mp_moe_locality_granularity = ed_locality_granularity dispatch,
      mp_moe_remote_routing_definition = ed_remote_routing_definition dispatch,
      mp_moe_rank_locality_available = ed_rank_locality_available dispatch,
      mp_moe_physical_dispatch_traffic_available = ed_physical_dispatch_traffic_available dispatch,
      mp_marker = target_placement_marker target,
      mp_queue_depth = qp_queue_depth queue,
      mp_queue_pressure = qp_queue_pressure queue,
      mp_queue_penalty_cost = qp_cost queue\<rparr>"

text \<open>
  The loop over the assignment: \<open>opened\<close> lists the targets that already have a request,
  \<open>assigned\<close> counts the requests of each target.
\<close>

fun build_plans ::
  "dict \<Rightarrow> migration_target list \<Rightarrow> (context_metadata \<times> int) list \<Rightarrow> int list \<Rightarrow> (int \<times> int) list
   \<Rightarrow> (migration_plan list \<times> dict list) res" where
  "build_plans planner_config targets [] opened assigned = Inr ([], [])"
| "build_plans planner_config targets ((source, slot) # rest) opened assigned =
     (if slot < 0 then
        rbind (build_plans planner_config targets rest opened assigned) (\<lambda>(plans, unassigned).
          Inr (plans, ContextMetadata_to_dict source # unassigned))
      else
        let target = targets ! nat slot;
            include_warmup = (slot \<notin> set opened);
            ahead = dget assigned slot 0
        in rbind (estimate_migration_cost source target planner_config include_warmup ahead)
             (\<lambda>(estimated_cost, reusable_tokens, reusable_blocks).
           rbind (estimate_expert_dispatch_cost source target planner_config) (\<lambda>dispatch.
           rbind (estimate_kv_migration_cost source target planner_config include_warmup) (\<lambda>kv.
           rbind (estimate_queue_penalty_cost target planner_config ahead) (\<lambda>queue.
           rbind (build_plans planner_config targets rest (slot # opened)
                    (AList.update slot (ahead + 1) assigned)) (\<lambda>(plans, unassigned).
           Inr (make_plan source target estimated_cost reusable_tokens reusable_blocks kv dispatch
                  queue # plans, unassigned)))))))"

record migration_decision =
  md_action :: string
  md_plans :: "migration_plan list"
  md_unassigned_contexts :: "dict list"
  md_total_estimated_cost :: rat
  md_total_reusable_tokens :: int
  md_total_context_tokens :: int
  md_total_reusable_context_blocks :: int
  md_total_context_blocks :: int
  md_reuse_ratio :: rat
  md_cost_matrix :: "rat list list"
  md_total_kv_migration_cost :: rat
  md_moe_route_histogram_available_count :: int
  md_moe_target_placement_available_count :: int
  md_total_estimated_remote_routed_tokens :: int
  md_total_expert_dispatch_cost :: rat
  md_moe_dispatch_observation_available_count :: int
  md_total_moe_routed_tokens :: int
  md_total_moe_local_routed_tokens :: int
  md_total_moe_remote_routed_tokens :: int
  md_avg_moe_remote_routing_ratio :: rat
  md_moe_locality_definition :: string
  md_moe_locality_granularity :: string
  md_moe_remote_routing_definition :: string
  md_moe_rank_locality_available_count :: int
  md_moe_physical_dispatch_traffic_available_count :: int
  md_total_queue_penalty_cost :: rat
  md_avg_queue_pressure :: rat
  md_max_queue_depth :: int
  md_avg_hot_expert_locality_ratio :: rat
  md_avg_estimated_remote_routing_ratio :: rat
  md_moe_route_histogram_source :: string
  md_moe_route_histogram_kind :: string

definition MigrationDecision_to_dict :: "migration_decision \<Rightarrow> dict" where
  "MigrationDecision_to_dict self =
     [(''action'', PStr (md_action self)),
      (''plans'', PList (map (\<lambda>p. PDict (MigrationPlan_to_dict p)) (md_plans self))),
      (''unassigned_contexts'', PList (map PDict (md_unassigned_contexts self))),
      (''total_estimated_cost'', PFloat (md_total_estimated_cost self)),
      (''total_reusable_tokens'', PInt (md_total_reusable_tokens self)),
      (''total_context_tokens'', PInt (md_total_context_tokens self)),
      (''total_reusable_context_blocks'', PInt (md_total_reusable_context_blocks self)),
      (''total_context_blocks'', PInt (md_total_context_blocks self)),
      (''reuse_ratio'', PFloat (md_reuse_ratio self)),
      (''cost_matrix'', PList (map (\<lambda>row. PList (map PFloat row)) (md_cost_matrix self))),
      (''total_kv_migration_cost'', PFloat (md_total_kv_migration_cost self)),
      (''moe_route_histogram_available_count'', PInt (md_moe_route_histogram_available_count self)),
      (''moe_target_placement_available_count'', PInt (md_moe_target_placement_available_count self)),
      (''total_estimated_remote_routed_tokens'', PInt (md_total_estimated_remote_routed_tokens self)),
      (''total_expert_dispatch_cost'', PFloat (md_total_expert_dispatch_cost self)),
      (''moe_dispatch_observation_available_count'',
        PInt (md_moe_dispatch_observation_available_count self)),
      (''total_moe_routed_tokens'', PInt (md_total_moe_routed_tokens self)),
      (''total_moe_local_routed_tokens'', PInt (md_total_moe_local_routed_tokens self)),
      (''total_moe_remote_routed_tokens'', PInt (md_total_moe_remote_routed_tokens self)),
      (''avg_moe_remote_routing_ratio'', PFloat (md_avg_moe_remote_routing_ratio self)),
      (''moe_locality_definition'', PStr (md_moe_locality_definition self)),
      (''moe_locality_granularity'', PStr (md_moe_locality_granularity self)),
      (''moe_remote_routing_definition'', PStr (md_moe_remote_routing_definition self)),
      (''moe_rank_locality_available_count'', PInt (md_moe_rank_locality_available_count self)),
      (''moe_physical_dispatch_traffic_available_count'',
        PInt (md_moe_physical_dispatch_traffic_available_count self)),
      (''total_queue_penalty_cost'', PFloat (md_total_queue_penalty_cost self)),
      (''avg_queue_pressure'', PFloat (md_avg_queue_pressure self)),
      (''max_queue_depth'', PInt (md_max_queue_depth self)),
      (''avg_hot_expert_locality_ratio'', PFloat (md_avg_hot_expert_locality_ratio self)),
      (''avg_estimated_remote_routing_ratio'', PFloat (md_avg_estimated_remote_routing_ratio self)),
      (''moe_route_histogram_source'', PStr (md_moe_route_histogram_source self)),
      (''moe_route_histogram_kind'', PStr (md_moe_route_histogram_kind self))]"

definition mean :: "rat list \<Rightarrow> rat" where
  "mean xs = (if xs = [] then 0 else sum_list xs / of_nat (length xs))"

text \<open>\<open>",".join(sorted(set(names))) or "unavailable"\<close>\<close>

definition joined_names :: "string list \<Rightarrow> string" where
  "joined_names names =
     (let j = py_join '','' (filter (\<lambda>n. n \<noteq> '''') (sorted_set names))
      in if j = '''' then ''unavailable'' else j)"

definition named :: "string list \<Rightarrow> string list" where
  "named names = filter (\<lambda>n. n \<noteq> '''' \<and> n \<noteq> ''unavailable'') names"

text \<open>The aggregation of the plans, lines 1520 to 1720 of the source.\<close>

definition summarize_decision ::
  "context_metadata list \<Rightarrow> migration_target list \<Rightarrow> rat list list \<Rightarrow> migration_plan list
   \<Rightarrow> dict list \<Rightarrow> context_metadata list \<Rightarrow> migration_decision" where
  "summarize_decision sources targets cost_matrix plans unassigned observed =
     (let total_context_tokens = sum_list (map cm_num_tokens sources);
          total_context_blocks = sum_list (map cm_context_blocks sources);
          total_reusable_tokens = sum_list (map mp_reusable_tokens plans);
          total_reusable_blocks = sum_list (map mp_reusable_context_blocks plans);
          reuse_denominator =
            (if total_context_blocks \<noteq> 0 then total_context_blocks else total_context_tokens);
          reuse_numerator =
            (if total_context_blocks \<noteq> 0 then total_reusable_blocks else total_reusable_tokens);
          local_plans = filter mp_expert_locality_available plans;
          route = (\<lambda>key. joined_names
            (map (\<lambda>s. py_str (por (metadata_value (cm_metadata s) [key]) (PStr ''''))) observed))
      in \<lparr>md_action = (if sources = [] then ''no_context''
            else if plans \<noteq> [] then ''migrate'' else ''no_target_capacity''),
          md_plans = plans,
          md_unassigned_contexts = unassigned,
          md_total_estimated_cost = sum_list (map mp_estimated_cost plans),
          md_total_reusable_tokens = total_reusable_tokens,
          md_total_context_tokens = total_context_tokens,
          md_total_reusable_context_blocks = total_reusable_blocks,
          md_total_context_blocks = total_context_blocks,
          md_reuse_ratio = (if reuse_denominator \<noteq> 0
            then of_int reuse_numerator / of_int reuse_denominator else 0),
          md_cost_matrix = cost_matrix,
          md_total_kv_migration_cost = sum_list (map mp_kv_migration_cost plans),
          md_moe_route_histogram_available_count = int (length observed),
          md_moe_target_placement_available_count =
            int (length (filter (\<lambda>t. target_expert_placement_keys t \<noteq> []) targets)),
          md_total_estimated_remote_routed_tokens =
            sum_list (map mp_estimated_remote_routed_tokens plans),
          md_total_expert_dispatch_cost = sum_list (map mp_expert_dispatch_cost plans),
          md_moe_dispatch_observation_available_count =
            int (length (filter mp_moe_dispatch_observation_available plans)),
          md_total_moe_routed_tokens = sum_list (map mp_moe_routed_tokens plans),
          md_total_moe_local_routed_tokens = sum_list (map mp_moe_local_routed_tokens plans),
          md_total_moe_remote_routed_tokens = sum_list (map mp_moe_remote_routed_tokens plans),
          md_avg_moe_remote_routing_ratio = mean
            (map mp_moe_remote_routing_ratio (filter mp_moe_dispatch_observation_available plans)),
          md_moe_locality_definition = joined_names (named (map mp_moe_locality_definition plans)),
          md_moe_locality_granularity = joined_names (named (map mp_moe_locality_granularity plans)),
          md_moe_remote_routing_definition =
            joined_names (named (map mp_moe_remote_routing_definition plans)),
          md_moe_rank_locality_available_count =
            int (length (filter mp_moe_rank_locality_available plans)),
          md_moe_physical_dispatch_traffic_available_count =
            int (length (filter mp_moe_physical_dispatch_traffic_available plans)),
          md_total_queue_penalty_cost = sum_list (map mp_queue_penalty_cost plans),
          md_avg_queue_pressure = mean (map mp_queue_pressure plans),
          md_max_queue_depth =
            (if plans = [] then 0 else Max (set (map mp_queue_depth plans))),
          md_avg_hot_expert_locality_ratio = mean (map mp_hot_expert_locality_ratio local_plans),
          md_avg_estimated_remote_routing_ratio =
            mean (map mp_estimated_remote_routing_ratio local_plans),
          md_moe_route_histogram_source = route ''moe_route_histogram_source'',
          md_moe_route_histogram_kind = route ''moe_route_histogram_kind''\<rparr>)"

text \<open>The sources for which \<open>source_has_available_expert_route_histogram\<close> holds.\<close>

definition observed_sources :: "context_metadata list \<Rightarrow> context_metadata list res" where
  "observed_sources sources =
     rbind (rmap source_has_available_expert_route_histogram sources) (\<lambda>flags.
       Inr (map fst (filter snd (zip sources flags))))"

definition plan_low_cost_migration ::
  "context_metadata list \<Rightarrow> migration_target list \<Rightarrow> dict \<Rightarrow> migration_decision res" where
  "plan_low_cost_migration sources targets planner_config =
     rbind (build_cost_matrix sources targets planner_config False) (\<lambda>(cost_matrix, _).
     rbind (positive_float planner_config ''unmatched_penalty'' 1000000) (\<lambda>unmatched_penalty.
     rbind (fixed_warmup_assignment sources targets planner_config unmatched_penalty)
       (\<lambda>assignments.
     rbind (build_plans planner_config targets (zip sources assignments) [] [])
       (\<lambda>(plans, unassigned).
     rbind (observed_sources sources) (\<lambda>observed.
     Inr (summarize_decision sources targets cost_matrix plans unassigned observed))))))"

definition plan_low_cost_migration_from_dict :: "dict \<Rightarrow> migration_decision res" where
  "plan_low_cost_migration_from_dict payload =
     rbind (rbind (py_iter (dget payload ''sources'' (PList [])))
              (rmap (\<lambda>row. rbind (py_items row) ContextMetadata_from_dict))) (\<lambda>sources.
     rbind (rbind (py_iter (dget payload ''targets'' (PList [])))
              (rmap (\<lambda>row. rbind (py_items row) MigrationTarget_from_dict))) (\<lambda>targets.
     rbind (py_items (por (dget payload ''planner_config'' (PDict [])) (PDict [])))
       (plan_low_cost_migration sources targets)))"

end
