(* ===== verification/Context_Migration_Props.thy ===== *)
theory Context_Migration_Props
  imports Context_Migration
begin

text \<open>
  What the migration planner guarantees. The first part follows the tokens through the
  histograms, the second shows that the dynamic programme is optimal against a cost that knows
  nothing of capacities left and bit masks, the third that the plans the planner builds record
  that assignment; the properties are at the end.
\<close>

section \<open>Histograms keep their tokens\<close>

definition positive_counts :: "counts \<Rightarrow> bool" where
  "positive_counts h = (\<forall>(k, n) \<in> set h. 0 < n)"

lemma positive_counts_simps [simp]:
  "positive_counts []"
  "positive_counts (p # h) \<longleftrightarrow> 0 < snd p \<and> positive_counts h"
  by (auto simp: positive_counts_def)

lemma total_tokens_simps [simp]:
  "total_tokens [] = 0"
  "total_tokens (p # h) = snd p + total_tokens h"
  by (simp_all add: total_tokens_def)

lemma total_tokens_add [simp]: "total_tokens (add_tokens k n h) = total_tokens h + n"
proof (induction h)
  case Nil
  then show ?case by (simp add: add_tokens_def total_tokens_def dget_def)
next
  case (Cons p h)
  then show ?case
    by (cases p) (auto simp: add_tokens_def total_tokens_def dget_def split: option.splits)
qed

lemma set_update_subset: "set (AList.update k v d) \<subseteq> insert (k, v) (set d)"
  by (induction d) auto

lemma dget_counts_nonneg: "positive_counts h \<Longrightarrow> 0 \<le> dget h k 0"
  by (auto simp: positive_counts_def dget_def split: option.splits dest!: map_of_SomeD)

lemma add_tokens_positive: "positive_counts h \<Longrightarrow> 0 < n \<Longrightarrow> positive_counts (add_tokens k n h)"
  using set_update_subset [of k "dget h k 0 + n" h] dget_counts_nonneg [of h k]
  by (fastforce simp: positive_counts_def add_tokens_def)

lemma total_tokens_nonneg: "positive_counts h \<Longrightarrow> 0 \<le> total_tokens h"
  by (induction h) (auto simp: positive_counts_def total_tokens_def)

lemma total_tokens_pos: "positive_counts h \<Longrightarrow> h \<noteq> [] \<Longrightarrow> 0 < total_tokens h"
  using total_tokens_nonneg [of "tl h"]
  by (cases h) (auto simp: positive_counts_def total_tokens_def)

lemma as_non_negative_int_nonneg: "as_non_negative_int v = Some i \<Longrightarrow> 0 \<le> i"
  by (auto simp: as_non_negative_int_def split: sum.splits)

lemma visit_count_positive: "positive_counts h \<Longrightarrow> positive_counts (visit_count n parts h)"
  by (simp add: visit_count_def Let_def add_tokens_positive)

lemma visit_expert_entry_positive: "positive_counts h \<Longrightarrow> positive_counts (visit_expert_entry d h)"
  by (auto simp: visit_expert_entry_def split: option.splits
      dest: as_non_negative_int_nonneg intro!: add_tokens_positive)

lemma visit_positive:
  shows "positive_counts h \<Longrightarrow> positive_counts (visit node parts h)"
    and "positive_counts h \<Longrightarrow> positive_counts (visit_items d parts h)"
    and "positive_counts h \<Longrightarrow> positive_counts (visit_seq xs i parts h)"
proof (induction node parts h and d parts h and xs i parts h rule: visit_visit_items_visit_seq.induct)
  case (1 node parts h)
  then show ?case
    by (subst visit.simps)
      (auto simp: visit_count_positive visit_expert_entry_positive split: option.splits pyval.splits)
qed auto

lemma flatten_positive: "flatten_expert_histogram v r = Inr h \<Longrightarrow> positive_counts h"
  by (auto simp: flatten_expert_histogram_def visit_positive(1) split: pyval.splits if_splits)

lemma route_histogram_positive: "source_expert_route_histogram s = Inr h \<Longrightarrow> positive_counts h"
  unfolding source_expert_route_histogram_def by (rule flatten_positive)

definition split_inv :: "int \<Rightarrow> counts \<times> counts \<Rightarrow> bool" where
  "split_inv n acc = (positive_counts (fst acc) \<and> positive_counts (snd acc)
     \<and> total_tokens (fst acc) + total_tokens (snd acc) = n)"

lemma split_step_inv: "split_inv n acc \<Longrightarrow> 0 < snd p \<Longrightarrow> split_inv (n + snd p) (split_step ks p acc)"
  by (auto simp: split_inv_def split_step_def Let_def add_tokens_positive)

lemma fold_split_inv:
  "positive_counts h \<Longrightarrow> split_inv n acc \<Longrightarrow>
   split_inv (n + total_tokens h) (fold (split_step ks) h acc)"
proof (induction h arbitrary: n acc)
  case Nil
  then show ?case by simp
next
  case (Cons p h)
  then have "split_inv (n + snd p) (split_step ks p acc)" by (simp add: split_step_inv)
  from Cons.IH [OF _ this] Cons.prems(1) show ?case by (simp add: add.assoc)
qed

lemma split_histogram_inv:
  assumes "positive_counts h"
  shows "split_inv (total_tokens h) (split_histogram ks h)"
  using fold_split_inv [OF assms, of 0 "([], [])" ks]
  by (simp add: split_histogram_def split_inv_def)

lemma total_tokens_by_layer: "total_tokens (routed_tokens_by_layer h) = total_tokens h"
proof -
  have "total_tokens (fold (\<lambda>(k, n). add_tokens (expert_layer_key k) n) h acc)
      = total_tokens h + total_tokens acc" for acc
    by (induction h arbitrary: acc) auto
  from this [of "[]"] show ?thesis by (simp add: routed_tokens_by_layer_def)
qed

section \<open>The assignment is optimal\<close>

unbundle bit_operations_syntax

text \<open>
  The cost of a list of choices, stated without capacities and bit masks: a source left out
  costs the penalty, any other one costs its estimate with the number of earlier sources on the
  same target ahead of it, and the first source on a target also pays the warm-up. \<open>None\<close> is
  an estimate that raises.
\<close>

fun assignment_cost ::
  "('s \<Rightarrow> 't \<Rightarrow> int \<Rightarrow> rat res) \<Rightarrow> ('t \<Rightarrow> rat) \<Rightarrow> rat \<Rightarrow> 't list \<Rightarrow> int list \<Rightarrow> 's list \<Rightarrow> int list
   \<Rightarrow> rat option" where
  "assignment_cost est warmup penalty targets earlier [] choices = Some 0"
| "assignment_cost est warmup penalty targets earlier (s # ss) [] = None"
| "assignment_cost est warmup penalty targets earlier (s # ss) (j # js) =
     (if j < 0 then map_option (\<lambda>r. r + penalty)
        (assignment_cost est warmup penalty targets earlier ss js)
      else case est s (targets ! nat j) (int (count_list earlier j)) of
          Inl _ \<Rightarrow> None
        | Inr c \<Rightarrow> map_option
            (\<lambda>r. c + (if j \<in> set earlier then 0 else warmup (targets ! nat j)) + r)
            (assignment_cost est warmup penalty targets (j # earlier) ss js))"

fun feasible :: "int list \<Rightarrow> nat \<Rightarrow> int list \<Rightarrow> bool" where
  "feasible remaining 0 choices = (choices = [])"
| "feasible remaining (Suc n) [] = False"
| "feasible remaining (Suc n) (j # js) =
     (if j = -1 then feasible remaining n js
      else 0 \<le> j \<and> nat j < length remaining \<and> 0 < remaining ! nat j
        \<and> feasible (remaining[nat j := remaining ! nat j - 1]) n js)"

definition tracks :: "int list \<Rightarrow> int list \<Rightarrow> int list \<Rightarrow> int \<Rightarrow> bool" where
  "tracks capacities earlier remaining opened =
     (length remaining = length capacities
      \<and> (\<forall>i < length capacities.
           remaining ! i = capacities ! i - int (count_list earlier (int i))
           \<and> (bit opened i \<longleftrightarrow> int i \<in> set earlier)))"

lemma mask_bit: "(opened AND push_bit i 1 = 0) = (\<not> bit (opened :: int) i)"
  by (simp add: and_exp_eq_0_iff_not_bit)

lemma tracks_start: "tracks capacities [] capacities 0"
  by (simp add: tracks_def)

lemma tracks_step:
  assumes "tracks capacities earlier remaining opened" and "i < length capacities"
  shows "tracks capacities (int i # earlier) (remaining[i := remaining ! i - 1])
           (opened OR push_bit i 1)"
  using assms
  by (auto simp: tracks_def nth_list_update bit_or_iff bit_push_bit_iff bit_exp_iff)

definition best_among ::
  "('s \<Rightarrow> 't \<Rightarrow> int \<Rightarrow> rat res) \<Rightarrow> ('t \<Rightarrow> rat) \<Rightarrow> rat \<Rightarrow> 't list \<Rightarrow> int list \<Rightarrow> 's list \<Rightarrow> int list
   \<Rightarrow> nat \<Rightarrow> rat \<times> int list \<Rightarrow> bool" where
  "best_among est warmup penalty targets earlier sources remaining i best =
     (feasible remaining (length sources) (snd best)
      \<and> assignment_cost est warmup penalty targets earlier sources (snd best) = Some (fst best)
      \<and> (\<forall>ch. feasible remaining (length sources) ch \<and> (ch \<noteq> [] \<longrightarrow> hd ch < int i) \<longrightarrow>
           (\<exists>c. assignment_cost est warmup penalty targets earlier sources ch = Some c
                \<and> fst best \<le> c)))"

lemma feasible_hd: "feasible remaining n ch \<Longrightarrow> ch \<noteq> [] \<Longrightarrow> hd ch < int (length remaining)"
  by (cases "(remaining, n, ch)" rule: feasible.cases) (auto split: if_splits)

text \<open>The bound on the first choice does not matter once it covers every target.\<close>

lemma best_among_all:
  assumes "best_among est warmup penalty targets earlier sources remaining (length remaining) best"
    and "feasible remaining (length sources) ch"
  shows "\<exists>c. assignment_cost est warmup penalty targets earlier sources ch = Some c \<and> fst best \<le> c"
  using assms feasible_hd [OF assms(2)] by (auto simp: best_among_def)

lemma best_among_skip:
  assumes "best_among est warmup penalty targets earlier sources remaining (length remaining) (c, ch)"
  shows "best_among est warmup penalty targets earlier (source # sources) remaining 0
           (c + penalty, -1 # ch)"
  unfolding best_among_def
proof (intro conjI allI impI)
  show "feasible remaining (length (source # sources)) (snd (c + penalty, -1 # ch))"
    using assms by (simp add: best_among_def)
  show "assignment_cost est warmup penalty targets earlier (source # sources)
      (snd (c + penalty, -1 # ch)) = Some (fst (c + penalty, -1 # ch))"
    using assms by (simp add: best_among_def)
next
  fix ch'
  assume "feasible remaining (length (source # sources)) ch' \<and> (ch' \<noteq> [] \<longrightarrow> hd ch' < int 0)"
  then obtain js where ch': "ch' = -1 # js" and js: "feasible remaining (length sources) js"
    by (cases ch') (auto split: if_splits)
  from best_among_all [OF assms js] show "\<exists>c'. assignment_cost est warmup penalty targets earlier
      (source # sources) ch' = Some c' \<and> fst (c + penalty, -1 # ch) \<le> c'"
    by (auto simp: ch')
qed

text \<open>Target \<open>i\<close> has no capacity left: nothing new to compare with.\<close>

lemma best_among_full:
  assumes "best_among est warmup penalty targets earlier (source # sources) remaining i best"
    and "remaining ! i \<le> 0"
  shows "best_among est warmup penalty targets earlier (source # sources) remaining (Suc i) best"
  unfolding best_among_def
proof (intro conjI allI impI)
  fix ch
  assume ch: "feasible remaining (length (source # sources)) ch \<and> (ch \<noteq> [] \<longrightarrow> hd ch < int (Suc i))"
  then have "ch \<noteq> [] \<longrightarrow> hd ch \<noteq> int i"
    using assms(2) by (cases ch) (auto split: if_splits)
  with ch have "ch \<noteq> [] \<longrightarrow> hd ch < int i" by auto
  with ch assms(1) show "\<exists>c. assignment_cost est warmup penalty targets earlier (source # sources) ch
      = Some c \<and> fst best \<le> c"
    by (simp add: best_among_def)
qed (use assms(1) in \<open>simp_all add: best_among_def\<close>)

text \<open>Target \<open>i\<close> is tried: the better of its best completion and the best so far wins.\<close>

lemma best_among_try:
  fixes c rc :: rat
  assumes best: "best_among est warmup penalty targets earlier (source # sources) remaining i best"
    and i: "i < length remaining" "0 < remaining ! i"
    and est: "est source (targets ! i) (int (count_list earlier (int i))) = Inr c"
    and rest: "best_among est warmup penalty targets (int i # earlier) sources
       (remaining[i := remaining ! i - 1]) (length remaining) (rc, rch)"
    and tc: "tc = c + (if int i \<in> set earlier then 0 else warmup (targets ! i)) + rc"
  shows "best_among est warmup penalty targets earlier (source # sources) remaining (Suc i)
           (if tc < fst best then (tc, int i # rch) else best)"
    (is "best_among _ _ _ _ _ _ _ _ ?new")
proof -
  have new: "feasible remaining (length (source # sources)) (int i # rch)"
    "assignment_cost est warmup penalty targets earlier (source # sources) (int i # rch) = Some tc"
    using rest i est tc by (simp_all add: best_among_def)
  have here: "\<exists>c'. assignment_cost est warmup penalty targets earlier (source # sources) (int i # js)
      = Some c' \<and> tc \<le> c'"
    if "feasible (remaining[i := remaining ! i - 1]) (length sources) js" for js
    using best_among_all [of _ _ _ _ _ _ "remaining[i := remaining ! i - 1]", simplified, OF rest that]
      est tc by auto
  have "\<exists>c'. assignment_cost est warmup penalty targets earlier (source # sources) ch = Some c'
      \<and> fst ?new \<le> c'"
    if ch: "feasible remaining (length (source # sources)) ch" "ch \<noteq> [] \<longrightarrow> hd ch < int (Suc i)" for ch
  proof (cases "ch \<noteq> [] \<and> hd ch = int i")
    case True
    then obtain js where js: "ch = int i # js" by (cases ch) auto
    with ch(1) i have "feasible (remaining[i := remaining ! i - 1]) (length sources) js" by simp
    from here [OF this] show ?thesis by (fastforce simp: js)
  next
    case False
    with ch have "ch \<noteq> [] \<longrightarrow> hd ch < int i" by auto
    with ch(1) best show ?thesis by (fastforce simp: best_among_def)
  qed
  with new best show ?thesis by (auto simp: best_among_def)
qed

lemma solve_best:
  fixes est :: "'s \<Rightarrow> 't \<Rightarrow> int \<Rightarrow> rat res"
  shows "solve est warmup penalty targets capacities sources remaining opened = Inr b \<Longrightarrow>
      tracks capacities earlier remaining opened \<Longrightarrow> length capacities = length targets \<Longrightarrow>
      best_among est warmup penalty targets earlier sources remaining (length targets) b"
    and "solve_targets est warmup penalty targets capacities source sources remaining opened i ts best
        = Inr b \<Longrightarrow>
      tracks capacities earlier remaining opened \<Longrightarrow> length capacities = length targets \<Longrightarrow>
      ts = drop i targets \<Longrightarrow>
      best_among est warmup penalty targets earlier (source # sources) remaining i best \<Longrightarrow>
      best_among est warmup penalty targets earlier (source # sources) remaining (length targets) b"
proof (induction est warmup penalty targets capacities sources remaining opened
    and est warmup penalty targets capacities source sources remaining opened i ts best
    arbitrary: b earlier and b earlier rule: solve_solve_targets.induct)
  case (1 est warmup penalty targets capacities remaining opened)
  then show ?case by (auto simp: best_among_def)
next
  case (2 est warmup penalty targets capacities source sources remaining opened)
  from "2.prems"(1) obtain c choices where
    rest: "solve est warmup penalty targets capacities sources remaining opened = Inr (c, choices)"
    and loop: "solve_targets est warmup penalty targets capacities source sources remaining opened 0
       targets (c + penalty, -1 # choices) = Inr b"
    by auto
  have len: "length remaining = length targets"
    using "2.prems"(2,3) by (simp add: tracks_def)
  have "best_among est warmup penalty targets earlier sources remaining (length targets) (c, choices)"
    using "2.IH"(1) [OF rest "2.prems"(2,3)] .
  from best_among_skip [OF this [folded len]]
  have "best_among est warmup penalty targets earlier (source # sources) remaining 0
      (c + penalty, -1 # choices)" .
  from "2.IH"(2) [OF rest refl loop "2.prems"(2,3) _ this] show ?case by simp
next
  case (3 est warmup penalty targets capacities source sources remaining opened i best)
  then show ?case by (auto simp: best_among_def)
next
  case (4 est warmup penalty targets capacities source sources remaining opened i t ts best)
  have i: "i < length targets"
    using "4.prems"(4) by (metis drop_all list.distinct(1) not_le)
  have "t # ts = targets ! i # drop (Suc i) targets"
    using "4.prems"(4) Cons_nth_drop_Suc [OF i] by simp
  then have t: "t = targets ! i" and ts: "ts = drop (Suc i) targets" by simp_all
  note tr = "4.prems"(2) and len = "4.prems"(3)
  show ?case
  proof (cases "remaining ! i \<le> 0")
    case True
    with "4.prems"(1) have "solve_targets est warmup penalty targets capacities source sources
        remaining opened (Suc i) ts best = Inr b" by simp
    from "4.IH"(1) [OF True this tr len ts best_among_full [OF "4.prems"(5) True]] show ?thesis .
  next
    case False
    let ?rem = "remaining[i := remaining ! i - 1]" and ?op = "opened OR push_bit i 1"
    from "4.prems"(1) False obtain c rc rch where
      c: "est source t (capacities ! i - remaining ! i) = Inr c"
      and rest: "solve est warmup penalty targets capacities sources ?rem ?op = Inr (rc, rch)"
      and loop: "solve_targets est warmup penalty targets capacities source sources remaining opened
         (Suc i) ts
         (let c = (if opened AND push_bit i 1 = 0 then c + warmup t else c); total = c + rc
          in if total < fst best then (total, int i # rch) else best) = Inr b"
      by (auto simp: Let_def)
    have ahead: "capacities ! i - remaining ! i = int (count_list earlier (int i))"
      and open_i: "(opened AND 2 ^ i = 0) = (int i \<notin> set earlier)"
      and remlen: "length remaining = length targets"
      using tr i len by (simp_all add: tracks_def and_exp_eq_0_iff_not_bit)
    have "best_among est warmup penalty targets (int i # earlier) sources ?rem (length targets) (rc, rch)"
      using "4.IH"(2) [OF False c rest tracks_step [OF tr] len] i len by simp
    moreover have "(if opened AND push_bit i 1 = 0 then c + warmup t else c) + rc
        = c + (if int i \<in> set earlier then 0 else warmup (targets ! i)) + rc"
      by (simp add: open_i t)
    moreover have "est source (targets ! i) (int (count_list earlier (int i))) = Inr c"
      using c by (simp add: ahead t)
    ultimately have "best_among est warmup penalty targets earlier (source # sources) remaining (Suc i)
       (let c = (if opened AND push_bit i 1 = 0 then c + warmup t else c); total = c + rc
        in if total < fst best then (total, int i # rch) else best)"
      unfolding Let_def using best_among_try [OF "4.prems"(5)] i False remlen by simp
    from "4.IH"(3) [OF False c rest refl refl refl loop [unfolded Let_def] tr len ts this [unfolded Let_def]]
    show ?thesis .
  qed
qed

text \<open>The same feasibility, counted: no target gets more sources than it has capacity.\<close>

definition within_capacities :: "int list \<Rightarrow> nat \<Rightarrow> int list \<Rightarrow> bool" where
  "within_capacities capacities n choices =
     (length choices = n
      \<and> (\<forall>j \<in> set choices. j = -1 \<or> (0 \<le> j \<and> j < int (length capacities)))
      \<and> (\<forall>i < length capacities. int (count_list choices (int i)) \<le> max 0 (capacities ! i)))"

lemma within_capacities_skip:
  "within_capacities rem (Suc n) (-1 # js) = within_capacities rem n js"
  by (auto simp: within_capacities_def)

lemma within_capacities_take:
  assumes "i < length rem"
  shows "within_capacities rem (Suc n) (int i # js) \<longleftrightarrow>
     0 < rem ! i \<and> within_capacities (rem[i := rem ! i - 1]) n js"
proof -
  have "(\<forall>k < length rem. int (count_list (int i # js) (int k)) \<le> max 0 (rem ! k)) \<longleftrightarrow>
      0 < rem ! i \<and> (\<forall>k < length rem. int (count_list js (int k))
        \<le> max 0 (rem[i := rem ! i - 1] ! k))"
    using assms by (auto simp: nth_list_update)
  with assms show ?thesis by (auto simp: within_capacities_def)
qed

lemma feasible_within: "feasible rem n ch = within_capacities rem n ch"
proof (induction n arbitrary: rem ch)
  case 0
  then show ?case by (auto simp: within_capacities_def)
next
  case (Suc n)
  show ?case
  proof (cases ch)
    case Nil
    then show ?thesis by (simp add: within_capacities_def)
  next
    case (Cons j js)
    show ?thesis
    proof (cases "0 \<le> j \<and> nat j < length rem")
      case True
      then obtain i where "j = int i" "i < length rem" by (metis nat_0_le)
      with Suc.IH show ?thesis by (simp add: Cons within_capacities_take)
    next
      case False
      with Suc.IH show ?thesis
        by (auto simp: Cons within_capacities_skip) (auto simp: within_capacities_def)
    qed
  qed
qed

lemma solve_optimal:
  assumes "solve est warmup penalty targets capacities sources capacities 0 = Inr (c, choices)"
    and "length capacities = length targets"
  shows "within_capacities capacities (length sources) choices"
    and "assignment_cost est warmup penalty targets [] sources choices = Some c"
    and "within_capacities capacities (length sources) other \<Longrightarrow>
       \<exists>c'. assignment_cost est warmup penalty targets [] sources other = Some c' \<and> c \<le> c'"
proof -
  note best = solve_best(1) [OF assms(1) tracks_start assms(2)]
  then show "within_capacities capacities (length sources) choices"
    and "assignment_cost est warmup penalty targets [] sources choices = Some c"
    by (simp_all add: best_among_def feasible_within)
  show "\<exists>c'. assignment_cost est warmup penalty targets [] sources other = Some c' \<and> c \<le> c'"
    if "within_capacities capacities (length sources) other"
    using best_among_all [OF best [folded assms(2)]] that by (simp add: feasible_within)
qed

lemma estimate_migration_cost_warmup:
  "estimate_migration_cost s t cfg True n =
     rbind (estimate_migration_cost s t cfg False n) (\<lambda>(c, a, b). Inr (c + mt_warmup_cost t, a, b))"
proof -
  have "estimate_kv_migration_cost s t cfg True =
      rbind (estimate_kv_migration_cost s t cfg False) (\<lambda>kv.
        Inr (kv\<lparr>kv_cost := kv_cost kv + mt_warmup_cost t, kv_warmup_cost := mt_warmup_cost t\<rparr>))"
    by (simp add: estimate_kv_migration_cost_def res_simps Let_def case_prod_unfold algebra_simps
        cong: rbind_cong)
  then show ?thesis
    by (simp add: estimate_migration_cost_def res_simps algebra_simps cong: rbind_cong)
qed

lemma migration_cost_only_eq:
  "estimate_migration_cost s t cfg False n = Inr (c, a, b) \<Longrightarrow> migration_cost_only cfg s t n = Inr c"
  by (simp add: migration_cost_only_def)

text \<open>
  What the loop over the assignment keeps: \<open>opened\<close> holds the targets chosen so far and
  \<open>assigned\<close> counts how often each was chosen.
\<close>

definition books :: "int list \<Rightarrow> int list \<Rightarrow> (int \<times> int) list \<Rightarrow> bool" where
  "books earlier opened assigned =
     (set opened = set earlier \<and> (\<forall>j. dget assigned j 0 = int (count_list earlier j)))"

lemma books_start: "books [] [] []"
  by (simp add: books_def dget_def)

lemma books_step:
  "books earlier opened assigned \<Longrightarrow>
   books (j # earlier) (j # opened) (AList.update j (dget assigned j 0 + 1) assigned)"
  by (auto simp: books_def dict_simps)

lemma build_plans_cost:
  assumes "build_plans cfg targets (zip sources choices) opened assigned = Inr (plans, unassigned)"
    and "length choices = length sources" and "books earlier opened assigned"
  shows "assignment_cost (migration_cost_only cfg) mt_warmup_cost penalty targets earlier sources choices
     = Some (sum_list (map mp_estimated_cost plans) + penalty * of_nat (length unassigned))"
  using assms
proof (induction sources choices arbitrary: opened assigned earlier plans unassigned rule: list_induct2')
  case (4 s ss j js)
  show ?case
  proof (cases "j < 0")
    case True
    with "4.prems" obtain un where
      "build_plans cfg targets (zip ss js) opened assigned = Inr (plans, un)"
      and "unassigned = ContextMetadata_to_dict s # un"
      by auto
    with "4.IH" [OF _ _ "4.prems"(3)] "4.prems"(2) True show ?thesis
      by (simp add: algebra_simps)
  next
    case False
    let ?t = "targets ! nat j" and ?n = "int (count_list earlier j)"
    have books: "dget assigned j 0 = ?n" "(j \<in> set opened) = (j \<in> set earlier)"
      using "4.prems"(3) by (simp_all add: books_def)
    from False "4.prems"(1) obtain c a b ps p where
      est: "estimate_migration_cost s ?t cfg (j \<notin> set earlier) ?n = Inr (c, a, b)"
      and rest: "build_plans cfg targets (zip ss js) (j # opened)
        (AList.update j (dget assigned j 0 + 1) assigned) = Inr (ps, unassigned)"
      and plans: "plans = p # ps" and p: "mp_estimated_cost p = c"
      by (auto simp: Let_def books make_plan_def)
    obtain c0 where c0: "migration_cost_only cfg s ?t ?n = Inr c0"
      and c: "c = c0 + (if j \<in> set earlier then 0 else mt_warmup_cost ?t)"
      using est by (cases "j \<in> set earlier")
        (auto simp: migration_cost_only_def estimate_migration_cost_warmup)
    from "4.IH" [OF rest _ books_step [OF "4.prems"(3)]] "4.prems"(2) False c0 c p plans
    show ?thesis by (simp add: algebra_simps)
  qed
qed auto

lemma assignment_cost_plans:
  assumes "plan_low_cost_migration sources targets cfg = Inr d"
    and "positive_float cfg ''unmatched_penalty'' 1000000 = Inr penalty"
  obtains choices c where
    "solve (migration_cost_only cfg) mt_warmup_cost penalty targets (map mt_capacity targets) sources
       (map mt_capacity targets) 0 = Inr (c, choices)"
    and "c = md_total_estimated_cost d + penalty * of_nat (length (md_unassigned_contexts d))"
    and "build_plans cfg targets (zip sources choices) [] [] = Inr (md_plans d, md_unassigned_contexts d)"
proof -
  from assms obtain choices c where
    sol: "solve (migration_cost_only cfg) mt_warmup_cost penalty targets (map mt_capacity targets) sources
       (map mt_capacity targets) 0 = Inr (c, choices)"
    and plans: "build_plans cfg targets (zip sources choices) [] []
       = Inr (md_plans d, md_unassigned_contexts d)"
    and total: "md_total_estimated_cost d = sum_list (map mp_estimated_cost (md_plans d))"
    by (auto simp: plan_low_cost_migration_def fixed_warmup_assignment_def Let_def
        summarize_decision_def split: prod.splits)
  have "length choices = length sources"
    using solve_optimal(1) [OF sol] by (simp add: within_capacities_def)
  from build_plans_cost [OF plans this books_start, of penalty] solve_optimal(2) [OF sol] total
  have "c = md_total_estimated_cost d + penalty * of_nat (length (md_unassigned_contexts d))" by simp
  with sol plans that show thesis by blast
qed

section \<open>What a plan records\<close>

lemma reuse_value_bounds:
  "0 \<le> reuse_value s t vals n a b" "0 \<le> n \<Longrightarrow> reuse_value s t vals n a b \<le> n"
  by (auto simp: reuse_value_def Let_def split: option.splits)

lemma estimate_migration_cost_reuse:
  assumes "estimate_migration_cost s t cfg w n = Inr (c, tokens, blocks)"
  shows "0 \<le> tokens" "0 \<le> blocks"
    "0 \<le> cm_num_tokens s \<Longrightarrow> tokens \<le> cm_num_tokens s"
    "0 \<le> cm_context_blocks s \<Longrightarrow> blocks \<le> cm_context_blocks s"
  using assms
  by (auto simp: estimate_migration_cost_def estimate_kv_migration_cost_def reusable_context_def
      reuse_value_bounds Let_def)

definition plan_for :: "migration_target list \<Rightarrow> context_metadata \<times> int \<Rightarrow> migration_plan \<Rightarrow> bool" where
  "plan_for targets sj p =
     (let s = fst sj; t = targets ! nat (snd sj) in
      mp_request_id p = cm_request_id s \<and> mp_old_instance_id p = cm_instance_id s
      \<and> mp_old_node_id p = cm_node_id s \<and> mp_new_instance_id p = mt_instance_id t
      \<and> mp_new_node_id p = mt_node_id t
      \<and> 0 \<le> mp_reusable_tokens p \<and> 0 \<le> mp_reusable_context_blocks p
      \<and> (0 \<le> cm_num_tokens s \<longrightarrow> mp_reusable_tokens p \<le> cm_num_tokens s)
      \<and> (0 \<le> cm_context_blocks s \<longrightarrow> mp_reusable_context_blocks p \<le> cm_context_blocks s))"

lemma build_plans_records:
  assumes "build_plans cfg targets pairs opened assigned = Inr (plans, unassigned)"
  shows "list_all2 (plan_for targets) (filter (\<lambda>sj. 0 \<le> snd sj) pairs) plans
    \<and> unassigned = map (\<lambda>sj. ContextMetadata_to_dict (fst sj)) (filter (\<lambda>sj. snd sj < 0) pairs)"
  using assms
proof (induction pairs arbitrary: opened assigned plans unassigned)
  case Nil
  then show ?case by simp
next
  case (Cons sj rest)
  obtain s j where sj [simp]: "sj = (s, j)" by (cases sj)
  show ?case
  proof (cases "j < 0")
    case True
    with Cons.prems Cons.IH show ?thesis by fastforce
  next
    case False
    from False Cons.prems obtain c a b kv dispatch queue ps where
      est: "estimate_migration_cost s (targets ! nat j) cfg (j \<notin> set opened) (dget assigned j 0)
         = Inr (c, a, b)"
      and rest: "build_plans cfg targets rest (j # opened)
        (AList.update j (dget assigned j 0 + 1) assigned) = Inr (ps, unassigned)"
      and plans: "plans = make_plan s (targets ! nat j) c a b kv dispatch queue # ps"
      by (auto simp: Let_def)
    have "plan_for targets (s, j) (make_plan s (targets ! nat j) c a b kv dispatch queue)"
      using estimate_migration_cost_reuse [OF est] by (simp add: plan_for_def make_plan_def Let_def)
    moreover have "list_all2 (plan_for targets) (filter (\<lambda>sj. 0 \<le> snd sj) rest) ps
      \<and> unassigned = map (\<lambda>sj. ContextMetadata_to_dict (fst sj)) (filter (\<lambda>sj. snd sj < 0) rest)"
      using rest by (rule Cons.IH)
    ultimately show ?thesis using False plans by simp
  qed
qed

lemma count_chosen:
  assumes "\<forall>j \<in> set choices. j = -1 \<or> (0 \<le> j \<and> j < int n)"
  shows "length (filter (\<lambda>j. 0 \<le> j \<and> P (nat j)) choices)
     = (\<Sum>k \<in> {k. k < n \<and> P k}. count_list choices (int k))"
  using assms
proof (induction choices)
  case Nil
  then show ?case by simp
next
  case (Cons j js)
  have "(\<Sum>k \<in> {k. k < n \<and> P k}. count_list (j # js) (int k))
      = (\<Sum>k \<in> {k. k < n \<and> P k}. if int k = j then 1 else 0)
        + (\<Sum>k \<in> {k. k < n \<and> P k}. count_list js (int k))"
    by (simp add: sum.distrib [symmetric] cong: sum.cong) (auto intro!: sum.cong)
  moreover have "(\<Sum>k \<in> {k. k < n \<and> P k}. if int k = j then 1 else 0)
      = (if 0 \<le> j \<and> P (nat j) then 1 else (0 :: nat))"
  proof (cases "0 \<le> j")
    case True
    then have "(int k = j) = (k = nat j)" for k by auto
    with True Cons.prems show ?thesis by (auto simp: sum.delta)
  qed (auto intro!: sum.neutral)
  ultimately show ?case using Cons by simp
qed

lemma sum_list_filter_nth:
  "sum_list (map f (filter P xs)) = (\<Sum>k \<in> {k. k < length xs \<and> P (xs ! k)}. f (xs ! k))"
  for f :: "'a \<Rightarrow> 'b::comm_monoid_add"
proof -
  have "sum_list (map f (filter P xs)) = sum_list (map (\<lambda>x. if P x then f x else 0) xs)"
    by (induction xs) auto
  also have "\<dots> = (\<Sum>k \<in> {0..<length xs}. if P (xs ! k) then f (xs ! k) else 0)"
    by (simp add: sum_list_sum_nth)
  also have "\<dots> = (\<Sum>k \<in> {k \<in> {0..<length xs}. P (xs ! k)}. f (xs ! k))"
    by (rule sum.inter_filter [symmetric]) simp
  finally show ?thesis by simp
qed

lemma sum_list_filter_le:
  fixes f :: "'a \<Rightarrow> int"
  assumes "\<And>x. x \<in> set xs \<Longrightarrow> 0 \<le> f x"
  shows "sum_list (map f (filter P xs)) \<le> sum_list (map f xs)"
  using assms by (induction xs) (auto simp: add_increasing)

text \<open>What the plans reuse, against what their sources hold.\<close>

lemma reused_le_held:
  fixes reused :: "migration_plan \<Rightarrow> int" and held :: "context_metadata \<Rightarrow> int"
  assumes rel: "list_all2 (plan_for targets) (filter (\<lambda>sj. 0 \<le> snd sj) (zip sources choices)) plans"
    and len: "length choices = length sources"
    and held: "\<And>s. s \<in> set sources \<Longrightarrow> 0 \<le> held s"
    and one: "\<And>s j p. s \<in> set sources \<Longrightarrow> plan_for targets (s, j) p \<Longrightarrow> 0 \<le> reused p \<and> reused p \<le> held s"
  shows "0 \<le> sum_list (map reused plans)"
    and "sum_list (map reused plans) \<le> sum_list (map held sources)"
proof -
  let ?kept = "filter (\<lambda>sj. 0 \<le> snd sj) (zip sources choices)"
  have src: "fst sj \<in> set sources" if "sj \<in> set (zip sources choices)" for sj
    using that by (metis in_set_zipE prod.collapse)
  have "0 \<le> sum_list (map reused plans) \<and>
      sum_list (map reused plans) \<le> sum_list (map (held \<circ> fst) kept)"
    if "list_all2 (plan_for targets) kept plans" "set kept \<subseteq> set ?kept" for kept
    using that
  proof (induction rule: list_all2_induct)
    case (Cons sj kept p plans)
    then have "0 \<le> reused p \<and> reused p \<le> held (fst sj)"
      using one [of "fst sj" "snd sj" p] src by auto
    with Cons show ?case by auto
  qed simp
  from this [OF rel order_refl]
  have "0 \<le> sum_list (map reused plans)"
    and le: "sum_list (map reused plans) \<le> sum_list (map (held \<circ> fst) ?kept)" by auto
  then show "0 \<le> sum_list (map reused plans)" by simp
  note le
  also have "sum_list (map (held \<circ> fst) ?kept) \<le> sum_list (map (held \<circ> fst) (zip sources choices))"
    using src held by (intro sum_list_filter_le) auto
  also have "map (held \<circ> fst) (zip sources choices) = map held sources"
    using len by (metis map_fst_zip map_map)
  finally show "sum_list (map reused plans) \<le> sum_list (map held sources)" .
qed

lemma unit_ratio: "0 \<le> a \<Longrightarrow> a \<le> b \<Longrightarrow> 0 \<le> (of_int a :: rat) / of_int b \<and> of_int a / of_int b \<le> (1 :: rat)"
  by (cases "b = 0") (auto simp: divide_le_eq)

section \<open>Properties of the planner\<close>

text \<open>
  C1. The assignment the dynamic programme returns is an optimum: it gives every source a target
  or leaves it out, no target gets more sources than its capacity, and its cost (estimates with
  the queue growing source by source, the warm-up of each opened target once, the penalty for
  each source left out) is at most the cost of every other assignment within the capacities.
\<close>

theorem fixed_warmup_assignment_optimal:
  assumes "fixed_warmup_assignment sources targets cfg penalty = Inr choices"
  shows "within_capacities (map mt_capacity targets) (length sources) choices
    \<and> (\<exists>c. assignment_cost (migration_cost_only cfg) mt_warmup_cost penalty targets [] sources choices
            = Some c
         \<and> (\<forall>other. within_capacities (map mt_capacity targets) (length sources) other \<longrightarrow>
              (\<exists>c'. assignment_cost (migration_cost_only cfg) mt_warmup_cost penalty targets [] sources
                      other = Some c' \<and> c \<le> c')))"
proof -
  from assms obtain c where
    sol: "solve (migration_cost_only cfg) mt_warmup_cost penalty targets (map mt_capacity targets) sources
       (map mt_capacity targets) 0 = Inr (c, choices)"
    by (auto simp: fixed_warmup_assignment_def Let_def)
  from solve_optimal [OF sol length_map] show ?thesis by blast
qed

text \<open>
  C2. The decision accounts for that optimum: the total of the plans, whose costs are estimated
  again one by one, plus the penalty for each context left unassigned, is at most the cost of
  every assignment within the capacities.
\<close>

theorem migration_decision_optimal:
  assumes "plan_low_cost_migration sources targets cfg = Inr d"
    and "positive_float cfg ''unmatched_penalty'' 1000000 = Inr penalty"
    and "within_capacities (map mt_capacity targets) (length sources) other"
  shows "\<exists>c'. assignment_cost (migration_cost_only cfg) mt_warmup_cost penalty targets [] sources other
      = Some c'
    \<and> md_total_estimated_cost d + penalty * of_nat (length (md_unassigned_contexts d)) \<le> c'"
proof -
  from assignment_cost_plans [OF assms(1,2)] obtain choices c where
    sol: "solve (migration_cost_only cfg) mt_warmup_cost penalty targets (map mt_capacity targets) sources
       (map mt_capacity targets) 0 = Inr (c, choices)"
    and "c = md_total_estimated_cost d + penalty * of_nat (length (md_unassigned_contexts d))" .
  with solve_optimal(3) [OF sol _ assms(3)] show ?thesis by simp
qed

lemma plan_choices:
  assumes "plan_low_cost_migration sources targets cfg = Inr d"
  obtains choices where
    "within_capacities (map mt_capacity targets) (length sources) choices"
    and "list_all2 (plan_for targets) (filter (\<lambda>sj. 0 \<le> snd sj) (zip sources choices)) (md_plans d)"
    and "md_unassigned_contexts d = map (\<lambda>sj. ContextMetadata_to_dict (fst sj))
           (filter (\<lambda>sj. snd sj < 0) (zip sources choices))"
proof -
  from assms obtain penalty where "positive_float cfg ''unmatched_penalty'' 1000000 = Inr penalty"
    by (auto simp: plan_low_cost_migration_def)
  from assignment_cost_plans [OF assms this] obtain choices c where
    sol: "solve (migration_cost_only cfg) mt_warmup_cost penalty targets (map mt_capacity targets) sources
       (map mt_capacity targets) 0 = Inr (c, choices)"
    and "build_plans cfg targets (zip sources choices) [] []
       = Inr (md_plans d, md_unassigned_contexts d)" .
  with solve_optimal(1) [OF sol] build_plans_records that show thesis by simp
qed

text \<open>
  Every context is either migrated or reported unassigned, and the plans keep the order of
  the contexts: the sources with a plan, in order, are the sources of the plans.
\<close>

theorem plans_and_unassigned_cover_sources:
  assumes "plan_low_cost_migration sources targets cfg = Inr d"
  shows "\<exists>keep. length keep = length sources
     \<and> map (\<lambda>p. (mp_request_id p, mp_old_instance_id p, mp_old_node_id p)) (md_plans d)
       = map (\<lambda>s. (cm_request_id s, cm_instance_id s, cm_node_id s))
           (map fst (filter snd (zip sources keep)))
     \<and> md_unassigned_contexts d
       = map ContextMetadata_to_dict (map fst (filter (Not \<circ> snd) (zip sources keep)))"
proof -
  obtain choices where len: "length choices = length sources"
    and plans: "list_all2 (plan_for targets) (filter (\<lambda>sj. 0 \<le> snd sj) (zip sources choices)) (md_plans d)"
    and un: "md_unassigned_contexts d = map (\<lambda>sj. ContextMetadata_to_dict (fst sj))
           (filter (\<lambda>sj. snd sj < 0) (zip sources choices))"
    using plan_choices [OF assms] by (metis within_capacities_def)
  let ?keep = "map (\<lambda>j. 0 \<le> j) choices"
  have "map (\<lambda>p. (mp_request_id p, mp_old_instance_id p, mp_old_node_id p)) (md_plans d)
      = map (\<lambda>s. (cm_request_id s, cm_instance_id s, cm_node_id s))
          (map fst (filter (\<lambda>sj. 0 \<le> snd sj) (zip sources choices)))"
    using plans by (induction rule: list_all2_induct) (auto simp: plan_for_def Let_def)
  moreover have "map fst (filter (\<lambda>sj. 0 \<le> snd sj) (zip sources choices))
      = map fst (filter snd (zip sources ?keep))"
    using len by (induction choices sources rule: list_induct2) auto
  moreover have "md_unassigned_contexts d
      = map ContextMetadata_to_dict (map fst (filter (\<lambda>sj. snd sj < 0) (zip sources choices)))"
    using un by (simp add: comp_def)
  moreover have "map fst (filter (\<lambda>sj. snd sj < 0) (zip sources choices))
      = map fst (filter (Not \<circ> snd) (zip sources ?keep))"
    using len by (induction choices sources rule: list_induct2) auto
  ultimately show ?thesis
    using len by (intro exI [of _ ?keep] conjI) simp_all
qed

lemma plans_within_capacity:
  assumes "plan_low_cost_migration sources targets cfg = Inr d"
  shows "int (length (filter (\<lambda>p. mp_new_instance_id p = i) (md_plans d)))
     \<le> sum_list (map (\<lambda>t. max 0 (mt_capacity t)) (filter (\<lambda>t. mt_instance_id t = i) targets))"
proof -
  obtain choices where cap: "within_capacities (map mt_capacity targets) (length sources) choices"
    and plans: "list_all2 (plan_for targets) (filter (\<lambda>sj. 0 \<le> snd sj) (zip sources choices)) (md_plans d)"
    using plan_choices [OF assms] by blast
  let ?P = "\<lambda>k. mt_instance_id (targets ! k) = i"
  have len: "length choices = length sources" using cap by (simp add: within_capacities_def)
  have "length (filter (\<lambda>p. mp_new_instance_id p = i) (md_plans d))
      = length (filter (\<lambda>sj. ?P (nat (snd sj))) (filter (\<lambda>sj. 0 \<le> snd sj) (zip sources choices)))"
    using plans by (induction rule: list_all2_induct) (auto simp: plan_for_def Let_def)
  also have "\<dots> = length (filter (\<lambda>j. 0 \<le> j \<and> ?P (nat j)) choices)"
    using len by (induction choices sources rule: list_induct2) auto
  also have "\<dots> = (\<Sum>k \<in> {k. k < length targets \<and> ?P k}. count_list choices (int k))"
    using cap by (intro count_chosen) (auto simp: within_capacities_def)
  finally have "int (length (filter (\<lambda>p. mp_new_instance_id p = i) (md_plans d)))
      = (\<Sum>k \<in> {k. k < length targets \<and> ?P k}. int (count_list choices (int k)))" by simp
  also have "\<dots> \<le> (\<Sum>k \<in> {k. k < length targets \<and> ?P k}. max 0 (mt_capacity (targets ! k)))"
    using cap by (intro sum_mono) (auto simp: within_capacities_def)
  finally show ?thesis by (simp add: sum_list_filter_nth)
qed

text \<open>
  C3. No instance is oversubscribed: the number of plans that move a context to an instance is at
  most the summed capacity of the targets with that instance id.
\<close>

theorem plans_respect_capacity:
  assumes "plan_low_cost_migration sources targets cfg = Inr d"
  shows "int (length (filter (\<lambda>p. mp_new_instance_id p = i) (md_plans d)))
     \<le> sum_list (map (\<lambda>t. max 0 (mt_capacity t)) (filter (\<lambda>t. mt_instance_id t = i) targets))"
  by (rule plans_within_capacity [OF assms])

text \<open>
  The reported reuse ratio is a ratio: with non-negative token and block counts it lies
  between 0 and 1.
\<close>

theorem reuse_ratio_bounds:
  assumes "plan_low_cost_migration sources targets cfg = Inr d"
    and "\<forall>s \<in> set sources. 0 \<le> cm_num_tokens s \<and> 0 \<le> cm_context_blocks s"
  shows "0 \<le> md_reuse_ratio d \<and> md_reuse_ratio d \<le> 1"
proof -
  obtain choices where cap: "within_capacities (map mt_capacity targets) (length sources) choices"
    and plans: "list_all2 (plan_for targets) (filter (\<lambda>sj. 0 \<le> snd sj) (zip sources choices)) (md_plans d)"
    using plan_choices [OF assms(1)] by blast
  have len: "length choices = length sources" using cap by (simp add: within_capacities_def)
  note tokens = reused_le_held [OF plans len, of cm_num_tokens mp_reusable_tokens]
    and blocks = reused_le_held [OF plans len, of cm_context_blocks mp_reusable_context_blocks]
  have "0 \<le> sum_list (map mp_reusable_tokens (md_plans d))"
    "sum_list (map mp_reusable_tokens (md_plans d)) \<le> sum_list (map cm_num_tokens sources)"
    "0 \<le> sum_list (map mp_reusable_context_blocks (md_plans d))"
    "sum_list (map mp_reusable_context_blocks (md_plans d)) \<le> sum_list (map cm_context_blocks sources)"
    using tokens blocks assms(2) by (auto simp: plan_for_def Let_def)
  then show ?thesis
    using assms(1) by (auto simp: plan_low_cost_migration_def summarize_decision_def Let_def
        intro: unit_ratio [THEN conjunct1] unit_ratio [THEN conjunct2] split: prod.splits)
qed
lemma dispatch_cases:
  assumes "estimate_expert_dispatch_cost source target cfg = Inr e"
  obtains (unavailable) a b where "e = unavailable_dispatch source a b"
  | (observed) h w where "source_expert_route_histogram source = Inr h" and "h \<noteq> []"
      and "positive_float cfg ''expert_dispatch_weight'' 1 = Inr w"
      and "e = observed_dispatch source h (target_expert_placement_keys target) w"
proof -
  from assms obtain h where h: "source_expert_route_histogram source = Inr h"
    by (auto simp only: estimate_expert_dispatch_cost_def Let_def rbind_eq_Inr)
  show thesis
  proof (cases "\<exists>a b. e = unavailable_dispatch source a b")
    case True
    then show thesis using unavailable by blast
  next
    case False
    have "h \<noteq> []"
    proof
      assume "h = []"
      with assms h have "e = unavailable_dispatch source False (target_expert_placement_keys target \<noteq> [])"
        by (simp only: estimate_expert_dispatch_cost_def Let_def rbind.simps simp_thms if_True sum.inject)
      with False show "False" by blast
    qed
    moreover from False assms h have "\<exists>w. positive_float cfg ''expert_dispatch_weight'' 1 = Inr w
        \<and> e = observed_dispatch source h (target_expert_placement_keys target) w"
      by (simp only: estimate_expert_dispatch_cost_def Let_def rbind.simps split: if_split_asm)
        (auto simp only: sum.inject rbind_eq_Inr)
    ultimately show thesis using h observed by blast
  qed
qed

text \<open>
  No token is lost between the local and the remote side of a dispatch estimate: the two
  sides add up to the routed tokens, also when they are summed by layer, the two ratios are
  fractions that add up to 1, and the cost lies between 0 and the configured weight. Where the
  estimate is unavailable, it claims no tokens and costs nothing.
\<close>

theorem expert_dispatch_accounting:
  assumes "estimate_expert_dispatch_cost source target cfg = Inr e"
  shows "ed_local_routed_tokens e + ed_remote_routed_tokens e = ed_routed_tokens e
    \<and> total_tokens (ed_local_routed_tokens_by_layer e) = ed_local_routed_tokens e
    \<and> total_tokens (ed_remote_routed_tokens_by_layer e) = ed_remote_routed_tokens e
    \<and> 0 \<le> ed_local_routed_tokens e \<and> 0 \<le> ed_remote_routed_tokens e
    \<and> (if ed_available e
       then 0 < ed_routed_tokens e \<and> ed_locality_ratio e + ed_remote_routing_ratio e = 1
          \<and> 0 \<le> ed_locality_ratio e \<and> 0 \<le> ed_remote_routing_ratio e
          \<and> (\<exists>w. positive_float cfg ''expert_dispatch_weight'' 1 = Inr w
                 \<and> 0 \<le> ed_cost e \<and> ed_cost e \<le> w)
       else ed_routed_tokens e = 0 \<and> ed_cost e = 0)"
  using assms
proof (cases rule: dispatch_cases)
  case (unavailable a b)
  then show ?thesis by (simp add: unavailable_dispatch_def)
next
  case (observed h w)
  note h = observed(1,2) and w = observed(3) and e = observed(4)
  have pos: "positive_counts h" using h(1) by (rule route_histogram_positive)
  obtain l r where lr: "split_histogram (target_expert_placement_keys target) h = (l, r)"
    by fastforce
  have inv: "positive_counts l" "positive_counts r" "total_tokens l + total_tokens r = total_tokens h"
    using split_histogram_inv [OF pos, of "target_expert_placement_keys target"]
    by (simp_all add: lr split_inv_def)
  have "0 < total_tokens h" using total_tokens_pos [OF pos h(2)] .
  moreover have "0 \<le> total_tokens l" "0 \<le> total_tokens r"
    using inv total_tokens_nonneg by auto
  ultimately have ratio: "0 \<le> (of_int (total_tokens l) :: rat) / of_int (total_tokens h)"
    "(of_int (total_tokens l) :: rat) / of_int (total_tokens h) \<le> 1"
    using unit_ratio [of "total_tokens l" "total_tokens h"] inv(3) by auto
  have "0 \<le> w" using w by (auto simp: positive_float_def Let_def)
  with ratio have "0 \<le> (1 - of_int (total_tokens l) / of_int (total_tokens h)) * w"
    "(1 - of_int (total_tokens l) / of_int (total_tokens h)) * w \<le> w"
    by (auto simp: mult_left_le_one_le)
  with ratio inv w \<open>0 < total_tokens h\<close> \<open>0 \<le> total_tokens l\<close> \<open>0 \<le> total_tokens r\<close>
  show ?thesis
    by (simp add: e observed_dispatch_def Let_def lr total_tokens_by_layer)
qed

definition pressure :: "migration_target \<Rightarrow> int \<Rightarrow> rat" where
  "pressure t depth =
     (let cap = (if mt_max_queue_length t \<le> 0 \<and> 0 < mt_capacity t
                 then depth + mt_capacity t else mt_max_queue_length t)
      in if 0 < cap then min 1 (of_int depth / of_int cap) else 0)"

lemma pressure_bounds: "0 \<le> d \<Longrightarrow> 0 \<le> pressure t d \<and> pressure t d \<le> 1"
  by (auto simp: pressure_def Let_def)

lemma fill_mono:
  assumes "0 \<le> d" "d \<le> d'" "0 < c"
  shows "(of_int d :: rat) / (of_int d + of_int c) \<le> of_int d' / (of_int d' + of_int c)"
proof -
  have r: "0 \<le> (of_int d :: rat)" "(of_int d :: rat) \<le> of_int d'" "0 < (of_int c :: rat)"
    using assms by simp_all
  then have "(of_int d :: rat) * of_int c \<le> of_int d' * of_int c" by (simp add: mult_right_mono)
  with r show ?thesis by (simp add: divide_le_eq le_divide_eq field_simps)
qed

lemma pressure_mono: "0 \<le> d \<Longrightarrow> d \<le> d' \<Longrightarrow> pressure t d \<le> pressure t d'"
  using fill_mono [of d d' "mt_capacity t"]
  by (auto simp: pressure_def Let_def min_def divide_right_mono not_le le_divide_eq divide_le_eq)

lemma queue_penalty_eq:
  assumes "estimate_queue_penalty_cost t cfg n = Inr q"
  obtains dw pw base where "0 \<le> dw" "0 \<le> pw" "0 \<le> base"
    "positive_float cfg ''queue_penalty_weight'' 0 = Inr dw"
    "positive_float cfg ''queue_pressure_weight'' 0 = Inr pw"
    "base = (case mt_queue_depth t of Some k \<Rightarrow> max 0 k | None \<Rightarrow> max 0 (mt_concurrency t))"
    "qp_queue_depth q = base + max 0 n"
    "qp_queue_pressure q = pressure t (base + max 0 n)"
    "qp_cost q = max 0 (mt_queue_penalty t) + of_int (base + max 0 n) * dw
       + pressure t (base + max 0 n) * pw"
proof -
  from assms obtain dw pw where
    w: "positive_float cfg ''queue_penalty_weight'' 0 = Inr dw"
       "positive_float cfg ''queue_pressure_weight'' 0 = Inr pw"
    by (auto simp only: estimate_queue_penalty_cost_def Let_def rbind_eq_Inr)
  then have "0 \<le> dw" "0 \<le> pw" by (auto simp: positive_float_def Let_def)
  moreover have "0 \<le> (case mt_queue_depth t of Some k \<Rightarrow> max 0 k | None \<Rightarrow> max 0 (mt_concurrency t))"
    by (simp split: option.splits)
  moreover have q: "q = projr (estimate_queue_penalty_cost t cfg n)"
    using assms by simp
  ultimately show thesis
    by (intro that [OF _ _ _ w refl])
      (simp_all only: q estimate_queue_penalty_cost_def Let_def w rbind.simps sum.sel
        queue_penalty.simps pressure_def split: option.splits, simp_all)
qed

text \<open>
  Queue pressure is a fraction, and more requests planned ahead on a target never make it
  look cheaper.
\<close>

theorem queue_penalty_monotone:
  assumes "estimate_queue_penalty_cost target cfg n = Inr q"
    and "estimate_queue_penalty_cost target cfg m = Inr q'" and "n \<le> m"
  shows "0 \<le> qp_queue_pressure q \<and> qp_queue_pressure q \<le> 1 \<and> 0 \<le> qp_cost q
     \<and> qp_queue_depth q \<le> qp_queue_depth q' \<and> qp_queue_pressure q \<le> qp_queue_pressure q'
     \<and> qp_cost q \<le> qp_cost q'"
proof -
  from queue_penalty_eq [OF assms(1)] obtain dw pw base where q: "0 \<le> dw" "0 \<le> pw" "0 \<le> base"
    "positive_float cfg ''queue_penalty_weight'' 0 = Inr dw"
    "positive_float cfg ''queue_pressure_weight'' 0 = Inr pw"
    "base = (case mt_queue_depth target of Some k \<Rightarrow> max 0 k | None \<Rightarrow> max 0 (mt_concurrency target))"
    "qp_queue_depth q = base + max 0 n" "qp_queue_pressure q = pressure target (base + max 0 n)"
    "qp_cost q = max 0 (mt_queue_penalty target) + of_int (base + max 0 n) * dw
       + pressure target (base + max 0 n) * pw" .
  from queue_penalty_eq [OF assms(2)] q(4,5,6) have q':
    "qp_queue_depth q' = base + max 0 m" "qp_queue_pressure q' = pressure target (base + max 0 m)"
    "qp_cost q' = max 0 (mt_queue_penalty target) + of_int (base + max 0 m) * dw
       + pressure target (base + max 0 m) * pw" by auto
  have d: "0 \<le> base + max 0 n" "base + max 0 n \<le> base + max 0 m" using q(3) assms(3) by auto
  note p = pressure_bounds [OF d(1), of target] pressure_mono [OF d, of target]
  have "(of_int (base + max 0 n) :: rat) * dw \<le> of_int (base + max 0 m) * dw"
    using d q(1) by (intro mult_right_mono) (simp_all only: of_int_le_iff)
  moreover have "pressure target (base + max 0 n) * pw \<le> pressure target (base + max 0 m) * pw"
    using p q(2) by (simp add: mult_right_mono)
  moreover have "0 \<le> (of_int (base + max 0 n) :: rat)" using d(1) by (simp only: of_int_0_le_iff)
  with p q(1,2) have "0 \<le> qp_cost q"
    unfolding q(9) by (intro add_nonneg_nonneg mult_nonneg_nonneg) simp_all
  ultimately show ?thesis using p d q q' by simp
qed
section \<open>Round trips\<close>

definition well_formed_context :: "context_metadata \<Rightarrow> bool" where
  "well_formed_context c =
     (0 \<le> cm_num_tokens c \<and> 0 \<le> cm_context_blocks c \<and> 0 \<le> cm_cache_block_size c
      \<and> distinct (map fst (cm_reusable_tokens_by_target c))
      \<and> distinct (map fst (cm_reusable_blocks_by_target c)))"

lemma rfold_int_entries:
  assumes "distinct (map fst h)" "fst ` set h \<inter> fst ` set acc = {}"
  shows "rfold (\<lambda>(k, v) acc. rbind (py_int v) (\<lambda>i. Inr (AList.update k i acc)))
     (map (\<lambda>(k, n). (k, PInt n)) h) acc = Inr (acc @ h)"
  using assms
proof (induction h arbitrary: acc)
  case Nil
  then show ?case by simp
next
  case (Cons p h)
  obtain k n where p: "p = (k, n)" by (cases p)
  have "k \<notin> fst ` set acc" using Cons.prems(2) by (auto simp: p)
  then have "AList.update k n acc = acc @ [(k, n)]" by (rule update_new)
  moreover have "rfold (\<lambda>(k, v) acc. rbind (py_int v) (\<lambda>i. Inr (AList.update k i acc)))
     (map (\<lambda>(k, n). (k, PInt n)) h) (acc @ [(k, n)]) = Inr ((acc @ [(k, n)]) @ h)"
    using Cons.prems by (intro Cons.IH) (auto simp: p)
  ultimately show ?case by (simp add: p)
qed

lemma int_entries_of_counts:
  assumes "map_of payload name = Some (of_counts h)" "distinct (map fst h)"
  shows "int_entries payload name = Inr h"
  using assms rfold_int_entries [of h "[]"]
  by (cases h) (auto simp: int_entries_def dget_def of_counts_def por_def)

text \<open>
  A context survives the trip through its dictionary: what \<open>from_dict\<close> builds from
  \<open>to_dict\<close> is the context itself.
\<close>

theorem context_metadata_roundtrip:
  assumes "well_formed_context c"
  shows "ContextMetadata_from_dict (ContextMetadata_to_dict c) = Inr c"
proof -
  let ?d = "ContextMetadata_to_dict c"
  have "int_entries ?d ''reusable_tokens_by_target'' = Inr (cm_reusable_tokens_by_target c)"
    "int_entries ?d ''reusable_blocks_by_target'' = Inr (cm_reusable_blocks_by_target c)"
    using assms by (intro int_entries_of_counts; simp add: ContextMetadata_to_dict_def
        well_formed_context_def)+
  moreover have "dindex ?d ''instance_id'' = Inr (PStr (cm_instance_id c))"
    "dindex ?d ''node_id'' = Inr (PStr (cm_node_id c))"
    "int_or_zero ?d ''num_tokens'' = Inr (cm_num_tokens c)"
    "int_or_zero ?d ''context_blocks'' = Inr (cm_context_blocks c)"
    "int_or_zero ?d ''cache_block_size'' = Inr (cm_cache_block_size c)"
    "dgetn ?d ''request_id'' = cm_request_id c"
    "str_or_empty ?d ''cache_dtype'' = cm_cache_dtype c"
    "str_or_empty ?d ''cache_layout'' = cm_cache_layout c"
    "py_iter (por (dget ?d ''tokens'' (PList [])) (PList [])) = Inr (map PInt (cm_tokens c))"
    "py_dict (por (dget ?d ''metadata'' (PDict [])) (PDict [])) = Inr (cm_metadata c)"
    by (simp_all add: ContextMetadata_to_dict_def dindex_def int_or_zero_def dget_def dgetn_def
        str_or_empty_def por_def)
  ultimately show ?thesis
    using assms by (simp add: ContextMetadata_from_dict_def well_formed_context_def rmap_py_int)
qed

text \<open>
  The same for targets.
\<close>

theorem migration_target_roundtrip:
  assumes "0 \<le> mt_capacity t" "0 \<le> mt_concurrency t" "0 \<le> mt_max_queue_length t"
    and "\<forall>q. mt_queue_depth t = Some q \<longrightarrow> 0 \<le> q"
  shows "MigrationTarget_from_dict (MigrationTarget_to_dict t) = Inr t"
proof -
  let ?d = "MigrationTarget_to_dict t"
  have "dindex ?d ''instance_id'' = Inr (PStr (mt_instance_id t))"
    "dindex ?d ''node_id'' = Inr (PStr (mt_node_id t))"
    "py_int (por (dget ?d ''capacity'' (PInt 1)) (PInt 0)) = Inr (mt_capacity t)"
    "float_or_zero ?d ''warmup_cost'' = Inr (mt_warmup_cost t)"
    "int_or_zero ?d ''concurrency'' = Inr (mt_concurrency t)"
    "int_or_zero ?d ''max_queue_length'' = Inr (mt_max_queue_length t)"
    "float_or_zero ?d ''queue_penalty'' = Inr (mt_queue_penalty t)"
    "py_dict (por (dget ?d ''metadata'' (PDict [])) (PDict [])) = Inr (mt_metadata t)"
    by (simp_all add: MigrationTarget_to_dict_def dindex_def int_or_zero_def float_or_zero_def
        dget_def por_def)
  moreover have "as_non_negative_int (dgetn ?d ''queue_depth'') = mt_queue_depth t"
    using assms(4) by (cases "mt_queue_depth t")
      (simp_all add: MigrationTarget_to_dict_def dgetn_def dget_def as_non_negative_int_def)
  ultimately show ?thesis using assms by (simp add: MigrationTarget_from_dict_def)
qed

section \<open>The planner returns\<close>

definition numeric :: "pyval \<Rightarrow> bool" where
  "numeric v = (case v of PNone \<Rightarrow> True | PBool _ \<Rightarrow> True | PInt _ \<Rightarrow> True | PFloat _ \<Rightarrow> True | _ \<Rightarrow> False)"

definition numeric_config :: "dict \<Rightarrow> bool" where
  "numeric_config cfg = (\<forall>(k, v) \<in> set cfg. numeric v)"

lemma positive_float_total:
  assumes "numeric_config cfg"
  shows "\<exists>x. positive_float cfg key z = Inr x"
proof -
  have "numeric (dget cfg key (PFloat z))"
    using assms by (auto simp: numeric_config_def numeric_def dget_def split: option.splits
        dest!: map_of_SomeD)
  then show ?thesis
    by (auto simp: positive_float_def Let_def numeric_def split: pyval.splits)
qed

definition plain_id :: "context_metadata \<Rightarrow> bool" where
  "plain_id s = hashable (cm_request_id s)"

lemma route_histogram_total: "plain_id s \<Longrightarrow> \<exists>h. source_expert_route_histogram s = Inr h"
  by (auto simp: source_expert_route_histogram_def flatten_expert_histogram_def key_lookup_def
      plain_id_def split: pyval.splits)

lemma rbind_total: "\<exists>x. m = Inr x \<Longrightarrow> (\<And>x. m = Inr x \<Longrightarrow> \<exists>y. f x = Inr y) \<Longrightarrow> \<exists>y. rbind m f = Inr y"
  by auto

lemma estimates_total:
  assumes "numeric_config cfg" "plain_id s"
  shows "\<exists>kv. estimate_kv_migration_cost s t cfg w = Inr kv"
    and "\<exists>q. estimate_queue_penalty_cost t cfg n = Inr q"
    and "\<exists>e. estimate_expert_dispatch_cost s t cfg = Inr e"
  unfolding estimate_kv_migration_cost_def reusable_context_def estimate_queue_penalty_cost_def
    estimate_expert_dispatch_cost_def Let_def
  by (intro rbind_total positive_float_total assms route_histogram_total; simp split: prod.splits;
      (intro conjI impI rbind_total positive_float_total assms; simp)?)+

lemma estimate_migration_cost_total:
  assumes "numeric_config cfg" "plain_id s"
  shows "\<exists>c a b. estimate_migration_cost s t cfg w n = Inr (c, a, b)"
  using estimates_total(1) [OF assms, of t w] estimates_total(2) [OF assms, of t n]
    estimates_total(3) [OF assms, of t]
  by (auto simp: estimate_migration_cost_def)

lemma solve_total:
  shows "\<forall>s \<in> set sources. \<forall>t n. \<exists>c. est s t n = Inr c \<Longrightarrow>
      \<exists>b. solve est warmup penalty targets capacities sources remaining opened = Inr b"
    and "\<forall>s \<in> set (source # sources). \<forall>t n. \<exists>c. est s t n = Inr c \<Longrightarrow>
      \<exists>b. solve_targets est warmup penalty targets capacities source sources remaining opened i ts best
        = Inr b"
proof (induction est warmup penalty targets capacities sources remaining opened
    and est warmup penalty targets capacities source sources remaining opened i ts best
    rule: solve_solve_targets.induct)
  case (2 est warmup penalty targets capacities source sources remaining opened)
  then obtain c ch where "solve est warmup penalty targets capacities sources remaining opened = Inr (c, ch)"
    by force
  with 2 show ?case by fastforce
next
  case (4 est warmup penalty targets capacities source sources remaining opened i t ts best)
  show ?case
  proof (cases "remaining ! i \<le> 0")
    case True
    with 4 show ?thesis by simp
  next
    case False
    obtain c where c: "est source t (capacities ! i - remaining ! i) = Inr c"
      using "4.prems" by (meson list.set_intros(1))
    from "4.IH"(2) [OF False c] "4.prems" obtain rc rch where
      r: "solve est warmup penalty targets capacities sources (remaining[i := remaining ! i - 1])
        (opened OR push_bit i 1) = Inr (rc, rch)" by force
    from "4.IH"(3) [OF False c r refl refl refl "4.prems"] False c r show ?thesis
      by (simp only: solve_targets.simps if_False rbind.simps prod.case Let_def)
  qed
qed auto

lemma build_plans_total:
  assumes "numeric_config cfg" and "\<forall>sj \<in> set pairs. plain_id (fst sj)"
  shows "\<exists>plans unassigned. build_plans cfg targets pairs opened assigned = Inr (plans, unassigned)"
  using assms(2)
proof (induction pairs arbitrary: opened assigned)
  case (Cons sj rest)
  obtain s j where sj: "sj = (s, j)" by (cases sj)
  have s: "plain_id s" using Cons.prems by (simp add: sj)
  let ?t = "targets ! nat j" and ?w = "j \<notin> set opened" and ?n = "dget assigned j 0"
  obtain c a b kv e q where
    "estimate_migration_cost s ?t cfg ?w ?n = Inr (c, a, b)"
    "estimate_kv_migration_cost s ?t cfg ?w = Inr kv"
    "estimate_expert_dispatch_cost s ?t cfg = Inr e"
    "estimate_queue_penalty_cost ?t cfg ?n = Inr q"
    using estimate_migration_cost_total [OF assms(1) s] estimates_total [OF assms(1) s] by metis
  moreover have "\<exists>plans unassigned. build_plans cfg targets rest opened assigned = Inr (plans, unassigned)"
    for opened assigned using Cons by simp
  ultimately show ?case by (fastforce simp: sj Let_def)
qed simp

text \<open>
  With a numeric configuration (each value a number, a Boolean or \<open>None\<close>) and hashable
  request ids the planner returns a decision, and its action says which case it is in: nothing
  to move, some context moved, or no capacity for any.
\<close>

theorem plan_low_cost_migration_returns:
  assumes "numeric_config cfg" and "\<forall>s \<in> set sources. plain_id s"
  shows "\<exists>d. plan_low_cost_migration sources targets cfg = Inr d
    \<and> md_action d = (if sources = [] then ''no_context''
        else if md_plans d \<noteq> [] then ''migrate'' else ''no_target_capacity'')"
proof -
  obtain penalty where pen: "positive_float cfg ''unmatched_penalty'' 1000000 = Inr penalty"
    using positive_float_total [OF assms(1)] by blast
  have cost: "\<forall>s \<in> set sources. \<forall>t n. \<exists>c. migration_cost_only cfg s t n = Inr c"
    using estimate_migration_cost_total [OF assms(1)] assms(2)
    by (fastforce simp: migration_cost_only_def)
  have "\<exists>m. build_cost_matrix sources targets cfg False = Inr m"
    unfolding build_cost_matrix_def Let_def
  proof (rule rbind_total)
    have "rmap (\<lambda>target. rbind (estimate_migration_cost s target cfg False 0) (\<lambda>(c, _, _). Inr c)) ts
        = Inr (map (\<lambda>t. projr (migration_cost_only cfg s t 0)) ts)" if s: "s \<in> set sources" for s ts
    proof (rule rmap_total)
      fix t
      obtain c where "migration_cost_only cfg s t 0 = Inr c" using cost s by blast
      then show "rbind (estimate_migration_cost s t cfg False 0) (\<lambda>(c, _, _). Inr c)
          = Inr (projr (migration_cost_only cfg s t 0))"
        unfolding migration_cost_only_def by (simp only: sum.sel)
    qed
    from rmap_total [of sources, OF this] show "\<exists>x. rmap (\<lambda>source. rmap (\<lambda>target.
        rbind (estimate_migration_cost source target cfg False 0) (\<lambda>(c, _, _). Inr c))
        (concat (map (\<lambda>t. replicate (nat (mt_capacity t)) t) targets))) sources = Inr x"
      by (intro exI)
  qed simp
  moreover obtain c choices where sol: "solve (migration_cost_only cfg) mt_warmup_cost penalty targets
      (map mt_capacity targets) sources (map mt_capacity targets) 0 = Inr (c, choices)"
    using solve_total(1) [OF cost] by force
  moreover obtain plans un where "build_plans cfg targets (zip sources choices) [] [] = Inr (plans, un)"
    using build_plans_total [OF assms(1), of "zip sources choices"] assms(2)
    by (metis in_set_zipE prod.collapse)
  moreover have "\<exists>obs. observed_sources sources = Inr obs"
    unfolding observed_sources_def
  proof (rule rbind_total)
    have "source_has_available_expert_route_histogram s
        = Inr (projr (source_has_available_expert_route_histogram s))" if s: "s \<in> set sources" for s
    proof -
      obtain h where "source_expert_route_histogram s = Inr h"
        using route_histogram_total assms(2) s by blast
      then show ?thesis by (simp add: source_has_available_expert_route_histogram_def)
    qed
    from rmap_total [of sources source_has_available_expert_route_histogram, OF this]
    show "\<exists>x. rmap source_has_available_expert_route_histogram sources = Inr x" by blast
  qed simp
  ultimately show ?thesis
    using pen by (auto simp: plan_low_cost_migration_def fixed_warmup_assignment_def Let_def
        summarize_decision_def)
qed

section \<open>Witnesses\<close>

text \<open>
  Three contexts on a preempted instance, two targets with room for one request each. The MoE
  context carries a route histogram, the MoE target a placement.
\<close>

definition ex_source :: "string \<Rightarrow> string \<Rightarrow> int \<Rightarrow> context_metadata" where
  "ex_source r n k = \<lparr>cm_request_id = PStr r, cm_instance_id = ''old'', cm_node_id = n, cm_num_tokens = k,
     cm_context_blocks = 0, cm_tokens = [], cm_cache_block_size = 0, cm_cache_dtype = '''',
     cm_cache_layout = '''', cm_reusable_tokens_by_target = [], cm_reusable_blocks_by_target = [],
     cm_metadata = []\<rparr>"

definition ex_target :: "string \<Rightarrow> string \<Rightarrow> int \<Rightarrow> rat \<Rightarrow> migration_target" where
  "ex_target i n c w = \<lparr>mt_instance_id = i, mt_node_id = n, mt_capacity = c, mt_warmup_cost = w,
     mt_concurrency = 0, mt_max_queue_length = 0, mt_queue_depth = None, mt_queue_penalty = 0,
     mt_metadata = []\<rparr>"

definition ex_sources :: "context_metadata list" where
  "ex_sources = [ex_source ''r1'' ''n1'' 10, ex_source ''r2'' ''n2'' 20, ex_source ''r3'' ''n2'' 5]"

definition ex_targets :: "migration_target list" where
  "ex_targets = [ex_target ''a'' ''n1'' 1 3, ex_target ''b'' ''n2'' 1 4]"

definition ex_decision :: migration_decision where
  "ex_decision = projr (plan_low_cost_migration ex_sources ex_targets [])"

definition ex_moe_source :: context_metadata where
  "ex_moe_source = (ex_source ''r4'' ''n1'' 10)\<lparr>cm_metadata :=
     [(''per_request_expert_route_histogram'',
        PDict [(''0'', PDict [(''1'', PInt 3), (''2'', PInt 1)])])]\<rparr>"

definition ex_moe_target :: migration_target where
  "ex_moe_target = (ex_target ''c'' ''n1'' 1 0)\<lparr>mt_metadata :=
     [(''expert_placement'', PList [PDict [(''layer_id'', PInt 0), (''expert_id'', PInt 1)]])]\<rparr>"

definition ex_moe_config :: dict where
  "ex_moe_config = [(''expert_dispatch_weight'', PFloat 2), (''queue_penalty_weight'', PInt 1)]"

definition ex_dispatch :: expert_dispatch where
  "ex_dispatch = projr (estimate_expert_dispatch_cost ex_moe_source ex_moe_target ex_moe_config)"

definition ex_queue :: "int \<Rightarrow> queue_penalty" where
  "ex_queue n = projr (estimate_queue_penalty_cost ex_moe_target ex_moe_config n)"

lemma ex_assignment: "fixed_warmup_assignment ex_sources ex_targets [] 1000000 = Inr [0, -1, 1]"
  by code_simp

lemma ex_plan: "plan_low_cost_migration ex_sources ex_targets [] = Inr ex_decision"
  by code_simp

lemma ex_penalty: "positive_float [] ''unmatched_penalty'' 1000000 = Inr 1000000"
  by code_simp

lemma ex_other: "within_capacities (map mt_capacity ex_targets) (length ex_sources) [-1, 1, -1]"
  by code_simp

lemma ex_dispatch: "estimate_expert_dispatch_cost ex_moe_source ex_moe_target ex_moe_config = Inr ex_dispatch"
  by code_simp

lemma ex_queue:
  "estimate_queue_penalty_cost ex_moe_target ex_moe_config 0 = Inr (ex_queue 0)"
  "estimate_queue_penalty_cost ex_moe_target ex_moe_config 2 = Inr (ex_queue 2)"
  by code_simp+

theorem fixed_warmup_assignment_optimal_witness:
  "within_capacities (map mt_capacity ex_targets) (length ex_sources) [0, -1, 1]
    \<and> (\<exists>c. assignment_cost (migration_cost_only []) mt_warmup_cost 1000000 ex_targets [] ex_sources
              [0, -1, 1] = Some c)"
  using fixed_warmup_assignment_optimal [OF ex_assignment] by blast

theorem migration_decision_optimal_witness:
  "\<exists>c'. assignment_cost (migration_cost_only []) mt_warmup_cost 1000000 ex_targets [] ex_sources
      [-1, 1, -1] = Some c'
    \<and> md_total_estimated_cost ex_decision
        + 1000000 * of_nat (length (md_unassigned_contexts ex_decision)) \<le> c'"
  by (rule migration_decision_optimal [OF ex_plan ex_penalty ex_other])

theorem plans_and_unassigned_cover_sources_witness:
  "\<exists>keep. length keep = length ex_sources
     \<and> md_unassigned_contexts ex_decision
       = map ContextMetadata_to_dict (map fst (filter (Not \<circ> snd) (zip ex_sources keep)))"
  using plans_and_unassigned_cover_sources [OF ex_plan] by blast

theorem plans_respect_capacity_witness:
  "int (length (filter (\<lambda>p. mp_new_instance_id p = ''b'') (md_plans ex_decision))) \<le> 1"
  using plans_respect_capacity [OF ex_plan, of "''b''"] by (simp add: ex_targets_def ex_target_def)

theorem reuse_ratio_bounds_witness: "0 \<le> md_reuse_ratio ex_decision \<and> md_reuse_ratio ex_decision \<le> 1"
proof -
  have "\<forall>s \<in> set ex_sources. 0 \<le> cm_num_tokens s \<and> 0 \<le> cm_context_blocks s"
    by (simp add: ex_sources_def ex_source_def)
  from reuse_ratio_bounds [OF ex_plan this] show ?thesis .
qed

theorem expert_dispatch_accounting_witness:
  "ed_available ex_dispatch \<and> ed_routed_tokens ex_dispatch = 4
    \<and> ed_local_routed_tokens ex_dispatch + ed_remote_routed_tokens ex_dispatch = 4"
proof -
  have "ed_available ex_dispatch" "ed_routed_tokens ex_dispatch = 4" by code_simp+
  with expert_dispatch_accounting [OF ex_dispatch] show ?thesis by simp
qed

theorem queue_penalty_monotone_witness: "qp_cost (ex_queue 0) \<le> qp_cost (ex_queue 2)"
  using queue_penalty_monotone [OF ex_queue(1) ex_queue(2)] by simp

theorem context_metadata_roundtrip_witness:
  "ContextMetadata_from_dict (ContextMetadata_to_dict ex_moe_source) = Inr ex_moe_source"
  by (rule context_metadata_roundtrip)
    (simp add: well_formed_context_def ex_moe_source_def ex_source_def)

theorem migration_target_roundtrip_witness:
  "MigrationTarget_from_dict (MigrationTarget_to_dict ex_moe_target) = Inr ex_moe_target"
  by (rule migration_target_roundtrip) (simp_all add: ex_moe_target_def ex_target_def)

theorem plan_low_cost_migration_returns_witness:
  "\<exists>d. plan_low_cost_migration [ex_moe_source] [ex_moe_target] ex_moe_config = Inr d
    \<and> md_action d = (if md_plans d \<noteq> [] then ''migrate'' else ''no_target_capacity'')"
proof -
  have "numeric_config ex_moe_config" "\<forall>s \<in> set [ex_moe_source]. plain_id s"
    by (simp_all add: numeric_config_def numeric_def ex_moe_config_def plain_id_def
        ex_moe_source_def ex_source_def)
  from plan_low_cost_migration_returns [OF this, of "[ex_moe_target]"] show ?thesis by simp
qed

end
