(* ===== verification/Stateful_Recovery.thy ===== *)
theory Stateful_Recovery
  imports Context_Migration
begin

text \<open>
  Stateful recovery, \<open>src/sllm/spot/stateful_recovery.py\<close>: the inference state a backend
  exported before its instance went away, the checks that a ready instance may restore it, the
  choice of the restore target, and the decision between restoring the state, replaying tokens
  and retrying from scratch. Candidates are the dictionaries the router collects. The score of a
  candidate and the outcome of the target search, dictionaries with fixed keys in the source, are
  records with a function that gives the dictionary.
\<close>

section \<open>The exported state\<close>

record inference_state =
  is_request_id :: pyval
  is_instance_id :: string
  is_node_id :: string
  is_backend :: string
  is_model_name :: string
  is_tokens :: "int list"
  is_completed_tokens :: int
  is_state_kind :: string
  is_supports_restore :: bool
  is_metadata :: dict
  is_runtime_state :: dict

definition token_list :: "pyval \<Rightarrow> int list res" where
  "token_list tokens =
     (case tokens of
        PList [] \<Rightarrow> Inr []
      | PList (PList inner # _) \<Rightarrow> rmap py_int inner
      | PList xs \<Rightarrow> rmap py_int xs
      | _ \<Rightarrow> Inr [])"

definition InferenceState_from_dict :: "dict \<Rightarrow> inference_state res" where
  "InferenceState_from_dict payload =
     rbind (token_list (dgetn payload ''tokens'')) (\<lambda>tokens.
     rbind (py_int (por (dget payload ''completed_tokens'' (PInt (int (length tokens)))) (PInt 0)))
       (\<lambda>completed_tokens.
     rbind (py_dict (por (dget payload ''metadata'' (PDict [])) (PDict []))) (\<lambda>metadata.
     rbind (py_dict (por (dget payload ''runtime_state'' (PDict [])) (PDict []))) (\<lambda>runtime_state.
     Inr \<lparr>is_request_id = dgetn payload ''request_id'',
          is_instance_id = py_str (dget payload ''instance_id'' (PStr '''')),
          is_node_id = py_str (dget payload ''node_id'' (PStr '''')),
          is_backend = py_str (dget payload ''backend'' (PStr '''')),
          is_model_name = py_str (dget payload ''model_name'' (PStr '''')),
          is_tokens = tokens,
          is_completed_tokens = max 0 completed_tokens,
          is_state_kind = py_str (dget payload ''state_kind'' (PStr ''token_snapshot'')),
          is_supports_restore = truthy (dget payload ''supports_restore'' (PBool False)),
          is_metadata = metadata,
          is_runtime_state = runtime_state\<rparr>))))"

definition InferenceState_from_tokens ::
  "int list \<Rightarrow> pyval \<Rightarrow> string \<Rightarrow> string \<Rightarrow> string \<Rightarrow> string \<Rightarrow> int option \<Rightarrow> string \<Rightarrow> bool
   \<Rightarrow> dict \<Rightarrow> dict \<Rightarrow> inference_state" where
  "InferenceState_from_tokens tokens request_id instance_id node_id backend model_name
     completed_tokens state_kind supports_restore metadata runtime_state =
     \<lparr>is_request_id = request_id,
      is_instance_id = instance_id,
      is_node_id = node_id,
      is_backend = backend,
      is_model_name = model_name,
      is_tokens = tokens,
      is_completed_tokens =
        (case completed_tokens of None \<Rightarrow> int (length tokens) | Some n \<Rightarrow> max 0 n),
      is_state_kind = state_kind,
      is_supports_restore = supports_restore,
      is_metadata = metadata,
      is_runtime_state = runtime_state\<rparr>"

definition InferenceState_to_dict :: "inference_state \<Rightarrow> dict" where
  "InferenceState_to_dict self =
     [(''request_id'', is_request_id self),
      (''instance_id'', PStr (is_instance_id self)),
      (''node_id'', PStr (is_node_id self)),
      (''backend'', PStr (is_backend self)),
      (''model_name'', PStr (is_model_name self)),
      (''tokens'', PList (map PInt (is_tokens self))),
      (''completed_tokens'', PInt (is_completed_tokens self)),
      (''state_kind'', PStr (is_state_kind self)),
      (''supports_restore'', PBool (is_supports_restore self)),
      (''metadata'', PDict (is_metadata self)),
      (''runtime_state'', PDict (is_runtime_state self))]"

section \<open>Plans and decisions\<close>

record state_recovery_plan =
  sp_request_id :: pyval
  sp_action :: string
  sp_source_instance_id :: string
  sp_target_instance_id :: string
  sp_recovered_tokens :: int
  sp_state_kind :: string
  sp_fallback_policy :: string
  sp_reason :: string
  sp_target_selection :: dict

definition selected_keys :: "string list" where
  "selected_keys =
     [''model_semantic_compatible'', ''state_serialization_compatible'', ''kv_layout_compatible'',
      ''kv_restore_compatible'', ''ep_layout_required'', ''ep_layout_compatible'',
      ''expert_placement_mismatch'', ''expert_locality_available'', ''hot_expert_locality_ratio'',
      ''estimated_remote_routing_ratio'', ''estimated_remote_routed_tokens'',
      ''expert_dispatch_cost'', ''moe_route_histogram_source'', ''moe_route_histogram_kind'']"

definition StateRecoveryPlan_to_dict :: "state_recovery_plan \<Rightarrow> dict" where
  "StateRecoveryPlan_to_dict self =
     (let payload =
        [(''request_id'', sp_request_id self),
         (''action'', PStr (sp_action self)),
         (''source_instance_id'', PStr (sp_source_instance_id self)),
         (''target_instance_id'', PStr (sp_target_instance_id self)),
         (''recovered_tokens'', PInt (sp_recovered_tokens self)),
         (''state_kind'', PStr (sp_state_kind self)),
         (''fallback_policy'', PStr (sp_fallback_policy self)),
         (''reason'', PStr (sp_reason self))]
      in if sp_target_selection self = [] then payload
         else let payload = AList.update ''target_selection'' (PDict (sp_target_selection self)) payload
           in case dgetn (sp_target_selection self) ''selected_candidate'' of
                PDict selected \<Rightarrow>
                  fold (\<lambda>key p. if dhas selected key then AList.update key (dgetn selected key) p else p)
                    selected_keys payload
              | _ \<Rightarrow> payload)"

record state_recovery_decision =
  sd_action :: string
  sd_plan :: state_recovery_plan
  sd_state_available :: bool
  sd_restore_supported :: bool
  sd_fallback_used :: bool
  sd_recovered_tokens :: int
  sd_reason :: string

definition StateRecoveryDecision_to_dict :: "state_recovery_decision \<Rightarrow> dict" where
  "StateRecoveryDecision_to_dict self =
     [(''action'', PStr (sd_action self)),
      (''plan'', PDict (StateRecoveryPlan_to_dict (sd_plan self))),
      (''state_available'', PBool (sd_state_available self)),
      (''restore_supported'', PBool (sd_restore_supported self)),
      (''fallback_used'', PBool (sd_fallback_used self)),
      (''recovered_tokens'', PInt (sd_recovered_tokens self)),
      (''reason'', PStr (sd_reason self))]"

section \<open>Compatibility checks\<close>

definition candidate_value :: "dict \<Rightarrow> string \<Rightarrow> pyval" where
  "candidate_value candidate key =
     (if dhas candidate key then dgetn candidate key
      else let profile = dgetn candidate ''model_resource_profile'';
               v = (if is_mapping profile then dgetn (dict_of profile) key else PNone)
        in if v \<noteq> PNone then v
           else let metadata = dgetn candidate ''metadata''
             in if is_mapping metadata then dgetn (dict_of metadata) key else PNone)"

definition state_value :: "inference_state \<Rightarrow> string \<Rightarrow> pyval" where
  "state_value state key =
     (if key = ''model_name'' then PStr (is_model_name state)
      else if key = ''backend'' then PStr (is_backend state)
      else dgetn (is_metadata state) key)"

fun boolish :: "pyval \<Rightarrow> bool" where
  "boolish (PStr s) = flag_text s"
| "boolish v = truthy v"

text \<open>
  The comparison every check makes for a key: a field one side does not expose is skipped, a
  field both sides expose must agree as text.
\<close>

definition mismatch :: "inference_state \<Rightarrow> dict \<Rightarrow> string \<Rightarrow> bool" where
  "mismatch state candidate key =
     (let source_value = state_value state key; target_value = candidate_value candidate key in
      source_value \<noteq> PNone \<and> target_value \<noteq> PNone \<and> py_str source_value \<noteq> py_str target_value)"

text \<open>The loops that return \<open><key>_mismatch\<close> for the first key that differs.\<close>

definition check_keys ::
  "inference_state \<Rightarrow> dict \<Rightarrow> string list \<Rightarrow> string \<Rightarrow> bool \<times> string" where
  "check_keys state candidate keys ok_reason =
     (case filter (mismatch state candidate) keys of
        [] \<Rightarrow> (True, ok_reason)
      | key # _ \<Rightarrow> (False, key @ ''_mismatch''))"

definition model_semantic_keys :: "string list" where
  "model_semantic_keys =
     [''model_revision'', ''tokenizer_revision'', ''gate_model_revision'', ''moe_backend'']"

definition model_semantic_compatible :: "inference_state \<Rightarrow> dict \<Rightarrow> bool \<times> string" where
  "model_semantic_compatible state candidate =
     (if py_str (por (candidate_value candidate ''backend'') (PStr '''')) \<notin> {'''', is_backend state}
      then (False, ''backend_mismatch'')
      else let candidate_model = candidate_value candidate ''model_name'' in
        if truthy candidate_model \<and> is_model_name state \<noteq> ''''
           \<and> py_str candidate_model \<noteq> is_model_name state
        then (False, ''model_mismatch'')
        else check_keys state candidate model_semantic_keys ''compatible_model_semantics'')"

definition state_serialization_compatible :: "inference_state \<Rightarrow> dict \<Rightarrow> bool \<times> string" where
  "state_serialization_compatible state candidate =
     (if \<not> is_supports_restore state \<or> is_state_kind state \<noteq> ''vllm_kv_snapshot''
      then (False, ''state_restore_not_advertised'')
      else let kinds = candidate_value candidate ''supported_state_kinds'';
               kind = candidate_value candidate ''state_kind'';
               rest = check_keys state candidate
                 [''sampling_state_encoding'', ''request_metadata_encoding'']
                 ''compatible_state_serialization''
        in if is_sequence kinds then
             (if is_state_kind state
                 \<notin> set (map py_str (case kinds of PList xs \<Rightarrow> xs | PTuple xs \<Rightarrow> xs | _ \<Rightarrow> []))
              then (False, ''state_kind_unsupported'') else rest)
           else if truthy kind then
             (if py_str kind \<noteq> '''' \<and> py_str kind \<noteq> is_state_kind state
              then (False, ''state_kind_mismatch'') else rest)
           else rest)"

definition kv_layout_keys :: "string list" where
  "kv_layout_keys =
     [''tensor_parallel_size'', ''pipeline_parallel_size'', ''cache_block_size'', ''cache_dtype'',
      ''cache_layout'', ''cache_config_fingerprint'', ''cache_engine'', ''kv_connector'']"

definition kv_layout_compatible :: "inference_state \<Rightarrow> dict \<Rightarrow> bool \<times> string" where
  "kv_layout_compatible state candidate =
     check_keys state candidate kv_layout_keys ''compatible_kv_layout''"

record ep_check =
  ep_compatible :: bool
  ep_reason :: string
  ep_required :: bool
  ep_mismatch_keys :: "string list"

definition ep_layout_keys :: "string list" where
  "ep_layout_keys =
     [''effective_expert_parallel_size'', ''expert_parallel_enabled'',
      ''expert_placement_fingerprint'']"

definition ep_layout_compatible :: "inference_state \<Rightarrow> dict \<Rightarrow> ep_check" where
  "ep_layout_compatible state candidate =
     (let required = (boolish (state_value state ''state_restore_requires_ep_layout'')
            \<or> boolish (candidate_value candidate ''state_restore_requires_ep_layout''));
          keys = filter (mismatch state candidate) ep_layout_keys
      in if required then
           (case keys of
              key # _ \<Rightarrow> \<lparr>ep_compatible = False, ep_reason = key @ ''_mismatch'', ep_required = True,
                           ep_mismatch_keys = keys\<rparr>
            | [] \<Rightarrow> \<lparr>ep_compatible = True, ep_reason = ''compatible_ep_layout'', ep_required = True,
                     ep_mismatch_keys = []\<rparr>)
         else \<lparr>ep_compatible = True,
               ep_reason = (if keys \<noteq> [] then ''ep_layout_mismatch_is_locality_only''
                            else ''ep_layout_not_required''),
               ep_required = False, ep_mismatch_keys = keys\<rparr>)"

section \<open>Scoring a candidate\<close>

definition merged_candidate_metadata :: "dict \<Rightarrow> dict" where
  "merged_candidate_metadata candidate =
     (let profile = dgetn candidate ''model_resource_profile'';
          nested = dgetn candidate ''metadata'';
          m = (if is_mapping profile then dmerge [] (dict_of profile) else []);
          m = (if is_mapping nested then dmerge m (dict_of nested) else m)
      in dmerge m (filter (\<lambda>(k, _). k \<notin> {''model_resource_profile'', ''metadata''}) candidate))"

definition state_context_metadata :: "inference_state \<Rightarrow> context_metadata res" where
  "state_context_metadata state =
     (let metadata = is_metadata state in
      rbind (except_tv (int_or_zero metadata ''kv_block_count'') (Inr 0)) (\<lambda>context_blocks.
      Inr \<lparr>cm_request_id = is_request_id state,
           cm_instance_id = is_instance_id state,
           cm_node_id = is_node_id state,
           cm_num_tokens = (if is_completed_tokens state \<noteq> 0 then is_completed_tokens state
                            else int (length (is_tokens state))),
           cm_context_blocks = max 0 context_blocks,
           cm_tokens = is_tokens state,
           cm_cache_block_size = 0, cm_cache_dtype = '''', cm_cache_layout = '''',
           cm_reusable_tokens_by_target = [], cm_reusable_blocks_by_target = [],
           cm_metadata = metadata\<rparr>))"

definition candidate_migration_target :: "dict \<Rightarrow> migration_target res" where
  "candidate_migration_target candidate =
     rbind (float_or_zero candidate ''warmup_cost'') (\<lambda>warmup_cost.
     rbind (int_or_zero candidate ''concurrency'') (\<lambda>concurrency.
     Inr \<lparr>mt_instance_id = py_str (dget candidate ''instance_id'' (PStr '''')),
          mt_node_id = str_or_empty candidate ''node_id'',
          mt_capacity = 1,
          mt_warmup_cost = warmup_cost,
          mt_concurrency = max 0 concurrency,
          mt_max_queue_length = 0, mt_queue_depth = None, mt_queue_penalty = 0,
          mt_metadata = merged_candidate_metadata candidate\<rparr>))"

definition expert_recovery_locality :: "inference_state \<Rightarrow> dict \<Rightarrow> dict \<Rightarrow> expert_dispatch res" where
  "expert_recovery_locality state candidate planner_config =
     rbind (state_context_metadata state) (\<lambda>source.
     rbind (candidate_migration_target candidate) (\<lambda>target.
     estimate_expert_dispatch_cost source target planner_config))"

definition locality_dict :: "expert_dispatch \<Rightarrow> dict" where
  "locality_dict e =
     [(''expert_locality_available'', PBool (ed_available e)),
      (''hot_expert_locality_ratio'', PFloat (ed_locality_ratio e)),
      (''estimated_remote_routing_ratio'', PFloat (ed_estimated_remote_routing_ratio e)),
      (''estimated_remote_routed_tokens'', PInt (ed_estimated_remote_routed_tokens e)),
      (''expert_dispatch_cost'', PFloat (ed_cost e)),
      (''moe_dispatch_observation_available'', PBool (ed_dispatch_observation_available e)),
      (''moe_routed_tokens'', PInt (ed_routed_tokens e)),
      (''moe_local_routed_tokens'', PInt (ed_local_routed_tokens e)),
      (''moe_remote_routed_tokens'', PInt (ed_remote_routed_tokens e)),
      (''moe_local_routing_ratio'', PFloat (ed_local_routing_ratio e)),
      (''moe_remote_routing_ratio'', PFloat (ed_remote_routing_ratio e)),
      (''moe_local_routed_tokens_by_expert'', of_counts (ed_local_routed_tokens_by_expert e)),
      (''moe_remote_routed_tokens_by_expert'', of_counts (ed_remote_routed_tokens_by_expert e)),
      (''moe_local_routed_tokens_by_layer'', of_counts (ed_local_routed_tokens_by_layer e)),
      (''moe_remote_routed_tokens_by_layer'', of_counts (ed_remote_routed_tokens_by_layer e)),
      (''moe_locality_definition'', PStr (ed_locality_definition e)),
      (''moe_locality_granularity'', PStr (ed_locality_granularity e)),
      (''moe_remote_routing_definition'', PStr (ed_remote_routing_definition e)),
      (''moe_rank_locality_available'', PBool (ed_rank_locality_available e)),
      (''moe_physical_dispatch_traffic_available'', PBool (ed_physical_dispatch_traffic_available e)),
      (''moe_route_histogram_source'', PStr (if ed_route_histogram_source e = '''' then ''unavailable'' else ed_route_histogram_source e)),
      (''moe_route_histogram_kind'', PStr (if ed_route_histogram_kind e = '''' then ''unavailable'' else ed_route_histogram_kind e))]"

record restore_score =
  rs_instance_id :: string
  rs_node_id :: string
  rs_same_node :: bool
  rs_model_semantic_compatible :: bool
  rs_model_semantic_reason :: string
  rs_state_serialization_compatible :: bool
  rs_state_serialization_reason :: string
  rs_kv_layout_compatible :: bool
  rs_kv_layout_reason :: string
  rs_kv_restore_compatible :: bool
  rs_ep_layout_required :: bool
  rs_ep_layout_compatible :: bool
  rs_ep_layout_reason :: string
  rs_ep_layout_mismatch_keys :: "string list"
  rs_expert_placement_mismatch :: bool
  rs_restore_scope_cost :: rat
  rs_warmup_cost :: rat
  rs_concurrency :: int
  rs_total_estimated_cost :: rat
  rs_placement_marker :: placement_marker
  rs_locality :: expert_dispatch

definition candidate_restore_score :: "inference_state \<Rightarrow> dict \<Rightarrow> dict \<Rightarrow> restore_score res" where
  "candidate_restore_score state candidate planner_config =
     (let model_check = model_semantic_compatible state candidate;
          serialization_check = state_serialization_compatible state candidate;
          kv_check = kv_layout_compatible state candidate;
          ep_chk = ep_layout_compatible state candidate;
          source_node = is_node_id state;
          target_node = str_or_empty candidate ''node_id'';
          same_node = (source_node \<noteq> '''' \<and> target_node \<noteq> '''' \<and> source_node = target_node)
      in rbind (expert_recovery_locality state candidate planner_config) (\<lambda>locality.
         rbind (candidate_migration_target candidate) (\<lambda>target.
         rbind (if same_node then Inr 0
                else py_float (por (dget planner_config ''cross_node_restore_cost'' (PFloat 1))
                       (PFloat 0))) (\<lambda>scope_cost.
         rbind (float_or_zero candidate ''warmup_cost'') (\<lambda>warmup_cost.
         rbind (int_or_zero candidate ''concurrency'') (\<lambda>raw_concurrency.
         rbind (float_or_zero planner_config ''concurrency_weight'') (\<lambda>concurrency_weight.
         let concurrency = max 0 raw_concurrency in
         Inr \<lparr>rs_instance_id = py_str (dget candidate ''instance_id'' (PStr '''')),
              rs_node_id = target_node,
              rs_same_node = same_node,
              rs_model_semantic_compatible = fst model_check,
              rs_model_semantic_reason = snd model_check,
              rs_state_serialization_compatible = fst serialization_check,
              rs_state_serialization_reason = snd serialization_check,
              rs_kv_layout_compatible = fst kv_check,
              rs_kv_layout_reason = snd kv_check,
              rs_kv_restore_compatible = (fst model_check \<and> fst serialization_check
                \<and> fst kv_check \<and> ep_compatible ep_chk),
              rs_ep_layout_required = ep_required ep_chk,
              rs_ep_layout_compatible = ep_compatible ep_chk,
              rs_ep_layout_reason = ep_reason ep_chk,
              rs_ep_layout_mismatch_keys = ep_mismatch_keys ep_chk,
              rs_expert_placement_mismatch = (ep_mismatch_keys ep_chk \<noteq> []),
              rs_restore_scope_cost = scope_cost,
              rs_warmup_cost = warmup_cost,
              rs_concurrency = concurrency,
              rs_total_estimated_cost = scope_cost + warmup_cost + ed_cost locality
                + concurrency_weight * of_int concurrency,
              rs_placement_marker = target_placement_marker target,
              rs_locality = locality\<rparr>)))))))"

definition restore_score_dict :: "restore_score \<Rightarrow> dict" where
  "restore_score_dict s =
     [(''instance_id'', PStr (rs_instance_id s)),
      (''node_id'', PStr (rs_node_id s)),
      (''same_node'', PBool (rs_same_node s)),
      (''model_semantic_compatible'', PBool (rs_model_semantic_compatible s)),
      (''model_semantic_reason'', PStr (rs_model_semantic_reason s)),
      (''state_serialization_compatible'', PBool (rs_state_serialization_compatible s)),
      (''state_serialization_reason'', PStr (rs_state_serialization_reason s)),
      (''kv_layout_compatible'', PBool (rs_kv_layout_compatible s)),
      (''kv_layout_reason'', PStr (rs_kv_layout_reason s)),
      (''kv_restore_compatible'', PBool (rs_kv_restore_compatible s)),
      (''ep_layout_required'', PBool (rs_ep_layout_required s)),
      (''ep_layout_compatible'', PBool (rs_ep_layout_compatible s)),
      (''ep_layout_reason'', PStr (rs_ep_layout_reason s)),
      (''ep_layout_mismatch_keys'', PList (map PStr (rs_ep_layout_mismatch_keys s))),
      (''expert_placement_mismatch'', PBool (rs_expert_placement_mismatch s)),
      (''restore_scope_cost'', PFloat (rs_restore_scope_cost s)),
      (''warmup_cost'', PFloat (rs_warmup_cost s)),
      (''concurrency'', PInt (rs_concurrency s)),
      (''total_estimated_cost'', PFloat (rs_total_estimated_cost s))]
     @ placement_marker_dict (rs_placement_marker s) @ locality_dict (rs_locality s)"

section \<open>Choosing the restore target\<close>

text \<open>
  The loop sorts each candidate into one of three groups: not considered, rejected with a
  reason, or ranked under the key the source sorts by.
\<close>

type_synonym rank_key = "rat \<times> int \<times> rat \<times> int \<times> string"

record target_search =
  ts_ranked :: "(rank_key \<times> restore_score) list"
  ts_rejected :: "(string \<times> string \<times> restore_score option) list"

definition incompatibility :: "restore_score \<Rightarrow> string" where
  "incompatibility score =
     (if \<not> rs_ep_layout_compatible score then rs_ep_layout_reason score
      else if \<not> rs_kv_layout_compatible score then rs_kv_layout_reason score
      else if \<not> rs_state_serialization_compatible score then rs_state_serialization_reason score
      else rs_model_semantic_reason score)"

definition rank_key_of :: "inference_state \<Rightarrow> dict \<Rightarrow> restore_score \<Rightarrow> rank_key" where
  "rank_key_of state candidate score =
     (rs_total_estimated_cost score,
      if is_node_id state = str_or_empty candidate ''node_id'' then 0 else 1,
      rs_warmup_cost score, rs_concurrency score,
      py_str (dget candidate ''instance_id'' (PStr '''')))"

definition consider_candidate ::
  "inference_state \<Rightarrow> string \<Rightarrow> dict \<Rightarrow> dict \<Rightarrow> target_search \<Rightarrow> target_search res" where
  "consider_candidate state source_instance_id planner_config candidate search =
     (let instance_id = py_str (dget candidate ''instance_id'' (PStr ''''));
          source_node = is_node_id state;
          target_node = str_or_empty candidate ''node_id'';
          reject = (\<lambda>reason score. search\<lparr>ts_rejected :=
            ts_rejected search @ [(instance_id, reason, score)]\<rparr>)
      in if instance_id = '''' \<or> instance_id = source_instance_id then Inr search
         else if \<not> truthy (dget candidate ''ready'' (PBool False)) then Inr search
         else if \<not> truthy (dget candidate ''supports_state_restore'' (PBool False))
           then Inr (reject ''target_restore_unsupported'' None)
         else if source_node \<noteq> '''' \<and> target_node \<noteq> '''' \<and> source_node \<noteq> target_node
              \<and> \<not> truthy (dget (is_metadata state) ''can_restore_cross_node'' (PBool False))
           then Inr (reject ''cross_node_restore_unsupported'' None)
         else rbind (candidate_restore_score state candidate planner_config) (\<lambda>score.
           if \<not> rs_kv_restore_compatible score then Inr (reject (incompatibility score) (Some score))
           else Inr (search\<lparr>ts_ranked :=
             ts_ranked search @ [(rank_key_of state candidate score, score)]\<rparr>)))"

text \<open>
  \<open>ranked.sort()\<close> compares whole tuples, and the last component is a dictionary: two entries
  that agree up to the instance id but carry different scores raise a \<open>TypeError\<close>. Two
  dictionaries are equal whatever the order of their keys, also of the token counts inside.
\<close>

definition unordered_score :: "restore_score \<Rightarrow> dict" where
  "unordered_score s =
     (let e = rs_locality s in restore_score_dict (s\<lparr>rs_locality := e\<lparr>
        ed_local_routed_tokens_by_expert := sort_key fst (ed_local_routed_tokens_by_expert e),
        ed_remote_routed_tokens_by_expert := sort_key fst (ed_remote_routed_tokens_by_expert e),
        ed_local_routed_tokens_by_layer := sort_key fst (ed_local_routed_tokens_by_layer e),
        ed_remote_routed_tokens_by_layer := sort_key fst (ed_remote_routed_tokens_by_layer e)\<rparr>\<rparr>))"

definition tie_conflict :: "(rank_key \<times> restore_score) list \<Rightarrow> bool" where
  "tie_conflict ranked =
     list_ex (\<lambda>x. list_ex (\<lambda>y. fst x = fst y
       \<and> unordered_score (snd x) \<noteq> unordered_score (snd y)) ranked) ranked"

datatype target_selection =
    Fallback_Token_Replay string "(string \<times> string \<times> restore_score option) list"
  | Restore_State "(rank_key \<times> restore_score) list" "(string \<times> string \<times> restore_score option) list"

fun selected_target :: "target_selection \<Rightarrow> string option" where
  "selected_target (Restore_State ((key, score) # _) _) = Some (snd (snd (snd (snd key))))"
| "selected_target _ = None"

definition plan_compatible_state_target ::
  "inference_state \<Rightarrow> dict list \<Rightarrow> string \<Rightarrow> dict \<Rightarrow> target_selection res" where
  "plan_compatible_state_target state candidates source_instance_id planner_config =
     (if \<not> is_supports_restore state \<or> is_state_kind state \<noteq> ''vllm_kv_snapshot''
      then Inr (Fallback_Token_Replay ''state_restore_not_advertised'' [])
      else rbind (rfold (consider_candidate state source_instance_id planner_config) candidates
                    \<lparr>ts_ranked = [], ts_rejected = []\<rparr>) (\<lambda>search.
        if ts_ranked search = []
        then Inr (Fallback_Token_Replay ''no_compatible_ready_target'' (ts_rejected search))
        else if tie_conflict (ts_ranked search) then Inl TypeError
        else Inr (Restore_State (sort_key fst (ts_ranked search)) (ts_rejected search))))"

definition rejected_dict :: "string \<times> string \<times> restore_score option \<Rightarrow> pyval" where
  "rejected_dict r =
     (case r of (instance_id, reason, score) \<Rightarrow>
        PDict ([(''instance_id'', PStr instance_id), (''reason'', PStr reason)]
          @ (case score of None \<Rightarrow> [] | Some s \<Rightarrow> [(''compatibility'', PDict (restore_score_dict s))])))"

definition ranked_dict :: "nat \<times> rank_key \<times> restore_score \<Rightarrow> pyval" where
  "ranked_dict r =
     (case r of (index, key, score) \<Rightarrow>
        PDict [(''instance_id'', PStr (snd (snd (snd (snd key))))), (''rank'', PInt (int index)),
               (''compatibility'', PDict (restore_score_dict score))])"

fun target_selection_dict :: "target_selection \<Rightarrow> dict" where
  "target_selection_dict (Fallback_Token_Replay reason rejected) =
     [(''action'', PStr ''fallback_token_replay''),
      (''target_instance_id'', PNone),
      (''reason'', PStr reason),
      (''candidates'', PList (map rejected_dict rejected))]"
| "target_selection_dict (Restore_State ranked rejected) =
     [(''action'', PStr ''restore_state''),
      (''target_instance_id'', of_opt_str (selected_target (Restore_State ranked rejected))),
      (''reason'', PStr ''planner_selected_compatible_ready_target''),
      (''selected_candidate'', PDict (restore_score_dict (snd (hd ranked)) @ [(''rank'', PInt 0)])),
      (''candidates'', PList (map ranked_dict (zip [0..<length ranked] ranked))),
      (''rejected_candidates'', PList (map rejected_dict rejected)),
      (''accepted_candidate_count'', PInt (int (length ranked))),
      (''rejected_candidate_count'', PInt (int (length rejected)))]"

section \<open>Restore, replay or retry\<close>

definition decision_reason :: "string \<Rightarrow> string \<Rightarrow> string" where
  "decision_reason reason specific = (if reason \<noteq> ''stateful_recovery'' then reason else specific)"

definition plan_stateful_recovery ::
  "pyval \<Rightarrow> string \<Rightarrow> string \<Rightarrow> inference_state option \<Rightarrow> bool \<Rightarrow> string \<Rightarrow> string \<Rightarrow> dict
   \<Rightarrow> state_recovery_decision" where
  "plan_stateful_recovery request_id source_instance_id target_instance_id state restore_supported
     fallback_policy reason target_selection =
     (let retry =
        \<lparr>sd_action = ''retry'',
         sd_plan = \<lparr>sp_request_id = request_id, sp_action = ''retry'',
           sp_source_instance_id = source_instance_id, sp_target_instance_id = target_instance_id,
           sp_recovered_tokens = 0, sp_state_kind = '''', sp_fallback_policy = ''naive_retry'',
           sp_reason = ''no_state_available'', sp_target_selection = target_selection\<rparr>,
         sd_state_available = False, sd_restore_supported = restore_supported,
         sd_fallback_used = True, sd_recovered_tokens = 0,
         sd_reason = decision_reason reason ''no_state_available''\<rparr>
      in case state of
           None \<Rightarrow> retry
         | Some st \<Rightarrow>
             if is_tokens st = [] then retry
             else let recovered_tokens = (if is_completed_tokens st \<noteq> 0 then is_completed_tokens st
                                          else int (length (is_tokens st))) in
               if restore_supported \<and> is_supports_restore st then
                 \<lparr>sd_action = ''restore_state'',
                  sd_plan = \<lparr>sp_request_id = request_id, sp_action = ''restore_state'',
                    sp_source_instance_id = source_instance_id,
                    sp_target_instance_id = target_instance_id,
                    sp_recovered_tokens = recovered_tokens, sp_state_kind = is_state_kind st,
                    sp_fallback_policy = '''', sp_reason = ''backend_state_restore'',
                    sp_target_selection = target_selection\<rparr>,
                  sd_state_available = True, sd_restore_supported = True, sd_fallback_used = False,
                  sd_recovered_tokens = recovered_tokens,
                  sd_reason = decision_reason reason ''backend_state_restore''\<rparr>
               else
                 \<lparr>sd_action = ''fallback_token_replay'',
                  sd_plan = \<lparr>sp_request_id = request_id, sp_action = ''fallback_token_replay'',
                    sp_source_instance_id = source_instance_id,
                    sp_target_instance_id = target_instance_id,
                    sp_recovered_tokens = recovered_tokens, sp_state_kind = is_state_kind st,
                    sp_fallback_policy = fallback_policy, sp_reason = ''state_restore_unsupported'',
                    sp_target_selection = target_selection\<rparr>,
                  sd_state_available = True, sd_restore_supported = False, sd_fallback_used = True,
                  sd_recovered_tokens = recovered_tokens,
                  sd_reason = decision_reason reason ''state_restore_unsupported''\<rparr>)"

end
