(* ===== verification/Stateful_Recovery_Props.thy ===== *)
theory Stateful_Recovery_Props
  imports Stateful_Recovery
begin

text \<open>
  Properties of stateful recovery: which candidate may be chosen as a restore target and which
  one is, what the chosen target and the exported state agree on, when the search falls back,
  and the decision between restoring, replaying and retrying.
\<close>

section \<open>What makes a candidate a restore target\<close>

definition candidate_id :: "dict \<Rightarrow> string" where
  "candidate_id candidate = py_str (dget candidate ''instance_id'' (PStr ''''))"

definition may_cross :: "inference_state \<Rightarrow> dict \<Rightarrow> bool" where
  "may_cross state candidate \<longleftrightarrow>
     is_node_id state = '''' \<or> str_or_empty candidate ''node_id'' = ''''
     \<or> is_node_id state = str_or_empty candidate ''node_id''
     \<or> truthy (dget (is_metadata state) ''can_restore_cross_node'' (PBool False))"

definition eligible :: "inference_state \<Rightarrow> string \<Rightarrow> dict \<Rightarrow> bool" where
  "eligible state source_instance_id candidate \<longleftrightarrow>
     candidate_id candidate \<noteq> '''' \<and> candidate_id candidate \<noteq> source_instance_id
     \<and> truthy (dget candidate ''ready'' (PBool False))
     \<and> truthy (dget candidate ''supports_state_restore'' (PBool False))
     \<and> may_cross state candidate
     \<and> fst (model_semantic_compatible state candidate)
     \<and> fst (state_serialization_compatible state candidate)
     \<and> fst (kv_layout_compatible state candidate)
     \<and> ep_compatible (ep_layout_compatible state candidate)"

text \<open>A field agrees when a side does not expose it or both show the same text.\<close>

definition agrees :: "inference_state \<Rightarrow> dict \<Rightarrow> string \<Rightarrow> bool" where
  "agrees state candidate key \<longleftrightarrow>
     state_value state key = PNone \<or> candidate_value candidate key = PNone
     \<or> py_str (state_value state key) = py_str (candidate_value candidate key)"

lemma mismatch_iff: "mismatch state candidate key \<longleftrightarrow> \<not> agrees state candidate key"
  by (simp add: mismatch_def agrees_def Let_def)

lemma check_keys_ok: "fst (check_keys state candidate keys r) \<longleftrightarrow> (\<forall>key \<in> set keys. agrees state candidate key)"
proof (cases "filter (mismatch state candidate) keys")
  case Nil
  then show ?thesis
    by (auto simp: check_keys_def filter_empty_conv mismatch_iff)
next
  case (Cons key rest)
  then have "key \<in> set keys" "mismatch state candidate key"
    using filter_eq_ConsD [OF Cons] by auto
  with Cons show ?thesis by (auto simp: check_keys_def mismatch_iff)
qed

section \<open>The target search\<close>

definition scored :: "inference_state \<Rightarrow> dict \<Rightarrow> dict \<Rightarrow> rank_key \<times> restore_score" where
  "scored state planner_config candidate =
     (let score = projr (candidate_restore_score state candidate planner_config)
      in (rank_key_of state candidate score, score))"

lemma candidate_restore_score_compatible:
  assumes "candidate_restore_score state candidate planner_config = Inr score"
  shows "rs_kv_restore_compatible score \<longleftrightarrow>
     fst (model_semantic_compatible state candidate)
     \<and> fst (state_serialization_compatible state candidate)
     \<and> fst (kv_layout_compatible state candidate)
     \<and> ep_compatible (ep_layout_compatible state candidate)"
proof -
  from assms obtain locality target scope warm conc weight where
    "score = \<lparr>rs_instance_id = py_str (dget candidate ''instance_id'' (PStr '''')),
              rs_node_id = str_or_empty candidate ''node_id'',
              rs_same_node = (is_node_id state \<noteq> '''' \<and> str_or_empty candidate ''node_id'' \<noteq> ''''
                \<and> is_node_id state = str_or_empty candidate ''node_id''),
              rs_model_semantic_compatible = fst (model_semantic_compatible state candidate),
              rs_model_semantic_reason = snd (model_semantic_compatible state candidate),
              rs_state_serialization_compatible = fst (state_serialization_compatible state candidate),
              rs_state_serialization_reason = snd (state_serialization_compatible state candidate),
              rs_kv_layout_compatible = fst (kv_layout_compatible state candidate),
              rs_kv_layout_reason = snd (kv_layout_compatible state candidate),
              rs_kv_restore_compatible = (fst (model_semantic_compatible state candidate)
                \<and> fst (state_serialization_compatible state candidate)
                \<and> fst (kv_layout_compatible state candidate)
                \<and> ep_compatible (ep_layout_compatible state candidate)),
              rs_ep_layout_required = ep_required (ep_layout_compatible state candidate),
              rs_ep_layout_compatible = ep_compatible (ep_layout_compatible state candidate),
              rs_ep_layout_reason = ep_reason (ep_layout_compatible state candidate),
              rs_ep_layout_mismatch_keys = ep_mismatch_keys (ep_layout_compatible state candidate),
              rs_expert_placement_mismatch =
                (ep_mismatch_keys (ep_layout_compatible state candidate) \<noteq> []),
              rs_restore_scope_cost = scope, rs_warmup_cost = warm, rs_concurrency = max 0 conc,
              rs_total_estimated_cost = scope + warm + ed_cost locality + weight * of_int (max 0 conc),
              rs_placement_marker = target_placement_marker target,
              rs_locality = locality\<rparr>"
    unfolding candidate_restore_score_def Let_def rbind_eq_Inr by blast
  then show ?thesis by simp
qed

lemma consider_candidate_step:
  assumes "consider_candidate state source_instance_id planner_config candidate search = Inr search'"
  shows "ts_ranked search' = ts_ranked search @
           (if eligible state source_instance_id candidate
            then [scored state planner_config candidate] else [])"
    and "eligible state source_instance_id candidate \<Longrightarrow>
           \<exists>score. candidate_restore_score state candidate planner_config = Inr score"
proof -
  let ?skip = "candidate_id candidate = '''' \<or> candidate_id candidate = source_instance_id
     \<or> \<not> truthy (dget candidate ''ready'' (PBool False))
     \<or> \<not> truthy (dget candidate ''supports_state_restore'' (PBool False))
     \<or> \<not> may_cross state candidate"
  have "ts_ranked search' = ts_ranked search @
           (if eligible state source_instance_id candidate
            then [scored state planner_config candidate] else [])
     \<and> (eligible state source_instance_id candidate \<longrightarrow>
           (\<exists>score. candidate_restore_score state candidate planner_config = Inr score))"
  proof (cases ?skip)
    case True
    then have "\<not> eligible state source_instance_id candidate" by (auto simp: eligible_def)
    moreover have "ts_ranked search' = ts_ranked search"
      using assms True
      by (auto simp: consider_candidate_def Let_def candidate_id_def may_cross_def split: if_splits)
    ultimately show ?thesis by simp
  next
    case False
    then have eq: "consider_candidate state source_instance_id planner_config candidate search =
        rbind (candidate_restore_score state candidate planner_config) (\<lambda>score.
        if \<not> rs_kv_restore_compatible score
        then Inr (search\<lparr>ts_rejected := ts_rejected search @
               [(candidate_id candidate, incompatibility score, Some score)]\<rparr>)
        else Inr (search\<lparr>ts_ranked :=
               ts_ranked search @ [(rank_key_of state candidate score, score)]\<rparr>))"
      unfolding consider_candidate_def Let_def candidate_id_def may_cross_def by auto
    from assms [unfolded eq rbind_eq_Inr] obtain score
      where score: "candidate_restore_score state candidate planner_config = Inr score"
      and search': "search' = (if \<not> rs_kv_restore_compatible score
        then search\<lparr>ts_rejected := ts_rejected search @
               [(candidate_id candidate, incompatibility score, Some score)]\<rparr>
        else search\<lparr>ts_ranked :=
               ts_ranked search @ [(rank_key_of state candidate score, score)]\<rparr>)"
      by (auto split: if_splits)
    have "eligible state source_instance_id candidate \<longleftrightarrow> rs_kv_restore_compatible score"
      using False candidate_restore_score_compatible [OF score] by (auto simp: eligible_def)
    then show ?thesis using score search' by (simp add: scored_def Let_def)
  qed
  then show "ts_ranked search' = ts_ranked search @
           (if eligible state source_instance_id candidate
            then [scored state planner_config candidate] else [])"
    and "eligible state source_instance_id candidate \<Longrightarrow>
           \<exists>score. candidate_restore_score state candidate planner_config = Inr score"
    by blast+
qed

lemma search_ranks_eligible:
  assumes "rfold (consider_candidate state source_instance_id planner_config) candidates search
     = Inr search'"
  shows "ts_ranked search' = ts_ranked search @
     map (scored state planner_config) (filter (eligible state source_instance_id) candidates)"
  using assms
proof (induction candidates arbitrary: search)
  case Nil
  then show ?case by simp
next
  case (Cons candidate candidates)
  then obtain mid where
    step: "consider_candidate state source_instance_id planner_config candidate search = Inr mid"
    and rest: "rfold (consider_candidate state source_instance_id planner_config) candidates mid
       = Inr search'"
    by auto
  show ?case using Cons.IH [OF rest] consider_candidate_step(1) [OF step] by simp
qed

text \<open>The ranking of the accepted candidates, \<open>ranked.sort()\<close>.\<close>

interpretation restore_rank: ranking
  "sort_key fst :: (rank_key \<times> restore_score) list \<Rightarrow> (rank_key \<times> restore_score) list"
  "\<lambda>x y. fst x \<le> fst y"
  by (rule ranking_sort_key)

lemma plan_target_restore:
  assumes "plan_compatible_state_target state candidates source_instance_id planner_config
     = Inr (Restore_State ranked rejected)"
  shows "ranked = sort_key fst (map (scored state planner_config)
           (filter (eligible state source_instance_id) candidates))"
    and "ranked \<noteq> []"
proof -
  from assms obtain search where
    search: "rfold (consider_candidate state source_instance_id planner_config) candidates
       \<lparr>ts_ranked = [], ts_rejected = []\<rparr> = Inr search"
    and ranked: "ranked = sort_key fst (ts_ranked search)" and ne: "ts_ranked search \<noteq> []"
    unfolding plan_compatible_state_target_def by (auto split: if_splits)
  show "ranked = sort_key fst (map (scored state planner_config)
           (filter (eligible state source_instance_id) candidates))"
    using search_ranks_eligible [OF search] ranked by simp
  show "ranked \<noteq> []" using ranked ne restore_rank.rank_Nil_iff by simp
qed

lemma rank_key_id: "snd (snd (snd (snd (fst (scored state planner_config candidate))))) = candidate_id candidate"
  by (simp add: scored_def rank_key_of_def candidate_id_def Let_def)

lemma selected_eligible:
  assumes "plan_compatible_state_target state candidates source_instance_id planner_config
     = Inr (Restore_State ranked rejected)"
  obtains candidate where "candidate \<in> set candidates"
    and "eligible state source_instance_id candidate"
    and "selected_target (Restore_State ranked rejected) = Some (candidate_id candidate)"
    and "\<And>other. other \<in> set candidates \<Longrightarrow> eligible state source_instance_id other \<Longrightarrow>
           fst (scored state planner_config candidate) \<le> fst (scored state planner_config other)"
proof -
  let ?es = "map (scored state planner_config) (filter (eligible state source_instance_id) candidates)"
  have r: "sort_key fst ?es = ranked" using plan_target_restore(1) [OF assms] by simp
  obtain y ys where y: "ranked = y # ys" using plan_target_restore(2) [OF assms] by (cases ranked) auto
  note best = restore_rank.first_is_best [OF r [unfolded y]]
  from best(1) obtain c where c: "c \<in> set candidates" "eligible state source_instance_id c"
    and yc: "y = scored state planner_config c" by auto
  have "selected_target (Restore_State ranked rejected) = Some (candidate_id c)"
    using rank_key_id [of state planner_config c] unfolding y yc
    by (cases "scored state planner_config c") simp
  moreover have "fst (scored state planner_config c) \<le> fst (scored state planner_config other)"
    if o: "other \<in> set candidates" "eligible state source_instance_id other" for other
    using best(2) [of "scored state planner_config other"] o yc by simp
  ultimately show ?thesis using c by (rule_tac that [of c])
qed

section \<open>Properties\<close>

text \<open>
  C13. A restore target is only ever a candidate that is ready, advertises state restore, is
  another instance than the source, lies on the source's node unless the state may cross nodes,
  and passes the four compatibility checks; and among all such candidates the selected one comes
  first in the order (estimated cost, other node, warm-up, concurrency, instance id).
\<close>

theorem restore_target_eligible_and_cheapest:
  assumes "plan_compatible_state_target state candidates source_instance_id planner_config
     = Inr (Restore_State ranked rejected)"
  shows "\<exists>candidate \<in> set candidates.
     eligible state source_instance_id candidate
     \<and> selected_target (Restore_State ranked rejected) = Some (candidate_id candidate)
     \<and> (\<forall>other \<in> set candidates. eligible state source_instance_id other \<longrightarrow>
          fst (scored state planner_config candidate) \<le> fst (scored state planner_config other))"
proof -
  from selected_eligible [OF assms] obtain candidate where
    "candidate \<in> set candidates" "eligible state source_instance_id candidate"
    "selected_target (Restore_State ranked rejected) = Some (candidate_id candidate)"
    "\<And>other. other \<in> set candidates \<Longrightarrow> eligible state source_instance_id other \<Longrightarrow>
       fst (scored state planner_config candidate) \<le> fst (scored state planner_config other)"
    by metis
  then show ?thesis by blast
qed

lemma eligible_ep_keys:
  assumes "eligible state source_instance_id candidate"
    and "boolish (state_value state ''state_restore_requires_ep_layout'')
       \<or> boolish (candidate_value candidate ''state_restore_requires_ep_layout'')"
  shows "\<forall>key \<in> set ep_layout_keys. agrees state candidate key"
proof -
  have "filter (mismatch state candidate) ep_layout_keys = []"
    using assms unfolding eligible_def ep_layout_compatible_def Let_def
    by (auto split: list.splits)
  then show ?thesis by (simp add: filter_empty_conv mismatch_iff)
qed

lemma eligible_model_keys:
  assumes "eligible state source_instance_id candidate"
  shows "\<forall>key \<in> set model_semantic_keys. agrees state candidate key"
proof -
  have "fst (check_keys state candidate model_semantic_keys ''compatible_model_semantics'')"
    using assms unfolding eligible_def model_semantic_compatible_def Let_def
    by (auto split: if_splits)
  then show ?thesis by (simp only: check_keys_ok)
qed

text \<open>
  The state is never restored on an instance with another cache shape or another model: for
  the selected target every KV layout field and every model revision field that both sides
  expose has the same text, and so have the expert-parallel fields whenever one side declares
  that a restore needs the same expert layout.
\<close>

theorem restore_target_same_layout:
  assumes "plan_compatible_state_target state candidates source_instance_id planner_config
     = Inr (Restore_State ranked rejected)"
  shows "\<exists>candidate \<in> set candidates.
     selected_target (Restore_State ranked rejected) = Some (candidate_id candidate)
     \<and> (\<forall>key \<in> set kv_layout_keys. agrees state candidate key)
     \<and> (\<forall>key \<in> set model_semantic_keys. agrees state candidate key)
     \<and> (boolish (state_value state ''state_restore_requires_ep_layout'')
        \<or> boolish (candidate_value candidate ''state_restore_requires_ep_layout'') \<longrightarrow>
          (\<forall>key \<in> set ep_layout_keys. agrees state candidate key))"
proof -
  from selected_eligible [OF assms] obtain candidate where c: "candidate \<in> set candidates"
    and e: "eligible state source_instance_id candidate"
    and s: "selected_target (Restore_State ranked rejected) = Some (candidate_id candidate)"
    by metis
  have "\<forall>key \<in> set kv_layout_keys. agrees state candidate key"
    using e unfolding eligible_def kv_layout_compatible_def check_keys_ok by blast
  with c s eligible_model_keys [OF e] eligible_ep_keys [OF e] show ?thesis by blast
qed

text \<open>
  When the search returns, it falls back to replaying tokens exactly when no candidate is
  eligible: no compatible ready target is ever overlooked.
\<close>

theorem fallback_iff_no_eligible_target:
  assumes "plan_compatible_state_target state candidates source_instance_id planner_config
     = Inr selection"
  shows "selected_target selection = None \<longleftrightarrow>
     \<not> (\<exists>candidate \<in> set candidates. eligible state source_instance_id candidate)"
proof (cases selection)
  case (Restore_State ranked rejected)
  with selected_eligible [OF assms [unfolded Restore_State]] show ?thesis
    by (metis option.distinct(1))
next
  case (Fallback_Token_Replay reason rejected)
  have "\<not> eligible state source_instance_id candidate" if c: "candidate \<in> set candidates" for candidate
  proof (cases "\<not> is_supports_restore state \<or> is_state_kind state \<noteq> ''vllm_kv_snapshot''")
    case True
    then show ?thesis by (simp add: eligible_def state_serialization_compatible_def)
  next
    case False
    with assms Fallback_Token_Replay obtain search where
      "rfold (consider_candidate state source_instance_id planner_config) candidates
         \<lparr>ts_ranked = [], ts_rejected = []\<rparr> = Inr search" and "ts_ranked search = []"
      unfolding plan_compatible_state_target_def by (auto split: if_splits)
    with search_ranks_eligible have
      "map (scored state planner_config) (filter (eligible state source_instance_id) candidates) = []"
      by fastforce
    with c show ?thesis by (simp add: filter_empty_conv)
  qed
  then show ?thesis by (simp add: Fallback_Token_Replay)
qed

lemma search_returns:
  assumes "\<forall>candidate \<in> set candidates.
     \<exists>score. candidate_restore_score state candidate planner_config = Inr score"
  shows "\<exists>search'. rfold (consider_candidate state source_instance_id planner_config) candidates search
     = Inr search'"
  using assms
proof (induction candidates arbitrary: search)
  case Nil
  then show ?case by simp
next
  case (Cons candidate candidates)
  then obtain score where "candidate_restore_score state candidate planner_config = Inr score" by auto
  then have "\<exists>mid. consider_candidate state source_instance_id planner_config candidate search = Inr mid"
    unfolding consider_candidate_def Let_def by (simp split: if_split)
  with Cons show ?case by auto
qed

lemma distinct_ids_no_tie:
  assumes "distinct (map candidate_id cs)"
  shows "\<not> tie_conflict (map (scored state planner_config) cs)"
proof -
  have "x = y" if "x \<in> set cs" "y \<in> set cs"
    "fst (scored state planner_config x) = fst (scored state planner_config y)" for x y
    using assms that rank_key_id [of state planner_config] by (metis distinct_map inj_onD)
  then show ?thesis by (auto simp: tie_conflict_def list_ex_iff)
qed

text \<open>
  The search returns a selection when the candidates carry numbers where numbers are expected
  (their scores exist) and no two of them have the same instance id: the sort of the ranked tuples
  then never reaches the score dictionaries, which Python cannot order.
\<close>

theorem plan_compatible_state_target_returns:
  assumes "distinct (map candidate_id candidates)"
    and "\<forall>candidate \<in> set candidates.
      \<exists>score. candidate_restore_score state candidate planner_config = Inr score"
  shows "\<exists>selection. plan_compatible_state_target state candidates source_instance_id planner_config
     = Inr selection"
proof -
  obtain search where search: "rfold (consider_candidate state source_instance_id planner_config)
      candidates \<lparr>ts_ranked = [], ts_rejected = []\<rparr> = Inr search"
    using search_returns [OF assms(2)] by blast
  have "\<not> tie_conflict (ts_ranked search)"
    using search_ranks_eligible [OF search] assms(1)
    by (simp add: distinct_ids_no_tie distinct_map_filter)
  with search show ?thesis unfolding plan_compatible_state_target_def by auto
qed

definition usable_state :: "inference_state option \<Rightarrow> bool" where
  "usable_state state = (case state of None \<Rightarrow> False | Some st \<Rightarrow> is_tokens st \<noteq> [])"

text \<open>
  The decision retries from scratch exactly when there is no state with tokens, restores
  exactly when there is one and both the target and the state support it, and replays tokens
  otherwise; anything but a restore is flagged as a fallback, the plan carries the same action
  and the same number of recovered tokens, and a retry recovers none.
\<close>

theorem plan_stateful_recovery_decides:
  "let d = plan_stateful_recovery request_id source_instance_id target_instance_id state
       restore_supported fallback_policy reason target_selection
   in sd_action d = (if \<not> usable_state state then ''retry''
        else if restore_supported \<and> is_supports_restore (the state) then ''restore_state''
        else ''fallback_token_replay'')
      \<and> sd_fallback_used d = (sd_action d \<noteq> ''restore_state'')
      \<and> sd_state_available d = usable_state state
      \<and> sp_action (sd_plan d) = sd_action d
      \<and> sp_recovered_tokens (sd_plan d) = sd_recovered_tokens d
      \<and> sd_recovered_tokens d = (if \<not> usable_state state then 0
          else if is_completed_tokens (the state) \<noteq> 0 then is_completed_tokens (the state)
          else int (length (is_tokens (the state))))"
  by (cases state) (simp_all add: plan_stateful_recovery_def usable_state_def Let_def)

text \<open>
  Exporting an inference state and reading it back gives the same state, when its count of
  completed tokens is not negative.
\<close>

theorem inference_state_roundtrip:
  assumes "0 \<le> is_completed_tokens st"
  shows "InferenceState_from_dict (InferenceState_to_dict st) = Inr st"
proof -
  let ?d = "InferenceState_to_dict st"
  have "token_list (dgetn ?d ''tokens'') = Inr (is_tokens st)"
    by (cases "is_tokens st") (simp_all add: InferenceState_to_dict_def dgetn_def dget_def
        token_list_def rmap_py_int)
  moreover have "dgetn ?d ''request_id'' = is_request_id st"
    "dget ?d ''instance_id'' (PStr '''') = PStr (is_instance_id st)"
    "dget ?d ''node_id'' (PStr '''') = PStr (is_node_id st)"
    "dget ?d ''backend'' (PStr '''') = PStr (is_backend st)"
    "dget ?d ''model_name'' (PStr '''') = PStr (is_model_name st)"
    "dget ?d ''state_kind'' (PStr ''token_snapshot'') = PStr (is_state_kind st)"
    "dget ?d ''supports_restore'' (PBool False) = PBool (is_supports_restore st)"
    "py_int (por (dget ?d ''completed_tokens'' n) (PInt 0)) = Inr (is_completed_tokens st)"
    "py_dict (por (dget ?d ''metadata'' (PDict [])) (PDict [])) = Inr (is_metadata st)"
    "py_dict (por (dget ?d ''runtime_state'' (PDict [])) (PDict [])) = Inr (is_runtime_state st)" for n
    by (simp_all add: InferenceState_to_dict_def dgetn_def dget_def por_def)
  ultimately show ?thesis
    using assms by (simp add: InferenceState_from_dict_def max_def)
qed

section \<open>Witnesses\<close>

definition ex_state :: inference_state where
  "ex_state = \<lparr>is_request_id = PStr ''r1'', is_instance_id = ''a'', is_node_id = ''n0'',
     is_backend = ''vllm'', is_model_name = ''m'', is_tokens = [5, 6, 7], is_completed_tokens = 3,
     is_state_kind = ''vllm_kv_snapshot'', is_supports_restore = True,
     is_metadata = [(''tensor_parallel_size'', PInt 2), (''can_restore_cross_node'', PBool True)],
     is_runtime_state = []\<rparr>"

definition ex_candidate :: "string \<Rightarrow> string \<Rightarrow> int \<Rightarrow> dict" where
  "ex_candidate instance_id node_id tp =
     [(''instance_id'', PStr instance_id), (''node_id'', PStr node_id), (''ready'', PBool True),
      (''supports_state_restore'', PBool True), (''backend'', PStr ''vllm''),
      (''model_name'', PStr ''m''), (''tensor_parallel_size'', PInt tp)]"

definition ex_candidates :: "dict list" where
  "ex_candidates = [ex_candidate ''a'' ''n0'' 2, ex_candidate ''b'' ''n1'' 2,
     ex_candidate ''c'' ''n0'' 2, ex_candidate ''d'' ''n0'' 4]"

definition ex_search :: "target_selection res" where
  "ex_search = plan_compatible_state_target ex_state ex_candidates ''a'' []"

lemma ex_search_check: "(case ex_search of Inr sel \<Rightarrow> selected_target sel = Some ''c'' | Inl _ \<Rightarrow> False)"
  by code_simp

lemma ex_search_result:
  obtains ranked rejected where
    "plan_compatible_state_target ex_state ex_candidates ''a'' [] = Inr (Restore_State ranked rejected)"
    and "selected_target (Restore_State ranked rejected) = Some ''c''"
proof -
  from ex_search_check obtain sel where sel: "ex_search = Inr sel" "selected_target sel = Some ''c''"
    by (auto split: sum.splits)
  then show ?thesis using that by (cases sel) (simp_all add: ex_search_def)
qed

theorem restore_target_eligible_and_cheapest_witness:
  "\<exists>candidate \<in> set ex_candidates. eligible ex_state ''a'' candidate \<and> candidate_id candidate = ''c''"
proof -
  from ex_search_result obtain ranked rejected where
    "plan_compatible_state_target ex_state ex_candidates ''a'' [] = Inr (Restore_State ranked rejected)"
    and "selected_target (Restore_State ranked rejected) = Some ''c''" .
  with restore_target_eligible_and_cheapest show ?thesis by fastforce
qed

theorem restore_target_same_layout_witness:
  "\<exists>candidate \<in> set ex_candidates. candidate_id candidate = ''c''
     \<and> (\<forall>key \<in> set kv_layout_keys. agrees ex_state candidate key)"
proof -
  from ex_search_result obtain ranked rejected where
    "plan_compatible_state_target ex_state ex_candidates ''a'' [] = Inr (Restore_State ranked rejected)"
    and "selected_target (Restore_State ranked rejected) = Some ''c''" .
  with restore_target_same_layout show ?thesis by fastforce
qed

theorem fallback_iff_no_eligible_target_witness:
  "\<exists>candidate \<in> set ex_candidates. eligible ex_state ''a'' candidate"
proof -
  from ex_search_result obtain ranked rejected where
    "plan_compatible_state_target ex_state ex_candidates ''a'' [] = Inr (Restore_State ranked rejected)"
    and "selected_target (Restore_State ranked rejected) = Some ''c''" .
  with fallback_iff_no_eligible_target show ?thesis by fastforce
qed

lemma ex_scores: "list_all (\<lambda>c. \<not> isl (candidate_restore_score ex_state c [])) ex_candidates"
  by code_simp

theorem plan_compatible_state_target_returns_witness:
  "\<exists>selection. plan_compatible_state_target ex_state ex_candidates ''a'' [] = Inr selection"
proof (rule plan_compatible_state_target_returns)
  show "distinct (map candidate_id ex_candidates)" by code_simp
  show "\<forall>candidate \<in> set ex_candidates. \<exists>score. candidate_restore_score ex_state candidate [] = Inr score"
    using ex_scores unfolding list_all_iff by (metis sum.collapse(2))
qed

theorem inference_state_roundtrip_witness:
  "InferenceState_from_dict (InferenceState_to_dict ex_state) = Inr ex_state"
  by (rule inference_state_roundtrip) (simp add: ex_state_def)

end
