(* ===== verification/Reparallelization_Executor.thy ===== *)
theory Reparallelization_Executor
  imports Py_Prelude
begin

text \<open>
  The executor that applies a parallel plan, \<open>src/sllm/spot/reparallelization_executor.py\<close>:
  it creates the workers of the new shape, waits until they are ready, switches the traffic and
  stops the old workers. The hooks it is given (create, ready, verify, switch, drain, stop, wait)
  belong to the deployment: they are parameters of the model, functions from the calls made so
  far and the arguments to an outcome, so that a hook may fail at one call and succeed at the
  next. Plans and worker handles are opaque here as they are in the code.

  The executor of the code is an object that outlives a failed \<open>apply\<close>: an operation returns
  its outcome and the state it leaves behind, on every path. The state also carries the log of
  the hook calls, which the code does not keep: it is what the theorems are about.
\<close>

section \<open>State and hooks\<close>

datatype ('p, 'w) call =
    Create 'p "'w option"
  | Ready 'w 'p
  | Verify 'w 'p
  | Switch 'w 'p
  | Drain 'w
  | Stop 'w
  | Wait_Migration 'w

type_synonym ('p, 'w) log = "('p, 'w) call list"

record ('p, 'w) hooks =
  create_workers :: "('p, 'w) log \<Rightarrow> 'p \<Rightarrow> 'w res"
  ready :: "('p, 'w) log \<Rightarrow> 'w \<Rightarrow> 'p \<Rightarrow> bool res"
  switch_traffic :: "('p, 'w) log \<Rightarrow> 'w \<Rightarrow> 'p \<Rightarrow> unit res"
  drain :: "('p, 'w) log \<Rightarrow> 'w \<Rightarrow> unit res"
  stop :: "('p, 'w) log \<Rightarrow> 'w \<Rightarrow> unit res"
  wait_for_migration :: "(('p, 'w) log \<Rightarrow> 'w \<Rightarrow> unit res) option"
  verify_runtime :: "(('p, 'w) log \<Rightarrow> 'w \<Rightarrow> 'p \<Rightarrow> bool res) option"

record transition =
  tr_status :: string
  tr_transition_mode :: string
  tr_migration_requested_before_create :: bool
  tr_migration_requires_live_source :: bool
  tr_source_stopped_before_target_create :: bool
  tr_source_kept_alive_until_target_ready :: bool

record ('p, 'w) executor =
  current :: "'w option"
  stop_current_before_create :: bool
  migrate_before_create :: bool
  transition_mode :: "string option"
  migration_requires_live_source :: bool
  last_transition :: "transition option"
  calls :: "('p, 'w) log"

section \<open>Effects and errors\<close>

type_synonym ('p, 'w, 'a) act = "('p, 'w) executor \<Rightarrow> 'a res \<times> ('p, 'w) executor"

definition areturn :: "'a \<Rightarrow> ('p, 'w, 'a) act" where
  "areturn x s = (Inr x, s)"

definition araise :: "pyexc \<Rightarrow> ('p, 'w, 'a) act" where
  "araise e s = (Inl e, s)"

definition abind :: "('p, 'w, 'a) act \<Rightarrow> ('a \<Rightarrow> ('p, 'w, 'b) act) \<Rightarrow> ('p, 'w, 'b) act" where
  "abind m f s = (case m s of (Inl e, s') \<Rightarrow> (Inl e, s') | (Inr x, s') \<Rightarrow> f x s')"

definition athen :: "('p, 'w, 'a) act \<Rightarrow> ('p, 'w, 'b) act \<Rightarrow> ('p, 'w, 'b) act" where
  "athen m n = abind m (\<lambda>_. n)"

text \<open>\<open>try: m except Exception: h; raise\<close>: the handler runs and the exception goes on, unless
  the handler raises itself.\<close>

definition on_exception :: "('p, 'w, 'a) act \<Rightarrow> ('p, 'w, unit) act \<Rightarrow> ('p, 'w, 'a) act" where
  "on_exception m h s =
     (case m s of
        (Inl e, s') \<Rightarrow> (case h s' of (Inl e', s'') \<Rightarrow> (Inl e', s'') | (Inr _, s'') \<Rightarrow> (Inl e, s''))
      | (Inr x, s') \<Rightarrow> (Inr x, s'))"

definition when_some :: "'x option \<Rightarrow> ('x \<Rightarrow> ('p, 'w, unit) act) \<Rightarrow> ('p, 'w, unit) act" where
  "when_some x f = (case x of None \<Rightarrow> areturn () | Some v \<Rightarrow> f v)"

definition modify :: "(('p, 'w) executor \<Rightarrow> ('p, 'w) executor) \<Rightarrow> ('p, 'w, unit) act" where
  "modify f s = (Inr (), f s)"

subsection \<open>Calling a hook\<close>

definition note_call :: "('p, 'w) call \<Rightarrow> ('p, 'w) executor \<Rightarrow> ('p, 'w) executor" where
  "note_call c s = s\<lparr>calls := calls s @ [c]\<rparr>"

definition call_create :: "('p, 'w) hooks \<Rightarrow> 'p \<Rightarrow> ('p, 'w, 'w) act" where
  "call_create h plan s =
     (let r = create_workers h (calls s) plan
      in (r, note_call (Create plan (case r of Inl _ \<Rightarrow> None | Inr w \<Rightarrow> Some w)) s))"

definition call_ready :: "('p, 'w) hooks \<Rightarrow> 'w \<Rightarrow> 'p \<Rightarrow> ('p, 'w, bool) act" where
  "call_ready h target plan s = (ready h (calls s) target plan, note_call (Ready target plan) s)"

definition call_verify :: "('p, 'w) hooks \<Rightarrow> 'w \<Rightarrow> 'p \<Rightarrow> ('p, 'w, bool) act" where
  "call_verify h target plan s =
     (case verify_runtime h of
        None \<Rightarrow> (Inr True, s)
      | Some v \<Rightarrow> (v (calls s) target plan, note_call (Verify target plan) s))"

definition call_switch :: "('p, 'w) hooks \<Rightarrow> 'w \<Rightarrow> 'p \<Rightarrow> ('p, 'w, unit) act" where
  "call_switch h target plan s =
     (switch_traffic h (calls s) target plan, note_call (Switch target plan) s)"

definition call_drain :: "('p, 'w) hooks \<Rightarrow> 'w \<Rightarrow> ('p, 'w, unit) act" where
  "call_drain h w s = (drain h (calls s) w, note_call (Drain w) s)"

definition call_stop :: "('p, 'w) hooks \<Rightarrow> 'w \<Rightarrow> ('p, 'w, unit) act" where
  "call_stop h w s = (stop h (calls s) w, note_call (Stop w) s)"

definition call_wait :: "('p, 'w) hooks \<Rightarrow> 'w \<Rightarrow> ('p, 'w, unit) act" where
  "call_wait h w s =
     (case wait_for_migration h of
        None \<Rightarrow> (Inr (), s)
      | Some f \<Rightarrow> (f (calls s) w, note_call (Wait_Migration w) s))"

section \<open>The transition mode\<close>

definition MAKE_BEFORE_BREAK :: string where
  "MAKE_BEFORE_BREAK = ''make_before_break''"

definition BREAK_BEFORE_MAKE :: string where
  "BREAK_BEFORE_MAKE = ''break_before_make''"

definition requested_mode :: "('p, 'w) executor \<Rightarrow> string" where
  "requested_mode self =
     (case transition_mode self of
        Some (c # cs) \<Rightarrow> c # cs
      | _ \<Rightarrow> if stop_current_before_create self then BREAK_BEFORE_MAKE else MAKE_BEFORE_BREAK)"

definition resolved_transition_mode :: "('p, 'w) executor \<Rightarrow> string res" where
  "resolved_transition_mode self =
     (let mode = requested_mode self in
      if mode \<notin> {MAKE_BEFORE_BREAK, BREAK_BEFORE_MAKE}
      then Inl (ValueError (''unsupported_transition_mode:'' @ mode))
      else if stop_current_before_create self \<noteq> (mode = BREAK_BEFORE_MAKE)
      then Inl (ValueError ''transition_mode_conflicts_with_stop_current_before_create'')
      else if mode = BREAK_BEFORE_MAKE \<and> migrate_before_create self
              \<and> migration_requires_live_source self
      then Inl (ValueError ''live_source_migration_requires_make_before_break'')
      else Inr mode)"

section \<open>Applying a plan\<close>

definition set_status :: "string \<Rightarrow> ('p, 'w) executor \<Rightarrow> ('p, 'w) executor" where
  "set_status status s =
     s\<lparr>last_transition := map_option (\<lambda>t. t\<lparr>tr_status := status\<rparr>) (last_transition s)\<rparr>"

definition start_transition :: "string \<Rightarrow> ('p, 'w) executor \<Rightarrow> ('p, 'w) executor" where
  "start_transition mode s =
     s\<lparr>last_transition := Some
        \<lparr>tr_status = ''started'',
         tr_transition_mode = mode,
         tr_migration_requested_before_create = migrate_before_create s,
         tr_migration_requires_live_source = migration_requires_live_source s,
         tr_source_stopped_before_target_create = False,
         tr_source_kept_alive_until_target_ready = False\<rparr>\<rparr>"

definition mark_source_stopped :: "('p, 'w) executor \<Rightarrow> ('p, 'w) executor" where
  "mark_source_stopped s =
     s\<lparr>current := None, last_transition :=
       map_option (\<lambda>t. t\<lparr>tr_source_stopped_before_target_create := True\<rparr>) (last_transition s)\<rparr>"

definition mark_kept_alive :: "('p, 'w) executor \<Rightarrow> ('p, 'w) executor" where
  "mark_kept_alive s =
     s\<lparr>last_transition := map_option
       (\<lambda>t. t\<lparr>tr_source_kept_alive_until_target_ready := current s \<noteq> None\<rparr>) (last_transition s)\<rparr>"

text \<open>The source before the target exists: drained for a migration, or drained and stopped.\<close>

definition prepare_source :: "('p, 'w) hooks \<Rightarrow> ('p, 'w, 'w option) act" where
  "prepare_source h s =
     (let prepared_old = (if migrate_before_create s then current s else None) in
      athen (when_some prepared_old (call_drain h))
        (athen (when_some (if stop_current_before_create s then current s else None)
                  (\<lambda>old. athen (call_drain h old) (athen (call_stop h old) (modify mark_source_stopped))))
          (areturn prepared_old)) s)"

definition await_target :: "('p, 'w) hooks \<Rightarrow> 'w \<Rightarrow> 'p \<Rightarrow> ('p, 'w, unit) act" where
  "await_target h target plan =
     abind (call_ready h target plan) (\<lambda>ok.
       if \<not> ok then araise (RuntimeError ''target_workers_not_ready'')
       else abind (call_verify h target plan) (\<lambda>verified.
         if \<not> verified then araise (RuntimeError ''target_runtime_not_verified'')
         else areturn ()))"

text \<open>The handlers that drop the target again: stop it, then record why.\<close>

definition drop_target :: "('p, 'w) hooks \<Rightarrow> 'w \<Rightarrow> string \<Rightarrow> ('p, 'w, unit) act" where
  "drop_target h target status = athen (call_stop h target) (modify (set_status status))"

definition retire_source :: "('p, 'w) hooks \<Rightarrow> 'w option \<Rightarrow> ('p, 'w, unit) act" where
  "retire_source h old = when_some old (\<lambda>w. athen (call_wait h w) (call_stop h w))"

definition switch_to :: "('p, 'w) hooks \<Rightarrow> 'w option \<Rightarrow> 'w \<Rightarrow> 'p \<Rightarrow> ('p, 'w, 'w) act" where
  "switch_to h prepared_old target plan s =
     (let old = current s in
      athen (modify mark_kept_alive)
       (athen (when_some (if old \<noteq> prepared_old then old else None)
                 (\<lambda>w. on_exception (call_drain h w) (drop_target h target ''source_drain_failed'')))
        (athen (on_exception (call_switch h target plan)
                  (drop_target h target ''traffic_switch_failed''))
         (athen (modify (\<lambda>s. s\<lparr>current := Some target\<rparr>))
          (athen (retire_source h old)
           (athen (modify (set_status ''applied''))
             (areturn target)))))) s)"

definition apply_plan :: "('p, 'w) hooks \<Rightarrow> 'p \<Rightarrow> ('p, 'w, 'w) act" where
  "apply_plan h plan s =
     (case resolved_transition_mode s of
        Inl e \<Rightarrow> (Inl e, s)
      | Inr mode \<Rightarrow>
          athen (modify (start_transition mode))
           (abind (prepare_source h) (\<lambda>prepared_old.
             abind (on_exception (call_create h plan) (modify (set_status ''target_create_failed'')))
              (\<lambda>target.
               athen (on_exception (await_target h target plan) (drop_target h target ''target_not_ready''))
                (switch_to h prepared_old target plan)))) s)"

end
