(* ===== verification/Reparallelization_Executor_Props.thy ===== *)
theory Reparallelization_Executor_Props
  imports Reparallelization_Executor
begin

text \<open>
  Properties of the executor, by weakest preconditions: what a finished transition did and in
  which order, what a failed one leaves behind, and that no deployment is leaked over any
  sequence of transitions.
\<close>

section \<open>Weakest preconditions\<close>

named_theorems wp_simps \<open>weakest preconditions of the executor's actions\<close>

definition wp ::
  "('p, 'w, 'a) act \<Rightarrow> ('a \<Rightarrow> ('p, 'w) executor \<Rightarrow> bool) \<Rightarrow> (pyexc \<Rightarrow> ('p, 'w) executor \<Rightarrow> bool)
   \<Rightarrow> ('p, 'w) executor \<Rightarrow> bool" where
  "wp m Q E s = (case m s of (Inr x, s') \<Rightarrow> Q x s' | (Inl e, s') \<Rightarrow> E e s')"

lemma wp_result: "wp m Q E s \<Longrightarrow> m s = (r, s') \<Longrightarrow> (case r of Inr x \<Rightarrow> Q x s' | Inl e \<Rightarrow> E e s')"
  by (simp add: wp_def split: sum.splits)

lemma wp_areturn [wp_simps]: "wp (areturn x) Q E s = Q x s"
  by (simp add: wp_def areturn_def)

lemma wp_araise [wp_simps]: "wp (araise e) Q E s = E e s"
  by (simp add: wp_def araise_def)

lemma wp_modify [wp_simps]: "wp (modify f) Q E s = Q () (f s)"
  by (simp add: wp_def modify_def)

lemma wp_abind [wp_simps]: "wp (abind m f) Q E s = wp m (\<lambda>x. wp (f x) Q E) E s"
  by (simp add: wp_def abind_def split: prod.split sum.split)

lemma wp_athen [wp_simps]: "wp (athen m n) Q E s = wp m (\<lambda>_. wp n Q E) E s"
  by (simp add: athen_def wp_abind)

lemma wp_on_exception [wp_simps]:
  "wp (on_exception m h) Q E s = wp m Q (\<lambda>e. wp h (\<lambda>_. E e) E) s"
  by (simp add: wp_def on_exception_def split: prod.split sum.split)

lemma wp_when_some [wp_simps]:
  "wp (when_some x f) Q E s = (case x of None \<Rightarrow> Q () s | Some v \<Rightarrow> wp (f v) Q E s)"
  by (simp add: when_some_def wp_areturn split: option.split)

lemma wp_if [wp_simps]: "wp (if b then m else n) Q E s = (if b then wp m Q E s else wp n Q E s)"
  by simp

text \<open>A hook call: whatever it answers, the call is noted.\<close>

lemma wp_call_create [wp_simps]:
  "wp (call_create h plan) Q E s =
     (case create_workers h (calls s) plan of
        Inl e \<Rightarrow> E e (note_call (Create plan None) s)
      | Inr w \<Rightarrow> Q w (note_call (Create plan (Some w)) s))"
  by (simp add: wp_def call_create_def Let_def split: sum.split)

lemma wp_call_ready [wp_simps]:
  "wp (call_ready h t plan) Q E s =
     (case ready h (calls s) t plan of
        Inl e \<Rightarrow> E e (note_call (Ready t plan) s) | Inr b \<Rightarrow> Q b (note_call (Ready t plan) s))"
  by (simp add: wp_def call_ready_def split: sum.split)

lemma wp_call_verify [wp_simps]:
  "wp (call_verify h t plan) Q E s =
     (case verify_runtime h of
        None \<Rightarrow> Q True s
      | Some v \<Rightarrow> (case v (calls s) t plan of
           Inl e \<Rightarrow> E e (note_call (Verify t plan) s) | Inr b \<Rightarrow> Q b (note_call (Verify t plan) s)))"
  by (cases "verify_runtime h") (simp_all add: wp_def call_verify_def split: sum.split)

lemma wp_call_switch [wp_simps]:
  "wp (call_switch h t plan) Q E s =
     (case switch_traffic h (calls s) t plan of
        Inl e \<Rightarrow> E e (note_call (Switch t plan) s) | Inr u \<Rightarrow> Q u (note_call (Switch t plan) s))"
  by (simp add: wp_def call_switch_def split: sum.split)

lemma wp_call_drain [wp_simps]:
  "wp (call_drain h w) Q E s =
     (case drain h (calls s) w of
        Inl e \<Rightarrow> E e (note_call (Drain w) s) | Inr u \<Rightarrow> Q u (note_call (Drain w) s))"
  by (simp add: wp_def call_drain_def split: sum.split)

lemma wp_call_stop [wp_simps]:
  "wp (call_stop h w) Q E s =
     (case stop h (calls s) w of
        Inl e \<Rightarrow> E e (note_call (Stop w) s) | Inr u \<Rightarrow> Q u (note_call (Stop w) s))"
  by (simp add: wp_def call_stop_def split: sum.split)

lemma wp_call_wait [wp_simps]:
  "wp (call_wait h w) Q E s =
     (case wait_for_migration h of
        None \<Rightarrow> Q () s
      | Some f \<Rightarrow> (case f (calls s) w of
           Inl e \<Rightarrow> E e (note_call (Wait_Migration w) s) | Inr u \<Rightarrow> Q u (note_call (Wait_Migration w) s)))"
  by (cases "wait_for_migration h") (simp_all add: wp_def call_wait_def split: sum.split)

lemmas phase_defs = await_target_def drop_target_def retire_source_def

lemma wp_prepare_source [wp_simps]:
  "wp (prepare_source h) Q E s =
     (let prepared_old = (if migrate_before_create s then current s else None) in
      wp (when_some prepared_old (call_drain h)) (\<lambda>_.
        wp (when_some (if stop_current_before_create s then current s else None)
              (\<lambda>old. athen (call_drain h old) (athen (call_stop h old) (modify mark_source_stopped))))
          (\<lambda>_. Q prepared_old) E) E s)"
  by (simp add: wp_def prepare_source_def Let_def athen_def abind_def areturn_def
      split: prod.split sum.split)

lemma wp_switch_to [wp_simps]:
  "wp (switch_to h prepared_old target plan) Q E s =
     wp (athen (modify mark_kept_alive)
       (athen (when_some (if current s \<noteq> prepared_old then current s else None)
                 (\<lambda>w. on_exception (call_drain h w) (drop_target h target ''source_drain_failed'')))
        (athen (on_exception (call_switch h target plan)
                  (drop_target h target ''traffic_switch_failed''))
         (athen (modify (\<lambda>s. s\<lparr>current := Some target\<rparr>))
          (athen (retire_source h (current s))
           (athen (modify (set_status ''applied''))
             (areturn target))))))) Q E s"
  by (simp add: wp_def switch_to_def Let_def)

lemma wp_apply_plan [wp_simps]:
  "wp (apply_plan h plan) Q E s =
     (case resolved_transition_mode s of
        Inl e \<Rightarrow> E e s
      | Inr mode \<Rightarrow>
          wp (abind (prepare_source h) (\<lambda>prepared_old.
             abind (on_exception (call_create h plan) (modify (set_status ''target_create_failed'')))
              (\<lambda>target.
               athen (on_exception (await_target h target plan) (drop_target h target ''target_not_ready''))
                (switch_to h prepared_old target plan)))) Q E (start_transition mode s))"
  by (simp add: wp_def apply_plan_def athen_def abind_def modify_def split: sum.split prod.split)

lemmas executor_state_simps = note_call_def set_status_def start_transition_def
  mark_source_stopped_def mark_kept_alive_def Let_def

lemma wp_mono:
  assumes "wp m Q E s" and "\<And>x s'. Q x s' \<Longrightarrow> Q' x s'" and "\<And>e s'. E e s' \<Longrightarrow> E' e s'"
  shows "wp m Q' E' s"
  using assms by (auto simp: wp_def split: prod.splits sum.splits)

section \<open>The phases\<close>

text \<open>
  What each phase adds to the log and leaves in the state, when it finishes and when it raises.
  The old workers of a state, as a list of none or one handle:
\<close>

definition old_workers :: "('p, 'w) executor \<Rightarrow> 'w list" where
  "old_workers s = (case current s of None \<Rightarrow> [] | Some w \<Rightarrow> [w])"

definition prepare_trace :: "('p, 'w) executor \<Rightarrow> ('p, 'w) log" where
  "prepare_trace s =
     (if migrate_before_create s then map Drain (old_workers s) else [])
     @ (if stop_current_before_create s then map Drain (old_workers s) @ map Stop (old_workers s) else [])"

definition same_config :: "('p, 'w) executor \<Rightarrow> ('p, 'w) executor \<Rightarrow> bool" where
  "same_config s s' \<longleftrightarrow> stop_current_before_create s' = stop_current_before_create s
     \<and> migrate_before_create s' = migrate_before_create s"

lemma prepare_phase:
  "wp (prepare_source h)
     (\<lambda>p s'. p = (if migrate_before_create s then current s else None)
        \<and> calls s' = calls s @ prepare_trace s \<and> same_config s s'
        \<and> current s' = (if stop_current_before_create s then None else current s)
        \<and> (last_transition s' = None) = (last_transition s = None))
     (\<lambda>e s'. current s' = current s
        \<and> (\<exists>evs. calls s' = calls s @ evs
             \<and> set evs \<subseteq> Drain ` set (old_workers s)
                 \<union> (if stop_current_before_create s then Stop ` set (old_workers s) else {}))) s"
  by (cases "current s"; cases "migrate_before_create s"; cases "stop_current_before_create s")
    (simp_all add: wp_simps executor_state_simps prepare_trace_def old_workers_def same_config_def
      split: sum.split)

lemma await_phase:
  "wp (on_exception (await_target h t plan) (drop_target h t ''target_not_ready''))
     (\<lambda>_ s'. calls s' = calls s @ Ready t plan # (if verify_runtime h = None then [] else [Verify t plan])
        \<and> same_config s s' \<and> current s' = current s \<and> last_transition s' = last_transition s)
     (\<lambda>e s'. current s' = current s
        \<and> (\<exists>evs. calls s' = calls s @ evs @ [Stop t] \<and> set evs \<subseteq> {Ready t plan, Verify t plan})) s"
  by (cases "verify_runtime h")
    (simp_all add: wp_simps phase_defs executor_state_simps same_config_def split: sum.split)

definition retire_trace :: "('p, 'w) hooks \<Rightarrow> 'w list \<Rightarrow> ('p, 'w) log" where
  "retire_trace h old = (if wait_for_migration h = None then [] else map Wait_Migration old) @ map Stop old"

definition wait_ok :: "('p, 'w) hooks \<Rightarrow> bool" where
  "wait_ok h \<longleftrightarrow> (\<forall>f lg w. wait_for_migration h = Some f \<longrightarrow> f lg w = Inr ())"

lemma retire_phase:
  "wp (retire_source h old)
     (\<lambda>_ s'. calls s' = calls s @ retire_trace h (case old of None \<Rightarrow> [] | Some w \<Rightarrow> [w])
        \<and> current s' = current s \<and> last_transition s' = last_transition s)
     (\<lambda>e s'. current s' = current s
        \<and> (\<exists>evs w. old = Some w \<and> calls s' = calls s @ evs \<and> set evs \<subseteq> {Wait_Migration w, Stop w}
             \<and> (wait_ok h \<longrightarrow> Stop w \<in> set evs))) s"
  by (cases old; cases "wait_for_migration h")
    (auto simp: wp_simps phase_defs executor_state_simps retire_trace_def wait_ok_def split: sum.split,
      (metis Inl_Inr_False)+)

text \<open>
  The switch fails in one of two ways: before the traffic moved, with the target stopped again,
  or after it, when retiring the old workers raises.
\<close>

definition switch_failed ::
  "('p, 'w) hooks \<Rightarrow> 'w \<Rightarrow> 'p \<Rightarrow> ('p, 'w) executor \<Rightarrow> ('p, 'w) executor \<Rightarrow> bool" where
  "switch_failed h t plan s s' \<longleftrightarrow>
     (current s' = current s
        \<and> (\<exists>evs. calls s' = calls s @ evs @ [Stop t]
             \<and> set evs \<subseteq> insert (Switch t plan) (Drain ` set (old_workers s))))
     \<or> (current s' = Some t
        \<and> (\<exists>evs w. current s = Some w \<and> calls s' = calls s @ evs
             \<and> Switch t plan \<in> set evs \<and> (wait_ok h \<longrightarrow> Stop w \<in> set evs)
             \<and> set evs \<subseteq> {Drain w, Switch t plan, Wait_Migration w, Stop w}))"

definition switch_done ::
  "('p, 'w) hooks \<Rightarrow> 'w \<Rightarrow> 'p \<Rightarrow> ('p, 'w) log \<Rightarrow> ('p, 'w) executor \<Rightarrow> 'w \<Rightarrow> ('p, 'w) executor \<Rightarrow> bool" where
  "switch_done h t plan evs s r s' \<longleftrightarrow>
     r = t \<and> current s' = Some t
     \<and> calls s' = calls s @ evs @ Switch t plan # retire_trace h (old_workers s)
     \<and> (last_transition s \<noteq> None \<longrightarrow>
          last_transition s' \<noteq> None \<and> tr_status (the (last_transition s')) = ''applied'')"

lemma switch_failed_before:
  "current s' = current s \<Longrightarrow> calls s' = calls s @ evs @ [Stop t] \<Longrightarrow>
   set evs \<subseteq> insert (Switch t plan) (Drain ` set (old_workers s)) \<Longrightarrow> switch_failed h t plan s s'"
  unfolding switch_failed_def by blast

lemma switch_failed_after:
  "current s' = Some t \<Longrightarrow> current s = Some w \<Longrightarrow> calls s' = calls s @ evs \<Longrightarrow>
   Switch t plan \<in> set evs \<Longrightarrow> (wait_ok h \<Longrightarrow> Stop w \<in> set evs) \<Longrightarrow>
   set evs \<subseteq> {Drain w, Switch t plan, Wait_Migration w, Stop w} \<Longrightarrow> switch_failed h t plan s s'"
  unfolding switch_failed_def by blast

lemma switch_retires:
  fixes s u :: "('p, 'w) executor"
  assumes "current u = Some t" and "calls u = calls s @ evs @ [Switch t plan]"
    and "(last_transition u = None) = (last_transition s = None)"
    and "set evs \<subseteq> Drain ` set (old_workers s)"
  shows "wp (retire_source h (current s))
      (\<lambda>_. wp (athen (modify (set_status ''applied'')) (areturn t))
              (switch_done h t plan evs s) (\<lambda>e. switch_failed h t plan s))
      (\<lambda>e. switch_failed h t plan s) u"
proof (rule wp_mono [OF retire_phase])
  fix x :: unit and v :: "('p, 'w) executor"
  assume "calls v = calls u @ retire_trace h (case current s of None \<Rightarrow> [] | Some w \<Rightarrow> [w])
      \<and> current v = current u \<and> last_transition v = last_transition u"
  with assms show "wp (athen (modify (set_status ''applied'')) (areturn t))
      (switch_done h t plan evs s) (\<lambda>e. switch_failed h t plan s) v"
    by (auto simp: wp_simps set_status_def old_workers_def switch_done_def)
next
  fix e and v :: "('p, 'w) executor"
  assume "current v = current u \<and> (\<exists>evs w. current s = Some w \<and> calls v = calls u @ evs
      \<and> set evs \<subseteq> {Wait_Migration w, Stop w} \<and> (wait_ok h \<longrightarrow> Stop w \<in> set evs))"
  with assms obtain es w where "current v = Some t" "current s = Some w"
    "calls v = calls s @ (evs @ Switch t plan # es)" "wait_ok h \<longrightarrow> Stop w \<in> set es"
    "set es \<subseteq> {Wait_Migration w, Stop w}" "set evs \<subseteq> {Drain w}"
    by (auto simp: old_workers_def)
  then show "switch_failed h t plan s v" 
    by (intro switch_failed_after [where evs = "evs @ Switch t plan # es"]) auto
qed

lemma wp_drop_target:
  "(\<And>s'. current s' = current s \<Longrightarrow> calls s' = calls s @ [Stop t] \<Longrightarrow> Q s') \<Longrightarrow>
   wp (drop_target h t status) (\<lambda>_. Q) (\<lambda>_. Q) s"
  by (simp add: drop_target_def wp_simps note_call_def set_status_def split: sum.split)

lemma switch_step:
  fixes s u :: "('p, 'w) executor"
  assumes "current u = current s" and "calls u = calls s @ evs"
    and "(last_transition u = None) = (last_transition s = None)"
    and "set evs \<subseteq> Drain ` set (old_workers s)"
  shows "wp (athen (on_exception (call_switch h t plan) (drop_target h t ''traffic_switch_failed''))
         (athen (modify (\<lambda>s. s\<lparr>current := Some t\<rparr>))
          (athen (retire_source h (current s))
           (athen (modify (set_status ''applied'')) (areturn t)))))
      (switch_done h t plan evs s) (\<lambda>e. switch_failed h t plan s) u"
proof -
  have "wp (drop_target h t ''traffic_switch_failed'') (\<lambda>_. switch_failed h t plan s)
      (\<lambda>_. switch_failed h t plan s) (note_call (Switch t plan) u)"
    using assms by (intro wp_drop_target switch_failed_before [where evs = "evs @ [Switch t plan]"])
      (auto simp: note_call_def)
  moreover have "wp (retire_source h (current s))
      (\<lambda>_. wp (athen (modify (set_status ''applied'')) (areturn t))
              (switch_done h t plan evs s) (\<lambda>e. switch_failed h t plan s))
      (\<lambda>e. switch_failed h t plan s) (note_call (Switch t plan) u\<lparr>current := Some t\<rparr>)"
    using assms by (intro switch_retires) (simp_all add: note_call_def)
  ultimately show ?thesis
    by (simp add: wp_athen wp_on_exception wp_call_switch wp_modify split: sum.split)
qed

lemma switch_phase:
  "wp (switch_to h p t plan)
     (switch_done h t plan (if current s = p then [] else map Drain (old_workers s)) s)
     (\<lambda>e. switch_failed h t plan s) s"
proof (cases "current s = p \<or> current s = None")
  case True
  then have "(if current s \<noteq> p then current s else None) = None"
    "(if current s = p then [] else map Drain (old_workers s)) = []"
    by (auto simp: old_workers_def)
  then show ?thesis
    unfolding wp_switch_to wp_athen [of "modify _"] wp_modify wp_athen [of "when_some _ _"] wp_when_some
    by (simp only: option.case) (rule switch_step; simp add: mark_kept_alive_def)
next
  case False
  then obtain w where w: "current s = Some w" "p \<noteq> Some w" by auto
  have "wp (drop_target h t ''source_drain_failed'') (\<lambda>_. switch_failed h t plan s)
      (\<lambda>_. switch_failed h t plan s) (note_call (Drain w) (mark_kept_alive s))"
    using w by (intro wp_drop_target switch_failed_before [where evs = "[Drain w]"])
      (auto simp: note_call_def mark_kept_alive_def old_workers_def)
  moreover note switch_step [where s = s and u = "note_call (Drain w) (mark_kept_alive s)"
      and evs = "[Drain w]" and h = h and t = t and plan = plan]
  ultimately show ?thesis
    using w unfolding wp_switch_to wp_athen [of "modify _"] wp_modify wp_athen [of "when_some _ _"]
      wp_when_some
    by (simp add: wp_on_exception wp_call_drain note_call_def mark_kept_alive_def old_workers_def
        split: sum.split)
qed

section \<open>The whole transition\<close>

definition source_after :: "('p, 'w) executor \<Rightarrow> 'w option" where
  "source_after s = (if stop_current_before_create s then None else current s)"

text \<open>The four ways a transition fails, with the calls each adds.\<close>

inductive apply_failed ::
  "('p, 'w) hooks \<Rightarrow> 'p \<Rightarrow> ('p, 'w) executor \<Rightarrow> ('p, 'w) executor \<Rightarrow> ('p, 'w) log \<Rightarrow> bool" where
  early: "current s' = current s \<Longrightarrow>
     set evs \<subseteq> Drain ` set (old_workers s)
        \<union> (if stop_current_before_create s then Stop ` set (old_workers s) else {}) \<Longrightarrow>
     apply_failed h plan s s' evs"
| not_created: "current s' = source_after s \<Longrightarrow>
     apply_failed h plan s s' (prepare_trace s @ [Create plan None])"
| dropped: "current s' = source_after s \<Longrightarrow> create_workers h lg plan = Inr t \<Longrightarrow>
     set evs \<subseteq> {Ready t plan, Verify t plan, Switch t plan}
        \<union> (if stop_current_before_create s then {} else Drain ` set (old_workers s)) \<Longrightarrow>
     apply_failed h plan s s' (prepare_trace s @ Create plan (Some t) # evs @ [Stop t])"
| switched: "current s' = Some t \<Longrightarrow> create_workers h lg plan = Inr t \<Longrightarrow> \<not> stop_current_before_create s \<Longrightarrow> current s = Some w \<Longrightarrow>
     Switch t plan \<in> set evs \<Longrightarrow> (wait_ok h \<Longrightarrow> Stop w \<in> set evs) \<Longrightarrow>
     set evs \<subseteq> {Ready t plan, Verify t plan, Drain w, Switch t plan, Wait_Migration w, Stop w} \<Longrightarrow>
     apply_failed h plan s s' (prepare_trace s @ Create plan (Some t) # evs)"

inductive_cases apply_failedE: "apply_failed h plan s s' evs"

text \<open>The calls of a transition that succeeds, in their order.\<close>

definition success_trace :: "('p, 'w) hooks \<Rightarrow> 'p \<Rightarrow> ('p, 'w) executor \<Rightarrow> 'w \<Rightarrow> ('p, 'w) log" where
  "success_trace h plan s t =
     prepare_trace s @ [Create plan (Some t), Ready t plan]
     @ (if verify_runtime h = None then [] else [Verify t plan])
     @ (if stop_current_before_create s \<or> migrate_before_create s then [] else map Drain (old_workers s))
     @ [Switch t plan]
     @ (if stop_current_before_create s then [] else retire_trace h (old_workers s))"

definition apply_done ::
  "('p, 'w) hooks \<Rightarrow> 'p \<Rightarrow> ('p, 'w) executor \<Rightarrow> 'w \<Rightarrow> ('p, 'w) executor \<Rightarrow> bool" where
  "apply_done h plan s t s' \<longleftrightarrow>
     current s' = Some t \<and> calls s' = calls s @ success_trace h plan s t
     \<and> last_transition s' \<noteq> None \<and> tr_status (the (last_transition s')) = ''applied''"

definition apply_error ::
  "('p, 'w) hooks \<Rightarrow> 'p \<Rightarrow> ('p, 'w) executor \<Rightarrow> ('p, 'w) executor \<Rightarrow> bool" where
  "apply_error h plan s s' \<longleftrightarrow> (\<exists>evs. calls s' = calls s @ evs \<and> apply_failed h plan s s' evs)"

lemma switch_after_prepare:
  fixes s u :: "('p, 'w) executor"
  assumes u: "calls u = calls s @ prepare_trace s @ Create plan (Some t) # aw"
    and aw: "aw = Ready t plan # (if verify_runtime h = None then [] else [Verify t plan])"
    and cu: "current u = source_after s" and lt: "last_transition u \<noteq> None"
    and created: "create_workers h lg plan = Inr t"
  shows "wp (switch_to h (if migrate_before_create s then current s else None) t plan)
     (apply_done h plan s) (\<lambda>e. apply_error h plan s) u"
proof (rule wp_mono [OF switch_phase])
  fix x and v :: "('p, 'w) executor"
  assume "switch_done h t plan (if current u = (if migrate_before_create s then current s else None)
      then [] else map Drain (old_workers u)) u x v"
  then show "apply_done h plan s x v"
    using u aw cu lt
    by (cases "current s")
      (simp_all add: switch_done_def apply_done_def success_trace_def old_workers_def source_after_def
        retire_trace_def split: if_splits)
next
  fix e and v :: "('p, 'w) executor"
  assume "switch_failed h t plan u v"
  then consider
      (before) evs where "current v = current u" "calls v = calls u @ evs @ [Stop t]"
        "set evs \<subseteq> insert (Switch t plan) (Drain ` set (old_workers u))"
    | (after) evs w where "current v = Some t" "current u = Some w" "calls v = calls u @ evs"
        "Switch t plan \<in> set evs" "wait_ok h \<longrightarrow> Stop w \<in> set evs"
        "set evs \<subseteq> {Drain w, Switch t plan, Wait_Migration w, Stop w}"
    unfolding switch_failed_def by blast
  then show "apply_error h plan s v"
  proof cases
    case before
    then have "apply_failed h plan s v (prepare_trace s @ Create plan (Some t) # (aw @ evs) @ [Stop t])"
      using cu aw created by (intro apply_failed.dropped [where lg = lg])
        (auto simp: source_after_def old_workers_def split: if_splits)
    then show ?thesis using before u unfolding apply_error_def by auto
  next
    case after
    then have "apply_failed h plan s v (prepare_trace s @ Create plan (Some t) # aw @ evs)"
      using cu created aw by (intro apply_failed.switched [where w = w and lg = lg]) (auto simp: source_after_def split: if_splits)
    then show ?thesis using after u unfolding apply_error_def by auto
  qed
qed

lemma await_after_create:
  fixes s u :: "('p, 'w) executor"
  assumes u: "calls u = calls s @ prepare_trace s @ [Create plan (Some t)]"
    and cu: "current u = source_after s" and lt: "last_transition u \<noteq> None"
    and created: "create_workers h lg plan = Inr t"
  shows "wp (athen (on_exception (await_target h t plan) (drop_target h t ''target_not_ready''))
       (switch_to h (if migrate_before_create s then current s else None) t plan))
     (apply_done h plan s) (\<lambda>e. apply_error h plan s) u"
  unfolding wp_athen
proof (rule wp_mono [OF await_phase])
  fix x and v :: "('p, 'w) executor"
  assume "calls v = calls u @ Ready t plan # (if verify_runtime h = None then [] else [Verify t plan])
        \<and> same_config u v \<and> current v = current u \<and> last_transition v = last_transition u"
  then show "wp (switch_to h (if migrate_before_create s then current s else None) t plan)
     (apply_done h plan s) (\<lambda>e. apply_error h plan s) v"
    using u cu lt created by (intro switch_after_prepare [OF _ refl, where lg = lg]) auto
next
  fix e and v :: "('p, 'w) executor"
  assume "current v = current u
        \<and> (\<exists>evs. calls v = calls u @ evs @ [Stop t] \<and> set evs \<subseteq> {Ready t plan, Verify t plan})"
  then obtain evs where v: "current v = current u" "calls v = calls u @ evs @ [Stop t]"
    "set evs \<subseteq> {Ready t plan, Verify t plan}" by blast
  then have "apply_failed h plan s v (prepare_trace s @ Create plan (Some t) # evs @ [Stop t])"
    using cu created by (intro apply_failed.dropped [where lg = lg]) auto
  then show "apply_error h plan s v" using v u unfolding apply_error_def by auto
qed

lemma apply_phases:
  fixes s :: "('p, 'w) executor"
  shows "wp (apply_plan h plan) (apply_done h plan s) (\<lambda>e. apply_error h plan s) s"
proof (cases "resolved_transition_mode s")
  case (Inl e)
  have "apply_error h plan s s"
    unfolding apply_error_def by (intro exI [of _ "[]"] conjI apply_failed.early) auto
  with Inl show ?thesis by (simp add: wp_apply_plan)
next
  case (Inr mode)
  let ?s = "start_transition mode s"
  have same: "current ?s = current s" "calls ?s = calls s" "prepare_trace ?s = prepare_trace s"
    "migrate_before_create ?s = migrate_before_create s" "old_workers ?s = old_workers s"
    "stop_current_before_create ?s = stop_current_before_create s" "last_transition ?s \<noteq> None"
    by (simp_all add: start_transition_def prepare_trace_def old_workers_def)
  show ?thesis
    unfolding wp_apply_plan Inr sum.case wp_abind
  proof (rule wp_mono [OF prepare_phase])
    fix p and u :: "('p, 'w) executor"
    assume "p = (if migrate_before_create ?s then current ?s else None)
        \<and> calls u = calls ?s @ prepare_trace ?s \<and> same_config ?s u
        \<and> current u = (if stop_current_before_create ?s then None else current ?s)
        \<and> (last_transition u = None) = (last_transition ?s = None)"
    then have p: "p = (if migrate_before_create s then current s else None)"
      and u: "calls u = calls s @ prepare_trace s" "current u = source_after s" "last_transition u \<noteq> None"
      using same by (auto simp: source_after_def)
    have "apply_error h plan s (note_call (Create plan None) (set_status st u))" for st
      unfolding apply_error_def using u
      by (intro exI [of _ "prepare_trace s @ [Create plan None]"] conjI apply_failed.not_created)
        (simp_all add: note_call_def set_status_def)
    moreover have "set_status st (note_call c u) = note_call c (set_status st u)" for st c
      by (simp add: set_status_def note_call_def)
    moreover have "wp (athen (on_exception (await_target h t plan) (drop_target h t ''target_not_ready''))
           (switch_to h p t plan)) (apply_done h plan s) (\<lambda>e. apply_error h plan s)
           (note_call (Create plan (Some t)) u)" if "create_workers h (calls u) plan = Inr t" for t
      unfolding p using u that by (intro await_after_create) (simp_all add: note_call_def)
    ultimately show "wp (on_exception (call_create h plan) (modify (set_status ''target_create_failed'')))
        (\<lambda>t. wp (athen (on_exception (await_target h t plan) (drop_target h t ''target_not_ready''))
           (switch_to h p t plan)) (apply_done h plan s) (\<lambda>e. apply_error h plan s))
        (\<lambda>e. apply_error h plan s) u"
      unfolding wp_on_exception wp_call_create wp_modify by (simp split: sum.split)
  next
    fix e and u :: "('p, 'w) executor"
    assume "current u = current ?s \<and> (\<exists>evs. calls u = calls ?s @ evs
      \<and> set evs \<subseteq> Drain ` set (old_workers ?s)
           \<union> (if stop_current_before_create ?s then Stop ` set (old_workers ?s) else {}))"
    then show "apply_error h plan s u"
      unfolding same apply_error_def by (blast intro: apply_failed.early)
  qed
qed

lemma apply_success: "apply_plan h plan s = (Inr t, s') \<Longrightarrow> apply_done h plan s t s'"
  using wp_result [OF apply_phases, of h plan s "Inr t" s'] by simp

lemma apply_failure:
  assumes "apply_plan h plan s = (Inl e, s')"
  obtains evs where "calls s' = calls s @ evs" and "apply_failed h plan s s' evs"
  using wp_result [OF apply_phases assms] by (auto simp: apply_error_def)

section \<open>Properties\<close>

text \<open>
  A transition that returns has done, in this order and nothing else: drained the old workers
  if state migrates first; drained and stopped them if they must make room; created the target,
  found it ready and verified; drained the old workers if nobody had; switched the traffic; and
  only then waited for the migration and stopped the old workers. The target is the current
  deployment and the transition is recorded as applied.
\<close>

theorem apply_plan_success_order:
  assumes "apply_plan h plan s = (Inr t, s')"
  shows "calls s' = calls s @ success_trace h plan s t
     \<and> current s' = Some t
     \<and> (\<exists>tr. last_transition s' = Some tr \<and> tr_status tr = ''applied'')"
  using apply_success [OF assms] by (auto simp: apply_done_def)

text \<open>The calls a transition added to the log.\<close>

definition new_calls :: "('p, 'w) executor \<Rightarrow> ('p, 'w) executor \<Rightarrow> ('p, 'w) log" where
  "new_calls s s' = drop (length (calls s)) (calls s')"

text \<open>
  C14. Make before break: when the old workers need not make room, a transition that raises either
  leaves them as the current deployment with no call to stop them, or has already switched the
  traffic to the target, which is then the current deployment. The handle the deployment gives to
  new workers is assumed to be a new one.
\<close>

theorem make_before_break_keeps_serving:
  assumes "apply_plan h plan s = (Inl e, s')"
    and "\<not> stop_current_before_create s"
    and "\<forall>lg. create_workers h lg plan \<noteq> Inr w"
    and "current s = Some w"
  shows "(current s' = Some w \<and> Stop w \<notin> set (new_calls s s'))
       \<or> (\<exists>t. current s' = Some t \<and> Switch t plan \<in> set (new_calls s s'))"
  using assms(1)
proof (rule apply_failure)
  fix evs
  assume calls: "calls s' = calls s @ evs" and "apply_failed h plan s s' evs"
  from this(2) show ?thesis
    using assms(2-)
    by (cases rule: apply_failedE)
      (auto simp: calls new_calls_def source_after_def prepare_trace_def old_workers_def split: if_splits)
qed

lemma apply_stops_or_keeps:
  assumes "apply_plan h plan s = (r, s')"
  shows "\<exists>evs. calls s' = calls s @ evs
     \<and> (\<forall>p t. Create p (Some t) \<in> set evs \<longrightarrow> current s' = Some t \<or> Stop t \<in> set evs)
     \<and> (\<forall>w. wait_ok h \<longrightarrow> current s = Some w \<longrightarrow> current s' = Some w \<or> Stop w \<in> set evs)"
proof (cases r)
  case (Inr t)
  with apply_success [of h plan s t s'] assms have d: "apply_done h plan s t s'" by simp
  then show ?thesis
    by (intro exI [of _ "success_trace h plan s t"])
      (auto simp: apply_done_def success_trace_def prepare_trace_def old_workers_def retire_trace_def
        split: option.splits if_splits)
next
  case (Inl e)
  then obtain evs where calls: "calls s' = calls s @ evs" and f: "apply_failed h plan s s' evs"
    using apply_failure [of h plan s e s'] assms by auto
  from f have "(\<forall>p t. Create p (Some t) \<in> set evs \<longrightarrow> current s' = Some t \<or> Stop t \<in> set evs)
     \<and> (\<forall>w. wait_ok h \<longrightarrow> current s = Some w \<longrightarrow> current s' = Some w \<or> Stop w \<in> set evs)"
    by (cases rule: apply_failedE)
      (auto simp: source_after_def prepare_trace_def old_workers_def split: option.splits if_splits)
  with calls show ?thesis by blast
qed

text \<open>
  C15. No transition leaks a deployment it created: whether it returns or raises, on every path,
  workers that were created are the current deployment afterwards or a call to stop them was made.
\<close>

theorem created_workers_kept_or_stopped:
  assumes "apply_plan h plan s = (r, s')" and "Create p (Some t) \<in> set (new_calls s s')"
  shows "current s' = Some t \<or> Stop t \<in> set (new_calls s s')"
proof -
  from apply_stops_or_keeps [OF assms(1)] obtain evs where "calls s' = calls s @ evs"
    and "\<forall>p t. Create p (Some t) \<in> set evs \<longrightarrow> current s' = Some t \<or> Stop t \<in> set evs" by blast
  with assms(2) show ?thesis unfolding new_calls_def by auto
qed

text \<open>
  A migration that reads from the live source is never combined with stopping that source
  first: \<open>apply\<close> refuses such a configuration before any hook is called and leaves the executor
  as it was.
\<close>

theorem live_source_migration_refused:
  assumes "stop_current_before_create s" "migrate_before_create s" "migration_requires_live_source s"
  shows "\<exists>msg. apply_plan h plan s = (Inl (ValueError msg), s)"
proof -
  have "\<exists>msg. resolved_transition_mode s = Inl (ValueError msg)"
    using assms by (simp add: resolved_transition_mode_def Let_def)
  then show ?thesis by (auto simp: apply_plan_def)
qed

text \<open>
  The executor over its lifetime: it starts with no deployment, applies plans one after the other,
  whatever their outcomes, and its switches may be set anew between two plans.
\<close>

inductive reachable :: "('p, 'w) hooks \<Rightarrow> ('p, 'w) executor \<Rightarrow> bool" for h where
  start: "current s = None \<Longrightarrow> calls s = [] \<Longrightarrow> reachable h s"
| reconfigure: "reachable h s \<Longrightarrow> reachable h (s\<lparr>stop_current_before_create := a,
     migrate_before_create := b, transition_mode := m, migration_requires_live_source := l\<rparr>)"
| apply_plan: "reachable h s \<Longrightarrow> apply_plan h plan s = (r, s') \<Longrightarrow> reachable h s'"

text \<open>
  Over any sequence of transitions, successful or not, every deployment that was ever created
  is the current one or was told to stop, so at most one deployment is left running. The waiting
  hook is assumed not to raise; when it does, the old workers are left behind.
\<close>

theorem at_most_one_deployment:
  assumes "reachable h s" and "wait_ok h" and "Create p (Some w) \<in> set (calls s)"
  shows "current s = Some w \<or> Stop w \<in> set (calls s)"
  using assms
proof (induction arbitrary: p w rule: reachable.induct)
  case (start s)
  then show ?case by simp
next
  case (reconfigure s a b m l)
  then show ?case by simp
next
  case (apply_plan s plan r s')
  obtain evs where calls: "calls s' = calls s @ evs"
    and created: "\<And>p t. Create p (Some t) \<in> set evs \<Longrightarrow> current s' = Some t \<or> Stop t \<in> set evs"
    and kept: "\<And>w. current s = Some w \<Longrightarrow> current s' = Some w \<or> Stop w \<in> set evs"
    using apply_stops_or_keeps [OF apply_plan.hyps(2)] apply_plan.prems(1) by blast
  show ?case
  proof (cases "Create p (Some w) \<in> set evs")
    case True
    then show ?thesis using created calls by auto
  next
    case False
    then have "current s = Some w \<or> Stop w \<in> set (calls s)"
      using apply_plan.IH [OF apply_plan.prems(1), of p w] apply_plan.prems(2) calls by auto
    then show ?thesis using kept calls by auto
  qed
qed

section \<open>Witnesses\<close>

text \<open>A deployment that numbers its workers by the length of the log and fails at one call.\<close>

definition ex_hooks :: "bool \<Rightarrow> (string, nat) hooks" where
  "ex_hooks switch_ok =
     \<lparr>create_workers = \<lambda>lg _. Inr (100 + length lg), ready = \<lambda>_ _ _. Inr True,
      switch_traffic = \<lambda>_ _ _. if switch_ok then Inr () else Inl (RuntimeError ''switch''),
      drain = \<lambda>_ _. Inr (), stop = \<lambda>_ _. Inr (),
      wait_for_migration = Some (\<lambda>_ _. Inr ()), verify_runtime = Some (\<lambda>_ _ _. Inr True)\<rparr>"

definition ex_executor :: "bool \<Rightarrow> (string, nat) executor" where
  "ex_executor stop_first =
     \<lparr>current = Some 7, stop_current_before_create = stop_first, migrate_before_create = True,
      transition_mode = None, migration_requires_live_source = True, last_transition = None,
      calls = []\<rparr>"

definition ex_fresh :: "(string, nat) executor" where
  "ex_fresh = (ex_executor False)\<lparr>current := None\<rparr>"

definition ex_after :: "bool \<Rightarrow> (string, nat) executor" where
  "ex_after switch_ok = snd (apply_plan (ex_hooks switch_ok) ''plan'' (ex_executor False))"

lemma ex_applied: "apply_plan (ex_hooks True) ''plan'' (ex_executor False) = (Inr 101, ex_after True)"
  by (simp add: prod_eq_iff ex_after_def) code_simp

lemma ex_failed: "apply_plan (ex_hooks False) ''plan'' (ex_executor False)
    = (Inl (RuntimeError ''switch''), ex_after False)"
  by (simp add: prod_eq_iff ex_after_def) code_simp

theorem apply_plan_success_order_witness:
  "calls (ex_after True) =
     [Drain 7, Create ''plan'' (Some 101), Ready 101 ''plan'', Verify 101 ''plan'',
      Switch 101 ''plan'', Wait_Migration 7, Stop 7]"
proof -
  have "success_trace (ex_hooks True) ''plan'' (ex_executor False) 101 =
     [Drain 7, Create ''plan'' (Some 101), Ready 101 ''plan'', Verify 101 ''plan'',
      Switch 101 ''plan'', Wait_Migration 7, Stop 7]" "calls (ex_executor False) = []"
    by code_simp+
  with apply_plan_success_order [OF ex_applied] show ?thesis by simp
qed

theorem make_before_break_keeps_serving_witness:
  "current (ex_after False) = Some 7 \<and> Stop 7 \<notin> set (new_calls (ex_executor False) (ex_after False))"
proof -
  have "current (ex_after False) = Some 7" "new_calls (ex_executor False) (ex_after False) =
     [Drain 7, Create ''plan'' (Some 101), Ready 101 ''plan'', Verify 101 ''plan'',
      Switch 101 ''plan'', Stop 101]"
    by code_simp+
  then show ?thesis
    using make_before_break_keeps_serving [OF ex_failed, of 7] by (simp add: ex_executor_def ex_hooks_def)
qed

theorem created_workers_kept_or_stopped_witness:
  "Stop 101 \<in> set (new_calls (ex_executor False) (ex_after False))"
proof -
  have "current (ex_after False) \<noteq> Some 101"
    "Create ''plan'' (Some 101) \<in> set (new_calls (ex_executor False) (ex_after False))"
    by code_simp+
  then show ?thesis using created_workers_kept_or_stopped [OF ex_failed] by blast
qed

theorem live_source_migration_refused_witness:
  "\<exists>msg. apply_plan (ex_hooks True) ''plan'' (ex_executor True) = (Inl (ValueError msg), ex_executor True)"
  by (rule live_source_migration_refused) (simp_all add: ex_executor_def)

theorem at_most_one_deployment_witness:
  "current (snd (apply_plan (ex_hooks True) ''plan'' ex_fresh)) = Some 100"
proof -
  let ?s = "snd (apply_plan (ex_hooks True) ''plan'' ex_fresh)"
  have "reachable (ex_hooks True) ex_fresh"
    by (rule reachable.start) (simp_all add: ex_fresh_def ex_executor_def)
  then have "reachable (ex_hooks True) ?s"
    by (rule reachable.apply_plan) (rule surjective_pairing)
  moreover have "wait_ok (ex_hooks True)" by (simp add: wait_ok_def ex_hooks_def)
  moreover have "Create ''plan'' (Some 100) \<in> set (calls ?s)" "Stop 100 \<notin> set (calls ?s)"
    by code_simp+
  ultimately show ?thesis by (metis at_most_one_deployment)
qed

text \<open>
  The hypothesis on the waiting hook is needed: when it raises after the traffic was switched,
  \<open>apply\<close> raises with the target as current deployment, the old workers are never told to stop
  and the transition stays recorded as started.
\<close>

lemma failed_wait_leaves_old_workers:
  "case apply_plan ((ex_hooks True)\<lparr>wait_for_migration := Some (\<lambda>_ _. Inl (RuntimeError ''wait''))\<rparr>)
      ''plan'' (ex_executor False) of
     (r, s') \<Rightarrow> r = Inl (RuntimeError ''wait'') \<and> current s' = Some 101 \<and> Stop 7 \<notin> set (calls s')
       \<and> map_option tr_status (last_transition s') = Some ''started''"
  by code_simp

end
