(* ===== verification/Gpu_Cluster.thy ===== *)
theory Gpu_Cluster
  imports Py_Prelude
begin

text \<open>
  The planner's view of the cluster, the first half of \<open>src/sllm/spot/reparallelization.py\<close>: the
  worker nodes and their lifecycle under spot events, the summary of the GPUs they offer, the
  shapes a number of GPUs can be cut into, and the nodes a plan is placed on. A node table maps
  node ids to the node's dictionary, in insertion order.
\<close>

type_synonym nodes = "(string \<times> dict) list"

section \<open>Node lifecycle\<close>

definition READY :: string where
  "READY = ''ready''"

definition PREEMPTING :: string where
  "PREEMPTING = ''preempting''"

definition DEAD :: string where
  "DEAD = ''dead''"

fun truthy_flag :: "pyval \<Rightarrow> bool" where
  "truthy_flag (PStr s) = flag_text s"
| "truthy_flag v = truthy v"

definition counts_as_runtime_worker :: "dict \<Rightarrow> bool" where
  "counts_as_runtime_worker node_info =
     truthy_flag (por (dgetn node_info ''_spotserve_counts_as_runtime_worker'')
       (por (dgetn node_info ''counts_as_runtime_worker'')
       (por (dgetn node_info ''count_as_runtime_worker'')
            (dgetn node_info ''runtime_worker_placeholder''))))"

definition is_synthetic_worker_node :: "dict \<Rightarrow> bool" where
  "is_synthetic_worker_node node_info =
     (\<not> counts_as_runtime_worker node_info \<and>
      (truthy_flag (dget node_info ''_spotserve_synthetic'' (PBool False))
       \<or> starts_with (py_str (dget node_info ''ray_node_id'' (PStr ''''))) ''synthetic-''
       \<or> starts_with (py_str (dget node_info ''address'' (PStr ''''))) ''synthetic-''))"

definition node_state :: "dict \<Rightarrow> pyval" where
  "node_state node_info = dget node_info ''state'' (PStr READY)"

definition gpu_count :: "dict \<Rightarrow> int res" where
  "gpu_count node_info =
     py_int (por (dget node_info ''total_gpu'' (dget node_info ''GPU'' (PInt 0))) (PInt 0))"

definition free_gpu_count :: "dict \<Rightarrow> int res" where
  "free_gpu_count node_info = rbind (int_or_zero node_info ''free_gpu'') (\<lambda>n. Inr (max 0 n))"

definition new_node :: dict where
  "new_node = [(''ray_node_id'', PNone), (''address'', PNone), (''free_gpu'', PInt 0),
               (''total_gpu'', PInt 0)]"

definition spot_transition :: "string \<Rightarrow> dict \<Rightarrow> dict" where
  "spot_transition event node =
     (if event = ''add'' then
        let node = dsetdefault node ''free_gpu'' (dget node ''total_gpu'' (PInt 0));
            node = dsetdefault node ''total_gpu'' (dget node ''free_gpu'' (PInt 0))
        in AList.update ''state'' (PStr READY) node
      else if event = ''remove'' then
        AList.update ''free_gpu'' (PInt 0) (AList.update ''state'' (PStr DEAD) node)
      else if event = ''preempt'' then AList.update ''state'' (PStr PREEMPTING) node
      else if event = ''recover'' then AList.update ''state'' (PStr READY) node
      else if event = ''dead'' then AList.update ''state'' (PStr DEAD) node
      else node)"

definition apply_spot_event_to_worker_nodes ::
  "nodes \<Rightarrow> string \<Rightarrow> string option \<Rightarrow> dict \<Rightarrow> nodes" where
  "apply_spot_event_to_worker_nodes worker_nodes event node_id node_info =
     (case node_id of
        None \<Rightarrow> worker_nodes
      | Some n \<Rightarrow>
          let node = dget worker_nodes n new_node;
              node = (if node_info \<noteq> [] then dmerge node node_info else node)
          in AList.update n (spot_transition event node) worker_nodes)"

section \<open>Available GPUs\<close>

record gpu_availability =
  ga_total_gpus :: int
  ga_available_gpus :: int
  ga_unavailable_gpus :: int
  ga_ready_nodes :: "string list"
  ga_preempting_nodes :: "string list"
  ga_dead_nodes :: "string list"

definition GpuAvailability_to_dict :: "gpu_availability \<Rightarrow> dict" where
  "GpuAvailability_to_dict self =
     [(''total_gpus'', PInt (ga_total_gpus self)),
      (''available_gpus'', PInt (ga_available_gpus self)),
      (''unavailable_gpus'', PInt (ga_unavailable_gpus self)),
      (''ready_nodes'', PList (map PStr (ga_ready_nodes self))),
      (''preempting_nodes'', PList (map PStr (ga_preempting_nodes self))),
      (''dead_nodes'', PList (map PStr (ga_dead_nodes self)))]"

definition count_node :: "string \<times> dict \<Rightarrow> gpu_availability \<Rightarrow> gpu_availability res" where
  "count_node node acc =
     (case node of (node_id, node_info) \<Rightarrow>
        let state = node_state node_info in
        rbind (gpu_count node_info) (\<lambda>node_gpus.
        let acc = acc\<lparr>ga_total_gpus := ga_total_gpus acc + node_gpus\<rparr> in
        Inr (if state = PStr READY then
               acc\<lparr>ga_available_gpus := ga_available_gpus acc + node_gpus,
                   ga_ready_nodes := ga_ready_nodes acc @ [node_id]\<rparr>
             else if state = PStr PREEMPTING then
               acc\<lparr>ga_preempting_nodes := ga_preempting_nodes acc @ [node_id]\<rparr>
             else if state = PStr DEAD then
               acc\<lparr>ga_dead_nodes := ga_dead_nodes acc @ [node_id]\<rparr>
             else acc)))"

definition summarize_gpu_availability :: "nodes \<Rightarrow> gpu_availability res" where
  "summarize_gpu_availability worker_nodes =
     rbind (rfold count_node (sort_key fst worker_nodes)
        \<lparr>ga_total_gpus = 0, ga_available_gpus = 0, ga_unavailable_gpus = 0, ga_ready_nodes = [],
         ga_preempting_nodes = [], ga_dead_nodes = []\<rparr>)
       (\<lambda>acc. Inr (acc\<lparr>ga_unavailable_gpus := max (ga_total_gpus acc - ga_available_gpus acc) 0\<rparr>))"

section \<open>Plans\<close>

record parallel_plan =
  pp_model_name :: string
  pp_backend :: string
  pp_tensor_parallel_size :: int
  pp_data_parallel_size :: int
  pp_pipeline_parallel_size :: int
  pp_replica_count :: int
  pp_enable_expert_parallel :: bool
  pp_num_gpus :: int
  pp_target_nodes :: "string list"
  pp_placement_epoch :: int
  pp_expert_placement_plan :: "dict option"
  pp_reason :: string
  pp_batch_size :: int

definition int_or_one :: "int \<Rightarrow> int" where
  "int_or_one n = (if n = 0 then 1 else n)"

definition ParallelPlan_init ::
  "string \<Rightarrow> string \<Rightarrow> int \<Rightarrow> int \<Rightarrow> int \<Rightarrow> int option \<Rightarrow> bool option \<Rightarrow> int \<Rightarrow> string list \<Rightarrow> int
   \<Rightarrow> dict option \<Rightarrow> string \<Rightarrow> int option \<Rightarrow> int option \<Rightarrow> int \<Rightarrow> parallel_plan" where
  "ParallelPlan_init model_name backend tensor_parallel_size data_parallel_size
     pipeline_parallel_size replica_count enable_expert_parallel num_gpus target_nodes
     placement_epoch expert_placement_plan reason num_replicas expert_parallel_size batch_size =
     \<lparr>pp_model_name = model_name,
      pp_backend = backend,
      pp_tensor_parallel_size = max 1 tensor_parallel_size,
      pp_data_parallel_size = max 1 (int_or_one data_parallel_size),
      pp_pipeline_parallel_size = max 1 pipeline_parallel_size,
      pp_replica_count = max 1 (int_or_one
        (case replica_count of Some n \<Rightarrow> n
         | None \<Rightarrow> (case num_replicas of Some n \<Rightarrow> n | None \<Rightarrow> 1))),
      pp_enable_expert_parallel =
        (case enable_expert_parallel of Some b \<Rightarrow> b
         | None \<Rightarrow> (case expert_parallel_size of None \<Rightarrow> False | Some n \<Rightarrow> int_or_one n > 1)),
      pp_num_gpus = max 1 (int_or_one num_gpus),
      pp_target_nodes = target_nodes,
      pp_placement_epoch = max 0 placement_epoch,
      pp_expert_placement_plan = expert_placement_plan,
      pp_reason = reason,
      pp_batch_size = max 0 batch_size\<rparr>"

definition effective_expert_parallel_size :: "parallel_plan \<Rightarrow> int" where
  "effective_expert_parallel_size self =
     (if \<not> pp_enable_expert_parallel self then 1
      else pp_tensor_parallel_size self * pp_data_parallel_size self)"

text \<open>\<open>int(payload.get(key, default) or default)\<close>\<close>

definition int_or_default :: "dict \<Rightarrow> string \<Rightarrow> pyval \<Rightarrow> int \<Rightarrow> int res" where
  "int_or_default payload key default_value d = py_int (por (dget payload key default_value) (PInt d))"

definition missing_plan_fields :: "dict \<Rightarrow> string list" where
  "missing_plan_fields payload =
     filter (\<lambda>key. \<not> dhas payload key)
       [''backend'', ''data_parallel_size'', ''model_name'', ''tensor_parallel_size'']"

definition ParallelPlan_from_dict :: "pyval \<Rightarrow> parallel_plan res" where
  "ParallelPlan_from_dict value =
     (if \<not> is_mapping value then Inl TypeError
      else let payload = dict_of value; missing = missing_plan_fields payload in
      if missing \<noteq> []
      then Inl (ValueError (''parallel plan is missing required fields: '' @ py_join '', '' missing))
      else
        rbind (py_int (dgetn payload ''tensor_parallel_size'')) (\<lambda>tp.
        rbind (py_int (dgetn payload ''data_parallel_size'')) (\<lambda>dp.
        rbind (int_or_default payload ''pipeline_parallel_size'' (PInt 1) 1) (\<lambda>pp.
        rbind (int_or_default payload ''replica_count'' (dget payload ''num_replicas'' (PInt 1)) 1) (\<lambda>replicas.
        rbind (int_or_default payload ''effective_expert_parallel_size''
                 (dget payload ''expert_parallel_size'' (PInt 1)) 1) (\<lambda>ep.
        rbind (int_or_default payload ''num_gpus'' (PInt 1) 1) (\<lambda>num_gpus.
        rbind (py_iter (dget payload ''target_nodes'' (PList []))) (\<lambda>target_nodes.
        rbind (int_or_default payload ''placement_epoch''
                 (dget payload ''expert_placement_epoch'' (PInt 0)) 0) (\<lambda>epoch.
        rbind (int_or_default payload ''batch_size'' (PInt 0) 0) (\<lambda>batch_size.
        Inr (ParallelPlan_init
               (py_str (dgetn payload ''model_name''))
               (py_str (dgetn payload ''backend''))
               (max 1 tp) (max 1 dp) (max 1 pp) (Some (max 1 replicas))
               (Some (truthy (dget payload ''enable_expert_parallel'' (PBool (ep > 1)))))
               (max 1 num_gpus) (map py_str target_nodes) (max 0 epoch)
               (case dgetn payload ''expert_placement_plan'' of PDict p \<Rightarrow> Some p | _ \<Rightarrow> None)
               (py_str (dget payload ''reason'' (PStr ''replan'')))
               None None batch_size)))))))))))"

definition ParallelPlan_to_dict :: "parallel_plan \<Rightarrow> dict" where
  "ParallelPlan_to_dict self =
     (let ep = PInt (effective_expert_parallel_size self); placement = pp_expert_placement_plan self in
     [(''model_name'', PStr (pp_model_name self)),
      (''backend'', PStr (pp_backend self)),
      (''tensor_parallel_size'', PInt (pp_tensor_parallel_size self)),
      (''data_parallel_size'', PInt (pp_data_parallel_size self)),
      (''vllm_data_parallel_size'', PInt (pp_data_parallel_size self)),
      (''pipeline_parallel_size'', PInt (pp_pipeline_parallel_size self)),
      (''replica_count'', PInt (pp_replica_count self)),
      (''sllm_replica_count'', PInt (pp_replica_count self)),
      (''enable_expert_parallel'', PBool (pp_enable_expert_parallel self)),
      (''effective_expert_parallel_size'', ep),
      (''runtime_effective_expert_parallel_size'', ep),
      (''derived_effective_expert_parallel_size'', ep),
      (''expert_parallel_size'', ep),
      (''expert_parallel_size_source'',
         PStr (if pp_enable_expert_parallel self then ''derived_from_tp_dp'' else ''disabled'')),
      (''num_replicas'', PInt (pp_replica_count self)),
      (''num_gpus'', PInt (pp_num_gpus self)),
      (''batch_size'', PInt (pp_batch_size self)),
      (''target_nodes'', PList (map PStr (pp_target_nodes self))),
      (''placement_epoch'', PInt (pp_placement_epoch self)),
      (''placement_version'', PInt (pp_placement_epoch self)),
      (''expert_placement_epoch'', PInt (pp_placement_epoch self)),
      (''expert_placement_plan_available'',
         PBool (case placement of None \<Rightarrow> False
                | Some p \<Rightarrow> p \<noteq> [] \<and> truthy (dgetn p ''expert_placement_available''))),
      (''expert_placement_fingerprint'',
         PStr (case placement of None \<Rightarrow> ''''
               | Some p \<Rightarrow> if p = [] then '''' else py_str (dget p ''placement_fingerprint'' (PStr '''')))),
      (''expert_placement_plan'', (case placement of None \<Rightarrow> PNone | Some p \<Rightarrow> PDict p)),
      (''reason'', PStr (pp_reason self))])"

section \<open>Shapes\<close>

record parallel_config =
  pc_tensor_parallel_size :: int
  pc_pipeline_parallel_size :: int
  pc_data_parallel_size :: int
  pc_replica_count :: int
  pc_total_gpus :: int
  pc_unused_gpus :: int
  pc_score :: rat
  pc_reason :: string
  pc_enable_expert_parallel :: bool
  pc_base_score :: rat
  pc_workload_score_delta :: rat
  pc_arrival_rate_req_s :: rat
  pc_batch_size :: int
  pc_latency_estimate_ms :: rat
  pc_throughput_estimate_req_s :: rat
  pc_load_time_estimate_ms :: rat
  pc_migration_cost_estimate_ms :: rat
  pc_expert_weight_movement_cost_estimate_ms :: "rat option"
  pc_expert_placement_movement_observation_available :: bool
  pc_expert_placement_movement_source :: string
  pc_expert_placement_moved_expert_count :: int
  pc_expert_placement_stationary_expert_count :: int
  pc_expert_placement_unknown_movement_expert_count :: int
  pc_expert_placement_moved_weight_bytes :: "int option"
  pc_queue_penalty_ms :: rat
  pc_replan_window_cost_ms :: rat
  pc_replan_window_penalty_cost_ms :: rat
  pc_expert_placement_strategy :: string
  pc_expert_placement_fingerprint :: string
  pc_expert_placement_hotness_snapshot_id :: string
  pc_expert_placement_plan :: "dict option"
  pc_placement_profile_available :: bool
  pc_placement_profile_id :: string
  pc_placement_profile_match_reason :: string
  pc_placement_profile_workload_bucket_id :: string
  pc_score_components :: "(string \<times> rat) list"

text \<open>A configuration with the fields that have no default; the others take theirs.\<close>

definition ParallelConfig_init ::
  "int \<Rightarrow> int \<Rightarrow> int \<Rightarrow> int \<Rightarrow> int \<Rightarrow> int \<Rightarrow> rat \<Rightarrow> string \<Rightarrow> bool \<Rightarrow> parallel_config" where
  "ParallelConfig_init tp pp dp replica_count total_gpus unused_gpus score reason enable_ep =
     \<lparr>pc_tensor_parallel_size = tp, pc_pipeline_parallel_size = pp, pc_data_parallel_size = dp,
      pc_replica_count = replica_count, pc_total_gpus = total_gpus, pc_unused_gpus = unused_gpus,
      pc_score = score, pc_reason = reason, pc_enable_expert_parallel = enable_ep,
      pc_base_score = 0, pc_workload_score_delta = 0, pc_arrival_rate_req_s = 0, pc_batch_size = 0,
      pc_latency_estimate_ms = 0, pc_throughput_estimate_req_s = 0, pc_load_time_estimate_ms = 0,
      pc_migration_cost_estimate_ms = 0, pc_expert_weight_movement_cost_estimate_ms = Some 0,
      pc_expert_placement_movement_observation_available = False,
      pc_expert_placement_movement_source = ''unavailable'',
      pc_expert_placement_moved_expert_count = 0, pc_expert_placement_stationary_expert_count = 0,
      pc_expert_placement_unknown_movement_expert_count = 0,
      pc_expert_placement_moved_weight_bytes = Some 0, pc_queue_penalty_ms = 0,
      pc_replan_window_cost_ms = 0, pc_replan_window_penalty_cost_ms = 0,
      pc_expert_placement_strategy = '''', pc_expert_placement_fingerprint = '''',
      pc_expert_placement_hotness_snapshot_id = '''', pc_expert_placement_plan = None,
      pc_placement_profile_available = False, pc_placement_profile_id = '''',
      pc_placement_profile_match_reason = ''not_requested'',
      pc_placement_profile_workload_bucket_id = '''', pc_score_components = []\<rparr>"

definition config_expert_parallel_size :: "parallel_config \<Rightarrow> int" where
  "config_expert_parallel_size self =
     (if \<not> pc_enable_expert_parallel self then 1
      else pc_tensor_parallel_size self * pc_data_parallel_size self)"

definition ParallelConfig_to_dict :: "parallel_config \<Rightarrow> dict" where
  "ParallelConfig_to_dict self =
     (let ep = PInt (config_expert_parallel_size self) in
     [(''tensor_parallel_size'', PInt (pc_tensor_parallel_size self)),
      (''pipeline_parallel_size'', PInt (pc_pipeline_parallel_size self)),
      (''data_parallel_size'', PInt (pc_data_parallel_size self)),
      (''vllm_data_parallel_size'', PInt (pc_data_parallel_size self)),
      (''replica_count'', PInt (pc_replica_count self)),
      (''sllm_replica_count'', PInt (pc_replica_count self)),
      (''enable_expert_parallel'', PBool (pc_enable_expert_parallel self)),
      (''effective_expert_parallel_size'', ep),
      (''runtime_effective_expert_parallel_size'', ep),
      (''derived_effective_expert_parallel_size'', ep),
      (''expert_parallel_size'', ep),
      (''expert_parallel_size_source'',
         PStr (if pc_enable_expert_parallel self then ''derived_from_tp_dp'' else ''disabled'')),
      (''total_gpus'', PInt (pc_total_gpus self)),
      (''unused_gpus'', PInt (pc_unused_gpus self)),
      (''score'', PFloat (pc_score self)),
      (''base_score'', PFloat (if pc_base_score self \<noteq> 0 then pc_base_score self
                             else pc_score self - pc_workload_score_delta self)),
      (''workload_score_delta'', PFloat (pc_workload_score_delta self)),
      (''arrival_rate_req_s'', PFloat (pc_arrival_rate_req_s self)),
      (''batch_size'', PInt (pc_batch_size self)),
      (''latency_estimate_ms'', PFloat (pc_latency_estimate_ms self)),
      (''throughput_estimate_req_s'', PFloat (pc_throughput_estimate_req_s self)),
      (''load_time_estimate_ms'', PFloat (pc_load_time_estimate_ms self)),
      (''migration_cost_estimate_ms'', PFloat (pc_migration_cost_estimate_ms self)),
      (''expert_weight_movement_cost_estimate_ms'',
         of_opt_float (pc_expert_weight_movement_cost_estimate_ms self)),
      (''expert_placement_movement_observation_available'',
         PBool (pc_expert_placement_movement_observation_available self)),
      (''expert_placement_movement_source'', PStr (pc_expert_placement_movement_source self)),
      (''expert_placement_moved_expert_count'', PInt (pc_expert_placement_moved_expert_count self)),
      (''expert_placement_stationary_expert_count'',
         PInt (pc_expert_placement_stationary_expert_count self)),
      (''expert_placement_unknown_movement_expert_count'',
         PInt (pc_expert_placement_unknown_movement_expert_count self)),
      (''expert_placement_moved_weight_bytes'',
         of_opt_int (pc_expert_placement_moved_weight_bytes self)),
      (''queue_penalty_ms'', PFloat (pc_queue_penalty_ms self)),
      (''replan_window_cost_ms'', PFloat (pc_replan_window_cost_ms self)),
      (''replan_window_penalty_cost_ms'', PFloat (pc_replan_window_penalty_cost_ms self)),
      (''expert_placement_strategy'', PStr (pc_expert_placement_strategy self)),
      (''expert_placement_fingerprint'', PStr (pc_expert_placement_fingerprint self)),
      (''expert_placement_hotness_snapshot_id'', PStr (pc_expert_placement_hotness_snapshot_id self)),
      (''placement_profile_available'', PBool (pc_placement_profile_available self)),
      (''placement_profile_id'', PStr (pc_placement_profile_id self)),
      (''placement_profile_match_reason'', PStr (pc_placement_profile_match_reason self)),
      (''placement_profile_workload_bucket_id'', PStr (pc_placement_profile_workload_bucket_id self)),
      (''score_components'', PDict (map (\<lambda>(k, r). (k, PFloat r)) (pc_score_components self))),
      (''reason'', PStr (pc_reason self))])"

definition positive_int :: "dict \<Rightarrow> string \<Rightarrow> int \<Rightarrow> int res" where
  "positive_int config key d =
     rbind (py_int (por (dget config key (PInt d)) (PInt d))) (\<lambda>value. Inr (max value 1))"

definition candidate_score :: "int \<Rightarrow> int \<Rightarrow> int \<Rightarrow> int \<Rightarrow> int \<Rightarrow> rat" where
  "candidate_score total_gpus replica_count replica_gpus target_replica_gpus unused_gpus =
     of_int (total_gpus * 10000 + replica_count * 100
             - \<bar>replica_gpus - target_replica_gpus\<bar> * 1000 - unused_gpus)"

definition shape_candidate :: "int \<Rightarrow> int \<Rightarrow> int \<Rightarrow> int \<Rightarrow> int \<Rightarrow> parallel_config list" where
  "shape_candidate available_gpus min_replica_count target_replica_gpus tp pp =
     (let replica_gpus = tp * pp; replica_count = available_gpus div replica_gpus;
          total_gpus = replica_gpus * replica_count; unused_gpus = available_gpus - total_gpus
      in if replica_gpus > available_gpus \<or> replica_count < min_replica_count then []
         else [ParallelConfig_init tp pp 1 replica_count total_gpus unused_gpus
                 (candidate_score total_gpus replica_count replica_gpus target_replica_gpus unused_gpus)
                 ''max_gpu_utilization_then_replica_count_then_current_replica_shape'' False])"

definition shape_key :: "parallel_config \<Rightarrow> rat \<times> int \<times> int \<times> int \<times> int" where
  "shape_key c = (pc_score c, pc_replica_count c, pc_tensor_parallel_size c,
                  - pc_pipeline_parallel_size c, - pc_unused_gpus c)"

definition generate_parallel_candidates :: "int \<Rightarrow> dict \<Rightarrow> parallel_config list res" where
  "generate_parallel_candidates available_gpus planner_config =
     (if available_gpus \<le> 0 then Inr []
      else
        rbind (positive_int planner_config ''max_tensor_parallel_size'' available_gpus) (\<lambda>raw_max_tp.
        rbind (positive_int planner_config ''min_tensor_parallel_size'' 1) (\<lambda>raw_min_tp.
        rbind (positive_int planner_config ''max_pipeline_parallel_size'' available_gpus) (\<lambda>raw_max_pp.
        rbind (positive_int planner_config ''min_replica_count'' 1) (\<lambda>min_replica_count.
        rbind (positive_int planner_config ''target_replica_gpus'' 1) (\<lambda>target_replica_gpus.
        let max_tp = min raw_max_tp available_gpus; min_tp = min raw_min_tp max_tp;
            max_pp = min raw_max_pp available_gpus
        in Inr (py_sort_rev shape_key (concat (map (\<lambda>tp. concat (map
             (shape_candidate available_gpus min_replica_count target_replica_gpus tp)
             [1..max_pp])) [min_tp..max_tp]))))))))) "

section \<open>Target nodes\<close>

definition node_offer :: "bool \<Rightarrow> string \<times> dict \<Rightarrow> (string \<times> int) list \<Rightarrow> (string \<times> int) list res" where
  "node_offer free_only node acc =
     (case node of (node_id, node_info) \<Rightarrow>
        if node_state node_info \<noteq> PStr READY then Inr acc
        else rbind (if free_only then free_gpu_count node_info else gpu_count node_info)
               (\<lambda>node_gpus. Inr (acc @ [(node_id, node_gpus)])))"

fun take_nodes :: "int \<Rightarrow> (string \<times> int) list \<Rightarrow> int \<Rightarrow> string list \<Rightarrow> int \<times> string list" where
  "take_nodes required_gpus [] selected_gpus selected_nodes = (selected_gpus, selected_nodes)"
| "take_nodes required_gpus ((node_id, node_gpus) # rest) selected_gpus selected_nodes =
     (if node_gpus \<le> 0 then take_nodes required_gpus rest selected_gpus selected_nodes
      else if selected_gpus + node_gpus \<ge> required_gpus
      then (selected_gpus + node_gpus, selected_nodes @ [node_id])
      else take_nodes required_gpus rest (selected_gpus + node_gpus) (selected_nodes @ [node_id]))"

definition offer_key :: "string \<times> int \<Rightarrow> int \<times> string" where
  "offer_key offer = (- snd offer, fst offer)"

definition select_target_nodes :: "nodes \<Rightarrow> int \<Rightarrow> bool \<Rightarrow> string list res" where
  "select_target_nodes worker_nodes required_gpus free_only =
     (if required_gpus \<le> 0 then Inr []
      else rbind (rfold (node_offer free_only) worker_nodes []) (\<lambda>ready_nodes.
        let (selected_gpus, selected_nodes) =
              take_nodes required_gpus (sort_key offer_key ready_nodes) 0 []
        in Inr (if selected_gpus < required_gpus then [] else selected_nodes)))"

definition build_parallel_plan ::
  "string \<Rightarrow> string \<Rightarrow> parallel_config \<Rightarrow> nodes \<Rightarrow> int \<Rightarrow> dict option \<Rightarrow> string \<Rightarrow> bool \<Rightarrow> parallel_plan res" where
  "build_parallel_plan model_name backend c worker_nodes placement_epoch expert_placement_plan reason
     require_free_gpu_overlap =
     rbind (select_target_nodes worker_nodes (pc_total_gpus c) require_free_gpu_overlap) (\<lambda>target_nodes.
     Inr (ParallelPlan_init model_name backend (pc_tensor_parallel_size c) (pc_data_parallel_size c)
            (pc_pipeline_parallel_size c) (Some (pc_replica_count c))
            (Some (pc_enable_expert_parallel c)) (pc_total_gpus c) target_nodes placement_epoch
            expert_placement_plan reason None None (pc_batch_size c)))"

end
