(* ===== verification/Gpu_Cluster_Props.thy ===== *)
theory Gpu_Cluster_Props
  imports Gpu_Cluster
begin

text \<open>
  Properties of the planner's view of the cluster: what a trace of spot events does to the nodes,
  what the summary counts, which shapes are enumerated and which comes first, and that a plan is
  placed on ready nodes with enough GPUs and on as few of them as possible.
\<close>

section \<open>Lifecycle of keyed nodes\<close>

text \<open>
  The contract between a table of nodes and the events that drive it: an event names one node,
  sets that node's state and leaves the others alone.
\<close>

locale node_lifecycle =
  fixes step :: "'e \<Rightarrow> 't \<Rightarrow> 't"
    and node_of :: "'e \<Rightarrow> 'n"
    and state_after :: "'e \<Rightarrow> 's"
    and state :: "'t \<Rightarrow> 'n \<Rightarrow> 's option"
    and valid :: "'e \<Rightarrow> bool"
  assumes state_step: "valid e \<Longrightarrow> state (step e t) (node_of e) = Some (state_after e)"
    and state_other: "valid e \<Longrightarrow> n \<noteq> node_of e \<Longrightarrow> state (step e t) n = state t n"
begin

lemma state_cases:
  "valid e \<Longrightarrow> state (step e t) n = (if n = node_of e then Some (state_after e) else state t n)"
  by (simp add: state_step state_other)

lemma last_event_wins:
  assumes "\<forall>e \<in> set es. valid e"
  shows "state (fold step es t) n =
    (case filter (\<lambda>e. node_of e = n) (rev es) of [] \<Rightarrow> state t n | e # _ \<Rightarrow> Some (state_after e))"
  using assms
proof (induction es rule: rev_induct)
  case Nil
  then show ?case by simp
next
  case (snoc e es)
  then show ?case by (simp add: state_cases)
qed

lemma untouched_node:
  "\<forall>e \<in> set es. valid e \<Longrightarrow> n \<notin> node_of ` set es \<Longrightarrow> state (fold step es t) n = state t n"
  by (induction es arbitrary: t) (auto simp: state_other)

lemma independent_events_commute:
  assumes "valid e" and "valid e'" and "node_of e \<noteq> node_of e'"
  shows "state (step e (step e' t)) n = state (step e' (step e t)) n"
  using assms by (simp add: state_cases)

end

text \<open>The events of a spot trace on the planner's node table.\<close>

type_synonym node_event = "string \<times> string \<times> dict"

definition supported_event :: "node_event \<Rightarrow> bool" where
  "supported_event e = (fst e \<in> {''add'', ''remove'', ''preempt'', ''recover'', ''dead''})"

definition event_node :: "node_event \<Rightarrow> string" where
  "event_node e = fst (snd e)"

definition state_after_event :: "node_event \<Rightarrow> pyval" where
  "state_after_event e = PStr
     (if fst e \<in> {''add'', ''recover''} then READY
      else if fst e = ''preempt'' then PREEMPTING else DEAD)"

definition apply_event :: "node_event \<Rightarrow> nodes \<Rightarrow> nodes" where
  "apply_event e nodes = apply_spot_event_to_worker_nodes nodes (fst e) (Some (event_node e)) (snd (snd e))"

definition state_of :: "nodes \<Rightarrow> string \<Rightarrow> pyval option" where
  "state_of nodes n = map_option node_state (map_of nodes n)"

lemma node_state_update: "node_state (AList.update k v d) = (if k = ''state'' then v else node_state d)"
  by (auto simp: node_state_def dget_update)

lemma node_state_spot_transition:
  "supported_event (event, n, info) \<Longrightarrow>
   node_state (spot_transition event node) = state_after_event (event, n, info)"
  by (auto simp: supported_event_def spot_transition_def state_after_event_def Let_def node_state_update)

interpretation spot_nodes: node_lifecycle apply_event event_node state_after_event state_of supported_event
proof
  fix e t
  assume "supported_event e"
  then show "state_of (apply_event e t) (event_node e) = Some (state_after_event e)"
    by (cases e) (simp add: apply_event_def state_of_def apply_spot_event_to_worker_nodes_def Let_def
        event_node_def node_state_spot_transition)
next
  fix e n t
  assume "n \<noteq> event_node e"
  then show "state_of (apply_event e t) n = state_of t n"
    by (simp add: apply_event_def state_of_def apply_spot_event_to_worker_nodes_def Let_def)
qed

text \<open>
  After any sequence of supported spot events (with whatever node information they carry) the
  state of a node is the one its last event puts it in, and a node no event names keeps its state.
\<close>

theorem spot_trace_node_state:
  assumes "\<forall>e \<in> set es. supported_event e"
  shows "state_of (fold apply_event es nodes) n =
    (case filter (\<lambda>e. event_node e = n) (rev es) of
       [] \<Rightarrow> state_of nodes n | e # _ \<Rightarrow> Some (state_after_event e))"
  by (rule spot_nodes.last_event_wins [OF assms])

section \<open>Availability\<close>

definition is_ready :: "string \<times> dict \<Rightarrow> bool" where
  "is_ready node = (node_state (snd node) = PStr READY)"

definition gpus_of :: "string \<times> dict \<Rightarrow> int" where
  "gpus_of node = projr (gpu_count (snd node))"

definition in_state :: "string \<Rightarrow> string \<times> dict \<Rightarrow> bool" where
  "in_state s node = (node_state (snd node) = PStr s)"

lemma states_distinct [simp]: "READY \<noteq> PREEMPTING" "READY \<noteq> DEAD" "PREEMPTING \<noteq> DEAD"
  "PREEMPTING \<noteq> READY" "DEAD \<noteq> READY" "DEAD \<noteq> PREEMPTING"
  by (simp_all add: READY_def PREEMPTING_def DEAD_def)

lemma count_nodes:
  assumes "rfold count_node ns acc = Inr acc'"
  shows "ga_total_gpus acc' = ga_total_gpus acc + sum_list (map gpus_of ns)
    \<and> ga_available_gpus acc' = ga_available_gpus acc + sum_list (map gpus_of (filter (in_state READY) ns))
    \<and> ga_ready_nodes acc' = ga_ready_nodes acc @ map fst (filter (in_state READY) ns)
    \<and> ga_preempting_nodes acc' = ga_preempting_nodes acc @ map fst (filter (in_state PREEMPTING) ns)
    \<and> ga_dead_nodes acc' = ga_dead_nodes acc @ map fst (filter (in_state DEAD) ns)"
  using assms
proof (induction ns arbitrary: acc)
  case Nil
  then show ?case by simp
next
  case (Cons node ns)
  obtain n d where node: "node = (n, d)" by (cases node)
  from Cons.prems obtain mid where mid: "count_node node acc = Inr mid"
    and rest: "rfold count_node ns mid = Inr acc'" by auto
  from mid obtain g where g: "gpu_count d = Inr g" by (auto simp: node count_node_def Let_def)
  show ?case
    using Cons.IH [OF rest] mid g
    by (auto simp: node count_node_def in_state_def gpus_of_def Let_def split: if_splits)
qed

lemma sum_list_sort_key: "sum_list (map (f :: _ \<Rightarrow> int) (sort_key k xs)) = sum_list (map f xs)"
  by (metis mset_map mset_sort sum_mset_sum_list)

lemma sum_filter_split: "sum_list (map (f :: _ \<Rightarrow> int) xs) =
    sum_list (map f (filter P xs)) + sum_list (map f (filter (\<lambda>x. \<not> P x) xs))"
  by (induction xs) auto

text \<open>
  The summary counts every GPU of the table, splits them into available ones (on ready nodes)
  and unavailable ones (on all other nodes), and lists the ready, preempting and dead nodes in
  the order of their ids.
\<close>

theorem gpu_availability_accounts:
  assumes "summarize_gpu_availability nodes = Inr a"
    and "\<forall>node \<in> set nodes. 0 \<le> gpus_of node"
  shows "ga_total_gpus a = sum_list (map gpus_of nodes)
    \<and> ga_available_gpus a = sum_list (map gpus_of (filter (in_state READY) nodes))
    \<and> ga_unavailable_gpus a = sum_list (map gpus_of (filter (\<lambda>node. \<not> in_state READY node) nodes))
    \<and> ga_ready_nodes a = map fst (sort_key fst (filter (in_state READY) nodes))
    \<and> ga_preempting_nodes a = map fst (sort_key fst (filter (in_state PREEMPTING) nodes))
    \<and> ga_dead_nodes a = map fst (sort_key fst (filter (in_state DEAD) nodes))"
proof -
  from assms(1) obtain acc where acc: "rfold count_node (sort_key fst nodes)
      \<lparr>ga_total_gpus = 0, ga_available_gpus = 0, ga_unavailable_gpus = 0, ga_ready_nodes = [],
       ga_preempting_nodes = [], ga_dead_nodes = []\<rparr> = Inr acc"
    and a: "a = acc\<lparr>ga_unavailable_gpus := max (ga_total_gpus acc - ga_available_gpus acc) 0\<rparr>"
    by (auto simp: summarize_gpu_availability_def)
  have "0 \<le> sum_list (map gpus_of (filter (\<lambda>node. \<not> in_state READY node) nodes))"
    using assms(2) by (intro sum_list_nonneg) auto
  then show ?thesis
    using count_nodes [OF acc] sum_filter_split [of gpus_of nodes "in_state READY"]
    by (simp add: a sum_list_sort_key filter_sort)
qed

section \<open>Shapes\<close>

text \<open>The candidates are ranked by score, replicas, tensor size, pipeline size and waste.\<close>

interpretation shape_rank: ranking "py_sort_rev shape_key" "\<lambda>c c'. shape_key c' \<le> shape_key c"
  by (rule ranking_py_sort_rev)

text \<open>The bounds the enumeration reads from the configuration.\<close>

definition shape_bound :: "dict \<Rightarrow> string \<Rightarrow> int \<Rightarrow> int" where
  "shape_bound planner_config key d = projr (positive_int planner_config key d)"

definition admissible_shape :: "int \<Rightarrow> dict \<Rightarrow> int \<Rightarrow> int \<Rightarrow> bool" where
  "admissible_shape available_gpus planner_config tp pp \<longleftrightarrow>
     (let max_tp = min (shape_bound planner_config ''max_tensor_parallel_size'' available_gpus) available_gpus
      in min (shape_bound planner_config ''min_tensor_parallel_size'' 1) max_tp \<le> tp \<and> tp \<le> max_tp
         \<and> 1 \<le> pp
         \<and> pp \<le> min (shape_bound planner_config ''max_pipeline_parallel_size'' available_gpus) available_gpus
         \<and> tp * pp \<le> available_gpus
         \<and> shape_bound planner_config ''min_replica_count'' 1 \<le> available_gpus div (tp * pp))"

lemma lex_fst_mono: "x \<le> y \<Longrightarrow> fst x \<le> fst y" for x y :: "'a::linorder \<times> 'b::linorder"
  by (auto simp: less_eq_prod_def)

lemma positive_int_pos: "positive_int c k d = Inr n \<Longrightarrow> 1 \<le> n"
  by (auto simp: positive_int_def)

lemma shape_candidate_fields:
  assumes "c \<in> set (shape_candidate available_gpus min_replicas target tp pp)"
  shows "pc_tensor_parallel_size c = tp \<and> pc_pipeline_parallel_size c = pp
    \<and> pc_data_parallel_size c = 1
    \<and> pc_replica_count c = available_gpus div (tp * pp)
    \<and> pc_total_gpus c = tp * pp * (available_gpus div (tp * pp))
    \<and> pc_unused_gpus c = available_gpus mod (tp * pp)
    \<and> tp * pp \<le> available_gpus \<and> min_replicas \<le> available_gpus div (tp * pp)"
  using assms
  by (auto simp: shape_candidate_def ParallelConfig_init_def Let_def minus_mult_div_eq_mod split: if_splits)

lemma generate_cases:
  assumes "generate_parallel_candidates available_gpus planner_config = Inr cs" and "0 < available_gpus"
  shows "cs = py_sort_rev shape_key
     (let max_tp = min (shape_bound planner_config ''max_tensor_parallel_size'' available_gpus) available_gpus;
          min_tp = min (shape_bound planner_config ''min_tensor_parallel_size'' 1) max_tp;
          max_pp = min (shape_bound planner_config ''max_pipeline_parallel_size'' available_gpus) available_gpus
      in concat (map (\<lambda>tp. concat (map (shape_candidate available_gpus
            (shape_bound planner_config ''min_replica_count'' 1)
            (shape_bound planner_config ''target_replica_gpus'' 1) tp) [1..max_pp])) [min_tp..max_tp]))"
    and "1 \<le> shape_bound planner_config ''min_tensor_parallel_size'' 1"
    and "1 \<le> shape_bound planner_config ''max_tensor_parallel_size'' available_gpus"
    and "1 \<le> shape_bound planner_config ''max_pipeline_parallel_size'' available_gpus"
    and "1 \<le> shape_bound planner_config ''min_replica_count'' 1"
proof -
  from assms obtain a b c d e where
    "positive_int planner_config ''max_tensor_parallel_size'' available_gpus = Inr a"
    "positive_int planner_config ''min_tensor_parallel_size'' 1 = Inr b"
    "positive_int planner_config ''max_pipeline_parallel_size'' available_gpus = Inr c"
    "positive_int planner_config ''min_replica_count'' 1 = Inr d"
    "positive_int planner_config ''target_replica_gpus'' 1 = Inr e"
    and "cs = py_sort_rev shape_key (concat (map (\<lambda>tp. concat (map
             (shape_candidate available_gpus d e tp)
             [1..min c available_gpus])) [min b (min a available_gpus)..min a available_gpus]))"
    unfolding generate_parallel_candidates_def by (auto simp only: rbind_eq_Inr Let_def if_False not_le split: if_splits)
  then show "cs = py_sort_rev shape_key
     (let max_tp = min (shape_bound planner_config ''max_tensor_parallel_size'' available_gpus) available_gpus;
          min_tp = min (shape_bound planner_config ''min_tensor_parallel_size'' 1) max_tp;
          max_pp = min (shape_bound planner_config ''max_pipeline_parallel_size'' available_gpus) available_gpus
      in concat (map (\<lambda>tp. concat (map (shape_candidate available_gpus
            (shape_bound planner_config ''min_replica_count'' 1)
            (shape_bound planner_config ''target_replica_gpus'' 1) tp) [1..max_pp])) [min_tp..max_tp]))"
    and "1 \<le> shape_bound planner_config ''min_tensor_parallel_size'' 1"
    and "1 \<le> shape_bound planner_config ''max_tensor_parallel_size'' available_gpus"
    and "1 \<le> shape_bound planner_config ''max_pipeline_parallel_size'' available_gpus"
    and "1 \<le> shape_bound planner_config ''min_replica_count'' 1"
    by (simp_all add: shape_bound_def Let_def positive_int_pos)
qed

lemma grid_members: "c \<in> set (concat (map (\<lambda>tp. concat (map (f tp) [1..b])) [a..m])) \<longleftrightarrow>
    (\<exists>tp pp. a \<le> tp \<and> tp \<le> m \<and> 1 \<le> pp \<and> pp \<le> b \<and> c \<in> set (f tp pp))" for a b m :: int
  by (simp add: Bex_def)

lemma generate_members:
  assumes "generate_parallel_candidates available_gpus planner_config = Inr cs" and "0 < available_gpus"
  shows "c \<in> set cs \<longleftrightarrow> (\<exists>tp pp. admissible_shape available_gpus planner_config tp pp
     \<and> c \<in> set (shape_candidate available_gpus (shape_bound planner_config ''min_replica_count'' 1)
           (shape_bound planner_config ''target_replica_gpus'' 1) tp pp))"
  unfolding generate_cases(1) [OF assms] set_py_sort_rev Let_def admissible_shape_def grid_members
  using shape_candidate_fields [of c] by blast

text \<open>
  The enumeration is sound and complete: a configuration is offered for exactly the tensor and
  pipeline sizes within the configured bounds whose replica fits into the available GPUs the
  required number of times, once for each, with as many replicas as fit. Its GPUs are the product
  of its sizes, and used and unused GPUs add up to the available ones with less than one replica
  left over.
\<close>

theorem generate_candidates_sound_complete:
  assumes "generate_parallel_candidates available_gpus planner_config = Inr cs" and "0 < available_gpus"
  shows "(\<forall>c \<in> set cs.
       admissible_shape available_gpus planner_config (pc_tensor_parallel_size c) (pc_pipeline_parallel_size c)
       \<and> pc_total_gpus c = pc_tensor_parallel_size c * pc_pipeline_parallel_size c * pc_replica_count c
       \<and> pc_total_gpus c + pc_unused_gpus c = available_gpus
       \<and> 0 \<le> pc_unused_gpus c
       \<and> pc_unused_gpus c < pc_tensor_parallel_size c * pc_pipeline_parallel_size c
       \<and> 1 \<le> pc_replica_count c)
    \<and> (\<forall>tp pp. admissible_shape available_gpus planner_config tp pp \<longrightarrow>
         (\<exists>!c. c \<in> set cs \<and> pc_tensor_parallel_size c = tp \<and> pc_pipeline_parallel_size c = pp))"
proof (intro conjI ballI allI impI)
  fix c
  assume "c \<in> set cs"
  then obtain tp pp where a: "admissible_shape available_gpus planner_config tp pp"
    and c: "c \<in> set (shape_candidate available_gpus (shape_bound planner_config ''min_replica_count'' 1)
           (shape_bound planner_config ''target_replica_gpus'' 1) tp pp)"
    using generate_members [OF assms] by blast
  note f = shape_candidate_fields [OF c]
  have pos: "0 < tp * pp"
    using a generate_cases(2,3) [OF assms] assms(2) by (auto simp: admissible_shape_def Let_def)
  show "admissible_shape available_gpus planner_config (pc_tensor_parallel_size c)
      (pc_pipeline_parallel_size c)"
    using a f by simp
  show "pc_total_gpus c = pc_tensor_parallel_size c * pc_pipeline_parallel_size c * pc_replica_count c"
    and "pc_total_gpus c + pc_unused_gpus c = available_gpus"
    using f by simp_all
  show "0 \<le> pc_unused_gpus c" and "pc_unused_gpus c < pc_tensor_parallel_size c * pc_pipeline_parallel_size c"
    using f pos by simp_all
  show "1 \<le> pc_replica_count c"
    using a f generate_cases(5) [OF assms] by (auto simp: admissible_shape_def Let_def)
next
  fix tp pp
  assume a: "admissible_shape available_gpus planner_config tp pp"
  let ?cand = "shape_candidate available_gpus (shape_bound planner_config ''min_replica_count'' 1)
           (shape_bound planner_config ''target_replica_gpus'' 1) tp pp"
  from a obtain c where c: "?cand = [c]"
    by (auto simp: admissible_shape_def shape_candidate_def Let_def)
  then have "c \<in> set cs" using a generate_members [OF assms] by (metis list.set_intros(1))
  moreover have "pc_tensor_parallel_size c = tp" "pc_pipeline_parallel_size c = pp"
    using shape_candidate_fields [of c] c by (metis list.set_intros(1))+
  moreover have "c' = c" if c': "c' \<in> set cs" "pc_tensor_parallel_size c' = tp"
    "pc_pipeline_parallel_size c' = pp" for c'
  proof -
    obtain tp' pp' where m: "c' \<in> set (shape_candidate available_gpus
        (shape_bound planner_config ''min_replica_count'' 1)
        (shape_bound planner_config ''target_replica_gpus'' 1) tp' pp')"
      using c'(1) generate_members [OF assms] by blast
    then have "tp' = tp" "pp' = pp" using shape_candidate_fields [OF m] c'(2,3) by simp_all
    with m c show ?thesis by simp
  qed
  ultimately show "\<exists>!c. c \<in> set cs \<and> pc_tensor_parallel_size c = tp \<and> pc_pipeline_parallel_size c = pp"
    by blast
qed

text \<open>
  The first configuration offered has the highest score of all, and with the default bounds
  there is one whenever there is a GPU.
\<close>

theorem generate_candidates_best_first:
  assumes "generate_parallel_candidates available_gpus planner_config = Inr (c # cs)"
  shows "\<forall>c' \<in> set cs. pc_score c' \<le> pc_score c"
proof -
  have "0 < available_gpus"
    using assms by (auto simp: generate_parallel_candidates_def split: if_splits)
  from shape_rank.first_is_best(2) [OF generate_cases(1) [OF assms this, symmetric]]
    shape_rank.set_rank generate_cases(1) [OF assms this]
  have "\<forall>c' \<in> set (c # cs). shape_key c' \<le> shape_key c" by metis
  then have "\<forall>c' \<in> set cs. fst (shape_key c') \<le> fst (shape_key c)" by (simp add: lex_fst_mono)
  then show ?thesis by (simp add: shape_key_def)
qed

section \<open>Target nodes\<close>

interpretation offer_rank: ranking "sort_key offer_key" "\<lambda>x y. offer_key x \<le> offer_key y"
  by (rule ranking_sort_key)

text \<open>The ready nodes with the GPUs each offers.\<close>

definition ready_offers :: "bool \<Rightarrow> nodes \<Rightarrow> (string \<times> int) list" where
  "ready_offers free_only nodes =
     map (\<lambda>(n, d). (n, projr (if free_only then free_gpu_count d else gpu_count d)))
       (filter (in_state READY) nodes)"

lemma node_offers:
  assumes "rfold (node_offer free_only) nodes acc = Inr offers"
  shows "offers = acc @ ready_offers free_only nodes"
  using assms
proof (induction nodes arbitrary: acc)
  case Nil
  then show ?case by (simp add: ready_offers_def)
next
  case (Cons node nodes)
  obtain n d where node: "node = (n, d)" by (cases node)
  from Cons.prems obtain mid where mid: "node_offer free_only node acc = Inr mid"
    and rest: "rfold (node_offer free_only) nodes mid = Inr offers" by auto
  show ?case
    using Cons.IH [OF rest] mid
    by (auto simp: node node_offer_def ready_offers_def in_state_def split: if_splits)
qed

lemma take_nodes_all:
  "take_nodes r offers g ns = (g', ns') \<Longrightarrow> g' < r \<Longrightarrow> g < r \<Longrightarrow>
   g' = g + sum_list (map snd (filter (\<lambda>x. 0 < snd x) offers))"
  by (induction r offers g ns rule: take_nodes.induct) (auto split: if_splits)

lemma take_nodes_prefix:
  assumes "take_nodes r offers g ns = (g', ns')" and "r \<le> g'" and "g < r"
  shows "\<exists>taken rest. filter (\<lambda>x. 0 < snd x) offers = taken @ rest \<and> taken \<noteq> []
    \<and> ns' = ns @ map fst taken \<and> g' = g + sum_list (map snd taken)
    \<and> g + sum_list (map snd (butlast taken)) < r"
  using assms
proof (induction r offers g ns rule: take_nodes.induct)
  case (1 r g ns)
  then show ?case by simp
next
  case (2 r n k rest g ns)
  show ?case
  proof (cases "k \<le> 0")
    case True
    then show ?thesis using 2 by simp
  next
    case False
    show ?thesis
    proof (cases "r \<le> g + k")
      case True
      then show ?thesis
        using 2(3-5) False by (intro exI [of _ "[(n, k)]"] exI [of _ "filter (\<lambda>x. 0 < snd x) rest"]) auto
    next
      case more: False
      then obtain taken rest' where "filter (\<lambda>x. 0 < snd x) rest = taken @ rest'" "taken \<noteq> []"
        "ns' = (ns @ [n]) @ map fst taken" "g' = g + k + sum_list (map snd taken)"
        "g + k + sum_list (map snd (butlast taken)) < r"
        using 2(2) [OF False more] 2(3-4) False by auto
      then show ?thesis
        using False by (intro exI [of _ "(n, k) # taken"] exI [of _ rest']) auto
    qed
  qed
qed

lemma sum_le_largest:
  assumes "sorted_wrt (\<ge>) ys" and "mset zs \<subseteq># mset ys"
  shows "sum_list zs \<le> sum_list (take (length zs) ys :: int list)"
  using assms
proof (induction ys arbitrary: zs)
  case Nil
  then show ?case by simp
next
  case (Cons y ys)
  show ?case
  proof (cases zs)
    case Nil
    then show ?thesis by simp
  next
    case (Cons z0 zs0)
    obtain z where z: "z \<in> set zs" "z \<le> y" "mset zs - {#z#} \<subseteq># mset ys"
    proof (cases "y \<in> set zs")
      case True
      then show ?thesis using that [of y] Cons.prems(2) by (simp add: subset_eq_diff_conv)
    next
      case False
      then have sub: "mset zs \<subseteq># mset ys"
        using Cons.prems(2) by (metis diff_single_trivial mset.simps(2) set_mset_mset subset_eq_diff_conv add_mset_add_single)
      then have "z0 \<in> set ys" using Cons by (metis list.set_intros(1) mset_subset_eqD set_mset_mset)
      moreover have "mset zs - {#z0#} \<subseteq># mset ys"
        using sub by (meson diff_subset_eq_self subset_mset.order_trans)
      ultimately show ?thesis using that [of z0] Cons Cons.prems(1) by simp
    qed
    have rem: "mset (remove1 z zs) \<subseteq># mset ys" using z(3) by simp
    have len: "length zs = Suc (length (remove1 z zs))" using z(1) by (metis One_nat_def Suc_pred length_pos_if_in_set length_remove1)
    have "sum_list zs = z + sum_list (remove1 z zs)" using z(1) by (simp add: sum_list_map_remove1 [where f = id, simplified])
    also have "\<dots> \<le> y + sum_list (take (length (remove1 z zs)) ys)"
      using Cons.IH [OF _ rem] Cons.prems(1) z(2) by simp
    finally show ?thesis unfolding len by simp
  qed
qed

lemma sorted_offers:
  "sorted_wrt (\<ge>) (map snd (filter (\<lambda>x. 0 < snd x) (sort_key offer_key offers)))"
proof -
  have "sorted_wrt (\<lambda>x y. snd y \<le> snd x) (sort_key offer_key offers)"
    by (rule sorted_wrt_mono_rel [OF _ offer_rank.rank_sorted])
      (auto simp: offer_key_def dest: lex_fst_mono)
  then show ?thesis by (simp add: sorted_wrt_map sorted_wrt_filter)
qed

lemma positive_part_largest:
  assumes "mset picked \<subseteq># mset (offers :: (string \<times> int) list)"
  shows "sum_list (map snd picked) \<le>
    sum_list (take (length picked) (map snd (filter (\<lambda>x. 0 < snd x) (sort_key offer_key offers))))"
proof -
  let ?P = "\<lambda>x :: string \<times> int. 0 < snd x"
  let ?ys = "map snd (filter ?P (sort_key offer_key offers))"
  have "sum_list (map snd picked) \<le> sum_list (map snd (filter ?P picked))"
    by (induction picked) auto
  also have "mset (map snd (filter ?P picked)) \<subseteq># mset ?ys"
    using assms by (simp add: image_mset_subseteq_mono multiset_filter_mono)
  then have "sum_list (map snd (filter ?P picked)) \<le> sum_list (take (length (filter ?P picked)) ?ys)"
    using sum_le_largest [OF sorted_offers] by fastforce
  also have "\<dots> \<le> sum_list (take (length picked) ?ys)"
  proof -
    let ?k = "length (filter ?P picked)"
    have "take (length picked) ?ys = take ?k ?ys @ take (length picked - ?k) (drop ?k ?ys)"
      by (metis le_add_diff_inverse length_filter_le take_add)
    moreover have "0 \<le> sum_list (take (length picked - ?k) (drop ?k ?ys))"
      by (rule sum_list_nonneg) (auto dest!: in_set_takeD in_set_dropD)
    ultimately show ?thesis by simp
  qed
  finally show ?thesis .
qed

lemma select_target_nodes_cases:
  assumes "select_target_nodes nodes required_gpus free_only = Inr selected" and "0 < required_gpus"
  defines "pos \<equiv> filter (\<lambda>x. 0 < snd x) (sort_key offer_key (ready_offers free_only nodes))"
  obtains (enough) taken rest where "pos = taken @ rest" and "taken \<noteq> []"
      and "selected = map fst taken" and "required_gpus \<le> sum_list (map snd taken)"
      and "sum_list (map snd (butlast taken)) < required_gpus"
  | (short) "selected = []" and "sum_list (map snd pos) < required_gpus"
proof -
  let ?os = "sort_key offer_key (ready_offers free_only nodes)"
  from assms(1,2) obtain offers where offers: "rfold (node_offer free_only) nodes [] = Inr offers"
    and sel: "(let (g, ns) = take_nodes required_gpus (sort_key offer_key offers) 0 []
       in Inr (if g < required_gpus then [] else ns)) = (Inr selected :: _ res)"
    by (auto simp: select_target_nodes_def)
  obtain g ns where t: "take_nodes required_gpus ?os 0 [] = (g, ns)" by fastforce
  have os: "offers = ready_offers free_only nodes" using node_offers [OF offers] by simp
  show ?thesis
  proof (cases "g < required_gpus")
    case True
    then have "selected = []" using sel t os by simp
    moreover have "sum_list (map snd pos) < required_gpus"
      using take_nodes_all [OF t True] assms(2) True by (simp add: pos_def)
    ultimately show ?thesis by (rule short)
  next
    case False
    then have "selected = ns" using sel t os by simp
    with take_nodes_prefix [OF t] False assms(2) show ?thesis using enough by (auto simp: pos_def)
  qed
qed

text \<open>
  The nodes a plan is placed on are distinct ready nodes that offer at least one GPU each and
  together at least the GPUs required, none of them superfluous; no node is selected exactly when
  all ready nodes together offer too few. (With \<open>free_only\<close> only free GPUs count.)
\<close>

theorem target_nodes_sufficient:
  assumes "select_target_nodes nodes required_gpus free_only = Inr selected"
    and "0 < required_gpus" and "distinct (map fst nodes)"
  shows "if sum_list (map snd (filter (\<lambda>x. 0 < snd x) (ready_offers free_only nodes))) < required_gpus
    then selected = []
    else (\<exists>chosen. selected = map fst chosen \<and> distinct selected
           \<and> set chosen \<subseteq> set (ready_offers free_only nodes) \<and> (\<forall>x \<in> set chosen. 0 < snd x)
           \<and> required_gpus \<le> sum_list (map snd chosen)
           \<and> sum_list (map snd (butlast chosen)) < required_gpus)"
proof -
  let ?os = "ready_offers free_only nodes" and ?P = "\<lambda>x :: string \<times> int. 0 < snd x"
  have total: "sum_list (map snd (filter ?P (sort_key offer_key ?os))) = sum_list (map snd (filter ?P ?os))"
    by (simp add: filter_sort sum_list_sort_key)
  have ids: "distinct (map fst ?os)"
    using assms(3) unfolding ready_offers_def
    by (simp add: comp_def case_prod_beta distinct_map_filter)
  from assms(1,2) show ?thesis
  proof (cases rule: select_target_nodes_cases)
    case (enough taken rest)
    have pos: "set (taken @ rest) \<subseteq> set (filter ?P (sort_key offer_key ?os))" unfolding enough(1) by simp
    then have "0 \<le> sum_list (map snd rest)" by (intro sum_list_nonneg) auto
    then have "sum_list (map snd taken) \<le> sum_list (map snd (filter ?P (sort_key offer_key ?os)))"
      unfolding enough(1) by simp
    moreover have "set taken \<subseteq> set ?os" "\<forall>x \<in> set taken. ?P x" using pos by auto
    moreover have "distinct (map fst taken)"
    proof -
      have "distinct (map fst (filter ?P (sort_key offer_key ?os)))"
        using ids by (intro distinct_map_filter) (simp add: distinct_map)
      then show ?thesis unfolding enough(1) by simp
    qed
    ultimately show ?thesis using enough total by (auto intro!: exI [of _ taken])
  next
    case short
    then show ?thesis using total by simp
  qed
qed

text \<open>
  C16. No placement on fewer nodes is possible: whatever ready nodes are picked, if they offer the
  required GPUs they are at least as many as the selected ones.
\<close>

theorem target_nodes_fewest:
  assumes "select_target_nodes nodes required_gpus free_only = Inr selected"
    and "mset picked \<subseteq># mset (ready_offers free_only nodes)"
    and "required_gpus \<le> sum_list (map snd picked)"
  shows "length selected \<le> length picked"
proof (cases "0 < required_gpus")
  case False
  then show ?thesis using assms(1) by (simp add: select_target_nodes_def)
next
  case True
  let ?ys = "map snd (filter (\<lambda>x. 0 < snd x) (sort_key offer_key (ready_offers free_only nodes)))"
  from assms(1) True show ?thesis
  proof (cases rule: select_target_nodes_cases)
    case (enough taken rest)
    show ?thesis
    proof (rule ccontr)
      assume "\<not> length selected \<le> length picked"
      then have less: "length picked \<le> length (butlast taken)" using enough(3) by simp
      have "required_gpus \<le> sum_list (take (length picked) ?ys)"
        using positive_part_largest [OF assms(2)] assms(3) by simp
      also have "take (length picked) ?ys = take (length picked) (map snd (butlast taken))"
        using less enough(1) by (simp add: take_map) (simp add: butlast_conv_take min_absorb1)
      also have "sum_list \<dots> \<le> sum_list (map snd (butlast taken))"
      proof -
        have "set (butlast taken) \<subseteq> set (filter (\<lambda>x. 0 < snd x) (sort_key offer_key (ready_offers free_only nodes)))"
          unfolding enough(1) by (auto dest: in_set_butlastD)
        then have "0 \<le> sum_list (map snd (drop (length picked) (butlast taken)))"
          by (intro sum_list_nonneg) (fastforce dest: in_set_dropD)
        then show ?thesis
          by (metis (no_types, lifting) add_increasing2 append_take_drop_id order_refl sum_list_append take_map drop_map)
      qed
      finally show False using enough(5) by simp
    qed
  next
    case short
    then show ?thesis by simp
  qed
qed

section \<open>Plans\<close>

definition valid_plan :: "parallel_plan \<Rightarrow> bool" where
  "valid_plan p \<longleftrightarrow> 1 \<le> pp_tensor_parallel_size p \<and> 1 \<le> pp_data_parallel_size p
     \<and> 1 \<le> pp_pipeline_parallel_size p \<and> 1 \<le> pp_replica_count p \<and> 1 \<le> pp_num_gpus p
     \<and> 0 \<le> pp_placement_epoch p \<and> 0 \<le> pp_batch_size p"

lemma ParallelPlan_init_valid:
  "valid_plan (ParallelPlan_init m b tp dp pp r e g ts ep xp why nr eps bs)"
  by (simp add: valid_plan_def ParallelPlan_init_def)

text \<open>
  Whatever mapping a plan is read from, a plan that is accepted has sizes, replicas and GPUs
  of at least one, and its expert-parallel size is the product of its tensor and data sizes or one.
\<close>

theorem parsed_plan_valid:
  assumes "ParallelPlan_from_dict payload = Inr plan"
  shows "valid_plan plan
    \<and> effective_expert_parallel_size plan \<in> {1, pp_tensor_parallel_size plan * pp_data_parallel_size plan}
    \<and> 1 \<le> effective_expert_parallel_size plan"
proof -
  from assms obtain m b tp dp pp r e g ts ep xp why nr eps bs where
    "plan = ParallelPlan_init m b tp dp pp r e g ts ep xp why nr eps bs"
    unfolding ParallelPlan_from_dict_def Let_def
    by (auto simp only: rbind_eq_Inr sum.inject sum.distinct split: if_splits)
  then have "valid_plan plan" by (simp add: ParallelPlan_init_valid)
  moreover from this have "1 * 1 \<le> pp_tensor_parallel_size plan * pp_data_parallel_size plan"
    by (intro mult_mono) (auto simp: valid_plan_def)
  ultimately show ?thesis by (simp add: effective_expert_parallel_size_def)
qed

text \<open>
  A valid plan survives the trip across the actor boundary: reading back its dictionary gives
  the same plan.
\<close>

theorem parallel_plan_roundtrip:
  assumes "valid_plan plan"
  shows "ParallelPlan_from_dict (PDict (ParallelPlan_to_dict plan)) = Inr plan"
proof -
  let ?d = "ParallelPlan_to_dict plan"
  have look: "dgetn ?d ''model_name'' = PStr (pp_model_name plan)"
    "dgetn ?d ''backend'' = PStr (pp_backend plan)"
    "dgetn ?d ''tensor_parallel_size'' = PInt (pp_tensor_parallel_size plan)"
    "dgetn ?d ''data_parallel_size'' = PInt (pp_data_parallel_size plan)"
    "dget ?d ''pipeline_parallel_size'' z = PInt (pp_pipeline_parallel_size plan)"
    "dget ?d ''replica_count'' z = PInt (pp_replica_count plan)"
    "dget ?d ''enable_expert_parallel'' z = PBool (pp_enable_expert_parallel plan)"
    "dget ?d ''effective_expert_parallel_size'' z = PInt (effective_expert_parallel_size plan)"
    "dget ?d ''num_gpus'' z = PInt (pp_num_gpus plan)"
    "dget ?d ''target_nodes'' z = PList (map PStr (pp_target_nodes plan))"
    "dget ?d ''placement_epoch'' z = PInt (pp_placement_epoch plan)"
    "dget ?d ''batch_size'' z = PInt (pp_batch_size plan)"
    "dget ?d ''reason'' z = PStr (pp_reason plan)"
    "dgetn ?d ''expert_placement_plan'' =
       (case pp_expert_placement_plan plan of None \<Rightarrow> PNone | Some p \<Rightarrow> PDict p)" for z
    by (simp_all add: ParallelPlan_to_dict_def Let_def dgetn_def dget_def)
  have "missing_plan_fields ?d = []"
    by (simp add: missing_plan_fields_def dhas_def ParallelPlan_to_dict_def Let_def)
  moreover have "0 < effective_expert_parallel_size plan"
    using assms by (simp add: effective_expert_parallel_size_def valid_plan_def)
  ultimately show ?thesis
    using assms unfolding ParallelPlan_from_dict_def Let_def dict_of.simps is_mapping.simps int_or_default_def look
    by (cases "pp_expert_placement_plan plan")
      (simp_all add: por_def ParallelPlan_init_def int_or_one_def valid_plan_def comp_def)
qed

section \<open>Witnesses\<close>

definition ex_node :: "string \<Rightarrow> int \<Rightarrow> dict" where
  "ex_node state gpus = [(''state'', PStr state), (''total_gpu'', PInt gpus), (''free_gpu'', PInt gpus)]"

definition ex_nodes :: nodes where
  "ex_nodes = [(''n0'', ex_node READY 4), (''n1'', ex_node PREEMPTING 8), (''n2'', ex_node READY 2),
               (''n3'', ex_node DEAD 1)]"

theorem spot_trace_node_state_witness:
  "state_of (fold apply_event [(''preempt'', ''n0'', []), (''add'', ''n9'', []), (''recover'', ''n0'', [])]
     ex_nodes) ''n0'' = Some (PStr READY)"
proof -
  have "\<forall>e \<in> set [(''preempt'', ''n0'', []), (''add'', ''n9'', []), (''recover'', ''n0'', [])].
      supported_event e"
    by (simp add: supported_event_def)
  from spot_trace_node_state [OF this, of ex_nodes "''n0''"] show ?thesis
    by (simp add: event_node_def state_after_event_def)
qed

definition ex_availability :: gpu_availability where
  "ex_availability = projr (summarize_gpu_availability ex_nodes)"

lemma ex_summarized: "summarize_gpu_availability ex_nodes = Inr ex_availability"
  by code_simp

theorem gpu_availability_accounts_witness:
  "ga_total_gpus ex_availability = 15 \<and> ga_available_gpus ex_availability = 6
     \<and> ga_unavailable_gpus ex_availability = 9"
proof -
  have "\<forall>node \<in> set ex_nodes. 0 \<le> gpus_of node" by code_simp
  moreover have "sum_list (map gpus_of ex_nodes) = 15"
    "sum_list (map gpus_of (filter (in_state READY) ex_nodes)) = 6"
    "sum_list (map gpus_of (filter (\<lambda>node. \<not> in_state READY node) ex_nodes)) = 9"
    by code_simp+
  ultimately show ?thesis using gpu_availability_accounts [OF ex_summarized] by simp
qed

definition ex_shapes :: "parallel_config list" where
  "ex_shapes = projr (generate_parallel_candidates 6 [(''max_pipeline_parallel_size'', PInt 2)])"

lemma ex_generated: "generate_parallel_candidates 6 [(''max_pipeline_parallel_size'', PInt 2)] = Inr ex_shapes"
  by code_simp

theorem generate_candidates_sound_complete_witness:
  "\<exists>c \<in> set ex_shapes. pc_tensor_parallel_size c = 4 \<and> pc_pipeline_parallel_size c = 1
     \<and> pc_total_gpus c + pc_unused_gpus c = 6"
proof -
  have a: "admissible_shape 6 [(''max_pipeline_parallel_size'', PInt 2)] 4 1" by code_simp
  note both = generate_candidates_sound_complete [OF ex_generated zero_less_numeral]
  from both a obtain c where c: "c \<in> set ex_shapes" "pc_tensor_parallel_size c = 4"
    "pc_pipeline_parallel_size c = 1"
    by blast
  with both have "pc_total_gpus c + pc_unused_gpus c = 6" by blast
  with c show ?thesis by blast
qed

lemma ex_generated_cons: "generate_parallel_candidates 6 [(''max_pipeline_parallel_size'', PInt 2)]
    = Inr (hd ex_shapes # tl ex_shapes)"
  by code_simp

theorem generate_candidates_best_first_witness: "pc_score (ex_shapes ! 3) \<le> pc_score (hd ex_shapes)"
proof -
  have "ex_shapes ! 3 \<in> set (tl ex_shapes)" by code_simp
  with generate_candidates_best_first [OF ex_generated_cons] show ?thesis by blast
qed

lemma ex_selected: "select_target_nodes ex_nodes 5 False = Inr [''n0'', ''n2'']"
  by code_simp

theorem target_nodes_sufficient_witness:
  "\<exists>chosen :: (string \<times> int) list. [''n0'', ''n2''] = map fst chosen \<and> 5 \<le> sum_list (map snd chosen)"
proof -
  have d: "distinct (map fst ex_nodes)" by code_simp
  have n: "\<not> sum_list (map snd (filter (\<lambda>x. 0 < snd x) (ready_offers False ex_nodes))) < 5" by code_simp
  from target_nodes_sufficient [OF ex_selected zero_less_numeral d, unfolded if_not_P [OF n]]
  show ?thesis by (elim exE conjE) (intro exI conjI)
qed

theorem target_nodes_fewest_witness: "length [''n0'', ''n2''] \<le> length [(''n0'', 4 :: int), (''n2'', 2)]"
proof (rule target_nodes_fewest [OF ex_selected])
  have "ready_offers False ex_nodes = [(''n0'', 4), (''n2'', 2)]" by code_simp
  then show "mset [(''n0'', 4), (''n2'', 2)] \<subseteq># mset (ready_offers False ex_nodes)" by simp
qed simp

definition ex_plan :: parallel_plan where
  "ex_plan = ParallelPlan_init ''m'' ''vllm'' 2 2 1 (Some 1) (Some True) 4 [''n0''] 3
     (Some [(''expert_placement_available'', PBool True)]) ''replan'' None None 8"

theorem parsed_plan_valid_witness:
  "valid_plan (projr (ParallelPlan_from_dict (PDict [(''model_name'', PStr ''m''),
     (''backend'', PStr ''vllm''), (''tensor_parallel_size'', PInt 0), (''data_parallel_size'', PStr ''2'')])))"
proof -
  have "\<not> isl (ParallelPlan_from_dict (PDict [(''model_name'', PStr ''m''),
     (''backend'', PStr ''vllm''), (''tensor_parallel_size'', PInt 0), (''data_parallel_size'', PStr ''2'')]))"
    by code_simp
  then show ?thesis using parsed_plan_valid by (metis sum.collapse(2))
qed

theorem parallel_plan_roundtrip_witness:
  "ParallelPlan_from_dict (PDict (ParallelPlan_to_dict ex_plan)) = Inr ex_plan"
  by (rule parallel_plan_roundtrip) (simp add: ex_plan_def ParallelPlan_init_valid)

end
