(* ===== verification/Reparallelization.thy ===== *)
theory Reparallelization
  imports Gpu_Cluster
begin

text \<open>
  The reparallelization planner, the second half of \<open>src/sllm/spot/reparallelization.py\<close>: the
  workload cost model, the selection of a configuration (the weighted score and the paper's
  Algorithm 1 over profiled configurations), the configurations a backend declares, the exact
  lookup of placement profiles, and the decision the controller receives. The logical expert
  placement of \<open>moe_placement.py\<close> and the capability of the vLLM backend are parameters of the
  planner.
\<close>

section \<open>Reading numbers\<close>

definition safe_float :: "pyval \<Rightarrow> rat \<Rightarrow> rat res" where
  "safe_float v d = (if v = PNone \<or> v = PStr '''' then Inr d else except_tv (py_float v) (Inr d))"

definition nonnegative_float :: "pyval \<Rightarrow> rat res" where
  "nonnegative_float v = rbind (safe_float v 0) (\<lambda>r. Inr (max 0 r))"

definition safe_int :: "pyval \<Rightarrow> int \<Rightarrow> int res" where
  "safe_int v d = (if v = PNone \<or> v = PStr '''' then Inr d else except_tv (py_int v) (Inr d))"

fun planner_lookup :: "pyval list \<Rightarrow> string \<Rightarrow> pyval \<Rightarrow> bool \<Rightarrow> pyval res" where
  "planner_lookup [] key d positive_only = Inr d"
| "planner_lookup (source # sources) key d positive_only =
     (if \<not> is_mapping source \<or> \<not> dhas (dict_of source) key then planner_lookup sources key d positive_only
      else let value = dgetn (dict_of source) key in
        if positive_only
        then rbind (safe_float value 0) (\<lambda>r.
               if r \<le> 0 then planner_lookup sources key d positive_only else Inr value)
        else Inr value)"

definition planner_value :: "dict \<Rightarrow> string \<Rightarrow> pyval \<Rightarrow> bool \<Rightarrow> pyval res" where
  "planner_value planner_config key d positive_only =
     planner_lookup [dgetn planner_config ''runtime_workload'', dgetn planner_config ''workload'',
                     PDict planner_config] key d positive_only"

section \<open>The workload cost model\<close>

definition workload_cost_model_enabled :: "dict \<Rightarrow> bool" where
  "workload_cost_model_enabled planner_config =
     truthy (dget planner_config ''enable_workload_cost_model''
               (dget planner_config ''workload_cost_model'' (PBool False)))"

record workload_snapshot =
  ws_enabled :: bool
  ws_arrival_rate_req_s :: rat
  ws_batch_size :: int
  ws_latency_estimate_ms :: rat
  ws_model_load_time_ms :: rat
  ws_load_time_per_gpu_ms :: rat
  ws_migration_cost_ms :: rat
  ws_migration_cost_per_gpu_ms :: rat
  ws_migration_cost_per_replica_ms :: rat
  ws_queue_penalty_ms_per_req_s :: rat
  ws_base_score_weight :: rat
  ws_throughput_score_weight :: rat
  ws_latency_penalty_weight :: rat
  ws_load_time_penalty_weight :: rat
  ws_migration_cost_penalty_weight :: rat
  ws_expert_weight_movement_penalty_weight :: rat
  ws_queue_penalty_weight :: rat
  ws_replan_window_penalty_weight :: rat

text \<open>\<open>_safe_float(_planner_value(planner_config, key, d), d)\<close>, and with \<open>max(0.0, ...)\<close>.\<close>

definition planner_weight :: "dict \<Rightarrow> string \<Rightarrow> rat \<Rightarrow> rat res" where
  "planner_weight planner_config key d =
     rbind (planner_value planner_config key (PFloat d) False) (\<lambda>v. safe_float v d)"

definition planner_cost :: "dict \<Rightarrow> string \<Rightarrow> rat \<Rightarrow> rat res" where
  "planner_cost planner_config key d =
     rbind (planner_weight planner_config key d) (\<lambda>r. Inr (max 0 r))"

definition backend_config_of :: "dict \<Rightarrow> dict" where
  "backend_config_of model_config = dict_of (dget model_config ''backend_config'' (PDict []))"

definition workload_cost_model_snapshot :: "dict \<Rightarrow> dict \<Rightarrow> workload_snapshot res" where
  "workload_cost_model_snapshot planner_config model_config =
     rbind (planner_value planner_config ''batch_size''
              (dget (backend_config_of model_config) ''max_num_seqs'' (PInt 1)) False) (\<lambda>raw_batch.
     rbind (safe_int raw_batch 1) (\<lambda>batch_size.
     rbind (planner_cost planner_config ''arrival_rate_req_s'' 0) (\<lambda>arrival_rate.
     rbind (planner_value planner_config ''default_latency_estimate_ms'' (PFloat 0) False) (\<lambda>default_latency.
     rbind (planner_value planner_config ''latency_estimate_ms'' default_latency True) (\<lambda>raw_latency.
     rbind (safe_float raw_latency 0) (\<lambda>latency.
     rbind (planner_cost planner_config ''model_load_time_ms'' 0) (\<lambda>model_load_time.
     rbind (planner_cost planner_config ''load_time_per_gpu_ms'' 0) (\<lambda>load_time_per_gpu.
     rbind (planner_cost planner_config ''migration_cost_ms'' 0) (\<lambda>migration_cost.
     rbind (planner_cost planner_config ''migration_cost_per_gpu_ms'' 0) (\<lambda>migration_per_gpu.
     rbind (planner_cost planner_config ''migration_cost_per_replica_ms'' 0) (\<lambda>migration_per_replica.
     rbind (planner_cost planner_config ''queue_penalty_ms_per_req_s'' 1000) (\<lambda>queue_penalty.
     rbind (planner_weight planner_config ''base_score_weight'' 1) (\<lambda>base_w.
     rbind (planner_weight planner_config ''throughput_score_weight'' 100) (\<lambda>throughput_w.
     rbind (planner_weight planner_config ''latency_penalty_weight'' 0) (\<lambda>latency_w.
     rbind (planner_weight planner_config ''load_time_penalty_weight'' 1) (\<lambda>load_w.
     rbind (planner_weight planner_config ''migration_cost_penalty_weight'' 1) (\<lambda>migration_w.
     rbind (planner_weight planner_config ''expert_weight_movement_penalty_weight'' 1) (\<lambda>movement_w.
     rbind (planner_weight planner_config ''queue_penalty_weight'' 1) (\<lambda>queue_w.
     rbind (planner_weight planner_config ''replan_window_penalty_weight'' 0) (\<lambda>window_w.
     Inr \<lparr>ws_enabled = workload_cost_model_enabled planner_config,
          ws_arrival_rate_req_s = arrival_rate,
          ws_batch_size = max 1 batch_size,
          ws_latency_estimate_ms = max 0 latency,
          ws_model_load_time_ms = model_load_time,
          ws_load_time_per_gpu_ms = load_time_per_gpu,
          ws_migration_cost_ms = migration_cost,
          ws_migration_cost_per_gpu_ms = migration_per_gpu,
          ws_migration_cost_per_replica_ms = migration_per_replica,
          ws_queue_penalty_ms_per_req_s = queue_penalty,
          ws_base_score_weight = base_w,
          ws_throughput_score_weight = throughput_w,
          ws_latency_penalty_weight = latency_w,
          ws_load_time_penalty_weight = load_w,
          ws_migration_cost_penalty_weight = migration_w,
          ws_expert_weight_movement_penalty_weight = movement_w,
          ws_queue_penalty_weight = queue_w,
          ws_replan_window_penalty_weight = window_w\<rparr>))))))))))))))))))))"

definition workload_snapshot_dict :: "workload_snapshot \<Rightarrow> dict" where
  "workload_snapshot_dict s =
     [(''enabled'', PBool (ws_enabled s)),
      (''arrival_rate_req_s'', PFloat (ws_arrival_rate_req_s s)),
      (''batch_size'', PInt (ws_batch_size s)),
      (''latency_estimate_ms'', PFloat (ws_latency_estimate_ms s)),
      (''model_load_time_ms'', PFloat (ws_model_load_time_ms s)),
      (''load_time_per_gpu_ms'', PFloat (ws_load_time_per_gpu_ms s)),
      (''migration_cost_ms'', PFloat (ws_migration_cost_ms s)),
      (''migration_cost_per_gpu_ms'', PFloat (ws_migration_cost_per_gpu_ms s)),
      (''migration_cost_per_replica_ms'', PFloat (ws_migration_cost_per_replica_ms s)),
      (''queue_penalty_ms_per_req_s'', PFloat (ws_queue_penalty_ms_per_req_s s)),
      (''base_score_weight'', PFloat (ws_base_score_weight s)),
      (''throughput_score_weight'', PFloat (ws_throughput_score_weight s)),
      (''latency_penalty_weight'', PFloat (ws_latency_penalty_weight s)),
      (''load_time_penalty_weight'', PFloat (ws_load_time_penalty_weight s)),
      (''migration_cost_penalty_weight'', PFloat (ws_migration_cost_penalty_weight s)),
      (''expert_weight_movement_penalty_weight'', PFloat (ws_expert_weight_movement_penalty_weight s)),
      (''queue_penalty_weight'', PFloat (ws_queue_penalty_weight s)),
      (''replan_window_penalty_weight'', PFloat (ws_replan_window_penalty_weight s))]"

section \<open>Algorithm 1 over profiled configurations\<close>

text \<open>The report that goes with a ranking: the snapshot and what each policy adds to it.\<close>

datatype cost_report =
    Snapshot_Only workload_snapshot
  | Weighted_Score workload_snapshot bool bool bool
  | Algorithm1 workload_snapshot string string int int bool

definition profiled :: "parallel_config \<Rightarrow> bool" where
  "profiled c = (pc_throughput_estimate_req_s c > 0 \<and> pc_latency_estimate_ms c > 0)"

text \<open>The latency under a queue model; \<open>None\<close> stands for \<open>math.inf\<close>.\<close>

definition queue_latency :: "string \<Rightarrow> rat \<Rightarrow> parallel_config \<Rightarrow> rat option" where
  "queue_latency queue_model alpha c =
     (if queue_model = ''none'' then Some (pc_latency_estimate_ms c)
      else let thr = pc_throughput_estimate_req_s c; rho = alpha / thr in
        if rho < 1 then Some (pc_latency_estimate_ms c + 1000 * rho / (2 * thr * (1 - rho))) else None)"

definition inf_key :: "rat option \<Rightarrow> int \<times> rat" where
  "inf_key r = (case r of None \<Rightarrow> (1, 0) | Some q \<Rightarrow> (0, q))"

definition stable_shape :: "parallel_config \<Rightarrow> int \<times> int \<times> int \<times> int \<times> int \<times> int" where
  "stable_shape c = (pc_total_gpus c, pc_replica_count c, pc_pipeline_parallel_size c,
                     pc_tensor_parallel_size c, pc_data_parallel_size c, pc_batch_size c)"

definition rank_profiled :: "string \<Rightarrow> rat \<Rightarrow> parallel_config list \<Rightarrow> parallel_config list \<times> string" where
  "rank_profiled queue_model alpha cs =
     (let feasible = filter (\<lambda>c. pc_throughput_estimate_req_s c \<ge> alpha) cs in
      if feasible \<noteq> [] then
        (sort_key (\<lambda>c. (inf_key (queue_latency queue_model alpha c), stable_shape c)) feasible
         @ sort_key (\<lambda>c. (- pc_throughput_estimate_req_s c, stable_shape c))
             (filter (\<lambda>c. c \<notin> set feasible) cs),
         ''min_latency_meeting_arrival_rate'')
      else
        (sort_key (\<lambda>c. (- pc_throughput_estimate_req_s c, pc_latency_estimate_ms c, stable_shape c)) cs,
         if cs \<noteq> [] then ''max_throughput'' else ''no_valid_profile''))"

definition with_queue :: "string \<Rightarrow> rat \<Rightarrow> parallel_config \<Rightarrow> parallel_config" where
  "with_queue queue_model alpha c =
     c\<lparr>pc_arrival_rate_req_s := alpha,
       pc_queue_penalty_ms := (case queue_latency queue_model alpha c of
          None \<Rightarrow> 0 | Some l \<Rightarrow> l - pc_latency_estimate_ms c)\<rparr>"

definition select_profiled_candidates ::
  "parallel_config list \<Rightarrow> workload_snapshot \<Rightarrow> dict \<Rightarrow> (parallel_config list \<times> cost_report) res" where
  "select_profiled_candidates candidates snapshot planner_config =
     (let queue_model = py_str (dget planner_config ''queue_model'' (PStr ''none''));
          alpha = ws_arrival_rate_req_s snapshot;
          usable = filter profiled candidates
      in if queue_model \<notin> {''none'', ''md1_aggregate''}
         then Inl (ValueError (''unsupported_paper_queue_model:'' @ queue_model))
         else if alpha < 0 then Inl (ValueError ''invalid_arrival_rate_for_algorithm1'')
         else let (order, branch) = rank_profiled queue_model alpha usable;
                  ranked = map (with_queue queue_model alpha) order
           in Inr (ranked, Algorithm1 snapshot branch queue_model (int (length usable))
                (int (length candidates) - int (length usable))
                (case ranked of [] \<Rightarrow> False | c # _ \<Rightarrow> pc_throughput_estimate_req_s c > alpha)))"

section \<open>The weighted score\<close>

record workload_score =
  sc_latency :: rat
  sc_throughput :: rat
  sc_load_time :: rat
  sc_migration_cost :: rat
  sc_queue_penalty :: rat
  sc_movement :: rat

definition estimate_workload ::
  "workload_snapshot \<Rightarrow> bool \<Rightarrow> bool \<Rightarrow> parallel_config \<Rightarrow> workload_score" where
  "estimate_workload s comparable movement_comparable c =
     (let latency = (if comparable then
             (if pc_latency_estimate_ms c > 0 then pc_latency_estimate_ms c else ws_latency_estimate_ms s)
           else 0);
          latency_s = latency / 1000;
          throughput = (if comparable then pc_throughput_estimate_req_s c else 0);
          throughput = (if throughput \<le> 0 \<and> latency_s > 0
             then of_int (pc_replica_count c * ws_batch_size s) / latency_s else throughput);
          load_time = (if pc_load_time_estimate_ms c \<le> 0
             then ws_model_load_time_ms s + of_int (pc_total_gpus c) * ws_load_time_per_gpu_ms s
             else pc_load_time_estimate_ms c);
          migration = (if pc_migration_cost_estimate_ms c \<le> 0
             then ws_migration_cost_ms s + of_int (pc_total_gpus c) * ws_migration_cost_per_gpu_ms s
                  + of_int (pc_replica_count c) * ws_migration_cost_per_replica_ms s
             else pc_migration_cost_estimate_ms c);
          queue_penalty = (if comparable
             then max 0 (ws_arrival_rate_req_s s - throughput) * ws_queue_penalty_ms_per_req_s s else 0);
          movement = (if movement_comparable
             then (case pc_expert_weight_movement_cost_estimate_ms c of None \<Rightarrow> 0 | Some m \<Rightarrow> m) else 0)
      in \<lparr>sc_latency = latency, sc_throughput = throughput, sc_load_time = load_time,
          sc_migration_cost = migration, sc_queue_penalty = queue_penalty, sc_movement = movement\<rparr>)"

definition window_penalty_cost :: "workload_snapshot \<Rightarrow> workload_score \<Rightarrow> rat" where
  "window_penalty_cost s e =
     (if ws_load_time_penalty_weight s = 0 then sc_load_time e else 0)
     + (if ws_migration_cost_penalty_weight s = 0 then sc_migration_cost e else 0)
     + (if ws_queue_penalty_weight s = 0 then sc_queue_penalty e else 0)"

definition score_components :: "workload_snapshot \<Rightarrow> rat \<Rightarrow> workload_score \<Rightarrow> (string \<times> rat) list" where
  "score_components s base e =
     [(''base'', base * ws_base_score_weight s),
      (''throughput_bonus'', sc_throughput e * ws_throughput_score_weight s),
      (''latency_penalty'', sc_latency e * ws_latency_penalty_weight s),
      (''load_time_penalty'', sc_load_time e * ws_load_time_penalty_weight s),
      (''migration_cost_penalty'', sc_migration_cost e * ws_migration_cost_penalty_weight s),
      (''expert_weight_movement_penalty'', sc_movement e * ws_expert_weight_movement_penalty_weight s),
      (''queue_penalty'', sc_queue_penalty e * ws_queue_penalty_weight s),
      (''replan_window_penalty'', window_penalty_cost s e * ws_replan_window_penalty_weight s)]"

definition total_score :: "(string \<times> rat) list \<Rightarrow> rat" where
  "total_score parts =
     dget parts ''base'' 0 + dget parts ''throughput_bonus'' 0 - dget parts ''latency_penalty'' 0
     - dget parts ''load_time_penalty'' 0 - dget parts ''migration_cost_penalty'' 0
     - dget parts ''expert_weight_movement_penalty'' 0 - dget parts ''queue_penalty'' 0
     - dget parts ''replan_window_penalty'' 0"

definition score_candidate ::
  "workload_snapshot \<Rightarrow> bool \<Rightarrow> bool \<Rightarrow> parallel_config \<Rightarrow> parallel_config" where
  "score_candidate s comparable movement_comparable c =
     (let base = (if pc_base_score c \<noteq> 0 then pc_base_score c else pc_score c);
          e = estimate_workload s comparable movement_comparable c;
          parts = score_components s base e;
          score = total_score parts
      in c\<lparr>pc_score := score,
           pc_base_score := base,
           pc_workload_score_delta := score - base,
           pc_arrival_rate_req_s := ws_arrival_rate_req_s s,
           pc_batch_size := ws_batch_size s,
           pc_latency_estimate_ms := sc_latency e,
           pc_throughput_estimate_req_s := sc_throughput e,
           pc_load_time_estimate_ms := sc_load_time e,
           pc_migration_cost_estimate_ms := sc_migration_cost e,
           pc_queue_penalty_ms := sc_queue_penalty e,
           pc_replan_window_cost_ms := sc_load_time e + sc_migration_cost e + sc_movement e
             + sc_queue_penalty e,
           pc_replan_window_penalty_cost_ms := window_penalty_cost s e,
           pc_score_components := parts\<rparr>)"

definition config_key :: "parallel_config \<Rightarrow> rat \<times> int \<times> int \<times> int \<times> int \<times> int" where
  "config_key c = (pc_score c, pc_replica_count c, pc_tensor_parallel_size c,
                   config_expert_parallel_size c, - pc_pipeline_parallel_size c, - pc_unused_gpus c)"

definition score_parallel_candidates_for_workload ::
  "parallel_config list \<Rightarrow> dict \<Rightarrow> dict \<Rightarrow> (parallel_config list \<times> cost_report) res" where
  "score_parallel_candidates_for_workload candidates planner_config model_config =
     rbind (workload_cost_model_snapshot planner_config model_config) (\<lambda>snapshot.
     let policy = py_str (dget planner_config ''selection_policy'' (PStr ''weighted_score'')) in
     if policy = ''spotserve_algorithm1'' then select_profiled_candidates candidates snapshot planner_config
     else if policy \<noteq> ''weighted_score''
     then Inl (ValueError (''unsupported_parallel_selection_policy:'' @ policy))
     else if \<not> ws_enabled snapshot \<or> candidates = [] then Inr (candidates, Snapshot_Only snapshot)
     else let profile_mode = (dgetn planner_config ''expert_placement_profiles'' \<noteq> PNone);
              comparable = (\<not> profile_mode \<or> list_all pc_placement_profile_available candidates);
              movement_comparable =
                list_all (\<lambda>c. pc_expert_weight_movement_cost_estimate_ms c \<noteq> None) candidates
       in Inr (py_sort_rev config_key (map (score_candidate snapshot comparable movement_comparable) candidates),
               Weighted_Score snapshot profile_mode comparable movement_comparable))"

fun cost_report_dict :: "cost_report \<Rightarrow> dict" where
  "cost_report_dict (Snapshot_Only s) = workload_snapshot_dict s"
| "cost_report_dict (Weighted_Score s profile_mode comparable movement_comparable) =
     workload_snapshot_dict s @
     [(''placement_profile_scoring_enabled'', PBool (profile_mode \<and> comparable)),
      (''placement_profile_scoring_reason'',
         PStr (if profile_mode \<and> comparable then ''all_candidates_exact_match''
               else if profile_mode then ''disabled_for_candidate_set_due_to_profile_miss''
               else ''placement_profiles_not_configured'')),
      (''expert_movement_scoring_enabled'', PBool movement_comparable),
      (''expert_movement_scoring_reason'',
         PStr (if movement_comparable then ''all_candidate_costs_available''
               else ''disabled_for_candidate_set_due_to_unknown_cost''))]"
| "cost_report_dict (Algorithm1 s branch queue_model profiled_count rejected_count queue_stable) =
     AList.update ''enabled'' (PBool True) (workload_snapshot_dict s) @
     [(''selection_policy'', PStr ''spotserve_algorithm1''),
      (''selection_branch'', PStr branch),
      (''queue_model'', PStr queue_model),
      (''profiled_candidate_count'', PInt profiled_count),
      (''rejected_unprofiled_candidate_count'', PInt rejected_count),
      (''scope'', PStr ''bounded_gpu_pool_no_cloud_acquisition''),
      (''queue_stable'', PBool queue_stable)]"

section \<open>Configurations a backend declares\<close>

text \<open>
  A capability is absent, a configured value, or the object the backend computes, which lists
  plans. A declared configuration is then a value (a mapping in good cases) or a plan object,
  which has no estimates of its own.
\<close>

datatype backend_capability =
    No_Capability
  | Capability_Value pyval
  | Backend_Capability "parallel_plan list"

datatype config_entry = Entry_Value pyval | Entry_Plan parallel_plan

fun supported_configs :: "backend_capability \<Rightarrow> config_entry list res" where
  "supported_configs No_Capability = Inr []"
| "supported_configs (Capability_Value v) =
     (let configs = (if is_mapping v then dgetn (dict_of v) ''supported_configs'' else PNone) in
      if \<not> truthy configs then Inr []
      else rbind (py_iter configs) (\<lambda>xs. Inr (map Entry_Value xs)))"
| "supported_configs (Backend_Capability plans) = Inr (map Entry_Plan plans)"

fun has_supported_configs :: "backend_capability \<Rightarrow> bool" where
  "has_supported_configs No_Capability = False"
| "has_supported_configs (Capability_Value v) =
     (is_mapping v \<and> truthy (dgetn (dict_of v) ''supported_configs''))"
| "has_supported_configs (Backend_Capability plans) = (plans \<noteq> [])"

record declared_config =
  dc_tensor_parallel_size :: int
  dc_pipeline_parallel_size :: int
  dc_data_parallel_size :: int
  dc_replica_count :: int
  dc_enable_expert_parallel :: bool
  dc_total_gpus :: int
  dc_reason :: string
  dc_latency_estimate_ms :: rat
  dc_throughput_estimate_req_s :: rat
  dc_load_time_estimate_ms :: rat
  dc_migration_cost_estimate_ms :: rat
  dc_expert_weight_movement_cost_estimate_ms :: rat
  dc_batch_size :: int

definition declared_from_dict :: "dict \<Rightarrow> declared_config res" where
  "declared_from_dict plan =
     rbind (int_or_default plan ''tensor_parallel_size'' (PInt 1) 1) (\<lambda>tp.
     rbind (int_or_default plan ''pipeline_parallel_size'' (PInt 1) 1) (\<lambda>pp.
     rbind (int_or_default plan ''data_parallel_size'' (PInt 1) 1) (\<lambda>dp.
     rbind (int_or_default plan ''replica_count'' (dget plan ''num_replicas'' (PInt 1)) 1) (\<lambda>replicas.
     rbind (int_or_default plan ''effective_expert_parallel_size''
              (dget plan ''expert_parallel_size'' (PInt 1)) 1) (\<lambda>ep.
     rbind (int_or_default plan ''num_gpus'' (PInt 1) 1) (\<lambda>total_gpus.
     rbind (nonnegative_float (dget plan ''latency_estimate_ms'' (PFloat 0))) (\<lambda>latency.
     rbind (nonnegative_float (dget plan ''throughput_estimate_req_s''
              (dget plan ''throughput_req_s'' (PFloat 0)))) (\<lambda>throughput.
     rbind (nonnegative_float (dget plan ''load_time_estimate_ms'' (PFloat 0))) (\<lambda>load_time.
     rbind (nonnegative_float (dget plan ''migration_cost_estimate_ms'' (PFloat 0))) (\<lambda>migration.
     rbind (nonnegative_float (dget plan ''expert_weight_movement_cost_estimate_ms'' (PFloat 0))) (\<lambda>movement.
     rbind (safe_int (dget plan ''batch_size'' (PInt 0)) 0) (\<lambda>batch_size.
     Inr \<lparr>dc_tensor_parallel_size = tp, dc_pipeline_parallel_size = pp, dc_data_parallel_size = dp,
          dc_replica_count = replicas,
          dc_enable_expert_parallel = truthy (dget plan ''enable_expert_parallel'' (PBool (ep > 1))),
          dc_total_gpus = total_gpus,
          dc_reason = py_str (dget plan ''reason'' (PStr ''backend_capability'')),
          dc_latency_estimate_ms = latency, dc_throughput_estimate_req_s = throughput,
          dc_load_time_estimate_ms = load_time, dc_migration_cost_estimate_ms = migration,
          dc_expert_weight_movement_cost_estimate_ms = movement,
          dc_batch_size = max 0 batch_size\<rparr>))))))))))))"

definition declared_from_plan :: "parallel_plan \<Rightarrow> declared_config" where
  "declared_from_plan plan =
     \<lparr>dc_tensor_parallel_size = pp_tensor_parallel_size plan,
      dc_pipeline_parallel_size = pp_pipeline_parallel_size plan,
      dc_data_parallel_size = pp_data_parallel_size plan,
      dc_replica_count = pp_replica_count plan,
      dc_enable_expert_parallel = pp_enable_expert_parallel plan,
      dc_total_gpus = pp_num_gpus plan,
      dc_reason = pp_reason plan,
      dc_latency_estimate_ms = 0, dc_throughput_estimate_req_s = 0, dc_load_time_estimate_ms = 0,
      dc_migration_cost_estimate_ms = 0, dc_expert_weight_movement_cost_estimate_ms = 0,
      dc_batch_size = max 0 (pp_batch_size plan)\<rparr>"

fun declared_config_of :: "config_entry \<Rightarrow> declared_config res" where
  "declared_config_of (Entry_Value v) = (if is_mapping v then declared_from_dict (dict_of v) else Inl AttributeError)"
| "declared_config_of (Entry_Plan plan) = Inr (declared_from_plan plan)"

record config_limits =
  cl_target_replica_gpus :: int
  cl_min_tp :: int
  cl_max_tp :: int
  cl_min_dp :: int
  cl_max_dp :: int
  cl_min_pp :: int
  cl_max_pp :: int
  cl_min_replicas :: int
  cl_max_replicas :: int
  cl_free_only :: bool

definition read_config_limits :: "dict \<Rightarrow> int \<Rightarrow> config_limits res" where
  "read_config_limits planner_config available_gpus =
     rbind (positive_int planner_config ''target_replica_gpus'' 1) (\<lambda>target.
     rbind (positive_int planner_config ''min_tensor_parallel_size'' 1) (\<lambda>min_tp.
     rbind (positive_int planner_config ''max_tensor_parallel_size'' available_gpus) (\<lambda>max_tp.
     rbind (positive_int planner_config ''min_data_parallel_size'' 1) (\<lambda>min_dp.
     rbind (positive_int planner_config ''max_data_parallel_size'' available_gpus) (\<lambda>max_dp.
     rbind (positive_int planner_config ''min_pipeline_parallel_size'' 1) (\<lambda>min_pp.
     rbind (positive_int planner_config ''max_pipeline_parallel_size'' available_gpus) (\<lambda>max_pp.
     rbind (positive_int planner_config ''min_replica_count'' 1) (\<lambda>min_replicas.
     rbind (positive_int planner_config ''max_replica_count'' available_gpus) (\<lambda>max_replicas.
     Inr \<lparr>cl_target_replica_gpus = target, cl_min_tp = min_tp, cl_max_tp = max_tp,
          cl_min_dp = min_dp, cl_max_dp = max_dp, cl_min_pp = min_pp, cl_max_pp = max_pp,
          cl_min_replicas = min_replicas, cl_max_replicas = max_replicas,
          cl_free_only = truthy (dget planner_config ''require_free_gpu_overlap'' (PBool False))\<rparr>)))))))))"

definition within_limits :: "config_limits \<Rightarrow> declared_config \<Rightarrow> bool" where
  "within_limits l d \<longleftrightarrow>
     cl_min_tp l \<le> dc_tensor_parallel_size d \<and> dc_tensor_parallel_size d \<le> cl_max_tp l
     \<and> cl_min_dp l \<le> dc_data_parallel_size d \<and> dc_data_parallel_size d \<le> cl_max_dp l
     \<and> cl_min_replicas l \<le> dc_replica_count d \<and> dc_replica_count d \<le> cl_max_replicas l
     \<and> cl_min_pp l \<le> dc_pipeline_parallel_size d \<and> dc_pipeline_parallel_size d \<le> cl_max_pp l"

definition declared_replica_gpus :: "declared_config \<Rightarrow> int" where
  "declared_replica_gpus d =
     dc_tensor_parallel_size d * dc_pipeline_parallel_size d * dc_data_parallel_size d"

definition declared_candidate :: "config_limits \<Rightarrow> int \<Rightarrow> declared_config \<Rightarrow> parallel_config" where
  "declared_candidate l available_gpus d =
     (let unused_gpus = available_gpus - dc_total_gpus d in
      (ParallelConfig_init (dc_tensor_parallel_size d) (dc_pipeline_parallel_size d)
         (dc_data_parallel_size d) (dc_replica_count d) (dc_total_gpus d) unused_gpus
         (candidate_score (dc_total_gpus d) (dc_replica_count d) (declared_replica_gpus d)
            (cl_target_replica_gpus l) unused_gpus)
         (dc_reason d) (dc_enable_expert_parallel d))
      \<lparr>pc_latency_estimate_ms := dc_latency_estimate_ms d,
       pc_batch_size := dc_batch_size d,
       pc_throughput_estimate_req_s := dc_throughput_estimate_req_s d,
       pc_load_time_estimate_ms := dc_load_time_estimate_ms d,
       pc_migration_cost_estimate_ms := dc_migration_cost_estimate_ms d,
       pc_expert_weight_movement_cost_estimate_ms := Some (dc_expert_weight_movement_cost_estimate_ms d)\<rparr>)"

definition add_declared ::
  "config_limits \<Rightarrow> int \<Rightarrow> nodes \<Rightarrow> dict \<Rightarrow> config_entry \<Rightarrow> parallel_config list \<Rightarrow> parallel_config list res" where
  "add_declared l available_gpus worker_nodes planner_config entry candidates =
     rbind (declared_config_of entry) (\<lambda>d.
     if \<not> within_limits l d \<or> dc_total_gpus d > available_gpus then Inr candidates
     else if dgetn planner_config ''selection_policy'' = PStr ''spotserve_algorithm1''
             \<and> dc_total_gpus d \<noteq> declared_replica_gpus d * dc_replica_count d
     then Inl (ValueError ''profile_gpu_count_does_not_match_parallel_shape'')
     else rbind (select_target_nodes worker_nodes (dc_total_gpus d) (cl_free_only l)) (\<lambda>target_nodes.
       Inr (if target_nodes = [] then candidates
            else candidates @ [declared_candidate l available_gpus d])))"

definition supported_config_candidates ::
  "backend_capability \<Rightarrow> int \<Rightarrow> nodes \<Rightarrow> dict \<Rightarrow> parallel_config list res" where
  "supported_config_candidates capability available_gpus worker_nodes planner_config =
     (if \<not> has_supported_configs capability then Inr []
      else
        rbind (read_config_limits planner_config available_gpus) (\<lambda>limits.
        rbind (supported_configs capability) (\<lambda>entries.
        rbind (rfold (add_declared limits available_gpus worker_nodes planner_config) entries []) (\<lambda>candidates.
        Inr (py_sort_rev config_key candidates)))))"

definition get_backend_capability ::
  "(dict \<Rightarrow> parallel_plan list option) \<Rightarrow> dict \<Rightarrow> backend_capability" where
  "get_backend_capability backend_plans model_config =
     (let configured = dgetn model_config ''backend_capability'' in
      if configured \<noteq> PNone then Capability_Value configured
      else case backend_plans model_config of None \<Rightarrow> No_Capability | Some plans \<Rightarrow> Backend_Capability plans)"

section \<open>Expert placement and exact profiles\<close>

type_synonym placement_planner = "string \<Rightarrow> dict \<Rightarrow> dict \<Rightarrow> int \<Rightarrow> dict \<Rightarrow> dict option res"

definition placement_strategies :: "dict \<Rightarrow> string list" where
  "placement_strategies planner_config =
     (let raw = dgetn planner_config ''placement_candidate_strategies'';
          raw = (if raw = PNone \<and> truthy (dgetn planner_config ''expert_placement_profiles'')
                 then PTuple [PStr ''linear'', PStr ''round_robin'', PStr ''hotness_balanced''] else raw);
          strategies = (case raw of
              PStr text \<Rightarrow> map py_strip (split_on (CHR '','') text)
            | PList vs \<Rightarrow> map (\<lambda>v. py_strip (py_str v)) (filter truthy vs)
            | PTuple vs \<Rightarrow> map (\<lambda>v. py_strip (py_str v)) (filter truthy vs)
            | _ \<Rightarrow> [py_strip (py_str (por (dgetn planner_config ''target_expert_placement_strategy'') (PStr '''')))]);
          strategies = filter (\<lambda>t. t \<noteq> '''') strategies
      in if strategies = [] then [''''] else strategies)"

definition replan_reason :: "string option \<Rightarrow> string" where
  "replan_reason event =
     (case event of Some (c # cs) \<Rightarrow> c # cs | _ \<Rightarrow> ''manual'') @ ''_replan''"

definition placement_estimates :: "dict \<Rightarrow> parallel_config \<Rightarrow> parallel_config res" where
  "placement_estimates payload c =
     rbind (if dgetn payload ''estimated_expert_weight_movement_cost_ms'' \<noteq> PNone
            then rbind (nonnegative_float (dgetn payload ''estimated_expert_weight_movement_cost_ms''))
                   (\<lambda>r. Inr (Some r))
            else Inr None) (\<lambda>movement_cost.
     rbind (safe_int (dgetn payload ''moved_expert_count'') 0) (\<lambda>moved.
     rbind (safe_int (dgetn payload ''stationary_expert_count'') 0) (\<lambda>stationary.
     rbind (safe_int (dgetn payload ''unknown_movement_expert_count'') 0) (\<lambda>unknown.
     rbind (if dgetn payload ''moved_weight_bytes'' \<noteq> PNone
            then rbind (safe_int (dgetn payload ''moved_weight_bytes'') 0) (\<lambda>n. Inr (Some n))
            else Inr None) (\<lambda>moved_bytes.
     Inr (c\<lparr>pc_expert_weight_movement_cost_estimate_ms := movement_cost,
            pc_expert_placement_movement_observation_available :=
              truthy (dget payload ''movement_observation_available'' (PBool False)),
            pc_expert_placement_movement_source :=
              py_str (dget payload ''movement_source'' (PStr ''unavailable'')),
            pc_expert_placement_moved_expert_count := moved,
            pc_expert_placement_stationary_expert_count := stationary,
            pc_expert_placement_unknown_movement_expert_count := unknown,
            pc_expert_placement_moved_weight_bytes := moved_bytes,
            pc_expert_placement_strategy := py_str (dget payload ''placement_strategy'' (PStr '''')),
            pc_expert_placement_fingerprint := py_str (dget payload ''placement_fingerprint'' (PStr '''')),
            pc_expert_placement_hotness_snapshot_id := py_str (dget payload ''hotness_snapshot_id'' (PStr '''')),
            pc_expert_placement_plan := Some payload\<rparr>))))))"

type_synonym mapping_key = "int \<times> int \<times> int \<times> int \<times> string"

definition attach_placement ::
  "placement_planner \<Rightarrow> string \<Rightarrow> string \<Rightarrow> nodes \<Rightarrow> dict \<Rightarrow> dict \<Rightarrow> int \<Rightarrow> string option
   \<Rightarrow> parallel_config \<times> string \<Rightarrow> parallel_config list \<times> mapping_key list
   \<Rightarrow> (parallel_config list \<times> mapping_key list) res" where
  "attach_placement place model_name backend worker_nodes model_config planner_config placement_epoch
     event pair state =
     (case (pair, state) of ((candidate, strategy), (enriched, seen)) \<Rightarrow>
        let config = (if strategy \<noteq> ''''
              then AList.update ''target_expert_placement_strategy'' (PStr strategy) planner_config
              else planner_config) in
        rbind (build_parallel_plan model_name backend candidate worker_nodes placement_epoch None
                 (replan_reason event) False) (\<lambda>candidate_plan.
        rbind (place model_name (ParallelPlan_to_dict candidate_plan) model_config placement_epoch config)
          (\<lambda>placement.
        case placement of
          None \<Rightarrow> Inr (enriched @ [candidate], seen)
        | Some payload \<Rightarrow>
            let key = (pc_tensor_parallel_size candidate, pc_pipeline_parallel_size candidate,
                       pc_data_parallel_size candidate, pc_replica_count candidate,
                       py_str (dget payload ''placement_fingerprint'' (PStr '''')))
            in if key \<in> set seen then Inr (enriched, seen)
               else rbind (placement_estimates payload candidate) (\<lambda>c.
                      Inr (enriched @ [c], key # seen)))))"

definition attach_expert_placement_movement_estimates ::
  "placement_planner \<Rightarrow> parallel_config list \<Rightarrow> string \<Rightarrow> string \<Rightarrow> nodes \<Rightarrow> dict \<Rightarrow> dict \<Rightarrow> int
   \<Rightarrow> string option \<Rightarrow> parallel_config list res" where
  "attach_expert_placement_movement_estimates place candidates model_name backend worker_nodes
     model_config planner_config placement_epoch event =
     (if candidates = [] \<or> dgetn planner_config ''disable_logical_expert_placement'' = PBool True
      then Inr candidates
      else rbind (rfold (attach_placement place model_name backend worker_nodes model_config
                    planner_config placement_epoch event)
               (List.product candidates (placement_strategies planner_config)) ([], []))
             (\<lambda>(enriched, _). Inr enriched))"

definition profile_context_fields :: "string list" where
  "profile_context_fields =
     [''model_id'', ''gpu_type'', ''runtime_fingerprint'', ''dtype'', ''quantization'', ''moe_backend'']"

definition profile_shape :: "dict \<Rightarrow> (int \<times> int \<times> int \<times> int \<times> int) res" where
  "profile_shape row =
     rbind (safe_int (dgetn row ''tensor_parallel_size'') 0) (\<lambda>tp.
     rbind (safe_int (dgetn row ''pipeline_parallel_size'') 0) (\<lambda>pp.
     rbind (safe_int (dget row ''vllm_data_parallel_size'' (dgetn row ''data_parallel_size'')) 0) (\<lambda>dp.
     rbind (safe_int (dgetn row ''effective_expert_parallel_size'') 0) (\<lambda>ep.
     rbind (safe_int (dget row ''sllm_replica_count'' (dgetn row ''replica_count'')) 0) (\<lambda>replicas.
     Inr (tp, pp, dp, ep, replicas))))))"

definition profile_latency :: "dict \<Rightarrow> rat res" where
  "profile_latency row = nonnegative_float
     (dget row ''service_latency_mean_ms'' (dget row ''latency_estimate_ms'' (PFloat 0)))"

definition profile_throughput :: "dict \<Rightarrow> rat res" where
  "profile_throughput row = nonnegative_float
     (dget row ''throughput_req_s'' (dget row ''throughput_estimate_req_s'' (PFloat 0)))"

record profile_query =
  pq_manifest_id :: string
  pq_manifest :: dict
  pq_workload_bucket_id :: string
  pq_require_validation :: bool
  pq_max_prediction_error :: rat

text \<open>
  One row against one candidate: \<open>Inl reason\<close> is no match, with the reason the loop carries on
  with, \<open>Inr ()\<close> the match that ends it.
\<close>

definition match_profile ::
  "profile_query \<Rightarrow> parallel_config \<Rightarrow> dict \<Rightarrow> string \<Rightarrow> (string + unit) res" where
  "match_profile q c row reason =
     (if (pq_manifest_id q \<noteq> '''' \<and> py_str (por (dgetn row ''manifest_id'') (PStr '''')) \<noteq> pq_manifest_id q)
         \<or> py_str (por (dgetn row ''workload_bucket_id'') (PStr '''')) \<noteq> pq_workload_bucket_id q
         \<or> py_str (por (dgetn row ''placement_fingerprint'') (PStr '''')) \<noteq> pc_expert_placement_fingerprint c
      then Inr (Inl reason)
      else rbind (profile_shape row) (\<lambda>shape.
        if shape \<noteq> (pc_tensor_parallel_size c, pc_pipeline_parallel_size c, pc_data_parallel_size c,
                    config_expert_parallel_size c, pc_replica_count c)
        then Inr (Inl reason)
        else rbind (nonnegative_float (dget row ''held_out_prediction_error_ratio'' (PFloat 0))) (\<lambda>prediction_error.
          if pq_require_validation q
             \<and> \<not> truthy_flag (dget row ''prediction_validated''
                    (dget (pq_manifest q) ''prediction_validated'' (PBool False)))
          then Inr (Inl ''profile_prediction_not_validated'')
          else if prediction_error > pq_max_prediction_error q
          then Inr (Inl ''profile_prediction_error_exceeded'')
          else
            rbind (safe_int (dgetn row ''sample_count'') 0) (\<lambda>sample_count.
            rbind (profile_latency row) (\<lambda>latency.
            rbind (profile_throughput row) (\<lambda>throughput.
            Inr (if sample_count \<le> 0 \<or> latency \<le> 0 \<or> throughput \<le> 0
                 then Inl ''profile_measurements_incomplete'' else Inr ())))))))"

fun find_profile ::
  "profile_query \<Rightarrow> parallel_config \<Rightarrow> dict list \<Rightarrow> string \<Rightarrow> (string + dict) res" where
  "find_profile q c [] reason = Inr (Inl reason)"
| "find_profile q c (row # rows) reason =
     rbind (match_profile q c row reason) (\<lambda>m. case m of
        Inl reason' \<Rightarrow> find_profile q c rows reason'
      | Inr _ \<Rightarrow> Inr (Inr row))"

definition profile_miss :: "profile_query \<Rightarrow> string \<Rightarrow> parallel_config \<Rightarrow> parallel_config" where
  "profile_miss q reason c =
     c\<lparr>pc_latency_estimate_ms := 0, pc_throughput_estimate_req_s := 0,
       pc_placement_profile_available := False, pc_placement_profile_match_reason := reason,
       pc_placement_profile_workload_bucket_id := pq_workload_bucket_id q\<rparr>"

definition profile_hit :: "profile_query \<Rightarrow> dict \<Rightarrow> parallel_config \<Rightarrow> parallel_config res" where
  "profile_hit q row c =
     rbind (profile_latency row) (\<lambda>latency.
     rbind (profile_throughput row) (\<lambda>throughput.
     Inr (c\<lparr>pc_latency_estimate_ms := latency, pc_throughput_estimate_req_s := throughput,
            pc_placement_profile_available := True,
            pc_placement_profile_id := py_str (por (dgetn row ''profile_id'') (PStr '''')),
            pc_placement_profile_match_reason := ''exact_match'',
            pc_placement_profile_workload_bucket_id := pq_workload_bucket_id q\<rparr>)))"

record profile_lookup =
  pl_attached :: "parallel_config list"
  pl_matched :: int
  pl_miss_reasons :: "(string \<times> int) list"

definition attach_profile ::
  "profile_query \<Rightarrow> string list \<Rightarrow> dict list \<Rightarrow> parallel_config \<Rightarrow> profile_lookup \<Rightarrow> profile_lookup res" where
  "attach_profile q context_mismatches profiles c acc =
     rbind (find_profile q c (if context_mismatches = [] then profiles else [])
              (if context_mismatches \<noteq> [] then ''profile_manifest_context_mismatch''
               else ''profile_unavailable'')) (\<lambda>found. case found of
        Inl reason \<Rightarrow> Inr (acc\<lparr>pl_attached := pl_attached acc @ [profile_miss q reason c],
            pl_miss_reasons := AList.update reason (dget (pl_miss_reasons acc) reason 0 + 1)
              (pl_miss_reasons acc)\<rparr>)
      | Inr row \<Rightarrow> rbind (profile_hit q row c) (\<lambda>hit.
          Inr (acc\<lparr>pl_attached := pl_attached acc @ [hit], pl_matched := pl_matched acc + 1\<rparr>)))"

definition condition_keys :: "dict list \<Rightarrow> (string \<times> string) list" where
  "condition_keys profiles =
     remdups (map (\<lambda>row. (py_str (por (dgetn row ''placement_fingerprint'') (PStr '''')),
                           py_str (por (dgetn row ''workload_bucket_id'') (PStr '''')))) profiles)"

definition profile_report ::
  "profile_query \<Rightarrow> string list \<Rightarrow> nat \<Rightarrow> nat \<Rightarrow> profile_lookup \<Rightarrow> dict" where
  "profile_report q context_mismatches condition_count candidate_count r =
     [(''enabled'', PBool True),
      (''manifest_id'', PStr (pq_manifest_id q)),
      (''workload_bucket_id'', PStr (pq_workload_bucket_id q)),
      (''condition_count'', PInt (int condition_count)),
      (''candidate_count'', PInt (int candidate_count)),
      (''matched_candidate_count'', PInt (pl_matched r)),
      (''profile_miss_count'', PInt (int candidate_count - pl_matched r)),
      (''profile_miss_reasons'', of_counts (pl_miss_reasons r)),
      (''all_candidates_matched'', PBool (pl_matched r = int candidate_count)),
      (''context_match'', PBool (context_mismatches = [])),
      (''context_mismatches'', PList (map PStr context_mismatches)),
      (''lookup'', PStr ''exact_shape_mapping_workload_manifest'')]"

definition attach_exact_placement_profiles ::
  "parallel_config list \<Rightarrow> dict \<Rightarrow> (parallel_config list \<times> dict) res" where
  "attach_exact_placement_profiles candidates planner_config =
     (let raw = dgetn planner_config ''expert_placement_profiles'' in
      if raw = PNone
      then Inr (candidates, [(''enabled'', PBool False), (''reason'', PStr ''placement_profiles_not_configured'')])
      else if \<not> is_sequence raw then Inl (ValueError ''expert_placement_profiles_must_be_a_list'')
      else let rows = (case raw of PList xs \<Rightarrow> xs | PTuple xs \<Rightarrow> xs | _ \<Rightarrow> []);
               profiles = map dict_of (filter is_mapping rows);
               manifest = dict_of (dgetn planner_config ''expert_placement_profile_manifest'');
               missing = filter (\<lambda>key. \<not> dhas manifest key) (''manifest_id'' # profile_context_fields);
               active = dict_of (dgetn planner_config ''placement_profile_context'');
               mismatches = filter (\<lambda>key. py_str (dgetn active key) \<noteq> py_str (dgetn manifest key))
                 profile_context_fields;
               keys = condition_keys profiles
        in if missing \<noteq> []
           then Inl (ValueError (''placement_profile_manifest_missing_fields:'' @ py_join '','' missing))
           else
             rbind (safe_int (dgetn manifest ''max_conditions'') 6) (\<lambda>max_conditions.
             if int (length keys) > max 1 max_conditions
             then Inl (ValueError ''placement_profile_condition_limit_exceeded'')
             else
               rbind (safe_float (dget planner_config ''maximum_profile_prediction_error_ratio'' (PFloat 1)) 1)
                 (\<lambda>max_prediction_error.
               let q = \<lparr>pq_manifest_id = py_str (por (dgetn manifest ''manifest_id'') (PStr '''')),
                        pq_manifest = manifest,
                        pq_workload_bucket_id =
                          py_str (por (dgetn planner_config ''workload_bucket_id'') (PStr '''')),
                        pq_require_validation = (\<not> truthy_flag
                          (dget planner_config ''allow_unvalidated_placement_profiles'' (PBool False))),
                        pq_max_prediction_error = max_prediction_error\<rparr>
               in rbind (rfold (attach_profile q mismatches profiles) candidates
                           \<lparr>pl_attached = [], pl_matched = 0, pl_miss_reasons = []\<rparr>) (\<lambda>r.
                  Inr (pl_attached r, profile_report q mismatches (length keys) (length candidates) r)))))"

section \<open>The decision\<close>

definition next_placement_epoch :: "dict \<Rightarrow> dict \<Rightarrow> int res" where
  "next_placement_epoch model_config planner_config =
     rbind (safe_int (dgetn planner_config ''placement_epoch'') 0) (\<lambda>a.
     rbind (safe_int (dgetn planner_config ''current_placement_epoch'') 0) (\<lambda>b.
     rbind (safe_int (dgetn (backend_config_of model_config) ''placement_epoch'') 0) (\<lambda>c.
     rbind (safe_int (dgetn model_config ''placement_epoch'') 0) (\<lambda>d.
     Inr (max 1 (max a (max b (max c d)) + 1))))))"

definition prepare_planner_config :: "dict \<Rightarrow> dict \<Rightarrow> dict res" where
  "prepare_planner_config planner_config model_config =
     rbind (if truthy_flag (dget planner_config ''enable_live_expert_remap'' (PBool False))
            then rbind (positive_int planner_config ''max_replica_count'' 1) (\<lambda>replicas.
                 rbind (positive_int planner_config ''max_pipeline_parallel_size'' 1) (\<lambda>pp.
                 Inr (AList.update ''max_pipeline_parallel_size'' (PInt (min pp 1))
                       (AList.update ''max_replica_count'' (PInt (min replicas 1)) planner_config))))
            else Inr planner_config) (\<lambda>config.
     if dhas config ''target_replica_gpus'' then Inr config
     else rbind (py_int (por (dgetn config ''model_gpu_requirement'')
                          (por (dget model_config ''num_gpus'' (PInt 1)) (PInt 1)))) (\<lambda>n.
       Inr (AList.update ''target_replica_gpus'' (PInt (max n 1)) config)))"

definition add_free_gpus :: "string \<times> dict \<Rightarrow> int \<Rightarrow> int res" where
  "add_free_gpus node acc =
     (if node_state (snd node) = PStr READY
      then rbind (free_gpu_count (snd node)) (\<lambda>n. Inr (acc + n)) else Inr acc)"

record reparallel_decision =
  rd_model :: string
  rd_backend :: string
  rd_event :: "string option"
  rd_node_id :: "string option"
  rd_instance_id :: "string option"
  rd_candidates :: "parallel_config list"
  rd_availability :: gpu_availability
  rd_free_overlap :: bool
  rd_available_gpus :: int
  rd_ready_free_gpus :: int
  rd_worker_nodes :: int
  rd_synthetic_nodes :: int
  rd_cost_report :: cost_report
  rd_profile_report :: dict
  rd_parallel_plan :: "parallel_plan option"
  rd_expert_placement_plan :: "dict option"

definition rd_selected :: "reparallel_decision \<Rightarrow> parallel_config option" where
  "rd_selected d = (case rd_candidates d of [] \<Rightarrow> None | c # _ \<Rightarrow> Some c)"

definition rd_action :: "reparallel_decision \<Rightarrow> string" where
  "rd_action d = (if rd_selected d \<noteq> None then ''reparallelize'' else ''no_capacity'')"

text \<open>The plan of the selected configuration, with its expert placement where there is one.\<close>

definition place_selected ::
  "placement_planner \<Rightarrow> string \<Rightarrow> string \<Rightarrow> parallel_config \<Rightarrow> nodes \<Rightarrow> dict \<Rightarrow> dict \<Rightarrow> int \<Rightarrow> string option
   \<Rightarrow> bool \<Rightarrow> (parallel_plan \<times> dict option) res" where
  "place_selected place model_name backend_name selected worker_nodes model_config planner_config
     placement_epoch event free_overlap =
     rbind (build_parallel_plan model_name backend_name selected worker_nodes placement_epoch None
              (replan_reason event) free_overlap) (\<lambda>plan.
     if dgetn planner_config ''disable_logical_expert_placement'' = PBool True then Inr (plan, None)
     else
       rbind (case pc_expert_placement_plan selected of
                Some payload \<Rightarrow> Inr (Some payload)
              | None \<Rightarrow> place model_name (ParallelPlan_to_dict plan) model_config
                          (pp_placement_epoch plan) planner_config) (\<lambda>payload.
       case payload of
         None \<Rightarrow> Inr (plan, None)
       | Some p \<Rightarrow> rbind (build_parallel_plan model_name backend_name selected worker_nodes
                             (pp_placement_epoch plan) (Some p) (replan_reason event) free_overlap)
                     (\<lambda>plan'. Inr (plan', Some p))))"

definition plan_dynamic_reparallelization ::
  "placement_planner \<Rightarrow> (dict \<Rightarrow> parallel_plan list option) \<Rightarrow> string \<Rightarrow> nodes \<Rightarrow> dict \<Rightarrow> dict
   \<Rightarrow> string option \<Rightarrow> string option \<Rightarrow> string option \<Rightarrow> string option \<Rightarrow> reparallel_decision res" where
  "plan_dynamic_reparallelization place backend_plans model_name worker_nodes model_config
     raw_planner_config event node_id instance_id backend =
     (let backend_name = (case backend of Some (c # cs) \<Rightarrow> c # cs
            | _ \<Rightarrow> py_str (dget model_config ''backend'' (PStr ''unknown''))) in
      rbind (prepare_planner_config raw_planner_config model_config) (\<lambda>planner_config.
      rbind (summarize_gpu_availability worker_nodes) (\<lambda>availability.
      let free_overlap = truthy (dget planner_config ''require_free_gpu_overlap'' (PBool False)) in
      rbind (rfold add_free_gpus worker_nodes 0) (\<lambda>overlap_available_gpus.
      let available_gpus = (if free_overlap
            then min (ga_available_gpus availability) overlap_available_gpus
            else ga_available_gpus availability);
          capability = get_backend_capability backend_plans model_config in
      rbind (supported_config_candidates capability available_gpus worker_nodes planner_config) (\<lambda>declared.
      rbind (if declared = [] \<and> \<not> has_supported_configs capability
             then generate_parallel_candidates available_gpus planner_config
             else Inr declared) (\<lambda>candidates.
      rbind (next_placement_epoch model_config planner_config) (\<lambda>placement_epoch.
      rbind (attach_expert_placement_movement_estimates place candidates model_name backend_name
               worker_nodes model_config planner_config placement_epoch event) (\<lambda>candidates.
      rbind (attach_exact_placement_profiles candidates planner_config) (\<lambda>(candidates, profile_lookup).
      rbind (score_parallel_candidates_for_workload candidates planner_config model_config)
        (\<lambda>(candidates, cost_report).
      rbind (case candidates of
               [] \<Rightarrow> Inr (None, None)
             | selected # _ \<Rightarrow>
                 rbind (place_selected place model_name backend_name selected worker_nodes model_config
                          planner_config placement_epoch event free_overlap)
                   (\<lambda>(plan, payload). Inr (Some plan, payload))) (\<lambda>(parallel_plan, placement).
      Inr \<lparr>rd_model = model_name, rd_backend = backend_name, rd_event = event, rd_node_id = node_id,
           rd_instance_id = instance_id, rd_candidates = candidates, rd_availability = availability,
           rd_free_overlap = free_overlap, rd_available_gpus = available_gpus,
           rd_ready_free_gpus = overlap_available_gpus,
           rd_worker_nodes = int (length worker_nodes),
           rd_synthetic_nodes = int (length (filter (\<lambda>node. is_synthetic_worker_node (snd node)) worker_nodes)),
           rd_cost_report = cost_report, rd_profile_report = profile_lookup,
           rd_parallel_plan = parallel_plan, rd_expert_placement_plan = placement\<rparr>)))))))))))"

section \<open>The decision as a dictionary\<close>

definition selected_config_dict :: "parallel_config \<Rightarrow> dict \<Rightarrow> dict" where
  "selected_config_dict c p =
     [(''selected_total_gpus'', PInt (pc_total_gpus c)),
      (''selected_tensor_parallel_size'', PInt (pc_tensor_parallel_size c)),
      (''selected_pipeline_parallel_size'', PInt (pc_pipeline_parallel_size c)),
      (''selected_data_parallel_size'', PInt (pc_data_parallel_size c)),
      (''selected_vllm_data_parallel_size'', PInt (pc_data_parallel_size c)),
      (''selected_replica_count'', PInt (pc_replica_count c)),
      (''selected_sllm_replica_count'', PInt (pc_replica_count c)),
      (''selected_effective_expert_parallel_size'', PInt (config_expert_parallel_size c)),
      (''selected_runtime_effective_expert_parallel_size'', PInt (config_expert_parallel_size c)),
      (''selected_derived_effective_expert_parallel_size'', PInt (config_expert_parallel_size c)),
      (''selected_expert_parallel_size'', PInt (config_expert_parallel_size c)),
      (''selected_expert_parallel_size_source'', PStr (if pc_enable_expert_parallel c then ''derived_from_tp_dp'' else ''disabled'')),
      (''selected_enable_expert_parallel'', PBool (pc_enable_expert_parallel c)),
      (''selected_score'', PFloat (pc_score c)),
      (''selected_base_score'', PFloat (if pc_base_score c \<noteq> 0 then pc_base_score c else pc_score c - pc_workload_score_delta c)),
      (''selected_workload_score_delta'', PFloat (pc_workload_score_delta c)),
      (''selected_arrival_rate_req_s'', PFloat (pc_arrival_rate_req_s c)),
      (''selected_batch_size'', PInt (pc_batch_size c)),
      (''selected_latency_estimate_ms'', PFloat (pc_latency_estimate_ms c)),
      (''selected_throughput_estimate_req_s'', PFloat (pc_throughput_estimate_req_s c)),
      (''selected_load_time_estimate_ms'', PFloat (pc_load_time_estimate_ms c)),
      (''selected_migration_cost_estimate_ms'', PFloat (pc_migration_cost_estimate_ms c)),
      (''selected_expert_weight_movement_cost_estimate_ms'', of_opt_float (pc_expert_weight_movement_cost_estimate_ms c)),
      (''selected_expert_placement_movement_observation_available'', PBool (pc_expert_placement_movement_observation_available c)),
      (''selected_expert_placement_movement_source'', PStr (pc_expert_placement_movement_source c)),
      (''selected_expert_placement_moved_expert_count'', PInt (pc_expert_placement_moved_expert_count c)),
      (''selected_expert_placement_stationary_expert_count'', PInt (pc_expert_placement_stationary_expert_count c)),
      (''selected_expert_placement_unknown_movement_expert_count'', PInt (pc_expert_placement_unknown_movement_expert_count c)),
      (''selected_expert_placement_moved_weight_bytes'', of_opt_int (pc_expert_placement_moved_weight_bytes c)),
      (''selected_queue_penalty_ms'', PFloat (pc_queue_penalty_ms c)),
      (''selected_replan_window_cost_ms'', PFloat (pc_replan_window_cost_ms c)),
      (''selected_replan_window_penalty_cost_ms'', PFloat (pc_replan_window_penalty_cost_ms c)),
      (''expert_placement_plan_available'', PBool (truthy (dgetn p ''expert_placement_available''))),
      (''expert_placement_plan_epoch'', dget p ''placement_epoch'' (PInt 0)),
      (''expert_placement_plan_fingerprint'', dget p ''placement_fingerprint'' (PStr '''')),
      (''expert_placement_plan_source'', dget p ''placement_source'' (PStr ''unavailable'')),
      (''expert_placement_plan_required_experts'', dget p ''required_expert_count'' (PInt 0)),
      (''expert_placement_plan_covered_experts'', dget p ''covered_expert_count'' (PInt 0)),
      (''expert_placement_plan_shards'', dget p ''planned_shard_count'' (PInt 0)),
      (''expert_placement_plan_target_ranks'', dget p ''target_rank_count'' (PInt 0)),
      (''expert_placement_plan_physical_weight_migration'', PBool (truthy (dget p ''physical_weight_migration'' (PBool False)))),
      (''expert_placement_plan_movement_observation_available'', PBool (truthy (dget p ''movement_observation_available'' (PBool False)))),
      (''expert_placement_plan_movement_source'', dget p ''movement_source'' (PStr ''unavailable'')),
      (''expert_placement_plan_moved_experts'', dget p ''moved_expert_count'' (PInt 0)),
      (''expert_placement_plan_stationary_experts'', dget p ''stationary_expert_count'' (PInt 0)),
      (''expert_placement_plan_unknown_movement_experts'', dget p ''unknown_movement_expert_count'' (PInt 0)),
      (''expert_placement_plan_moved_weight_bytes'', dget p ''moved_weight_bytes'' (PInt 0)),
      (''expert_placement_plan_estimated_weight_movement_cost_ms'', dget p ''estimated_expert_weight_movement_cost_ms'' (PFloat 0)),
      (''expert_placement_plan_reason'', dget p ''reason'' (PStr ''unavailable''))]"

definition no_config_dict :: dict where
  "no_config_dict =
     [(''selected_total_gpus'', PInt 0),
      (''selected_tensor_parallel_size'', PInt 0),
      (''selected_pipeline_parallel_size'', PInt 0),
      (''selected_data_parallel_size'', PInt 0),
      (''selected_vllm_data_parallel_size'', PInt 0),
      (''selected_replica_count'', PInt 0),
      (''selected_sllm_replica_count'', PInt 0),
      (''selected_effective_expert_parallel_size'', PInt 0),
      (''selected_runtime_effective_expert_parallel_size'', PInt 0),
      (''selected_derived_effective_expert_parallel_size'', PInt 0),
      (''selected_expert_parallel_size'', PInt 0),
      (''selected_expert_parallel_size_source'', PStr ''unavailable''),
      (''selected_enable_expert_parallel'', PBool False),
      (''selected_score'', PFloat 0),
      (''selected_base_score'', PFloat 0),
      (''selected_workload_score_delta'', PFloat 0),
      (''selected_arrival_rate_req_s'', PFloat 0),
      (''selected_batch_size'', PInt 0),
      (''selected_latency_estimate_ms'', PFloat 0),
      (''selected_throughput_estimate_req_s'', PFloat 0),
      (''selected_load_time_estimate_ms'', PFloat 0),
      (''selected_migration_cost_estimate_ms'', PFloat 0),
      (''selected_expert_weight_movement_cost_estimate_ms'', PFloat 0),
      (''selected_expert_placement_movement_observation_available'', PBool False),
      (''selected_expert_placement_movement_source'', PStr ''unavailable''),
      (''selected_expert_placement_moved_expert_count'', PInt 0),
      (''selected_expert_placement_stationary_expert_count'', PInt 0),
      (''selected_expert_placement_unknown_movement_expert_count'', PInt 0),
      (''selected_expert_placement_moved_weight_bytes'', PInt 0),
      (''selected_queue_penalty_ms'', PFloat 0),
      (''selected_replan_window_cost_ms'', PFloat 0),
      (''selected_replan_window_penalty_cost_ms'', PFloat 0),
      (''expert_placement_plan_available'', PBool False),
      (''expert_placement_plan_epoch'', PInt 0),
      (''expert_placement_plan_fingerprint'', PStr ''''),
      (''expert_placement_plan_source'', PStr ''unavailable''),
      (''expert_placement_plan_required_experts'', PInt 0),
      (''expert_placement_plan_covered_experts'', PInt 0),
      (''expert_placement_plan_shards'', PInt 0),
      (''expert_placement_plan_target_ranks'', PInt 0),
      (''expert_placement_plan_physical_weight_migration'', PBool False),
      (''expert_placement_plan_movement_observation_available'', PBool False),
      (''expert_placement_plan_movement_source'', PStr ''unavailable''),
      (''expert_placement_plan_moved_experts'', PInt 0),
      (''expert_placement_plan_stationary_experts'', PInt 0),
      (''expert_placement_plan_unknown_movement_experts'', PInt 0),
      (''expert_placement_plan_moved_weight_bytes'', PInt 0),
      (''expert_placement_plan_estimated_weight_movement_cost_ms'', PFloat 0),
      (''expert_placement_plan_reason'', PStr ''no_capacity'')]"

definition reparallel_decision_dict :: "reparallel_decision \<Rightarrow> dict" where
  "reparallel_decision_dict d =
     [(''model'', PStr (rd_model d)),
      (''backend'', PStr (rd_backend d)),
      (''event'', of_opt_str (rd_event d)),
      (''node_id'', of_opt_str (rd_node_id d)),
      (''instance_id'', of_opt_str (rd_instance_id d)),
      (''action'', PStr (rd_action d)),
      (''candidate_count'', PInt (int (length (rd_candidates d)))),
      (''availability'', PDict (GpuAvailability_to_dict (rd_availability d))),
      (''transition_capacity_mode'',
         PStr (if rd_free_overlap d then ''free_gpu_overlap'' else ''final_ready_gpu_capacity'')),
      (''transition_available_gpus'', PInt (rd_available_gpus d)),
      (''ready_free_gpus'', PInt (rd_ready_free_gpus d)),
      (''worker_node_count'', PInt (rd_worker_nodes d)),
      (''ready_worker_node_count'', PInt (int (length (ga_ready_nodes (rd_availability d))))),
      (''synthetic_worker_node_count'', PInt (rd_synthetic_nodes d)),
      (''runtime_worker_node_count'', PInt (max (rd_worker_nodes d - rd_synthetic_nodes d) 0)),
      (''physical_worker_node_count'', PInt (max (rd_worker_nodes d - rd_synthetic_nodes d) 0)),
      (''workload_cost_model'', PDict (cost_report_dict (rd_cost_report d))),
      (''placement_profile_lookup'', PDict (rd_profile_report d)),
      (''parallel_plan'', (case rd_parallel_plan d of None \<Rightarrow> PNone
                          | Some plan \<Rightarrow> PDict (ParallelPlan_to_dict plan))),
      (''expert_placement_plan'', (case rd_expert_placement_plan d of None \<Rightarrow> PNone | Some p \<Rightarrow> PDict p)),
      (''selected_config'', (case rd_selected d of None \<Rightarrow> PNone
                            | Some c \<Rightarrow> PDict (ParallelConfig_to_dict c))),
      (''top_candidates'', PList (map (\<lambda>c. PDict (ParallelConfig_to_dict c)) (take 5 (rd_candidates d))))]
     @ (case rd_selected d of
          None \<Rightarrow> no_config_dict
        | Some c \<Rightarrow> selected_config_dict c
            (case rd_expert_placement_plan d of None \<Rightarrow> [] | Some p \<Rightarrow> p))"

end
