(* ===== verification/Reparallelization_Props.thy ===== *)
theory Reparallelization_Props
  imports Reparallelization Gpu_Cluster_Props
begin

text \<open>
  Properties of the reparallelization planner: which configuration each selection policy puts
  first, what the weighted score charges, that a profile is only used for the exact configuration
  it was measured on, and that every plan the planner returns can be placed on ready nodes.
\<close>

section \<open>Algorithm 1\<close>

definition feasible :: "rat \<Rightarrow> parallel_config \<Rightarrow> bool" where
  "feasible alpha c = (alpha \<le> pc_throughput_estimate_req_s c)"

lemma rank_profiled_mset: "mset (fst (rank_profiled queue_model alpha cs)) = mset cs"
proof (cases "filter (\<lambda>c. alpha \<le> pc_throughput_estimate_req_s c) cs = []")
  case True
  then show ?thesis by (simp add: rank_profiled_def)
next
  case False
  have "filter (\<lambda>c. c \<notin> set (filter (\<lambda>c. alpha \<le> pc_throughput_estimate_req_s c) cs)) cs
      = filter (\<lambda>c. \<not> alpha \<le> pc_throughput_estimate_req_s c) cs"
    by (rule filter_cong) auto
  with False show ?thesis
    by (simp add: rank_profiled_def Let_def)
qed

lemma rank_profiled_best:
  assumes "fst (rank_profiled queue_model alpha cs) = c # rest"
  shows "c \<in> set cs
    \<and> (if \<exists>c' \<in> set cs. feasible alpha c'
       then feasible alpha c \<and> (\<forall>c' \<in> set cs. feasible alpha c' \<longrightarrow>
              inf_key (queue_latency queue_model alpha c) \<le> inf_key (queue_latency queue_model alpha c'))
       else (\<forall>c' \<in> set cs. pc_throughput_estimate_req_s c' \<le> pc_throughput_estimate_req_s c))"
proof -
  let ?fs = "filter (\<lambda>c. alpha \<le> pc_throughput_estimate_req_s c) cs"
  let ?lat = "\<lambda>c. (inf_key (queue_latency queue_model alpha c), stable_shape c)"
  let ?thr = "\<lambda>c. (- pc_throughput_estimate_req_s c, pc_latency_estimate_ms c, stable_shape c)"
  show ?thesis
  proof (cases "?fs = []")
    case True
    then have none: "\<not> (\<exists>c' \<in> set cs. feasible alpha c')" by (auto simp: feasible_def filter_empty_conv)
    from True assms have s: "sort_key ?thr cs = c # rest" by (simp add: rank_profiled_def)
    note best = ranking.first_is_best [OF ranking_sort_key [of ?thr] s]
    have "\<forall>c' \<in> set cs. fst (?thr c) \<le> fst (?thr c')" using best(2) lex_fst_mono by blast
    with best(1) none show ?thesis by simp
  next
    case False
    then have some: "\<exists>c' \<in> set cs. feasible alpha c'" by (auto simp: feasible_def filter_empty_conv)
    from False obtain rest' where s: "sort_key ?lat ?fs = c # rest'"
      using assms ranking.rank_Nil_iff [OF ranking_sort_key [of ?lat], of ?fs]
      by (cases "sort_key ?lat ?fs") (auto simp: rank_profiled_def Let_def)
    note best = ranking.first_is_best [OF ranking_sort_key [of ?lat] s]
    have "\<forall>c' \<in> set ?fs. fst (?lat c) \<le> fst (?lat c')" using best(2) lex_fst_mono by blast
    with best(1) some show ?thesis by (auto simp: feasible_def)
  qed
qed

text \<open>
  C23. Algorithm 1 ranks exactly the configurations with a measured throughput and latency. The
  first one meets the arrival rate with the least latency under the queue model among all
  profiled configurations that meet it; when none does, it has the highest throughput.
\<close>

theorem algorithm1_selects_best:
  assumes "select_profiled_candidates cs snapshot planner_config = Inr (ranked, report)"
  defines "queue_model \<equiv> py_str (dget planner_config ''queue_model'' (PStr ''none''))"
    and "alpha \<equiv> ws_arrival_rate_req_s snapshot"
  shows "mset ranked = image_mset (with_queue queue_model alpha) (mset (filter profiled cs))
    \<and> (\<forall>best rest. ranked = best # rest \<longrightarrow>
        (\<exists>c \<in> set (filter profiled cs). best = with_queue queue_model alpha c
          \<and> (if \<exists>c' \<in> set (filter profiled cs). feasible alpha c'
             then feasible alpha c \<and> (\<forall>c' \<in> set (filter profiled cs). feasible alpha c' \<longrightarrow>
               inf_key (queue_latency queue_model alpha c) \<le> inf_key (queue_latency queue_model alpha c'))
             else (\<forall>c' \<in> set (filter profiled cs).
               pc_throughput_estimate_req_s c' \<le> pc_throughput_estimate_req_s c))))"
proof -
  obtain order branch where ob: "rank_profiled queue_model alpha (filter profiled cs) = (order, branch)"
    by fastforce
  with assms(1) have ranked: "ranked = map (with_queue queue_model alpha) order"
    unfolding select_profiled_candidates_def Let_def queue_model_def alpha_def
    by (auto split: if_splits)
  have "mset order = mset (filter profiled cs)"
    using rank_profiled_mset [of queue_model alpha "filter profiled cs"] by (simp add: ob)
  moreover have "\<exists>c \<in> set (filter profiled cs). best = with_queue queue_model alpha c
          \<and> (if \<exists>c' \<in> set (filter profiled cs). feasible alpha c'
             then feasible alpha c \<and> (\<forall>c' \<in> set (filter profiled cs). feasible alpha c' \<longrightarrow>
               inf_key (queue_latency queue_model alpha c) \<le> inf_key (queue_latency queue_model alpha c'))
             else (\<forall>c' \<in> set (filter profiled cs).
               pc_throughput_estimate_req_s c' \<le> pc_throughput_estimate_req_s c))"
    if "ranked = best # rest" for best rest
  proof -
    from that ranked obtain c rest' where "order = c # rest'" "best = with_queue queue_model alpha c"
      by (cases order) auto
    with rank_profiled_best [of queue_model alpha "filter profiled cs" c rest'] ob show ?thesis
      by (intro bexI [of _ c]) auto
  qed
  ultimately show ?thesis using ranked by auto
qed

section \<open>The weighted score\<close>

text \<open>
  C24. The score charges every cost once: load time, migration and queueing by their own weight,
  or by the weight of the replan window when their own is zero, and expert movement by its own
  weight only.
\<close>

theorem weighted_score_charges_once:
  "let e = estimate_workload s comparable movement_comparable c;
       base = (if pc_base_score c \<noteq> 0 then pc_base_score c else pc_score c);
       window = ws_replan_window_penalty_weight s;
       weight = (\<lambda>w. if w = 0 then window else w)
   in pc_score (score_candidate s comparable movement_comparable c) =
        base * ws_base_score_weight s
        + sc_throughput e * ws_throughput_score_weight s
        - sc_latency e * ws_latency_penalty_weight s
        - sc_load_time e * weight (ws_load_time_penalty_weight s)
        - sc_migration_cost e * weight (ws_migration_cost_penalty_weight s)
        - sc_queue_penalty e * weight (ws_queue_penalty_weight s)
        - sc_movement e * ws_expert_weight_movement_penalty_weight s"
  by (simp add: score_candidate_def Let_def total_score_def score_components_def dget_def
      window_penalty_cost_def algebra_simps)

interpretation config_rank: ranking "py_sort_rev config_key" "\<lambda>c c'. config_key c' \<le> config_key c"
  by (rule ranking_py_sort_rev)

lemma score_policy_cases:
  assumes "score_parallel_candidates_for_workload cs planner_config model_config = Inr (ranked, report)"
  obtains (algorithm1) snapshot where "select_profiled_candidates cs snapshot planner_config = Inr (ranked, report)"
  | (unscored) "ranked = cs"
  | (weighted) snapshot comparable movement_comparable where
      "ranked = py_sort_rev config_key (map (score_candidate snapshot comparable movement_comparable) cs)"
  using assms unfolding score_parallel_candidates_for_workload_def Let_def
  by (auto split: if_splits)

text \<open>
  With the weighted score the candidates are scored and none is lost or invented, and the
  first one has the highest score.
\<close>

theorem weighted_score_best_first:
  assumes "score_parallel_candidates_for_workload cs planner_config model_config = Inr (best # rest, report)"
    and "report = Weighted_Score snapshot profile_mode comparable movement_comparable"
  shows "mset (best # rest) = image_mset (score_candidate snapshot comparable movement_comparable) (mset cs)
    \<and> (\<forall>c \<in> set rest. pc_score c \<le> pc_score best)"
proof -
  have r: "py_sort_rev config_key (map (score_candidate snapshot comparable movement_comparable) cs) = best # rest"
    using assms unfolding score_parallel_candidates_for_workload_def Let_def
    by (auto simp: select_profiled_candidates_def Let_def split: if_splits prod.splits)
  have "\<forall>c \<in> set (best # rest). fst (config_key c) \<le> fst (config_key best)"
    using config_rank.first_is_best(2) [OF r] config_rank.set_rank [of "map _ cs"] r lex_fst_mono
    by (metis (no_types, lifting))
  moreover have "mset (best # rest) = mset (map (score_candidate snapshot comparable movement_comparable) cs)"
    using config_rank.rank_mset [of "map (score_candidate snapshot comparable movement_comparable) cs"] r
    by simp
  ultimately show ?thesis by (simp add: config_key_def)
qed

section \<open>The stages keep the shapes\<close>

text \<open>
  The stages between enumeration and selection attach estimates, profiles and scores. None of
  them touches a configuration's shape.
\<close>

definition shape :: "parallel_config \<Rightarrow> int \<times> int \<times> int \<times> int \<times> int \<times> bool" where
  "shape c = (pc_tensor_parallel_size c, pc_pipeline_parallel_size c, pc_data_parallel_size c,
              pc_replica_count c, pc_total_gpus c, pc_enable_expert_parallel c)"

lemma shape_score_candidate [simp]: "shape (score_candidate s a b c) = shape c"
  by (simp add: shape_def score_candidate_def Let_def)

lemma shape_with_queue [simp]: "shape (with_queue q a c) = shape c"
  by (simp add: shape_def with_queue_def)

lemma shape_profile_miss [simp]: "shape (profile_miss q r c) = shape c"
  by (simp add: shape_def profile_miss_def)

lemma shape_profile_hit: "profile_hit q row c = Inr c' \<Longrightarrow> shape c' = shape c"
  by (auto simp: shape_def profile_hit_def)

lemma shape_placement_estimates:
  assumes "placement_estimates payload c = Inr c'"
  shows "shape c' = shape c"
  using assms unfolding placement_estimates_def
  by (auto simp only: rbind_eq_Inr sum.inject) (simp_all add: shape_def)

lemma attach_profile_cases:
  assumes "attach_profile q mismatches profiles c acc = Inr acc'"
  obtains (miss) reason where
      "find_profile q c (if mismatches = [] then profiles else [])
         (if mismatches \<noteq> [] then ''profile_manifest_context_mismatch'' else ''profile_unavailable'')
       = Inr (Inl reason)"
      and "pl_attached acc' = pl_attached acc @ [profile_miss q reason c]"
      and "pl_matched acc' = pl_matched acc"
  | (hit) row c' where
      "find_profile q c (if mismatches = [] then profiles else [])
         (if mismatches \<noteq> [] then ''profile_manifest_context_mismatch'' else ''profile_unavailable'')
       = Inr (Inr row)"
      and "profile_hit q row c = Inr c'" and "pl_attached acc' = pl_attached acc @ [c']"
      and "pl_matched acc' = pl_matched acc + 1"
proof -
  from assms obtain found where found: "find_profile q c (if mismatches = [] then profiles else [])
      (if mismatches \<noteq> [] then ''profile_manifest_context_mismatch'' else ''profile_unavailable'')
      = Inr found"
    and rest: "(case found of
        Inl reason \<Rightarrow> Inr (acc\<lparr>pl_attached := pl_attached acc @ [profile_miss q reason c],
            pl_miss_reasons := AList.update reason (dget (pl_miss_reasons acc) reason 0 + 1)
              (pl_miss_reasons acc)\<rparr>)
      | Inr row \<Rightarrow> rbind (profile_hit q row c) (\<lambda>hit.
          Inr (acc\<lparr>pl_attached := pl_attached acc @ [hit], pl_matched := pl_matched acc + 1\<rparr>))) = Inr acc'"
    unfolding attach_profile_def rbind_eq_Inr by blast
  show ?thesis
  proof (cases found)
    case (Inl reason)
    with rest found show ?thesis by (intro miss [of reason]) auto
  next
    case (Inr row)
    with rest obtain c' where "profile_hit q row c = Inr c'"
      "acc' = acc\<lparr>pl_attached := pl_attached acc @ [c'], pl_matched := pl_matched acc + 1\<rparr>" by auto
    with Inr found show ?thesis by (intro hit [of row c']) auto
  qed
qed

text \<open>What ranking and profiling keep of a configuration.\<close>

locale kept_projection =
  fixes f :: "parallel_config \<Rightarrow> 'k"
  assumes kept_score: "f (score_candidate s a b c) = f c"
    and kept_queue: "f (with_queue q r c) = f c"
    and kept_miss: "f (profile_miss pq reason c) = f c"
    and kept_hit: "profile_hit pq row c = Inr c' \<Longrightarrow> f c' = f c"
begin

lemmas kept = kept_score kept_queue kept_miss

lemma scored:
  assumes "score_parallel_candidates_for_workload cs planner_config model_config = Inr (ranked, report)"
  shows "f ` set ranked \<subseteq> f ` set cs"
  using assms
proof (cases rule: score_policy_cases)
  case (algorithm1 snapshot)
  let ?q = "py_str (dget planner_config ''queue_model'' (PStr ''none''))" and ?a = "ws_arrival_rate_req_s snapshot"
  obtain order branch where ob: "rank_profiled ?q ?a (filter profiled cs) = (order, branch)" by fastforce
  with algorithm1 have "ranked = map (with_queue ?q ?a) order"
    unfolding select_profiled_candidates_def Let_def by (auto split: if_splits)
  moreover have "set order \<subseteq> set cs"
    using rank_profiled_mset [of ?q ?a "filter profiled cs"] ob
    by (metis filter_is_subset fst_conv set_mset_mset)
  ultimately show ?thesis by (auto simp: image_image kept)
next
  case unscored
  then show ?thesis by simp
next
  case (weighted snapshot comparable movement_comparable)
  then show ?thesis by (auto simp: image_image kept)
qed

lemma attached:
  assumes "attach_profile q mismatches profiles c acc = Inr acc'"
  shows "f ` set (pl_attached acc') = insert (f c) (f ` set (pl_attached acc))"
  using assms by (cases rule: attach_profile_cases) (auto simp: kept dest: kept_hit)

lemma profiled_kept:
  assumes "attach_exact_placement_profiles cs planner_config = Inr (cs', report)"
  shows "f ` set cs' \<subseteq> f ` set cs"
proof -
  have inv: "f ` set (pl_attached r) \<subseteq> f ` set cs"
    if r: "rfold (attach_profile q mismatches profiles) cs
        \<lparr>pl_attached = [], pl_matched = 0, pl_miss_reasons = []\<rparr> = Inr r" for q mismatches profiles r
  proof (rule rfold_invariant [OF r])
    show "f ` set (pl_attached \<lparr>pl_attached = [], pl_matched = 0, pl_miss_reasons = []\<rparr>)
        \<subseteq> f ` set cs" by simp
  next
    fix c acc acc'
    assume "c \<in> set cs" "f ` set (pl_attached acc) \<subseteq> f ` set cs"
      "attach_profile q mismatches profiles c acc = Inr acc'"
    then show "f ` set (pl_attached acc') \<subseteq> f ` set cs"
      using attached by (metis imageI insert_subset)
  qed
  from assms show ?thesis
    unfolding attach_exact_placement_profiles_def Let_def
    by (auto simp only: rbind_eq_Inr sum.inject prod.inject sum.distinct split: if_splits)
      (use inv in blast)+
qed

end

interpretation shapes: kept_projection shape
  by unfold_locales (simp_all add: shape_profile_hit)

interpretation payloads: kept_projection pc_expert_placement_plan
  by unfold_locales (auto simp: score_candidate_def Let_def with_queue_def profile_miss_def profile_hit_def)

lemmas shapes_scored = shapes.scored
lemmas shapes_profiled = shapes.profiled_kept

lemma shapes_attach_placement:
  assumes "attach_placement place m b nodes mc pc epoch event (c, strategy) st = Inr st'"
  shows "shape ` set (fst st') \<subseteq> insert (shape c) (shape ` set (fst st))"
proof -
  obtain enriched seen where st: "st = (enriched, seen)" by (cases st)
  define key where "key payload = (pc_tensor_parallel_size c, pc_pipeline_parallel_size c,
      pc_data_parallel_size c, pc_replica_count c,
      py_str (dget payload ''placement_fingerprint'' (PStr '''')))" for payload
  from assms obtain placement where
    p: "(case placement of None \<Rightarrow> Inr (enriched @ [c], seen)
       | Some payload \<Rightarrow> if key payload \<in> set seen then Inr (enriched, seen)
           else rbind (placement_estimates payload c) (\<lambda>c'. Inr (enriched @ [c'], key payload # seen))) = Inr st'"
    unfolding attach_placement_def Let_def st case_prod_conv rbind_eq_Inr key_def by blast
  show ?thesis
  proof (cases placement)
    case None
    with p show ?thesis by (auto simp: st)
  next
    case (Some payload)
    show ?thesis
    proof (cases "key payload \<in> set seen")
      case True
      with p Some show ?thesis by (auto simp: st)
    next
      case False
      with p Some obtain c' where "placement_estimates payload c = Inr c'"
        "st' = (enriched @ [c'], key payload # seen)" by auto
      then show ?thesis using shape_placement_estimates [of payload c c'] by (auto simp: st)
    qed
  qed
qed

lemma shapes_placed:
  assumes "attach_expert_placement_movement_estimates place cs m b nodes mc pc epoch event = Inr cs'"
  shows "shape ` set cs' \<subseteq> shape ` set cs"
proof (cases "cs = [] \<or> dgetn pc ''disable_logical_expert_placement'' = PBool True")
  case True
  then show ?thesis using assms by (simp add: attach_expert_placement_movement_estimates_def)
next
  case False
  then obtain seen where r: "rfold (attach_placement place m b nodes mc pc epoch event)
      (List.product cs (placement_strategies pc)) ([], []) = Inr (cs', seen)"
    using assms by (auto simp: attach_expert_placement_movement_estimates_def)
  have "shape ` set (fst (cs', seen)) \<subseteq> shape ` set cs"
  proof (rule rfold_invariant [OF r])
    show "shape ` set (fst ([], [])) \<subseteq> shape ` set cs" by simp
  next
    fix pair st st'
    assume pair: "pair \<in> set (List.product cs (placement_strategies pc))"
      and st: "shape ` set (fst st) \<subseteq> shape ` set cs"
      and step: "attach_placement place m b nodes mc pc epoch event pair st = Inr st'"
    obtain c strategy where "pair = (c, strategy)" by (cases pair)
    with pair step shapes_attach_placement [of place m b nodes mc pc epoch event c strategy st st']
    show "shape ` set (fst st') \<subseteq> shape ` set cs" using st by auto
  qed
  then show ?thesis by simp
qed

section \<open>Candidates fit\<close>

definition fits :: "int \<Rightarrow> parallel_config \<Rightarrow> bool" where
  "fits available_gpus c \<longleftrightarrow> 0 < pc_total_gpus c \<and> pc_total_gpus c \<le> available_gpus"

lemma fits_by_shape: "shape c = shape c' \<Longrightarrow> fits available_gpus c \<longleftrightarrow> fits available_gpus c'"
  by (simp add: fits_def shape_def)

lemma generated_fit:
  assumes "generate_parallel_candidates available_gpus planner_config = Inr cs" and "c \<in> set cs"
  shows "fits available_gpus c"
proof (cases "0 < available_gpus")
  case False
  then show ?thesis using assms by (simp add: generate_parallel_candidates_def)
next
  case pos: True
  obtain tp pp where a: "admissible_shape available_gpus planner_config tp pp"
    and c: "c \<in> set (shape_candidate available_gpus (shape_bound planner_config ''min_replica_count'' 1)
           (shape_bound planner_config ''target_replica_gpus'' 1) tp pp)"
    using assms generate_members [OF assms(1) pos] by blast
  have p: "0 < tp * pp" "1 \<le> available_gpus div (tp * pp)"
    using a generate_cases(2,3,5) [OF assms(1) pos] pos by (auto simp: admissible_shape_def Let_def)
  have "0 < tp * pp * (available_gpus div (tp * pp))" using p by (simp only: mult_pos_pos)
  moreover have "tp * pp * (available_gpus div (tp * pp)) \<le> available_gpus"
    using p(1) by (metis minus_mult_div_eq_mod pos_mod_sign diff_ge_0_iff_ge)
  ultimately show ?thesis using shape_candidate_fields [OF c] by (simp add: fits_def)
qed

lemma add_declared_cases:
  assumes "add_declared l available_gpus nodes planner_config entry acc = Inr acc'"
  obtains (skipped) "acc' = acc"
  | (added) d targets where "declared_config_of entry = Inr d"
      and "acc' = acc @ [declared_candidate l available_gpus d]" and "within_limits l d"
      and "dc_total_gpus d \<le> available_gpus"
      and "select_target_nodes nodes (dc_total_gpus d) (cl_free_only l) = Inr targets" and "targets \<noteq> []"
proof -
  from assms obtain d where d: "declared_config_of entry = Inr d" by (auto simp: add_declared_def)
  show ?thesis
  proof (cases "acc' = acc")
    case True
    then show ?thesis by (rule skipped)
  next
    case False
    then have lim: "within_limits l d" "dc_total_gpus d \<le> available_gpus"
      using assms d by (auto simp: add_declared_def split: if_splits)
    with assms d obtain targets where
      "select_target_nodes nodes (dc_total_gpus d) (cl_free_only l) = Inr targets"
      "acc' = (if targets = [] then acc else acc @ [declared_candidate l available_gpus d])"
      by (auto simp add: add_declared_def simp del: split_paired_Ex split: if_splits)
    with False d lim show ?thesis by (intro added [of d targets]) (auto split: if_splits)
  qed
qed

lemma declared_fit:
  assumes "supported_config_candidates capability available_gpus nodes planner_config = Inr cs"
    and "c \<in> set cs"
  shows "fits available_gpus c"
proof (cases "has_supported_configs capability")
  case False
  then show ?thesis using assms by (simp add: supported_config_candidates_def)
next
  case True
  then obtain l entries cs' where cs: "cs = py_sort_rev config_key cs'"
    and r: "rfold (add_declared l available_gpus nodes planner_config) entries [] = Inr cs'"
    using assms(1) by (auto simp: supported_config_candidates_def)
  have "\<forall>c \<in> set cs'. fits available_gpus c"
  proof (rule rfold_invariant [OF r])
    fix entry acc acc'
    assume acc: "\<forall>c \<in> set acc. fits available_gpus c"
      and step: "add_declared l available_gpus nodes planner_config entry acc = Inr acc'"
    from step show "\<forall>c \<in> set acc'. fits available_gpus c"
    proof (cases rule: add_declared_cases)
      case skipped
      with acc show ?thesis by simp
    next
      case (added d targets)
      then have "0 < dc_total_gpus d" by (auto simp: select_target_nodes_def split: if_splits)
      with added acc show ?thesis
        by (auto simp: fits_def declared_candidate_def ParallelConfig_init_def Let_def)
    qed
  qed simp
  then show ?thesis using assms(2) cs by simp
qed

lemma free_gpus_sum:
  assumes "rfold add_free_gpus nodes acc = Inr n"
  shows "n = acc + sum_list (map snd (filter (\<lambda>x. 0 < snd x) (ready_offers True nodes)))"
  using assms
proof (induction nodes arbitrary: acc)
  case Nil
  then show ?case by (simp add: ready_offers_def)
next
  case (Cons node nodes)
  from Cons.prems obtain mid where mid: "add_free_gpus node acc = Inr mid"
    and rest: "rfold add_free_gpus nodes mid = Inr n" by auto
  show ?case
    using Cons.IH [OF rest] mid
    by (cases node)
      (auto simp: add_free_gpus_def ready_offers_def in_state_def free_gpu_count_def split: if_splits)
qed

lemma ready_gpus_sum:
  assumes "\<forall>node \<in> set nodes. 0 \<le> gpus_of node"
  shows "sum_list (map gpus_of (filter (in_state READY) nodes))
    = sum_list (map snd (filter (\<lambda>x. 0 < snd x) (ready_offers False nodes)))"
  using assms by (induction nodes) (auto simp: ready_offers_def gpus_of_def)

definition plan_of ::
  "nodes \<Rightarrow> bool \<Rightarrow> int \<Rightarrow> parallel_config \<Rightarrow> parallel_plan \<Rightarrow> bool" where
  "plan_of nodes free_only epoch c plan \<longleftrightarrow>
     select_target_nodes nodes (pc_total_gpus c) free_only = Inr (pp_target_nodes plan)
     \<and> pp_num_gpus plan = max 1 (int_or_one (pc_total_gpus c))
     \<and> pp_tensor_parallel_size plan = max 1 (pc_tensor_parallel_size c)
     \<and> pp_pipeline_parallel_size plan = max 1 (pc_pipeline_parallel_size c)
     \<and> pp_replica_count plan = max 1 (int_or_one (pc_replica_count c))
     \<and> pp_placement_epoch plan = max 0 epoch"

lemma build_parallel_plan_fields:
  "build_parallel_plan m b c nodes epoch xp reason free_only = Inr plan \<Longrightarrow> plan_of nodes free_only epoch c plan"
  by (auto simp: build_parallel_plan_def plan_of_def ParallelPlan_init_def)

lemma place_selected_plan:
  assumes "place_selected place m b c nodes mc pc epoch event free_only = Inr (plan, payload)"
  shows "plan_of nodes free_only epoch c plan"
proof -
  from assms obtain plan0 where plan0:
    "build_parallel_plan m b c nodes epoch None (replan_reason event) free_only = Inr plan0"
    and rest: "(if dgetn pc ''disable_logical_expert_placement'' = PBool True then Inr (plan0, None)
     else rbind (case pc_expert_placement_plan c of Some payload \<Rightarrow> Inr (Some payload)
              | None \<Rightarrow> place m (ParallelPlan_to_dict plan0) mc (pp_placement_epoch plan0) pc) (\<lambda>payload.
       case payload of None \<Rightarrow> Inr (plan0, None)
       | Some p \<Rightarrow> rbind (build_parallel_plan m b c nodes (pp_placement_epoch plan0) (Some p)
             (replan_reason event) free_only) (\<lambda>plan'. Inr (plan', Some p)))) = Inr (plan, payload)"
    unfolding place_selected_def rbind_eq_Inr by blast
  note f0 = build_parallel_plan_fields [OF plan0]
  show ?thesis
  proof (cases "plan = plan0")
    case True
    with f0 show ?thesis by simp
  next
    case False
    then have nd: "dgetn pc ''disable_logical_expert_placement'' \<noteq> PBool True"
      using rest by (metis Pair_inject sum.inject(2))
    from rest [unfolded if_not_P [OF nd] rbind_eq_Inr] obtain q where
      q: "(case q of None \<Rightarrow> Inr (plan0, None)
       | Some p \<Rightarrow> rbind (build_parallel_plan m b c nodes (pp_placement_epoch plan0) (Some p)
             (replan_reason event) free_only) (\<lambda>plan'. Inr (plan', Some p))) = Inr (plan, payload)"
      unfolding rbind_eq_Inr by blast
    with \<open>plan \<noteq> plan0\<close> obtain p where
      "build_parallel_plan m b c nodes (pp_placement_epoch plan0) (Some p) (replan_reason event) free_only
        = Inr plan"
      by (cases q) auto
    from build_parallel_plan_fields [OF this] f0 show ?thesis by (simp add: plan_of_def)
  qed
qed

section \<open>The planner\<close>

lemma plan_dynamic_stages:
  assumes "plan_dynamic_reparallelization place backend_plans m nodes mc raw event node_id instance_id backend
     = Inr d"
  obtains config availability overlap cs0 epoch cs1 cs2 lookup b where
    "prepare_planner_config raw mc = Inr config"
    and "summarize_gpu_availability nodes = Inr availability"
    and "rfold add_free_gpus nodes 0 = Inr overlap"
    and "rd_free_overlap d = truthy (dget config ''require_free_gpu_overlap'' (PBool False))"
    and "rd_available_gpus d = (if rd_free_overlap d then min (ga_available_gpus availability) overlap
           else ga_available_gpus availability)"
    and "if has_supported_configs (get_backend_capability backend_plans mc)
         then supported_config_candidates (get_backend_capability backend_plans mc) (rd_available_gpus d)
           nodes config = Inr cs0
         else generate_parallel_candidates (rd_available_gpus d) config = Inr cs0"
    and "next_placement_epoch mc config = Inr epoch"
    and "attach_expert_placement_movement_estimates place cs0 m b nodes mc config epoch event = Inr cs1"
    and "attach_exact_placement_profiles cs1 config = Inr (cs2, lookup)"
    and "score_parallel_candidates_for_workload cs2 config mc = Inr (rd_candidates d, rd_cost_report d)"
    and "case rd_candidates d of [] \<Rightarrow> rd_parallel_plan d = None
         | c # _ \<Rightarrow> (\<exists>plan. rd_parallel_plan d = Some plan
              \<and> plan_of nodes (rd_free_overlap d) epoch c plan)"
proof -
  define b where "b = (case backend of Some (c # cs) \<Rightarrow> c # cs
            | _ \<Rightarrow> py_str (dget mc ''backend'' (PStr ''unknown'')))"
  from assms show ?thesis
    unfolding plan_dynamic_reparallelization_def Let_def b_def [symmetric] case_prod_unfold rbind_eq_Inr
      sum.inject
  proof (elim exE conjE, goal_cases)
    case (1 config availability overlap declared cs0 epoch cs1 x y z)
    show ?thesis
    proof (rule that [of config availability overlap cs0 epoch b cs1 "fst x" "snd x"])
      show "case rd_candidates d of [] \<Rightarrow> rd_parallel_plan d = None
         | c # _ \<Rightarrow> (\<exists>plan. rd_parallel_plan d = Some plan
              \<and> plan_of nodes (rd_free_overlap d) epoch c plan)"
        using 1(10,11) by (cases "fst y") (auto dest: place_selected_plan)
      show "if has_supported_configs (get_backend_capability backend_plans mc)
         then supported_config_candidates (get_backend_capability backend_plans mc) (rd_available_gpus d)
           nodes config = Inr cs0
         else generate_parallel_candidates (rd_available_gpus d) config = Inr cs0"
        using 1(4,5,11) by (auto simp: supported_config_candidates_def split: if_splits)
    qed (use 1 in auto)
  qed
qed

lemma shapes_selected:
  assumes "attach_expert_placement_movement_estimates place cs0 m b nodes mc config epoch event = Inr cs1"
    and "attach_exact_placement_profiles cs1 config = Inr (cs2, lookup)"
    and "score_parallel_candidates_for_workload cs2 config mc = Inr (cs3, report)"
    and "c \<in> set cs3"
  obtains c0 where "c0 \<in> set cs0" and "shape c0 = shape c"
proof -
  have "shape ` set cs3 \<subseteq> shape ` set cs0"
    using order_trans [OF shapes_scored [OF assms(3)] order_trans [OF shapes_profiled [OF assms(2)]
      shapes_placed [OF assms(1)]]] .
  with assms(4) have "shape c \<in> shape ` set cs0" by (meson imageI subsetD)
  then show ?thesis by (rule imageE) (rule that, simp_all)
qed

lemma candidates_fit:
  assumes "plan_dynamic_reparallelization place backend_plans m nodes mc raw event node_id instance_id backend
     = Inr d" and "c \<in> set (rd_candidates d)"
  shows "fits (rd_available_gpus d) c"
  using assms(1)
proof (rule plan_dynamic_stages)
  fix config availability overlap cs0 epoch cs1 cs2 lookup b
  assume src: "if has_supported_configs (get_backend_capability backend_plans mc)
         then supported_config_candidates (get_backend_capability backend_plans mc) (rd_available_gpus d)
           nodes config = Inr cs0
         else generate_parallel_candidates (rd_available_gpus d) config = Inr cs0"
    and st: "attach_expert_placement_movement_estimates place cs0 m b nodes mc config epoch event = Inr cs1"
    "attach_exact_placement_profiles cs1 config = Inr (cs2, lookup)"
    "score_parallel_candidates_for_workload cs2 config mc = Inr (rd_candidates d, rd_cost_report d)"
  from shapes_selected [OF st assms(2)] obtain c0 where c0: "c0 \<in> set cs0" "shape c0 = shape c" .
  have "fits (rd_available_gpus d) c0"
    using src c0(1) declared_fit generated_fit by (auto split: if_splits)
  with c0(2) show ?thesis using fits_by_shape by blast
qed

lemma available_offered:
  assumes "plan_dynamic_reparallelization place backend_plans m nodes mc raw event node_id instance_id backend
     = Inr d" and "\<forall>node \<in> set nodes. 0 \<le> gpus_of node"
  shows "rd_available_gpus d \<le>
    sum_list (map snd (filter (\<lambda>x. 0 < snd x) (ready_offers (rd_free_overlap d) nodes)))"
  using assms(1)
proof (rule plan_dynamic_stages)
  fix config availability overlap
  assume a: "summarize_gpu_availability nodes = Inr availability"
    and o: "rfold add_free_gpus nodes 0 = Inr overlap"
    and av: "rd_available_gpus d = (if rd_free_overlap d then min (ga_available_gpus availability) overlap
           else ga_available_gpus availability)"
  from a obtain acc where acc: "rfold count_node (sort_key fst nodes)
      \<lparr>ga_total_gpus = 0, ga_available_gpus = 0, ga_unavailable_gpus = 0, ga_ready_nodes = [],
       ga_preempting_nodes = [], ga_dead_nodes = []\<rparr> = Inr acc"
    and "ga_available_gpus availability = ga_available_gpus acc"
    by (auto simp: summarize_gpu_availability_def)
  then have "ga_available_gpus availability = sum_list (map gpus_of (filter (in_state READY) nodes))"
    using count_nodes [OF acc] by (simp add: filter_sort sum_list_sort_key)
  then show ?thesis using av free_gpus_sum [OF o] ready_gpus_sum [OF assms(2)] by auto
qed

lemma enough_offers_selects:
  assumes "select_target_nodes nodes n free_only = Inr targets" and "0 < n"
    and "n \<le> sum_list (map snd (filter (\<lambda>x. 0 < snd x) (ready_offers free_only nodes)))"
  obtains chosen where "targets = map fst chosen" and "chosen \<noteq> []"
    and "set chosen \<subseteq> set (ready_offers free_only nodes)" and "n \<le> sum_list (map snd chosen)"
  using assms(1,2)
proof (cases rule: select_target_nodes_cases)
  case (enough taken rest)
  have "set (filter (\<lambda>x. 0 < snd x) (sort_key offer_key (ready_offers free_only nodes)))
      \<subseteq> set (ready_offers free_only nodes)" by auto
  then have "set taken \<subseteq> set (ready_offers free_only nodes)" unfolding enough(1) by simp
  then show ?thesis using enough that [of taken] by simp
next
  case short
  then show ?thesis using assms(3) by (simp add: filter_sort sum_list_sort_key)
qed

text \<open>
  C17. A plan the planner returns can be placed: there is one exactly when the action is to
  reparallelize, its GPUs do not exceed the GPUs the transition may use, and its target nodes are
  ready nodes that together offer them (only free GPUs count when the old workers stay up during
  the transition).
\<close>

theorem reparallel_plan_placeable:
  assumes "plan_dynamic_reparallelization place backend_plans m nodes mc raw event node_id instance_id backend
     = Inr d" and "\<forall>node \<in> set nodes. 0 \<le> gpus_of node"
  shows "case rd_parallel_plan d of
      None \<Rightarrow> rd_action d = ''no_capacity''
    | Some plan \<Rightarrow> rd_action d = ''reparallelize''
        \<and> pp_num_gpus plan \<le> rd_available_gpus d
        \<and> (\<exists>chosen. pp_target_nodes plan = map fst chosen \<and> chosen \<noteq> []
             \<and> set chosen \<subseteq> set (ready_offers (rd_free_overlap d) nodes)
             \<and> pp_num_gpus plan \<le> sum_list (map snd chosen))"
  using assms(1)
proof (rule plan_dynamic_stages)
  fix epoch
  assume sel: "case rd_candidates d of [] \<Rightarrow> rd_parallel_plan d = None
         | c # _ \<Rightarrow> (\<exists>plan. rd_parallel_plan d = Some plan
              \<and> plan_of nodes (rd_free_overlap d) epoch c plan)"
  show ?thesis
  proof (cases "rd_candidates d")
    case Nil
    then show ?thesis using sel by (simp add: rd_action_def rd_selected_def)
  next
    case (Cons c cs)
    with sel obtain plan where plan: "rd_parallel_plan d = Some plan"
      and p: "plan_of nodes (rd_free_overlap d) epoch c plan" by auto
    have fit: "fits (rd_available_gpus d) c" using candidates_fit [OF assms(1)] Cons by simp
    then have n: "pp_num_gpus plan = pc_total_gpus c" "0 < pc_total_gpus c"
      using p by (auto simp: fits_def plan_of_def int_or_one_def)
    have "pc_total_gpus c \<le> sum_list (map snd (filter (\<lambda>x. 0 < snd x) (ready_offers (rd_free_overlap d) nodes)))"
      using fit available_offered [OF assms] by (simp add: fits_def)
    with p [unfolded plan_of_def] n(2) obtain chosen where "pp_target_nodes plan = map fst chosen"
      "chosen \<noteq> []" "set chosen \<subseteq> set (ready_offers (rd_free_overlap d) nodes)"
      "pc_total_gpus c \<le> sum_list (map snd chosen)"
      using enough_offers_selects [of nodes "pc_total_gpus c" "rd_free_overlap d"] by metis
    then have "\<exists>chosen. pp_target_nodes plan = map fst chosen \<and> chosen \<noteq> []
             \<and> set chosen \<subseteq> set (ready_offers (rd_free_overlap d) nodes)
             \<and> pp_num_gpus plan \<le> sum_list (map snd chosen)"
      unfolding n(1) by (intro exI conjI)
    with plan n fit Cons show ?thesis by (simp add: rd_action_def rd_selected_def fits_def)
  qed
qed

section \<open>Exact placement profiles\<close>

text \<open>What a row must agree on to be used for a configuration.\<close>

definition exact_profile :: "profile_query \<Rightarrow> parallel_config \<Rightarrow> dict \<Rightarrow> bool" where
  "exact_profile q c row \<longleftrightarrow>
     py_str (por (dgetn row ''workload_bucket_id'') (PStr '''')) = pq_workload_bucket_id q
     \<and> py_str (por (dgetn row ''placement_fingerprint'') (PStr '''')) = pc_expert_placement_fingerprint c
     \<and> profile_shape row = Inr (pc_tensor_parallel_size c, pc_pipeline_parallel_size c,
          pc_data_parallel_size c, config_expert_parallel_size c, pc_replica_count c)
     \<and> (\<exists>l t. profile_latency row = Inr l \<and> 0 < l \<and> profile_throughput row = Inr t \<and> 0 < t)"

definition profile_outcome :: "profile_query \<Rightarrow> dict list \<Rightarrow> parallel_config \<Rightarrow> parallel_config \<Rightarrow> bool" where
  "profile_outcome q profiles c c' \<longleftrightarrow>
     (if pc_placement_profile_available c'
      then \<exists>row \<in> set profiles. exact_profile q c row
             \<and> profile_latency row = Inr (pc_latency_estimate_ms c')
             \<and> profile_throughput row = Inr (pc_throughput_estimate_req_s c')
      else pc_latency_estimate_ms c' = 0 \<and> pc_throughput_estimate_req_s c' = 0)"

lemma match_profile_exact:
  assumes "match_profile q c row reason = Inr (Inr u)"
  shows "exact_profile q c row"
proof -
  from assms have ids: "py_str (por (dgetn row ''workload_bucket_id'') (PStr '''')) = pq_workload_bucket_id q"
    "py_str (por (dgetn row ''placement_fingerprint'') (PStr '''')) = pc_expert_placement_fingerprint c"
    unfolding match_profile_def by (auto split: if_splits)
  from assms obtain l t where "profile_latency row = Inr l" "0 < l" "profile_throughput row = Inr t" "0 < t"
    unfolding match_profile_def by (auto split: if_splits)
  moreover from assms have "profile_shape row = Inr (pc_tensor_parallel_size c, pc_pipeline_parallel_size c,
          pc_data_parallel_size c, config_expert_parallel_size c, pc_replica_count c)"
    unfolding match_profile_def by (auto split: if_splits)
  ultimately show ?thesis using ids unfolding exact_profile_def by blast
qed

lemma find_profile_exact:
  "find_profile q c rows reason = Inr (Inr row) \<Longrightarrow> row \<in> set rows \<and> exact_profile q c row"
proof (induction q c rows reason rule: find_profile.induct)
  case (1 q c reason)
  then show ?case by simp
next
  case (2 q c row' rows reason)
  from 2(2) obtain m where m: "match_profile q c row' reason = Inr m"
    and rest: "(case m of Inl reason' \<Rightarrow> find_profile q c rows reason' | Inr _ \<Rightarrow> Inr (Inr row')) = Inr (Inr row)"
    by (auto simp only: find_profile.simps rbind_eq_Inr)
  show ?case
  proof (cases m)
    case (Inl reason')
    then show ?thesis using 2(1) [OF m Inl] rest by simp
  next
    case (Inr u)
    then show ?thesis using match_profile_exact m rest by auto
  qed
qed

lemma attach_profile_outcome:
  assumes "attach_profile q mismatches profiles c acc = Inr acc'"
  shows "\<exists>c'. pl_attached acc' = pl_attached acc @ [c'] \<and> profile_outcome q profiles c c'
    \<and> pl_matched acc' = pl_matched acc + (if pc_placement_profile_available c' then 1 else 0)"
  using assms
proof (cases rule: attach_profile_cases)
  case (miss reason)
  then show ?thesis by (simp add: profile_outcome_def profile_miss_def)
next
  case (hit row c')
  from find_profile_exact [OF hit(1)] have row: "row \<in> set profiles" "exact_profile q c row"
    by (auto split: if_splits)
  from hit(2) have c': "pc_placement_profile_available c'"
    "profile_latency row = Inr (pc_latency_estimate_ms c')"
    "profile_throughput row = Inr (pc_throughput_estimate_req_s c')"
    unfolding profile_hit_def by auto
  with row have "profile_outcome q profiles c c'" unfolding profile_outcome_def by auto
  with hit c' show ?thesis by auto
qed

lemma attach_profiles_outcome:
  assumes "rfold (attach_profile q mismatches profiles) cs acc = Inr acc'"
  shows "\<exists>new. pl_attached acc' = pl_attached acc @ new \<and> list_all2 (profile_outcome q profiles) cs new
    \<and> pl_matched acc' = pl_matched acc + int (length (filter pc_placement_profile_available new))"
  using assms
proof (induction cs arbitrary: acc)
  case Nil
  then show ?case by simp
next
  case (Cons c cs)
  then obtain mid where mid: "attach_profile q mismatches profiles c acc = Inr mid"
    and rest: "rfold (attach_profile q mismatches profiles) cs mid = Inr acc'" by auto
  from attach_profile_outcome [OF mid] obtain c' where c': "pl_attached mid = pl_attached acc @ [c']"
    "profile_outcome q profiles c c'"
    "pl_matched mid = pl_matched acc + (if pc_placement_profile_available c' then 1 else 0)" by blast
  from Cons.IH [OF rest] obtain new where "pl_attached acc' = pl_attached mid @ new"
    "list_all2 (profile_outcome q profiles) cs new"
    "pl_matched acc' = pl_matched mid + int (length (filter pc_placement_profile_available new))" by blast
  with c' show ?case by (intro exI [of _ "c' # new"]) auto
qed

text \<open>The rows the lookup reads and the query it makes of them.\<close>

definition configured_profiles :: "dict \<Rightarrow> dict list" where
  "configured_profiles planner_config =
     (case dgetn planner_config ''expert_placement_profiles'' of
        PList xs \<Rightarrow> map dict_of (filter is_mapping xs)
      | PTuple xs \<Rightarrow> map dict_of (filter is_mapping xs)
      | _ \<Rightarrow> [])"

text \<open>
  With placement profiles configured, every candidate keeps its place, and its latency and
  throughput are either those of a configured row measured for exactly its shape, placement
  fingerprint and workload bucket, both positive, or zero and marked as not available: no
  measurement is carried over from another configuration. The number of matches reported is the
  number of candidates marked available.
\<close>

theorem placement_profiles_exact:
  assumes "attach_exact_placement_profiles cs planner_config = Inr (cs', report)"
    and "dgetn planner_config ''expert_placement_profiles'' \<noteq> PNone"
  shows "\<exists>q. pq_workload_bucket_id q = py_str (por (dgetn planner_config ''workload_bucket_id'') (PStr ''''))
    \<and> list_all2 (profile_outcome q (configured_profiles planner_config)) cs cs'
    \<and> dgetn report ''matched_candidate_count''
        = PInt (int (length (filter pc_placement_profile_available cs')))"
proof -
  let ?rows = "case dgetn planner_config ''expert_placement_profiles'' of PList xs \<Rightarrow> xs | PTuple xs \<Rightarrow> xs | _ \<Rightarrow> []"
  have rows: "map dict_of (filter is_mapping ?rows) = configured_profiles planner_config"
    by (simp add: configured_profiles_def split: pyval.split)
  from assms obtain q mismatches keys r where
    r: "rfold (attach_profile q mismatches (map dict_of (filter is_mapping ?rows))) cs
       \<lparr>pl_attached = [], pl_matched = 0, pl_miss_reasons = []\<rparr> = Inr r"
    and q: "pq_workload_bucket_id q = py_str (por (dgetn planner_config ''workload_bucket_id'') (PStr ''''))"
    and cs': "cs' = pl_attached r" and report: "report = profile_report q mismatches keys (length cs) r"
    unfolding attach_exact_placement_profiles_def Let_def
    by (auto simp only: rbind_eq_Inr sum.inject prod.inject sum.distinct simp_thms split: if_splits) fastforce
  from attach_profiles_outcome [OF r] have
    "list_all2 (profile_outcome q (configured_profiles planner_config)) cs cs'"
    "pl_matched r = int (length (filter pc_placement_profile_available cs'))"
    by (auto simp: cs' rows)
  moreover have "dgetn report ''matched_candidate_count'' = PInt (pl_matched r)"
    by (simp add: report profile_report_def dgetn_def dget_def)
  ultimately show ?thesis using q by auto
qed

section \<open>Epochs and live remapping\<close>

lemma prepare_config_keeps:
  assumes "prepare_planner_config raw mc = Inr config"
    and "key \<notin> {''max_replica_count'', ''max_pipeline_parallel_size'', ''target_replica_gpus''}"
  shows "dgetn config key = dgetn raw key"
  using assms unfolding prepare_planner_config_def by (auto simp: dgetn_update split: if_splits)

lemma next_epoch_bound:
  assumes "next_placement_epoch mc config = Inr epoch"
  shows "1 \<le> epoch"
    and "v \<in> {dgetn config ''placement_epoch'', dgetn config ''current_placement_epoch'',
       dgetn (backend_config_of mc) ''placement_epoch'', dgetn mc ''placement_epoch''} \<Longrightarrow>
       safe_int v 0 = Inr e \<Longrightarrow> e < epoch"
  using assms unfolding next_placement_epoch_def by auto

text \<open>
  A plan carries a fresh placement epoch: at least one and greater than every epoch the model
  configuration, its backend configuration and the planner configuration record.
\<close>

theorem reparallel_plan_epoch_fresh:
  assumes "plan_dynamic_reparallelization place backend_plans m nodes mc raw event node_id instance_id backend
     = Inr d" and "rd_parallel_plan d = Some plan"
    and "v \<in> {dgetn raw ''placement_epoch'', dgetn raw ''current_placement_epoch'',
              dgetn (backend_config_of mc) ''placement_epoch'', dgetn mc ''placement_epoch''}"
    and "safe_int v 0 = Inr e"
  shows "1 \<le> pp_placement_epoch plan \<and> e < pp_placement_epoch plan"
  using assms(1)
proof (rule plan_dynamic_stages)
  fix config epoch
  assume config: "prepare_planner_config raw mc = Inr config"
    and epoch: "next_placement_epoch mc config = Inr epoch"
    and sel: "case rd_candidates d of [] \<Rightarrow> rd_parallel_plan d = None
         | c # _ \<Rightarrow> (\<exists>plan. rd_parallel_plan d = Some plan
              \<and> plan_of nodes (rd_free_overlap d) epoch c plan)"
  have "pp_placement_epoch plan = epoch"
    using sel assms(2) next_epoch_bound(1) [OF epoch] by (auto simp: plan_of_def split: list.splits)
  moreover have "e < epoch"
    using next_epoch_bound(2) [OF epoch _ assms(4)] assms(3)
      prepare_config_keeps [OF config, of "''placement_epoch''"]
      prepare_config_keeps [OF config, of "''current_placement_epoch''"] by simp
  ultimately show ?thesis using next_epoch_bound(1) [OF epoch] by simp
qed

lemma live_remap_limits:
  assumes "prepare_planner_config raw mc = Inr config"
    and "truthy_flag (dget raw ''enable_live_expert_remap'' (PBool False))"
    and "read_config_limits config available_gpus = Inr l"
  shows "cl_max_replicas l = 1 \<and> cl_max_pp l = 1"
proof -
  define capped where "capped r p = AList.update ''max_pipeline_parallel_size'' (PInt (min p 1))
      (AList.update ''max_replica_count'' (PInt (min r 1)) raw)" for r p
  from assms(1,2) obtain r p where r: "positive_int raw ''max_replica_count'' 1 = Inr r"
    and p: "positive_int raw ''max_pipeline_parallel_size'' 1 = Inr p"
    and c: "(if dhas (capped r p) ''target_replica_gpus'' then Inr (capped r p)
     else rbind (py_int (por (dgetn (capped r p) ''model_gpu_requirement'')
                          (por (dget mc ''num_gpus'' (PInt 1)) (PInt 1)))) (\<lambda>n.
       Inr (AList.update ''target_replica_gpus'' (PInt (max n 1)) (capped r p)))) = Inr config"
    unfolding prepare_planner_config_def capped_def
    by (simp only: if_True rbind_eq_Inr sum.inject ex_simps simp_thms) blast
  have one: "min r 1 = 1" "min p 1 = 1" using positive_int_pos [OF r] positive_int_pos [OF p] by simp_all
  have keep: "dget config k z = dget (capped r p) k z" if "k \<noteq> ''target_replica_gpus''" for k z
    using c that by (auto simp: dget_update split: if_splits)
  have "dget config ''max_replica_count'' z = PInt 1"
    "dget config ''max_pipeline_parallel_size'' z = PInt 1" for z
    by (simp_all add: keep capped_def dget_update one)
  then have "positive_int config ''max_replica_count'' n = Inr 1"
    "positive_int config ''max_pipeline_parallel_size'' n = Inr 1" for n
    by (simp_all add: positive_int_def por_def)
  with assms(3) show ?thesis
    unfolding read_config_limits_def by (auto simp only: rbind_eq_Inr sum.inject) simp_all
qed

lemma declared_within_limits:
  assumes "supported_config_candidates capability available_gpus nodes config = Inr cs"
    and "c \<in> set cs"
  obtains l where "read_config_limits config available_gpus = Inr l"
    and "pc_replica_count c \<le> cl_max_replicas l" and "pc_pipeline_parallel_size c \<le> cl_max_pp l"
proof (cases "has_supported_configs capability")
  case False
  then show ?thesis using assms by (simp add: supported_config_candidates_def)
next
  case True
  then obtain l entries cs' where l: "read_config_limits config available_gpus = Inr l"
    and cs: "cs = py_sort_rev config_key cs'"
    and r: "rfold (add_declared l available_gpus nodes config) entries [] = Inr cs'"
    using assms(1) by (auto simp: supported_config_candidates_def)
  have "\<forall>c \<in> set cs'. pc_replica_count c \<le> cl_max_replicas l \<and> pc_pipeline_parallel_size c \<le> cl_max_pp l"
  proof (rule rfold_invariant [OF r])
    fix entry acc acc'
    assume acc: "\<forall>c \<in> set acc. pc_replica_count c \<le> cl_max_replicas l \<and> pc_pipeline_parallel_size c \<le> cl_max_pp l"
      and step: "add_declared l available_gpus nodes config entry acc = Inr acc'"
    from step show "\<forall>c \<in> set acc'. pc_replica_count c \<le> cl_max_replicas l
        \<and> pc_pipeline_parallel_size c \<le> cl_max_pp l"
      by (cases rule: add_declared_cases)
        (use acc in \<open>auto simp: declared_candidate_def ParallelConfig_init_def Let_def within_limits_def\<close>)
  qed simp
  then show ?thesis using that [OF l] assms(2) cs by simp
qed

text \<open>
  With live expert remapping and a backend that declares its configurations, every candidate
  is a single replica without pipeline stages.
\<close>

theorem live_remap_single_replica:
  assumes "plan_dynamic_reparallelization place backend_plans m nodes mc raw event node_id instance_id backend
     = Inr d"
    and "truthy_flag (dget raw ''enable_live_expert_remap'' (PBool False))"
    and "has_supported_configs (get_backend_capability backend_plans mc)"
    and "c \<in> set (rd_candidates d)"
  shows "pc_replica_count c \<le> 1 \<and> pc_pipeline_parallel_size c \<le> 1"
  using assms(1)
proof (rule plan_dynamic_stages)
  fix config availability overlap cs0 epoch cs1 cs2 lookup b
  assume config: "prepare_planner_config raw mc = Inr config"
    and src: "if has_supported_configs (get_backend_capability backend_plans mc)
         then supported_config_candidates (get_backend_capability backend_plans mc) (rd_available_gpus d)
           nodes config = Inr cs0
         else generate_parallel_candidates (rd_available_gpus d) config = Inr cs0"
    and st: "attach_expert_placement_movement_estimates place cs0 m b nodes mc config epoch event = Inr cs1"
    "attach_exact_placement_profiles cs1 config = Inr (cs2, lookup)"
    "score_parallel_candidates_for_workload cs2 config mc = Inr (rd_candidates d, rd_cost_report d)"
  from shapes_selected [OF st assms(4)] obtain c0 where c0: "c0 \<in> set cs0" "shape c0 = shape c" .
  from src assms(3) have "supported_config_candidates (get_backend_capability backend_plans mc)
      (rd_available_gpus d) nodes config = Inr cs0" by simp
  from declared_within_limits [OF this c0(1)] obtain l where
    l: "read_config_limits config (rd_available_gpus d) = Inr l"
    "pc_replica_count c0 \<le> cl_max_replicas l" "pc_pipeline_parallel_size c0 \<le> cl_max_pp l" .
  with live_remap_limits [OF config assms(2) l(1)] c0(2) show ?thesis by (auto simp: shape_def)
qed

section \<open>Witnesses\<close>

text \<open>No expert placement, no backend capability.\<close>

definition ex_place :: placement_planner where
  "ex_place _ _ _ _ _ = Inr None"

definition ex_no_plans :: "dict \<Rightarrow> parallel_plan list option" where
  "ex_no_plans _ = None"

definition ex_backend_plans :: "dict \<Rightarrow> parallel_plan list option" where
  "ex_backend_plans _ = Some
     [ParallelPlan_init ''m'' ''vllm'' 2 1 1 (Some 2) (Some False) 4 [] 0 None ''r'' None None 0,
      ParallelPlan_init ''m'' ''vllm'' 2 1 1 (Some 1) (Some True) 2 [] 0 None ''r'' None None 0]"

definition ex_model_config :: dict where
  "ex_model_config = [(''backend'', PStr ''vllm''), (''num_gpus'', PInt 2), (''placement_epoch'', PInt 4)]"

definition ex_run :: "(dict \<Rightarrow> parallel_plan list option) \<Rightarrow> dict \<Rightarrow> reparallel_decision res" where
  "ex_run backend_plans config = plan_dynamic_reparallelization ex_place backend_plans ''m'' ex_nodes
     ex_model_config config (Some ''preempt'') (Some ''n1'') None None"

definition ex_live :: dict where
  "ex_live = [(''enable_live_expert_remap'', PStr ''on'')]"

definition ex_profiled :: "parallel_config list" where
  "ex_profiled =
     (let c = (\<lambda>tp thr lat. (ParallelConfig_init tp 1 1 1 tp 0 0 ''r'' False)
        \<lparr>pc_throughput_estimate_req_s := thr, pc_latency_estimate_ms := lat\<rparr>)
      in [c 1 2 100, c 2 5 80, c 4 9 90, c 8 0 10])"

definition ex_snapshot :: "rat \<Rightarrow> workload_snapshot" where
  "ex_snapshot rate = projr (workload_cost_model_snapshot
     [(''arrival_rate_req_s'', PFloat rate), (''workload_cost_model'', PBool True)] [])"

definition ex_alg1 :: "parallel_config list \<times> cost_report" where
  "ex_alg1 = projr (select_profiled_candidates ex_profiled (ex_snapshot 4) [])"

lemma ex_alg1_run: "select_profiled_candidates ex_profiled (ex_snapshot 4) [] = Inr (fst ex_alg1, snd ex_alg1)"
  by code_simp

lemma ex_alg1_first: "fst ex_alg1 = hd (fst ex_alg1) # tl (fst ex_alg1)"
  "pc_tensor_parallel_size (hd (fst ex_alg1)) = 2" "length (fst ex_alg1) = 3"
  by code_simp+

theorem algorithm1_selects_best_witness: "size (mset (fst ex_alg1)) = 3"
  using algorithm1_selects_best [OF ex_alg1_run] ex_alg1_first(3) by (metis size_mset)

definition ex_scored_run :: "(parallel_config list \<times> cost_report) res" where
  "ex_scored_run = score_parallel_candidates_for_workload ex_profiled
     [(''arrival_rate_req_s'', PFloat 4), (''workload_cost_model'', PBool True)] []"

lemma ex_scored_check:
  "(case ex_scored_run of
      Inr (b # r, Weighted_Score s p c m) \<Rightarrow> ex_profiled ! 1 \<noteq> b \<and> length r = 3 | _ \<Rightarrow> False)"
  by code_simp

theorem weighted_score_best_first_witness:
  "\<exists>best rest report. ex_scored_run = Inr (best # rest, report) \<and> pc_score (rest ! 2) \<le> pc_score best"
proof -
  obtain xs report where x: "ex_scored_run = Inr (xs, report)"
    using ex_scored_check by (auto split: sum.splits)
  note t = ex_scored_check [unfolded x sum.case prod.case]
  obtain b r where xs: "xs = b # r" using t by (cases xs) simp_all
  obtain s p c m where rep: "report = Weighted_Score s p c m" using t xs by (cases report) simp_all
  have e: "ex_scored_run = Inr (b # r, Weighted_Score s p c m)" "length r = 3"
    using x t by (simp_all add: xs rep)
  from weighted_score_best_first [OF e(1) [unfolded ex_scored_run_def] refl] e(2)
  have "pc_score (r ! 2) \<le> pc_score b" by simp
  with e(1) show ?thesis by blast
qed

lemma ex_runs: "\<not> isl (ex_run ex_no_plans [])" "\<not> isl (ex_run ex_backend_plans ex_live)"
  "rd_parallel_plan (projr (ex_run ex_no_plans [])) \<noteq> None"
  by code_simp+

lemma ex_gpus_nonneg: "\<forall>node \<in> set ex_nodes. 0 \<le> gpus_of node"
  by code_simp

theorem reparallel_plan_placeable_witness: "rd_action (projr (ex_run ex_no_plans [])) = ''reparallelize''"
proof -
  let ?d = "projr (ex_run ex_no_plans [])"
  have "ex_run ex_no_plans [] = Inr ?d" using ex_runs(1) by (simp add: sum.collapse(2))
  from reparallel_plan_placeable [OF this [unfolded ex_run_def] ex_gpus_nonneg] ex_runs(3)
  show ?thesis by (auto simp: ex_run_def split: option.splits)
qed

theorem reparallel_plan_epoch_fresh_witness:
  "4 < pp_placement_epoch (the (rd_parallel_plan (projr (ex_run ex_no_plans []))))"
proof -
  let ?d = "projr (ex_run ex_no_plans [])"
  have run: "ex_run ex_no_plans [] = Inr ?d" using ex_runs(1) by (simp add: sum.collapse(2))
  obtain plan where plan: "rd_parallel_plan ?d = Some plan" using ex_runs(3) by auto
  have "safe_int (dgetn ex_model_config ''placement_epoch'') 0 = Inr 4" by code_simp
  from reparallel_plan_epoch_fresh [OF run [unfolded ex_run_def] plan [unfolded ex_run_def] _ this]
  show ?thesis using plan by simp
qed

theorem live_remap_single_replica_witness:
  "pc_replica_count (hd (rd_candidates (projr (ex_run ex_backend_plans ex_live)))) \<le> 1"
proof -
  let ?d = "projr (ex_run ex_backend_plans ex_live)"
  have "ex_run ex_backend_plans ex_live = Inr ?d" using ex_runs(2) by (simp add: sum.collapse(2))
  moreover have "truthy_flag (dget ex_live ''enable_live_expert_remap'' (PBool False))"
    "has_supported_configs (get_backend_capability ex_backend_plans ex_model_config)"
    "hd (rd_candidates ?d) \<in> set (rd_candidates ?d)"
    by code_simp+
  ultimately show ?thesis using live_remap_single_replica unfolding ex_run_def by blast
qed

text \<open>
  Without declared configurations the bound of one replica has no effect: the enumeration reads
  \<open>min_replica_count\<close> but not \<open>max_replica_count\<close>.
\<close>

lemma live_remap_enumerates_replicas:
  "map_option pc_replica_count (rd_selected (projr (ex_run ex_no_plans ex_live))) = Some 3"
  by code_simp

definition ex_profile_config :: dict where
  "ex_profile_config =
     [(''workload_bucket_id'', PStr ''w''),
      (''expert_placement_profile_manifest'', PDict
         [(''manifest_id'', PStr ''x''), (''model_id'', PStr ''m''), (''gpu_type'', PStr ''g''),
          (''runtime_fingerprint'', PStr ''r''), (''dtype'', PStr ''d''), (''quantization'', PStr ''q''),
          (''moe_backend'', PStr ''b''), (''prediction_validated'', PBool True)]),
      (''placement_profile_context'', PDict
         [(''model_id'', PStr ''m''), (''gpu_type'', PStr ''g''), (''runtime_fingerprint'', PStr ''r''),
          (''dtype'', PStr ''d''), (''quantization'', PStr ''q''), (''moe_backend'', PStr ''b'')]),
      (''expert_placement_profiles'', PList [PDict
         [(''manifest_id'', PStr ''x''), (''workload_bucket_id'', PStr ''w''),
          (''tensor_parallel_size'', PInt 2), (''pipeline_parallel_size'', PInt 1),
          (''data_parallel_size'', PInt 1), (''effective_expert_parallel_size'', PInt 1),
          (''replica_count'', PInt 1), (''sample_count'', PInt 5),
          (''latency_estimate_ms'', PInt 70), (''throughput_req_s'', PInt 6)]])]"

definition ex_attached :: "parallel_config list \<times> dict" where
  "ex_attached = projr (attach_exact_placement_profiles ex_profiled ex_profile_config)"

lemma ex_attached_run:
  "attach_exact_placement_profiles ex_profiled ex_profile_config = Inr (fst ex_attached, snd ex_attached)"
  by code_simp

theorem placement_profiles_exact_witness:
  "dgetn (snd ex_attached) ''matched_candidate_count'' = PInt 1"
proof -
  have "dgetn ex_profile_config ''expert_placement_profiles'' \<noteq> PNone"
    "length (filter pc_placement_profile_available (fst ex_attached)) = 1" by code_simp+
  with placement_profiles_exact [OF ex_attached_run] show ?thesis by auto
qed

end
