(* ===== verification/Risk_Scheduling.thy ===== *)
theory Risk_Scheduling
  imports Gpu_Cluster
begin

text \<open>
  Risk metadata of worker nodes and the ranking by spot risk: \<open>src/sllm/spot/risk_aware_scheduling.py\<close>
  and \<open>src/sllm/spot/risk_metadata_provider.py\<close>. The clock, the process environment, a production
  provider's callable and the metadata file (already parsed) are arguments. A number of requested
  GPUs is a Python value, as the schedulers pass on what a request contains.
\<close>

section \<open>Numbers inside values\<close>

text \<open>The value of a number; a comparison or a subtraction with anything else raises.\<close>

fun py_num :: "pyval \<Rightarrow> rat res" where
  "py_num (PBool b) = Inr (if b then 1 else 0)"
| "py_num (PInt i) = Inr (of_int i)"
| "py_num (PFloat r) = Inr r"
| "py_num _ = Inl TypeError"

text \<open>\<open>x + y\<close> and \<open>x - y\<close> of numbers: an integer unless one of them is a float.\<close>

fun is_float :: "pyval \<Rightarrow> bool" where
  "is_float (PFloat r) = True"
| "is_float v = False"

definition num_val :: "bool \<Rightarrow> rat \<Rightarrow> pyval" where
  "num_val float r = (if float then PFloat r else PInt \<lfloor>r\<rfloor>)"

definition py_add :: "pyval \<Rightarrow> pyval \<Rightarrow> pyval res" where
  "py_add x y =
     (case (x, y) of
        (PStr s, PStr t) \<Rightarrow> Inr (PStr (s @ t))
      | (PList s, PList t) \<Rightarrow> Inr (PList (s @ t))
      | (PTuple s, PTuple t) \<Rightarrow> Inr (PTuple (s @ t))
      | _ \<Rightarrow> rbind (py_num x) (\<lambda>a. rbind (py_num y) (\<lambda>b.
           Inr (num_val (is_float x \<or> is_float y) (a + b)))))"

definition py_sub :: "pyval \<Rightarrow> pyval \<Rightarrow> pyval res" where
  "py_sub x y = rbind (py_num x) (\<lambda>a. rbind (py_num y) (\<lambda>b.
     Inr (num_val (is_float x \<or> is_float y) (a - b))))"

text \<open>
  \<open>x >= y\<close> of numbers; texts and sequences compare with their like, which the model leaves out.
\<close>

definition py_ge :: "pyval \<Rightarrow> pyval \<Rightarrow> bool res" where
  "py_ge x y =
     (case (x, y) of
        (PStr s, PStr t) \<Rightarrow> Inr (t \<le> s)
      | (PList s, PList t) \<Rightarrow> Inl OutOfModel
      | (PTuple s, PTuple t) \<Rightarrow> Inl OutOfModel
      | _ \<Rightarrow> rbind (py_num x) (\<lambda>a. rbind (py_num y) (\<lambda>b. Inr (b \<le> a))))"

section \<open>Scores\<close>

record node_risk =
  nr_node_id :: string
  nr_state :: string
  nr_free_gpu :: int
  nr_total_gpu :: int
  nr_spot_risk :: rat
  nr_remaining_lifetime_s :: rat
  nr_loading_cost :: rat
  nr_score :: rat
  nr_reason :: string
  nr_metadata_source :: string
  nr_provider :: string
  nr_confidence :: rat

definition NodeRiskScore_to_dict :: "node_risk \<Rightarrow> dict" where
  "NodeRiskScore_to_dict self =
     [(''node_id'', PStr (nr_node_id self)),
      (''state'', PStr (nr_state self)),
      (''free_gpu'', PInt (nr_free_gpu self)),
      (''total_gpu'', PInt (nr_total_gpu self)),
      (''spot_risk'', PFloat (nr_spot_risk self)),
      (''remaining_lifetime_s'', PFloat (nr_remaining_lifetime_s self)),
      (''loading_cost'', PFloat (nr_loading_cost self)),
      (''score'', PFloat (nr_score self)),
      (''reason'', PStr (nr_reason self)),
      (''metadata_source'', PStr (nr_metadata_source self)),
      (''provider'', PStr (nr_provider self)),
      (''confidence'', PFloat (nr_confidence self))]"

record scheduling_decision =
  sd_action :: string
  sd_model_name :: string
  sd_requested_gpus :: pyval
  sd_selected_node_id :: "string option"
  sd_candidates :: "node_risk list"
  sd_reason :: string

definition SchedulingDecision_to_dict :: "scheduling_decision \<Rightarrow> dict" where
  "SchedulingDecision_to_dict self =
     [(''action'', PStr (sd_action self)),
      (''model_name'', PStr (sd_model_name self)),
      (''requested_gpus'', sd_requested_gpus self),
      (''selected_node_id'', of_opt_str (sd_selected_node_id self)),
      (''candidates'', PList (map (\<lambda>c. PDict (NodeRiskScore_to_dict c)) (sd_candidates self))),
      (''reason'', PStr (sd_reason self))]"

fun float_value :: "dict \<Rightarrow> string list \<Rightarrow> rat \<Rightarrow> rat res" where
  "float_value payload [] deflt = Inr deflt"
| "float_value payload (key # keys) deflt =
     (if dgetn payload key \<noteq> PNone then py_float (dgetn payload key)
      else float_value payload keys deflt)"

definition bounded :: "rat \<Rightarrow> rat \<Rightarrow> rat \<Rightarrow> rat" where
  "bounded v low high = min high (max low v)"

text \<open>\<open>float(config.get(name, default) or fallback)\<close>\<close>

definition config_float :: "dict \<Rightarrow> string \<Rightarrow> rat \<Rightarrow> rat \<Rightarrow> rat res" where
  "config_float scheduler_config name deflt fallback =
     py_float (por (dget scheduler_config name (PFloat deflt)) (PFloat fallback))"

definition read_spot_risk :: "dict \<Rightarrow> dict \<Rightarrow> rat res" where
  "read_spot_risk node_info scheduler_config =
     rbind (config_float scheduler_config ''default_spot_risk'' 0 0) (\<lambda>deflt.
     rbind (float_value node_info [''spot_risk'', ''risk_score'', ''preemption_risk''] deflt) (\<lambda>v.
     Inr (bounded v 0 1)))"

definition read_lifetime :: "dict \<Rightarrow> dict \<Rightarrow> rat res" where
  "read_lifetime node_info scheduler_config =
     rbind (config_float scheduler_config ''default_remaining_lifetime_s'' 3600 0) (\<lambda>deflt.
     rbind (float_value node_info [''remaining_lifetime_s'', ''expected_remaining_lifetime_s''] deflt) (\<lambda>v.
     Inr (max 0 v)))"

definition read_loading_cost :: "dict \<Rightarrow> dict \<Rightarrow> rat res" where
  "read_loading_cost node_info scheduler_config =
     rbind (config_float scheduler_config ''default_loading_cost'' 0 0) (\<lambda>deflt.
     rbind (float_value node_info [''loading_cost'', ''model_loading_cost'', ''load_cost''] deflt) (\<lambda>v.
     Inr (max 0 v)))"

record risk_weights =
  rw_max_remaining_lifetime_s :: rat
  rw_max_loading_cost :: rat
  rw_risk :: rat
  rw_lifetime :: rat
  rw_loading_cost :: rat
  rw_free_gpu :: rat

definition read_risk_weights :: "dict \<Rightarrow> risk_weights res" where
  "read_risk_weights c =
     rbind (config_float c ''max_remaining_lifetime_s'' 3600 1) (\<lambda>max_lifetime.
     rbind (config_float c ''max_loading_cost'' 60 1) (\<lambda>max_loading.
     rbind (config_float c ''risk_weight'' 1 0) (\<lambda>risk.
     rbind (config_float c ''lifetime_weight'' 1 0) (\<lambda>lifetime.
     rbind (config_float c ''loading_cost_weight'' 1 0) (\<lambda>loading.
     rbind (config_float c ''free_gpu_weight'' (1/20) 0) (\<lambda>free.
     Inr \<lparr>rw_max_remaining_lifetime_s = max 1 max_lifetime, rw_max_loading_cost = max 1 max_loading,
          rw_risk = risk, rw_lifetime = lifetime, rw_loading_cost = loading,
          rw_free_gpu = free\<rparr>))))))"

definition risk_score ::
  "risk_weights \<Rightarrow> rat \<Rightarrow> rat \<Rightarrow> rat \<Rightarrow> int \<Rightarrow> int \<Rightarrow> rat \<Rightarrow> rat" where
  "risk_score w spot_risk remaining_lifetime_s loading_cost free_gpu total_gpu requested =
     (let lifetime_penalty = 1 - bounded (remaining_lifetime_s / rw_max_remaining_lifetime_s w) 0 1;
          loading_penalty = bounded (loading_cost / rw_max_loading_cost w) 0 1;
          free_gpu_headroom = max (of_int free_gpu - requested) 0;
          free_gpu_bonus = free_gpu_headroom / max (max (of_int total_gpu) requested) 1
      in rw_risk w * spot_risk + rw_lifetime w * lifetime_penalty
         + rw_loading_cost w * loading_penalty - rw_free_gpu w * free_gpu_bonus)"

definition node_risk_score :: "string \<Rightarrow> dict \<Rightarrow> pyval \<Rightarrow> dict \<Rightarrow> node_risk res" where
  "node_risk_score node_id node_info requested_gpus scheduler_config =
     rbind (int_or_zero node_info ''free_gpu'') (\<lambda>free_gpu.
     rbind (py_int (por (dget node_info ''total_gpu'' (PInt free_gpu)) (PInt 0))) (\<lambda>total_gpu.
     rbind (read_spot_risk node_info scheduler_config) (\<lambda>spot_risk.
     rbind (read_lifetime node_info scheduler_config) (\<lambda>remaining_lifetime_s.
     rbind (read_loading_cost node_info scheduler_config) (\<lambda>loading_cost.
     rbind (read_risk_weights scheduler_config) (\<lambda>w.
     rbind (py_num requested_gpus) (\<lambda>requested.
     rbind (float_value node_info [''risk_confidence''] 0) (\<lambda>confidence.
     Inr \<lparr>nr_node_id = node_id,
          nr_state = py_str (node_state node_info),
          nr_free_gpu = free_gpu,
          nr_total_gpu = total_gpu,
          nr_spot_risk = spot_risk,
          nr_remaining_lifetime_s = remaining_lifetime_s,
          nr_loading_cost = loading_cost,
          nr_score = risk_score w spot_risk remaining_lifetime_s loading_cost free_gpu total_gpu requested,
          nr_reason = ''risk_aware_ranking'',
          nr_metadata_source = py_str (dget node_info ''risk_metadata_source'' (PStr ''conservative'')),
          nr_provider = py_str (dget node_info ''risk_provider'' (PStr '''')),
          nr_confidence = bounded confidence 0 1\<rparr>))))))))"

section \<open>Ranking\<close>

definition risk_key :: "node_risk \<Rightarrow> rat \<times> rat \<times> rat \<times> rat \<times> string" where
  "risk_key c = (nr_score c, nr_spot_risk c, - nr_remaining_lifetime_s c, nr_loading_cost c, nr_node_id c)"

definition consider_node ::
  "pyval \<Rightarrow> dict \<Rightarrow> string \<times> dict \<Rightarrow> node_risk list \<Rightarrow> node_risk list res" where
  "consider_node requested_gpus scheduler_config node candidates =
     (case node of (node_id, node_info) \<Rightarrow>
        if node_state node_info \<noteq> PStr READY then Inr candidates
        else rbind (int_or_zero node_info ''free_gpu'') (\<lambda>free.
          rbind (py_num requested_gpus) (\<lambda>requested.
          if of_int free < requested then Inr candidates
          else rbind (node_risk_score node_id node_info requested_gpus scheduler_config) (\<lambda>c.
            Inr (candidates @ [c])))))"

definition rank_nodes_by_spot_risk :: "nodes \<Rightarrow> pyval \<Rightarrow> dict \<Rightarrow> node_risk list res" where
  "rank_nodes_by_spot_risk worker_nodes requested_gpus scheduler_config =
     rbind (rfold (consider_node requested_gpus scheduler_config) worker_nodes [])
       (\<lambda>candidates. Inr (sort_key risk_key candidates))"

definition plan_risk_aware_scheduling :: "string \<Rightarrow> nodes \<Rightarrow> pyval \<Rightarrow> dict \<Rightarrow> scheduling_decision res" where
  "plan_risk_aware_scheduling model_name worker_nodes requested_gpus scheduler_config =
     rbind (rank_nodes_by_spot_risk worker_nodes requested_gpus scheduler_config) (\<lambda>candidates.
     let selected = (case candidates of [] \<Rightarrow> None | c # _ \<Rightarrow> Some (nr_node_id c))
     in Inr \<lparr>sd_action = (if selected \<noteq> None then ''allocate'' else ''no_capacity''),
             sd_model_name = model_name,
             sd_requested_gpus = requested_gpus,
             sd_selected_node_id = selected,
             sd_candidates = candidates,
             sd_reason = ''risk_aware_scheduling''\<rparr>)"

section \<open>Normalized metadata\<close>

definition signal_fields :: "string list" where
  "signal_fields = [''spot_risk'', ''remaining_lifetime_s'', ''loading_cost'', ''risk_score'',
     ''preemption_risk'', ''expected_remaining_lifetime_s'', ''model_loading_cost'', ''load_cost'',
     ''free_gpu'', ''total_gpu'']"

definition has_signal :: "dict \<Rightarrow> bool" where
  "has_signal payload = list_ex (\<lambda>key. dgetn payload key \<noteq> PNone) signal_fields"

definition float_default :: "pyval \<Rightarrow> rat \<Rightarrow> rat res" where
  "float_default v deflt = except_tv (py_float v) (Inr deflt)"

definition bounded_risk :: "pyval \<Rightarrow> rat res" where
  "bounded_risk v = rbind (float_default v 0) (\<lambda>r. Inr (min 1 (max 0 r)))"

definition non_negative :: "pyval \<Rightarrow> rat res" where
  "non_negative v = rbind (float_default v 0) (\<lambda>r. Inr (max 0 r))"

fun first_present :: "dict \<Rightarrow> string list \<Rightarrow> pyval" where
  "first_present payload [] = PNone"
| "first_present payload (key # keys) =
     (if dgetn payload key \<noteq> PNone then dgetn payload key else first_present payload keys)"

text \<open>\<open>if value is not None: result[key] = convert(value)\<close>\<close>

definition put_float :: "string \<Rightarrow> (pyval \<Rightarrow> rat res) \<Rightarrow> pyval \<Rightarrow> dict \<Rightarrow> dict res" where
  "put_float key convert v result =
     (if v = PNone then Inr result
      else rbind (convert v) (\<lambda>r. Inr (AList.update key (PFloat r) result)))"

definition put_capacity :: "dict \<Rightarrow> string \<Rightarrow> dict \<Rightarrow> dict res" where
  "put_capacity payload key result =
     (if dgetn payload key = PNone then Inr result
      else except_tv (rbind (py_int (dgetn payload key)) (\<lambda>i.
             Inr (AList.update key (PInt (max 0 i)) result))) (Inr result))"

definition put_text :: "dict \<Rightarrow> string \<Rightarrow> dict \<Rightarrow> dict" where
  "put_text payload key result =
     (if dgetn payload key = PNone then result
      else AList.update key (PStr (py_str (dgetn payload key))) result)"

definition normalize_risk_metadata :: "rat \<Rightarrow> dict \<Rightarrow> string \<Rightarrow> string \<Rightarrow> dict res" where
  "normalize_risk_metadata now payload source provider =
     rbind (put_float ''spot_risk'' bounded_risk
              (first_present payload [''spot_risk'', ''risk_score'', ''preemption_risk'']) []) (\<lambda>r1.
     rbind (put_float ''remaining_lifetime_s'' non_negative
              (first_present payload [''remaining_lifetime_s'', ''expected_remaining_lifetime_s'']) r1) (\<lambda>r2.
     rbind (put_float ''loading_cost'' non_negative
              (first_present payload [''loading_cost'', ''model_loading_cost'', ''load_cost'']) r2) (\<lambda>r3.
     rbind (rfold (put_capacity payload) [''free_gpu'', ''total_gpu''] r3) (\<lambda>r4.
     let r5 = fold (put_text payload) [''provider'', ''region'', ''instance_type'', ''instance_id''] r4;
         r6 = AList.update ''risk_metadata_source'' (PStr source) r5;
         r7 = (if provider \<noteq> '''' then AList.update ''risk_provider'' (PStr provider) r6 else r6);
         default_confidence = (if source = ''conservative'' then 0 else 1)
     in rbind (non_negative (dget payload ''observed_at'' (PFloat now))) (\<lambda>observed.
        rbind (float_default (dget payload ''confidence'' (PFloat default_confidence)) default_confidence)
          (\<lambda>confidence.
        Inr (AList.update ''risk_confidence'' (PFloat (min 1 (max 0 confidence)))
              (AList.update ''risk_observed_at'' (PFloat observed) r7))))))))"

section \<open>Providers\<close>

text \<open>
  A production callable is called with keyword arguments, and positionally when that raises a
  \<open>TypeError\<close>; its two ways of answering are fields.
\<close>

record risk_callback =
  cb_by_keyword :: "string \<Rightarrow> dict \<Rightarrow> pyval res"
  cb_by_position :: "string \<Rightarrow> dict \<Rightarrow> pyval res"
  cb_name :: string

datatype risk_provider =
    Conservative_Provider
  | Environment_Provider "string \<Rightarrow> string option" dict
  | Callable_Provider risk_callback

definition collect_conservative :: "rat \<Rightarrow> dict res" where
  "collect_conservative now = normalize_risk_metadata now [] ''conservative'' ''''"

definition environment_payload :: "(string \<Rightarrow> string option) \<Rightarrow> dict" where
  "environment_payload getenv =
     [(''spot_risk'', of_opt_str (getenv ''SLLM_SPOT_RISK'')),
      (''remaining_lifetime_s'', of_opt_str (getenv ''SLLM_REMAINING_LIFETIME_S'')),
      (''loading_cost'', of_opt_str (getenv ''SLLM_LOADING_COST'')),
      (''provider'', of_opt_str (getenv ''SLLM_RISK_PROVIDER_NAME'')),
      (''region'', of_opt_str (getenv ''SLLM_NODE_REGION'')),
      (''instance_type'', of_opt_str (getenv ''SLLM_INSTANCE_TYPE'')),
      (''confidence'', of_opt_str (getenv ''SLLM_RISK_CONFIDENCE''))]"

definition collect_environment ::
  "rat \<Rightarrow> (string \<Rightarrow> string option) \<Rightarrow> dict \<Rightarrow> string \<Rightarrow> dict res" where
  "collect_environment now getenv metadata node_id =
     (let payload = dict_of (dget metadata node_id (dget metadata ''*'' (PDict [])));
          merged = filter (\<lambda>(_, v). v \<noteq> PNone) (dmerge (environment_payload getenv) payload)
      in if merged = [] \<or> \<not> has_signal merged then Inr []
         else normalize_risk_metadata now merged ''environment''
           (py_str (dget merged ''provider'' (PStr ''environment''))))"

definition collect_callable :: "rat \<Rightarrow> risk_callback \<Rightarrow> string \<Rightarrow> dict \<Rightarrow> dict res" where
  "collect_callable now self node_id node_info =
     rbind (case cb_by_keyword self node_id node_info of
              Inl TypeError \<Rightarrow> cb_by_position self node_id node_info
            | r \<Rightarrow> r) (\<lambda>answer.
     let payload = (if \<not> is_mapping answer \<or> \<not> has_signal (dict_of answer) then []
                    else dict_of answer)
     in normalize_risk_metadata now payload ''provider'' (cb_name self))"

fun provider_collect :: "rat \<Rightarrow> risk_provider \<Rightarrow> string \<Rightarrow> dict \<Rightarrow> dict res" where
  "provider_collect now Conservative_Provider node_id node_info = collect_conservative now"
| "provider_collect now (Environment_Provider getenv metadata) node_id node_info =
     collect_environment now getenv metadata node_id"
| "provider_collect now (Callable_Provider cb) node_id node_info =
     collect_callable now cb node_id node_info"

definition merge_provider_payload :: "dict \<Rightarrow> dict \<Rightarrow> dict" where
  "merge_provider_payload payload result =
     (if dgetn payload ''risk_metadata_source'' = PStr ''conservative'' \<or> \<not> has_signal payload
      then fold (\<lambda>(key, v) r. dsetdefault r key v) payload result
      else dmerge result payload)"

text \<open>Any exception of a provider skips it; what lies outside the model stays outside.\<close>

definition collect_composite :: "rat \<Rightarrow> risk_provider list \<Rightarrow> string \<Rightarrow> dict \<Rightarrow> dict res" where
  "collect_composite now providers node_id node_info =
     rbind (rfold (\<lambda>provider result.
        case provider_collect now provider node_id node_info of
          Inl OutOfModel \<Rightarrow> Inl OutOfModel
        | Inl _ \<Rightarrow> Inr result
        | Inr payload \<Rightarrow> Inr (merge_provider_payload payload result)) providers [])
     (\<lambda>result. if result \<noteq> [] then Inr result else collect_conservative now)"

text \<open>
  The configured callable, when its import path could be resolved, comes before the environment
  and the conservative fallback.
\<close>

definition build_risk_metadata_provider ::
  "(string \<Rightarrow> risk_callback option) \<Rightarrow> (string \<Rightarrow> string option) \<Rightarrow> dict \<Rightarrow> dict \<Rightarrow> risk_provider list" where
  "build_risk_metadata_provider load_callable getenv metadata config =
     (let configured = dgetn config ''risk_provider'';
          path = (if truthy configured then py_str configured
                  else case getenv ''SLLM_RISK_PROVIDER'' of None \<Rightarrow> '''' | Some s \<Rightarrow> s)
      in (if path = '''' then []
          else case load_callable path of None \<Rightarrow> [] | Some cb \<Rightarrow> [Callable_Provider cb])
         @ [Environment_Provider getenv metadata, Conservative_Provider])"

end
