(* ===== verification/Fcfs_Scheduler.thy ===== *)
theory Fcfs_Scheduler
  imports Risk_Scheduling
begin

text \<open>
  The first-come-first-served scheduler, \<open>src/sllm/schedulers/fcfs_scheduler.py\<close>. Its state is a
  record; a coroutine is one function per stretch of code between two suspension points, since
  asyncio runs such a stretch without interruption and no lock of the scheduler is held across a
  suspension. What Ray, the risk providers and the backend actors answer are arguments. An
  operation that raises returns the exception. Log lines and metric events are left out.
\<close>

section \<open>State\<close>

text \<open>
  An allocation future is a number; what it holds is in the table of results. A request waits in
  the loading queue of its model as the tuple the code stores there.
\<close>

datatype allocation_result = Waiting | Granted string | Cancelled string

record loading_request =
  lr_request_time :: rat
  lr_instance_id :: string
  lr_num_gpus :: pyval
  lr_allocation_result :: nat
  lr_target_node_id :: "string option"

record scheduler_features =
  sf_enable_spot_risk_aware :: bool
  sf_enable_backend_runtime_metadata :: bool
  sf_backend_actor_namespaces :: "pyval list"
  sf_runtime_metadata_timeout_s :: rat
  sf_metrics_path :: pyval

record fcfs =
  fs_scheduler_config :: dict
  fs_features :: scheduler_features
  fs_latest_scheduling_decision :: "dict option"
  fs_model_loading_queues :: "(string \<times> loading_request list) list"
  fs_worker_nodes :: nodes
  fs_model_instance :: "(string \<times> (string \<times> string) list) list"
  fs_model_instance_resources :: "(string \<times> (string \<times> dict) list) list"
  fs_running :: bool
  fs_results :: "allocation_result list"

text \<open>\<open>allocation_result.done()\<close>\<close>

definition future_done :: "fcfs \<Rightarrow> nat \<Rightarrow> bool" where
  "future_done self f = (f < length (fs_results self) \<and> fs_results self ! f \<noteq> Waiting)"

section \<open>Configuration\<close>

definition configure_features :: "dict \<Rightarrow> scheduler_features res" where
  "configure_features scheduler_config =
     (let configured = dget scheduler_config ''backend_actor_namespaces'' (PList [PNone, PStr ''models'']);
          configured = (case configured of PStr s \<Rightarrow> PList [PStr s] | v \<Rightarrow> v);
          metrics_path = dgetn scheduler_config ''metrics_path''
      in rbind (py_iter configured) (\<lambda>namespaces.
         rbind (py_float (por (dget scheduler_config ''runtime_metadata_timeout_s'' (PFloat 1)) (PFloat 1)))
           (\<lambda>timeout.
         Inr \<lparr>sf_enable_spot_risk_aware =
                truthy (dget scheduler_config ''enable_spot_risk_aware'' (PBool False)),
              sf_enable_backend_runtime_metadata =
                truthy (dget scheduler_config ''enable_backend_runtime_metadata'' (PBool False)),
              sf_backend_actor_namespaces = py_unique (map (\<lambda>ns. por ns PNone) namespaces),
              sf_runtime_metadata_timeout_s = max (1/1000) timeout,
              sf_metrics_path = (if truthy metrics_path then metrics_path else PNone)\<rparr>)))"

definition fcfs_init :: "dict \<Rightarrow> fcfs res" where
  "fcfs_init scheduler_config =
     rbind (configure_features scheduler_config) (\<lambda>features.
     Inr \<lparr>fs_scheduler_config = scheduler_config, fs_features = features,
          fs_latest_scheduling_decision = None, fs_model_loading_queues = [], fs_worker_nodes = [],
          fs_model_instance = [], fs_model_instance_resources = [], fs_running = False,
          fs_results = []\<rparr>)"

definition update_scheduler_config :: "dict \<Rightarrow> bool \<Rightarrow> fcfs \<Rightarrow> fcfs res" where
  "update_scheduler_config scheduler_config replace self =
     (let config = (if replace then scheduler_config
                    else dmerge (fs_scheduler_config self) scheduler_config)
      in rbind (configure_features config) (\<lambda>features.
         Inr (self\<lparr>fs_scheduler_config := config, fs_features := features\<rparr>)))"

section \<open>Node metadata\<close>

definition configured_node_risk :: "dict \<Rightarrow> string \<Rightarrow> dict res" where
  "configured_node_risk scheduler_config node_id =
     rbind (py_items (por (dget scheduler_config ''node_risk'' (PDict [])) (PDict []))) (\<lambda>node_risk.
     py_dict (por (dget node_risk node_id (PDict [])) (PDict [])))"

definition ensure_node_metadata :: "dict \<Rightarrow> dict \<Rightarrow> string option \<Rightarrow> dict res" where
  "ensure_node_metadata scheduler_config node_info node_id =
     (let updated = dsetdefault node_info ''state'' (PStr READY);
          configured_node_id = (case node_id of Some n \<Rightarrow> n
            | None \<Rightarrow> py_str (dget updated ''node_id'' (PStr '''')))
      in if configured_node_id = '''' then Inr updated
         else rbind (configured_node_risk scheduler_config configured_node_id) (\<lambda>risk.
           Inr (dmerge updated risk)))"

definition node_is_ready :: "dict \<Rightarrow> bool" where
  "node_is_ready node_info = (node_state node_info = PStr READY)"

definition spot_metadata_keys :: "string list" where
  "spot_metadata_keys =
     [''spot_risk'', ''risk_score'', ''preemption_risk'', ''remaining_lifetime_s'',
      ''expected_remaining_lifetime_s'', ''loading_cost'', ''model_loading_cost'', ''load_cost'',
      ''risk_metadata_source'', ''risk_provider'', ''risk_observed_at'', ''risk_confidence'',
      ''provider'', ''region'', ''instance_type'']"

definition preserve_spot_metadata :: "dict \<Rightarrow> dict \<Rightarrow> dict \<Rightarrow> string \<Rightarrow> dict res" where
  "preserve_spot_metadata scheduler_config updated previous node_id =
     (let kept = fold (\<lambda>key u. if dhas previous key then AList.update key (dgetn previous key) u else u)
                   spot_metadata_keys updated
      in rbind (configured_node_risk scheduler_config node_id) (\<lambda>risk. Inr (dmerge kept risk)))"

definition optional_float_value :: "dict \<Rightarrow> string \<Rightarrow> rat option res" where
  "optional_float_value payload key =
     (if dgetn payload key = PNone then Inr None
      else except_tv (rbind (py_float (dgetn payload key)) (\<lambda>r. Inr (Some r))) (Inr None))"

definition apply_scheduler_capacity :: "dict \<Rightarrow> rat \<Rightarrow> dict res" where
  "apply_scheduler_capacity updated allocated_gpu =
     rbind (optional_float_value updated ''total_gpu'') (\<lambda>live_total_gpu.
     rbind (optional_float_value updated ''free_gpu'') (\<lambda>live_free_gpu.
     Inr (case (if live_total_gpu \<noteq> None then live_total_gpu else live_free_gpu) of
        None \<Rightarrow> updated
      | Some total_gpu \<Rightarrow>
          let free = (case live_free_gpu of Some f \<Rightarrow> f | None \<Rightarrow> total_gpu)
          in AList.update ''free_gpu''
               (PFloat (max 0 (min total_gpu (min free (total_gpu - allocated_gpu)))))
               (AList.update ''total_gpu'' (PFloat total_gpu) updated))))"

definition apply_ray_available_capacity :: "dict \<Rightarrow> string \<Rightarrow> dict \<Rightarrow> dict res" where
  "apply_ray_available_capacity updated node_id available_resources =
     rbind (optional_float_value updated ''total_gpu'') (\<lambda>total_gpu.
     case total_gpu of
       None \<Rightarrow> Inr updated
     | Some total_gpus \<Rightarrow>
         let key = ''worker_id_'' @ node_id in
         if 1 < total_gpus \<or> \<not> dhas available_resources key then Inr updated
         else except_tv (rbind (float_or_zero available_resources key) (\<lambda>available.
           let marked = AList.update ''ray_available_worker_resource'' (PFloat available) updated
           in Inr (if available < 999/1000 then AList.update ''free_gpu'' (PFloat 0) marked
                   else marked))) (Inr updated))"

section \<open>Allocated GPUs\<close>

definition add_allocation :: "string \<Rightarrow> rat \<Rightarrow> (string \<times> rat) list \<Rightarrow> (string \<times> rat) list" where
  "add_allocation node_id gpus allocated = AList.update node_id (dget allocated node_id 0 + gpus) allocated"

definition distributed_entry :: "dict \<Rightarrow> dict option" where
  "distributed_entry resource_entry =
     (case dgetn resource_entry ''node_allocations'' of
        PDict d \<Rightarrow> if d = [] then None else Some d | _ \<Rightarrow> None)"

definition add_node_allocation ::
  "string \<times> pyval \<Rightarrow> (string \<times> rat) list \<Rightarrow> (string \<times> rat) list res" where
  "add_node_allocation entry allocated =
     except_tv (rbind (py_float (snd entry)) (\<lambda>gpus. Inr (add_allocation (fst entry) (max 0 gpus) allocated)))
       (Inr allocated)"

definition add_instance_allocation ::
  "(string \<times> dict) list \<Rightarrow> string \<times> string \<Rightarrow> (string \<times> rat) list \<Rightarrow> (string \<times> rat) list res" where
  "add_instance_allocation resource_entries inst allocated =
     (case inst of (instance_id, node_id) \<Rightarrow>
        let resource_entry = dget resource_entries instance_id [] in
        case distributed_entry resource_entry of
          Some node_allocations \<Rightarrow> rfold add_node_allocation node_allocations allocated
        | None \<Rightarrow>
            rbind (except_tv (py_float (dget resource_entry ''num_gpus'' (PFloat 1))) (Inr 1)) (\<lambda>num_gpus.
            Inr (add_allocation node_id (max 0 num_gpus) allocated)))"

definition allocated_gpu_by_node_unlocked :: "fcfs \<Rightarrow> (string \<times> rat) list res" where
  "allocated_gpu_by_node_unlocked self =
     rfold (\<lambda>(model_name, instances) allocated.
       rfold (add_instance_allocation (dget (fs_model_instance_resources self) model_name []))
         instances allocated) (fs_model_instance self) []"

section \<open>Distributed allocation\<close>

definition target_capacity :: "nodes \<Rightarrow> bool \<Rightarrow> string \<Rightarrow> int res" where
  "target_capacity worker_nodes require_all node_id =
     (case map_of worker_nodes node_id of
        None \<Rightarrow> Inl (RuntimeError (''distributed_target_node_not_found:'' @ node_id))
      | Some node \<Rightarrow>
          if node_state node \<noteq> PStr READY then
            (if require_all then Inl (RuntimeError (''distributed_target_node_not_ready:'' @ node_id))
             else Inr 0)
          else rbind (float_or_zero node ''free_gpu'') (\<lambda>free. Inr (max 0 (rat_trunc free))))"

fun assign_gpus ::
  "(string \<Rightarrow> int) \<Rightarrow> string list \<Rightarrow> (string \<times> int) list \<Rightarrow> int \<Rightarrow> (string \<times> int) list \<times> int" where
  "assign_gpus capacity [] allocations remaining = (allocations, remaining)"
| "assign_gpus capacity (node_id # rest) allocations remaining =
     (if remaining \<le> 0 then (allocations, remaining)
      else let taken = dget allocations node_id 0;
               assigned = min (capacity node_id - taken) remaining
           in assign_gpus capacity rest (AList.update node_id (taken + assigned) allocations)
                (remaining - assigned))"

definition distributed_gpu_allocation ::
  "nodes \<Rightarrow> string list \<Rightarrow> int \<Rightarrow> bool \<Rightarrow> (string \<times> int) list res" where
  "distributed_gpu_allocation worker_nodes target_node_ids requested_gpus require_all =
     (let targets = py_unique target_node_ids in
      if requested_gpus \<le> 0 then Inl (ValueError ''distributed allocation requires at least one GPU'')
      else if targets = [] then Inl (ValueError ''distributed allocation requires target_node_ids'')
      else if require_all \<and> requested_gpus < int (length targets)
      then Inl (ValueError ''distributed allocation has fewer GPUs than target nodes'')
      else rbind (rmap (target_capacity worker_nodes require_all) targets) (\<lambda>caps.
        let capacity = (\<lambda>n. dget (zip targets caps) n 0);
            start = (if require_all then 1 else 0);
            unavailable = filter (\<lambda>n. capacity n < 1) targets
        in if require_all \<and> unavailable \<noteq> []
           then Inl (RuntimeError (''distributed_target_nodes_have_no_gpu:'' @ py_join '','' unavailable))
           else
             let (allocations, remaining) =
                   assign_gpus capacity (sort_key (\<lambda>n. (- (capacity n - start), n)) targets)
                     (map (\<lambda>n. (n, start)) targets)
                     (requested_gpus - start * int (length targets))
             in if remaining \<noteq> 0
                then Inl (RuntimeError ''insufficient_distributed_gpu_capacity'')
                else Inr (filter (\<lambda>(_, count). 0 < count) allocations)))"

section \<open>Candidate nodes\<close>

definition health_only_step ::
  "fcfs \<Rightarrow> pyval \<Rightarrow> string \<times> dict \<Rightarrow> string option \<times> dict list \<Rightarrow> (string option \<times> dict list) res" where
  "health_only_step self num_gpus node acc =
     (case (node, acc) of ((node_id, node_info), (selected, candidates)) \<Rightarrow>
        rbind (node_risk_score node_id node_info num_gpus (fs_scheduler_config self)) (\<lambda>c.
        let candidates = candidates @ [NodeRiskScore_to_dict c] in
        if selected \<noteq> None \<or> \<not> node_is_ready node_info then Inr (selected, candidates)
        else rbind (int_or_zero node_info ''free_gpu'') (\<lambda>free.
             rbind (py_ge (PInt free) num_gpus) (\<lambda>enough.
             Inr (if enough then Some node_id else None, candidates)))))"

definition health_only_decision :: "fcfs \<Rightarrow> string \<Rightarrow> pyval \<Rightarrow> nodes \<Rightarrow> dict res" where
  "health_only_decision self model_name num_gpus worker_nodes =
     rbind (rfold (health_only_step self num_gpus) worker_nodes (None, [])) (\<lambda>(selected, candidates).
     Inr [(''action'', PStr (if selected \<noteq> None then ''allocate'' else ''no_capacity'')),
          (''model_name'', PStr model_name),
          (''requested_gpus'', num_gpus),
          (''selected_node_id'', of_opt_str selected),
          (''candidates'', PList (map PDict candidates)),
          (''reason'', PStr ''health_only'')])"

text \<open>
  The ids of the candidates in order; the code pairs them with the entries of \<open>worker_nodes\<close>,
  which it goes on to change in place.
\<close>

definition ordered_candidate_nodes :: "string \<Rightarrow> pyval \<Rightarrow> nodes \<Rightarrow> fcfs \<Rightarrow> (fcfs \<times> string list) res" where
  "ordered_candidate_nodes model_name num_gpus worker_nodes self =
     (if \<not> sf_enable_spot_risk_aware (fs_features self) then
        rbind (health_only_decision self model_name num_gpus worker_nodes) (\<lambda>decision.
        Inr (self\<lparr>fs_latest_scheduling_decision := Some decision\<rparr>, map fst worker_nodes))
      else
        rbind (plan_risk_aware_scheduling model_name worker_nodes num_gpus (fs_scheduler_config self))
          (\<lambda>decision.
        Inr (self\<lparr>fs_latest_scheduling_decision := Some (SchedulingDecision_to_dict decision)\<rparr>,
             map nr_node_id (sd_candidates decision))))"

section \<open>Node states\<close>

definition mark_node_state :: "string \<Rightarrow> string \<Rightarrow> fcfs \<Rightarrow> fcfs \<times> dict" where
  "mark_node_state node_id state self =
     (let node = dget (fs_worker_nodes self) node_id new_node
      in (self\<lparr>fs_worker_nodes :=
            AList.update node_id (AList.update ''state'' (PStr state) node) (fs_worker_nodes self)\<rparr>,
          [(''node_id'', PStr node_id), (''from'', node_state node), (''to'', PStr state)]))"

definition mark_node_preempting :: "string \<Rightarrow> fcfs \<Rightarrow> fcfs \<times> dict" where
  "mark_node_preempting node_id = mark_node_state node_id PREEMPTING"

definition mark_node_recovered :: "string \<Rightarrow> fcfs \<Rightarrow> fcfs \<times> dict" where
  "mark_node_recovered node_id = mark_node_state node_id READY"

definition mark_node_dead :: "string \<Rightarrow> fcfs \<Rightarrow> fcfs \<times> dict" where
  "mark_node_dead node_id = mark_node_state node_id DEAD"

definition remove_worker_node :: "string \<Rightarrow> fcfs \<Rightarrow> fcfs \<times> dict" where
  "remove_worker_node node_id = mark_node_state node_id DEAD"

definition add_worker_node :: "string \<Rightarrow> dict \<Rightarrow> fcfs \<Rightarrow> fcfs res" where
  "add_worker_node node_id node_info self =
     (let previous = dget (fs_worker_nodes self) node_id [];
          updated = AList.update ''state'' (PStr READY) (dmerge previous node_info);
          updated = dsetdefault updated ''ray_node_id'' PNone;
          updated = dsetdefault updated ''address'' PNone;
          updated = dsetdefault updated ''free_gpu'' (dget updated ''total_gpu'' (PInt 0));
          updated = dsetdefault updated ''total_gpu'' (dget updated ''free_gpu'' (PInt 0))
      in rbind (ensure_node_metadata (fs_scheduler_config self) updated (Some node_id)) (\<lambda>node.
         Inr (self\<lparr>fs_worker_nodes := AList.update node_id node (fs_worker_nodes self)\<rparr>)))"

definition update_node_risk :: "string \<Rightarrow> dict \<Rightarrow> fcfs \<Rightarrow> fcfs" where
  "update_node_risk node_id risk_metadata self =
     (let node = dget (fs_worker_nodes self) node_id (new_node @ [(''state'', PStr READY)])
      in self\<lparr>fs_worker_nodes :=
           AList.update node_id (dmerge node risk_metadata) (fs_worker_nodes self)\<rparr>)"

end
