(* ===== verification/Fcfs_Control.thy ===== *)
theory Fcfs_Control
  imports Fcfs_Scheduler
begin

text \<open>
  The scheduler at work, the second half of \<open>src/sllm/schedulers/fcfs_scheduler.py\<close>: refreshing the
  node table from Ray, the risk providers and the backend actors, one round of the control loop,
  and the operations that reserve, resize and release GPUs.
\<close>

section \<open>Provider metadata\<close>

definition drop_reported_capacity :: "dict \<Rightarrow> string \<Rightarrow> dict \<Rightarrow> dict res" where
  "drop_reported_capacity node_info key normalized =
     (if \<not> dhas node_info key then Inr normalized
      else rbind (int_or_zero node_info key) (\<lambda>reported.
        Inr (if 0 < reported then AList.delete key normalized else normalized)))"

definition collect_provider_risk_metadata ::
  "(string \<Rightarrow> dict \<Rightarrow> pyval res) \<Rightarrow> nodes \<Rightarrow> nodes res" where
  "collect_provider_risk_metadata collect worker_nodes =
     rfold (\<lambda>(node_id, node_info) collected.
       case collect node_id node_info of
         Inl OutOfModel \<Rightarrow> Inl OutOfModel
       | Inl _ \<Rightarrow> Inr collected
       | Inr (PDict payload) \<Rightarrow>
           rbind (rfold (drop_reported_capacity node_info) [''free_gpu'', ''total_gpu''] payload)
             (\<lambda>normalized. Inr (AList.update node_id normalized collected))
       | Inr _ \<Rightarrow> Inr collected) worker_nodes []"

section \<open>Runtime metadata of the backends\<close>

definition normalize_backend_runtime_metadata :: "rat \<Rightarrow> dict \<Rightarrow> string \<Rightarrow> string \<Rightarrow> dict res" where
  "normalize_backend_runtime_metadata now metadata instance_id node_id =
     (let payload = dsetdefault (dsetdefault metadata ''instance_id'' (PStr instance_id))
                      ''node_id'' (PStr node_id);
          provider = py_str (por (dgetn payload ''risk_provider'') (por (dgetn payload ''provider'')
            (por (dgetn payload ''backend'') (PStr ''backend_runtime''))))
      in rbind (normalize_risk_metadata now payload ''backend_runtime'' provider) (\<lambda>normalized.
         Inr (AList.update ''node_id'' (PStr node_id)
               (AList.update ''instance_id'' (PStr instance_id) (dmerge payload normalized)))))"

text \<open>The answer of an actor is \<open>None\<close> here when the call raised or timed out.\<close>

definition collect_backend_runtime_metadata ::
  "rat \<Rightarrow> (string \<Rightarrow> string \<Rightarrow> pyval option) \<Rightarrow> fcfs \<Rightarrow> dict list res" where
  "collect_backend_runtime_metadata now get_runtime_metadata self =
     (if \<not> sf_enable_backend_runtime_metadata (fs_features self) then Inr []
      else rfold (\<lambda>(instance_id, node_id) rows.
        case get_runtime_metadata instance_id node_id of
          Some (PDict metadata) \<Rightarrow>
            rbind (normalize_backend_runtime_metadata now metadata instance_id node_id)
              (\<lambda>row. Inr (rows @ [row]))
        | _ \<Rightarrow> Inr rows) (concat (map snd (fs_model_instance self))) [])"

record runtime_values =
  rv_spot_risks :: "rat list"
  rv_lifetimes :: "rat list"
  rv_loading_costs :: "rat list"
  rv_free_gpu_values :: "int list"
  rv_total_gpu_values :: "int list"
  rv_confidence_values :: "rat list"
  rv_metadata_sources :: "string list"
  rv_metadata_providers :: "string list"

text \<open>
  The fields of a row are read in turn; the first one that cannot be converted ends the row, and
  what was read before it stays.
\<close>

type_synonym field_reader = "dict \<Rightarrow> runtime_values \<Rightarrow> runtime_values res"

definition read_float_field ::
  "string \<Rightarrow> (rat \<Rightarrow> runtime_values \<Rightarrow> runtime_values) \<Rightarrow> field_reader" where
  "read_float_field key put row acc =
     (if dgetn row key = PNone then Inr acc else rbind (py_float (dgetn row key)) (\<lambda>r. Inr (put r acc)))"

definition read_count_field ::
  "string \<Rightarrow> (int \<Rightarrow> runtime_values \<Rightarrow> runtime_values) \<Rightarrow> field_reader" where
  "read_count_field key put row acc =
     (if dgetn row key = PNone then Inr acc
      else rbind (py_int (dgetn row key)) (\<lambda>i. Inr (if 0 < i then put i acc else acc)))"

definition row_readers :: "field_reader list" where
  "row_readers =
     [read_float_field ''spot_risk'' (\<lambda>r. rv_spot_risks_update (\<lambda>xs. xs @ [r])),
      read_float_field ''remaining_lifetime_s'' (\<lambda>r. rv_lifetimes_update (\<lambda>xs. xs @ [r])),
      read_float_field ''loading_cost'' (\<lambda>r. rv_loading_costs_update (\<lambda>xs. xs @ [r])),
      read_count_field ''free_gpu'' (\<lambda>i. rv_free_gpu_values_update (\<lambda>xs. xs @ [i])),
      read_count_field ''total_gpu'' (\<lambda>i. rv_total_gpu_values_update (\<lambda>xs. xs @ [i])),
      read_float_field ''risk_confidence'' (\<lambda>r. rv_confidence_values_update (\<lambda>xs. xs @ [r]))]"

fun read_fields :: "field_reader list \<Rightarrow> dict \<Rightarrow> runtime_values \<Rightarrow> (bool \<times> runtime_values) res" where
  "read_fields [] row acc = Inr (True, acc)"
| "read_fields (reader # readers) row acc =
     (case reader row acc of
        Inr acc' \<Rightarrow> read_fields readers row acc'
      | Inl e \<Rightarrow> except_tv (Inl e) (Inr (False, acc)))"

definition read_runtime_row :: "dict \<Rightarrow> runtime_values \<Rightarrow> runtime_values res" where
  "read_runtime_row row acc =
     rbind (read_fields row_readers row acc) (\<lambda>(complete, acc).
     Inr (if \<not> complete then acc
          else
            let acc = (if truthy (dgetn row ''risk_metadata_source'')
                  then rv_metadata_sources_update (\<lambda>xs. xs @ [py_str (dgetn row ''risk_metadata_source'')]) acc
                  else acc)
            in (if truthy (dgetn row ''risk_provider'')
                then rv_metadata_providers_update (\<lambda>xs. xs @ [py_str (dgetn row ''risk_provider'')]) acc
                else acc)))"

definition group_rows :: "dict list \<Rightarrow> (string \<times> dict list) list" where
  "group_rows rows = fold (\<lambda>row groups.
     if dgetn row ''node_id'' = PNone then groups
     else let n = py_str (dgetn row ''node_id'')
          in AList.update n (dget groups n [] @ [row]) groups) rows []"

definition positive_int_value :: "dict \<Rightarrow> string \<Rightarrow> int option res" where
  "positive_int_value payload key =
     except_tv (rbind (int_or_zero payload key) (\<lambda>v. Inr (if 0 < v then Some v else None))) (Inr None)"

text \<open>\<open>if xs: node_info[key] = f(xs)\<close>\<close>

definition put_nonempty :: "string \<Rightarrow> ('a list \<Rightarrow> pyval) \<Rightarrow> 'a list \<Rightarrow> dict \<Rightarrow> dict" where
  "put_nonempty key f xs node_info = (if xs = [] then node_info else AList.update key (f xs) node_info)"

definition merge_node_rows :: "dict \<Rightarrow> string \<Rightarrow> dict list \<Rightarrow> dict \<Rightarrow> dict res" where
  "merge_node_rows scheduler_config node_id rows node_info =
     (let n1 = AList.update ''backend_runtime_metadata'' (PList (map PDict rows)) node_info;
          profiles = filter is_mapping (map (\<lambda>row. dgetn row ''model_resource_profile'') rows);
          n2 = put_nonempty ''model_resource_profiles'' PList profiles n1
      in rbind (rfold read_runtime_row rows
            \<lparr>rv_spot_risks = [], rv_lifetimes = [], rv_loading_costs = [], rv_free_gpu_values = [],
             rv_total_gpu_values = [], rv_confidence_values = [], rv_metadata_sources = [],
             rv_metadata_providers = []\<rparr>) (\<lambda>v.
         let n3 = put_nonempty ''spot_risk'' (\<lambda>xs. PFloat (Max (set xs))) (rv_spot_risks v) n2;
             n4 = put_nonempty ''remaining_lifetime_s'' (\<lambda>xs. PFloat (Min (set xs))) (rv_lifetimes v) n3;
             n5 = put_nonempty ''loading_cost'' (\<lambda>xs. PFloat (Max (set xs))) (rv_loading_costs v) n4;
             n6 = put_nonempty ''backend_reported_free_gpu'' (\<lambda>xs. PInt (Max (set xs))) (rv_free_gpu_values v) n5;
             n7 = put_nonempty ''backend_reported_total_gpu'' (\<lambda>xs. PInt (Max (set xs))) (rv_total_gpu_values v) n6
         in rbind (if rv_total_gpu_values v = [] then Inr n7
                   else rbind (positive_int_value n7 ''total_gpu'') (\<lambda>known. Inr (if known = None
                     then AList.update ''total_gpu'' (PInt (Max (set (rv_total_gpu_values v)))) n7
                     else n7))) (\<lambda>n8.
            let n9 = put_nonempty ''risk_metadata_source'' (\<lambda>xs. PStr (py_join '','' (sorted_set xs)))
                       (rv_metadata_sources v) n8;
                n10 = put_nonempty ''risk_provider'' (\<lambda>xs. PStr (py_join '','' (sorted_set xs)))
                       (rv_metadata_providers v) n9;
                n11 = put_nonempty ''risk_confidence'' (\<lambda>xs. PFloat (Max (set xs))) (rv_confidence_values v) n10
            in rbind (configured_node_risk scheduler_config node_id) (\<lambda>risk. Inr (dmerge n11 risk)))))"

definition merge_backend_runtime_metadata :: "dict \<Rightarrow> nodes \<Rightarrow> dict list \<Rightarrow> nodes res" where
  "merge_backend_runtime_metadata scheduler_config worker_nodes runtime_metadata_rows =
     rfold (\<lambda>(node_id, rows) updated.
       case map_of updated node_id of
         None \<Rightarrow> Inr updated
       | Some node_info \<Rightarrow>
           rbind (merge_node_rows scheduler_config node_id rows node_info) (\<lambda>node.
           Inr (AList.update node_id node updated))) (group_rows runtime_metadata_rows) worker_nodes"

section \<open>Refreshing the node table\<close>

text \<open>
  Until its last write \<open>_get_worker_nodes\<close> works on a copy. The answers it starts from: the nodes
  Ray lists, the metadata the providers collect for them and Ray's available resources.
\<close>

definition live_worker_nodes :: "(string \<Rightarrow> dict \<Rightarrow> pyval res) \<Rightarrow> nodes \<Rightarrow> nodes res" where
  "live_worker_nodes collect ray_nodes =
     rbind (collect_provider_risk_metadata collect ray_nodes) (\<lambda>provider_metadata.
     Inr (fold (\<lambda>(node_id, metadata) nodes.
       case map_of nodes node_id of
         None \<Rightarrow> nodes
       | Some node_info \<Rightarrow> AList.update node_id (dmerge node_info metadata) nodes) provider_metadata ray_nodes))"

definition merge_live_node ::
  "fcfs \<Rightarrow> (string \<times> rat) list \<Rightarrow> dict \<Rightarrow> string \<times> dict \<Rightarrow> nodes \<Rightarrow> nodes res" where
  "merge_live_node self allocated available_resources node updated =
     (case node of (node_id, node_info) \<Rightarrow>
        rbind
          (case map_of updated node_id of
             None \<Rightarrow>
               rbind (ensure_node_metadata (fs_scheduler_config self) node_info (Some node_id)) (\<lambda>n.
               apply_scheduler_capacity n (dget allocated node_id 0))
           | Some current \<Rightarrow>
               rbind (apply_scheduler_capacity (dmerge current node_info) (dget allocated node_id 0)) (\<lambda>n.
               rbind (dindex (fs_worker_nodes self) node_id) (\<lambda>previous.
               preserve_spot_metadata (fs_scheduler_config self)
                 (AList.update ''state'' (node_state current) n) previous node_id)))
          (\<lambda>n. rbind (apply_ray_available_capacity n node_id available_resources) (\<lambda>n.
             Inr (AList.update node_id n updated))))"

definition merge_absent_node ::
  "nodes \<Rightarrow> (string \<times> rat) list \<Rightarrow> string \<times> dict \<Rightarrow> nodes \<Rightarrow> nodes res" where
  "merge_absent_node live_nodes allocated node updated =
     (if dhas live_nodes (fst node) then Inr updated
      else rbind (apply_scheduler_capacity (snd node) (dget allocated (fst node) 0)) (\<lambda>n.
        Inr (AList.update (fst node) n updated)))"

definition merge_live_nodes :: "fcfs \<Rightarrow> nodes \<Rightarrow> dict \<Rightarrow> nodes res" where
  "merge_live_nodes self live_nodes available_resources =
     rbind (allocated_gpu_by_node_unlocked self) (\<lambda>allocated.
     rbind (rfold (merge_live_node self allocated available_resources) live_nodes (fs_worker_nodes self))
       (\<lambda>updated. rfold (merge_absent_node live_nodes allocated) updated updated))"

definition commit_worker_nodes :: "nodes \<Rightarrow> dict list \<Rightarrow> fcfs \<Rightarrow> (fcfs \<times> nodes) res" where
  "commit_worker_nodes merged rows self =
     rbind (merge_backend_runtime_metadata (fs_scheduler_config self) merged rows) (\<lambda>updated.
     Inr (self\<lparr>fs_worker_nodes := updated\<rparr>, updated))"

text \<open>A refresh that is not interrupted; \<open>live_nodes\<close> is what \<open>live_worker_nodes\<close> returned.\<close>

definition get_worker_nodes :: "nodes \<Rightarrow> dict \<Rightarrow> dict list \<Rightarrow> fcfs \<Rightarrow> (fcfs \<times> nodes) res" where
  "get_worker_nodes live_nodes available_resources rows self =
     rbind (merge_live_nodes self live_nodes available_resources) (\<lambda>merged.
     commit_worker_nodes merged rows self)"

definition update_worker_nodes :: "nodes \<Rightarrow> fcfs \<Rightarrow> fcfs res" where
  "update_worker_nodes worker_nodes self =
     rbind (rfold (\<lambda>(node_id, node_info) updated.
       case map_of updated node_id of
         None \<Rightarrow> Inr updated
       | Some current \<Rightarrow>
           rbind (ensure_node_metadata (fs_scheduler_config self) node_info (Some node_id)) (\<lambda>n.
           rbind (dindex (fs_worker_nodes self) node_id) (\<lambda>previous.
           rbind (preserve_spot_metadata (fs_scheduler_config self)
                    (AList.update ''state'' (node_state current) n) previous node_id) (\<lambda>n.
           Inr (AList.update node_id n updated))))) worker_nodes (fs_worker_nodes self))
       (\<lambda>updated. Inr (self\<lparr>fs_worker_nodes := updated\<rparr>))"

section \<open>The control loop\<close>

type_synonym queued = "string \<times> nat \<times> loading_request"

definition collect_loading_requests :: "fcfs \<Rightarrow> queued list" where
  "collect_loading_requests self =
     concat (map (\<lambda>(model_name, queue). map (\<lambda>(idx, r). (model_name, idx, r)) (enumerate 0 queue))
       (fs_model_loading_queues self))"

definition grant :: "string \<Rightarrow> loading_request \<Rightarrow> string \<Rightarrow> fcfs \<Rightarrow> fcfs" where
  "grant model_name r node_id self =
     self\<lparr>fs_model_loading_queues :=
            AList.update model_name (remove1 r (dget (fs_model_loading_queues self) model_name []))
              (fs_model_loading_queues self),
          fs_results := (fs_results self)[lr_allocation_result r := Granted node_id]\<rparr>"

fun try_nodes ::
  "string \<Rightarrow> loading_request \<Rightarrow> string list \<Rightarrow> nodes \<times> fcfs \<Rightarrow> (nodes \<times> fcfs) res" where
  "try_nodes model_name r [] (worker_nodes, self) = Inr (worker_nodes, self)"
| "try_nodes model_name r (node_id # rest) (worker_nodes, self) =
     (case map_of worker_nodes node_id of
        None \<Rightarrow> Inl (KeyError node_id)
      | Some node_info \<Rightarrow>
          if lr_target_node_id r \<noteq> None \<and> lr_target_node_id r \<noteq> Some node_id
          then try_nodes model_name r rest (worker_nodes, self)
          else if \<not> node_is_ready node_info then try_nodes model_name r rest (worker_nodes, self)
          else rbind (dindex node_info ''free_gpu'') (\<lambda>free.
               rbind (py_ge free (lr_num_gpus r)) (\<lambda>enough.
               if \<not> enough then try_nodes model_name r rest (worker_nodes, self)
               else if future_done self (lr_allocation_result r) then Inr (worker_nodes, self)
               else rbind (dindex (fs_model_loading_queues self) model_name) (\<lambda>queue.
                 if r \<notin> set queue then Inr (worker_nodes, self)
                 else rbind (py_sub free (lr_num_gpus r)) (\<lambda>left.
                   Inr (AList.update node_id (AList.update ''free_gpu'' left node_info) worker_nodes,
                        grant model_name r node_id self))))))"

definition serve_request :: "queued \<Rightarrow> nodes \<times> fcfs \<Rightarrow> (nodes \<times> fcfs) res" where
  "serve_request q s =
     (case (q, s) of ((model_name, _, r), (worker_nodes, self)) \<Rightarrow>
        rbind (ordered_candidate_nodes model_name (lr_num_gpus r) worker_nodes self) (\<lambda>(self, candidates).
        try_nodes model_name r candidates (worker_nodes, self)))"

definition serve_requests :: "queued list \<Rightarrow> nodes \<times> fcfs \<Rightarrow> (nodes \<times> fcfs) res" where
  "serve_requests loading_requests = rfold serve_request (sort_key (fst \<circ> snd) loading_requests)"

text \<open>The round from the return of \<open>_get_worker_nodes\<close> to the next sleep.\<close>

definition finish_round :: "queued list \<Rightarrow> nodes \<Rightarrow> fcfs \<Rightarrow> fcfs res" where
  "finish_round loading_requests worker_nodes self =
     rbind (serve_requests loading_requests (worker_nodes, self)) (\<lambda>(worker_nodes, self).
     update_worker_nodes worker_nodes self)"

definition control_round :: "nodes \<Rightarrow> dict \<Rightarrow> dict list \<Rightarrow> fcfs \<Rightarrow> fcfs res" where
  "control_round live_nodes available_resources rows self =
     (let loading_requests = collect_loading_requests self in
      if loading_requests = [] then Inr self
      else rbind (get_worker_nodes live_nodes available_resources rows self) (\<lambda>(self, worker_nodes).
        finish_round loading_requests worker_nodes self))"

definition start :: "fcfs \<Rightarrow> fcfs" where
  "start self = self\<lparr>fs_running := True\<rparr>"

definition shutdown :: "fcfs \<Rightarrow> fcfs" where
  "shutdown self =
     (if \<not> fs_running self then self else self\<lparr>fs_running := False, fs_model_loading_queues := []\<rparr>)"

section \<open>Reserving GPUs\<close>

text \<open>
  \<open>allocate_resource\<close> up to the point where it waits for its future, and from there when the
  future has been granted; a cancelled future raises there instead.
\<close>

definition request_allocation ::
  "rat \<Rightarrow> string \<Rightarrow> string \<Rightarrow> dict \<Rightarrow> string option \<Rightarrow> fcfs \<Rightarrow> fcfs \<times> loading_request" where
  "request_allocation now model_name instance_id resources target_node_id self =
     (let r = \<lparr>lr_request_time = now, lr_instance_id = instance_id,
               lr_num_gpus = dget resources ''num_gpus'' (PInt 0),
               lr_allocation_result = length (fs_results self), lr_target_node_id = target_node_id\<rparr>
      in (self\<lparr>fs_model_loading_queues :=
                 AList.update model_name (dget (fs_model_loading_queues self) model_name [] @ [r])
                   (fs_model_loading_queues self),
               fs_results := fs_results self @ [Waiting]\<rparr>, r))"

text \<open>\<open>d.setdefault(model, {})[instance] = v\<close>\<close>

definition put_instance ::
  "string \<Rightarrow> string \<Rightarrow> 'v \<Rightarrow> (string \<times> (string \<times> 'v) list) list \<Rightarrow> (string \<times> (string \<times> 'v) list) list" where
  "put_instance model_name instance_id v d =
     AList.update model_name (AList.update instance_id v (dget d model_name [])) d"

definition register_instance :: "string \<Rightarrow> string \<Rightarrow> string \<Rightarrow> dict \<Rightarrow> fcfs \<Rightarrow> fcfs" where
  "register_instance model_name instance_id node_id entry self =
     self\<lparr>fs_model_instance := put_instance model_name instance_id node_id (fs_model_instance self),
          fs_model_instance_resources :=
            put_instance model_name instance_id entry (fs_model_instance_resources self)\<rparr>"

definition finish_allocation :: "string \<Rightarrow> loading_request \<Rightarrow> fcfs \<Rightarrow> (fcfs \<times> string) res" where
  "finish_allocation model_name r self =
     (case fs_results self ! lr_allocation_result r of
        Waiting \<Rightarrow> Inl OutOfModel
      | Cancelled message \<Rightarrow> Inl (RuntimeError message)
      | Granted node_id \<Rightarrow>
          Inr (register_instance model_name (lr_instance_id r) node_id
                 [(''node_id'', PStr node_id), (''num_gpus'', lr_num_gpus r)] self, node_id))"

definition reserve_gpus :: "string \<times> int \<Rightarrow> nodes \<Rightarrow> nodes res" where
  "reserve_gpus allocation worker_nodes =
     rbind (dindex worker_nodes (fst allocation)) (\<lambda>node.
     rbind (float_or_zero node ''free_gpu'') (\<lambda>free.
     Inr (AList.update (fst allocation)
       (AList.update ''free_gpu'' (PFloat (max 0 (free - of_int (snd allocation)))) node) worker_nodes)))"

definition of_allocations :: "(string \<times> int) list \<Rightarrow> pyval" where
  "of_allocations allocations = PDict (map (\<lambda>(n, count). (n, PInt count)) allocations)"

definition requested_count :: "dict \<Rightarrow> int res" where
  "requested_count resources =
     except_tv (int_or_zero resources ''num_gpus'') (Inl (ValueError ''num_gpus must be an integer''))"

text \<open>The reservation after the refresh, and the whole operation.\<close>

definition reserve_distributed ::
  "string \<Rightarrow> string \<Rightarrow> int \<Rightarrow> string list \<Rightarrow> bool \<Rightarrow> fcfs \<Rightarrow> (fcfs \<times> (string \<times> int) list) res" where
  "reserve_distributed model_name instance_id requested_gpus target_node_ids require_all self =
     rbind (distributed_gpu_allocation (fs_worker_nodes self) target_node_ids requested_gpus require_all)
       (\<lambda>allocations.
     rbind (rfold reserve_gpus allocations (fs_worker_nodes self)) (\<lambda>worker_nodes.
     let primary = fst (hd allocations) in
     Inr (register_instance model_name instance_id primary
            [(''node_id'', PStr primary), (''num_gpus'', PInt requested_gpus),
             (''node_allocations'', of_allocations allocations), (''distributed'', PBool True)]
            (self\<lparr>fs_worker_nodes := worker_nodes\<rparr>), allocations)))"

definition allocate_distributed_resource ::
  "nodes \<Rightarrow> dict \<Rightarrow> dict list \<Rightarrow> string \<Rightarrow> string \<Rightarrow> dict \<Rightarrow> string list \<Rightarrow> bool \<Rightarrow> fcfs
   \<Rightarrow> (fcfs \<times> (string \<times> int) list) res" where
  "allocate_distributed_resource live_nodes available_resources rows model_name instance_id resources
     target_node_ids require_all self =
     rbind (requested_count resources) (\<lambda>requested_gpus.
     rbind (get_worker_nodes live_nodes available_resources rows self) (\<lambda>(self, _).
     reserve_distributed model_name instance_id requested_gpus target_node_ids require_all self))"

section \<open>Releasing GPUs\<close>

text \<open>Releasing never lifts a node above its total.\<close>

definition release_on_node :: "rat \<Rightarrow> dict \<Rightarrow> dict res" where
  "release_on_node gpus node =
     rbind (float_or_zero node ''total_gpu'') (\<lambda>total_gpus.
     rbind (float_or_zero node ''free_gpu'') (\<lambda>free.
     Inr (AList.update ''free_gpu'' (PFloat (min total_gpus (free + gpus))) node)))"

definition release_allocation :: "string \<times> pyval \<Rightarrow> nodes \<Rightarrow> nodes res" where
  "release_allocation entry worker_nodes =
     (case map_of worker_nodes (fst entry) of
        None \<Rightarrow> Inr worker_nodes
      | Some node \<Rightarrow>
          rbind (py_float (por (snd entry) (PInt 0))) (\<lambda>gpus.
          rbind (release_on_node gpus node) (\<lambda>node.
          Inr (AList.update (fst entry) node worker_nodes))))"

text \<open>\<open>d[model].pop(instance)\<close>, dropping the model when nothing is left.\<close>

definition pop_instance ::
  "string \<Rightarrow> string \<Rightarrow> (string \<times> (string \<times> 'v) list) list \<Rightarrow> (string \<times> (string \<times> 'v) list) list" where
  "pop_instance model_name instance_id d =
     (let rest = AList.delete instance_id (dget d model_name []) in
      if rest = [] then AList.delete model_name d
      else AList.update model_name rest d)"

definition deallocate_resource :: "string \<Rightarrow> string \<Rightarrow> dict \<Rightarrow> fcfs \<Rightarrow> fcfs res" where
  "deallocate_resource model_name instance_id resources self =
     (case map_of (dget (fs_model_instance self) model_name []) instance_id of
        None \<Rightarrow> Inr self
      | Some node_id \<Rightarrow>
          let entry = dget (dget (fs_model_instance_resources self) model_name []) instance_id [];
              requested = dget resources ''num_gpus'' (PInt 0);
              popped = self\<lparr>fs_model_instance := pop_instance model_name instance_id (fs_model_instance self),
                fs_model_instance_resources :=
                  pop_instance model_name instance_id (fs_model_instance_resources self)\<rparr>
          in rbind (except_tv (rbind (py_float (dget entry ''num_gpus'' requested)) (\<lambda>g. Inr (PFloat g)))
                      (Inr requested)) (\<lambda>num_gpus.
             case distributed_entry entry of
               Some node_allocations \<Rightarrow>
                 rbind (rfold release_allocation node_allocations (fs_worker_nodes self)) (\<lambda>worker_nodes.
                 Inr (popped\<lparr>fs_worker_nodes := worker_nodes\<rparr>))
             | None \<Rightarrow>
                 (case map_of (fs_worker_nodes self) node_id of
                    None \<Rightarrow> Inr popped
                  | Some node \<Rightarrow>
                      rbind (dindex node ''free_gpu'') (\<lambda>free.
                      rbind (py_add free num_gpus) (\<lambda>free.
                      Inr (popped\<lparr>fs_worker_nodes :=
                        AList.update node_id (AList.update ''free_gpu'' free node) (fs_worker_nodes self)\<rparr>))))))"

definition resize_resource :: "string \<Rightarrow> string \<Rightarrow> dict \<Rightarrow> fcfs \<Rightarrow> fcfs res" where
  "resize_resource model_name instance_id resources self =
     rbind (except_tv (float_or_zero resources ''num_gpus'') (Inl (ValueError ''num_gpus must be numeric'')))
       (\<lambda>requested.
     if requested < 0 then Inl (ValueError ''num_gpus must be non-negative'')
     else case map_of (dget (fs_model_instance_resources self) model_name []) instance_id of
       None \<Rightarrow> Inl (ValueError (''Allocation '' @ model_name @ ''/'' @ instance_id @ '' not found''))
     | Some allocation \<Rightarrow>
         rbind (dindex allocation ''node_id'') (\<lambda>node_id.
         case map_of (fs_worker_nodes self) (py_str node_id) of
           None \<Rightarrow> Inl (ValueError (''Node '' @ py_str node_id @ '' not found''))
         | Some node \<Rightarrow>
             rbind (float_or_zero allocation ''num_gpus'') (\<lambda>current.
             rbind (float_or_zero node ''free_gpu'') (\<lambda>available.
             let delta = requested - current in
             if available < delta
             then Inl (RuntimeError ''insufficient_capacity_for_resource_resize'')
             else Inr (self\<lparr>fs_worker_nodes := AList.update (py_str node_id)
                         (AList.update ''free_gpu'' (PFloat (available - delta)) node) (fs_worker_nodes self),
                       fs_model_instance_resources := put_instance model_name instance_id
                         (AList.update ''num_gpus'' (PFloat requested) allocation)
                         (fs_model_instance_resources self)\<rparr>)))))"

section \<open>Deleting a model\<close>

definition cancel_pending :: "string \<Rightarrow> loading_request list \<Rightarrow> fcfs \<Rightarrow> fcfs \<times> nat" where
  "cancel_pending model_name pending self =
     (let open = filter (\<lambda>r. \<not> future_done self (lr_allocation_result r)) pending;
          message = ''Allocation cancelled for deleted model '' @ model_name
      in (self\<lparr>fs_results := fold (\<lambda>r results. results[lr_allocation_result r := Cancelled message])
            open (fs_results self)\<rparr>, length open))"

definition release_instance ::
  "(string \<times> dict) list \<Rightarrow> string \<times> string \<Rightarrow> nodes \<Rightarrow> nodes res" where
  "release_instance resource_entries inst worker_nodes =
     (case inst of (instance_id, node_id) \<Rightarrow>
        let entry = dget resource_entries instance_id [] in
        case distributed_entry entry of
          Some node_allocations \<Rightarrow> rfold release_allocation node_allocations worker_nodes
        | None \<Rightarrow>
            rbind (except_tv (py_float (dget entry ''num_gpus'' (PFloat 1))) (Inr 1)) (\<lambda>num_gpus.
            case map_of worker_nodes node_id of
              None \<Rightarrow> Inr worker_nodes
            | Some node \<Rightarrow>
                rbind (release_on_node num_gpus node) (\<lambda>node. Inr (AList.update node_id node worker_nodes))))"

definition clear_model :: "string \<Rightarrow> fcfs \<Rightarrow> (fcfs \<times> nat \<times> nat) res" where
  "clear_model model_name self =
     (let (self, cleared_pending) =
            cancel_pending model_name (dget (fs_model_loading_queues self) model_name []) self;
          instances = dget (fs_model_instance self) model_name [];
          entries = dget (fs_model_instance_resources self) model_name []
      in rbind (rfold (release_instance entries) instances (fs_worker_nodes self)) (\<lambda>worker_nodes.
         Inr (self\<lparr>fs_model_loading_queues := AList.delete model_name (fs_model_loading_queues self),
                   fs_model_instance := AList.delete model_name (fs_model_instance self),
                   fs_model_instance_resources := AList.delete model_name (fs_model_instance_resources self),
                   fs_worker_nodes := worker_nodes\<rparr>, cleared_pending, length instances)))"

end
