(* ===== verification/Fcfs_Allocation_Props.thy ===== *)
theory Fcfs_Allocation_Props
  imports Fcfs_Control Gpu_Cluster_Props
begin

text \<open>
  Properties of the scheduler's reservations: distributed allocations use exactly the requested
  GPUs of ready target nodes and are refused exactly when these do not have them, releasing undoes
  reserving, and the ranking by spot risk offers the best fitting node first.
\<close>

section \<open>Distributed allocation\<close>

lemma sum_dget_update:
  assumes "finite K" and "k \<in> K"
  shows "(\<Sum>n\<in>K. dget (AList.update k v d) n 0) = (\<Sum>n\<in>K. dget d n 0) - dget d k 0 + (v::int)"
  using assms by (simp add: sum.remove dget_update cong: if_cong)

lemma assign_gpus_spec:
  assumes "assign_gpus capacity ns al remaining = (al', remaining')"
    and "distinct ns" and "finite K" and "set ns \<subseteq> K" and "0 \<le> remaining"
    and "\<forall>n \<in> K. 0 \<le> dget al n 0 \<and> dget al n 0 \<le> capacity n"
  shows "(\<forall>n \<in> K. dget al n 0 \<le> dget al' n 0 \<and> dget al' n 0 \<le> capacity n)
    \<and> (\<Sum>n\<in>K. dget al' n 0) + remaining' = (\<Sum>n\<in>K. dget al n 0) + remaining
    \<and> 0 \<le> remaining' \<and> (0 < remaining' \<longrightarrow> (\<forall>n \<in> set ns. dget al' n 0 = capacity n))
    \<and> (\<forall>n. n \<notin> set ns \<longrightarrow> dget al' n 0 = dget al n 0)"
  using assms
proof (induction capacity ns al remaining arbitrary: rule: assign_gpus.induct)
  case (1 capacity al remaining)
  then show ?case by auto
next
  case (2 capacity n rest al remaining)
  show ?case
  proof (cases "remaining \<le> 0")
    case True
    then show ?thesis using "2.prems" by auto
  next
    case False
    define taken where "taken = dget al n 0"
    define assigned where "assigned = min (capacity n - taken) remaining"
    let ?al = "AList.update n (taken + assigned) al"
    have nK: "n \<in> K" using "2.prems"(4) by simp
    have a: "0 \<le> assigned" "taken + assigned \<le> capacity n" "assigned \<le> remaining" "0 \<le> taken"
      using "2.prems"(6) nK False by (auto simp: assigned_def taken_def)
    have run: "assign_gpus capacity rest ?al (remaining - assigned) = (al', remaining')"
      using "2.prems"(1) False by (simp add: Let_def taken_def assigned_def)
    have IH: "(\<forall>n \<in> K. dget ?al n 0 \<le> dget al' n 0 \<and> dget al' n 0 \<le> capacity n)
      \<and> (\<Sum>n\<in>K. dget al' n 0) + remaining' = (\<Sum>n\<in>K. dget ?al n 0) + (remaining - assigned)
      \<and> 0 \<le> remaining' \<and> (0 < remaining' \<longrightarrow> (\<forall>n \<in> set rest. dget al' n 0 = capacity n))
      \<and> (\<forall>n. n \<notin> set rest \<longrightarrow> dget al' n 0 = dget ?al n 0)"
      using "2.IH" [OF False refl refl _ _ "2.prems"(3)] run "2.prems" a
      by (simp add: taken_def assigned_def dget_update)
    have sum: "(\<Sum>n\<in>K. dget ?al n 0) = (\<Sum>n\<in>K. dget al n 0) + assigned"
      using sum_dget_update [OF "2.prems"(3) nK] by (simp add: taken_def)
    have bounds: "m \<in> K \<Longrightarrow> dget ?al m 0 \<le> dget al' m 0" "m \<in> K \<Longrightarrow> dget al' m 0 \<le> capacity m"
      and total: "(\<Sum>n\<in>K. dget al' n 0) + remaining' = (\<Sum>n\<in>K. dget ?al n 0) + (remaining - assigned)"
      and rest: "0 \<le> remaining'" "0 < remaining' \<Longrightarrow> m \<in> set rest \<Longrightarrow> dget al' m 0 = capacity m"
        "m \<notin> set rest \<Longrightarrow> dget al' m 0 = dget ?al m 0" for m
      using IH by blast+
    have last: "dget al' n 0 = taken + assigned"
      using rest(3) [of n] "2.prems"(2) by (simp add: dget_update)
    have full: "taken + assigned = capacity n" if r: "0 < remaining'"
    proof -
      have "(\<Sum>n\<in>K. dget ?al n 0) \<le> (\<Sum>n\<in>K. dget al' n 0)" using bounds(1) by (intro sum_mono) simp
      then have "remaining' \<le> remaining - assigned" using total by linarith
      then show ?thesis using r by (simp add: assigned_def min_def split: if_splits)
    qed
    have mono: "dget al m 0 \<le> dget al' m 0" if "m \<in> K" for m
      using bounds(1) [OF that] a(1) by (cases "m = n") (simp_all add: dget_update taken_def)
    have others: "dget al' m 0 = dget al m 0" if "m \<notin> set (n # rest)" for m
      using rest(3) [of m] that by (simp add: dget_update)
    have "dget al' m 0 = capacity m" if "0 < remaining'" "m \<in> set (n # rest)" for m
      using rest(2) [of m] last full that by auto
    then show ?thesis using bounds(2) total sum mono others rest(1) by simp
  qed
qed

lemma assign_gpus_keys:
  "assign_gpus capacity ns al remaining = (al', remaining') \<Longrightarrow> set ns \<subseteq> fst ` set al \<Longrightarrow>
   map fst al' = map fst al"
proof (induction capacity ns al remaining rule: assign_gpus.induct)
  case (1 capacity al remaining)
  then show ?case by simp
next
  case (2 capacity n rest al remaining)
  have keys: "map fst (AList.update n v al) = map fst al" for v
    using "2.prems"(2) by (simp add: update_keys)
  then have "fst ` set (AList.update n v al) = fst ` set al" for v by (metis set_map)
  then show ?case using 2 keys by (auto simp: Let_def split: if_splits)
qed

lemma sum_snd_dget:
  "distinct (map fst al) \<Longrightarrow> sum_list (map snd al) = (\<Sum>n \<in> fst ` set al. dget al n (0::int))"
proof (induction al)
  case Nil
  then show ?case by simp
next
  case (Cons p al)
  obtain k v where p: "p = (k, v)" by (cases p)
  have fresh: "k \<notin> fst ` set al" using Cons.prems by (auto simp: p)
  have "(\<Sum>n \<in> fst ` set al. dget (p # al) n 0) = (\<Sum>n \<in> fst ` set al. dget al n 0)"
    by (rule sum.cong) (use fresh in \<open>auto simp: p dget_def\<close>)
  then show ?case using Cons fresh by (simp add: p dget_def)
qed

lemma sum_snd_positive:
  "\<forall>(n, c) \<in> set al. 0 \<le> c \<Longrightarrow>
   sum_list (map snd (filter (\<lambda>(_, c). 0 < c) al)) = sum_list (map snd al :: int list)"
  by (induction al) auto

lemma dget_eq_snd: "distinct (map fst al) \<Longrightarrow> (n, c) \<in> set al \<Longrightarrow> dget al n z = c"
  by (simp add: dget_def)

definition capacity_of :: "nodes \<Rightarrow> bool \<Rightarrow> string list \<Rightarrow> (string \<times> int) list res" where
  "capacity_of worker_nodes require_all target_node_ids =
     rbind (rmap (target_capacity worker_nodes require_all) (py_unique target_node_ids)) (\<lambda>caps.
     Inr (zip (py_unique target_node_ids) caps))"

lemma capacity_of_Inr:
  assumes "capacity_of worker_nodes require_all target_node_ids = Inr caps"
  shows "map fst caps = py_unique target_node_ids"
    and "n \<in> set target_node_ids \<Longrightarrow> target_capacity worker_nodes require_all n = Inr (dget caps n 0)"
proof -
  obtain cs where cs: "rmap (target_capacity worker_nodes require_all) (py_unique target_node_ids) = Inr cs"
    and caps: "caps = zip (py_unique target_node_ids) cs"
    using assms by (auto simp: capacity_of_def)
  note len = rmap_Inr_length [OF cs]
  then show keys: "map fst caps = py_unique target_node_ids" by (simp add: caps)
  show "target_capacity worker_nodes require_all n = Inr (dget caps n 0)" if "n \<in> set target_node_ids"
  proof -
    have "n \<in> set (py_unique target_node_ids)" using that by simp
    then obtain i where i: "i < length (py_unique target_node_ids)" "py_unique target_node_ids ! i = n"
      unfolding in_set_conv_nth by blast
    then have "(n, cs ! i) \<in> set caps" using len by (auto simp: caps set_zip)
    then have "dget caps n 0 = cs ! i"
      by (rule dget_eq_snd [rotated]) (simp add: keys)
    then show ?thesis using rmap_Inr_nth [OF cs i(1)] i(2) by simp
  qed
qed

lemma target_capacity_nonneg: "target_capacity worker_nodes require_all n = Inr c \<Longrightarrow> 0 \<le> c"
  by (auto simp: target_capacity_def split: option.splits if_splits)

lemma target_capacity_free:
  assumes "target_capacity worker_nodes require_all n = Inr c" and "0 < c"
  shows "\<exists>node free. map_of worker_nodes n = Some node \<and> node_is_ready node
    \<and> float_or_zero node ''free_gpu'' = Inr free \<and> of_int c \<le> free"
proof -
  from assms obtain node free where node: "map_of worker_nodes n = Some node" "node_is_ready node"
    and free: "float_or_zero node ''free_gpu'' = Inr free" "c = max 0 (rat_trunc free)"
    by (auto simp: target_capacity_def node_is_ready_def split: option.splits if_splits)
  have "0 < rat_trunc free" using assms(2) free(2) by simp
  then have "0 \<le> free" by (auto simp: rat_trunc_def split: if_splits)
  then have "of_int c \<le> free" using free(2) rat_trunc_le rat_trunc_nonneg by simp
  with node free(1) show ?thesis by blast
qed

text \<open>The loop on capacities that are known, as the code runs it after its checks.\<close>

definition run_assignment ::
  "(string \<times> int) list \<Rightarrow> int \<Rightarrow> bool \<Rightarrow> (string \<times> int) list \<times> int" where
  "run_assignment caps requested_gpus require_all =
     (let start = (if require_all then 1 else 0) in
      assign_gpus (\<lambda>n. dget caps n 0) (sort_key (\<lambda>n. (- (dget caps n 0 - start), n)) (map fst caps))
        (map (\<lambda>n. (n, start)) (map fst caps)) (requested_gpus - start * int (length caps)))"

lemma distributed_gpu_allocation_eq:
  assumes "capacity_of worker_nodes require_all target_node_ids = Inr caps"
  shows "distributed_gpu_allocation worker_nodes target_node_ids requested_gpus require_all = Inr al \<longleftrightarrow>
    0 < requested_gpus \<and> target_node_ids \<noteq> []
    \<and> (require_all \<longrightarrow> int (length caps) \<le> requested_gpus \<and> (\<forall>n \<in> set target_node_ids. 1 \<le> dget caps n 0))
    \<and> snd (run_assignment caps requested_gpus require_all) = 0
    \<and> al = filter (\<lambda>(_, count). 0 < count) (fst (run_assignment caps requested_gpus require_all))"
proof -
  obtain cs where cs: "rmap (target_capacity worker_nodes require_all) (py_unique target_node_ids) = Inr cs"
    and caps: "caps = zip (py_unique target_node_ids) cs"
    using assms by (auto simp: capacity_of_def)
  note keys = capacity_of_Inr(1) [OF assms]
  have len: "length caps = length (py_unique target_node_ids)" using arg_cong [OF keys, of length] by simp
  have unavailable: "filter (\<lambda>n. dget caps n 0 < 1) (py_unique target_node_ids) = []
      \<longleftrightarrow> (\<forall>n \<in> set target_node_ids. 1 \<le> dget caps n 0)"
    by (simp add: filter_empty_conv not_less)
  show ?thesis
    unfolding distributed_gpu_allocation_def Let_def run_assignment_def cs rbind.simps caps [symmetric]
      keys len case_prod_beta
    by (cases require_all) (auto simp: unavailable)
qed

lemma run_assignment_spec:
  assumes "capacity_of worker_nodes require_all target_node_ids = Inr caps"
    and "require_all \<longrightarrow> int (length caps) \<le> requested_gpus \<and> (\<forall>n \<in> set target_node_ids. 1 \<le> dget caps n 0)"
    and "0 \<le> requested_gpus"
    and "run_assignment caps requested_gpus require_all = (al, remaining)"
  shows "map fst al = map fst caps"
    and "n \<in> set target_node_ids \<Longrightarrow> (if require_all then 1 else 0) \<le> dget al n 0 \<and> dget al n 0 \<le> dget caps n 0"
    and "sum_list (map snd al) + remaining = requested_gpus"
    and "0 \<le> remaining" and "remaining = 0 \<longleftrightarrow> requested_gpus \<le> sum_list (map snd caps)"
proof -
  let ?s = "if require_all then 1 else 0 :: int"
  let ?ns = "map fst caps" let ?K = "set target_node_ids"
  let ?al = "map (\<lambda>n. (n, ?s)) ?ns"
  note keys = capacity_of_Inr(1) [OF assms(1)]
  have K: "fst ` set caps = ?K" using keys by (metis set_map set_py_unique)
  have dist: "distinct ?ns" by (simp add: keys)
  have start: "dget ?al n 0 = ?s" if "n \<in> ?K" for n
    by (rule dget_eq_snd) (use dist that in \<open>auto simp: comp_def K [symmetric]\<close>)
  have run: "assign_gpus (\<lambda>n. dget caps n 0) (sort_key (\<lambda>n. (- (dget caps n 0 - ?s), n)) ?ns) ?al
      (requested_gpus - ?s * int (length caps)) = (al, remaining)"
    using assms(4) by (simp add: run_assignment_def Let_def)
  show keys': "map fst al = map fst caps"
    using assign_gpus_keys [OF run] by (simp add: comp_def image_image)
  have cap: "0 \<le> ?s \<and> ?s \<le> dget caps n 0" if "n \<in> ?K" for n
    using assms(2) target_capacity_nonneg [OF capacity_of_Inr(2) [OF assms(1) that]] that by auto
  have rem: "0 \<le> requested_gpus - ?s * int (length caps)" using assms(2,3) by auto
  have sub: "set (sort_key (\<lambda>n. (- (dget caps n 0 - ?s), n)) ?ns) \<subseteq> ?K" by (simp add: K)
  note spec = assign_gpus_spec [OF run _ finite_set sub rem, simplified distinct_sort, OF dist]
  have inv: "\<forall>n \<in> ?K. 0 \<le> dget ?al n 0 \<and> dget ?al n 0 \<le> dget caps n 0" using start cap by simp
  note spec = spec [OF inv]
  show bounds: "?s \<le> dget al n 0 \<and> dget al n 0 \<le> dget caps n 0" if "n \<in> ?K" for n
    using spec start [OF that] that by auto
  show "0 \<le> remaining" using spec by blast
  have dal: "distinct (map fst al)" using keys' dist by simp
  have Kal: "fst ` set al = ?K" using keys' K by (metis set_map)
  have card: "card ?K = length caps" using dist K by (metis distinct_card length_map set_map)
  have "(\<Sum>n\<in>?K. dget ?al n 0) = ?s * int (length caps)"
    using start card by (simp add: sum.cong [OF refl start])
  then show total: "sum_list (map snd al) + remaining = requested_gpus"
    using spec sum_snd_dget [OF dal] Kal by simp
  have caps_sum: "sum_list (map snd caps) = (\<Sum>n\<in>?K. dget caps n 0)"
    using sum_snd_dget [OF dist] K by simp
  have al_sum: "sum_list (map snd al) = (\<Sum>n\<in>?K. dget al n 0)" using sum_snd_dget [OF dal] Kal by simp
  have le: "sum_list (map snd al) \<le> sum_list (map snd caps)"
    unfolding caps_sum al_sum by (rule sum_mono) (use bounds in blast)
  have "0 < remaining \<Longrightarrow> sum_list (map snd al) = sum_list (map snd caps)"
    unfolding caps_sum al_sum by (rule sum.cong) (use spec K in \<open>auto\<close>)
  then show "remaining = 0 \<longleftrightarrow> requested_gpus \<le> sum_list (map snd caps)"
    using le total \<open>0 \<le> remaining\<close> by linarith
qed

lemma allocation_capacities:
  assumes "distributed_gpu_allocation worker_nodes target_node_ids requested_gpus require_all = Inr al"
  obtains caps where "capacity_of worker_nodes require_all target_node_ids = Inr caps"
proof -
  have "\<exists>cs. rmap (target_capacity worker_nodes require_all) (py_unique target_node_ids) = Inr cs"
    using assms unfolding distributed_gpu_allocation_def Let_def
    by (cases "rmap (target_capacity worker_nodes require_all) (py_unique target_node_ids)")
      (auto split: if_splits)
  with that show thesis by (auto simp: capacity_of_def)
qed

lemma allocation_exact:
  assumes "distributed_gpu_allocation worker_nodes target_node_ids requested_gpus require_all = Inr al"
  shows "distinct (map fst al) \<and> sum_list (map snd al) = requested_gpus
    \<and> (\<forall>(n, count) \<in> set al. n \<in> set target_node_ids \<and> 0 < count
        \<and> (\<exists>node free. map_of worker_nodes n = Some node \<and> node_is_ready node
             \<and> float_or_zero node ''free_gpu'' = Inr free \<and> of_int count \<le> free))
    \<and> (require_all \<longrightarrow> fst ` set al = set target_node_ids)"
proof -
  obtain caps where caps: "capacity_of worker_nodes require_all target_node_ids = Inr caps"
    using allocation_capacities [OF assms] .
  obtain full remaining where run: "run_assignment caps requested_gpus require_all = (full, remaining)"
    by fastforce
  from assms [unfolded distributed_gpu_allocation_eq [OF caps] run]
  have pos: "0 < requested_gpus" and none_left: "remaining = 0" and al: "al = filter (\<lambda>(_, count). 0 < count) full"
    and all: "require_all \<longrightarrow> int (length caps) \<le> requested_gpus \<and> (\<forall>n \<in> set target_node_ids. 1 \<le> dget caps n 0)"
    by auto
  note spec = run_assignment_spec [OF caps all less_imp_le [OF pos] run]
  have keys: "map fst full = py_unique target_node_ids" using spec(1) capacity_of_Inr(1) [OF caps] by simp
  then have dist: "distinct (map fst full)" and K: "fst ` set full = set target_node_ids"
    by (simp, metis keys set_map set_py_unique)
  have bounds: "n \<in> set target_node_ids \<and> c = dget full n 0 \<and> (if require_all then 1 else 0) \<le> c \<and> c \<le> dget caps n 0"
    if "(n, c) \<in> set full" for n c
  proof -
    have "n \<in> set target_node_ids" using that K by force
    with spec(2) [OF this] dget_eq_snd [OF dist that] show ?thesis by auto
  qed
  then have nonneg: "\<forall>(n, c) \<in> set full. 0 \<le> c" by (force split: if_splits)
  have free: "\<exists>node free. map_of worker_nodes n = Some node \<and> node_is_ready node
      \<and> float_or_zero node ''free_gpu'' = Inr free \<and> of_int c \<le> free" if "(n, c) \<in> set full" "0 < c" for n c
  proof -
    from bounds [OF that(1)] have n: "n \<in> set target_node_ids" and c: "c \<le> dget caps n 0" by auto
    from target_capacity_free [OF capacity_of_Inr(2) [OF caps n]] that(2) c
    obtain node free where "map_of worker_nodes n = Some node" "node_is_ready node"
      "float_or_zero node ''free_gpu'' = Inr free" "of_int (dget caps n 0) \<le> free" by auto
    with c show ?thesis by (meson of_int_le_iff order_trans)
  qed
  have "sum_list (map snd al) = requested_gpus"
    using sum_snd_positive [OF nonneg] spec(3) none_left by (simp add: al)
  moreover have "require_all \<Longrightarrow> filter (\<lambda>(_, count). 0 < count) full = full"
    by (rule filter_True) (use bounds in force)
  ultimately show ?thesis
    using dist K bounds free by (auto simp: al distinct_map_filter)
qed

lemma allocation_facts:
  assumes "distributed_gpu_allocation worker_nodes target_node_ids requested_gpus require_all = Inr al"
  shows "distinct (map fst al)" and "al \<noteq> []"
    and "map_of al n = Some c \<Longrightarrow> map_of worker_nodes n = Some node \<Longrightarrow>
      \<exists>free. float_or_zero node ''free_gpu'' = Inr free \<and> of_int c \<le> free"
    and "(n, c) \<in> set al \<Longrightarrow> 0 < c"
proof -
  note exact = allocation_exact [OF assms]
  show "(n, c) \<in> set al \<Longrightarrow> 0 < c" using exact by blast
  show "distinct (map fst al)" using exact by blast
  have "0 < requested_gpus"
    using assms by (auto simp: distributed_gpu_allocation_def Let_def split: if_splits)
  then show "al \<noteq> []" using exact by auto
  show "\<exists>free. float_or_zero node ''free_gpu'' = Inr free \<and> of_int c \<le> free"
    if "map_of al n = Some c" "map_of worker_nodes n = Some node"
    using exact map_of_SomeD [OF that(1)] that(2) by fastforce
qed

text \<open>
  C9. A distributed allocation hands out exactly the requested number of GPUs: every node in it
  is one of the targets, occurs once, is ready and has the GPUs it gives free, and when all
  targets are required each of them takes part.
\<close>

theorem distributed_allocation_exact:
  assumes "distributed_gpu_allocation worker_nodes target_node_ids requested_gpus require_all = Inr al"
  shows "distinct (map fst al) \<and> sum_list (map snd al) = requested_gpus
    \<and> (\<forall>(n, count) \<in> set al. n \<in> set target_node_ids \<and> 0 < count
        \<and> (\<exists>node free. map_of worker_nodes n = Some node \<and> node_is_ready node
             \<and> float_or_zero node ''free_gpu'' = Inr free \<and> of_int count \<le> free))
    \<and> (require_all \<longrightarrow> fst ` set al = set target_node_ids)"
  by (rule allocation_exact [OF assms])

text \<open>
  With the capacities of the targets known, an allocation is granted exactly when GPUs were
  requested on at least one target, the targets have them in total and, when all targets are
  required, each can give one of at least as many requested.
\<close>

theorem distributed_allocation_granted_iff:
  assumes "rmap (target_capacity worker_nodes require_all) (py_unique target_node_ids) = Inr caps"
  shows "(\<exists>al. distributed_gpu_allocation worker_nodes target_node_ids requested_gpus require_all = Inr al)
    \<longleftrightarrow> 0 < requested_gpus \<and> target_node_ids \<noteq> [] \<and> requested_gpus \<le> sum_list caps
      \<and> (require_all \<longrightarrow> int (length caps) \<le> requested_gpus \<and> (\<forall>c \<in> set caps. 1 \<le> c))"
proof -
  let ?caps = "zip (py_unique target_node_ids) caps"
  have caps: "capacity_of worker_nodes require_all target_node_ids = Inr ?caps"
    using assms by (simp add: capacity_of_def)
  have len: "length caps = length (py_unique target_node_ids)" by (rule rmap_Inr_length [OF assms])
  have snd: "map snd ?caps = caps" and len2: "length ?caps = length caps" using len by simp_all
  have dist: "distinct (map fst ?caps)" and K: "fst ` set ?caps = set target_node_ids"
    using capacity_of_Inr(1) [OF caps] by (simp, metis set_map set_py_unique)
  have each: "(\<forall>n \<in> set target_node_ids. 1 \<le> dget ?caps n 0) \<longleftrightarrow> (\<forall>c \<in> set caps. 1 \<le> c)"
  proof -
    have "(\<forall>n \<in> set target_node_ids. 1 \<le> dget ?caps n 0) \<longleftrightarrow> (\<forall>p \<in> set ?caps. 1 \<le> dget ?caps (fst p) 0)"
      by (simp add: K [symmetric])
    also have "\<dots> \<longleftrightarrow> (\<forall>p \<in> set ?caps. 1 \<le> snd p)"
      by (rule ball_cong) (auto simp: dget_eq_snd [OF dist])
    also have "\<dots> \<longleftrightarrow> (\<forall>c \<in> set (map snd ?caps). 1 \<le> c)" by auto
    finally show ?thesis unfolding snd .
  qed
  obtain full remaining where run: "run_assignment ?caps requested_gpus require_all = (full, remaining)"
    by fastforce
  show ?thesis
    unfolding distributed_gpu_allocation_eq [OF caps] run each len2
    using run_assignment_spec(5) [OF caps _ _ run] each len2
    by (auto simp: snd)
qed

section \<open>Releasing a distributed allocation\<close>

definition sound_node :: "dict \<Rightarrow> bool" where
  "sound_node node =
     (case (float_or_zero node ''total_gpu'', float_or_zero node ''free_gpu'') of
        (Inr total_gpus, Inr free) \<Rightarrow> free \<le> total_gpus \<and> 0 \<le> total_gpus | _ \<Rightarrow> False)"

definition sound_nodes :: "nodes \<Rightarrow> bool" where
  "sound_nodes worker_nodes = list_all (\<lambda>(n, node). sound_node node) worker_nodes"

lemma sound_nodeE:
  assumes "sound_node node"
  obtains total_gpus free where "float_or_zero node ''total_gpu'' = Inr total_gpus"
    "float_or_zero node ''free_gpu'' = Inr free" "free \<le> total_gpus" "0 \<le> total_gpus"
  using assms by (auto simp: sound_node_def split: sum.splits)

lemma sound_nodes_map_of: "sound_nodes w \<Longrightarrow> map_of w n = Some node \<Longrightarrow> sound_node node"
  by (auto simp: sound_nodes_def list_all_iff dest: map_of_SomeD)

lemma sound_nodes_update: "sound_nodes w \<Longrightarrow> sound_node node \<Longrightarrow> sound_nodes (AList.update n node w)"
  by (induction w) (auto simp: sound_nodes_def)

lemma float_or_zero_PFloat: "float_or_zero (AList.update k (PFloat r) node) k = Inr r"
  by (cases "r = 0") (simp_all add: float_or_zero_def dget_update por_def)

lemma float_or_zero_other:
  "k' \<noteq> k \<Longrightarrow> float_or_zero (AList.update k v node) k' = float_or_zero node k'"
  by (simp add: float_or_zero_def dget_update)

lemma node_state_free: "node_state (AList.update ''free_gpu'' v node) = node_state node"
  by (simp add: node_state_def dget_update)

lemmas free_gpu_simps = float_or_zero_PFloat float_or_zero_other node_state_free

lemma release_allocations:
  assumes "sound_nodes w"
  shows "\<exists>w'. rfold release_allocation (map (\<lambda>(n, c). (n, PInt c)) al) w = Inr w'"
  using assms
proof (induction al arbitrary: w)
  case Nil
  then show ?case by simp
next
  case (Cons p al)
  obtain n c where p: "p = (n, c)" by (cases p)
  have gpus: "py_float (por (PInt c) (PInt 0)) = Inr (of_int c)" by (simp add: por_def)
  show ?case
  proof (cases "map_of w n")
    case None
    then show ?thesis using Cons by (simp add: p release_allocation_def)
  next
    case (Some node)
    obtain t f where tf: "float_or_zero node ''total_gpu'' = Inr t" "float_or_zero node ''free_gpu'' = Inr f" "0 \<le> t"
      using sound_nodes_map_of [OF Cons.prems Some] by (rule sound_nodeE) auto
    let ?node = "AList.update ''free_gpu'' (PFloat (min t (f + of_int c))) node"
    have "sound_node ?node" by (simp add: sound_node_def free_gpu_simps tf)
    from Cons.IH [OF sound_nodes_update [OF Cons.prems this]]
    show ?thesis by (simp add: p release_allocation_def Some gpus release_on_node_def tf)
  qed
qed

lemma reserved_pointwise:
  assumes "rfold reserve_gpus al w = Inr w'" and "distinct (map fst al)"
  shows "case map_of al n of None \<Rightarrow> map_of w' n = map_of w n
    | Some c \<Rightarrow> (\<exists>node free. map_of w n = Some node \<and> float_or_zero node ''free_gpu'' = Inr free
        \<and> map_of w' n = Some (AList.update ''free_gpu'' (PFloat (max 0 (free - of_int c))) node))"
  using assms
  by (rule rfold_pointwise) (auto simp: reserve_gpus_def dindex_def split: option.splits)

lemma released_pointwise:
  assumes "rfold release_allocation (map (\<lambda>(n, c). (n, PInt c)) al) w = Inr w'" and "distinct (map fst al)"
    and "map_of al n = Some c" and "map_of w n = Some node"
    and "float_or_zero node ''total_gpu'' = Inr t" and "float_or_zero node ''free_gpu'' = Inr f"
  shows "map_of w' n = Some (AList.update ''free_gpu'' (PFloat (min t (f + of_int c))) node)"
proof -
  let ?R = "\<lambda>k v x x'. \<forall>c node t f. v = PInt c \<longrightarrow> x = Some node \<longrightarrow> float_or_zero node ''total_gpu'' = Inr t
    \<longrightarrow> float_or_zero node ''free_gpu'' = Inr f
    \<longrightarrow> x' = Some (AList.update ''free_gpu'' (PFloat (min t (f + of_int c))) node)"
  have "case map_of (map (\<lambda>(n, c). (n, PInt c)) al) n of None \<Rightarrow> map_of w' n = map_of w n
    | Some v \<Rightarrow> ?R n v (map_of w n) (map_of w' n)"
    using assms(1)
  proof (rule rfold_pointwise)
    show "distinct (map fst (map (\<lambda>(n, c). (n, PInt c)) al))"
      using assms(2) by (simp add: comp_def case_prod_unfold)
  qed (auto simp: release_allocation_def release_on_node_def por_def split: option.splits if_splits)
  moreover have "map_of (map (\<lambda>(n, c). (n, PInt c)) al) n = Some (PInt c)"
    using assms(3) by (simp add: map_of_map)
  ultimately show ?thesis using assms(4-6) by simp
qed

lemma put_pop_instance:
  "map_of (dget (put_instance m i v d) m []) i = Some v"
  "map_of (dget (pop_instance m i d) m []) i = None"
  by (simp_all add: put_instance_def pop_instance_def dget_update Let_def)
    (simp add: dget_def delete_conv' restrict_map_def)

lemma released_others:
  assumes "rfold release_allocation (map (\<lambda>(n, c). (n, PInt c)) al) w = Inr w'"
    and "map_of (map (\<lambda>(n, c). (n, PInt c)) al) n = None"
  shows "map_of w' n = map_of w n"
proof -
  have n: "(n, c) \<notin> set al" for c using assms(2) by (force simp: map_of_eq_None_iff image_iff)
  show ?thesis
    by (rule rfold_invariant [OF assms(1), where P = "\<lambda>u. map_of u n = map_of w n"])
      (use n in \<open>auto simp: release_allocation_def split: option.splits\<close>)
qed

text \<open>
  C10. Releasing a distributed allocation undoes it: on a node table whose free GPUs are within the
  totals, the release succeeds, every node has as many free GPUs as before the allocation and is
  in the state it was in, and the instance is not registered any more.
\<close>

theorem distributed_release_restores:
  assumes "reserve_distributed model_name instance_id requested_gpus target_node_ids require_all self
      = Inr (reserved, al)"
    and "sound_nodes (fs_worker_nodes self)"
  shows "\<exists>released. deallocate_resource model_name instance_id resources reserved = Inr released
    \<and> map_of (dget (fs_model_instance released) model_name []) instance_id = None
    \<and> (\<forall>n node. map_of (fs_worker_nodes self) n = Some node \<longrightarrow>
        (\<exists>node'. map_of (fs_worker_nodes released) n = Some node'
          \<and> float_or_zero node' ''free_gpu'' = float_or_zero node ''free_gpu''
          \<and> node_state node' = node_state node))"
proof -
  let ?w = "fs_worker_nodes self" and ?entries = "map (\<lambda>(n, c). (n, PInt c)) al"
  from assms(1) obtain w' where
    al: "distributed_gpu_allocation ?w target_node_ids requested_gpus require_all = Inr al"
    and w': "rfold reserve_gpus al ?w = Inr w'"
    and reserved: "reserved = register_instance model_name instance_id (fst (hd al))
      [(''node_id'', PStr (fst (hd al))), (''num_gpus'', PInt requested_gpus),
       (''node_allocations'', of_allocations al), (''distributed'', PBool True)]
      (self\<lparr>fs_worker_nodes := w'\<rparr>)"
    by (auto simp: reserve_distributed_def Let_def)
  note exact = allocation_facts [OF al]
  note point = reserved_pointwise [OF w' exact(1)]
  have sound': "sound_nodes w'"
  proof (rule rfold_invariant [OF w', where P = sound_nodes])
    fix x u v
    assume x: "x \<in> set al" and u: "sound_nodes u" and step: "reserve_gpus x u = Inr v"
    from step obtain node free where node: "map_of u (fst x) = Some node"
      and free: "float_or_zero node ''free_gpu'' = Inr free"
      and v: "v = AList.update (fst x) (AList.update ''free_gpu'' (PFloat (max 0 (free - of_int (snd x)))) node) u"
      by (auto simp: reserve_gpus_def dindex_def split: option.splits)
    have c: "0 < snd x" using exact(4) [of "fst x" "snd x"] x by simp
    have "sound_node (AList.update ''free_gpu'' (PFloat (max 0 (free - of_int (snd x)))) node)"
      using sound_nodes_map_of [OF u node] c
      by (auto simp: sound_node_def free_gpu_simps free split: sum.splits)
    then show "sound_nodes v" unfolding v by (rule sound_nodes_update [OF u])
  qed (rule assms(2))
  obtain w'' where w'': "rfold release_allocation ?entries w' = Inr w''"
    using release_allocations [OF sound'] by blast
  let ?popped = "reserved\<lparr>fs_model_instance := pop_instance model_name instance_id (fs_model_instance reserved),
    fs_model_instance_resources := pop_instance model_name instance_id (fs_model_instance_resources reserved),
    fs_worker_nodes := w''\<rparr>"
  have run: "deallocate_resource model_name instance_id resources reserved = Inr ?popped"
    using exact(2) w''
    by (simp add: deallocate_resource_def reserved register_instance_def put_pop_instance Let_def
        dget_def [of "_ # _"] dgetn_def distributed_entry_def of_allocations_def put_instance_def dget_update)
  have "\<exists>node'. map_of w'' n = Some node' \<and> float_or_zero node' ''free_gpu'' = float_or_zero node ''free_gpu''
      \<and> node_state node' = node_state node" if node: "map_of ?w n = Some node" for n node
  proof (cases "map_of al n")
    case None
    then have "map_of ?entries n = None" by (simp add: map_of_map)
    then show ?thesis using point [of n] None node released_others [OF w''] by simp
  next
    case (Some c)
    obtain free where free: "float_or_zero node ''free_gpu'' = Inr free" "of_int c \<le> free"
      and reserved_node: "map_of w' n = Some (AList.update ''free_gpu'' (PFloat (max 0 (free - of_int c))) node)"
      using point [of n] Some node exact(3) [OF Some] by fastforce
    obtain t where t: "float_or_zero node ''total_gpu'' = Inr t" "free \<le> t"
      using sound_nodes_map_of [OF assms(2) node] free(1) by (auto elim: sound_nodeE)
    have "map_of w'' n = Some (AList.update ''free_gpu'' (PFloat (min t (max 0 (free - of_int c) + of_int c)))
        (AList.update ''free_gpu'' (PFloat (max 0 (free - of_int c))) node))"
      by (rule released_pointwise [OF w'' exact(1) Some reserved_node]) (simp_all add: free_gpu_simps t)
    moreover have "min t (max 0 (free - of_int c) + of_int c) = free" using free(2) t(2) by simp
    ultimately show ?thesis using free(1) by (simp add: free_gpu_simps)
  qed
  then show ?thesis using run by (simp add: put_pop_instance)
qed

section \<open>Ranking by spot risk\<close>

interpretation risk_rank: ranking "sort_key risk_key" "\<lambda>x y. risk_key x \<le> risk_key y"
  by (rule ranking_sort_key)

text \<open>A node the ranking considers: ready, and with whole free GPUs for the request.\<close>

definition fits_request :: "pyval \<Rightarrow> string \<times> dict \<Rightarrow> bool" where
  "fits_request requested_gpus node =
     (node_is_ready (snd node) \<and>
      (case (int_or_zero (snd node) ''free_gpu'', py_num requested_gpus) of
         (Inr free, Inr requested) \<Rightarrow> requested \<le> of_int free | _ \<Rightarrow> False))"

lemma consider_node_cases:
  assumes "consider_node requested_gpus config node acc = Inr acc'"
  obtains (fits) c where "fits_request requested_gpus node"
      "node_risk_score (fst node) (snd node) requested_gpus config = Inr c" "acc' = acc @ [c]"
  | (skipped) "\<not> fits_request requested_gpus node" "acc' = acc"
  using assms by (cases node) (auto simp: consider_node_def fits_request_def node_is_ready_def split: if_splits)

lemma considered_nodes:
  assumes "rfold (consider_node requested_gpus config) nodes acc = Inr cs"
  shows "\<exists>new. cs = acc @ new
    \<and> rmap (\<lambda>(n, info). node_risk_score n info requested_gpus config)
        (filter (fits_request requested_gpus) nodes) = Inr new"
  using assms
proof (induction nodes arbitrary: acc)
  case Nil
  then show ?case by simp
next
  case (Cons node nodes)
  from Cons.prems obtain acc' where first: "consider_node requested_gpus config node acc = Inr acc'"
    and rest: "rfold (consider_node requested_gpus config) nodes acc' = Inr cs" by auto
  obtain new where new: "cs = acc' @ new" "rmap (\<lambda>(n, info). node_risk_score n info requested_gpus config)
      (filter (fits_request requested_gpus) nodes) = Inr new" using Cons.IH [OF rest] by blast
  from first show ?case
  proof (cases rule: consider_node_cases)
    case (fits c)
    then show ?thesis using new by (auto simp: case_prod_unfold)
  next
    case skipped
    then show ?thesis using new by auto
  qed
qed

lemma node_risk_score_id: "node_risk_score n info requested_gpus config = Inr c \<Longrightarrow> nr_node_id c = n"
  by (auto simp: node_risk_score_def)

text \<open>
  Risk-aware scheduling selects a node exactly when one is ready with whole free GPUs for the
  request, and the node it selects is such a node whose score is the lowest of all of them.
\<close>

theorem risk_aware_selects_best:
  assumes "plan_risk_aware_scheduling model_name worker_nodes requested_gpus config = Inr d"
  shows "case sd_selected_node_id d of
      None \<Rightarrow> \<not> (\<exists>node \<in> set worker_nodes. fits_request requested_gpus node)
    | Some n \<Rightarrow> \<exists>info best. (n, info) \<in> set worker_nodes \<and> fits_request requested_gpus (n, info)
        \<and> node_risk_score n info requested_gpus config = Inr best
        \<and> (\<forall>(m, other) \<in> set worker_nodes. fits_request requested_gpus (m, other) \<longrightarrow>
             (\<exists>c. node_risk_score m other requested_gpus config = Inr c \<and> nr_score best \<le> nr_score c))"
proof -
  let ?fit = "filter (fits_request requested_gpus) worker_nodes"
  let ?score = "\<lambda>(n, info). node_risk_score n info requested_gpus config"
  from assms obtain cs where run: "rfold (consider_node requested_gpus config) worker_nodes [] = Inr cs"
    and sel: "sd_selected_node_id d = (case sort_key risk_key cs of [] \<Rightarrow> None | c # _ \<Rightarrow> Some (nr_node_id c))"
    by (auto simp: plan_risk_aware_scheduling_def rank_nodes_by_spot_risk_def Let_def)
  have scores: "rmap ?score ?fit = Inr cs" using considered_nodes [OF run] by simp
  show ?thesis
  proof (cases "sort_key risk_key cs")
    case Nil
    then have "?fit = []" using rmap_Inr_length [OF scores] risk_rank.rank_Nil_iff [of cs] by simp
    then show ?thesis using sel Nil by (simp add: filter_empty_conv)
  next
    case (Cons best rest)
    note first = risk_rank.first_is_best [OF Cons]
    obtain n info where n: "(n, info) \<in> set worker_nodes" "fits_request requested_gpus (n, info)"
      and best: "node_risk_score n info requested_gpus config = Inr best"
      using rmap_Inr_set [OF scores first(1)] by auto
    have least: "\<exists>c. node_risk_score m other requested_gpus config = Inr c \<and> nr_score best \<le> nr_score c"
      if m: "(m, other) \<in> set worker_nodes" "fits_request requested_gpus (m, other)" for m other
    proof -
      have "(m, other) \<in> set ?fit" using m by simp
      then obtain i where i: "i < length ?fit" "?fit ! i = (m, other)" by (meson in_set_conv_nth)
      then have "node_risk_score m other requested_gpus config = Inr (cs ! i)"
        using rmap_Inr_nth [OF scores i(1)] by simp
      moreover have "cs ! i \<in> set cs" using i(1) rmap_Inr_length [OF scores] by simp
      then have "risk_key best \<le> risk_key (cs ! i)" by (rule first(2))
      then have "nr_score best \<le> nr_score (cs ! i)" by (auto simp: risk_key_def)
      ultimately show ?thesis by blast
    qed
    then have "\<forall>(m, other) \<in> set worker_nodes. fits_request requested_gpus (m, other) \<longrightarrow>
      (\<exists>c. node_risk_score m other requested_gpus config = Inr c \<and> nr_score best \<le> nr_score c)" by blast
    moreover have "sd_selected_node_id d = Some n" using sel Cons node_risk_score_id [OF best] by simp
    ultimately show ?thesis using n best by (simp only: option.case) blast
  qed
qed

section \<open>Marking nodes\<close>

text \<open>The scheduler's marks obey the same contract as the planner's spot events.\<close>

definition node_state_of :: "fcfs \<Rightarrow> string \<Rightarrow> pyval option" where
  "node_state_of self n = map_option node_state (map_of (fs_worker_nodes self) n)"

interpretation scheduler_marks: node_lifecycle
  "\<lambda>(n, state) self. fst (mark_node_state n state self)" fst "\<lambda>e. PStr (snd e)" node_state_of "\<lambda>_. True"
  by unfold_locales (auto simp: mark_node_state_def node_state_of_def Let_def node_state_def dget_update)

section \<open>Witnesses\<close>

definition ex_node :: "rat \<Rightarrow> rat \<Rightarrow> dict" where
  "ex_node total_gpus free = [(''total_gpu'', PFloat total_gpus), (''free_gpu'', PFloat free),
     (''state'', PStr READY)]"

definition ex_scheduler :: fcfs where
  "ex_scheduler = (projr (fcfs_init []))\<lparr>fs_worker_nodes :=
     [(''0'', ex_node 4 1), (''1'', ex_node 4 3), (''2'', AList.update ''state'' (PStr DEAD) (ex_node 8 8))]\<rparr>"

definition ex_allocation :: "(string \<times> int) list" where
  "ex_allocation = [(''0'', 1), (''1'', 3)]"

lemma ex_allocation_run:
  "distributed_gpu_allocation (fs_worker_nodes ex_scheduler) [''0'', ''1''] 4 True = Inr ex_allocation"
  by code_simp

theorem distributed_allocation_exact_witness:
  "sum_list (map snd ex_allocation) = 4 \<and> fst ` set ex_allocation = {''0'', ''1''}"
  using distributed_allocation_exact [OF ex_allocation_run] by simp

lemma ex_capacities:
  "rmap (target_capacity (fs_worker_nodes ex_scheduler) False) (py_unique [''1'', ''2'']) = Inr [3, 0]"
  by code_simp

theorem distributed_allocation_granted_iff_witness:
  "\<not> (\<exists>al. distributed_gpu_allocation (fs_worker_nodes ex_scheduler) [''1'', ''2''] 4 False = Inr al)
   \<and> (\<exists>al. distributed_gpu_allocation (fs_worker_nodes ex_scheduler) [''1'', ''2''] 3 False = Inr al)"
  using distributed_allocation_granted_iff [OF ex_capacities] by simp

definition ex_reserved :: fcfs where
  "ex_reserved = fst (projr (reserve_distributed ''m'' ''i'' 4 [''0'', ''1''] True ex_scheduler))"

lemma ex_reserved_run:
  "reserve_distributed ''m'' ''i'' 4 [''0'', ''1''] True ex_scheduler = Inr (ex_reserved, ex_allocation)"
  by code_simp

lemma ex_sound: "sound_nodes (fs_worker_nodes ex_scheduler)"
  by code_simp

theorem distributed_release_restores_witness:
  "map_of (dget (fs_model_instance (projr (deallocate_resource ''m'' ''i'' [] ex_reserved))) ''m'' []) ''i'' = None"
  using distributed_release_restores [OF ex_reserved_run ex_sound, of "[]"] by auto

definition ex_decision :: scheduling_decision where
  "ex_decision = projr (plan_risk_aware_scheduling ''m'' (fs_worker_nodes ex_scheduler) (PInt 1) [])"

lemma ex_decision_run:
  "plan_risk_aware_scheduling ''m'' (fs_worker_nodes ex_scheduler) (PInt 1) [] = Inr ex_decision"
  "sd_selected_node_id ex_decision = Some ''1''"
  by code_simp+

theorem risk_aware_selects_best_witness:
  "\<exists>info. (''1'', info) \<in> set (fs_worker_nodes ex_scheduler) \<and> fits_request (PInt 1) (''1'', info)"
  using risk_aware_selects_best [OF ex_decision_run(1)] unfolding ex_decision_run(2) by auto

end
