(* ===== verification/Fcfs_Control_Props.thy ===== *)
theory Fcfs_Control_Props
  imports Fcfs_Allocation_Props
begin

text \<open>
  Properties of the scheduler at work: a round of the control loop never gives away more GPUs than
  a node has, leaves a request waiting only when no permitted node has the GPUs, and serves a
  model's requests in their order; across all interleavings of its coroutines every waiting
  request is queued exactly once and every allocation future is settled at most once.
\<close>

section \<open>Free GPUs of a node table\<close>

definition free_at :: "nodes \<Rightarrow> string \<Rightarrow> rat" where
  "free_at w n =
     (case map_of w n of None \<Rightarrow> 0
      | Some node \<Rightarrow> (case py_num (dgetn node ''free_gpu'') of Inl _ \<Rightarrow> 0 | Inr f \<Rightarrow> f))"

definition ready_at :: "nodes \<Rightarrow> string \<Rightarrow> bool" where
  "ready_at w n = (case map_of w n of None \<Rightarrow> False | Some node \<Rightarrow> node_is_ready node)"

definition permitted :: "loading_request \<Rightarrow> string \<Rightarrow> bool" where
  "permitted r n = (lr_target_node_id r = None \<or> lr_target_node_id r = Some n)"

lemma py_ge_num:
  assumes "py_num y = Inr b"
  shows "py_ge x y = (case py_num x of Inl e \<Rightarrow> Inl e | Inr a \<Rightarrow> Inr (b \<le> a))"
  using assms by (cases y; cases x) (auto simp: py_ge_def)

lemma py_num_val: "(\<not> float \<Longrightarrow> \<exists>i. r = of_int i) \<Longrightarrow> py_num (num_val float r) = Inr r"
  by (auto simp: num_val_def)

lemma py_num_int: "py_num x = Inr a \<Longrightarrow> \<not> is_float x \<Longrightarrow> \<exists>i. a = of_int i"
  by (cases x) (auto intro: exI [of _ 0] exI [of _ 1])

lemma py_sub_num:
  assumes "py_num x = Inr a" and "py_num y = Inr b"
  shows "\<exists>z. py_sub x y = Inr z \<and> py_num z = Inr (a - b)"
proof -
  have "\<not> (is_float x \<or> is_float y) \<Longrightarrow> \<exists>i. a - b = of_int i"
    using py_num_int [OF assms(1)] py_num_int [OF assms(2)] by (metis of_int_diff)
  then have "py_num (num_val (is_float x \<or> is_float y) (a - b)) = Inr (a - b)" by (rule py_num_val)
  then show ?thesis using assms by (simp add: py_sub_def)
qed

lemma int_or_zero_num: "py_num (dgetn node k) = Inr f \<Longrightarrow> int_or_zero node k = Inr (rat_trunc f)"
  unfolding int_or_zero_def dgetn_def dget_def
  by (cases "map_of node k") (auto simp: por_def rat_trunc_def elim!: py_num.elims)

lemma int_or_zero_not_num:
  "py_num (dgetn node k) = Inl e \<Longrightarrow> \<not> truthy (dgetn node k) \<Longrightarrow> int_or_zero node k = Inr 0"
  unfolding int_or_zero_def dgetn_def dget_def
  by (cases "map_of node k") (auto simp: por_def)

section \<open>Serving one request\<close>

text \<open>
  What granting a request on a node does to the node table and to the scheduler, and when the
  request is not served at all.
\<close>

definition grants :: "string \<Rightarrow> loading_request \<Rightarrow> rat \<Rightarrow> nodes \<Rightarrow> fcfs \<Rightarrow> string \<Rightarrow> nodes \<Rightarrow> fcfs \<Rightarrow> bool" where
  "grants m r g w s n w' s' \<longleftrightarrow>
     permitted r n \<and> ready_at w n \<and> g \<le> free_at w n \<and> \<not> future_done s (lr_allocation_result r)
     \<and> dhas (fs_model_loading_queues s) m \<and> r \<in> set (dget (fs_model_loading_queues s) m [])
     \<and> free_at w' = (free_at w)(n := free_at w n - g) \<and> ready_at w' = ready_at w
     \<and> (\<exists>node left. map_of w n = Some node \<and> w' = AList.update n (AList.update ''free_gpu'' left node) w)
     \<and> s' = grant m r n s"

definition already_settled :: "string \<Rightarrow> loading_request \<Rightarrow> fcfs \<Rightarrow> bool" where
  "already_settled m r s =
     (future_done s (lr_allocation_result r) \<or> r \<notin> set (dget (fs_model_loading_queues s) m []))"

lemma grant_here:
  assumes "map_of w n = Some node" and "permitted r n" and "node_is_ready node"
    and "dindex node ''free_gpu'' = Inr free" and "py_num free = Inr f" and "py_num (lr_num_gpus r) = Inr g"
    and "g \<le> f" and "\<not> future_done s (lr_allocation_result r)"
    and "dindex (fs_model_loading_queues s) m = Inr queue" and "r \<in> set queue"
    and "py_sub free (lr_num_gpus r) = Inr left"
  shows "grants m r g w s n (AList.update n (AList.update ''free_gpu'' left node) w) (grant m r n s)"
proof -
  have left: "py_num left = Inr (f - g)" using py_sub_num [OF assms(5,6)] assms(11) by auto
  have free: "free_at w n = f"
    using assms(1,4,5) by (auto simp: free_at_def dindex_def dgetn_def dget_def split: option.splits)
  have queue: "dhas (fs_model_loading_queues s) m" "dget (fs_model_loading_queues s) m [] = queue"
    using assms(9) by (auto simp: dindex_def dhas_def dget_def split: option.splits)
  have "free_at (AList.update n (AList.update ''free_gpu'' left node) w) = (free_at w)(n := f - g)"
    using left by (simp add: free_at_def fun_eq_iff dgetn_update)
  moreover have "ready_at (AList.update n (AList.update ''free_gpu'' left node) w) = ready_at w"
    using assms(1) by (simp add: ready_at_def fun_eq_iff node_is_ready_def node_state_free)
  ultimately show ?thesis
    using assms queue free unfolding grants_def by (auto simp: ready_at_def)
qed

lemma try_nodes_result:
  assumes "try_nodes m r ns (w, s) = Inr (w', s')" and "py_num (lr_num_gpus r) = Inr g"
  shows "(\<exists>n \<in> set ns. grants m r g w s n w' s')
    \<or> w' = w \<and> s' = s \<and> (already_settled m r s
        \<or> (\<forall>n \<in> set ns. permitted r n \<and> ready_at w n \<longrightarrow> free_at w n < g))"
  using assms
proof (induction ns)
  case Nil
  then show ?case by simp
next
  case (Cons n ns)
  from Cons.prems(1) obtain node where node: "map_of w n = Some node" by (auto split: option.splits)
  show ?case
  proof (cases "permitted r n \<and> node_is_ready node")
    case False
    then have "try_nodes m r ns (w, s) = Inr (w', s')"
      using Cons.prems(1) node by (auto simp: permitted_def split: if_splits)
    then show ?thesis using Cons False node by (auto simp: ready_at_def)
  next
    case True
    then obtain free where free: "dindex node ''free_gpu'' = Inr free"
      using Cons.prems(1) node by (auto simp: permitted_def split: if_splits)
    have at: "free_at w n = (case py_num free of Inl _ \<Rightarrow> 0 | Inr f \<Rightarrow> f)"
      using node free by (auto simp: free_at_def dindex_def dgetn_def dget_def split: option.splits)
    obtain f where f: "py_num free = Inr f"
      using Cons.prems node free True
      by (cases "py_num free") (auto simp: permitted_def py_ge_num split: if_splits)
    show ?thesis
    proof (cases "g \<le> f")
      case False
      then have "try_nodes m r ns (w, s) = Inr (w', s')"
        using Cons.prems node free True f by (auto simp: permitted_def py_ge_num split: if_splits)
      then show ?thesis using Cons False at f by auto
    next
      case fits: True
      show ?thesis
      proof (cases "already_settled m r s")
        case True
        then show ?thesis using Cons.prems node free fits f \<open>permitted r n \<and> node_is_ready node\<close>
          by (auto simp: permitted_def py_ge_num already_settled_def dindex_def dget_def
              split: if_splits option.splits)
      next
        case False
        then obtain queue left where "dindex (fs_model_loading_queues s) m = Inr queue" "r \<in> set queue"
          "\<not> future_done s (lr_allocation_result r)" "py_sub free (lr_num_gpus r) = Inr left"
          "w' = AList.update n (AList.update ''free_gpu'' left node) w" "s' = grant m r n s"
          using Cons.prems node free fits f \<open>permitted r n \<and> node_is_ready node\<close>
          by (auto simp: permitted_def py_ge_num already_settled_def dindex_def dget_def
              split: if_splits option.splits)
        then show ?thesis
          using grant_here [OF node _ _ free f Cons.prems(2) fits] \<open>permitted r n \<and> node_is_ready node\<close> by auto
      qed
    qed
  qed
qed

text \<open>
  Enough free GPUs for a request: the ranking by risk counts whole ones. A request is out of room
  when no ready node it may go to has enough.
\<close>

definition enough :: "bool \<Rightarrow> rat \<Rightarrow> rat \<Rightarrow> bool" where
  "enough whole g f = (if whole then g \<le> of_int (rat_trunc f) else g \<le> f)"

definition no_room :: "bool \<Rightarrow> nodes \<Rightarrow> loading_request \<Rightarrow> rat \<Rightarrow> bool" where
  "no_room whole w r g \<longleftrightarrow> (\<forall>n. permitted r n \<and> ready_at w n \<longrightarrow> \<not> enough whole g (free_at w n))"

lemma trunc_positive: "0 < g \<Longrightarrow> g \<le> of_int (rat_trunc f) \<Longrightarrow> g \<le> f"
proof -
  assume g: "0 < g" "g \<le> of_int (rat_trunc f)"
  then have "(0::rat) < of_int (rat_trunc f)" by linarith
  then have "0 \<le> f" by (auto simp: rat_trunc_def split: if_splits)
  then show ?thesis using g(2) rat_trunc_le [of f] by linarith
qed

lemma enough_mono: "enough whole g f \<Longrightarrow> f \<le> f' \<Longrightarrow> g' \<le> g \<Longrightarrow> enough whole g' f'"
proof -
  assume a: "enough whole g f" "f \<le> f'" "g' \<le> g"
  have "rat_trunc f \<le> rat_trunc f'"
    using a(2) by (auto simp: rat_trunc_def floor_mono ceiling_mono)
      (meson a(2) ceiling_le_zero dual_order.trans linorder_not_le less_imp_le zero_le_floor)
  then have "(of_int (rat_trunc f) :: rat) \<le> of_int (rat_trunc f')" by (simp only: of_int_le_iff)
  with a show ?thesis by (auto simp: enough_def split: if_splits)
qed

lemma ranked_room:
  assumes "rfold (consider_node num config) w [] = Inr cs" and "py_num num = Inr g"
    and "distinct (map fst w)" and "map_of w n = Some node" and "node_is_ready node"
    and "py_num (dgetn node ''free_gpu'') = Inr f"
  shows "n \<in> nr_node_id ` set cs \<longleftrightarrow> g \<le> of_int (rat_trunc f)"
proof -
  let ?fit = "filter (fits_request num) w"
  have scores: "rmap (\<lambda>(n, info). node_risk_score n info num config) ?fit = Inr cs"
    using considered_nodes [OF assms(1)] by simp
  have fits: "fits_request num (n, node) \<longleftrightarrow> g \<le> of_int (rat_trunc f)"
    using assms(2,5) int_or_zero_num [OF assms(6)] by (simp add: fits_request_def)
  have ids: "map nr_node_id cs = map fst ?fit"
  proof (rule nth_equalityI)
    show "length (map nr_node_id cs) = length (map fst ?fit)" using rmap_Inr_length [OF scores] by simp
    fix i assume "i < length (map nr_node_id cs)"
    then have i: "i < length ?fit" "i < length cs" using rmap_Inr_length [OF scores] by simp_all
    have "nr_node_id (cs ! i) = fst (?fit ! i)"
      using rmap_Inr_nth [OF scores i(1)] by (cases "?fit ! i") (auto dest: node_risk_score_id)
    then show "map nr_node_id cs ! i = map fst ?fit ! i" using i by simp
  qed
  have "n \<in> nr_node_id ` set cs \<longleftrightarrow> n \<in> fst ` set ?fit" using arg_cong [OF ids, of set] by simp
  also have "\<dots> \<longleftrightarrow> fits_request num (n, node)"
    using assms(3) map_of_SomeD [OF assms(4)] by (force dest: eq_key_imp_eq_value)
  finally show ?thesis using fits by simp
qed

abbreviation whole_gpus :: "fcfs \<Rightarrow> bool" where
  "whole_gpus s \<equiv> sf_enable_spot_risk_aware (fs_features s)"

lemma serve_request_result:
  assumes "serve_request (m, i, r) (w, s) = Inr (w', s')" and "py_num (lr_num_gpus r) = Inr g"
    and "distinct (map fst w)"
  shows "\<exists>d. let s1 = s\<lparr>fs_latest_scheduling_decision := d\<rparr> in
    (\<exists>n. grants m r g w s1 n w' s' \<and> enough (whole_gpus s) g (free_at w n))
    \<or> w' = w \<and> s' = s1 \<and> (already_settled m r s1 \<or> (0 < g \<longrightarrow> no_room (whole_gpus s) w r g))"
proof (cases "whole_gpus s")
  case False
  from assms(1) False obtain d where
    "try_nodes m r (map fst w) (w, s\<lparr>fs_latest_scheduling_decision := Some d\<rparr>) = Inr (w', s')"
    by (auto simp: serve_request_def ordered_candidate_nodes_def)
  note res = try_nodes_result [OF this assms(2)]
  have keys: "ready_at w n \<Longrightarrow> n \<in> set (map fst w)" for n
    by (auto simp: ready_at_def split: option.splits dest: map_of_SomeD intro: rev_image_eqI)
  have "no_room (whole_gpus s) w r g"
    if "\<forall>n \<in> set (map fst w). permitted r n \<and> ready_at w n \<longrightarrow> free_at w n < g"
    using that keys False unfolding no_room_def enough_def by (simp only: if_False not_le) blast
  moreover have "grants m r g w s1 n w' s' \<Longrightarrow> enough (whole_gpus s) g (free_at w n)" for n s1
    using False by (simp add: enough_def grants_def)
  ultimately show ?thesis using res unfolding Let_def by (intro exI [of _ "Some d"]) blast
next
  case True
  from assms(1) True obtain cs d where cs: "rfold (consider_node (lr_num_gpus r) (fs_scheduler_config s)) w [] = Inr cs"
    and run: "try_nodes m r (map nr_node_id (sort_key risk_key cs)) (w, s\<lparr>fs_latest_scheduling_decision := Some d\<rparr>) = Inr (w', s')"
    by (auto simp: serve_request_def ordered_candidate_nodes_def plan_risk_aware_scheduling_def
        rank_nodes_by_spot_risk_def Let_def)
  note res = try_nodes_result [OF run assms(2)]
  let ?ns = "map nr_node_id (sort_key risk_key cs)"
  have listed: "n \<in> set ?ns" if r: "ready_at w n" and g: "0 < g" and e: "enough True g (free_at w n)" for n
  proof -
    from r obtain node where node: "map_of w n = Some node" "node_is_ready node"
      by (auto simp: ready_at_def split: option.splits)
    obtain f where f: "py_num (dgetn node ''free_gpu'') = Inr f"
      using g e node by (cases "py_num (dgetn node ''free_gpu'')") (auto simp: free_at_def enough_def rat_trunc_def)
    show ?thesis using ranked_room [OF cs assms(2,3) node f] e node f by (simp add: free_at_def enough_def)
  qed
  have room: "enough True g (free_at w n)" if n: "n \<in> set ?ns" and gr: "grants m r g w s1 n w' s'" for n s1
  proof -
    from gr obtain node where node: "map_of w n = Some node" "node_is_ready node"
      by (auto simp: grants_def ready_at_def split: option.splits)
    show ?thesis
    proof (cases "py_num (dgetn node ''free_gpu'')")
      case (Inl e)
      then show ?thesis using gr node by (simp add: grants_def free_at_def enough_def rat_trunc_def)
    next
      case (Inr f)
      then show ?thesis using ranked_room [OF cs assms(2,3) node Inr] n node by (simp add: free_at_def enough_def)
    qed
  qed
  have "no_room True w r g"
    if none: "\<forall>n \<in> set ?ns. permitted r n \<and> ready_at w n \<longrightarrow> free_at w n < g" and g: "0 < g"
    unfolding no_room_def
  proof (intro allI impI notI)
    fix n
    assume n: "permitted r n \<and> ready_at w n" and e: "enough True g (free_at w n)"
    then have "free_at w n < g" using none listed g by blast
    then show False using trunc_positive [OF g] e by (simp add: enough_def leD)
  qed
  with res room show ?thesis using True unfolding Let_def by (intro exI [of _ "Some d"]) (simp only: simp_thms, blast)
qed

section \<open>Serving a list of requests\<close>

definition fut :: "queued \<Rightarrow> nat" where
  "fut q = lr_allocation_result (snd (snd q))"

definition demand :: "queued \<Rightarrow> rat" where
  "demand q = (case py_num (lr_num_gpus (snd (snd q))) of Inl _ \<Rightarrow> 0 | Inr g \<Rightarrow> g)"

definition numeric_demand :: "queued \<Rightarrow> bool" where
  "numeric_demand q = (\<not> isl (py_num (lr_num_gpus (snd (snd q)))) \<and> 0 \<le> demand q)"

definition in_queue :: "fcfs \<Rightarrow> queued \<Rightarrow> bool" where
  "in_queue s q = (snd (snd q) \<in> set (dget (fs_model_loading_queues s) (fst q) []))"

definition served :: "queued \<Rightarrow> nodes \<Rightarrow> fcfs \<Rightarrow> string \<Rightarrow> nodes \<Rightarrow> fcfs \<Rightarrow> bool" where
  "served q w s n w' s' \<longleftrightarrow> permitted (snd (snd q)) n \<and> ready_at w n \<and> demand q \<le> free_at w n
     \<and> enough (whole_gpus s) (demand q) (free_at w n) \<and> \<not> future_done s (fut q) \<and> in_queue s q
     \<and> free_at w' = (free_at w)(n := free_at w n - demand q)
     \<and> fs_results s' = (fs_results s)[fut q := Granted n]
     \<and> fs_model_loading_queues s' = AList.update (fst q)
         (remove1 (snd (snd q)) (dget (fs_model_loading_queues s) (fst q) [])) (fs_model_loading_queues s)"

definition unserved :: "queued \<Rightarrow> nodes \<Rightarrow> fcfs \<Rightarrow> nodes \<Rightarrow> fcfs \<Rightarrow> bool" where
  "unserved q w s w' s' \<longleftrightarrow> free_at w' = free_at w \<and> fs_results s' = fs_results s
     \<and> fs_model_loading_queues s' = fs_model_loading_queues s
     \<and> (future_done s (fut q) \<or> \<not> in_queue s q
        \<or> (0 < demand q \<longrightarrow> no_room (whole_gpus s) w (snd (snd q)) (demand q)))"

lemma serve_step:
  assumes "serve_request q (w, s) = Inr (w', s')" and "numeric_demand q" and "distinct (map fst w)"
  shows "distinct (map fst w') \<and> ready_at w' = ready_at w \<and> whole_gpus s' = whole_gpus s
    \<and> ((\<exists>n. served q w s n w' s') \<or> unserved q w s w' s')"
proof -
  obtain m i r where q: "q = (m, i, r)" by (cases q)
  have g: "py_num (lr_num_gpus r) = Inr (demand q)"
    using assms(2) by (auto simp: numeric_demand_def demand_def q isl_def split: sum.splits)
  obtain d where d: "(\<exists>n. grants m r (demand q) w (s\<lparr>fs_latest_scheduling_decision := d\<rparr>) n w' s'
        \<and> enough (whole_gpus s) (demand q) (free_at w n))
      \<or> w' = w \<and> s' = s\<lparr>fs_latest_scheduling_decision := d\<rparr>
        \<and> (already_settled m r (s\<lparr>fs_latest_scheduling_decision := d\<rparr>)
           \<or> (0 < demand q \<longrightarrow> no_room (whole_gpus s) w r (demand q)))"
    using serve_request_result [OF assms(1) [unfolded q] g assms(3)] unfolding Let_def by blast
  then show ?thesis
  proof (elim disjE exE conjE)
    fix n
    assume gr: "grants m r (demand q) w (s\<lparr>fs_latest_scheduling_decision := d\<rparr>) n w' s'"
      and e: "enough (whole_gpus s) (demand q) (free_at w n)"
    have "distinct (map fst w')" using gr assms(3) by (auto simp: grants_def distinct_update)
    moreover have "served q w s n w' s'"
      using gr e by (auto simp: grants_def served_def q fut_def in_queue_def future_done_def grant_def)
    ultimately show ?thesis using gr by (auto simp: grants_def grant_def)
  qed (use assms(3) in \<open>auto simp: unserved_def already_settled_def q fut_def in_queue_def future_done_def\<close>)
qed

lemma rfold_append: "rfold f (xs @ ys) s = rbind (rfold f xs s) (rfold f ys)"
proof (induction xs arbitrary: s)
  case (Cons x xs)
  then show ?case by (cases "f x s") simp_all
qed simp

lemma rfold_Cons_pair:
  assumes "rfold serve_request (q # rs) (w, s) = Inr (w', s')"
  obtains w1 s1 where "serve_request q (w, s) = Inr (w1, s1)" "rfold serve_request rs (w1, s1) = Inr (w', s')"
  using assms by auto

lemma kept_in_queue:
  "lr_allocation_result b \<noteq> lr_allocation_result r \<Longrightarrow> b \<in> set xs \<Longrightarrow> b \<in> set (remove1 r xs)"
  by (subst in_set_remove1) auto

text \<open>What a run over some requests leaves as it is.\<close>

lemma serve_list_frame:
  assumes "rfold serve_request rs (w, s) = Inr (w', s')" and "list_all numeric_demand rs" and "distinct (map fst w)"
  shows "distinct (map fst w') \<and> ready_at w' = ready_at w \<and> whole_gpus s' = whole_gpus s
    \<and> length (fs_results s') = length (fs_results s)
    \<and> (\<forall>n. free_at w' n \<le> free_at w n) \<and> (\<forall>n. 0 \<le> free_at w n \<longrightarrow> 0 \<le> free_at w' n)
    \<and> (\<forall>f. future_done s f \<longrightarrow> fs_results s' ! f = fs_results s ! f)
    \<and> (\<forall>f. f \<notin> fut ` set rs \<longrightarrow> fs_results s' ! f = fs_results s ! f)
    \<and> (\<forall>q. fut q \<notin> fut ` set rs \<longrightarrow> in_queue s q \<longrightarrow> in_queue s' q)"
  using assms
proof (induction rs arbitrary: w s)
  case Nil
  then show ?case by simp
next
  case (Cons q rs)
  obtain w1 s1 where first: "serve_request q (w, s) = Inr (w1, s1)"
    and rest: "rfold serve_request rs (w1, s1) = Inr (w', s')" using Cons.prems(1) by (rule rfold_Cons_pair)
  have num: "numeric_demand q" "list_all numeric_demand rs" using Cons.prems(2) by simp_all
  note step = serve_step [OF first num(1) Cons.prems(3)]
  have d1: "distinct (map fst w1)" using step by blast
  note IH = Cons.IH [OF rest num(2) d1]
  have pos: "0 \<le> demand q" using num(1) by (simp add: numeric_demand_def)
  have one: "length (fs_results s1) = length (fs_results s)
    \<and> (\<forall>n. free_at w1 n \<le> free_at w n) \<and> (\<forall>n. 0 \<le> free_at w n \<longrightarrow> 0 \<le> free_at w1 n)
    \<and> (\<forall>f. future_done s f \<longrightarrow> future_done s1 f \<and> fs_results s1 ! f = fs_results s ! f)
    \<and> (\<forall>f. f \<noteq> fut q \<longrightarrow> fs_results s1 ! f = fs_results s ! f)
    \<and> (\<forall>q'. fut q' \<noteq> fut q \<longrightarrow> in_queue s q' \<longrightarrow> in_queue s1 q')"
    using step
  proof (elim conjE disjE exE)
    fix n assume sv: "served q w s n w1 s1"
    then have "\<forall>q'. fut q' \<noteq> fut q \<longrightarrow> in_queue s q' \<longrightarrow> in_queue s1 q'"
      by (auto simp: served_def in_queue_def dget_update fut_def intro: kept_in_queue)
    moreover have "future_done s1 f \<and> fs_results s1 ! f = fs_results s ! f" if "future_done s f" for f
      using sv that by (cases "f = fut q") (auto simp: served_def future_done_def)
    ultimately show ?thesis using sv pos by (auto simp: served_def)
  qed (auto simp: unserved_def future_done_def in_queue_def)
  have "free_at w' n \<le> free_at w n" for n using one IH by (meson order_trans)
  moreover have "fs_results s' ! f = fs_results s ! f" if "future_done s f" for f using one IH that by metis
  moreover have "fs_results s' ! f = fs_results s ! f" if "f \<notin> fut ` set (q # rs)" for f
    using one IH that by simp
  moreover have "in_queue s' q'" if "fut q' \<notin> fut ` set (q # rs)" "in_queue s q'" for q'
    using one IH that by (simp del: split_paired_All)
  ultimately show ?case using one IH step by (simp del: split_paired_All)
qed

lemma serve_list_grants:
  assumes "rfold serve_request rs (w, s) = Inr (w', s')" and "list_all numeric_demand rs" and "distinct (map fst w)"
    and "fs_results s ! f = Waiting"
  shows "fs_results s' ! f = Waiting \<or> (\<exists>n. fs_results s' ! f = Granted n)"
  using assms
proof (induction rs arbitrary: w s)
  case Nil
  then show ?case by simp
next
  case (Cons q rs)
  obtain w1 s1 where first: "serve_request q (w, s) = Inr (w1, s1)"
    and rest: "rfold serve_request rs (w1, s1) = Inr (w', s')" using Cons.prems(1) by (rule rfold_Cons_pair)
  have num: "numeric_demand q" "list_all numeric_demand rs" using Cons.prems(2) by simp_all
  note step = serve_step [OF first num(1) Cons.prems(3)]
  have d1: "distinct (map fst w1)" using step by blast
  have "fs_results s1 ! f = Waiting \<or> (\<exists>n. f < length (fs_results s1) \<and> fs_results s1 ! f = Granted n)"
    using step Cons.prems(4) by (cases "f < length (fs_results s)"; cases "f = fut q") (auto simp: served_def unserved_def not_less list_update_beyond)
  then show ?case
  proof (elim disjE exE conjE)
    assume "fs_results s1 ! f = Waiting"
    then show ?thesis by (rule Cons.IH [OF rest num(2) d1])
  next
    fix n assume n: "f < length (fs_results s1)" "fs_results s1 ! f = Granted n"
    then have "fs_results s' ! f = fs_results s1 ! f"
      using serve_list_frame [OF rest num(2) d1] by (simp add: future_done_def)
    then show ?thesis using n by simp
  qed
qed

lemma no_room_mono:
  assumes "no_room whole w r g" and "\<forall>n. free_at w' n \<le> free_at w n" and "ready_at w' = ready_at w"
  shows "no_room whole w' r g"
  using assms enough_mono [OF _ _ order_refl] unfolding no_room_def by metis

text \<open>A request that is queued and still waits after the run found no room, and there is none now.\<close>

lemma waiting_no_room:
  assumes "rfold serve_request rs (w, s) = Inr (w', s')" and "list_all numeric_demand rs"
    and "distinct (map fst w)" and "distinct (map fut rs)" and "q \<in> set rs"
    and "in_queue s q" and "fut q < length (fs_results s)" and "\<not> future_done s' (fut q)" and "0 < demand q"
  shows "no_room (whole_gpus s) w' (snd (snd q)) (demand q)"
proof -
  obtain xs ys where rs: "rs = xs @ q # ys" using split_list [OF assms(5)] by blast
  obtain w1 s1 w2 s2 where xs: "rfold serve_request xs (w, s) = Inr (w1, s1)"
    and step: "serve_request q (w1, s1) = Inr (w2, s2)"
    and ys: "rfold serve_request ys (w2, s2) = Inr (w', s')"
    using assms(1) unfolding rs rfold_append by auto
  have num: "list_all numeric_demand xs" "numeric_demand q" "list_all numeric_demand ys"
    using assms(2) by (simp_all add: rs)
  note before = serve_list_frame [OF xs num(1) assms(3)]
  have d1: "distinct (map fst w1)" using before by blast
  note own = serve_step [OF step num(2) d1]
  have d2: "distinct (map fst w2)" using own by blast
  note after = serve_list_frame [OF ys num(3) d2]
  have "fut q \<notin> fut ` set xs" using assms(4) by (auto simp: rs)
  then have queued: "in_queue s1 q" using before assms(6) by blast
  have lens: "length (fs_results s1) = length (fs_results s)" "length (fs_results s') = length (fs_results s2)"
    using before after by blast+
  have stays: "\<not> future_done s2 (fut q)"
    using after assms(8) lens(2) unfolding future_done_def by metis
  have "unserved q w1 s1 w2 s2"
  proof (rule ccontr)
    assume "\<not> ?thesis"
    then obtain n where "served q w1 s1 n w2 s2" using own by blast
    then have "fs_results s2 = (fs_results s1)[fut q := Granted n]" by (simp add: served_def)
    then show False using stays assms(7) lens(1) by (simp add: future_done_def)
  qed
  then have "no_room (whole_gpus s) w1 (snd (snd q)) (demand q)"
    using queued stays assms(9) conjunct1 [OF conjunct2 [OF conjunct2 [OF before]]]
    by (auto simp: unserved_def future_done_def)
  moreover have "\<forall>n. free_at w' n \<le> free_at w1 n"
    using \<open>unserved q w1 s1 w2 s2\<close> after by (simp add: unserved_def)
  ultimately show ?thesis by (rule no_room_mono) (use own after in simp)
qed

text \<open>The GPUs given away on a node are what its free GPUs went down by.\<close>

definition granted_on :: "string \<Rightarrow> fcfs \<Rightarrow> fcfs \<Rightarrow> queued list \<Rightarrow> rat" where
  "granted_on n s s' rs =
     (\<Sum>q \<leftarrow> rs. if \<not> future_done s (fut q) \<and> fs_results s' ! fut q = Granted n then demand q else 0)"

lemma granted_on_free:
  assumes "rfold serve_request rs (w, s) = Inr (w', s')" and "list_all numeric_demand rs"
    and "distinct (map fst w)" and "distinct (map fut rs)" and "\<forall>q \<in> set rs. fut q < length (fs_results s)"
  shows "free_at w' n = free_at w n - granted_on n s s' rs"
  using assms
proof (induction rs arbitrary: w s)
  case Nil
  then show ?case by (simp add: granted_on_def)
next
  case (Cons q rs)
  obtain w1 s1 where first: "serve_request q (w, s) = Inr (w1, s1)"
    and rest: "rfold serve_request rs (w1, s1) = Inr (w', s')" using Cons.prems(1) by (rule rfold_Cons_pair)
  have num: "numeric_demand q" "list_all numeric_demand rs" using Cons.prems(2) by simp_all
  note step = serve_step [OF first num(1) Cons.prems(3)]
  have d1: "distinct (map fst w1)" using step by blast
  note frame = serve_list_frame [OF rest num(2) d1]
  have len: "length (fs_results s1) = length (fs_results s)"
    using step by (auto simp: served_def unserved_def)
  have fresh: "fut q \<notin> fut ` set rs" using Cons.prems(4) by simp
  have kept: "fs_results s' ! fut q = fs_results s1 ! fut q" using frame fresh by blast
  have "future_done s1 (fut q') = future_done s (fut q')" if "q' \<in> set rs" for q'
  proof -
    have "fut q' \<noteq> fut q" using fresh imageI [OF that, of fut] by metis
    then show ?thesis using step len by (auto simp: served_def unserved_def future_done_def)
  qed
  then have others: "granted_on n s s' rs = granted_on n s1 s' rs"
    unfolding granted_on_def by (intro arg_cong [of _ _ sum_list] map_cong) auto
  have IH: "free_at w' n = free_at w1 n - granted_on n s1 s' rs"
    using Cons.IH [OF rest num(2) d1] Cons.prems(4,5) len by simp
  have own: "free_at w1 n = free_at w n
      - (if \<not> future_done s (fut q) \<and> fs_results s' ! fut q = Granted n then demand q else 0)"
    using step
  proof (elim conjE disjE exE)
    fix k assume "served q w s k w1 s1"
    then show ?thesis using kept Cons.prems(5) by (auto simp: served_def)
  next
    assume "unserved q w s w1 s1"
    then show ?thesis using kept Cons.prems(5) by (auto simp: unserved_def future_done_def)
  qed
  show ?case using IH own others by (simp add: granted_on_def)
qed

section \<open>Free GPUs after a refresh\<close>

text \<open>The free GPUs of a node lie within what is left of its total after the allocations.\<close>

definition capped :: "rat \<Rightarrow> dict \<Rightarrow> bool" where
  "capped a node =
     (case py_num (dgetn node ''free_gpu'') of
        Inl _ \<Rightarrow> True
      | Inr f \<Rightarrow> (case py_num (dgetn node ''total_gpu'') of
          Inl _ \<Rightarrow> False | Inr t \<Rightarrow> 0 \<le> f \<and> f \<le> max 0 (t - a)))"

text \<open>The configured risk of a node says nothing about its capacity.\<close>

definition capacity_neutral :: "dict \<Rightarrow> bool" where
  "capacity_neutral config \<longleftrightarrow> (\<forall>n risk. configured_node_risk config n = Inr risk \<longrightarrow>
     \<not> dhas risk ''free_gpu'' \<and> \<not> dhas risk ''total_gpu'')"

lemma dgetn_dmerge: "\<not> dhas e k \<Longrightarrow> dgetn (dmerge d e) k = dgetn d k"
  unfolding dmerge_def
  by (induction e arbitrary: d) (auto simp: dhas_iff dgetn_update split: if_splits)

lemma dgetn_dmerge_cong: "dgetn d k = dgetn d' k \<Longrightarrow> dgetn (dmerge d e) k = dgetn (dmerge d' e) k"
  unfolding dmerge_def
proof (induction e arbitrary: d d')
  case (Cons p e)
  obtain k' v where p: "p = (k', v)" by (cases p)
  have "dgetn (AList.update k' v d) k = dgetn (AList.update k' v d') k"
    using Cons.prems by (simp add: dgetn_update)
  from Cons.IH [OF this] show ?case by (simp add: p)
qed simp

lemma optional_float_num: "py_num (dgetn d k) = Inr f \<Longrightarrow> optional_float_value d k = Inr (Some f)"
  by (cases "dgetn d k") (auto simp: optional_float_value_def)

text \<open>A node whose capacity was just computed has its two counts as floats, or none that can be read.\<close>

definition counted :: "rat \<Rightarrow> dict \<Rightarrow> bool" where
  "counted a node \<longleftrightarrow>
     (optional_float_value node ''total_gpu'' = Inr None \<and> isl (py_num (dgetn node ''free_gpu'')))
     \<or> (\<exists>t f. dgetn node ''total_gpu'' = PFloat t \<and> dgetn node ''free_gpu'' = PFloat f
          \<and> 0 \<le> f \<and> f \<le> max 0 (t - a))"

lemma counted_capacity:
  assumes "apply_scheduler_capacity node a = Inr node'"
  shows "counted a node'"
proof -
  from assms obtain lt lf where lt: "optional_float_value node ''total_gpu'' = Inr lt"
    and lf: "optional_float_value node ''free_gpu'' = Inr lf"
    and node': "node' = (case (if lt \<noteq> None then lt else lf) of
        None \<Rightarrow> node
      | Some t \<Rightarrow> let free = (case lf of Some f \<Rightarrow> f | None \<Rightarrow> t)
          in AList.update ''free_gpu'' (PFloat (max 0 (min t (min free (t - a)))))
               (AList.update ''total_gpu'' (PFloat t) node))"
    by (auto simp: apply_scheduler_capacity_def)
  show ?thesis
  proof (cases "if lt \<noteq> None then lt else lf")
    case None
    then have "lt = None" "lf = None" by (simp_all split: if_splits)
    moreover have "isl (py_num (dgetn node ''free_gpu''))"
      using lf \<open>lf = None\<close> optional_float_num [of node "''free_gpu''"]
      by (cases "py_num (dgetn node ''free_gpu'')") auto
    ultimately show ?thesis using lt node' by (simp add: counted_def)
  next
    case (Some t)
    then show ?thesis by (simp add: counted_def node' Let_def dgetn_update)
  qed
qed

lemma counted_same_counts:
  assumes "counted a node" and "dgetn node' ''total_gpu'' = dgetn node ''total_gpu''"
    and "dgetn node' ''free_gpu'' = dgetn node ''free_gpu''"
  shows "counted a node'"
  using assms(1) unfolding counted_def optional_float_value_def assms(2,3) .

lemma capped_counted: "counted a node \<Longrightarrow> capped a node"
  unfolding counted_def capped_def by (auto simp: isl_def)

lemma capped_ray:
  assumes "counted a node" and "apply_ray_available_capacity node n available = Inr node'"
  shows "capped a node'"
proof -
  from assms(2) obtain total_gpu where total: "optional_float_value node ''total_gpu'' = Inr total_gpu"
    by (auto simp: apply_ray_available_capacity_def)
  show ?thesis
  proof (cases total_gpu)
    case None
    then have "node' = node" using assms(2) total by (simp add: apply_ray_available_capacity_def)
    then show ?thesis using capped_counted [OF assms(1)] by simp
  next
    case (Some t)
    then obtain t f where counts: "dgetn node ''total_gpu'' = PFloat t" "dgetn node ''free_gpu'' = PFloat f"
      "0 \<le> f" "f \<le> max 0 (t - a)"
      using assms(1) total by (auto simp: counted_def)
    consider "node' = node" | r where "node' = AList.update ''ray_available_worker_resource'' (PFloat r) node"
      | r where "node' = AList.update ''free_gpu'' (PFloat 0)
          (AList.update ''ray_available_worker_resource'' (PFloat r) node)"
      using assms(2) total Some
      by (auto simp: apply_ray_available_capacity_def Let_def split: if_splits)
    then show ?thesis using counts by cases (simp_all add: capped_def dgetn_update)
  qed
qed

lemma preserve_counts:
  assumes "capacity_neutral config" and "preserve_spot_metadata config node previous n = Inr node'"
    and "k \<in> {''total_gpu'', ''free_gpu''}"
  shows "dgetn node' k = dgetn node k"
proof -
  let ?keep = "\<lambda>key u. if dhas previous key then AList.update key (dgetn previous key) u else u"
  have kept: "k \<notin> set keys \<Longrightarrow> dgetn (fold ?keep keys u) k = dgetn u k" for keys u
    by (induction keys arbitrary: u) (auto simp: dgetn_update)
  have "k \<notin> set spot_metadata_keys" using assms(3) by (auto simp: spot_metadata_keys_def)
  from kept [OF this] assms show ?thesis
    by (auto simp: preserve_spot_metadata_def Let_def capacity_neutral_def dgetn_dmerge)
qed

lemma merge_live_node_capped:
  assumes "capacity_neutral (fs_scheduler_config s)"
    and "merge_live_node s allocated available (n, info) w = Inr w'"
  shows "\<exists>node. map_of w' n = Some node \<and> capped (dget allocated n 0) node"
    and "m \<noteq> n \<Longrightarrow> map_of w' m = map_of w m"
proof -
  let ?a = "dget allocated n 0"
  from assms(2) obtain node node' where counted: "counted ?a node"
    and ray: "apply_ray_available_capacity node n available = Inr node'"
    and w': "w' = AList.update n node' w"
  proof (cases "map_of w n")
    case None
    with assms(2) obtain fresh node node' where "apply_scheduler_capacity fresh ?a = Inr node"
      "apply_ray_available_capacity node n available = Inr node'" "w' = AList.update n node' w"
      by (auto simp: merge_live_node_def)
    then show ?thesis using that counted_capacity by blast
  next
    case (Some current)
    then obtain node1 previous node node' where
      cap: "apply_scheduler_capacity (dmerge current info) ?a = Inr node1"
      and keep: "preserve_spot_metadata (fs_scheduler_config s)
        (AList.update ''state'' (node_state current) node1) previous n = Inr node"
      and ray: "apply_ray_available_capacity node n available = Inr node'" and w': "w' = AList.update n node' w"
      using assms(2) by (auto simp: merge_live_node_def)
    have "counted ?a node"
      by (rule counted_same_counts [OF counted_capacity [OF cap]])
        (simp_all add: preserve_counts [OF assms(1) keep] dgetn_update)
    then show ?thesis using ray w' that by blast
  qed
  then show "\<exists>node. map_of w' n = Some node \<and> capped ?a node" "m \<noteq> n \<Longrightarrow> map_of w' m = map_of w m"
    using capped_ray [OF counted ray] by simp_all
qed

lemma merge_live_nodes_capped:
  assumes "capacity_neutral (fs_scheduler_config s)" and "distinct (map fst live)"
    and "distinct (map fst (fs_worker_nodes s))" and "allocated_gpu_by_node_unlocked s = Inr allocated"
    and "merge_live_nodes s live available = Inr merged"
  shows "distinct (map fst merged)"
    and "map_of merged n = Some node \<Longrightarrow> capped (dget allocated n 0) node"
proof -
  from assms(4,5) obtain u where
    first: "rfold (merge_live_node s allocated available) live (fs_worker_nodes s) = Inr u"
    and second: "rfold (merge_absent_node live allocated) u u = Inr merged"
    by (auto simp: merge_live_nodes_def)
  have du: "distinct (map fst u)"
    by (rule rfold_invariant [OF first, where P = "\<lambda>w. distinct (map fst w)"])
      (use assms(3) in \<open>auto simp: merge_live_node_def distinct_update\<close>)
  show "distinct (map fst merged)"
    by (rule rfold_invariant [OF second, where P = "\<lambda>w. distinct (map fst w)"])
      (use du in \<open>auto simp: merge_absent_node_def distinct_update split: if_splits\<close>)
  have live: "case map_of live n of None \<Rightarrow> map_of u n = map_of (fs_worker_nodes s) n
      | Some info \<Rightarrow> (\<exists>node. map_of u n = Some node \<and> capped (dget allocated n 0) node)"
    by (rule rfold_pointwise [OF first assms(2)]) (use merge_live_node_capped [OF assms(1)] in metis)
  have absent: "case map_of u n of None \<Rightarrow> map_of merged n = map_of u n
      | Some node0 \<Rightarrow> (if dhas live n then map_of merged n = map_of u n
          else \<exists>node. map_of merged n = Some node \<and> capped (dget allocated n 0) node)"
  proof (rule rfold_pointwise [OF second du])
    fix k v w w'
    assume step: "merge_absent_node live allocated (k, v) w = Inr w'"
    have "capped (dget allocated k 0) x" if "apply_scheduler_capacity v (dget allocated k 0) = Inr x" for x
      by (rule capped_counted [OF counted_capacity [OF that]])
    then show "(if dhas live k then map_of w' k = map_of w k
        else \<exists>node. map_of w' k = Some node \<and> capped (dget allocated k 0) node)
      \<and> (\<forall>n. n \<noteq> k \<longrightarrow> map_of w' n = map_of w n)"
      using step by (auto simp: merge_absent_node_def split: if_splits)
  qed
  show "capped (dget allocated n 0) node" if "map_of merged n = Some node"
    using live absent that by (auto simp: dhas_def split: option.splits if_splits)
qed

text \<open>Backend metadata can raise a total that was not known, and leaves the free GPUs alone.\<close>

lemma put_nonempty_other: "k' \<noteq> k \<Longrightarrow> dgetn (put_nonempty k f xs node) k' = dgetn node k'"
  by (simp add: put_nonempty_def dgetn_update)

lemma read_fields_positive:
  assumes "read_fields rds row acc = Inr (b, acc')" and "\<forall>v \<in> set (rv_total_gpu_values acc). 0 < v"
    and "\<forall>rd \<in> set rds. \<forall>acc acc'. rd row acc = Inr acc' \<longrightarrow>
      (\<forall>v \<in> set (rv_total_gpu_values acc). 0 < v) \<longrightarrow> (\<forall>v \<in> set (rv_total_gpu_values acc'). 0 < v)"
  shows "\<forall>v \<in> set (rv_total_gpu_values acc'). 0 < v"
  using assms
proof (induction rds arbitrary: acc)
  case (Cons rd rds)
  show ?case
  proof (cases "rd row acc")
    case (Inl e)
    then have "acc' = acc" using Cons.prems(1) by auto
    then show ?thesis using Cons.prems(2) by simp
  next
    case (Inr a)
    then have "\<forall>v \<in> set (rv_total_gpu_values a). 0 < v" using Cons.prems(2,3) by (meson list.set_intros(1))
    moreover have "read_fields rds row a = Inr (b, acc')" using Cons.prems(1) Inr by simp
    moreover have "\<forall>rd \<in> set rds. \<forall>acc acc'. rd row acc = Inr acc' \<longrightarrow>
      (\<forall>v \<in> set (rv_total_gpu_values acc). 0 < v) \<longrightarrow> (\<forall>v \<in> set (rv_total_gpu_values acc'). 0 < v)"
      using Cons.prems(3) by simp
    ultimately show ?thesis by (intro Cons.IH [of a])
  qed
qed simp

lemma row_readers_positive:
  "rd \<in> set row_readers \<Longrightarrow> rd row acc = Inr acc' \<Longrightarrow> \<forall>v \<in> set (rv_total_gpu_values acc). 0 < v \<Longrightarrow>
   \<forall>v \<in> set (rv_total_gpu_values acc'). 0 < v"
  unfolding row_readers_def
  by (auto simp: read_float_field_def read_count_field_def split: if_splits)

lemma read_rows_positive:
  assumes "rfold read_runtime_row rows acc = Inr acc'" and "\<forall>v \<in> set (rv_total_gpu_values acc). 0 < v"
  shows "\<forall>v \<in> set (rv_total_gpu_values acc'). 0 < v"
proof (rule rfold_invariant [OF assms(1), where P = "\<lambda>a. \<forall>v \<in> set (rv_total_gpu_values a). 0 < v"])
  fix row a a'
  assume a: "\<forall>v \<in> set (rv_total_gpu_values a). 0 < v" and "read_runtime_row row a = Inr a'"
  then obtain b c where fields: "read_fields row_readers row a = Inr (b, c)"
    and a': "rv_total_gpu_values a' = rv_total_gpu_values c"
    by (auto simp: read_runtime_row_def Let_def)
  have "\<forall>v \<in> set (rv_total_gpu_values c). 0 < v"
    by (rule read_fields_positive [OF fields a]) (use row_readers_positive in blast)
  then show "\<forall>v \<in> set (rv_total_gpu_values a'). 0 < v" by (simp only: a')
qed (rule assms(2))

lemma capped_raise:
  assumes "capped a node" and "dgetn node' ''free_gpu'' = dgetn node ''free_gpu''"
    and "\<And>t. py_num (dgetn node ''total_gpu'') = Inr t \<Longrightarrow> \<exists>t' \<ge> t. py_num (dgetn node' ''total_gpu'') = Inr t'"
  shows "capped a node'"
proof (cases "py_num (dgetn node ''free_gpu'')")
  case (Inr f)
  then obtain t where t: "py_num (dgetn node ''total_gpu'') = Inr t" "0 \<le> f" "f \<le> max 0 (t - a)"
    using assms(1) by (auto simp: capped_def split: sum.splits)
  obtain t' where "t \<le> t'" "py_num (dgetn node' ''total_gpu'') = Inr t'" using assms(3) [OF t(1)] by blast
  then show ?thesis using t Inr assms(2) by (auto simp: capped_def)
qed (use assms(2) in \<open>simp add: capped_def\<close>)

lemma merge_node_rows_stages:
  assumes "merge_node_rows config n rows node = Inr node'"
  obtains v n7 n8 risk where
    "rfold read_runtime_row rows \<lparr>rv_spot_risks = [], rv_lifetimes = [], rv_loading_costs = [],
      rv_free_gpu_values = [], rv_total_gpu_values = [], rv_confidence_values = [],
      rv_metadata_sources = [], rv_metadata_providers = []\<rparr> = Inr v"
    "dgetn n7 ''total_gpu'' = dgetn node ''total_gpu''" "dgetn n7 ''free_gpu'' = dgetn node ''free_gpu''"
    "(if rv_total_gpu_values v = [] then Inr n7
       else rbind (positive_int_value n7 ''total_gpu'') (\<lambda>known. Inr (if known = None
         then AList.update ''total_gpu'' (PInt (Max (set (rv_total_gpu_values v)))) n7 else n7))) = Inr n8"
    "configured_node_risk config n = Inr risk"
    "dgetn node' ''total_gpu'' = dgetn (dmerge n8 risk) ''total_gpu''"
    "dgetn node' ''free_gpu'' = dgetn (dmerge n8 risk) ''free_gpu''"
  using assms unfolding merge_node_rows_def Let_def rbind_eq_Inr sum.inject
proof (elim exE conjE, goal_cases)
  case (1 v n8 risk)
  show ?case
  proof (rule 1(1) [OF 1(2) _ _ 1(3) 1(4)])
    show "dgetn node' ''total_gpu'' = dgetn (dmerge n8 risk) ''total_gpu''"
      unfolding 1(5) [symmetric] by (rule dgetn_dmerge_cong) (simp add: put_nonempty_other)
    show "dgetn node' ''free_gpu'' = dgetn (dmerge n8 risk) ''free_gpu''"
      unfolding 1(5) [symmetric] by (rule dgetn_dmerge_cong) (simp add: put_nonempty_other)
  qed (simp_all add: put_nonempty_other dgetn_update)
qed

lemma merge_node_rows_capped:
  assumes "capacity_neutral config" and "merge_node_rows config n rows node = Inr node'" and "capped a node"
  shows "capped a node'"
proof -
  from assms(2) obtain v n7 n8 risk where
    v: "rfold read_runtime_row rows \<lparr>rv_spot_risks = [], rv_lifetimes = [], rv_loading_costs = [],
      rv_free_gpu_values = [], rv_total_gpu_values = [], rv_confidence_values = [],
      rv_metadata_sources = [], rv_metadata_providers = []\<rparr> = Inr v"
    and n7: "dgetn n7 ''total_gpu'' = dgetn node ''total_gpu''" "dgetn n7 ''free_gpu'' = dgetn node ''free_gpu''"
    and n8: "(if rv_total_gpu_values v = [] then Inr n7
       else rbind (positive_int_value n7 ''total_gpu'') (\<lambda>known. Inr (if known = None
         then AList.update ''total_gpu'' (PInt (Max (set (rv_total_gpu_values v)))) n7 else n7))) = Inr n8"
    and risk: "configured_node_risk config n = Inr risk"
    and node': "dgetn node' ''total_gpu'' = dgetn (dmerge n8 risk) ''total_gpu''"
      "dgetn node' ''free_gpu'' = dgetn (dmerge n8 risk) ''free_gpu''"
    by (rule merge_node_rows_stages)
  have "\<not> dhas risk ''free_gpu''" "\<not> dhas risk ''total_gpu''"
    using assms(1) risk unfolding capacity_neutral_def by blast+
  then have same: "dgetn node' ''total_gpu'' = dgetn n8 ''total_gpu''" "dgetn node' ''free_gpu'' = dgetn n8 ''free_gpu''"
    using node' by (simp_all only: dgetn_dmerge not_False_eq_True)
  have pos: "rv_total_gpu_values v \<noteq> [] \<Longrightarrow> 1 \<le> Max (set (rv_total_gpu_values v))"
    using read_rows_positive [OF v] by (simp add: Max_ge_iff) (metis list.set_sel(1) int_one_le_iff_zero_less)
  consider "n8 = n7" | "n8 = AList.update ''total_gpu'' (PInt (Max (set (rv_total_gpu_values v)))) n7"
      "rv_total_gpu_values v \<noteq> []" "positive_int_value n7 ''total_gpu'' = Inr None"
    using n8 by (auto split: if_splits)
  then show ?thesis
  proof cases
    case 1
    then show ?thesis using same n7 by (intro capped_raise [OF assms(3)]) simp_all
  next
    case 2
    show ?thesis
    proof (rule capped_raise [OF assms(3)])
      show "dgetn node' ''free_gpu'' = dgetn node ''free_gpu''" using same n7 2(1) by (simp add: dgetn_update)
      fix t assume t: "py_num (dgetn node ''total_gpu'') = Inr t"
      then have "int_or_zero n7 ''total_gpu'' = Inr (rat_trunc t)" using n7 by (intro int_or_zero_num) simp
      then have "rat_trunc t \<le> 0" using 2(3) by (auto simp: positive_int_value_def split: if_splits)
      then have "t < 1" by (auto simp: rat_trunc_def floor_le_iff split: if_splits)
      moreover have "(1::rat) \<le> of_int (Max (set (rv_total_gpu_values v)))" using pos 2(2) by simp
      ultimately show "\<exists>t' \<ge> t. py_num (dgetn node' ''total_gpu'') = Inr t'"
        using same 2(1) by (intro exI [of _ "of_int (Max (set (rv_total_gpu_values v)))"]) (simp add: dgetn_update)
    qed
  qed
qed

lemma merge_rows_capped:
  assumes "capacity_neutral config" and "merge_backend_runtime_metadata config w rows = Inr w'"
    and "distinct (map fst w)" and "\<And>n node. map_of w n = Some node \<Longrightarrow> capped (a n) node"
  shows "distinct (map fst w') \<and> (\<forall>n node. map_of w' n = Some node \<longrightarrow> capped (a n) node)"
  using assms(2) unfolding merge_backend_runtime_metadata_def
proof (rule rfold_invariant)
  show "distinct (map fst w) \<and> (\<forall>n node. map_of w n = Some node \<longrightarrow> capped (a n) node)" using assms(3,4) by blast
  fix x u v
  assume u: "distinct (map fst u) \<and> (\<forall>n node. map_of u n = Some node \<longrightarrow> capped (a n) node)"
    and step: "(case x of (node_id, rows) \<Rightarrow> \<lambda>updated. case map_of updated node_id of None \<Rightarrow> Inr updated
      | Some node_info \<Rightarrow> rbind (merge_node_rows config node_id rows node_info) (\<lambda>node.
          Inr (AList.update node_id node updated))) u = Inr v"
  obtain n rows where x: "x = (n, rows)" by (cases x)
  show "distinct (map fst v) \<and> (\<forall>n node. map_of v n = Some node \<longrightarrow> capped (a n) node)"
  proof (cases "map_of u n")
    case None
    then show ?thesis using u step by (simp add: x)
  next
    case (Some node)
    then obtain node' where "merge_node_rows config n rows node = Inr node'" "v = AList.update n node' u"
      using step by (auto simp: x)
    then show ?thesis using merge_node_rows_capped [OF assms(1)] u Some by (simp add: distinct_update)
  qed
qed

text \<open>After a refresh every node is within its capacity.\<close>

lemma committed_capped:
  assumes "capacity_neutral (fs_scheduler_config s)" and "distinct (map fst live)"
    and "distinct (map fst (fs_worker_nodes s))" and "allocated_gpu_by_node_unlocked s = Inr allocated"
    and "merge_live_nodes s live available = Inr merged"
    and "capacity_neutral (fs_scheduler_config t)" and "commit_worker_nodes merged rows t = Inr (t', w)"
  shows "distinct (map fst w) \<and> (\<forall>n node. map_of w n = Some node \<longrightarrow> capped (dget allocated n 0) node)"
proof -
  from assms(7) have w: "merge_backend_runtime_metadata (fs_scheduler_config t) merged rows = Inr w"
    by (auto simp: commit_worker_nodes_def)
  note capped = merge_live_nodes_capped [OF assms(1-5)]
  show ?thesis by (rule merge_rows_capped [OF assms(6) w capped(1) capped(2)])
qed

section \<open>A round of the control loop\<close>

text \<open>
  The queues hold every waiting request once: the futures of the queued requests are the ones that
  wait, without repetition.
\<close>

definition queued_futures :: "fcfs \<Rightarrow> nat list" where
  "queued_futures s = map lr_allocation_result (concat (map snd (fs_model_loading_queues s)))"

definition waiting_futures :: "fcfs \<Rightarrow> nat set" where
  "waiting_futures s = {f. f < length (fs_results s) \<and> fs_results s ! f = Waiting}"

definition queues_ok :: "fcfs \<Rightarrow> bool" where
  "queues_ok s \<longleftrightarrow> distinct (map fst (fs_model_loading_queues s)) \<and> distinct (queued_futures s)
     \<and> set (queued_futures s) = waiting_futures s"

lemma fut_collected: "map fut (collect_loading_requests s) = queued_futures s"
proof -
  have "map fut (map (\<lambda>(idx, r). (m, idx, r)) (enumerate 0 queue)) = map lr_allocation_result queue" for m queue
  proof -
    have "map fut (map (\<lambda>(idx, r). (m, idx, r)) (enumerate 0 queue)) = map (lr_allocation_result \<circ> snd) (enumerate 0 queue)"
      unfolding map_map by (rule map_cong) (auto simp: fut_def)
    also have "\<dots> = map lr_allocation_result (map snd (enumerate 0 queue))" by (simp only: map_map)
    also have "\<dots> = map lr_allocation_result queue" by (simp only: map_snd_enumerate)
    finally show ?thesis .
  qed
  then show ?thesis
    unfolding collect_loading_requests_def queued_futures_def map_concat map_map
    by (intro arg_cong [of _ _ concat] map_cong) (auto simp: comp_def case_prod_unfold)
qed

lemma collected_in_queue:
  assumes "q \<in> set (collect_loading_requests s)" and "distinct (map fst (fs_model_loading_queues s))"
  shows "in_queue s q"
proof -
  from assms(1) obtain m queue i r where mq: "(m, queue) \<in> set (fs_model_loading_queues s)"
    and q: "q = (m, i, r)" and r: "(i, r) \<in> set (enumerate 0 queue)"
    unfolding collect_loading_requests_def by auto
  have "r \<in> set queue" using r by (auto simp: in_set_enumerate_eq)
  then show ?thesis using dget_eq_snd [OF assms(2) mq] by (simp add: in_queue_def q)
qed

lemma collected_positions:
  assumes "(m, i, r) \<in> set (collect_loading_requests s)" and "distinct (map fst (fs_model_loading_queues s))"
  shows "i < length (dget (fs_model_loading_queues s) m []) \<and> dget (fs_model_loading_queues s) m [] ! i = r"
proof -
  from assms(1) obtain queue where mq: "(m, queue) \<in> set (fs_model_loading_queues s)"
    and r: "(i, r) \<in> set (enumerate 0 queue)"
    unfolding collect_loading_requests_def by auto
  then show ?thesis using dget_eq_snd [OF assms(2) mq] by (auto simp: in_set_enumerate_eq)
qed

text \<open>What a refresh leaves alone.\<close>

lemma refresh_keeps:
  assumes "get_worker_nodes live available rows s = Inr (s1, w)"
  shows "fs_model_loading_queues s1 = fs_model_loading_queues s" "fs_results s1 = fs_results s"
    "fs_features s1 = fs_features s" "fs_scheduler_config s1 = fs_scheduler_config s"
    "fs_model_instance s1 = fs_model_instance s"
    "fs_model_instance_resources s1 = fs_model_instance_resources s" "fs_worker_nodes s1 = w"
  using assms by (auto simp: get_worker_nodes_def commit_worker_nodes_def)

lemma refreshed_distinct:
  assumes "distinct (map fst (fs_worker_nodes s))" and "get_worker_nodes live available rows s = Inr (s1, w)"
  shows "distinct (map fst w)"
proof -
  let ?P = "\<lambda>w. distinct (map fst w)"
  from assms(2) obtain allocated u v where
    u: "rfold (merge_live_node s allocated available) live (fs_worker_nodes s) = Inr u"
    and v: "rfold (merge_absent_node live allocated) u u = Inr v"
    and w: "merge_backend_runtime_metadata (fs_scheduler_config s) v rows = Inr w"
    by (auto simp: get_worker_nodes_def merge_live_nodes_def commit_worker_nodes_def)
  have "?P u"
    by (rule rfold_invariant [OF u, where P = ?P])
      (use assms(1) in \<open>auto simp: merge_live_node_def distinct_update\<close>)
  then have "?P v"
    by (rule rfold_invariant [OF v, where P = ?P])
      (auto simp: merge_absent_node_def distinct_update split: if_splits)
  then show ?thesis
    by (rule rfold_invariant [OF w [unfolded merge_backend_runtime_metadata_def], where P = ?P])
      (auto simp: distinct_update split: option.splits)
qed

text \<open>The requests of a round, as the loop serves them.\<close>

lemma round_requests:
  assumes "queues_ok s" and "fs_model_loading_queues s1 = fs_model_loading_queues s" "fs_results s1 = fs_results s"
    and "list_all numeric_demand (collect_loading_requests s)"
  shows "distinct (map fut (sort_key (fst \<circ> snd) (collect_loading_requests s)))"
    and "list_all numeric_demand (sort_key (fst \<circ> snd) (collect_loading_requests s))"
    and "q \<in> set (collect_loading_requests s) \<Longrightarrow> in_queue s1 q"
    and "q \<in> set (collect_loading_requests s) \<Longrightarrow> fut q < length (fs_results s1)"
    and "q \<in> set (collect_loading_requests s) \<Longrightarrow> \<not> future_done s1 (fut q)"
proof -
  let ?qs = "collect_loading_requests s"
  have "distinct (map fut ?qs)" using assms(1) by (simp add: fut_collected queues_ok_def)
  moreover have "mset (map fut (sort_key (fst \<circ> snd) ?qs)) = mset (map fut ?qs)" by simp
  ultimately show "distinct (map fut (sort_key (fst \<circ> snd) ?qs))" using mset_eq_imp_distinct_iff by blast
  show "list_all numeric_demand (sort_key (fst \<circ> snd) ?qs)" using assms(4) by (simp add: list_all_iff)
  assume q: "q \<in> set ?qs"
  then show "in_queue s1 q"
    using collected_in_queue assms(1,2) by (simp add: queues_ok_def in_queue_def)
  have "fut q \<in> set (queued_futures s)" using q by (simp flip: fut_collected)
  then have "fut q \<in> waiting_futures s" using assms(1) by (simp add: queues_ok_def)
  then show "fut q < length (fs_results s1)" "\<not> future_done s1 (fut q)"
    using assms(3) by (simp_all add: waiting_futures_def future_done_def)
qed

lemma granted_on_sort: "granted_on n s s' (sort_key f qs) = granted_on n s s' qs"
  unfolding granted_on_def sum_mset_sum_list [symmetric] by simp

definition total_at :: "nodes \<Rightarrow> string \<Rightarrow> rat" where
  "total_at w n =
     (case map_of w n of None \<Rightarrow> 0
      | Some node \<Rightarrow> (case py_num (dgetn node ''total_gpu'') of Inl _ \<Rightarrow> 0 | Inr t \<Rightarrow> t))"

lemma grants_within_table:
  assumes capped: "distinct (map fst w)" "\<And>node. map_of w n = Some node \<Longrightarrow> capped a node"
    and num: "list_all numeric_demand qs" and futs: "distinct (map fut qs)" "\<forall>q \<in> set qs. fut q < length (fs_results s)"
    and run: "serve_requests qs (w, s) = Inr (w', s')" and some: "0 < granted_on n s s' qs"
  shows "a + granted_on n s s' qs \<le> total_at w n"
proof -
  let ?qs = "sort_key (fst \<circ> snd) qs"
  note run = run [unfolded serve_requests_def]
  have nums: "list_all numeric_demand ?qs" using num by (simp add: list_all_iff)
  have "mset (map fut ?qs) = mset (map fut qs)" by simp
  then have dist: "distinct (map fut ?qs)" using futs(1) mset_eq_imp_distinct_iff by blast
  have range: "\<forall>q \<in> set ?qs. fut q < length (fs_results s)" using futs(2) by (metis set_sort)
  have free: "free_at w' n = free_at w n - granted_on n s s' qs"
    using granted_on_free [OF run nums capped(1) dist range] by (simp add: granted_on_sort)
  have nonneg: "0 \<le> free_at w n"
    using capped(2) by (auto simp: free_at_def capped_def split: option.splits sum.splits)
  then have "0 \<le> free_at w' n" using serve_list_frame [OF run nums capped(1)] by blast
  then have positive: "granted_on n s s' qs \<le> free_at w n" "0 < free_at w n"
    using free some by linarith+
  then have "free_at w n \<le> max 0 (total_at w n - a)"
    using capped(2) by (auto simp: free_at_def total_at_def capped_def split: option.splits sum.splits)
  with positive show ?thesis by linarith
qed

text \<open>
  C5. A round serves whatever fits: a queued request for GPUs that still waits after the round
  found no room, and there is none for it now either, that is, no ready node it may be placed on
  has enough free GPUs for it.
\<close>

theorem round_leaves_no_room:
  assumes "queues_ok s" and "distinct (map fst (fs_worker_nodes s))"
    and "list_all numeric_demand (collect_loading_requests s)"
    and "get_worker_nodes live available rows s = Inr (s1, w)"
    and "serve_requests (collect_loading_requests s) (w, s1) = Inr (w', s2)"
    and "q \<in> set (collect_loading_requests s)" and "fut q \<in> waiting_futures s2" and "0 < demand q"
  shows "no_room (whole_gpus s) w' (snd (snd q)) (demand q)"
proof -
  note keeps = refresh_keeps [OF assms(4)]
  note reqs = round_requests [OF assms(1) keeps(1,2) assms(3)]
  have w: "distinct (map fst w)" by (rule refreshed_distinct [OF assms(2,4)])
  have "\<not> future_done s2 (fut q)" using assms(7) by (simp add: waiting_futures_def future_done_def)
  from waiting_no_room [OF assms(5) [unfolded serve_requests_def] reqs(2) w reqs(1) _ reqs(3,4) this assms(8)]
  show ?thesis using assms(6) keeps(3) by simp
qed

text \<open>
  C6. Within a round a model's requests are served first come, first served: when a request is
  granted, every request that entered the model's queue earlier, names the same target and asks for
  no more GPUs is granted as well.
\<close>

theorem round_first_come_first_served:
  assumes "queues_ok s" and "distinct (map fst (fs_worker_nodes s))"
    and "list_all numeric_demand (collect_loading_requests s)"
    and "get_worker_nodes live available rows s = Inr (s1, w)"
    and "serve_requests (collect_loading_requests s) (w, s1) = Inr (w', s2)"
    and "(m, i, r) \<in> set (collect_loading_requests s)" and "(m, j, r') \<in> set (collect_loading_requests s)"
    and "i < j" and "lr_target_node_id r = lr_target_node_id r'"
    and "0 < demand (m, i, r)" and "demand (m, i, r) \<le> demand (m, j, r')"
    and "fs_results s2 ! fut (m, j, r') \<noteq> Waiting"
  shows "\<exists>n. fs_results s2 ! fut (m, i, r) = Granted n"
proof -
  let ?qs = "sort_key (fst \<circ> snd) (collect_loading_requests s)"
  let ?q = "(m, i, r)" and ?q' = "(m, j, r')"
  note keeps = refresh_keeps [OF assms(4)]
  note reqs = round_requests [OF assms(1) keeps(1,2) assms(3)]
  have dw: "distinct (map fst w)" by (rule refreshed_distinct [OF assms(2,4)])
  obtain xs ys where split: "?qs = xs @ ?q' # ys" using assms(7) by (metis set_sort split_list)
  have "?q \<in> set ?qs" using assms(6) by simp
  moreover have "\<forall>p \<in> set ys. j \<le> fst (snd p)"
    using sorted_sort_key [of "fst \<circ> snd" "collect_loading_requests s"] unfolding split
    by (simp add: sorted_append)
  ultimately have qx: "?q \<in> set xs" using assms(8) unfolding split by auto
  have num: "list_all numeric_demand xs" "numeric_demand ?q'" "list_all numeric_demand ys"
    using reqs(2) unfolding split by simp_all
  have dist: "distinct (map fut xs)" "fut ?q' \<notin> fut ` set xs" "fut ?q' \<notin> fut ` set ys" "fut ?q \<notin> fut ` set ys"
    "fut ?q \<noteq> fut ?q'"
    using reqs(1) qx unfolding split by (auto simp: image_iff dest: bspec [of _ _ ?q])
  obtain w1 s3 w2 s4 where xs: "rfold serve_request xs (w, s1) = Inr (w1, s3)"
    and step: "serve_request ?q' (w1, s3) = Inr (w2, s4)"
    and ys: "rfold serve_request ys (w2, s4) = Inr (w', s2)"
    using assms(5) unfolding serve_requests_def split rfold_append by auto
  note before = serve_list_frame [OF xs num(1) dw]
  have d1: "distinct (map fst w1)" using before by blast
  note own = serve_step [OF step num(2) d1]
  have d2: "distinct (map fst w2)" using own by blast
  note after = serve_list_frame [OF ys num(3) d2]
  have waiting: "fs_results s1 ! fut p = Waiting" if "p \<in> set (collect_loading_requests s)" for p
    using reqs(4,5) [OF that] by (simp add: future_done_def)
  have len: "length (fs_results s3) = length (fs_results s1)" using before by blast
  have "fs_results s4 ! fut ?q' \<noteq> Waiting" using assms(12) after dist(3) by metis
  moreover have "fs_results s3 ! fut ?q' = Waiting" using before dist(2) waiting [OF assms(7)] by metis
  ultimately obtain n where n: "served ?q' w1 s3 n w2 s4" using own unfolding unserved_def by metis
  have whole: "whole_gpus s3 = whole_gpus s1" using before by blast
  have "future_done s3 (fut ?q)"
  proof (rule ccontr)
    assume "\<not> ?thesis"
    from waiting_no_room [OF xs num(1) dw dist(1) qx reqs(3,4) [OF assms(6)] this assms(10)]
    have "no_room (whole_gpus s1) w1 r (demand ?q)" by simp
    moreover have "permitted r n" "ready_at w1 n" "enough (whole_gpus s1) (demand ?q) (free_at w1 n)"
      using n assms(9) enough_mono [OF _ order_refl assms(11)] whole by (auto simp: served_def permitted_def)
    ultimately show False by (simp add: no_room_def)
  qed
  then have "fs_results s3 ! fut ?q \<noteq> Waiting" by (simp add: future_done_def)
  then obtain n' where "fs_results s3 ! fut ?q = Granted n'"
    using serve_list_grants [OF xs num(1) dw waiting [OF assms(6)]] by blast
  moreover have "fs_results s2 ! fut ?q = fs_results s3 ! fut ?q"
    using n after dist(4,5) by (simp add: served_def)
  ultimately show ?thesis by metis
qed

section \<open>Witnesses\<close>

text \<open>Two requests for one GPU each on a node that has one.\<close>

definition ex_asked :: fcfs where
  "ex_asked =
     fst (request_allocation 2 ''m'' ''b'' [(''num_gpus'', PInt 1)] None
       (fst (request_allocation 1 ''m'' ''a'' [(''num_gpus'', PInt 1)] None (projr (fcfs_init [])))))"

definition ex_live :: nodes where
  "ex_live = [(''0'', [(''free_gpu'', PInt 1), (''total_gpu'', PInt 1)])]"

definition ex_refreshed :: "fcfs \<times> nodes" where
  "ex_refreshed = projr (get_worker_nodes ex_live [] [] ex_asked)"

definition ex_served :: "nodes \<times> fcfs" where
  "ex_served = projr (serve_requests (collect_loading_requests ex_asked) (snd ex_refreshed, fst ex_refreshed))"

lemma ex_round_runs:
  "get_worker_nodes ex_live [] [] ex_asked = Inr (fst ex_refreshed, snd ex_refreshed)"
  "serve_requests (collect_loading_requests ex_asked) (snd ex_refreshed, fst ex_refreshed)
     = Inr (fst ex_served, snd ex_served)"
  "allocated_gpu_by_node_unlocked ex_asked = Inr []"
  by code_simp+

lemma ex_round_facts:
  "distinct (map fst ex_live)" "distinct (map fst (fs_worker_nodes ex_asked))"
  "list_all numeric_demand (collect_loading_requests ex_asked)"
  "granted_on ''0'' (fst ex_refreshed) (snd ex_served) (collect_loading_requests ex_asked) = 1"
  "total_at (snd ex_refreshed) ''0'' = 1"
  by code_simp+

lemma ex_results: "fs_results ex_asked = [Waiting, Waiting]" "fs_results (snd ex_served) = [Granted ''0'', Waiting]"
  by code_simp+

lemma ex_queues_ok: "queues_ok ex_asked"
proof -
  have "distinct (map fst (fs_model_loading_queues ex_asked))" "queued_futures ex_asked = [0, 1]" by code_simp+
  moreover have "waiting_futures ex_asked = {0, 1}" by (auto simp: waiting_futures_def ex_results less_Suc_eq)
  ultimately show ?thesis by (simp add: queues_ok_def)
qed

definition ex_first :: queued where
  "ex_first = collect_loading_requests ex_asked ! 0"

definition ex_second :: queued where
  "ex_second = collect_loading_requests ex_asked ! 1"

lemma ex_queued:
  "ex_first = (fst ex_first, fst (snd ex_first), snd (snd ex_first))"
  "ex_second = (fst ex_first, fst (snd ex_second), snd (snd ex_second))"
  "fst (snd ex_first) < fst (snd ex_second)" "fut ex_first = 0" "fut ex_second = 1"
  "demand ex_first = 1" "demand ex_second = 1"
  "lr_target_node_id (snd (snd ex_first)) = lr_target_node_id (snd (snd ex_second))"
  "ex_first \<in> set (collect_loading_requests ex_asked)"
  "ex_second \<in> set (collect_loading_requests ex_asked)"
  by code_simp+

theorem round_leaves_no_room_witness:
  "no_room (whole_gpus ex_asked) (fst ex_served) (snd (snd ex_second)) 1"
proof -
  have "fut ex_second \<in> waiting_futures (snd ex_served)" by (simp add: ex_queued(5) ex_results waiting_futures_def)
  then show ?thesis
    using round_leaves_no_room [OF ex_queues_ok ex_round_facts(2,3) ex_round_runs(1,2), of ex_second] ex_queued(5,7,10)
    by simp
qed

text \<open>When the node has two GPUs the second request is granted, and so was the first.\<close>

definition ex_wide :: nodes where
  "ex_wide = [(''0'', [(''free_gpu'', PInt 2), (''total_gpu'', PInt 2)])]"

definition ex_wide_refreshed :: "fcfs \<times> nodes" where
  "ex_wide_refreshed = projr (get_worker_nodes ex_wide [] [] ex_asked)"

definition ex_wide_served :: "nodes \<times> fcfs" where
  "ex_wide_served =
     projr (serve_requests (collect_loading_requests ex_asked) (snd ex_wide_refreshed, fst ex_wide_refreshed))"

lemma ex_wide_runs:
  "get_worker_nodes ex_wide [] [] ex_asked = Inr (fst ex_wide_refreshed, snd ex_wide_refreshed)"
  "serve_requests (collect_loading_requests ex_asked) (snd ex_wide_refreshed, fst ex_wide_refreshed)
     = Inr (fst ex_wide_served, snd ex_wide_served)"
  "fs_results (snd ex_wide_served) = [Granted ''0'', Granted ''0'']"
  by code_simp+

theorem round_first_come_first_served_witness: "\<exists>n. fs_results (snd ex_wide_served) ! 0 = Granted n"
proof -
  note facts = round_first_come_first_served [OF ex_queues_ok ex_round_facts(2,3) ex_wide_runs(1,2),
      of "fst ex_first" "fst (snd ex_first)" "snd (snd ex_first)" "fst (snd ex_second)" "snd (snd ex_second)",
      unfolded ex_queued(1) [symmetric] ex_queued(2) [symmetric] ex_queued(4-7) ex_wide_runs(3)]
  show ?thesis unfolding ex_wide_runs(3) by (rule facts) (simp_all add: ex_queued(3,8-10))
qed

end
