(* ===== verification/Fcfs_System.thy ===== *)
theory Fcfs_System
  imports Fcfs_Control_Props
begin

text \<open>
  The scheduler as an actor: its coroutines run interleaved, each from one suspension point to the
  next, and the calls of the controller and the routers arrive at any time. A state is the
  scheduler with the coroutines that are suspended; a step lets one coroutine run on or lets a
  call arrive. What Ray, providers and backends answer is chosen freely in each step.
\<close>

section \<open>Coroutines and steps\<close>

text \<open>
  Where a coroutine can be suspended: a round of the control loop that has collected its requests
  and waits for the providers, or has merged the node table and waits for the backends;
  \<open>allocate_resource\<close> waiting for its future; \<open>allocate_distributed_resource\<close> inside its refresh.
\<close>

datatype coroutine =
    Round_Collected "queued list"
  | Round_Merged "queued list" nodes
  | Allocation_Waiting string loading_request
  | Distributed_Started string string int "string list" bool
  | Distributed_Merged string string int "string list" bool nodes

type_synonym system = "fcfs \<times> coroutine list"

text \<open>
  A coroutine that raises is gone; what a round has granted before it raised stays. A scheduler
  that is shut down and started again may run the last round of its old loop beside the new one,
  so several rounds may be suspended.
\<close>

inductive sched_step :: "system \<Rightarrow> system \<Rightarrow> bool" where
  collect: "fs_running s \<Longrightarrow> collect_loading_requests s \<noteq> [] \<Longrightarrow>
    sched_step (s, cs) (s, cs @ [Round_Collected (collect_loading_requests s)])"
| merge: "merge_live_nodes s live available = Inr merged \<Longrightarrow>
    sched_step (s, xs @ Round_Collected qs # ys) (s, xs @ Round_Merged qs merged # ys)"
| finish: "commit_worker_nodes merged rows s = Inr (s1, w) \<Longrightarrow> finish_round qs w s1 = Inr s2 \<Longrightarrow>
    sched_step (s, xs @ Round_Merged qs merged # ys) (s2, xs @ ys)"
| merge_raises: "merge_live_nodes s live available = Inl e \<Longrightarrow>
    sched_step (s, xs @ Round_Collected qs # ys) (s, xs @ ys)"
| commit_raises: "commit_worker_nodes merged rows s = Inl e \<Longrightarrow>
    sched_step (s, xs @ Round_Merged qs merged # ys) (s, xs @ ys)"
| serve_raises: "commit_worker_nodes merged rows s = Inr (s1, w) \<Longrightarrow> finish_round qs w s1 = Inl e \<Longrightarrow>
    rfold serve_request (take k (sort_key (fst \<circ> snd) qs)) (w, s1) = Inr (w2, s2) \<Longrightarrow>
    sched_step (s, xs @ Round_Merged qs merged # ys) (s2, xs @ ys)"
| request: "request_allocation now m i resources target s = (s1, r) \<Longrightarrow>
    sched_step (s, cs) (s1, cs @ [Allocation_Waiting m r])"
| granted: "finish_allocation m r s = Inr (s1, n) \<Longrightarrow>
    sched_step (s, xs @ Allocation_Waiting m r # ys) (s1, xs @ ys)"
| cancelled: "finish_allocation m r s = Inl (RuntimeError message) \<Longrightarrow>
    sched_step (s, xs @ Allocation_Waiting m r # ys) (s, xs @ ys)"
| distribute: "requested_count resources = Inr gpus \<Longrightarrow>
    sched_step (s, cs) (s, cs @ [Distributed_Started m i gpus targets require_all])"
| distribute_merge: "merge_live_nodes s live available = Inr merged \<Longrightarrow>
    sched_step (s, xs @ Distributed_Started m i gpus targets require_all # ys)
      (s, xs @ Distributed_Merged m i gpus targets require_all merged # ys)"
| distribute_finish: "commit_worker_nodes merged rows s = Inr (s1, w) \<Longrightarrow>
    reserve_distributed m i gpus targets require_all s1 = Inr (s2, al) \<Longrightarrow>
    sched_step (s, xs @ Distributed_Merged m i gpus targets require_all merged # ys) (s2, xs @ ys)"
| distribute_refused: "commit_worker_nodes merged rows s = Inr (s1, w) \<Longrightarrow>
    reserve_distributed m i gpus targets require_all s1 = Inl e \<Longrightarrow>
    sched_step (s, xs @ Distributed_Merged m i gpus targets require_all merged # ys) (s1, xs @ ys)"
| distribute_merge_raises: "merge_live_nodes s live available = Inl e \<Longrightarrow>
    sched_step (s, xs @ Distributed_Started m i gpus targets require_all # ys) (s, xs @ ys)"
| distribute_commit_raises: "commit_worker_nodes merged rows s = Inl e \<Longrightarrow>
    sched_step (s, xs @ Distributed_Merged m i gpus targets require_all merged # ys) (s, xs @ ys)"
| deallocate: "deallocate_resource m i resources s = Inr s1 \<Longrightarrow> sched_step (s, cs) (s1, cs)"
| resize: "resize_resource m i resources s = Inr s1 \<Longrightarrow> sched_step (s, cs) (s1, cs)"
| clear: "clear_model m s = Inr (s1, pending, released) \<Longrightarrow> sched_step (s, cs) (s1, cs)"
| mark: "mark_node_state n state s = (s1, answer) \<Longrightarrow> sched_step (s, cs) (s1, cs)"
| add_node: "add_worker_node n info s = Inr s1 \<Longrightarrow> sched_step (s, cs) (s1, cs)"
| risk: "sched_step (s, cs) (update_node_risk n metadata s, cs)"
| configure: "update_scheduler_config config replace s = Inr s1 \<Longrightarrow> sched_step (s, cs) (s1, cs)"
| begin_loop: "sched_step (s, cs) (start s, cs)"
| stop: "sched_step (s, cs) (shutdown s, cs)"

inductive reachable :: "dict \<Rightarrow> system \<Rightarrow> bool" for config where
  init: "fcfs_init config = Inr s \<Longrightarrow> reachable config (s, [])"
| step: "reachable config x \<Longrightarrow> sched_step x y \<Longrightarrow> reachable config y"

text \<open>
  The states reached before a shutdown: no step so far has stopped a running scheduler.
\<close>

inductive serving :: "dict \<Rightarrow> system \<Rightarrow> bool" for config where
  serving_init: "fcfs_init config = Inr s \<Longrightarrow> serving config (s, [])"
| serving_step: "serving config x \<Longrightarrow> sched_step x y \<Longrightarrow> (fs_running (fst x) \<longrightarrow> fs_running (fst y)) \<Longrightarrow> serving config y"

section \<open>Queues as multisets\<close>

lemma mset_concat_update:
  "distinct (map fst d) \<Longrightarrow>
   mset (concat (map snd (AList.update k v d))) + mset (dget d k []) = mset (concat (map snd d)) + mset v"
proof (induction d)
  case Nil
  then show ?case by (simp add: dget_def)
next
  case (Cons p d)
  obtain k' v' where p: "p = (k', v')" by (cases p)
  show ?case
  proof (cases "k' = k")
    case True
    then show ?thesis by (simp add: p dget_def)
  next
    case False
    then have "dget (p # d) k [] = dget d k []" by (simp add: p dget_def)
    then show ?thesis using Cons False by (simp add: p ac_simps)
  qed
qed

lemma mset_concat_delete:
  "distinct (map fst d) \<Longrightarrow>
   mset (concat (map snd (AList.delete k d))) + mset (dget d k []) = mset (concat (map snd d))"
proof (induction d)
  case Nil
  then show ?case by (simp add: dget_def)
next
  case (Cons p d)
  obtain k' v' where p: "p = (k', v')" by (cases p)
  show ?case
  proof (cases "k' = k")
    case True
    then have "k \<notin> fst ` set d" using Cons.prems by (simp add: p)
    then have "AList.delete k d = d" by simp
    then show ?thesis using True by (simp add: p dget_def)
  next
    case False
    then have "dget (p # d) k [] = dget d k []" by (simp add: p dget_def)
    then show ?thesis using Cons False by (simp add: p ac_simps)
  qed
qed

lemma finite_waiting [simp]: "finite (waiting_futures s)"
  by (simp add: waiting_futures_def)

text \<open>The queues hold exactly the requests that wait, except the futures \<open>L\<close>, which nobody serves.\<close>

definition queues_but :: "nat set \<Rightarrow> fcfs \<Rightarrow> bool" where
  "queues_but L s \<longleftrightarrow> distinct (map fst (fs_model_loading_queues s)) \<and> L \<subseteq> waiting_futures s
     \<and> mset (queued_futures s) = mset_set (waiting_futures s - L)"

lemma mset_eq_mset_set: "finite A \<Longrightarrow> mset xs = mset_set A \<longleftrightarrow> distinct xs \<and> set xs = A"
  by (metis distinct_count_atmost_1 finite_set_mset_mset_set mset_set_set set_mset_mset
      count_mset_set(1) count_mset_set(3))

lemma queues_ok_but: "queues_ok s \<longleftrightarrow> queues_but {} s"
  by (simp add: queues_ok_def queues_but_def mset_eq_mset_set)

lemma queues_but_set:
  "queues_but L s \<Longrightarrow> distinct (queued_futures s) \<and> set (queued_futures s) = waiting_futures s - L"
  by (simp add: queues_but_def mset_eq_mset_set)

section \<open>What the steps do to queues and futures\<close>

lemma try_nodes_grant:
  "try_nodes m r ns (w, s) = Inr (w', s') \<Longrightarrow>
   s' = s \<or> (\<exists>n. \<not> future_done s (lr_allocation_result r)
     \<and> r \<in> set (dget (fs_model_loading_queues s) m []) \<and> s' = grant m r n s)"
  by (induction ns) (auto simp: dindex_def dget_def split: option.splits if_splits)

lemma serve_request_grant:
  assumes "serve_request (m, i, r) (w, s) = Inr (w', s')"
  shows "\<exists>d. s' = s\<lparr>fs_latest_scheduling_decision := d\<rparr>
    \<or> (\<exists>n. \<not> future_done s (lr_allocation_result r)
        \<and> r \<in> set (dget (fs_model_loading_queues s) m []) \<and> s' = grant m r n (s\<lparr>fs_latest_scheduling_decision := d\<rparr>))"
proof -
  from assms obtain d ns where "try_nodes m r ns (w, s\<lparr>fs_latest_scheduling_decision := d\<rparr>) = Inr (w', s')"
    unfolding serve_request_def ordered_candidate_nodes_def
    by (auto split: if_splits)
  from try_nodes_grant [OF this] show ?thesis by (auto simp: future_done_def)
qed

lemma queues_but_cong:
  "fs_model_loading_queues s' = fs_model_loading_queues s \<Longrightarrow> fs_results s' = fs_results s \<Longrightarrow>
   queues_but L s \<Longrightarrow> queues_but L s'"
  by (simp add: queues_but_def queued_futures_def waiting_futures_def)

lemma queued_waiting:
  assumes "queues_but L s" and "r \<in> set (dget (fs_model_loading_queues s) m [])"
  shows "lr_allocation_result r \<in> waiting_futures s - L"
proof -
  obtain queue where "(m, queue) \<in> set (fs_model_loading_queues s)" "r \<in> set queue"
    using assms(2) by (cases "map_of (fs_model_loading_queues s) m") (auto simp: dget_def dest: map_of_SomeD)
  then have "lr_allocation_result r \<in> set (queued_futures s)" by (force simp: queued_futures_def)
  then show ?thesis using queues_but_set [OF assms(1)] by simp
qed

lemma queues_but_grant:
  assumes "queues_but L s" and "r \<in> set (dget (fs_model_loading_queues s) m [])"
  shows "queues_but L (grant m r n s)"
proof -
  let ?qs = "fs_model_loading_queues s" and ?f = "lr_allocation_result r" and ?s = "grant m r n s"
  note w = queued_waiting [OF assms]
  have keys: "distinct (map fst ?qs)" and futs: "mset (queued_futures s) = mset_set (waiting_futures s - L)"
    and lost: "L \<subseteq> waiting_futures s" using assms(1) by (simp_all add: queues_but_def)
  have waiting: "waiting_futures ?s = waiting_futures s - {?f}"
    using w by (auto simp: waiting_futures_def grant_def nth_list_update)
  let ?rest = "mset (remove1 r (dget ?qs m []))"
  have split: "mset (dget ?qs m []) = ?rest + {#r#}" using assms(2) by simp
  have "mset (concat (map snd (fs_model_loading_queues ?s))) + (?rest + {#r#})
      = mset (concat (map snd ?qs)) + ?rest"
    using mset_concat_update [OF keys, of m "remove1 r (dget ?qs m [])"] unfolding split by (simp add: grant_def)
  then have "(mset (concat (map snd (fs_model_loading_queues ?s))) + {#r#}) + ?rest = mset (concat (map snd ?qs)) + ?rest"
    by (simp only: add.assoc add.commute add.left_commute)
  then have "mset (concat (map snd (fs_model_loading_queues ?s))) + {#r#} = mset (concat (map snd ?qs))"
    by (simp only: add_right_cancel)
  then have "image_mset lr_allocation_result (mset (concat (map snd (fs_model_loading_queues ?s))) + {#r#})
      = image_mset lr_allocation_result (mset (concat (map snd ?qs)))" by simp
  then have "mset (queued_futures ?s) + {#?f#} = mset (queued_futures s)" by (simp add: queued_futures_def)
  moreover have "waiting_futures ?s - L = (waiting_futures s - L) - {?f}" using waiting by blast
  ultimately have "mset (queued_futures ?s) = mset_set (waiting_futures ?s - L)"
    using futs mset_set.remove [OF _ w] by simp
  moreover have "L \<subseteq> waiting_futures ?s" using lost w by (auto simp: waiting)
  moreover have "distinct (map fst (fs_model_loading_queues ?s))" using keys by (simp add: grant_def distinct_update)
  ultimately show ?thesis by (simp add: queues_but_def)
qed

text \<open>
  How queues and futures may evolve: a settled future keeps its value, a queued request stays
  queued until its future is settled, and the queues keep holding exactly the waiting requests.
\<close>

definition evolves :: "fcfs \<Rightarrow> fcfs \<Rightarrow> bool" where
  "evolves s s' \<longleftrightarrow> length (fs_results s) \<le> length (fs_results s')
     \<and> (\<forall>f. future_done s f \<longrightarrow> future_done s' f \<and> fs_results s' ! f = fs_results s ! f)
     \<and> (\<forall>m r. r \<in> set (dget (fs_model_loading_queues s) m []) \<longrightarrow> lr_allocation_result r < length (fs_results s) \<longrightarrow>
          r \<in> set (dget (fs_model_loading_queues s') m []) \<or> future_done s' (lr_allocation_result r))
     \<and> (\<forall>L. queues_but L s \<longrightarrow> queues_but L s')"

lemma evolves_same:
  "fs_model_loading_queues s' = fs_model_loading_queues s \<Longrightarrow> fs_results s' = fs_results s \<Longrightarrow> evolves s s'"
  using queues_but_cong by (auto simp: evolves_def future_done_def)

lemma evolves_trans: "evolves s s' \<Longrightarrow> evolves s' s'' \<Longrightarrow> evolves s s''"
proof -
  assume a: "evolves s s'" and b: "evolves s' s''"
  have "r \<in> set (dget (fs_model_loading_queues s'') m []) \<or> future_done s'' (lr_allocation_result r)"
    if r: "r \<in> set (dget (fs_model_loading_queues s) m [])" "lr_allocation_result r < length (fs_results s)" for r m
  proof -
    have "lr_allocation_result r < length (fs_results s')" using a r(2) by (simp add: evolves_def)
    moreover have "r \<in> set (dget (fs_model_loading_queues s') m []) \<or> future_done s' (lr_allocation_result r)"
      using a r by (simp add: evolves_def)
    ultimately show ?thesis using b unfolding evolves_def by blast
  qed
  moreover have "length (fs_results s) \<le> length (fs_results s'')" using a b by (simp add: evolves_def)
  moreover have "future_done s'' f \<and> fs_results s'' ! f = fs_results s ! f" if "future_done s f" for f
    using a b that by (simp add: evolves_def)
  moreover have "queues_but L s \<Longrightarrow> queues_but L s''" for L using a b by (simp add: evolves_def)
  ultimately show ?thesis by (simp add: evolves_def)
qed

lemma evolves_grant:
  assumes "\<not> future_done s (lr_allocation_result r)" and "r \<in> set (dget (fs_model_loading_queues s) m [])"
  shows "evolves s (grant m r n s)"
proof -
  have "r' \<in> set (dget (fs_model_loading_queues (grant m r n s)) k []) \<or> future_done (grant m r n s) (lr_allocation_result r')"
    if "r' \<in> set (dget (fs_model_loading_queues s) k [])" "lr_allocation_result r' < length (fs_results s)" for r' k
    using that by (cases "r' = r") (auto simp: grant_def dget_update future_done_def)
  moreover have "future_done (grant m r n s) f \<and> fs_results (grant m r n s) ! f = fs_results s ! f"
    if "future_done s f" for f
  proof -
    have "f \<noteq> lr_allocation_result r" using that assms(1) by blast
    then show ?thesis using that by (simp add: grant_def future_done_def)
  qed
  moreover have "length (fs_results (grant m r n s)) = length (fs_results s)" by (simp add: grant_def)
  ultimately show ?thesis using queues_but_grant [OF _ assms(2)] by (simp add: evolves_def)
qed

lemma evolves_serve:
  assumes "rfold serve_request qs (w, s) = Inr (w', s')"
  shows "evolves s s'"
proof -
  have "evolves s (snd (w', s'))"
  proof (rule rfold_invariant [OF assms, where P = "\<lambda>x. evolves s (snd x)"])
    show "evolves s (snd (w, s))" by (simp add: evolves_same)
    fix q x y
    assume x: "evolves s (snd x)" and y: "serve_request q x = Inr y"
    obtain m i r u t u' t' where q: "q = (m, i, r)" "x = (u, t)" "y = (u', t')" by (cases q, cases x, cases y)
    obtain d where d: "t' = t\<lparr>fs_latest_scheduling_decision := d\<rparr>
      \<or> (\<exists>n. \<not> future_done t (lr_allocation_result r) \<and> r \<in> set (dget (fs_model_loading_queues t) m [])
          \<and> t' = grant m r n (t\<lparr>fs_latest_scheduling_decision := d\<rparr>))"
      using serve_request_grant [OF y [unfolded q]] by blast
    have same: "evolves t (t\<lparr>fs_latest_scheduling_decision := d\<rparr>)" by (simp add: evolves_same)
    from d have "evolves t t'"
    proof (elim disjE exE conjE)
      fix n
      assume "\<not> future_done t (lr_allocation_result r)" "r \<in> set (dget (fs_model_loading_queues t) m [])"
        and t': "t' = grant m r n (t\<lparr>fs_latest_scheduling_decision := d\<rparr>)"
      then have "evolves (t\<lparr>fs_latest_scheduling_decision := d\<rparr>) t'"
        unfolding t' by (intro evolves_grant) (simp_all add: future_done_def)
      with same show ?thesis by (rule evolves_trans)
    qed (simp add: same)
    then show "evolves s (snd y)" using x q evolves_trans by simp
  qed
  then show ?thesis by simp
qed

lemma evolves_request:
  assumes "request_allocation now m i resources target s = (s', r)"
  shows "evolves s s'" and "r \<in> set (dget (fs_model_loading_queues s') m [])"
    and "lr_allocation_result r < length (fs_results s')"
proof -
  have s': "fs_model_loading_queues s' = AList.update m (dget (fs_model_loading_queues s) m [] @ [r]) (fs_model_loading_queues s)"
    "fs_results s' = fs_results s @ [Waiting]" and r: "lr_allocation_result r = length (fs_results s)"
    using assms by (auto simp: request_allocation_def Let_def)
  show "r \<in> set (dget (fs_model_loading_queues s') m [])" "lr_allocation_result r < length (fs_results s')"
    by (simp_all add: s' r dget_update)
  have "queues_but L s'" if ok: "queues_but L s" for L
  proof -
    have keys: "distinct (map fst (fs_model_loading_queues s))"
      and futs: "mset (queued_futures s) = mset_set (waiting_futures s - L)" and lost: "L \<subseteq> waiting_futures s"
      using ok by (simp_all add: queues_but_def)
    have waiting: "waiting_futures s' = insert (length (fs_results s)) (waiting_futures s)"
      by (auto simp: waiting_futures_def s' nth_append)
    have new: "length (fs_results s) \<notin> waiting_futures s" by (simp add: waiting_futures_def)
    have "mset (concat (map snd (fs_model_loading_queues s'))) = mset (concat (map snd (fs_model_loading_queues s))) + {#r#}"
      using mset_concat_update [OF keys, of m "dget (fs_model_loading_queues s) m [] @ [r]"] by (simp add: s')
    then have "mset (queued_futures s') = mset (queued_futures s) + {#lr_allocation_result r#}"
      unfolding queued_futures_def mset_map by simp
    moreover have "waiting_futures s' - L = insert (length (fs_results s)) (waiting_futures s - L)"
      using new lost by (auto simp: waiting)
    ultimately have "mset (queued_futures s') = mset_set (waiting_futures s' - L)" using futs new by (simp add: r)
    then show ?thesis using keys lost by (auto simp: queues_but_def s' distinct_update waiting)
  qed
  then show "evolves s s'"
    by (auto simp: evolves_def s' dget_update future_done_def nth_append)
qed

lemma fold_cancel:
  "length (fold (\<lambda>r results. results[g r := v]) rs results) = length results \<and>
   (f < length results \<longrightarrow> fold (\<lambda>r results. results[g r := v]) rs results ! f
      = (if f \<in> g ` set rs then v else results ! f))"
  by (induction rs arbitrary: results) (auto simp: nth_list_update)

lemma clear_model_fields:
  assumes "clear_model m s = Inr (s', pending, released)"
  shows "fs_model_loading_queues s' = AList.delete m (fs_model_loading_queues s)"
    and "length (fs_results s') = length (fs_results s)"
    and "f < length (fs_results s) \<Longrightarrow> fs_results s' ! f =
      (if \<not> future_done s f \<and> f \<in> lr_allocation_result ` set (dget (fs_model_loading_queues s) m [])
       then Cancelled (''Allocation cancelled for deleted model '' @ m) else fs_results s ! f)"
    and "fs_model_instance s' = AList.delete m (fs_model_instance s)"
    and "fs_model_instance_resources s' = AList.delete m (fs_model_instance_resources s)"
    and "pending = length (filter (\<lambda>r. \<not> future_done s (lr_allocation_result r)) (dget (fs_model_loading_queues s) m []))"
proof -
  let ?open = "filter (\<lambda>r. \<not> future_done s (lr_allocation_result r)) (dget (fs_model_loading_queues s) m [])"
  let ?v = "Cancelled (''Allocation cancelled for deleted model '' @ m)"
  have s': "fs_model_loading_queues s' = AList.delete m (fs_model_loading_queues s)"
    "fs_results s' = fold (\<lambda>r results. results[lr_allocation_result r := ?v]) ?open (fs_results s)"
    "fs_model_instance s' = AList.delete m (fs_model_instance s)"
    "fs_model_instance_resources s' = AList.delete m (fs_model_instance_resources s)" "pending = length ?open"
    using assms by (auto simp: clear_model_def cancel_pending_def Let_def)
  note fc = fold_cancel [of lr_allocation_result ?v ?open "fs_results s"]
  show "fs_model_loading_queues s' = AList.delete m (fs_model_loading_queues s)"
    "fs_model_instance s' = AList.delete m (fs_model_instance s)"
    "fs_model_instance_resources s' = AList.delete m (fs_model_instance_resources s)"
    "pending = length ?open" by (rule s')+
  show "length (fs_results s') = length (fs_results s)" using fc by (simp add: s'(2))
  show "fs_results s' ! f = (if \<not> future_done s f \<and> f \<in> lr_allocation_result ` set (dget (fs_model_loading_queues s) m [])
       then ?v else fs_results s ! f)" if "f < length (fs_results s)"
    using fc [of f] that by (auto simp: s'(2))
qed

lemma evolves_clear:
  assumes "clear_model m s = Inr (s', pending, released)"
  shows "evolves s s'"
proof -
  note fields = clear_model_fields [OF assms]
  let ?pending = "dget (fs_model_loading_queues s) m []"
  have settled: "future_done s' f \<and> fs_results s' ! f = fs_results s ! f" if "future_done s f" for f
    using fields(2) fields(3) [of f] that by (simp add: future_done_def)
  have queued: "r \<in> set (dget (fs_model_loading_queues s') k []) \<or> future_done s' (lr_allocation_result r)"
    if "r \<in> set (dget (fs_model_loading_queues s) k [])" "lr_allocation_result r < length (fs_results s)" for k r
  proof (cases "k = m")
    case True
    then show ?thesis
      using fields(2) fields(3) [OF that(2)] that settled [of "lr_allocation_result r"] by (auto simp: future_done_def)
  next
    case False
    then show ?thesis using that by (simp add: fields(1) dget_def delete_conv')
  qed
  have "queues_but L s'" if ok: "queues_but L s" for L
  proof -
    have keys: "distinct (map fst (fs_model_loading_queues s))"
      and futs: "mset (queued_futures s) = mset_set (waiting_futures s - L)" and lost: "L \<subseteq> waiting_futures s"
      using ok by (simp_all add: queues_but_def)
    have split: "mset (queued_futures s') + mset (map lr_allocation_result ?pending) = mset (queued_futures s)"
      using arg_cong [OF mset_concat_delete [OF keys, of m], of "image_mset lr_allocation_result"]
      by (simp add: queued_futures_def fields(1))
    have sub: "lr_allocation_result ` set ?pending \<subseteq> waiting_futures s - L"
      using queued_waiting [OF ok] by blast
    have "distinct (map lr_allocation_result ?pending)"
      using queues_but_set [OF ok] split by (metis distinct_append mset_append mset_eq_imp_distinct_iff)
    then have "mset (map lr_allocation_result ?pending) = mset_set (lr_allocation_result ` set ?pending)"
      by (metis mset_set_set set_map)
    moreover have waiting: "waiting_futures s' = waiting_futures s - lr_allocation_result ` set ?pending"
      using sub fields(2,3) by (auto simp: waiting_futures_def future_done_def split: if_splits)
    moreover have "waiting_futures s' - L = (waiting_futures s - L) - lr_allocation_result ` set ?pending"
      using waiting by blast
    ultimately have "mset (queued_futures s') = mset_set (waiting_futures s' - L)"
      using split futs mset_set_Diff [OF finite_Diff [OF finite_waiting] sub] by (metis add_diff_cancel_right')
    moreover have "L \<subseteq> waiting_futures s'" using lost sub by (auto simp: waiting)
    ultimately show ?thesis using keys by (simp add: queues_but_def fields(1) distinct_delete)
  qed
  then show ?thesis using settled queued fields(2) by (simp add: evolves_def)
qed

lemma evolves_finish_round:
  assumes "finish_round qs w s = Inr s'"
  shows "evolves s s'"
proof -
  from assms obtain w1 s1 where "serve_requests qs (w, s) = Inr (w1, s1)" and "update_worker_nodes w1 s1 = Inr s'"
    by (auto simp: finish_round_def)
  then have "evolves s s1" "evolves s1 s'"
    by (auto intro: evolves_serve evolves_same simp: update_worker_nodes_def serve_requests_def)
  then show ?thesis by (rule evolves_trans)
qed

lemma evolves_commit: "commit_worker_nodes merged rows s = Inr (s1, w) \<Longrightarrow> evolves s s1"
  by (auto simp: commit_worker_nodes_def intro: evolves_same)

lemma evolves_others:
  "finish_allocation m r s = Inr (s1, n) \<Longrightarrow> evolves s s1"
  "reserve_distributed m i gpus targets require_all s = Inr (s1, al) \<Longrightarrow> evolves s s1"
  "deallocate_resource m i resources s = Inr s1 \<Longrightarrow> evolves s s1"
  "resize_resource m i resources s = Inr s1 \<Longrightarrow> evolves s s1"
  "mark_node_state n' state s = (s1, answer) \<Longrightarrow> evolves s s1"
  "add_worker_node n' info s = Inr s1 \<Longrightarrow> evolves s s1"
  "evolves s (update_node_risk n' info s)"
  "update_scheduler_config config replace s = Inr s1 \<Longrightarrow> evolves s s1"
  "evolves s (start s)"
  subgoal by (auto simp: finish_allocation_def register_instance_def intro!: evolves_same split: allocation_result.splits)
  subgoal by (auto simp: reserve_distributed_def register_instance_def Let_def intro!: evolves_same)
  subgoal by (auto simp: deallocate_resource_def Let_def intro!: evolves_same split: option.splits)
  subgoal by (auto simp: resize_resource_def Let_def intro!: evolves_same split: option.splits if_splits)
  subgoal by (auto simp: mark_node_state_def Let_def intro!: evolves_same)
  subgoal by (auto simp: add_worker_node_def Let_def intro!: evolves_same)
  subgoal by (auto simp: update_node_risk_def Let_def intro!: evolves_same)
  subgoal by (auto simp: update_scheduler_config_def Let_def intro!: evolves_same)
  subgoal by (auto simp: start_def intro!: evolves_same)
  done

text \<open>A shutdown is the only step after which a queued request may be gone without an answer.\<close>

lemma step_evolves:
  "sched_step x y \<Longrightarrow> evolves (fst x) (fst y) \<or> fs_running (fst x) \<and> y = (shutdown (fst x), snd x)"
proof (induction rule: sched_step.induct)
  case (stop s cs)
  then show ?case by (cases "fs_running s") (auto simp: shutdown_def intro: evolves_same)
next
  case (serve_raises merged rows s s1 w qs e k w2 s2 xs ys)
  then show ?case by (auto intro: evolves_trans [OF evolves_commit evolves_serve])
qed (auto intro: evolves_same evolves_others evolves_clear evolves_request(1)
      evolves_trans [OF evolves_commit evolves_finish_round] evolves_trans [OF evolves_commit evolves_others(2)]
      evolves_commit)

lemma shutdown_fields:
  "fs_running s \<Longrightarrow> fs_results (shutdown s) = fs_results s \<and> fs_model_loading_queues (shutdown s) = [] \<and>
   \<not> fs_running (shutdown s)"
  by (simp add: shutdown_def)

lemma queues_but_shutdown:
  "fs_running s \<Longrightarrow> queues_but (waiting_futures s) (shutdown s)"
  by (simp add: queues_but_def shutdown_fields waiting_futures_def queued_futures_def)

section \<open>No request is lost\<close>

definition waiter_ok :: "fcfs \<Rightarrow> coroutine \<Rightarrow> bool" where
  "waiter_ok s c =
     (case c of Allocation_Waiting m r \<Rightarrow>
        lr_allocation_result r < length (fs_results s)
        \<and> (future_done s (lr_allocation_result r) \<or> r \<in> set (dget (fs_model_loading_queues s) m []))
      | _ \<Rightarrow> True)"

lemma waiter_evolves: "waiter_ok s c \<Longrightarrow> evolves s s' \<Longrightarrow> waiter_ok s' c"
  by (auto simp: waiter_ok_def evolves_def split: coroutine.splits)

lemma step_waiters:
  assumes "sched_step x y" and "list_all (waiter_ok (fst x)) (snd x)" and "evolves (fst x) (fst y)"
  shows "list_all (waiter_ok (fst y)) (snd y)"
proof -
  have old: "waiter_ok (fst y) c" if "c \<in> set (snd x)" for c
    using assms(2) waiter_evolves [OF _ assms(3)] that by (auto simp: list_all_iff)
  from assms(1) show ?thesis
  proof cases
    case (request now m i resources target s s1 r cs)
    then show ?thesis using old evolves_request(2,3) [OF request(3)]
      by (auto simp: list_all_iff waiter_ok_def)
  qed (use old in \<open>auto simp: list_all_iff waiter_ok_def\<close>)
qed

lemma serving_evolves:
  assumes "sched_step x y" and "fs_running (fst x) \<longrightarrow> fs_running (fst y)"
  shows "evolves (fst x) (fst y)"
  using step_evolves [OF assms(1)] assms(2) shutdown_fields by auto

lemma init_queues: "fcfs_init config = Inr s \<Longrightarrow> queues_but {} s"
  by (auto simp: fcfs_init_def queues_but_def queued_futures_def waiting_futures_def)

lemma reachable_queues: "reachable config x \<Longrightarrow> \<exists>L. queues_but L (fst x)"
proof (induction rule: reachable.induct)
  case (init s)
  then show ?case using init_queues by auto
next
  case (step x y)
  from step_evolves [OF step.hyps(2)] show ?case
  proof
    assume "evolves (fst x) (fst y)"
    then show ?case using step.IH unfolding evolves_def by blast
  next
    assume "fs_running (fst x) \<and> y = (shutdown (fst x), snd x)"
    then show ?case using queues_but_shutdown by auto
  qed
qed

lemma serving_ok:
  assumes "serving config x"
  shows "queues_ok (fst x) \<and> list_all (waiter_ok (fst x)) (snd x)"
  using assms
proof induction
  case (serving_init s)
  then show ?case using init_queues by (simp add: queues_ok_but)
next
  case (serving_step x y)
  note ev = serving_evolves [OF serving_step.hyps(2,3)]
  then show ?case using serving_step.IH step_waiters [OF serving_step.hyps(2) _ ev]
    by (auto simp: evolves_def queues_ok_but)
qed

text \<open>
  C7. In every state the scheduler can reach, over all interleavings of its coroutines and calls,
  shutdowns included, every queued request waits for its answer and is queued once. Until a
  shutdown, the queued requests are exactly those whose futures wait, and a suspended
  \<open>allocate_resource\<close> has its future settled or its request in the queue of its model: no request
  is lost. (A shutdown drops the queued requests without an answer.)
\<close>

theorem no_request_lost:
  assumes "reachable config (s, cs)"
  shows "distinct (queued_futures s) \<and> set (queued_futures s) \<subseteq> waiting_futures s
    \<and> (serving config (s, cs) \<longrightarrow> set (queued_futures s) = waiting_futures s
        \<and> (\<forall>m r. Allocation_Waiting m r \<in> set cs \<longrightarrow>
             future_done s (lr_allocation_result r) \<or> r \<in> set (dget (fs_model_loading_queues s) m [])))"
proof -
  obtain L where "queues_but L s" using reachable_queues [OF assms] by auto
  note once = queues_but_set [OF this]
  show ?thesis
  proof (intro conjI impI)
    show "distinct (queued_futures s)" "set (queued_futures s) \<subseteq> waiting_futures s" using once by auto
    assume "serving config (s, cs)"
    note ok = serving_ok [OF this]
    then show "set (queued_futures s) = waiting_futures s" by (simp add: queues_ok_def)
    show "\<forall>m r. Allocation_Waiting m r \<in> set cs \<longrightarrow>
        future_done s (lr_allocation_result r) \<or> r \<in> set (dget (fs_model_loading_queues s) m [])"
      using ok by (force simp: list_all_iff waiter_ok_def)
  qed
qed

text \<open>
  An allocation future is settled at most once: whatever runs afterwards, a granted node or a
  cancellation stays the answer.
\<close>

theorem futures_settled_once:
  assumes "sched_step\<^sup>*\<^sup>* (s, cs) (s', cs')" and "future_done s f"
  shows "fs_results s' ! f = fs_results s ! f"
proof -
  have one: "future_done (fst y) f \<and> fs_results (fst y) ! f = fs_results (fst x) ! f"
    if "sched_step x y" and "future_done (fst x) f" for x y
    using step_evolves [OF that(1)] that(2) by (auto simp: evolves_def future_done_def shutdown_fields)
  have "future_done (fst y) f \<and> fs_results (fst y) ! f = fs_results s ! f" if "sched_step\<^sup>*\<^sup>* (s, cs) y" for y
    using that
  proof induction
    case base
    then show ?case using assms(2) by simp
  next
    case (step y z)
    then show ?case using one [OF step.hyps(2)] by simp
  qed
  from this [OF assms(1)] show ?thesis by simp
qed

text \<open>
  C8. Before a shutdown, deleting a model answers everybody who waits for it: every suspended
  \<open>allocate_resource\<close> of the model has its future settled afterwards, a request that was still
  waiting is cancelled, the number of cancelled requests is the length of the model's queue, and
  nothing of the model stays queued or registered, neither its instances nor their resources,
  while the queues and registrations of all other models are kept.
\<close>

theorem clear_model_answers_waiters:
  assumes "serving config (s, cs)" and "clear_model m s = Inr (s', pending, released)"
  shows "pending = length (dget (fs_model_loading_queues s) m [])
    \<and> \<not> dhas (fs_model_loading_queues s') m \<and> \<not> dhas (fs_model_instance s') m
    \<and> \<not> dhas (fs_model_instance_resources s') m
    \<and> (\<forall>k. k \<noteq> m \<longrightarrow> map_of (fs_model_loading_queues s') k = map_of (fs_model_loading_queues s) k
        \<and> map_of (fs_model_instance s') k = map_of (fs_model_instance s) k
        \<and> map_of (fs_model_instance_resources s') k = map_of (fs_model_instance_resources s) k)
    \<and> (\<forall>r. Allocation_Waiting m r \<in> set cs \<longrightarrow> future_done s' (lr_allocation_result r)
        \<and> (\<not> future_done s (lr_allocation_result r) \<longrightarrow>
             (\<exists>message. fs_results s' ! lr_allocation_result r = Cancelled message)))"
proof -
  note fields = clear_model_fields [OF assms(2)]
  have ok: "queues_ok s" and waiters: "list_all (waiter_ok s) cs" using serving_ok [OF assms(1)] by simp_all
  have all_open: "filter (\<lambda>r. \<not> future_done s (lr_allocation_result r)) (dget (fs_model_loading_queues s) m [])
      = dget (fs_model_loading_queues s) m []"
    using queued_waiting [OF ok [unfolded queues_ok_but]] by (intro filter_True) (auto simp: waiting_futures_def future_done_def)
  have answered: "future_done s' (lr_allocation_result r) \<and> (\<not> future_done s (lr_allocation_result r) \<longrightarrow>
      (\<exists>message. fs_results s' ! lr_allocation_result r = Cancelled message))"
    if "Allocation_Waiting m r \<in> set cs" for r
  proof -
    have r: "lr_allocation_result r < length (fs_results s)"
      "future_done s (lr_allocation_result r) \<or> r \<in> set (dget (fs_model_loading_queues s) m [])"
      using waiters that by (force simp: list_all_iff waiter_ok_def)+
    show ?thesis
    proof (cases "future_done s (lr_allocation_result r)")
      case True
      then show ?thesis using evolves_clear [OF assms(2)] by (simp add: evolves_def)
    next
      case False
      then show ?thesis using fields(3) [OF r(1)] fields(2) r by (auto simp: future_done_def)
    qed
  qed
  then show ?thesis
    using fields(1,4-6) all_open by (simp add: dhas_def delete_conv')
qed

section \<open>A round does not overcommit\<close>

lemma steps_results: "sched_step\<^sup>*\<^sup>* x y \<Longrightarrow> length (fs_results (fst x)) \<le> length (fs_results (fst y))"
proof (induction rule: rtranclp_induct)
  case base
  then show ?case by simp
next
  case (step y z)
  from step_evolves [OF step.hyps(2)] have "length (fs_results (fst y)) \<le> length (fs_results (fst z))"
    by (auto simp: evolves_def shutdown_fields)
  then show ?case using step.IH by simp
qed

text \<open>
  C4. A round of the control loop never gives away more GPUs of a node than it has, whatever else
  runs while the round waits: the requests may have been collected in one state \<open>s0\<close>, the node
  table merged in a later state \<open>s\<close> and the requests served in a still later state \<open>t\<close>. The GPUs
  of the instances that were registered on the node when the table was merged and the GPUs the
  round grants on it together do not exceed the GPUs of the node. (The requests ask for numbers of
  GPUs that are not negative, each node is listed once, and the configured risk metadata does not
  redefine capacities. An instance that is registered between the merge and the grants is not
  counted.)
\<close>

theorem round_never_overcommits:
  assumes "reachable config (s0, cs0)" and "sched_step\<^sup>*\<^sup>* (s0, cs0) (s, cs1)" and "sched_step\<^sup>*\<^sup>* (s, cs1) (t, cs2)"
    and "list_all numeric_demand (collect_loading_requests s0)"
    and "capacity_neutral (fs_scheduler_config s)" and "capacity_neutral (fs_scheduler_config t)"
    and "distinct (map fst live)" and "distinct (map fst (fs_worker_nodes s))"
    and "allocated_gpu_by_node_unlocked s = Inr allocated"
    and "merge_live_nodes s live available = Inr merged"
    and "commit_worker_nodes merged rows t = Inr (t1, w)"
    and "serve_requests (collect_loading_requests s0) (w, t1) = Inr (w', t2)"
    and "0 < granted_on n t1 t2 (collect_loading_requests s0)"
  shows "dget allocated n 0 + granted_on n t1 t2 (collect_loading_requests s0) \<le> total_at w n"
proof -
  let ?qs = "collect_loading_requests s0"
  obtain L where "queues_but L s0" using reachable_queues [OF assms(1)] by auto
  note once = queues_but_set [OF this]
  have dist: "distinct (map fut ?qs)" using once by (simp add: fut_collected)
  have "fut q < length (fs_results s0)" if "q \<in> set ?qs" for q
  proof -
    have "fut q \<in> set (queued_futures s0)" using that by (simp flip: fut_collected)
    then show ?thesis using once by (simp add: waiting_futures_def)
  qed
  moreover have "length (fs_results s0) \<le> length (fs_results t)"
    using steps_results [OF rtranclp_trans [OF assms(2,3)]] by simp
  moreover have "fs_results t1 = fs_results t" using assms(11) by (auto simp: commit_worker_nodes_def)
  ultimately have range: "\<forall>q \<in> set ?qs. fut q < length (fs_results t1)" by fastforce
  have capped: "distinct (map fst w)" "\<And>node. map_of w n = Some node \<Longrightarrow> capped (dget allocated n 0) node"
    using committed_capped [OF assms(5,7,8,9,10,6,11)] by blast+
  show ?thesis by (rule grants_within_table [OF capped assms(4) dist range assms(12,13)])
qed

section \<open>Witnesses\<close>

definition ex_boot :: fcfs where
  "ex_boot = projr (fcfs_init [])"

definition ex_request :: loading_request where
  "ex_request = snd (request_allocation 1 ''m'' ''a'' [(''num_gpus'', PInt 1)] None ex_boot)"

definition ex_waiting :: fcfs where
  "ex_waiting = fst (request_allocation 1 ''m'' ''a'' [(''num_gpus'', PInt 1)] None ex_boot)"

lemma ex_boot_run: "fcfs_init [] = Inr ex_boot"
  by code_simp

lemma ex_step: "sched_step (ex_boot, []) (ex_waiting, [] @ [Allocation_Waiting ''m'' ex_request])"
  by (rule sched_step.request [of 1 _ "''a''" "[(''num_gpus'', PInt 1)]" None])
    (simp add: ex_waiting_def ex_request_def)

lemma ex_reachable: "reachable [] (ex_waiting, [Allocation_Waiting ''m'' ex_request])"
  using reachable.step [OF reachable.init [OF ex_boot_run] ex_step] by simp

lemma ex_serving: "serving [] (ex_waiting, [Allocation_Waiting ''m'' ex_request])"
proof -
  have "\<not> fs_running ex_boot" by code_simp
  then show ?thesis using serving_step [OF serving_init [OF ex_boot_run] ex_step] by simp
qed

lemma ex_waiting_results: "fs_results ex_waiting = [Waiting]" "lr_allocation_result ex_request = 0"
  by code_simp+

theorem no_request_lost_witness: "ex_request \<in> set (dget (fs_model_loading_queues ex_waiting) ''m'' [])"
  using no_request_lost [OF ex_reachable] ex_serving ex_waiting_results by (auto simp: future_done_def)

definition ex_merged :: nodes where
  "ex_merged = projr (merge_live_nodes ex_waiting ex_live [])"

definition ex_committed :: "fcfs \<times> nodes" where
  "ex_committed = projr (commit_worker_nodes ex_merged [] ex_waiting)"

definition ex_granted :: "nodes \<times> fcfs" where
  "ex_granted = projr (serve_requests (collect_loading_requests ex_waiting) (snd ex_committed, fst ex_committed))"

lemma ex_round:
  "merge_live_nodes ex_waiting ex_live [] = Inr ex_merged"
  "commit_worker_nodes ex_merged [] ex_waiting = Inr (fst ex_committed, snd ex_committed)"
  "serve_requests (collect_loading_requests ex_waiting) (snd ex_committed, fst ex_committed) =
     Inr (fst ex_granted, snd ex_granted)"
  "allocated_gpu_by_node_unlocked ex_waiting = Inr []"
  "list_all numeric_demand (collect_loading_requests ex_waiting)"
  "distinct (map fst ex_live)" "distinct (map fst (fs_worker_nodes ex_waiting))"
  "granted_on ''0'' (fst ex_committed) (snd ex_granted) (collect_loading_requests ex_waiting) = 1"
  "total_at (snd ex_committed) ''0'' = 1"
  by code_simp+

lemma ex_neutral_config: "capacity_neutral (fs_scheduler_config ex_waiting)"
proof -
  have "fs_scheduler_config ex_waiting = []" by code_simp
  then show ?thesis by (simp add: capacity_neutral_def configured_node_risk_def dget_def por_def dhas_def)
qed

theorem round_never_overcommits_witness:
  "dget [] ''0'' 0 + granted_on ''0'' (fst ex_committed) (snd ex_granted) (collect_loading_requests ex_waiting) \<le> (1::rat)"
  using round_never_overcommits [OF ex_reachable rtranclp.rtrancl_refl rtranclp.rtrancl_refl ex_round(5)
      ex_neutral_config ex_neutral_config ex_round(6,7,4,1,2,3), of "''0''"]
  unfolding ex_round(8,9) by simp

definition ex_cleared :: fcfs where
  "ex_cleared = fst (projr (clear_model ''m'' ex_waiting))"

lemma ex_clear_run: "clear_model ''m'' ex_waiting = Inr (ex_cleared, 1, 0)"
  by code_simp

theorem clear_model_answers_waiters_witness: "future_done ex_cleared (lr_allocation_result ex_request)"
  using clear_model_answers_waiters [OF ex_serving ex_clear_run] by auto

lemma ex_cleared_done: "future_done ex_cleared 0"
  by code_simp

theorem futures_settled_once_witness: "fs_results (start ex_cleared) ! 0 = fs_results ex_cleared ! 0"
proof -
  have "sched_step\<^sup>*\<^sup>* (ex_cleared, []) (start ex_cleared, [])" by (intro r_into_rtranclp sched_step.begin_loop)
  from futures_settled_once [OF this ex_cleared_done] show ?thesis .
qed

section \<open>Races\<close>

text \<open>
  A preemption notice that arrives while a refresh waits for backend metadata is lost: the refresh
  writes back the node table it copied before the notice, and the node is ready again.
\<close>

definition ex_ready :: fcfs where
  "ex_ready = ex_waiting\<lparr>fs_worker_nodes := [(''0'', ex_node 1 1)]\<rparr>"

lemma preemption_notice_lost:
  "case merge_live_nodes ex_ready ex_live [] of Inl _ \<Rightarrow> False
   | Inr merged \<Rightarrow>
       let marked = fst (mark_node_preempting ''0'' ex_ready)
       in node_state_of marked ''0'' = Some (PStr PREEMPTING) \<and>
          (case commit_worker_nodes merged [] marked of Inl _ \<Rightarrow> False
           | Inr (s, _) \<Rightarrow> node_state_of s ''0'' = Some (PStr READY))"
  by code_simp

text \<open>
  An instance that is registered while a round waits for backend metadata is not in the table the
  round goes on with: the round grants the GPU the instance holds.
\<close>

lemma registered_gpu_granted_again:
  "case merge_live_nodes ex_ready ex_live [] of Inl _ \<Rightarrow> False
   | Inr merged \<Rightarrow>
     (case reserve_distributed ''other'' ''b'' 1 [''0''] True ex_ready of Inl _ \<Rightarrow> False
      | Inr (reserved, _) \<Rightarrow>
        (case commit_worker_nodes merged [] reserved of Inl _ \<Rightarrow> False
         | Inr (s, w) \<Rightarrow>
           (case finish_round (collect_loading_requests ex_ready) w s of Inl _ \<Rightarrow> False
            | Inr s2 \<Rightarrow> fs_results s2 ! lr_allocation_result ex_request = Granted ''0'' \<and>
                allocated_gpu_by_node_unlocked s2 = Inr [(''0'', 1)] \<and> total_at w ''0'' = 1)))"
  by code_simp

text \<open>
  A node that was granted but whose instance is not registered yet looks free to a refresh: a
  distributed allocation can take the same GPU.
\<close>

definition ex_race :: "(fcfs \<times> nodes \<times> fcfs \<times> (string \<times> int) list) res" where
  "ex_race =
     rbind (get_worker_nodes ex_live [] [] ex_waiting) (\<lambda>(s1, w1).
     rbind (finish_round (collect_loading_requests ex_waiting) w1 s1) (\<lambda>s2.
     rbind (get_worker_nodes ex_live [] [] s2) (\<lambda>(s3, w3).
     rbind (reserve_distributed ''other'' ''b'' 1 [''0''] True s3) (\<lambda>(s4, al).
     Inr (s2, w3, s4, al)))))"

lemma granted_gpu_reserved_again:
  "(case ex_race of Inl _ \<Rightarrow> False
    | Inr (s2, w3, s4, al) \<Rightarrow> fs_results s2 ! lr_allocation_result ex_request = Granted ''0''
        \<and> al = [(''0'', 1)] \<and> total_at w3 ''0'' = 1)"
  by code_simp

text \<open>
  A shutdown empties the queues and leaves the futures of the requests in them waiting, with
  nothing that could settle them.
\<close>

lemma shutdown_strands_waiters:
  assumes "fs_running s" and "f \<in> waiting_futures s"
  shows "f \<in> waiting_futures (shutdown s) \<and> collect_loading_requests (shutdown s) = []"
  using assms by (simp add: shutdown_def waiting_futures_def collect_loading_requests_def)

end
