(* ===== verification/Preemption_Simulator.thy ===== *)
theory Preemption_Simulator
  imports Py_Prelude
begin

text \<open>
  Spot traces and their replay: \<open>src/sllm/spot/trace_reader.py\<close> and
  \<open>src/sllm/spot/preemption_simulator.py\<close>. A trace row is a decoded JSON value; reading the file is
  left out. What the router answers about its instances and the clock are arguments. The deadline
  of a preemption notice is a task of its own, with its status; a step of the replay handles the
  next trace event, lets a task wake up, or lets the controller answer.
\<close>

section \<open>Trace events\<close>

record spot_event =
  se_time :: rat
  se_event :: string
  se_node_id :: pyval
  se_model_name :: pyval
  se_instance_id :: pyval
  se_instance_index :: "int option"
  se_instance_selector :: pyval
  se_node_info :: pyval
  se_grace_period_s :: "rat option"
  se_auto_generated :: bool

definition SUPPORTED_EVENTS :: "string list" where
  "SUPPORTED_EVENTS = [''add'', ''remove'', ''preempt'', ''recover'', ''dead'']"

definition SpotEvent_post_init :: "spot_event \<Rightarrow> spot_event res" where
  "SpotEvent_post_init self =
     (if se_time self < 0 then Inl (ValueError ''Spot event time must be non-negative'')
      else if (case se_grace_period_s self of Some g \<Rightarrow> g < 0 | None \<Rightarrow> False)
      then Inl (ValueError ''Spot event grace_period_s must be non-negative'')
      else if se_grace_period_s self \<noteq> None \<and> se_event self \<noteq> ''preempt''
      then Inl (ValueError ''grace_period_s is only supported on preempt'')
      else if se_event self \<notin> set SUPPORTED_EVENTS
      then Inl (ValueError (''Unsupported spot event '' @ se_event self))
      else if se_node_id self = PNone \<and> se_instance_id self = PNone \<and> se_instance_index self = None
              \<and> se_instance_selector self = PNone
      then Inl (ValueError ''Spot event must target node_id or instance_id, or instance_index/instance_selector'')
      else if (se_instance_index self \<noteq> None \<or> se_instance_selector self \<noteq> PNone) \<and> se_model_name self = PNone
      then Inl (ValueError ''Spot event with instance_index or instance_selector must include model_name'')
      else Inr self)"

text \<open>\<open>raw_event[key]\<close> of whatever a JSON line holds.\<close>

definition raw_index :: "pyval \<Rightarrow> string \<Rightarrow> pyval res" where
  "raw_index raw key = (case raw of PDict d \<Rightarrow> dindex d key | _ \<Rightarrow> Inl TypeError)"

text \<open>The required fields, with the errors the reader turns their absence into.\<close>

definition required_fields :: "pyval \<Rightarrow> string \<Rightarrow> (rat \<times> string) res" where
  "required_fields raw source =
     (case rbind (raw_index raw ''time'') (\<lambda>t. rbind (py_float t) (\<lambda>time.
           rbind (raw_index raw ''event'') (\<lambda>e. Inr (time, py_str e)))) of
        Inl (KeyError k) \<Rightarrow> Inl (ValueError (source @ '': missing required field '' @ k))
      | r \<Rightarrow> except_tv r (Inl (ValueError (source @ '': invalid event time''))))"

definition optional_conversion :: "(pyval \<Rightarrow> 'a res) \<Rightarrow> dict \<Rightarrow> string \<Rightarrow> 'a option res" where
  "optional_conversion convert d key =
     (if dgetn d key = PNone then Inr None else rbind (convert (dgetn d key)) (\<lambda>v. Inr (Some v)))"

definition event_from_dict :: "pyval \<Rightarrow> string \<Rightarrow> pyval \<Rightarrow> spot_event res" where
  "event_from_dict raw_event source default_model_name =
     rbind (required_fields raw_event source) (\<lambda>(time, event_type).
     let d = dict_of raw_event in
     rbind (optional_conversion py_float d ''grace_period_s'') (\<lambda>grace_period_s.
     rbind (optional_conversion py_int d ''instance_index'') (\<lambda>instance_index.
     SpotEvent_post_init
       \<lparr>se_time = time, se_event = event_type, se_node_id = dgetn d ''node_id'',
        se_model_name = por (dgetn d ''model_name'') default_model_name,
        se_instance_id = dgetn d ''instance_id'', se_instance_index = instance_index,
        se_instance_selector = dgetn d ''instance_selector'', se_node_info = dgetn d ''node_info'',
        se_grace_period_s = grace_period_s, se_auto_generated = False\<rparr>)))"

text \<open>
  A line of a trace file, each with its place in the file: blank or a comment, not JSON, or a
  decoded value.
\<close>

datatype trace_line = Skipped | Invalid_Json | Decoded pyval

fun read_trace_line :: "pyval \<Rightarrow> string \<times> trace_line \<Rightarrow> spot_event res" where
  "read_trace_line default_model_name (source, Decoded raw) = event_from_dict raw source default_model_name"
| "read_trace_line default_model_name (source, _) = Inl (ValueError (source @ '': invalid JSONL event''))"

definition load_spot_trace :: "string \<Rightarrow> (string \<times> trace_line) list \<Rightarrow> pyval \<Rightarrow> spot_event list res" where
  "load_spot_trace suffix lines default_model_name =
     (if suffix \<noteq> ''.jsonl'' then Inl (ValueError ''Only JSONL spot traces are supported'')
      else rbind (rmap (read_trace_line default_model_name) (filter (\<lambda>l. snd l \<noteq> Skipped) lines))
             (\<lambda>events. Inr (sort_key se_time events)))"

section \<open>Choosing the instance\<close>

type_synonym instance_states = "(string \<times> dict) list"

definition is_ready_instance_state :: "dict \<Rightarrow> bool" where
  "is_ready_instance_state state =
     (dgetn state ''pool'' = PStr ''ready'' \<and> dgetn state ''state'' = PStr ''ready'')"

definition is_preempting_instance_state :: "dict \<Rightarrow> bool" where
  "is_preempting_instance_state state = (dgetn state ''state'' = PStr ''preempting'')"

definition instance_concurrency :: "dict \<Rightarrow> int res" where
  "instance_concurrency state = except_tv (int_or_zero state ''concurrency'') (Inr 0)"

text \<open>The instances of a state table with their concurrency.\<close>

definition with_concurrency :: "instance_states \<Rightarrow> (string \<times> int) list res" where
  "with_concurrency = rmap (\<lambda>(instance_id, state).
     rbind (instance_concurrency state) (\<lambda>c. Inr (instance_id, c)))"

definition busiest_key :: "string \<times> int \<Rightarrow> int \<times> string" where
  "busiest_key inst = (- snd inst, fst inst)"

definition selectable_instances :: "pyval \<Rightarrow> instance_states \<Rightarrow> string list res" where
  "selectable_instances selector states =
     (if selector \<in> {PStr ''active'', PStr ''active_context'', PStr ''busy''} then
        rbind (with_concurrency (filter (\<lambda>(_, state). is_ready_instance_state state) states)) (\<lambda>all_ready.
        let busy = filter (\<lambda>(_, c). 0 < c) all_ready
        in Inr (map fst (sort_key busiest_key (if busy = [] then all_ready else busy))))
      else if selector \<in> {PStr ''preempting'', PStr ''preempted''} then
        Inr (sort (map fst (filter (\<lambda>(_, state). is_preempting_instance_state state) states)))
      else if selector \<in> {PNone, PStr ''ready''} then
        Inr (sort (map fst (filter (\<lambda>(_, state). is_ready_instance_state state) states)))
      else Inl (RuntimeError (''Unsupported instance_selector: '' @ py_str selector)))"

definition resolve_instance_id :: "spot_event \<Rightarrow> instance_states \<Rightarrow> pyval res" where
  "resolve_instance_id event states =
     (if se_instance_id event \<noteq> PNone then Inr (se_instance_id event)
      else if se_instance_index event = None \<and> se_instance_selector event = PNone then Inr PNone
      else if se_model_name event = PNone
      then Inl (ValueError ''instance-selected trace event requires model_name'')
      else rbind (selectable_instances (se_instance_selector event) states) (\<lambda>ids.
        let index = (case se_instance_index event of None \<Rightarrow> 0 | Some i \<Rightarrow> i);
            index = (if index < 0 then index + int (length ids) else index)
        in if index < 0 \<or> int (length ids) \<le> index
           then Inl (RuntimeError ''instance_index is out of range'')
           else Inr (PStr (ids ! nat index))))"

section \<open>Deadlines\<close>

type_synonym deadline_key = "string \<times> string \<times> string"

definition deadline_keys_for_event :: "spot_event \<Rightarrow> pyval \<Rightarrow> deadline_key list" where
  "deadline_keys_for_event event resolved_instance_id =
     (let model = py_str (por (se_model_name event) (PStr ''''));
          instance_id = por resolved_instance_id (se_instance_id event)
      in (if instance_id \<noteq> PNone then [(''instance'', model, py_str instance_id)] else [])
         @ (if se_node_id event \<noteq> PNone then [(''node'', model, py_str (se_node_id event))] else [])
         @ (if se_instance_selector event \<noteq> PNone \<or> se_instance_index event \<noteq> None
            then [(''selector'', model, py_str (por (se_instance_selector event) (PStr ''ready'')) @ '':''
                    @ int_str (case se_instance_index event of None \<Rightarrow> 0 | Some i \<Rightarrow> i))]
            else []))"

text \<open>
  A deadline task sleeps, then waits for the controller's answer, and ends; or it is cancelled
  before.
\<close>

datatype task_status = Sleeping | Dispatching | Finished | Stopped

record deadline_task =
  dt_event :: spot_event
  dt_resolved :: pyval
  dt_notice_time_s :: rat
  dt_deadline_time_s :: rat
  dt_trace_deadline_time_s :: rat
  dt_grace_period_s :: rat
  dt_status :: task_status

record notice =
  no_notice_time_s :: "rat option"
  no_deadline_time_s :: "rat option"
  no_trace_event_time_s :: rat
  no_trace_deadline_time_s :: "rat option"
  no_grace_period_s :: "rat option"

datatype controller_call =
    Handle_Add pyval pyval pyval
  | Handle_Remove pyval pyval
  | Handle_Preemption pyval pyval pyval notice
  | Handle_Instance_Dead pyval pyval pyval notice bool
  | Handle_Recover pyval pyval pyval

definition dispatch_event :: "spot_event \<Rightarrow> pyval \<Rightarrow> notice \<Rightarrow> bool \<Rightarrow> controller_call res" where
  "dispatch_event event instance_id notice auto_deadline =
     (if se_event event = ''add'' then
        Inr (Handle_Add (se_node_id event) (por (se_node_info event) (PDict [])) (se_model_name event))
      else if se_event event = ''remove'' then Inr (Handle_Remove (se_node_id event) (se_model_name event))
      else if se_event event = ''preempt'' then
        Inr (Handle_Preemption (se_node_id event) instance_id (se_model_name event) notice)
      else if se_event event = ''dead'' then
        Inr (Handle_Instance_Dead (se_node_id event) instance_id (se_model_name event) notice auto_deadline)
      else if se_event event = ''recover'' then
        Inr (Handle_Recover (se_node_id event) instance_id (se_model_name event))
      else Inl (ValueError (''Unsupported spot event: '' @ se_event event)))"

record replay =
  rp_pending_deadlines :: "(deadline_key \<times> nat) list"
  rp_deadline_tasks :: "deadline_task list"
  rp_calls :: "controller_call list"
  rp_auto_dead_scheduled :: nat
  rp_auto_dead_cancelled :: nat

definition task_done :: "replay \<Rightarrow> nat \<Rightarrow> bool" where
  "task_done s i = (dt_status (rp_deadline_tasks s ! i) \<in> {Finished, Stopped})"

definition cancel_task :: "nat \<Rightarrow> replay \<Rightarrow> replay" where
  "cancel_task i s = s\<lparr>rp_deadline_tasks :=
     (rp_deadline_tasks s)[i := (rp_deadline_tasks s ! i)\<lparr>dt_status := Stopped\<rparr>]\<rparr>"

definition cancel_pending_deadlines :: "spot_event \<Rightarrow> pyval \<Rightarrow> replay \<Rightarrow> replay" where
  "cancel_pending_deadlines event resolved_instance_id s =
     (let keys = deadline_keys_for_event event resolved_instance_id;
          popped = List.map_filter (map_of (rp_pending_deadlines s)) keys;
          tasks = filter (\<lambda>i. \<not> task_done s i) (remdups popped);
          pending = fold AList.delete keys (rp_pending_deadlines s);
          pending = (if tasks = [] then pending else filter (\<lambda>(_, i). i \<notin> set tasks) pending)
      in (fold cancel_task tasks s)\<lparr>rp_pending_deadlines := pending,
           rp_auto_dead_cancelled := rp_auto_dead_cancelled s + length tasks\<rparr>)"

definition register_deadline :: "nat \<Rightarrow> deadline_key \<Rightarrow> replay \<Rightarrow> replay" where
  "register_deadline task key s =
     (let s = (case map_of (rp_pending_deadlines s) key of
                 None \<Rightarrow> s | Some previous \<Rightarrow> if task_done s previous then s else cancel_task previous s)
      in s\<lparr>rp_pending_deadlines := AList.update key task (rp_pending_deadlines s)\<rparr>)"

text \<open>\<open>notice_time_s\<close> is \<open>now\<close>, the value of \<open>time.time()\<close> when the event is replayed.\<close>

definition schedule_deadline :: "rat \<Rightarrow> rat \<Rightarrow> spot_event \<Rightarrow> pyval \<Rightarrow> rat \<Rightarrow> replay \<Rightarrow> replay" where
  "schedule_deadline now speedup event resolved_instance_id grace_period_s s =
     (let task = \<lparr>dt_event = event, dt_resolved = resolved_instance_id, dt_notice_time_s = now,
            dt_deadline_time_s = now + grace_period_s / speedup,
            dt_trace_deadline_time_s = se_time event + grace_period_s,
            dt_grace_period_s = grace_period_s, dt_status = Sleeping\<rparr>;
          i = length (rp_deadline_tasks s);
          s = s\<lparr>rp_deadline_tasks := rp_deadline_tasks s @ [task]\<rparr>;
          s = fold (register_deadline i) (deadline_keys_for_event event resolved_instance_id) s
      in s\<lparr>rp_auto_dead_scheduled := rp_auto_dead_scheduled s + 1\<rparr>)"

definition event_notice :: "rat \<Rightarrow> rat \<Rightarrow> spot_event \<Rightarrow> notice" where
  "event_notice now speedup event =
     (let preempt = (se_event event = ''preempt''); grace = se_grace_period_s event in
      \<lparr>no_notice_time_s = (if preempt then Some now else None),
       no_deadline_time_s = (case grace of Some g \<Rightarrow> if preempt then Some (now + g / speedup) else None | None \<Rightarrow> None),
       no_trace_event_time_s = se_time event,
       no_trace_deadline_time_s = (case grace of Some g \<Rightarrow> if preempt then Some (se_time event + g) else None | None \<Rightarrow> None),
       no_grace_period_s = grace\<rparr>)"

text \<open>One trip through the loop of \<open>replay_trace\<close>.\<close>

definition replay_event :: "rat \<Rightarrow> rat \<Rightarrow> instance_states \<Rightarrow> spot_event \<Rightarrow> replay \<Rightarrow> replay res" where
  "replay_event now speedup states event s =
     rbind (resolve_instance_id event states) (\<lambda>resolved.
     let s = (if se_event event \<in> {''recover'', ''dead'', ''remove''}
              then cancel_pending_deadlines event resolved s else s);
         s = (case se_grace_period_s event of
                Some g \<Rightarrow> if se_event event = ''preempt'' then schedule_deadline now speedup event resolved g s else s
              | None \<Rightarrow> s)
     in rbind (dispatch_event event resolved (event_notice now speedup event) False) (\<lambda>call.
        Inr (s\<lparr>rp_calls := rp_calls s @ [call]\<rparr>)))"

text \<open>The rest of \<open>_dispatch_auto_dead_after\<close> once the sleep is over.\<close>

definition dead_event :: "deadline_task \<Rightarrow> spot_event res" where
  "dead_event task =
     SpotEvent_post_init
       \<lparr>se_time = dt_trace_deadline_time_s task, se_event = ''dead'',
        se_node_id = se_node_id (dt_event task), se_model_name = se_model_name (dt_event task),
        se_instance_id = por (dt_resolved task) (se_instance_id (dt_event task)),
        se_instance_index = None, se_instance_selector = PNone, se_node_info = PNone,
        se_grace_period_s = None, se_auto_generated = True\<rparr>"

definition auto_dead_call :: "deadline_task \<Rightarrow> controller_call res" where
  "auto_dead_call task =
     rbind (dead_event task) (\<lambda>event.
     dispatch_event event (if dt_resolved task \<noteq> PNone then dt_resolved task else se_instance_id event)
       \<lparr>no_notice_time_s = Some (dt_notice_time_s task), no_deadline_time_s = Some (dt_deadline_time_s task),
        no_trace_event_time_s = se_time event,
        no_trace_deadline_time_s = Some (dt_trace_deadline_time_s task),
        no_grace_period_s = Some (dt_grace_period_s task)\<rparr> True)"

definition set_task_status :: "nat \<Rightarrow> task_status \<Rightarrow> replay \<Rightarrow> replay" where
  "set_task_status i status s = s\<lparr>rp_deadline_tasks :=
     (rp_deadline_tasks s)[i := (rp_deadline_tasks s ! i)\<lparr>dt_status := status\<rparr>]\<rparr>"

definition replay_start :: replay where
  "replay_start = \<lparr>rp_pending_deadlines = [], rp_deadline_tasks = [], rp_calls = [],
     rp_auto_dead_scheduled = 0, rp_auto_dead_cancelled = 0\<rparr>"

text \<open>What \<open>replay_trace\<close> does before its loop: the events to replay and an empty replay.\<close>

definition replay_trace_start :: "rat \<Rightarrow> string \<Rightarrow> (string \<times> trace_line) list \<Rightarrow> pyval \<Rightarrow> (spot_event list \<times> replay) res" where
  "replay_trace_start speedup suffix lines model_name =
     (if speedup \<le> 0 then Inl (ValueError ''speedup must be positive'')
      else rbind (load_spot_trace suffix lines model_name) (\<lambda>events. Inr (events, replay_start)))"

text \<open>\<open>auto_dead_dispatched\<close>: the deadline tasks that ended by themselves.\<close>

definition auto_dead_dispatched :: "replay \<Rightarrow> nat" where
  "auto_dead_dispatched s = length (filter (\<lambda>t. dt_status t = Finished) (rp_deadline_tasks s))"

section \<open>Steps of a replay\<close>

datatype replay_label = Event rat spot_event pyval | Wake rat nat | Answer nat

inductive replay_step :: "rat \<Rightarrow> replay_label \<Rightarrow> replay \<Rightarrow> replay \<Rightarrow> bool" for speedup where
  event: "replay_event now speedup states e s = Inr s' \<Longrightarrow> resolve_instance_id e states = Inr resolved \<Longrightarrow>
    SpotEvent_post_init e = Inr e \<Longrightarrow> replay_step speedup (Event now e resolved) s s'"
| wake: "i < length (rp_deadline_tasks s) \<Longrightarrow> dt_status (rp_deadline_tasks s ! i) = Sleeping \<Longrightarrow>
    dt_deadline_time_s (rp_deadline_tasks s ! i) \<le> now \<Longrightarrow> auto_dead_call (rp_deadline_tasks s ! i) = Inr call \<Longrightarrow>
    replay_step speedup (Wake now i) s ((set_task_status i Dispatching s)\<lparr>rp_calls := rp_calls s @ [call]\<rparr>)"
| answer: "i < length (rp_deadline_tasks s) \<Longrightarrow> dt_status (rp_deadline_tasks s ! i) = Dispatching \<Longrightarrow>
    replay_step speedup (Answer i) s (set_task_status i Finished s)"

inductive replays :: "rat \<Rightarrow> replay_label list \<Rightarrow> replay \<Rightarrow> replay \<Rightarrow> bool" for speedup where
  nil: "replays speedup [] s s"
| cons: "replay_step speedup l s s' \<Longrightarrow> replays speedup ls s' s'' \<Longrightarrow> replays speedup (l # ls) s s''"

end
