(* ===== verification/Preemption_Simulator_Props.thy ===== *)
theory Preemption_Simulator_Props
  imports Preemption_Simulator
begin

text \<open>
  Properties of the replay of spot traces: a deadline that is still running is found under every
  key it was registered with, so an event that ends a preemption cancels it, and a deadline no
  later event refers to does fire.
\<close>

section \<open>Running deadlines\<close>

definition running :: "replay \<Rightarrow> nat \<Rightarrow> bool" where
  "running s i = (i < length (rp_deadline_tasks s) \<and> \<not> task_done s i)"

definition task_keys :: "deadline_task \<Rightarrow> deadline_key list" where
  "task_keys t = deadline_keys_for_event (dt_event t) (dt_resolved t)"

abbreviation keys_of :: "replay \<Rightarrow> nat \<Rightarrow> deadline_key list" where
  "keys_of s i \<equiv> task_keys (rp_deadline_tasks s ! i)"

text \<open>Every running deadline is registered under all of its keys.\<close>

definition registered :: "replay \<Rightarrow> bool" where
  "registered s \<longleftrightarrow>
     (\<forall>i. running s i \<longrightarrow> (\<forall>k \<in> set (keys_of s i). map_of (rp_pending_deadlines s) k = Some i))
     \<and> (\<forall>k i. (k, i) \<in> set (rp_pending_deadlines s) \<longrightarrow>
          i < length (rp_deadline_tasks s) \<and> k \<in> set (keys_of s i))"

lemma length_cancel_task [simp]: "length (rp_deadline_tasks (cancel_task i s)) = length (rp_deadline_tasks s)"
  by (simp add: cancel_task_def)

lemma cancel_task_other [simp]:
  "j \<noteq> i \<Longrightarrow> rp_deadline_tasks (cancel_task i s) ! j = rp_deadline_tasks s ! j"
  "rp_pending_deadlines (cancel_task i s) = rp_pending_deadlines s"
  "rp_auto_dead_cancelled (cancel_task i s) = rp_auto_dead_cancelled s"
  "rp_auto_dead_scheduled (cancel_task i s) = rp_auto_dead_scheduled s"
  "rp_calls (cancel_task i s) = rp_calls s"
  by (simp_all add: cancel_task_def)

lemma keys_cancel_task [simp]: "keys_of (cancel_task i s) j = keys_of s j"
  by (cases "j = i"; cases "i < length (rp_deadline_tasks s)")
    (auto simp: cancel_task_def task_keys_def list_update_beyond not_less)

lemma running_cancel_task: "running (cancel_task i s) j \<longleftrightarrow> running s j \<and> j \<noteq> i"
  by (cases "j = i") (auto simp: running_def task_done_def cancel_task_def)

lemma fold_cancel_tasks:
  "length (rp_deadline_tasks (fold cancel_task is s)) = length (rp_deadline_tasks s)
   \<and> rp_pending_deadlines (fold cancel_task is s) = rp_pending_deadlines s
   \<and> keys_of (fold cancel_task is s) j = keys_of s j
   \<and> (j \<notin> set is \<longrightarrow> rp_deadline_tasks (fold cancel_task is s) ! j = rp_deadline_tasks s ! j)
   \<and> (running (fold cancel_task is s) j \<longleftrightarrow> running s j \<and> j \<notin> set is)"
  by (induction "is" arbitrary: s) (auto simp: running_cancel_task)

lemma map_of_filter_keep: "map_of xs k = Some v \<Longrightarrow> P (k, v) \<Longrightarrow> map_of (filter P xs) k = Some v"
  by (induction xs) (auto split: if_splits)

lemma in_map_filter: "v \<in> set (List.map_filter f xs) \<longleftrightarrow> (\<exists>x \<in> set xs. f x = Some v)"
  by (induction xs) (auto simp: List.map_filter_simps split: option.splits)

lemma set_fold_delete: "p \<in> set (fold AList.delete ks d) \<Longrightarrow> p \<in> set d"
proof (induction ks arbitrary: d)
  case (Cons k ks)
  have "p \<in> set (AList.delete k d)" using Cons.IH [of "AList.delete k d"] Cons.prems by simp
  then show ?case by (auto simp: AList.delete_eq)
qed simp

lemma set_update_cases: "(k, v) \<in> set (AList.update k' v' d) \<Longrightarrow> k = k' \<and> v = v' \<or> (k, v) \<in> set d"
  by (induction d) (auto split: if_splits)

lemma map_of_fold_delete:
  "map_of (fold AList.delete ks d) k = (if k \<in> set ks then None else map_of d k)"
  by (induction ks arbitrary: d) (auto simp: delete_conv')

section \<open>Events that end a preemption\<close>

text \<open>The deadlines an event cancels: the running ones registered under one of its keys.\<close>

definition cancelled_by :: "spot_event \<Rightarrow> pyval \<Rightarrow> replay \<Rightarrow> nat list" where
  "cancelled_by e r s = filter (\<lambda>i. \<not> task_done s i)
     (remdups (List.map_filter (map_of (rp_pending_deadlines s)) (deadline_keys_for_event e r)))"

lemma cancelled_by_iff:
  assumes "registered s"
  shows "i \<in> set (cancelled_by e r s) \<longleftrightarrow>
    running s i \<and> set (keys_of s i) \<inter> set (deadline_keys_for_event e r) \<noteq> {}"
proof
  assume "i \<in> set (cancelled_by e r s)"
  then obtain k where k: "k \<in> set (deadline_keys_for_event e r)" "map_of (rp_pending_deadlines s) k = Some i"
    and d: "\<not> task_done s i"
    by (auto simp: cancelled_by_def in_map_filter)
  then show "running s i \<and> set (keys_of s i) \<inter> set (deadline_keys_for_event e r) \<noteq> {}"
    using assms map_of_SomeD [OF k(2)] unfolding registered_def running_def by blast
next
  assume "running s i \<and> set (keys_of s i) \<inter> set (deadline_keys_for_event e r) \<noteq> {}"
  then obtain k where "running s i" "k \<in> set (keys_of s i)" "k \<in> set (deadline_keys_for_event e r)" by blast
  then have "map_of (rp_pending_deadlines s) k = Some i" using assms by (simp add: registered_def)
  then show "i \<in> set (cancelled_by e r s)"
    using \<open>running s i\<close> \<open>k \<in> set (deadline_keys_for_event e r)\<close>
    by (auto simp: cancelled_by_def in_map_filter running_def)
qed

lemma cancel_pending_spec:
  assumes "registered s"
  shows "length (rp_deadline_tasks (cancel_pending_deadlines e r s)) = length (rp_deadline_tasks s)"
    and "keys_of (cancel_pending_deadlines e r s) i = keys_of s i"
    and "running (cancel_pending_deadlines e r s) i \<longleftrightarrow>
      running s i \<and> set (keys_of s i) \<inter> set (deadline_keys_for_event e r) = {}"
    and "i \<notin> set (cancelled_by e r s) \<Longrightarrow>
      rp_deadline_tasks (cancel_pending_deadlines e r s) ! i = rp_deadline_tasks s ! i"
    and "registered (cancel_pending_deadlines e r s)"
proof -
  let ?keys = "deadline_keys_for_event e r" and ?s = "cancel_pending_deadlines e r s"
  let ?tasks = "cancelled_by e r s"
  have tasks: "rp_deadline_tasks ?s = rp_deadline_tasks (fold cancel_task ?tasks s)"
    by (simp add: cancel_pending_deadlines_def cancelled_by_def Let_def)
  have pend: "rp_pending_deadlines ?s = (if ?tasks = [] then fold AList.delete ?keys (rp_pending_deadlines s)
      else filter (\<lambda>(_, i). i \<notin> set ?tasks) (fold AList.delete ?keys (rp_pending_deadlines s)))"
    by (simp add: cancel_pending_deadlines_def cancelled_by_def Let_def)
  note folded = fold_cancel_tasks [of ?tasks s]
  show len: "length (rp_deadline_tasks ?s) = length (rp_deadline_tasks s)" using folded by (simp add: tasks)
  show keys: "keys_of ?s i = keys_of s i" for i using folded [of i] by (simp add: tasks)
  have "running ?s i \<longleftrightarrow> running s i \<and> i \<notin> set ?tasks" for i
    using folded [of i] by (auto simp: tasks running_def task_done_def)
  then show run: "running ?s i \<longleftrightarrow> running s i \<and> set (keys_of s i) \<inter> set ?keys = {}" for i
    using cancelled_by_iff [OF assms] by blast
  show "rp_deadline_tasks ?s ! i = rp_deadline_tasks s ! i" if "i \<notin> set ?tasks"
    using folded [of i] that by (simp add: tasks)
  have "map_of (rp_pending_deadlines ?s) k = Some i" if i: "running ?s i" and k: "k \<in> set (keys_of ?s i)" for i k
  proof -
    have i': "running s i" "set (keys_of s i) \<inter> set ?keys = {}" using i run [of i] by simp_all
    have "k \<notin> set ?keys" using i'(2) k keys [of i] by auto
    moreover have "i \<notin> set ?tasks" using i' cancelled_by_iff [OF assms, of i] by simp
    ultimately have "map_of (fold AList.delete ?keys (rp_pending_deadlines s)) k = Some i"
      using assms k keys i'(1) by (simp add: map_of_fold_delete registered_def)
    then show ?thesis using \<open>i \<notin> set ?tasks\<close> by (simp add: pend map_of_filter_keep)
  qed
  moreover have "i < length (rp_deadline_tasks ?s) \<and> k \<in> set (keys_of ?s i)"
    if "(k, i) \<in> set (rp_pending_deadlines ?s)" for i k
  proof -
    have "(k, i) \<in> set (fold AList.delete ?keys (rp_pending_deadlines s))"
      using that by (auto simp: pend split: if_splits)
    then have "(k, i) \<in> set (rp_pending_deadlines s)" by (rule set_fold_delete)
    then show ?thesis using assms len keys by (simp add: registered_def del: split_paired_All)
  qed
  ultimately show "registered ?s" by (auto simp: registered_def)
qed

section \<open>Scheduling a deadline\<close>

text \<open>
  The loop that registers a new deadline \<open>t\<close>: the running deadlines other than \<open>t\<close> stay
  registered, and \<open>t\<close> is registered under the keys gone through.
\<close>

definition registering :: "nat \<Rightarrow> deadline_key set \<Rightarrow> replay \<Rightarrow> bool" where
  "registering t done_keys s \<longleftrightarrow> running s t
     \<and> (\<forall>i. running s i \<longrightarrow> i \<noteq> t \<longrightarrow> (\<forall>k \<in> set (keys_of s i). map_of (rp_pending_deadlines s) k = Some i))
     \<and> (\<forall>k \<in> done_keys. map_of (rp_pending_deadlines s) k = Some t)
     \<and> (\<forall>k i. (k, i) \<in> set (rp_pending_deadlines s) \<longrightarrow>
          i < length (rp_deadline_tasks s) \<and> k \<in> set (keys_of s i) \<and> (i = t \<longrightarrow> k \<in> done_keys))"

lemma register_deadline_spec:
  assumes "registering t K s" and "k \<notin> K" and "k \<in> set (keys_of s t)"
  shows "registering t (insert k K) (register_deadline t k s)"
    and "keys_of (register_deadline t k s) i = keys_of s i"
    and "length (rp_deadline_tasks (register_deadline t k s)) = length (rp_deadline_tasks s)"
    and "k \<notin> set (keys_of s i) \<Longrightarrow> rp_deadline_tasks (register_deadline t k s) ! i = rp_deadline_tasks s ! i"
proof -
  let ?pend = "rp_pending_deadlines s"
  define u where "u = (case map_of ?pend k of None \<Rightarrow> s
    | Some p \<Rightarrow> if task_done s p then s else cancel_task p s)"
  have reg: "register_deadline t k s = u\<lparr>rp_pending_deadlines := AList.update k t (rp_pending_deadlines u)\<rparr>"
    by (simp add: register_deadline_def u_def Let_def)
  have prev: "p \<noteq> t" "k \<in> set (keys_of s p)" if "map_of ?pend k = Some p" for p
    using assms(1,2) map_of_SomeD [OF that] unfolding registering_def by blast+
  have u: "rp_pending_deadlines u = ?pend" "length (rp_deadline_tasks u) = length (rp_deadline_tasks s)"
    "keys_of u i = keys_of s i" for i
    by (auto simp: u_def split: option.splits)
  have run: "running u i \<longleftrightarrow> running s i \<and> map_of ?pend k \<noteq> Some i" for i
  proof (cases "map_of ?pend k")
    case None
    then show ?thesis by (simp add: u_def)
  next
    case (Some p)
    then show ?thesis
      by (cases "task_done s p") (auto simp: u_def running_cancel_task, auto simp: running_def)
  qed
  show "keys_of (register_deadline t k s) i = keys_of s i" for i by (simp add: reg u)
  show "length (rp_deadline_tasks (register_deadline t k s)) = length (rp_deadline_tasks s)" by (simp add: reg u)
  show "rp_deadline_tasks (register_deadline t k s) ! i = rp_deadline_tasks s ! i" if "k \<notin> set (keys_of s i)"
  proof (cases "map_of ?pend k")
    case (Some p)
    then have "i \<noteq> p" using prev(2) [OF Some] that by auto
    then show ?thesis using Some by (simp add: reg u_def)
  qed (simp add: reg u_def)
  have pend: "rp_pending_deadlines (register_deadline t k s) = AList.update k t ?pend" by (simp add: reg u)
  have run': "running (register_deadline t k s) i \<longleftrightarrow> running u i" for i by (simp add: reg running_def task_done_def)
  have keys': "keys_of (register_deadline t k s) i = keys_of s i" for i by (simp add: reg u)
  show "registering t (insert k K) (register_deadline t k s)"
    unfolding registering_def
  proof (intro conjI)
    show "running (register_deadline t k s) t"
      using assms(1) prev(1) run run' by (auto simp: registering_def)
    show "\<forall>i. running (register_deadline t k s) i \<longrightarrow> i \<noteq> t \<longrightarrow>
        (\<forall>k' \<in> set (keys_of (register_deadline t k s) i).
           map_of (rp_pending_deadlines (register_deadline t k s)) k' = Some i)"
    proof (intro allI impI ballI)
      fix i k'
      assume i: "running (register_deadline t k s) i" "i \<noteq> t" and k': "k' \<in> set (keys_of (register_deadline t k s) i)"
      have r: "running s i" "map_of ?pend k \<noteq> Some i" using i(1) run run' by simp_all
      have "map_of ?pend k' = Some i" using assms(1) r(1) i(2) k' keys' unfolding registering_def by simp
      moreover from this have "k' \<noteq> k" using r(2) by auto
      ultimately show "map_of (rp_pending_deadlines (register_deadline t k s)) k' = Some i" by (simp add: pend)
    qed
    show "\<forall>k' \<in> insert k K. map_of (rp_pending_deadlines (register_deadline t k s)) k' = Some t"
      using assms(1) by (auto simp: pend registering_def)
    show "\<forall>k' i. (k', i) \<in> set (rp_pending_deadlines (register_deadline t k s)) \<longrightarrow>
        i < length (rp_deadline_tasks (register_deadline t k s))
        \<and> k' \<in> set (keys_of (register_deadline t k s) i) \<and> (i = t \<longrightarrow> k' \<in> insert k K)"
    proof (intro allI impI)
      fix k' i
      assume "(k', i) \<in> set (rp_pending_deadlines (register_deadline t k s))"
      then have "k' = k \<and> i = t \<or> (k', i) \<in> set ?pend" unfolding pend by (rule set_update_cases)
      then show "i < length (rp_deadline_tasks (register_deadline t k s))
        \<and> k' \<in> set (keys_of (register_deadline t k s) i) \<and> (i = t \<longrightarrow> k' \<in> insert k K)"
        using assms(1,3) u(2) keys' unfolding registering_def running_def
        by (simp add: reg del: split_paired_All) blast
    qed
  qed
qed

lemma register_deadlines_spec:
  assumes "registering t K s" and "distinct ks" and "set ks \<inter> K = {}" and "set ks \<subseteq> set (keys_of s t)"
  shows "registering t (K \<union> set ks) (fold (register_deadline t) ks s)
    \<and> keys_of (fold (register_deadline t) ks s) i = keys_of s i
    \<and> length (rp_deadline_tasks (fold (register_deadline t) ks s)) = length (rp_deadline_tasks s)
    \<and> (set ks \<inter> set (keys_of s i) = {} \<longrightarrow>
        rp_deadline_tasks (fold (register_deadline t) ks s) ! i = rp_deadline_tasks s ! i)"
  using assms
proof (induction ks arbitrary: K s)
  case Nil
  then show ?case by simp
next
  case (Cons k ks)
  have k: "k \<notin> K" "k \<in> set (keys_of s t)" using Cons.prems by auto
  note step = register_deadline_spec [OF Cons.prems(1) k]
  have "set ks \<inter> insert k K = {}" "set ks \<subseteq> set (keys_of (register_deadline t k s) t)"
    using Cons.prems(2-4) step(2) by auto
  from Cons.IH [OF step(1) _ this] Cons.prems(2) show ?case using step(2-4) by auto
qed

lemma distinct_deadline_keys: "distinct (deadline_keys_for_event e r)"
  by (simp add: deadline_keys_for_event_def Let_def)

lemma registered_iff: "registered s \<longleftrightarrow>
    (\<forall>i. running s i \<longrightarrow> (\<forall>k \<in> set (keys_of s i). map_of (rp_pending_deadlines s) k = Some i))
    \<and> (\<forall>p \<in> set (rp_pending_deadlines s). snd p < length (rp_deadline_tasks s) \<and> fst p \<in> set (keys_of s (snd p)))"
  unfolding registered_def by force

lemma schedule_spec:
  assumes "registered s"
  shows "registered (schedule_deadline now speedup e r g s)"
    and "i < length (rp_deadline_tasks s) \<Longrightarrow> set (keys_of s i) \<inter> set (deadline_keys_for_event e r) = {} \<Longrightarrow>
      rp_deadline_tasks (schedule_deadline now speedup e r g s) ! i = rp_deadline_tasks s ! i"
    and "length (rp_deadline_tasks (schedule_deadline now speedup e r g s)) = Suc (length (rp_deadline_tasks s))"
    and "i < length (rp_deadline_tasks s) \<Longrightarrow> keys_of (schedule_deadline now speedup e r g s) i = keys_of s i"
proof -
  let ?t = "length (rp_deadline_tasks s)" and ?ks = "deadline_keys_for_event e r"
  define task where "task = \<lparr>dt_event = e, dt_resolved = r, dt_notice_time_s = now,
    dt_deadline_time_s = now + g / speedup, dt_trace_deadline_time_s = se_time e + g,
    dt_grace_period_s = g, dt_status = Sleeping\<rparr>"
  define u where "u = s\<lparr>rp_deadline_tasks := rp_deadline_tasks s @ [task]\<rparr>"
  let ?v = "fold (register_deadline ?t) ?ks u"
  have sched: "schedule_deadline now speedup e r g s = ?v\<lparr>rp_auto_dead_scheduled := rp_auto_dead_scheduled ?v + 1\<rparr>"
    by (simp add: schedule_deadline_def Let_def u_def task_def)
  have u: "keys_of u i = keys_of s i" "rp_deadline_tasks u ! i = rp_deadline_tasks s ! i" if "i < ?t" for i
    using that by (simp_all add: u_def nth_append)
  have own: "keys_of u ?t = ?ks" by (simp add: u_def task_def task_keys_def)
  have run: "running u i \<longleftrightarrow> i = ?t \<or> running s i" for i
    by (auto simp: u_def running_def task_done_def nth_append task_def)
  have start: "registering ?t {} u"
    unfolding registering_def
  proof (intro conjI)
    show "running u ?t" by (simp add: run)
    show "\<forall>i. running u i \<longrightarrow> i \<noteq> ?t \<longrightarrow> (\<forall>k \<in> set (keys_of u i). map_of (rp_pending_deadlines u) k = Some i)"
    proof (intro allI impI ballI)
      fix i k assume i: "running u i" "i \<noteq> ?t" "k \<in> set (keys_of u i)"
      have s: "running s i" using i(1,2) run by simp
      then have "i < ?t" by (simp add: running_def)
      then have "k \<in> set (keys_of s i)" using i(3) u(1) by simp
      moreover have "rp_pending_deadlines u = rp_pending_deadlines s" by (simp add: u_def)
      ultimately show "map_of (rp_pending_deadlines u) k = Some i" using assms s by (simp add: registered_iff)
    qed
    show "\<forall>k i. (k, i) \<in> set (rp_pending_deadlines u) \<longrightarrow>
        i < length (rp_deadline_tasks u) \<and> k \<in> set (keys_of u i) \<and> (i = ?t \<longrightarrow> k \<in> {})"
    proof (intro allI impI)
      fix k i assume "(k, i) \<in> set (rp_pending_deadlines u)"
      then have "(k, i) \<in> set (rp_pending_deadlines s)" by (simp add: u_def)
      then have "i < ?t" "k \<in> set (keys_of s i)" using assms unfolding registered_iff by force+
      then show "i < length (rp_deadline_tasks u) \<and> k \<in> set (keys_of u i) \<and> (i = ?t \<longrightarrow> k \<in> {})"
        using u(1) by (simp add: u_def)
    qed
  qed simp
  have sub: "set ?ks \<subseteq> set (keys_of u ?t)" by (simp add: own)
  note all = register_deadlines_spec [OF start distinct_deadline_keys _ sub]
  show len: "length (rp_deadline_tasks (schedule_deadline now speedup e r g s)) = Suc ?t"
    using all by (simp add: sched u_def)
  show "keys_of (schedule_deadline now speedup e r g s) i = keys_of s i" if "i < ?t"
    using all [of i] u(1) [OF that] by (simp add: sched)
  show "rp_deadline_tasks (schedule_deadline now speedup e r g s) ! i = rp_deadline_tasks s ! i"
    if "i < ?t" "set (keys_of s i) \<inter> set ?ks = {}"
    using all [of i] u [OF that(1)] that(2) by (simp add: sched Int_commute)
  have v: "registering ?t (set ?ks) ?v" "keys_of ?v ?t = ?ks" using all [of ?t] own by simp_all
  have "registered ?v"
    unfolding registered_def
  proof (intro conjI allI impI ballI)
    fix i k assume "running ?v i" "k \<in> set (keys_of ?v i)"
    then show "map_of (rp_pending_deadlines ?v) k = Some i"
      using v unfolding registering_def by (cases "i = ?t") simp_all
  next
    fix k i assume "(k, i) \<in> set (rp_pending_deadlines ?v)"
    then show "i < length (rp_deadline_tasks ?v)" "k \<in> set (keys_of ?v i)"
      using v(1) unfolding registering_def by blast+
  qed
  then show "registered (schedule_deadline now speedup e r g s)"
    by (simp add: sched registered_def running_def task_done_def)
qed

text \<open>A deadline that has ended never runs again.\<close>

lemma running_register_deadline:
  assumes "running (register_deadline t k s) i"
  shows "running s i"
proof -
  have upd: "running (s'\<lparr>rp_pending_deadlines := p\<rparr>) i \<longleftrightarrow> running s' i" for s' p
    by (simp add: running_def task_done_def)
  show ?thesis using assms
    by (auto simp: register_deadline_def Let_def upd running_cancel_task split: option.splits if_splits)
qed

lemma running_register_deadlines: "running (fold (register_deadline t) ks s) i \<Longrightarrow> running s i"
  by (induction ks arbitrary: s) (auto dest: running_register_deadline)

lemma running_schedule:
  assumes "running (schedule_deadline now speedup e r g s) i" and "i < length (rp_deadline_tasks s)"
  shows "running s i"
proof -
  let ?u = "\<lambda>task. s\<lparr>rp_deadline_tasks := rp_deadline_tasks s @ [task]\<rparr>"
  obtain task where "running (fold (register_deadline (length (rp_deadline_tasks s)))
      (deadline_keys_for_event e r) (?u task)) i"
    using assms(1) by (simp add: schedule_deadline_def Let_def running_def task_done_def)
  then have "running (?u task) i" by (rule running_register_deadlines)
  then show ?thesis using assms(2) by (simp add: running_def task_done_def nth_append)
qed

section \<open>Steps\<close>

text \<open>The state an event leaves before its call goes out.\<close>

definition event_state :: "rat \<Rightarrow> rat \<Rightarrow> spot_event \<Rightarrow> pyval \<Rightarrow> replay \<Rightarrow> replay" where
  "event_state now speedup e r s =
     (let s = (if se_event e \<in> {''recover'', ''dead'', ''remove''} then cancel_pending_deadlines e r s else s)
      in case se_grace_period_s e of
           Some g \<Rightarrow> if se_event e = ''preempt'' then schedule_deadline now speedup e r g s else s
         | None \<Rightarrow> s)"

lemma replay_event_state:
  assumes "replay_event now speedup states e s = Inr s'" and "resolve_instance_id e states = Inr r"
  shows "\<exists>calls. s' = (event_state now speedup e r s)\<lparr>rp_calls := calls\<rparr>"
  using assms by (auto simp: replay_event_def event_state_def Let_def rbind_eq_Inr)

lemma event_state_cases:
  obtains (ends) "se_event e \<in> {''recover'', ''dead'', ''remove''}"
      "event_state now speedup e r s = cancel_pending_deadlines e r s"
  | (notice) g where "se_event e = ''preempt''" "se_grace_period_s e = Some g"
      "event_state now speedup e r s = schedule_deadline now speedup e r g s"
  | (other) "se_event e \<notin> {''recover'', ''dead'', ''remove''}" "event_state now speedup e r s = s"
  by (cases "se_grace_period_s e"; cases "se_event e \<in> {''recover'', ''dead'', ''remove''}";
      cases "se_event e = ''preempt''") (auto simp: event_state_def)

lemma event_state_spec:
  assumes "registered s"
  shows "registered (event_state now speedup e r s)
    \<and> length (rp_deadline_tasks s) \<le> length (rp_deadline_tasks (event_state now speedup e r s))
    \<and> (i < length (rp_deadline_tasks s) \<longrightarrow> keys_of (event_state now speedup e r s) i = keys_of s i)
    \<and> (i < length (rp_deadline_tasks s) \<longrightarrow> set (keys_of s i) \<inter> set (deadline_keys_for_event e r) = {} \<longrightarrow>
        rp_deadline_tasks (event_state now speedup e r s) ! i = rp_deadline_tasks s ! i)
    \<and> (i < length (rp_deadline_tasks s) \<longrightarrow> running (event_state now speedup e r s) i \<longrightarrow> running s i)
    \<and> (se_event e \<in> {''recover'', ''dead'', ''remove''} \<longrightarrow> running (event_state now speedup e r s) i \<longrightarrow>
        set (keys_of s i) \<inter> set (deadline_keys_for_event e r) = {})"
proof (cases rule: event_state_cases [of e now speedup r s])
  case ends
  have "i \<in> set (cancelled_by e r s) \<longleftrightarrow>
      running s i \<and> set (keys_of s i) \<inter> set (deadline_keys_for_event e r) \<noteq> {}"
    by (rule cancelled_by_iff [OF assms])
  then show ?thesis unfolding ends(2) using cancel_pending_spec [OF assms] by auto
next
  case (notice g)
  then show ?thesis using schedule_spec [OF assms] running_schedule by auto
next
  case other
  then show ?thesis using assms by auto
qed

inductive_cases replay_stepE: "replay_step speedup l s s'"
inductive_cases replays_consE: "replays speedup (l # ls) s s'"
inductive_cases replays_nilE: "replays speedup [] s s'"

lemma set_task_status_simps [simp]:
  "length (rp_deadline_tasks (set_task_status i st s)) = length (rp_deadline_tasks s)"
  "rp_pending_deadlines (set_task_status i st s) = rp_pending_deadlines s"
  "rp_calls (set_task_status i st s) = rp_calls s"
  "j \<noteq> i \<Longrightarrow> rp_deadline_tasks (set_task_status i st s) ! j = rp_deadline_tasks s ! j"
  by (simp_all add: set_task_status_def)

lemma keys_set_task_status [simp]: "keys_of (set_task_status i st s) j = keys_of s j"
  by (cases "j = i"; cases "i < length (rp_deadline_tasks s)")
    (auto simp: set_task_status_def task_keys_def list_update_beyond not_less)

lemma running_set_task_status:
  "running s i \<Longrightarrow> running (set_task_status i st s) j \<longleftrightarrow> running s j \<and> (j = i \<longrightarrow> st \<notin> {Finished, Stopped})"
  by (cases "j = i") (auto simp: running_def task_done_def set_task_status_def)

lemma running_calls [simp]: "running (s\<lparr>rp_calls := c\<rparr>) i \<longleftrightarrow> running s i"
  by (simp add: running_def task_done_def)

lemma registered_calls [simp]: "registered (s\<lparr>rp_calls := c\<rparr>) \<longleftrightarrow> registered s"
  by (simp add: registered_def)

lemma registered_set_task_status:
  assumes "registered s" and "running s i"
  shows "registered (set_task_status i st s)"
  using assms(1) by (simp add: registered_iff running_set_task_status [OF assms(2)])

lemma step_spec:
  assumes "replay_step speedup l s s'" and "registered s"
  shows "registered s' \<and> length (rp_deadline_tasks s) \<le> length (rp_deadline_tasks s')
    \<and> (i < length (rp_deadline_tasks s) \<longrightarrow> keys_of s' i = keys_of s i)
    \<and> (i < length (rp_deadline_tasks s) \<longrightarrow> running s' i \<longrightarrow> running s i)"
  using assms(1)
proof cases
  case (event now states e r)
  obtain calls where "s' = (event_state now speedup e r s)\<lparr>rp_calls := calls\<rparr>"
    using replay_event_state [OF event(2,3)] by blast
  then show ?thesis using event_state_spec [OF assms(2), of now speedup e r i] by simp
next
  case (wake j now call)
  have "running s j" using wake(3,4) by (simp add: running_def task_done_def)
  then show ?thesis unfolding wake(2) using registered_set_task_status [OF assms(2)] running_set_task_status by simp
next
  case (answer j)
  have "running s j" using answer(3,4) by (simp add: running_def task_done_def)
  then show ?thesis unfolding answer(2) using registered_set_task_status [OF assms(2)] running_set_task_status by simp
qed

lemma replays_spec:
  assumes "replays speedup ls s s'" and "registered s"
  shows "registered s' \<and> length (rp_deadline_tasks s) \<le> length (rp_deadline_tasks s')
    \<and> (i < length (rp_deadline_tasks s) \<longrightarrow> keys_of s' i = keys_of s i)
    \<and> (i < length (rp_deadline_tasks s) \<longrightarrow> running s' i \<longrightarrow> running s i)"
  using assms
proof (induction rule: replays.induct)
  case (cons l s s' ls s'')
  have "registered s' \<and> length (rp_deadline_tasks s) \<le> length (rp_deadline_tasks s')
    \<and> (i < length (rp_deadline_tasks s) \<longrightarrow> keys_of s' i = keys_of s i)
    \<and> (i < length (rp_deadline_tasks s) \<longrightarrow> running s' i \<longrightarrow> running s i)"
    by (rule step_spec [OF cons.hyps(1) cons.prems])
  with cons.IH show ?case by auto
qed simp

lemma registered_start [simp]: "registered replay_start"
  by (simp add: registered_def running_def replay_start_def)

text \<open>A deadline that does not run is not woken.\<close>

lemma ended_not_woken:
  assumes "replays speedup ls s s'" and "registered s"
    and "i < length (rp_deadline_tasks s)" and "\<not> running s i"
  shows "Wake now i \<notin> set ls"
  using assms
proof (induction rule: replays.induct)
  case (cons l s s' ls s'')
  have step: "registered s' \<and> length (rp_deadline_tasks s) \<le> length (rp_deadline_tasks s')
    \<and> (i < length (rp_deadline_tasks s) \<longrightarrow> keys_of s' i = keys_of s i)
    \<and> (i < length (rp_deadline_tasks s) \<longrightarrow> running s' i \<longrightarrow> running s i)"
    by (rule step_spec [OF cons.hyps(1) cons.prems(1)])
  have "l \<noteq> Wake now i"
    using cons.hyps(1) cons.prems(3) by (auto elim: replay_stepE simp: running_def task_done_def)
  moreover have "Wake now i \<notin> set ls" using cons.IH step cons.prems by auto
  ultimately show ?case by simp
qed simp

section \<open>Deadlines that fire\<close>

text \<open>The deadline belongs to a valid preemption notice whose grace period is not negative.\<close>

definition task_ok :: "deadline_task \<Rightarrow> bool" where
  "task_ok t \<longleftrightarrow> 0 \<le> dt_trace_deadline_time_s t
     \<and> (dt_resolved t = PNone \<longrightarrow> se_node_id (dt_event t) \<noteq> PNone \<and> se_instance_id (dt_event t) = PNone)"

definition tasks_ok :: "replay \<Rightarrow> bool" where
  "tasks_ok s \<longleftrightarrow> (\<forall>t \<in> set (rp_deadline_tasks s). task_ok t)"

lemma task_ok_status [simp]: "task_ok (t\<lparr>dt_status := st\<rparr>) \<longleftrightarrow> task_ok t"
  by (simp add: task_ok_def)

lemma tasks_ok_update:
  assumes "\<forall>t \<in> set ts. task_ok t"
  shows "\<forall>t \<in> set (ts[i := (ts ! i)\<lparr>dt_status := st\<rparr>]). task_ok t"
proof (cases "i < length ts")
  case True
  then have "task_ok ((ts ! i)\<lparr>dt_status := st\<rparr>)" using assms by simp
  then show ?thesis using assms set_update_subset_insert [of ts i "(ts ! i)\<lparr>dt_status := st\<rparr>"] by blast
qed (use assms in \<open>simp add: list_update_beyond\<close>)

lemma tasks_ok_cancel: "tasks_ok s \<Longrightarrow> tasks_ok (cancel_task i s)"
  unfolding tasks_ok_def cancel_task_def using tasks_ok_update by simp

lemma tasks_ok_set_task_status: "tasks_ok s \<Longrightarrow> tasks_ok (set_task_status i st s)"
  unfolding tasks_ok_def set_task_status_def using tasks_ok_update by simp

lemma tasks_ok_simps [simp]:
  "tasks_ok (s\<lparr>rp_calls := c\<rparr>) \<longleftrightarrow> tasks_ok s"
  "tasks_ok (s\<lparr>rp_pending_deadlines := p\<rparr>) \<longleftrightarrow> tasks_ok s"
  "tasks_ok (s\<lparr>rp_auto_dead_cancelled := n\<rparr>) \<longleftrightarrow> tasks_ok s"
  "tasks_ok (s\<lparr>rp_auto_dead_scheduled := n\<rparr>) \<longleftrightarrow> tasks_ok s"
  "tasks_ok (s\<lparr>rp_deadline_tasks := rp_deadline_tasks s @ [t]\<rparr>) \<longleftrightarrow> tasks_ok s \<and> task_ok t"
  by (auto simp: tasks_ok_def)

lemma tasks_ok_cancel_pending: "tasks_ok s \<Longrightarrow> tasks_ok (cancel_pending_deadlines e r s)"
proof -
  have "tasks_ok s \<Longrightarrow> tasks_ok (fold cancel_task is s)" for "is"
    by (induction "is" arbitrary: s) (simp_all add: tasks_ok_cancel)
  then show "tasks_ok s \<Longrightarrow> tasks_ok (cancel_pending_deadlines e r s)"
    by (simp add: cancel_pending_deadlines_def Let_def)
qed

lemma tasks_ok_register: "tasks_ok s \<Longrightarrow> tasks_ok (fold (register_deadline t) ks s)"
proof (induction ks arbitrary: s)
  case (Cons k ks)
  have "tasks_ok (register_deadline t k s)"
    using Cons.prems by (auto simp: register_deadline_def Let_def tasks_ok_cancel split: option.splits)
  then show ?case using Cons.IH by simp
qed simp

lemma post_init_valid:
  assumes "SpotEvent_post_init e = Inr e"
  shows "0 \<le> se_time e" and "se_grace_period_s e = Some g \<Longrightarrow> 0 \<le> g"
    and "se_node_id e \<noteq> PNone \<or> se_instance_id e \<noteq> PNone \<or> se_instance_index e \<noteq> None \<or> se_instance_selector e \<noteq> PNone"
  using assms by (auto simp: SpotEvent_post_init_def split: if_splits)

lemma resolved_none:
  assumes "resolve_instance_id e states = Inr PNone" and "SpotEvent_post_init e = Inr e"
  shows "se_node_id e \<noteq> PNone \<and> se_instance_id e = PNone"
  using assms(1) post_init_valid(3) [OF assms(2)]
  by (auto simp: resolve_instance_id_def Let_def rbind_eq_Inr split: if_splits)

lemma step_tasks_ok:
  assumes "replay_step speedup l s s'" and "tasks_ok s"
  shows "tasks_ok s'"
  using assms(1)
proof cases
  case (event now states e r)
  obtain calls where s': "s' = (event_state now speedup e r s)\<lparr>rp_calls := calls\<rparr>"
    using replay_event_state [OF event(2,3)] by blast
  have "tasks_ok (event_state now speedup e r s)"
  proof (cases rule: event_state_cases [of e now speedup r s])
    case (notice g)
    have "r = PNone \<Longrightarrow> se_node_id e \<noteq> PNone \<and> se_instance_id e = PNone"
      using resolved_none event(3,4) by simp
    then show ?thesis
      unfolding notice(3) schedule_deadline_def Let_def
      using assms(2) post_init_valid(1,2) [OF event(4)] notice(2)
      by (simp add: tasks_ok_register task_ok_def)
  qed (simp_all add: tasks_ok_cancel_pending assms(2))
  then show ?thesis by (simp add: s')
qed (simp_all add: tasks_ok_set_task_status assms(2))

lemma replays_tasks_ok: "replays speedup ls s s' \<Longrightarrow> tasks_ok s \<Longrightarrow> tasks_ok s'"
  by (induction rule: replays.induct) (simp_all add: step_tasks_ok)

text \<open>The call a deadline makes: the instance of its notice is dead, at the deadline.\<close>

definition deadline_call :: "deadline_task \<Rightarrow> controller_call" where
  "deadline_call t = Handle_Instance_Dead (se_node_id (dt_event t)) (dt_resolved t) (se_model_name (dt_event t))
     \<lparr>no_notice_time_s = Some (dt_notice_time_s t), no_deadline_time_s = Some (dt_deadline_time_s t),
      no_trace_event_time_s = dt_trace_deadline_time_s t,
      no_trace_deadline_time_s = Some (dt_trace_deadline_time_s t),
      no_grace_period_s = Some (dt_grace_period_s t)\<rparr> True"

lemma auto_dead_call_ok:
  assumes "task_ok t" and "truthy (dt_resolved t) \<or> se_node_id (dt_event t) \<noteq> PNone"
  shows "auto_dead_call t = Inr (deadline_call t)"
  using assms
  by (auto simp: auto_dead_call_def dead_event_def SpotEvent_post_init_def SUPPORTED_EVENTS_def task_ok_def
      dispatch_event_def deadline_call_def por_def)

text \<open>A step of the replay leaves the deadline \<open>i\<close>, with the keys \<open>ks\<close>, alone.\<close>

fun leaves_alone :: "deadline_key list \<Rightarrow> nat \<Rightarrow> replay_label \<Rightarrow> bool" where
  "leaves_alone ks i (Event now e r) = (set ks \<inter> set (deadline_keys_for_event e r) = {})"
| "leaves_alone ks i (Wake now j) = (j \<noteq> i)"
| "leaves_alone ks i (Answer j) = (j \<noteq> i)"

lemma step_leaves_alone:
  assumes "replay_step speedup l s s'" and "registered s" and "i < length (rp_deadline_tasks s)"
    and "leaves_alone (keys_of s i) i l"
  shows "rp_deadline_tasks s' ! i = rp_deadline_tasks s ! i"
  using assms(1)
proof cases
  case (event now states e r)
  obtain calls where s': "s' = (event_state now speedup e r s)\<lparr>rp_calls := calls\<rparr>"
    using replay_event_state [OF event(2,3)] by blast
  then show ?thesis using event_state_spec [OF assms(2), of now speedup e r i] assms(3,4) event(1) by simp
qed (use assms(4) in simp_all)

lemma replays_leave_alone:
  assumes "replays speedup ls s s'" and "registered s" and "i < length (rp_deadline_tasks s)"
    and "\<forall>l \<in> set ls. leaves_alone (keys_of s i) i l"
  shows "rp_deadline_tasks s' ! i = rp_deadline_tasks s ! i"
  using assms
proof (induction rule: replays.induct)
  case (cons l s s' ls s'')
  have same: "rp_deadline_tasks s' ! i = rp_deadline_tasks s ! i"
    using step_leaves_alone [OF cons.hyps(1) cons.prems(1,2)] cons.prems(3) by simp
  have "registered s'" "i < length (rp_deadline_tasks s')"
    using step_spec [OF cons.hyps(1) cons.prems(1), of i] cons.prems(2) by simp_all
  then show ?case using cons.IH cons.prems(3) same by simp
qed simp

section \<open>Properties\<close>

text \<open>
  C11. A recover, dead or remove event ends the preemption it refers to: whatever was replayed before
  it and whatever comes after it, no deadline registered under a key of the event, the instance,
  the node or the selector, is woken again, so the instance is not declared dead a second time.
\<close>

theorem ended_preemption_not_killed:
  assumes "replays speedup before replay_start s"
    and "replay_step speedup (Event now e r) s s'"
    and "se_event e \<in> {''recover'', ''dead'', ''remove''}"
    and "i < length (rp_deadline_tasks s)"
    and "set (task_keys (rp_deadline_tasks s ! i)) \<inter> set (deadline_keys_for_event e r) \<noteq> {}"
    and "replays speedup after s' s''"
  shows "Wake t i \<notin> set after"
proof -
  have reg: "registered s" using replays_spec [OF assms(1)] by simp
  have step: "registered s'" "i < length (rp_deadline_tasks s')"
    using step_spec [OF assms(2) reg, of i] assms(4) by simp_all
  have "\<not> running s' i"
    using assms(2)
  proof cases
    case (event states)
    obtain calls where s': "s' = (event_state now speedup e r s)\<lparr>rp_calls := calls\<rparr>"
      using replay_event_state [OF event(1,2)] by blast
    then show ?thesis using event_state_spec [OF reg, of now speedup e r i] assms(3,5) by auto
  qed
  then show ?thesis using ended_not_woken [OF assms(6) step] by simp
qed

text \<open>
  C12. A preemption nobody ends is carried out: the deadline of a notice that names its instance or
  its node, and that neither a later event nor a later notice refers to, is still asleep when its
  time comes, the replay can wake it, and waking it declares the instance of the notice dead with
  the notice and deadline times of the notice.
\<close>

theorem deadline_fires:
  assumes "replays speedup before replay_start s"
    and "i < length (rp_deadline_tasks s)" and "dt_status (rp_deadline_tasks s ! i) = Sleeping"
    and "truthy (dt_resolved (rp_deadline_tasks s ! i)) \<or> se_node_id (dt_event (rp_deadline_tasks s ! i)) \<noteq> PNone"
    and "replays speedup after s s'"
    and "\<forall>l \<in> set after. leaves_alone (task_keys (rp_deadline_tasks s ! i)) i l"
    and "dt_deadline_time_s (rp_deadline_tasks s ! i) \<le> now"
  shows "\<exists>s''. replay_step speedup (Wake now i) s' s''
    \<and> rp_calls s'' = rp_calls s' @ [deadline_call (rp_deadline_tasks s ! i)]"
proof -
  have reg: "registered s" using replays_spec [OF assms(1)] by simp
  have "tasks_ok s" using replays_tasks_ok [OF assms(1)] by (simp add: replay_start_def tasks_ok_def)
  then have "task_ok (rp_deadline_tasks s ! i)" using assms(2) by (simp add: tasks_ok_def)
  from auto_dead_call_ok [OF this assms(4)]
  have call: "auto_dead_call (rp_deadline_tasks s ! i) = Inr (deadline_call (rp_deadline_tasks s ! i))" .
  have same: "rp_deadline_tasks s' ! i = rp_deadline_tasks s ! i"
    by (rule replays_leave_alone [OF assms(5) reg assms(2,6)])
  have "i < length (rp_deadline_tasks s')" using replays_spec [OF assms(5) reg, of i] assms(2) by simp
  from replay_step.wake [OF this, of now "deadline_call (rp_deadline_tasks s ! i)" speedup] assms(3,7) call same
  show ?thesis by fastforce
qed

section \<open>A replay\<close>

text \<open>
  A notice for the instance \<open>a\<close> of the model \<open>m\<close> at time 100 with 30 seconds of grace, a notice
  for the instance \<open>b\<close>, then the recovery of \<open>a\<close>.
\<close>

definition example_event :: "string \<Rightarrow> pyval \<Rightarrow> pyval \<Rightarrow> rat option \<Rightarrow> spot_event" where
  "example_event kind inst selector grace =
     \<lparr>se_time = 1, se_event = kind, se_node_id = PNone, se_model_name = PStr ''m'', se_instance_id = inst,
      se_instance_index = None, se_instance_selector = selector, se_node_info = PNone,
      se_grace_period_s = grace, se_auto_generated = False\<rparr>"

definition example_table :: "bool \<Rightarrow> instance_states" where
  "example_table a_ready =
     [(''a'', [(''pool'', PStr ''ready''), (''state'', PStr (if a_ready then ''ready'' else ''preempting'')),
               (''concurrency'', PInt 2)]),
      (''b'', [(''pool'', PStr ''ready''), (''state'', PStr ''ready''), (''concurrency'', PInt 1)])]"

definition example_notice_a :: spot_event where
  "example_notice_a = example_event ''preempt'' (PStr ''a'') PNone (Some 30)"

definition example_notice_b :: spot_event where
  "example_notice_b = example_event ''preempt'' (PStr ''b'') PNone (Some 30)"

definition example_recover_a :: spot_event where
  "example_recover_a = example_event ''recover'' (PStr ''a'') PNone None"

definition run_events :: "(rat \<times> instance_states \<times> spot_event) list \<Rightarrow> replay \<Rightarrow> replay res" where
  "run_events evs s = rfold (\<lambda>(now, states, e) s. rbind (SpotEvent_post_init e) (\<lambda>e. replay_event now 1 states e s)) evs s"

definition ok :: "'a \<Rightarrow> 'b + 'a \<Rightarrow> 'a" where
  "ok d r = (case r of Inr v \<Rightarrow> v | Inl _ \<Rightarrow> d)"

definition after_events :: "(rat \<times> instance_states \<times> spot_event) list \<Rightarrow> replay" where
  "after_events evs = ok replay_start (run_events evs replay_start)"

definition example_s1 :: replay where "example_s1 = after_events [(100, [], example_notice_a)]"

definition example_s2 :: replay where
  "example_s2 = after_events [(100, [], example_notice_a), (101, [], example_notice_b)]"

definition example_s3 :: replay where
  "example_s3 = after_events [(100, [], example_notice_a), (101, [], example_notice_b), (102, [], example_recover_a)]"

lemma example_steps:
  "replay_step 1 (Event 100 example_notice_a (PStr ''a'')) replay_start example_s1"
  "replay_step 1 (Event 101 example_notice_b (PStr ''b'')) example_s1 example_s2"
  "replay_step 1 (Event 102 example_recover_a (PStr ''a'')) example_s2 example_s3"
  by ((rule replay_step.event [where states = "[]"]; code_simp)+)

lemma example_replays:
  "replays 1 [Event 100 example_notice_a (PStr ''a'')] replay_start example_s1"
  "replays 1 [Event 100 example_notice_a (PStr ''a''), Event 101 example_notice_b (PStr ''b'')] replay_start example_s2"
  "replays 1 [Event 101 example_notice_b (PStr ''b'')] example_s1 example_s2"
  using example_steps by (auto intro!: replays.intros)

definition example_s4 :: replay where
  "example_s4 = (set_task_status 1 Dispatching example_s3)
     \<lparr>rp_calls := rp_calls example_s3 @ [deadline_call (rp_deadline_tasks example_s3 ! 1)]\<rparr>"

lemma example_wake: "replays 1 [Wake 131 1] example_s3 example_s4"
proof -
  have "replay_step 1 (Wake 131 1) example_s3 example_s4"
    unfolding example_s4_def by (rule replay_step.wake; code_simp)
  then show ?thesis by (auto intro!: replays.intros)
qed

theorem ended_preemption_not_killed_witness:
  "replays 1 [Wake 131 1] example_s3 example_s4 \<and> Wake 130 0 \<notin> set [Wake 131 1]"
proof
  show "replays 1 [Wake 131 1] example_s3 example_s4" by (rule example_wake)
  show "Wake 130 0 \<notin> set [Wake 131 1]"
  proof (rule ended_preemption_not_killed [OF example_replays(2) example_steps(3) _ _ _ example_wake])
    show "se_event example_recover_a \<in> {''recover'', ''dead'', ''remove''}" by code_simp
    show "0 < length (rp_deadline_tasks example_s2)" by code_simp
    show "set (task_keys (rp_deadline_tasks example_s2 ! 0)) \<inter>
        set (deadline_keys_for_event example_recover_a (PStr ''a'')) \<noteq> {}" by code_simp
  qed
qed

theorem deadline_fires_witness:
  "\<exists>s''. replay_step 1 (Wake 130 0) example_s2 s''
    \<and> rp_calls s'' = rp_calls example_s2 @ [deadline_call (rp_deadline_tasks example_s1 ! 0)]"
proof (rule deadline_fires [OF example_replays(1) _ _ _ example_replays(3)])
  show "0 < length (rp_deadline_tasks example_s1)" by code_simp
  show "dt_status (rp_deadline_tasks example_s1 ! 0) = Sleeping" by code_simp
  show "truthy (dt_resolved (rp_deadline_tasks example_s1 ! 0)) \<or> se_node_id (dt_event (rp_deadline_tasks example_s1 ! 0)) \<noteq> PNone"
    by code_simp
  show "\<forall>l \<in> set [Event 101 example_notice_b (PStr ''b'')]. leaves_alone (task_keys (rp_deadline_tasks example_s1 ! 0)) 0 l"
    by code_simp
  show "dt_deadline_time_s (rp_deadline_tasks example_s1 ! 0) \<le> 130" by code_simp
qed

text \<open>
  Two notices through the selector \<open>active\<close>: the first takes \<open>a\<close>, the second, when \<open>a\<close> is already
  being preempted, takes \<open>b\<close>. They share the selector's key, so the second notice cancels the
  deadline of \<open>a\<close>, which is then never declared dead, and the cancellation is not counted.
\<close>

definition example_active :: spot_event where
  "example_active = example_event ''preempt'' PNone (PStr ''active'') (Some 30)"

lemma selector_notice_cancels_other_deadline:
  "rmap (\<lambda>t. Inr (dt_resolved t, dt_status t)) (rp_deadline_tasks
     (after_events [(100, example_table True, example_active), (101, example_table False, example_active)])) =
   (Inr [(PStr ''a'', Stopped), (PStr ''b'', Sleeping)] :: (pyval \<times> task_status) list res)
   \<and> rp_auto_dead_cancelled
     (after_events [(100, example_table True, example_active), (101, example_table False, example_active)]) = 0"
  by code_simp

end
