(* ===== verification/Moe_Topology.thy ===== *)
theory Moe_Topology
  imports Py_Prelude
begin

text \<open>
  The first part of \<open>src/sllm/spot/moe_placement.py\<close>: reading the configuration, the topology of a
  mixture-of-experts model, the observed expert placement and the frozen routing statistics. What
  the module takes from outside is a record: the fingerprint of a payload (\<open>json.dumps\<close> and
  \<open>zlib.crc32\<close>), the square root of a float, the clock, and the parsed \<open>config.json\<close> of a model
  path, if it can be read. Integers of the configuration that cannot be converted and floats that
  are not finite take their defaults, so most of these functions cannot raise; only a
  non-negative float may be infinite, which leaves the model.
\<close>

record moe_env =
  me_fingerprint :: "dict \<Rightarrow> string"
  me_sqrt :: "rat \<Rightarrow> rat"
  me_time :: rat
  me_config_json :: "string \<Rightarrow> pyval option"

section \<open>Configuration values\<close>

definition as_positive_int :: "pyval \<Rightarrow> int \<Rightarrow> int" where
  "as_positive_int value dflt =
     (case py_int value of Inl _ \<Rightarrow> dflt | Inr parsed \<Rightarrow> if parsed \<le> 0 then dflt else parsed)"

definition non_negative_int_or :: "pyval \<Rightarrow> int \<Rightarrow> int" where
  "non_negative_int_or value dflt =
     (case py_int value of Inl _ \<Rightarrow> dflt | Inr parsed \<Rightarrow> if parsed < 0 then dflt else parsed)"

fun first_positive_config_int :: "dict \<Rightarrow> string list \<Rightarrow> int" where
  "first_positive_config_int config [] = 0"
| "first_positive_config_int config (key # keys) =
     (let value = as_positive_int (dgetn config key) 0
      in if 0 < value then value else first_positive_config_int config keys)"

definition to_bool_or :: "pyval \<Rightarrow> bool \<Rightarrow> bool" where
  "to_bool_or value dflt =
     (case value of
        PNone \<Rightarrow> dflt
      | PBool b \<Rightarrow> b
      | PStr s \<Rightarrow>
          (let normalized = py_lower (py_strip s) in
           if normalized \<in> {''1'', ''true'', ''yes'', ''on''} then True
           else if normalized \<in> {''0'', ''false'', ''no'', ''off'', ''''} then False
           else truthy value)
      | _ \<Rightarrow> truthy value)"

definition finite_float :: "pyval \<Rightarrow> rat option" where
  "finite_float value = (case py_float value of Inl _ \<Rightarrow> None | Inr r \<Rightarrow> Some r)"

text \<open>A nested mapping and the resource profile inside it.\<close>

definition nested_sources :: "dict \<Rightarrow> string \<Rightarrow> dict list" where
  "nested_sources config key =
     (let nested = dgetn config key in
      if is_mapping nested
      then dict_of nested #
           (let profile = dgetn (dict_of nested) ''model_resource_profile''
            in if is_mapping profile then [dict_of profile] else [])
      else [])"

definition nested_config_keys :: "string list" where
  "nested_config_keys = [''runtime_metadata'', ''model_config'', ''hf_config'', ''moe_config'']"

definition model_config_sources :: "moe_env \<Rightarrow> dict \<Rightarrow> dict list" where
  "model_config_sources env model_config =
     model_config # concat (map (nested_sources model_config) nested_config_keys) @
     (let backend_config = dget model_config ''backend_config'' (PDict []) in
      if is_mapping backend_config then
        let backend_config = dict_of backend_config;
            model_path = dgetn backend_config ''pretrained_model_name_or_path'';
            model_path = (if model_path = PNone then dgetn backend_config ''model'' else model_path)
        in backend_config # concat (map (nested_sources backend_config) nested_config_keys) @
           (case me_config_json env (py_str model_path) of
              Some (PDict parsed) \<Rightarrow> [parsed] | _ \<Rightarrow> [])
      else [])"

definition config_sources :: "moe_env \<Rightarrow> dict \<Rightarrow> dict \<Rightarrow> dict list" where
  "config_sources env planner_config model_config =
     map dict_of (filter is_mapping
       [PDict planner_config, dgetn planner_config ''moe_planner_config'',
        dgetn planner_config ''expert_placement_config''])
     @ model_config_sources env model_config"

fun first_key_value :: "dict \<Rightarrow> string list \<Rightarrow> pyval option" where
  "first_key_value source [] = None"
| "first_key_value source (key # keys) =
     (case map_of source key of Some v \<Rightarrow> Some v | None \<Rightarrow> first_key_value source keys)"

fun first_config_value :: "dict list \<Rightarrow> string list \<Rightarrow> pyval" where
  "first_config_value [] keys = PNone"
| "first_config_value (source # sources) keys =
     (case first_key_value source keys of Some v \<Rightarrow> v | None \<Rightarrow> first_config_value sources keys)"

definition first_non_negative_float :: "dict list \<Rightarrow> string list \<Rightarrow> rat \<Rightarrow> rat res" where
  "first_non_negative_float sources keys dflt =
     except_tv (rbind (py_float (first_config_value sources keys)) (\<lambda>parsed. Inr (max 0 parsed)))
       (Inr dflt)"

section \<open>Expert keys\<close>

definition expert_key :: "int \<Rightarrow> int \<Rightarrow> string" where
  "expert_key layer_id expert_id = ''layer:'' @ int_str layer_id @ ''/expert:'' @ int_str expert_id"

text \<open>\<open>part.partition(":")\<close>, without the separator.\<close>

definition partition_colon :: "string \<Rightarrow> string \<times> string" where
  "partition_colon part =
     (takeWhile (\<lambda>c. c \<noteq> CHR '':'') part, tl (dropWhile (\<lambda>c. c \<noteq> CHR '':'') part))"

definition key_part :: "string \<Rightarrow> int \<times> int \<Rightarrow> int \<times> int" where
  "key_part part ids =
     (let (name, raw_value) = partition_colon part; (layer_id, expert_id) = ids in
      if name = ''layer'' then (non_negative_int_or (PStr raw_value) (-1), expert_id)
      else if name = ''expert'' then (layer_id, non_negative_int_or (PStr raw_value) (-1))
      else (layer_id, expert_id))"

definition key_ids :: "string \<Rightarrow> int \<times> int \<Rightarrow> int \<times> int" where
  "key_ids key_text ids = fold key_part (split_on (CHR ''/'') key_text) ids"

text \<open>The ids an entry declares itself.\<close>

definition declared_ids :: "pyval \<Rightarrow> int \<times> int" where
  "declared_ids value =
     (if is_mapping value
      then (non_negative_int_or (dgetn (dict_of value) ''layer_id'') (-1),
            non_negative_int_or (dgetn (dict_of value) ''expert_id'') (-1))
      else (-1, -1))"

definition expert_key_from_entry :: "string \<Rightarrow> pyval \<Rightarrow> string" where
  "expert_key_from_entry key value =
     (let (layer_id, expert_id) = declared_ids value in
      if 0 \<le> layer_id \<and> 0 \<le> expert_id then expert_key layer_id expert_id
      else let (parsed_layer_id, parsed_expert_id) = key_ids key (-1, -1)
        in if 0 \<le> parsed_layer_id \<and> 0 \<le> parsed_expert_id
           then expert_key parsed_layer_id parsed_expert_id else key)"

text \<open>The value of a non-empty run of digits.\<close>

definition digits_int :: "string \<Rightarrow> int" where
  "digits_int ds = foldl (\<lambda>i c. i * 10 + digit_value c) 0 ds"

text \<open>\<open>layer:(\d+)/expert:(\d+)\<close>: the text after a prefix, and a number at the front.\<close>

definition after_prefix :: "string \<Rightarrow> string \<Rightarrow> string option" where
  "after_prefix prefix s = (if starts_with s prefix then Some (drop (length prefix) s) else None)"

definition leading_number :: "string \<Rightarrow> (int \<times> string) option" where
  "leading_number s =
     (let ds = takeWhile is_digit s in
      if ds = [] then None else Some (digits_int ds, dropWhile is_digit s))"

definition number_after :: "string \<Rightarrow> string \<Rightarrow> (int \<times> string) option" where
  "number_after prefix s = Option.bind (after_prefix prefix s) leading_number"

definition canonical_expert_key :: "string \<Rightarrow> (int \<times> int) option" where
  "canonical_expert_key key =
     Option.bind (number_after ''layer:'' key) (\<lambda>(layer_id, rest).
     Option.bind (number_after ''/expert:'' rest) (\<lambda>(expert_id, rest).
     if rest = [] then Some (layer_id, expert_id) else None))"

section \<open>Topology\<close>

definition observe_entry :: "string \<Rightarrow> pyval \<Rightarrow> int \<times> int \<Rightarrow> int \<times> int" where
  "observe_entry key value maxima =
     (let (max_layer_id, max_expert_id) = maxima; (layer_id, expert_id) = declared_ids value;
          (layer_id, expert_id) = (if layer_id < 0 \<or> expert_id < 0
            then key_ids key (layer_id, expert_id) else (layer_id, expert_id))
      in (if 0 \<le> layer_id then max max_layer_id layer_id else max_layer_id,
          if 0 \<le> expert_id then max max_expert_id expert_id else max_expert_id))"

definition observe_rows :: "string \<times> pyval \<Rightarrow> int \<times> int \<Rightarrow> int \<times> int" where
  "observe_rows entry maxima =
     (let (key, rows) = entry; maxima = observe_entry key (PDict []) maxima in
      case rows of
        PDict _ \<Rightarrow> observe_entry key rows maxima
      | PList xs \<Rightarrow> fold (observe_entry key) xs maxima
      | PTuple xs \<Rightarrow> fold (observe_entry key) xs maxima
      | _ \<Rightarrow> maxima)"

definition nonempty_mapping :: "pyval \<Rightarrow> bool" where
  "nonempty_mapping v = (is_mapping v \<and> truthy v)"

definition topology_of_maxima :: "int \<times> int \<Rightarrow> int \<times> int" where
  "topology_of_maxima maxima =
     (if fst maxima < 0 \<or> snd maxima < 0 then (0, 0) else (fst maxima + 1, snd maxima + 1))"

definition infer_topology_from_placement_snapshot :: "dict \<Rightarrow> int \<times> int" where
  "infer_topology_from_placement_snapshot config =
     (let snapshot = dgetn config ''expert_placement_snapshot'';
          snapshot = (if nonempty_mapping snapshot then snapshot else dgetn config ''expert_placement'');
          runtime_shards = dgetn config ''runtime_expert_placement_shards''
      in if \<not> nonempty_mapping snapshot \<and> \<not> is_mapping runtime_shards then (0, 0)
         else let maxima = fold observe_rows (dict_of runtime_shards) (-1, -1) in
           if \<not> nonempty_mapping snapshot then topology_of_maxima maxima
           else topology_of_maxima (fold (\<lambda>(key, value). observe_entry key value) (dict_of snapshot) maxima))"

definition declared_topology :: "dict \<Rightarrow> int \<times> int" where
  "declared_topology config =
     (first_positive_config_int config [''num_hidden_layers'', ''n_layer'', ''num_layers''],
      first_positive_config_int config
        [''num_experts'', ''num_local_experts'', ''n_routed_experts'', ''moe_num_experts''])"

definition usable_topology :: "int \<times> int \<Rightarrow> bool" where
  "usable_topology t = (0 < fst t \<and> 0 < snd t)"

definition infer_moe_topology :: "moe_env \<Rightarrow> dict \<Rightarrow> int \<times> int" where
  "infer_moe_topology env model_config =
     (let sources = model_config_sources env model_config in
      case find usable_topology (map declared_topology sources) of
        Some t \<Rightarrow> t
      | None \<Rightarrow> (case find usable_topology (map infer_topology_from_placement_snapshot sources) of
          Some t \<Rightarrow> t | None \<Rightarrow> (0, 0)))"

text \<open>The \<open>backend_config\<close> of a model, empty when it is no mapping.\<close>

definition backend_config_dict :: "dict \<Rightarrow> dict" where
  "backend_config_dict model_config = dict_of (dgetn model_config ''backend_config'')"

definition looks_like_moe_model :: "moe_env \<Rightarrow> string \<Rightarrow> dict \<Rightarrow> bool" where
  "looks_like_moe_model env model_name model_config =
     (infer_moe_topology env model_config \<noteq> (0, 0)
      \<or> (let backend_config = backend_config_dict model_config in
         truthy (dget backend_config ''enable_expert_parallel'' (PBool False))
         \<or> (let model_id = py_str (por (dgetn backend_config ''pretrained_model_name_or_path'')
                   (por (dgetn backend_config ''model'') (por (dgetn model_config ''model'') (PStr model_name))))
            in str_contains (py_lower model_id) ''moe'' \<or> str_contains (py_lower model_name) ''moe'')))"

end
