(* ===== verification/Moe_Hotness.thy ===== *)
theory Moe_Hotness
  imports Moe_Topology
begin

text \<open>
  The second part of \<open>src/sllm/spot/moe_placement.py\<close>: the placement of the experts the runtime
  or the configuration reports, and the routing statistics, frozen into a hotness per expert.
\<close>

section \<open>The current placement\<close>

type_synonym placement = "(string \<times> dict) list"

text \<open>The ids in a key that an entry lacks.\<close>

definition complete_payload :: "string \<Rightarrow> dict \<Rightarrow> dict" where
  "complete_payload key payload =
     (if starts_with key ''layer:'' then
        fold (\<lambda>part payload.
          let (name, raw_value) = partition_colon part in
          if name = ''layer'' \<and> \<not> dhas payload ''layer_id''
          then AList.update ''layer_id'' (PInt (non_negative_int_or (PStr raw_value) (-1))) payload
          else if name = ''expert'' \<and> \<not> dhas payload ''expert_id''
          then AList.update ''expert_id'' (PInt (non_negative_int_or (PStr raw_value) (-1))) payload
          else payload) (split_on (CHR ''/'') key) payload
      else payload)"

definition normalize_shard :: "pyval \<Rightarrow> placement \<Rightarrow> placement" where
  "normalize_shard shard normalized =
     (let key = expert_key_from_entry '''' shard in
      if is_mapping shard \<and> key \<noteq> '''' then AList.update key (dict_of shard) normalized else normalized)"

definition normalize_entry :: "string \<times> pyval \<Rightarrow> placement \<Rightarrow> placement" where
  "normalize_entry entry normalized =
     (let (key, value) = entry in
      if key = ''shards'' then normalized
      else let (ek, payload) = (if is_mapping value then (expert_key_from_entry key value, dict_of value)
                                else (key, [(''rank_id'', PStr (py_str value))]))
        in if ek = '''' then normalized else AList.update ek (complete_payload ek payload) normalized)"

definition sequence_items :: "pyval \<Rightarrow> pyval list" where
  "sequence_items v = (case v of PList xs \<Rightarrow> xs | PTuple xs \<Rightarrow> xs | _ \<Rightarrow> [])"

definition normalize_expert_placement_snapshot :: "pyval \<Rightarrow> placement" where
  "normalize_expert_placement_snapshot snapshot =
     (if is_mapping snapshot
      then fold normalize_entry (dict_of snapshot)
             (fold normalize_shard (sequence_items (dgetn (dict_of snapshot) ''shards'')) [])
      else [])"

fun first_positive_entry :: "dict list \<Rightarrow> int option" where
  "first_positive_entry [] = None"
| "first_positive_entry (entry # entries) =
     (let parsed = first_positive_config_int entry [''weight_size_bytes'', ''expert_weight_size_bytes'']
      in if 0 < parsed then Some parsed else first_positive_entry entries)"

definition entry_weight_size_bytes :: "dict list \<Rightarrow> int option \<Rightarrow> int option" where
  "entry_weight_size_bytes entries d =
     (case first_positive_entry entries of
        Some n \<Rightarrow> Some n
      | None \<Rightarrow> (case d of Some n \<Rightarrow> if 0 < n then Some n else None | None \<Rightarrow> None))"

definition observe_shard :: "string \<times> pyval \<Rightarrow> placement \<Rightarrow> placement" where
  "observe_shard entry observed =
     (let (key, rows) = entry in
      case (if is_sequence rows then sequence_items rows else []) of
        [PDict row] \<Rightarrow>
          (let ep_rank = non_negative_int_or (dgetn row ''ep_rank'') (-1) in
           if dgetn row ''weight_resident'' \<noteq> PBool True \<or> ep_rank < 0 then observed
           else AList.update (expert_key_from_entry key (PDict row))
                  [(''rank_id'', PStr (''replica:0/ep-rank:'' @ int_str ep_rank)),
                   (''weight_size_bytes'', of_opt_int (entry_weight_size_bytes [row] None)),
                   (''weight_resident'', PBool True)] observed)
      | _ \<Rightarrow> observed)"

definition observed_in :: "dict \<Rightarrow> placement" where
  "observed_in source =
     (let shards = dgetn source ''runtime_expert_placement_shards'' in
      if truthy (dgetn source ''runtime_expert_placement_available'') \<and> is_mapping shards
      then fold observe_shard (dict_of shards) [] else [])"

definition observed_runtime_expert_placement :: "dict \<Rightarrow> placement" where
  "observed_runtime_expert_placement metadata =
     (let profile = dgetn metadata ''model_resource_profile'';
          sources = metadata # (if is_mapping profile then [dict_of profile] else [])
      in case find (\<lambda>observed. observed \<noteq> []) (map observed_in sources) of
           Some observed \<Rightarrow> observed | None \<Rightarrow> [])"

text \<open>
  A place the current placement may come from answers with a placement and its name, or passes to
  the next one.
\<close>

type_synonym placement_answer = "(placement \<times> string) option"

definition runtime_placement_unavailable :: placement_answer where
  "runtime_placement_unavailable = Some ([], ''runtime_placement_unavailable'')"

definition derived_placement :: "dict \<Rightarrow> bool" where
  "derived_placement config = (dgetn config ''placement_source'' = PStr ''derived_from_model_config'')"

text \<open>A configuration that may declare a placement of its own.\<close>

definition declared_placement :: "dict \<Rightarrow> string \<Rightarrow> placement_answer" where
  "declared_placement config label =
     (if derived_placement config then runtime_placement_unavailable
      else let normalized = normalize_expert_placement_snapshot
                 (por (dgetn config ''expert_placement_snapshot'') (dgetn config ''expert_placement''))
        in if normalized = [] then None else Some (normalized, label))"

definition observed_placement :: "dict \<Rightarrow> placement_answer" where
  "observed_placement metadata =
     (let observed = observed_runtime_expert_placement metadata
      in if observed = [] then None else Some (observed, ''runtime_expert_placement_shards''))"

definition runtime_placement :: "dict \<Rightarrow> string \<Rightarrow> placement_answer" where
  "runtime_placement metadata label =
     (let profile = dgetn metadata ''model_resource_profile'' in
      if dhas metadata ''runtime_expert_placement_available''
         \<or> is_mapping profile \<and> dhas (dict_of profile) ''runtime_expert_placement_available''
      then runtime_placement_unavailable
      else case declared_placement metadata label of
        Some a \<Rightarrow> Some a
      | None \<Rightarrow> if is_mapping profile
          then declared_placement (dict_of profile) (label @ ''.model_resource_profile'') else None)"

definition planner_placement :: "dict \<Rightarrow> placement_answer" where
  "planner_placement planner_config =
     (let normalized = normalize_expert_placement_snapshot
            (dgetn planner_config ''current_expert_placement_snapshot'')
      in if normalized = [] then None else Some (normalized, ''planner_current_expert_placement_snapshot''))"

definition on_mapping :: "(dict \<Rightarrow> placement_answer) \<Rightarrow> pyval \<Rightarrow> placement_answer" where
  "on_mapping f v = (if is_mapping v then f (dict_of v) else None)"

fun first_answer :: "placement_answer list \<Rightarrow> placement \<times> string" where
  "first_answer [] = ([], ''unavailable'')"
| "first_answer (Some a # rest) = a"
| "first_answer (None # rest) = first_answer rest"

definition current_expert_placement_snapshot :: "dict \<Rightarrow> dict \<Rightarrow> placement \<times> string" where
  "current_expert_placement_snapshot model_config planner_config =
     (let runtime_metadata = dgetn model_config ''runtime_metadata'';
          backend_config = dgetn model_config ''backend_config'';
          backend_runtime = dgetn (dict_of backend_config) ''runtime_metadata''
      in first_answer
           [on_mapping observed_placement runtime_metadata,
            planner_placement planner_config,
            on_mapping (\<lambda>m. runtime_placement m ''runtime_metadata'') runtime_metadata,
            on_mapping observed_placement backend_runtime,
            on_mapping (\<lambda>m. runtime_placement m ''backend_config.runtime_metadata'') backend_runtime,
            on_mapping (\<lambda>c. declared_placement c ''backend_config'') backend_config,
            declared_placement model_config ''model_config''])"

section \<open>Ranks\<close>

text \<open>\<open>ep-rank[:\-]?(\d+)\<close> and \<open>rank[:\-]?(\d+)\<close> at the start of a text, and anywhere in it.\<close>

definition rank_at :: "string \<Rightarrow> string \<Rightarrow> int option" where
  "rank_at prefix s =
     Option.bind (after_prefix prefix s) (\<lambda>rest.
     let rest = (case rest of c # cs \<Rightarrow> if c = CHR '':'' \<or> c = CHR ''-'' then cs else rest | [] \<Rightarrow> rest)
     in map_option fst (leading_number rest))"

fun search_text :: "(string \<Rightarrow> 'a option) \<Rightarrow> string \<Rightarrow> 'a option" where
  "search_text match_at [] = match_at []"
| "search_text match_at (c # cs) =
     (case match_at (c # cs) of Some r \<Rightarrow> Some r | None \<Rightarrow> search_text match_at cs)"

definition rank_signature :: "pyval \<Rightarrow> string" where
  "rank_signature value =
     (let text = py_str (por value (PStr '''')) in
      case search_text (rank_at ''ep-rank'') text of
        Some n \<Rightarrow> ''ep-rank:'' @ int_str n
      | None \<Rightarrow> (case search_text (rank_at ''rank'') text of
          Some n \<Rightarrow> ''rank:'' @ int_str n | None \<Rightarrow> text))"

definition rank_index :: "pyval \<Rightarrow> nat \<Rightarrow> nat option" where
  "rank_index value rank_count =
     (case search_text (\<lambda>s. case rank_at ''ep-rank'' s of Some n \<Rightarrow> Some n | None \<Rightarrow> rank_at ''rank'' s)
             (py_str (por value (PStr ''''))) of
        None \<Rightarrow> None
      | Some n \<Rightarrow> if nat n < rank_count then Some (nat n) else None)"

section \<open>Hotness\<close>

definition default_expert_weight_size_bytes :: "moe_env \<Rightarrow> dict \<Rightarrow> dict \<Rightarrow> int option" where
  "default_expert_weight_size_bytes env model_config planner_config =
     (let n = as_positive_int (first_config_value (config_sources env planner_config model_config)
                [''expert_weight_size_bytes'', ''default_expert_weight_size_bytes'',
                 ''moe_expert_weight_size_bytes'']) 0
      in if n = 0 then None else Some n)"

definition has_hotness :: "pyval \<Rightarrow> bool" where
  "has_hotness candidate =
     (is_mapping candidate
      \<and> (is_mapping (dgetn (dict_of candidate) ''global_expert_hotness'')
         \<or> is_mapping (dgetn (dict_of candidate) ''recent_window_expert_hotness'')))"

definition hotness_contract_source :: "dict \<Rightarrow> dict \<Rightarrow> dict \<times> string" where
  "hotness_contract_source model_config planner_config =
     (let backend_config = backend_config_dict model_config;
          candidates =
            [(dgetn planner_config ''hotness_snapshot'', ''planner.hotness_snapshot''),
             (PDict planner_config, ''planner_config''),
             (dgetn model_config ''runtime_metadata'', ''runtime_metadata''),
             (dgetn backend_config ''runtime_metadata'', ''backend.runtime_metadata''),
             (PDict backend_config, ''backend_config''),
             (PDict model_config, ''model_config'')]
      in case find (\<lambda>(candidate, _). has_hotness candidate) candidates of
           Some (candidate, label) \<Rightarrow> (dict_of candidate, label)
         | None \<Rightarrow> ([], ''unavailable''))"

type_synonym histogram = "(string \<times> rat) list"

fun histogram_entries :: "dict \<Rightarrow> int \<Rightarrow> int \<Rightarrow> histogram \<Rightarrow> histogram \<times> string" where
  "histogram_entries [] num_layers num_experts normalized = (normalized, ''ok'')"
| "histogram_entries ((key, value) # entries) num_layers num_experts normalized =
     (case canonical_expert_key key of
        None \<Rightarrow> (case finite_float value of
            Some v \<Rightarrow> if 0 < v then ([], ''noncanonical_expert_key'')
                      else histogram_entries entries num_layers num_experts normalized
          | None \<Rightarrow> histogram_entries entries num_layers num_experts normalized)
      | Some (layer_id, expert_id) \<Rightarrow>
          if num_layers \<le> layer_id \<or> num_experts \<le> expert_id then ([], ''expert_key_out_of_range'')
          else case finite_float value of
            None \<Rightarrow> ([], ''invalid_histogram_value'')
          | Some v \<Rightarrow> if v < 0 then ([], ''invalid_histogram_value'')
              else histogram_entries entries num_layers num_experts
                     (AList.update (expert_key layer_id expert_id) v normalized))"

definition canonical_histogram :: "pyval \<Rightarrow> int \<Rightarrow> int \<Rightarrow> histogram \<times> string" where
  "canonical_histogram raw num_layers num_experts =
     (case raw of
        PNone \<Rightarrow> ([], ''missing'')
      | PDict entries \<Rightarrow> histogram_entries entries num_layers num_experts []
      | _ \<Rightarrow> ([], ''not_mapping''))"

record hotness_snapshot =
  hs_snapshot_id :: string
  hs_available :: bool
  hs_reason :: string
  hs_alpha :: rat
  hs_hotness :: histogram
  hs_global_counts :: histogram
  hs_recent_counts :: histogram
  hs_layer_sample_counts :: "(string \<times> int) list"
  hs_sample_count :: int
  hs_recent_event_count :: int
  hs_observation_time_s :: "rat option"
  hs_age_s :: "rat option"
  hs_source :: string
  hs_counter_unit :: string
  hs_aggregation_scope :: string
  hs_key_granularity :: string
  hs_complete_sparse :: bool
  hs_global_reset_marker :: string
  hs_layer_coverage :: rat

definition of_histogram :: "histogram \<Rightarrow> pyval" where
  "of_histogram h = PDict (map (\<lambda>(k, v). (k, PFloat v)) h)"

definition HotnessSnapshot_to_dict :: "hotness_snapshot \<Rightarrow> dict" where
  "HotnessSnapshot_to_dict self =
     [(''snapshot_id'', PStr (hs_snapshot_id self)),
      (''available'', PBool (hs_available self)),
      (''reason'', PStr (hs_reason self)),
      (''alpha'', PFloat (hs_alpha self)),
      (''hotness'', of_histogram (hs_hotness self)),
      (''global_counts'', of_histogram (hs_global_counts self)),
      (''recent_counts'', of_histogram (hs_recent_counts self)),
      (''layer_sample_counts'', of_counts (hs_layer_sample_counts self)),
      (''sample_count'', PInt (hs_sample_count self)),
      (''recent_event_count'', PInt (hs_recent_event_count self)),
      (''observation_time_s'', of_opt_float (hs_observation_time_s self)),
      (''age_s'', of_opt_float (hs_age_s self)),
      (''source'', PStr (hs_source self)),
      (''counter_unit'', PStr (hs_counter_unit self)),
      (''aggregation_scope'', PStr (hs_aggregation_scope self)),
      (''key_granularity'', PStr (hs_key_granularity self)),
      (''complete_sparse'', PBool (hs_complete_sparse self)),
      (''global_reset_marker'', PStr (hs_global_reset_marker self)),
      (''layer_coverage'', PFloat (hs_layer_coverage self))]"

definition layer_keys :: "nat \<Rightarrow> nat \<Rightarrow> string list" where
  "layer_keys num_experts layer_id = map (\<lambda>e. expert_key (int layer_id) (int e)) [0..<num_experts]"

text \<open>
  The hotness of the experts of one layer and the number of samples behind it, if one of the two
  histograms covers the layer.
\<close>

definition layer_hotness ::
  "rat \<Rightarrow> bool \<Rightarrow> histogram \<Rightarrow> histogram \<Rightarrow> nat \<Rightarrow> nat \<Rightarrow> (int \<times> histogram) option" where
  "layer_hotness alpha complete_sparse global_counts recent_counts num_experts layer_id =
     (let keys = layer_keys num_experts layer_id;
          total = (\<lambda>counts. sum_list (map (\<lambda>key. dget counts key 0) keys));
          valid = (\<lambda>counts. (complete_sparse \<or> list_all (dhas counts) keys) \<and> 0 < total counts);
          share = (\<lambda>counts key. if valid counts then dget counts key 0 / total counts else 0)
      in if \<not> valid global_counts \<and> \<not> valid recent_counts then None
         else Some (rat_trunc (if valid global_counts then total global_counts else total recent_counts),
           map (\<lambda>key. (key,
             if valid global_counts \<and> valid recent_counts
             then alpha * share recent_counts key + (1 - alpha) * share global_counts key
             else if valid recent_counts then share recent_counts key
             else share global_counts key)) keys))"

text \<open>The layers are gone through in order and no key occurs twice.\<close>

definition all_layer_hotness ::
  "rat \<Rightarrow> bool \<Rightarrow> histogram \<Rightarrow> histogram \<Rightarrow> nat \<Rightarrow> nat \<Rightarrow> (nat \<times> int \<times> histogram) list" where
  "all_layer_hotness alpha complete_sparse global_counts recent_counts num_layers num_experts =
     List.map_filter (\<lambda>layer_id. map_option (\<lambda>r. (layer_id, r))
       (layer_hotness alpha complete_sparse global_counts recent_counts num_experts layer_id)) [0..<num_layers]"

text \<open>Why a histogram cannot be used at all; empty if it can.\<close>

definition hotness_source_reason ::
  "dict \<Rightarrow> string \<Rightarrow> string \<Rightarrow> string \<Rightarrow> string \<Rightarrow> string \<Rightarrow> string \<Rightarrow> string" where
  "hotness_source_reason source source_label global_reason recent_reason counter_unit key_granularity
     aggregation_scope =
     (if source_label = ''unavailable'' then ''hotness_histogram_unavailable''
      else if global_reason \<notin> {''ok'', ''missing''} then ''invalid_global_histogram:'' @ global_reason
      else if recent_reason \<notin> {''ok'', ''missing''} then ''invalid_recent_histogram:'' @ recent_reason
      else if counter_unit \<noteq> ''topk_routed_assignments'' then ''unsupported_counter_unit''
      else if key_granularity \<noteq> ''layer_expert'' then ''unsupported_key_granularity''
      else if aggregation_scope \<notin> {''deployment'', ''engine'', ''ep_group''} then ''unsupported_aggregation_scope''
      else if dgetn source ''moe_route_metadata_consistent'' = PBool False then ''inconsistent_routing_metadata''
      else if py_str (por (dgetn source ''moe_route_tp_aggregation'') (PStr ''''))
              \<in> {''unverified'', ''sum_unverified_tp_workers''} then ''unverified_tp_aggregation''
      else '''')"

text \<open>\<open>str(source.get(a) or source.get(b) or default)\<close>\<close>

definition source_text :: "dict \<Rightarrow> string \<Rightarrow> string \<Rightarrow> string \<Rightarrow> string" where
  "source_text source a b d = py_str (por (dgetn source a) (por (dgetn source b) (PStr d)))"

definition hotness_alpha :: "dict list \<Rightarrow> rat" where
  "hotness_alpha sources =
     (let v = first_config_value sources [''hotness_alpha''] in
      case (if v = PNone then Some (4/5) else finite_float v) of
        None \<Rightarrow> 4/5 | Some alpha \<Rightarrow> if 0 \<le> alpha \<and> alpha \<le> 1 then alpha else 4/5)"

text \<open>Why usable statistics are not good enough; empty if they are.\<close>

definition hotness_quality_reason ::
  "histogram \<Rightarrow> int \<Rightarrow> int \<Rightarrow> rat \<Rightarrow> rat option \<Rightarrow> bool \<Rightarrow> string \<Rightarrow> string" where
  "hotness_quality_reason hotness sample_count minimum_samples max_age_s age_s require_reset_marker
     global_reset_marker =
     (if hotness = [] then ''no_complete_sampled_layers''
      else if sample_count < minimum_samples then ''insufficient_hotness_samples''
      else if 0 < max_age_s \<and> age_s = None then ''hotness_freshness_unknown''
      else if 0 < max_age_s \<and> (case age_s of Some a \<Rightarrow> max_age_s < a | None \<Rightarrow> False) then ''stale_hotness_snapshot''
      else if require_reset_marker \<and> global_reset_marker = '''' then ''global_counter_reset_marker_unknown''
      else '''')"

definition snapshot_age :: "moe_env \<Rightarrow> dict list \<Rightarrow> dict \<Rightarrow> rat option \<Rightarrow> rat option" where
  "snapshot_age env sources source observation_time_s =
     (let now_s = (case finite_float (first_config_value sources [''hotness_snapshot_time_s'']) of
            None \<Rightarrow> me_time env | Some r \<Rightarrow> r)
      in case finite_float (dgetn source ''moe_route_histogram_age_s'') of
           Some age \<Rightarrow> Some age
         | None \<Rightarrow> map_option (\<lambda>t. max 0 (now_s - t)) observation_time_s)"

definition hotness_fingerprint ::
  "moe_env \<Rightarrow> rat \<Rightarrow> histogram \<Rightarrow> histogram \<Rightarrow> string \<Rightarrow> string \<Rightarrow> string \<Rightarrow> string \<Rightarrow> string \<Rightarrow> string" where
  "hotness_fingerprint env alpha global_counts recent_counts source_label counter_unit aggregation_scope
     key_granularity global_reset_marker =
     me_fingerprint env
       [(''alpha'', PFloat alpha), (''global'', of_histogram global_counts),
        (''recent'', of_histogram recent_counts), (''source'', PStr source_label),
        (''counter_unit'', PStr counter_unit), (''aggregation_scope'', PStr aggregation_scope),
        (''key_granularity'', PStr key_granularity), (''global_reset_marker'', PStr global_reset_marker)]"

definition build_hotness_snapshot ::
  "moe_env \<Rightarrow> int \<Rightarrow> int \<Rightarrow> dict \<Rightarrow> dict \<Rightarrow> hotness_snapshot res" where
  "build_hotness_snapshot env num_layers num_experts model_config planner_config =
     (let sources = config_sources env planner_config model_config;
          alpha = hotness_alpha sources;
          (source, source_label) = hotness_contract_source model_config planner_config;
          (global_counts, global_reason) =
            canonical_histogram (dgetn source ''global_expert_hotness'') num_layers num_experts;
          (recent_counts, recent_reason) =
            canonical_histogram (dgetn source ''recent_window_expert_hotness'') num_layers num_experts;
          complete_sparse = to_bool_or (dget source ''moe_route_histogram_complete_sparse''
            (dgetn source ''hotness_histogram_complete_sparse'')) False;
          counter_unit = source_text source ''moe_route_counter_unit'' ''counter_unit'' ''topk_routed_assignments'';
          aggregation_scope = source_text source ''moe_route_aggregation_scope'' ''aggregation_scope'' ''deployment'';
          key_granularity = source_text source ''moe_route_histogram_key_granularity'' ''key_granularity'' ''layer_expert'';
          global_reset_marker = source_text source ''moe_route_global_reset_marker'' ''global_reset_marker'' '''';
          observation_time_s = finite_float (dget source ''moe_route_last_observation_time_s''
            (dgetn source ''routing_last_observation_time_s''));
          age_s = snapshot_age env sources source observation_time_s;
          recent_event_count = non_negative_int_or (dgetn source ''moe_route_recent_event_count'') 0;
          source_reason = hotness_source_reason source source_label global_reason recent_reason counter_unit
            key_granularity aggregation_scope;
          layers = (if source_reason = ''''
            then all_layer_hotness alpha complete_sparse global_counts recent_counts (nat num_layers) (nat num_experts)
            else []);
          hotness = concat (map (\<lambda>(_, _, h). h) layers);
          layer_sample_counts = map (\<lambda>(layer_id, n, _). (int_str (int layer_id), n)) layers;
          sample_count = sum_list (map snd layer_sample_counts);
          minimum_samples = non_negative_int_or (first_config_value sources [''minimum_hotness_samples'']) 1;
          require_reset_marker = to_bool_or (first_config_value sources [''require_hotness_reset_marker'']) False
      in rbind (first_non_negative_float sources [''hotness_max_age_s''] 0) (\<lambda>max_age_s.
         let invalid_reason = (if source_reason \<noteq> '''' then source_reason
               else hotness_quality_reason hotness sample_count minimum_samples max_age_s age_s
                 require_reset_marker global_reset_marker)
         in Inr \<lparr>hs_snapshot_id = hotness_fingerprint env alpha global_counts recent_counts source_label counter_unit
                  aggregation_scope key_granularity global_reset_marker,
                hs_available = (invalid_reason = ''''),
                hs_reason = (if invalid_reason = '''' then ''valid_hotness_snapshot'' else invalid_reason),
                hs_alpha = alpha, hs_hotness = hotness, hs_global_counts = global_counts,
                hs_recent_counts = recent_counts, hs_layer_sample_counts = layer_sample_counts,
                hs_sample_count = sample_count, hs_recent_event_count = recent_event_count,
                hs_observation_time_s = observation_time_s, hs_age_s = age_s, hs_source = source_label,
                hs_counter_unit = counter_unit, hs_aggregation_scope = aggregation_scope,
                hs_key_granularity = key_granularity, hs_complete_sparse = complete_sparse,
                hs_global_reset_marker = global_reset_marker,
                hs_layer_coverage = (if 0 < num_layers
                  then rat_of_nat (length layers) / of_int num_layers else 0)\<rparr>))"

text \<open>The key itself, its expert without the layer, the expert's number, and the layer.\<close>

definition hotness_lookup_keys :: "string \<Rightarrow> string list" where
  "hotness_lookup_keys key =
     key # concat (map (\<lambda>part. let (name, raw_value) = partition_colon part in
       if name = ''expert'' then [''expert:'' @ raw_value, raw_value]
       else if name = ''layer'' then [''layer:'' @ raw_value] else []) (split_on (CHR ''/'') key))"

definition expert_hotness_lookup :: "moe_env \<Rightarrow> string \<Rightarrow> dict \<Rightarrow> dict \<Rightarrow> rat res" where
  "expert_hotness_lookup env key model_config planner_config =
     (let histograms = concat (map (\<lambda>source.
            map (\<lambda>field. dict_of (dgetn source field)) [''global_expert_hotness'', ''recent_window_expert_hotness''])
            (config_sources env planner_config model_config))
      in rfold (\<lambda>(k, v) score.
           if k \<in> set (hotness_lookup_keys key)
           then except_tv (rbind (py_float (por v (PInt 0))) (\<lambda>r. Inr (score + r))) (Inr score)
           else Inr score) (concat histograms) 0)"

definition expert_hotness_order :: "moe_env \<Rightarrow> nat \<Rightarrow> nat \<Rightarrow> dict \<Rightarrow> dict \<Rightarrow> nat list res" where
  "expert_hotness_order env layer_id num_experts model_config planner_config =
     rbind (rmap (\<lambda>e. expert_hotness_lookup env (expert_key (int layer_id) (int e)) model_config planner_config)
              [0..<num_experts]) (\<lambda>scores.
     Inr (sort_key (\<lambda>e. (- (scores ! e), e)) [0..<num_experts]))"

end
