(* ===== verification/Moe_Placement.thy ===== *)
theory Moe_Placement
  imports Moe_Hotness
begin

text \<open>
  The third part of \<open>src/sllm/spot/moe_placement.py\<close>: assigning the experts of each layer to ranks,
  the diagnostics of an assignment, the movement it implies, and the logical placement plan. The
  assignment of a layer is a list, the rank of expert \<open>e\<close> at position \<open>e\<close>; the dictionaries from
  layers to assignments are association lists in the order of the layers.
\<close>

section \<open>Assigning experts to ranks\<close>

type_synonym assignment = "nat list"

definition current_layer_assignment :: "nat \<Rightarrow> nat \<Rightarrow> nat \<Rightarrow> placement \<Rightarrow> assignment option" where
  "current_layer_assignment layer_id num_experts rank_count current_snapshot =
     those (map (\<lambda>e. Option.bind (map_of current_snapshot (expert_key (int layer_id) (int e)))
                   (\<lambda>entry. rank_index (dgetn entry ''rank_id'') rank_count)) [0..<num_experts])"

text \<open>An even split, the first ranks taking one expert more.\<close>

definition even_slots :: "nat \<Rightarrow> nat \<Rightarrow> nat list" where
  "even_slots num_experts rank_count =
     map (\<lambda>rank. num_experts div rank_count + (if rank < num_experts mod rank_count then 1 else 0)) [0..<rank_count]"

definition default_slot_capacities :: "nat \<Rightarrow> nat \<Rightarrow> assignment option \<Rightarrow> nat list" where
  "default_slot_capacities num_experts rank_count current_assignment =
     (case current_assignment of
        None \<Rightarrow> even_slots num_experts rank_count
      | Some current \<Rightarrow>
          (let counts = map (count_list current) [0..<rank_count]
           in if sum_list counts = num_experts then counts else even_slots num_experts rank_count))"

definition linear_assignment :: "nat \<Rightarrow> nat \<Rightarrow> assignment" where
  "linear_assignment num_experts rank_count =
     concat (map (\<lambda>(rank, slots). replicate slots rank) (enumerate 0 (even_slots num_experts rank_count)))"

definition round_robin_assignment :: "nat \<Rightarrow> nat \<Rightarrow> assignment" where
  "round_robin_assignment num_experts rank_count = map (\<lambda>e. e mod rank_count) [0..<num_experts]"

definition grouped_assignment :: "nat list \<Rightarrow> nat \<Rightarrow> assignment" where
  "grouped_assignment ordered_experts rank_count =
     fold (\<lambda>(position, e) assignment.
       assignment[e := min (position * rank_count div max 1 (length ordered_experts)) (rank_count - 1)])
       (enumerate 0 ordered_experts) (replicate (length ordered_experts) 0)"

text \<open>The hotness of an expert, and the experts of a layer, the hottest first.\<close>

definition heat :: "histogram \<Rightarrow> nat \<Rightarrow> nat \<Rightarrow> rat" where
  "heat hotness layer_id e = dget hotness (expert_key (int layer_id) (int e)) 0"

definition hottest_first :: "histogram \<Rightarrow> nat \<Rightarrow> nat \<Rightarrow> nat list" where
  "hottest_first hotness layer_id num_experts =
     sort_key (\<lambda>e. (- heat hotness layer_id e, e)) [0..<num_experts]"

text \<open>The experts placed so far: a rank or none for each expert, slots taken, load of each rank.\<close>

record greedy =
  gr_assignment :: "nat option list"
  gr_rank_counts :: "nat list"
  gr_rank_load :: "rat list"

definition feasible_ranks :: "nat list \<Rightarrow> greedy \<Rightarrow> nat list" where
  "feasible_ranks capacities g =
     filter (\<lambda>rank. gr_rank_counts g ! rank < capacities ! rank) [0..<length capacities]"

definition put_expert :: "rat \<Rightarrow> nat \<Rightarrow> nat \<Rightarrow> greedy \<Rightarrow> greedy" where
  "put_expert hot e rank g =
     \<lparr>gr_assignment = (gr_assignment g)[e := Some rank],
      gr_rank_counts = (gr_rank_counts g)[rank := gr_rank_counts g ! rank + 1],
      gr_rank_load = (gr_rank_load g)[rank := gr_rank_load g ! rank + hot]\<rparr>"

text \<open>
  One turn of the loop over the experts: the rank with a free slot and the least key, where the key
  may look at the loads.
\<close>

definition place_expert ::
  "(rat list \<Rightarrow> nat \<Rightarrow> nat \<Rightarrow> rat \<times> nat \<times> nat) \<Rightarrow> (nat \<Rightarrow> rat) \<Rightarrow> nat list \<Rightarrow> nat \<Rightarrow> greedy \<Rightarrow> greedy res" where
  "place_expert key hot capacities e g =
     (case feasible_ranks capacities g of
        [] \<Rightarrow> Inl (ValueError ''expert_slot_capacity_exhausted'')
      | feasible \<Rightarrow> Inr (put_expert (hot e) e (arg_min_list (key (gr_rank_load g) e) feasible) g))"

definition greedy_start :: "nat \<Rightarrow> nat \<Rightarrow> greedy" where
  "greedy_start num_experts rank_count =
     \<lparr>gr_assignment = replicate num_experts None, gr_rank_counts = replicate rank_count 0,
      gr_rank_load = replicate rank_count 0\<rparr>"

definition owner_penalty :: "assignment option \<Rightarrow> nat \<Rightarrow> nat \<Rightarrow> nat" where
  "owner_penalty current e rank =
     (case current of Some a \<Rightarrow> if rank = a ! e then 0 else 1 | None \<Rightarrow> 1)"

definition balanced_key :: "assignment option \<Rightarrow> rat list \<Rightarrow> nat \<Rightarrow> nat \<Rightarrow> rat \<times> nat \<times> nat" where
  "balanced_key current load e rank = (load ! rank, owner_penalty current e rank, rank)"

definition greedy_assignment ::
  "(rat list \<Rightarrow> nat \<Rightarrow> nat \<Rightarrow> rat \<times> nat \<times> nat) \<Rightarrow> nat \<Rightarrow> nat \<Rightarrow> nat \<Rightarrow> histogram \<Rightarrow> assignment option \<Rightarrow> assignment res" where
  "greedy_assignment key layer_id num_experts rank_count hotness current =
     rbind (rfold (place_expert key (heat hotness layer_id) (default_slot_capacities num_experts rank_count current))
              (hottest_first hotness layer_id num_experts) (greedy_start num_experts rank_count)) (\<lambda>g.
     Inr (map the (gr_assignment g)))"

definition hotness_balanced_assignment ::
  "nat \<Rightarrow> nat \<Rightarrow> nat \<Rightarrow> histogram \<Rightarrow> assignment option \<Rightarrow> assignment res" where
  "hotness_balanced_assignment layer_id num_experts rank_count hotness current =
     greedy_assignment (balanced_key current) layer_id num_experts rank_count hotness current"

section \<open>Where the requests come from\<close>

type_synonym source_counts = "((nat \<times> nat \<times> nat) \<times> rat) list"

definition source_expert_key :: "string \<Rightarrow> (nat \<times> nat \<times> nat) option" where
  "source_expert_key key =
     Option.bind (number_after ''source-rank:'' key) (\<lambda>(source_rank, rest).
     Option.bind (number_after ''/layer:'' rest) (\<lambda>(layer_id, rest).
     Option.bind (number_after ''/expert:'' rest) (\<lambda>(expert_id, rest).
     if rest = [] then Some (nat source_rank, nat layer_id, nat expert_id) else None)))"

fun source_histogram_entries :: "nat \<Rightarrow> dict \<Rightarrow> source_counts \<Rightarrow> source_counts \<times> string" where
  "source_histogram_entries rank_count [] parsed = (parsed, '''')"
| "source_histogram_entries rank_count ((raw_key, raw_value) # entries) parsed =
     (case (source_expert_key raw_key, finite_float raw_value) of
        (Some (source_rank, layer_id, expert_id), Some v) \<Rightarrow>
          if v < 0 then ([], ''source_rank_expert_histogram_invalid'')
          else if rank_count \<le> source_rank then ([], ''source_rank_out_of_range'')
          else source_histogram_entries rank_count entries
                 (if 0 < v then AList.update (source_rank, layer_id, expert_id) v parsed else parsed)
      | _ \<Rightarrow> ([], ''source_rank_expert_histogram_invalid''))"

definition source_field :: "dict \<Rightarrow> string \<Rightarrow> string" where
  "source_field source key = py_str (por (dgetn source key) (PStr ''''))"

definition source_rank_expert_snapshot :: "nat \<Rightarrow> dict \<Rightarrow> dict \<Rightarrow> source_counts \<times> string" where
  "source_rank_expert_snapshot rank_count model_config planner_config =
     (let source = fst (hotness_contract_source model_config planner_config) in
      if \<not> to_bool_or (dgetn source ''moe_source_rank_expert_histogram_available'') False
      then ([], ''source_rank_expert_histogram_unavailable'')
      else if source_field source ''moe_source_rank_expert_observation_point'' \<noteq> ''pre_dispatch''
      then ([], ''source_rank_observation_point_not_pre_dispatch'')
      else if source_field source ''moe_source_rank_expert_key_granularity'' \<noteq> ''source_rank_layer_expert''
      then ([], ''source_rank_key_granularity_mismatch'')
      else if source_field source ''moe_source_rank_semantics'' \<noteq> ''vllm_dp_rank_equals_effective_ep_rank''
      then ([], ''source_rank_semantics_unsupported'')
      else
        let recent = dgetn source ''recent_window_source_rank_expert_hotness'';
            (histogram, histogram_source) = (if nonempty_mapping recent
              then (recent, ''recent_window_source_rank_expert_hotness'')
              else (dgetn source ''global_source_rank_expert_hotness'', ''global_source_rank_expert_hotness''))
        in if \<not> nonempty_mapping histogram then ([], ''source_rank_expert_histogram_empty'')
           else let (parsed, failure) = source_histogram_entries rank_count (dict_of histogram) []
             in if failure \<noteq> '''' then ([], failure)
                else if parsed = [] then ([], ''source_rank_expert_histogram_empty'')
                else (parsed, histogram_source))"

definition layer_source_total :: "source_counts \<Rightarrow> nat \<Rightarrow> rat" where
  "layer_source_total counts layer_id =
     sum_list (map snd (filter (\<lambda>((_, source_layer, _), _). source_layer = layer_id) counts))"

text \<open>The share of a layer's requests that have to leave their rank if an expert is on \<open>rank\<close>.\<close>

definition remote_share :: "source_counts \<Rightarrow> nat \<Rightarrow> nat \<Rightarrow> nat \<Rightarrow> nat \<Rightarrow> rat" where
  "remote_share counts rank_count layer_id e rank =
     (let remote = sum_list (map (\<lambda>source_rank. dget counts (source_rank, layer_id, e) 0)
            (filter (\<lambda>source_rank. source_rank \<noteq> rank) [0..<rank_count]));
          layer_total = layer_source_total counts layer_id
      in if 0 < layer_total then remote / layer_total else 0)"

definition locality_key ::
  "source_counts \<Rightarrow> rat \<Rightarrow> nat \<Rightarrow> nat \<Rightarrow> histogram \<Rightarrow> assignment option \<Rightarrow> rat list \<Rightarrow> nat \<Rightarrow> nat \<Rightarrow> rat \<times> nat \<times> nat" where
  "locality_key counts locality_weight rank_count layer_id hotness current load e rank =
     (load ! rank + heat hotness layer_id e + locality_weight * remote_share counts rank_count layer_id e rank,
      owner_penalty current e rank, rank)"

definition hotness_locality_assignment ::
  "nat \<Rightarrow> nat \<Rightarrow> nat \<Rightarrow> histogram \<Rightarrow> source_counts \<Rightarrow> rat \<Rightarrow> assignment option \<Rightarrow> assignment res" where
  "hotness_locality_assignment layer_id num_experts rank_count hotness counts locality_weight current =
     greedy_assignment (locality_key counts locality_weight rank_count layer_id hotness current)
       layer_id num_experts rank_count hotness current"

section \<open>Diagnostics of an assignment\<close>

type_synonym assignments = "(nat \<times> assignment) list"

record dispatch_diagnostics =
  dd_remote :: rat
  dd_total :: rat
  dd_per_source :: histogram

definition count_dispatch :: "assignments \<Rightarrow> (nat \<times> nat \<times> nat) \<times> rat \<Rightarrow> dispatch_diagnostics \<Rightarrow> dispatch_diagnostics" where
  "count_dispatch assignments entry d =
     (let ((source_rank, layer_id, e), n) = entry in
      case map_of assignments layer_id of
        None \<Rightarrow> d
      | Some assignment \<Rightarrow>
          if length assignment \<le> e then d
          else let d = d\<lparr>dd_total := dd_total d + n\<rparr> in
            if assignment ! e \<noteq> source_rank
            then d\<lparr>dd_remote := dd_remote d + n,
                   dd_per_source := AList.update (int_str (int source_rank))
                     (dget (dd_per_source d) (int_str (int source_rank)) 0 + n) (dd_per_source d)\<rparr>
            else d)"

definition remote_dispatch_diagnostics :: "assignments \<Rightarrow> source_counts \<Rightarrow> dispatch_diagnostics" where
  "remote_dispatch_diagnostics assignments counts =
     fold (count_dispatch assignments) counts \<lparr>dd_remote = 0, dd_total = 0, dd_per_source = []\<rparr>"

definition dd_ratio :: "dispatch_diagnostics \<Rightarrow> rat option" where
  "dd_ratio d = (if 0 < dd_total d then Some (dd_remote d / dd_total d) else None)"

definition layer_rank_load :: "histogram \<Rightarrow> nat \<Rightarrow> nat \<Rightarrow> assignment \<Rightarrow> rat list" where
  "layer_rank_load hotness rank_count layer_id assignment =
     fold (\<lambda>(e, rank) load. load[rank := load ! rank + heat hotness layer_id e])
       (enumerate 0 assignment) (replicate rank_count 0)"

record layer_diagnostics =
  ld_layer :: nat
  ld_rank_load :: "rat list"
  ld_imbalance :: rat
  ld_cv :: rat

definition diagnose_layer :: "moe_env \<Rightarrow> histogram \<Rightarrow> nat \<Rightarrow> nat \<times> assignment \<Rightarrow> layer_diagnostics option" where
  "diagnose_layer env hotness rank_count entry =
     (let (layer_id, assignment) = entry; load = layer_rank_load hotness rank_count layer_id assignment;
          mean = sum_list load / rat_of_nat rank_count;
          variance = sum_list (map (\<lambda>v. (v - mean) ^ 2) load) / rat_of_nat rank_count
      in if mean \<le> 0 then None
         else Some \<lparr>ld_layer = layer_id, ld_rank_load = load, ld_imbalance = Max (set load) / mean - 1,
                    ld_cv = me_sqrt env variance / mean\<rparr>)"

definition load_diagnostics :: "moe_env \<Rightarrow> assignments \<Rightarrow> histogram \<Rightarrow> nat \<Rightarrow> layer_diagnostics list" where
  "load_diagnostics env assignments hotness rank_count =
     List.map_filter (diagnose_layer env hotness rank_count) assignments"

definition load_penalty :: "layer_diagnostics list \<Rightarrow> rat" where
  "load_penalty ds =
     (if ds = [] then 0 else sum_list (map ld_imbalance ds) / rat_of_nat (length ds))"

section \<open>Movement of expert weights\<close>

definition estimate_expert_weight_movement_cost_ms ::
  "moe_env \<Rightarrow> int option \<Rightarrow> nat \<Rightarrow> dict \<Rightarrow> dict \<Rightarrow> rat option res" where
  "estimate_expert_weight_movement_cost_ms env moved_weight_bytes moved_expert_count model_config planner_config =
     (if moved_expert_count = 0 then Inr (Some 0)
      else let sources = config_sources env planner_config model_config in
        rbind (first_non_negative_float sources [''expert_weight_movement_cost_ms''] 0) (\<lambda>cost_ms.
        rbind (first_non_negative_float sources
                 [''expert_weight_movement_cost_ms_per_gib'', ''expert_weight_movement_cost_ms_per_gb''] 0) (\<lambda>per_gib.
        rbind (first_non_negative_float sources [''expert_weight_movement_cost_ms_per_expert''] 0) (\<lambda>per_expert.
        rbind (first_non_negative_float sources [''expert_weight_movement_bandwidth_bytes_per_s''] 0) (\<lambda>bandwidth.
        Inr (if cost_ms \<le> 0 \<and> per_gib \<le> 0 \<and> per_expert \<le> 0 \<and> bandwidth \<le> 0 then None
             else case moved_weight_bytes of
               None \<Rightarrow>
                 if 0 < per_gib \<or> 0 < bandwidth then None
                 else if cost_ms \<le> 0 \<and> per_expert \<le> 0 then None
                 else Some (cost_ms + rat_of_nat moved_expert_count * per_expert)
             | Some bytes \<Rightarrow>
                 Some ((if 0 < per_gib then cost_ms + of_int bytes / 1024 ^ 3 * per_gib
                        else if 0 < bandwidth \<and> 0 < bytes then cost_ms + of_int bytes / bandwidth * 1000
                        else cost_ms) + rat_of_nat moved_expert_count * per_expert)))))))"

definition location_value :: "dict \<Rightarrow> string \<Rightarrow> string" where
  "location_value entry key = (case dgetn entry key of PNone \<Rightarrow> '''' | v \<Rightarrow> py_str v)"

fun location_changed :: "dict \<Rightarrow> dict \<Rightarrow> bool \<Rightarrow> (string \<times> string) list \<Rightarrow> bool option \<times> string" where
  "location_changed current planned compared [] =
     (if compared then (Some False, ''placement_unchanged'') else (None, ''current_location_unavailable''))"
| "location_changed current planned compared ((key, reason) # rest) =
     (if location_value current key = '''' then location_changed current planned compared rest
      else if location_value current key \<noteq> location_value planned key then (Some True, reason)
      else location_changed current planned True rest)"

definition placement_changed :: "dict \<Rightarrow> dict \<Rightarrow> bool option \<times> string" where
  "placement_changed current planned =
     (let current_rank = rank_signature (dgetn current ''rank_id'');
          planned_rank = rank_signature (dgetn planned ''rank_id'')
      in if current_rank \<noteq> '''' \<and> current_rank \<noteq> planned_rank then (Some True, ''rank_changed'')
         else location_changed current planned (current_rank \<noteq> '''')
           [(''node_id'', ''node_changed''), (''gpu_id'', ''gpu_changed''),
            (''physical_expert_id'', ''physical_expert_changed'')])"

record movement =
  mv_observation_available :: bool
  mv_moved :: nat
  mv_stationary :: nat
  mv_unknown :: nat
  mv_weight_bytes :: int
  mv_weight_known :: bool
  mv_diff :: placement

definition unknown_movement :: "string \<Rightarrow> dict \<Rightarrow> dict" where
  "unknown_movement reason planned =
     [(''status'', PStr ''unknown''), (''reason'', PStr reason),
      (''to_rank_id'', dget planned ''rank_id'' (PStr '''')),
      (''to_node_id'', dget planned ''node_id'' (PStr '''')),
      (''to_gpu_id'', dget planned ''gpu_id'' (PStr ''''))]"

definition moved_entry :: "string \<Rightarrow> int option \<Rightarrow> dict \<Rightarrow> dict \<Rightarrow> dict" where
  "moved_entry reason weight_size current planned =
     [(''status'', PStr ''moved''), (''reason'', PStr reason),
      (''weight_size_bytes'', of_opt_int weight_size),
      (''from_rank_id'', dget current ''rank_id'' (PStr '''')),
      (''from_node_id'', dget current ''node_id'' (PStr '''')),
      (''from_gpu_id'', dget current ''gpu_id'' (PStr '''')),
      (''to_rank_id'', dget planned ''rank_id'' (PStr '''')),
      (''to_node_id'', dget planned ''node_id'' (PStr '''')),
      (''to_gpu_id'', dget planned ''gpu_id'' (PStr ''''))]"

definition scan_movement :: "int option \<Rightarrow> placement \<Rightarrow> string \<times> dict \<Rightarrow> movement \<Rightarrow> movement" where
  "scan_movement default_weight_size current_snapshot entry m =
     (let (key, planned) = entry in
      case map_of current_snapshot key of
        None \<Rightarrow> m\<lparr>mv_unknown := mv_unknown m + 1,
                  mv_diff := AList.update key (unknown_movement ''missing_current_expert'' planned) (mv_diff m)\<rparr>
      | Some current \<Rightarrow>
          (case placement_changed current planned of
             (None, reason) \<Rightarrow> m\<lparr>mv_unknown := mv_unknown m + 1,
               mv_diff := AList.update key (unknown_movement reason planned) (mv_diff m)\<rparr>
           | (Some True, reason) \<Rightarrow>
               (let weight_size = entry_weight_size_bytes [planned, current] default_weight_size in
                m\<lparr>mv_moved := mv_moved m + 1,
                  mv_weight_known := (mv_weight_known m \<and> weight_size \<noteq> None),
                  mv_weight_bytes := mv_weight_bytes m + (case weight_size of None \<Rightarrow> 0 | Some n \<Rightarrow> n),
                  mv_diff := AList.update key (moved_entry reason weight_size current planned) (mv_diff m)\<rparr>)
           | (Some False, _) \<Rightarrow> m\<lparr>mv_stationary := mv_stationary m + 1\<rparr>))"

text \<open>\<open>moved_weight_bytes\<close> of the result.\<close>

definition complete_moved_weight_bytes :: "movement \<Rightarrow> int option" where
  "complete_moved_weight_bytes m =
     (if mv_observation_available m \<and> mv_weight_known m \<and> mv_unknown m = 0 then Some (mv_weight_bytes m) else None)"

definition build_expert_movement_diff ::
  "moe_env \<Rightarrow> placement \<Rightarrow> placement \<Rightarrow> dict \<Rightarrow> dict \<Rightarrow> (movement \<times> rat option) res" where
  "build_expert_movement_diff env planned_snapshot current_snapshot model_config planner_config =
     (let start = \<lparr>mv_observation_available = True, mv_moved = 0, mv_stationary = 0, mv_unknown = 0,
            mv_weight_bytes = 0, mv_weight_known = True, mv_diff = []\<rparr>
      in if current_snapshot = []
         then Inr (start\<lparr>mv_observation_available := False, mv_unknown := length planned_snapshot\<rparr>, None)
         else let m = fold (scan_movement (default_expert_weight_size_bytes env model_config planner_config)
                    current_snapshot) planned_snapshot start
           in if mv_unknown m \<noteq> 0 then Inr (m, None)
              else rbind (estimate_expert_weight_movement_cost_ms env (complete_moved_weight_bytes m) (mv_moved m)
                     model_config planner_config) (\<lambda>movement_cost. Inr (m, movement_cost)))"

section \<open>Choosing between the candidate and the current placement\<close>

record selection =
  sl_moved_count :: nat
  sl_current_objective :: rat
  sl_candidate_objective :: rat
  sl_improvement_ratio :: rat
  sl_minimum_improvement :: rat
  sl_max_moved_experts :: int
  sl_max_moved_bytes :: int
  sl_moved_bytes :: "int option"
  sl_require_known_movement :: bool
  sl_movement_cost :: "rat option"
  sl_max_movement_cost_ms :: rat
  sl_movement_weight :: rat
  sl_movement_reference_ms :: rat
  sl_cooldown_s :: rat
  sl_last_change_s :: "rat option"
  sl_snapshot_time_s :: rat

definition retain_reason :: "selection \<Rightarrow> string" where
  "retain_reason s =
     (if sl_moved_count s = 0 then ''current_already_selected''
      else if sl_current_objective s \<le> 0 then ''current_already_balanced''
      else if sl_improvement_ratio s < sl_minimum_improvement s then ''minimum_improvement_not_met''
      else if 0 < sl_max_moved_experts s \<and> sl_max_moved_experts s < int (sl_moved_count s)
      then ''moved_expert_budget_exceeded''
      else if 0 < sl_max_moved_bytes s \<and> (case sl_moved_bytes s of Some n \<Rightarrow> sl_max_moved_bytes s < n | None \<Rightarrow> False)
      then ''moved_byte_budget_exceeded''
      else if sl_require_known_movement s \<and> sl_moved_bytes s = None then ''movement_cost_unknown''
      else if 0 < sl_max_movement_cost_ms s
              \<and> (case sl_movement_cost s of Some c \<Rightarrow> sl_max_movement_cost_ms s < c | None \<Rightarrow> False)
      then ''movement_time_budget_exceeded''
      else if 0 < sl_movement_weight s \<and> sl_movement_reference_ms s \<le> 0
      then ''movement_normalization_reference_missing''
      else if 0 < sl_movement_weight s \<and> sl_movement_cost s = None then ''movement_cost_unknown''
      else if 0 < sl_movement_weight s
              \<and> (case sl_movement_cost s of
                   Some c \<Rightarrow> sl_current_objective s \<le> sl_candidate_objective s
                               + sl_movement_weight s * c / sl_movement_reference_ms s
                 | None \<Rightarrow> False)
      then ''movement_adjusted_objective_not_improved''
      else if 0 < sl_cooldown_s s
              \<and> (case sl_last_change_s s of Some t \<Rightarrow> sl_snapshot_time_s s - t < sl_cooldown_s s | None \<Rightarrow> False)
      then ''placement_cooldown_active''
      else '''')"

text \<open>The experts a candidate moves away from the current placement.\<close>

definition moved_experts :: "assignments \<Rightarrow> assignments \<Rightarrow> (nat \<times> nat) list" where
  "moved_experts current candidate =
     concat (map (\<lambda>(layer_id, assignment).
       map (\<lambda>e. (layer_id, e)) (filter (\<lambda>e. assignment ! e \<noteq> dget current layer_id [] ! e) [0..<length assignment]))
       candidate)"

definition moved_bytes :: "placement \<Rightarrow> int option \<Rightarrow> (nat \<times> nat) list \<Rightarrow> int option" where
  "moved_bytes current_snapshot default_weight_size moved =
     map_option sum_list (those (map (\<lambda>(layer_id, e).
       entry_weight_size_bytes [dget current_snapshot (expert_key (int layer_id) (int e)) []] default_weight_size) moved))"

definition selection_objective ::
  "moe_env \<Rightarrow> string \<Rightarrow> nat \<Rightarrow> histogram \<Rightarrow> source_counts \<Rightarrow> rat \<Rightarrow> assignments \<Rightarrow> rat" where
  "selection_objective env strategy rank_count hotness counts locality_weight assignments =
     load_penalty (load_diagnostics env assignments hotness rank_count)
     + (if strategy = ''hotness_locality''
        then locality_weight * (case dd_ratio (remote_dispatch_diagnostics assignments counts) of
               Some r \<Rightarrow> r | None \<Rightarrow> 0)
        else 0)"

definition measure_selection ::
  "moe_env \<Rightarrow> string \<Rightarrow> nat \<Rightarrow> histogram \<Rightarrow> source_counts \<Rightarrow> rat \<Rightarrow> placement \<Rightarrow> dict \<Rightarrow> dict
   \<Rightarrow> assignments \<Rightarrow> assignments \<Rightarrow> selection res" where
  "measure_selection env strategy rank_count hotness counts locality_weight current_snapshot model_config
     planner_config current candidate =
     (let sources = config_sources env planner_config model_config;
          objective = selection_objective env strategy rank_count hotness counts locality_weight;
          moved = moved_experts current candidate;
          bytes = moved_bytes current_snapshot (default_expert_weight_size_bytes env model_config planner_config) moved;
          source = fst (hotness_contract_source model_config planner_config)
      in
      rbind (first_non_negative_float sources [''minimum_improvement_ratio''] 0) (\<lambda>minimum_improvement.
      rbind (estimate_expert_weight_movement_cost_ms env bytes (length moved) model_config planner_config) (\<lambda>movement_cost.
      rbind (first_non_negative_float sources [''maximum_movement_cost_ms'', ''movement_budget_ms''] 0) (\<lambda>max_movement_cost_ms.
      rbind (first_non_negative_float sources [''hotness_movement_weight'', ''movement_weight''] 0) (\<lambda>movement_weight.
      rbind (first_non_negative_float sources [''movement_normalization_reference_ms''] 0) (\<lambda>reference_ms.
      rbind (first_non_negative_float sources [''placement_cooldown_s''] 0) (\<lambda>cooldown_s.
      Inr \<lparr>sl_moved_count = length moved,
           sl_current_objective = objective current, sl_candidate_objective = objective candidate,
           sl_improvement_ratio = (if 0 < objective current
             then max 0 ((objective current - objective candidate) / objective current) else 0),
           sl_minimum_improvement = minimum_improvement,
           sl_max_moved_experts = non_negative_int_or (first_config_value sources
             [''maximum_moved_experts'', ''max_moved_experts'', ''movement_budget_experts'']) 0,
           sl_max_moved_bytes = non_negative_int_or (first_config_value sources
             [''maximum_moved_weight_bytes'', ''max_moved_weight_bytes'', ''movement_budget_bytes'']) 0,
           sl_moved_bytes = bytes,
           sl_require_known_movement = to_bool_or (first_config_value sources [''require_known_hotness_movement_cost'']) True,
           sl_movement_cost = movement_cost, sl_max_movement_cost_ms = max_movement_cost_ms,
           sl_movement_weight = movement_weight, sl_movement_reference_ms = reference_ms,
           sl_cooldown_s = cooldown_s,
           sl_last_change_s = finite_float (dget source ''placement_last_changed_time_s''
             (dgetn source ''expert_placement_last_changed_time_s'')),
           sl_snapshot_time_s = (case finite_float (first_config_value sources [''hotness_snapshot_time_s'']) of
             Some r \<Rightarrow> r | None \<Rightarrow> me_time env)\<rparr>)))))))"

section \<open>Shards and plans\<close>

record expert_shard =
  xs_layer_id :: int
  xs_expert_id :: int
  xs_rank_id :: string
  xs_node_id :: string
  xs_gpu_id :: string
  xs_physical_expert_id :: "int option"
  xs_weight_size_bytes :: "int option"
  xs_weight_resident :: bool
  xs_routed_tokens :: int
  xs_recent_execution_count :: int
  xs_load_score :: rat

definition ExpertShard_to_dict :: "expert_shard \<Rightarrow> dict" where
  "ExpertShard_to_dict self =
     [(''layer_id'', PInt (xs_layer_id self)),
      (''expert_id'', PInt (xs_expert_id self)),
      (''physical_expert_id'', of_opt_int (xs_physical_expert_id self)),
      (''rank_id'', PStr (xs_rank_id self)),
      (''node_id'', PStr (xs_node_id self)),
      (''gpu_id'', PStr (xs_gpu_id self)),
      (''weight_size_bytes'', of_opt_int (xs_weight_size_bytes self)),
      (''weight_resident'', PBool (xs_weight_resident self)),
      (''routed_tokens'', PInt (xs_routed_tokens self)),
      (''recent_execution_count'', PInt (xs_recent_execution_count self)),
      (''load_score'', PFloat (xs_load_score self))]"

record expert_placement_plan =
  xp_model_name :: string
  xp_target_parallel_plan :: dict
  xp_expert_to_target_rank :: "(string \<times> string) list"
  xp_expert_to_target_ranks :: "(string \<times> string list) list"
  xp_placement_epoch :: int
  xp_placement_source :: string
  xp_placement_fingerprint :: string
  xp_required_expert_count :: int
  xp_covered_expert_count :: int
  xp_planned_shard_count :: int
  xp_target_rank_count :: int
  xp_expert_physical_replication_factor :: int
  xp_sllm_replica_count :: int
  xp_physical_weight_migration :: bool
  xp_live_expert_remap :: bool
  xp_allow_active_requests :: bool
  xp_require_cross_node :: bool
  xp_physical_migration_required :: bool
  xp_expert_placement_snapshot :: placement
  xp_shards :: "expert_shard list"
  xp_movement_observation_available :: bool
  xp_movement_source :: string
  xp_moved_expert_count :: int
  xp_stationary_expert_count :: int
  xp_unknown_movement_expert_count :: int
  xp_moved_weight_bytes :: "int option"
  xp_estimated_expert_weight_movement_cost_ms :: "rat option"
  xp_expert_movement_diff :: placement
  xp_estimated_dispatch_cost :: rat
  xp_estimated_load_balance_penalty :: rat
  xp_placement_strategy :: string
  xp_selection_reason :: string
  xp_hotness_snapshot_id :: string
  xp_hotness_snapshot_available :: bool
  xp_hotness_snapshot_reason :: string
  xp_hotness_snapshot :: dict
  xp_per_layer_rank_load :: "(string \<times> histogram) list"
  xp_per_layer_load_imbalance :: histogram
  xp_per_layer_load_cv :: histogram
  xp_hotness_layer_coverage :: rat
  xp_predicted_improvement_ratio :: rat
  xp_placement_objective :: "rat option"
  xp_source_rank_locality_available :: bool
  xp_source_rank_locality_reason :: string
  xp_estimated_remote_assignments :: rat
  xp_estimated_total_assignments :: rat
  xp_estimated_remote_ratio :: "rat option"
  xp_per_source_remote_assignments :: histogram
  xp_reason :: string

text \<open>A plan with the defaults of the class.\<close>

definition ExpertPlacementPlan_init :: "string \<Rightarrow> dict \<Rightarrow> expert_placement_plan" where
  "ExpertPlacementPlan_init model_name target_parallel_plan =
     \<lparr>xp_model_name = model_name, xp_target_parallel_plan = target_parallel_plan,
      xp_expert_to_target_rank = [], xp_expert_to_target_ranks = [], xp_placement_epoch = 0,
      xp_placement_source = ''unavailable'', xp_placement_fingerprint = '''', xp_required_expert_count = 0,
      xp_covered_expert_count = 0, xp_planned_shard_count = 0, xp_target_rank_count = 0,
      xp_expert_physical_replication_factor = 1, xp_sllm_replica_count = 1, xp_physical_weight_migration = False,
      xp_live_expert_remap = False, xp_allow_active_requests = False, xp_require_cross_node = False,
      xp_physical_migration_required = False, xp_expert_placement_snapshot = [], xp_shards = [],
      xp_movement_observation_available = False, xp_movement_source = ''unavailable'', xp_moved_expert_count = 0,
      xp_stationary_expert_count = 0, xp_unknown_movement_expert_count = 0, xp_moved_weight_bytes = None,
      xp_estimated_expert_weight_movement_cost_ms = None, xp_expert_movement_diff = [],
      xp_estimated_dispatch_cost = 0, xp_estimated_load_balance_penalty = 0, xp_placement_strategy = ''linear'',
      xp_selection_reason = ''configured_strategy'', xp_hotness_snapshot_id = '''',
      xp_hotness_snapshot_available = False, xp_hotness_snapshot_reason = ''not_requested'', xp_hotness_snapshot = [],
      xp_per_layer_rank_load = [], xp_per_layer_load_imbalance = [], xp_per_layer_load_cv = [],
      xp_hotness_layer_coverage = 0, xp_predicted_improvement_ratio = 0, xp_placement_objective = None,
      xp_source_rank_locality_available = False, xp_source_rank_locality_reason = ''not_requested'',
      xp_estimated_remote_assignments = 0, xp_estimated_total_assignments = 0, xp_estimated_remote_ratio = None,
      xp_per_source_remote_assignments = [], xp_reason = ''metadata_only''\<rparr>"

definition plan_placement_available :: "expert_placement_plan \<Rightarrow> bool" where
  "plan_placement_available self = (xp_expert_to_target_rank self \<noteq> [] \<or> xp_shards self \<noteq> [])"

definition of_placement :: "placement \<Rightarrow> pyval" where
  "of_placement p = PDict (map (\<lambda>(k, d). (k, PDict d)) p)"

definition ExpertPlacementPlan_to_dict :: "expert_placement_plan \<Rightarrow> dict" where
  "ExpertPlacementPlan_to_dict self =
     [(''model_name'', PStr (xp_model_name self)),
      (''target_parallel_plan'', PDict (xp_target_parallel_plan self)),
      (''expert_to_target_rank'', PDict (map (\<lambda>(k, r). (k, PStr r)) (xp_expert_to_target_rank self))),
      (''expert_to_target_ranks'', PDict (map (\<lambda>(k, rs). (k, PList (map PStr rs))) (xp_expert_to_target_ranks self))),
      (''placement_epoch'', PInt (xp_placement_epoch self)),
      (''placement_source'', PStr (xp_placement_source self)),
      (''placement_fingerprint'', PStr (xp_placement_fingerprint self)),
      (''expert_placement_available'', PBool (plan_placement_available self)),
      (''required_expert_count'', PInt (xp_required_expert_count self)),
      (''covered_expert_count'', PInt (xp_covered_expert_count self)),
      (''planned_shard_count'', PInt (if xp_planned_shard_count self \<noteq> 0 then xp_planned_shard_count self
                                       else int (length (xp_shards self)))),
      (''target_rank_count'', PInt (xp_target_rank_count self)),
      (''expert_physical_replication_factor'', PInt (xp_expert_physical_replication_factor self)),
      (''sllm_replica_count'', PInt (xp_sllm_replica_count self)),
      (''physical_weight_migration'', PBool (xp_physical_weight_migration self)),
      (''live_expert_remap'', PBool (xp_live_expert_remap self)),
      (''allow_active_requests'', PBool (xp_allow_active_requests self)),
      (''require_cross_node'', PBool (xp_require_cross_node self)),
      (''expert_placement_physical_migration_required'', PBool (xp_physical_migration_required self)),
      (''expert_placement_snapshot'', of_placement (xp_expert_placement_snapshot self)),
      (''shards'', PList (map (\<lambda>s. PDict (ExpertShard_to_dict s)) (xp_shards self))),
      (''movement_observation_available'', PBool (xp_movement_observation_available self)),
      (''movement_source'', PStr (xp_movement_source self)),
      (''moved_expert_count'', PInt (xp_moved_expert_count self)),
      (''stationary_expert_count'', PInt (xp_stationary_expert_count self)),
      (''unknown_movement_expert_count'', PInt (xp_unknown_movement_expert_count self)),
      (''moved_weight_bytes'', of_opt_int (xp_moved_weight_bytes self)),
      (''estimated_expert_weight_movement_cost_ms'', of_opt_float (xp_estimated_expert_weight_movement_cost_ms self)),
      (''expert_movement_diff'', of_placement (xp_expert_movement_diff self)),
      (''estimated_dispatch_cost'', PFloat (xp_estimated_dispatch_cost self)),
      (''estimated_load_balance_penalty'', PFloat (xp_estimated_load_balance_penalty self)),
      (''placement_strategy'', PStr (xp_placement_strategy self)),
      (''selection_reason'', PStr (xp_selection_reason self)),
      (''hotness_snapshot_id'', PStr (xp_hotness_snapshot_id self)),
      (''hotness_snapshot_available'', PBool (xp_hotness_snapshot_available self)),
      (''hotness_snapshot_reason'', PStr (xp_hotness_snapshot_reason self)),
      (''hotness_snapshot'', PDict (xp_hotness_snapshot self)),
      (''per_layer_rank_load'', PDict (map (\<lambda>(k, h). (k, of_histogram h)) (xp_per_layer_rank_load self))),
      (''per_layer_load_imbalance'', of_histogram (xp_per_layer_load_imbalance self)),
      (''per_layer_load_cv'', of_histogram (xp_per_layer_load_cv self)),
      (''hotness_layer_coverage'', PFloat (xp_hotness_layer_coverage self)),
      (''predicted_improvement_ratio'', PFloat (xp_predicted_improvement_ratio self)),
      (''placement_objective'', of_opt_float (xp_placement_objective self)),
      (''source_rank_locality_available'', PBool (xp_source_rank_locality_available self)),
      (''source_rank_locality_reason'', PStr (xp_source_rank_locality_reason self)),
      (''estimated_remote_assignments'', PFloat (xp_estimated_remote_assignments self)),
      (''estimated_total_assignments'', PFloat (xp_estimated_total_assignments self)),
      (''estimated_remote_ratio'', of_opt_float (xp_estimated_remote_ratio self)),
      (''per_source_remote_assignments'', of_histogram (xp_per_source_remote_assignments self)),
      (''reason'', PStr (xp_reason self))]"

end
