(* ===== verification/Moe_Plan.thy ===== *)
theory Moe_Plan
  imports Moe_Placement
begin

text \<open>
  The last part of \<open>src/sllm/spot/moe_placement.py\<close>: \<open>build_logical_expert_placement_plan\<close>. It reads
  the target, assigns every layer, keeps the current placement where the candidate is not worth
  its movement, and describes the result. The reparallelization planner takes such a function as
  its parameter; \<open>logical_placement_planner\<close> is the one of the repository.
\<close>

record expert_placement_state =
  es_model_name :: string
  es_tensor_parallel_size :: int
  es_pipeline_parallel_size :: int
  es_vllm_data_parallel_size :: int
  es_sllm_replica_count :: int
  es_expert_parallel_enabled :: bool
  es_effective_expert_parallel_size :: int
  es_expert_parallel_size_source :: string
  es_expert_physical_replication_factor :: int
  es_placement_epoch :: int
  es_placement_source :: string
  es_shards :: "expert_shard list"

definition ExpertPlacementState_to_dict :: "expert_placement_state \<Rightarrow> dict" where
  "ExpertPlacementState_to_dict self =
     [(''model_name'', PStr (es_model_name self)),
      (''tensor_parallel_size'', PInt (es_tensor_parallel_size self)),
      (''pipeline_parallel_size'', PInt (es_pipeline_parallel_size self)),
      (''vllm_data_parallel_size'', PInt (es_vllm_data_parallel_size self)),
      (''sllm_replica_count'', PInt (es_sllm_replica_count self)),
      (''expert_parallel_enabled'', PBool (es_expert_parallel_enabled self)),
      (''effective_expert_parallel_size'', PInt (es_effective_expert_parallel_size self)),
      (''expert_parallel_size_source'', PStr (es_expert_parallel_size_source self)),
      (''expert_physical_replication_factor'', PInt (es_expert_physical_replication_factor self)),
      (''expert_placement_available'', PBool (es_shards self \<noteq> [])),
      (''placement_epoch'', PInt (es_placement_epoch self)),
      (''placement_source'', PStr (es_placement_source self)),
      (''shards'', PList (map (\<lambda>s. PDict (ExpertShard_to_dict s)) (es_shards self)))]"

section \<open>The target\<close>

definition plan_replica_count :: "dict \<Rightarrow> nat" where
  "plan_replica_count tpp =
     nat (as_positive_int (dget tpp ''sllm_replica_count'' (dget tpp ''replica_count'' (PInt 1))) 1)"

definition plan_rank_count :: "dict \<Rightarrow> nat" where
  "plan_rank_count tpp =
     max 1 (nat (if truthy (dget tpp ''enable_expert_parallel'' (PBool False))
       then as_positive_int (dget tpp ''runtime_effective_expert_parallel_size''
              (dget tpp ''effective_expert_parallel_size'' (dget tpp ''expert_parallel_size'' (PInt 1)))) 1
       else 1))"

definition plan_strategy :: "dict \<Rightarrow> dict \<Rightarrow> dict \<Rightarrow> string" where
  "plan_strategy tpp model_config planner_config =
     (let backend = py_lower (py_str (dget tpp ''backend'' (dget model_config ''backend'' (PStr '''')))) in
      py_lower (py_strip (py_str (por (dgetn planner_config ''target_expert_placement_strategy'')
        (por (dgetn (backend_config_dict model_config) ''expert_placement_strategy'')
             (PStr (if backend = ''vllm'' then ''linear'' else ''round_robin'')))))))"

definition planner_flag :: "dict \<Rightarrow> string \<Rightarrow> bool" where
  "planner_flag planner_config key =
     (case dget planner_config key (PBool False) of PStr s \<Rightarrow> flag_text s | v \<Rightarrow> truthy v)"

definition supported_strategies :: "string list" where
  "supported_strategies = [''linear'', ''round_robin'', ''hotness'', ''hotspot'', ''hotspot_aware'',
     ''hotness_balanced'', ''hotness_locality'']"

definition hotness_strategy :: "string \<Rightarrow> bool" where
  "hotness_strategy strategy = (strategy \<in> {''hotness_balanced'', ''hotness_locality''})"

section \<open>The assignment of every layer\<close>

text \<open>What an assignment depends on.\<close>

record layer_context =
  lc_strategy :: string
  lc_num_experts :: nat
  lc_rank_count :: nat
  lc_hotness :: hotness_snapshot
  lc_source_counts :: source_counts
  lc_locality_weight :: rat
  lc_current_snapshot :: placement

definition current_of_layer :: "layer_context \<Rightarrow> nat \<Rightarrow> assignment option" where
  "current_of_layer c layer_id =
     current_layer_assignment layer_id (lc_num_experts c) (lc_rank_count c) (lc_current_snapshot c)"

definition assign_layer :: "moe_env \<Rightarrow> dict \<Rightarrow> dict \<Rightarrow> layer_context \<Rightarrow> nat \<Rightarrow> assignment res" where
  "assign_layer env model_config planner_config c layer_id =
     (let n = lc_num_experts c; ranks = lc_rank_count c; current = current_of_layer c layer_id;
          hotness = hs_hotness (lc_hotness c); available = hs_available (lc_hotness c)
      in if lc_strategy c = ''linear'' then Inr (linear_assignment n ranks)
         else if lc_strategy c = ''round_robin'' then Inr (round_robin_assignment n ranks)
         else if lc_strategy c \<in> {''hotness'', ''hotspot'', ''hotspot_aware''}
         then rbind (expert_hotness_order env layer_id n model_config planner_config)
                (\<lambda>ordered. Inr (grouped_assignment ordered ranks))
         else if lc_strategy c = ''hotness_locality'' \<and> available \<and> lc_source_counts c \<noteq> []
         then hotness_locality_assignment layer_id n ranks hotness (lc_source_counts c) (lc_locality_weight c) current
         else if available \<and> lc_strategy c = ''hotness_balanced''
         then hotness_balanced_assignment layer_id n ranks hotness current
         else Inr (case current of Some a \<Rightarrow> a | None \<Rightarrow> linear_assignment n ranks))"

definition assign_layers :: "moe_env \<Rightarrow> dict \<Rightarrow> dict \<Rightarrow> layer_context \<Rightarrow> nat \<Rightarrow> assignments res" where
  "assign_layers env model_config planner_config c num_layers =
     rmap (\<lambda>layer_id. rbind (assign_layer env model_config planner_config c layer_id)
             (\<lambda>a. Inr (layer_id, a))) [0..<num_layers]"

definition current_assignments :: "layer_context \<Rightarrow> nat \<Rightarrow> assignments" where
  "current_assignments c num_layers =
     List.map_filter (\<lambda>layer_id. map_option (\<lambda>a. (layer_id, a)) (current_of_layer c layer_id)) [0..<num_layers]"

text \<open>The assignments kept, why, and the improvement predicted.\<close>

definition select_assignments ::
  "moe_env \<Rightarrow> dict \<Rightarrow> dict \<Rightarrow> layer_context \<Rightarrow> string \<Rightarrow> nat \<Rightarrow> assignments \<Rightarrow> (assignments \<times> string \<times> rat) res" where
  "select_assignments env model_config planner_config c locality_reason num_layers candidate =
     (let current = current_assignments c num_layers; known = (length current = num_layers);
          fallback = (if known then ''retain_current:'' else ''deterministic_linear_fallback:'')
      in if \<not> hotness_strategy (lc_strategy c) then Inr (candidate, ''configured_strategy'', 0)
         else if \<not> hs_available (lc_hotness c) then Inr (candidate, fallback @ hs_reason (lc_hotness c), 0)
         else if lc_strategy c = ''hotness_locality'' \<and> lc_source_counts c = []
         then Inr (candidate, fallback @ locality_reason, 0)
         else if known then
           rbind (measure_selection env (lc_strategy c) (lc_rank_count c) (hs_hotness (lc_hotness c))
                    (lc_source_counts c) (lc_locality_weight c) (lc_current_snapshot c) model_config planner_config
                    current candidate) (\<lambda>s.
           Inr (if retain_reason s \<noteq> ''''
                then (current, ''retain_current:'' @ retain_reason s, sl_improvement_ratio s)
                else (candidate,
                  if lc_strategy c = ''hotness_locality'' then ''source_rank_locality_improvement_accepted''
                  else ''hotness_balance_improvement_accepted'', sl_improvement_ratio s)))
         else Inr (candidate, ''hotness_balance_without_current_reference'', 0))"

section \<open>Shards\<close>

definition replica_rank_id :: "nat \<Rightarrow> nat \<Rightarrow> string" where
  "replica_rank_id replica_id rank =
     ''replica:'' @ int_str (int replica_id) @ ''/ep-rank:'' @ int_str (int rank)"

definition shard_node :: "string list \<Rightarrow> nat \<Rightarrow> nat \<Rightarrow> nat \<Rightarrow> string" where
  "shard_node target_nodes rank_count replica_id rank =
     (if target_nodes = [] then ''''
      else target_nodes ! ((replica_id * rank_count + rank) mod length target_nodes))"

definition make_shard ::
  "string list \<Rightarrow> nat \<Rightarrow> histogram \<Rightarrow> int option \<Rightarrow> nat \<Rightarrow> nat \<Rightarrow> nat \<Rightarrow> nat \<Rightarrow> expert_shard" where
  "make_shard target_nodes rank_count hotness default_weight_size layer_id e rank replica_id =
     \<lparr>xs_layer_id = int layer_id, xs_expert_id = int e, xs_rank_id = replica_rank_id replica_id rank,
      xs_node_id = shard_node target_nodes rank_count replica_id rank, xs_gpu_id = int_str (int rank),
      xs_physical_expert_id = Some (int e), xs_weight_size_bytes = default_weight_size,
      xs_weight_resident = False, xs_routed_tokens = 0, xs_recent_execution_count = 0,
      xs_load_score = heat hotness layer_id e\<rparr>"

text \<open>The experts in the order of the loops, each with its rank.\<close>

definition expert_ranks :: "assignments \<Rightarrow> nat \<Rightarrow> nat \<Rightarrow> (nat \<times> nat \<times> nat) list" where
  "expert_ranks assignments num_layers num_experts =
     concat (map (\<lambda>layer_id. map (\<lambda>e. (layer_id, e, dget assignments layer_id [] ! e)) [0..<num_experts])
       [0..<num_layers])"

section \<open>The plan\<close>

definition placement_fingerprint :: "moe_env \<Rightarrow> string \<Rightarrow> dict \<Rightarrow> (string \<times> string list) list \<Rightarrow> string" where
  "placement_fingerprint env model_name tpp expert_to_target_ranks =
     me_fingerprint env
       [(''model_name'', PStr model_name),
        (''target_parallel_shape'', PDict (map (\<lambda>key. (key, dgetn tpp key))
           [''tensor_parallel_size'', ''pipeline_parallel_size'', ''data_parallel_size'',
            ''effective_expert_parallel_size'', ''replica_count''])),
        (''expert_to_target_ranks'', PDict (map (\<lambda>(k, rs). (k, PList (map PStr rs))) expert_to_target_ranks))]"

definition uniform_hotness :: "nat \<Rightarrow> nat \<Rightarrow> histogram" where
  "uniform_hotness num_layers num_experts =
     concat (map (\<lambda>l. map (\<lambda>key. (key, 1 / rat_of_nat num_experts)) (layer_keys num_experts l)) [0..<num_layers])"

definition placement_objective ::
  "moe_env \<Rightarrow> dict \<Rightarrow> dict \<Rightarrow> string \<Rightarrow> rat \<Rightarrow> rat \<Rightarrow> rat option \<Rightarrow> rat option \<Rightarrow> rat option res" where
  "placement_objective env model_config planner_config strategy penalty locality_weight remote_ratio movement_cost =
     (let sources = config_sources env planner_config model_config;
          objective = penalty + (case remote_ratio of
            Some r \<Rightarrow> if strategy = ''hotness_locality'' then locality_weight * r else 0 | None \<Rightarrow> 0)
      in rbind (first_non_negative_float sources [''hotness_movement_weight'', ''movement_weight''] 0) (\<lambda>movement_weight.
         if movement_weight \<le> 0 then Inr (Some objective)
         else rbind (first_non_negative_float sources [''movement_normalization_reference_ms''] 0) (\<lambda>reference_cost.
           Inr (case movement_cost of
                  Some cost \<Rightarrow> if reference_cost \<le> 0 then None
                    else Some (objective + movement_weight * cost / reference_cost)
                | None \<Rightarrow> None))))"

text \<open>A plan that only says why there is no placement.\<close>

definition no_placement :: "string \<Rightarrow> dict \<Rightarrow> int \<Rightarrow> string \<Rightarrow> expert_placement_plan" where
  "no_placement model_name tpp placement_epoch reason =
     (ExpertPlacementPlan_init model_name tpp)
       \<lparr>xp_placement_epoch := max 0 placement_epoch, xp_reason := reason\<rparr>"

text \<open>The plan that describes the assignments.\<close>

definition describe_plan ::
  "moe_env \<Rightarrow> string \<Rightarrow> dict \<Rightarrow> dict \<Rightarrow> int \<Rightarrow> dict \<Rightarrow> layer_context \<Rightarrow> string \<Rightarrow> string \<Rightarrow> string list
   \<Rightarrow> nat \<Rightarrow> assignments \<times> string \<times> rat \<Rightarrow> expert_placement_plan res" where
  "describe_plan env model_name tpp model_config placement_epoch planner_config c movement_source locality_reason
     target_nodes num_layers selected =
     (let (assignments, selection_reason, improvement) = selected;
          n = lc_num_experts c; ranks = lc_rank_count c; replicas = plan_replica_count tpp;
          hotness = hs_hotness (lc_hotness c);
          weight = default_expert_weight_size_bytes env model_config planner_config;
          shard = make_shard target_nodes ranks hotness weight;
          experts = expert_ranks assignments num_layers n;
          shards = concat (map (\<lambda>(l, e, rank). map (shard l e rank) [0..<replicas]) experts);
          first_shards = map (\<lambda>(l, e, rank). (expert_key (int l) (int e), shard l e rank 0)) experts;
          snapshot = map (\<lambda>(key, s). (key, ExpertShard_to_dict s)) first_shards;
          target_rank = map (\<lambda>(key, s). (key, xs_rank_id s)) first_shards;
          target_ranks = map (\<lambda>(l, e, rank). (expert_key (int l) (int e),
            map (\<lambda>replica. replica_rank_id replica rank) [0..<replicas])) experts;
          diagnostics = load_diagnostics env assignments
            (if hotness \<noteq> [] then hotness else uniform_hotness num_layers n) ranks;
          dispatch = remote_dispatch_diagnostics assignments (lc_source_counts c);
          live = planner_flag planner_config ''enable_live_expert_remap''
      in
      rbind (build_expert_movement_diff env snapshot (lc_current_snapshot c) model_config planner_config)
        (\<lambda>(movement, movement_cost).
      rbind (placement_objective env model_config planner_config (lc_strategy c) (load_penalty diagnostics)
               (lc_locality_weight c) (dd_ratio dispatch) movement_cost) (\<lambda>objective.
      Inr \<lparr>xp_model_name = model_name, xp_target_parallel_plan = tpp,
        xp_expert_to_target_rank = target_rank, xp_expert_to_target_ranks = target_ranks,
        xp_placement_epoch = max 0 placement_epoch,
        xp_placement_source = ''logical_reparallelization_planner'',
        xp_placement_fingerprint = placement_fingerprint env model_name tpp target_ranks,
        xp_required_expert_count = int (num_layers * n), xp_covered_expert_count = int (length target_rank),
        xp_planned_shard_count = int (length shards), xp_target_rank_count = int ranks,
        xp_expert_physical_replication_factor = 1, xp_sllm_replica_count = int replicas,
        xp_physical_weight_migration = False, xp_live_expert_remap = live,
        xp_allow_active_requests = (live \<and> planner_flag planner_config ''allow_active_expert_remap_requests''),
        xp_require_cross_node = (live \<and> planner_flag planner_config ''require_cross_node_expert_migration''),
        xp_physical_migration_required = live, xp_expert_placement_snapshot = snapshot, xp_shards = shards,
        xp_movement_observation_available = mv_observation_available movement,
        xp_movement_source = movement_source, xp_moved_expert_count = int (mv_moved movement),
        xp_stationary_expert_count = int (mv_stationary movement),
        xp_unknown_movement_expert_count = int (mv_unknown movement),
        xp_moved_weight_bytes = complete_moved_weight_bytes movement,
        xp_estimated_expert_weight_movement_cost_ms = movement_cost,
        xp_expert_movement_diff = mv_diff movement, xp_estimated_dispatch_cost = 0,
        xp_estimated_load_balance_penalty = load_penalty diagnostics,
        xp_placement_strategy = lc_strategy c, xp_selection_reason = selection_reason,
        xp_hotness_snapshot_id = hs_snapshot_id (lc_hotness c),
        xp_hotness_snapshot_available = hs_available (lc_hotness c),
        xp_hotness_snapshot_reason = hs_reason (lc_hotness c),
        xp_hotness_snapshot = HotnessSnapshot_to_dict (lc_hotness c),
        xp_per_layer_rank_load = map (\<lambda>d. (int_str (int (ld_layer d)),
          map (\<lambda>(rank, load). (int_str (int rank), load)) (enumerate 0 (ld_rank_load d)))) diagnostics,
        xp_per_layer_load_imbalance = map (\<lambda>d. (int_str (int (ld_layer d)), ld_imbalance d)) diagnostics,
        xp_per_layer_load_cv = map (\<lambda>d. (int_str (int (ld_layer d)), ld_cv d)) diagnostics,
        xp_hotness_layer_coverage = hs_layer_coverage (lc_hotness c),
        xp_predicted_improvement_ratio = improvement, xp_placement_objective = objective,
        xp_source_rank_locality_available = (lc_source_counts c \<noteq> []),
        xp_source_rank_locality_reason = (if lc_strategy c = ''hotness_locality'' then locality_reason else ''not_requested''),
        xp_estimated_remote_assignments = dd_remote dispatch, xp_estimated_total_assignments = dd_total dispatch,
        xp_estimated_remote_ratio = dd_ratio dispatch, xp_per_source_remote_assignments = dd_per_source dispatch,
        xp_reason = ''logical_expert_placement_plan''\<rparr>)))"

text \<open>The configuration the hotness snapshot is built with: the strategies that rely on it want a reset marker.\<close>

definition hotness_planner_config :: "string \<Rightarrow> dict \<Rightarrow> dict" where
  "hotness_planner_config strategy planner_config =
     (if hotness_strategy strategy then dsetdefault planner_config ''require_hotness_reset_marker'' (PBool True)
      else planner_config)"

definition build_layer_context ::
  "moe_env \<Rightarrow> dict \<Rightarrow> dict \<Rightarrow> dict \<Rightarrow> string \<Rightarrow> int \<times> int \<Rightarrow> (layer_context \<times> string) res" where
  "build_layer_context env tpp model_config planner_config strategy topology =
     (let (num_layers, num_experts) = topology; ranks = plan_rank_count tpp;
          (counts, locality_reason) = (if strategy = ''hotness_locality''
            then source_rank_expert_snapshot ranks model_config planner_config else ([], ''not_requested''))
      in rbind (build_hotness_snapshot env num_layers num_experts model_config
                  (hotness_planner_config strategy planner_config)) (\<lambda>hotness.
         rbind (first_non_negative_float (config_sources env planner_config model_config)
                  [''source_rank_locality_weight'', ''locality_weight''] 1) (\<lambda>locality_weight.
         Inr (\<lparr>lc_strategy = strategy, lc_num_experts = nat num_experts, lc_rank_count = ranks,
               lc_hotness = hotness, lc_source_counts = counts, lc_locality_weight = locality_weight,
               lc_current_snapshot = fst (current_expert_placement_snapshot model_config planner_config)\<rparr>,
              locality_reason))))"

definition build_logical_expert_placement_plan ::
  "moe_env \<Rightarrow> string \<Rightarrow> dict \<Rightarrow> dict \<Rightarrow> int \<Rightarrow> dict \<Rightarrow> expert_placement_plan option res" where
  "build_logical_expert_placement_plan env model_name tpp model_config placement_epoch planner_config =
     (let topology = infer_moe_topology env model_config;
          strategy = plan_strategy tpp model_config planner_config
      in if \<not> looks_like_moe_model env model_name model_config then Inr None
         else if fst topology \<le> 0 \<or> snd topology \<le> 0
         then Inr (Some (no_placement model_name tpp placement_epoch ''moe_topology_unavailable''))
         else
           rbind (py_iter (dget tpp ''target_nodes'' (PList []))) (\<lambda>nodes.
           if strategy \<notin> set supported_strategies
           then Inr (Some (no_placement model_name tpp placement_epoch ''unsupported_expert_placement_strategy''))
           else
             rbind (build_layer_context env tpp model_config planner_config strategy topology) (\<lambda>(c, locality_reason).
             rbind (assign_layers env model_config planner_config c (nat (fst topology))) (\<lambda>candidate.
             rbind (select_assignments env model_config planner_config c locality_reason (nat (fst topology)) candidate)
               (\<lambda>selected.
             rbind (describe_plan env model_name tpp model_config placement_epoch planner_config c
                      (snd (current_expert_placement_snapshot model_config planner_config)) locality_reason
                      (map py_str nodes) (nat (fst topology)) selected) (\<lambda>plan.
             Inr (Some plan)))))))"

text \<open>The planner as the reparallelization planner calls it: the plan as a dictionary.\<close>

definition logical_placement_planner :: "moe_env \<Rightarrow> string \<Rightarrow> dict \<Rightarrow> dict \<Rightarrow> int \<Rightarrow> dict \<Rightarrow> dict option res" where
  "logical_placement_planner env model_name tpp model_config placement_epoch planner_config =
     rbind (build_logical_expert_placement_plan env model_name tpp model_config placement_epoch planner_config)
       (\<lambda>plan. Inr (map_option ExpertPlacementPlan_to_dict plan))"

end
