(* ===== verification/Moe_Hotness_Props.thy ===== *)
theory Moe_Hotness_Props
  imports Moe_Hotness
begin

text \<open>
  Properties of the expert keys and of the hotness snapshot: a key can be read back, and the hotness
  of a layer is a distribution over its experts.
\<close>

section \<open>Numbers and keys\<close>

lemma digit_nth: "0 \<le> i \<Longrightarrow> i < 10 \<Longrightarrow>
    is_digit (''0123456789'' ! nat i) \<and> digit_value (''0123456789'' ! nat i) = i"
proof -
  assume "0 \<le> i" and "i < 10"
  then have "i = 0 \<or> i = 1 \<or> i = 2 \<or> i = 3 \<or> i = 4 \<or> i = 5 \<or> i = 6 \<or> i = 7 \<or> i = 8 \<or> i = 9" by arith
  then show ?thesis by (auto simp: is_digit_def digit_value_def)
qed

lemma int_digits_spec:
  assumes "0 \<le> i"
  shows "list_all is_digit (int_digits i) \<and> int_digits i \<noteq> [] \<and> digits_int (int_digits i) = i"
  using assms
proof (induction i rule: int_digits.induct)
  case (1 i)
  show ?case
  proof (cases "i < 10")
    case True
    then show ?thesis using digit_nth [of i] 1(2) by (simp add: int_digits.simps digits_int_def)
  next
    case False
    have "list_all is_digit (int_digits (i div 10)) \<and> digits_int (int_digits (i div 10)) = i div 10"
      using 1 False by simp
    then show ?thesis using digit_nth [of "i mod 10"] False
      by (subst (1 2 3) int_digits.simps) (simp add: digits_int_def)
  qed
qed

lemma after_prefix_append [simp]: "after_prefix p (p @ s) = Some s"
proof -
  have "starts_with (p @ s) p" by (induction p) auto
  then show ?thesis by (simp add: after_prefix_def)
qed

lemma leading_number_int_str:
  assumes "0 \<le> i" and "s = [] \<or> \<not> is_digit (hd s)"
  shows "leading_number (int_str i @ s) = Some (i, s)"
proof -
  have ds: "list_all is_digit (int_digits i)" "int_digits i \<noteq> []" "digits_int (int_digits i) = i"
    using int_digits_spec [OF assms(1)] by simp_all
  have all: "\<forall>c \<in> set (int_digits i). is_digit c" using ds(1) by (simp add: list_all_iff)
  have "takeWhile is_digit s = []" "dropWhile is_digit s = s" using assms(2) by (cases s; simp)+
  then have "takeWhile is_digit (int_digits i @ s) = int_digits i" "dropWhile is_digit (int_digits i @ s) = s"
    using all by (simp_all add: takeWhile_append2 dropWhile_append2)
  then show ?thesis using ds(2,3) assms(1) by (simp add: leading_number_def int_str_def)
qed

text \<open>The key of an expert is read back by \<open>_canonical_expert_key\<close>.\<close>

lemma canonical_expert_key_roundtrip:
  assumes "0 \<le> l" and "0 \<le> e"
  shows "canonical_expert_key (expert_key l e) = Some (l, e)"
proof -
  have "number_after ''layer:'' (expert_key l e) = Some (l, ''/expert:'' @ int_str e)"
    using leading_number_int_str [OF assms(1), of "''/expert:'' @ int_str e"]
    unfolding number_after_def expert_key_def after_prefix_append by (simp add: is_digit_def)
  moreover have "number_after ''/expert:'' (''/expert:'' @ int_str e) = Some (e, [])"
    using leading_number_int_str [OF assms(2), of "[]"] unfolding number_after_def after_prefix_append by simp
  ultimately show ?thesis by (simp add: canonical_expert_key_def)
qed

lemma expert_key_inject [simp]: "expert_key (int l) (int e) = expert_key (int l') (int e') \<longleftrightarrow> l = l' \<and> e = e'"
proof
  assume "expert_key (int l) (int e) = expert_key (int l') (int e')"
  then have "canonical_expert_key (expert_key (int l) (int e)) = canonical_expert_key (expert_key (int l') (int e'))"
    by simp
  then show "l = l' \<and> e = e'" by (simp add: canonical_expert_key_roundtrip)
qed simp

lemma int_str_inject [simp]: "int_str (int i) = int_str (int j) \<longleftrightarrow> i = j"
proof
  assume "int_str (int i) = int_str (int j)"
  then have "leading_number (int_str (int i)) = leading_number (int_str (int j))" by simp
  then show "i = j" using leading_number_int_str [of "int i" "[]"] leading_number_int_str [of "int j" "[]"] by simp
qed simp

lemma distinct_layer_keys [simp]: "distinct (layer_keys n l)"
  by (auto simp: layer_keys_def distinct_map inj_on_def)

lemma layer_keys_disjoint: "l \<noteq> l' \<Longrightarrow> set (layer_keys n l) \<inter> set (layer_keys m l') = {}"
  by (auto simp: layer_keys_def)

section \<open>Histograms\<close>

lemma nonneg_update: "\<forall>p \<in> set h. 0 \<le> snd p \<Longrightarrow> 0 \<le> x \<Longrightarrow> \<forall>p \<in> set (AList.update k x h). 0 \<le> (snd p :: rat)"
  by (induction h) auto

lemma histogram_entries_nonneg:
  "histogram_entries es L N h = (h', r) \<Longrightarrow> \<forall>p \<in> set h. 0 \<le> snd p \<Longrightarrow> \<forall>p \<in> set h'. 0 \<le> snd p"
proof (induction es arbitrary: h)
  case (Cons entry es)
  obtain key v where entry: "entry = (key, v)" by (cases entry)
  have next_entry: "\<forall>p \<in> set h'. 0 \<le> snd p" if "histogram_entries es L N g = (h', r)" "\<forall>p \<in> set g. 0 \<le> snd p" for g
    using Cons.IH that by blast
  show ?case
  proof (cases "canonical_expert_key key")
    case None
    then show ?thesis using Cons.prems next_entry by (auto simp: entry split: option.splits if_splits)
  next
    case (Some le)
    then show ?thesis using Cons.prems next_entry nonneg_update [OF Cons.prems(2)]
      by (cases le; cases "finite_float v") (auto simp: entry not_less split: if_splits)
  qed
qed simp

lemma dget_nonneg: "\<forall>p \<in> set h. 0 \<le> snd p \<Longrightarrow> 0 \<le> dget h k (0 :: rat)"
  by (auto simp: dget_def split: option.splits dest!: map_of_SomeD)

lemma canonical_histogram_nonneg: "0 \<le> dget (fst (canonical_histogram raw L N)) k 0"
proof -
  have "\<forall>p \<in> set (fst (canonical_histogram raw L N)). 0 \<le> snd p"
    using histogram_entries_nonneg [of _ L N "[]"]
    by (cases raw) (simp_all add: canonical_histogram_def, metis prod.collapse)
  then show ?thesis by (rule dget_nonneg)
qed

section \<open>Hotness\<close>

text \<open>The entries of one layer form a distribution.\<close>

definition distribution :: "histogram \<Rightarrow> bool" where
  "distribution h \<longleftrightarrow> (\<forall>p \<in> set h. 0 \<le> snd p) \<and> sum_list (map snd h) = 1"

lemma sum_list_div: "sum_list (map (\<lambda>k. f k / (t :: rat)) ks) = sum_list (map f ks) / t"
  by (induction ks) (simp_all add: add_divide_distrib)

lemma layer_hotness_distribution:
  assumes "layer_hotness alpha sparse g r n l = Some (samples, h)" and "0 \<le> alpha" "alpha \<le> 1"
    and nonneg: "\<And>k. 0 \<le> dget g k 0" "\<And>k. 0 \<le> dget r k 0"
  shows "map fst h = layer_keys n l" and "distribution h"
proof -
  define total where "total counts = sum_list (map (\<lambda>key. dget counts key 0) (layer_keys n l))" for counts :: histogram
  define valid where "valid counts = ((sparse \<or> list_all (dhas counts) (layer_keys n l)) \<and> 0 < total counts)" for counts
  define val where "val key = (if valid g \<and> valid r
      then alpha * (dget r key 0 / total r) + (1 - alpha) * (dget g key 0 / total g)
      else if valid r then dget r key 0 / total r else dget g key 0 / total g)" for key
  have some: "valid g \<or> valid r" and h: "h = map (\<lambda>key. (key, val key)) (layer_keys n l)"
    using assms(1) by (auto simp: layer_hotness_def Let_def valid_def total_def val_def split: if_splits)
  show "map fst h = layer_keys n l" by (simp add: h comp_def)
  have share: "sum_list (map (\<lambda>key. dget c key 0 / total c) (layer_keys n l)) = 1" if "valid c" for c
    using that by (simp add: sum_list_div total_def [symmetric] valid_def)
  have "sum_list (map val (layer_keys n l)) = 1"
  proof (cases "valid g \<and> valid r")
    case True
    then have "sum_list (map val (layer_keys n l)) =
        alpha * sum_list (map (\<lambda>key. dget r key 0 / total r) (layer_keys n l))
        + (1 - alpha) * sum_list (map (\<lambda>key. dget g key 0 / total g) (layer_keys n l))"
      by (simp add: val_def [abs_def] sum_list_addf sum_list_const_mult del: times_divide_eq_right)
    then show ?thesis using True share by simp
  next
    case False
    then show ?thesis using some share by (cases "valid r") (simp_all add: val_def [abs_def])
  qed
  moreover have "0 \<le> val key" for key
    using some nonneg assms(2,3) by (auto simp: val_def valid_def intro!: add_nonneg_nonneg mult_nonneg_nonneg divide_nonneg_pos)
  ultimately show "distribution h" by (auto simp: distribution_def h comp_def)
qed

text \<open>Parts of a dictionary whose keys come from disjoint sets.\<close>

lemma map_of_concat_parts:
  assumes "\<And>y. fst ` set (f y) \<subseteq> K y" and "\<And>y z. y \<noteq> z \<Longrightarrow> K y \<inter> K z = {}" and "k \<in> K x"
  shows "map_of (concat (map f xs)) k = (if x \<in> set xs then map_of (f x) k else None)"
proof (induction xs)
  case (Cons y xs)
  have "map_of (f y) k = None" if "y \<noteq> x"
    using assms(1) [of y] assms(2) [OF that] assms(3) by (auto simp: map_of_eq_None_iff)
  then show ?case using Cons by (cases "y = x") (auto simp: map_add_def split: option.splits)
qed simp

lemma concat_map_filter:
  "concat (map (\<lambda>(_, _, h). h) (List.map_filter (\<lambda>l. map_option (\<lambda>r. (l, r)) (f l)) ls))
   = concat (map (\<lambda>l. case f l of None \<Rightarrow> [] | Some (_, h) \<Rightarrow> h) ls)"
  by (induction ls) (auto simp: List.map_filter_simps split: option.splits)

lemma dget_map_snd: "distinct (map fst h) \<Longrightarrow> map (\<lambda>k. dget h k 0) (map fst h) = map snd h"
  by (auto simp: dget_def)

text \<open>The hotness a snapshot gives the experts of a layer.\<close>

definition layer_heats :: "histogram \<Rightarrow> nat \<Rightarrow> nat \<Rightarrow> rat list" where
  "layer_heats hotness n l = map (\<lambda>key. dget hotness key 0) (layer_keys n l)"

lemma all_layer_heats:
  assumes "0 \<le> alpha" "alpha \<le> 1" "\<And>k. 0 \<le> dget g k 0" "\<And>k. 0 \<le> dget r k 0"
  shows "sum_list (layer_heats (concat (map (\<lambda>(_, _, h). h) (all_layer_hotness alpha sparse g r L N))) N l) \<in> {0, 1}
    \<and> (\<forall>v \<in> set (layer_heats (concat (map (\<lambda>(_, _, h). h) (all_layer_hotness alpha sparse g r L N))) N l). 0 \<le> v)"
proof -
  define part where "part l = (case layer_hotness alpha sparse g r N l of None \<Rightarrow> [] | Some (_, h) \<Rightarrow> h)" for l
  have hot: "concat (map (\<lambda>(_, _, h). h) (all_layer_hotness alpha sparse g r L N)) = concat (map part [0..<L])"
    unfolding all_layer_hotness_def concat_map_filter part_def ..
  have keys: "part l = [] \<or> map fst (part l) = layer_keys N l \<and> distribution (part l)" for l
    using layer_hotness_distribution [OF _ assms] by (auto simp: part_def split: option.splits prod.splits)
  have "fst ` set (part l) \<subseteq> set (layer_keys N l)" for l
    using keys [of l] by (metis list.set_map subset_refl empty_subsetI image_is_empty set_empty)
  then have get: "dget (concat (map part [0..<L])) k 0 = (if l < L then dget (part l) k 0 else 0)"
    if "k \<in> set (layer_keys N l)" for k
    using map_of_concat_parts [of part "\<lambda>l. set (layer_keys N l)" k l "[0..<L]"] that
    by (simp add: layer_keys_disjoint dget_def)
  show ?thesis
  proof (cases "l < L \<and> part l \<noteq> []")
    case True
    then have p: "map fst (part l) = layer_keys N l" "distribution (part l)" using keys by auto
    have "layer_heats (concat (map part [0..<L])) N l = map (\<lambda>k. dget (part l) k 0) (layer_keys N l)"
      using get True by (simp add: layer_heats_def)
    also have "\<dots> = map snd (part l)"
      using dget_map_snd [of "part l"] p(1) by simp
    finally show ?thesis using p(2) by (auto simp: hot distribution_def)
  next
    case False
    then have "layer_heats (concat (map part [0..<L])) N l = map (\<lambda>_. 0) (layer_keys N l)"
      using get by (auto simp: layer_heats_def dget_def)
    then show ?thesis by (simp add: hot)
  qed
qed

lemma hotness_alpha_fraction: "0 \<le> hotness_alpha sources" "hotness_alpha sources \<le> 1"
  by (auto simp: hotness_alpha_def Let_def split: option.splits)

lemma snapshot_hotness:
  assumes "build_hotness_snapshot env L N model_config planner_config = Inr s"
  shows "hs_alpha s = hotness_alpha (config_sources env planner_config model_config)"
    and "\<exists>g r sparse. (\<forall>k. 0 \<le> dget g k 0) \<and> (\<forall>k. 0 \<le> dget r k 0)
      \<and> (hs_hotness s = [] \<or>
         hs_hotness s = concat (map (\<lambda>(_, _, h). h) (all_layer_hotness (hs_alpha s) sparse g r (nat L) (nat N))))"
proof -
  obtain source label where src: "hotness_contract_source model_config planner_config = (source, label)" by force
  obtain g gr where g: "canonical_histogram (dgetn source ''global_expert_hotness'') L N = (g, gr)" by force
  obtain r rr where r: "canonical_histogram (dgetn source ''recent_window_expert_hotness'') L N = (r, rr)" by force
  have fields: "hs_alpha s = hotness_alpha (config_sources env planner_config model_config)
    \<and> (\<exists>sparse usable. hs_hotness s = concat (map (\<lambda>(_, _, h). h)
         (if usable then all_layer_hotness (hs_alpha s) sparse g r (nat L) (nat N) else [])))"
    using assms unfolding build_hotness_snapshot_def Let_def src g r prod.case rbind_eq_Inr sum.inject
    by (elim exE conjE) (hypsubst, simp only: hotness_snapshot.simps simp_thms, (rule exI)+, rule refl)
  then show "hs_alpha s = hotness_alpha (config_sources env planner_config model_config)" by simp
  have nonneg: "0 \<le> dget g k 0" "0 \<le> dget r k 0" for k
    using canonical_histogram_nonneg [of _ L N k] g r by (metis fst_conv)+
  obtain sparse usable where "hs_hotness s = concat (map (\<lambda>(_, _, h). h)
      (if usable then all_layer_hotness (hs_alpha s) sparse g r (nat L) (nat N) else []))"
    using fields by blast
  then show "\<exists>g r sparse. (\<forall>k. 0 \<le> dget g k 0) \<and> (\<forall>k. 0 \<le> dget r k 0)
      \<and> (hs_hotness s = [] \<or>
         hs_hotness s = concat (map (\<lambda>(_, _, h). h) (all_layer_hotness (hs_alpha s) sparse g r (nat L) (nat N))))"
    using nonneg by (cases usable) auto
qed

text \<open>
  The hotness of a snapshot is, layer by layer, a distribution over the experts: whatever the
  two histograms hold, the shares of a layer are not negative and add up to one, or the layer is
  not covered and all of them are zero; and the weight of the recent window is a fraction.
\<close>

theorem hotness_is_distribution:
  assumes "build_hotness_snapshot env L N model_config planner_config = Inr s"
  shows "0 \<le> hs_alpha s \<and> hs_alpha s \<le> 1
    \<and> (\<forall>l. (sum_list (layer_heats (hs_hotness s) (nat N) l) = 0 \<or> sum_list (layer_heats (hs_hotness s) (nat N) l) = 1)
         \<and> list_all (\<lambda>v. 0 \<le> v \<and> v \<le> 1) (layer_heats (hs_hotness s) (nat N) l))"
proof -
  note s = snapshot_hotness(1) [OF assms]
  obtain g r sparse where g: "\<And>k. 0 \<le> dget g k 0" and r: "\<And>k. 0 \<le> dget r k 0"
    and hot: "hs_hotness s = [] \<or>
      hs_hotness s = concat (map (\<lambda>(_, _, h). h) (all_layer_hotness (hs_alpha s) sparse g r (nat L) (nat N)))"
    using snapshot_hotness(2) [OF assms] by blast
  have alpha: "0 \<le> hs_alpha s" "hs_alpha s \<le> 1" using hotness_alpha_fraction by (simp_all add: s)
  have sums: "sum_list (layer_heats (hs_hotness s) (nat N) l) \<in> {0, 1}
    \<and> (\<forall>v \<in> set (layer_heats (hs_hotness s) (nat N) l). 0 \<le> v)" for l
    using hot
  proof
    assume "hs_hotness s = []"
    then show ?thesis by (simp add: layer_heats_def dget_def)
  next
    assume "hs_hotness s = concat (map (\<lambda>(_, _, h). h) (all_layer_hotness (hs_alpha s) sparse g r (nat L) (nat N)))"
    then show ?thesis using all_layer_heats [OF alpha g r] by simp
  qed
  have "v \<le> 1" if "v \<in> set (layer_heats (hs_hotness s) (nat N) l)" for v l
  proof -
    have "v \<le> sum_list (layer_heats (hs_hotness s) (nat N) l)"
      using sums [of l] that by (intro member_le_sum_list) auto
    then show ?thesis using sums [of l] by auto
  qed
  then show ?thesis using alpha sums by (auto simp: list_all_iff)
qed

text \<open>Two experts in one layer; three of four recent requests went to the second.\<close>

definition example_env :: moe_env where
  "example_env = \<lparr>me_fingerprint = (\<lambda>_. ''00000000''), me_sqrt = (\<lambda>r. r), me_time = 0, me_config_json = (\<lambda>_. None)\<rparr>"

definition example_routing :: dict where
  "example_routing =
     [(''global_expert_hotness'', PDict [(''layer:0/expert:0'', PInt 5), (''layer:0/expert:1'', PInt 5)]),
      (''recent_window_expert_hotness'', PDict [(''layer:0/expert:0'', PInt 1), (''layer:0/expert:1'', PInt 3)])]"

definition example_hotness :: "hotness_snapshot res" where
  "example_hotness = build_hotness_snapshot example_env 1 2 [] example_routing"

theorem hotness_is_distribution_witness:
  "\<exists>s. example_hotness = Inr s \<and> hs_hotness s = [(''layer:0/expert:0'', 3/10), (''layer:0/expert:1'', 7/10)]
     \<and> hs_alpha s \<le> 1 \<and> (sum_list (layer_heats (hs_hotness s) 2 0) = 0 \<or> sum_list (layer_heats (hs_hotness s) 2 0) = 1)"
proof -
  have run: "rbind example_hotness (\<lambda>s. Inr (hs_hotness s)) =
      Inr [(''layer:0/expert:0'', 3/10), (''layer:0/expert:1'', 7/10)]"
    by code_simp
  then obtain s where s: "example_hotness = Inr s"
      "hs_hotness s = [(''layer:0/expert:0'', 3/10), (''layer:0/expert:1'', 7/10)]"
    by auto
  note dist = hotness_is_distribution [OF s(1) [unfolded example_hotness_def]]
  have "hs_alpha s \<le> 1" using dist by simp
  moreover have "sum_list (layer_heats (hs_hotness s) 2 0) = 0 \<or> sum_list (layer_heats (hs_hotness s) 2 0) = 1"
    using conjunct2 [OF conjunct2 [OF dist], THEN spec, of 0, THEN conjunct1] by simp
  ultimately show ?thesis using s by blast
qed

end
