(* ===== verification/Moe_Placement_Props.thy ===== *)
theory Moe_Placement_Props
  imports Moe_Placement Moe_Hotness_Props
begin

text \<open>
  Properties of the assignments of experts to ranks: every strategy puts every expert on a rank of
  the target, the strategies that balance by hotness fill the slots of every rank exactly and
  never run out of them, and the diagnostics of an assignment add up.
\<close>

section \<open>Assignments\<close>

definition valid_assignment :: "nat \<Rightarrow> nat \<Rightarrow> assignment \<Rightarrow> bool" where
  "valid_assignment num_experts rank_count a \<longleftrightarrow> length a = num_experts \<and> list_all (\<lambda>r. r < rank_count) a"

lemma those_Some: "those xs = Some ys \<longleftrightarrow> xs = map Some ys"
proof (induction xs arbitrary: ys)
  case (Cons x xs)
  then show ?case by (cases x; cases ys) auto
qed auto

lemma current_layer_assignment_valid:
  assumes "current_layer_assignment l n R snap = Some a"
  shows "valid_assignment n R a"
proof -
  let ?f = "\<lambda>e. Option.bind (map_of snap (expert_key (int l) (int e))) (\<lambda>entry. rank_index (dgetn entry ''rank_id'') R)"
  have eq: "map ?f [0..<n] = map Some a" using assms by (simp add: current_layer_assignment_def those_Some)
  have len: "length a = n" using arg_cong [OF eq, of length] by simp
  have "r < R" if "r \<in> set a" for r
  proof -
    have "Some r \<in> set (map ?f [0..<n])" using that by (simp add: eq)
    then obtain e where "?f e = Some r" by auto
    then show "r < R"
      by (auto simp: rank_index_def bind_eq_Some_conv split: option.splits if_splits)
  qed
  then show ?thesis using len by (simp add: valid_assignment_def list_all_iff)
qed

lemma sum_even_slots: "0 < R \<Longrightarrow> sum_list (even_slots n R) = n"
proof -
  assume R: "0 < R"
  have "sum_list (even_slots n R) = (\<Sum>r<R. n div R + (if r < n mod R then 1 else 0))"
    by (simp add: even_slots_def interv_sum_list_conv_sum_set_nat atLeast0LessThan)
  also have "\<dots> = R * (n div R) + (\<Sum>r<R. if r < n mod R then 1 else 0)" by (simp add: sum.distrib)
  also have "(\<Sum>r<R. if r < n mod R then 1 else 0 :: nat) = card {r. r < R \<and> r < n mod R}"
    by (simp add: sum.If_cases Int_def)
  also have "{r. r < R \<and> r < n mod R} = {..<n mod R}" using R by (auto intro: less_trans)
  finally show ?thesis by simp
qed

lemma length_even_slots [simp]: "length (even_slots n R) = R"
  by (simp add: even_slots_def)

lemma linear_assignment_valid: "0 < R \<Longrightarrow> valid_assignment n R (linear_assignment n R)"
proof -
  assume R: "0 < R"
  have "length (linear_assignment n R) = sum_list (map snd (enumerate 0 (even_slots n R)))"
    by (simp add: linear_assignment_def length_concat comp_def case_prod_unfold)
  then have "length (linear_assignment n R) = n" using sum_even_slots [OF R] by simp
  moreover have "r < R" if "r \<in> set (linear_assignment n R)" for r
    using that by (auto simp: linear_assignment_def in_set_enumerate_eq)
  ultimately show ?thesis by (simp add: valid_assignment_def list_all_iff)
qed

lemma round_robin_assignment_valid: "0 < R \<Longrightarrow> valid_assignment n R (round_robin_assignment n R)"
  by (auto simp: valid_assignment_def round_robin_assignment_def list_all_iff)

lemma fold_list_update_valid:
  assumes "valid_assignment n R a" and "\<forall>x \<in> set xs. f x < R"
  shows "valid_assignment n R (fold (\<lambda>x a. a[g x := f x]) xs a)"
  using assms
proof (induction xs arbitrary: a)
  case (Cons x xs)
  have "valid_assignment n R (a[g x := f x])"
    using Cons.prems set_update_subset_insert [of a "g x" "f x"]
    by (auto simp: valid_assignment_def list_all_iff)
  then show ?case using Cons by simp
qed simp

lemma grouped_assignment_valid: "0 < R \<Longrightarrow> valid_assignment (length es) R (grouped_assignment es R)"
proof -
  assume R: "0 < R"
  have "valid_assignment (length es) R (replicate (length es) 0)"
    using R by (simp add: valid_assignment_def list_all_iff)
  moreover have "min m (R - 1) < R" for m using R by (auto simp: min_less_iff_disj)
  ultimately have "valid_assignment (length es) R (fold (\<lambda>x a. a[snd x := min (fst x * R div max 1 (length es)) (R - 1)])
      (enumerate 0 es) (replicate (length es) 0))"
    by (intro fold_list_update_valid) auto
  then show ?thesis by (simp only: grouped_assignment_def case_prod_unfold)
qed

section \<open>Filling the slots\<close>

text \<open>
  The experts in \<open>placed\<close> have a rank, the others none; the slots taken on a rank are counted and
  within its capacity.
\<close>

definition slots_kept :: "nat list \<Rightarrow> nat \<Rightarrow> nat set \<Rightarrow> greedy \<Rightarrow> bool" where
  "slots_kept caps n placed g \<longleftrightarrow>
     length (gr_assignment g) = n \<and> length (gr_rank_counts g) = length caps
     \<and> (\<forall>r < length caps. gr_rank_counts g ! r = count (mset (gr_assignment g)) (Some r) \<and> gr_rank_counts g ! r \<le> caps ! r)
     \<and> (\<forall>r. Some r \<in> set (gr_assignment g) \<longrightarrow> r < length caps)
     \<and> (\<forall>e < n. gr_assignment g ! e = None \<longleftrightarrow> e \<notin> placed)"

lemma count_some_total:
  assumes "\<forall>r. Some r \<in> set A \<longrightarrow> r < (R :: nat)"
  shows "length A = count (mset A) None + (\<Sum>r<R. count (mset A) (Some r))"
  using assms
proof (induction A)
  case (Cons x A)
  have IH: "length A = count (mset A) None + (\<Sum>r<R. count (mset A) (Some r))" using Cons by simp
  show ?case
  proof (cases x)
    case (Some q)
    then have "q < R" using Cons.prems by simp
    have "count (mset (x # A)) (Some r) = count (mset A) (Some r) + (if r = q then 1 else 0)" for r
      using Some by simp
    then have "(\<Sum>r<R. count (mset (x # A)) (Some r)) = (\<Sum>r<R. count (mset A) (Some r)) + (\<Sum>r<R. if r = q then 1 else 0)"
      by (simp add: sum.distrib)
    moreover have "(\<Sum>r<R. if r = q then 1 else 0 :: nat) = 1" using \<open>q < R\<close> by (subst sum.delta) simp_all
    ultimately have "(\<Sum>r<R. count (mset (x # A)) (Some r)) = (\<Sum>r<R. count (mset A) (Some r)) + 1" by simp
    then show ?thesis using IH Some by simp
  qed (use IH in simp)
qed simp

lemma count_map_Some: "count (mset (map Some a)) (Some r) = count_list a r"
  by (induction a) simp_all

lemma free_slot:
  assumes "slots_kept caps n placed g" and "e < n" "e \<notin> placed" and "sum_list caps = n"
  shows "\<exists>r < length caps. gr_rank_counts g ! r < caps ! r"
proof (rule ccontr)
  assume "\<not> (\<exists>r < length caps. gr_rank_counts g ! r < caps ! r)"
  then have "caps ! r \<le> count (mset (gr_assignment g)) (Some r)" if "r < length caps" for r
    using assms(1) that unfolding slots_kept_def by (metis not_less)
  then have "(\<Sum>r<length caps. caps ! r) \<le> (\<Sum>r<length caps. count (mset (gr_assignment g)) (Some r))"
    by (intro sum_mono) simp
  moreover have "length (gr_assignment g) = count (mset (gr_assignment g)) None
      + (\<Sum>r<length caps. count (mset (gr_assignment g)) (Some r))"
    by (rule count_some_total) (use assms(1) in \<open>simp add: slots_kept_def\<close>)
  moreover have "0 < count (mset (gr_assignment g)) None"
    using assms(1-3) by (auto simp: slots_kept_def count_greater_zero_iff in_set_conv_nth intro!: exI [of _ e])
  moreover have "length (gr_assignment g) = n" "(\<Sum>r<length caps. caps ! r) = n"
    using assms(1,4) by (simp_all add: slots_kept_def sum_list_sum_nth atLeast0LessThan)
  ultimately show False by linarith
qed

lemma place_expert_step:
  assumes "slots_kept caps n placed g" and "e < n" "e \<notin> placed" and "sum_list caps = n"
  shows "\<exists>g'. place_expert key hot caps e g = Inr g' \<and> slots_kept caps n (insert e placed) g'"
proof -
  obtain r0 where "r0 < length caps" "gr_rank_counts g ! r0 < caps ! r0" using free_slot [OF assms] by blast
  then have ne: "feasible_ranks caps g \<noteq> []" by (auto simp: feasible_ranks_def filter_empty_conv)
  define r where "r = arg_min_list (key (gr_rank_load g) e) (feasible_ranks caps g)"
  have "r \<in> set (feasible_ranks caps g)" unfolding r_def by (rule arg_min_list_in [OF ne])
  then have r: "r < length caps" "gr_rank_counts g ! r < caps ! r" by (auto simp: feasible_ranks_def)
  have place: "place_expert key hot caps e g = Inr (put_expert (hot e) e r g)"
    using ne by (simp add: place_expert_def r_def split: list.splits)
  have free: "gr_assignment g ! e = None" and len: "e < length (gr_assignment g)"
    using assms(1-3) by (auto simp: slots_kept_def)
  have count: "count (mset ((gr_assignment g)[e := Some r])) (Some q) =
      count (mset (gr_assignment g)) (Some q) + (if q = r then 1 else 0)" for q
    using len by (simp add: mset_update free)
  have "slots_kept caps n (insert e placed) (put_expert (hot e) e r g)"
    unfolding slots_kept_def put_expert_def greedy.simps
  proof (intro conjI allI impI)
    fix q assume q: "q < length caps"
    show "((gr_rank_counts g)[r := gr_rank_counts g ! r + 1]) ! q = count (mset ((gr_assignment g)[e := Some r])) (Some q)"
      and "((gr_rank_counts g)[r := gr_rank_counts g ! r + 1]) ! q \<le> caps ! q"
      using assms(1) q r unfolding count by (cases "q = r"; simp add: slots_kept_def)+
  next
    fix q assume "Some q \<in> set ((gr_assignment g)[e := Some r])"
    then show "q < length caps"
      using set_update_subset_insert [of "gr_assignment g" e "Some r"] r(1) assms(1) by (auto simp: slots_kept_def)
  next
    fix i assume "i < n"
    then show "((gr_assignment g)[e := Some r]) ! i = None \<longleftrightarrow> i \<notin> insert e placed"
      using assms(1) len by (cases "i = e") (auto simp: slots_kept_def)
  qed (use assms(1) in \<open>simp_all add: slots_kept_def\<close>)
  then show ?thesis using place by blast
qed

lemma place_experts:
  assumes "slots_kept caps n placed g" and "sum_list caps = n"
    and "distinct es" "set es \<subseteq> {..<n}" "set es \<inter> placed = {}"
  shows "\<exists>g'. rfold (place_expert key hot caps) es g = Inr g' \<and> slots_kept caps n (placed \<union> set es) g'"
  using assms
proof (induction es arbitrary: placed g)
  case (Cons e es)
  obtain g' where g': "place_expert key hot caps e g = Inr g'" "slots_kept caps n (insert e placed) g'"
    using place_expert_step [OF Cons.prems(1) _ _ Cons.prems(2), of e key hot] Cons.prems(4,5) by auto
  have "\<exists>g''. rfold (place_expert key hot caps) es g' = Inr g'' \<and> slots_kept caps n (insert e placed \<union> set es) g''"
    using Cons.IH [OF g'(2) Cons.prems(2)] Cons.prems(3-5) by auto
  then show ?case using g'(1) by auto
qed auto

lemma sum_default_slots:
  assumes "0 < R"
  shows "sum_list (default_slot_capacities n R current) = n"
    and "length (default_slot_capacities n R current) = R"
  using sum_even_slots [OF assms, of n] by (simp_all add: default_slot_capacities_def Let_def split: option.splits)

text \<open>Whatever the key: every expert gets a rank, and every rank as many experts as it has slots.\<close>

lemma greedy_fills_slots:
  assumes "0 < R"
  shows "\<exists>a. greedy_assignment key l n R hotness current = Inr a \<and> valid_assignment n R a
    \<and> map (count_list a) [0..<R] = default_slot_capacities n R current"
proof -
  let ?caps = "default_slot_capacities n R current"
  note caps = sum_default_slots [OF assms, of n current]
  have "slots_kept ?caps n {} (greedy_start n R)"
    by (auto simp: slots_kept_def greedy_start_def caps(2))
  moreover have "distinct (hottest_first hotness l n)" "set (hottest_first hotness l n) = {..<n}"
    by (auto simp: hottest_first_def)
  ultimately obtain g where g: "rfold (place_expert key (heat hotness l) ?caps) (hottest_first hotness l n)
      (greedy_start n R) = Inr g" "slots_kept ?caps n {..<n} g"
    using place_experts [of ?caps n "{}" _ "hottest_first hotness l n" key "heat hotness l"] caps(1) by auto
  let ?A = "gr_assignment g" and ?a = "map the (gr_assignment g)"
  have all: "None \<notin> set ?A" using g(2) by (auto simp: slots_kept_def in_set_conv_nth)
  have A: "map Some ?a = ?A" unfolding map_map
  proof (rule map_idI)
    fix x assume "x \<in> set ?A"
    then have "x \<noteq> None" using all by metis
    then show "(Some \<circ> the) x = x" by simp
  qed
  have "Some r \<in> set (map Some ?a) \<longleftrightarrow> r \<in> set ?a" for r by (simp add: image_iff)
  then have inA: "Some r \<in> set ?A \<longleftrightarrow> r \<in> set ?a" for r by (simp only: A)
  have cnt: "count (mset ?A) (Some r) = count_list ?a r" for r
    using count_map_Some [of ?a r] by (simp only: A)
  have "count_list ?a r \<le> ?caps ! r" if "r < R" for r
    using g(2) that caps(2) cnt by (auto simp: slots_kept_def)
  moreover have "(\<Sum>r<R. count_list ?a r) = (\<Sum>r<R. ?caps ! r)"
  proof -
    have "length ?A = count (mset ?A) None + (\<Sum>r<R. count (mset ?A) (Some r))"
      by (rule count_some_total) (use g(2) caps(2) in \<open>simp add: slots_kept_def\<close>)
    moreover have "count (mset ?A) None = 0" using all by (simp add: count_eq_zero_iff)
    ultimately show ?thesis using g(2) caps cnt
      by (simp add: slots_kept_def sum_list_sum_nth atLeast0LessThan)
  qed
  ultimately have eq: "count_list ?a r = ?caps ! r" if "r < R" for r
    using sum_mono_inv [of "count_list ?a" "{..<R}" "\<lambda>r. ?caps ! r" r] that by auto
  have "valid_assignment n R ?a"
    using g(2) caps(2) inA by (auto simp: valid_assignment_def slots_kept_def list_all_iff)
  moreover have "map (count_list ?a) [0..<R] = ?caps"
    by (rule nth_equalityI) (use eq caps(2) in auto)
  ultimately show ?thesis using g(1) by (simp add: greedy_assignment_def)
qed

lemma sum_count_list: "valid_assignment n R a \<Longrightarrow> sum_list (map (count_list a) [0..<R]) = n"
proof -
  assume a: "valid_assignment n R a"
  have "length (map Some a) = count (mset (map Some a)) None + (\<Sum>r<R. count (mset (map Some a)) (Some r))"
    by (rule count_some_total) (use a in \<open>auto simp: valid_assignment_def list_all_iff\<close>)
  moreover have "count (mset (map Some a)) None = 0" by (simp add: count_eq_zero_iff)
  ultimately have "(\<Sum>r<R. count_list a r) = length a" unfolding count_map_Some by simp
  then show ?thesis using a by (simp add: valid_assignment_def interv_sum_list_conv_sum_set_nat atLeast0LessThan)
qed

lemma slots_of_current: "valid_assignment n R c \<Longrightarrow> default_slot_capacities n R (Some c) = map (count_list c) [0..<R]"
  using sum_count_list [of n R c] by (simp add: default_slot_capacities_def Let_def)

text \<open>
  C21. The strategies that balance by hotness never run out of expert slots: they assign every expert
  of the layer to a rank of the target, and every rank gets exactly as many experts as it holds in
  the current placement, or an even share when the current placement of the layer is unknown.
\<close>

theorem hotness_slots_filled:
  assumes "0 < R" and "\<And>c. current = Some c \<Longrightarrow> valid_assignment n R c"
  shows "(\<exists>a. hotness_balanced_assignment l n R hotness current = Inr a \<and> valid_assignment n R a
      \<and> map (count_list a) [0..<R] = (case current of Some c \<Rightarrow> map (count_list c) [0..<R] | None \<Rightarrow> even_slots n R))
    \<and> (\<exists>a. hotness_locality_assignment l n R hotness counts weight current = Inr a \<and> valid_assignment n R a
      \<and> map (count_list a) [0..<R] = (case current of Some c \<Rightarrow> map (count_list c) [0..<R] | None \<Rightarrow> even_slots n R))"
proof -
  have "default_slot_capacities n R current =
      (case current of Some c \<Rightarrow> map (count_list c) [0..<R] | None \<Rightarrow> even_slots n R)"
    using assms(2) slots_of_current by (cases current) (simp_all add: default_slot_capacities_def)
  then show ?thesis
    using greedy_fills_slots [OF assms(1)]
    unfolding hotness_balanced_assignment_def hotness_locality_assignment_def by metis
qed

text \<open>Four experts on two ranks, the two hottest on the same one.\<close>

definition example_heats :: histogram where
  "example_heats = [(''layer:0/expert:0'', 4/10), (''layer:0/expert:1'', 3/10),
     (''layer:0/expert:2'', 2/10), (''layer:0/expert:3'', 1/10)]"

theorem hotness_slots_filled_witness:
  "hotness_balanced_assignment 0 4 2 example_heats (Some [0, 0, 1, 1]) = Inr [0, 1, 1, 0]
   \<and> (\<exists>a. hotness_balanced_assignment 0 4 2 example_heats (Some [0, 0, 1, 1]) = Inr a \<and> valid_assignment 4 2 a
     \<and> map (count_list a) [0..<2] = map (count_list [0, 0, 1, 1]) [0..<2])"
proof
  show "hotness_balanced_assignment 0 4 2 example_heats (Some [0, 0, 1, 1]) = Inr [0, 1, 1, 0]"
    by code_simp
  have "valid_assignment 4 2 c" if "Some [0, 0, 1, 1] = Some c" for c :: "nat list"
    using that by (auto simp: valid_assignment_def)
  then show "\<exists>a. hotness_balanced_assignment 0 4 2 example_heats (Some [0, 0, 1, 1]) = Inr a \<and> valid_assignment 4 2 a
     \<and> map (count_list a) [0..<2] = map (count_list [0, 0, 1, 1]) [0..<2]"
    using hotness_slots_filled [where R = 2 and n = 4 and current = "Some [0, 0, 1, 1]" and l = 0
        and hotness = example_heats]
    by (simp only: option.case)
qed

section \<open>Diagnostics\<close>

lemma sum_list_update_add: "i < length xs \<Longrightarrow> sum_list (xs[i := xs ! i + d]) = sum_list xs + (d :: rat)"
proof (induction xs arbitrary: i)
  case (Cons x xs)
  then show ?case by (cases i) simp_all
qed simp

lemma sum_list_le_const: "\<forall>v \<in> set xs. v \<le> (m :: rat) \<Longrightarrow> sum_list xs \<le> of_nat (length xs) * m"
proof (induction xs)
  case (Cons x xs)
  then have "sum_list xs \<le> of_nat (length xs) * m" "x \<le> m" by simp_all
  then show ?case by (simp add: algebra_simps)
qed simp

lemma sum_list_less_const:
  assumes "\<forall>v \<in> set xs. v \<le> (m :: rat)" and "v \<in> set xs" "v < m"
  shows "sum_list xs < of_nat (length xs) * m"
proof -
  obtain ys zs where xs: "xs = ys @ v # zs" using assms(2) by (meson split_list)
  have "sum_list ys \<le> of_nat (length ys) * m" "sum_list zs \<le> of_nat (length zs) * m"
    using assms(1) xs by (simp_all add: sum_list_le_const)
  then show ?thesis using assms(3) by (simp add: xs algebra_simps)
qed

lemma fold_load:
  assumes "\<forall>x \<in> set xs. snd x < length load"
  shows "sum_list (fold (\<lambda>(e, rank) load. load[rank := load ! rank + f e]) xs load)
      = sum_list load + sum_list (map (\<lambda>x. f (fst x) :: rat) xs)
    \<and> length (fold (\<lambda>(e, rank) load. load[rank := load ! rank + f e]) xs load) = length load"
  using assms
proof (induction xs arbitrary: load)
  case (Cons x xs)
  have "sum_list (load[snd x := load ! snd x + f (fst x)]) = sum_list load + f (fst x)"
    using Cons.prems by (simp add: sum_list_update_add)
  then show ?case using Cons.IH [of "load[snd x := load ! snd x + f (fst x)]"] Cons.prems by (simp add: case_prod_unfold)
qed simp

lemma fold_load_nonneg:
  assumes "\<forall>v \<in> set load. 0 \<le> v" and "\<And>e. 0 \<le> (f e :: rat)"
  shows "\<forall>v \<in> set (fold (\<lambda>(e, rank) load. load[rank := load ! rank + f e]) xs load). 0 \<le> v"
  using assms
proof (induction xs arbitrary: load)
  case (Cons x xs)
  have "\<forall>v \<in> set (load[snd x := load ! snd x + f (fst x)]). 0 \<le> v"
  proof (cases "snd x < length load")
    case True
    then have "0 \<le> load ! snd x + f (fst x)" using Cons.prems by simp
    then show ?thesis using set_update_subset_insert [of load "snd x"] Cons.prems(1) by fastforce
  qed (use Cons.prems in \<open>simp add: list_update_beyond\<close>)
  then show ?case using Cons.IH Cons.prems(2) by (simp add: case_prod_unfold)
qed simp

lemma layer_rank_load_sum:
  assumes "valid_assignment n R a"
  shows "sum_list (layer_rank_load hotness R l a) = sum_list (layer_heats hotness n l)"
    and "length (layer_rank_load hotness R l a) = R"
proof -
  have in_range: "\<forall>x \<in> set (enumerate 0 a). snd x < length (replicate R (0 :: rat))"
    using assms by (auto simp: valid_assignment_def list_all_iff in_set_enumerate_eq)
  have "map (\<lambda>x. heat hotness l (fst x)) (enumerate 0 a) = layer_heats hotness n l"
    using assms by (intro nth_equalityI) (auto simp: valid_assignment_def layer_heats_def layer_keys_def heat_def nth_enumerate_eq)
  then show "sum_list (layer_rank_load hotness R l a) = sum_list (layer_heats hotness n l)"
    and "length (layer_rank_load hotness R l a) = R"
    using fold_load [OF in_range, of "heat hotness l"] by (simp_all add: layer_rank_load_def sum_list_replicate)
qed

lemma Max_bounds:
  assumes "xs \<noteq> []" and "\<forall>v \<in> set xs. 0 \<le> (v :: rat)"
  shows "sum_list xs / of_nat (length xs) \<le> Max (set xs)" and "Max (set xs) \<le> sum_list xs"
    and "Max (set xs) = sum_list xs / of_nat (length xs) \<longleftrightarrow> (\<forall>v \<in> set xs. v = Max (set xs))"
proof -
  have le: "v \<le> Max (set xs)" if "v \<in> set xs" for v using that by simp
  have bound: "sum_list xs \<le> of_nat (length xs) * Max (set xs)"
    using le by (intro sum_list_le_const) blast
  then show "sum_list xs / of_nat (length xs) \<le> Max (set xs)" using assms(1) by (simp add: field_simps)
  have "Max (set xs) \<in> set xs" using assms(1) by simp
  then show "Max (set xs) \<le> sum_list xs" using assms(2) by (simp add: member_le_sum_list)
  show "Max (set xs) = sum_list xs / of_nat (length xs) \<longleftrightarrow> (\<forall>v \<in> set xs. v = Max (set xs))"
  proof
    assume eq: "Max (set xs) = sum_list xs / of_nat (length xs)"
    show "\<forall>v \<in> set xs. v = Max (set xs)"
    proof (rule ccontr)
      assume "\<not> (\<forall>v \<in> set xs. v = Max (set xs))"
      then obtain v where "v \<in> set xs" "v < Max (set xs)" using le by (meson order_le_neq_trans)
      then have "sum_list xs < of_nat (length xs) * Max (set xs)"
        using le by (intro sum_list_less_const [of _ _ v]) blast+
      then show False using eq assms(1) by (simp add: field_simps)
    qed
  next
    assume all: "\<forall>v \<in> set xs. v = Max (set xs)"
    then have "xs = replicate (length xs) (Max (set xs))" by (simp add: replicate_eqI)
    then have "sum_list xs = of_nat (length xs) * Max (set xs)" by (metis sum_list_replicate)
    then show "Max (set xs) = sum_list xs / of_nat (length xs)" using assms(1) by simp
  qed
qed

text \<open>
  C22. The load diagnostics of a layer are sound: the loads of the ranks add up to the hotness of the
  layer, the imbalance lies between zero and one less than the number of ranks, and it is zero
  exactly when all ranks carry the same load.
\<close>

theorem load_imbalance_bounds:
  assumes "diagnose_layer env hotness R (l, a) = Some d" and "valid_assignment n R a" and "0 < R"
    and "\<And>k. 0 \<le> dget hotness k 0"
  shows "sum_list (ld_rank_load d) = sum_list (layer_heats hotness n l)
    \<and> 0 \<le> ld_imbalance d \<and> ld_imbalance d \<le> of_nat R - 1
    \<and> (ld_imbalance d = 0 \<longleftrightarrow> list_all (\<lambda>v. v = sum_list (ld_rank_load d) / of_nat R) (ld_rank_load d))"
proof -
  let ?load = "layer_rank_load hotness R l a"
  note load = layer_rank_load_sum [OF assms(2), of hotness l]
  have d: "ld_rank_load d = ?load" "ld_imbalance d = Max (set ?load) / (sum_list ?load / of_nat R) - 1"
    and pos: "0 < sum_list ?load / of_nat R"
    using assms(1) by (auto simp: diagnose_layer_def Let_def not_le split: if_splits)
  have ne: "?load \<noteq> []" using load(2) assms(3) by auto
  have nonneg: "\<forall>v \<in> set ?load. 0 \<le> v"
    unfolding layer_rank_load_def using assms(4) by (intro fold_load_nonneg) (auto simp: heat_def)
  note max = Max_bounds [OF ne nonneg, unfolded load(2)]
  have mean: "sum_list ?load = of_nat R * (sum_list ?load / of_nat R)" using assms(3) by simp
  have "0 \<le> ld_imbalance d" using max(1) pos by (simp add: d(2) del: divide_divide_eq_right)
  moreover have "Max (set ?load) \<le> of_nat R * (sum_list ?load / of_nat R)" using max(2) mean by simp
  then have "ld_imbalance d \<le> of_nat R - 1"
    using pos by (simp add: d(2) pos_divide_le_eq del: divide_divide_eq_right)
  moreover have "ld_imbalance d = 0 \<longleftrightarrow> Max (set ?load) = sum_list ?load / of_nat R"
    using pos by (auto simp: d(2))
  moreover have "Max (set ?load) = sum_list ?load / of_nat R \<longleftrightarrow>
      list_all (\<lambda>v. v = sum_list ?load / of_nat R) ?load"
  proof
    assume eq: "Max (set ?load) = sum_list ?load / of_nat R"
    then have "\<forall>v \<in> set ?load. v = Max (set ?load)" using max(3) by blast
    then show "list_all (\<lambda>v. v = sum_list ?load / of_nat R) ?load" unfolding list_all_iff eq .
  next
    assume "list_all (\<lambda>v. v = sum_list ?load / of_nat R) ?load"
    then show "Max (set ?load) = sum_list ?load / of_nat R" using ne by (simp add: list_all_iff)
  qed
  ultimately show ?thesis using load(1) unfolding d(1) by blast
qed

theorem load_imbalance_bounds_witness:
  "\<exists>d. diagnose_layer example_env example_heats 2 (0, [0, 1, 1, 0]) = Some d
     \<and> ld_rank_load d = [5/10, 5/10] \<and> 0 \<le> ld_imbalance d \<and> ld_imbalance d \<le> 1"
proof -
  have run: "map_option ld_rank_load (diagnose_layer example_env example_heats 2 (0, [0, 1, 1, 0])) = Some [5/10, 5/10]"
    by code_simp
  then obtain d where d: "diagnose_layer example_env example_heats 2 (0, [0, 1, 1, 0]) = Some d" "ld_rank_load d = [5/10, 5/10]"
    by (auto simp: map_option_case split: option.splits)
  have valid: "valid_assignment 4 2 [0, 1, 1, 0]" by (simp add: valid_assignment_def)
  have nonneg: "0 \<le> dget example_heats k 0" for k
    by (rule dget_nonneg) (simp add: example_heats_def)
  from load_imbalance_bounds [OF d(1) valid _ nonneg] have "0 \<le> ld_imbalance d \<and> ld_imbalance d \<le> 1" by simp
  then show ?thesis using d by blast
qed

section \<open>Movement\<close>

lemma scan_movement_counts:
  "mv_moved (scan_movement w cur p m) + mv_stationary (scan_movement w cur p m) + mv_unknown (scan_movement w cur p m)
     = Suc (mv_moved m + mv_stationary m + mv_unknown m)
   \<and> mv_observation_available (scan_movement w cur p m) = mv_observation_available m
   \<and> (map_of (mv_diff m) (fst p) = None \<longrightarrow>
        map fst (mv_diff (scan_movement w cur p m)) = map fst (mv_diff m)
          @ (if mv_stationary (scan_movement w cur p m) = mv_stationary m then [fst p] else []))
   \<and> mv_stationary m \<le> mv_stationary (scan_movement w cur p m)"
  by (cases p) (auto simp: scan_movement_def Let_def update_keys map_of_eq_None_iff
      split: option.splits prod.splits bool.splits)

lemma scan_all:
  assumes "distinct (map fst ps)" and "set (map fst (mv_diff m)) \<inter> set (map fst ps) = {}"
    and "length (mv_diff m) = mv_moved m + mv_unknown m"
  shows "mv_moved (fold (scan_movement w cur) ps m) + mv_stationary (fold (scan_movement w cur) ps m)
        + mv_unknown (fold (scan_movement w cur) ps m)
      = mv_moved m + mv_stationary m + mv_unknown m + length ps
    \<and> mv_observation_available (fold (scan_movement w cur) ps m) = mv_observation_available m
    \<and> length (mv_diff (fold (scan_movement w cur) ps m)) =
        mv_moved (fold (scan_movement w cur) ps m) + mv_unknown (fold (scan_movement w cur) ps m)
    \<and> set (map fst (mv_diff (fold (scan_movement w cur) ps m))) \<subseteq> set (map fst (mv_diff m)) \<union> set (map fst ps)"
  using assms
proof (induction ps arbitrary: m)
  case (Cons p ps)
  let ?m = "scan_movement w cur p m"
  have "map_of (mv_diff m) (fst p) = None" using Cons.prems(2) by (auto simp: map_of_eq_None_iff)
  note step = scan_movement_counts [of w cur p m] this
  have keys: "map fst (mv_diff ?m) = map fst (mv_diff m) @ (if mv_stationary ?m = mv_stationary m then [fst p] else [])"
    using step by blast
  have "length (mv_diff ?m) = mv_moved ?m + mv_unknown ?m"
    using arg_cong [OF keys, of length] step(1) Cons.prems(3)
    by (auto simp: scan_movement_def Let_def split: prod.splits option.splits bool.splits)
  moreover have "fst p \<notin> set (map fst ps)" "set (map fst (mv_diff m)) \<inter> set (map fst ps) = {}"
    using Cons.prems(1,2) by auto
  then have "set (map fst (mv_diff ?m)) \<inter> set (map fst ps) = {}"
    unfolding keys set_append by (cases "mv_stationary ?m = mv_stationary m") (simp_all del: set_map add: Int_Un_distrib2)
  ultimately have IH: "mv_moved (fold (scan_movement w cur) ps ?m) + mv_stationary (fold (scan_movement w cur) ps ?m)
        + mv_unknown (fold (scan_movement w cur) ps ?m)
      = mv_moved ?m + mv_stationary ?m + mv_unknown ?m + length ps
    \<and> mv_observation_available (fold (scan_movement w cur) ps ?m) = mv_observation_available ?m
    \<and> length (mv_diff (fold (scan_movement w cur) ps ?m)) =
        mv_moved (fold (scan_movement w cur) ps ?m) + mv_unknown (fold (scan_movement w cur) ps ?m)
    \<and> set (map fst (mv_diff (fold (scan_movement w cur) ps ?m))) \<subseteq> set (map fst (mv_diff ?m)) \<union> set (map fst ps)"
    using Cons.IH [of ?m] Cons.prems(1) by simp
  moreover have "set (map fst (mv_diff ?m)) \<subseteq> insert (fst p) (set (map fst (mv_diff m)))" unfolding keys by auto
  ultimately show ?case using step(1) by (auto simp del: set_map)
qed simp

lemma movement_diff_counts:
  assumes "build_expert_movement_diff env planned cur model_config planner_config = Inr (m, cost)"
    and "distinct (map fst planned)"
  shows "mv_moved m + mv_stationary m + mv_unknown m = length planned"
    and "mv_observation_available m \<longleftrightarrow> cur \<noteq> []"
    and "length (mv_diff m) = (if cur = [] then 0 else mv_moved m + mv_unknown m)"
    and "cost \<noteq> None \<Longrightarrow> mv_unknown m = 0 \<and> cur \<noteq> []"
proof -
  let ?start = "\<lparr>mv_observation_available = True, mv_moved = 0, mv_stationary = 0, mv_unknown = 0,
    mv_weight_bytes = 0, mv_weight_known = True, mv_diff = []\<rparr>"
  have all: "mv_moved m + mv_stationary m + mv_unknown m = length planned
    \<and> (mv_observation_available m \<longleftrightarrow> cur \<noteq> [])
    \<and> length (mv_diff m) = (if cur = [] then 0 else mv_moved m + mv_unknown m)
    \<and> (cost \<noteq> None \<longrightarrow> mv_unknown m = 0 \<and> cur \<noteq> [])"
  proof (cases "cur = []")
    case True
    then show ?thesis using assms(1) by (auto simp: build_expert_movement_diff_def Let_def)
  next
    case False
    let ?m = "fold (scan_movement (default_expert_weight_size_bytes env model_config planner_config) cur) planned ?start"
    have "m = ?m" "cost \<noteq> None \<longrightarrow> mv_unknown m = 0"
      using assms(1) False by (auto simp: build_expert_movement_diff_def Let_def split: if_splits)
    then show ?thesis
      using scan_all [OF assms(2), of ?start "default_expert_weight_size_bytes env model_config planner_config" cur] False
      by simp
  qed
  then show "mv_moved m + mv_stationary m + mv_unknown m = length planned"
    and "mv_observation_available m \<longleftrightarrow> cur \<noteq> []"
    and "length (mv_diff m) = (if cur = [] then 0 else mv_moved m + mv_unknown m)"
    and "cost \<noteq> None \<Longrightarrow> mv_unknown m = 0 \<and> cur \<noteq> []" by blast+
qed

end
