(* ===== verification/Moe_Plan_Props.thy ===== *)
theory Moe_Plan_Props
  imports Moe_Plan Moe_Placement_Props
begin

text \<open>
  Properties of the logical expert placement plan: it covers every expert of the model exactly once
  per replica, it accounts for the movement of every expert, and a rebalancing that moves experts
  rests on valid statistics and stays within the configured budgets.
\<close>

section \<open>Assignments of all layers\<close>

lemma plan_rank_count_pos [simp]: "0 < plan_rank_count tpp"
  by (simp add: plan_rank_count_def)

lemma plan_replica_count_pos [simp]: "0 < plan_replica_count tpp"
  by (auto simp: plan_replica_count_def as_positive_int_def split: sum.splits)

lemma expert_hotness_order_length:
  "expert_hotness_order env l n model_config planner_config = Inr es \<Longrightarrow> length es = n"
  by (auto simp: expert_hotness_order_def)

lemma assign_layer_valid:
  assumes "assign_layer env model_config planner_config c l = Inr a" and "0 < lc_rank_count c"
  shows "valid_assignment (lc_num_experts c) (lc_rank_count c) a"
proof -
  have greedy: "valid_assignment (lc_num_experts c) (lc_rank_count c) a"
    if "greedy_assignment key l (lc_num_experts c) (lc_rank_count c) hotness current = Inr a" for key hotness current
    using greedy_fills_slots [OF assms(2), of key l "lc_num_experts c" hotness current] that by auto
  have current: "current_of_layer c l = Some b \<Longrightarrow> valid_assignment (lc_num_experts c) (lc_rank_count c) b" for b
    by (auto simp: current_of_layer_def intro: current_layer_assignment_valid)
  have grouped: "valid_assignment (lc_num_experts c) (lc_rank_count c) (grouped_assignment es (lc_rank_count c))"
    if "expert_hotness_order env l (lc_num_experts c) model_config planner_config = Inr es" for es
    using grouped_assignment_valid [OF assms(2), of es] expert_hotness_order_length [OF that] by simp
  show ?thesis
    using assms(1) greedy current grouped linear_assignment_valid [OF assms(2)] round_robin_assignment_valid [OF assms(2)]
    by (auto simp: assign_layer_def Let_def hotness_balanced_assignment_def hotness_locality_assignment_def
        split: if_splits option.splits)
qed

definition valid_assignments :: "nat \<Rightarrow> nat \<Rightarrow> nat \<Rightarrow> assignments \<Rightarrow> bool" where
  "valid_assignments num_layers num_experts rank_count as \<longleftrightarrow>
     map fst as = [0..<num_layers] \<and> (\<forall>(l, a) \<in> set as. valid_assignment num_experts rank_count a)"

lemma assign_layers_valid:
  assumes "assign_layers env model_config planner_config c L = Inr as" and "0 < lc_rank_count c"
  shows "valid_assignments L (lc_num_experts c) (lc_rank_count c) as"
proof -
  have nth: "rbind (assign_layer env model_config planner_config c l) (\<lambda>a. Inr (l, a)) = Inr (as ! l)" if "l < L" for l
    using rmap_Inr_nth [OF assms(1) [unfolded assign_layers_def], of l] that by simp
  have len: "length as = L" using rmap_Inr_length [OF assms(1) [unfolded assign_layers_def]] by simp
  have "fst (as ! l) = l" if "l < L" for l
    using nth [OF that] by (cases "assign_layer env model_config planner_config c l") (simp_all, metis fst_conv)
  then have "map fst as = [0..<L]" by (intro nth_equalityI) (simp_all add: len)
  moreover have "valid_assignment (lc_num_experts c) (lc_rank_count c) a" if entry: "(l, a) \<in> set as" for l a
  proof -
    obtain i where i: "i < L" "as ! i = (l, a)" using entry len by (auto simp: in_set_conv_nth)
    then have "assign_layer env model_config planner_config c i = Inr a"
      using nth [OF i(1)] by (cases "assign_layer env model_config planner_config c i") simp_all
    then show ?thesis by (rule assign_layer_valid [OF _ assms(2)])
  qed
  ultimately show ?thesis by (auto simp: valid_assignments_def)
qed

lemma current_assignments_known:
  assumes "length (current_assignments c L) = L"
  shows "valid_assignments L (lc_num_experts c) (lc_rank_count c) (current_assignments c L)"
    and "l < L \<Longrightarrow> current_of_layer c l = Some (dget (current_assignments c L) l [])"
proof -
  have filter_all: "length (List.map_filter f xs) = length xs \<Longrightarrow> \<forall>x \<in> set xs. f x \<noteq> None" for f :: "nat \<Rightarrow> (nat \<times> assignment) option" and xs
  proof (induction xs)
    case (Cons x xs)
    have "length (List.map_filter f xs) \<le> length xs" by (induction xs) (auto simp: List.map_filter_simps split: option.splits)
    then show ?case using Cons by (auto simp: List.map_filter_simps split: option.splits)
  qed simp
  have all: "\<forall>l < L. current_of_layer c l \<noteq> None"
    using filter_all [of _ "[0..<L]"] assms unfolding current_assignments_def by fastforce
  have eq: "current_assignments c L = map (\<lambda>l. (l, the (current_of_layer c l))) [0..<L]"
  proof -
    have "List.map_filter (\<lambda>l. map_option (Pair l) (current_of_layer c l)) xs = map (\<lambda>l. (l, the (current_of_layer c l))) xs"
      if "\<forall>l \<in> set xs. current_of_layer c l \<noteq> None" for xs
      using that by (induction xs) (auto simp: List.map_filter_simps)
    then show ?thesis using all unfolding current_assignments_def by simp
  qed
  show "l < L \<Longrightarrow> current_of_layer c l = Some (dget (current_assignments c L) l [])"
    using all by (auto simp: eq dget_def map_of_map_restrict restrict_map_def split: option.splits)
  show "valid_assignments L (lc_num_experts c) (lc_rank_count c) (current_assignments c L)"
    using all by (auto simp: valid_assignments_def eq comp_def current_of_layer_def intro!: current_layer_assignment_valid)
qed

lemma select_assignments_valid:
  assumes "select_assignments env model_config planner_config c reason L candidate = Inr (as, why, ratio)"
    and "valid_assignments L (lc_num_experts c) (lc_rank_count c) candidate"
  shows "valid_assignments L (lc_num_experts c) (lc_rank_count c) as"
  using assms current_assignments_known(1) [of c L]
  by (auto simp: select_assignments_def Let_def split: if_splits)

section \<open>The description of a plan\<close>

lemma dget_nth_assignment:
  assumes "valid_assignments L n R as" and "l < L"
  shows "valid_assignment n R (dget as l [])"
proof -
  have "l \<in> set (map fst as)" using assms by (simp add: valid_assignments_def)
  then obtain a where a: "map_of as l = Some a" by (metis map_of_eq_None_iff list.set_map option.exhaust)
  then have "(l, a) \<in> set as" by (rule map_of_SomeD)
  then show ?thesis using assms(1) a by (auto simp: valid_assignments_def dget_def)
qed

lemma length_expert_ranks [simp]: "length (expert_ranks as L n) = L * n"
  by (simp add: expert_ranks_def length_concat comp_def sum_list_triv)

lemma map_keys_expert_ranks:
  "map (\<lambda>(l, e, rank). f l e) (expert_ranks as L n) = concat (map (\<lambda>l. map (f l) [0..<n]) [0..<L])"
  by (simp add: expert_ranks_def map_concat comp_def)

definition all_expert_keys :: "nat \<Rightarrow> nat \<Rightarrow> string list" where
  "all_expert_keys L n = concat (map (layer_keys n) [0..<L])"

lemma distinct_all_expert_keys: "distinct (all_expert_keys L n)"
proof -
  have inj: "layer_keys n l = layer_keys n l' \<Longrightarrow> layer_keys n l \<noteq> [] \<Longrightarrow> l = l'" for l l'
    using layer_keys_disjoint [of l l' n n] by auto
  show ?thesis unfolding all_expert_keys_def
  proof (induction L)
    case (Suc L)
    have "set (layer_keys n L) \<inter> (\<Union>l \<in> {0..<L}. set (layer_keys n l)) = {}"
      using layer_keys_disjoint [of L _ n n] by fastforce
    then show ?case using Suc by (auto simp: Int_commute)
  qed simp
qed

text \<open>The rank of an expert in the assignments.\<close>

definition assigned_rank :: "assignments \<Rightarrow> nat \<Rightarrow> nat \<Rightarrow> nat" where
  "assigned_rank as l e = dget as l [] ! e"

lemma assigned_rank_bound:
  "valid_assignments L n R as \<Longrightarrow> l < L \<Longrightarrow> e < n \<Longrightarrow> assigned_rank as l e < R"
  using dget_nth_assignment [of L n R as l] by (auto simp: valid_assignment_def assigned_rank_def list_all_length)

lemma expert_ranks_eq:
  "expert_ranks as L n = concat (map (\<lambda>l. map (\<lambda>e. (l, e, assigned_rank as l e)) [0..<n]) [0..<L])"
  by (simp add: expert_ranks_def assigned_rank_def)

lemma concat_concat_map: "concat (concat xss) = concat (map concat xss)"
  by (induction xss) simp_all

lemma map_of_expert_ranks:
  assumes "l < L" and "e < n"
  shows "map_of (map (\<lambda>(l, e, rank). (expert_key (int l) (int e), f l e rank)) (expert_ranks as L n))
      (expert_key (int l) (int e)) = Some (f l e (assigned_rank as l e))"
proof (rule map_of_is_SomeI)
  have "map fst (map (\<lambda>(l, e, rank). (expert_key (int l) (int e), f l e rank)) (expert_ranks as L n)) = all_expert_keys L n"
    by (simp add: expert_ranks_eq map_concat comp_def all_expert_keys_def layer_keys_def [abs_def])
  then show "distinct (map fst (map (\<lambda>(l, e, rank). (expert_key (int l) (int e), f l e rank)) (expert_ranks as L n)))"
    by (simp only: distinct_all_expert_keys)
  show "(expert_key (int l) (int e), f l e (assigned_rank as l e))
      \<in> set (map (\<lambda>(l, e, rank). (expert_key (int l) (int e), f l e rank)) (expert_ranks as L n))"
    using assms by (force simp: expert_ranks_eq)
qed

lemma describe_plan_fields:
  assumes "describe_plan env model_name tpp model_config epoch planner_config c source reason nodes L (as, why, ratio) = Inr plan"
  shows "xp_expert_to_target_rank plan = map (\<lambda>(l, e, rank). (expert_key (int l) (int e), replica_rank_id 0 rank)) (expert_ranks as L (lc_num_experts c))"
    and "xp_expert_to_target_ranks plan = map (\<lambda>(l, e, rank). (expert_key (int l) (int e),
      map (\<lambda>replica. replica_rank_id replica rank) [0..<plan_replica_count tpp])) (expert_ranks as L (lc_num_experts c))"
    and "xp_required_expert_count plan = int (L * lc_num_experts c)"
    and "xp_covered_expert_count plan = int (length (xp_expert_to_target_rank plan))"
    and "xp_planned_shard_count plan = int (length (xp_shards plan))"
    and "length (xp_shards plan) = L * lc_num_experts c * plan_replica_count tpp"
    and "xp_target_rank_count plan = int (lc_rank_count c)"
    and "xp_sllm_replica_count plan = int (plan_replica_count tpp)"
    and "\<exists>snapshot m. map fst snapshot = all_expert_keys L (lc_num_experts c)
      \<and> build_expert_movement_diff env snapshot (lc_current_snapshot c) model_config planner_config
          = Inr (m, xp_estimated_expert_weight_movement_cost_ms plan)
      \<and> xp_moved_expert_count plan = int (mv_moved m) \<and> xp_stationary_expert_count plan = int (mv_stationary m)
      \<and> xp_unknown_movement_expert_count plan = int (mv_unknown m) \<and> xp_expert_movement_diff plan = mv_diff m"
    and "xp_shards plan = concat (map (\<lambda>(l, e, rank). map (make_shard nodes (lc_rank_count c) (hs_hotness (lc_hotness c))
      (default_expert_weight_size_bytes env model_config planner_config) l e rank) [0..<plan_replica_count tpp])
      (expert_ranks as L (lc_num_experts c)))"
proof -
  let ?n = "lc_num_experts c"
  let ?shard = "make_shard nodes (lc_rank_count c) (hs_hotness (lc_hotness c)) (default_expert_weight_size_bytes env model_config planner_config)"
  let ?first = "map (\<lambda>(l, e, rank). (expert_key (int l) (int e), ?shard l e rank 0)) (expert_ranks as L ?n)"
  let ?snapshot = "map (\<lambda>(key, s). (key, ExpertShard_to_dict s)) ?first"
  obtain m cost objective where
    m: "build_expert_movement_diff env ?snapshot (lc_current_snapshot c) model_config planner_config = Inr (m, cost)"
    and f: "xp_expert_to_target_rank plan = map (\<lambda>(key, s). (key, xs_rank_id s)) ?first"
      "xp_expert_to_target_ranks plan = map (\<lambda>(l, e, rank). (expert_key (int l) (int e),
        map (\<lambda>replica. replica_rank_id replica rank) [0..<plan_replica_count tpp])) (expert_ranks as L ?n)"
      "xp_required_expert_count plan = int (L * ?n)"
      "xp_covered_expert_count plan = int (length (xp_expert_to_target_rank plan))"
      "xp_planned_shard_count plan = int (length (xp_shards plan))"
      "xp_shards plan = concat (map (\<lambda>(l, e, rank). map (?shard l e rank) [0..<plan_replica_count tpp]) (expert_ranks as L ?n))"
      "xp_target_rank_count plan = int (lc_rank_count c)" "xp_sllm_replica_count plan = int (plan_replica_count tpp)"
      "xp_estimated_expert_weight_movement_cost_ms plan = cost"
      "xp_moved_expert_count plan = int (mv_moved m)" "xp_stationary_expert_count plan = int (mv_stationary m)"
      "xp_unknown_movement_expert_count plan = int (mv_unknown m)" "xp_expert_movement_diff plan = mv_diff m"
    using assms unfolding describe_plan_def Let_def prod.case rbind_eq_Inr
    by (elim exE conjE, case_tac x) (simp only: prod.case rbind_eq_Inr, elim exE conjE, simp only: sum.inject, hypsubst,
      simp only: expert_placement_plan.simps simp_thms)
  have first: "map (\<lambda>(key, s). (key, xs_rank_id s)) ?first =
      map (\<lambda>(l, e, rank). (expert_key (int l) (int e), replica_rank_id 0 rank)) (expert_ranks as L ?n)"
    by (simp add: make_shard_def case_prod_unfold comp_def)
  show "xp_expert_to_target_rank plan = map (\<lambda>(l, e, rank). (expert_key (int l) (int e), replica_rank_id 0 rank)) (expert_ranks as L ?n)"
    by (simp only: f(1) first)
  show "xp_expert_to_target_ranks plan = map (\<lambda>(l, e, rank). (expert_key (int l) (int e),
      map (\<lambda>replica. replica_rank_id replica rank) [0..<plan_replica_count tpp])) (expert_ranks as L ?n)"
    and "xp_required_expert_count plan = int (L * ?n)"
    and "xp_covered_expert_count plan = int (length (xp_expert_to_target_rank plan))"
    and "xp_planned_shard_count plan = int (length (xp_shards plan))"
    and "xp_target_rank_count plan = int (lc_rank_count c)"
    and "xp_sllm_replica_count plan = int (plan_replica_count tpp)"
    and "xp_shards plan = concat (map (\<lambda>(l, e, rank). map (?shard l e rank) [0..<plan_replica_count tpp]) (expert_ranks as L ?n))"
    by (fact f)+
  show "length (xp_shards plan) = L * ?n * plan_replica_count tpp"
    by (simp add: f(6) length_concat comp_def case_prod_unfold sum_list_triv)
  have "map fst ?snapshot = all_expert_keys L ?n"
    by (simp add: expert_ranks_eq map_concat comp_def case_prod_unfold all_expert_keys_def layer_keys_def [abs_def])
  then show "\<exists>snapshot m. map fst snapshot = all_expert_keys L ?n
      \<and> build_expert_movement_diff env snapshot (lc_current_snapshot c) model_config planner_config
          = Inr (m, xp_estimated_expert_weight_movement_cost_ms plan)
      \<and> xp_moved_expert_count plan = int (mv_moved m) \<and> xp_stationary_expert_count plan = int (mv_stationary m)
      \<and> xp_unknown_movement_expert_count plan = int (mv_unknown m) \<and> xp_expert_movement_diff plan = mv_diff m"
    using m f(9-13) by blast
qed

text \<open>A plan with a placement comes from valid assignments of all layers.\<close>

lemma built_plan:
  assumes "build_logical_expert_placement_plan env model_name tpp model_config epoch planner_config = Inr (Some plan)"
    and "xp_placement_source plan = ''logical_reparallelization_planner''"
  obtains L c as why ratio source reason nodes candidate locality_reason where
    "infer_moe_topology env model_config = (int L, int (lc_num_experts c))"
    "lc_rank_count c = plan_rank_count tpp"
    "assign_layers env model_config planner_config c L = Inr candidate"
    "select_assignments env model_config planner_config c locality_reason L candidate = Inr (as, why, ratio)"
    "valid_assignments L (lc_num_experts c) (lc_rank_count c) as"
    "describe_plan env model_name tpp model_config epoch planner_config c source reason nodes L (as, why, ratio) = Inr plan"
    "\<exists>vs. py_iter (dget tpp ''target_nodes'' (PList [])) = Inr vs \<and> nodes = map py_str vs"
proof -
  let ?t = "infer_moe_topology env model_config" and ?strategy = "plan_strategy tpp model_config planner_config"
  have empty: "xp_placement_source (no_placement model_name tpp epoch r) \<noteq> ''logical_reparallelization_planner''" for r
    by (simp add: no_placement_def ExpertPlacementPlan_init_def)
  have pos: "\<not> (fst ?t \<le> 0 \<or> snd ?t \<le> 0)"
    using assms empty by (auto simp: build_logical_expert_placement_plan_def Let_def split: if_splits)
  obtain c reason candidate selected nodes where nodes: "py_iter (dget tpp ''target_nodes'' (PList [])) = Inr nodes"
    and c: "build_layer_context env tpp model_config planner_config ?strategy ?t = Inr (c, reason)"
    and cand: "assign_layers env model_config planner_config c (nat (fst ?t)) = Inr candidate"
    and sel: "select_assignments env model_config planner_config c reason (nat (fst ?t)) candidate = Inr selected"
    and desc: "describe_plan env model_name tpp model_config epoch planner_config c
        (snd (current_expert_placement_snapshot model_config planner_config)) reason (map py_str nodes) (nat (fst ?t)) selected = Inr plan"
    using assms empty pos
    by (auto simp: build_logical_expert_placement_plan_def Let_def split: if_splits)
  obtain as why ratio where selected: "selected = (as, why, ratio)" by (cases selected)
  have n: "lc_num_experts c = nat (snd ?t)" and R: "lc_rank_count c = plan_rank_count tpp"
    using c by (auto simp: build_layer_context_def Let_def split: prod.splits if_splits)
  have "valid_assignments (nat (fst ?t)) (lc_num_experts c) (lc_rank_count c) as"
    using select_assignments_valid [OF sel [unfolded selected]] assign_layers_valid [OF cand] by (simp add: R)
  moreover have "?t = (int (nat (fst ?t)), int (lc_num_experts c))" using pos n by (simp add: prod_eq_iff)
  ultimately show thesis using that R cand sel desc selected nodes by blast
qed

text \<open>
  C19. A placement plan covers the model: it names every expert of every layer exactly once, gives it
  the same expert-parallel rank, below the number of ranks of the target, in every replica, and its
  shards are exactly one for every layer, expert and replica, in this order, each with that rank of
  the replica, on the target node the ranks are dealt to; the counts it reports are these.
\<close>

theorem placement_covers_every_expert:
  assumes "build_logical_expert_placement_plan env model_name tpp model_config epoch planner_config = Inr (Some plan)"
    and "xp_placement_source plan = ''logical_reparallelization_planner''"
  shows "\<exists>L n rank vs. infer_moe_topology env model_config = (int L, int n)
    \<and> map fst (xp_expert_to_target_ranks plan) = all_expert_keys L n \<and> distinct (all_expert_keys L n)
    \<and> xp_required_expert_count plan = int (L * n) \<and> xp_covered_expert_count plan = int (L * n)
    \<and> length (xp_shards plan) = L * n * plan_replica_count tpp
    \<and> xp_planned_shard_count plan = int (length (xp_shards plan))
    \<and> (\<forall>l e. l < L \<longrightarrow> e < n \<longrightarrow> rank l e < plan_rank_count tpp
         \<and> map_of (xp_expert_to_target_rank plan) (expert_key (int l) (int e)) = Some (replica_rank_id 0 (rank l e))
         \<and> map_of (xp_expert_to_target_ranks plan) (expert_key (int l) (int e)) =
             Some (map (\<lambda>replica. replica_rank_id replica (rank l e)) [0..<plan_replica_count tpp]))
    \<and> py_iter (dget tpp ''target_nodes'' (PList [])) = Inr vs
    \<and> map (\<lambda>s. (xs_layer_id s, xs_expert_id s, xs_rank_id s, xs_gpu_id s, xs_node_id s)) (xp_shards plan) =
        concat (map (\<lambda>l. concat (map (\<lambda>e. map (\<lambda>replica.
          (int l, int e, replica_rank_id replica (rank l e), int_str (int (rank l e)),
           shard_node (map py_str vs) (plan_rank_count tpp) replica (rank l e)))
          [0..<plan_replica_count tpp]) [0..<n])) [0..<L])"
proof -
  obtain L c as why ratio source reason nodes where
    t: "infer_moe_topology env model_config = (int L, int (lc_num_experts c))"
    and R: "lc_rank_count c = plan_rank_count tpp"
    and valid: "valid_assignments L (lc_num_experts c) (lc_rank_count c) as"
    and desc: "describe_plan env model_name tpp model_config epoch planner_config c source reason nodes L (as, why, ratio) = Inr plan"
    and nodes: "\<exists>vs. py_iter (dget tpp ''target_nodes'' (PList [])) = Inr vs \<and> nodes = map py_str vs"
    by (rule built_plan [OF assms])
  obtain vs where vs: "py_iter (dget tpp ''target_nodes'' (PList [])) = Inr vs" "nodes = map py_str vs"
    using nodes by blast
  note f = describe_plan_fields [OF desc]
  have shards: "map (\<lambda>s. (xs_layer_id s, xs_expert_id s, xs_rank_id s, xs_gpu_id s, xs_node_id s)) (xp_shards plan) =
      concat (map (\<lambda>l. concat (map (\<lambda>e. map (\<lambda>replica.
        (int l, int e, replica_rank_id replica (assigned_rank as l e), int_str (int (assigned_rank as l e)),
         shard_node (map py_str vs) (plan_rank_count tpp) replica (assigned_rank as l e)))
        [0..<plan_replica_count tpp]) [0..<lc_num_experts c])) [0..<L])"
    by (simp add: f(10) expert_ranks_eq concat_concat_map map_concat comp_def make_shard_def vs(2) R)
  have keys: "map fst (xp_expert_to_target_ranks plan) = all_expert_keys L (lc_num_experts c)"
    unfolding f(2) by (simp add: expert_ranks_eq map_concat comp_def all_expert_keys_def layer_keys_def [abs_def])
  have "assigned_rank as l e < plan_rank_count tpp
      \<and> map_of (xp_expert_to_target_rank plan) (expert_key (int l) (int e)) = Some (replica_rank_id 0 (assigned_rank as l e))
      \<and> map_of (xp_expert_to_target_ranks plan) (expert_key (int l) (int e)) =
          Some (map (\<lambda>replica. replica_rank_id replica (assigned_rank as l e)) [0..<plan_replica_count tpp])"
    if "l < L" "e < lc_num_experts c" for l e
    using map_of_expert_ranks [OF that, of "\<lambda>l e rank. replica_rank_id 0 rank" as]
      map_of_expert_ranks [OF that, of "\<lambda>l e rank. map (\<lambda>replica. replica_rank_id replica rank) [0..<plan_replica_count tpp]" as]
      assigned_rank_bound [OF valid that] unfolding f(1,2) R by blast
  moreover have "length (xp_expert_to_target_rank plan) = L * lc_num_experts c" by (simp add: f(1))
  ultimately show ?thesis using t keys distinct_all_expert_keys f(3-6) shards vs(1)
    by (intro exI [of _ L] exI [of _ "lc_num_experts c"] exI [of _ "assigned_rank as"] exI [of _ vs]) simp
qed

text \<open>
  The movement a plan reports accounts for every expert of the model: each is moved, stationary or
  of unknown origin, the movement diff has an entry for exactly those that are not stationary when
  a current placement was observed, and a movement cost is only estimated when nothing is unknown.
\<close>

theorem plan_movement_accounts:
  assumes "build_logical_expert_placement_plan env model_name tpp model_config epoch planner_config = Inr (Some plan)"
    and "xp_placement_source plan = ''logical_reparallelization_planner''"
  shows "xp_moved_expert_count plan + xp_stationary_expert_count plan + xp_unknown_movement_expert_count plan
      = xp_required_expert_count plan
    \<and> (xp_expert_movement_diff plan = [] \<or>
       int (length (xp_expert_movement_diff plan)) = xp_moved_expert_count plan + xp_unknown_movement_expert_count plan)
    \<and> (xp_estimated_expert_weight_movement_cost_ms plan = None \<or> xp_unknown_movement_expert_count plan = 0)"
proof -
  obtain L c as why ratio source reason nodes where
    desc: "describe_plan env model_name tpp model_config epoch planner_config c source reason nodes L (as, why, ratio) = Inr plan"
    by (rule built_plan [OF assms])
  note f = describe_plan_fields [OF desc]
  obtain snapshot m where keys: "map fst snapshot = all_expert_keys L (lc_num_experts c)"
    and m: "build_expert_movement_diff env snapshot (lc_current_snapshot c) model_config planner_config
      = Inr (m, xp_estimated_expert_weight_movement_cost_ms plan)"
    and counts: "xp_moved_expert_count plan = int (mv_moved m)" "xp_stationary_expert_count plan = int (mv_stationary m)"
      "xp_unknown_movement_expert_count plan = int (mv_unknown m)" "xp_expert_movement_diff plan = mv_diff m"
    using f(9) by blast
  have "distinct (map fst snapshot)" by (simp add: keys distinct_all_expert_keys)
  note mv = movement_diff_counts [OF m this]
  have "length snapshot = L * lc_num_experts c"
    using arg_cong [OF keys, of length]
    by (simp add: all_expert_keys_def layer_keys_def length_concat comp_def sum_list_triv)
  then have "mv_moved m + mv_stationary m + mv_unknown m = L * lc_num_experts c" using mv(1) by simp
  then have "int (mv_moved m) + int (mv_stationary m) + int (mv_unknown m) = int (L * lc_num_experts c)"
    by (simp only: of_nat_add [symmetric])
  moreover have "mv_diff m = [] \<or> length (mv_diff m) = mv_moved m + mv_unknown m" using mv(3) by (auto split: if_splits)
  moreover have "xp_estimated_expert_weight_movement_cost_ms plan = None \<or> mv_unknown m = 0"
    using mv(4) by (cases "xp_estimated_expert_weight_movement_cost_ms plan") simp_all
  ultimately show ?thesis using f(3) by (auto simp: counts)
qed

section \<open>Rebalancing\<close>






section \<open>A plan\<close>

text \<open>
  One layer of five experts on two ranks; the current placement has the two hottest experts on the
  first rank and is almost balanced.
\<close>

definition example_model :: dict where
  "example_model = [(''num_hidden_layers'', PInt 1), (''num_experts'', PInt 5)]"

definition example_target :: dict where
  "example_target = [(''enable_expert_parallel'', PBool True), (''effective_expert_parallel_size'', PInt 2),
     (''sllm_replica_count'', PInt 1), (''target_nodes'', PList [PStr ''n1'', PStr ''n2''])]"

definition example_rank :: "string \<Rightarrow> pyval" where
  "example_rank r = PDict [(''rank_id'', PStr (''ep-rank:'' @ r))]"

definition example_planner :: dict where
  "example_planner =
     [(''target_expert_placement_strategy'', PStr ''hotness_balanced''),
      (''expert_weight_size_bytes'', PInt 1000),
      (''moe_route_global_reset_marker'', PStr ''epoch-1''),
      (''global_expert_hotness'', PDict [(''layer:0/expert:0'', PInt 31), (''layer:0/expert:1'', PInt 30),
         (''layer:0/expert:2'', PInt 20), (''layer:0/expert:3'', PInt 20), (''layer:0/expert:4'', PInt 20)]),
      (''current_expert_placement_snapshot'', PDict [(''layer:0/expert:0'', example_rank ''0''),
         (''layer:0/expert:1'', example_rank ''0''), (''layer:0/expert:2'', example_rank ''1''),
         (''layer:0/expert:3'', example_rank ''1''), (''layer:0/expert:4'', example_rank ''1'')])]"

definition example_plan :: "expert_placement_plan option res" where
  "example_plan = build_logical_expert_placement_plan example_env ''m'' example_target example_model 1 example_planner"

lemma example_plan_runs:
  "rbind example_plan (\<lambda>p. Inr (map_option (\<lambda>p. (xp_placement_source p, xp_selection_reason p, xp_moved_expert_count p)) p))
   = Inr (Some (''logical_reparallelization_planner'', ''hotness_balance_improvement_accepted'', 2))"
  by code_simp

lemma example_plan_built:
  obtains plan where "build_logical_expert_placement_plan example_env ''m'' example_target example_model 1 example_planner
      = Inr (Some plan)" "xp_placement_source plan = ''logical_reparallelization_planner''"
  using example_plan_runs unfolding example_plan_def rbind_eq_Inr by (auto simp: map_option_case split: option.splits)

theorem placement_covers_every_expert_witness:
  "\<exists>plan. example_plan = Inr (Some plan) \<and> infer_moe_topology example_env example_model = (1, 5)
     \<and> xp_covered_expert_count plan = xp_required_expert_count plan
     \<and> length (xp_shards plan) = nat (xp_required_expert_count plan) * plan_replica_count example_target"
proof -
  obtain plan where p: "build_logical_expert_placement_plan example_env ''m'' example_target example_model 1 example_planner
      = Inr (Some plan)" "xp_placement_source plan = ''logical_reparallelization_planner''"
    by (rule example_plan_built)
  have "infer_moe_topology example_env example_model = (1, 5)" by code_simp
  then show ?thesis using placement_covers_every_expert [OF p] p(1) by (auto simp: example_plan_def nat_mult_distrib)
qed

theorem plan_movement_accounts_witness:
  "\<exists>plan. example_plan = Inr (Some plan) \<and>
     xp_moved_expert_count plan + xp_stationary_expert_count plan + xp_unknown_movement_expert_count plan
      = xp_required_expert_count plan"
proof -
  obtain plan where p: "build_logical_expert_placement_plan example_env ''m'' example_target example_model 1 example_planner
      = Inr (Some plan)" "xp_placement_source plan = ''logical_reparallelization_planner''"
    by (rule example_plan_built)
  show ?thesis using plan_movement_accounts [OF p] p(1) by (auto simp: example_plan_def)
qed

definition example_context :: "(layer_context \<times> string) res" where
  "example_context = build_layer_context example_env example_target example_model example_planner ''hotness_balanced'' (1, 5)"



text \<open>
  A budget for the moving time does not bind when the time cannot be estimated: with no bandwidth
  configured the experts are moved whatever the budget is.
\<close>

lemma unknown_time_ignores_budget:
  "sl_movement_cost s = None \<Longrightarrow> retain_reason (s\<lparr>sl_max_movement_cost_ms := budget\<rparr>) = retain_reason s"
  by (cases "sl_moved_bytes s"; cases "sl_last_change_s s") (simp_all add: retain_reason_def)

text \<open>
  The improvement ratio is cut off at zero before it is compared with the minimum, which is zero
  unless it is configured, so a candidate that is worse than the current placement passes. Here the
  load penalty is 1/121 before and 19/121 after, two experts are moved for it, and the plan calls it
  an improvement.
\<close>

lemma worse_placement_accepted:
  "rbind example_plan (\<lambda>p. Inr (map_option (\<lambda>p. (xp_selection_reason p, xp_moved_expert_count p,
       xp_estimated_load_balance_penalty p)) p)) = Inr (Some (''hotness_balance_improvement_accepted'', 2, 19/121))
   \<and> rbind example_context (\<lambda>(c, reason). Inr (load_penalty (load_diagnostics example_env (current_assignments c 1)
       (hs_hotness (lc_hotness c)) (lc_rank_count c)))) = Inr (1/121)"
  by code_simp

end
