(* ===== verification/Moe_Reparallelization.thy ===== *)
theory Moe_Reparallelization
  imports Reparallelization_Props Moe_Plan_Props
begin

text \<open>
  The reparallelization planner with the repository's expert placement planner in the place of its
  parameter: what the placement planner promises of every plan holds of the plan in the decision.
\<close>

section \<open>What a decision keeps of the placement planner's promise\<close>

lemma generated_no_payload:
  assumes "generate_parallel_candidates available_gpus planner_config = Inr cs" and "c \<in> set cs"
  shows "pc_expert_placement_plan c = None"
  using assms by (auto simp: generate_parallel_candidates_def Let_def shape_candidate_def ParallelConfig_init_def
      split: if_splits)

lemma declared_no_payload:
  assumes "supported_config_candidates capability available_gpus nodes planner_config = Inr cs" and "c \<in> set cs"
  shows "pc_expert_placement_plan c = None"
proof (cases "has_supported_configs capability")
  case False
  then show ?thesis using assms by (simp add: supported_config_candidates_def)
next
  case True
  then obtain l entries cs' where cs: "cs = py_sort_rev config_key cs'"
    and r: "rfold (add_declared l available_gpus nodes planner_config) entries [] = Inr cs'"
    using assms(1) by (auto simp: supported_config_candidates_def)
  have "\<forall>c \<in> set cs'. pc_expert_placement_plan c = None"
  proof (rule rfold_invariant [OF r])
    fix entry acc acc'
    assume acc: "\<forall>c \<in> set acc. pc_expert_placement_plan c = None"
      and step: "add_declared l available_gpus nodes planner_config entry acc = Inr acc'"
    from step acc show "\<forall>c \<in> set acc'. pc_expert_placement_plan c = None"
      by (cases rule: add_declared_cases) (auto simp: declared_candidate_def ParallelConfig_init_def Let_def)
  qed simp
  then show ?thesis using assms(2) cs by simp
qed

lemma placement_estimates_payload:
  assumes "placement_estimates payload c = Inr c'"
  shows "pc_expert_placement_plan c' = Some payload"
  using assms unfolding placement_estimates_def
  by (auto simp only: rbind_eq_Inr sum.inject) simp_all

text \<open>The stage that places the selected configuration.\<close>

lemma plan_dynamic_placement:
  assumes "plan_dynamic_reparallelization place backend_plans m nodes mc raw event node_id instance_id backend = Inr d"
    and "rd_expert_placement_plan d = Some p"
  obtains c cs b config epoch plan where "rd_candidates d = c # cs"
    "place_selected place m b c nodes mc config epoch event (rd_free_overlap d) = Inr (plan, Some p)"
proof -
  define b where "b = (case backend of Some (c # cs) \<Rightarrow> c # cs | _ \<Rightarrow> py_str (dget mc ''backend'' (PStr ''unknown'')))"
  from assms(1) show ?thesis
    unfolding plan_dynamic_reparallelization_def Let_def b_def [symmetric] case_prod_unfold rbind_eq_Inr sum.inject
  proof (elim exE conjE, goal_cases)
    case (1 config availability overlap declared cs0 epoch cs1 x y z)
    have payload: "snd z = Some p" "rd_candidates d = fst y"
      "rd_free_overlap d = truthy (dget config ''require_free_gpu_overlap'' (PBool False))"
      using 1(11) assms(2) by auto
    show ?thesis
    proof (cases "fst y")
      case Nil
      then show ?thesis using 1(10) payload(1) by auto
    next
      case (Cons c cs)
      then obtain r where "place_selected place m b c nodes mc config epoch event
          (truthy (dget config ''require_free_gpu_overlap'' (PBool False))) = Inr r" "z = (Some (fst r), snd r)"
        using 1(10) by auto
      then have "place_selected place m b c nodes mc config epoch event (rd_free_overlap d) = Inr (fst r, Some p)"
        using payload by (cases r) simp
      then show ?thesis using that [of c cs b config epoch "fst r"] Cons payload(2) by simp
    qed
  qed
qed

locale expert_placement =
  fixes place :: placement_planner
    and good :: "dict \<Rightarrow> dict \<Rightarrow> bool"
  assumes place_good: "place m tpp mc epoch pc = Inr (Some p) \<Longrightarrow> good mc p"
begin

lemma attach_placement_good:
  assumes "attach_placement place m b nodes mc pc epoch event (c, strategy) st = Inr st'"
    and "\<forall>x \<in> set (c # fst st). \<forall>p. pc_expert_placement_plan x = Some p \<longrightarrow> good mc p"
  shows "\<forall>x \<in> set (fst st'). \<forall>p. pc_expert_placement_plan x = Some p \<longrightarrow> good mc p"
proof -
  obtain enriched seen where st: "st = (enriched, seen)" by (cases st)
  define key where "key payload = (pc_tensor_parallel_size c, pc_pipeline_parallel_size c,
      pc_data_parallel_size c, pc_replica_count c, py_str (dget payload ''placement_fingerprint'' (PStr '''')))" for payload
  from assms(1) obtain tpp config placement where placement: "place m tpp mc epoch config = Inr placement"
    and p: "(case placement of None \<Rightarrow> Inr (enriched @ [c], seen)
       | Some payload \<Rightarrow> if key payload \<in> set seen then Inr (enriched, seen)
           else rbind (placement_estimates payload c) (\<lambda>c'. Inr (enriched @ [c'], key payload # seen))) = Inr st'"
    unfolding attach_placement_def Let_def st case_prod_conv rbind_eq_Inr key_def by blast
  show ?thesis
  proof (cases placement)
    case None
    with p assms(2) show ?thesis by (auto simp: st)
  next
    case (Some payload)
    then have "good mc payload" using placement place_good by simp
    moreover from p Some have "fst st' = enriched \<or> (\<exists>c'. placement_estimates payload c = Inr c' \<and> fst st' = enriched @ [c'])"
      by (auto split: if_splits)
    ultimately show ?thesis using assms(2) placement_estimates_payload [of payload c] by (auto simp: st)
  qed
qed

lemma attached_good:
  assumes "attach_expert_placement_movement_estimates place cs m b nodes mc pc epoch event = Inr cs'"
    and "\<forall>x \<in> set cs. pc_expert_placement_plan x = None"
  shows "\<forall>x \<in> set cs'. \<forall>p. pc_expert_placement_plan x = Some p \<longrightarrow> good mc p"
proof (cases "cs = [] \<or> dgetn pc ''disable_logical_expert_placement'' = PBool True")
  case True
  then show ?thesis using assms by (simp add: attach_expert_placement_movement_estimates_def)
next
  case False
  then obtain seen where r: "rfold (attach_placement place m b nodes mc pc epoch event)
      (List.product cs (placement_strategies pc)) ([], []) = Inr (cs', seen)"
    using assms(1) by (auto simp: attach_expert_placement_movement_estimates_def)
  have "\<forall>x \<in> set (fst (cs', seen)). \<forall>p. pc_expert_placement_plan x = Some p \<longrightarrow> good mc p"
  proof (rule rfold_invariant [OF r])
    fix pair st st'
    assume pair: "pair \<in> set (List.product cs (placement_strategies pc))"
      and st: "\<forall>x \<in> set (fst st). \<forall>p. pc_expert_placement_plan x = Some p \<longrightarrow> good mc p"
      and step: "attach_placement place m b nodes mc pc epoch event pair st = Inr st'"
    obtain c strategy where cs: "pair = (c, strategy)" by (cases pair)
    then have "pc_expert_placement_plan c = None" using pair assms(2) by simp
    then show "\<forall>x \<in> set (fst st'). \<forall>p. pc_expert_placement_plan x = Some p \<longrightarrow> good mc p"
      using st by (intro attach_placement_good [OF step [unfolded cs]]) simp
  qed simp
  then show ?thesis by simp
qed

lemma decision_good:
  assumes "plan_dynamic_reparallelization place backend_plans m nodes mc raw event node_id instance_id backend = Inr d"
    and "rd_expert_placement_plan d = Some p"
  shows "good mc p"
proof -
  obtain c cs b config epoch plan where c: "rd_candidates d = c # cs"
    and sel: "place_selected place m b c nodes mc config epoch event (rd_free_overlap d) = Inr (plan, Some p)"
    by (rule plan_dynamic_placement [OF assms])
  have "\<forall>x \<in> set (rd_candidates d). \<forall>p. pc_expert_placement_plan x = Some p \<longrightarrow> good mc p"
    using assms(1)
  proof (rule plan_dynamic_stages)
    fix config availability overlap cs0 epoch cs1 cs2 lookup b
    assume src: "if has_supported_configs (get_backend_capability backend_plans mc)
         then supported_config_candidates (get_backend_capability backend_plans mc) (rd_available_gpus d) nodes config = Inr cs0
         else generate_parallel_candidates (rd_available_gpus d) config = Inr cs0"
      and cs1: "attach_expert_placement_movement_estimates place cs0 m b nodes mc config epoch event = Inr cs1"
      and cs2: "attach_exact_placement_profiles cs1 config = Inr (cs2, lookup)"
      and cs3: "score_parallel_candidates_for_workload cs2 config mc = Inr (rd_candidates d, rd_cost_report d)"
    have "\<forall>x \<in> set cs0. pc_expert_placement_plan x = None"
      using src declared_no_payload generated_no_payload by (auto split: if_splits)
    then have one: "\<forall>x \<in> set cs1. \<forall>p. pc_expert_placement_plan x = Some p \<longrightarrow> good mc p" by (rule attached_good [OF cs1])
    have sub: "pc_expert_placement_plan ` set (rd_candidates d) \<subseteq> pc_expert_placement_plan ` set cs1"
      by (rule order_trans [OF payloads.scored [OF cs3] payloads.profiled_kept [OF cs2]])
    show ?thesis
    proof (intro ballI allI impI)
      fix x p assume "x \<in> set (rd_candidates d)" "pc_expert_placement_plan x = Some p"
      then have "Some p \<in> pc_expert_placement_plan ` set cs1" using sub by (metis imageI subsetD)
      then show "good mc p" using one by (metis imageE)
    qed
  qed
  then have "\<forall>p. pc_expert_placement_plan c = Some p \<longrightarrow> good mc p" using c by simp
  then show ?thesis
    using sel place_good unfolding place_selected_def rbind_eq_Inr
    by (auto split: if_splits option.splits)
qed

end

section \<open>The repository's placement planner\<close>

text \<open>
  A plan, as a dictionary, covers the experts of the model: every expert of the topology has a target
  rank, once. A plan that names no placement promises nothing.
\<close>

definition covers_experts :: "moe_env \<Rightarrow> dict \<Rightarrow> dict \<Rightarrow> bool" where
  "covers_experts env model_config p \<longleftrightarrow>
     dgetn p ''placement_source'' \<noteq> PStr ''logical_reparallelization_planner''
     \<or> (\<exists>L n ranks. infer_moe_topology env model_config = (int L, int n)
          \<and> dgetn p ''expert_to_target_rank'' = PDict ranks \<and> map fst ranks = all_expert_keys L n
          \<and> dgetn p ''required_expert_count'' = PInt (int (L * n))
          \<and> dgetn p ''covered_expert_count'' = PInt (int (L * n)))"

lemma plan_dict_lookups:
  "dgetn (ExpertPlacementPlan_to_dict plan) ''placement_source'' = PStr (xp_placement_source plan)"
  "dgetn (ExpertPlacementPlan_to_dict plan) ''expert_to_target_rank'' =
     PDict (map (\<lambda>(k, r). (k, PStr r)) (xp_expert_to_target_rank plan))"
  "dgetn (ExpertPlacementPlan_to_dict plan) ''required_expert_count'' = PInt (xp_required_expert_count plan)"
  "dgetn (ExpertPlacementPlan_to_dict plan) ''covered_expert_count'' = PInt (xp_covered_expert_count plan)"
  by (simp_all add: ExpertPlacementPlan_to_dict_def dgetn_def dget_def)

lemma logical_plan_covers:
  assumes "build_logical_expert_placement_plan env m tpp model_config epoch planner_config = Inr (Some plan)"
  shows "covers_experts env model_config (ExpertPlacementPlan_to_dict plan)"
proof (cases "xp_placement_source plan = ''logical_reparallelization_planner''")
  case True
  obtain L c as why ratio source reason nodes where
    t: "infer_moe_topology env model_config = (int L, int (lc_num_experts c))"
    and desc: "describe_plan env m tpp model_config epoch planner_config c source reason nodes L (as, why, ratio) = Inr plan"
    by (rule built_plan [OF assms True])
  note f = describe_plan_fields [OF desc]
  have "map fst (xp_expert_to_target_rank plan) = all_expert_keys L (lc_num_experts c)"
    unfolding f(1) by (simp add: expert_ranks_eq map_concat comp_def all_expert_keys_def layer_keys_def [abs_def])
  then show ?thesis
    unfolding covers_experts_def plan_dict_lookups using t f(1,3,4) by (auto simp: comp_def case_prod_unfold)
next
  case False
  then show ?thesis by (simp add: covers_experts_def plan_dict_lookups)
qed

interpretation logical: expert_placement "logical_placement_planner env" "covers_experts env" for env
proof
  fix m tpp mc epoch pc p
  assume "logical_placement_planner env m tpp mc epoch pc = Inr (Some p)"
  then show "covers_experts env mc p"
    using logical_plan_covers by (auto simp: logical_placement_planner_def)
qed

text \<open>
  C18. The two planners together: when the reparallelization planner runs with the repository's expert
  placement planner, the placement in its decision, if it names one, gives every expert of every layer
  of the model a target rank, and the counts it reports are the number of experts of the model.
\<close>

theorem decision_covers_experts:
  assumes "plan_dynamic_reparallelization (logical_placement_planner env) backend_plans m nodes model_config raw
      event node_id instance_id backend = Inr d"
    and "rd_expert_placement_plan d = Some p"
    and "dgetn p ''placement_source'' = PStr ''logical_reparallelization_planner''"
  shows "\<exists>L n ranks. infer_moe_topology env model_config = (int L, int n)
    \<and> dgetn p ''expert_to_target_rank'' = PDict ranks \<and> map fst ranks = all_expert_keys L n
    \<and> dgetn p ''required_expert_count'' = PInt (int (L * n)) \<and> dgetn p ''covered_expert_count'' = PInt (int (L * n))"
  using logical.decision_good [OF assms(1,2)] assms(3) unfolding covers_experts_def by blast

text \<open>A model of one layer with two experts on a cluster with one GPU.\<close>

definition example_decision :: "reparallel_decision res" where
  "example_decision = plan_dynamic_reparallelization (logical_placement_planner example_env) ex_no_plans ''m''
     [(''n0'', ex_node READY 1)] [(''num_hidden_layers'', PInt 1), (''num_experts'', PInt 2)] []
     (Some ''preempt'') (Some ''n1'') None None"

lemma example_decision_runs:
  "rbind example_decision (\<lambda>d. Inr (map_option (\<lambda>p. dgetn p ''placement_source'') (rd_expert_placement_plan d)))
   = Inr (Some (PStr ''logical_reparallelization_planner''))"
  by code_simp

theorem decision_covers_experts_witness:
  "\<exists>d p ranks. example_decision = Inr d \<and> rd_expert_placement_plan d = Some p
     \<and> dgetn p ''expert_to_target_rank'' = PDict ranks \<and> map fst ranks = [''layer:0/expert:0'', ''layer:0/expert:1'']"
proof -
  obtain d p where d: "example_decision = Inr d" "rd_expert_placement_plan d = Some p"
    "dgetn p ''placement_source'' = PStr ''logical_reparallelization_planner''"
    using example_decision_runs unfolding rbind_eq_Inr by (auto simp: map_option_case split: option.splits)
  have t: "infer_moe_topology example_env [(''num_hidden_layers'', PInt 1), (''num_experts'', PInt 2)] = (int 1, int 2)"
    by code_simp
  have keys: "all_expert_keys 1 2 = [''layer:0/expert:0'', ''layer:0/expert:1'']" by code_simp
  from decision_covers_experts [OF d(1) [unfolded example_decision_def] d(2,3)] t keys d(1,2)
  show ?thesis by auto
qed

end
