(* ===== verification/Instance_Handle.thy ===== *)
theory Instance_Handle
  imports Py_Prelude
begin

text \<open>
  The handle a router keeps for an instance, \<open>InstanceHandle\<close> of \<open>src/sllm/utils.py\<close>: its life cycle,
  the admission of requests and the number of requests it holds. Every method takes the lock of the
  handle and does not suspend while it has it, so each is one atomic operation. The backend actor is
  a reference, here a number; it is \<open>None\<close> before the actor exists and after it was revoked.
\<close>

datatype instance_state = STARTING | READY | BUSY | DRAINING | PREEMPTING | DEAD

fun instance_state_value :: "instance_state \<Rightarrow> string" where
  "instance_state_value STARTING = ''starting''"
| "instance_state_value READY = ''ready''"
| "instance_state_value BUSY = ''busy''"
| "instance_state_value DRAINING = ''draining''"
| "instance_state_value PREEMPTING = ''preempting''"
| "instance_state_value DEAD = ''dead''"

record instance_handle =
  ih_instance_id :: string
  ih_max_queue_length :: int
  ih_num_gpu :: int
  ih_node_id :: "string option"
  ih_backend_instance :: "nat option"
  ih_ready :: bool
  ih_concurrency :: int
  ih_state :: instance_state
  ih_member_node_ids :: "string list"
  ih_node_allocations :: "(string \<times> int) list"
  ih_preemption_deadline_time_s :: "rat option"

definition InstanceHandle :: "string \<Rightarrow> int \<Rightarrow> int \<Rightarrow> instance_handle" where
  "InstanceHandle instance_id max_queue_length num_gpu =
     \<lparr>ih_instance_id = instance_id, ih_max_queue_length = max_queue_length, ih_num_gpu = num_gpu,
      ih_node_id = None, ih_backend_instance = None, ih_ready = False, ih_concurrency = 0,
      ih_state = STARTING, ih_member_node_ids = [], ih_node_allocations = [],
      ih_preemption_deadline_time_s = None\<rparr>"

text \<open>\<open>list(dict.fromkeys(...))\<close> keeps the first occurrence of every node.\<close>

definition worker_node_ids :: "instance_handle \<Rightarrow> string list" where
  "worker_node_ids self =
     py_unique (ih_member_node_ids self @ (case ih_node_id self of Some node \<Rightarrow> [node] | None \<Rightarrow> []))"

definition can_accept_request :: "int \<Rightarrow> instance_handle \<Rightarrow> bool" where
  "can_accept_request num_requests self =
     (if num_requests \<le> 0 then 0 \<le> ih_concurrency self + num_requests
      else if \<not> ih_ready self then False
      else if ih_state self \<in> {STARTING, DRAINING, PREEMPTING, DEAD} then False
      else ih_concurrency self + num_requests \<le> ih_max_queue_length self)"

definition add_requests :: "int \<Rightarrow> instance_handle \<Rightarrow> bool \<times> instance_handle" where
  "add_requests num_requests self =
     (if \<not> can_accept_request num_requests self then (False, self)
      else (True, self\<lparr>ih_concurrency := ih_concurrency self + num_requests\<rparr>))"

definition mark_ready :: "string option \<Rightarrow> instance_handle \<Rightarrow> bool \<times> instance_handle" where
  "mark_ready node_id self =
     (let self = (case node_id of Some node \<Rightarrow> self\<lparr>ih_node_id := Some node\<rparr> | None \<Rightarrow> self) in
      if ih_state self \<in> {DRAINING, PREEMPTING, DEAD} then (False, self)
      else (True, self\<lparr>ih_ready := True, ih_state := READY\<rparr>))"

definition mark_draining :: "instance_handle \<Rightarrow> instance_handle" where
  "mark_draining self = self\<lparr>ih_ready := False, ih_state := DRAINING\<rparr>"

definition mark_ready_after_drain :: "int option \<Rightarrow> instance_handle \<Rightarrow> bool \<times> instance_handle" where
  "mark_ready_after_drain num_gpu self =
     (if ih_state self \<noteq> DRAINING then (False, self)
      else let self = (case num_gpu of Some n \<Rightarrow> self\<lparr>ih_num_gpu := n\<rparr> | None \<Rightarrow> self)
           in (True, self\<lparr>ih_ready := True, ih_state := READY\<rparr>))"

definition mark_preempting :: "instance_handle \<Rightarrow> instance_handle" where
  "mark_preempting self = self\<lparr>ih_ready := False, ih_state := PREEMPTING\<rparr>"

definition mark_dead :: "instance_handle \<Rightarrow> instance_handle" where
  "mark_dead self = self\<lparr>ih_ready := False, ih_state := DEAD\<rparr>"

definition mark_recovered :: "instance_handle \<Rightarrow> bool \<times> instance_handle" where
  "mark_recovered self =
     (if ih_state self \<noteq> PREEMPTING then (False, self)
      else (True, self\<lparr>ih_ready := True, ih_state := READY\<rparr>))"

record instance_status =
  ist_instance_id :: string
  ist_node_id :: "string option"
  ist_num_gpu :: int
  ist_concurrency :: int
  ist_state :: string
  ist_member_node_ids :: "string list"

definition get_status :: "instance_handle \<Rightarrow> instance_status" where
  "get_status self =
     \<lparr>ist_instance_id = ih_instance_id self, ist_node_id = ih_node_id self, ist_num_gpu = ih_num_gpu self,
      ist_concurrency = ih_concurrency self, ist_state = instance_state_value (ih_state self),
      ist_member_node_ids = worker_node_ids self\<rparr>"

section \<open>Sequences of operations\<close>

text \<open>One call of a method of the handle, and the handle after a sequence of calls.\<close>

datatype handle_op =
    Add_Requests int
  | Mark_Ready "string option"
  | Mark_Draining
  | Mark_Ready_After_Drain "int option"
  | Mark_Preempting
  | Mark_Dead
  | Mark_Recovered

fun apply_op :: "handle_op \<Rightarrow> instance_handle \<Rightarrow> instance_handle" where
  "apply_op (Add_Requests n) h = snd (add_requests n h)"
| "apply_op (Mark_Ready node_id) h = snd (mark_ready node_id h)"
| "apply_op Mark_Draining h = mark_draining h"
| "apply_op (Mark_Ready_After_Drain n) h = snd (mark_ready_after_drain n h)"
| "apply_op Mark_Preempting h = mark_preempting h"
| "apply_op Mark_Dead h = mark_dead h"
| "apply_op Mark_Recovered h = snd (mark_recovered h)"

definition apply_ops :: "handle_op list \<Rightarrow> instance_handle \<Rightarrow> instance_handle" where
  "apply_ops ops h = fold apply_op ops h"

text \<open>The operations that open a closed handle again.\<close>

fun reopens :: "handle_op \<Rightarrow> bool" where
  "reopens (Mark_Ready_After_Drain _) = True"
| "reopens Mark_Recovered = True"
| "reopens _ = False"

section \<open>Admission\<close>

definition handle_ok :: "instance_handle \<Rightarrow> bool" where
  "handle_ok h \<longleftrightarrow> 0 \<le> ih_concurrency h \<and> ih_concurrency h \<le> max 0 (ih_max_queue_length h)
     \<and> (ih_ready h \<longleftrightarrow> ih_state h \<in> {READY, BUSY})"

definition closed :: "instance_handle \<Rightarrow> bool" where
  "closed h \<longleftrightarrow> \<not> ih_ready h \<and> ih_state h \<in> {DRAINING, PREEMPTING, DEAD}"

lemmas handle_defs = add_requests_def can_accept_request_def mark_ready_def mark_draining_def
  mark_ready_after_drain_def mark_preempting_def mark_dead_def mark_recovered_def Let_def

lemma new_handle_ok: "handle_ok (InstanceHandle i q g)"
  by (simp add: handle_ok_def InstanceHandle_def)

lemma apply_op_ok: "handle_ok h \<Longrightarrow> handle_ok (apply_op op h)"
  by (cases op) (auto simp: handle_defs handle_ok_def split: option.splits)

lemma apply_op_queue_length: "ih_max_queue_length (apply_op op h) = ih_max_queue_length h"
  by (cases op) (auto simp: handle_defs split: option.splits)

lemma apply_ops_ok: "handle_ok h \<Longrightarrow> handle_ok (apply_ops ops h)"
  unfolding apply_ops_def by (induction ops arbitrary: h) (simp_all add: apply_op_ok)

lemma apply_op_closed: "closed h \<Longrightarrow> \<not> reopens op \<Longrightarrow> closed (apply_op op h)"
  by (cases op) (auto simp: handle_defs closed_def split: option.splits)

lemma apply_ops_closed: "closed h \<Longrightarrow> list_all (Not \<circ> reopens) ops \<Longrightarrow> closed (apply_ops ops h)"
  unfolding apply_ops_def by (induction ops arbitrary: h) (simp_all add: apply_op_closed)

lemma closed_refuses: "closed h \<Longrightarrow> 0 < n \<Longrightarrow> \<not> can_accept_request n h"
  by (simp add: closed_def can_accept_request_def)

text \<open>
  Over any sequence of calls on a new handle the requests it holds are never negative and never
  more than its queue length, and it is marked ready exactly while its state lets requests in.
\<close>

theorem handle_admission_bounds:
  "let h = apply_ops ops (InstanceHandle i q g) in
     0 \<le> ih_concurrency h \<and> ih_concurrency h \<le> max 0 q \<and> (ih_ready h \<longleftrightarrow> ih_state h \<in> {READY, BUSY})"
proof -
  have "ih_max_queue_length (apply_ops ops h) = ih_max_queue_length h" for h
    unfolding apply_ops_def by (induction ops arbitrary: h) (simp_all add: apply_op_queue_length)
  then show ?thesis
    using apply_ops_ok [OF new_handle_ok, of ops i q g] by (simp add: handle_ok_def Let_def InstanceHandle_def)
qed

text \<open>
  A notice closes an instance: after a preemption, a drain or a death it takes no new request,
  whatever is called on it, until it is recovered from the preemption or reopened after the drain.
\<close>

theorem notice_closes_admission:
  assumes "notice \<in> {Mark_Preempting, Mark_Draining, Mark_Dead}" and "list_all (Not \<circ> reopens) ops" and "0 < n"
  shows "\<not> can_accept_request n (apply_ops (notice # ops) h)
    \<and> fst (add_requests n (apply_ops (notice # ops) h)) = False"
proof -
  have "closed (apply_op notice h)" using assms(1) by (auto simp: handle_defs closed_def)
  then have "closed (apply_ops (notice # ops) h)"
    using apply_ops_closed [OF _ assms(2)] by (simp add: apply_ops_def)
  then show ?thesis using closed_refuses [OF _ assms(3)] by (simp add: add_requests_def)
qed

theorem notice_closes_admission_witness:
  "fst (add_requests 1 (apply_ops [Mark_Preempting, Mark_Ready None, Add_Requests (-1)] (InstanceHandle ''i'' 4 1))) = False
   \<and> can_accept_request 1 (apply_ops [Mark_Preempting, Mark_Recovered] (InstanceHandle ''i'' 4 1))"
proof
  show "fst (add_requests 1 (apply_ops [Mark_Preempting, Mark_Ready None, Add_Requests (-1)] (InstanceHandle ''i'' 4 1))) = False"
    using notice_closes_admission [of Mark_Preempting "[Mark_Ready None, Add_Requests (-1)]" 1 "InstanceHandle ''i'' 4 1"] by simp
  show "can_accept_request 1 (apply_ops [Mark_Preempting, Mark_Recovered] (InstanceHandle ''i'' 4 1))" by code_simp
qed

text \<open>
  Death is not final: a preemption notice overwrites it, so that a recovery opens an instance again
  whose backend was revoked when it died.
\<close>

lemma dead_instance_revived:
  "let h = apply_ops [Mark_Ready None, Mark_Dead, Mark_Preempting, Mark_Recovered] (InstanceHandle ''i'' 4 1) in
     ih_backend_instance h = None \<and> can_accept_request 1 h"
  by code_simp

end
