(* ===== verification/Router_Pools.thy ===== *)
theory Router_Pools
  imports Instance_Handle
begin

text \<open>
  The instances of a model and their requests in \<open>src/sllm/routers/roundrobin_router.py\<close>: the pools
  of starting, ready, deleting and failed instances, the queue of requests, the round-robin load
  balancer, the auto scaler, the start and the end of instances, the switch to another deployment,
  the spot events and the shutdown. Handles are shared objects, so the state has a store of handles
  and the pools hold their ids, in insertion order as the dictionaries of the source.

  A coroutine suspends only at a remote call, a sleep, an empty queue or an unset future: the locks
  of the router protect stretches without such a point, so they are never found taken. The functions
  below are these stretches; \<open>router_step\<close> in \<open>Router_Pools_Props\<close> lets them interleave. Futures and
  attempts are numbered. What the backends and the scheduler answer is an argument.
\<close>

section \<open>State\<close>

datatype scaler = Looping | Stopping

record router =
  rt_handles :: "(string \<times> instance_handle) list"
  rt_starting :: "string list"
  rt_ready :: "string list"
  rt_deleting :: "string list"
  rt_failed :: "string list"
  rt_start_tasks :: "string list"
  rt_finish_tasks :: "string list"
  rt_request_queue :: "nat list"
  rt_balancer :: "nat option"
  rt_round_robin_index :: nat
  rt_waiting :: "nat list"
  rt_assigned :: "(nat \<times> string) list"
  rt_attempts :: "(nat \<times> string) list"
  rt_next :: nat
  rt_request_count :: int
  rt_idle_time :: int
  rt_scaler :: scaler
  rt_auto_scaling_config :: dict
  rt_num_gpus :: int
  rt_count_preempting :: bool
  rt_execution_active :: bool
  rt_running :: bool

text \<open>
  \<open>rt_waiting\<close> are the futures that requests await, \<open>rt_assigned\<close> the futures with a result,
  \<open>rt_attempts\<close> the attempts that hold a request slot of an instance, until they release it.
\<close>

definition RoundRobinRouter :: "dict \<Rightarrow> int \<Rightarrow> bool \<Rightarrow> router" where
  "RoundRobinRouter auto_scaling_config num_gpus count_preempting =
     \<lparr>rt_handles = [], rt_starting = [], rt_ready = [], rt_deleting = [], rt_failed = [],
      rt_start_tasks = [], rt_finish_tasks = [], rt_request_queue = [], rt_balancer = None,
      rt_round_robin_index = 0, rt_waiting = [], rt_assigned = [], rt_attempts = [], rt_next = 0,
      rt_request_count = 0, rt_idle_time = 0, rt_scaler = Looping,
      rt_auto_scaling_config = auto_scaling_config, rt_num_gpus = num_gpus,
      rt_count_preempting = count_preempting, rt_execution_active = False, rt_running = True\<rparr>"

definition handle_of :: "router \<Rightarrow> string \<Rightarrow> instance_handle" where
  "handle_of r i = dget (rt_handles r) i (InstanceHandle i 0 0)"

definition on_handle :: "string \<Rightarrow> (instance_handle \<Rightarrow> instance_handle) \<Rightarrow> router \<Rightarrow> router" where
  "on_handle i f r = r\<lparr>rt_handles := map (\<lambda>(k, h). (k, if k = i then f h else h)) (rt_handles r)\<rparr>"

text \<open>\<open>pool[i] = instance\<close>: a key that is there keeps its place.\<close>

definition put_id :: "string \<Rightarrow> string list \<Rightarrow> string list" where
  "put_id i pool = (if i \<in> set pool then pool else pool @ [i])"

section \<open>Requests\<close>

text \<open>\<open>_allocate_instance_for_request\<close> up to the await of its future, and from there on.\<close>

definition enqueue_request :: "router \<Rightarrow> router" where
  "enqueue_request r =
     r\<lparr>rt_request_queue := rt_request_queue r @ [rt_next r],
       rt_waiting := rt_waiting r @ [rt_next r], rt_next := Suc (rt_next r)\<rparr>"

definition claim_instance :: "nat \<Rightarrow> router \<Rightarrow> (string res \<times> router) option" where
  "claim_instance f r =
     (case map_of (rt_assigned r) f of
        None \<Rightarrow> None
      | Some i \<Rightarrow>
          let r1 = r\<lparr>rt_waiting := filter (\<lambda>g. g \<noteq> f) (rt_waiting r),
                     rt_assigned := filter (\<lambda>(g, _). g \<noteq> f) (rt_assigned r)\<rparr>
          in if i \<notin> set (rt_ready r) then Some (Inl (RuntimeError ''Instance not found''), r1)
             else Some (Inr i, r1\<lparr>rt_attempts := rt_attempts r @ [(f, i)]\<rparr>))"

text \<open>The reservation at the end of \<open>_plan_stateful_recovery_target\<close>.\<close>

definition reserve_target :: "string \<Rightarrow> router \<Rightarrow> bool \<times> router" where
  "reserve_target i r =
     (if \<not> fst (add_requests 1 (handle_of r i)) then (False, r)
      else (True, (on_handle i (\<lambda>h. snd (add_requests 1 h)) r)\<lparr>rt_attempts := rt_attempts r @ [(rt_next r, i)],
                                          rt_next := Suc (rt_next r)\<rparr>))"

definition release_instance_request :: "nat \<Rightarrow> router \<Rightarrow> router" where
  "release_instance_request f r =
     (case map_of (rt_attempts r) f of
        None \<Rightarrow> r
      | Some i \<Rightarrow> (on_handle i (\<lambda>h. snd (add_requests (-1) h)) r)
                    \<lparr>rt_attempts := filter (\<lambda>(g, _). g \<noteq> f) (rt_attempts r)\<rparr>)"

definition begin_request :: "router \<Rightarrow> router" where
  "begin_request r = r\<lparr>rt_request_count := rt_request_count r + 1, rt_idle_time := 0\<rparr>"

definition end_request :: "router \<Rightarrow> router" where
  "end_request r = r\<lparr>rt_request_count := rt_request_count r - 1\<rparr>"

section \<open>Load balancer\<close>

text \<open>
  \<open>_load_balancer_loop\<close>: it takes a future from the queue; then, after every sleep, it looks for the
  ready instances that can take a request and offers it to the next one in turn.
\<close>

definition balancer_take :: "router \<Rightarrow> router" where
  "balancer_take r =
     (case (rt_balancer r, rt_request_queue r) of
        (None, f # q) \<Rightarrow> r\<lparr>rt_balancer := Some f, rt_request_queue := q\<rparr>
      | _ \<Rightarrow> r)"

definition instance_options :: "router \<Rightarrow> string list" where
  "instance_options r = filter (\<lambda>i. can_accept_request 1 (handle_of r i)) (rt_ready r)"

definition balancer_try :: "router \<Rightarrow> router" where
  "balancer_try r =
     (case rt_balancer r of
        None \<Rightarrow> r
      | Some f \<Rightarrow>
          let options = instance_options r in
          if options = [] then r
          else let i = options ! (rt_round_robin_index r mod length options);
                   r1 = r\<lparr>rt_round_robin_index := Suc (rt_round_robin_index r)\<rparr>
               in if i \<notin> set (rt_ready r1) then r1
                  else if fst (add_requests 1 (handle_of r1 i))
                  then (on_handle i (\<lambda>h. snd (add_requests 1 h)) r1)
                         \<lparr>rt_assigned := rt_assigned r1 @ [(f, i)], rt_balancer := None\<rparr>
                  else r1)"

section \<open>Auto scaler\<close>

text \<open>A number of the scaling configuration; other values would raise in the arithmetic.\<close>

definition int_field :: "dict \<Rightarrow> string \<Rightarrow> int \<Rightarrow> int res" where
  "int_field config key z =
     (case dget config key (PInt z) of
        PInt n \<Rightarrow> Inr n
      | PBool b \<Rightarrow> Inr (if b then 1 else 0)
      | PFloat _ \<Rightarrow> Inl OutOfModel
      | _ \<Rightarrow> Inl TypeError)"

definition auto_scaler :: "int \<Rightarrow> dict \<Rightarrow> int res" where
  "auto_scaler request_count config =
     rbind (int_field config ''target'' 2) (\<lambda>target.
     if target = 0 then Inl ZeroDivisionError
     else rbind (int_field config ''min_instances'' 0) (\<lambda>min_instances.
          rbind (int_field config ''max_instances'' 10) (\<lambda>max_instances.
          Inr (min max_instances (max min_instances ((request_count + target - 1) div target))))))"

definition counts_toward_capacity :: "router \<Rightarrow> string \<Rightarrow> bool" where
  "counts_toward_capacity r i =
     (ih_state (handle_of r i) \<in> {STARTING, READY, BUSY}
      \<or> rt_count_preempting r \<and> ih_state (handle_of r i) = PREEMPTING)"

definition num_running_instances :: "router \<Rightarrow> int" where
  "num_running_instances r = int (length (filter (counts_toward_capacity r) (rt_starting r @ rt_ready r)))"

definition create_instance :: "string \<Rightarrow> router \<Rightarrow> router res" where
  "create_instance i r =
     rbind (if dget (rt_auto_scaling_config r) ''metric'' (PStr '''') = PStr ''concurrency''
            then int_field (rt_auto_scaling_config r) ''target'' 1 else Inr 1) (\<lambda>max_request_length.
     Inr (r\<lparr>rt_handles := rt_handles r @ [(i, InstanceHandle i max_request_length (rt_num_gpus r))],
            rt_starting := put_id i (rt_starting r), rt_start_tasks := put_id i (rt_start_tasks r)\<rparr>))"

text \<open>\<open>_stop_instance\<close> without an id, once an instance is ready: \<open>popitem\<close> takes the newest.\<close>

definition stop_instance :: "router \<Rightarrow> router" where
  "stop_instance r =
     (if rt_ready r = [] then r
      else let i = last (rt_ready r) in
           on_handle i mark_draining
             (r\<lparr>rt_ready := butlast (rt_ready r), rt_deleting := put_id i (rt_deleting r),
                rt_finish_tasks := put_id i (rt_finish_tasks r), rt_idle_time := 0, rt_scaler := Looping\<rparr>))"

definition scaler_tick :: "string \<Rightarrow> router \<Rightarrow> router res" where
  "scaler_tick new_id r =
     rbind (auto_scaler (rt_request_count r) (rt_auto_scaling_config r)) (\<lambda>desired.
     if rt_execution_active r then Inr r
     else if num_running_instances r < desired then create_instance new_id r
     else if desired < num_running_instances r then
       rbind (int_field (rt_auto_scaling_config r) ''keep_alive'' 0) (\<lambda>keep_alive.
       if keep_alive \<le> rt_idle_time r
       then Inr (if rt_ready r = [] then r\<lparr>rt_scaler := Stopping\<rparr> else stop_instance r)
       else Inr (r\<lparr>rt_idle_time := rt_idle_time r + 1\<rparr>))
     else Inr r)"

section \<open>Start and end of an instance\<close>

text \<open>
  \<open>_start_instance\<close>: resources were allocated and the actor was created; its backend is initialised;
  or the start failed, or was cancelled. An instance that nobody tracks any more is shut down.
\<close>

definition start_placed ::
  "string \<Rightarrow> string \<Rightarrow> string list \<Rightarrow> (string \<times> int) list \<Rightarrow> nat \<Rightarrow> router \<Rightarrow> router" where
  "start_placed i node allocated_nodes node_allocations actor r =
     on_handle i (\<lambda>h. h\<lparr>ih_node_id := Some node,
         ih_member_node_ids := (if allocated_nodes = [] then [node] else allocated_nodes),
         ih_node_allocations := (if node_allocations = [] then [(node, rt_num_gpus r)] else node_allocations),
         ih_backend_instance := Some actor\<rparr>) r"

definition end_start_task :: "string \<Rightarrow> router \<Rightarrow> router" where
  "end_start_task i r = r\<lparr>rt_start_tasks := filter (\<lambda>j. j \<noteq> i) (rt_start_tasks r)\<rparr>"

definition start_ready :: "string \<Rightarrow> string \<Rightarrow> router \<Rightarrow> router" where
  "start_ready i node r =
     (let r1 = end_start_task i (on_handle i (\<lambda>h. snd (mark_ready (Some node) h)) r) in
      if i \<notin> set (rt_starting r1) then on_handle i mark_dead r1
      else r1\<lparr>rt_ready := put_id i (rt_ready r1), rt_starting := filter (\<lambda>j. j \<noteq> i) (rt_starting r1)\<rparr>)"

definition start_failed :: "string \<Rightarrow> router \<Rightarrow> router" where
  "start_failed i r =
     (let r1 = end_start_task i (on_handle i mark_dead r)
      in r1\<lparr>rt_starting := filter (\<lambda>j. j \<noteq> i) (rt_starting r1), rt_failed := put_id i (rt_failed r1)\<rparr>)"

definition start_cancelled :: "string \<Rightarrow> router \<Rightarrow> router" where
  "start_cancelled i r =
     (let r1 = end_start_task i r in r1\<lparr>rt_starting := filter (\<lambda>j. j \<noteq> i) (rt_starting r1)\<rparr>)"

definition finish_instance :: "string \<Rightarrow> router \<Rightarrow> router" where
  "finish_instance i r =
     (let r1 = r\<lparr>rt_finish_tasks := filter (\<lambda>j. j \<noteq> i) (rt_finish_tasks r)\<rparr> in
      if i \<notin> set (rt_deleting r) then r1
      else on_handle i mark_dead (r1\<lparr>rt_deleting := filter (\<lambda>j. j \<noteq> i) (rt_deleting r)\<rparr>))"

definition without :: "string \<Rightarrow> string list \<Rightarrow> string list" where
  "without i pool = filter (\<lambda>j. j \<noteq> i) pool"

text \<open>\<open>_shutdown_instance\<close> takes the instance out of the first pool that has it.\<close>

definition shutdown_instance :: "string \<Rightarrow> router \<Rightarrow> router" where
  "shutdown_instance i r =
     (if i \<in> set (rt_ready r) then on_handle i mark_dead (r\<lparr>rt_ready := without i (rt_ready r)\<rparr>)
      else if i \<in> set (rt_starting r) then on_handle i mark_dead (r\<lparr>rt_starting := without i (rt_starting r)\<rparr>)
      else if i \<in> set (rt_deleting r) then on_handle i mark_dead (r\<lparr>rt_deleting := without i (rt_deleting r)\<rparr>)
      else if i \<in> set (rt_failed r) then on_handle i mark_dead (r\<lparr>rt_failed := without i (rt_failed r)\<rparr>)
      else r)"

text \<open>
  \<open>shutdown\<close>: the requests still queued are taken out and unpacked as a pair of request data and a
  future, but the queue holds futures, and a pending future cannot be unpacked. \<open>cancelled\<close> are the
  instances whose start was cancelled in time.
\<close>

definition shutdown_router :: "string list \<Rightarrow> router \<Rightarrow> string list res \<times> router" where
  "shutdown_router cancelled r =
     (let r1 = r\<lparr>rt_running := False, rt_start_tasks := filter (\<lambda>j. j \<notin> set cancelled) (rt_start_tasks r),
                 rt_starting := filter (\<lambda>j. j \<notin> set cancelled) (rt_starting r)\<rparr> in
      case rt_request_queue r1 of
        f # q \<Rightarrow> (Inl (RuntimeError ''await wasn't used with future''), r1\<lparr>rt_request_queue := q\<rparr>)
      | [] \<Rightarrow>
          let ids = rt_starting r1 @ rt_ready r1 @ rt_deleting r1 @ rt_failed r1
          in (Inr ids, fold (\<lambda>i. on_handle i mark_dead) ids
                (r1\<lparr>rt_starting := [], rt_ready := [], rt_deleting := [], rt_failed := []\<rparr>)))"

section \<open>Deployments\<close>

text \<open>
  \<open>_switch_vllm_deployment\<close>: first all workers of the target must be ready in the scheduler's table,
  then the traffic moves in one stretch. The old instances stay among the deleting ones.
\<close>

definition target_workers_ready :: "(string \<times> dict) list \<Rightarrow> instance_handle list \<Rightarrow> unit res" where
  "target_workers_ready workers handles =
     (case find (\<lambda>w. \<not> dhas workers w
                   \<or> dget (dget workers w []) ''state'' (PStr ''ready'') \<noteq> PStr ''ready'')
             (concat (map worker_node_ids handles)) of
        Some w \<Rightarrow> Inl (RuntimeError (''target_worker_no_longer_ready:'' @ w))
      | None \<Rightarrow> Inr ())"

definition switch_deployment :: "instance_handle list \<Rightarrow> int \<Rightarrow> router \<Rightarrow> router" where
  "switch_deployment handles replica_count r =
     (let ids = map ih_instance_id handles in
      r\<lparr>rt_handles := rt_handles r @ filter (\<lambda>(i, _). \<not> dhas (rt_handles r) i) (map (\<lambda>h. (ih_instance_id h, h)) handles),
        rt_deleting := fold put_id (filter (\<lambda>i. i \<notin> set ids) (rt_ready r)) (rt_deleting r),
        rt_ready := ids,
        rt_auto_scaling_config := dmerge (rt_auto_scaling_config r)
          [(''min_instances'', PInt replica_count), (''max_instances'', PInt replica_count)]\<rparr>)"

section \<open>Spot events\<close>

definition matches_spot_target :: "instance_handle \<Rightarrow> string option \<Rightarrow> string option \<Rightarrow> bool" where
  "matches_spot_target h node_id instance_id =
     (if node_id = None \<and> instance_id = None then False
      else (case instance_id of Some i \<Rightarrow> ih_instance_id h = i | None \<Rightarrow> True)
         \<and> (case node_id of Some n \<Rightarrow> n \<in> set (worker_node_ids h) | None \<Rightarrow> True))"

definition matching_inference_instances :: "string option \<Rightarrow> string option \<Rightarrow> router \<Rightarrow> string list" where
  "matching_inference_instances node_id instance_id r =
     filter (\<lambda>i. matches_spot_target (handle_of r i) node_id instance_id)
       (rt_starting r @ rt_ready r @ rt_deleting r)"

definition spot_target_node_ids :: "string option \<Rightarrow> string list \<Rightarrow> router \<Rightarrow> string list" where
  "spot_target_node_ids node_id matches r =
     (case node_id of Some n \<Rightarrow> [n]
      | None \<Rightarrow> py_unique (concat (map (\<lambda>i. worker_node_ids (handle_of r i)) matches)))"

text \<open>What the handlers do to one matching instance.\<close>

definition preempt_instance :: "rat option \<Rightarrow> string \<Rightarrow> router \<Rightarrow> router" where
  "preempt_instance deadline_time_s i r =
     on_handle i (\<lambda>h. mark_preempting
       (case deadline_time_s of Some t \<Rightarrow> h\<lparr>ih_preemption_deadline_time_s := Some t\<rparr> | None \<Rightarrow> h)) r"

definition recover_instance :: "string \<Rightarrow> router \<Rightarrow> router" where
  "recover_instance i r = on_handle i (\<lambda>h. snd (mark_recovered h)) r"

definition kill_instance :: "bool \<Rightarrow> string \<Rightarrow> router \<Rightarrow> router" where
  "kill_instance auto_deadline i r =
     on_handle i (\<lambda>h. let h = mark_dead h in if auto_deadline then h\<lparr>ih_backend_instance := None\<rparr> else h) r"

definition drain_instance :: "string \<Rightarrow> router \<Rightarrow> router" where
  "drain_instance i r = on_handle i mark_draining r"

text \<open>
  The marking loops of \<open>handle_preemption\<close>, \<open>handle_recover\<close>, \<open>handle_dead\<close>, \<open>handle_remove\<close> and
  \<open>drain_instance\<close> with the ids they report. The first suspends after each instance to capture its
  tokens: the steps of \<open>router_step\<close> are therefore those of the single instances, and the functions
  here are the loops when nothing else runs in between.
\<close>

definition handle_preemption :: "string option \<Rightarrow> string option \<Rightarrow> rat option \<Rightarrow> router \<Rightarrow> string list \<times> router" where
  "handle_preemption node_id instance_id deadline_time_s r =
     (let ids = matching_inference_instances node_id instance_id r
      in (ids, fold (preempt_instance deadline_time_s) ids r))"

definition handle_recover :: "string option \<Rightarrow> string option \<Rightarrow> router \<Rightarrow> string list \<times> router" where
  "handle_recover node_id instance_id r =
     (let ids = matching_inference_instances node_id instance_id r
      in (filter (\<lambda>i. ih_state (handle_of r i) = PREEMPTING) ids, fold recover_instance ids r))"

definition handle_dead :: "string option \<Rightarrow> string option \<Rightarrow> bool \<Rightarrow> router \<Rightarrow> string list \<times> router" where
  "handle_dead node_id instance_id auto_deadline r =
     (let ids = matching_inference_instances node_id instance_id r
      in (ids, fold (kill_instance auto_deadline) ids r))"

definition handle_remove :: "string \<Rightarrow> router \<Rightarrow> string list \<times> router" where
  "handle_remove node_id r = handle_dead (Some node_id) None False r"

definition handle_drain :: "string \<Rightarrow> router \<Rightarrow> string list \<times> router" where
  "handle_drain instance_id r =
     (let ids = matching_inference_instances None (Some instance_id) r
      in (ids, fold drain_instance ids r))"

end
