(* ===== verification/Router_Pools_Props.thy ===== *)
theory Router_Pools_Props
  imports Router_Pools
begin

text \<open>
  The router over all interleavings of its coroutines. \<open>router_step\<close> is one stretch of one of them, or
  an event from outside; \<open>router_reachable\<close> is what any sequence of them leads to.
\<close>

section \<open>Steps\<close>

text \<open>
  A deployment that traffic is switched to consists of instances of the ready pool (a change in
  place) and of instances the router does not know yet, whose new handles hold no request. A resize
  in place closes the handle of a serving instance and opens it again.
\<close>

inductive router_step :: "router \<Rightarrow> router \<Rightarrow> bool" where
  arrive: "rt_running r \<Longrightarrow> router_step r (begin_request r)"
| ask: "router_step r (enqueue_request r)"
| take: "router_step r (balancer_take r)"
| offer: "router_step r (balancer_try r)"
| claim: "claim_instance f r = Some (result, r') \<Longrightarrow> router_step r r'"
| reserve: "dhas (rt_handles r) i \<Longrightarrow> i \<notin> set (rt_starting r) \<Longrightarrow> router_step r (snd (reserve_target i r))"
| release: "router_step r (release_instance_request f r)"
| leave: "router_step r (end_request r)"
| scale: "rt_scaler r = Looping \<Longrightarrow> \<not> dhas (rt_handles r) i \<Longrightarrow> scaler_tick i r = Inr r' \<Longrightarrow> router_step r r'"
| stop: "rt_scaler r = Stopping \<Longrightarrow> router_step r (stop_instance r)"
| place: "i \<in> set (rt_start_tasks r) \<Longrightarrow> router_step r (start_placed i node nodes allocations actor r)"
| started: "i \<in> set (rt_start_tasks r) \<Longrightarrow> router_step r (start_ready i node r)"
| failed: "i \<in> set (rt_start_tasks r) \<Longrightarrow> router_step r (start_failed i r)"
| cancelled: "i \<in> set (rt_start_tasks r) \<Longrightarrow> router_step r (start_cancelled i r)"
| finish: "i \<in> set (rt_finish_tasks r) \<Longrightarrow> router_step r (finish_instance i r)"
| force: "router_step r (shutdown_instance i r)"
| execution: "router_step r (r\<lparr>rt_execution_active := active\<rparr>)"
| switch: "distinct (map ih_instance_id handles) \<Longrightarrow>
    list_all (\<lambda>h. ih_instance_id h \<in> set (rt_ready r)
      \<or> \<not> dhas (rt_handles r) (ih_instance_id h) \<and> handle_ok h \<and> ih_concurrency h = 0) handles \<Longrightarrow>
    router_step r (switch_deployment handles replica_count r)"
| update: "router_step r (r\<lparr>rt_auto_scaling_config := config\<rparr>)"
| preempt: "router_step r (preempt_instance deadline i r)"
| recover: "router_step r (recover_instance i r)"
| die: "router_step r (kill_instance auto_deadline i r)"
| drain: "router_step r (drain_instance i r)"
| reopen: "router_step r (on_handle i (\<lambda>h. snd (mark_ready_after_drain num_gpu h)) r)"
| shut: "set cancelled_ids \<subseteq> set (rt_start_tasks r) \<Longrightarrow> router_step r (snd (shutdown_router cancelled_ids r))"

inductive router_reachable :: "router \<Rightarrow> bool" where
  start: "router_reachable (RoundRobinRouter config num_gpus count_preempting)"
| step: "router_reachable r \<Longrightarrow> router_step r r' \<Longrightarrow> router_reachable r'"

section \<open>Invariants\<close>

text \<open>Requests that hold a slot of an instance: promised to a future, or taken by an attempt.\<close>

definition occupancy :: "router \<Rightarrow> string \<Rightarrow> nat" where
  "occupancy r i = count_list (map snd (rt_assigned r)) i + count_list (map snd (rt_attempts r)) i"

definition pools :: "router \<Rightarrow> string list" where
  "pools r = rt_starting r @ rt_ready r @ rt_deleting r @ rt_failed r"

definition pools_ok :: "router \<Rightarrow> bool" where
  "pools_ok r \<longleftrightarrow> distinct (pools r) \<and> set (pools r) \<subseteq> fst ` set (rt_handles r)
     \<and> set (rt_start_tasks r) \<subseteq> fst ` set (rt_handles r)
     \<and> set (rt_start_tasks r) \<inter> set (rt_ready r @ rt_deleting r @ rt_failed r) = {}"

definition slots_ok :: "router \<Rightarrow> bool" where
  "slots_ok r \<longleftrightarrow>
     (\<forall>i. dhas (rt_handles r) i \<longrightarrow> handle_ok (handle_of r i) \<and> int (occupancy r i) \<le> ih_concurrency (handle_of r i))
     \<and> (\<forall>i \<in> set (rt_starting r @ rt_ready r). int (occupancy r i) = ih_concurrency (handle_of r i))
     \<and> (\<forall>i. i \<in> set (rt_starting r) \<or> \<not> dhas (rt_handles r) i \<longrightarrow> occupancy r i = 0)"

text \<open>The futures that are still to be answered, or answered and not yet seen by their request.\<close>

definition pending :: "router \<Rightarrow> nat list" where
  "pending r = rt_request_queue r @ (case rt_balancer r of Some f \<Rightarrow> [f] | None \<Rightarrow> []) @ map fst (rt_assigned r)"

definition futures_ok :: "router \<Rightarrow> bool" where
  "futures_ok r \<longleftrightarrow> distinct (rt_waiting r @ map fst (rt_attempts r))
     \<and> (\<forall>f \<in> set (rt_waiting r @ map fst (rt_attempts r)). f < rt_next r)
     \<and> distinct (pending r) \<and> set (pending r) \<subseteq> set (rt_waiting r)
     \<and> (rt_running r \<longrightarrow> set (pending r) = set (rt_waiting r))"

definition router_ok :: "router \<Rightarrow> bool" where
  "router_ok r \<longleftrightarrow> pools_ok r \<and> slots_ok r \<and> futures_ok r"

lemmas router_ok_defs = router_ok_def pools_ok_def slots_ok_def futures_ok_def pools_def

section \<open>Handles in the store\<close>

lemma dhas_keys: "dhas d k \<longleftrightarrow> k \<in> fst ` set d"
  by (force simp: dhas_def map_of_eq_None_iff)

lemma keys_on_handle [simp]: "fst ` set (rt_handles (on_handle i f r)) = fst ` set (rt_handles r)"
  by (force simp: on_handle_def)

lemma handle_on_handle:
  "handle_of (on_handle i f r) j = (if j = i \<and> dhas (rt_handles r) i then f (handle_of r i) else handle_of r j)"
proof -
  have "map_of (map (\<lambda>(k, h). (k, if k = i then f h else h)) hs) j
      = (if j = i then map_option f (map_of hs j) else map_of hs j)" for hs
    by (induction hs) auto
  then show ?thesis by (auto simp: handle_of_def dget_def on_handle_def dhas_def split: option.splits)
qed

lemma on_handle_fields [simp]:
  "rt_starting (on_handle i f r) = rt_starting r" "rt_ready (on_handle i f r) = rt_ready r"
  "rt_deleting (on_handle i f r) = rt_deleting r" "rt_failed (on_handle i f r) = rt_failed r"
  "rt_start_tasks (on_handle i f r) = rt_start_tasks r" "rt_request_queue (on_handle i f r) = rt_request_queue r"
  "rt_balancer (on_handle i f r) = rt_balancer r" "rt_waiting (on_handle i f r) = rt_waiting r"
  "rt_assigned (on_handle i f r) = rt_assigned r" "rt_attempts (on_handle i f r) = rt_attempts r"
  "rt_next (on_handle i f r) = rt_next r" "rt_running (on_handle i f r) = rt_running r"
  by (simp_all add: on_handle_def)

lemma occupancy_on_handle [simp]: "occupancy (on_handle i f r) j = occupancy r j"
  by (simp add: occupancy_def)

lemma pending_on_handle [simp]: "pending (on_handle i f r) = pending r"
  by (simp add: pending_def)

text \<open>Fields no invariant looks at.\<close>

lemma frame_fields [simp]:
  "handle_of (r\<lparr>rt_starting := a\<rparr>) = handle_of r" "handle_of (r\<lparr>rt_ready := a\<rparr>) = handle_of r"
  "handle_of (r\<lparr>rt_deleting := a\<rparr>) = handle_of r" "handle_of (r\<lparr>rt_failed := a\<rparr>) = handle_of r"
  "handle_of (r\<lparr>rt_start_tasks := a\<rparr>) = handle_of r" "handle_of (r\<lparr>rt_waiting := b\<rparr>) = handle_of r"
  "handle_of (r\<lparr>rt_assigned := c\<rparr>) = handle_of r" "handle_of (r\<lparr>rt_attempts := c\<rparr>) = handle_of r"
  "handle_of (r\<lparr>rt_request_queue := b\<rparr>) = handle_of r" "handle_of (r\<lparr>rt_balancer := e\<rparr>) = handle_of r"
  "handle_of (r\<lparr>rt_next := n\<rparr>) = handle_of r" "handle_of (r\<lparr>rt_round_robin_index := n\<rparr>) = handle_of r"
  "handle_of (r\<lparr>rt_running := g\<rparr>) = handle_of r" "handle_of (r\<lparr>rt_finish_tasks := a\<rparr>) = handle_of r"
  "handle_of (r\<lparr>rt_idle_time := m\<rparr>) = handle_of r" "handle_of (r\<lparr>rt_scaler := s\<rparr>) = handle_of r"
  "handle_of (r\<lparr>rt_request_count := m\<rparr>) = handle_of r" "handle_of (r\<lparr>rt_auto_scaling_config := d\<rparr>) = handle_of r"
  "handle_of (r\<lparr>rt_execution_active := g\<rparr>) = handle_of r"
  by (simp_all add: handle_of_def fun_eq_iff)

lemma frame_ok [simp]:
  "router_ok (r\<lparr>rt_idle_time := m\<rparr>) = router_ok r" "router_ok (r\<lparr>rt_scaler := s\<rparr>) = router_ok r"
  "router_ok (r\<lparr>rt_request_count := m\<rparr>) = router_ok r" "router_ok (r\<lparr>rt_auto_scaling_config := d\<rparr>) = router_ok r"
  "router_ok (r\<lparr>rt_execution_active := g\<rparr>) = router_ok r" "router_ok (r\<lparr>rt_finish_tasks := a\<rparr>) = router_ok r"
  "router_ok (r\<lparr>rt_round_robin_index := n\<rparr>) = router_ok r"
  by (simp_all add: router_ok_defs occupancy_def pending_def)

lemma on_handle_ok:
  assumes "router_ok r" and "\<And>h. handle_ok h \<Longrightarrow> handle_ok (f h) \<and> ih_concurrency (f h) = ih_concurrency h"
  shows "router_ok (on_handle i f r)"
  using assms unfolding router_ok_defs by (simp add: handle_on_handle dhas_keys)

lemma fold_on_handle_ok:
  assumes "\<And>h. handle_ok h \<Longrightarrow> handle_ok (f h) \<and> ih_concurrency (f h) = ih_concurrency h"
  shows "router_ok r \<Longrightarrow> router_ok (fold (\<lambda>i. on_handle i f) ids r)"
  by (induction ids arbitrary: r) (simp_all add: on_handle_ok assms)

lemmas mark_oks = handle_defs handle_ok_def

section \<open>Operations keep the invariants\<close>

lemma marks_ok [intro]:
  assumes "router_ok r"
  shows "router_ok (preempt_instance deadline i r)" and "router_ok (recover_instance i r)"
    and "router_ok (kill_instance auto_deadline i r)" and "router_ok (drain_instance i r)"
    and "router_ok (on_handle i mark_dead r)" and "router_ok (on_handle i (\<lambda>h. snd (mark_ready_after_drain num_gpu h)) r)"
    and "router_ok (start_placed i node nodes allocations actor r)"
  unfolding preempt_instance_def recover_instance_def kill_instance_def drain_instance_def start_placed_def
  by (rule on_handle_ok [OF assms], auto simp: mark_oks split: option.splits)+

text \<open>Moving ids between pools, or out of them.\<close>

lemma pools_change_ok:
  assumes "router_ok r" and "distinct (a @ b @ c @ d)" and "set (a @ b @ c @ d) \<subseteq> set (pools r) \<union> set (rt_start_tasks r)"
    and "set a \<subseteq> set (rt_starting r)" and "set b \<subseteq> set (rt_starting r @ rt_ready r)"
    and "set t \<subseteq> set (rt_start_tasks r)" and "set t \<inter> set (b @ c @ d) = {}"
  shows "router_ok (r\<lparr>rt_starting := a, rt_ready := b, rt_deleting := c, rt_failed := d, rt_start_tasks := t\<rparr>)"
proof -
  let ?r = "r\<lparr>rt_starting := a, rt_ready := b, rt_deleting := c, rt_failed := d, rt_start_tasks := t\<rparr>"
  note ok = assms(1) [unfolded router_ok_def]
  have "set (pools r) \<union> set (rt_start_tasks r) \<subseteq> fst ` set (rt_handles r)" using ok by (auto simp: pools_ok_def)
  then have "pools_ok ?r" using assms(2,3,6,7) by (auto simp: pools_ok_def pools_def)
  moreover have "slots_ok ?r"
    using ok assms(4,5) unfolding slots_ok_def by (auto simp: occupancy_def)
  moreover have "futures_ok ?r" using ok by (simp add: futures_ok_def pending_def)
  ultimately show ?thesis by (simp add: router_ok_def)
qed

lemma router_update_same:
  "r\<lparr>rt_starting := rt_starting r\<rparr> = r" "r\<lparr>rt_ready := rt_ready r\<rparr> = r" "r\<lparr>rt_deleting := rt_deleting r\<rparr> = r"
  "r\<lparr>rt_failed := rt_failed r\<rparr> = r" "r\<lparr>rt_start_tasks := rt_start_tasks r\<rparr> = r"
  by simp_all

lemma set_put_id [simp]: "set (put_id i pool) = insert i (set pool)"
  by (auto simp: put_id_def)

lemma distinct_put_id [simp]: "distinct (put_id i pool) = distinct pool"
  by (simp add: put_id_def)

lemma ok_pools:
  assumes "router_ok r"
  shows "distinct (rt_starting r @ rt_ready r @ rt_deleting r @ rt_failed r)"
    and "set (rt_start_tasks r) \<inter> set (rt_ready r @ rt_deleting r @ rt_failed r) = {}"
  using assms by (simp_all add: router_ok_def pools_ok_def pools_def)

lemma stop_instance_ok: "router_ok r \<Longrightarrow> router_ok (stop_instance r)"
proof (cases "rt_ready r = []")
  case False
  assume ok: "router_ok r"
  obtain b i where b: "rt_ready r = b @ [i]" using False by (cases "rt_ready r" rule: rev_cases) auto
  have "router_ok (r\<lparr>rt_starting := rt_starting r, rt_ready := b, rt_deleting := put_id i (rt_deleting r),
      rt_failed := rt_failed r, rt_start_tasks := rt_start_tasks r\<rparr>)"
    using ok_pools [OF ok] by (intro pools_change_ok [OF ok]) (auto simp: pools_def b)
  then have moved: "router_ok (r\<lparr>rt_ready := b, rt_deleting := put_id i (rt_deleting r)\<rparr>)" by (simp add: router_update_same)
  have "router_ok (on_handle i mark_draining (r\<lparr>rt_ready := b, rt_deleting := put_id i (rt_deleting r),
     rt_finish_tasks := put_id i (rt_finish_tasks r), rt_idle_time := 0, rt_scaler := Looping\<rparr>))"
    by (rule on_handle_ok) (use moved in \<open>auto simp: mark_oks\<close>)
  then show ?thesis using False by (simp add: stop_instance_def b Let_def)
qed (simp add: stop_instance_def)

lemma start_task_ok:
  assumes ok: "router_ok r" and "i \<in> set (rt_start_tasks r)"
  shows "router_ok (start_ready i node r)" and "router_ok (start_failed i r)" and "router_ok (start_cancelled i r)"
proof -
  let ?t = "filter (\<lambda>j. j \<noteq> i) (rt_start_tasks r)" and ?s = "filter (\<lambda>j. j \<noteq> i) (rt_starting r)"
  have ready: "router_ok (r\<lparr>rt_starting := ?s, rt_ready := put_id i (rt_ready r), rt_deleting := rt_deleting r,
      rt_failed := rt_failed r, rt_start_tasks := ?t\<rparr>)" if "i \<in> set (rt_starting r)"
    using ok_pools [OF ok] assms(2) that by (intro pools_change_ok [OF ok]) (auto simp: pools_def)
  have failed: "router_ok (r\<lparr>rt_starting := ?s, rt_ready := rt_ready r, rt_deleting := rt_deleting r,
      rt_failed := put_id i (rt_failed r), rt_start_tasks := ?t\<rparr>)"
    using ok_pools [OF ok] assms(2) by (intro pools_change_ok [OF ok]) (auto simp: pools_def)
  have cancelled: "router_ok (r\<lparr>rt_starting := ?s, rt_ready := rt_ready r, rt_deleting := rt_deleting r,
      rt_failed := rt_failed r, rt_start_tasks := ?t\<rparr>)"
    using ok_pools [OF ok] assms(2) by (intro pools_change_ok [OF ok]) (auto simp: pools_def)
  have ended: "router_ok (r\<lparr>rt_starting := rt_starting r, rt_ready := rt_ready r, rt_deleting := rt_deleting r,
      rt_failed := rt_failed r, rt_start_tasks := ?t\<rparr>)"
    using ok_pools [OF ok] assms(2) by (intro pools_change_ok [OF ok]) (auto simp: pools_def)
  have mark: "handle_ok (snd (mark_ready (Some node) h)) \<and> ih_concurrency (snd (mark_ready (Some node) h)) = ih_concurrency h"
    if "handle_ok h" for h using that by (auto simp: mark_oks)
  have dead: "handle_ok (mark_dead h) \<and> ih_concurrency (mark_dead h) = ih_concurrency h" if "handle_ok h" for h
    using that by (auto simp: mark_oks)
  show "router_ok (start_ready i node r)"
  proof (cases "i \<in> set (rt_starting r)")
    case True
    then have "start_ready i node r = on_handle i (\<lambda>h. snd (mark_ready (Some node) h)) (r\<lparr>rt_starting := ?s,
        rt_ready := put_id i (rt_ready r), rt_deleting := rt_deleting r, rt_failed := rt_failed r, rt_start_tasks := ?t\<rparr>)"
      by (simp add: start_ready_def end_start_task_def on_handle_def)
    then show ?thesis using on_handle_ok [OF ready [OF True] mark] by simp
  next
    case False
    then have "start_ready i node r = on_handle i mark_dead (on_handle i (\<lambda>h. snd (mark_ready (Some node) h))
        (r\<lparr>rt_starting := rt_starting r, rt_ready := rt_ready r, rt_deleting := rt_deleting r,
           rt_failed := rt_failed r, rt_start_tasks := ?t\<rparr>))"
      by (simp add: start_ready_def end_start_task_def on_handle_def)
    then show ?thesis using on_handle_ok [OF on_handle_ok [OF ended mark] dead] by simp
  qed
  have "start_failed i r = on_handle i mark_dead (r\<lparr>rt_starting := ?s, rt_ready := rt_ready r,
      rt_deleting := rt_deleting r, rt_failed := put_id i (rt_failed r), rt_start_tasks := ?t\<rparr>)"
    by (simp add: start_failed_def end_start_task_def on_handle_def)
  then show "router_ok (start_failed i r)" using on_handle_ok [OF failed dead] by simp
  have "start_cancelled i r = r\<lparr>rt_starting := ?s, rt_ready := rt_ready r, rt_deleting := rt_deleting r,
      rt_failed := rt_failed r, rt_start_tasks := ?t\<rparr>" by (simp add: start_cancelled_def end_start_task_def)
  then show "router_ok (start_cancelled i r)" using cancelled by simp
qed

lemma remove_ok:
  assumes "router_ok r"
  shows "router_ok (r\<lparr>rt_starting := filter P (rt_starting r)\<rparr>)" and "router_ok (r\<lparr>rt_ready := filter P (rt_ready r)\<rparr>)"
    and "router_ok (r\<lparr>rt_deleting := filter P (rt_deleting r)\<rparr>)" and "router_ok (r\<lparr>rt_failed := filter P (rt_failed r)\<rparr>)"
    and "router_ok (r\<lparr>rt_start_tasks := filter P (rt_start_tasks r)\<rparr>)"
proof -
  let ?r = "\<lambda>a b c d t. r\<lparr>rt_starting := a, rt_ready := b, rt_deleting := c, rt_failed := d, rt_start_tasks := t\<rparr>"
  have rule: "router_ok (?r a b c d t)"
    if "a = filter A (rt_starting r)" "b = filter B (rt_ready r)" "c = filter C (rt_deleting r)"
      "d = filter D (rt_failed r)" "t = filter T (rt_start_tasks r)" for a b c d t A B C D T
    using ok_pools [OF assms] by (intro pools_change_ok [OF assms]) (auto simp: pools_def that)
  have all: "xs = filter (\<lambda>_. True) xs" for xs :: "string list" by simp
  from rule [OF refl all all all all] show "router_ok (r\<lparr>rt_starting := filter P (rt_starting r)\<rparr>)"
    by (simp add: router_update_same)
  from rule [OF all refl all all all] show "router_ok (r\<lparr>rt_ready := filter P (rt_ready r)\<rparr>)"
    by (simp add: router_update_same)
  from rule [OF all all refl all all] show "router_ok (r\<lparr>rt_deleting := filter P (rt_deleting r)\<rparr>)"
    by (simp add: router_update_same)
  from rule [OF all all all refl all] show "router_ok (r\<lparr>rt_failed := filter P (rt_failed r)\<rparr>)"
    by (simp add: router_update_same)
  from rule [OF all all all all refl] show "router_ok (r\<lparr>rt_start_tasks := filter P (rt_start_tasks r)\<rparr>)"
    by (simp add: router_update_same)
qed

lemma finish_instance_ok: "router_ok r \<Longrightarrow> router_ok (finish_instance i r)"
  using remove_ok(3) [of "r\<lparr>rt_finish_tasks := filter (\<lambda>j. j \<noteq> i) (rt_finish_tasks r)\<rparr>" "\<lambda>j. j \<noteq> i"]
  by (auto simp: finish_instance_def Let_def)

lemma shutdown_instance_ok: "router_ok r \<Longrightarrow> router_ok (shutdown_instance i r)"
  by (auto simp: shutdown_instance_def without_def intro: marks_ok(5) remove_ok)

lemma shutdown_ok:
  assumes "router_ok r"
  shows "router_ok (snd (shutdown_router cancelled_ids r))"
proof -
  let ?c = "\<lambda>j. j \<notin> set cancelled_ids"
  define r1 where "r1 = r\<lparr>rt_running := False, rt_start_tasks := filter ?c (rt_start_tasks r), rt_starting := filter ?c (rt_starting r)\<rparr>"
  have "router_ok (r\<lparr>rt_running := False\<rparr>)" using assms by (simp add: router_ok_defs occupancy_def pending_def)
  from remove_ok(1) [OF remove_ok(5) [OF this, of ?c], of ?c] have ok1: "router_ok r1" by (simp add: r1_def)
  show ?thesis
  proof (cases "rt_request_queue r1")
    case Nil
    have "router_ok (r1\<lparr>rt_starting := [], rt_ready := [], rt_deleting := [], rt_failed := [], rt_start_tasks := rt_start_tasks r1\<rparr>)"
      by (rule pools_change_ok [OF ok1]) auto
    then have "router_ok (r1\<lparr>rt_starting := [], rt_ready := [], rt_deleting := [], rt_failed := []\<rparr>)"
      by (simp add: router_update_same)
    from fold_on_handle_ok [OF _ this, of mark_dead "pools r1"]
    have "router_ok (fold (\<lambda>i. on_handle i mark_dead) (pools r1)
        (r1\<lparr>rt_starting := [], rt_ready := [], rt_deleting := [], rt_failed := []\<rparr>))"
      by (simp add: mark_oks)
    then show ?thesis using Nil by (simp add: shutdown_router_def Let_def r1_def [symmetric] pools_def)
  next
    case (Cons f q)
    then have "router_ok (r1\<lparr>rt_request_queue := q\<rparr>)"
      using ok1 by (simp add: router_ok_defs occupancy_def pending_def) (auto simp: r1_def)
    then show ?thesis using Cons by (simp add: shutdown_router_def Let_def r1_def [symmetric])
  qed
qed

lemma fold_put_id: "distinct (pool @ ids) \<Longrightarrow> fold put_id ids pool = pool @ ids"
  by (induction ids arbitrary: pool) (simp_all add: put_id_def)

lemma handle_of_append:
  "handle_of (r\<lparr>rt_handles := rt_handles r @ new\<rparr>) i = (if dhas (rt_handles r) i then handle_of r i else dget new i (InstanceHandle i 0 0))"
  by (auto simp: handle_of_def dget_def dhas_def map_add_def split: option.splits)

text \<open>New handles join the store: nobody holds a slot of them.\<close>

lemma new_handles_ok:
  assumes "router_ok r" and "\<And>i h. (i, h) \<in> set new \<Longrightarrow> \<not> dhas (rt_handles r) i \<and> handle_ok h \<and> ih_concurrency h = 0"
  shows "router_ok (r\<lparr>rt_handles := rt_handles r @ new\<rparr>)"
proof -
  let ?r = "r\<lparr>rt_handles := rt_handles r @ new\<rparr>"
  note ok = assms(1) [unfolded router_ok_def]
  have new: "handle_ok (dget new i (InstanceHandle i 0 0)) \<and> ih_concurrency (dget new i (InstanceHandle i 0 0)) = 0" for i
    using assms(2) map_of_SomeD [of new i] new_handle_ok [of i 0 0]
    by (auto simp: dget_def InstanceHandle_def split: option.splits)
  have occ: "occupancy ?r i = occupancy r i" for i by (simp add: occupancy_def)
  have "pools_ok ?r" using ok by (auto simp: pools_ok_def pools_def)
  moreover have "slots_ok ?r"
  proof -
    have "handle_ok (handle_of ?r i) \<and> int (occupancy ?r i) \<le> ih_concurrency (handle_of ?r i)" for i
      using ok new [of i] unfolding occ by (simp add: handle_of_append slots_ok_def)
    moreover have "int (occupancy ?r i) = ih_concurrency (handle_of ?r i)" if "i \<in> set (rt_starting r @ rt_ready r)" for i
      using ok that unfolding occ
      by (auto simp: handle_of_append slots_ok_def pools_ok_def pools_def dhas_keys subset_iff)
    moreover have "occupancy ?r i = 0" if "i \<in> set (rt_starting r) \<or> \<not> dhas (rt_handles ?r) i" for i
      using ok that unfolding occ by (auto simp: slots_ok_def dhas_keys)
    ultimately show ?thesis unfolding slots_ok_def by simp
  qed
  moreover have "futures_ok ?r" using ok by (simp add: futures_ok_def pending_def)
  ultimately show ?thesis by (simp add: router_ok_def)
qed

lemma create_instance_ok:
  assumes "router_ok r" and "\<not> dhas (rt_handles r) i" and "create_instance i r = Inr r'"
  shows "router_ok r'"
proof -
  obtain q where r': "r' = r\<lparr>rt_handles := rt_handles r @ [(i, InstanceHandle i q (rt_num_gpus r))],
      rt_starting := put_id i (rt_starting r), rt_start_tasks := put_id i (rt_start_tasks r)\<rparr>"
    using assms(3) unfolding create_instance_def rbind_eq_Inr by auto
  let ?r = "r\<lparr>rt_handles := rt_handles r @ [(i, InstanceHandle i q (rt_num_gpus r))]\<rparr>"
  have ok: "router_ok ?r"
    using assms(2) by (intro new_handles_ok [OF assms(1)]) (auto simp: new_handle_ok, simp add: InstanceHandle_def)
  have fresh: "i \<notin> set (pools r)" "i \<notin> set (rt_start_tasks r)"
    using assms(1,2) by (auto simp: router_ok_def pools_ok_def dhas_keys)
  have conc: "ih_concurrency (handle_of ?r i) = 0" "occupancy r i = 0"
    using assms(1,2) by (simp_all add: handle_of_append dget_def InstanceHandle_def router_ok_def slots_ok_def)
  have "pools_ok r'" using ok fresh by (auto simp: router_ok_def pools_ok_def pools_def r')
  moreover have "slots_ok r'"
  proof -
    have h: "handle_of r' = handle_of ?r" by (simp add: r' handle_of_def fun_eq_iff)
    have occ: "occupancy r' = occupancy r" "occupancy ?r = occupancy r" by (simp_all add: r' occupancy_def fun_eq_iff)
    show ?thesis using ok conc unfolding router_ok_def slots_ok_def h occ by (simp add: r' dhas_keys)
  qed
  moreover have "futures_ok r'" using ok by (simp add: router_ok_def futures_ok_def pending_def r')
  ultimately show ?thesis by (simp add: router_ok_def)
qed

lemma scaler_tick_cases:
  assumes "scaler_tick i r = Inr r'"
  shows "r' = r \<or> create_instance i r = Inr r' \<or> r' = r\<lparr>rt_scaler := Stopping\<rparr> \<or> r' = stop_instance r
      \<or> (\<exists>n. r' = r\<lparr>rt_idle_time := n\<rparr>)"
  using assms unfolding scaler_tick_def by (auto split: if_splits)

lemma scaler_tick_ok:
  assumes "router_ok r" and "\<not> dhas (rt_handles r) i" and "scaler_tick i r = Inr r'"
  shows "router_ok r'"
  using scaler_tick_cases [OF assms(3)] assms(1) create_instance_ok [OF assms(1,2)] stop_instance_ok [OF assms(1)]
  by (elim disjE exE) simp_all

lemma switch_deployment_ok:
  assumes ok: "router_ok r" and "distinct (map ih_instance_id handles)"
    and "list_all (\<lambda>h. ih_instance_id h \<in> set (rt_ready r)
      \<or> \<not> dhas (rt_handles r) (ih_instance_id h) \<and> handle_ok h \<and> ih_concurrency h = 0) handles"
  shows "router_ok (switch_deployment handles replica_count r)"
proof -
  let ?new = "filter (\<lambda>(i, _). \<not> dhas (rt_handles r) i) (map (\<lambda>h. (ih_instance_id h, h)) handles)"
  let ?ids = "map ih_instance_id handles"
  let ?old = "filter (\<lambda>i. i \<notin> set ?ids) (rt_ready r)"
  let ?r = "r\<lparr>rt_handles := rt_handles r @ ?new\<rparr>"
  have known: "i \<in> set (pools r) \<Longrightarrow> dhas (rt_handles r) i" "i \<in> set (rt_start_tasks r) \<Longrightarrow> dhas (rt_handles r) i" for i
    using ok by (auto simp: router_ok_def pools_ok_def dhas_keys subset_iff)
  have ok1: "router_ok ?r"
    by (rule new_handles_ok [OF ok]) (use assms(3) known in \<open>auto simp: list_all_iff pools_def\<close>)
  have new: "i \<in> set ?ids \<Longrightarrow> i \<in> set (rt_ready r) \<or> i \<in> fst ` set ?new" for i
    using assms(3) by (force simp: list_all_iff)
  have ids: "i \<in> set (rt_ready r) \<or> \<not> dhas (rt_handles r) i" if "i \<in> set ?ids" for i
    using assms(3) that by (auto simp: list_all_iff)
  have deleting: "fold put_id ?old (rt_deleting r) = rt_deleting r @ ?old"
    using ok_pools(1) [OF ok] by (intro fold_put_id) auto
  define r' where "r' = r\<lparr>rt_handles := rt_handles r @ ?new, rt_deleting := rt_deleting r @ ?old, rt_ready := ?ids\<rparr>"
  have stored: "rt_handles r' = rt_handles r @ ?new" by (simp add: r'_def)
  have apart: "i \<notin> set (rt_starting r @ rt_deleting r @ rt_failed r) \<and> i \<notin> set (rt_start_tasks r)" if "i \<in> set ?ids" for i
    using ids [OF that] ok_pools [OF ok] known [of i] by (auto simp: pools_def)
  have "pools_ok r'"
  proof -
    have keys: "fst ` set (rt_handles r') = fst ` set (rt_handles r) \<union> fst ` set ?new"
      by (simp only: stored set_append image_Un)
    have old: "set (pools r) \<subseteq> fst ` set (rt_handles r)" "set (rt_start_tasks r) \<subseteq> fst ` set (rt_handles r)"
      using ok by (auto simp: router_ok_def pools_ok_def)
    have sub: "set (pools r') \<subseteq> set (pools r) \<union> fst ` set ?new"
    proof
      fix i assume i: "i \<in> set (pools r')"
      show "i \<in> set (pools r) \<union> fst ` set ?new"
      proof (cases "i \<in> set ?ids")
        case True
        from new [OF True] show ?thesis
        proof
          assume "i \<in> set (rt_ready r)"
          then have "i \<in> set (pools r)" by (simp add: pools_def)
          then show ?thesis by (rule UnI1)
        qed (rule UnI2)
      next
        case False
        with i have "i \<in> set (pools r)" by (auto simp: pools_def r'_def)
        then show ?thesis by (rule UnI1)
      qed
    qed
    have "distinct (pools r')" using assms(2) ok_pools(1) [OF ok] apart by (auto simp: pools_def r'_def)
    moreover have "set (pools r') \<subseteq> fst ` set (rt_handles r')" unfolding keys using sub old(1) by (meson Un_mono order_refl order_trans)
    moreover have "set (rt_start_tasks r') \<subseteq> fst ` set (rt_handles r')"
      unfolding keys using old(2) by (simp add: r'_def le_supI1)
    moreover have "set (rt_start_tasks r') \<inter> set (rt_ready r' @ rt_deleting r' @ rt_failed r') = {}"
      using ok_pools(2) [OF ok] apart by (auto simp: r'_def)
    ultimately show ?thesis unfolding pools_ok_def by (intro conjI)
  qed
  moreover have "slots_ok r'"
  proof -
    have h: "handle_of r' = handle_of ?r" "rt_handles r' = rt_handles ?r" by (simp_all add: r'_def handle_of_def fun_eq_iff)
    have occ: "occupancy r' = occupancy ?r" by (simp add: r'_def occupancy_def fun_eq_iff)
    have "int (occupancy ?r i) = ih_concurrency (handle_of ?r i)" if "i \<in> set ?ids" for i
    proof (cases "i \<in> set (rt_ready r)")
      case False
      then have fresh: "\<not> dhas (rt_handles r) i" using ids [OF that] by simp
      have "occupancy ?r i = 0" using ok fresh by (simp add: router_ok_def slots_ok_def occupancy_def)
      moreover have "ih_concurrency (handle_of ?r i) = 0"
        using map_of_SomeD [of ?new i] assms(3) fresh known
        by (auto simp: handle_of_append dget_def list_all_iff pools_def InstanceHandle_def split: option.splits)
      ultimately show ?thesis by simp
    qed (use ok1 in \<open>simp add: router_ok_def slots_ok_def\<close>)
    then show ?thesis using ok1 unfolding router_ok_def slots_ok_def h occ by (auto simp: r'_def)
  qed
  moreover have "futures_ok r'" using ok by (simp add: router_ok_def futures_ok_def pending_def r'_def)
  ultimately have "router_ok r'" by (simp add: router_ok_def)
  moreover have "switch_deployment handles replica_count r = r'\<lparr>rt_auto_scaling_config := dmerge (rt_auto_scaling_config r)
      [(''min_instances'', PInt replica_count), (''max_instances'', PInt replica_count)]\<rparr>"
    unfolding switch_deployment_def Let_def deleting by (simp add: r'_def)
  ultimately show ?thesis by simp
qed

text \<open>Requests: a slot is taken when a future is answered or a target reserved, and given back once.\<close>

lemma frame_pools:
  assumes "fst ` set (rt_handles r') = fst ` set (rt_handles r)" "pools r' = pools r" "rt_start_tasks r' = rt_start_tasks r"
    "rt_ready r' = rt_ready r" "rt_deleting r' = rt_deleting r" "rt_failed r' = rt_failed r"
  shows "pools_ok r' = pools_ok r"
  using assms by (simp add: pools_ok_def)

lemma frame_slots:
  assumes "rt_handles r' = rt_handles r" "occupancy r' = occupancy r" "rt_starting r' = rt_starting r" "rt_ready r' = rt_ready r"
  shows "slots_ok r' = slots_ok r"
  using assms by (simp add: slots_ok_def handle_of_def)

lemma enqueue_request_ok:
  assumes "router_ok r"
  shows "router_ok (enqueue_request r)"
proof -
  have "pools_ok (enqueue_request r) = pools_ok r" by (rule frame_pools) (simp_all add: enqueue_request_def pools_def)
  moreover have "slots_ok (enqueue_request r) = slots_ok r"
    by (rule frame_slots) (simp_all add: enqueue_request_def occupancy_def fun_eq_iff)
  moreover have "futures_ok (enqueue_request r)"
    using assms unfolding router_ok_def futures_ok_def enqueue_request_def pending_def
    by (auto simp: less_Suc_eq split: option.splits)
  ultimately show ?thesis using assms by (simp add: router_ok_def)
qed

lemma balancer_take_ok:
  assumes "router_ok r"
  shows "router_ok (balancer_take r)"
proof (cases "rt_balancer r = None \<and> rt_request_queue r \<noteq> []")
  case True
  then obtain f q where q: "rt_balancer r = None" "rt_request_queue r = f # q" by (cases "rt_request_queue r") auto
  have eq: "balancer_take r = r\<lparr>rt_balancer := Some f, rt_request_queue := q\<rparr>" by (simp add: balancer_take_def q)
  have "pools_ok (balancer_take r) = pools_ok r" by (rule frame_pools) (simp_all add: eq pools_def)
  moreover have "slots_ok (balancer_take r) = slots_ok r" by (rule frame_slots) (simp_all add: eq occupancy_def fun_eq_iff)
  moreover have "futures_ok (balancer_take r)"
    using assms unfolding router_ok_def futures_ok_def eq pending_def by (auto simp: q)
  ultimately show ?thesis using assms by (simp add: router_ok_def)
qed (use assms in \<open>auto simp: balancer_take_def split: option.splits list.splits\<close>)

lemma count_list_filter_fst:
  assumes "distinct (map fst xs)" and "map_of xs f = Some i"
  shows "count_list (map snd (filter (\<lambda>(g, _). g \<noteq> f) xs)) j = count_list (map snd xs) j - (if j = i then 1 else 0)"
    and "0 < count_list (map snd xs) i"
  using assms
proof (induction xs)
  case (Cons x xs)
  { case 1
    show ?case
    proof (cases "fst x = f")
      case True
      have "g \<noteq> f" if "(g, j) \<in> set xs" for g j
      proof -
        have "g \<in> fst ` set xs" using imageI [OF that, of fst] by simp
        moreover have "f \<notin> fst ` set xs" using 1(1) True by simp
        ultimately show ?thesis by metis
      qed
      then have "filter (\<lambda>(g, _). g \<noteq> f) xs = xs" by (auto simp: filter_id_conv)
      then show ?thesis using True 1(2) by (cases x) auto
    next
      case False
      then have "map_of xs f = Some i" "distinct (map fst xs)" using 1 by (cases x, auto)+
      from Cons.IH [OF this(2,1)] False show ?thesis by (cases x) auto
    qed
  next
    case 2
    then show ?case using Cons.IH(2) by (cases x) (auto split: if_splits)
  }
qed auto

lemma take_slot_ok:
  assumes "router_ok r" and "can_accept_request 1 (handle_of r i)" and "dhas (rt_handles r) i" and "i \<notin> set (rt_starting r)"
    and "handle_of r' = handle_of (on_handle i (\<lambda>h. snd (add_requests 1 h)) r)" "rt_handles r' = rt_handles (on_handle i (\<lambda>h. snd (add_requests 1 h)) r)"
    and "\<And>j. occupancy r' j = occupancy r j + (if j = i then 1 else 0)"
    and "rt_starting r' = rt_starting r" "rt_ready r' = rt_ready r"
  shows "slots_ok r'"
proof -
  have "handle_ok (snd (add_requests 1 (handle_of r i)))"
    using assms(1,3) apply_op_ok [of "handle_of r i" "Add_Requests 1"] by (simp add: router_ok_def slots_ok_def)
  moreover have "ih_concurrency (snd (add_requests 1 (handle_of r i))) = ih_concurrency (handle_of r i) + 1"
    using assms(2) by (simp add: add_requests_def)
  ultimately show ?thesis
    using assms(1,3,4) unfolding slots_ok_def router_ok_def
    by (simp add: assms(5-9) handle_on_handle dhas_keys)
qed

lemma balancer_try_cases:
  obtains (idle) "balancer_try r = r"
  | (assign) f i where "rt_balancer r = Some f" "i \<in> set (rt_ready r)" "can_accept_request 1 (handle_of r i)"
      "balancer_try r = (on_handle i (\<lambda>h. snd (add_requests 1 h)) (r\<lparr>rt_round_robin_index := Suc (rt_round_robin_index r)\<rparr>))
         \<lparr>rt_assigned := rt_assigned r @ [(f, i)], rt_balancer := None\<rparr>"
proof (cases "rt_balancer r")
  case (Some f)
  show thesis
  proof (cases "instance_options r = []")
    case False
    let ?i = "instance_options r ! (rt_round_robin_index r mod length (instance_options r))"
    have "?i \<in> set (instance_options r)" using False by simp
    then have i: "?i \<in> set (rt_ready r)" "can_accept_request 1 (handle_of r ?i)" by (simp_all add: instance_options_def)
    show thesis
      by (rule assign [OF Some i]) (simp add: balancer_try_def Some False Let_def i add_requests_def [of 1 "handle_of _ _"])
  qed (use idle Some in \<open>simp add: balancer_try_def Let_def\<close>)
qed (use idle in \<open>simp add: balancer_try_def\<close>)

lemma ok_known: "router_ok r \<Longrightarrow> i \<in> set (pools r) \<Longrightarrow> dhas (rt_handles r) i"
  by (auto simp: router_ok_def pools_ok_def dhas_keys)

lemma balancer_try_ok:
  assumes ok: "router_ok r"
  shows "router_ok (balancer_try r)"
proof (cases rule: balancer_try_cases [of r])
  case (assign f i)
  have i: "dhas (rt_handles r) i" "i \<notin> set (rt_starting r)"
    using ok_known [OF ok, of i] ok_pools(1) [OF ok] assign(2) by (auto simp: pools_def)
  have "pools_ok (balancer_try r) = pools_ok r" by (rule frame_pools) (simp_all add: assign(4) pools_def)
  moreover have "slots_ok (balancer_try r)"
    by (rule take_slot_ok [OF ok assign(3) i]) (simp_all add: assign(4) occupancy_def on_handle_def handle_of_def fun_eq_iff)
  moreover have "futures_ok (balancer_try r)"
    using ok unfolding router_ok_def futures_ok_def assign(4) pending_def by (auto simp: assign(1))
  ultimately show ?thesis using ok by (simp add: router_ok_def)
qed (use ok in simp)

lemma ok_futures:
  assumes "router_ok r"
  shows "distinct (map fst (rt_assigned r))" and "distinct (map fst (rt_attempts r))"
    and "f \<in> fst ` set (rt_assigned r) \<Longrightarrow> f \<in> set (rt_waiting r) \<and> f \<notin> fst ` set (rt_attempts r)"
proof -
  have w: "distinct (rt_waiting r @ map fst (rt_attempts r))" "distinct (pending r)" "set (pending r) \<subseteq> set (rt_waiting r)"
    using assms by (simp_all add: router_ok_def futures_ok_def)
  show "distinct (map fst (rt_assigned r))" "distinct (map fst (rt_attempts r))" using w by (simp_all add: pending_def)
  assume "f \<in> fst ` set (rt_assigned r)"
  then have "f \<in> set (pending r)" by (simp add: pending_def)
  moreover have "set (rt_waiting r) \<inter> fst ` set (rt_attempts r) = {}" using w(1) by simp
  ultimately show "f \<in> set (rt_waiting r) \<and> f \<notin> fst ` set (rt_attempts r)" using w(3) by blast
qed

lemma claim_instance_ok:
  assumes ok: "router_ok r" and "claim_instance f r = Some (result, r')"
  shows "router_ok r'"
proof -
  obtain i where i: "map_of (rt_assigned r) f = Some i"
    using assms(2) by (auto simp: claim_instance_def split: option.splits)
  let ?a = "filter (\<lambda>(g, _). g \<noteq> f) (rt_assigned r)" and ?w = "filter (\<lambda>g. g \<noteq> f) (rt_waiting r)"
  let ?att = "if i \<in> set (rt_ready r) then rt_attempts r @ [(f, i)] else rt_attempts r"
  have r': "r' = r\<lparr>rt_waiting := ?w, rt_assigned := ?a, rt_attempts := ?att\<rparr>"
    using assms(2) i by (auto simp: claim_instance_def Let_def split: if_splits)
  have f: "f \<in> fst ` set (rt_assigned r)" using i map_of_SomeD by force
  note count = count_list_filter_fst [OF ok_futures(1) [OF ok] i]
  have occ: "occupancy r' j = occupancy r j - (if j = i \<and> i \<notin> set (rt_ready r) then 1 else 0)" for j
    using count by (auto simp: r' occupancy_def)
  have "0 < occupancy r i" using count(2) by (simp add: occupancy_def)
  then have starting: "i \<notin> set (rt_starting r)" using ok by (auto simp: router_ok_def slots_ok_def)
  have "pools_ok r' = pools_ok r" by (rule frame_pools) (simp_all add: r' pools_def)
  moreover have "slots_ok r'"
  proof -
    have h: "handle_of r' = handle_of r" "rt_handles r' = rt_handles r" by (simp_all add: r' handle_of_def fun_eq_iff)
    show ?thesis using ok starting unfolding router_ok_def slots_ok_def h occ
      by (auto simp: r' of_nat_diff)
  qed
  moreover have "futures_ok r'"
  proof -
    have keys: "map fst ?a = filter (\<lambda>g. g \<noteq> f) (map fst (rt_assigned r))"
      by (induction "rt_assigned r") (auto simp: filter_map comp_def case_prod_beta)
    have dis: "distinct (pending r)" using ok by (simp add: router_ok_def futures_ok_def)
    have f': "f \<in> set (map fst (rt_assigned r))" using f by simp
    have queue: "f \<notin> set (rt_request_queue r)"
      using dis f' unfolding pending_def distinct_append set_append by blast
    have "f \<notin> set (case rt_balancer r of Some g \<Rightarrow> [g] | None \<Rightarrow> [])"
      using dis f' unfolding pending_def distinct_append set_append by blast
    then have balancer: "rt_balancer r \<noteq> Some f" by auto
    have "filter (\<lambda>g. g \<noteq> f) (rt_request_queue r) = rt_request_queue r"
      using queue by (intro filter_True) auto
    then have pend: "pending r' = filter (\<lambda>g. g \<noteq> f) (pending r)"
      using balancer by (simp add: r' pending_def keys split: option.splits)
    have att: "set (map fst (rt_attempts r')) \<subseteq> insert f (set (map fst (rt_attempts r)))"
      "distinct (map fst (rt_attempts r'))" "f \<in> set (rt_waiting r)"
      using ok_futures(2) [OF ok] ok_futures(3) [OF ok f] by (simp_all add: r' subset_insertI)
    have w: "rt_waiting r' = filter (\<lambda>g. g \<noteq> f) (rt_waiting r)" "rt_next r' = rt_next r" "rt_running r' = rt_running r"
      by (simp_all add: r')
    have old: "distinct (rt_waiting r)" "set (rt_waiting r) \<inter> set (map fst (rt_attempts r)) = {}"
      "\<forall>g \<in> set (rt_waiting r) \<union> set (map fst (rt_attempts r)). g < rt_next r" "distinct (pending r)"
      "set (pending r) \<subseteq> set (rt_waiting r)" "rt_running r \<longrightarrow> set (pending r) = set (rt_waiting r)"
      using ok by (simp_all add: router_ok_def futures_ok_def)
    have "distinct (rt_waiting r' @ map fst (rt_attempts r'))" using old(1,2) att by (auto simp: w simp del: set_map)
    moreover have "\<forall>g \<in> set (rt_waiting r' @ map fst (rt_attempts r')). g < rt_next r'"
      using old(3) att by (auto simp: w simp del: set_map)
    moreover have "distinct (pending r')" "set (pending r') \<subseteq> set (rt_waiting r')"
      "rt_running r' \<longrightarrow> set (pending r') = set (rt_waiting r')"
      using old(4-6) by (auto simp: pend w)
    ultimately show ?thesis unfolding futures_ok_def by blast
  qed
  ultimately show ?thesis using ok by (simp add: router_ok_def)
qed

lemma reserve_target_ok:
  assumes ok: "router_ok r" and "dhas (rt_handles r) i" and "i \<notin> set (rt_starting r)"
  shows "router_ok (snd (reserve_target i r))"
proof (cases "fst (add_requests 1 (handle_of r i))")
  case True
  then have accept: "can_accept_request 1 (handle_of r i)" by (simp add: add_requests_def split: if_splits)
  let ?r = "(on_handle i (\<lambda>h. snd (add_requests 1 h)) r)\<lparr>rt_attempts := rt_attempts r @ [(rt_next r, i)], rt_next := Suc (rt_next r)\<rparr>"
  have "pools_ok ?r = pools_ok r" by (rule frame_pools) (simp_all add: pools_def)
  moreover have "slots_ok ?r"
    by (rule take_slot_ok [OF ok accept assms(2,3)]) (simp_all add: occupancy_def on_handle_def handle_of_def fun_eq_iff)
  moreover have "futures_ok ?r"
    using ok unfolding router_ok_def futures_ok_def pending_def by (auto simp: less_Suc_eq)
  ultimately show ?thesis using ok True by (simp add: router_ok_def reserve_target_def)
qed (use ok in \<open>simp add: reserve_target_def\<close>)

lemma release_instance_request_ok:
  assumes ok: "router_ok r"
  shows "router_ok (release_instance_request f r)"
proof (cases "map_of (rt_attempts r) f")
  case (Some i)
  let ?g = "\<lambda>h. snd (add_requests (-1) h)"
  let ?r = "(on_handle i ?g r)\<lparr>rt_attempts := filter (\<lambda>(g, _). g \<noteq> f) (rt_attempts r)\<rparr>"
  note count = count_list_filter_fst [OF ok_futures(2) [OF ok] Some]
  have occ: "occupancy ?r j = occupancy r j - (if j = i then 1 else 0)" for j
    using count by (auto simp: occupancy_def)
  have pos: "0 < occupancy r i" using count(2) by (simp add: occupancy_def)
  have i: "dhas (rt_handles r) i" "i \<notin> set (rt_starting r)" using ok pos by (auto simp: router_ok_def slots_ok_def)
  then have held: "int (occupancy r i) \<le> ih_concurrency (handle_of r i)" "handle_ok (handle_of r i)"
    using ok by (simp_all add: router_ok_def slots_ok_def)
  then have g: "ih_concurrency (?g (handle_of r i)) = ih_concurrency (handle_of r i) - 1"
    using pos by (simp add: add_requests_def can_accept_request_def)
  have gok: "handle_ok (?g (handle_of r i))" using apply_op_ok [OF held(2), of "Add_Requests (-1)"] by simp
  have h: "handle_of ?r j = (if j = i then ?g (handle_of r i) else handle_of r j)" for j
    using handle_on_handle [of i ?g r j] i(1) by simp
  have "pools_ok ?r = pools_ok r" by (rule frame_pools) (simp_all add: pools_def)
  moreover have "slots_ok ?r"
    using ok i g gok pos unfolding router_ok_def slots_ok_def h occ by (auto simp: dhas_keys of_nat_diff)
  moreover have "futures_ok ?r"
  proof -
    have keys: "map fst (filter (\<lambda>(g, _). g \<noteq> f) xs) = filter (\<lambda>g. g \<noteq> f) (map fst xs)" for xs :: "(nat \<times> string) list"
      by (induction xs) auto
    show ?thesis using ok unfolding router_ok_def futures_ok_def pending_def by (auto simp: keys)
  qed
  ultimately show ?thesis using ok Some by (simp add: router_ok_def release_instance_request_def)
qed (use ok in \<open>simp add: release_instance_request_def\<close>)

lemma request_count_ok: "router_ok r \<Longrightarrow> router_ok (begin_request r)" "router_ok r \<Longrightarrow> router_ok (end_request r)"
  by (simp_all add: begin_request_def end_request_def)

lemmas operation_oks = request_count_ok enqueue_request_ok balancer_take_ok balancer_try_ok claim_instance_ok
  reserve_target_ok release_instance_request_ok scaler_tick_ok stop_instance_ok start_task_ok marks_ok
  finish_instance_ok shutdown_instance_ok switch_deployment_ok shutdown_ok

lemma router_step_ok: "router_step r r' \<Longrightarrow> router_ok r \<Longrightarrow> router_ok r'"
  by (induction rule: router_step.induct) (rule operation_oks; assumption | simp)+

lemma router_reachable_ok: "router_reachable r \<Longrightarrow> router_ok r"
proof (induction rule: router_reachable.induct)
  case (start config num_gpus count_preempting)
  show ?case by (simp add: router_ok_defs RoundRobinRouter_def occupancy_def pending_def dhas_def)
qed (rule router_step_ok)

section \<open>Properties over all interleavings\<close>

text \<open>
  C25. Request slots are accounted for: in every state the router can reach, the concurrency of a
  starting or ready instance is exactly the number of requests that were promised to it or are
  running on it, and on no instance, whatever pool it is in, are there more than its concurrency
  says or than its queue takes.
\<close>

theorem request_slots_accounted:
  assumes "router_reachable r"
  shows "(\<forall>i. i \<in> set (rt_starting r) \<or> i \<in> set (rt_ready r) \<longrightarrow>
        ih_concurrency (handle_of r i) = int (occupancy r i))
    \<and> (\<forall>i. dhas (rt_handles r) i \<longrightarrow> int (occupancy r i) \<le> ih_concurrency (handle_of r i)
        \<and> ih_concurrency (handle_of r i) \<le> max 0 (ih_max_queue_length (handle_of r i)))"
  using router_reachable_ok [OF assms] unfolding router_ok_def slots_ok_def handle_ok_def by force

text \<open>
  C26. No request is lost while the router runs: the futures that requests wait for are exactly those
  in the queue, in the hands of the load balancer or answered, each once, and no request both waits
  and holds an instance.
\<close>

theorem router_requests_not_lost:
  assumes "router_reachable r" and "rt_running r"
  shows "mset (rt_waiting r) = mset (rt_request_queue r) + mset (case rt_balancer r of Some f \<Rightarrow> [f] | None \<Rightarrow> [])
      + mset (map fst (rt_assigned r))
    \<and> distinct (rt_waiting r @ map fst (rt_attempts r))"
proof -
  have f: "futures_ok r" using router_reachable_ok [OF assms(1)] by (simp add: router_ok_def)
  then have "set (rt_waiting r) = set (pending r)" "distinct (rt_waiting r)" "distinct (pending r)"
    using assms(2) by (simp_all add: futures_ok_def)
  then have "mset (rt_waiting r) = mset (pending r)" by (simp add: set_eq_iff_mset_eq_distinct)
  then show ?thesis using f by (simp add: futures_ok_def pending_def)
qed

text \<open>
  An instance is in one pool: starting, ready, deleting or failed, and what is in a pool has a
  handle; an instance that is still being started is in none of the last three.
\<close>

theorem instance_in_one_pool:
  assumes "router_reachable r"
  shows "distinct (rt_starting r @ rt_ready r @ rt_deleting r @ rt_failed r)
    \<and> list_all (dhas (rt_handles r)) (rt_starting r @ rt_ready r @ rt_deleting r @ rt_failed r)
    \<and> set (rt_start_tasks r) \<inter> set (rt_ready r @ rt_deleting r @ rt_failed r) = {}"
  using router_reachable_ok [OF assms] unfolding router_ok_def pools_ok_def pools_def
  by (auto simp: list_all_iff dhas_keys)

text \<open>
  C27. The load balancer does not let a request wait that could be served: when it holds one and a ready
  instance can take it, it is promised to the next such instance in turn, whose slot it takes; when
  none can take it, the balancer keeps it and nothing changes.
\<close>

theorem balancer_serves:
  assumes "rt_balancer r = Some f" and "\<And>i. i \<in> set (rt_ready r) \<Longrightarrow> dhas (rt_handles r) i"
  shows "if instance_options r = [] then balancer_try r = r
    else let i = instance_options r ! (rt_round_robin_index r mod length (instance_options r)) in
      rt_assigned (balancer_try r) = rt_assigned r @ [(f, i)] \<and> rt_balancer (balancer_try r) = None
      \<and> i \<in> set (rt_ready r) \<and> can_accept_request 1 (handle_of r i)
      \<and> ih_concurrency (handle_of (balancer_try r) i) = ih_concurrency (handle_of r i) + 1
      \<and> rt_round_robin_index (balancer_try r) = Suc (rt_round_robin_index r)"
proof (cases "instance_options r = []")
  case False
  let ?i = "instance_options r ! (rt_round_robin_index r mod length (instance_options r))"
  have "?i \<in> set (instance_options r)" using False by simp
  then have i: "?i \<in> set (rt_ready r)" "can_accept_request 1 (handle_of r ?i)" by (simp_all add: instance_options_def)
  have eq: "balancer_try r = (on_handle ?i (\<lambda>h. snd (add_requests 1 h)) (r\<lparr>rt_round_robin_index := Suc (rt_round_robin_index r)\<rparr>))
      \<lparr>rt_assigned := rt_assigned r @ [(f, ?i)], rt_balancer := None\<rparr>"
    by (simp add: balancer_try_def assms(1) False Let_def i add_requests_def [of 1 "handle_of _ _"])
  have "handle_of (balancer_try r) ?i = snd (add_requests 1 (handle_of r ?i))"
    using assms(2) [OF i(1)] unfolding eq by (simp add: handle_on_handle)
  then show ?thesis using False i by (simp add: eq Let_def add_requests_def) (simp add: on_handle_def)
qed (simp add: balancer_try_def assms(1) Let_def)

text \<open>
  The auto scaler asks for a number of instances within the configured limits; unless a limit
  cuts it off, it is the least number whose targets cover the requests.
\<close>

theorem auto_scaler_bounds:
  assumes "int_field config ''target'' 2 = Inr target" "0 < target"
    and "int_field config ''min_instances'' 0 = Inr low" "int_field config ''max_instances'' 10 = Inr high" "low \<le> high"
  shows "\<exists>d. auto_scaler n config = Inr d \<and> low \<le> d \<and> d \<le> high
    \<and> (d < high \<longrightarrow> n \<le> d * target) \<and> (low < d \<longrightarrow> (d - 1) * target < n)"
proof -
  define q where "q = (n + target - 1) div target"
  have q: "n + target - 1 = q * target + (n + target - 1) mod target" "0 \<le> (n + target - 1) mod target"
    "(n + target - 1) mod target < target"
    using assms(2) by (simp_all add: q_def)
  have up: "n \<le> q * target" "(q - 1) * target < n" using q by (simp_all add: algebra_simps)
  have mono: "a \<le> b \<Longrightarrow> a * target \<le> b * target" for a b using assms(2) by (simp add: mult_right_mono)
  have run: "auto_scaler n config = Inr (min high (max low q))"
    using assms(1-4) by (simp add: auto_scaler_def q_def)
  let ?d = "min high (max low q)"
  have "?d < high \<longrightarrow> n \<le> ?d * target" using up(1) mono [of q ?d] by (auto simp: min_def max_def split: if_splits)
  moreover have "low < ?d \<longrightarrow> (?d - 1) * target < n"
    using up(2) mono [of "?d - 1" "q - 1"] by (auto simp: min_def max_def split: if_splits)
  ultimately show ?thesis using run assms(5) by auto
qed

section \<open>Spot events\<close>

lemma distinct_count_list: "distinct xs \<Longrightarrow> count_list xs i = (if i \<in> set xs then 1 else 0)"
  by (induction xs) auto

lemma fold_on_handle:
  "handle_of (fold (\<lambda>j. on_handle j f) ids r) i =
     (if dhas (rt_handles r) i then (f ^^ count_list ids i) (handle_of r i) else handle_of r i)
   \<and> dhas (rt_handles (fold (\<lambda>j. on_handle j f) ids r)) i = dhas (rt_handles r) i"
proof (induction ids arbitrary: r)
  case (Cons j ids)
  have "dhas (rt_handles (on_handle j f r)) i = dhas (rt_handles r) i" by (simp add: dhas_keys)
  then show ?case using Cons [of "on_handle j f r"] by (simp add: handle_on_handle funpow_swap1)
qed simp

lemma worker_nodes_deadline [simp]: "worker_node_ids (h\<lparr>ih_preemption_deadline_time_s := t\<rparr>) = worker_node_ids h"
  by (simp add: worker_node_ids_def)

text \<open>
  A preemption notice for a node reaches every instance with a rank on it: afterwards each such
  instance that is starting, ready or deleting is marked as preempting and takes no request, the
  router reports exactly these, and every other instance is as it was. (The handler is taken to run
  without another step in between.)
\<close>

theorem preemption_reaches_node:
  assumes "router_reachable r" and "handle_preemption (Some node) None deadline r = (ids, r')"
  shows "(\<forall>i. i \<in> set (rt_starting r @ rt_ready r @ rt_deleting r) \<longrightarrow> node \<in> set (worker_node_ids (handle_of r i)) \<longrightarrow>
        i \<in> set ids \<and> ih_state (handle_of r' i) = PREEMPTING \<and> \<not> can_accept_request 1 (handle_of r' i))
    \<and> (\<forall>i. i \<notin> set ids \<longrightarrow> handle_of r' i = handle_of r i)
    \<and> set ids \<subseteq> set (rt_starting r @ rt_ready r @ rt_deleting r) \<and> rt_ready r' = rt_ready r"
proof -
  let ?f = "\<lambda>h. mark_preempting (case deadline of Some t \<Rightarrow> h\<lparr>ih_preemption_deadline_time_s := Some t\<rparr> | None \<Rightarrow> h)"
  have ids: "ids = matching_inference_instances (Some node) None r"
    and r': "r' = fold (\<lambda>i. on_handle i ?f) ids r"
    using assms(2) by (auto simp: handle_preemption_def preempt_instance_def [abs_def] Let_def)
  note ok = router_reachable_ok [OF assms(1)]
  have sub: "set ids \<subseteq> set (rt_starting r @ rt_ready r @ rt_deleting r)" by (auto simp: ids matching_inference_instances_def)
  have dis: "distinct ids"
    unfolding ids matching_inference_instances_def
    by (rule distinct_filter) (use ok_pools(1) [OF ok] in auto)
  have known: "dhas (rt_handles r) i" if "i \<in> set ids" for i
    using ok_known [OF ok] sub that by (auto simp: pools_def)
  have marked: "handle_of r' i = ?f (handle_of r i)" if "i \<in> set ids" for i
    using fold_on_handle [of ?f ids r i] known [OF that] distinct_count_list [OF dis, of i] that by (simp add: r')
  have other: "handle_of r' i = handle_of r i" if "i \<notin> set ids" for i
    using fold_on_handle [of ?f ids r i] that by (simp add: r')
  have "rt_ready (fold (\<lambda>i. on_handle i ?f) js q) = rt_ready q" for js q by (induction js arbitrary: q) simp_all
  moreover have "i \<in> set ids" if "i \<in> set (rt_starting r @ rt_ready r @ rt_deleting r)"
      "node \<in> set (worker_node_ids (handle_of r i))" for i
    using that by (auto simp: ids matching_inference_instances_def matches_spot_target_def)
  ultimately show ?thesis using marked other sub by (auto simp: r' mark_preempting_def can_accept_request_def)
qed

lemma requests_kept:
  "occupancy (begin_request r) i = occupancy r i" "occupancy (enqueue_request r) i = occupancy r i"
  "occupancy (end_request r) i = occupancy r i" "occupancy (stop_instance r) i = occupancy r i"
  "occupancy (start_placed j node nodes allocations actor r) i = occupancy r i"
  "occupancy (start_ready j node r) i = occupancy r i" "occupancy (start_failed j r) i = occupancy r i"
  "occupancy (start_cancelled j r) i = occupancy r i" "occupancy (finish_instance j r) i = occupancy r i"
  "occupancy (shutdown_instance j r) i = occupancy r i" "occupancy (r\<lparr>rt_execution_active := active\<rparr>) i = occupancy r i"
  "occupancy (switch_deployment handles replica_count r) i = occupancy r i"
  "occupancy (r\<lparr>rt_auto_scaling_config := config\<rparr>) i = occupancy r i"
  "occupancy (preempt_instance deadline j r) i = occupancy r i" "occupancy (recover_instance j r) i = occupancy r i"
  "occupancy (kill_instance auto_deadline j r) i = occupancy r i" "occupancy (drain_instance j r) i = occupancy r i"
  by (simp_all add: occupancy_def begin_request_def enqueue_request_def end_request_def stop_instance_def
    start_placed_def start_ready_def start_failed_def start_cancelled_def end_start_task_def finish_instance_def
    shutdown_instance_def switch_deployment_def preempt_instance_def recover_instance_def kill_instance_def
    drain_instance_def Let_def)

lemma requests_kept_by_take: "occupancy (balancer_take r) i = occupancy r i"
  by (simp add: balancer_take_def occupancy_def split: option.splits list.splits)

text \<open>
  C28. A closed instance gets no work: as long as an instance is draining, preempting or dead no step
  of the router promises it a request, reserves it for one, or makes it take one up; what it holds
  only goes down.
\<close>

theorem closed_instance_gets_no_request:
  assumes "router_step r r'" and "router_reachable r" and "dhas (rt_handles r) i" and "closed (handle_of r i)"
  shows "occupancy r' i \<le> occupancy r i"
  using assms(1)
proof cases
  case offer
  show ?thesis
  proof (cases rule: balancer_try_cases [of r])
    case (assign f j)
    then have "j \<noteq> i" using closed_refuses [OF assms(4), of 1] by auto
    then show ?thesis using offer assign(4) by (simp add: occupancy_def)
  qed (use offer in simp)
next
  case (reserve j)
  then show ?thesis using closed_refuses [OF assms(4), of 1]
    by (cases "j = i") (auto simp: reserve_target_def add_requests_def occupancy_def)
next
  case (claim f result)
  then obtain j where j: "map_of (rt_assigned r) f = Some j"
    by (auto simp: claim_instance_def split: option.splits)
  note count = count_list_filter_fst [OF ok_futures(1) [OF router_reachable_ok [OF assms(2)]] j]
  show ?thesis using claim j count(1) [of i] count(2) by (auto simp: claim_instance_def Let_def occupancy_def split: if_splits)
next
  case (release f)
  show ?thesis
  proof (cases "map_of (rt_attempts r) f")
    case (Some j)
    note count = count_list_filter_fst [OF ok_futures(2) [OF router_reachable_ok [OF assms(2)]] Some]
    show ?thesis using release Some count(1) [of i] by (auto simp: release_instance_request_def occupancy_def)
  qed (use release in \<open>simp add: release_instance_request_def\<close>)
next
  case (shut cancelled_ids)
  have "occupancy (fold (\<lambda>j. on_handle j mark_dead) ids q) i = occupancy q i" for ids q
    by (induction ids arbitrary: q) simp_all
  then show ?thesis using shut by (simp add: shutdown_router_def Let_def occupancy_def split: list.splits)
next
  case (scale j)
  have "occupancy r' i = occupancy r i" if "create_instance j r = Inr r'"
    using that unfolding create_instance_def by (auto simp: occupancy_def)
  then show ?thesis
    using scaler_tick_cases [OF scale(3)] requests_kept(4) [of r i] by (elim disjE exE) (simp_all add: occupancy_def)
qed (simp_all only: requests_kept requests_kept_by_take occupancy_on_handle order_refl)

section \<open>A run\<close>

text \<open>
  Two instances are started, a request is promised to the second one, and another is queued. The
  configuration asks for two instances until the target is raised.
\<close>

definition ex_config :: dict where
  "ex_config = [(''min_instances'', PInt 2), (''max_instances'', PInt 2), (''target'', PInt 4), (''metric'', PStr ''concurrency'')]"

definition ex_tick :: "string \<Rightarrow> router \<Rightarrow> router" where
  "ex_tick i r = (case scaler_tick i r of Inr r' \<Rightarrow> r' | Inl _ \<Rightarrow> r)"

definition ex_started :: router where
  "ex_started = start_ready ''b'' ''n2'' (start_ready ''a'' ''n1''
     (start_placed ''b'' ''n2'' [] [] 2 (start_placed ''a'' ''n1'' [] [] 1
        (ex_tick ''b'' (ex_tick ''a'' (RoundRobinRouter ex_config 1 False))))))"

definition ex_serve :: "router \<Rightarrow> router" where
  "ex_serve r = balancer_try (balancer_take (enqueue_request (begin_request r)))"

definition ex_busy :: router where
  "ex_busy = enqueue_request (begin_request (ex_serve (ex_serve ex_started)))"

lemma ex_started_facts:
  "scaler_tick ''a'' (RoundRobinRouter ex_config 1 False) = Inr (ex_tick ''a'' (RoundRobinRouter ex_config 1 False))"
  "scaler_tick ''b'' (ex_tick ''a'' (RoundRobinRouter ex_config 1 False))
     = Inr (ex_tick ''b'' (ex_tick ''a'' (RoundRobinRouter ex_config 1 False)))"
  "rt_ready ex_started = [''a'', ''b''] \<and> rt_running ex_started
   \<and> rt_ready ex_busy = [''a'', ''b''] \<and> rt_running ex_busy \<and> rt_assigned ex_busy = [(0, ''a''), (1, ''b'')]
   \<and> rt_request_queue ex_busy = [2] \<and> rt_balancer ex_busy = None \<and> rt_waiting ex_busy = [0, 1, 2]"
  by code_simp+

lemma ex_started_reachable: "router_reachable ex_started"
proof -
  let ?r0 = "RoundRobinRouter ex_config 1 False"
  let ?r1 = "ex_tick ''a'' ?r0"
  let ?r2 = "ex_tick ''b'' ?r1"
  let ?r3 = "start_placed ''a'' ''n1'' [] [] 1 ?r2"
  let ?r4 = "start_placed ''b'' ''n2'' [] [] 2 ?r3"
  let ?r5 = "start_ready ''a'' ''n1'' ?r4"
  have facts: "rt_scaler ?r0 = Looping \<and> \<not> dhas (rt_handles ?r0) ''a'' \<and> rt_scaler ?r1 = Looping \<and> \<not> dhas (rt_handles ?r1) ''b''
    \<and> ''a'' \<in> set (rt_start_tasks ?r2) \<and> ''b'' \<in> set (rt_start_tasks ?r3) \<and> ''a'' \<in> set (rt_start_tasks ?r4)
    \<and> ''b'' \<in> set (rt_start_tasks ?r5)"
    by code_simp
  have "router_reachable ?r1"
    by (rule router_reachable.step [OF router_reachable.start]) (rule router_step.scale, use facts ex_started_facts(1) in simp_all)
  then have "router_reachable ?r2"
    by (rule router_reachable.step) (rule router_step.scale, use facts ex_started_facts(2) in simp_all)
  then have "router_reachable ?r3" by (rule router_reachable.step) (rule router_step.place, use facts in simp)
  then have "router_reachable ?r4" by (rule router_reachable.step) (rule router_step.place, use facts in simp)
  then have "router_reachable ?r5" by (rule router_reachable.step) (rule router_step.started, use facts in simp)
  then have "router_reachable (start_ready ''b'' ''n2'' ?r5)"
    by (rule router_reachable.step) (rule router_step.started, use facts in simp)
  then show ?thesis by (simp only: ex_started_def)
qed

lemma ex_busy_reachable: "router_reachable ex_busy"
proof -
  have serve: "router_reachable (ex_serve r)" if "router_reachable r" "rt_running r" for r
  proof -
    have "router_reachable (enqueue_request (begin_request r))"
      by (rule router_reachable.step [OF router_reachable.step [OF that(1) router_step.arrive [OF that(2)]] router_step.ask])
    from router_reachable.step [OF router_reachable.step [OF this router_step.take] router_step.offer]
    show ?thesis unfolding ex_serve_def .
  qed
  have "rt_running (ex_serve ex_started) \<and> rt_running (ex_serve (ex_serve ex_started))" by code_simp
  with serve [OF serve [OF ex_started_reachable]] ex_started_facts(3)
  have "router_reachable (ex_serve (ex_serve ex_started))" "rt_running (ex_serve (ex_serve ex_started))" by simp_all
  from router_reachable.step [OF router_reachable.step [OF this(1) router_step.arrive [OF this(2)]] router_step.ask]
  show ?thesis unfolding ex_busy_def .
qed

theorem request_slots_accounted_witness:
  "router_reachable ex_busy \<and> ih_concurrency (handle_of ex_busy ''b'') = 1 \<and> occupancy ex_busy ''b'' = 1"
proof -
  have "occupancy ex_busy ''b'' = 1" by code_simp
  then show ?thesis using request_slots_accounted [OF ex_busy_reachable] ex_busy_reachable ex_started_facts(3) by simp
qed

theorem router_requests_not_lost_witness:
  "rt_running ex_busy \<and> mset (rt_waiting ex_busy) = {#2#} + {#0, 1#}"
  using router_requests_not_lost [OF ex_busy_reachable] ex_started_facts(3) by simp

theorem instance_in_one_pool_witness:
  "rt_ready ex_started = [''a'', ''b''] \<and> list_all (dhas (rt_handles ex_started)) [''a'', ''b'']"
  using instance_in_one_pool [OF ex_started_reachable] ex_started_facts(3) by simp

theorem balancer_serves_witness:
  "let r = balancer_take ex_busy in
     rt_balancer r = Some 2 \<and> rt_assigned (balancer_try r) = [(0, ''a''), (1, ''b''), (2, ''a'')]"
proof -
  let ?r = "balancer_take ex_busy"
  have facts: "rt_balancer ?r = Some 2 \<and> rt_assigned ?r = [(0, ''a''), (1, ''b'')] \<and> instance_options ?r = [''a'', ''b'']
    \<and> rt_round_robin_index ?r = 2 \<and> list_all (dhas (rt_handles ?r)) (rt_ready ?r)"
    by code_simp
  then have "\<And>i. i \<in> set (rt_ready ?r) \<Longrightarrow> dhas (rt_handles ?r) i" by (simp add: list_all_iff)
  from balancer_serves [of ?r 2, OF _ this] facts show ?thesis by (simp add: Let_def numeral_2_eq_2)
qed

theorem auto_scaler_bounds_witness:
  "\<exists>d. auto_scaler 9 [(''target'', PInt 4), (''max_instances'', PInt 5)] = Inr d \<and> d \<le> 5 \<and> (d < 5 \<longrightarrow> 9 \<le> d * 4)"
  using auto_scaler_bounds [of "[(''target'', PInt 4), (''max_instances'', PInt 5)]" 4 0 5 9]
  by (auto simp: int_field_def dget_def)

theorem preemption_reaches_node_witness:
  "let (ids, r') = handle_preemption (Some ''n2'') None (Some 30) ex_busy in
     ids = [''b''] \<and> ih_state (handle_of r' ''b'') = PREEMPTING \<and> \<not> can_accept_request 1 (handle_of r' ''b'')"
proof -
  obtain ids r' where run: "handle_preemption (Some ''n2'') None (Some 30) ex_busy = (ids, r')" by fastforce
  have "fst (handle_preemption (Some ''n2'') None (Some 30) ex_busy) = [''b'']"
    "''n2'' \<in> set (worker_node_ids (handle_of ex_busy ''b''))" by code_simp+
  then show ?thesis using preemption_reaches_node [OF ex_busy_reachable run] run ex_started_facts(3) by simp
qed

theorem closed_instance_gets_no_request_witness:
  "let r = drain_instance ''b'' ex_busy in occupancy (balancer_take r) ''b'' \<le> 1"
proof -
  let ?r = "drain_instance ''b'' ex_busy"
  have reach: "router_reachable ?r" by (rule router_reachable.step [OF ex_busy_reachable router_step.drain])
  have facts: "dhas (rt_handles ?r) ''b'' \<and> ih_state (handle_of ?r ''b'') = DRAINING \<and> \<not> ih_ready (handle_of ?r ''b'') \<and> occupancy ?r ''b'' = 1"
    by code_simp
  then have "closed (handle_of ?r ''b'')" by (simp add: closed_def)
  from closed_instance_gets_no_request [OF router_step.take reach _ this] facts show ?thesis by (simp add: Let_def)
qed

section \<open>What the runs show\<close>

text \<open>
  The auto scaler stops an instance that was just promised to a request: the request finds it gone
  and fails, and its slot is never given back.
\<close>

lemma slot_lost_when_stopped:
  "let r = ex_tick ''c'' (ex_busy\<lparr>rt_auto_scaling_config := AList.update ''min_instances'' (PInt 1) ex_config\<rparr>) in
     rt_ready r = [''a''] \<and> (\<exists>r'. claim_instance 1 r = Some (Inl (RuntimeError ''Instance not found''), r')
       \<and> occupancy r' ''b'' = 0 \<and> ih_concurrency (handle_of r' ''b'') = 1)"
proof -
  let ?r = "ex_tick ''c'' (ex_busy\<lparr>rt_auto_scaling_config := AList.update ''min_instances'' (PInt 1) ex_config\<rparr>)"
  have "rt_ready ?r = [''a''] \<and> map_option (\<lambda>(result, r'). (result, occupancy r' ''b'', ih_concurrency (handle_of r' ''b''))) (claim_instance 1 ?r)
      = Some (Inl (RuntimeError ''Instance not found''), 0, 1)" by code_simp
  then show ?thesis by (auto simp: Let_def map_option_case split: option.splits prod.splits)
qed

text \<open>A shutdown while a request is queued raises: no instance is stopped, and the request is forgotten.\<close>

lemma shutdown_with_queued_request_raises:
  "let (result, r) = shutdown_router [] ex_busy in
     result = Inl (RuntimeError ''await wasn't used with future'') \<and> rt_ready r = [''a'', ''b''] \<and> \<not> rt_running r
     \<and> 2 \<in> set (rt_waiting r) \<and> 2 \<notin> set (pending r)"
  by code_simp

end
