(* ===== verification/Router_Migration.thy ===== *)
theory Router_Migration
  imports Context_Migration Instance_Handle
begin

text \<open>
  What the router does with the context-migration planner after a spot event,
  \<open>src/sllm/routers/roundrobin_router.py\<close>: it collects the contexts of the instances that are going
  away, offers the ready instances with free queue slots as targets, finds out which prefix a target
  has already cached, asks the planner, and warms the prefixes up on the targets after checking that
  their expert placement is still the planned one.

  A backend call is an argument of the model, a function of the handle it is made on, with an
  exception or an answer. The loops read a handle between two calls without a suspension, so
  \<open>instances\<close> are the handles as the loop finds them.
\<close>

section \<open>Backends\<close>

record migration_env =
  mv_context_metadata :: "instance_handle \<Rightarrow> pyval res"
  mv_runtime_metadata :: "instance_handle \<Rightarrow> pyval res"
  mv_current_tokens :: "instance_handle \<Rightarrow> int list list res"
  mv_resume_kv_cache :: "instance_handle \<Rightarrow> int list list \<Rightarrow> pyval res"

text \<open>\<open>except Exception\<close>\<close>

fun except_any :: "'a res \<Rightarrow> 'a res \<Rightarrow> 'a res" where
  "except_any (Inl OutOfModel) h = Inl OutOfModel"
| "except_any (Inl _) h = h"
| "except_any (Inr x) h = Inr x"

definition node_text :: "instance_handle \<Rightarrow> string" where
  "node_text h = (case ih_node_id h of Some n \<Rightarrow> n | None \<Rightarrow> '''')"

section \<open>Sources\<close>

text \<open>The rows of an answer: the list itself, or the entry \<open>contexts\<close> of a dictionary.\<close>

definition context_rows :: "pyval \<Rightarrow> pyval list res" where
  "context_rows answer =
     (let rows = (case answer of PDict d \<Rightarrow> dget d ''contexts'' (PList []) | v \<Rightarrow> v)
      in if truthy rows then py_iter rows else Inr [])"

text \<open>A row that cannot be read is skipped.\<close>

definition capture_row :: "instance_handle \<Rightarrow> pyval \<Rightarrow> context_metadata list \<Rightarrow> context_metadata list res" where
  "capture_row h row contexts =
     (case row of
        PDict d \<Rightarrow>
          except_any
            (rbind (ContextMetadata_from_dict
                     (dsetdefault (dsetdefault d ''instance_id'' (PStr (ih_instance_id h))) ''node_id'' (PStr (node_text h))))
               (\<lambda>c. Inr (contexts @ [c])))
            (Inr contexts)
      | _ \<Rightarrow> Inr contexts)"

definition capture_context_metadata :: "migration_env \<Rightarrow> instance_handle \<Rightarrow> context_metadata list res" where
  "capture_context_metadata env h =
     (if ih_backend_instance h = None then Inr []
      else rbind (except_any (rbind (mv_context_metadata env h) (\<lambda>v. Inr (Some v))) (Inr None)) (\<lambda>answer.
           case answer of
             None \<Rightarrow> Inr []
           | Some v \<Rightarrow> rbind (context_rows v) (\<lambda>rows. rfold (capture_row h) rows [])))"

definition context_migration_sources :: "migration_env \<Rightarrow> instance_handle list \<Rightarrow> context_metadata list res" where
  "context_migration_sources env matches = rbind (rmap (capture_context_metadata env) matches) (\<lambda>cs. Inr (concat cs))"

section \<open>Targets\<close>

definition context_migration_target_capacity :: "dict \<Rightarrow> instance_handle \<Rightarrow> int res" where
  "context_migration_target_capacity config h =
     (let configured_capacity = dgetn config ''target_capacity'' in
      if configured_capacity \<noteq> PNone
      then rbind (py_int configured_capacity) (\<lambda>n. Inr (max 0 n))
      else Inr (max 0 (ih_max_queue_length h - ih_concurrency h)))"

definition cost_table :: "dict \<Rightarrow> string \<Rightarrow> dict res" where
  "cost_table config key =
     (case por (dget config key (PDict [])) (PDict []) of PDict d \<Rightarrow> Inr d | _ \<Rightarrow> Inl OutOfModel)"

definition context_migration_target_warmup_cost :: "dict \<Rightarrow> instance_handle \<Rightarrow> rat res" where
  "context_migration_target_warmup_cost config h =
     rbind (cost_table config ''warmup_cost_by_instance'') (\<lambda>by_instance.
     if dhas by_instance (ih_instance_id h)
     then rbind (py_float (dgetn by_instance (ih_instance_id h))) (\<lambda>c. Inr (max 0 c))
     else rbind (cost_table config ''warmup_cost_by_node'') (\<lambda>by_node.
     if ih_node_id h \<noteq> None \<and> dhas by_node (node_text h)
     then rbind (py_float (dgetn by_node (node_text h))) (\<lambda>c. Inr (max 0 c))
     else rbind (py_float (por (dget config ''default_target_warmup_cost''
                                  (dget config ''target_warmup_cost'' (PFloat 0))) (PFloat 0)))
            (\<lambda>c. Inr (max 0 c))))"

text \<open>What a target tells about its experts; only these keys are handed on.\<close>

definition target_metadata_keys :: "string list" where
  "target_metadata_keys =
     [''expert_placement_available'', ''expert_placement_snapshot'', ''runtime_expert_placement_available'',
      ''runtime_expert_placement_worker_count'', ''runtime_expert_placement_shard_count'',
      ''runtime_expert_placement_shards'', ''runtime_expert_placement_worker_snapshots'',
      ''placement_epoch'', ''placement_version'', ''placement_source'', ''expert_placement_epoch'',
      ''expert_placement_fingerprint'', ''expert_placement_plan_fingerprint'',
      ''expert_placement_snapshot_fingerprint'', ''expert_placement_contract_available'',
      ''expert_placement_contract_bound'', ''expert_placement_contract_source'',
      ''expert_placement_contract_epoch'', ''expert_placement_contract_fingerprint'',
      ''expert_placement_contract_snapshot_fingerprint'', ''expert_placement_contract_snapshot_match'',
      ''expert_placement_plan_applied'', ''expert_placement_plan_verified'',
      ''expert_placement_contract_reason'', ''expert_placement_apply_hook_available'',
      ''expert_placement_apply_attempted'', ''expert_placement_apply_success'',
      ''expert_placement_apply_worker_count'', ''expert_placement_apply_worker_success_count'',
      ''expert_placement_apply_duration_ms'', ''expert_placement_apply_reason'',
      ''expert_placement_verify_hook_available'', ''expert_placement_verify_attempted'',
      ''expert_placement_verify_success'', ''expert_placement_verify_worker_count'',
      ''expert_placement_verify_worker_success_count'', ''expert_placement_verify_reason'',
      ''expert_placement_contract_seen_by_runtime'', ''expert_placement_contract_seen_by_all_workers'',
      ''expert_placement_contract_seen_worker_count'', ''expert_placement_contract_seen_worker_total'',
      ''expert_placement_physical_weight_migration'', ''expert_placement_runtime_moved_expert_shards'',
      ''expert_placement_runtime_moved_weight_bytes'', ''expert_placement_runtime_remap_duration_ms'',
      ''expert_placement_runtime_active_request_remap'', ''expert_placement_runtime_step_boundary_barrier'',
      ''expert_placement_runtime_physical_host_ids_observed'',
      ''expert_placement_runtime_cross_node_weight_migration'',
      ''expert_placement_runtime_cross_node_moved_expert_shards'',
      ''expert_placement_runtime_cross_node_moved_weight_bytes'',
      ''expert_placement_runtime_verification_level'', ''expert_placement_runtime_verified_placement'',
      ''expert_placement_runtime_can_verify_physical_placement'',
      ''expert_placement_runtime_can_remap_live_ep_rank'', ''expert_placement_runtime_can_measure_all_to_all'',
      ''expert_placement_runtime_all_to_all_counters_available'',
      ''expert_placement_runtime_all_to_all_collective_calls'',
      ''expert_placement_runtime_all_to_all_dispatch_calls'',
      ''expert_placement_runtime_all_to_all_combine_calls'',
      ''expert_placement_runtime_all_to_all_observed_input_bytes'',
      ''expert_placement_runtime_all_to_all_observed_output_bytes'',
      ''expert_placement_runtime_all_to_all_internode_calls'',
      ''expert_placement_runtime_all_to_all_measurement_kind'', ''expert_placement_runtime_capability_reason'',
      ''reparallelization_execution_model'', ''reparallelization_execution_model_reason'',
      ''expert_placement_execution_model'', ''expert_placement_execution_model_reason'',
      ''expert_placement_runtime_contract_mode'', ''expert_placement_live_migration_enabled'',
      ''expert_placement_quiescent_remap_enabled'', ''expert_placement_physical_migration_required'',
      ''moe_route_histogram_available'', ''moe_route_histogram_source'', ''moe_route_histogram_kind'',
      ''effective_expert_parallel_size'', ''runtime_effective_expert_parallel_size'',
      ''expert_parallel_size_source'', ''expert_physical_replication_factor'', ''vllm_data_parallel_size'',
      ''sllm_replica_count'']"

definition select_target_metadata :: "pyval \<Rightarrow> dict" where
  "select_target_metadata answer =
     (case answer of
        PDict runtime_metadata \<Rightarrow>
          let profile = (case dgetn runtime_metadata ''model_resource_profile'' of PDict p \<Rightarrow> dmerge [] p | _ \<Rightarrow> []);
              metadata = dmerge profile runtime_metadata
          in filter (\<lambda>(key, _). key \<in> set target_metadata_keys) metadata
      | _ \<Rightarrow> [])"

definition context_migration_target_metadata :: "migration_env \<Rightarrow> instance_handle \<Rightarrow> dict res" where
  "context_migration_target_metadata env h =
     (if ih_backend_instance h = None then Inr []
      else rbind (except_any (mv_runtime_metadata env h) (Inr PNone)) (\<lambda>answer. Inr (select_target_metadata answer)))"

definition migration_target_of :: "migration_env \<Rightarrow> dict \<Rightarrow> instance_handle \<Rightarrow> int \<Rightarrow> migration_target res" where
  "migration_target_of env config h capacity =
     rbind (context_migration_target_warmup_cost config h) (\<lambda>warmup_cost.
     rbind (context_migration_target_metadata env h) (\<lambda>metadata.
     Inr \<lparr>mt_instance_id = ih_instance_id h, mt_node_id = node_text h, mt_capacity = capacity,
          mt_warmup_cost = warmup_cost, mt_concurrency = max 0 (ih_concurrency h),
          mt_max_queue_length = max 0 (ih_max_queue_length h), mt_queue_depth = Some (max 0 (ih_concurrency h)),
          mt_queue_penalty = 0, mt_metadata = metadata\<rparr>))"

definition consider_target ::
  "migration_env \<Rightarrow> dict \<Rightarrow> string list \<Rightarrow> instance_handle \<Rightarrow> migration_target list \<Rightarrow> migration_target list res" where
  "consider_target env config source_instance_ids h targets =
     (if ih_instance_id h \<in> set source_instance_ids then Inr targets
      else if ih_state h \<noteq> READY \<or> \<not> ih_ready h then Inr targets
      else rbind (context_migration_target_capacity config h) (\<lambda>capacity.
           if capacity \<le> 0 then Inr targets
           else rbind (migration_target_of env config h capacity) (\<lambda>t. Inr (targets @ [t]))))"

definition context_migration_targets ::
  "migration_env \<Rightarrow> dict \<Rightarrow> string list \<Rightarrow> instance_handle list \<Rightarrow> migration_target list res" where
  "context_migration_targets env config source_instance_ids instances =
     rfold (consider_target env config source_instance_ids) instances []"

section \<open>Cached prefixes\<close>

definition context_metadata_value :: "context_metadata \<Rightarrow> string \<Rightarrow> pyval" where
  "context_metadata_value context key =
     (if key = ''cache_block_size'' then por (PInt (cm_cache_block_size context)) PNone
      else if key = ''cache_dtype'' then por (PStr (cm_cache_dtype context)) PNone
      else if key = ''cache_layout'' then por (PStr (cm_cache_layout context)) PNone
      else dgetn (cm_metadata context) key)"

definition context_cache_compatible :: "context_metadata \<Rightarrow> context_metadata \<Rightarrow> bool" where
  "context_cache_compatible source target =
     (let v = \<lambda>c key. context_metadata_value c key;
          both_set_differ = \<lambda>key. truthy (v source key) \<and> truthy (v target key) \<and> \<not> py_eq (v source key) (v target key)
      in 0 < cm_cache_block_size source \<and> 0 < cm_cache_block_size target
         \<and> cm_cache_block_size source = cm_cache_block_size target
         \<and> 0 < cm_context_blocks source \<and> 0 < cm_context_blocks target
         \<and> \<not> list_ex both_set_differ [''cache_dtype'', ''cache_layout'']
         \<and> list_all (\<lambda>key. v source key = PNone \<or> v target key = PNone \<or> py_str (v source key) = py_str (v target key))
             [''cache_config_fingerprint'', ''model_revision'', ''tensor_parallel_size'', ''pipeline_parallel_size'',
              ''cache_engine'', ''kv_connector'', ''configured_cache_dtype'']
         \<and> \<not> both_set_differ ''cache_groups'')"

fun common_tokens :: "int list \<Rightarrow> int list \<Rightarrow> nat" where
  "common_tokens (x # xs) (y # ys) = (if x \<noteq> y then 0 else Suc (common_tokens xs ys))"
| "common_tokens _ _ = 0"

definition held_tokens :: "context_metadata \<Rightarrow> int" where
  "held_tokens c = (if cm_num_tokens c \<noteq> 0 then cm_num_tokens c else int (length (cm_tokens c)))"

definition target_specific_reuse :: "context_metadata \<Rightarrow> context_metadata \<Rightarrow> int \<times> int" where
  "target_specific_reuse source target_context =
     (if cm_tokens source = [] \<or> cm_tokens target_context = [] then (0, 0)
      else if \<not> context_cache_compatible source target_context then (0, 0)
      else let size = cm_cache_block_size source;
               aligned_tokens = (int (common_tokens (cm_tokens source) (cm_tokens target_context)) div size) * size;
               reusable_blocks = min (cm_context_blocks source) (min (cm_context_blocks target_context) (aligned_tokens div size))
           in if reusable_blocks \<le> 0 then (0, 0)
              else (min (held_tokens source) (min (held_tokens target_context) (reusable_blocks * size)), reusable_blocks))"

definition target_contexts_of ::
  "migration_env \<Rightarrow> (string \<times> instance_handle) list \<Rightarrow> migration_target
   \<Rightarrow> (string \<times> context_metadata list) list \<Rightarrow> (string \<times> context_metadata list) list res" where
  "target_contexts_of env ready target contexts =
     (case map_of ready (mt_instance_id target) of
        None \<Rightarrow> Inr contexts
      | Some h \<Rightarrow>
          if ih_backend_instance h = None then Inr contexts
          else rbind (except_any (rbind (mv_context_metadata env h) (\<lambda>v. Inr (Some v))) (Inr None)) (\<lambda>answer.
               case answer of
                 None \<Rightarrow> Inr contexts
               | Some v \<Rightarrow> rbind (context_rows v) (\<lambda>rows.
                   rbind (rmap (\<lambda>row. ContextMetadata_from_dict (dict_of row)) (filter is_mapping rows)) (\<lambda>cs.
                   Inr (AList.update (mt_instance_id target) cs contexts)))))"

text \<open>The first context of a target on the same node that shares a prefix gives the reuse on it.\<close>

definition annotate_target ::
  "(string \<times> context_metadata list) list \<Rightarrow> context_metadata \<Rightarrow> migration_target \<Rightarrow> counts \<times> counts \<Rightarrow> counts \<times> counts" where
  "annotate_target contexts source target = (\<lambda>(tokens, blocks).
     if cm_node_id source \<noteq> mt_node_id target then (tokens, blocks)
     else case find (\<lambda>(t, b). 0 < t \<and> 0 < b)
                 (map (target_specific_reuse source) (dget contexts (mt_instance_id target) [])) of
            None \<Rightarrow> (tokens, blocks)
          | Some (t, b) \<Rightarrow> (AList.update (mt_instance_id target) t tokens, AList.update (mt_instance_id target) b blocks))"

definition annotate_source ::
  "(string \<times> context_metadata list) list \<Rightarrow> migration_target list \<Rightarrow> context_metadata \<Rightarrow> context_metadata" where
  "annotate_source contexts targets source =
     (let (tokens, blocks) = fold (annotate_target contexts source) targets
            (cm_reusable_tokens_by_target source, cm_reusable_blocks_by_target source)
      in source\<lparr>cm_reusable_tokens_by_target := tokens, cm_reusable_blocks_by_target := blocks\<rparr>)"

definition populate_target_reuse_maps ::
  "migration_env \<Rightarrow> (string \<times> instance_handle) list \<Rightarrow> context_metadata list \<Rightarrow> migration_target list
   \<Rightarrow> context_metadata list res" where
  "populate_target_reuse_maps env ready sources targets =
     rbind (rfold (target_contexts_of env ready) targets []) (\<lambda>contexts.
     Inr (map (annotate_source contexts targets) sources))"

section \<open>Placement handshake\<close>

text \<open>
  The expert placement a decision was made for and the one a target has now are compared by their
  epoch and fingerprint, as texts.
\<close>

record placement_check =
  hc_attempted :: bool
  hc_verified :: bool
  hc_compatible :: bool
  hc_stale :: bool
  hc_reason :: string
  hc_mismatch_keys :: "string list"
  hc_missing_keys :: "string list"
  hc_expected :: "(string \<times> string option) list"
  hc_current :: "(string \<times> string option) list"

fun placement_marker_value :: "dict \<Rightarrow> string list \<Rightarrow> string option" where
  "placement_marker_value payload [] = None"
| "placement_marker_value payload (key # keys) =
     (let v = dgetn payload key in
      if v = PNone \<or> py_str v = '''' then placement_marker_value payload keys else Some (py_str v))"

definition placement_marker_from_payload :: "dict \<Rightarrow> (string \<times> string option) list" where
  "placement_marker_from_payload payload =
     [(''placement_epoch'', placement_marker_value payload
         [''target_placement_epoch'', ''placement_epoch'', ''target_placement_version'', ''placement_version'',
          ''target_expert_placement_epoch'', ''expert_placement_epoch'']),
      (''expert_placement_fingerprint'', placement_marker_value payload
         [''target_expert_placement_fingerprint'', ''expert_placement_fingerprint'']),
      (''placement_source'', placement_marker_value payload [''target_placement_source'', ''placement_source''])]"

definition marker :: "(string \<times> string option) list \<Rightarrow> string \<Rightarrow> string option" where
  "marker m key = dget m key None"

definition checked_markers :: "string list" where
  "checked_markers = [''placement_epoch'', ''expert_placement_fingerprint'']"

definition compare_placement_markers :: "dict \<Rightarrow> dict \<Rightarrow> placement_check" where
  "compare_placement_markers expected_payload current_payload =
     (let expected = placement_marker_from_payload expected_payload;
          current = placement_marker_from_payload current_payload;
          wanted = filter (\<lambda>key. marker expected key \<noteq> None) checked_markers;
          missing_keys = filter (\<lambda>key. marker current key = None) wanted;
          mismatch_keys = filter (\<lambda>key. marker current key \<noteq> None \<and> marker current key \<noteq> marker expected key) wanted
      in if wanted = [] then
           \<lparr>hc_attempted = False, hc_verified = False, hc_compatible = True, hc_stale = False,
            hc_reason = ''expected_placement_marker_unavailable'', hc_mismatch_keys = [], hc_missing_keys = [],
            hc_expected = expected, hc_current = current\<rparr>
         else if mismatch_keys \<noteq> [] \<or> missing_keys \<noteq> [] then
           \<lparr>hc_attempted = True, hc_verified = (missing_keys = []), hc_compatible = False, hc_stale = (mismatch_keys \<noteq> []),
            hc_reason = (if mismatch_keys \<noteq> [] then ''target_placement_changed'' else ''current_placement_marker_unavailable''),
            hc_mismatch_keys = mismatch_keys, hc_missing_keys = missing_keys,
            hc_expected = expected, hc_current = current\<rparr>
         else
           \<lparr>hc_attempted = True, hc_verified = True, hc_compatible = True, hc_stale = False,
            hc_reason = ''stable_target_placement'', hc_mismatch_keys = [], hc_missing_keys = [],
            hc_expected = expected, hc_current = current\<rparr>)"

definition verify_target_placement_handshake :: "migration_env \<Rightarrow> dict \<Rightarrow> instance_handle \<Rightarrow> placement_check res" where
  "verify_target_placement_handshake env expected_payload target =
     (let expected = placement_marker_from_payload expected_payload in
      if marker expected ''placement_epoch'' = None \<and> marker expected ''expert_placement_fingerprint'' = None
      then Inr (compare_placement_markers expected_payload [])
      else rbind (context_migration_target_metadata env target) (\<lambda>current_metadata.
           Inr (compare_placement_markers expected_payload current_metadata)))"

section \<open>Prefix warm-up\<close>

datatype warmup_failure = Raised pyexc | Returned_False

record warmup =
  wu_attempted :: int
  wu_succeeded :: int
  wu_skipped :: "(string \<times> string \<times> string) list"
  wu_failures :: "(string \<times> string \<times> warmup_failure) list"
  wu_checks :: "placement_check list"
  wu_total_tokens :: int
  wu_recovery_tokens :: "(string \<times> int list list) list"

definition capture_current_tokens ::
  "migration_env \<Rightarrow> instance_handle \<Rightarrow> (string \<times> int list list) list \<Rightarrow> (int list list \<times> (string \<times> int list list) list) res" where
  "capture_current_tokens env h recovery =
     (if ih_backend_instance h = None then Inr ([], recovery)
      else rbind (except_any (mv_current_tokens env h) (Inr [])) (\<lambda>tokens.
           if tokens = [] then Inr ([], recovery)
           else Inr (tokens, AList.update (ih_instance_id h) tokens recovery)))"

definition skip_warmup :: "migration_plan \<Rightarrow> string \<Rightarrow> warmup \<Rightarrow> warmup" where
  "skip_warmup plan reason w =
     w\<lparr>wu_skipped := wu_skipped w @ [(mp_old_instance_id plan, mp_new_instance_id plan, reason)]\<rparr>"

definition resume_on_target ::
  "migration_env \<Rightarrow> migration_plan \<Rightarrow> instance_handle \<Rightarrow> int list list \<Rightarrow> warmup \<Rightarrow> warmup res" where
  "resume_on_target env plan target token_batches w =
     (let w = w\<lparr>wu_attempted := wu_attempted w + 1,
                wu_total_tokens := wu_total_tokens w + int (sum_list (map length token_batches))\<rparr>;
          fail = \<lambda>f. Inr (w\<lparr>wu_failures := wu_failures w @ [(mp_old_instance_id plan, mp_new_instance_id plan, f)]\<rparr>)
      in case mv_resume_kv_cache env target token_batches of
           Inl e \<Rightarrow> if e = OutOfModel then Inl OutOfModel else fail (Raised e)
         | Inr result \<Rightarrow> if result = PBool False then fail Returned_False
                          else Inr (w\<lparr>wu_succeeded := wu_succeeded w + 1\<rparr>))"

definition warm_up_plan ::
  "migration_env \<Rightarrow> (string \<times> instance_handle) list \<Rightarrow> (string \<times> instance_handle) list \<Rightarrow> migration_plan \<Rightarrow> warmup \<Rightarrow> warmup res" where
  "warm_up_plan env source_by_id target_by_id plan w =
     (case (map_of source_by_id (mp_old_instance_id plan), map_of target_by_id (mp_new_instance_id plan)) of
        (Some source, Some target) \<Rightarrow>
          if ih_backend_instance target = None then Inr (skip_warmup plan ''target_backend_unavailable'' w)
          else rbind (verify_target_placement_handshake env (MigrationPlan_to_dict plan) target) (\<lambda>check.
               let w = w\<lparr>wu_checks := wu_checks w @ [check]\<rparr> in
               if \<not> hc_compatible check then Inr (skip_warmup plan (hc_reason check) w)
               else rbind (let known = dget (wu_recovery_tokens w) (ih_instance_id source) [] in
                           if known \<noteq> [] then Inr (known, wu_recovery_tokens w)
                           else capture_current_tokens env source (wu_recovery_tokens w)) (\<lambda>(token_batches, recovery).
                    let w = w\<lparr>wu_recovery_tokens := recovery\<rparr> in
                    if token_batches = [] then Inr (skip_warmup plan ''no_source_tokens'' w)
                    else resume_on_target env plan target token_batches w))
      | _ \<Rightarrow> Inr (skip_warmup plan ''missing_source_or_target'' w))"

definition start_warmup :: "(string \<times> int list list) list \<Rightarrow> warmup" where
  "start_warmup recovery =
     \<lparr>wu_attempted = 0, wu_succeeded = 0, wu_skipped = [], wu_failures = [], wu_checks = [], wu_total_tokens = 0,
      wu_recovery_tokens = recovery\<rparr>"

definition by_id :: "instance_handle list \<Rightarrow> (string \<times> instance_handle) list" where
  "by_id handles = fold (\<lambda>h. AList.update (ih_instance_id h) h) handles []"

text \<open>\<open>None\<close>: the decision has no plans to warm up.\<close>

definition execute_prefix_warmup ::
  "migration_env \<Rightarrow> instance_handle list \<Rightarrow> instance_handle list \<Rightarrow> (string \<times> int list list) list
   \<Rightarrow> migration_decision \<Rightarrow> warmup option res" where
  "execute_prefix_warmup env source_instances ready_instances recovery decision =
     (if md_action decision \<noteq> ''migrate'' then Inr None
      else rbind (rfold (warm_up_plan env (by_id source_instances) (by_id ready_instances)) (md_plans decision)
                    (start_warmup recovery)) (\<lambda>w. Inr (Some w)))"

definition placement_handshake_attempts :: "warmup \<Rightarrow> int" where
  "placement_handshake_attempts w = int (length (filter hc_attempted (wu_checks w)))"

definition placement_handshake_successes :: "warmup \<Rightarrow> int" where
  "placement_handshake_successes w = int (length (filter (\<lambda>c. hc_attempted c \<and> hc_compatible c) (wu_checks w)))"

definition placement_handshake_failures :: "warmup \<Rightarrow> int" where
  "placement_handshake_failures w = int (length (filter (\<lambda>c. hc_attempted c \<and> \<not> hc_compatible c) (wu_checks w)))"

section \<open>The decision after a spot event\<close>

definition context_migration_planner_config :: "dict \<Rightarrow> dict res" where
  "context_migration_planner_config config =
     rbind (py_dict (por (dget config ''planner_config'' (PDict config)) (PDict []))) (\<lambda>planner_config.
     Inr (if truthy (dget config ''require_target_runtime_reuse'' (PBool True))
          then fold (\<lambda>key d. dsetdefault d key (PFloat 0))
                 [''same_node_token_reuse_ratio'', ''same_node_block_reuse_ratio'',
                  ''cross_node_token_reuse_ratio'', ''cross_node_block_reuse_ratio''] planner_config
          else planner_config))"

record migration_settings =
  mg_enabled :: bool
  mg_config :: dict
  mg_emit_candidate_costs :: bool
  mg_enable_kv_cache_migration :: bool

record migration_outcome =
  mo_sources :: "context_metadata list"
  mo_targets :: "migration_target list"
  mo_decision :: migration_decision
  mo_candidate_costs :: "(string \<times> (string \<times> dict) list) list option"
  mo_warmup :: "warmup option"

definition plan_context_migration_after_spot_event ::
  "migration_env \<Rightarrow> migration_settings \<Rightarrow> instance_handle list \<Rightarrow> instance_handle list
   \<Rightarrow> (string \<times> int list list) list \<Rightarrow> migration_outcome option res" where
  "plan_context_migration_after_spot_event env settings matches ready_instances recovery =
     (if \<not> mg_enabled settings then Inr None
      else rbind (context_migration_sources env matches) (\<lambda>sources.
           rbind (context_migration_targets env (mg_config settings) (map ih_instance_id matches) ready_instances) (\<lambda>targets.
           rbind (context_migration_planner_config (mg_config settings)) (\<lambda>planner_config.
           rbind (populate_target_reuse_maps env (by_id ready_instances) sources targets) (\<lambda>sources.
           rbind (plan_low_cost_migration sources targets planner_config) (\<lambda>decision.
           rbind (if mg_emit_candidate_costs settings
                  then rbind (build_candidate_component_costs sources targets planner_config) (\<lambda>costs. Inr (Some costs))
                  else Inr None) (\<lambda>candidate_costs.
           rbind (if mg_enable_kv_cache_migration settings
                  then execute_prefix_warmup env matches ready_instances recovery decision
                  else Inr None) (\<lambda>warm.
           Inr (Some \<lparr>mo_sources = sources, mo_targets = targets, mo_decision = decision,
                      mo_candidate_costs = candidate_costs, mo_warmup = warm\<rparr>)))))))))"

end
