(* ===== verification/Router_Migration_Props.thy ===== *)
theory Router_Migration_Props
  imports Router_Migration Context_Migration_Props
begin

text \<open>
  Properties of the router's use of the migration planner: where contexts may go, how many an instance
  gets, what counts as a cached prefix, and what the placement handshake protects.
\<close>

section \<open>Targets\<close>

text \<open>
  How many contexts an instance may be sent: the configured number for every instance, else the free
  slots of its queue.
\<close>

definition free_slots :: "instance_handle \<Rightarrow> int" where
  "free_slots h = max 0 (ih_max_queue_length h - ih_concurrency h)"

definition target_slots :: "dict \<Rightarrow> instance_handle \<Rightarrow> int" where
  "target_slots config h =
     (if dgetn config ''target_capacity'' = PNone then free_slots h
      else case py_int (dgetn config ''target_capacity'') of Inr n \<Rightarrow> max 0 n | Inl _ \<Rightarrow> 0)"

lemma max_target_slots [simp]: "max 0 (target_slots config h) = target_slots config h"
  by (simp add: target_slots_def free_slots_def split: sum.split)

definition offered :: "dict \<Rightarrow> string list \<Rightarrow> instance_handle \<Rightarrow> bool" where
  "offered config source_ids h \<longleftrightarrow>
     ih_instance_id h \<notin> set source_ids \<and> ih_state h = READY \<and> ih_ready h \<and> 0 < target_slots config h"

lemma capacity_target_slots: "context_migration_target_capacity config h = Inr capacity \<Longrightarrow> capacity = target_slots config h"
  by (auto simp: context_migration_target_capacity_def target_slots_def free_slots_def split: if_splits)

lemma consider_target_spec:
  assumes "consider_target env config ids h ts = Inr ts'"
  shows "map (\<lambda>t. (mt_instance_id t, mt_capacity t)) ts' =
     map (\<lambda>t. (mt_instance_id t, mt_capacity t)) ts
       @ (if offered config ids h then [(ih_instance_id h, target_slots config h)] else [])"
  using assms
  by (auto simp: consider_target_def migration_target_of_def offered_def dest!: capacity_target_slots split: if_splits)

lemma targets_spec:
  assumes "context_migration_targets env config ids instances = Inr ts"
  shows "map (\<lambda>t. (mt_instance_id t, mt_capacity t)) ts =
    map (\<lambda>h. (ih_instance_id h, target_slots config h)) (filter (offered config ids) instances)"
proof -
  have "rfold (consider_target env config ids) instances us = Inr ts \<Longrightarrow>
      map (\<lambda>t. (mt_instance_id t, mt_capacity t)) ts = map (\<lambda>t. (mt_instance_id t, mt_capacity t)) us
        @ map (\<lambda>h. (ih_instance_id h, target_slots config h)) (filter (offered config ids) instances)" for us
    by (induction instances arbitrary: us) (auto dest!: consider_target_spec)
  from this [of "[]"] assms(1) show ?thesis by (simp add: context_migration_targets_def)
qed

lemma outcome_planned:
  assumes "plan_context_migration_after_spot_event env settings matches ready recovery = Inr (Some outcome)"
  obtains config where "plan_low_cost_migration (mo_sources outcome) (mo_targets outcome) config = Inr (mo_decision outcome)"
    and "context_migration_targets env (mg_config settings) (map ih_instance_id matches) ready = Inr (mo_targets outcome)"
    and "mg_enable_kv_cache_migration settings \<Longrightarrow>
      execute_prefix_warmup env matches ready recovery (mo_decision outcome) = Inr (mo_warmup outcome)"
  using assms unfolding plan_context_migration_after_spot_event_def rbind_eq_Inr
  by (auto split: if_splits)

lemma filter_same_key: "distinct (map f xs) \<Longrightarrow> x \<in> set xs \<Longrightarrow> filter (\<lambda>y. f y = f x) xs = [x]"
  by (induction xs) (auto simp: filter_empty_conv image_iff)

lemma plan_new_instance:
  assumes "plan_low_cost_migration sources targets config = Inr d" and "p \<in> set (md_plans d)"
  shows "mp_new_instance_id p \<in> mt_instance_id ` set targets"
proof -
  obtain choices where cap: "within_capacities (map mt_capacity targets) (length sources) choices"
    and plans: "list_all2 (plan_for targets) (filter (\<lambda>sj. 0 \<le> snd sj) (zip sources choices)) (md_plans d)"
    using plan_choices [OF assms(1)] by blast
  obtain sj where sj: "sj \<in> set (filter (\<lambda>sj. 0 \<le> snd sj) (zip sources choices))" "plan_for targets sj p"
    using plans assms(2) by (metis in_set_conv_nth list_all2_conv_all_nth)
  have "nat (snd sj) < length targets"
  proof -
    obtain s j where eq: "sj = (s, j)" by (cases sj)
    have "(s, j) \<in> set (zip sources choices)" and nonneg: "0 \<le> snd sj" using sj(1) unfolding eq by auto
    then have "snd sj \<in> set choices" unfolding eq by (simp add: set_zip_rightD)
    moreover have "\<forall>j \<in> set choices. j = -1 \<or> 0 \<le> j \<and> j < int (length targets)" using cap by (simp add: within_capacities_def)
    ultimately have "snd sj = -1 \<or> snd sj < int (length targets)" by blast
    then show ?thesis using nonneg by linarith
  qed
  then show ?thesis using sj(2) by (auto simp: plan_for_def Let_def)
qed

text \<open>
  C33. Contexts move only to where they may: after a spot event every plan goes to a ready instance that
  is not going away itself, and an instance is sent at most as many contexts as its request queue has
  free slots, or, when a target capacity is configured, at most that many, whatever its queue holds.
\<close>

theorem migration_within_target_slots:
  assumes "plan_context_migration_after_spot_event env settings matches ready recovery = Inr (Some outcome)"
    and "distinct (map ih_instance_id ready)"
  shows "(\<forall>p \<in> set (md_plans (mo_decision outcome)). \<exists>h \<in> set ready. ih_instance_id h = mp_new_instance_id p
       \<and> ih_state h = READY \<and> ih_ready h \<and> mp_new_instance_id p \<notin> ih_instance_id ` set matches)
    \<and> (\<forall>h \<in> set ready. int (length (filter (\<lambda>p. mp_new_instance_id p = ih_instance_id h) (md_plans (mo_decision outcome))))
         \<le> (if dgetn (mg_config settings) ''target_capacity'' = PNone then max 0 (ih_max_queue_length h - ih_concurrency h)
            else case py_int (dgetn (mg_config settings) ''target_capacity'') of Inr n \<Rightarrow> max 0 n | Inl _ \<Rightarrow> 0))"
proof -
  obtain config where plan: "plan_low_cost_migration (mo_sources outcome) (mo_targets outcome) config = Inr (mo_decision outcome)"
    and ts: "context_migration_targets env (mg_config settings) (map ih_instance_id matches) ready = Inr (mo_targets outcome)"
    using outcome_planned [OF assms(1)] by metis
  let ?config = "mg_config settings"
  let ?of = "filter (offered ?config (map ih_instance_id matches)) ready"
  note spec = targets_spec [OF ts]
  have ids: "map mt_instance_id (mo_targets outcome) = map ih_instance_id ?of"
    using arg_cong [OF spec, of "map fst"] by (simp add: comp_def)
  have "\<exists>h \<in> set ready. ih_instance_id h = mp_new_instance_id p \<and> ih_state h = READY \<and> ih_ready h
      \<and> mp_new_instance_id p \<notin> ih_instance_id ` set matches" if "p \<in> set (md_plans (mo_decision outcome))" for p
  proof -
    have "mp_new_instance_id p \<in> set (map mt_instance_id (mo_targets outcome))" using plan_new_instance [OF plan that] by simp
    then show ?thesis unfolding ids by (auto simp: offered_def)
  qed
  moreover have "int (length (filter (\<lambda>p. mp_new_instance_id p = ih_instance_id h) (md_plans (mo_decision outcome)))) \<le> target_slots ?config h"
    if h: "h \<in> set ready" for h
  proof -
    let ?g = "\<lambda>xs. sum_list (map (\<lambda>(_, c). max 0 c) (filter (\<lambda>(i, _). i = ih_instance_id h) xs))"
    have "sum_list (map (\<lambda>t. max 0 (mt_capacity t)) (filter (\<lambda>t. mt_instance_id t = ih_instance_id h) (mo_targets outcome)))
        = ?g (map (\<lambda>t. (mt_instance_id t, mt_capacity t)) (mo_targets outcome))"
      by (simp add: filter_map comp_def)
    also have "\<dots> = sum_list (map (target_slots ?config) (filter (\<lambda>k. ih_instance_id k = ih_instance_id h) ?of))"
      unfolding spec by (simp add: filter_map comp_def)
    also have "\<dots> \<le> target_slots ?config h"
    proof -
      have "filter (\<lambda>k. ih_instance_id k = ih_instance_id h) ?of = (if offered ?config (map ih_instance_id matches) h then [h] else [])"
      proof -
        have "filter (\<lambda>k. ih_instance_id k = ih_instance_id h) ?of
            = filter (offered ?config (map ih_instance_id matches)) (filter (\<lambda>k. ih_instance_id k = ih_instance_id h) ready)"
          by (simp add: conj_commute)
        then show ?thesis by (simp only: filter_same_key [OF assms(2) h] filter.simps)
      qed
      then show ?thesis using max_target_slots [of ?config h] by (simp del: max_target_slots) linarith
    qed
    finally show ?thesis using plans_within_capacity [OF plan, of "ih_instance_id h"] by linarith
  qed
  ultimately show ?thesis unfolding target_slots_def free_slots_def by blast
qed

section \<open>Cached prefixes\<close>

lemma common_tokens_take: "n \<le> common_tokens xs ys \<Longrightarrow> take n xs = take n ys \<and> n \<le> length xs \<and> n \<le> length ys"
proof (induction xs ys arbitrary: n rule: common_tokens.induct)
  case (1 x xs y ys)
  then show ?case by (cases n) (auto split: if_splits)
qed auto

text \<open>
  Reuse is only claimed for a prefix that both runtimes have: a positive reuse means that source
  and target context agree on all tokens of the reused blocks, that both hold these blocks and these
  tokens, and that their caches are compatible.
\<close>

theorem reuse_is_shared_prefix:
  assumes "target_specific_reuse source c = (tokens, blocks)" and "0 < blocks"
  shows "context_cache_compatible source c
    \<and> take (nat (blocks * cm_cache_block_size source)) (cm_tokens source) = take (nat (blocks * cm_cache_block_size source)) (cm_tokens c)
    \<and> blocks * cm_cache_block_size source \<le> int (length (cm_tokens source))
    \<and> blocks * cm_cache_block_size source \<le> int (length (cm_tokens c))
    \<and> blocks \<le> cm_context_blocks source \<and> blocks \<le> cm_context_blocks c
    \<and> tokens \<le> blocks * cm_cache_block_size source \<and> tokens \<le> held_tokens source \<and> tokens \<le> held_tokens c"
proof -
  define size where "size = cm_cache_block_size source"
  define n where "n = int (common_tokens (cm_tokens source) (cm_tokens c))"
  define b where "b = min (cm_context_blocks source) (min (cm_context_blocks c) (n div size * size div size))"
  have "context_cache_compatible source c \<and> (tokens, blocks) = (min (held_tokens source) (min (held_tokens c) (b * size)), b)"
    using assms unfolding target_specific_reuse_def Let_def size_def [symmetric] n_def [symmetric] b_def [symmetric]
    by (auto split: if_splits)
  then have compat: "context_cache_compatible source c"
    and tokens: "tokens = min (held_tokens source) (min (held_tokens c) (blocks * size))"
    and blocks: "blocks = min (cm_context_blocks source) (min (cm_context_blocks c) (n div size * size div size))"
    by (simp_all only: prod.inject b_def)
  have size: "0 < size" using compat by (simp add: context_cache_compatible_def size_def Let_def)
  have "blocks \<le> n div size" using blocks size by simp
  then have "blocks * size \<le> n div size * size" using size by (simp add: mult_right_mono)
  also have "\<dots> \<le> n" using div_mult_mod_eq [of n size] pos_mod_sign [OF size, of n] by linarith
  finally have le: "blocks * size \<le> n" .
  then have "nat (blocks * size) \<le> common_tokens (cm_tokens source) (cm_tokens c)" by (simp add: n_def)
  note common = common_tokens_take [OF this]
  have "0 \<le> blocks * size" using assms(2) size by simp
  then have "blocks * size \<le> int (length (cm_tokens source))" "blocks * size \<le> int (length (cm_tokens c))"
    using common by linarith+
  moreover have "blocks \<le> cm_context_blocks source" "blocks \<le> cm_context_blocks c" using blocks by linarith+
  moreover have "tokens \<le> blocks * size" "tokens \<le> held_tokens source" "tokens \<le> held_tokens c"
    using tokens by linarith+
  ultimately show ?thesis using common compat unfolding size_def by blast
qed

section \<open>Handshake\<close>

lemma filters_empty:
  "(filter P (filter W ks) = [] \<and> filter Q (filter W ks) = []) \<longleftrightarrow> (\<forall>k \<in> set ks. W k \<longrightarrow> \<not> P k \<and> \<not> Q k)"
  by (induction ks) auto

text \<open>
  The handshake lets an operation go on exactly when the placement is the expected one: every
  marker that the decision recorded, epoch or fingerprint, is present in the target's metadata with
  the same text. It calls the target stale exactly when a marker is there and differs.
\<close>

theorem handshake_compatible_iff:
  "(hc_compatible (compare_placement_markers expected_payload current_payload) \<longleftrightarrow>
     list_all (\<lambda>key. marker (placement_marker_from_payload expected_payload) key = None
         \<or> marker (placement_marker_from_payload current_payload) key = marker (placement_marker_from_payload expected_payload) key)
       checked_markers)
   \<and> (hc_stale (compare_placement_markers expected_payload current_payload) \<longleftrightarrow>
     list_ex (\<lambda>key. marker (placement_marker_from_payload expected_payload) key \<noteq> None
         \<and> marker (placement_marker_from_payload current_payload) key \<noteq> None
         \<and> marker (placement_marker_from_payload current_payload) key \<noteq> marker (placement_marker_from_payload expected_payload) key)
       checked_markers)"
proof -
  define e where "e = marker (placement_marker_from_payload expected_payload)"
  define c where "c = marker (placement_marker_from_payload current_payload)"
  define wanted where "wanted = filter (\<lambda>key. e key \<noteq> None) checked_markers"
  define missing where "missing = filter (\<lambda>key. c key = None) wanted"
  define mismatch where "mismatch = filter (\<lambda>key. c key \<noteq> None \<and> c key \<noteq> e key) wanted"
  have empty: "wanted = [] \<Longrightarrow> missing = []" "wanted = [] \<Longrightarrow> mismatch = []" by (simp_all add: missing_def mismatch_def)
  have "hc_compatible (compare_placement_markers expected_payload current_payload) = (missing = [] \<and> mismatch = [])"
    unfolding compare_placement_markers_def Let_def e_def [symmetric] c_def [symmetric]
      wanted_def [symmetric] missing_def [symmetric] mismatch_def [symmetric] using empty by auto
  moreover have "hc_stale (compare_placement_markers expected_payload current_payload) = (mismatch \<noteq> [])"
    unfolding compare_placement_markers_def Let_def e_def [symmetric] c_def [symmetric]
      wanted_def [symmetric] missing_def [symmetric] mismatch_def [symmetric] using empty by auto
  moreover have "(missing = [] \<and> mismatch = []) = list_all (\<lambda>key. e key = None \<or> c key = e key) checked_markers"
    unfolding missing_def mismatch_def wanted_def filters_empty list_all_iff by (rule ball_cong) auto
  moreover have "(mismatch \<noteq> []) = list_ex (\<lambda>key. e key \<noteq> None \<and> c key \<noteq> None \<and> c key \<noteq> e key) checked_markers"
    unfolding mismatch_def wanted_def filter_empty_conv list_ex_iff by auto
  ultimately show ?thesis unfolding e_def c_def by simp
qed

section \<open>Prefix warm-up\<close>

definition warmup_step :: "warmup \<Rightarrow> warmup \<Rightarrow> bool" where
  "warmup_step w w' \<longleftrightarrow>
     wu_attempted w' + int (length (wu_skipped w')) = wu_attempted w + int (length (wu_skipped w)) + 1
     \<and> wu_attempted w' - wu_succeeded w' - int (length (wu_failures w'))
       = wu_attempted w - wu_succeeded w - int (length (wu_failures w))
     \<and> wu_attempted w' - int (length (filter hc_compatible (wu_checks w')))
       \<le> wu_attempted w - int (length (filter hc_compatible (wu_checks w)))"

lemma warmup_step_skip: "warmup_step w (skip_warmup plan reason w)"
  "warmup_step w (skip_warmup plan reason (w\<lparr>wu_checks := wu_checks w @ [check]\<rparr>))"
  "warmup_step w (skip_warmup plan reason (w\<lparr>wu_checks := wu_checks w @ [check], wu_recovery_tokens := recovery\<rparr>))"
  by (simp_all add: warmup_step_def skip_warmup_def)

lemma warmup_step_resume:
  assumes "resume_on_target env plan target batches (w\<lparr>wu_checks := wu_checks w @ [check], wu_recovery_tokens := recovery\<rparr>) = Inr w'"
    and "hc_compatible check"
  shows "warmup_step w w'"
  using assms by (auto simp: resume_on_target_def warmup_step_def Let_def split: sum.splits if_splits)

lemma warm_up_plan_step:
  assumes "warm_up_plan env sources targets plan w = Inr w'"
  shows "warmup_step w w'"
proof (cases "map_of sources (mp_old_instance_id plan)"; cases "map_of targets (mp_new_instance_id plan)")
  fix source target
  assume st: "map_of sources (mp_old_instance_id plan) = Some source" "map_of targets (mp_new_instance_id plan) = Some target"
  show ?thesis
  proof (cases "ih_backend_instance target = None")
    case False
    with assms st obtain check where
      rest: "(let w = w\<lparr>wu_checks := wu_checks w @ [check]\<rparr> in
         if \<not> hc_compatible check then Inr (skip_warmup plan (hc_reason check) w)
         else rbind (let known = dget (wu_recovery_tokens w) (ih_instance_id source) [] in
                     if known \<noteq> [] then Inr (known, wu_recovery_tokens w)
                     else capture_current_tokens env source (wu_recovery_tokens w)) (\<lambda>(token_batches, recovery).
              let w = w\<lparr>wu_recovery_tokens := recovery\<rparr> in
              if token_batches = [] then Inr (skip_warmup plan ''no_source_tokens'' w)
              else resume_on_target env plan target token_batches w)) = Inr w'"
      unfolding warm_up_plan_def by auto
    show ?thesis
    proof (cases "hc_compatible check")
      case True
      with rest obtain batches recovery where
        "(if batches = [] then Inr (skip_warmup plan ''no_source_tokens'' (w\<lparr>wu_checks := wu_checks w @ [check], wu_recovery_tokens := recovery\<rparr>))
          else resume_on_target env plan target batches (w\<lparr>wu_checks := wu_checks w @ [check], wu_recovery_tokens := recovery\<rparr>)) = Inr w'"
        unfolding Let_def rbind_eq_Inr by auto
      then show ?thesis using True warmup_step_resume warmup_step_skip(3) by (auto split: if_splits)
    qed (use rest warmup_step_skip(2) in \<open>auto simp: Let_def\<close>)
  qed (use assms st warmup_step_skip(1) in \<open>auto simp: warm_up_plan_def\<close>)
qed (use assms warmup_step_skip(1) in \<open>auto simp: warm_up_plan_def\<close>)

text \<open>
  The warm-up accounts for every plan: each is skipped or attempted, and an attempt succeeded or
  failed; prefixes are resumed only on targets that passed the handshake, so there are at least as
  many compatible checks as attempts.
\<close>

theorem prefix_warmup_accounts:
  assumes "execute_prefix_warmup env matches ready recovery decision = Inr (Some w)"
  shows "wu_attempted w + int (length (wu_skipped w)) = int (length (md_plans decision))
    \<and> wu_attempted w = wu_succeeded w + int (length (wu_failures w))
    \<and> wu_attempted w \<le> int (length (filter hc_compatible (wu_checks w)))"
proof -
  let ?f = "warm_up_plan env (by_id matches) (by_id ready)"
  have run: "rfold ?f (md_plans decision) (start_warmup recovery) = Inr w"
    using assms by (auto simp: execute_prefix_warmup_def split: if_splits)
  have "rfold ?f plans v = Inr w \<Longrightarrow>
      wu_attempted w + int (length (wu_skipped w)) = wu_attempted v + int (length (wu_skipped v)) + int (length plans)
      \<and> wu_attempted w - wu_succeeded w - int (length (wu_failures w))
        = wu_attempted v - wu_succeeded v - int (length (wu_failures v))
      \<and> wu_attempted w - int (length (filter hc_compatible (wu_checks w)))
        \<le> wu_attempted v - int (length (filter hc_compatible (wu_checks v)))" for plans v
  proof (induction plans arbitrary: v)
    case (Cons plan plans)
    then obtain u where u: "?f plan v = Inr u" "rfold ?f plans u = Inr w" by auto
    from warm_up_plan_step [OF u(1)] Cons.IH [OF u(2)] show ?case unfolding warmup_step_def by (simp add: algebra_simps)
  next
    case Nil
    then show ?case by simp
  qed
  from this [OF run] show ?thesis by (simp add: start_warmup_def)
qed


section \<open>Examples\<close>

text \<open>Two instances are preempted; of the two ready ones only the second has a free slot.\<close>

definition ex_handle :: "string \<Rightarrow> int \<Rightarrow> instance_handle" where
  "ex_handle name concurrency =
     (InstanceHandle name 2 1)\<lparr>ih_node_id := Some (''node_'' @ name), ih_backend_instance := Some 0, ih_ready := True,
       ih_state := READY, ih_concurrency := concurrency\<rparr>"

definition ex_context_row :: "instance_handle \<Rightarrow> pyval" where
  "ex_context_row h = PDict [(''instance_id'', PStr (ih_instance_id h)), (''node_id'', PStr (node_text h)),
     (''request_id'', PStr ''r''), (''tokens'', PList [PInt 1, PInt 2, PInt 3, PInt 4, PInt 5]),
     (''num_tokens'', PInt 5), (''cache_block_size'', PInt 2), (''context_blocks'', PInt 2)]"

definition ex_env :: migration_env where
  "ex_env = \<lparr>mv_context_metadata = (\<lambda>h. Inr (PDict [(''contexts'', PList [ex_context_row h])])),
     mv_runtime_metadata = (\<lambda>h. Inr (PDict [(''placement_epoch'', PInt 7)])),
     mv_current_tokens = (\<lambda>h. Inr [[1, 2, 3]]),
     mv_resume_kv_cache = (\<lambda>h batches. Inr (PBool True))\<rparr>"

definition ex_settings :: migration_settings where
  "ex_settings = \<lparr>mg_enabled = True, mg_config = [], mg_emit_candidate_costs = False, mg_enable_kv_cache_migration = True\<rparr>"

definition ex_matches :: "instance_handle list" where
  "ex_matches = [ex_handle ''p'' 1, ex_handle ''q'' 1]"

definition ex_ready :: "instance_handle list" where
  "ex_ready = [ex_handle ''a'' 2, ex_handle ''b'' 1]"

definition ex_outcome :: migration_outcome where
  "ex_outcome = the (projr (plan_context_migration_after_spot_event ex_env ex_settings ex_matches ex_ready []))"

definition ex_warmup :: warmup where
  "ex_warmup = the (projr (execute_prefix_warmup ex_env ex_matches ex_ready [] (mo_decision ex_outcome)))"

lemma ex_outcome: "plan_context_migration_after_spot_event ex_env ex_settings ex_matches ex_ready [] = Inr (Some ex_outcome)"
proof -
  have "case plan_context_migration_after_spot_event ex_env ex_settings ex_matches ex_ready [] of Inr (Some _) \<Rightarrow> True | _ \<Rightarrow> False"
    by code_simp
  then show ?thesis by (simp add: ex_outcome_def split: sum.splits option.splits)
qed

lemma ex_warmup: "execute_prefix_warmup ex_env ex_matches ex_ready [] (mo_decision ex_outcome) = Inr (Some ex_warmup)"
proof -
  have "case execute_prefix_warmup ex_env ex_matches ex_ready [] (mo_decision ex_outcome) of Inr (Some _) \<Rightarrow> True | _ \<Rightarrow> False"
    by code_simp
  then show ?thesis by (simp add: ex_warmup_def split: sum.splits option.splits)
qed

theorem migration_within_target_slots_witness:
  "map mp_new_instance_id (md_plans (mo_decision ex_outcome)) = [''b''] \<and> length (mo_sources ex_outcome) = 2
   \<and> int (length (filter (\<lambda>p. mp_new_instance_id p = ''b'') (md_plans (mo_decision ex_outcome)))) \<le> 1"
proof -
  have config: "dgetn (mg_config ex_settings) ''target_capacity'' = PNone" "distinct (map ih_instance_id ex_ready)" by code_simp+
  have b: "ex_handle ''b'' 1 \<in> set ex_ready" by (simp add: ex_ready_def)
  have "ih_instance_id (ex_handle ''b'' 1) = ''b''" "max 0 (ih_max_queue_length (ex_handle ''b'' 1) - ih_concurrency (ex_handle ''b'' 1)) = 1" by code_simp+
  with migration_within_target_slots [OF ex_outcome config(2)] config(1) b
  have "int (length (filter (\<lambda>p. mp_new_instance_id p = ''b'') (md_plans (mo_decision ex_outcome)))) \<le> 1" by fastforce
  moreover have "map mp_new_instance_id (md_plans (mo_decision ex_outcome)) = [''b'']" by code_simp
  moreover have "length (mo_sources ex_outcome) = 2" by code_simp
  ultimately show ?thesis by blast
qed

theorem prefix_warmup_accounts_witness:
  "wu_attempted ex_warmup = 1 \<and> wu_succeeded ex_warmup + int (length (wu_failures ex_warmup)) = 1
   \<and> 1 \<le> length (filter hc_compatible (wu_checks ex_warmup))"
proof -
  have "wu_attempted ex_warmup = 1" by code_simp
  with prefix_warmup_accounts [OF ex_warmup] show ?thesis by linarith
qed

definition ex_cached :: "int list \<Rightarrow> context_metadata" where
  "ex_cached tokens =
     \<lparr>cm_request_id = PStr ''r'', cm_instance_id = ''i'', cm_node_id = ''n'', cm_num_tokens = int (length tokens),
      cm_context_blocks = 3, cm_tokens = tokens, cm_cache_block_size = 2, cm_cache_dtype = ''fp16'', cm_cache_layout = '''',
      cm_reusable_tokens_by_target = [], cm_reusable_blocks_by_target = [], cm_metadata = []\<rparr>"

theorem reuse_is_shared_prefix_witness:
  "target_specific_reuse (ex_cached [1, 2, 3, 4, 5, 6]) (ex_cached [1, 2, 3, 4, 5, 9]) = (4, 2)
   \<and> take 4 (cm_tokens (ex_cached [1, 2, 3, 4, 5, 6])) = take 4 (cm_tokens (ex_cached [1, 2, 3, 4, 5, 9]))"
proof -
  have run: "target_specific_reuse (ex_cached [1, 2, 3, 4, 5, 6]) (ex_cached [1, 2, 3, 4, 5, 9]) = (4, 2)" by code_simp
  moreover have "cm_cache_block_size (ex_cached [1, 2, 3, 4, 5, 6]) = 2" by code_simp
  ultimately show ?thesis using reuse_is_shared_prefix [OF run] by simp
qed

end
