(* ===== verification/Py_Effects.thy ===== *)
theory Py_Effects
  imports Py_Prelude
begin

text \<open>
  Statements that change variables and may raise: what was changed before an exception stays changed
  for the handlers. A statement is a function from the variables to its outcome and the variables
  after it.
\<close>

type_synonym ('s, 'a) stmt = "'s \<Rightarrow> 'a res \<times> 's"

definition sbind :: "('s, 'a) stmt \<Rightarrow> ('a \<Rightarrow> ('s, 'b) stmt) \<Rightarrow> ('s, 'b) stmt" where
  "sbind m f s = (case m s of (Inl e, t) \<Rightarrow> (Inl e, t) | (Inr x, t) \<Rightarrow> f x t)"

definition lift :: "('s \<Rightarrow> 'a res) \<Rightarrow> ('s, 'a) stmt" where
  "lift f s = (f s, s)"

definition change :: "('s \<Rightarrow> 's) \<Rightarrow> ('s, unit) stmt" where
  "change f s = (Inr (), f s)"

text \<open>\<open>try: m except Exception: h; raise\<close>\<close>

definition on_raise :: "('s, 'a) stmt \<Rightarrow> ('s, unit) stmt \<Rightarrow> ('s, 'a) stmt" where
  "on_raise m h s =
     (case m s of
        (Inr x, t) \<Rightarrow> (Inr x, t)
      | (Inl e, t) \<Rightarrow> if e = OutOfModel then (Inl e, t)
                     else (case h t of (Inl e', u) \<Rightarrow> (Inl e', u) | (Inr _, u) \<Rightarrow> (Inl e, u)))"

fun each :: "('x \<Rightarrow> ('s, unit) stmt) \<Rightarrow> 'x list \<Rightarrow> ('s, unit) stmt" where
  "each f [] s = (Inr (), s)"
| "each f (x # xs) s = sbind (f x) (\<lambda>_. each f xs) s"

text \<open>\<open>str(exc)\<close>, where the model keeps the message of an exception.\<close>

fun exc_text :: "pyexc \<Rightarrow> string" where
  "exc_text (ValueError m) = m"
| "exc_text (RuntimeError m) = m"
| "exc_text (KeyError k) = repr_str k"
| "exc_text _ = ''''"

section \<open>How statements end\<close>

lemma sbind_Inr: "sbind m f s = (Inr y, t) \<longleftrightarrow> (\<exists>x u. m s = (Inr x, u) \<and> f x u = (Inr y, t))"
  by (auto simp: sbind_def split: prod.splits sum.splits)

lemma sbind_Inl: "sbind m f s = (Inl e, t) \<longleftrightarrow> m s = (Inl e, t) \<or> (\<exists>x u. m s = (Inr x, u) \<and> f x u = (Inl e, t))"
  by (auto simp: sbind_def split: prod.splits sum.splits)

lemma lift_eq [simp]: "lift f s = (r, t) \<longleftrightarrow> f s = r \<and> t = s"
  by (auto simp: lift_def)

lemma change_eq [simp]: "change f s = (r, t) \<longleftrightarrow> r = Inr () \<and> t = f s"
  by (auto simp: change_def)

section \<open>Relations kept by statements\<close>

definition keeps :: "('s \<Rightarrow> 's \<Rightarrow> bool) \<Rightarrow> ('s, 'a) stmt \<Rightarrow> bool" where
  "keeps R m \<longleftrightarrow> (\<forall>s. R s (snd (m s)))"

lemma keepsI: "(\<And>s. R s (snd (m s))) \<Longrightarrow> keeps R m"
  by (simp add: keeps_def)

lemma keepsD: "keeps R m \<Longrightarrow> m s = (r, t) \<Longrightarrow> R s t"
  unfolding keeps_def by (metis snd_conv)

text \<open>A reflexive and transitive relation between the variables before and after.\<close>

locale kept =
  fixes R :: "'s \<Rightarrow> 's \<Rightarrow> bool"
  assumes kept_refl: "R s s" and kept_trans: "R s t \<Longrightarrow> R t u \<Longrightarrow> R s u"
begin

lemma keeps_sbind [intro]:
  assumes "keeps R m" and "\<And>x. keeps R (f x)"
  shows "keeps R (sbind m f)"
proof (rule keepsI)
  fix s
  obtain r t where m: "m s = (r, t)" by (cases "m s")
  have "R s t" by (rule keepsD [OF assms(1) m])
  moreover have "R t (snd (f x t))" for x using assms(2) [of x] by (simp add: keeps_def)
  ultimately show "R s (snd (sbind m f s))"
    using kept_trans by (cases r) (auto simp: sbind_def m)
qed

lemma keeps_lift [intro, simp]: "keeps R (lift f)"
  by (simp add: keeps_def lift_def kept_refl)

lemma keeps_change: "(\<And>s. R s (f s)) \<Longrightarrow> keeps R (change f)"
  by (simp add: keeps_def change_def)

lemma keeps_each: "(\<And>x. x \<in> set xs \<Longrightarrow> keeps R (f x)) \<Longrightarrow> keeps R (each f xs)"
proof (induction xs)
  case Nil
  then show ?case by (simp add: keeps_def kept_refl)
next
  case (Cons x xs)
  have "keeps R (sbind (f x) (\<lambda>_. each f xs))" using Cons by (intro keeps_sbind) simp_all
  then show ?case by (simp add: keeps_def)
qed

end

section \<open>Preconditions and the two postconditions\<close>

text \<open>
  From a state with \<open>P\<close> the statement ends with a value and \<open>Q\<close>, or with an exception and \<open>E\<close>.
\<close>

definition ends ::
  "('s \<Rightarrow> bool) \<Rightarrow> ('s, 'a) stmt \<Rightarrow> ('a \<Rightarrow> 's \<Rightarrow> bool) \<Rightarrow> ('s \<Rightarrow> bool) \<Rightarrow> bool" where
  "ends P m Q E \<longleftrightarrow> (\<forall>s. P s \<longrightarrow> (case m s of (Inr x, t) \<Rightarrow> Q x t | (Inl _, t) \<Rightarrow> E t))"

lemma endsI:
  assumes "\<And>s x t. P s \<Longrightarrow> m s = (Inr x, t) \<Longrightarrow> Q x t" and "\<And>s e t. P s \<Longrightarrow> m s = (Inl e, t) \<Longrightarrow> E t"
  shows "ends P m Q E"
  using assms unfolding ends_def by (simp split: prod.split sum.split)

lemma ends_value: "ends P m Q E \<Longrightarrow> P s \<Longrightarrow> m s = (Inr x, t) \<Longrightarrow> Q x t"
  unfolding ends_def by (drule spec [of _ s]) simp

lemma ends_raise: "ends P m Q E \<Longrightarrow> P s \<Longrightarrow> m s = (Inl e, t) \<Longrightarrow> E t"
  unfolding ends_def by (drule spec [of _ s]) simp

lemma ends_either: "ends P m (\<lambda>_. Q) Q \<Longrightarrow> P s \<Longrightarrow> Q (snd (m s))"
  unfolding ends_def by (drule spec [of _ s]) (simp split: prod.splits sum.splits)

lemma ends_conseq:
  assumes "ends P' m Q' E'" and "\<And>s. P s \<Longrightarrow> P' s" and "\<And>x t. Q' x t \<Longrightarrow> Q x t" and "\<And>t. E' t \<Longrightarrow> E t"
  shows "ends P m Q E"
  using assms by (intro endsI) (blast dest: ends_value ends_raise)+

lemma ends_sbind:
  assumes "ends P m Q E" and "\<And>x. ends (Q x) (f x) R E"
  shows "ends P (sbind m f) R E"
proof (rule endsI)
  fix s x t assume "P s" and "sbind m f s = (Inr x, t)"
  then show "R x t" using assms by (auto simp: sbind_Inr dest: ends_value)
next
  fix s e t assume "P s" and "sbind m f s = (Inl e, t)"
  then show "E t" using assms by (auto simp: sbind_Inl dest: ends_value ends_raise)
qed

lemma ends_on_raise:
  assumes "ends P m Q E'" and "ends E' h (\<lambda>_. E) E" and "\<And>t. E' t \<Longrightarrow> E t"
  shows "ends P (on_raise m h) Q E"
proof (rule endsI)
  fix s x t assume "P s" and "on_raise m h s = (Inr x, t)"
  then show "Q x t" using assms(1)
    by (auto simp: on_raise_def split: prod.splits sum.splits if_splits dest: ends_value)
next
  fix s e t assume s: "P s" and run: "on_raise m h s = (Inl e, t)"
  then obtain e' u where u: "m s = (Inl e', u)" by (auto simp: on_raise_def split: prod.splits sum.splits)
  then have "E' u" using assms(1) s by (blast dest: ends_raise)
  then show "E t" using run u assms(2,3)
    by (auto simp: on_raise_def split: prod.splits sum.splits if_splits dest: ends_value ends_raise)
qed

lemma ends_pass: "(\<And>s. P s \<Longrightarrow> Q () s) \<Longrightarrow> ends P (lift (\<lambda>_. Inr ())) Q E"
  by (intro endsI) auto

lemma ends_if: "(b \<Longrightarrow> ends P m Q E) \<Longrightarrow> (\<not> b \<Longrightarrow> ends P m' Q E) \<Longrightarrow> ends P (if b then m else m') Q E"
  by simp

end
