(* ===== verification/Router_Recovery.thy ===== *)
theory Router_Recovery
  imports Router_Migration Stateful_Recovery Py_Effects
begin

text \<open>
  The life of one request in the router, \<open>inference\<close> of \<open>src/sllm/routers/roundrobin_router.py\<close>:
  attempts on changing instances until a result is good or the retries are used up, with what is
  saved of a lost attempt (its tokens or its inference state) and how the next attempt takes it up.
  The request slots and the request count are in \<open>Router_Pools\<close>; here an attempt records the slot it
  gives back.

  An attempt is run against what it finds: the instance the load balancer gives, the ready handles,
  the answers of the backends and what the other tasks wrote into the recovery store meanwhile. Time
  stamps and the emitted metrics other than the request event and the native receipt are left out. A
  backend's tokens that are no lists of lists of integers, and a count of completed tokens that is no
  integer, are out of the model.
\<close>

section \<open>Settings and backends\<close>

datatype recovery_policy = NONE | NAIVE_RETRY | GENERATED_TOKEN_REPLAY | STATEFUL_RECOVERY

definition policy_names :: "(string \<times> recovery_policy) list" where
  "policy_names =
     [(''none'', NONE), (''naive_retry'', NAIVE_RETRY), (''generated_token_replay'', GENERATED_TOKEN_REPLAY),
      (''stateful_recovery'', STATEFUL_RECOVERY)]"

definition normalize_policy :: "pyval \<Rightarrow> recovery_policy res" where
  "normalize_policy policy =
     (case policy of
        PNone \<Rightarrow> Inr NONE
      | PStr s \<Rightarrow> (case map_of policy_names s of Some p \<Rightarrow> Inr p | None \<Rightarrow> Inl (ValueError ''Unsupported recovery policy''))
      | _ \<Rightarrow> Inl (ValueError ''Unsupported recovery policy''))"

record recovery_settings =
  rc_recovery_policy :: recovery_policy
  rc_require_native_kv_restore :: bool
  rc_max_retries :: int
  rc_enable_stateful_target_planner :: bool
  rc_stateful_recovery_config :: dict
  rc_backend :: string
  rc_model_name :: string
  rc_enable_lora :: bool
  rc_loaded_lora_adapters :: "(string \<times> string) list"

definition recovery_settings_of :: "dict \<Rightarrow> string \<Rightarrow> string \<Rightarrow> bool \<Rightarrow> recovery_settings res" where
  "recovery_settings_of router_config backend model_name enable_lora =
     rbind (normalize_policy (dget router_config ''recovery_policy'' (PStr ''none''))) (\<lambda>policy.
     rbind (py_int (dget router_config ''max_retries'' (PInt 0))) (\<lambda>max_retries.
     rbind (py_dict (dget router_config ''stateful_recovery_config'' (PDict []))) (\<lambda>config.
     Inr \<lparr>rc_recovery_policy = policy,
          rc_require_native_kv_restore = truthy (dget router_config ''require_native_kv_restore'' (PBool False)),
          rc_max_retries = max_retries,
          rc_enable_stateful_target_planner = truthy (dget router_config ''enable_stateful_target_planner'' (PBool True)),
          rc_stateful_recovery_config = config,
          rc_backend = backend, rc_model_name = model_name, rc_enable_lora = enable_lora,
          rc_loaded_lora_adapters = []\<rparr>)))"

record backends =
  bk_metadata :: migration_env
  bk_has_runtime_metadata :: "instance_handle \<Rightarrow> bool"
  bk_supports_state_restore :: "instance_handle \<Rightarrow> pyval res"
  bk_restore_inference_state :: "instance_handle \<Rightarrow> dict \<Rightarrow> dict \<Rightarrow> pyval res"
  bk_export_inference_state :: "instance_handle \<Rightarrow> dict \<Rightarrow> int list list option \<Rightarrow> int option \<Rightarrow> pyval res"
  bk_load_lora_adapter :: "instance_handle \<Rightarrow> string \<Rightarrow> string \<Rightarrow> unit res"
  bk_resume_generate :: "instance_handle \<Rightarrow> dict \<Rightarrow> int list list \<Rightarrow> pyval res"
  bk_generate :: "instance_handle \<Rightarrow> dict \<Rightarrow> pyval res"
  bk_encode :: "instance_handle \<Rightarrow> dict \<Rightarrow> pyval res"

text \<open>\<open>recovery_tokens_by_instance\<close> and \<open>recovery_state_by_instance\<close>\<close>

record recovery_store =
  sv_tokens :: "(string \<times> int list list) list"
  sv_states :: "(string \<times> dict) list"

record attempt_env =
  at_backends :: backends
  at_allocation :: "instance_handle res"
  at_ready :: "instance_handle list"
  at_reservation :: "instance_handle \<Rightarrow> instance_handle"
  at_migration_state :: "inference_state option"
  at_others :: "recovery_store \<Rightarrow> recovery_store"

text \<open>\<open>at_reservation\<close> gives the handle as it is when the planned target is reserved.\<close>

section \<open>Saving the state of an attempt\<close>

definition capture_tokens ::
  "backends \<Rightarrow> instance_handle \<Rightarrow> recovery_store \<Rightarrow> (int list list \<times> recovery_store) res" where
  "capture_tokens backends h store =
     rbind (capture_current_tokens (bk_metadata backends) h (sv_tokens store)) (\<lambda>(tokens, saved).
     Inr (tokens, store\<lparr>sv_tokens := saved\<rparr>))"

definition token_payload :: "dict \<Rightarrow> int list \<Rightarrow> int option \<Rightarrow> dict" where
  "token_payload request_data tokens completed_tokens =
     [(''request_id'', dgetn request_data ''request_id''),
      (''tokens'', PList (map PInt tokens)),
      (''completed_tokens'', PInt (case completed_tokens of
          Some n \<Rightarrow> if n \<noteq> 0 then n else int (length tokens) | None \<Rightarrow> int (length tokens))),
      (''state_kind'', PStr ''token_snapshot''),
      (''supports_restore'', PBool False)]"

text \<open>The answer of \<open>export_inference_state\<close>, or a snapshot of the tokens when it raises.\<close>

definition export_payload ::
  "backends \<Rightarrow> instance_handle \<Rightarrow> dict \<Rightarrow> int list list option \<Rightarrow> int option \<Rightarrow> recovery_store
   \<Rightarrow> (pyval option \<times> recovery_store) res" where
  "export_payload backends h request_data current_output completed_tokens store =
     (case bk_export_inference_state backends h request_data current_output completed_tokens of
        Inr payload \<Rightarrow> Inr (Some payload, store)
      | Inl OutOfModel \<Rightarrow> Inl OutOfModel
      | Inl _ \<Rightarrow>
          rbind (case current_output of
                   Some (t # ts) \<Rightarrow> Inr (t # ts, store)
                 | _ \<Rightarrow> capture_tokens backends h store) (\<lambda>(tokens, store).
          case tokens of
            [] \<Rightarrow> Inr (None, store)
          | first # _ \<Rightarrow> Inr (Some (PDict (token_payload request_data first completed_tokens)), store)))"

definition fill_payload :: "recovery_settings \<Rightarrow> instance_handle \<Rightarrow> dict \<Rightarrow> dict" where
  "fill_payload settings h payload =
     (let payload = (if truthy (dgetn payload ''instance_id'') then payload
                     else AList.update ''instance_id'' (PStr (ih_instance_id h)) payload);
          payload = (if truthy (dgetn payload ''node_id'') then payload
                     else AList.update ''node_id'' (PStr (node_text h)) payload)
      in dsetdefault (dsetdefault payload ''backend'' (PStr (rc_backend settings)))
           ''model_name'' (PStr (rc_model_name settings)))"

definition keep_state ::
  "instance_handle \<Rightarrow> inference_state \<Rightarrow> recovery_store \<Rightarrow> recovery_store" where
  "keep_state h state store =
     store\<lparr>sv_states := AList.update (ih_instance_id h) (InferenceState_to_dict state) (sv_states store),
           sv_tokens := AList.update (ih_instance_id h) [is_tokens state] (sv_tokens store)\<rparr>"

definition capture_inference_state ::
  "recovery_settings \<Rightarrow> backends \<Rightarrow> instance_handle \<Rightarrow> dict \<Rightarrow> int list list option \<Rightarrow> int option \<Rightarrow> dict option
   \<Rightarrow> recovery_store \<Rightarrow> (inference_state option \<times> recovery_store) res" where
  "capture_inference_state settings backends h request_data current_output completed_tokens exported_state store =
     (if ih_backend_instance h = None \<and> exported_state = None then Inr (None, store)
      else rbind (case exported_state of
                    Some d \<Rightarrow> Inr (Some (PDict d), store)
                  | None \<Rightarrow> export_payload backends h request_data current_output completed_tokens store)
        (\<lambda>(payload, store).
        case payload of
          Some (PDict payload) \<Rightarrow>
            rbind (InferenceState_from_dict (fill_payload settings h payload)) (\<lambda>state.
            let state = (case current_output of
                           Some (first # _) \<Rightarrow>
                             if is_tokens state = [] then
                               InferenceState_from_tokens first (dgetn request_data ''request_id'') (ih_instance_id h)
                                 (node_text h) (rc_backend settings) (rc_model_name settings) completed_tokens
                                 ''token_snapshot'' False [] []
                             else state
                         | _ \<Rightarrow> state)
            in if is_tokens state = [] then Inr (None, store)
               else Inr (Some state, keep_state h state store))
        | _ \<Rightarrow> Inr (None, store)))"

section \<open>Requests to a backend\<close>

definition reduced_max_tokens :: "dict \<Rightarrow> int \<Rightarrow> dict res" where
  "reduced_max_tokens request completed_tokens =
     (if dhas request ''max_tokens''
      then rbind (py_int (dgetn request ''max_tokens'')) (\<lambda>max_tokens.
           Inr (AList.update ''max_tokens'' (PInt (max 1 (max_tokens - completed_tokens))) request))
      else Inr request)"

definition build_token_replay_request :: "dict \<Rightarrow> int list list option \<Rightarrow> dict res" where
  "build_token_replay_request request_data replay_tokens =
     (let completed_tokens = dgetn request_data ''_completed_tokens'';
          replay_request = AList.delete ''_completed_tokens'' request_data
      in case replay_tokens of
           Some (first_sequence # _) \<Rightarrow>
             let replay_request = AList.update ''input_tokens'' (PList (map PInt first_sequence)) replay_request
             in if completed_tokens \<noteq> PNone \<and> dhas replay_request ''max_tokens''
                then rbind (py_int (dgetn replay_request ''max_tokens'')) (\<lambda>max_tokens.
                     rbind (py_int completed_tokens) (\<lambda>completed.
                     Inr (AList.update ''max_tokens'' (PInt (max 1 (max_tokens - completed))) replay_request)))
                else Inr replay_request
         | _ \<Rightarrow> Inr replay_request)"

text \<open>\<open>xs[-n:]\<close> for \<open>n\<close> other than 0\<close>

definition last_tokens :: "int \<Rightarrow> 'a list \<Rightarrow> 'a list" where
  "last_tokens n xs = (if 0 < n then drop (length xs - nat n) xs else drop (nat (- n)) xs)"

definition build_stateful_restore_request :: "recovery_settings \<Rightarrow> dict \<Rightarrow> inference_state \<Rightarrow> dict res" where
  "build_stateful_restore_request settings request_data state =
     (let request = AList.delete ''_completed_tokens'' request_data;
          request = (if is_tokens state \<noteq> [] then AList.update ''input_tokens'' (PList (map PInt (is_tokens state))) request
                     else request);
          completed_tokens = is_completed_tokens state;
          visible = int (length (is_tokens state))
      in rbind (if rc_backend settings = ''vllm'' \<and> completed_tokens \<noteq> 0 then
                  if visible < completed_tokens then Inl (ValueError ''committed_output_exceeds_visible_tokens'')
                  else Inr (AList.update ''_spotserve_original_prompt_tokens'' (PInt (visible - completed_tokens))
                        (AList.update ''_spotserve_committed_output_tokens''
                           (PList (map PInt (last_tokens completed_tokens (is_tokens state)))) request))
                else Inr request) (\<lambda>request.
         if completed_tokens \<noteq> 0 then reduced_max_tokens request completed_tokens else Inr request))"

definition ensure_lora_adapter :: "recovery_settings \<Rightarrow> backends \<Rightarrow> instance_handle \<Rightarrow> dict \<Rightarrow> unit res" where
  "ensure_lora_adapter settings backends h request_data =
     (if \<not> rc_enable_lora settings \<or> \<not> dhas request_data ''lora_adapter_name'' then Inr ()
      else case dgetn request_data ''lora_adapter_name'' of
             PStr name \<Rightarrow>
               (case map_of (rc_loaded_lora_adapters settings) name of
                  None \<Rightarrow> Inl (ValueError (''Lora adapter '' @ name @ '' not found''))
                | Some path \<Rightarrow> bk_load_lora_adapter backends h name path)
           | name \<Rightarrow> if hashable name then Inl (ValueError (''Lora adapter '' @ py_str name @ '' not found''))
                      else Inl TypeError)"

definition call_backend ::
  "recovery_settings \<Rightarrow> backends \<Rightarrow> instance_handle \<Rightarrow> dict \<Rightarrow> string \<Rightarrow> int list list option \<Rightarrow> inference_state option
   \<Rightarrow> pyval res" where
  "call_backend settings backends h request_data action replay_tokens state_snapshot =
     rbind (ensure_lora_adapter settings backends h request_data) (\<lambda>_.
     rbind (case state_snapshot of
              Some state \<Rightarrow> build_stateful_restore_request settings request_data state
            | None \<Rightarrow> build_token_replay_request request_data replay_tokens) (\<lambda>backend_request.
     let plain = (if action = ''generate'' then bk_generate backends h backend_request
                  else if action = ''encode'' then bk_encode backends h backend_request
                  else Inr (PDict [(''error'', PStr ''Invalid action'')]))
     in case replay_tokens of
          Some (t # ts) \<Rightarrow>
            if action = ''generate'' \<and> rc_backend settings = ''transformers''
            then except_any (bk_resume_generate backends h backend_request (t # ts)) plain
            else plain
        | _ \<Rightarrow> plain))"

section \<open>The target of a restore\<close>

definition backend_supports_state_restore :: "backends \<Rightarrow> instance_handle \<Rightarrow> bool res" where
  "backend_supports_state_restore backends h =
     (if ih_backend_instance h = None then Inr False
      else except_any (rbind (bk_supports_state_restore backends h) (\<lambda>v. Inr (truthy v))) (Inr False))"

definition recovery_candidate ::
  "recovery_settings \<Rightarrow> backends \<Rightarrow> inference_state \<Rightarrow> string \<Rightarrow> instance_handle
   \<Rightarrow> dict list \<times> (string \<times> instance_handle) list \<Rightarrow> (dict list \<times> (string \<times> instance_handle) list) res" where
  "recovery_candidate settings backends state source_instance_id h found =
     (if ih_instance_id h = source_instance_id \<or> \<not> can_accept_request 1 h \<or> ih_backend_instance h = None then Inr found
      else rbind (backend_supports_state_restore backends h) (\<lambda>supports_restore.
           if \<not> supports_restore \<or> \<not> bk_has_runtime_metadata backends h then Inr found
           else rbind (except_any (mv_runtime_metadata (bk_metadata backends) h) (Inr PNone)) (\<lambda>runtime_metadata.
                case runtime_metadata of
                  PDict metadata \<Rightarrow>
                    let candidate = dmerge
                          [(''instance_id'', PStr (ih_instance_id h)), (''node_id'', PStr (node_text h)),
                           (''ready'', PBool (ih_ready h \<and> ih_state h = READY)),
                           (''supports_state_restore'', PBool True), (''concurrency'', PInt (ih_concurrency h)),
                           (''backend'', PStr (is_backend state)),
                           (''model_name'', PStr (if is_model_name state \<noteq> '''' then is_model_name state
                                                  else rc_model_name settings))] metadata
                    in Inr (fst found @ [candidate], AList.update (ih_instance_id h) h (snd found))
                | _ \<Rightarrow> Inr found)))"

text \<open>The reservation puts the request on the target; the caller gets the handle and the decision.\<close>

definition plan_stateful_recovery_target ::
  "recovery_settings \<Rightarrow> attempt_env \<Rightarrow> inference_state \<Rightarrow> string \<Rightarrow> (instance_handle option \<times> dict) res" where
  "plan_stateful_recovery_target settings env state source_instance_id =
     (if \<not> rc_enable_stateful_target_planner settings
      then Inr (None, [(''action'', PStr ''fallback_token_replay''), (''target_instance_id'', PNone),
                       (''reason'', PStr ''stateful_target_planner_disabled''), (''candidates'', PList [])])
      else rbind (rfold (recovery_candidate settings (at_backends env) state source_instance_id) (at_ready env) ([], []))
        (\<lambda>(candidates, instance_by_id).
        rbind (plan_compatible_state_target state candidates source_instance_id (rc_stateful_recovery_config settings))
          (\<lambda>selection.
        let decision = target_selection_dict selection;
            target_id = dgetn decision ''target_instance_id''
        in if \<not> truthy target_id then Inr (None, decision)
           else let busy = dmerge decision
                      [(''action'', PStr ''fallback_token_replay''), (''target_instance_id'', PNone),
                       (''reason'', PStr ''target_became_busy_before_reservation'')]
             in case map_of instance_by_id (py_str target_id) of
                  None \<Rightarrow> Inr (None, busy)
                | Some target \<Rightarrow>
                    let (reserved, target) = add_requests 1 (at_reservation env target)
                    in if reserved then Inr (Some target, decision) else Inr (None, busy))))"

section \<open>Restoring\<close>

definition restore_inference_state :: "backends \<Rightarrow> instance_handle \<Rightarrow> inference_state \<Rightarrow> dict \<Rightarrow> dict res" where
  "restore_inference_state backends h state request_data =
     (if ih_backend_instance h = None then Inr [(''restored'', PBool False)]
      else let restore_request_data =
             AList.update ''target_node_id'' (PStr (node_text h))
               (AList.update ''target_instance_id'' (PStr (ih_instance_id h)) request_data)
        in rbind (except_any (bk_restore_inference_state backends h (InferenceState_to_dict state) restore_request_data)
                    (Inr (PDict [(''restored'', PBool False)]))) (\<lambda>result.
           Inr (case result of PDict d \<Rightarrow> d | v \<Rightarrow> [(''restored'', PBool (truthy v))])))"

record restore_counters =
  ct_restore_attempts :: int
  ct_restore_successes :: int
  ct_restored_tokens :: int
  ct_supports_state_restore :: bool
  ct_state_kind :: string
  ct_reason :: string
  ct_restored_blocks :: int
  ct_staged :: bool

definition zero_counters :: restore_counters where
  "zero_counters =
     \<lparr>ct_restore_attempts = 0, ct_restore_successes = 0, ct_restored_tokens = 0, ct_supports_state_restore = False,
      ct_state_kind = '''', ct_reason = '''', ct_restored_blocks = 0, ct_staged = False\<rparr>"

definition placement_check_dict :: "placement_check \<Rightarrow> string \<Rightarrow> instance_handle \<Rightarrow> dict" where
  "placement_check_dict check operation target =
     [(''attempted'', PBool (hc_attempted check)), (''verified'', PBool (hc_verified check)),
      (''compatible'', PBool (hc_compatible check)), (''stale'', PBool (hc_stale check)),
      (''reason'', PStr (hc_reason check)), (''mismatch_keys'', PList (map PStr (hc_mismatch_keys check)))]
     @ (if hc_attempted check \<and> \<not> hc_compatible check then [(''missing_keys'', PList (map PStr (hc_missing_keys check)))] else [])
     @ [(''expected'', PDict (map (\<lambda>(k, v). (k, of_opt_str v)) (hc_expected check))),
        (''current'', PDict (map (\<lambda>(k, v). (k, of_opt_str v)) (hc_current check))),
        (''operation'', PStr operation), (''target_instance_id'', PStr (ih_instance_id target)),
        (''target_node_id'', PStr (node_text target))]"

text \<open>The placement of the selected target is checked again; a change turns the decision into a replay.\<close>

definition recheck_selection ::
  "backends \<Rightarrow> instance_handle \<Rightarrow> dict option \<Rightarrow> dict option res" where
  "recheck_selection backends target target_selection =
     (case target_selection of
        None \<Rightarrow> Inr None
      | Some selection \<Rightarrow>
          (case dgetn selection ''selected_candidate'' of
             PDict candidate \<Rightarrow>
               rbind (verify_target_placement_handshake (bk_metadata backends) candidate target) (\<lambda>check.
               let updated_candidate = dmerge candidate
                     [(''placement_handshake_attempted'', PBool (hc_attempted check)),
                      (''placement_handshake_verified'', PBool (hc_verified check)),
                      (''placement_handshake_compatible'', PBool (hc_compatible check)),
                      (''placement_handshake_stale'', PBool (hc_stale check)),
                      (''placement_handshake_reason'', PStr (hc_reason check)),
                      (''placement_handshake_mismatch_keys'', PList (map PStr (hc_mismatch_keys check))),
                      (''current_placement_epoch'', of_opt_str (marker (hc_current check) ''placement_epoch'')),
                      (''current_expert_placement_fingerprint'',
                        of_opt_str (marker (hc_current check) ''expert_placement_fingerprint''))];
                   selection = AList.update ''selected_candidate'' (PDict updated_candidate) selection;
                   selection = AList.update ''placement_handshake''
                     (PDict (placement_check_dict check ''stateful_recovery_restore'' target)) selection
               in Inr (Some (if hc_compatible check then selection
                             else AList.update ''reason'' (PStr (hc_reason check))
                                    (AList.update ''action'' (PStr ''fallback_token_replay'') selection))))
           | _ \<Rightarrow> Inr (Some selection)))"

definition native_snapshot :: "inference_state \<Rightarrow> bool" where
  "native_snapshot state \<longleftrightarrow> is_state_kind state = ''vllm_kv_snapshot'' \<and> is_supports_restore state"

text \<open>What a preparation yields: the state to restore, the tokens to replay, the counters, and whether it fell back.\<close>

type_synonym preparation = "inference_state option \<times> int list list option \<times> restore_counters \<times> bool"

definition no_restore :: "recovery_settings \<Rightarrow> inference_state \<Rightarrow> string \<Rightarrow> restore_counters \<Rightarrow> preparation res" where
  "no_restore settings state why counters =
     (if rc_require_native_kv_restore settings
      then Inl (ValueError (''native_kv_restore_required:'' @
             (if ct_reason counters \<noteq> '''' then ct_reason counters else why)))
      else if is_tokens state \<noteq> [] then Inr (None, Some [is_tokens state], counters, True)
      else Inr (None, None, counters, True))"

definition read_restore_result ::
  "recovery_settings \<Rightarrow> inference_state \<Rightarrow> state_recovery_decision \<Rightarrow> dict \<Rightarrow> restore_counters \<Rightarrow> preparation res" where
  "read_restore_result settings state decision result counters =
     (let restored = truthy (dgetn result ''restored'');
          staged = truthy (dget result ''staged'' (PBool False))
      in rbind (except_tv (int_or_zero result ''restored_blocks'') (Inr 0)) (\<lambda>restored_blocks.
      let counters = counters\<lparr>
            ct_reason := py_str (por (dgetn result ''reason'')
              (PStr (if staged then ''state_restore_staged'' else sd_reason decision))),
            ct_restored_blocks := (if restored then restored_blocks else 0), ct_staged := staged\<rparr>
      in if restored then
           if is_state_kind state = ''vllm_kv_snapshot'' \<and> restored_blocks \<le> 0 then
             if rc_require_native_kv_restore settings then Inl (ValueError ''native_kv_restore_empty'')
             else Inr (None, Some [is_tokens state], counters\<lparr>ct_reason := ''vllm_kv_restore_empty''\<rparr>, True)
           else Inr (Some state, None, counters\<lparr>ct_restore_successes := 1, ct_restored_tokens := sd_recovered_tokens decision\<rparr>, False)
         else if staged then
           rbind (if rc_require_native_kv_restore settings then int_or_zero result ''expected_blocks'' else Inr 1)
             (\<lambda>expected_blocks.
             if expected_blocks \<le> 0 then Inl (ValueError ''native_kv_restore_staging_empty'')
             else Inr (Some state, None, counters, False))
         else no_restore settings state (sd_reason decision)
                (counters\<lparr>ct_reason := py_str (por (dgetn result ''reason'') (PStr (sd_reason decision)))\<rparr>)))"

definition prepare_stateful_recovery ::
  "recovery_settings \<Rightarrow> backends \<Rightarrow> pyval \<Rightarrow> string \<Rightarrow> instance_handle \<Rightarrow> inference_state option \<Rightarrow> dict \<Rightarrow> dict option
   \<Rightarrow> preparation res" where
  "prepare_stateful_recovery settings backends request_id source_instance_id target state request_data target_selection =
     (case state of
        None \<Rightarrow> if rc_require_native_kv_restore settings then Inl (ValueError ''native_kv_snapshot_missing'')
                 else Inr (None, None, zero_counters, False)
      | Some state \<Rightarrow>
          if rc_require_native_kv_restore settings \<and> \<not> native_snapshot state
          then Inl (ValueError ''native_kv_snapshot_not_restorable'')
          else rbind (recheck_selection backends target target_selection) (\<lambda>target_selection.
               let planner_allows_restore = (case target_selection of
                     None \<Rightarrow> True | Some selection \<Rightarrow> dgetn selection ''action'' = PStr ''restore_state'')
               in rbind (if planner_allows_restore then backend_supports_state_restore backends target else Inr False)
                    (\<lambda>restore_supported.
                  let counters = zero_counters\<lparr>ct_state_kind := is_state_kind state, ct_supports_state_restore := restore_supported\<rparr>;
                      selection = (case target_selection of Some s \<Rightarrow> s | None \<Rightarrow> []);
                      decision = plan_stateful_recovery request_id source_instance_id (ih_instance_id target) (Some state)
                        restore_supported ''generated_token_replay'' (py_str (dget selection ''reason'' (PStr ''stateful_recovery''))) selection
                  in if sd_action decision = ''restore_state''
                     then rbind (restore_inference_state backends target state request_data) (\<lambda>result.
                          read_restore_result settings state decision result (counters\<lparr>ct_restore_attempts := 1\<rparr>))
                     else no_restore settings state (sd_reason decision) counters)))"


section \<open>One request\<close>

text \<open>
  The variables of \<open>inference\<close>. \<open>rq_instance\<close> is the instance of the current attempt; the other
  effects are recorded: the instances whose slot was given back, the states that were set on
  instances, the attempts that ended in an exception, and the native receipts.
\<close>

record request_state =
  rq_request_data :: dict
  rq_attempts :: int
  rq_failed_attempts :: int
  rq_instance :: "instance_handle option"
  rq_assigned_instances :: "string list"
  rq_replay_tokens :: "int list list option"
  rq_recovery_state :: "inference_state option"
  rq_recovery_source :: string
  rq_recovered_tokens :: int
  rq_recovery_fallback :: bool
  rq_counters :: restore_counters
  rq_restore_fallback :: bool
  rq_force_state_recovery :: bool
  rq_force_retry_budget :: int
  rq_store :: recovery_store
  rq_released :: "string list"
  rq_instance_states :: "(string \<times> instance_state) list"
  rq_exceptions :: nat
  rq_native_receipts :: "dict list"

definition start_request :: "dict \<Rightarrow> string \<Rightarrow> recovery_store \<Rightarrow> request_state" where
  "start_request request_data fresh_id store =
     \<lparr>rq_request_data = dsetdefault request_data ''request_id'' (PStr (''req-'' @ fresh_id)),
      rq_attempts = 0, rq_failed_attempts = 0, rq_instance = None, rq_assigned_instances = [],
      rq_replay_tokens = None, rq_recovery_state = None, rq_recovery_source = '''', rq_recovered_tokens = 0,
      rq_recovery_fallback = False, rq_counters = zero_counters, rq_restore_fallback = False,
      rq_force_state_recovery = False, rq_force_retry_budget = 0, rq_store = store, rq_released = [],
      rq_instance_states = [], rq_exceptions = 0, rq_native_receipts = []\<rparr>"

text \<open>The statements of the \<open>try\<close> block.\<close>

type_synonym 'a step = "(request_state, 'a) stmt"

definition stateful :: "recovery_settings \<Rightarrow> request_state \<Rightarrow> bool" where
  "stateful settings s \<longleftrightarrow> rc_recovery_policy settings = STATEFUL_RECOVERY \<or> rq_force_state_recovery s"

subsection \<open>Choosing an instance\<close>

definition choose_instance :: "recovery_settings \<Rightarrow> attempt_env \<Rightarrow> (instance_handle \<times> dict option) step" where
  "choose_instance settings env =
     lift (\<lambda>s. case rq_recovery_state s of
        Some state \<Rightarrow>
          if rc_enable_stateful_target_planner settings \<and> stateful settings s then
            rbind (plan_stateful_recovery_target settings env state (rq_recovery_source s)) (\<lambda>(planned, selection).
            case planned of
              Some h \<Rightarrow> Inr (h, Some selection)
            | None \<Rightarrow> rbind (at_allocation env) (\<lambda>h. Inr (h, Some selection)))
          else rbind (at_allocation env) (\<lambda>h. Inr (h, None))
      | None \<Rightarrow> rbind (at_allocation env) (\<lambda>h. Inr (h, None)))"

definition assign_instance :: "instance_handle \<Rightarrow> request_state \<Rightarrow> request_state" where
  "assign_instance h s =
     s\<lparr>rq_instance := Some h, rq_assigned_instances := rq_assigned_instances s @ [ih_instance_id h]\<rparr>"

subsection \<open>Taking up the saved state\<close>

definition count_recovered_tokens :: "int list list option \<Rightarrow> int option \<Rightarrow> int" where
  "count_recovered_tokens replay_tokens completed_tokens =
     (case completed_tokens of
        Some n \<Rightarrow> max 0 n
      | None \<Rightarrow> (case replay_tokens of None \<Rightarrow> 0 | Some ts \<Rightarrow> int (sum_list (map length ts))))"

definition add_counters :: "restore_counters \<Rightarrow> restore_counters \<Rightarrow> restore_counters" where
  "add_counters c new =
     \<lparr>ct_restore_attempts = ct_restore_attempts c + ct_restore_attempts new,
      ct_restore_successes = ct_restore_successes c + ct_restore_successes new,
      ct_restored_tokens = ct_restored_tokens c + ct_restored_tokens new,
      ct_supports_state_restore = ct_supports_state_restore new,
      ct_state_kind = ct_state_kind new, ct_reason = ct_reason new,
      ct_restored_blocks = ct_restored_blocks c + ct_restored_blocks new,
      ct_staged = (ct_staged c \<or> ct_staged new)\<rparr>"

definition note_preparation :: "inference_state \<Rightarrow> preparation \<Rightarrow> request_state \<Rightarrow> request_state" where
  "note_preparation recovery_state prepared s =
     (case prepared of (_, replay_tokens, counters, used_fallback) \<Rightarrow>
        s\<lparr>rq_replay_tokens := replay_tokens,
          rq_counters := add_counters (rq_counters s) counters,
          rq_restore_fallback := (rq_restore_fallback s \<or> used_fallback),
          rq_recovery_fallback := (rq_recovery_fallback s \<or> used_fallback),
          rq_recovered_tokens := rq_recovered_tokens s + ct_restored_tokens counters
            + (if used_fallback then count_recovered_tokens replay_tokens (Some (is_completed_tokens recovery_state)) else 0),
          rq_force_state_recovery := False\<rparr>)"

definition take_up_state ::
  "recovery_settings \<Rightarrow> attempt_env \<Rightarrow> instance_handle \<Rightarrow> dict option \<Rightarrow> inference_state option step" where
  "take_up_state settings env h target_selection s =
     (case rq_recovery_state s of
        Some state \<Rightarrow>
          if stateful settings s then
            sbind (lift (\<lambda>s. prepare_stateful_recovery settings (at_backends env) (dgetn (rq_request_data s) ''request_id'')
                     (rq_recovery_source s) h (Some state) (rq_request_data s) target_selection))
              (\<lambda>prepared. sbind (change (note_preparation state prepared)) (\<lambda>_. lift (\<lambda>_. Inr (fst prepared)))) s
          else (Inr None, s)
      | None \<Rightarrow> (Inr None, s))"

subsection \<open>The receipt of the restored cache\<close>

definition kv_restore_of :: "pyval \<Rightarrow> pyval" where
  "kv_restore_of result = (case result of PDict d \<Rightarrow> dget d ''_spotserve_kv_restore'' (PDict []) | _ \<Rightarrow> PDict [])"

definition native_receipt :: "recovery_settings \<Rightarrow> instance_handle \<Rightarrow> int \<Rightarrow> int \<Rightarrow> request_state \<Rightarrow> dict" where
  "native_receipt settings h cached_tokens restored_blocks s =
     [(''type'', PStr ''native_kv_receipt''), (''model'', PStr (rc_model_name settings)),
      (''request_id'', dgetn (rq_request_data s) ''request_id''),
      (''source_instance_id'', PStr (rq_recovery_source s)),
      (''target_instance_id'', PStr (ih_instance_id h)), (''target_node_id'', of_opt_str (ih_node_id h)),
      (''cached_tokens'', PInt cached_tokens), (''restored_blocks'', PInt restored_blocks),
      (''receipt_kind'', PStr ''completed_native_request'')]"

text \<open>\<open>self.native_kv_receipts\<close> is written only when the native restore is required.\<close>

definition count_native_restore ::
  "recovery_settings \<Rightarrow> instance_handle \<Rightarrow> inference_state \<Rightarrow> int \<Rightarrow> int \<Rightarrow> request_state \<Rightarrow> request_state" where
  "count_native_restore settings h state cached_tokens restored_blocks s =
     (let restored_count = (if is_completed_tokens state \<noteq> 0 then is_completed_tokens state else int (length (is_tokens state)));
          c = rq_counters s
      in s\<lparr>rq_native_receipts := rq_native_receipts s @
             (if 0 < cached_tokens \<and> rc_require_native_kv_restore settings
              then [native_receipt settings h cached_tokens restored_blocks s] else []),
           rq_counters := c\<lparr>ct_restore_successes := ct_restore_successes c + 1,
                            ct_restored_tokens := ct_restored_tokens c + restored_count\<rparr>,
           rq_recovered_tokens := rq_recovered_tokens s + restored_count\<rparr>)"

definition read_kv_restore ::
  "recovery_settings \<Rightarrow> instance_handle \<Rightarrow> inference_state \<Rightarrow> dict \<Rightarrow> unit step" where
  "read_kv_restore settings h state kv_restore =
     sbind (lift (\<lambda>_. except_tv (int_or_zero kv_restore ''restored_blocks'') (Inr 0))) (\<lambda>blocks.
     let restored = truthy (dgetn kv_restore ''restored''); blocks = (if restored then blocks else 0) in
     sbind (change (\<lambda>s. let c = rq_counters s in
              s\<lparr>rq_counters := c\<lparr>ct_restored_blocks := ct_restored_blocks c + blocks,
                                 ct_reason := py_str (por (dgetn kv_restore ''reason'') (PStr (ct_reason c))),
                                 ct_state_kind := (if is_state_kind state \<noteq> '''' then is_state_kind state else ct_state_kind c)\<rparr>\<rparr>)) (\<lambda>_.
     if restored \<and> 0 < blocks then
       sbind (lift (\<lambda>_. int_or_zero kv_restore ''cached_tokens'')) (\<lambda>cached_tokens.
       change (count_native_restore settings h state cached_tokens blocks))
     else
       sbind (change (\<lambda>s. s\<lparr>rq_restore_fallback := True, rq_recovery_fallback := True\<rparr>)) (\<lambda>_.
       lift (\<lambda>_. if rc_require_native_kv_restore settings then Inl (ValueError ''native_kv_attach_failed:no_cached_prefix'')
                 else Inr ()))))"

definition require_receipt :: "recovery_settings \<Rightarrow> pyval \<Rightarrow> unit res" where
  "require_receipt settings kv_restore =
     (if \<not> rc_require_native_kv_restore settings then Inr ()
      else rbind (py_items kv_restore) (\<lambda>d.
           if \<not> truthy (dgetn d ''restored'') then Inl (ValueError ''native_kv_receipt_required'')
           else rbind (int_or_zero d ''cached_tokens'') (\<lambda>cached_tokens.
                if cached_tokens \<le> 0 then Inl (ValueError ''native_kv_receipt_required'') else Inr ())))"

definition check_restored ::
  "recovery_settings \<Rightarrow> instance_handle \<Rightarrow> inference_state option \<Rightarrow> pyval \<Rightarrow> unit step" where
  "check_restored settings h state_snapshot result =
     (case state_snapshot of
        None \<Rightarrow> lift (\<lambda>_. Inr ())
      | Some state \<Rightarrow>
          sbind (if truthy (kv_restore_of result)
                 then sbind (lift (\<lambda>_. py_items (kv_restore_of result))) (read_kv_restore settings h state)
                 else lift (\<lambda>_. Inr ())) (\<lambda>_.
          lift (\<lambda>_. require_receipt settings (kv_restore_of result))))"

subsection \<open>A failed attempt\<close>

definition result_is_preempted :: "pyval \<Rightarrow> bool" where
  "result_is_preempted result =
     (case result of PDict d \<Rightarrow> dgetn d ''preempted'' \<in> {PBool True, PStr ''True''} | _ \<Rightarrow> False)"

definition result_is_error :: "pyval \<Rightarrow> bool" where
  "result_is_error result = (case result of PDict d \<Rightarrow> dhas d ''error'' | _ \<Rightarrow> False)"

definition reparallelized :: "pyval \<Rightarrow> bool" where
  "reparallelized result = truthy (dgetn (dict_of result) ''_spotserve_reparallelization'')"

definition should_retry :: "recovery_settings \<Rightarrow> int \<Rightarrow> bool" where
  "should_retry settings attempt = (rc_recovery_policy settings \<noteq> NONE \<and> attempt < rc_max_retries settings)"

definition token_lists :: "pyval \<Rightarrow> int list list res" where
  "token_lists v =
     (case v of
        PList xs \<Rightarrow> rmap (\<lambda>x. case x of PList ys \<Rightarrow> rmap (\<lambda>y. case y of PInt i \<Rightarrow> Inr i | _ \<Rightarrow> Inl OutOfModel) ys
                                      | _ \<Rightarrow> Inl OutOfModel) xs
      | _ \<Rightarrow> Inl OutOfModel)"

definition tokens_from_preempted_result :: "pyval \<Rightarrow> int list list res" where
  "tokens_from_preempted_result result =
     (let current_output = dgetn (dict_of result) ''current_output''
      in if truthy current_output then token_lists current_output else Inr [])"

definition completed_count :: "pyval \<Rightarrow> int option res" where
  "completed_count v = (case v of PNone \<Rightarrow> Inr None | PInt n \<Rightarrow> Inr (Some n) | _ \<Rightarrow> Inl OutOfModel)"

definition capture_into ::
  "recovery_settings \<Rightarrow> attempt_env \<Rightarrow> instance_handle \<Rightarrow> int list list option \<Rightarrow> int option \<Rightarrow> dict option \<Rightarrow> unit step" where
  "capture_into settings env h current_output completed_tokens exported_state =
     sbind (lift (\<lambda>s. capture_inference_state settings (at_backends env) h (rq_request_data s) current_output
                        completed_tokens exported_state (rq_store s))) (\<lambda>(state, store).
     change (\<lambda>s. s\<lparr>rq_recovery_state := state, rq_store := store, rq_recovery_source := ih_instance_id h\<rparr>))"

definition set_completed :: "pyval \<Rightarrow> request_state \<Rightarrow> request_state" where
  "set_completed n s = s\<lparr>rq_request_data := AList.update ''_completed_tokens'' n (rq_request_data s)\<rparr>"

definition note_reparallelized :: "recovery_settings \<Rightarrow> attempt_env \<Rightarrow> instance_handle \<Rightarrow> request_state \<Rightarrow> request_state" where
  "note_reparallelized settings env h s =
     (let migration_state = at_migration_state env;
          s = s\<lparr>rq_recovery_state := migration_state, rq_recovery_source := ih_instance_id h,
                rq_force_state_recovery := (migration_state \<noteq> None \<and> rc_recovery_policy settings = STATEFUL_RECOVERY),
                rq_force_retry_budget := max (rq_force_retry_budget s) 1,
                rq_replay_tokens := (case migration_state of
                    Some m \<Rightarrow> if is_tokens m \<noteq> [] then Some [is_tokens m] else None | None \<Rightarrow> None)\<rparr>
      in case migration_state of Some m \<Rightarrow> set_completed (PInt (is_completed_tokens m)) s | None \<Rightarrow> s)"

definition note_preempted :: "recovery_settings \<Rightarrow> attempt_env \<Rightarrow> instance_handle \<Rightarrow> dict \<Rightarrow> unit step" where
  "note_preempted settings env h result =
     sbind (change (\<lambda>s. s\<lparr>rq_instance_states := rq_instance_states s @ [(ih_instance_id h, PREEMPTING)]\<rparr>)) (\<lambda>_.
     sbind (lift (\<lambda>_. tokens_from_preempted_result (PDict result))) (\<lambda>tokens.
     sbind (change (\<lambda>s. s\<lparr>rq_replay_tokens := Some tokens\<rparr>)) (\<lambda>_.
     let completed = dget result ''completed_tokens'' (PInt 0) in
     sbind (if rc_recovery_policy settings = STATEFUL_RECOVERY
            then sbind (lift (\<lambda>_. completed_count completed)) (\<lambda>n.
                 capture_into settings env h (Some tokens) n
                   (case dgetn result ''_spotserve_inference_state'' of PDict d \<Rightarrow> Some d | _ \<Rightarrow> None))
            else lift (\<lambda>_. Inr ())) (\<lambda>_.
     change (\<lambda>s. if truthy completed then set_completed completed s else s)))))"

definition note_error :: "recovery_settings \<Rightarrow> attempt_env \<Rightarrow> instance_handle \<Rightarrow> unit step" where
  "note_error settings env h =
     sbind (change (\<lambda>s. s\<lparr>rq_replay_tokens := map_of (sv_tokens (rq_store s)) (ih_instance_id h)\<rparr>)) (\<lambda>_ s.
     if rc_recovery_policy settings = STATEFUL_RECOVERY
     then capture_into settings env h (rq_replay_tokens s) None None s
     else (Inr (), s))"

text \<open>\<open>if replay_tokens: ... elif ...\<close> under the policy of token replay.\<close>

definition count_replay :: "recovery_settings \<Rightarrow> int option \<Rightarrow> request_state \<Rightarrow> request_state" where
  "count_replay settings completed_tokens s =
     (if rc_recovery_policy settings \<noteq> GENERATED_TOKEN_REPLAY then s
      else case rq_replay_tokens s of
             Some (t # ts) \<Rightarrow> s\<lparr>rq_recovered_tokens := rq_recovered_tokens s + count_recovered_tokens (Some (t # ts)) completed_tokens\<rparr>
           | _ \<Rightarrow> s\<lparr>rq_recovery_fallback := True\<rparr>)"

definition drop_replay :: "recovery_settings \<Rightarrow> request_state \<Rightarrow> request_state" where
  "drop_replay settings s =
     (if rc_recovery_policy settings \<in> {GENERATED_TOKEN_REPLAY, STATEFUL_RECOVERY} then s else s\<lparr>rq_replay_tokens := None\<rparr>)"

datatype outcome = Result pyval | Error_Text pyexc

datatype verdict = Return outcome bool | Retry

definition retry_or_return :: "recovery_settings \<Rightarrow> pyval \<Rightarrow> verdict step" where
  "retry_or_return settings result s =
     (if rc_require_native_kv_restore settings
         \<and> (case rq_recovery_state s of None \<Rightarrow> True | Some state \<Rightarrow> \<not> native_snapshot state)
      then (Inl (ValueError ''native_kv_snapshot_required_for_retry''), s)
      else let retry = (should_retry settings (rq_attempts s - 1) \<or> 0 < rq_force_retry_budget s);
               s = (if 0 < rq_force_retry_budget s then s\<lparr>rq_force_retry_budget := rq_force_retry_budget s - 1\<rparr> else s)
        in if retry then (Inr Retry, drop_replay settings s) else (Inr (Return (Result result) False), s))"

definition failed_result :: "recovery_settings \<Rightarrow> attempt_env \<Rightarrow> instance_handle \<Rightarrow> dict \<Rightarrow> verdict step" where
  "failed_result settings env h result =
     sbind (change (\<lambda>s. s\<lparr>rq_failed_attempts := rq_failed_attempts s + 1\<rparr>)) (\<lambda>_.
     sbind (if reparallelized (PDict result) then change (note_reparallelized settings env h)
            else if result_is_preempted (PDict result) then note_preempted settings env h result
            else note_error settings env h) (\<lambda>_.
     sbind (if rc_recovery_policy settings = GENERATED_TOKEN_REPLAY
            then sbind (lift (\<lambda>_. completed_count (dgetn result ''completed_tokens''))) (\<lambda>n. change (count_replay settings n))
            else lift (\<lambda>_. Inr ())) (\<lambda>_.
     retry_or_return settings (PDict result))))"

subsection \<open>An attempt\<close>

definition try_attempt :: "recovery_settings \<Rightarrow> string \<Rightarrow> attempt_env \<Rightarrow> verdict step" where
  "try_attempt settings action env =
     sbind (choose_instance settings env) (\<lambda>(h, target_selection).
     sbind (change (assign_instance h)) (\<lambda>_.
     sbind (take_up_state settings env h target_selection) (\<lambda>state_snapshot.
     sbind (lift (\<lambda>s. call_backend settings (at_backends env) h (rq_request_data s) action (rq_replay_tokens s) state_snapshot)) (\<lambda>result.
     sbind (change (\<lambda>s. s\<lparr>rq_store := at_others env (rq_store s)\<rparr>)) (\<lambda>_.
     sbind (check_restored settings h state_snapshot result) (\<lambda>_.
     if \<not> result_is_preempted result \<and> \<not> result_is_error result
     then lift (\<lambda>_. Inr (Return (Result result) True))
     else failed_result settings env h (dict_of result)))))))"

text \<open>\<open>except Exception\<close>\<close>

definition save_after_exception :: "recovery_settings \<Rightarrow> attempt_env \<Rightarrow> instance_handle \<Rightarrow> unit step" where
  "save_after_exception settings env h =
     sbind (if rc_recovery_policy settings = STATEFUL_RECOVERY
            then sbind (capture_into settings env h None None None) (\<lambda>_.
                 change (\<lambda>s. s\<lparr>rq_replay_tokens := (case rq_recovery_state s of
                     Some state \<Rightarrow> Some [is_tokens state] | None \<Rightarrow> Some [])\<rparr>))
            else sbind (lift (\<lambda>s. capture_tokens (at_backends env) h (rq_store s))) (\<lambda>(tokens, store).
                 change (\<lambda>s. s\<lparr>rq_replay_tokens := Some tokens, rq_store := store\<rparr>))) (\<lambda>_.
     change (\<lambda>s. s\<lparr>rq_instance_states := rq_instance_states s @ [(ih_instance_id h, DEAD)]\<rparr>))"

definition handle_exception :: "recovery_settings \<Rightarrow> attempt_env \<Rightarrow> pyexc \<Rightarrow> verdict step" where
  "handle_exception settings env e =
     sbind (change (\<lambda>s. s\<lparr>rq_failed_attempts := rq_failed_attempts s + 1, rq_exceptions := Suc (rq_exceptions s)\<rparr>)) (\<lambda>_.
     sbind (\<lambda>s. case rq_instance s of None \<Rightarrow> (Inr (), s) | Some h \<Rightarrow> save_after_exception settings env h s) (\<lambda>_.
     sbind (change (count_replay settings None)) (\<lambda>_ s.
     if should_retry settings (rq_attempts s - 1) then (Inr Retry, drop_replay settings s)
     else (Inr (Return (Error_Text e) False), s))))"

definition release_slot :: "request_state \<Rightarrow> request_state" where
  "release_slot s =
     (case rq_instance s of None \<Rightarrow> s | Some h \<Rightarrow> s\<lparr>rq_released := rq_released s @ [ih_instance_id h]\<rparr>)"

text \<open>One turn of the loop: the \<open>try\<close> block, its handlers and the release at the end.\<close>

definition run_attempt :: "recovery_settings \<Rightarrow> string \<Rightarrow> attempt_env \<Rightarrow> verdict step" where
  "run_attempt settings action env s =
     (let (r, s) = try_attempt settings action env (s\<lparr>rq_instance := None, rq_attempts := rq_attempts s + 1\<rparr>);
          (r, s) = (case r of
              Inr v \<Rightarrow> (Inr v, s)
            | Inl OutOfModel \<Rightarrow> (Inl OutOfModel, s)
            | Inl (ValueError m) \<Rightarrow> (Inr (Return (Error_Text (ValueError m)) False), s)
            | Inl e \<Rightarrow> handle_exception settings env e s)
      in (r, release_slot s))"

text \<open>
  \<open>while True\<close>, with what the attempts find as a list; \<open>None\<close> when the list ends before the request
  does. An exception that leaves a handler ends the request, too.
\<close>

fun inference_loop ::
  "recovery_settings \<Rightarrow> string \<Rightarrow> attempt_env list \<Rightarrow> request_state \<Rightarrow> ((outcome \<times> bool) res \<times> request_state) option" where
  "inference_loop settings action [] s = None"
| "inference_loop settings action (env # envs) s =
     (case run_attempt settings action env s of
        (Inr Retry, s) \<Rightarrow> inference_loop settings action envs s
      | (Inr (Return out success), s) \<Rightarrow> Some (Inr (out, success), s)
      | (Inl e, s) \<Rightarrow> Some (Inl e, s))"

definition inference ::
  "recovery_settings \<Rightarrow> bool \<Rightarrow> string \<Rightarrow> recovery_store \<Rightarrow> attempt_env list \<Rightarrow> dict \<Rightarrow> string
   \<Rightarrow> ((outcome \<times> bool) res \<times> request_state) option" where
  "inference settings running fresh_id store envs request_data action =
     (if \<not> running
      then Some (Inr (Result (PDict [(''error'', PStr ''Instance stopped'')]), False), start_request request_data fresh_id store)
      else inference_loop settings action envs (start_request request_data fresh_id store))"

end
