(* ===== verification/Router_Recovery_Props.thy ===== *)
theory Router_Recovery_Props
  imports Router_Recovery
begin

text \<open>
  Properties of a request's life: it ends, it gives back every slot, it restores a state on a usable
  target only, it asks for the rest of the output only, and it does not turn a required native restore
  into a replay, with the exception of attempts that end in an exception.
\<close>

section \<open>Relations kept by the statements\<close>

text \<open>
  The statements between the assignment of the instance and the release leave the attempt's number and
  its slots alone. The retry budget changes only for a re-parallelized result.
\<close>

definition same_slots :: "request_state \<Rightarrow> request_state \<Rightarrow> bool" where
  "same_slots s t \<longleftrightarrow> rq_attempts t = rq_attempts s \<and> rq_instance t = rq_instance s
     \<and> rq_assigned_instances t = rq_assigned_instances s \<and> rq_released t = rq_released s"

definition same_budget :: "request_state \<Rightarrow> request_state \<Rightarrow> bool" where
  "same_budget s t \<longleftrightarrow> rq_attempts t = rq_attempts s \<and> rq_force_retry_budget t = rq_force_retry_budget s"

definition same_failures :: "request_state \<Rightarrow> request_state \<Rightarrow> bool" where
  "same_failures s t \<longleftrightarrow> rq_failed_attempts t = rq_failed_attempts s \<and> rq_exceptions t = rq_exceptions s"

interpretation slots: kept same_slots
  by unfold_locales (auto simp: same_slots_def)

interpretation budget: kept same_budget
  by unfold_locales (auto simp: same_budget_def)

interpretation failures: kept same_failures
  by unfold_locales (auto simp: same_failures_def)

lemmas kept_defs = same_slots_def same_budget_def same_failures_def

text \<open>What all three relations have in common: a statement that leaves all these variables alone.\<close>

definition quiet :: "request_state \<Rightarrow> request_state \<Rightarrow> bool" where
  "quiet s t \<longleftrightarrow> same_slots s t \<and> same_budget s t \<and> same_failures s t"

interpretation quiet: kept quiet
  by unfold_locales (auto simp: quiet_def kept_defs)

lemma quiet_rules:
  "keeps quiet m \<Longrightarrow> keeps same_slots m" "keeps quiet m \<Longrightarrow> keeps same_budget m" "keeps quiet m \<Longrightarrow> keeps same_failures m"
  by (simp_all add: keeps_def quiet_def)

lemma quiet_take_up_state: "keeps quiet (take_up_state settings env h selection)"
proof (rule keepsI)
  fix s
  have "keeps quiet (change (note_preparation state prepared))" for state prepared
    by (rule quiet.keeps_change) (auto simp: quiet_def kept_defs note_preparation_def split: prod.splits)
  then have "keeps quiet (sbind (lift f) (\<lambda>prepared. sbind (change (note_preparation state prepared)) (\<lambda>_. lift (\<lambda>_. Inr (fst prepared)))))"
    for f state by blast
  then show "quiet s (snd (take_up_state settings env h selection s))"
    using quiet.kept_refl by (auto simp: take_up_state_def keeps_def split: option.splits)
qed

lemma quiet_read_kv_restore: "keeps quiet (read_kv_restore settings h state kv)"
  unfolding read_kv_restore_def Let_def
  by (auto intro!: quiet.keeps_sbind quiet.keeps_change
      simp: quiet_def kept_defs count_native_restore_def Let_def)

lemma quiet_check_restored: "keeps quiet (check_restored settings h snapshot result)"
  unfolding check_restored_def using quiet_read_kv_restore by (auto split: option.splits intro!: quiet.keeps_sbind)

lemma quiet_capture_into: "keeps quiet (capture_into settings env h out n exported)"
  unfolding capture_into_def by (auto intro!: quiet.keeps_sbind quiet.keeps_change simp: quiet_def kept_defs split: prod.splits)

lemma quiet_note_preempted: "keeps quiet (note_preempted settings env h result)"
  unfolding note_preempted_def Let_def using quiet_capture_into
  by (auto intro!: quiet.keeps_sbind quiet.keeps_change simp: quiet_def kept_defs set_completed_def)

lemma quiet_note_error: "keeps quiet (note_error settings env h)"
  unfolding note_error_def
proof (rule quiet.keeps_sbind)
  fix x :: unit
  show "keeps quiet (\<lambda>s. if rc_recovery_policy settings = STATEFUL_RECOVERY then capture_into settings env h (rq_replay_tokens s) None None s
      else (Inr (), s))"
    using quiet_capture_into [of settings env h] quiet.kept_refl by (simp add: keeps_def)
qed (rule quiet.keeps_change, simp add: quiet_def kept_defs)

lemma quiet_count_replay: "quiet s (count_replay settings n s)"
  by (auto simp: count_replay_def quiet_def kept_defs split: option.splits list.splits)

lemma quiet_drop_replay: "quiet s (drop_replay settings s)"
  by (simp add: drop_replay_def quiet_def kept_defs)

lemma quiet_save_after_exception: "keeps quiet (save_after_exception settings env h)"
  unfolding save_after_exception_def using quiet_capture_into
  by (auto intro!: quiet.keeps_sbind quiet.keeps_change simp: quiet_def kept_defs split: prod.splits)

lemmas quiet_statements = quiet_take_up_state quiet_check_restored quiet_note_preempted quiet_note_error
  quiet_save_after_exception


section \<open>Slots\<close>

lemma slots_retry_or_return: "keeps same_slots (retry_or_return settings result)"
  by (auto simp: keeps_def retry_or_return_def drop_replay_def same_slots_def Let_def)

lemma slots_failed_result: "keeps same_slots (failed_result settings env h result)"
  unfolding failed_result_def
  by (auto intro!: slots.keeps_sbind slots.keeps_change slots_retry_or_return quiet_statements [THEN quiet_rules(1)]
      simp: same_slots_def note_reparallelized_def set_completed_def Let_def
      count_replay_def split: option.splits list.splits)

lemma slots_handle_exception: "keeps same_slots (handle_exception settings env e)"
proof -
  have "keeps same_slots (\<lambda>s. case rq_instance s of None \<Rightarrow> (Inr (), s) | Some h \<Rightarrow> save_after_exception settings env h s)"
    using quiet_save_after_exception [THEN quiet_rules(1), of settings env]
    by (auto simp: keeps_def same_slots_def split: option.splits)
  moreover have "keeps same_slots (\<lambda>s. if should_retry settings (rq_attempts s - 1) then (Inr Retry, drop_replay settings s)
      else (Inr (Return (Error_Text e) False), s))"
    by (simp add: keeps_def drop_replay_def same_slots_def)
  moreover have "keeps same_slots (change (count_replay settings None))"
    using quiet_count_replay by (auto intro!: slots.keeps_change simp: quiet_def)
  moreover have "keeps same_slots (change (\<lambda>s. s\<lparr>rq_failed_attempts := rq_failed_attempts s + 1, rq_exceptions := Suc (rq_exceptions s)\<rparr>))"
    by (rule slots.keeps_change) (simp add: same_slots_def)
  ultimately show ?thesis unfolding handle_exception_def by blast
qed

text \<open>The part of an attempt after the assignment of its instance.\<close>

definition use_instance :: "recovery_settings \<Rightarrow> string \<Rightarrow> attempt_env \<Rightarrow> instance_handle \<Rightarrow> dict option \<Rightarrow> verdict step" where
  "use_instance settings action env h target_selection =
     sbind (take_up_state settings env h target_selection) (\<lambda>state_snapshot.
     sbind (lift (\<lambda>s. call_backend settings (at_backends env) h (rq_request_data s) action (rq_replay_tokens s) state_snapshot)) (\<lambda>result.
     sbind (change (\<lambda>s. s\<lparr>rq_store := at_others env (rq_store s)\<rparr>)) (\<lambda>_.
     sbind (check_restored settings h state_snapshot result) (\<lambda>_.
     if \<not> result_is_preempted result \<and> \<not> result_is_error result
     then lift (\<lambda>_. Inr (Return (Result result) True))
     else failed_result settings env h (dict_of result)))))"

lemma slots_use_instance: "keeps same_slots (use_instance settings action env h selection)"
  unfolding use_instance_def
  by (auto intro!: slots.keeps_sbind slots.keeps_change slots_failed_result quiet_statements [THEN quiet_rules(1)]
      simp: same_slots_def)

lemma try_attempt_cases:
  assumes "try_attempt settings action env s = (r, t)"
  obtains (unassigned) e where "r = Inl e" and "t = s"
  | (assigned) h selection where "choose_instance settings env s = (Inr (h, selection), s)"
      and "use_instance settings action env h selection (assign_instance h s) = (r, t)"
proof -
  obtain c where c: "choose_instance settings env s = (c, s)" by (simp add: choose_instance_def lift_def)
  have eq: "try_attempt settings action env = sbind (choose_instance settings env) (\<lambda>(h, target_selection).
      sbind (change (assign_instance h)) (\<lambda>_. use_instance settings action env h target_selection))"
    by (simp add: try_attempt_def use_instance_def)
  show thesis
  proof (cases c)
    case (Inl e)
    with assms c show ?thesis by (intro unassigned [of e]) (simp_all add: eq sbind_def)
  next
    case (Inr p)
    with assms c show ?thesis by (intro assigned [of "fst p" "snd p"]) (simp_all add: eq sbind_def change_def split: prod.splits)
  qed
qed

definition slots_balanced :: "request_state \<Rightarrow> bool" where
  "slots_balanced s \<longleftrightarrow> rq_released s = rq_assigned_instances s"

lemma try_attempt_slots:
  assumes "try_attempt settings action env s = (r, t)" and "rq_instance s = None" and "slots_balanced s"
  shows "rq_attempts t = rq_attempts s \<and> slots_balanced (release_slot t)"
  using assms(1)
proof (cases rule: try_attempt_cases)
  case (assigned h selection)
  then have "same_slots (assign_instance h s) t" by (intro keepsD [OF slots_use_instance])
  then show ?thesis using assms(3) by (simp add: same_slots_def assign_instance_def slots_balanced_def release_slot_def)
qed (use assms in \<open>simp add: slots_balanced_def release_slot_def\<close>)

lemma same_slots_release: "same_slots t u \<Longrightarrow> slots_balanced (release_slot u) = slots_balanced (release_slot t)"
  by (auto simp: same_slots_def slots_balanced_def release_slot_def split: option.splits)

definition retried :: "pyexc \<Rightarrow> bool" where
  "retried e \<longleftrightarrow> (\<forall>m. e \<noteq> ValueError m) \<and> e \<noteq> OutOfModel"

lemma run_attempt_cases:
  assumes "run_attempt settings action env s = (r, t)"
  obtains (ended) v u where "try_attempt settings action env (s\<lparr>rq_instance := None, rq_attempts := rq_attempts s + 1\<rparr>) = (v, u)"
      and "t = release_slot u" and "\<not> (\<exists>e. v = Inl e \<and> retried e)"
      and "r = (case v of Inr v \<Rightarrow> Inr v | Inl (ValueError m) \<Rightarrow> Inr (Return (Error_Text (ValueError m)) False) | Inl e \<Rightarrow> Inl e)"
  | (excepted) e u w where "try_attempt settings action env (s\<lparr>rq_instance := None, rq_attempts := rq_attempts s + 1\<rparr>) = (Inl e, u)"
      and "handle_exception settings env e u = (r, w)" and "t = release_slot w" and "retried e"
proof -
  obtain v u where vu: "try_attempt settings action env (s\<lparr>rq_instance := None, rq_attempts := rq_attempts s + 1\<rparr>) = (v, u)"
    by (cases "try_attempt settings action env (s\<lparr>rq_instance := None, rq_attempts := rq_attempts s + 1\<rparr>)")
  show thesis
  proof (cases "\<exists>e. v = Inl e \<and> retried e")
    case True
    then obtain e where e: "v = Inl e" "\<forall>m. e \<noteq> ValueError m" "e \<noteq> OutOfModel" by (auto simp: retried_def)
    have "retried e" using e(2,3) by (simp add: retried_def)
    obtain w where "handle_exception settings env e u = (r, w)" "t = release_slot w"
      using assms e(2,3) unfolding run_attempt_def vu by (auto simp: e(1) split: pyexc.splits prod.splits)
    with vu \<open>retried e\<close> show ?thesis unfolding e(1) by (intro excepted)
  next
    case False
    then show ?thesis
      using assms unfolding run_attempt_def vu by (intro ended [OF vu]) (auto simp: retried_def split: sum.splits pyexc.splits prod.splits)
  qed
qed

lemma run_attempt_slots:
  assumes "run_attempt settings action env s = (r, t)" and "slots_balanced s"
  shows "rq_attempts t = rq_attempts s + 1 \<and> slots_balanced t"
  using assms(1)
proof (cases rule: run_attempt_cases)
  case (ended v u)
  from try_attempt_slots [OF ended(1)] assms(2) show ?thesis
    using ended(2) by (auto simp: slots_balanced_def release_slot_def split: option.splits)
next
  case (excepted e u w)
  have same: "same_slots u w" using excepted(2) by (rule keepsD [OF slots_handle_exception])
  from try_attempt_slots [OF excepted(1)] assms(2)
  have "rq_attempts u = rq_attempts s + 1 \<and> slots_balanced (release_slot u)" by (simp add: slots_balanced_def)
  then show ?thesis using same same_slots_release [OF same] excepted(3)
    by (auto simp: same_slots_def release_slot_def split: option.splits)
qed


section \<open>Termination\<close>

text \<open>No backend says that the request was interrupted by a change of the deployment.\<close>

definition no_reparallelization :: "attempt_env \<Rightarrow> bool" where
  "no_reparallelization env \<longleftrightarrow>
     (\<forall>h request tokens r. (bk_generate (at_backends env) h request = Inr r \<or> bk_encode (at_backends env) h request = Inr r
         \<or> bk_resume_generate (at_backends env) h request tokens = Inr r) \<longrightarrow> \<not> reparallelized r)"

lemma except_any_Inr: "except_any m d = Inr x \<Longrightarrow> m = Inr x \<or> d = Inr x"
  by (cases "(m, d)" rule: except_any.cases) auto

lemma call_backend_quiet:
  assumes "no_reparallelization env" and "call_backend settings (at_backends env) h request action replay snapshot = Inr r"
  shows "\<not> reparallelized r"
proof -
  obtain backend_request where "(let plain = (if action = ''generate'' then bk_generate (at_backends env) h backend_request
         else if action = ''encode'' then bk_encode (at_backends env) h backend_request
         else Inr (PDict [(''error'', PStr ''Invalid action'')]))
     in case replay of
          Some (t # ts) \<Rightarrow>
            if action = ''generate'' \<and> rc_backend settings = ''transformers''
            then except_any (bk_resume_generate (at_backends env) h backend_request (t # ts)) plain else plain
        | _ \<Rightarrow> plain) = Inr r"
    using assms(2) unfolding call_backend_def rbind_eq_Inr by blast
  then have "r = PDict [(''error'', PStr ''Invalid action'')] \<or> bk_generate (at_backends env) h backend_request = Inr r
      \<or> bk_encode (at_backends env) h backend_request = Inr r \<or> (\<exists>ts. bk_resume_generate (at_backends env) h backend_request ts = Inr r)"
    by (auto simp: Let_def split: option.splits list.splits if_splits dest!: except_any_Inr)
  moreover have "\<not> reparallelized (PDict [(''error'', PStr ''Invalid action'')])" by code_simp
  ultimately show ?thesis using assms(1) unfolding no_reparallelization_def by metis
qed

definition may_go_on :: "recovery_settings \<Rightarrow> bool \<Rightarrow> request_state \<Rightarrow> request_state \<Rightarrow> bool" where
  "may_go_on settings interrupted s t \<longleftrightarrow>
     rq_force_retry_budget t = 0 \<and> (interrupted \<or> should_retry settings (rq_attempts s - 1))"

lemma failed_result_retry:
  assumes "failed_result settings env h result s = (Inr Retry, t)" and "rq_force_retry_budget s = 0"
  shows "may_go_on settings (reparallelized (PDict result)) s t"
proof -
  let ?s = "s\<lparr>rq_failed_attempts := rq_failed_attempts s + 1\<rparr>"
  obtain u v where u: "(if reparallelized (PDict result) then change (note_reparallelized settings env h)
        else if result_is_preempted (PDict result) then note_preempted settings env h result
        else note_error settings env h) ?s = (Inr (), u)"
    and v: "(if rc_recovery_policy settings = GENERATED_TOKEN_REPLAY
        then sbind (lift (\<lambda>_. completed_count (dgetn result ''completed_tokens''))) (\<lambda>n. change (count_replay settings n))
        else lift (\<lambda>_. Inr ())) u = (Inr (), v)"
    and t: "retry_or_return settings (PDict result) v = (Inr Retry, t)"
    using assms(1) unfolding failed_result_def sbind_Inr by (auto simp: change_def)
  have "quiet u v" using v quiet_count_replay quiet.kept_refl by (auto simp: sbind_Inr split: if_splits)
  then have v': "rq_attempts v = rq_attempts u" "rq_force_retry_budget v = rq_force_retry_budget u"
    by (simp_all add: quiet_def same_budget_def)
  have t': "rq_force_retry_budget t = max 0 (rq_force_retry_budget v - 1)
      \<and> (should_retry settings (rq_attempts v - 1) \<or> 0 < rq_force_retry_budget v)"
    if "0 \<le> rq_force_retry_budget v"
    using t that by (auto simp: retry_or_return_def Let_def drop_replay_def split: if_splits)
  show ?thesis
  proof (cases "reparallelized (PDict result)")
    case True
    then have "rq_force_retry_budget u = 1"
      using u assms(2) by (auto simp: note_reparallelized_def set_completed_def Let_def split: option.splits)
    then show ?thesis using t' v' True by (simp add: may_go_on_def)
  next
    case False
    then have "quiet ?s u"
      using u keepsD [OF quiet_note_preempted] keepsD [OF quiet_note_error] by (auto split: if_splits)
    then have "rq_attempts u = rq_attempts s" "rq_force_retry_budget u = 0"
      using assms(2) by (simp_all add: quiet_def same_budget_def)
    then show ?thesis using t' v' by (simp add: may_go_on_def)
  qed
qed

lemma use_instance_result:
  assumes "use_instance settings action env h selection s = (Inr v, t)"
  obtains snapshot u result w where "take_up_state settings env h selection s = (Inr snapshot, u)"
    and "call_backend settings (at_backends env) h (rq_request_data u) action (rq_replay_tokens u) snapshot = Inr result"
    and "check_restored settings h snapshot result (u\<lparr>rq_store := at_others env (rq_store u)\<rparr>) = (Inr (), w)"
    and "quiet s w"
    and "if \<not> result_is_preempted result \<and> \<not> result_is_error result then v = Return (Result result) True \<and> t = w
         else failed_result settings env h (dict_of result) w = (Inr v, t)"
proof -
  obtain snapshot u result w where parts: "take_up_state settings env h selection s = (Inr snapshot, u)"
    "call_backend settings (at_backends env) h (rq_request_data u) action (rq_replay_tokens u) snapshot = Inr result"
    "check_restored settings h snapshot result (u\<lparr>rq_store := at_others env (rq_store u)\<rparr>) = (Inr (), w)"
    and last: "(if \<not> result_is_preempted result \<and> \<not> result_is_error result then lift (\<lambda>_. Inr (Return (Result result) True))
         else failed_result settings env h (dict_of result)) w = (Inr v, t)"
    using assms unfolding use_instance_def sbind_Inr by (auto simp: change_def)
  have "quiet s u" by (rule keepsD [OF quiet_take_up_state parts(1)])
  moreover have "quiet (u\<lparr>rq_store := at_others env (rq_store u)\<rparr>) w" by (rule keepsD [OF quiet_check_restored parts(3)])
  ultimately have "quiet s w" by (auto simp: quiet_def kept_defs)
  with parts last show thesis by (intro that [of snapshot u result w]) (auto split: if_splits)
qed

lemma try_attempt_retry:
  assumes "try_attempt settings action env s = (Inr Retry, t)" and "rq_force_retry_budget s = 0"
  shows "may_go_on settings (\<not> no_reparallelization env) s t"
  using assms(1)
proof (cases rule: try_attempt_cases)
  case (assigned h selection)
  show ?thesis
  proof (rule use_instance_result [OF assigned(2)])
    fix snapshot u result w
    assume call: "call_backend settings (at_backends env) h (rq_request_data u) action (rq_replay_tokens u) snapshot = Inr result"
      and same: "quiet (assign_instance h s) w"
      and rest: "if \<not> result_is_preempted result \<and> \<not> result_is_error result then Retry = Return (Result result) True \<and> t = w
         else failed_result settings env h (dict_of result) w = (Inr Retry, t)"
    from rest have fail: "failed_result settings env h (dict_of result) w = (Inr Retry, t)"
      and "result_is_preempted result \<or> result_is_error result" by (simp_all split: if_splits)
    then have dict: "PDict (dict_of result) = result"
      by (cases result) (simp_all add: result_is_preempted_def result_is_error_def)
    have w: "rq_force_retry_budget w = 0" "rq_attempts w = rq_attempts s"
      using same assms(2) by (simp_all add: quiet_def same_budget_def assign_instance_def)
    from failed_result_retry [OF fail w(1)] show ?thesis
      using call_backend_quiet [OF _ call] w(2) unfolding dict may_go_on_def by auto
  qed
qed simp

lemma failed_result_raises:
  assumes "failed_result settings env h result s = (Inl e, t)" and "retried e"
  shows "rq_force_retry_budget t = rq_force_retry_budget s"
proof -
  let ?s = "s\<lparr>rq_failed_attempts := rq_failed_attempts s + 1\<rparr>"
  let ?note = "if reparallelized (PDict result) then change (note_reparallelized settings env h)
        else if result_is_preempted (PDict result) then note_preempted settings env h result
        else note_error settings env h"
  have late: "\<not> retried e" if "sbind (if rc_recovery_policy settings = GENERATED_TOKEN_REPLAY
        then sbind (lift (\<lambda>_. completed_count (dgetn result ''completed_tokens''))) (\<lambda>n. change (count_replay settings n))
        else lift (\<lambda>_. Inr ())) (\<lambda>_. retry_or_return settings (PDict result)) u = (Inl e, t)" for u
    using that unfolding sbind_Inl
    by (auto simp: retried_def retry_or_return_def completed_count_def sbind_Inl sbind_Inr Let_def
        split: if_splits pyval.splits)
  have "?note ?s = (Inl e, t)"
    using assms late unfolding failed_result_def sbind_Inl by (auto simp: change_def)
  then have "quiet ?s t"
    using keepsD [OF quiet_note_preempted] keepsD [OF quiet_note_error] by (auto split: if_splits)
  then show ?thesis by (simp add: quiet_def same_budget_def)
qed

lemma use_instance_raises:
  assumes "use_instance settings action env h selection s = (Inl e, t)" and "retried e"
  shows "rq_force_retry_budget t = rq_force_retry_budget s"
proof -
  have "\<exists>w. quiet s w \<and> (t = w \<or> (\<exists>result. failed_result settings env h (dict_of result) w = (Inl e, t)))"
    using assms(1) unfolding use_instance_def sbind_Inl
  proof (elim disjE exE conjE)
    assume "take_up_state settings env h selection s = (Inl e, t)"
    then show ?thesis using keepsD [OF quiet_take_up_state] by blast
  next
    fix snapshot u
    assume u: "take_up_state settings env h selection s = (Inr snapshot, u)"
    have su: "quiet s u" by (rule keepsD [OF quiet_take_up_state u])
    {
      assume "lift (\<lambda>s. call_backend settings (at_backends env) h (rq_request_data s) action (rq_replay_tokens s) snapshot) u = (Inl e, t)"
      then show ?thesis using su by auto
    next
      fix result v x w
      assume call: "lift (\<lambda>s. call_backend settings (at_backends env) h (rq_request_data s) action (rq_replay_tokens s) snapshot) u = (Inr result, v)"
        and upd: "change (\<lambda>s. s\<lparr>rq_store := at_others env (rq_store s)\<rparr>) v = (Inr x, w)"
      have sw: "quiet s w" using call upd su by (auto simp: quiet_def kept_defs)
      {
        assume "check_restored settings h snapshot result w = (Inl e, t)"
        then have "quiet w t" by (rule keepsD [OF quiet_check_restored])
        then show ?thesis using sw quiet.kept_trans by blast
      next
        fix y z
        assume check: "check_restored settings h snapshot result w = (Inr y, z)"
          and rest: "(if \<not> result_is_preempted result \<and> \<not> result_is_error result then lift (\<lambda>_. Inr (Return (Result result) True))
            else failed_result settings env h (dict_of result)) z = (Inl e, t)"
        have "quiet w z" using check by (rule keepsD [OF quiet_check_restored])
        then have "quiet s z" using sw quiet.kept_trans by blast
        with rest show ?thesis by (auto split: if_splits)
      }
    next
      fix result v
      assume "change (\<lambda>s. s\<lparr>rq_store := at_others env (rq_store s)\<rparr>) v = (Inl e, t)"
      then show ?thesis by simp
    }
  qed
  then show ?thesis using failed_result_raises [OF _ assms(2)] by (auto simp: quiet_def same_budget_def)
qed

lemma handle_exception_retry:
  assumes "handle_exception settings env e s = (Inr Retry, t)"
  shows "should_retry settings (rq_attempts t - 1) \<and> rq_force_retry_budget t = rq_force_retry_budget s"
proof -
  let ?s = "s\<lparr>rq_failed_attempts := rq_failed_attempts s + 1, rq_exceptions := Suc (rq_exceptions s)\<rparr>"
  obtain u where u: "(case rq_instance ?s of None \<Rightarrow> (Inr (), ?s) | Some h \<Rightarrow> save_after_exception settings env h ?s) = (Inr (), u)"
    and t: "should_retry settings (rq_attempts (count_replay settings None u) - 1)" "t = drop_replay settings (count_replay settings None u)"
    using assms unfolding handle_exception_def sbind_Inr by (auto simp: change_def split: if_splits)
  have "quiet ?s u" using u quiet.kept_refl keepsD [OF quiet_save_after_exception] by (auto split: option.splits)
  moreover have "quiet u (count_replay settings None u)" by (rule quiet_count_replay)
  moreover have "quiet (count_replay settings None u) t" unfolding t(2) by (rule quiet_drop_replay)
  ultimately show ?thesis using t(1) by (simp add: quiet_def same_budget_def)
qed

lemma run_attempt_retry:
  assumes "run_attempt settings action env s = (Inr Retry, t)" and "rq_force_retry_budget s = 0"
  shows "rq_force_retry_budget t = 0 \<and> (no_reparallelization env \<longrightarrow> should_retry settings (rq_attempts s))"
  using assms(1)
proof (cases rule: run_attempt_cases)
  case (ended v u)
  then have "v = Inr Retry" by (auto split: sum.splits pyexc.splits)
  from try_attempt_retry [OF ended(1) [unfolded this]] assms(2) ended(2) show ?thesis
    by (auto simp: may_go_on_def release_slot_def split: option.splits)
next
  case (excepted e u w)
  have "same_slots u w" using excepted(2) by (rule keepsD [OF slots_handle_exception])
  then have w: "rq_attempts w = rq_attempts u" by (simp add: same_slots_def)
  have "rq_attempts u = rq_attempts s + 1 \<and> rq_force_retry_budget u = 0"
    using excepted(1)
  proof (cases rule: try_attempt_cases)
    case (assigned h selection)
    then have "same_slots (assign_instance h (s\<lparr>rq_instance := None, rq_attempts := rq_attempts s + 1\<rparr>)) u"
      by (intro keepsD [OF slots_use_instance])
    then show ?thesis
      using use_instance_raises [OF assigned(2) excepted(4)] assms(2) by (simp add: same_slots_def assign_instance_def)
  qed (use assms(2) in simp)
  moreover have "should_retry settings (rq_attempts w - 1) \<and> rq_force_retry_budget w = rq_force_retry_budget u"
    by (rule handle_exception_retry [OF excepted(2)])
  ultimately show ?thesis using w excepted(3) by (auto simp: release_slot_def split: option.splits)
qed


lemma inference_loop_ends:
  assumes "slots_balanced s" and "rq_force_retry_budget s = 0" and "rq_attempts s = int n"
    and "\<And>i. i < length envs \<Longrightarrow> k \<le> n + i \<Longrightarrow> no_reparallelization (envs ! i)"
    and "n \<le> max k (nat (rc_max_retries settings))" and "max k (nat (rc_max_retries settings)) < n + length envs"
  shows "\<exists>r t. inference_loop settings action envs s = Some (r, t) \<and> slots_balanced t
    \<and> rq_attempts t \<le> int (max k (nat (rc_max_retries settings))) + 1"
  using assms
proof (induction envs arbitrary: s n)
  case (Cons env envs)
  obtain r t where run: "run_attempt settings action env s = (r, t)" by (cases "run_attempt settings action env s")
  have t: "rq_attempts t = int (Suc n)" "slots_balanced t"
    using run_attempt_slots [OF run Cons.prems(1)] Cons.prems(3) by simp_all
  show ?case
  proof (cases "r = Inr Retry")
    case True
    note retry = run_attempt_retry [OF run [unfolded True] Cons.prems(2)]
    have "Suc n \<le> max k (nat (rc_max_retries settings))"
    proof (rule ccontr)
      assume "\<not> ?thesis"
      then have "n = max k (nat (rc_max_retries settings))" using Cons.prems(5) by simp
      then have n: "k \<le> n" "nat (rc_max_retries settings) \<le> n" by simp_all
      have "no_reparallelization env" using Cons.prems(4) [of 0] n(1) by simp
      then show False using retry n(2) Cons.prems(3) by (auto simp: should_retry_def nat_le_iff)
    qed
    moreover have "no_reparallelization (envs ! i)" if "i < length envs" "k \<le> Suc n + i" for i
      using Cons.prems(4) [of "Suc i"] that by simp
    ultimately show ?thesis
      using Cons.IH [OF t(2) _ t(1)] retry Cons.prems(6) True run by simp
  next
    case False
    then have "\<exists>r. inference_loop settings action (env # envs) s = Some (r, t)"
      using run by (auto split: sum.splits verdict.splits)
    moreover have "rq_attempts t \<le> int (max k (nat (rc_max_retries settings))) + 1"
      using t(1) Cons.prems(5) by linarith
    ultimately show ?thesis using t(2) by blast
  qed
next
  case Nil
  then show ?case by (auto simp: max_def split: if_splits)
qed

text \<open>
  C29. A request comes to an end: when the deployment is changed under it during its first \<open>k\<close> attempts
  at most, it has a result after at most \<open>max k max_retries + 1\<close> attempts, whatever the backends
  answer or raise, and by then every instance that it was assigned to has its slot back, once.
\<close>

theorem inference_ends:
  assumes "\<forall>env \<in> set (drop k envs). no_reparallelization env"
    and "max k (nat (rc_max_retries settings)) < length envs"
  shows "\<exists>r t. inference settings running fresh_id store envs request_data action = Some (r, t)
    \<and> rq_attempts t \<le> int (max k (nat (rc_max_retries settings))) + 1
    \<and> rq_released t = rq_assigned_instances t"
proof -
  let ?s = "start_request request_data fresh_id store"
  have start: "slots_balanced ?s" "rq_force_retry_budget ?s = 0" "rq_attempts ?s = int 0"
    by (simp_all add: start_request_def slots_balanced_def)
  have quiet: "no_reparallelization (envs ! i)" if "i < length envs" "k \<le> 0 + i" for i
  proof -
    have "envs ! i = drop k envs ! (i - k)" "i - k < length (drop k envs)" using that by simp_all
    then show ?thesis using assms(1) by (metis nth_mem)
  qed
  have "\<exists>r t. inference_loop settings action envs ?s = Some (r, t) \<and> slots_balanced t
      \<and> rq_attempts t \<le> int (max k (nat (rc_max_retries settings))) + 1"
    using assms(2) by (intro inference_loop_ends [OF start quiet]) simp_all
  then show ?thesis
  proof (cases running)
    case False
    then show ?thesis by (simp add: inference_def start_request_def)
  qed (auto simp: inference_def slots_balanced_def)
qed

section \<open>The required native restore\<close>

lemma no_restore_native: "rc_require_native_kv_restore settings \<Longrightarrow> no_restore settings state why counters \<noteq> Inr p"
  by (simp add: no_restore_def)

lemma read_restore_result_native:
  assumes "read_restore_result settings state decision result counters = Inr (snapshot, p)" and "rc_require_native_kv_restore settings"
  shows "snapshot = Some state"
proof -
  define restored staged where "restored = truthy (dgetn result ''restored'')" and "staged = truthy (dget result ''staged'' (PBool False))"
  note defs = read_restore_result_def restored_def [symmetric] staged_def [symmetric] Let_def
  consider "restored" | "\<not> restored" "staged" | "\<not> restored" "\<not> staged" by blast
  then show ?thesis
  proof cases
    case 1
    then show ?thesis using assms unfolding defs by (auto split: if_splits)
  next
    case 2
    then show ?thesis using assms unfolding defs by (auto split: if_splits)
  next
    case 3
    then have "\<exists>c. no_restore settings state (sd_reason decision) c = Inr (snapshot, p)" using assms(1) unfolding defs by auto
    then show ?thesis using no_restore_native [OF assms(2)] by simp
  qed
qed

lemma prepare_native:
  assumes "prepare_stateful_recovery settings backends request_id source target (Some state) request selection = Inr (snapshot, p)"
    and "rc_require_native_kv_restore settings"
  shows "snapshot = Some state"
proof -
  have "(\<exists>why c. no_restore settings state why c = Inr (snapshot, p))
      \<or> (\<exists>decision result c. read_restore_result settings state decision result c = Inr (snapshot, p))"
    using assms(1) unfolding prepare_stateful_recovery_def Let_def
    by (simp split: if_splits del: ex_simps) metis+
  then show ?thesis using no_restore_native [OF assms(2)] read_restore_result_native [OF _ assms(2)] by metis
qed

text \<open>The result says that the cache was restored and that tokens were taken from it.\<close>

definition has_native_receipt :: "pyval \<Rightarrow> bool" where
  "has_native_receipt result \<longleftrightarrow>
     (case kv_restore_of result of
        PDict d \<Rightarrow> truthy (dgetn d ''restored'') \<and> (case int_or_zero d ''cached_tokens'' of Inr n \<Rightarrow> 0 < n | Inl _ \<Rightarrow> False)
      | _ \<Rightarrow> False)"

lemma require_receipt_native:
  assumes "require_receipt settings (kv_restore_of result) = Inr ()" and "rc_require_native_kv_restore settings"
  shows "has_native_receipt result"
  using assms unfolding require_receipt_def has_native_receipt_def
  by (cases "kv_restore_of result") (auto split: if_splits)

definition native_state :: "request_state \<Rightarrow> bool" where
  "native_state s \<longleftrightarrow> (case rq_recovery_state s of Some state \<Rightarrow> native_snapshot state | None \<Rightarrow> False)"

text \<open>After failed results only, the saved state is a native snapshot.\<close>

definition native_ready :: "request_state \<Rightarrow> bool" where
  "native_ready s \<longleftrightarrow> (rq_exceptions s = 0 \<and> 0 < rq_failed_attempts s \<longrightarrow> native_state s)"

lemma failed_result_native:
  assumes "failed_result settings env h result s = (Inr Retry, t)" and "rc_require_native_kv_restore settings"
  shows "native_state t"
proof -
  obtain v where "retry_or_return settings (PDict result) v = (Inr Retry, t)"
    using assms(1) unfolding failed_result_def sbind_Inr by blast
  then show ?thesis using assms(2)
    by (auto simp: retry_or_return_def native_state_def drop_replay_def Let_def split: if_splits option.splits)
qed

lemma use_instance_native:
  assumes run: "use_instance settings action env h selection s = (Inr (Return (Result result) True), t)"
    and native: "rc_require_native_kv_restore settings" and policy: "rc_recovery_policy settings = STATEFUL_RECOVERY"
    and state: "native_state s"
  shows "has_native_receipt result"
proof (rule use_instance_result [OF run])
  fix snapshot u res w
  assume take: "take_up_state settings env h selection s = (Inr snapshot, u)"
    and check: "check_restored settings h snapshot res (u\<lparr>rq_store := at_others env (rq_store u)\<rparr>) = (Inr (), w)"
    and rest: "if \<not> result_is_preempted res \<and> \<not> result_is_error res
         then Return (Result result) True = Return (Result res) True \<and> t = w
         else failed_result settings env h (dict_of res) w = (Inr (Return (Result result) True), t)"
  obtain st where st: "rq_recovery_state s = Some st" using state by (auto simp: native_state_def split: option.splits)
  have "snapshot = Some st"
    using take st policy prepare_native [OF _ native]
    by (auto simp: take_up_state_def stateful_def sbind_Inr)
  then have receipt: "has_native_receipt res"
    using check require_receipt_native [OF _ native] by (auto simp: check_restored_def sbind_Inr)
  have "res = result"
  proof (cases "\<not> result_is_preempted res \<and> \<not> result_is_error res")
    case False
    with rest have "failed_result settings env h (dict_of res) w = (Inr (Return (Result result) True), t)" by auto
    then obtain v where "retry_or_return settings (PDict (dict_of res)) v = (Inr (Return (Result result) True), t)"
      unfolding failed_result_def sbind_Inr by blast
    then show ?thesis by (simp add: retry_or_return_def Let_def split: if_splits)
  qed (use rest in simp)
  with receipt show ?thesis by simp
qed

lemma use_instance_failures:
  assumes "use_instance settings action env h selection s = (Inr (Return out True), t)"
  shows "rq_failed_attempts t = rq_failed_attempts s \<and> rq_exceptions t = rq_exceptions s"
proof (rule use_instance_result [OF assms])
  fix result w
  assume "quiet s w" and rest: "if \<not> result_is_preempted result \<and> \<not> result_is_error result
       then Return out True = Return (Result result) True \<and> t = w
       else failed_result settings env h (dict_of result) w = (Inr (Return out True), t)"
  moreover have "failed_result settings env h (dict_of result) w \<noteq> (Inr (Return out True), t)"
    by (auto simp: failed_result_def sbind_Inr retry_or_return_def Let_def split: if_splits)
  ultimately show ?thesis by (auto simp: quiet_def same_failures_def split: if_splits)
qed

lemma handle_exception_counts:
  assumes "handle_exception settings env e s = (r, t)"
  shows "rq_exceptions t \<noteq> 0"
proof -
  let ?s = "s\<lparr>rq_failed_attempts := rq_failed_attempts s + 1, rq_exceptions := Suc (rq_exceptions s)\<rparr>"
  let ?rest = "sbind (\<lambda>s. case rq_instance s of None \<Rightarrow> (Inr (), s) | Some h \<Rightarrow> save_after_exception settings env h s) (\<lambda>_.
     sbind (change (count_replay settings None)) (\<lambda>_ s.
     if should_retry settings (rq_attempts s - 1) then (Inr Retry, drop_replay settings s)
     else (Inr (Return (Error_Text e) False), s)))"
  have "keeps quiet (\<lambda>s. case rq_instance s of None \<Rightarrow> (Inr (), s) | Some h \<Rightarrow> save_after_exception settings env h s)"
    using quiet_save_after_exception [of settings env] quiet.kept_refl by (auto simp: keeps_def split: option.splits)
  moreover have "keeps quiet (\<lambda>s. if should_retry settings (rq_attempts s - 1) then (Inr Retry, drop_replay settings s)
      else (Inr (Return (Error_Text e) False), s))"
    using quiet_drop_replay quiet.kept_refl by (auto simp: keeps_def)
  moreover have "keeps quiet (change (count_replay settings None))" by (rule quiet.keeps_change [OF quiet_count_replay])
  ultimately have "keeps quiet ?rest" by blast
  moreover have "?rest ?s = (r, t)" using assms by (simp add: handle_exception_def sbind_def change_def)
  ultimately have "quiet ?s t" by (rule keepsD)
  then show ?thesis by (simp add: quiet_def same_failures_def)
qed

lemma run_attempt_native:
  assumes "run_attempt settings action env s = (r, t)" and native: "rc_require_native_kv_restore settings"
    and policy: "rc_recovery_policy settings = STATEFUL_RECOVERY" and "native_ready s"
  shows "(r = Inr Retry \<longrightarrow> native_ready t)
    \<and> (\<forall>result. r = Inr (Return (Result result) True) \<and> rq_exceptions t = 0 \<and> 0 < rq_failed_attempts t \<longrightarrow> has_native_receipt result)"
  using assms(1)
proof (cases rule: run_attempt_cases)
  case (excepted e u w)
  from handle_exception_counts [OF excepted(2)] excepted(3) have "rq_exceptions t \<noteq> 0"
    by (auto simp: release_slot_def split: option.splits)
  then show ?thesis by (simp add: native_ready_def)
next
  case (ended v u)
  have t: "rq_recovery_state t = rq_recovery_state u" "rq_exceptions t = rq_exceptions u" "rq_failed_attempts t = rq_failed_attempts u"
    using ended(2) by (simp_all add: release_slot_def split: option.splits)
  let ?s = "s\<lparr>rq_instance := None, rq_attempts := rq_attempts s + 1\<rparr>"
  have "native_state u" if "r = Inr Retry"
  proof -
    have "v = Inr Retry" using that ended(4) by (auto split: sum.splits pyexc.splits)
    with ended(1) have "try_attempt settings action env ?s = (Inr Retry, u)" by simp
    then show ?thesis
    proof (cases rule: try_attempt_cases)
      case (assigned h selection)
      show ?thesis
      proof (rule use_instance_result [OF assigned(2)])
        fix result w
        assume "if \<not> result_is_preempted result \<and> \<not> result_is_error result
           then Retry = Return (Result result) True \<and> u = w
           else failed_result settings env h (dict_of result) w = (Inr Retry, u)"
        then show ?thesis using failed_result_native [OF _ native] by (auto split: if_splits)
      qed
    qed simp
  qed
  moreover have "has_native_receipt result"
    if result: "r = Inr (Return (Result result) True)" and "rq_exceptions u = 0" "0 < rq_failed_attempts u" for result
  proof -
    have "v = Inr (Return (Result result) True)" using result ended(4) by (auto split: sum.splits pyexc.splits)
    with ended(1) have "try_attempt settings action env ?s = (Inr (Return (Result result) True), u)" by simp
    then show ?thesis
    proof (cases rule: try_attempt_cases)
      case (assigned h selection)
      have "native_state s"
        using use_instance_failures [OF assigned(2)] that(2,3) assms(4) by (simp add: assign_instance_def native_ready_def)
      then show ?thesis
        by (intro use_instance_native [OF assigned(2) native policy]) (simp add: assign_instance_def native_state_def)
    qed simp
  qed
  ultimately show ?thesis using t by (auto simp: native_ready_def native_state_def)
qed

text \<open>
  C30. A required native restore does not silently become a replay: under the stateful policy, when the
  native restore is required and a request succeeds after failed attempts none of which ended in an
  exception, then the result of the last attempt reports a restored cache from which tokens were taken.
\<close>

theorem native_restore_not_replaced:
  assumes "inference settings running fresh_id store envs request_data action = Some (Inr (Result result, True), t)"
    and "rc_require_native_kv_restore settings" and "rc_recovery_policy settings = STATEFUL_RECOVERY"
    and "0 < rq_failed_attempts t" and "rq_exceptions t = 0"
  shows "has_native_receipt result"
proof -
  have "inference_loop settings action envs s = Some (Inr (Result result, True), t) \<Longrightarrow> native_ready s \<Longrightarrow> has_native_receipt result" for s
  proof (induction envs arbitrary: s)
    case (Cons env envs)
    obtain r u where run: "run_attempt settings action env s = (r, u)" by (cases "run_attempt settings action env s")
    note step = run_attempt_native [OF run assms(2,3) Cons.prems(2)]
    show ?case
    proof (cases "r = Inr Retry")
      case True
      then show ?thesis using Cons step run by simp
    next
      case False
      then have "r = Inr (Return (Result result) True) \<and> u = t"
        using Cons.prems(1) run by (auto split: sum.splits verdict.splits)
      then show ?thesis using step assms(4,5) by blast
    qed
  qed simp
  moreover have "native_ready (start_request request_data fresh_id store)" by (simp add: native_ready_def start_request_def)
  ultimately show ?thesis using assms(1) by (auto simp: inference_def split: if_splits)
qed

section \<open>The rest of the output\<close>

lemma dgetn_delete: "dgetn (AList.delete k d) k' = (if k' = k then PNone else dgetn d k')"
  by (simp add: dgetn_def dget_def delete_conv')

lemma dhas_delete: "dhas (AList.delete k d) k' = (k' \<noteq> k \<and> dhas d k')"
  by (simp add: dhas_def delete_conv')

lemmas request_dicts = dgetn_update dhas_update dgetn_delete dhas_delete

text \<open>
  A restored request goes on where the state ends: vLLM gets all visible tokens, split into the
  original prompt and the output that was already produced, and is asked for the remaining tokens
  only; the router's own bookkeeping is not sent. A state whose output exceeds its tokens is refused.
\<close>

theorem restored_request_continues:
  assumes "build_stateful_restore_request settings request_data state = Inr request" and "rc_backend settings = ''vllm''"
    and "0 < is_completed_tokens state"
  shows "\<exists>n committed. dgetn request ''input_tokens'' = PList (map PInt (is_tokens state))
      \<and> dgetn request ''_spotserve_original_prompt_tokens'' = PInt (int n)
      \<and> dgetn request ''_spotserve_committed_output_tokens'' = PList (map PInt committed)
      \<and> take n (is_tokens state) @ committed = is_tokens state \<and> int (length committed) = is_completed_tokens state
      \<and> \<not> dhas request ''_completed_tokens''
      \<and> (\<forall>m. dgetn request_data ''max_tokens'' = PInt m \<and> is_completed_tokens state < m \<longrightarrow>
           dgetn request ''max_tokens'' = PInt (m - is_completed_tokens state))"
proof -
  define c where "c = is_completed_tokens state"
  define tokens where "tokens = is_tokens state"
  let ?n = "length tokens - nat c"
  have c: "0 < c" using assms(3) by (simp add: c_def)
  define base where "base = AList.update ''_spotserve_original_prompt_tokens'' (PInt (int (length tokens) - c))
     (AList.update ''_spotserve_committed_output_tokens'' (PList (map PInt (last_tokens c tokens)))
       (if tokens \<noteq> [] then AList.update ''input_tokens'' (PList (map PInt tokens)) (AList.delete ''_completed_tokens'' request_data)
        else AList.delete ''_completed_tokens'' request_data))"
  have le: "c \<le> int (length tokens)" and reduced: "reduced_max_tokens base c = Inr request"
    using assms(1,2) c unfolding build_stateful_restore_request_def Let_def c_def [symmetric] tokens_def [symmetric]
    by (auto simp: base_def split: if_splits)
  have nonempty: "tokens \<noteq> []" using le c by auto
  have "last_tokens c tokens = drop ?n tokens" using c by (simp add: last_tokens_def)
  then have base: "dgetn base ''input_tokens'' = PList (map PInt tokens)"
      "dgetn base ''_spotserve_original_prompt_tokens'' = PInt (int ?n)"
      "dgetn base ''_spotserve_committed_output_tokens'' = PList (map PInt (drop ?n tokens))"
      "\<not> dhas base ''_completed_tokens''" "dgetn base ''max_tokens'' = dgetn request_data ''max_tokens''"
      "dhas base ''max_tokens'' = dhas request_data ''max_tokens''"
    using nonempty le c by (simp_all add: base_def request_dicts of_nat_diff nat_le_iff)
  have other: "dgetn request k = dgetn base k" "dhas request k = dhas base k" if "k \<noteq> ''max_tokens''" for k
    using reduced that by (auto simp: reduced_max_tokens_def request_dicts split: if_splits)
  have "dgetn request ''max_tokens'' = PInt (m - c)" if "dgetn request_data ''max_tokens'' = PInt m" "c < m" for m
  proof -
    have "dhas request_data ''max_tokens''" using that(1) by (auto simp: dgetn_def dget_def dhas_def split: option.splits)
    then show ?thesis using reduced that base(5,6) by (auto simp: reduced_max_tokens_def request_dicts)
  qed
  moreover have "int (length (drop ?n tokens)) = c" using le c by simp
  ultimately show ?thesis
    using base other by (intro exI [of _ ?n] exI [of _ "drop ?n tokens"]) (simp add: c_def [symmetric] tokens_def [symmetric])
qed


section \<open>The planned target\<close>

definition restore_candidate :: "attempt_env \<Rightarrow> string \<Rightarrow> instance_handle \<Rightarrow> bool" where
  "restore_candidate env source h \<longleftrightarrow>
     h \<in> set (at_ready env) \<and> ih_instance_id h \<noteq> source \<and> can_accept_request 1 h \<and> ih_backend_instance h \<noteq> None
     \<and> backend_supports_state_restore (at_backends env) h = Inr True"

lemma recovery_candidate_sound:
  assumes "recovery_candidate settings (at_backends env) state source h found = Inr found'"
    and "\<forall>i k. map_of (snd found) i = Some k \<longrightarrow> restore_candidate env source k" and "h \<in> set (at_ready env)"
  shows "\<forall>i k. map_of (snd found') i = Some k \<longrightarrow> restore_candidate env source k"
proof (cases "ih_instance_id h = source \<or> \<not> can_accept_request 1 h \<or> ih_backend_instance h = None")
  case True
  then show ?thesis using assms(1,2) by (simp add: recovery_candidate_def)
next
  case False
  then obtain supports where supports: "backend_supports_state_restore (at_backends env) h = Inr supports"
    using assms(1) by (auto simp: recovery_candidate_def)
  have "found' = found \<or> supports \<and> snd found' = AList.update (ih_instance_id h) h (snd found)"
  proof (cases "supports \<and> bk_has_runtime_metadata (at_backends env) h")
    case True
    obtain v where v: "except_any (mv_runtime_metadata (bk_metadata (at_backends env)) h) (Inr PNone) = Inr v"
      using True False supports assms(1) by (auto simp: recovery_candidate_def)
    show ?thesis
    proof (cases v)
      case (PDict metadata)
      then show ?thesis using True False supports v assms(1) by (auto simp: recovery_candidate_def Let_def)
    qed (use True False supports v assms(1) in \<open>auto simp: recovery_candidate_def\<close>)
  qed (use False supports assms(1) in \<open>auto simp: recovery_candidate_def\<close>)
  moreover have "restore_candidate env source h" if supports
    using False that assms(3) supports by (simp add: restore_candidate_def)
  ultimately show ?thesis using assms(2) by (auto split: if_splits)
qed

text \<open>
  A state is restored only where it can be: the planned target is a ready instance other than the
  lost one, with a backend that supports the restore and with room for a request, which is reserved
  before the restore begins; the state is a native snapshot.
\<close>

theorem planned_target_usable:
  assumes "plan_stateful_recovery_target settings env state source = Inr (Some h, decision)"
  shows "dgetn decision ''action'' = PStr ''restore_state'' \<and> native_snapshot state
    \<and> list_ex (\<lambda>k. ih_instance_id k \<noteq> source \<and> can_accept_request 1 k \<and> ih_backend_instance k \<noteq> None
        \<and> backend_supports_state_restore (at_backends env) k = Inr True
        \<and> add_requests 1 (at_reservation env k) = (True, h)) (at_ready env)"
proof -
  obtain candidates by_ids selection k where
    found: "rfold (recovery_candidate settings (at_backends env) state source) (at_ready env) ([], []) = Inr (candidates, by_ids)"
    and sel: "plan_compatible_state_target state candidates source (rc_stateful_recovery_config settings) = Inr selection"
    and decision: "decision = target_selection_dict selection" "truthy (dgetn decision ''target_instance_id'')"
    and k: "map_of by_ids (py_str (dgetn decision ''target_instance_id'')) = Some k" "add_requests 1 (at_reservation env k) = (True, h)"
    using assms unfolding plan_stateful_recovery_target_def Let_def
    by (auto split: if_splits option.splits prod.splits)
  have "\<forall>i k. map_of (snd (candidates, by_ids)) i = Some k \<longrightarrow> restore_candidate env source k"
    by (rule rfold_invariant [OF found]) (use recovery_candidate_sound in \<open>auto\<close>)
  then have "restore_candidate env source k" using k(1) by simp
  moreover have "dgetn decision ''action'' = PStr ''restore_state'' \<and> native_snapshot state"
  proof (cases selection)
    case (Fallback_Token_Replay reason rejected)
    then show ?thesis using decision by (simp add: dgetn_def dget_def)
  next
    case (Restore_State ranked rejected)
    then show ?thesis using decision sel
      by (auto simp: dgetn_def dget_def native_snapshot_def plan_compatible_state_target_def split: if_splits)
  qed
  ultimately show ?thesis using k(2) by (auto simp: restore_candidate_def list_ex_iff)
qed

section \<open>Examples\<close>

text \<open>
  The first attempt runs on \<open>a\<close>, which is preempted or whose call raises, the second on \<open>b\<close>.
\<close>

definition ex_instance :: "string \<Rightarrow> instance_handle" where
  "ex_instance name =
     (InstanceHandle name 2 1)\<lparr>ih_node_id := Some ''n'', ih_backend_instance := Some 0, ih_ready := True, ih_state := READY\<rparr>"

definition ex_backends :: "pyval res \<Rightarrow> backends" where
  "ex_backends answer =
     \<lparr>bk_metadata = \<lparr>mv_context_metadata = (\<lambda>_. Inr PNone), mv_runtime_metadata = (\<lambda>_. Inr (PDict [])),
                     mv_current_tokens = (\<lambda>_. Inr []), mv_resume_kv_cache = (\<lambda>_ _. Inr PNone)\<rparr>,
      bk_has_runtime_metadata = (\<lambda>_. True),
      bk_supports_state_restore = (\<lambda>_. Inr (PBool True)),
      bk_restore_inference_state = (\<lambda>_ _ _. Inr (PDict [(''restored'', PBool True), (''restored_blocks'', PInt 1)])),
      bk_export_inference_state = (\<lambda>_ _ _ _. Inr PNone),
      bk_load_lora_adapter = (\<lambda>_ _ _. Inr ()),
      bk_resume_generate = (\<lambda>_ _ _. answer), bk_generate = (\<lambda>_ _. answer), bk_encode = (\<lambda>_ _. answer)\<rparr>"

definition ex_attempt :: "string \<Rightarrow> pyval res \<Rightarrow> attempt_env" where
  "ex_attempt name answer =
     \<lparr>at_backends = ex_backends answer, at_allocation = Inr (ex_instance name), at_ready = [ex_instance name],
      at_reservation = (\<lambda>h. h), at_migration_state = None, at_others = (\<lambda>s. s)\<rparr>"

definition ex_settings :: "bool \<Rightarrow> recovery_settings" where
  "ex_settings planner =
     \<lparr>rc_recovery_policy = STATEFUL_RECOVERY, rc_require_native_kv_restore = True, rc_max_retries = 1,
      rc_enable_stateful_target_planner = planner, rc_stateful_recovery_config = [], rc_backend = ''vllm'',
      rc_model_name = ''m'', rc_enable_lora = False, rc_loaded_lora_adapters = []\<rparr>"

definition ex_preempted :: pyval where
  "ex_preempted = PDict [(''preempted'', PBool True), (''completed_tokens'', PInt 1),
     (''current_output'', PList [PList [PInt 1, PInt 2, PInt 3]]),
     (''_spotserve_inference_state'', PDict [(''tokens'', PList [PInt 1, PInt 2, PInt 3]), (''completed_tokens'', PInt 1),
        (''state_kind'', PStr ''vllm_kv_snapshot''), (''supports_restore'', PBool True)])]"

definition ex_restored :: pyval where
  "ex_restored = PDict [(''text'', PStr ''t''), (''_spotserve_kv_restore'',
     PDict [(''restored'', PBool True), (''restored_blocks'', PInt 1), (''cached_tokens'', PInt 2)])]"

definition ex_envs :: "attempt_env list" where
  "ex_envs = [ex_attempt ''a'' (Inr ex_preempted), ex_attempt ''b'' (Inr ex_restored)]"

definition ex_store :: recovery_store where
  "ex_store = \<lparr>sv_tokens = [], sv_states = []\<rparr>"

definition ex_end :: request_state where
  "ex_end = snd (the (inference (ex_settings False) True ''0'' ex_store ex_envs [(''max_tokens'', PInt 8)] ''generate''))"

lemma ex_run:
  "inference (ex_settings False) True ''0'' ex_store ex_envs [(''max_tokens'', PInt 8)] ''generate''
    = Some (Inr (Result ex_restored, True), ex_end)"
  "rq_failed_attempts ex_end = 1" "rq_exceptions ex_end = 0"
proof -
  have "map_option (\<lambda>(r, t). (r, rq_failed_attempts t, rq_exceptions t))
      (inference (ex_settings False) True ''0'' ex_store ex_envs [(''max_tokens'', PInt 8)] ''generate'')
      = Some (Inr (Result ex_restored, True), 1, 0)" by code_simp
  then show "inference (ex_settings False) True ''0'' ex_store ex_envs [(''max_tokens'', PInt 8)] ''generate''
      = Some (Inr (Result ex_restored, True), ex_end)" "rq_failed_attempts ex_end = 1" "rq_exceptions ex_end = 0"
    by (auto simp: ex_end_def)
qed

theorem native_restore_not_replaced_witness: "has_native_receipt ex_restored \<and> rq_failed_attempts ex_end = 1"
proof -
  have "rc_require_native_kv_restore (ex_settings False)" "rc_recovery_policy (ex_settings False) = STATEFUL_RECOVERY"
    by (simp_all add: ex_settings_def)
  then show ?thesis using native_restore_not_replaced [OF ex_run(1)] ex_run(2,3) by simp
qed

theorem inference_ends_witness:
  "\<exists>r t. inference (ex_settings False) True ''0'' ex_store ex_envs [(''max_tokens'', PInt 8)] ''generate'' = Some (r, t)
    \<and> rq_attempts t \<le> 2 \<and> rq_released t = rq_assigned_instances t"
proof -
  have "\<not> reparallelized ex_preempted" "\<not> reparallelized ex_restored" by code_simp+
  then have "\<forall>env \<in> set (drop 0 ex_envs). no_reparallelization env"
    by (auto simp: ex_envs_def no_reparallelization_def ex_attempt_def ex_backends_def)
  moreover have "max 0 (nat (rc_max_retries (ex_settings False))) < length ex_envs" by (simp add: ex_settings_def ex_envs_def)
  ultimately show ?thesis
    using inference_ends [of 0 ex_envs "ex_settings False" True "''0''" ex_store "[(''max_tokens'', PInt 8)]" "''generate''"]
    by (simp add: ex_settings_def)
qed

definition ex_state :: inference_state where
  "ex_state = InferenceState_from_tokens [1, 2, 3] PNone ''a'' ''n'' ''vllm'' ''m'' (Some 1) ''vllm_kv_snapshot'' True [] []"

definition ex_request :: dict where
  "ex_request = projr (build_stateful_restore_request (ex_settings False) [(''max_tokens'', PInt 8)] ex_state)"

theorem restored_request_continues_witness:
  "dgetn ex_request ''max_tokens'' = PInt 7 \<and> dgetn ex_request ''input_tokens'' = PList [PInt 1, PInt 2, PInt 3]"
proof -
  have "build_stateful_restore_request (ex_settings False) [(''max_tokens'', PInt 8)] ex_state = Inr ex_request" by code_simp
  moreover have "rc_backend (ex_settings False) = ''vllm''" "is_completed_tokens ex_state = 1" "is_tokens ex_state = [1, 2, 3]"
    "dgetn [(''max_tokens'', PInt 8)] ''max_tokens'' = PInt 8" by code_simp+
  ultimately show ?thesis using restored_request_continues [of "ex_settings False" "[(''max_tokens'', PInt 8)]" ex_state ex_request] by auto
qed

theorem planned_target_usable_witness:
  "case plan_stateful_recovery_target (ex_settings True) (ex_attempt ''b'' (Inr ex_restored)) ex_state ''a'' of
     Inr (Some h, decision) \<Rightarrow> ih_instance_id h = ''b'' \<and> ih_concurrency h = 1 \<and> dgetn decision ''action'' = PStr ''restore_state''
   | _ \<Rightarrow> False"
proof -
  have "case plan_stateful_recovery_target (ex_settings True) (ex_attempt ''b'' (Inr ex_restored)) ex_state ''a'' of
     Inr (Some h, _) \<Rightarrow> ih_instance_id h = ''b'' \<and> ih_concurrency h = 1 | _ \<Rightarrow> False" by code_simp
  then show ?thesis using planned_target_usable [of "ex_settings True" "ex_attempt ''b'' (Inr ex_restored)" ex_state "''a''"]
    by (auto split: sum.splits prod.splits option.splits)
qed

text \<open>
  The clause for exceptions does not ask for a native snapshot: when the backend raises and no state can
  be exported, the request starts again from its input and succeeds, although the native restore is
  required.
\<close>

lemma exception_restarts_request:
  "case inference (ex_settings False) True ''0'' ex_store
      [ex_attempt ''a'' (Inl (RuntimeError ''died'')), ex_attempt ''b'' (Inr (PDict [(''text'', PStr ''t'')]))] [] ''generate'' of
     Some (Inr (Result result, success), t) \<Rightarrow> success \<and> rq_failed_attempts t = 1 \<and> \<not> has_native_receipt result
   | _ \<Rightarrow> False"
  by code_simp

end
