(* ===== verification/Router_Handover.thy ===== *)
theory Router_Handover
  imports Router_Recovery
begin

text \<open>
  The requests in flight when a deployment is replaced, \<open>src/sllm/routers/roundrobin_router.py\<close>: they
  are tracked, their state is exported and they are aborted on the old instances, so that they try
  again on the new ones; the old instances are released when the migrated requests have finished.
  Durations are left out.
\<close>

section \<open>Requests in flight\<close>

record inflight_entry =
  ie_request_id :: string
  ie_request_data :: dict
  ie_action :: string
  ie_instance :: "instance_handle option"
  ie_instance_id :: string
  ie_migration_state :: "inference_state option"
  ie_migration_requested :: bool

type_synonym inflight = "(string \<times> inflight_entry) list"

definition track_inflight_request :: "string \<Rightarrow> dict \<Rightarrow> string \<Rightarrow> instance_handle \<Rightarrow> inflight \<Rightarrow> inflight_entry \<times> inflight" where
  "track_inflight_request request_id request_data action h requests =
     (let entry = (case map_of requests request_id of
            None \<Rightarrow> \<lparr>ie_request_id = request_id, ie_request_data = request_data, ie_action = action, ie_instance = Some h,
                     ie_instance_id = ih_instance_id h, ie_migration_state = None, ie_migration_requested = False\<rparr>
          | Some entry \<Rightarrow> entry\<lparr>ie_instance := Some h, ie_instance_id := ih_instance_id h\<rparr>)
      in (entry, AList.update request_id entry requests))"

definition untrack_inflight_request :: "string \<Rightarrow> inflight \<Rightarrow> inflight" where
  "untrack_inflight_request request_id requests = AList.delete request_id requests"

section \<open>Export and abort\<close>

record handover_env =
  hv_backends :: backends
  hv_now :: "inflight_entry \<Rightarrow> rat"
  hv_export_takes :: "inflight_entry \<Rightarrow> rat"
  hv_abort_request :: "instance_handle \<Rightarrow> string \<Rightarrow> pyval res"

text \<open>
  \<open>hv_export_takes\<close> is the time the export of a state would take; an export that takes longer than its
  limit is cancelled.
\<close>

record handover =
  ho_requests :: inflight
  ho_store :: recovery_store
  ho_state_exported :: nat
  ho_abort_requested :: nat
  ho_migratable :: nat
  ho_unsupported :: nat
  ho_aborted :: "string list"

definition export_timeout :: "handover_env \<Rightarrow> dict \<Rightarrow> instance_handle \<Rightarrow> inflight_entry \<Rightarrow> rat res" where
  "export_timeout env config h entry =
     rbind (py_float (dget config ''state_export_timeout_s'' (PFloat 30))) (\<lambda>timeout.
     Inr (case ih_preemption_deadline_time_s h of
            None \<Rightarrow> timeout
          | Some deadline \<Rightarrow> min timeout (max 0 (deadline - hv_now env entry))))"

definition export_state ::
  "recovery_settings \<Rightarrow> handover_env \<Rightarrow> dict \<Rightarrow> instance_handle \<Rightarrow> inflight_entry \<Rightarrow> recovery_store
   \<Rightarrow> (inference_state option \<times> recovery_store) res" where
  "export_state settings env config h entry store =
     rbind (export_timeout env config h entry) (\<lambda>timeout.
     if timeout < hv_export_takes env entry then Inr (None, store)
     else capture_inference_state settings (hv_backends env) h (ie_request_data entry) None None None store)"

definition on_entry :: "string \<Rightarrow> (inflight_entry \<Rightarrow> inflight_entry) \<Rightarrow> handover \<Rightarrow> handover" where
  "on_entry request_id f ho = ho\<lparr>ho_requests := map (\<lambda>(k, e). (k, if k = request_id then f e else e)) (ho_requests ho)\<rparr>"

definition handover_allowed :: "recovery_settings \<Rightarrow> dict \<Rightarrow> inference_state option \<Rightarrow> unit res" where
  "handover_allowed settings config state =
     (if \<not> rc_require_native_kv_restore settings then Inr ()
      else case state of
             None \<Rightarrow> Inl (ValueError ''native_kv_export_required_before_abort'')
           | Some st \<Rightarrow>
               if \<not> native_snapshot st then Inl (ValueError ''native_kv_export_required_before_abort'')
               else if truthy (dgetn config ''require_free_gpu_overlap'')
                       \<and> \<not> truthy (dget (is_metadata st) ''can_restore_cross_node'' (PBool False))
               then Inl (ValueError ''cross_node_kv_restore_not_validated_before_abort'')
               else Inr ())"

definition abort_entry :: "handover_env \<Rightarrow> instance_handle \<Rightarrow> inflight_entry \<Rightarrow> handover \<Rightarrow> handover res" where
  "abort_entry env h entry ho =
     rbind (except_any (hv_abort_request env h (ie_request_id entry)) (Inr PNone)) (\<lambda>answer.
     Inr (if truthy (dget (dict_of answer) ''aborted'' (PBool False))
          then (on_entry (ie_request_id entry) (\<lambda>e. e\<lparr>ie_migration_requested := True\<rparr>) ho)
                 \<lparr>ho_abort_requested := ho_abort_requested ho + 1, ho_migratable := ho_migratable ho + 1,
                  ho_aborted := ho_aborted ho @ [ie_request_id entry]\<rparr>
          else ho\<lparr>ho_unsupported := ho_unsupported ho + 1\<rparr>))"

text \<open>An entry; the second component is what has been done when it raises.\<close>

definition hand_over_entry ::
  "recovery_settings \<Rightarrow> handover_env \<Rightarrow> dict \<Rightarrow> inflight_entry \<Rightarrow> handover \<Rightarrow> unit res \<times> handover" where
  "hand_over_entry settings env config entry ho =
     (case ie_instance entry of
        None \<Rightarrow> (Inr (), ho\<lparr>ho_unsupported := ho_unsupported ho + 1\<rparr>)
      | Some h \<Rightarrow>
          if ih_backend_instance h = None then (Inr (), ho\<lparr>ho_unsupported := ho_unsupported ho + 1\<rparr>)
          else case export_state settings env config h entry (ho_store ho) of
                 Inl e \<Rightarrow> (Inl e, ho)
               | Inr (state, store) \<Rightarrow>
                   let ho = (on_entry (ie_request_id entry) (\<lambda>e. e\<lparr>ie_migration_state := state\<rparr>) ho)\<lparr>ho_store := store\<rparr>
                   in case handover_allowed settings config state of
                        Inl e \<Rightarrow> (Inl e, ho)
                      | Inr _ \<Rightarrow>
                          let ho = (if state \<noteq> None then ho\<lparr>ho_state_exported := ho_state_exported ho + 1\<rparr> else ho)
                          in case abort_entry env h entry ho of Inl e \<Rightarrow> (Inl e, ho) | Inr ho \<Rightarrow> (Inr (), ho))"

fun hand_over_entries ::
  "recovery_settings \<Rightarrow> handover_env \<Rightarrow> dict \<Rightarrow> inflight_entry list \<Rightarrow> handover \<Rightarrow> unit res \<times> handover" where
  "hand_over_entries settings env config [] ho = (Inr (), ho)"
| "hand_over_entries settings env config (entry # entries) ho =
     (case hand_over_entry settings env config entry ho of
        (Inl e, ho) \<Rightarrow> (Inl e, ho)
      | (Inr _, ho) \<Rightarrow> hand_over_entries settings env config entries ho)"

text \<open>The summary's \<open>attempted\<close> and \<open>request_ids\<close> are the length and the sorted ids of \<open>old_entries\<close>.\<close>

definition old_entries :: "string list \<Rightarrow> inflight \<Rightarrow> inflight_entry list" where
  "old_entries old_instance_ids requests = filter (\<lambda>e. ie_instance_id e \<in> set old_instance_ids) (map snd requests)"

definition migrated_request_ids :: "string list \<Rightarrow> inflight \<Rightarrow> string list" where
  "migrated_request_ids old_instance_ids requests = sort (map ie_request_id (old_entries old_instance_ids requests))"

definition prepare_reparallelization_requests ::
  "recovery_settings \<Rightarrow> handover_env \<Rightarrow> dict \<Rightarrow> string list \<Rightarrow> inflight \<Rightarrow> recovery_store \<Rightarrow> unit res \<times> handover" where
  "prepare_reparallelization_requests settings env config old_instance_ids requests store =
     hand_over_entries settings env config (old_entries old_instance_ids requests)
       \<lparr>ho_requests = requests, ho_store = store, ho_state_exported = 0, ho_abort_requested = 0, ho_migratable = 0,
        ho_unsupported = 0, ho_aborted = []\<rparr>"

section \<open>Release of the old instances\<close>

text \<open>
  The waiting loop: what a turn finds, the clock of the event loop, the wall clock, the requests in
  flight and the native receipts.
\<close>

record turn =
  tu_loop_time :: rat
  tu_wall_time :: rat
  tu_inflight :: "string list"
  tu_native_receipts :: "(string \<times> dict) list"

datatype release =
    Nothing_To_Wait_For
  | Released "(string \<times> dict) list"
  | Lease_Deadline_Passed
  | Receipt_Missing
  | Not_Released_In_Time nat

definition release_deadline :: "rat \<Rightarrow> rat \<Rightarrow> rat \<Rightarrow> rat list \<Rightarrow> rat" where
  "release_deadline loop_time wall_time timeout_s source_deadlines =
     (let deadline = loop_time + max (1/10) timeout_s in
      if source_deadlines \<noteq> [] then min deadline (loop_time + max 0 (Min (set source_deadlines) - wall_time)) else deadline)"

text \<open>The result of a release is \<open>native_kv_receipts\<close> without the receipts of the released requests.\<close>

fun await_requests ::
  "bool \<Rightarrow> string list \<Rightarrow> rat list \<Rightarrow> rat \<Rightarrow> string list \<Rightarrow> turn list \<Rightarrow> release option" where
  "await_requests native request_ids source_deadlines deadline active [] = None"
| "await_requests native request_ids source_deadlines deadline active (turn # turns) =
     (if deadline \<le> tu_loop_time turn then Some (Not_Released_In_Time (length active))
      else let active = filter (\<lambda>k. k \<in> set (tu_inflight turn)) request_ids in
        if active \<noteq> [] then await_requests native request_ids source_deadlines deadline active turns
        else if source_deadlines \<noteq> [] \<and> Min (set source_deadlines) \<le> tu_wall_time turn then Some Lease_Deadline_Passed
        else if native \<and> \<not> list_all (\<lambda>k. dget (tu_native_receipts turn) k [] \<noteq> []) request_ids then Some Receipt_Missing
        else Some (Released (if native then filter (\<lambda>(k, _). k \<notin> set request_ids) (tu_native_receipts turn)
                             else tu_native_receipts turn)))"

definition wait_for_reparallelization_requests ::
  "bool \<Rightarrow> string list \<Rightarrow> instance_handle list \<Rightarrow> rat \<Rightarrow> rat \<Rightarrow> rat \<Rightarrow> turn list \<Rightarrow> release option" where
  "wait_for_reparallelization_requests native migrated instances timeout_s loop_time wall_time turns =
     (let request_ids = remdups migrated;
          source_deadlines = List.map_filter ih_preemption_deadline_time_s instances
      in if request_ids = [] then Some Nothing_To_Wait_For
         else await_requests native request_ids source_deadlines
                (release_deadline loop_time wall_time timeout_s source_deadlines) request_ids turns)"

section \<open>Properties\<close>

definition inflight_ok :: "inflight \<Rightarrow> bool" where
  "inflight_ok requests \<longleftrightarrow> distinct (map fst requests) \<and> (\<forall>(k, e) \<in> set requests. ie_request_id e = k)"

lemma inflight_ok_lookup: "inflight_ok requests \<Longrightarrow> map_of requests k = Some e \<Longrightarrow> ie_request_id e = k"
  by (auto simp: inflight_ok_def dest!: map_of_SomeD)

lemma inflight_ok_update:
  assumes "inflight_ok requests" and "ie_request_id e = k"
  shows "inflight_ok (AList.update k e requests)"
proof -
  have d: "distinct (map fst (AList.update k e requests))" using assms(1) by (simp add: inflight_ok_def distinct_update)
  moreover have "ie_request_id f = i" if "(i, f) \<in> set (AList.update k e requests)" for i f
  proof -
    have "map_of (AList.update k e requests) i = Some f" by (rule map_of_is_SomeI [OF d that])
    then show ?thesis using assms inflight_ok_lookup by (auto split: if_splits)
  qed
  ultimately show ?thesis by (auto simp: inflight_ok_def)
qed

text \<open>Tracking keeps the table in order: one entry per request, under its own id.\<close>

lemma inflight_ok_track:
  assumes "inflight_ok requests"
  shows "inflight_ok (snd (track_inflight_request request_id request_data action h requests))"
  using assms inflight_ok_lookup [OF assms, of request_id]
  by (auto simp: track_inflight_request_def Let_def intro!: inflight_ok_update split: option.splits)

lemma inflight_ok_untrack: "inflight_ok requests \<Longrightarrow> inflight_ok (untrack_inflight_request request_id requests)"
  by (auto simp: inflight_ok_def untrack_inflight_request_def AList.delete_eq intro: distinct_map_filter)

lemma map_of_on_entry:
  "map_of (ho_requests (on_entry i f ho)) k = (if k = i then map_option f (map_of (ho_requests ho) k) else map_of (ho_requests ho) k)"
proof -
  have "map_of (map (\<lambda>(k, e). (k, if k = i then f e else e)) al) k = (if k = i then map_option f (map_of al k) else map_of al k)"
    for al :: inflight by (induction al) auto
  then show ?thesis by (simp add: on_entry_def)
qed

lemma on_entry_fields [simp]:
  "ho_aborted (on_entry i f ho) = ho_aborted ho" "ho_store (on_entry i f ho) = ho_store ho"
  "ho_abort_requested (on_entry i f ho) = ho_abort_requested ho" "ho_migratable (on_entry i f ho) = ho_migratable ho"
  "ho_unsupported (on_entry i f ho) = ho_unsupported ho" "ho_state_exported (on_entry i f ho) = ho_state_exported ho"
  by (simp_all add: on_entry_def)

text \<open>The state kept for a request can be restored natively, where required on another node.\<close>

definition restorable_entry :: "dict \<Rightarrow> inflight_entry option \<Rightarrow> bool" where
  "restorable_entry config entry \<longleftrightarrow>
     (case entry of
        Some e \<Rightarrow> (case ie_migration_state e of
           Some st \<Rightarrow> native_snapshot st
             \<and> (truthy (dgetn config ''require_free_gpu_overlap'') \<longrightarrow> truthy (dget (is_metadata st) ''can_restore_cross_node'' (PBool False)))
         | None \<Rightarrow> False)
      | None \<Rightarrow> False)"

lemma restorable_requested [simp]:
  "restorable_entry config (Some (e\<lparr>ie_migration_requested := b\<rparr>)) = restorable_entry config (Some e)"
  by (simp add: restorable_entry_def)

lemma handover_allowed_native:
  assumes "handover_allowed settings config state = Inr u" and "rc_require_native_kv_restore settings" and "entry \<noteq> None"
  shows "restorable_entry config (map_option (\<lambda>e. e\<lparr>ie_migration_state := state\<rparr>) entry)"
  using assms by (auto simp: handover_allowed_def restorable_entry_def split: option.splits if_splits)

definition counted :: "handover \<Rightarrow> nat \<Rightarrow> bool" where
  "counted ho n \<longleftrightarrow> ho_abort_requested ho + ho_unsupported ho = n \<and> ho_migratable ho = ho_abort_requested ho
     \<and> length (ho_aborted ho) = ho_abort_requested ho \<and> ho_state_exported ho \<le> n"

lemma abort_entry_step:
  assumes "abort_entry env h entry ho = Inr ho'"
  shows "(ho' = ho\<lparr>ho_unsupported := ho_unsupported ho + 1\<rparr>
     \<or> ho' = (on_entry (ie_request_id entry) (\<lambda>e. e\<lparr>ie_migration_requested := True\<rparr>) ho)
                 \<lparr>ho_abort_requested := ho_abort_requested ho + 1, ho_migratable := ho_migratable ho + 1,
                  ho_aborted := ho_aborted ho @ [ie_request_id entry]\<rparr>)"
  using assms unfolding abort_entry_def rbind_eq_Inr by auto

lemma hand_over_entry_unsupported:
  "ie_instance entry = None \<or> (\<exists>h. ie_instance entry = Some h \<and> ih_backend_instance h = None) \<Longrightarrow>
     hand_over_entry settings env config entry ho = (Inr (), ho\<lparr>ho_unsupported := ho_unsupported ho + 1\<rparr>)"
  by (auto simp: hand_over_entry_def)

text \<open>What an entry does: it touches only its own request, and an abort comes after an allowed export.\<close>

definition entry_done ::
  "recovery_settings \<Rightarrow> dict \<Rightarrow> string \<Rightarrow> handover \<Rightarrow> unit res \<Rightarrow> handover \<Rightarrow> bool" where
  "entry_done settings config i ho r ho' \<longleftrightarrow>
     (\<forall>k. k \<noteq> i \<longrightarrow> map_of (ho_requests ho') k = map_of (ho_requests ho) k)
     \<and> (\<forall>n. r = Inr () \<and> counted ho n \<longrightarrow> counted ho' (Suc n))
     \<and> (ho_aborted ho' = ho_aborted ho
        \<or> ho_aborted ho' = ho_aborted ho @ [i]
          \<and> (rc_require_native_kv_restore settings \<and> map_of (ho_requests ho) i \<noteq> None
             \<longrightarrow> restorable_entry config (map_of (ho_requests ho') i)))"

lemma hand_over_entry_done:
  assumes "hand_over_entry settings env config entry ho = (r, ho')"
  shows "entry_done settings config (ie_request_id entry) ho r ho'"
proof (cases "ie_instance entry = None \<or> (\<exists>h. ie_instance entry = Some h \<and> ih_backend_instance h = None)")
  case True
  from assms [unfolded hand_over_entry_unsupported [OF True]] show ?thesis by (auto simp: entry_done_def counted_def)
next
  case False
  then obtain h where h: "ie_instance entry = Some h" "ih_backend_instance h \<noteq> None" by auto
  show ?thesis
  proof (cases "export_state settings env config h entry (ho_store ho)")
    case (Inl e)
    then show ?thesis using assms h by (auto simp: hand_over_entry_def entry_done_def)
  next
    case (Inr p)
    obtain state store where p: "p = (state, store)" by (cases p)
    define ho1 where "ho1 = (on_entry (ie_request_id entry) (\<lambda>e. e\<lparr>ie_migration_state := state\<rparr>) ho)\<lparr>ho_store := store\<rparr>"
    define ho2 where "ho2 = (if state \<noteq> None then ho1\<lparr>ho_state_exported := ho_state_exported ho1 + 1\<rparr> else ho1)"
    have lookup: "map_of (ho_requests ho2) k = (if k = ie_request_id entry
        then map_option (\<lambda>e. e\<lparr>ie_migration_state := state\<rparr>) (map_of (ho_requests ho) k) else map_of (ho_requests ho) k)"
      "map_of (ho_requests ho1) k = map_of (ho_requests ho2) k" for k
      by (simp_all add: ho1_def ho2_def map_of_on_entry)
    have same: "ho_aborted ho2 = ho_aborted ho" "ho_aborted ho1 = ho_aborted ho" "ho_abort_requested ho2 = ho_abort_requested ho"
      "ho_migratable ho2 = ho_migratable ho" "ho_unsupported ho2 = ho_unsupported ho" "ho_state_exported ho2 \<le> ho_state_exported ho + 1"
      by (simp_all add: ho1_def ho2_def)
    show ?thesis
    proof (cases "handover_allowed settings config state")
      case Inl': (Inl e)
      then have "r = Inl e" "ho' = ho1" using assms h Inr by (simp_all add: hand_over_entry_def p ho1_def)
      then show ?thesis using lookup same by (simp add: entry_done_def)
    next
      case allowed: (Inr u)
      have abort: "(case abort_entry env h entry ho2 of Inl e \<Rightarrow> (Inl e, ho2) | Inr ho \<Rightarrow> (Inr (), ho)) = (r, ho')"
        using assms h(2) unfolding hand_over_entry_def h(1) option.case(2) Inr p sum.case(2) prod.case Let_def
          ho1_def [symmetric] allowed ho2_def [symmetric] by simp
      show ?thesis
      proof (cases "abort_entry env h entry ho2")
        case Inl'': (Inl e)
        then show ?thesis using abort lookup same by (auto simp: entry_done_def)
      next
        case (Inr ho3)
        then have r: "r = Inr ()" "ho' = ho3" using abort by simp_all
        have "ho_aborted ho' = ho_aborted ho @ [ie_request_id entry] \<Longrightarrow> rc_require_native_kv_restore settings \<Longrightarrow>
            map_of (ho_requests ho) (ie_request_id entry) \<noteq> None \<Longrightarrow> restorable_entry config (map_of (ho_requests ho') (ie_request_id entry))"
          using abort_entry_step [OF Inr] handover_allowed_native [OF allowed, of "map_of (ho_requests ho) (ie_request_id entry)"] lookup same r(2)
          by (auto simp: map_of_on_entry)
        then show ?thesis
          using abort_entry_step [OF Inr] lookup same r by (auto simp: entry_done_def map_of_on_entry counted_def)
      qed
    qed
  qed
qed

lemma hand_over_entries_done:
  assumes "hand_over_entries settings env config entries ho = (r, ho')" and "rc_require_native_kv_restore settings"
    and "distinct (map ie_request_id entries)" and "\<forall>e \<in> set entries. map_of (ho_requests ho) (ie_request_id e) \<noteq> None"
    and "\<forall>k \<in> set (ho_aborted ho). restorable_entry config (map_of (ho_requests ho) k)"
    and "set (ho_aborted ho) \<inter> ie_request_id ` set entries = {}"
  shows "\<forall>k \<in> set (ho_aborted ho'). restorable_entry config (map_of (ho_requests ho') k)"
  using assms
proof (induction entries arbitrary: ho)
  case (Cons entry entries)
  obtain x ho1 where one: "hand_over_entry settings env config entry ho = (x, ho1)" by (cases "hand_over_entry settings env config entry ho")
  note d = hand_over_entry_done [OF one, unfolded entry_done_def]
  have keep: "map_of (ho_requests ho1) k = map_of (ho_requests ho) k" if "k \<noteq> ie_request_id entry" for k using d that by blast
  have ok: "\<forall>k \<in> set (ho_aborted ho1). restorable_entry config (map_of (ho_requests ho1) k)"
  proof
    fix k
    assume k: "k \<in> set (ho_aborted ho1)"
    show "restorable_entry config (map_of (ho_requests ho1) k)"
    proof (cases "k = ie_request_id entry")
      case True
      then have "k \<notin> set (ho_aborted ho)" using Cons.prems(6) by auto
      then have "ho_aborted ho1 \<noteq> ho_aborted ho" using k by auto
      then show ?thesis using d Cons.prems(2,4) True by auto
    next
      case False
      then have "k \<in> set (ho_aborted ho)" using d k by auto
      then show ?thesis using Cons.prems(5) keep [OF False] by simp
    qed
  qed
  show ?case
  proof (cases x)
    case (Inl e)
    then show ?thesis using ok one Cons.prems(1) by simp
  next
    case (Inr u)
    show ?thesis
    proof (rule Cons.IH)
      show "hand_over_entries settings env config entries ho1 = (r, ho')" using Cons.prems(1) one Inr by simp
      show "\<forall>e \<in> set entries. map_of (ho_requests ho1) (ie_request_id e) \<noteq> None"
      proof
        fix e
        assume e: "e \<in> set entries"
        then have "ie_request_id e \<noteq> ie_request_id entry" using Cons.prems(3) by (metis distinct.simps(2) image_eqI list.simps(9) set_map)
        then show "map_of (ho_requests ho1) (ie_request_id e) \<noteq> None" using keep Cons.prems(4) e by simp
      qed
      have "set (ho_aborted ho1) \<subseteq> insert (ie_request_id entry) (set (ho_aborted ho))" using d by auto
      moreover have "ie_request_id entry \<notin> ie_request_id ` set entries" using Cons.prems(3) by simp
      moreover have "set (ho_aborted ho) \<inter> ie_request_id ` set entries = {}" using Cons.prems(6) by simp
      ultimately show "set (ho_aborted ho1) \<inter> ie_request_id ` set entries = {}"
        by (metis Int_mono disjoint_insert(1) subset_empty subset_refl inf.commute)
    qed (use ok Cons.prems in auto)
  qed
qed simp

lemma hand_over_entries_counted:
  "hand_over_entries settings env config entries ho = (Inr (), ho') \<Longrightarrow> counted ho n \<Longrightarrow> counted ho' (n + length entries)"
proof (induction entries arbitrary: ho n)
  case (Cons entry entries)
  obtain x ho1 where one: "hand_over_entry settings env config entry ho = (x, ho1)" by (cases "hand_over_entry settings env config entry ho")
  then have x: "x = Inr ()" and rest: "hand_over_entries settings env config entries ho1 = (Inr (), ho')"
    using Cons.prems(1) by (auto split: sum.splits)
  have "counted ho1 (Suc n)" using hand_over_entry_done [OF one] x Cons.prems(2) unfolding entry_done_def by blast
  from Cons.IH [OF rest this] show ?case by simp
qed simp

text \<open>
  C31. A request is aborted on the old deployment only when its state is safe: where the native restore is
  required, every request that the hand-over aborted has a native snapshot, which can be restored on
  another node if the new deployment is on other GPUs; this holds even if the hand-over raises in the
  middle. A hand-over that does not raise has aborted or counted as unsupported each of the requests.
\<close>

theorem handover_exports_before_abort:
  assumes "prepare_reparallelization_requests settings env config old_instance_ids requests store = (r, ho)"
    and "inflight_ok requests" and "rc_require_native_kv_restore settings"
  shows "(\<forall>k \<in> set (ho_aborted ho). restorable_entry config (map_of (ho_requests ho) k))
    \<and> (r = Inr () \<longrightarrow> ho_abort_requested ho + ho_unsupported ho = length (old_entries old_instance_ids requests)
         \<and> length (ho_aborted ho) = ho_abort_requested ho)"
proof -
  let ?start = "\<lparr>ho_requests = requests, ho_store = store, ho_state_exported = 0, ho_abort_requested = 0, ho_migratable = 0,
        ho_unsupported = 0, ho_aborted = []\<rparr>"
  let ?old = "old_entries old_instance_ids requests"
  have run: "hand_over_entries settings env config ?old ?start = (r, ho)"
    using assms(1) by (simp add: prepare_reparallelization_requests_def)
  have ids: "map ie_request_id (map snd requests) = map fst requests"
    using assms(2) by (auto simp: inflight_ok_def)
  then have "distinct (map ie_request_id (map snd requests))" using assms(2) unfolding ids by (simp add: inflight_ok_def)
  then have "distinct (map ie_request_id ?old)" unfolding old_entries_def by (rule distinct_map_filter)
  moreover have "\<forall>e \<in> set ?old. map_of requests (ie_request_id e) \<noteq> None"
  proof
    fix e
    assume "e \<in> set ?old"
    then have "ie_request_id e \<in> set (map ie_request_id (map snd requests))" by (auto simp: old_entries_def)
    then show "map_of requests (ie_request_id e) \<noteq> None" unfolding ids by (simp add: map_of_eq_None_iff)
  qed
  ultimately have "\<forall>k \<in> set (ho_aborted ho). restorable_entry config (map_of (ho_requests ho) k)"
    by (intro hand_over_entries_done [OF run assms(3)]) simp_all
  moreover have "counted ho (length ?old)" if "r = Inr ()"
    using hand_over_entries_counted [OF run [unfolded that], of 0] by (simp add: counted_def)
  ultimately show ?thesis by (auto simp: counted_def)
qed

definition safe_release :: "bool \<Rightarrow> string list \<Rightarrow> rat list \<Rightarrow> rat \<Rightarrow> turn \<Rightarrow> bool" where
  "safe_release native request_ids source_deadlines deadline turn \<longleftrightarrow>
     tu_loop_time turn < deadline
     \<and> list_all (\<lambda>k. k \<notin> set (tu_inflight turn)) request_ids
     \<and> list_all (\<lambda>d. tu_wall_time turn < d) source_deadlines
     \<and> (native \<longrightarrow> list_all (\<lambda>k. dget (tu_native_receipts turn) k [] \<noteq> []) request_ids)"

lemma await_requests_released:
  "await_requests native request_ids source_deadlines deadline active turns = Some (Released receipts) \<Longrightarrow>
   list_ex (safe_release native request_ids source_deadlines deadline) turns"
proof (induction turns arbitrary: active)
  case (Cons turn turns)
  show ?case
  proof (cases "filter (\<lambda>k. k \<in> set (tu_inflight turn)) request_ids = []")
    case True
    have "tu_loop_time turn < deadline" "\<not> (source_deadlines \<noteq> [] \<and> Min (set source_deadlines) \<le> tu_wall_time turn)"
      "native \<longrightarrow> list_all (\<lambda>k. dget (tu_native_receipts turn) k [] \<noteq> []) request_ids"
      using Cons.prems True by (auto simp: Let_def split: if_splits)
    moreover from this have "list_all (\<lambda>d. tu_wall_time turn < d) source_deadlines"
      by (cases "source_deadlines = []") (auto simp: list_all_iff not_le)
    moreover have "list_all (\<lambda>k. k \<notin> set (tu_inflight turn)) request_ids" using True by (simp add: filter_empty_conv list_all_iff)
    ultimately show ?thesis by (simp add: safe_release_def)
  next
    case False
    then show ?thesis using Cons by (auto simp: Let_def split: if_splits)
  qed
qed simp

lemma await_requests_ends:
  "list_ex (\<lambda>turn. deadline \<le> tu_loop_time turn) turns \<Longrightarrow>
   await_requests native request_ids source_deadlines deadline active turns \<noteq> None"
  by (induction turns arbitrary: active) (auto simp: Let_def)

text \<open>
  C32. The old instances are let go only when nothing depends on them any more: at a turn of the loop
  before the deadline where none of the migrated requests is in flight, where the lease of no source
  has run out and, where the native restore is required, where there is a receipt for each of them.
  The loop does not wait for ever: a turn after the deadline ends it.
\<close>

theorem source_release_safe:
  assumes "migrated \<noteq> []"
  shows "(wait_for_reparallelization_requests native migrated instances timeout_s loop_time wall_time turns = Some (Released receipts) \<longrightarrow>
      list_ex (safe_release native migrated (List.map_filter ih_preemption_deadline_time_s instances)
        (release_deadline loop_time wall_time timeout_s (List.map_filter ih_preemption_deadline_time_s instances))) turns)
    \<and> (list_ex (\<lambda>turn. loop_time + max (1/10) timeout_s \<le> tu_loop_time turn) turns \<longrightarrow>
      wait_for_reparallelization_requests native migrated instances timeout_s loop_time wall_time turns \<noteq> None)"
proof -
  let ?ds = "List.map_filter ih_preemption_deadline_time_s instances"
  let ?deadline = "release_deadline loop_time wall_time timeout_s ?ds"
  have wait: "wait_for_reparallelization_requests native migrated instances timeout_s loop_time wall_time turns
      = await_requests native (remdups migrated) ?ds ?deadline (remdups migrated) turns"
    using assms by (simp add: wait_for_reparallelization_requests_def Let_def)
  have "safe_release native (remdups migrated) ?ds ?deadline = safe_release native migrated ?ds ?deadline"
    by (simp add: fun_eq_iff safe_release_def list_all_iff)
  moreover have "?deadline \<le> loop_time + max (1/10) timeout_s" by (simp add: release_deadline_def Let_def)
  then have "list_ex (\<lambda>turn. ?deadline \<le> tu_loop_time turn) turns"
    if "list_ex (\<lambda>turn. loop_time + max (1/10) timeout_s \<le> tu_loop_time turn) turns"
    using that by (auto simp: list_ex_iff intro: order_trans)
  ultimately show ?thesis using await_requests_released await_requests_ends unfolding wait by metis
qed


section \<open>Examples\<close>

text \<open>Two requests are in flight on the old instance; the second cannot be aborted.\<close>

definition ex_old :: instance_handle where
  "ex_old = (InstanceHandle ''old'' 2 1)\<lparr>ih_node_id := Some ''n'', ih_backend_instance := Some 0,
     ih_ready := True, ih_state := READY, ih_preemption_deadline_time_s := Some 100\<rparr>"

definition ex_handover_env :: handover_env where
  "ex_handover_env =
     \<lparr>hv_backends =
        \<lparr>bk_metadata = \<lparr>mv_context_metadata = (\<lambda>_. Inr PNone), mv_runtime_metadata = (\<lambda>_. Inr PNone),
                        mv_current_tokens = (\<lambda>_. Inr []), mv_resume_kv_cache = (\<lambda>_ _. Inr PNone)\<rparr>,
         bk_has_runtime_metadata = (\<lambda>_. True), bk_supports_state_restore = (\<lambda>_. Inr (PBool True)),
         bk_restore_inference_state = (\<lambda>_ _ _. Inr PNone),
         bk_export_inference_state = (\<lambda>_ _ _ _. Inr (PDict [(''tokens'', PList [PInt 1, PInt 2]),
           (''state_kind'', PStr ''vllm_kv_snapshot''), (''supports_restore'', PBool True)])),
         bk_load_lora_adapter = (\<lambda>_ _ _. Inr ()), bk_resume_generate = (\<lambda>_ _ _. Inr PNone),
         bk_generate = (\<lambda>_ _. Inr PNone), bk_encode = (\<lambda>_ _. Inr PNone)\<rparr>,
      hv_now = (\<lambda>_. 90), hv_export_takes = (\<lambda>_. 2),
      hv_abort_request = (\<lambda>_ k. if k = ''r1'' then Inr (PDict [(''aborted'', PBool True)]) else Inl AttributeError)\<rparr>"

definition ex_native :: recovery_settings where
  "ex_native =
     \<lparr>rc_recovery_policy = STATEFUL_RECOVERY, rc_require_native_kv_restore = True, rc_max_retries = 1,
      rc_enable_stateful_target_planner = False, rc_stateful_recovery_config = [], rc_backend = ''vllm'',
      rc_model_name = ''m'', rc_enable_lora = False, rc_loaded_lora_adapters = []\<rparr>"

definition ex_inflight :: inflight where
  "ex_inflight = snd (track_inflight_request ''r2'' [] ''generate'' ex_old
     (snd (track_inflight_request ''r1'' [] ''generate'' ex_old [])))"

definition ex_handover :: handover where
  "ex_handover = snd (prepare_reparallelization_requests ex_native ex_handover_env [] [''old''] ex_inflight \<lparr>sv_tokens = [], sv_states = []\<rparr>)"

theorem handover_exports_before_abort_witness:
  "ho_aborted ex_handover = [''r1''] \<and> restorable_entry [] (map_of (ho_requests ex_handover) ''r1'')"
proof -
  have "prepare_reparallelization_requests ex_native ex_handover_env [] [''old''] ex_inflight \<lparr>sv_tokens = [], sv_states = []\<rparr>
      = (fst (prepare_reparallelization_requests ex_native ex_handover_env [] [''old''] ex_inflight \<lparr>sv_tokens = [], sv_states = []\<rparr>), ex_handover)"
    by (simp add: ex_handover_def)
  moreover have "inflight_ok ex_inflight"
    unfolding ex_inflight_def by (intro inflight_ok_track) (simp add: inflight_ok_def)
  moreover have "rc_require_native_kv_restore ex_native" by (simp add: ex_native_def)
  moreover have "ho_aborted ex_handover = [''r1'']" by code_simp
  ultimately show ?thesis using handover_exports_before_abort by fastforce
qed

definition ex_turn :: "rat \<Rightarrow> string list \<Rightarrow> turn" where
  "ex_turn t requests = \<lparr>tu_loop_time = t, tu_wall_time = 50 + t, tu_inflight = requests, tu_native_receipts = [(''r1'', [(''type'', PStr ''r'')])]\<rparr>"

theorem source_release_safe_witness:
  "wait_for_reparallelization_requests True [''r1''] [ex_old] 30 0 50 [ex_turn 1 [''r1''], ex_turn 2 []] = Some (Released [])
   \<and> list_ex (safe_release True [''r1''] [100] 30) [ex_turn 1 [''r1''], ex_turn 2 []]"
proof -
  have run: "wait_for_reparallelization_requests True [''r1''] [ex_old] 30 0 50 [ex_turn 1 [''r1''], ex_turn 2 []] = Some (Released [])"
    by code_simp
  have "List.map_filter ih_preemption_deadline_time_s [ex_old] = [100]" "release_deadline 0 50 30 [100] = 30" by code_simp+
  with run source_release_safe [of "[''r1'']" True "[ex_old]" 30 0 50 "[ex_turn 1 [''r1''], ex_turn 2 []]" "[]"]
  show ?thesis by simp
qed

end
