(* ===== verification/Vllm_Adapter.thy ===== *)
theory Vllm_Adapter
  imports Gpu_Cluster Instance_Handle Py_Effects
begin

text \<open>
  The deployment boundary of \<open>src/sllm/spot/vllm_deployment_adapter.py\<close>: workers are created for a
  plan, probed, switched to, remapped or resized in place, drained and stopped.

  The handles of instances are shared objects, so the state has a store of handles and a deployment
  holds their ids. The calls that leave the process (to the scheduler, to Ray and to the actors) are
  recorded in order; what they answer is an argument. While a coroutine of the adapter is suspended
  other tasks may call methods of a handle that already serves; these calls are arguments too.
\<close>

section \<open>State\<close>

record deployment =
  dp_plan :: parallel_plan
  dp_instances :: "string list"
  dp_backend_config :: dict
  dp_resource_requirements :: "(string \<times> int) list"

record adapter =
  va_model_name :: string
  va_backend_config :: dict
  va_resource_requirements :: "(string \<times> int) list"
  va_last_request_migration :: pyval
  va_max_queue_length :: int
  va_drain_timeout_s :: rat

definition VllmDeploymentAdapter ::
  "string \<Rightarrow> dict \<Rightarrow> (string \<times> int) list \<Rightarrow> int \<Rightarrow> rat \<Rightarrow> adapter" where
  "VllmDeploymentAdapter model_name backend_config resource_requirements max_queue_length drain_timeout_s =
     \<lparr>va_model_name = model_name, va_backend_config = backend_config,
      va_resource_requirements = resource_requirements, va_last_request_migration = PNone,
      va_max_queue_length = max 1 max_queue_length, va_drain_timeout_s = max (1/10) drain_timeout_s\<rparr>"

text \<open>
  Calls that leave the process: a reservation the scheduler granted, an actor started with the GPUs
  it claims itself, its initialisation, its end, a reservation given back, a reservation resized, an
  expert placement applied, and an engine asked for a size: with the handle at that moment and
  whether the engine reported to have that size.
\<close>

datatype adapter_call =
    Reserve string "(string \<times> int) list"
  | Start string nat int
  | Init nat
  | Stop nat
  | Kill nat
  | Release string "(string \<times> int) list"
  | Resize string int
  | Remap nat
  | Scale nat int instance_handle bool

record world =
  w_handles :: "(string \<times> instance_handle) list"
  w_calls :: "adapter_call list"

definition handle_at :: "world \<Rightarrow> string \<Rightarrow> instance_handle" where
  "handle_at w i = dget (w_handles w) i (InstanceHandle i 0 0)"

definition set_handle :: "string \<Rightarrow> instance_handle \<Rightarrow> world \<Rightarrow> world" where
  "set_handle i h w = w\<lparr>w_handles := AList.update i h (w_handles w)\<rparr>"

definition record_call :: "adapter_call \<Rightarrow> world \<Rightarrow> world" where
  "record_call c w = w\<lparr>w_calls := w_calls w @ [c]\<rparr>"

section \<open>Configuration of a plan\<close>

text \<open>The entries for a plan that carries an expert placement.\<close>

definition placement_entries :: "parallel_plan \<Rightarrow> dict \<Rightarrow> dict" where
  "placement_entries plan placement =
     (let live = truthy (dget placement ''live_expert_remap'' (PBool False));
          required = truthy (dget placement ''expert_placement_physical_migration_required'' (PBool live));
          source = PStr (py_str (dget placement ''placement_source'' (PStr ''logical_reparallelization_planner'')));
          fingerprint = dgetn placement ''placement_fingerprint''
      in
      [(''expert_placement_plan'', PDict placement),
       (''expert_placement_execution_model'',
          PStr (if live then ''quiescent_fixed_ep_remap'' else ''expert_aware_actor_recreate'')),
       (''expert_placement_execution_model_reason'',
          PStr (if live then ''opt_in_weight_transfer_after_actor_load''
                else ''logical_expert_placement_plan_carried_into_recreated_actor'')),
       (''expert_placement_runtime_contract_mode'',
          PStr (if live then ''quiescent_fixed_ep_remap'' else ''observe_only_contract'')),
       (''expert_placement_live_migration_enabled'', PBool False),
       (''expert_placement_quiescent_remap_enabled'', PBool live),
       (''expert_placement_physical_migration_required'', PBool required),
       (''expert_placement_runtime_verification_level'', PStr ''unavailable''),
       (''expert_placement_runtime_verified_placement'', PBool False),
       (''expert_placement_runtime_can_verify_physical_placement'', PBool False),
       (''expert_placement_runtime_can_remap_live_ep_rank'', PBool False),
       (''expert_placement_runtime_can_measure_all_to_all'', PBool False),
       (''expert_placement_runtime_capability_reason'', PStr ''awaiting_runtime_expert_placement_hook''),
       (''placement_source'', source)] @
      (if truthy fingerprint
       then [(''expert_placement_fingerprint'', PStr (py_str fingerprint)),
             (''expert_placement_plan_fingerprint'', PStr (py_str fingerprint)),
             (''expert_placement_contract_fingerprint'', PStr (py_str fingerprint))]
       else []) @
      [(''expert_placement_contract_available'', PBool True),
       (''expert_placement_contract_source'', source),
       (''expert_placement_contract_epoch'', PInt (pp_placement_epoch plan)),
       (''expert_placement_plan_applied'', PBool False),
       (''expert_placement_plan_verified'', PBool False)] @
      (case dgetn placement ''expert_placement_snapshot'' of
         PDict s \<Rightarrow> [(''expert_placement_snapshot'', PDict s)]
       | _ \<Rightarrow> []))"

definition shape_entries :: "parallel_plan \<Rightarrow> dict" where
  "shape_entries plan =
     (let ep = PInt (effective_expert_parallel_size plan) in
      [(''tensor_parallel_size'', PInt (pp_tensor_parallel_size plan)),
       (''pipeline_parallel_size'', PInt (pp_pipeline_parallel_size plan)),
       (''data_parallel_size'', PInt (pp_data_parallel_size plan)),
       (''vllm_data_parallel_size'', PInt (pp_data_parallel_size plan)),
       (''replica_count'', PInt (pp_replica_count plan)),
       (''sllm_replica_count'', PInt (pp_replica_count plan))] @
      (if pp_batch_size plan > 0 then [(''max_num_seqs'', PInt (pp_batch_size plan))] else []) @
      [(''planned_effective_expert_parallel_size'', ep),
       (''planned_expert_parallel_size'', ep),
       (''expert_parallel_size_source'',
          PStr (if pp_enable_expert_parallel plan then ''derived_from_tp_dp'' else ''disabled'')),
       (''expert_parallel_size_verified'', PBool False),
       (''enable_expert_parallel'', PBool (pp_enable_expert_parallel plan)),
       (''placement_epoch'', PInt (pp_placement_epoch plan)),
       (''spotserve_target_worker_nodes'', PList (map PStr (pp_target_nodes plan))),
       (''reparallelization_execution_model'', PStr ''actor_recreate''),
       (''reparallelization_execution_model_reason'', PStr ''vllm_actor_recreate'')])"

definition plan_backend_config :: "adapter \<Rightarrow> parallel_plan \<Rightarrow> dict" where
  "plan_backend_config self plan =
     (let config = dmerge (va_backend_config self) (shape_entries plan) in
      case pp_expert_placement_plan plan of
        None \<Rightarrow> config
      | Some placement \<Rightarrow> if placement = [] then config else dmerge config (placement_entries plan placement))"

definition replica_gpu_count :: "parallel_plan \<Rightarrow> int res" where
  "replica_gpu_count plan =
     (let replica_gpus = pp_tensor_parallel_size plan * pp_pipeline_parallel_size plan * pp_data_parallel_size plan;
          expected = replica_gpus * max (pp_replica_count plan) 1
      in if replica_gpus \<le> 0 then Inl (ValueError ''parallel plan has no GPUs per replica'')
         else if pp_num_gpus plan < expected
         then Inl (ValueError (''parallel plan num_gpus is smaller than its replica shape: ''
                     @ int_str (pp_num_gpus plan) @ '' < '' @ int_str expected))
         else Inr replica_gpus)"

section \<open>Placement of an actor\<close>

text \<open>
  What Ray shows of the cluster: the resources of the living nodes, whether the fallback to Ray's
  node ids is enabled, and the workers of \<open>get_worker_nodes\<close>.
\<close>

record ray_view =
  rv_resources :: "dict list"
  rv_managed_fallback :: bool
  rv_workers :: "(string \<times> dict) list"

fun offers_resource :: "string \<Rightarrow> dict list \<Rightarrow> bool res" where
  "offers_resource key [] = Inr False"
| "offers_resource key (r # rs) =
     rbind (py_float (por (dget r key (PInt 0)) (PInt 0))) (\<lambda>x.
       if x > 0 then Inr True else offers_resource key rs)"

definition worker_placement_options :: "ray_view \<Rightarrow> string \<Rightarrow> dict res" where
  "worker_placement_options ray worker_id =
     (let key = ''worker_id_'' @ worker_id;
          strict = [(''resources'', PDict [(''worker_node'', PFloat (1/10)), (key, PFloat (1/10))])]
      in rbind (offers_resource key (rv_resources ray)) (\<lambda>offered.
         if offered \<or> \<not> rv_managed_fallback ray then Inr strict
         else (case map_of (rv_workers ray) worker_id of
                 None \<Rightarrow> Inl (ValueError (''unknown_managed_ray_worker:'' @ worker_id))
               | Some worker \<Rightarrow> rbind (dindex worker ''ray_node_id'') (\<lambda>node.
                   Inr [(''scheduling_strategy'', PStr (py_str node))]))))"

section \<open>Stopping\<close>

text \<open>
  An exception of \<open>stop\<close>, \<open>ray.kill\<close> or \<open>deallocate_resource\<close> is logged and the rest goes on, so
  these calls are made whatever they answer.
\<close>

definition stop_worker :: "(string \<times> int) list \<Rightarrow> string \<Rightarrow> world \<Rightarrow> world" where
  "stop_worker resource_requirements i w =
     (let h = mark_dead (handle_at w i);
          w1 = set_handle i h w;
          w2 = (case ih_backend_instance h of None \<Rightarrow> w1
                | Some actor \<Rightarrow> record_call (Kill actor) (record_call (Stop actor) w1))
      in record_call (Release i resource_requirements) w2)"

definition stop_workers :: "deployment option \<Rightarrow> world \<Rightarrow> world" where
  "stop_workers deployment w =
     (case deployment of None \<Rightarrow> w
      | Some d \<Rightarrow> fold (stop_worker (dp_resource_requirements d)) (dp_instances d) w)"

section \<open>Creating\<close>

record distributed_allocation =
  da_node_id :: string
  da_target_node_ids :: "string list"
  da_node_allocations :: "(string \<times> int) list"

text \<open>
  The answers while workers are created, by replica where there are several: the new ids, the
  scheduler's table of nodes (\<open>None\<close> when it has no such call), the node \<open>allocate_resource\<close> grants, the grant of
  \<open>allocate_distributed_resource\<close> if the scheduler has it (\<open>None\<close> inside: not a mapping), what Ray
  shows, the started actor and the end of its initialisation.
\<close>

record answers =
  an_instance_id :: "nat \<Rightarrow> string"
  an_worker_nodes :: "pyval res option"
  an_allocate :: "nat \<Rightarrow> string option \<Rightarrow> string res"
  an_allocate_distributed :: "(nat \<Rightarrow> distributed_allocation option res) option"
  an_ray :: ray_view
  an_start :: "nat \<Rightarrow> nat res"
  an_init :: "nat \<Rightarrow> unit res"

definition known_scheduler_node_ids :: "pyval res option \<Rightarrow> string list option" where
  "known_scheduler_node_ids worker_nodes =
     (case worker_nodes of Some (Inr (PDict nodes)) \<Rightarrow> Some (map fst nodes) | _ \<Rightarrow> None)"

definition target_node_of :: "string list \<Rightarrow> nat \<Rightarrow> string option" where
  "target_node_of target_nodes replica =
     (if target_nodes = [] then None else Some (target_nodes ! (replica mod length target_nodes)))"

definition check_target :: "string list option \<Rightarrow> string option \<Rightarrow> unit res" where
  "check_target known target =
     (case (known, target) of
        (Some nodes, Some n) \<Rightarrow>
          if n \<in> set nodes then Inr ()
          else Inl (RuntimeError (''target_worker_node_not_in_scheduler_snapshot: '' @ n))
      | _ \<Rightarrow> Inr ())"

text \<open>What a replica was granted: its startup node, its nodes and the GPUs on each.\<close>

definition reserve_replica ::
  "answers \<Rightarrow> bool \<Rightarrow> int \<Rightarrow> string option \<Rightarrow> nat \<Rightarrow> (string \<times> string list \<times> (string \<times> int) list) res" where
  "reserve_replica an distributed replica_gpus target replica =
     (if distributed
      then (case an_allocate_distributed an of
              None \<Rightarrow> Inl (RuntimeError ''scheduler_distributed_allocation_unavailable'')
            | Some allocate \<Rightarrow> rbind (allocate replica) (\<lambda>allocation.
                case allocation of
                  None \<Rightarrow> Inl (RuntimeError ''scheduler_distributed_allocation_result_invalid'')
                | Some a \<Rightarrow>
                    if da_node_id a = [] \<or> da_target_node_ids a = []
                    then Inl (RuntimeError ''scheduler_did_not_reserve_worker_nodes'')
                    else Inr (da_node_id a, da_target_node_ids a, da_node_allocations a)))
      else rbind (an_allocate an replica target) (\<lambda>node. Inr (node, [node], [(node, replica_gpus)])))"

definition reserved_entries :: "string list \<Rightarrow> (string \<times> int) list \<Rightarrow> dict" where
  "reserved_entries nodes allocations =
     [(''spotserve_reserved_worker_nodes'', PList (map PStr nodes)),
      (''spotserve_distributed_node_allocations'', of_counts allocations)]"

definition new_handle ::
  "adapter \<Rightarrow> string \<Rightarrow> int \<Rightarrow> string \<times> string list \<times> (string \<times> int) list \<Rightarrow> instance_handle" where
  "new_handle self i replica_gpus grant =
     (InstanceHandle i (va_max_queue_length self) replica_gpus)
       \<lparr>ih_node_id := Some (fst grant), ih_member_node_ids := fst (snd grant),
        ih_node_allocations := snd (snd grant)\<rparr>"

text \<open>The reservation is tracked in the deployment before the actor is started.\<close>

definition track_reservation ::
  "adapter \<Rightarrow> bool \<Rightarrow> int \<Rightarrow> string \<Rightarrow> string \<times> string list \<times> (string \<times> int) list
   \<Rightarrow> deployment \<times> world \<Rightarrow> deployment \<times> world" where
  "track_reservation self distributed replica_gpus i grant s =
     (let (d, w) = s;
          d1 = (if distributed \<and> pp_replica_count (dp_plan d) = 1
                then d\<lparr>dp_backend_config := dmerge (dp_backend_config d) (reserved_entries (fst (snd grant)) (snd (snd grant)))\<rparr>
                else d)
      in (d1\<lparr>dp_instances := (if i \<in> set (dp_instances d1) then dp_instances d1 else dp_instances d1 @ [i])\<rparr>,
          set_handle i (new_handle self i replica_gpus grant) (record_call (Reserve i (snd (snd grant))) w)))"

text \<open>The actor is started, kept in the handle and initialised; then the handle lets requests in.\<close>

definition actor_started :: "string \<Rightarrow> int \<Rightarrow> nat \<Rightarrow> deployment \<times> world \<Rightarrow> deployment \<times> world" where
  "actor_started i outer_actor_num_gpus actor s =
     (fst s, set_handle i ((handle_at (snd s) i)\<lparr>ih_backend_instance := Some actor\<rparr>)
       (record_call (Start i actor outer_actor_num_gpus) (snd s)))"

definition create_replica ::
  "adapter \<Rightarrow> answers \<Rightarrow> string list \<Rightarrow> bool \<Rightarrow> int \<Rightarrow> int \<Rightarrow> nat \<Rightarrow> (deployment \<times> world, unit) stmt" where
  "create_replica self an target_nodes distributed replica_gpus outer_actor_num_gpus replica =
     (let i = an_instance_id an replica; target = target_node_of target_nodes replica in
      sbind (lift (\<lambda>_. check_target (known_scheduler_node_ids (an_worker_nodes an)) target)) (\<lambda>_.
      sbind (lift (\<lambda>_. reserve_replica an distributed replica_gpus target replica)) (\<lambda>grant.
      sbind (change (track_reservation self distributed replica_gpus i grant)) (\<lambda>_.
      sbind (lift (\<lambda>_. worker_placement_options (an_ray an) (fst grant))) (\<lambda>_.
      sbind (lift (\<lambda>_. an_start an replica)) (\<lambda>actor.
      sbind (change (actor_started i outer_actor_num_gpus actor)) (\<lambda>_.
      sbind (change (\<lambda>s. (fst s, record_call (Init actor) (snd s)))) (\<lambda>_.
      sbind (lift (\<lambda>_. an_init an replica)) (\<lambda>_.
      change (\<lambda>s. (fst s, set_handle i (snd (mark_ready (Some (fst grant)) (handle_at (snd s) i))) (snd s))))))))))))"

definition worker_resources :: "adapter \<Rightarrow> int \<Rightarrow> (string \<times> int) list" where
  "worker_resources self replica_gpus =
     [(''num_cpus'', max 0 (dget (va_resource_requirements self) ''num_cpus'' 1)), (''num_gpus'', replica_gpus)]"

definition flag :: "dict \<Rightarrow> string \<Rightarrow> bool" where
  "flag config key = truthy (dget config key (PBool False))"

definition create_workers ::
  "adapter \<Rightarrow> answers \<Rightarrow> parallel_plan \<Rightarrow> world \<Rightarrow> deployment res \<times> world" where
  "create_workers self an plan w =
     (if pp_backend plan \<noteq> ''vllm''
      then (Inl (ValueError (''VllmDeploymentAdapter only supports backend='' @ repr_str ''vllm'' @ '', got ''
              @ repr_str (pp_backend plan))), w)
      else if pp_model_name plan \<noteq> va_model_name self
      then (Inl (ValueError (''plan model '' @ repr_str (pp_model_name plan) @ '' does not match ''
              @ repr_str (va_model_name self))), w)
      else (case replica_gpu_count plan of
        Inl e \<Rightarrow> (Inl e, w)
      | Inr replica_gpus \<Rightarrow>
          let config = plan_backend_config self plan;
              ray_dp = flag config ''spotserve_vllm_ray_dp_owns_gpus'';
              d = \<lparr>dp_plan = plan, dp_instances = [], dp_backend_config = config,
                   dp_resource_requirements = worker_resources self replica_gpus\<rparr>;
              target_nodes = pp_target_nodes plan;
              distributed = flag config ''spotserve_distributed_gpu_allocation'' \<and> ray_dp \<and> 1 < length target_nodes;
              replicas = each (create_replica self an target_nodes distributed replica_gpus
                                 (if ray_dp then 0 else replica_gpus))
                           [0..<nat (max (pp_replica_count plan) 1)];
              cleanup = change (\<lambda>(d, w). (d, stop_workers (Some d) w))
          in (case on_raise replicas cleanup (d, w) of
                (Inl e, (_, w')) \<Rightarrow> (Inl e, w')
              | (Inr _, (d', w')) \<Rightarrow> (Inr d', w'))))"

section \<open>Readiness and traffic switch\<close>

text \<open>
  \<open>deployment.plan != plan\<close> compares the fields of two dataclasses, and a dictionary whatever the
  order of its entries.
\<close>

definition same_placement :: "dict option \<Rightarrow> dict option \<Rightarrow> bool" where
  "same_placement p q =
     (case (p, q) of (None, None) \<Rightarrow> True | (Some a, Some b) \<Rightarrow> py_eq (PDict a) (PDict b) | _ \<Rightarrow> False)"

definition plan_eq :: "parallel_plan \<Rightarrow> parallel_plan \<Rightarrow> bool" where
  "plan_eq p q \<longleftrightarrow>
     p\<lparr>pp_expert_placement_plan := None\<rparr> = q\<lparr>pp_expert_placement_plan := None\<rparr>
     \<and> same_placement (pp_expert_placement_plan p) (pp_expert_placement_plan q)"

text \<open>The answer of \<open>get_runtime_metadata\<close> of every instance is an argument.\<close>

definition worker_ready :: "(string \<Rightarrow> pyval res) \<Rightarrow> world \<Rightarrow> string \<Rightarrow> bool" where
  "worker_ready metadata w i =
     (let h = handle_at w i in
      ih_ready h \<and> instance_state_value (ih_state h) = ''ready''
      \<and> (case metadata i of Inl _ \<Rightarrow> False | Inr m \<Rightarrow> is_mapping m))"

definition ready_workers ::
  "(string \<Rightarrow> pyval res) \<Rightarrow> deployment \<Rightarrow> parallel_plan \<Rightarrow> world \<Rightarrow> bool" where
  "ready_workers metadata d plan w =
     (if \<not> plan_eq (dp_plan d) plan \<or> dp_instances d = [] then False
      else list_all (worker_ready metadata w) (dp_instances d))"

definition switch_workers ::
  "(deployment \<Rightarrow> parallel_plan \<Rightarrow> 'a res) \<Rightarrow> deployment \<Rightarrow> parallel_plan \<Rightarrow> 'a res" where
  "switch_workers traffic_switcher d plan =
     (if \<not> plan_eq (dp_plan d) plan then Inl (ValueError ''deployment plan changed before traffic switch'')
      else traffic_switcher d plan)"

section \<open>Remapping experts in place\<close>

text \<open>What \<open>apply_expert_placement_plan\<close> of an instance answers; \<open>None\<close> when the actor has no such hook.\<close>

definition remap_worker :: "(string \<Rightarrow> pyval res option) \<Rightarrow> string \<Rightarrow> (world, unit) stmt" where
  "remap_worker apply_rpc i w =
     (case ih_backend_instance (handle_at w i) of
        None \<Rightarrow> (Inl (RuntimeError (''missing_backend_actor:'' @ i)), w)
      | Some actor \<Rightarrow>
          (case apply_rpc i of
             None \<Rightarrow> (Inl (RuntimeError (''runtime_apply_hook_unavailable:'' @ i)), w)
           | Some (Inl e) \<Rightarrow> (Inl e, w)
           | Some (Inr result) \<Rightarrow>
               if is_mapping result \<and> truthy (dgetn (dict_of result) ''success'')
               then (Inr (), record_call (Remap actor) w)
               else (Inl (RuntimeError (''in_place_expert_remap_failed:'' @ i @ '':'' @ py_str result)), w)))"

definition remap_workers_in_place ::
  "(string \<Rightarrow> pyval res option) \<Rightarrow> deployment \<Rightarrow> parallel_plan \<Rightarrow> (adapter \<times> world, deployment) stmt" where
  "remap_workers_in_place apply_rpc d plan s =
     (let (self, w) = s; placement = (case pp_expert_placement_plan plan of None \<Rightarrow> [] | Some p \<Rightarrow> p) in
      if placement = [] then (Inl (ValueError ''expert_placement_plan_required''), s)
      else (case each (remap_worker apply_rpc) (dp_instances d) w of
              (Inl e, w') \<Rightarrow> (Inl e, (self, w'))
            | (Inr _, w') \<Rightarrow>
                let config = dmerge (plan_backend_config self plan)
                      [(''reparallelization_execution_model'', PStr ''in_place_expert_remap''),
                       (''reparallelization_execution_model_reason'', PStr ''fixed_ep_runtime_expert_weight_remap''),
                       (''expert_placement_execution_model'',
                          PStr (if truthy (dgetn placement ''allow_active_requests'')
                                then ''active_fixed_ep_remap'' else ''quiescent_fixed_ep_remap'')),
                       (''expert_placement_execution_model_reason'', PStr ''runtime_apply_on_existing_actor'')]
                in (Inr (d\<lparr>dp_plan := plan, dp_backend_config := config\<rparr>),
                    (self\<lparr>va_backend_config := config\<rparr>, w'))))"

section \<open>Resizing the expert parallelism in place\<close>

text \<open>
  The answers of a resize. Every call and every pause of the drain loop comes with what other tasks
  do to the handle in the meantime: requests that end, notices, recoveries. \<open>rz_polls\<close> has one
  entry for every pause before the deadline. A call to the engine that raises may still leave the
  engine at the size it was asked for, when the backend could not roll it back;
  \<open>rz_scale_left\<close> and \<open>rz_restore_left\<close> say so.
\<close>

record resize_answers =
  rz_engine_hook :: bool
  rz_scheduler_hook :: bool
  rz_polls :: "handle_op list list"
  rz_grow :: "handle_op list \<times> unit res"
  rz_scale :: "handle_op list \<times> pyval res"
  rz_scale_left :: bool
  rz_rollback :: "handle_op list \<times> unit res"
  rz_shrink :: "handle_op list \<times> unit res"
  rz_restore :: "handle_op list \<times> pyval res"
  rz_restore_left :: bool

definition elastic_ep_refusal :: "adapter \<Rightarrow> resize_answers \<Rightarrow> deployment \<Rightarrow> parallel_plan \<Rightarrow> world \<Rightarrow> string option" where
  "elastic_ep_refusal self rz d plan w =
     (let source = dp_plan d; config = va_backend_config self in
      if length (dp_instances d) \<noteq> 1 \<or> pp_replica_count plan \<noteq> 1
      then Some ''elastic_ep_requires_single_sllm_replica''
      else if pp_tensor_parallel_size source \<noteq> 1 \<or> pp_tensor_parallel_size plan \<noteq> 1
            \<or> pp_pipeline_parallel_size source \<noteq> 1 \<or> pp_pipeline_parallel_size plan \<noteq> 1
      then Some ''elastic_ep_currently_requires_tp1_pp1''
      else if \<not> pp_enable_expert_parallel source \<or> \<not> pp_enable_expert_parallel plan
      then Some ''elastic_ep_requires_expert_parallel''
      else if pp_target_nodes source \<noteq> [] \<and> pp_target_nodes plan \<noteq> []
            \<and> sort (pp_target_nodes source) \<noteq> sort (pp_target_nodes plan)
      then Some ''elastic_ep_cannot_change_worker_node''
      else if \<not> flag config ''spotserve_elastic_ep_enabled'' then Some ''spotserve_elastic_ep_not_enabled''
      else if \<not> flag config ''spotserve_vllm_ray_dp_owns_gpus'' then Some ''vllm_ray_dp_gpu_ownership_not_enabled''
      else if dgetn config ''data_parallel_backend'' \<noteq> PStr ''ray'' then Some ''elastic_ep_requires_ray_dp_backend''
      else if ih_backend_instance (handle_at w (hd (dp_instances d))) = None
      then Some (''missing_backend_actor:'' @ hd (dp_instances d))
      else if \<not> rz_engine_hook rz then Some ''vllm_scale_elastic_ep_hook_unavailable''
      else if \<not> rz_scheduler_hook rz then Some ''scheduler_resource_resize_unavailable''
      else None)"

text \<open>
  The loop that waits for the active requests: whether it saw them ended, how many it saw last, and
  the handle. It does not look again after the last pause. The timeout is positive, so that it looks
  at least once.
\<close>

fun await_drained :: "handle_op list list \<Rightarrow> int \<Rightarrow> instance_handle \<Rightarrow> bool \<times> int \<times> instance_handle" where
  "await_drained [] active h = (False, active, h)"
| "await_drained (ops # polls) active h =
     (if ih_concurrency h \<le> 0 then (True, ih_concurrency h, h)
      else await_drained polls (ih_concurrency h) (apply_ops ops h))"

text \<open>Other tasks act on the handle while a call is under way.\<close>

definition others :: "string \<Rightarrow> handle_op list \<Rightarrow> world \<Rightarrow> world" where
  "others i ops w = set_handle i (apply_ops ops (handle_at w i)) w"

definition reopen :: "string \<Rightarrow> int option \<Rightarrow> (world, bool) stmt" where
  "reopen i num_gpu w =
     (Inr (fst (mark_ready_after_drain num_gpu (handle_at w i))),
      set_handle i (snd (mark_ready_after_drain num_gpu (handle_at w i))) w)"

definition drain_admission :: "resize_answers \<Rightarrow> string \<Rightarrow> (world, unit) stmt" where
  "drain_admission rz i w =
     (let (drained, active, h) = await_drained (rz_polls rz) 0 (mark_draining (handle_at w i));
          w1 = set_handle i h w
      in if drained then (Inr (), w1)
         else (Inl (RuntimeError (''elastic_ep_admission_drain_timeout:active_requests='' @ int_str active)),
               snd (reopen i None w1)))"

definition resize_reservation :: "string \<Rightarrow> int \<Rightarrow> handle_op list \<times> unit res \<Rightarrow> (world, unit) stmt" where
  "resize_reservation i gpus answer w =
     (case snd answer of
        Inl e \<Rightarrow> (Inl e, others i (fst answer) w)
      | Inr _ \<Rightarrow> (Inr (), others i (fst answer) (record_call (Resize i gpus) w)))"

definition engine_resized :: "pyval res \<Rightarrow> bool" where
  "engine_resized answer =
     (case answer of Inl _ \<Rightarrow> False
      | Inr v \<Rightarrow> is_mapping v \<and> (truthy (dgetn (dict_of v) ''resized'')
                                   \<or> dgetn (dict_of v) ''reason'' = PStr ''already_at_target_size''))"

text \<open>Whether the engine has the size it was asked for after the call, also when the call raised.\<close>

definition engine_took :: "pyval res \<Rightarrow> bool \<Rightarrow> bool" where
  "engine_took answer left = (if isl answer then left else engine_resized answer)"

definition ask_engine :: "string \<Rightarrow> nat \<Rightarrow> int \<Rightarrow> handle_op list \<times> pyval res \<Rightarrow> bool \<Rightarrow> (world, pyval) stmt" where
  "ask_engine i actor dp answer left w =
     (snd answer,
      others i (fst answer) (record_call (Scale actor dp (handle_at w i) (engine_took (snd answer) left)) w))"

subsection \<open>The engine's side\<close>

text \<open>
  What the backend does with the call. The engine and the check of its placement are outside the
  model: \<open>scaled\<close> is the engine's answer with the size it has then, \<open>verified\<close> that of the
  check, \<open>rolled_back\<close> that of the second call to the engine. Of the configuration the sizes are
  kept, of the answer what the adapter reads.
\<close>

datatype backend_status = UNINITIALIZED | RUNNING | STOPPING | DELETING

record vllm_engine =
  ve_status :: backend_status
  ve_elastic_ep_enabled :: bool
  ve_ray_dp_owns_gpus :: bool
  ve_scale_hook :: bool
  ve_config :: dict
  ve_size :: int

definition scale_elastic_ep ::
  "int \<Rightarrow> unit res \<times> int \<Rightarrow> bool res \<Rightarrow> unit res \<Rightarrow> vllm_engine \<Rightarrow> pyval res \<times> vllm_engine" where
  "scale_elastic_ep new_dp scaled verified rolled_back en =
     (if new_dp < 1 then (Inl (ValueError ''new_data_parallel_size must be positive''), en)
      else if ve_status en \<noteq> RUNNING then (Inl (RuntimeError ''vLLM engine is not running''), en)
      else if \<not> ve_elastic_ep_enabled en \<or> \<not> ve_ray_dp_owns_gpus en then (Inl (RuntimeError ''spotserve_elastic_ep_not_enabled''), en)
      else if \<not> ve_scale_hook en then (Inl (RuntimeError ''vllm_scale_elastic_ep_not_available''), en)
      else case py_int (por (dget (ve_config en) ''data_parallel_size'' (PInt 1)) (PInt 1)) of
        Inl e \<Rightarrow> (Inl e, en)
      | Inr current_dp \<Rightarrow>
          if current_dp = new_dp
          then (Inr (PDict [(''resized'', PBool False), (''data_parallel_size'', PInt new_dp),
                            (''reason'', PStr ''already_at_target_size'')]), en)
          else (case scaled of
                  (Inl e, size_left) \<Rightarrow> (Inl e, en\<lparr>ve_status := STOPPING, ve_size := size_left\<rparr>)
                | (Inr _, _) \<Rightarrow>
                    (case verified of
                       Inr True \<Rightarrow>
                         (Inr (PDict [(''resized'', PBool True), (''data_parallel_size'', PInt new_dp),
                                      (''reason'', PStr ''vllm_ray_dp_elastic_ep'')]),
                          en\<lparr>ve_size := new_dp,
                             ve_config := dmerge (ve_config en)
                               [(''data_parallel_size'', PInt new_dp), (''vllm_data_parallel_size'', PInt new_dp)]\<rparr>)
                     | failed \<Rightarrow>
                         (case rolled_back of
                            Inr _ \<Rightarrow>
                              (Inl (case failed of Inl e \<Rightarrow> e
                                    | Inr _ \<Rightarrow> RuntimeError ''elastic_ep_runtime_placement_verification_failed''),
                               en\<lparr>ve_size := current_dp\<rparr>)
                          | Inl _ \<Rightarrow>
                              (Inl (RuntimeError ''elastic_ep_resize_rollback_failed''),
                               en\<lparr>ve_status := STOPPING, ve_size := new_dp\<rparr>)))))"

text \<open>An answer that is not a mapping, or that says the engine was not resized, is an error.\<close>

definition scale_engine :: "string \<Rightarrow> nat \<Rightarrow> int \<Rightarrow> handle_op list \<times> pyval res \<Rightarrow> bool \<Rightarrow> (world, unit) stmt" where
  "scale_engine i actor dp answer left =
     sbind (ask_engine i actor dp answer left) (\<lambda>result. lift (\<lambda>_.
       if \<not> is_mapping result then Inl (RuntimeError (''elastic_ep_runtime_result_invalid:'' @ py_repr result))
       else if engine_resized (Inr result) then Inr ()
       else Inl (RuntimeError (''elastic_ep_runtime_resize_failed:'' @ py_str result))))"

text \<open>The reservation grows before the engine and shrinks after it.\<close>

definition resize_instance ::
  "resize_answers \<Rightarrow> string \<Rightarrow> nat \<Rightarrow> int \<Rightarrow> int \<Rightarrow> int \<Rightarrow> int \<Rightarrow> (world, unit) stmt" where
  "resize_instance rz i actor old_gpus new_gpus old_dp new_dp =
     (let pass = lift (\<lambda>_. Inr ());
          reopened = sbind (reopen i None) (\<lambda>_. pass)
      in
      sbind (drain_admission rz i) (\<lambda>_.
      sbind (if new_gpus > old_gpus
             then on_raise (resize_reservation i new_gpus (rz_grow rz)) reopened else pass) (\<lambda>_.
      sbind (on_raise (scale_engine i actor new_dp (rz_scale rz) (rz_scale_left rz))
               (if new_gpus > old_gpus
                then (\<lambda>w. (Inr (), snd (resize_reservation i old_gpus (rz_rollback rz) w)))
                else pass)) (\<lambda>_.
      sbind (if new_gpus < old_gpus
             then on_raise (resize_reservation i new_gpus (rz_shrink rz))
                    (sbind (ask_engine i actor old_dp (rz_restore rz) (rz_restore_left rz)) (\<lambda>_. reopened))
             else pass) (\<lambda>_.
      sbind (reopen i (Some new_gpus)) (\<lambda>opened. lift (\<lambda>w.
        if opened then Inr ()
        else Inl (RuntimeError (''elastic_ep_instance_state_changed_during_resize:state=''
                    @ instance_state_value (ih_state (handle_at w i)))))))))))"

definition elastic_config :: "adapter \<Rightarrow> parallel_plan \<Rightarrow> int \<Rightarrow> dict" where
  "elastic_config self plan drained =
     dmerge (plan_backend_config self plan)
       [(''reparallelization_execution_model'', PStr ''in_place_elastic_ep_resize''),
        (''reparallelization_execution_model_reason'', PStr ''vllm_ray_dp_elastic_ep''),
        (''expert_placement_execution_model'', PStr ''quiescent_elastic_ep_resize''),
        (''expert_placement_execution_model_reason'', PStr ''vllm_reinitialized_ep_process_group''),
        (''expert_placement_runtime_contract_mode'', PStr ''quiescent_elastic_ep_resize''),
        (''expert_placement_live_migration_enabled'', PBool False),
        (''expert_placement_quiescent_remap_enabled'', PBool True),
        (''elastic_ep_admission_drained'', PBool True),
        (''elastic_ep_drained_request_count'', PInt drained)]"

definition resize_workers_elastic_ep ::
  "resize_answers \<Rightarrow> deployment \<Rightarrow> parallel_plan \<Rightarrow> (adapter \<times> world, deployment) stmt" where
  "resize_workers_elastic_ep rz d plan s =
     (let (self, w) = s in
      case elastic_ep_refusal self rz d plan w of
        Some reason \<Rightarrow> (Inl (RuntimeError reason), s)
      | None \<Rightarrow>
          let i = hd (dp_instances d); h = handle_at w i; actor = the (ih_backend_instance h) in
          (case (replica_gpu_count (dp_plan d), replica_gpu_count plan) of
             (Inl e, _) \<Rightarrow> (Inl e, s)
           | (Inr _, Inl e) \<Rightarrow> (Inl e, s)
           | (Inr old_gpus, Inr new_gpus) \<Rightarrow>
               (case resize_instance rz i actor old_gpus new_gpus (pp_data_parallel_size (dp_plan d))
                       (pp_data_parallel_size plan) w of
                  (Inl e, w') \<Rightarrow> (Inl e, (self, w'))
                | (Inr _, w') \<Rightarrow>
                    let config = elastic_config self plan (max 0 (ih_concurrency h));
                        resources = AList.update ''num_gpus'' new_gpus (dp_resource_requirements d)
                    in (Inr \<lparr>dp_plan = plan, dp_instances = dp_instances d, dp_backend_config = config,
                             dp_resource_requirements = resources\<rparr>,
                        (self\<lparr>va_backend_config := config, va_resource_requirements := resources\<rparr>, w')))))"

section \<open>Draining\<close>

definition close_workers :: "deployment \<Rightarrow> world \<Rightarrow> world" where
  "close_workers d w = fold (\<lambda>i w. set_handle i (mark_draining (handle_at w i)) w) (dp_instances d) w"

text \<open>
  What other tasks do to a handle between two looks at the requests, one entry for every pause
  before the deadline; the drain ends with the requests or with the deadline, and never raises
  unless the migration of the requests does.
\<close>

fun await_idle :: "(string \<times> handle_op list) list list \<Rightarrow> deployment \<Rightarrow> world \<Rightarrow> bool \<times> world" where
  "await_idle [] d w = (False, w)"
| "await_idle (turn # turns) d w =
     (if list_all (\<lambda>i. ih_concurrency (handle_at w i) \<le> 0) (dp_instances d) then (True, w)
      else await_idle turns d (fold (\<lambda>(i, ops). others i ops) turn w))"

definition drain_workers ::
  "(deployment \<Rightarrow> (world, pyval) stmt) option \<Rightarrow> (string \<times> handle_op list) list list \<Rightarrow> deployment option
   \<Rightarrow> (adapter \<times> world, unit) stmt" where
  "drain_workers request_migrator turns deployment s =
     (case deployment of
        None \<Rightarrow> (Inr (), s)
      | Some d \<Rightarrow>
          let (self, w) = s; self1 = self\<lparr>va_last_request_migration := PNone\<rparr>; w1 = close_workers d w in
          (case request_migrator of
             None \<Rightarrow> (Inr (), (self1, snd (await_idle turns d w1)))
           | Some migrate \<Rightarrow>
               (case migrate d w1 of
                  (Inl e, w2) \<Rightarrow> (Inl e, (self1, w2))
                | (Inr summary, w2) \<Rightarrow>
                    (Inr (), (self1\<lparr>va_last_request_migration := summary\<rparr>, snd (await_idle turns d w2))))))"

text \<open>The source is kept until the waiter the router gave is satisfied; there may be none.\<close>

definition wait_for_migration_completion ::
  "(deployment \<Rightarrow> rat \<Rightarrow> (world, unit) stmt) option \<Rightarrow> deployment option \<Rightarrow> (adapter \<times> world, unit) stmt" where
  "wait_for_migration_completion waiter deployment s =
     (case (deployment, waiter) of
        (Some d, Some wait) \<Rightarrow>
          let (r, w') = wait d (va_drain_timeout_s (fst s)) (snd s) in (r, (fst s, w'))
      | _ \<Rightarrow> (Inr (), s))"

section \<open>The active deployment as a plan\<close>

definition size_entry :: "dict \<Rightarrow> string \<Rightarrow> int res" where
  "size_entry config key = rbind (py_int (por (dget config key (PInt 1)) (PInt 1))) (\<lambda>n. Inr (max 1 n))"

definition snapshot :: "adapter \<Rightarrow> string list \<Rightarrow> world \<Rightarrow> deployment res" where
  "snapshot self instances w =
     (let config = va_backend_config self in
      rbind (size_entry config ''tensor_parallel_size'') (\<lambda>tp.
      rbind (size_entry config ''data_parallel_size'') (\<lambda>dp.
      rbind (size_entry config ''pipeline_parallel_size'') (\<lambda>pp.
      rbind (py_int (por (dget config ''placement_epoch'' (PInt 0)) (PInt 0))) (\<lambda>epoch.
      Inr \<lparr>dp_plan = ParallelPlan_init (va_model_name self) ''vllm'' tp dp pp
             (Some (max 1 (int (length instances)))) (Some (flag config ''enable_expert_parallel''))
             (sum_list (map (\<lambda>i. ih_num_gpu (handle_at w i)) instances))
             (concat (map (\<lambda>i. worker_node_ids (handle_at w i)) instances))
             (max 0 epoch)
             (case dgetn config ''expert_placement_plan'' of PDict p \<Rightarrow> Some p | _ \<Rightarrow> None)
             ''active_deployment'' None None 0,
           dp_instances = instances, dp_backend_config = config,
           dp_resource_requirements = va_resource_requirements self\<rparr>)))))"


end
