(* ===== verification/Router_Replan.thy ===== *)
theory Router_Replan
  imports Reparallelization_Executor Reparallelization Router_Pools Vllm_Adapter Router_Migration
begin

text \<open>
  Replanning after a spot event, \<open>_replan_after_spot_event\<close> and its helpers in
  \<open>src/sllm/routers/roundrobin_router.py\<close>: the router collects what it knows of the worker nodes,
  applies the event, asks the planner for a plan and compares it with the active deployment; then it
  keeps the deployment, resizes or remaps it in place, or has it created again.

  The state has the fields of the router that these steps read and write. Replans are serialised by
  a lock, and what the scheduler, the actors and the executor answer is an argument. Time stamps, the
  hash of the planner's input, the metric and the report on the runtime's placement are left out.
\<close>

section \<open>State\<close>

record replanner =
  rp_enable_reparallelization :: bool
  rp_model_name :: string
  rp_backend :: string
  rp_config :: dict
  rp_backend_config :: dict
  rp_resource_requirements :: "(string \<times> int) list"
  rp_auto_scaling_config :: dict
  rp_adapter :: "adapter option"
  rp_worker_nodes :: nodes
  rp_arrivals :: "rat list"
  rp_latencies_ms :: "rat list"
  rp_workload_window_s :: rat
  rp_starting :: "string list"
  rp_ready :: "string list"
  rp_deleting :: "string list"
  rp_execution_active :: bool

text \<open>
  The answers: whether a scheduler is attached, its table of workers (\<open>None\<close> when it has no such
  call), the time, the metadata of every instance, the planner's placement and capability hooks, the
  dump of a placement as JSON, the answers of a resize and of a remap, and what the executor does.
\<close>

record replan_answers =
  ra_scheduler :: bool
  ra_scheduler_nodes :: "nodes res option"
  ra_now :: rat
  ra_metadata :: "string \<Rightarrow> pyval res"
  ra_status_metadata :: "string \<Rightarrow> pyval res"
  ra_place :: placement_planner
  ra_backend_plans :: "dict \<Rightarrow> parallel_plan list option"
  ra_json :: "dict \<Rightarrow> string"
  ra_resize :: resize_answers
  ra_remap :: "string \<Rightarrow> pyval res option"
  ra_apply :: "parallel_plan \<Rightarrow> (replanner \<times> world, deployment) stmt"

record replan_input =
  ri_event :: string
  ri_node_id :: "string option"
  ri_instance_id :: "string option"
  ri_matches :: "string list"
  ri_worker_node_updates :: nodes
  ri_spot_event_id :: "string option"

section \<open>Workload\<close>

definition record_request_start :: "rat \<Rightarrow> replanner \<Rightarrow> replanner" where
  "record_request_start timestamp rp =
     (if \<not> rp_enable_reparallelization rp then rp else rp\<lparr>rp_arrivals := rp_arrivals rp @ [timestamp]\<rparr>)"

definition record_request_latency :: "rat \<Rightarrow> replanner \<Rightarrow> replanner" where
  "record_request_latency latency_ms rp =
     (if \<not> rp_enable_reparallelization rp then rp
      else rp\<lparr>rp_latencies_ms := rp_latencies_ms rp @ [max 0 latency_ms]\<rparr>)"

definition arrivals_in_window :: "rat \<Rightarrow> rat \<Rightarrow> rat list \<Rightarrow> rat list" where
  "arrivals_in_window now window_s arrivals = dropWhile (\<lambda>a. now - a > window_s) arrivals"

definition arrival_rate :: "rat \<Rightarrow> rat list \<Rightarrow> rat" where
  "arrival_rate window_s arrivals =
     (if length arrivals \<ge> 2
      then of_nat (length arrivals - 1) / max (last arrivals - hd arrivals) (1 / 1000000)
      else if arrivals \<noteq> [] then 1 / window_s else 0)"

definition reparallelization_workload_snapshot :: "rat \<Rightarrow> replanner \<Rightarrow> (dict \<times> replanner) res" where
  "reparallelization_workload_snapshot now rp =
     (let window_s = max (rp_workload_window_s rp) 1;
          arrivals = arrivals_in_window now window_s (rp_arrivals rp);
          latencies = rp_latencies_ms rp
      in rbind (py_int (por (por (dgetn (rp_config rp) ''batch_size'') (dget (rp_backend_config rp) ''max_num_seqs'' (PInt 1)))
                  (PInt 1))) (\<lambda>batch_size.
         Inr ([(''window_s'', PFloat window_s),
               (''sample_count'', PInt (int (length arrivals))),
               (''latency_sample_count'', PInt (int (length latencies))),
               (''arrival_rate_req_s'', PFloat (arrival_rate window_s arrivals)),
               (''batch_size'', PInt batch_size)]
              @ (if latencies = [] then []
                 else [(''latency_estimate_ms'', PFloat (sum_list latencies / of_nat (length latencies)))]),
              rp\<lparr>rp_arrivals := arrivals\<rparr>)))"

definition planner_config_of :: "rat \<Rightarrow> replanner \<Rightarrow> (dict \<times> replanner) res" where
  "planner_config_of now rp =
     rbind (reparallelization_workload_snapshot now rp) (\<lambda>(workload, rp').
       Inr (AList.update ''runtime_workload'' (PDict workload) (rp_config rp), rp'))"

section \<open>Worker nodes\<close>

text \<open>Without a table of the scheduler or an earlier one, the nodes are those of the instances.\<close>

definition add_instance_node :: "instance_handle \<Rightarrow> nodes \<Rightarrow> nodes" where
  "add_instance_node h worker_nodes =
     (case ih_node_id h of
        None \<Rightarrow> worker_nodes
      | Some n \<Rightarrow>
          let node = dget worker_nodes n
                [(''ray_node_id'', PNone), (''address'', PStr n), (''free_gpu'', PInt 0), (''total_gpu'', PInt 0),
                 (''state'', PStr ''ready'')];
              node = AList.update ''total_gpu''
                (case dgetn node ''total_gpu'' of PInt g \<Rightarrow> PInt (g + ih_num_gpu h) | v \<Rightarrow> v) node;
              node = (if ih_state h = instance_state.PREEMPTING then AList.update ''state'' (PStr ''preempting'') node
                      else if ih_state h = instance_state.DEAD then AList.update ''state'' (PStr ''dead'') node
                      else if dgetn node ''state'' = PStr ''ready''
                      then AList.update ''state'' (PStr (instance_state_value (ih_state h))) node
                      else node)
          in AList.update n node worker_nodes)"

definition snapshot_worker_nodes :: "nodes res option \<Rightarrow> replanner \<Rightarrow> world \<Rightarrow> nodes" where
  "snapshot_worker_nodes scheduler_nodes rp w =
     (case scheduler_nodes of
        Some (Inr (n # ns)) \<Rightarrow> n # ns
      | _ \<Rightarrow>
          if rp_worker_nodes rp \<noteq> [] then rp_worker_nodes rp
          else fold (\<lambda>i. add_instance_node (handle_at w i)) (rp_starting rp @ rp_ready rp @ rp_deleting rp) [])"

text \<open>The nodes the planner sees: the updates of the event, then the event itself.\<close>

definition merge_update :: "string \<times> dict \<Rightarrow> nodes \<Rightarrow> nodes" where
  "merge_update u worker_nodes =
     AList.update (fst u) (dmerge (dget worker_nodes (fst u) []) (snd u)) worker_nodes"

definition recreate_on_preempting :: "string \<Rightarrow> nodes \<Rightarrow> nodes" where
  "recreate_on_preempting n worker_nodes =
     (case map_of worker_nodes n of
        None \<Rightarrow> worker_nodes
      | Some node \<Rightarrow>
          if dgetn node ''state'' \<noteq> PStr Gpu_Cluster.PREEMPTING then worker_nodes
          else AList.update n (dmerge node
                 [(''state'', PStr Gpu_Cluster.READY), (''preempting_target_recreate'', PBool True),
                  (''preempting_target_recreate_original_state'', PStr Gpu_Cluster.PREEMPTING)]) worker_nodes)"

definition replan_target_nodes :: "replan_input \<Rightarrow> world \<Rightarrow> string list" where
  "replan_target_nodes ri w =
     (case ri_node_id ri of Some n \<Rightarrow> [n]
      | None \<Rightarrow> py_unique (concat (map (\<lambda>i. worker_node_ids (handle_at w i)) (ri_matches ri))))"

definition replan_nodes :: "replan_input \<Rightarrow> string list \<Rightarrow> replanner \<Rightarrow> nodes \<Rightarrow> nodes" where
  "replan_nodes ri targets rp worker_nodes =
     (let updates = ri_worker_node_updates ri;
          apply_event = (\<lambda>n ns. apply_spot_event_to_worker_nodes ns (ri_event ri) (Some n) (dget updates n []));
          ns1 = fold merge_update updates worker_nodes;
          ns2 = fold apply_event targets ns1;
          ns3 = (if ri_event ri = ''preempt'' \<and> flag (rp_config rp) ''allow_preempting_target_recreate''
                    \<and> flag (rp_config rp) ''allow_stop_before_recreate''
                 then fold recreate_on_preempting targets ns2 else ns2)
      in (case ri_node_id ri of
            Some n \<Rightarrow> if ri_event ri = ''add'' \<and> targets = [] then apply_event n ns3 else ns3
          | None \<Rightarrow> ns3))"

section \<open>Runtime metadata\<close>

text \<open>The first instance with an actor whose metadata can be read, the matching ones first.\<close>

fun first_metadata :: "(string \<Rightarrow> pyval res) \<Rightarrow> world \<Rightarrow> string list \<Rightarrow> string set \<Rightarrow> dict" where
  "first_metadata metadata w [] seen = []"
| "first_metadata metadata w (i # ids) seen =
     (if ih_backend_instance (handle_at w i) = None \<or> i \<in> seen then first_metadata metadata w ids seen
      else (case metadata i of
              Inr (PDict (e # m)) \<Rightarrow> e # m
            | _ \<Rightarrow> first_metadata metadata w ids (insert i seen)))"

section \<open>Comparing plans\<close>

definition parallel_plan_placement_fingerprint :: "(dict \<Rightarrow> string) \<Rightarrow> parallel_plan \<Rightarrow> string" where
  "parallel_plan_placement_fingerprint json plan =
     (case pp_expert_placement_plan plan of
        None \<Rightarrow> ''''
      | Some placement \<Rightarrow>
          let fingerprint = str_or_empty placement ''placement_fingerprint'' in
          if fingerprint \<noteq> [] then fingerprint else ''unfingerprinted:'' @ json placement)"

definition parallel_shapes_match :: "parallel_plan \<Rightarrow> parallel_plan \<Rightarrow> bool" where
  "parallel_shapes_match left right \<longleftrightarrow>
     pp_model_name left = pp_model_name right \<and> pp_backend left = pp_backend right
     \<and> pp_tensor_parallel_size left = pp_tensor_parallel_size right
     \<and> pp_pipeline_parallel_size left = pp_pipeline_parallel_size right
     \<and> pp_data_parallel_size left = pp_data_parallel_size right
     \<and> pp_enable_expert_parallel left = pp_enable_expert_parallel right
     \<and> effective_expert_parallel_size left = effective_expert_parallel_size right
     \<and> pp_replica_count left = pp_replica_count right \<and> pp_num_gpus left = pp_num_gpus right
     \<and> sort (pp_target_nodes left) = sort (pp_target_nodes right)"

definition parallel_plans_match :: "(dict \<Rightarrow> string) \<Rightarrow> parallel_plan \<Rightarrow> parallel_plan \<Rightarrow> bool" where
  "parallel_plans_match json left right =
     (let l = parallel_plan_placement_fingerprint json left; r = parallel_plan_placement_fingerprint json right in
      if (l \<noteq> [] \<or> r \<noteq> []) \<and> l \<noteq> r then False else parallel_shapes_match left right)"

section \<open>Report on the execution\<close>

definition execution_model_fields :: "dict \<Rightarrow> dict" where
  "execution_model_fields decision =
     (let action = str_or_empty decision ''action'';
          plan = (case dgetn decision ''parallel_plan'' of PDict p \<Rightarrow> p | _ \<Rightarrow> []);
          expert_plan = por (dgetn decision ''expert_placement_plan'') (por (dgetn plan ''expert_placement_plan'') (PDict []));
          available = truthy (dget decision ''expert_placement_plan_available'' (PBool (is_mapping expert_plan \<and> truthy expert_plan)));
          live = (is_mapping expert_plan \<and> truthy (dget (dict_of expert_plan) ''live_expert_remap'' (PBool False)));
          required = (is_mapping expert_plan \<and>
            truthy (dget (dict_of expert_plan) ''expert_placement_physical_migration_required'' (PBool live)));
          executed = (action = ''reparallelize'');
          skipped = (if action = [] then ''unknown'' else action) @ ''_without_actor_recreate''
      in
      [(''reparallelization_execution_model'', PStr (if executed then ''actor_recreate'' else ''not_executed'')),
       (''reparallelization_execution_model_reason'', PStr (if executed then ''vllm_actor_recreate'' else skipped)),
       (''expert_placement_execution_model'',
          PStr (if executed \<and> available \<and> live then ''quiescent_fixed_ep_remap''
                else if executed \<and> available then ''expert_aware_actor_recreate''
                else if executed then ''no_expert_placement_plan'' else ''not_executed'')),
       (''expert_placement_execution_model_reason'',
          PStr (if executed \<and> available \<and> live then ''opt_in_weight_transfer_after_actor_load''
                else if executed \<and> available then ''logical_expert_placement_plan_carried_into_recreated_actor''
                else if executed then ''planner_did_not_emit_expert_placement_plan'' else skipped)),
       (''expert_placement_runtime_contract_mode'',
          PStr (if executed \<and> available \<and> live then ''quiescent_fixed_ep_remap''
                else if executed \<and> available then ''observe_only_contract'' else ''unavailable'')),
       (''expert_placement_live_migration_enabled'', PBool False),
       (''expert_placement_quiescent_remap_enabled'', PBool (executed \<and> live)),
       (''expert_placement_physical_migration_required'', PBool (executed \<and> required))])"

section \<open>The adapter and the active deployment\<close>

definition executor_of :: "dict \<Rightarrow> (parallel_plan, deployment) executor" where
  "executor_of config =
     (let stop_first = flag config ''allow_stop_before_recreate'' in
      \<lparr>current = None, stop_current_before_create = stop_first, migrate_before_create = flag config ''migrate_before_create'',
       transition_mode = Some (py_str (dget config ''transition_mode''
         (PStr (if stop_first then BREAK_BEFORE_MAKE else MAKE_BEFORE_BREAK)))),
       migration_requires_live_source = flag config ''migration_requires_live_source'',
       last_transition = None, calls = []\<rparr>)"

definition new_adapter :: "replanner \<Rightarrow> adapter res" where
  "new_adapter rp =
     rbind (py_int (por (dget (rp_auto_scaling_config rp) ''target'' (PInt 1)) (PInt 1))) (\<lambda>target.
     rbind (py_float (por (dget (rp_config rp) ''drain_timeout_s'' (PFloat 30)) (PFloat 30))) (\<lambda>timeout.
     Inr (VllmDeploymentAdapter (rp_model_name rp) (rp_backend_config rp) (rp_resource_requirements rp) (max 1 target) timeout)))"

text \<open>The adapter is kept before the settings of the executor are validated.\<close>

definition ensure_adapter :: "bool \<Rightarrow> (replanner \<times> world, bool) stmt" where
  "ensure_adapter scheduler s =
     (let (rp, w) = s in
      if rp_backend rp \<noteq> ''vllm'' \<or> \<not> rp_enable_reparallelization rp then (Inr False, s)
      else if rp_adapter rp \<noteq> None then (Inr True, s)
      else if \<not> scheduler then (Inr False, s)
      else (case new_adapter rp of
              Inl e \<Rightarrow> (Inl e, s)
            | Inr adapter \<Rightarrow>
                (rbind (resolved_transition_mode (executor_of (rp_config rp))) (\<lambda>_. Inr True),
                 (rp\<lparr>rp_adapter := Some adapter\<rparr>, w))))"

definition active_deployment :: "replanner \<Rightarrow> world \<Rightarrow> deployment option res" where
  "active_deployment rp w =
     (case rp_adapter rp of None \<Rightarrow> Inr None
      | Some adapter \<Rightarrow> rbind (snapshot adapter (rp_ready rp) w) (\<lambda>d. Inr (Some d)))"

definition switch_vllm_deployment ::
  "nodes res option \<Rightarrow> deployment \<Rightarrow> parallel_plan \<Rightarrow> (replanner \<times> world, unit) stmt" where
  "switch_vllm_deployment scheduler_nodes d plan s =
     (let (rp, w) = s in
      if \<not> plan_eq (dp_plan d) plan then (Inl (ValueError ''vLLM deployment plan mismatch during switch''), s)
      else (case (case scheduler_nodes of None \<Rightarrow> Inr ()
                  | Some answer \<Rightarrow> rbind answer (\<lambda>workers. target_workers_ready workers (map (handle_at w) (dp_instances d)))) of
              Inl e \<Rightarrow> (Inl e, s)
            | Inr _ \<Rightarrow>
                (Inr (), (rp\<lparr>rp_deleting := fold put_id (filter (\<lambda>i. i \<notin> set (dp_instances d)) (rp_ready rp)) (rp_deleting rp),
                   rp_ready := dp_instances d,
                   rp_auto_scaling_config := dmerge (rp_auto_scaling_config rp)
                     [(''min_instances'', PInt (pp_replica_count plan)), (''max_instances'', PInt (pp_replica_count plan))],
                   rp_backend_config := dp_backend_config d,
                   rp_resource_requirements := dp_resource_requirements d,
                   rp_adapter := map_option (\<lambda>a. a\<lparr>va_backend_config := dp_backend_config d,
                     va_resource_requirements := dp_resource_requirements d\<rparr>) (rp_adapter rp)\<rparr>, w))))"

section \<open>Which execution\<close>

definition all_ready :: "deployment \<Rightarrow> world \<Rightarrow> bool" where
  "all_ready d w \<longleftrightarrow> dp_instances d \<noteq> [] \<and> list_all (\<lambda>i. ih_state (handle_at w i) = instance_state.READY) (dp_instances d)"

definition elastic_ep_resize :: "dict \<Rightarrow> deployment option \<Rightarrow> parallel_plan option \<Rightarrow> world \<Rightarrow> bool" where
  "elastic_ep_resize config active selected w =
     (case (active, selected) of
        (Some d, Some plan) \<Rightarrow>
          length (dp_instances d) = 1 \<and> all_ready d w
          \<and> flag config ''spotserve_elastic_ep_enabled'' \<and> flag config ''spotserve_vllm_ray_dp_owns_gpus''
          \<and> dgetn config ''data_parallel_backend'' = PStr ''ray''
          \<and> pp_tensor_parallel_size (dp_plan d) = 1 \<and> pp_tensor_parallel_size plan = 1
          \<and> pp_pipeline_parallel_size (dp_plan d) = 1 \<and> pp_pipeline_parallel_size plan = 1
          \<and> pp_replica_count (dp_plan d) = 1 \<and> pp_replica_count plan = 1
          \<and> pp_enable_expert_parallel (dp_plan d) \<and> pp_enable_expert_parallel plan
          \<and> pp_data_parallel_size (dp_plan d) \<noteq> pp_data_parallel_size plan
          \<and> (pp_target_nodes (dp_plan d) = [] \<or> pp_target_nodes plan = []
             \<or> sort (pp_target_nodes (dp_plan d)) = sort (pp_target_nodes plan))
      | _ \<Rightarrow> False)"

definition live_in_place_remap ::
  "(dict \<Rightarrow> string) \<Rightarrow> deployment option \<Rightarrow> parallel_plan option \<Rightarrow> world \<Rightarrow> bool" where
  "live_in_place_remap json active selected w =
     (case (active, selected) of
        (Some d, Some plan) \<Rightarrow>
          all_ready d w \<and> parallel_shapes_match (dp_plan d) plan
          \<and> (case pp_expert_placement_plan plan of None \<Rightarrow> False
             | Some placement \<Rightarrow> truthy (dgetn placement ''live_expert_remap''))
          \<and> \<not> parallel_plans_match json (dp_plan d) plan
      | _ \<Rightarrow> False)"

definition keeps_deployment :: "(dict \<Rightarrow> string) \<Rightarrow> dict \<Rightarrow> deployment option \<Rightarrow> parallel_plan option \<Rightarrow> bool" where
  "keeps_deployment json decision active selected =
     (case (active, selected) of
        (Some d, Some plan) \<Rightarrow>
          dgetn decision ''action'' = PStr ''reparallelize'' \<and> parallel_plans_match json (dp_plan d) plan
      | _ \<Rightarrow> False)"

section \<open>Execution\<close>

definition on_adapter :: "(adapter \<times> world, 'a) stmt \<Rightarrow> (replanner \<times> world, 'a) stmt" where
  "on_adapter m s =
     (case rp_adapter (fst s) of
        None \<Rightarrow> (Inl AttributeError, s)
      | Some adapter \<Rightarrow>
          let (r, adapter', w') = m (adapter, snd s) in (r, ((fst s)\<lparr>rp_adapter := Some adapter'\<rparr>, w')))"

definition elastic_fields :: "deployment \<Rightarrow> parallel_plan \<Rightarrow> deployment \<Rightarrow> dict" where
  "elastic_fields active plan d =
     [(''reparallelization_execution_model'', PStr ''in_place_elastic_ep_resize''),
      (''reparallelization_execution_model_reason'', PStr ''vllm_ray_dp_elastic_ep''),
      (''expert_placement_execution_model'', PStr ''quiescent_elastic_ep_resize''),
      (''expert_placement_execution_model_reason'', PStr ''vllm_reinitialized_ep_process_group''),
      (''expert_placement_runtime_contract_mode'', PStr ''quiescent_elastic_ep_resize''),
      (''source_effective_expert_parallel_size'', PInt (effective_expert_parallel_size (dp_plan active))),
      (''target_effective_expert_parallel_size'', PInt (effective_expert_parallel_size plan)),
      (''dynamic_ep_resize'', PBool True),
      (''in_place_ep_resize'', PBool True),
      (''elastic_ep_admission_drained'', PBool (flag (dp_backend_config d) ''elastic_ep_admission_drained'')),
      (''elastic_ep_drained_request_count'', por (dget (dp_backend_config d) ''elastic_ep_drained_request_count'' (PInt 0)) (PInt 0))]"

definition remap_fields :: "parallel_plan \<Rightarrow> dict" where
  "remap_fields plan =
     [(''reparallelization_execution_model'', PStr ''in_place_expert_remap''),
      (''reparallelization_execution_model_reason'', PStr ''fixed_ep_runtime_expert_weight_remap''),
      (''expert_placement_execution_model'',
         PStr (case pp_expert_placement_plan plan of
                 None \<Rightarrow> ''quiescent_fixed_ep_remap''
               | Some p \<Rightarrow> if truthy (dgetn p ''allow_active_requests'') then ''active_fixed_ep_remap''
                           else ''quiescent_fixed_ep_remap'')),
      (''expert_placement_execution_model_reason'', PStr ''runtime_apply_on_existing_actor''),
      (''expert_placement_runtime_contract_mode'', PStr ''fixed_ep_runtime_remap'')]"

definition recreate_fields :: "deployment option \<Rightarrow> parallel_plan \<Rightarrow> dict" where
  "recreate_fields active plan =
     (case active of
        None \<Rightarrow> []
      | Some d \<Rightarrow>
          if effective_expert_parallel_size (dp_plan d) = effective_expert_parallel_size plan then []
          else [(''reparallelization_execution_model'', PStr ''actor_recreate_ep_resize''),
                (''reparallelization_execution_model_reason'', PStr ''ep_process_group_size_changed''),
                (''expert_placement_execution_model'', PStr ''expert_aware_actor_recreate_ep_resize''),
                (''expert_placement_execution_model_reason'', PStr ''vllm_ep_size_requires_engine_recreate''),
                (''expert_placement_runtime_contract_mode'', PStr ''actor_recreate_ep_resize''),
                (''source_effective_expert_parallel_size'', PInt (effective_expert_parallel_size (dp_plan d))),
                (''target_effective_expert_parallel_size'', PInt (effective_expert_parallel_size plan)),
                (''dynamic_ep_resize'', PBool True)])"

text \<open>One of the three executions: the deployment it leads to and the fields of its report.\<close>

definition execute_plan ::
  "replan_answers \<Rightarrow> dict \<Rightarrow> deployment option \<Rightarrow> parallel_plan \<Rightarrow> (replanner \<times> world, deployment \<times> dict) stmt" where
  "execute_plan ra config active plan s =
     (let w = snd s in
      case active of
        Some d \<Rightarrow>
          if elastic_ep_resize config active (Some plan) w
          then sbind (on_adapter (resize_workers_elastic_ep (ra_resize ra) d plan)) (\<lambda>d'.
               sbind (switch_vllm_deployment (ra_scheduler_nodes ra) d' plan) (\<lambda>_.
               lift (\<lambda>_. Inr (d', elastic_fields d plan d')))) s
          else if live_in_place_remap (ra_json ra) active (Some plan) w
          then sbind (on_adapter (remap_workers_in_place (ra_remap ra) d plan)) (\<lambda>d'.
               sbind (switch_vllm_deployment (ra_scheduler_nodes ra) d' plan) (\<lambda>_.
               lift (\<lambda>_. Inr (d', remap_fields plan)))) s
          else sbind (ra_apply ra plan) (\<lambda>d'. lift (\<lambda>_. Inr (d', recreate_fields active plan))) s
      | None \<Rightarrow> sbind (ra_apply ra plan) (\<lambda>d'. lift (\<lambda>_. Inr (d', []))) s)"

subsection \<open>What the backends say of their experts\<close>

text \<open>
  The report of an execution collects fields of the runtime metadata of the new instances. A field
  that should be a number and is none makes this step raise.
\<close>

datatype status_kind = Count_Truthy | Compact_Values | Sum_Int | Max_Float

definition status_fields :: "(string \<times> status_kind \<times> string) list" where
  "status_fields =
     [(''apply_hook_available_count'', Count_Truthy, ''expert_placement_apply_hook_available''),
      (''apply_attempted_count'', Count_Truthy, ''expert_placement_apply_attempted''),
      (''apply_success_count'', Count_Truthy, ''expert_placement_apply_success''),
      (''apply_reasons'', Compact_Values, ''expert_placement_apply_reason''),
      (''verify_hook_available_count'', Count_Truthy, ''expert_placement_verify_hook_available''),
      (''verify_attempted_count'', Count_Truthy, ''expert_placement_verify_attempted''),
      (''verify_success_count'', Count_Truthy, ''expert_placement_verify_success''),
      (''verify_reasons'', Compact_Values, ''expert_placement_verify_reason''),
      (''contract_seen_count'', Count_Truthy, ''expert_placement_contract_seen_by_runtime''),
      (''contract_seen_all_workers_count'', Count_Truthy, ''expert_placement_contract_seen_by_all_workers''),
      (''contract_seen_worker_count'', Sum_Int, ''expert_placement_contract_seen_worker_count''),
      (''contract_seen_worker_total'', Sum_Int, ''expert_placement_contract_seen_worker_total''),
      (''physical_weight_migration_count'', Count_Truthy, ''expert_placement_physical_weight_migration''),
      (''runtime_moved_expert_shards'', Sum_Int, ''expert_placement_runtime_moved_expert_shards''),
      (''runtime_moved_weight_bytes'', Sum_Int, ''expert_placement_runtime_moved_weight_bytes''),
      (''runtime_remap_duration_ms'', Max_Float, ''expert_placement_runtime_remap_duration_ms''),
      (''active_request_remap_count'', Count_Truthy, ''expert_placement_runtime_active_request_remap''),
      (''step_boundary_barrier_count'', Count_Truthy, ''expert_placement_runtime_step_boundary_barrier''),
      (''physical_host_ids_observed_count'', Count_Truthy, ''expert_placement_runtime_physical_host_ids_observed''),
      (''cross_node_weight_migration_count'', Count_Truthy, ''expert_placement_runtime_cross_node_weight_migration''),
      (''cross_node_moved_expert_shards'', Sum_Int, ''expert_placement_runtime_cross_node_moved_expert_shards''),
      (''cross_node_moved_weight_bytes'', Sum_Int, ''expert_placement_runtime_cross_node_moved_weight_bytes''),
      (''verification_levels'', Compact_Values, ''expert_placement_runtime_verification_level''),
      (''verified_placement_count'', Count_Truthy, ''expert_placement_runtime_verified_placement''),
      (''can_verify_physical_placement_count'', Count_Truthy, ''expert_placement_runtime_can_verify_physical_placement''),
      (''can_remap_live_ep_rank_count'', Count_Truthy, ''expert_placement_runtime_can_remap_live_ep_rank''),
      (''can_measure_all_to_all_count'', Count_Truthy, ''expert_placement_runtime_can_measure_all_to_all''),
      (''all_to_all_counters_available_count'', Count_Truthy, ''expert_placement_runtime_all_to_all_counters_available''),
      (''all_to_all_collective_calls'', Sum_Int, ''expert_placement_runtime_all_to_all_collective_calls''),
      (''all_to_all_dispatch_calls'', Sum_Int, ''expert_placement_runtime_all_to_all_dispatch_calls''),
      (''all_to_all_combine_calls'', Sum_Int, ''expert_placement_runtime_all_to_all_combine_calls''),
      (''all_to_all_observed_input_bytes'', Sum_Int, ''expert_placement_runtime_all_to_all_observed_input_bytes''),
      (''all_to_all_observed_output_bytes'', Sum_Int, ''expert_placement_runtime_all_to_all_observed_output_bytes''),
      (''all_to_all_internode_calls'', Sum_Int, ''expert_placement_runtime_all_to_all_internode_calls''),
      (''all_to_all_measurement_kinds'', Compact_Values, ''expert_placement_runtime_all_to_all_measurement_kind''),
      (''runtime_expert_placement_available_count'', Count_Truthy, ''runtime_expert_placement_available''),
      (''runtime_expert_placement_worker_count'', Sum_Int, ''runtime_expert_placement_worker_count''),
      (''runtime_expert_placement_shard_count'', Sum_Int, ''runtime_expert_placement_shard_count''),
      (''capability_reasons'', Compact_Values, ''expert_placement_runtime_capability_reason''),
      (''plan_applied_count'', Count_Truthy, ''expert_placement_plan_applied''),
      (''plan_verified_count'', Count_Truthy, ''expert_placement_plan_verified''),
      (''contract_reasons'', Compact_Values, ''expert_placement_contract_reason''),
      (''reparallelization_execution_models'', Compact_Values, ''reparallelization_execution_model''),
      (''expert_placement_execution_models'', Compact_Values, ''expert_placement_execution_model''),
      (''expert_placement_execution_reasons'', Compact_Values, ''expert_placement_execution_model_reason''),
      (''expert_placement_contract_modes'', Compact_Values, ''expert_placement_runtime_contract_mode''),
      (''expert_placement_live_migration_count'', Count_Truthy, ''expert_placement_live_migration_enabled''),
      (''expert_placement_quiescent_remap_count'', Count_Truthy, ''expert_placement_quiescent_remap_enabled''),
      (''expert_placement_physical_migration_required_count'', Count_Truthy, ''expert_placement_physical_migration_required'')]"

fun status_value :: "dict list \<Rightarrow> status_kind \<Rightarrow> string \<Rightarrow> pyval res" where
  "status_value rows Count_Truthy key = Inr (PInt (int (length (filter (\<lambda>row. truthy (dgetn row key)) rows))))"
| "status_value rows Compact_Values key =
     Inr (PStr (py_join '','' (sorted_set (map (\<lambda>row. py_str (dgetn row key))
       (filter (\<lambda>row. dgetn row key \<noteq> PNone \<and> dgetn row key \<noteq> PStr []) rows)))))"
| "status_value rows Sum_Int key = rbind (rmap (\<lambda>row. int_or_zero row key) rows) (\<lambda>ns. Inr (PInt (sum_list ns)))"
| "status_value rows Max_Float key =
     rbind (rmap (\<lambda>row. float_or_zero row key) rows) (\<lambda>xs. Inr (PFloat (if xs = [] then 0 else Max (set xs))))"

fun metadata_rows :: "(string \<Rightarrow> pyval res) \<Rightarrow> world \<Rightarrow> string list \<Rightarrow> dict list res" where
  "metadata_rows metadata w [] = Inr []"
| "metadata_rows metadata w (i # ids) =
     rbind (if ih_backend_instance (handle_at w i) = None then Inr PNone else except_any (metadata i) (Inr PNone)) (\<lambda>answer.
     rbind (metadata_rows metadata w ids) (\<lambda>rows.
     Inr (if select_target_metadata answer = [] then rows else select_target_metadata answer # rows)))"

definition deployment_expert_placement_runtime_status ::
  "replan_answers \<Rightarrow> deployment \<Rightarrow> world \<Rightarrow> dict res" where
  "deployment_expert_placement_runtime_status ra d w =
     rbind (metadata_rows (ra_status_metadata ra) w (dp_instances d)) (\<lambda>rows.
     rbind (rmap (\<lambda>(name, kind, key). rbind (status_value rows kind key) (\<lambda>v. Inr (name, v))) status_fields) (\<lambda>fields.
     Inr ((''metadata_count'', PInt (int (length rows))) # fields)))"

definition failed_execution :: "dict \<Rightarrow> pyexc \<Rightarrow> dict" where
  "failed_execution model e =
     [(''status'', PStr ''failed'')] @ model @
     [(''reason'', PStr (exc_text e))]"

text \<open>\<open>try ... except Exception ... finally\<close>: a failure becomes a report.\<close>

definition run_execution ::
  "replan_answers \<Rightarrow> dict \<Rightarrow> deployment option \<Rightarrow> parallel_plan \<Rightarrow> (replanner \<times> world, dict) stmt" where
  "run_execution ra decision active plan s =
     (let model = execution_model_fields decision;
          started = ((fst s)\<lparr>rp_execution_active := True\<rparr>, snd s);
          (r, (rp', w')) =
            sbind (execute_plan ra (rp_backend_config (fst s)) active plan) (\<lambda>(d', changed).
            sbind (lift (\<lambda>(_, w). deployment_expert_placement_runtime_status ra d' w)) (\<lambda>runtime.
            lift (\<lambda>_. Inr (d', changed, runtime)))) started;
          ended = (rp'\<lparr>rp_execution_active := False\<rparr>, w')
      in (case r of
            Inr (d', changed, runtime) \<Rightarrow>
              (Inr ([(''status'', PStr ''applied'')] @ dmerge model changed @
                 [(''instance_ids'', PList (map PStr (sort (dp_instances d')))),
                  (''parallel_plan'', PDict (ParallelPlan_to_dict plan)),
                  (''expert_placement_runtime'', PDict runtime)]), ended)
          | Inl e \<Rightarrow> if e = OutOfModel then (Inl e, ended) else (Inr (failed_execution model e), ended)))"

definition decision_only :: dict where
  "decision_only =
     [(''status'', PStr ''decision_only''),
      (''reparallelization_execution_model'', PStr ''not_executed''),
      (''reparallelization_execution_model_reason'', PStr ''vllm_deployment_adapter_unavailable''),
      (''expert_placement_execution_model'', PStr ''not_executed''),
      (''expert_placement_execution_model_reason'', PStr ''vllm_deployment_adapter_unavailable''),
      (''expert_placement_runtime_contract_mode'', PStr ''unavailable''),
      (''expert_placement_live_migration_enabled'', PBool False),
      (''expert_placement_physical_migration_required'', PBool False),
      (''reason'', PStr ''vllm_deployment_adapter_unavailable'')]"

text \<open>What follows the planner's decision.\<close>

definition carry_out :: "replan_answers \<Rightarrow> dict \<Rightarrow> (replanner \<times> world, dict) stmt" where
  "carry_out ra decision =
     (let decision = dmerge decision (execution_model_fields decision);
          selected_plan = dgetn decision ''parallel_plan''
      in
      sbind (lift (\<lambda>s. Inr (fst s))) (\<lambda>rp.
      sbind (if selected_plan \<noteq> PNone \<and> rp_backend rp = ''vllm'' then ensure_adapter (ra_scheduler ra)
             else lift (\<lambda>_. Inr False)) (\<lambda>available.
      sbind (lift (\<lambda>s. if available then active_deployment (fst s) (snd s) else Inr None)) (\<lambda>active.
      sbind (lift (\<lambda>_. if selected_plan = PNone then Inr None
                        else rbind (ParallelPlan_from_dict selected_plan) (\<lambda>p. Inr (Some p)))) (\<lambda>selected.
      if keeps_deployment (ra_json ra) decision active selected
      then lift (\<lambda>_.
        let decision = AList.update ''action'' (PStr ''unchanged'') decision;
            model = execution_model_fields decision
        in Inr (AList.update ''execution''
             (PDict ([(''status'', PStr ''unchanged'')] @ model @
                [(''parallel_plan'', selected_plan), (''reason'', PStr ''planner_selected_existing_plan'')]))
             (dmerge decision model)))
      else if dgetn decision ''action'' \<noteq> PStr ''reparallelize'' then lift (\<lambda>_. Inr decision)
      else sbind (if available then lift (\<lambda>_. Inr True) else ensure_adapter (ra_scheduler ra)) (\<lambda>usable.
        if \<not> usable then lift (\<lambda>_. Inr (AList.update ''execution'' (PDict decision_only) decision))
        else sbind (lift (\<lambda>_. case selected of Some p \<Rightarrow> Inr p | None \<Rightarrow> ParallelPlan_from_dict selected_plan)) (\<lambda>plan.
             sbind (run_execution ra decision active plan) (\<lambda>execution.
             lift (\<lambda>_. Inr (AList.update ''execution'' (PDict execution) decision))))))))))"

definition model_config_of :: "replanner \<Rightarrow> dict \<Rightarrow> dict" where
  "model_config_of rp runtime_metadata =
     (let backend_config = (if runtime_metadata = [] then rp_backend_config rp
            else AList.update ''runtime_metadata'' (PDict runtime_metadata) (rp_backend_config rp))
      in [(''model'', PStr (rp_model_name rp)), (''backend'', PStr (rp_backend rp)),
          (''num_gpus'', PInt (dget (rp_resource_requirements rp) ''num_gpus'' 1)),
          (''backend_config'', PDict backend_config), (''runtime_metadata'', PDict runtime_metadata)]
         @ (case dgetn backend_config ''spotserve_backend_capability'' of
              PDict c \<Rightarrow> [(''backend_capability'', PDict c)] | _ \<Rightarrow> []))"

text \<open>The planner's input: the nodes are kept in the router, and arrivals out of the window dropped.\<close>

definition ask_planner :: "replan_answers \<Rightarrow> replan_input \<Rightarrow> (replanner \<times> world, dict) stmt" where
  "ask_planner ra ri s =
     (let (rp, w) = s;
          targets = replan_target_nodes ri w;
          worker_nodes = replan_nodes ri targets rp (snapshot_worker_nodes (ra_scheduler_nodes ra) rp w);
          rp1 = rp\<lparr>rp_worker_nodes := worker_nodes\<rparr>;
          metadata = first_metadata (ra_metadata ra) w (ri_matches ri @ rp_ready rp @ rp_starting rp) {}
      in (case planner_config_of (ra_now ra) rp1 of
            Inl e \<Rightarrow> (Inl e, (rp1, w))
          | Inr (config, rp2) \<Rightarrow>
              (rbind (plan_dynamic_reparallelization (ra_place ra) (ra_backend_plans ra) (rp_model_name rp) worker_nodes
                 (model_config_of rp2 metadata) (AList.update ''hotness_snapshot_time_s'' (PFloat (ra_now ra)) config)
                 (Some (ri_event ri)) (ri_node_id ri) (ri_instance_id ri) (Some (rp_backend rp)))
                 (\<lambda>d. Inr (dmerge (reparallel_decision_dict d)
                    [(''spot_event_id'', of_opt_str (ri_spot_event_id ri)),
                     (''preemption_event_id'', if ri_event ri = ''preempt'' then of_opt_str (ri_spot_event_id ri) else PNone)])),
               (rp2, w))))"

definition replan_after_spot_event ::
  "replan_answers \<Rightarrow> replan_input \<Rightarrow> (replanner \<times> world, dict option) stmt" where
  "replan_after_spot_event ra ri s =
     (if \<not> rp_enable_reparallelization (fst s) then (Inr None, s)
      else sbind (ask_planner ra ri) (\<lambda>decision.
           sbind (carry_out ra decision) (\<lambda>decision. lift (\<lambda>_. Inr (Some decision)))) s)"

end
