(* ===== verification/Vllm_Adapter_Props.thy ===== *)
theory Vllm_Adapter_Props
  imports Vllm_Adapter
begin

text \<open>
  Workers are created all or none; a resize in place never lets the engine use more GPUs than the
  scheduler has reserved and asks the engine only while no request runs.
\<close>

section \<open>The store of handles and the record of calls\<close>

lemma handle_at_set [simp]: "handle_at (set_handle i h w) j = (if j = i then h else handle_at w j)"
  by (simp add: handle_at_def set_handle_def dget_def)

lemma handle_at_record [simp]: "handle_at (record_call c w) = handle_at w"
  by (simp add: handle_at_def record_call_def fun_eq_iff)

lemma calls_set [simp]: "w_calls (set_handle i h w) = w_calls w"
  by (simp add: set_handle_def)

lemma calls_record [simp]: "w_calls (record_call c w) = w_calls w @ [c]"
  by (simp add: record_call_def)

lemma handle_at_others [simp]:
  "handle_at (others i ops w) j = (if j = i then apply_ops ops (handle_at w i) else handle_at w j)"
  by (simp add: others_def)

lemma calls_others [simp]: "w_calls (others i ops w) = w_calls w"
  by (simp add: others_def)

section \<open>What the calls leave behind\<close>

text \<open>The reservations held and the actors running after a sequence of calls.\<close>

definition hold :: "adapter_call \<Rightarrow> string set \<Rightarrow> string set" where
  "hold c S = (case c of Reserve i _ \<Rightarrow> insert i S | Release i _ \<Rightarrow> S - {i} | _ \<Rightarrow> S)"

definition run :: "adapter_call \<Rightarrow> nat set \<Rightarrow> nat set" where
  "run c S = (case c of Start _ a _ \<Rightarrow> insert a S | Kill a \<Rightarrow> S - {a} | _ \<Rightarrow> S)"

definition held :: "adapter_call list \<Rightarrow> string set" where
  "held calls = fold hold calls {}"

definition running :: "adapter_call list \<Rightarrow> nat set" where
  "running calls = fold run calls {}"

lemma held_append [simp]: "held (calls @ new) = fold hold new (held calls)"
  by (simp add: held_def)

lemma running_append [simp]: "running (calls @ new) = fold run new (running calls)"
  by (simp add: running_def)

lemmas call_effects = hold_def run_def

definition actors_of :: "string list \<Rightarrow> world \<Rightarrow> nat set" where
  "actors_of ids w = {a. \<exists>i \<in> set ids. ih_backend_instance (handle_at w i) = Some a}"

lemma actors_of_snoc:
  assumes "i \<notin> set ids" and "\<And>j. j \<noteq> i \<Longrightarrow> handle_at w' j = handle_at w j"
  shows "actors_of (ids @ [i]) w' = actors_of ids w \<union> set_option (ih_backend_instance (handle_at w' i))"
proof -
  have "handle_at w' j = handle_at w j" if "j \<in> set ids" for j using assms that by metis
  then show ?thesis by (auto simp: actors_of_def)
qed

section \<open>Stopping\<close>

lemma stop_worker_effect:
  "held (w_calls (stop_worker rq i w)) = held (w_calls w) - {i}"
  "running (w_calls (stop_worker rq i w)) = running (w_calls w) - actors_of [i] w"
  "handle_at (stop_worker rq i w) j = (if j = i then mark_dead (handle_at w i) else handle_at w j)"
  by (auto simp: stop_worker_def Let_def call_effects actors_of_def mark_dead_def split: option.splits)

lemma stop_worker_actors: "actors_of ids (stop_worker rq i w) = actors_of ids w"
  by (auto simp: actors_of_def stop_worker_effect mark_dead_def)

lemma stop_all_effect:
  "held (w_calls (fold (stop_worker rq) ids w)) = held (w_calls w) - set ids"
  "running (w_calls (fold (stop_worker rq) ids w)) = running (w_calls w) - actors_of ids w"
  "i \<in> set ids \<Longrightarrow> ih_state (handle_at (fold (stop_worker rq) ids w) i) = DEAD"
  "i \<notin> set ids \<Longrightarrow> handle_at (fold (stop_worker rq) ids w) i = handle_at w i"
proof (induction ids arbitrary: w)
  case (Cons j ids)
  { case 1 show ?case using Cons(1) by (auto simp: stop_worker_effect) }
  { case 2
    have "actors_of (j # ids) w = actors_of [j] w \<union> actors_of ids w" by (auto simp: actors_of_def)
    then show ?case using Cons(2) by (auto simp: stop_worker_effect stop_worker_actors) }
  { case 3
    have keep: "ih_state (handle_at (fold (stop_worker rq) ids w) i) = DEAD" if "ih_state (handle_at w i) = DEAD" for w
      using that by (induction ids arbitrary: w) (simp_all add: stop_worker_effect mark_dead_def)
    show ?case
    proof (cases "i \<in> set ids")
      case True
      then show ?thesis using Cons(3) by simp
    next
      case False
      with 3 have "i = j" by simp
      then show ?thesis using keep [of "stop_worker rq j w"] by (simp add: stop_worker_effect mark_dead_def)
    qed }
  { case 4 then show ?case using Cons(4) by (simp add: stop_worker_effect) }
qed (auto simp: actors_of_def)

section \<open>Creating\<close>

text \<open>
  While workers are created, what is held and runs beyond the start are the reservations and the
  actors of the deployment.
\<close>

definition accounted :: "answers \<Rightarrow> string set \<Rightarrow> nat set \<Rightarrow> deployment \<times> world \<Rightarrow> bool" where
  "accounted an H R s \<longleftrightarrow>
     held (w_calls (snd s)) = H \<union> set (dp_instances (fst s))
     \<and> running (w_calls (snd s)) = R \<union> actors_of (dp_instances (fst s)) (snd s)
     \<and> (\<forall>a \<in> actors_of (dp_instances (fst s)) (snd s). \<exists>k. an_start an k = Inr a)"

text \<open>A worker that lets requests in, on the GPUs of one replica.\<close>

definition worker_up ::
  "adapter \<Rightarrow> int \<Rightarrow> string \<times> string list \<times> (string \<times> int) list \<Rightarrow> instance_handle \<Rightarrow> bool" where
  "worker_up self replica_gpus grant h \<longleftrightarrow>
     ih_ready h \<and> ih_state h = instance_state.READY \<and> ih_num_gpu h = replica_gpus \<and> ih_concurrency h = 0
     \<and> ih_max_queue_length h = va_max_queue_length self \<and> ih_backend_instance h \<noteq> None
     \<and> worker_node_ids h = py_unique (fst (snd grant) @ [fst grant])"

lemma create_replica_cases:
  assumes "create_replica self an nodes ds g og k (d, w) = (r, s')"
  obtains (refused) e where "r = Inl e" "s' = (d, w)"
  | (reserved) e grant where "reserve_replica an ds g (target_node_of nodes k) k = Inr grant" "r = Inl e"
      "s' = track_reservation self ds g (an_instance_id an k) grant (d, w)"
  | (started) grant actor e where "reserve_replica an ds g (target_node_of nodes k) k = Inr grant"
      "an_start an k = Inr actor" "r = Inl e"
      "s' = (fst (actor_started (an_instance_id an k) og actor
                (track_reservation self ds g (an_instance_id an k) grant (d, w))),
             record_call (Init actor) (snd (actor_started (an_instance_id an k) og actor
                (track_reservation self ds g (an_instance_id an k) grant (d, w)))))"
  | (up) grant actor where "reserve_replica an ds g (target_node_of nodes k) k = Inr grant"
      "an_start an k = Inr actor" "r = Inr ()"
      "s' = (fst (actor_started (an_instance_id an k) og actor
                (track_reservation self ds g (an_instance_id an k) grant (d, w))),
             set_handle (an_instance_id an k)
               (snd (mark_ready (Some (fst grant)) (handle_at (snd (actor_started (an_instance_id an k) og actor
                (track_reservation self ds g (an_instance_id an k) grant (d, w)))) (an_instance_id an k))))
               (record_call (Init actor) (snd (actor_started (an_instance_id an k) og actor
                (track_reservation self ds g (an_instance_id an k) grant (d, w))))))"
proof (cases r)
  case (Inl e)
  with assms show ?thesis
    by (auto simp: create_replica_def Let_def sbind_Inl intro: refused reserved started)
next
  case (Inr u)
  with assms show ?thesis
    by (auto simp: create_replica_def Let_def sbind_Inr intro: up)
qed

lemma track_reservation_simps:
  assumes "i \<notin> set (dp_instances d)"
  shows "dp_instances (fst (track_reservation self ds g i grant (d, w))) = dp_instances d @ [i]"
    and "dp_plan (fst (track_reservation self ds g i grant (d, w))) = dp_plan d"
    and "dp_resource_requirements (fst (track_reservation self ds g i grant (d, w))) = dp_resource_requirements d"
    and "handle_at (snd (track_reservation self ds g i grant (d, w))) j =
      (if j = i then new_handle self i g grant else handle_at w j)"
    and "w_calls (snd (track_reservation self ds g i grant (d, w))) = w_calls w @ [Reserve i (snd (snd grant))]"
    and "\<not> ds \<Longrightarrow> dp_backend_config (fst (track_reservation self ds g i grant (d, w))) = dp_backend_config d"
  using assms by (auto simp: track_reservation_def Let_def)

lemma actor_started_simps:
  "fst (actor_started i og a s) = fst s"
  "handle_at (snd (actor_started i og a s)) j =
     (if j = i then (handle_at (snd s) i)\<lparr>ih_backend_instance := Some a\<rparr> else handle_at (snd s) j)"
  "w_calls (snd (actor_started i og a s)) = w_calls (snd s) @ [Start i a og]"
  by (simp_all add: actor_started_def)

lemma new_handle_simps:
  "ih_backend_instance (new_handle self i g grant) = None"
  "ih_state (new_handle self i g grant) = STARTING"
  "ih_num_gpu (new_handle self i g grant) = g" "ih_concurrency (new_handle self i g grant) = 0"
  "ih_max_queue_length (new_handle self i g grant) = va_max_queue_length self"
  "ih_member_node_ids (new_handle self i g grant) = fst (snd grant)"
  by (simp_all add: new_handle_def InstanceHandle_def)

lemmas creation_simps = track_reservation_simps actor_started_simps new_handle_simps

text \<open>One replica: what is held and runs stays accounted, and other handles are not touched.\<close>

lemma create_replica_accounted:
  assumes run: "create_replica self an nodes ds g og k (d, w) = (r, s')"
    and fresh: "an_instance_id an k \<notin> set (dp_instances d)" and ok: "accounted an H R (d, w)"
  shows "accounted an H R s'"
    and "dp_instances (fst s') \<in> {dp_instances d, dp_instances d @ [an_instance_id an k]}"
    and "dp_resource_requirements (fst s') = dp_resource_requirements d \<and> dp_plan (fst s') = dp_plan d
      \<and> (\<not> ds \<longrightarrow> dp_backend_config (fst s') = dp_backend_config d)"
    and "j \<noteq> an_instance_id an k \<or> j \<notin> set (dp_instances (fst s')) \<Longrightarrow> handle_at (snd s') j = handle_at w j"
proof -
  have snoc: "actors_of (dp_instances d @ [an_instance_id an k]) w'
      = actors_of (dp_instances d) w \<union> set_option (ih_backend_instance (handle_at w' (an_instance_id an k)))"
    if "\<And>j. j \<noteq> an_instance_id an k \<Longrightarrow> handle_at w' j = handle_at w j" for w'
    using actors_of_snoc [OF fresh that] .
  note facts = creation_simps fresh call_effects accounted_def mark_ready_def Let_def
  show "accounted an H R s'" using run
    by (cases rule: create_replica_cases) (use ok in \<open>auto simp: facts snoc\<close>)
  show "dp_instances (fst s') \<in> {dp_instances d, dp_instances d @ [an_instance_id an k]}"
    using run by (cases rule: create_replica_cases) (simp_all add: creation_simps fresh)
  show "dp_resource_requirements (fst s') = dp_resource_requirements d \<and> dp_plan (fst s') = dp_plan d
      \<and> (\<not> ds \<longrightarrow> dp_backend_config (fst s') = dp_backend_config d)"
    using run by (cases rule: create_replica_cases) (simp_all add: creation_simps fresh)
  show "j \<noteq> an_instance_id an k \<or> j \<notin> set (dp_instances (fst s')) \<Longrightarrow> handle_at (snd s') j = handle_at w j"
    using run by (cases rule: create_replica_cases) (auto simp: creation_simps fresh)
qed

lemma create_replica_up:
  assumes run: "create_replica self an nodes ds g og k (d, w) = (Inr u, s')"
    and fresh: "an_instance_id an k \<notin> set (dp_instances d)"
  obtains grant where "reserve_replica an ds g (target_node_of nodes k) k = Inr grant"
    and "worker_up self g grant (handle_at (snd s') (an_instance_id an k))"
    and "dp_instances (fst s') = dp_instances d @ [an_instance_id an k]"
  using run
  by (cases rule: create_replica_cases)
     (simp_all add: creation_simps fresh worker_up_def mark_ready_def worker_node_ids_def)

definition workers_up :: "adapter \<Rightarrow> answers \<Rightarrow> string list \<Rightarrow> bool \<Rightarrow> int \<Rightarrow> nat list \<Rightarrow> world \<Rightarrow> bool" where
  "workers_up self an nodes ds g ks w \<longleftrightarrow>
     (\<forall>k \<in> set ks. \<exists>grant. reserve_replica an ds g (target_node_of nodes k) k = Inr grant
        \<and> worker_up self g grant (handle_at w (an_instance_id an k)))"

lemma create_all:
  assumes "each (create_replica self an nodes ds g og) ks (d, w) = (r, s')"
    and "distinct (map (an_instance_id an) ks)" and "\<forall>k \<in> set ks. an_instance_id an k \<notin> set (dp_instances d)"
    and "accounted an H R (d, w)"
  shows "accounted an H R s' \<and> dp_resource_requirements (fst s') = dp_resource_requirements d
      \<and> dp_plan (fst s') = dp_plan d \<and> (\<not> ds \<longrightarrow> dp_backend_config (fst s') = dp_backend_config d)
      \<and> set (dp_instances (fst s')) \<subseteq> set (dp_instances d) \<union> an_instance_id an ` set ks
      \<and> set (dp_instances d) \<subseteq> set (dp_instances (fst s'))
      \<and> (\<forall>j. j \<notin> an_instance_id an ` set ks \<or> j \<notin> set (dp_instances (fst s')) \<longrightarrow> handle_at (snd s') j = handle_at w j)
      \<and> (r = Inr () \<longrightarrow> dp_instances (fst s') = dp_instances d @ map (an_instance_id an) ks
           \<and> workers_up self an nodes ds g ks (snd s'))"
  using assms
proof (induction ks arbitrary: d w)
  case Nil
  then show ?case by (auto simp: workers_up_def)
next
  case (Cons k ks)
  obtain q s1 where step: "create_replica self an nodes ds g og k (d, w) = (q, s1)"
    by (cases "create_replica self an nodes ds g og k (d, w)")
  obtain d1 w1 where s1: "s1 = (d1, w1)" by (cases s1)
  have fresh: "an_instance_id an k \<notin> set (dp_instances d)" using Cons.prems(3) by simp
  note one = create_replica_accounted [OF step fresh Cons.prems(4), unfolded s1 fst_conv snd_conv]
  show ?case
  proof (cases q)
    case (Inl e)
    then have r: "r = Inl e" "s' = s1" using Cons.prems(1) step by (simp_all add: sbind_def)
    then show ?thesis using one(1-3) one(4) s1 fresh by auto
  next
    case (Inr u)
    from step Inr obtain grant where up: "reserve_replica an ds g (target_node_of nodes k) k = Inr grant"
        "worker_up self g grant (handle_at w1 (an_instance_id an k))"
        "dp_instances d1 = dp_instances d @ [an_instance_id an k]"
      by (metis create_replica_up [OF _ fresh] s1 fst_conv snd_conv)
    have rest: "each (create_replica self an nodes ds g og) ks (d1, w1) = (r, s')"
      using Cons.prems(1) step Inr s1 by (simp add: sbind_def)
    have "\<forall>k' \<in> set ks. an_instance_id an k' \<notin> set (dp_instances d1)"
      using Cons.prems(2,3) up(3) by (auto simp: image_iff)
    note IH = Cons.IH [OF rest _ this one(1)]
    have k: "an_instance_id an k \<notin> an_instance_id an ` set ks" using Cons.prems(2) by auto
    have "handle_at (snd s') (an_instance_id an k) = handle_at w1 (an_instance_id an k)"
      using IH Cons.prems(2) k by simp
    then have "workers_up self an nodes ds g (k # ks) (snd s')" if "workers_up self an nodes ds g ks (snd s')"
      using that up(1,2) by (cases grant) (auto simp: workers_up_def)
    moreover have "handle_at (snd s') j = handle_at w j"
      if "j \<notin> an_instance_id an ` set (k # ks) \<or> j \<notin> set (dp_instances (fst s'))" for j
    proof -
      have "j \<noteq> an_instance_id an k \<or> j \<notin> set (dp_instances d1)" using that IH Cons.prems(2) by auto
      then have "handle_at w1 j = handle_at w j" by (rule one(4))
      moreover have "handle_at (snd s') j = handle_at w1 j" using that IH Cons.prems(2) by auto
      ultimately show ?thesis by simp
    qed
    ultimately show ?thesis using IH Cons.prems(2) up(3) one(3) by auto
  qed
qed

text \<open>The parameters of the loop over the replicas, and the two ways it ends.\<close>

definition ray_dp_owned :: "adapter \<Rightarrow> parallel_plan \<Rightarrow> bool" where
  "ray_dp_owned self plan = flag (plan_backend_config self plan) ''spotserve_vllm_ray_dp_owns_gpus''"

definition allocates_distributed :: "adapter \<Rightarrow> parallel_plan \<Rightarrow> bool" where
  "allocates_distributed self plan \<longleftrightarrow>
     flag (plan_backend_config self plan) ''spotserve_distributed_gpu_allocation''
     \<and> ray_dp_owned self plan \<and> 1 < length (pp_target_nodes plan)"

definition replicas_of :: "parallel_plan \<Rightarrow> nat list" where
  "replicas_of plan = [0..<nat (max (pp_replica_count plan) 1)]"

definition create_loop :: "adapter \<Rightarrow> answers \<Rightarrow> parallel_plan \<Rightarrow> int \<Rightarrow> (deployment \<times> world, unit) stmt" where
  "create_loop self an plan g =
     each (create_replica self an (pp_target_nodes plan) (allocates_distributed self plan) g
             (if ray_dp_owned self plan then 0 else g)) (replicas_of plan)"

definition planned_deployment :: "adapter \<Rightarrow> parallel_plan \<Rightarrow> int \<Rightarrow> deployment" where
  "planned_deployment self plan g =
     \<lparr>dp_plan = plan, dp_instances = [], dp_backend_config = plan_backend_config self plan,
      dp_resource_requirements = worker_resources self g\<rparr>"

lemma create_workers_cases:
  assumes "create_workers self an plan w = (r, w')"
  obtains (rejected) e where "r = Inl e" "w' = w"
  | (created) g d' where "replica_gpu_count plan = Inr g"
      "create_loop self an plan g (planned_deployment self plan g, w) = (Inr (), (d', w'))" "r = Inr d'"
  | (failed) g e d' w1 where "replica_gpu_count plan = Inr g"
      "create_loop self an plan g (planned_deployment self plan g, w) = (Inl e, (d', w1))" "e \<noteq> OutOfModel"
      "r = Inl e" "w' = stop_workers (Some d') w1"
  | (unmodelled) "r = Inl OutOfModel"
proof (cases "pp_backend plan \<noteq> ''vllm'' \<or> pp_model_name plan \<noteq> va_model_name self
       \<or> (\<exists>e. replica_gpu_count plan = Inl e)")
  case True
  with assms show ?thesis by (auto simp: create_workers_def split: if_splits intro: rejected)
next
  case False
  then obtain g where g: "replica_gpu_count plan = Inr g" by (cases "replica_gpu_count plan") auto
  obtain q d1 w1 where loop: "create_loop self an plan g (planned_deployment self plan g, w) = (q, (d1, w1))"
    by (cases "create_loop self an plan g (planned_deployment self plan g, w)") auto
  have body: "create_workers self an plan w =
      (case on_raise (create_loop self an plan g) (change (\<lambda>(d, w). (d, stop_workers (Some d) w)))
              (planned_deployment self plan g, w) of
         (Inl e, (_, w')) \<Rightarrow> (Inl e, w') | (Inr _, (d', w')) \<Rightarrow> (Inr d', w'))"
    using False g
    by (simp add: create_workers_def create_loop_def planned_deployment_def replicas_of_def allocates_distributed_def
        ray_dp_owned_def Let_def conj_assoc)
  show ?thesis
  proof (cases q)
    case (Inr u)
    with assms body loop g show ?thesis by (auto simp: on_raise_def intro: created)
  next
    case (Inl e)
    with assms body loop g show ?thesis
      by (cases "e = OutOfModel") (auto simp: on_raise_def change_def intro: failed unmodelled)
  qed
qed

text \<open>
  C34. Creating the workers of a plan is all or nothing. When it returns, every replica of the plan
  has an instance whose actor was started and initialised, that is open to requests and holds the GPUs
  of one replica, and the scheduler's reservations held are the earlier ones and one for each. When
  it raises, whatever failed and at whichever replica, every reservation it was granted was given
  back, every actor it started was killed, and none of its instances is open.
\<close>

theorem create_workers_all_or_nothing:
  assumes run: "create_workers self an plan w = (r, w')" and "r \<noteq> Inl OutOfModel"
    and ids: "distinct (map (an_instance_id an) (replicas_of plan))"
      "\<forall>k \<in> set (replicas_of plan). an_instance_id an k \<notin> held (w_calls w)"
    and actors: "\<forall>k a. an_start an k = Inr a \<longrightarrow> a \<notin> running (w_calls w)"
    and queue: "0 < va_max_queue_length self"
  shows "case r of
      Inr d \<Rightarrow> dp_plan d = plan \<and> dp_instances d = map (an_instance_id an) (replicas_of plan)
        \<and> held (w_calls w') = held (w_calls w) \<union> set (dp_instances d)
        \<and> (\<forall>i \<in> set (dp_instances d). can_accept_request 1 (handle_at w' i)
             \<and> ih_backend_instance (handle_at w' i) \<noteq> None \<and> replica_gpu_count plan = Inr (ih_num_gpu (handle_at w' i)))
    | Inl e \<Rightarrow> held (w_calls w') = held (w_calls w) \<and> running (w_calls w') = running (w_calls w)
        \<and> (\<forall>k \<in> set (replicas_of plan). handle_at w' (an_instance_id an k) = handle_at w (an_instance_id an k)
             \<or> \<not> can_accept_request 1 (handle_at w' (an_instance_id an k)))"
proof -
  have start: "accounted an (held (w_calls w)) (running (w_calls w)) (planned_deployment self plan g, w)" for g
    by (simp add: accounted_def planned_deployment_def actors_of_def)
  have none: "\<forall>k \<in> set (replicas_of plan). an_instance_id an k \<notin> set (dp_instances (planned_deployment self plan g))" for g
    by (simp add: planned_deployment_def)
  note all = create_all [OF _ ids(1) none start, folded create_loop_def]
  show ?thesis using run
  proof (cases rule: create_workers_cases)
    case (created g d')
    note c = all [OF created(2) [unfolded create_loop_def]]
    show ?thesis using c created queue
      by (auto simp: planned_deployment_def accounted_def workers_up_def worker_up_def can_accept_request_def)
  next
    case (failed g e d' w1)
    note c = all [OF failed(2) [unfolded create_loop_def]]
    let ?ids = "dp_instances d'"
    have w': "w' = fold (stop_worker (dp_resource_requirements d')) ?ids w1"
      using failed(5) by (simp add: stop_workers_def)
    have ids': "set ?ids \<subseteq> an_instance_id an ` set (replicas_of plan)"
      using c by (simp add: planned_deployment_def)
    have "set ?ids \<inter> held (w_calls w) = {}" using ids' ids(2) by auto
    then have h: "held (w_calls w') = held (w_calls w)"
      using c unfolding w' by (auto simp: stop_all_effect accounted_def)
    have "actors_of ?ids w1 \<inter> running (w_calls w) = {}" using c actors by (fastforce simp: accounted_def)
    then have r: "running (w_calls w') = running (w_calls w)"
      using c unfolding w' by (auto simp: stop_all_effect accounted_def)
    have dead: "\<not> can_accept_request 1 (handle_at w' i)" if "i \<in> set ?ids" for i
      using stop_all_effect(3) [OF that] by (simp add: w' can_accept_request_def)
    have same: "handle_at w' i = handle_at w i" if "i \<notin> set ?ids" for i
      using stop_all_effect(4) [OF that] c that by (simp add: w')
    show ?thesis using h r dead same failed(4) by auto
  qed (use assms in auto)
qed

section \<open>Resizing in place\<close>

text \<open>The GPUs the scheduler has reserved and the size of the engine after a sequence of calls.\<close>

definition resize_seen :: "string \<Rightarrow> adapter_call \<Rightarrow> int \<Rightarrow> int" where
  "resize_seen i c g = (case c of Resize j m \<Rightarrow> if j = i then m else g | _ \<Rightarrow> g)"

definition scale_seen :: "nat \<Rightarrow> adapter_call \<Rightarrow> int \<Rightarrow> int" where
  "scale_seen a c n = (case c of Scale b m _ resized \<Rightarrow> if b = a \<and> resized then m else n | _ \<Rightarrow> n)"

definition reserved_after :: "string \<Rightarrow> int \<Rightarrow> adapter_call list \<Rightarrow> int" where
  "reserved_after i g calls = fold (resize_seen i) calls g"

definition engine_after :: "nat \<Rightarrow> int \<Rightarrow> adapter_call list \<Rightarrow> int" where
  "engine_after a n calls = fold (scale_seen a) calls n"

text \<open>At every moment the engine has at most the GPUs that are reserved.\<close>

definition engine_covered :: "string \<Rightarrow> nat \<Rightarrow> int \<Rightarrow> adapter_call list \<Rightarrow> bool" where
  "engine_covered i a n calls \<longleftrightarrow>
     (\<forall>k \<le> length calls. engine_after a n (take k calls) \<le> reserved_after i n (take k calls))"

text \<open>The engine is asked only while the instance is closed and holds no request.\<close>

definition asked_idle :: "adapter_call list \<Rightarrow> bool" where
  "asked_idle calls \<longleftrightarrow>
     list_all (\<lambda>c. case c of Scale _ _ h _ \<Rightarrow> closed h \<and> ih_concurrency h \<le> 0 | _ \<Rightarrow> True) calls"

text \<open>While the resize is under way no other task reopens the instance.\<close>

definition undisturbed :: "resize_answers \<Rightarrow> bool" where
  "undisturbed rz \<longleftrightarrow>
     list_all (list_all (Not \<circ> reopens))
       (rz_polls rz @ [fst (rz_grow rz), fst (rz_scale rz), fst (rz_rollback rz), fst (rz_shrink rz), fst (rz_restore rz)])"

definition resizing :: "bool \<Rightarrow> bool \<Rightarrow> string \<Rightarrow> nat \<Rightarrow> int \<Rightarrow> adapter_call list \<Rightarrow> int \<Rightarrow> int \<Rightarrow> world \<Rightarrow> bool" where
  "resizing calm sized i a n0 calls0 g n w \<longleftrightarrow>
     (\<exists>new. w_calls w = calls0 @ new \<and> (sized \<longrightarrow> engine_covered i a n0 new \<and> reserved_after i n0 new = g
        \<and> engine_after a n0 new = n) \<and> (calm \<longrightarrow> asked_idle new))"

definition idle :: "bool \<Rightarrow> string \<Rightarrow> world \<Rightarrow> bool" where
  "idle calm i w \<longleftrightarrow> (calm \<longrightarrow> closed (handle_at w i) \<and> ih_concurrency (handle_at w i) \<le> 0)"

lemma engine_covered_snoc:
  "engine_covered i a n (calls @ [c]) \<longleftrightarrow>
     engine_covered i a n calls \<and> engine_after a n (calls @ [c]) \<le> reserved_after i n (calls @ [c])"
  unfolding engine_covered_def by (auto simp: le_Suc_eq)

lemma after_snoc:
  "reserved_after i g (calls @ [c]) = resize_seen i c (reserved_after i g calls)"
  "engine_after a n (calls @ [c]) = scale_seen a c (engine_after a n calls)"
  by (simp_all add: reserved_after_def engine_after_def)

lemma resizing_start: "resizing calm sized i a n0 calls0 n0 n0 w" if "w_calls w = calls0"
  using that by (intro exI [of _ "[]"] resizing_def [THEN iffD2])
    (simp add: engine_covered_def reserved_after_def engine_after_def asked_idle_def)

lemma resizing_step:
  assumes "resizing calm sized i a n0 calls0 g n w" and "w_calls w' = w_calls w @ [c]"
    and "sized \<Longrightarrow> scale_seen a c n \<le> resize_seen i c g" and "calm \<Longrightarrow> asked_idle [c]"
  shows "resizing calm sized i a n0 calls0 (resize_seen i c g) (scale_seen a c n) w'"
proof -
  obtain new where "w_calls w = calls0 @ new" "calm \<longrightarrow> asked_idle new"
      "sized \<longrightarrow> engine_covered i a n0 new \<and> reserved_after i n0 new = g \<and> engine_after a n0 new = n"
    using assms(1) unfolding resizing_def by blast
  then show ?thesis
    using assms(2-4) unfolding resizing_def
    by (intro exI [of _ "new @ [c]"]) (simp add: engine_covered_snoc after_snoc asked_idle_def)
qed

lemma resizing_calls: "w_calls w' = w_calls w \<Longrightarrow> resizing calm sized i a n0 calls0 g n w \<Longrightarrow> resizing calm sized i a n0 calls0 g n w'"
  by (simp add: resizing_def)

lemma resizing_set_handle [simp]: "resizing calm sized i a n0 calls0 g n (set_handle j h w) = resizing calm sized i a n0 calls0 g n w"
  by (simp add: resizing_def)

lemma resizing_unsized: "\<not> sized \<Longrightarrow> resizing calm sized i a n0 calls0 g n w \<Longrightarrow> resizing calm sized i a n0 calls0 g n' w"
  by (simp add: resizing_def)

text \<open>A closed instance takes no request, so its requests only become fewer.\<close>

lemma apply_op_fewer: "closed h \<Longrightarrow> ih_concurrency (apply_op op h) \<le> ih_concurrency h"
  by (cases op) (auto simp: handle_defs closed_def split: option.splits)

lemma apply_ops_fewer:
  "closed h \<Longrightarrow> list_all (Not \<circ> reopens) ops \<Longrightarrow> ih_concurrency (apply_ops ops h) \<le> ih_concurrency h"
  unfolding apply_ops_def
proof (induction ops arbitrary: h)
  case (Cons op ops)
  have op: "closed (apply_op op h)" using apply_op_closed [of h op] Cons.prems by simp
  have "ih_concurrency (fold apply_op ops (apply_op op h)) \<le> ih_concurrency (apply_op op h)"
    using Cons.IH [OF op] Cons.prems(2) by simp
  then show ?case using apply_op_fewer [OF Cons.prems(1), of op] by simp
qed simp

lemma idle_others: "idle calm i w \<Longrightarrow> (calm \<Longrightarrow> list_all (Not \<circ> reopens) ops) \<Longrightarrow> idle calm i (others i ops w)"
  unfolding idle_def using apply_ops_closed [of "handle_at w i" ops] apply_ops_fewer [of "handle_at w i" ops] by auto

lemma await_drained_closed:
  "await_drained polls active h = (drained, active', h') \<Longrightarrow> closed h \<Longrightarrow> list_all (list_all (Not \<circ> reopens)) polls
   \<Longrightarrow> closed h'"
  by (induction polls arbitrary: active h) (auto simp: apply_ops_closed split: if_splits)

lemma await_drained_idle: "await_drained polls active h = (True, active', h') \<Longrightarrow> ih_concurrency h' \<le> 0"
  by (induction polls arbitrary: active h) (auto split: if_splits)

lemma drain_ends:
  assumes "calm \<Longrightarrow> undisturbed rz"
  shows "ends (resizing calm sized i a n0 calls0 g n) (drain_admission rz i)
           (\<lambda>_ w. resizing calm sized i a n0 calls0 g n w \<and> idle calm i w) (resizing calm sized i a n0 calls0 g n)"
proof (rule endsI)
  fix s x t
  assume s: "resizing calm sized i a n0 calls0 g n s" and run: "drain_admission rz i s = (Inr x, t)"
  obtain dr ac h where d: "await_drained (rz_polls rz) 0 (mark_draining (handle_at s i)) = (dr, ac, h)"
    by (cases "await_drained (rz_polls rz) 0 (mark_draining (handle_at s i))") auto
  have t: "dr" "t = set_handle i h s" using run by (auto simp: drain_admission_def d Let_def split: if_splits)
  have "closed h" if calm
    using await_drained_closed [OF d] assms [OF that] by (simp add: undisturbed_def closed_def mark_draining_def)
  then show "resizing calm sized i a n0 calls0 g n t \<and> idle calm i t"
    using s t d await_drained_idle by (auto simp: idle_def intro: resizing_calls [rotated])
next
  fix s e t
  assume "resizing calm sized i a n0 calls0 g n s" and "drain_admission rz i s = (Inl e, t)"
  then show "resizing calm sized i a n0 calls0 g n t"
    by (auto simp: drain_admission_def reopen_def Let_def split: prod.splits if_splits intro: resizing_calls [rotated])
qed

lemma reservation_ends:
  assumes "calm \<Longrightarrow> list_all (Not \<circ> reopens) (fst answer)" and "n \<le> m"
  shows "ends (\<lambda>w. resizing calm sized i a n0 calls0 g n w \<and> idle calm i w) (resize_reservation i m answer)
           (\<lambda>_ w. resizing calm sized i a n0 calls0 m n w \<and> idle calm i w)
           (\<lambda>w. resizing calm sized i a n0 calls0 g n w \<and> idle calm i w)"
proof (rule endsI)
  fix s x t
  assume s: "resizing calm sized i a n0 calls0 g n s \<and> idle calm i s" and run: "resize_reservation i m answer s = (Inr x, t)"
  then have t: "t = others i (fst answer) (record_call (Resize i m) s)"
    by (auto simp: resize_reservation_def split: sum.splits)
  have "idle calm i (record_call (Resize i m) s)" using s by (simp add: idle_def)
  then have "idle calm i t" unfolding t by (rule idle_others) (rule assms(1))
  moreover have "resizing calm sized i a n0 calls0 m n t"
    using resizing_step [of calm sized i a n0 calls0 g n s t "Resize i m"] s assms(2)
    by (simp add: t scale_seen_def resize_seen_def asked_idle_def)
  ultimately show "resizing calm sized i a n0 calls0 m n t \<and> idle calm i t" by simp
next
  fix s e t
  assume s: "resizing calm sized i a n0 calls0 g n s \<and> idle calm i s" and run: "resize_reservation i m answer s = (Inl e, t)"
  then have t: "t = others i (fst answer) s" by (auto simp: resize_reservation_def split: sum.splits)
  have "idle calm i t" unfolding t by (rule idle_others) (use s assms(1) in auto)
  then show "resizing calm sized i a n0 calls0 g n t \<and> idle calm i t"
    using s by (auto simp: t intro: resizing_calls [rotated])
qed

lemma ask_ends:
  assumes "calm \<Longrightarrow> list_all (Not \<circ> reopens) (fst answer)" and "m \<le> g" and "n \<le> g"
  shows "ends (\<lambda>w. resizing calm sized i a n0 calls0 g n w \<and> idle calm i w) (ask_engine i a m answer left)
           (\<lambda>_ w. resizing calm sized i a n0 calls0 g (if engine_took (snd answer) left then m else n) w \<and> idle calm i w)
           (\<lambda>w. resizing calm sized i a n0 calls0 g (if engine_took (snd answer) left then m else n) w \<and> idle calm i w)"
proof -
  have "resizing calm sized i a n0 calls0 g (if engine_took (snd answer) left then m else n) t \<and> idle calm i t"
    if s: "resizing calm sized i a n0 calls0 g n s \<and> idle calm i s" and run: "ask_engine i a m answer left s = (r, t)" for s r t
  proof -
    let ?c = "Scale a m (handle_at s i) (engine_took (snd answer) left)"
    have t: "t = others i (fst answer) (record_call ?c s)" using run by (auto simp: ask_engine_def)
    have "idle calm i (record_call ?c s)" using s by (simp add: idle_def)
    then have "idle calm i t" unfolding t by (rule idle_others) (rule assms(1))
    moreover have "resizing calm sized i a n0 calls0 g (if engine_took (snd answer) left then m else n) t"
      using resizing_step [of calm sized i a n0 calls0 g n s t ?c] s assms(2,3)
      by (auto simp: t scale_seen_def resize_seen_def asked_idle_def idle_def)
    ultimately show ?thesis by simp
  qed
  then show ?thesis by (blast intro: endsI)
qed

lemma scale_ends:
  assumes "calm \<Longrightarrow> list_all (Not \<circ> reopens) (fst answer)" and "m \<le> g" and "n \<le> g"
    and left: "sized \<Longrightarrow> isl (snd answer) \<Longrightarrow> \<not> left"
  shows "ends (\<lambda>w. resizing calm sized i a n0 calls0 g n w \<and> idle calm i w) (scale_engine i a m answer left)
           (\<lambda>_ w. resizing calm sized i a n0 calls0 g m w \<and> idle calm i w)
           (\<lambda>w. resizing calm sized i a n0 calls0 g n w \<and> idle calm i w)"
proof (rule endsI)
  fix s x t
  assume s: "resizing calm sized i a n0 calls0 g n s \<and> idle calm i s" and run: "scale_engine i a m answer left s = (Inr x, t)"
  from run obtain v where v: "ask_engine i a m answer left s = (Inr v, t)" "engine_resized (Inr v)"
    by (auto simp: scale_engine_def sbind_Inr split: if_splits)
  then have "engine_took (snd answer) left" by (auto simp: ask_engine_def engine_took_def)
  then show "resizing calm sized i a n0 calls0 g m t \<and> idle calm i t"
    using ends_value [OF ask_ends [of calm answer, OF assms(1-3)] s v(1)] by simp
next
  fix s e t
  assume s: "resizing calm sized i a n0 calls0 g n s \<and> idle calm i s" and run: "scale_engine i a m answer left s = (Inl e, t)"
  then obtain q where q: "ask_engine i a m answer left s = (q, t)" "\<not> engine_resized q"
    by (auto simp: scale_engine_def sbind_Inl engine_resized_def split: if_splits)
  have t: "resizing calm sized i a n0 calls0 g (if engine_took (snd answer) left then m else n) t \<and> idle calm i t"
    using ends_value [OF ask_ends [of calm answer, OF assms(1-3)] s] ends_raise [OF ask_ends [of calm answer, OF assms(1-3)] s] q(1)
    by (cases q) simp_all
  have "\<not> engine_took (snd answer) left" if sized
    using left [OF that] q by (auto simp: ask_engine_def engine_took_def)
  then show "resizing calm sized i a n0 calls0 g n t \<and> idle calm i t"
    using t by (cases sized) (simp, blast intro: resizing_unsized)
qed

text \<open>What holds of the calls when a part of the resize has raised.\<close>

definition stopped :: "bool \<Rightarrow> bool \<Rightarrow> string \<Rightarrow> nat \<Rightarrow> int \<Rightarrow> adapter_call list \<Rightarrow> world \<Rightarrow> bool" where
  "stopped calm sized i a n0 calls0 w \<longleftrightarrow> (\<exists>g n. resizing calm sized i a n0 calls0 g n w)"

lemma stoppedI: "resizing calm sized i a n0 calls0 g n w \<Longrightarrow> stopped calm sized i a n0 calls0 w"
  by (auto simp: stopped_def)

lemma reopen_ends:
  "ends (stopped calm sized i a n0 calls0) (sbind (reopen i num) (\<lambda>_. lift (\<lambda>_. Inr ())))
     (\<lambda>_. stopped calm sized i a n0 calls0) (stopped calm sized i a n0 calls0)"
  by (rule endsI) (auto simp: sbind_Inr sbind_Inl reopen_def stopped_def)

lemma reopened_ends:
  assumes "raised = (\<lambda>w. Inl (f w))"
  shows "ends (\<lambda>w. resizing calm sized i a n0 calls0 m m w \<and> idle calm i w)
     (sbind (reopen i (Some m)) (\<lambda>opened. lift (\<lambda>w. if opened then Inr () else raised w)))
     (\<lambda>_ w. resizing calm sized i a n0 calls0 m m w \<and> ih_ready (handle_at w i)
        \<and> ih_state (handle_at w i) = instance_state.READY \<and> ih_num_gpu (handle_at w i) = m)
     (stopped calm sized i a n0 calls0)"
proof (rule endsI)
  fix s x t
  assume "resizing calm sized i a n0 calls0 m m s \<and> idle calm i s"
    and "sbind (reopen i (Some m)) (\<lambda>opened. lift (\<lambda>w. if opened then Inr () else raised w)) s = (Inr x, t)"
  then show "resizing calm sized i a n0 calls0 m m t \<and> ih_ready (handle_at t i)
      \<and> ih_state (handle_at t i) = instance_state.READY \<and> ih_num_gpu (handle_at t i) = m"
    by (auto simp: assms sbind_Inr reopen_def mark_ready_after_drain_def split: if_splits)
next
  fix s e t
  assume "resizing calm sized i a n0 calls0 m m s \<and> idle calm i s"
    and "sbind (reopen i (Some m)) (\<lambda>opened. lift (\<lambda>w. if opened then Inr () else raised w)) s = (Inl e, t)"
  then show "stopped calm sized i a n0 calls0 t"
    by (auto simp: assms sbind_Inl reopen_def stopped_def split: if_splits)
qed

text \<open>The three changes of the resize, with the sizes of the reservation and of the engine.\<close>

definition at_sizes :: "bool \<Rightarrow> bool \<Rightarrow> string \<Rightarrow> nat \<Rightarrow> int \<Rightarrow> adapter_call list \<Rightarrow> int \<Rightarrow> int \<Rightarrow> world \<Rightarrow> bool" where
  "at_sizes calm sized i a n0 calls0 g n w \<longleftrightarrow> resizing calm sized i a n0 calls0 g n w \<and> idle calm i w"

lemma at_sizes_stopped: "at_sizes calm sized i a n0 calls0 g n w \<Longrightarrow> stopped calm sized i a n0 calls0 w"
  by (auto simp: at_sizes_def intro: stoppedI)

lemmas sized_ends = reservation_ends [folded at_sizes_def] scale_ends [folded at_sizes_def]
  ask_ends [folded at_sizes_def]

lemma undisturbed_ops:
  assumes "undisturbed rz"
  shows "list_all (Not \<circ> reopens) (fst (rz_grow rz))" "list_all (Not \<circ> reopens) (fst (rz_scale rz))"
    "list_all (Not \<circ> reopens) (fst (rz_rollback rz))" "list_all (Not \<circ> reopens) (fst (rz_shrink rz))"
    "list_all (Not \<circ> reopens) (fst (rz_restore rz))"
  using assms by (simp_all add: undisturbed_def)

lemma grow_ends:
  assumes "calm \<Longrightarrow> undisturbed rz"
  shows "ends (at_sizes calm sized i a n0 calls0 old old)
      (if new > old
       then on_raise (resize_reservation i new (rz_grow rz)) (sbind (reopen i None) (\<lambda>_. lift (\<lambda>_. Inr ())))
       else lift (\<lambda>_. Inr ()))
      (\<lambda>_. at_sizes calm sized i a n0 calls0 (max old new) old) (stopped calm sized i a n0 calls0)"
proof (rule ends_if)
  assume "new > old"
  show "ends (at_sizes calm sized i a n0 calls0 old old)
      (on_raise (resize_reservation i new (rz_grow rz)) (sbind (reopen i None) (\<lambda>_. lift (\<lambda>_. Inr ()))))
      (\<lambda>_. at_sizes calm sized i a n0 calls0 (max old new) old) (stopped calm sized i a n0 calls0)"
  proof (rule ends_on_raise)
    show "ends (at_sizes calm sized i a n0 calls0 old old) (resize_reservation i new (rz_grow rz))
        (\<lambda>_. at_sizes calm sized i a n0 calls0 (max old new) old) (at_sizes calm sized i a n0 calls0 old old)"
      using sized_ends(1) [of calm "rz_grow rz" old new] undisturbed_ops(1) assms \<open>new > old\<close> by (simp add: max_def)
  qed (auto intro: at_sizes_stopped ends_conseq [OF reopen_ends])
qed (auto intro!: ends_pass simp: max_def)

lemma engine_ends:
  assumes "calm \<Longrightarrow> undisturbed rz" and left: "sized \<Longrightarrow> isl (snd (rz_scale rz)) \<Longrightarrow> \<not> rz_scale_left rz"
  shows "ends (at_sizes calm sized i a n0 calls0 (max old new) old)
      (on_raise (scale_engine i a new (rz_scale rz) (rz_scale_left rz))
         (if new > old then (\<lambda>w. (Inr (), snd (resize_reservation i old (rz_rollback rz) w))) else lift (\<lambda>_. Inr ())))
      (\<lambda>_. at_sizes calm sized i a n0 calls0 (max old new) new) (stopped calm sized i a n0 calls0)"
proof (rule ends_on_raise)
  show "ends (at_sizes calm sized i a n0 calls0 (max old new) old) (scale_engine i a new (rz_scale rz) (rz_scale_left rz))
      (\<lambda>_. at_sizes calm sized i a n0 calls0 (max old new) new) (at_sizes calm sized i a n0 calls0 (max old new) old)"
    using sized_ends(2) [of calm "rz_scale rz" new "max old new" old sized "rz_scale_left rz"] undisturbed_ops(2) assms by simp
  have "ends (at_sizes calm sized i a n0 calls0 (max old new) old) (resize_reservation i old (rz_rollback rz))
      (\<lambda>_. at_sizes calm sized i a n0 calls0 old old) (at_sizes calm sized i a n0 calls0 (max old new) old)"
    using sized_ends(1) [of calm "rz_rollback rz" old old] undisturbed_ops(3) assms by simp
  then have "ends (at_sizes calm sized i a n0 calls0 (max old new) old) (resize_reservation i old (rz_rollback rz))
      (\<lambda>_. stopped calm sized i a n0 calls0) (stopped calm sized i a n0 calls0)"
    by (rule ends_conseq) (auto intro: at_sizes_stopped)
  then have "stopped calm sized i a n0 calls0 (snd (resize_reservation i old (rz_rollback rz) w))"
    if "at_sizes calm sized i a n0 calls0 (max old new) old w" for w
    using that by (rule ends_either)
  then show "ends (at_sizes calm sized i a n0 calls0 (max old new) old)
      (if new > old then (\<lambda>w. (Inr (), snd (resize_reservation i old (rz_rollback rz) w))) else lift (\<lambda>_. Inr ()))
      (\<lambda>_. stopped calm sized i a n0 calls0) (stopped calm sized i a n0 calls0)"
    by (intro ends_if endsI) (auto intro: at_sizes_stopped)
qed (rule at_sizes_stopped)

lemma shrink_ends:
  assumes "calm \<Longrightarrow> undisturbed rz"
  shows "ends (at_sizes calm sized i a n0 calls0 (max old new) new)
      (if new < old
       then on_raise (resize_reservation i new (rz_shrink rz))
              (sbind (ask_engine i a old (rz_restore rz) (rz_restore_left rz)) (\<lambda>_. sbind (reopen i None) (\<lambda>_. lift (\<lambda>_. Inr ()))))
       else lift (\<lambda>_. Inr ()))
      (\<lambda>_. at_sizes calm sized i a n0 calls0 new new) (stopped calm sized i a n0 calls0)"
proof (rule ends_if)
  assume less: "new < old"
  have "ends (at_sizes calm sized i a n0 calls0 old new) (ask_engine i a old (rz_restore rz) (rz_restore_left rz))
      (\<lambda>_. at_sizes calm sized i a n0 calls0 old (if engine_took (snd (rz_restore rz)) (rz_restore_left rz) then old else new))
      (at_sizes calm sized i a n0 calls0 old (if engine_took (snd (rz_restore rz)) (rz_restore_left rz) then old else new))"
    using sized_ends(3) [of calm "rz_restore rz" old old new] undisturbed_ops(5) assms less by simp
  then have ask: "ends (at_sizes calm sized i a n0 calls0 old new) (ask_engine i a old (rz_restore rz) (rz_restore_left rz))
      (\<lambda>_. stopped calm sized i a n0 calls0) (stopped calm sized i a n0 calls0)"
    by (rule ends_conseq) (auto intro: at_sizes_stopped)
  have reserve: "ends (at_sizes calm sized i a n0 calls0 old new) (resize_reservation i new (rz_shrink rz))
      (\<lambda>_. at_sizes calm sized i a n0 calls0 new new) (at_sizes calm sized i a n0 calls0 old new)"
    using sized_ends(1) [of calm "rz_shrink rz" new new] undisturbed_ops(4) assms by simp
  show "ends (at_sizes calm sized i a n0 calls0 (max old new) new) (on_raise (resize_reservation i new (rz_shrink rz))
      (sbind (ask_engine i a old (rz_restore rz) (rz_restore_left rz)) (\<lambda>_. sbind (reopen i None) (\<lambda>_. lift (\<lambda>_. Inr ())))))
      (\<lambda>_. at_sizes calm sized i a n0 calls0 new new) (stopped calm sized i a n0 calls0)"
    unfolding max_absorb1 [OF less_imp_le [OF less]]
    by (rule ends_on_raise [OF reserve ends_sbind [OF ask reopen_ends] at_sizes_stopped])
qed (auto intro!: ends_pass simp: max_def split: if_splits)

lemma resize_instance_ends:
  assumes calm: "calm \<Longrightarrow> undisturbed rz" and left: "sized \<Longrightarrow> isl (snd (rz_scale rz)) \<Longrightarrow> \<not> rz_scale_left rz"
  shows "ends (\<lambda>w. w_calls w = calls0) (resize_instance rz i a old new old new)
     (\<lambda>_ w. resizing calm sized i a old calls0 new new w \<and> ih_ready (handle_at w i)
        \<and> ih_state (handle_at w i) = instance_state.READY \<and> ih_num_gpu (handle_at w i) = new)
     (stopped calm sized i a old calls0)"
proof -
  have drain: "ends (\<lambda>w. w_calls w = calls0) (drain_admission rz i) (\<lambda>_. at_sizes calm sized i a old calls0 old old)
      (stopped calm sized i a old calls0)"
    by (rule ends_conseq [OF drain_ends [of calm rz sized i a old calls0 old old, folded at_sizes_def]])
      (auto intro: calm resizing_start stoppedI)
  show ?thesis unfolding resize_instance_def Let_def
    by (intro ends_sbind [OF drain] ends_sbind [OF grow_ends] ends_sbind [OF engine_ends] ends_sbind [OF shrink_ends]
        reopened_ends [folded at_sizes_def] calm left) (assumption | rule refl)+
qed

lemma resize_outcome:
  assumes run: "resize_workers_elastic_ep rz d plan (self, w) = (r, (self', w'))"
    and i: "dp_instances d = [i]" "ih_backend_instance (handle_at w i) = Some a" and calm: "calm \<Longrightarrow> undisturbed rz"
    and left: "sized \<Longrightarrow> isl (snd (rz_scale rz)) \<Longrightarrow> \<not> rz_scale_left rz"
  shows "case r of
      Inl e \<Rightarrow> stopped calm sized i a (pp_data_parallel_size (dp_plan d)) (w_calls w) w'
    | Inr d' \<Rightarrow> resizing calm sized i a (pp_data_parallel_size (dp_plan d)) (w_calls w) (pp_data_parallel_size plan)
                (pp_data_parallel_size plan) w' \<and> ih_ready (handle_at w' i)
              \<and> ih_state (handle_at w' i) = instance_state.READY \<and> ih_num_gpu (handle_at w' i) = pp_data_parallel_size plan
              \<and> dp_plan d' = plan \<and> dp_instances d' = [i]"
proof (cases "elastic_ep_refusal self rz d plan w = None \<and> (\<exists>g. replica_gpu_count (dp_plan d) = Inr g) \<and> (\<exists>g. replica_gpu_count plan = Inr g)")
  case False
  then have "(\<exists>e. r = Inl e) \<and> w' = w"
    using run by (auto simp: resize_workers_elastic_ep_def Let_def split: option.splits sum.splits)
  then show ?thesis by (auto intro: stoppedI [OF resizing_start [OF refl]])
next
  case True
  then obtain old new where g: "replica_gpu_count (dp_plan d) = Inr old" "replica_gpu_count plan = Inr new"
    and ok: "elastic_ep_refusal self rz d plan w = None" by blast
  from ok have "pp_tensor_parallel_size (dp_plan d) = 1 \<and> pp_pipeline_parallel_size (dp_plan d) = 1
      \<and> pp_tensor_parallel_size plan = 1 \<and> pp_pipeline_parallel_size plan = 1"
    by (auto simp: elastic_ep_refusal_def Let_def split: if_splits)
  then have sizes: "old = pp_data_parallel_size (dp_plan d)" "new = pp_data_parallel_size plan"
    using g by (auto simp: replica_gpu_count_def Let_def split: if_splits)
  note ends = resize_instance_ends [of calm rz sized "w_calls w" i a old new, OF calm left]
  obtain q t where q: "resize_instance rz i a old new old new w = (q, t)"
    by (cases "resize_instance rz i a old new old new w")
  show ?thesis
  proof (cases q)
    case (Inl e)
    then show ?thesis using run q g ok i ends_raise [OF ends _ q [unfolded Inl]] sizes
      by (auto simp: resize_workers_elastic_ep_def Let_def)
  next
    case (Inr u)
    then show ?thesis using run q g ok i ends_value [OF ends _ q [unfolded Inr]] sizes
      by (auto simp: resize_workers_elastic_ep_def Let_def)
  qed
qed


text \<open>
  C36. The engine is asked to rebuild its process group only while the instance is closed to new
  requests and holds none, as long as no other task reopens the instance in the meantime.
\<close>

theorem elastic_resize_asks_idle_engine:
  assumes "resize_workers_elastic_ep rz d plan (self, w) = (r, (self', w'))"
    and "dp_instances d = [i]" and "ih_backend_instance (handle_at w i) = Some a" and "undisturbed rz"
  shows "\<exists>new. w_calls w' = w_calls w @ new \<and> asked_idle new"
  using resize_outcome [OF assms(1-3), of True False] assms(4)
  by (cases r) (auto simp: stopped_def resizing_def)

section \<open>Concrete runs\<close>

text \<open>Two replicas of two GPUs on the nodes \<open>n0\<close> and \<open>n1\<close>; the actor of the second may fail to start.\<close>

definition example_adapter :: adapter where
  "example_adapter = VllmDeploymentAdapter ''m''
     [(''spotserve_elastic_ep_enabled'', PBool True), (''spotserve_vllm_ray_dp_owns_gpus'', PBool True),
      (''data_parallel_backend'', PStr ''ray'')] [(''num_cpus'', 1)] 4 30"

definition example_plan :: "int \<Rightarrow> int \<Rightarrow> string list \<Rightarrow> parallel_plan" where
  "example_plan dp replicas nodes =
     ParallelPlan_init ''m'' ''vllm'' 1 dp 1 (Some replicas) (Some True) (dp * replicas) nodes 0 None ''replan'' None None 0"

definition example_answers :: "bool \<Rightarrow> answers" where
  "example_answers second_starts =
     \<lparr>an_instance_id = (\<lambda>k. if k = 0 then ''a'' else ''b''), an_worker_nodes = Some (Inr (PDict [(''n0'', PDict []), (''n1'', PDict [])])),
      an_allocate = (\<lambda>k target. case target of Some n \<Rightarrow> Inr n | None \<Rightarrow> Inr ''n0''),
      an_allocate_distributed = None, an_ray = \<lparr>rv_resources = [], rv_managed_fallback = False, rv_workers = []\<rparr>,
      an_start = (\<lambda>k. if k = 0 then Inr 10 else if second_starts then Inr 11 else Inl (RuntimeError ''start'')),
      an_init = (\<lambda>k. Inr ())\<rparr>"

definition empty_world :: world where
  "empty_world = \<lparr>w_handles = [], w_calls = []\<rparr>"

lemma create_example:
  "fst (create_workers example_adapter (example_answers False) (example_plan 2 2 [''n0'', ''n1'']) empty_world)
     = Inl (RuntimeError ''start'')
   \<and> w_calls (snd (create_workers example_adapter (example_answers False) (example_plan 2 2 [''n0'', ''n1'']) empty_world))
     = [Reserve ''a'' [(''n0'', 2)], Start ''a'' 10 0, Init 10, Reserve ''b'' [(''n1'', 2)], Stop 10, Kill 10,
        Release ''a'' [(''num_cpus'', 1), (''num_gpus'', 2)], Release ''b'' [(''num_cpus'', 1), (''num_gpus'', 2)]]"
  by code_simp

theorem create_workers_all_or_nothing_witness:
  "held (w_calls (snd (create_workers example_adapter (example_answers False) (example_plan 2 2 [''n0'', ''n1'']) empty_world))) = {}
   \<and> Reserve ''b'' [(''n1'', 2)]
       \<in> set (w_calls (snd (create_workers example_adapter (example_answers False) (example_plan 2 2 [''n0'', ''n1'']) empty_world)))"
proof -
  let ?plan = "example_plan 2 2 [''n0'', ''n1'']"
  obtain r w' where run: "create_workers example_adapter (example_answers False) ?plan empty_world = (r, w')"
    by (cases "create_workers example_adapter (example_answers False) ?plan empty_world")
  have r: "r = Inl (RuntimeError ''start'')" using create_example run by simp
  have replicas: "replicas_of ?plan = [0, 1]" by code_simp
  have "held (w_calls w') = held (w_calls empty_world)"
    using create_workers_all_or_nothing [OF run] unfolding r replicas
    by (auto simp: example_answers_def example_adapter_def VllmDeploymentAdapter_def empty_world_def held_def running_def
        split: if_splits)
  then show ?thesis using create_example run by (simp add: empty_world_def held_def)
qed

text \<open>An engine of size two with one active request, which ends during the first pause.\<close>

definition serving :: world where
  "serving = \<lparr>w_handles = [(''a'', (InstanceHandle ''a'' 4 2)\<lparr>ih_node_id := Some ''n0'', ih_backend_instance := Some 10,
       ih_ready := True, ih_state := instance_state.READY, ih_concurrency := 1\<rparr>)], w_calls = []\<rparr>"

definition example_deployment :: deployment where
  "example_deployment = \<lparr>dp_plan = example_plan 2 1 [''n0''], dp_instances = [''a''], dp_backend_config = [],
     dp_resource_requirements = [(''num_gpus'', 2)]\<rparr>"

definition example_resize :: "handle_op list \<Rightarrow> pyval res \<Rightarrow> resize_answers" where
  "example_resize ops answer =
     \<lparr>rz_engine_hook = True, rz_scheduler_hook = True, rz_polls = [ops, []], rz_grow = ([], Inr ()),
      rz_scale = ([], answer), rz_scale_left = False, rz_rollback = ([], Inr ()), rz_shrink = ([], Inr ()),
      rz_restore = ([], answer), rz_restore_left = False\<rparr>"

definition resized_answer :: "pyval res" where
  "resized_answer = Inr (PDict [(''resized'', PBool True)])"

lemma resize_example:
  "map_sum id dp_plan (fst (resize_workers_elastic_ep (example_resize [Add_Requests (-1)] resized_answer) example_deployment
       (example_plan 4 1 [''n0'']) (example_adapter, serving))) = Inr (example_plan 4 1 [''n0''])
   \<and> length (w_calls (snd (snd (resize_workers_elastic_ep (example_resize [Add_Requests (-1)] resized_answer) example_deployment
       (example_plan 4 1 [''n0'']) (example_adapter, serving))))) = 2"
  by code_simp


theorem elastic_resize_asks_idle_engine_witness:
  "asked_idle (w_calls (snd (snd (resize_workers_elastic_ep (example_resize [Add_Requests (-1)] resized_answer)
       example_deployment (example_plan 4 1 [''n0'']) (example_adapter, serving)))))
   \<and> length (w_calls (snd (snd (resize_workers_elastic_ep (example_resize [Add_Requests (-1)] resized_answer) example_deployment
       (example_plan 4 1 [''n0'']) (example_adapter, serving))))) = 2"
proof -
  obtain r self' w' where run: "resize_workers_elastic_ep (example_resize [Add_Requests (-1)] resized_answer) example_deployment
       (example_plan 4 1 [''n0'']) (example_adapter, serving) = (r, (self', w'))"
    by (cases "resize_workers_elastic_ep (example_resize [Add_Requests (-1)] resized_answer) example_deployment
       (example_plan 4 1 [''n0'']) (example_adapter, serving)") auto
  have at: "dp_instances example_deployment = [''a'']" "ih_backend_instance (handle_at serving ''a'') = Some 10"
    "w_calls serving = []" "undisturbed (example_resize [Add_Requests (-1)] resized_answer)" by code_simp+
  have "asked_idle (w_calls w')"
    using elastic_resize_asks_idle_engine [OF run at(1,2,4)] at(3) by auto
  then show ?thesis using resize_example run by simp
qed

text \<open>
  When the engine refuses the resize, the reservation is rolled back but the instance, drained and
  with its engine intact, stays closed: no later call of the adapter reopens it.
\<close>

lemma failed_resize_leaves_instance_closed:
  "let (r, _, w) = resize_workers_elastic_ep
         (example_resize [Add_Requests (-1)] (Inr (PDict [(''resized'', PBool False), (''reason'', PStr ''busy'')])))
         example_deployment (example_plan 4 1 [''n0'']) (example_adapter, serving)
   in (case r of Inl _ \<Rightarrow> True | Inr _ \<Rightarrow> False) \<and> ih_state (handle_at w ''a'') = DRAINING
      \<and> reserved_after ''a'' 2 (w_calls w) = 2 \<and> engine_after 10 2 (w_calls w) = 2"
  by code_simp

text \<open>
  The backend's side of the call: for an engine that has the size of its configuration, the size the
  adapter's record of the call names is the engine's size, whatever fails, and an engine that is
  left at another size than before by a call that raises has stopped taking requests.
\<close>

definition configured :: "vllm_engine \<Rightarrow> bool" where
  "configured en \<longleftrightarrow> dgetn (ve_config en) ''data_parallel_size'' = PInt (ve_size en) \<and> 1 \<le> ve_size en"

lemma configured_size:
  "configured en \<Longrightarrow> py_int (por (dget (ve_config en) ''data_parallel_size'' (PInt 1)) (PInt 1)) = Inr (ve_size en)"
  by (auto simp: configured_def dgetn_def dget_def por_def split: option.splits)

lemma engine_took_exact:
  assumes "configured en" and run: "scale_elastic_ep new_dp scaled verified rolled_back en = (answer, en')"
  shows "(\<not> isl answer \<longrightarrow> engine_resized answer \<and> ve_size en' = new_dp \<and> configured en')
    \<and> (isl answer \<longrightarrow> ve_size en' = ve_size en \<or> ve_status en' = STOPPING)"
proof -
  have "configured (en\<lparr>ve_size := new_dp, ve_config := dmerge (ve_config en)
      [(''data_parallel_size'', PInt new_dp), (''vllm_data_parallel_size'', PInt new_dp)]\<rparr>)" if "1 \<le> new_dp"
    using that by (simp add: configured_def dgetn_def dget_def dmerge_def AList.update_conv')
  then show ?thesis
    using run assms(1) unfolding scale_elastic_ep_def configured_size [OF assms(1)]
    by (auto simp: engine_resized_def dgetn_def dget_def split: if_splits sum.splits prod.splits bool.splits)
qed

lemma rollback_failed_left:
  assumes "configured en" and "ve_status en = RUNNING" "ve_elastic_ep_enabled en" "ve_ray_dp_owns_gpus en" "ve_scale_hook en"
    and "1 \<le> new_dp" "new_dp \<noteq> ve_size en"
  shows "scale_elastic_ep new_dp (Inr (), new_dp) (Inr False) (Inl e) en =
    (Inl (RuntimeError ''elastic_ep_resize_rollback_failed''), en\<lparr>ve_status := STOPPING, ve_size := new_dp\<rparr>)"
  using assms by (simp add: scale_elastic_ep_def configured_size)

text \<open>
  The engine grows from two to four, the check of its placement fails, and the backend cannot roll it
  back: the call raises with the engine at four. The adapter rolls the reservation back, so that the
  engine has four GPUs and two of them are reserved.
\<close>

lemma failed_rollback_overcommits:
  "let (r, _, w) = resize_workers_elastic_ep
         ((example_resize [Add_Requests (-1)] (Inl (RuntimeError ''elastic_ep_resize_rollback_failed'')))\<lparr>rz_scale_left := True\<rparr>)
         example_deployment (example_plan 4 1 [''n0'']) (example_adapter, serving)
   in r = Inl (RuntimeError ''elastic_ep_resize_rollback_failed'')
      \<and> engine_after 10 2 (w_calls w) = 4 \<and> reserved_after ''a'' 2 (w_calls w) = 2"
  by code_simp

text \<open>
  A recovery from a preemption that arrives while the instance drains reopens it: the engine is
  asked while the instance takes requests, and the resize is reported as failed after the engine and
  the reservation have the new size.
\<close>

lemma recovery_reopens_during_resize:
  "let (r, _, w) = resize_workers_elastic_ep
         (example_resize [Mark_Preempting, Mark_Recovered, Add_Requests (-1)] resized_answer)
         example_deployment (example_plan 4 1 [''n0'']) (example_adapter, serving)
   in r = Inl (RuntimeError ''elastic_ep_instance_state_changed_during_resize:state=ready'')
      \<and> engine_after 10 2 (w_calls w) = 4 \<and> reserved_after ''a'' 2 (w_calls w) = 4 \<and> ih_num_gpu (handle_at w ''a'') = 2
      \<and> list_ex (\<lambda>c. case c of Scale _ _ h _ \<Rightarrow> can_accept_request 1 h | _ \<Rightarrow> False) (w_calls w)"
  by code_simp

text \<open>A remapping that fails at the second instance leaves the new placement applied on the first.\<close>

lemma failed_remap_is_partial:
  "let w = (serving\<lparr>w_handles := w_handles serving @ [(''b'', (InstanceHandle ''b'' 4 2)\<lparr>ih_backend_instance := Some 11\<rparr>)]\<rparr>);
       d = example_deployment\<lparr>dp_instances := [''a'', ''b'']\<rparr>;
       plan = (example_plan 2 2 [''n0''])\<lparr>pp_expert_placement_plan := Some [(''live_expert_remap'', PBool True)]\<rparr>;
       (r, self, w') = remap_workers_in_place
         (\<lambda>i. Some (Inr (PDict [(''success'', PBool (i = ''a''))]))) d plan (example_adapter, w)
   in (case r of Inl _ \<Rightarrow> True | Inr _ \<Rightarrow> False) \<and> w_calls w' = [Remap 10] \<and> self = example_adapter"
  by code_simp

text \<open>
  The configuration of a plan starts from the one in use, so a plan without an expert placement
  inherits the placement of an earlier plan.
\<close>

lemma stale_expert_placement_carried:
  "dgetn (plan_backend_config (example_adapter\<lparr>va_backend_config := [(''expert_placement_plan'', PDict [(''epoch'', PInt 1)])]\<rparr>)
      (example_plan 2 1 [''n0''])) ''expert_placement_plan'' = PDict [(''epoch'', PInt 1)]
   \<and> pp_expert_placement_plan (example_plan 2 1 [''n0'']) = None"
  by code_simp

text \<open>
  Replicas go to the target nodes in turn, whatever these can hold: of four replicas for nodes chosen
  for six and two GPUs the second node is asked for two.
\<close>

lemma replicas_in_turn_ignore_capacity:
  "select_target_nodes
     [(''big'', [(''free_gpu'', PInt 6), (''total_gpu'', PInt 6), (''state'', PStr ''ready'')]),
      (''small'', [(''free_gpu'', PInt 2), (''total_gpu'', PInt 2), (''state'', PStr ''ready'')])] 8 True
     = Inr [''big'', ''small'']
   \<and> map (target_node_of [''big'', ''small'']) [0, 1, 2, 3]
     = [Some ''big'', Some ''small'', Some ''big'', Some ''small'']"
  by code_simp

end
