(* ===== verification/Router_Replan_Props.thy ===== *)
theory Router_Replan_Props
  imports Router_Replan Vllm_Adapter_Props
begin

text \<open>
  Replanning: when plans are the same, that a deployment just created is recognised so that a replan
  with the same plan changes nothing, which in-place execution is chosen and that the adapter accepts
  it, and what a failed execution leaves.
\<close>

section \<open>Comparing plans\<close>

lemma plans_match_iff:
  "parallel_plans_match json p q \<longleftrightarrow>
     parallel_plan_placement_fingerprint json p = parallel_plan_placement_fingerprint json q \<and> parallel_shapes_match p q"
  by (auto simp: parallel_plans_match_def Let_def)

lemma sort_eq_iff_mset: "sort xs = sort ys \<longleftrightarrow> mset xs = mset ys" for xs :: "'a::linorder list"
  by (metis mset_sort properties_for_sort sorted_sort)

lemma shapes_match_refl [simp]: "parallel_shapes_match p p"
  by (simp add: parallel_shapes_match_def)

text \<open>
  Comparing plans is an equivalence: the order of the target nodes and the reason of a plan do
  not matter, the number of times a node occurs does.
\<close>

lemma plans_match_equiv: "equivp (parallel_plans_match json)"
  by (rule equivpI) (auto simp: reflp_def symp_def transp_def plans_match_iff parallel_shapes_match_def)

lemma plans_match_nodes: "parallel_plans_match json p q \<Longrightarrow> mset (pp_target_nodes p) = mset (pp_target_nodes q)"
  by (simp add: plans_match_iff parallel_shapes_match_def sort_eq_iff_mset)

section \<open>The configuration of a plan, read back\<close>

lemma dget_dmerge:
  "distinct (map fst e) \<Longrightarrow> dget (dmerge d e) k z = (case map_of e k of Some v \<Rightarrow> v | None \<Rightarrow> dget d k z)"
  by (simp add: dget_def map_of_dmerge map_add_def split: option.splits)

lemma shape_entries_keys: "distinct (map fst (shape_entries plan))"
  by (simp add: shape_entries_def Let_def)

text \<open>The keys of the placement's entries, without and with a fingerprint and a snapshot.\<close>

definition placement_keys :: "bool \<Rightarrow> bool \<Rightarrow> string list" where
  "placement_keys fingerprinted snapshotted =
     [''expert_placement_plan'', ''expert_placement_execution_model'', ''expert_placement_execution_model_reason'',
      ''expert_placement_runtime_contract_mode'', ''expert_placement_live_migration_enabled'',
      ''expert_placement_quiescent_remap_enabled'', ''expert_placement_physical_migration_required'',
      ''expert_placement_runtime_verification_level'', ''expert_placement_runtime_verified_placement'',
      ''expert_placement_runtime_can_verify_physical_placement'', ''expert_placement_runtime_can_remap_live_ep_rank'',
      ''expert_placement_runtime_can_measure_all_to_all'', ''expert_placement_runtime_capability_reason'', ''placement_source'']
     @ (if fingerprinted then [''expert_placement_fingerprint'', ''expert_placement_plan_fingerprint'',
          ''expert_placement_contract_fingerprint''] else [])
     @ [''expert_placement_contract_available'', ''expert_placement_contract_source'', ''expert_placement_contract_epoch'',
        ''expert_placement_plan_applied'', ''expert_placement_plan_verified'']
     @ (if snapshotted then [''expert_placement_snapshot''] else [])"

lemma placement_entries_fst:
  "map fst (placement_entries plan placement) =
     placement_keys (truthy (dgetn placement ''placement_fingerprint'')) (is_mapping (dgetn placement ''expert_placement_snapshot''))"
  by (simp add: placement_entries_def placement_keys_def Let_def split: pyval.splits)

lemma placement_keys_distinct: "distinct (placement_keys f t)"
proof -
  have "list_all (\<lambda>(f, t). distinct (placement_keys f t)) [(False, False), (False, True), (True, False), (True, True)]"
    by code_simp
  then show ?thesis by (cases f; cases t) simp_all
qed

lemma placement_keys_shape:
  assumes "k \<in> {''tensor_parallel_size'', ''pipeline_parallel_size'', ''data_parallel_size'', ''enable_expert_parallel'', ''placement_epoch''}"
  shows "k \<notin> set (placement_keys f t)"
proof -
  have "list_all (\<lambda>k. k \<notin> set (placement_keys True True))
      [''tensor_parallel_size'', ''pipeline_parallel_size'', ''data_parallel_size'', ''enable_expert_parallel'', ''placement_epoch'']"
    by code_simp
  then have "k \<notin> set (placement_keys True True)" using assms by auto
  then show ?thesis by (auto simp: placement_keys_def)
qed

lemma placement_entries_keys: "distinct (map fst (placement_entries plan placement))"
  by (simp add: placement_entries_fst placement_keys_distinct)

lemma placement_entries_shape:
  assumes "k \<in> {''tensor_parallel_size'', ''pipeline_parallel_size'', ''data_parallel_size'', ''enable_expert_parallel'', ''placement_epoch''}"
  shows "map_of (placement_entries plan placement) k = None"
  unfolding map_of_eq_None_iff set_map [symmetric] placement_entries_fst by (rule placement_keys_shape [OF assms])

lemma placement_entries_plan: "map_of (placement_entries plan placement) ''expert_placement_plan'' = Some (PDict placement)"
  by (simp add: placement_entries_def Let_def)

lemma plan_config_shape:
  assumes "k \<in> {''tensor_parallel_size'', ''pipeline_parallel_size'', ''data_parallel_size'', ''enable_expert_parallel'', ''placement_epoch''}"
  shows "dget (plan_backend_config self plan) k z = (case map_of (shape_entries plan) k of Some v \<Rightarrow> v | None \<Rightarrow> dget (va_backend_config self) k z)"
  using assms
  by (simp add: plan_backend_config_def Let_def dget_dmerge shape_entries_keys placement_entries_keys placement_entries_shape
      split: option.splits)

lemma plan_config_placement:
  assumes "pp_expert_placement_plan plan = Some placement" and "placement \<noteq> []"
  shows "dgetn (plan_backend_config self plan) ''expert_placement_plan'' = PDict placement"
  using assms
  by (simp add: plan_backend_config_def Let_def dgetn_def dget_dmerge placement_entries_keys placement_entries_plan)

lemma plan_config_no_placement:
  assumes "pp_expert_placement_plan plan = None"
  shows "dgetn (plan_backend_config self plan) ''expert_placement_plan'' = dgetn (va_backend_config self) ''expert_placement_plan''"
proof -
  have "map_of (shape_entries plan) ''expert_placement_plan'' = None" by (simp add: shape_entries_def Let_def)
  then show ?thesis
    using assms by (simp add: plan_backend_config_def Let_def dgetn_def dget_dmerge shape_entries_keys)
qed

text \<open>A plan whose replicas each have a target node of their own and that counts their GPUs exactly.\<close>

definition plan_per_node :: "parallel_plan \<Rightarrow> bool" where
  "plan_per_node plan \<longleftrightarrow>
     pp_tensor_parallel_size plan \<ge> 1 \<and> pp_pipeline_parallel_size plan \<ge> 1 \<and> pp_data_parallel_size plan \<ge> 1
     \<and> pp_replica_count plan = int (length (pp_target_nodes plan)) \<and> pp_target_nodes plan \<noteq> []
     \<and> pp_num_gpus plan = pp_replica_count plan *
         (pp_tensor_parallel_size plan * pp_pipeline_parallel_size plan * pp_data_parallel_size plan)"

text \<open>The configuration in use carries no placement that the plan does not replace.\<close>

definition placement_replaced :: "adapter \<Rightarrow> parallel_plan \<Rightarrow> bool" where
  "placement_replaced self plan \<longleftrightarrow>
     (case pp_expert_placement_plan plan of
        Some placement \<Rightarrow> placement \<noteq> []
      | None \<Rightarrow> \<not> is_mapping (dgetn (va_backend_config self) ''expert_placement_plan''))"

lemma snapshot_shape:
  assumes "plan_per_node plan" and "placement_replaced self plan"
  shows "snapshot (self\<lparr>va_backend_config := plan_backend_config self plan, va_resource_requirements := rq\<rparr>) ids w =
     Inr \<lparr>dp_plan = ParallelPlan_init (va_model_name self) ''vllm'' (pp_tensor_parallel_size plan) (pp_data_parallel_size plan)
            (pp_pipeline_parallel_size plan) (Some (max 1 (int (length ids)))) (Some (pp_enable_expert_parallel plan))
            (sum_list (map (\<lambda>i. ih_num_gpu (handle_at w i)) ids)) (concat (map (\<lambda>i. worker_node_ids (handle_at w i)) ids))
            (max 0 (pp_placement_epoch plan)) (pp_expert_placement_plan plan) ''active_deployment'' None None 0,
          dp_instances = ids, dp_backend_config = plan_backend_config self plan,
          dp_resource_requirements = rq\<rparr>"
proof -
  let ?c = "plan_backend_config self plan"
  have sizes: "size_entry ?c ''tensor_parallel_size'' = Inr (pp_tensor_parallel_size plan)"
    "size_entry ?c ''data_parallel_size'' = Inr (pp_data_parallel_size plan)"
    "size_entry ?c ''pipeline_parallel_size'' = Inr (pp_pipeline_parallel_size plan)"
    using assms(1) by (auto simp: size_entry_def plan_config_shape shape_entries_def Let_def por_def plan_per_node_def)
  have epoch: "py_int (por (dget ?c ''placement_epoch'' (PInt 0)) (PInt 0)) = Inr (pp_placement_epoch plan)"
    by (simp add: plan_config_shape shape_entries_def Let_def por_def)
  have ep: "flag ?c ''enable_expert_parallel'' = pp_enable_expert_parallel plan"
    by (simp add: flag_def plan_config_shape shape_entries_def Let_def)
  have placement: "(case dgetn ?c ''expert_placement_plan'' of PDict p \<Rightarrow> Some p | _ \<Rightarrow> None) = pp_expert_placement_plan plan"
    using assms(2)
    by (auto simp: placement_replaced_def plan_config_placement plan_config_no_placement split: option.splits pyval.splits)
  show ?thesis by (simp add: snapshot_def Let_def sizes epoch ep placement)
qed

lemma created_nodes:
  assumes "workers_up self an nodes False g [0..<length nodes] w" and "nodes \<noteq> []"
    and grant: "\<And>k n. an_allocate an k (Some n) = Inr n"
  shows "concat (map (\<lambda>i. worker_node_ids (handle_at w i)) (map (an_instance_id an) [0..<length nodes])) = nodes"
    and "sum_list (map (\<lambda>i. ih_num_gpu (handle_at w i)) (map (an_instance_id an) [0..<length nodes])) = int (length nodes) * g"
proof -
  have up: "worker_node_ids (handle_at w (an_instance_id an k)) = [nodes ! k] \<and> ih_num_gpu (handle_at w (an_instance_id an k)) = g"
    if "k < length nodes" for k
  proof -
    have "k \<in> set [0..<length nodes]" using that by simp
    then obtain gr where "reserve_replica an False g (target_node_of nodes k) k = Inr gr"
        "worker_up self g gr (handle_at w (an_instance_id an k))"
      using bspec [OF assms(1) [unfolded workers_up_def]] by blast
    then show ?thesis
      using that assms(2) by (auto simp: reserve_replica_def target_node_of_def grant worker_up_def py_unique_def)
  qed
  have "map (\<lambda>i. worker_node_ids (handle_at w i)) (map (an_instance_id an) [0..<length nodes])
      = map (\<lambda>k. [nodes ! k]) [0..<length nodes]" using up by simp
  moreover have "concat (map (\<lambda>k. [nodes ! k]) [0..<length nodes]) = nodes"
    by (simp add: concat_map_singleton map_nth)
  ultimately show "concat (map (\<lambda>i. worker_node_ids (handle_at w i)) (map (an_instance_id an) [0..<length nodes])) = nodes"
    by (rule ssubst [where P = "\<lambda>xs. concat xs = nodes"])
  have "map (\<lambda>i. ih_num_gpu (handle_at w i)) (map (an_instance_id an) [0..<length nodes]) = map (\<lambda>k. g) [0..<length nodes]"
    using up by simp
  moreover have "sum_list (map (\<lambda>k. g) [0..<length nodes]) = int (length nodes) * g" by (simp add: sum_list_triv)
  ultimately show "sum_list (map (\<lambda>i. ih_num_gpu (handle_at w i)) (map (an_instance_id an) [0..<length nodes])) = int (length nodes) * g"
    by (rule ssubst [where P = "\<lambda>xs. sum_list xs = int (length nodes) * g"])
qed

lemma created_deployment_recognised:
  assumes run: "create_workers self an plan w = (Inr d, w')"
    and ids: "distinct (map (an_instance_id an) (replicas_of plan))"
    and grant: "\<And>k n. an_allocate an k (Some n) = Inr n"
    and plan: "plan_per_node plan" "placement_replaced self plan" "\<not> allocates_distributed self plan"
  shows "\<exists>d'. snapshot (self\<lparr>va_backend_config := dp_backend_config d, va_resource_requirements := rq\<rparr>)
             (dp_instances d) w' = Inr d'
           \<and> parallel_plans_match json (dp_plan d') plan"
  using run
proof (cases rule: create_workers_cases)
  case (created g d')
  have start: "accounted an (held (w_calls w)) (running (w_calls w)) (planned_deployment self plan g, w)"
    by (simp add: accounted_def planned_deployment_def actors_of_def)
  note c = create_all [OF created(2) [unfolded create_loop_def] ids _ start]
  have "length (pp_target_nodes plan) \<ge> 1" using plan(1) by (cases "pp_target_nodes plan") (auto simp: plan_per_node_def)
  then have replicas: "replicas_of plan = [0..<length (pp_target_nodes plan)]"
    using plan(1) by (simp add: replicas_of_def plan_per_node_def max_absorb1)
  have d: "d' = d" using created(3) by simp
  have config: "dp_backend_config d = plan_backend_config self plan"
    and inst: "dp_instances d = map (an_instance_id an) (replicas_of plan)"
    and up: "workers_up self an (pp_target_nodes plan) False g (replicas_of plan) w'"
    using c plan(3) d by (simp_all add: planned_deployment_def)
  have nodes: "pp_target_nodes plan \<noteq> []" using plan(1) by (simp add: plan_per_node_def)
  note at = created_nodes [OF up [unfolded replicas] nodes grant, folded replicas inst]
  have g: "g = pp_tensor_parallel_size plan * pp_pipeline_parallel_size plan * pp_data_parallel_size plan"
    using created(1) by (auto simp: replica_gpu_count_def Let_def split: if_splits)
  have "int (length (dp_instances d)) = pp_replica_count plan" using plan(1) by (simp add: inst replicas plan_per_node_def)
  moreover have "pp_model_name plan = va_model_name self \<and> pp_backend plan = ''vllm''"
    using run by (auto simp: create_workers_def split: if_splits)
  moreover have "1 \<le> pp_replica_count plan" using plan(1) \<open>length (pp_target_nodes plan) \<ge> 1\<close> by (simp add: plan_per_node_def)
  moreover from this have "1 \<le> pp_num_gpus plan"
    using plan(1) by (simp add: plan_per_node_def int_one_le_iff_zero_less zero_less_mult_iff)
  ultimately show ?thesis
    unfolding config snapshot_shape [OF plan(1,2)] at using plan(1) g
    by (auto simp: plans_match_iff parallel_plan_placement_fingerprint_def parallel_shapes_match_def ParallelPlan_init_def
        effective_expert_parallel_size_def plan_per_node_def int_or_one_def max_def)
qed simp_all

section \<open>Keeping the deployment\<close>

lemma execution_model_keys:
  "map_of (execution_model_fields decision) ''action'' = None" "map_of (execution_model_fields decision) ''parallel_plan'' = None"
  by (simp_all add: execution_model_fields_def Let_def)

lemma execution_model_distinct: "distinct (map fst (execution_model_fields decision))"
  by (simp add: execution_model_fields_def Let_def)

lemma decision_with_model:
  "dgetn (dmerge decision (execution_model_fields d)) ''action'' = dgetn decision ''action''"
  "dgetn (dmerge decision (execution_model_fields d)) ''parallel_plan'' = dgetn decision ''parallel_plan''"
  by (simp_all add: dgetn_def dget_dmerge execution_model_distinct execution_model_keys)

lemma carry_out_keeps:
  assumes "rp_backend rp = ''vllm''" "rp_enable_reparallelization rp" "rp_adapter rp = Some a"
    and "snapshot a (rp_ready rp) w = Inr d"
    and "dgetn decision ''action'' = PStr ''reparallelize''" "ParallelPlan_from_dict (dgetn decision ''parallel_plan'') = Inr plan"
    and "parallel_plans_match (ra_json ra) (dp_plan d) plan"
  shows "\<exists>decision'. carry_out ra decision (rp, w) = (Inr decision', (rp, w)) \<and> dgetn decision' ''action'' = PStr ''unchanged''"
proof -
  have "dgetn decision ''parallel_plan'' \<noteq> PNone" using assms(6) by (auto simp: ParallelPlan_from_dict_def)
  then have "carry_out ra decision (rp, w) =
      (let dec = AList.update ''action'' (PStr ''unchanged'') (dmerge decision (execution_model_fields decision));
           model = execution_model_fields dec
       in (Inr (AList.update ''execution''
             (PDict ([(''status'', PStr ''unchanged'')] @ model @
                [(''parallel_plan'', dgetn decision ''parallel_plan''), (''reason'', PStr ''planner_selected_existing_plan'')]))
             (dmerge dec model)), (rp, w)))"
    using assms by (simp add: carry_out_def sbind_def lift_def ensure_adapter_def active_deployment_def keeps_deployment_def
        decision_with_model Let_def)
  then show ?thesis
    by (simp add: Let_def dgetn_def dget_dmerge execution_model_distinct execution_model_keys dget_update)
qed

text \<open>
  C37. Replanning settles: once the workers of a plan were created and the traffic was switched to
  them, a decision of the planner for the same plan is recognised as unchanged and changes neither the
  router nor the deployment. This is for plans with as many target nodes as replicas and exactly the GPUs
  that the degrees of parallelism of the replicas need, whose placement of experts replaces the one of the
  configuration (or neither has one), whose GPUs are not allocated as one distributed group, with instance
  identifiers that differ, and when the scheduler grants the requested nodes. Without a node of its
  own for every replica it fails, as \<open>shared_node_not_recognised\<close> shows.
\<close>

theorem replan_settles:
  assumes created: "create_workers self an plan w = (Inr d, w')" "distinct (map (an_instance_id an) (replicas_of plan))"
    and grant: "\<And>k n. an_allocate an k (Some n) = Inr n"
    and plan: "plan_per_node plan" "placement_replaced self plan" "\<not> allocates_distributed self plan"
    and switched: "switch_vllm_deployment scheduler_nodes d plan (rp, w') = (Inr (), (rp', w'))"
    and router: "rp_adapter rp = Some self" "rp_backend rp = ''vllm''" "rp_enable_reparallelization rp"
    and decision: "dgetn decision ''action'' = PStr ''reparallelize''"
      "ParallelPlan_from_dict (dgetn decision ''parallel_plan'') = Inr plan'" "parallel_plans_match (ra_json ra) plan plan'"
  shows "\<exists>decision'. carry_out ra decision (rp', w') = (Inr decision', (rp', w'))
           \<and> dgetn decision' ''action'' = PStr ''unchanged''"
proof -
  have rp': "rp_backend rp' = ''vllm''" "rp_enable_reparallelization rp'" "rp_ready rp' = dp_instances d"
    "rp_adapter rp' = Some (self\<lparr>va_backend_config := dp_backend_config d, va_resource_requirements := dp_resource_requirements d\<rparr>)"
    using switched router by (auto simp: switch_vllm_deployment_def split: if_splits sum.splits)
  obtain d' where d': "snapshot (self\<lparr>va_backend_config := dp_backend_config d, va_resource_requirements := dp_resource_requirements d\<rparr>)
      (dp_instances d) w' = Inr d'" and m: "parallel_plans_match (ra_json ra) (dp_plan d') plan"
    using created_deployment_recognised [OF created grant plan] by blast
  have "parallel_plans_match (ra_json ra) (dp_plan d') plan'"
    using m decision(3) by (rule equivp_transp [OF plans_match_equiv])
  then show ?thesis
    using carry_out_keeps [OF rp'(1,2,4) d' [folded rp'(3)] decision(1,2)] by simp
qed

section \<open>In-place executions\<close>

text \<open>
  The router chooses the resize in place only when the adapter accepts it: with the same
  configuration, an actor and both hooks the adapter refuses none of the deployments and plans the router
  selects for it, and never is the same change also a candidate for the remapping of experts.
\<close>

theorem elastic_choice_accepted:
  assumes chosen: "elastic_ep_resize (va_backend_config self) (Some d) (Some plan) w"
    and "rz_engine_hook rz" "rz_scheduler_hook rz" "ih_backend_instance (handle_at w (hd (dp_instances d))) \<noteq> None"
  shows "elastic_ep_refusal self rz d plan w = None \<and> \<not> live_in_place_remap json (Some d) (Some plan) w"
  using assms
  by (auto simp: elastic_ep_resize_def elastic_ep_refusal_def live_in_place_remap_def parallel_shapes_match_def Let_def)

text \<open>What routes requests: the pools and the configuration new instances start with.\<close>

definition routing :: "replanner \<Rightarrow> string list \<times> string list \<times> string list \<times> dict \<times> (string \<times> int) list \<times> dict" where
  "routing rp = (rp_starting rp, rp_ready rp, rp_deleting rp, rp_backend_config rp, rp_resource_requirements rp,
     rp_auto_scaling_config rp)"

lemma on_adapter_routing: "on_adapter m s = (r, t) \<Longrightarrow> routing (fst t) = routing (fst s)"
  by (auto simp: on_adapter_def routing_def split: option.splits prod.splits)

lemma switch_failed: "switch_vllm_deployment sn d plan s = (Inl e, t) \<Longrightarrow> t = s"
  by (auto simp: switch_vllm_deployment_def split: prod.splits if_splits sum.splits)

lemma in_place_failed:
  assumes "sbind (on_adapter m) (\<lambda>d'. sbind (switch_vllm_deployment sn d' plan) (\<lambda>_. lift (\<lambda>_. Inr (f d')))) s = (Inl e, t)"
  shows "routing (fst t) = routing (fst s)"
  using assms by (auto simp: sbind_Inl dest: on_adapter_routing switch_failed)

text \<open>Backends without metadata leave nothing the report could fail on.\<close>

lemma metadata_rows_none: "(\<And>i. metadata i = Inr PNone) \<Longrightarrow> metadata_rows metadata w ids = Inr []"
  by (induction ids) (auto simp: select_target_metadata_def)

lemma status_value_none: "\<exists>v. status_value [] kind key = Inr v"
  by (cases kind) simp_all

lemma status_without_metadata:
  assumes "\<And>i. ra_status_metadata ra i = Inr PNone"
  shows "\<exists>report. deployment_expert_placement_runtime_status ra d w = Inr report"
proof -
  have "\<exists>fs. rmap (\<lambda>(name, kind, key). rbind (status_value [] kind key) (\<lambda>v. Inr (name, v))) xs = Inr fs"
    for xs :: "(string \<times> status_kind \<times> string) list"
  proof (induction xs)
    case (Cons x xs)
    then show ?case using status_value_none by (cases x) force
  qed simp
  then show ?thesis
    using metadata_rows_none [OF assms] by (auto simp: deployment_expert_placement_runtime_status_def)
qed

text \<open>
  C38. A failed execution is a report, never an exception of the replan, and always ends the marking
  of the router as executing. When a resize or a remapping in place is reported as failed, either
  the requests are routed as before, with the pools of instances, the configuration and the bounds of
  the scaler from before it, or the change and the switch of the traffic had succeeded and only
  collecting the backends' metadata for the report failed after them.
\<close>

theorem failed_execution_keeps_routing:
  assumes run: "run_execution ra decision active plan (rp, w) = (r, (rp', w'))"
  shows "\<not> rp_execution_active rp' \<and> (\<forall>e. r = Inl e \<longrightarrow> e = OutOfModel)
    \<and> (\<forall>report. r = Inr report \<longrightarrow> dgetn report ''status'' = PStr ''failed'' \<longrightarrow>
         elastic_ep_resize (rp_backend_config rp) active (Some plan) w \<or> live_in_place_remap (ra_json ra) active (Some plan) w \<longrightarrow>
         routing rp' = routing rp
         \<or> (\<exists>d' changed rp1 e. execute_plan ra (rp_backend_config rp) active plan (rp\<lparr>rp_execution_active := True\<rparr>, w) =
              (Inr (d', changed), (rp1, w')) \<and> routing rp' = routing rp1
            \<and> deployment_expert_placement_runtime_status ra d' w' = Inl e))"
proof -
  let ?s = "(rp\<lparr>rp_execution_active := True\<rparr>, w)"
  obtain q rp1 w1 where q: "execute_plan ra (rp_backend_config rp) active plan ?s = (q, (rp1, w1))"
    by (cases "execute_plan ra (rp_backend_config rp) active plan ?s") auto
  have failed: "routing rp1 = routing rp" if raised: "q = Inl e"
    and choice: "elastic_ep_resize (rp_backend_config rp) active (Some plan) w \<or> live_in_place_remap (ra_json ra) active (Some plan) w" for e
  proof -
    obtain d where d: "active = Some d"
      using choice by (cases active) (auto simp: elastic_ep_resize_def live_in_place_remap_def)
    have "routing (fst (rp1, w1)) = routing (fst ?s)"
      using q raised choice d by (auto simp: execute_plan_def Let_def simp del: fst_conv split: if_splits dest: in_place_failed)
    then show ?thesis by (simp add: routing_def)
  qed
  show ?thesis
  proof (cases q)
    case (Inl e)
    then have "w' = w1" "rp' = rp1\<lparr>rp_execution_active := False\<rparr>"
      "r = (if e = OutOfModel then Inl e else Inr (failed_execution (execution_model_fields decision) e))"
      using run q by (auto simp: run_execution_def sbind_def Let_def split: if_splits)
    then show ?thesis using failed [OF Inl] by (auto simp: routing_def)
  next
    case (Inr x)
    obtain d' changed where x: "x = (d', changed)" by (cases x)
    show ?thesis
    proof (cases "deployment_expert_placement_runtime_status ra d' w1")
      case (Inl e)
      then have out: "w' = w1" "rp' = rp1\<lparr>rp_execution_active := False\<rparr>"
        "r = (if e = OutOfModel then Inl e else Inr (failed_execution (execution_model_fields decision) e))"
        using run q Inr x by (auto simp: run_execution_def sbind_def lift_def Let_def split: if_splits)
      then have "\<exists>d' changed rp1 e. execute_plan ra (rp_backend_config rp) active plan ?s = (Inr (d', changed), (rp1, w'))
          \<and> routing rp' = routing rp1 \<and> deployment_expert_placement_runtime_status ra d' w' = Inl e"
        using q Inr x Inl by (auto simp: routing_def)
      then show ?thesis using out by auto
    next
      case (Inr runtime)
      then have "rp' = rp1\<lparr>rp_execution_active := False\<rparr>" "\<exists>rest. r = Inr ((''status'', PStr ''applied'') # rest)"
        using run q \<open>q = Inr x\<close> x by (auto simp: run_execution_def sbind_def lift_def Let_def split: if_splits)
      then show ?thesis by (auto simp: dgetn_def dget_def)
    qed
  qed
qed

section \<open>The observed workload\<close>

text \<open>
  For arrivals in the order of time the snapshot of the workload keeps exactly those of the
  window, and its arrival rate is never negative and at most one request per microsecond of span.
\<close>

theorem workload_window_exact:
  assumes "sorted (rp_arrivals rp)" and "reparallelization_workload_snapshot now rp = Inr (workload, rp')"
  shows "rp_arrivals rp' = filter (\<lambda>a. now - a \<le> max (rp_workload_window_s rp) 1) (rp_arrivals rp)
    \<and> (\<exists>rate. dgetn workload ''arrival_rate_req_s'' = PFloat rate \<and> 0 \<le> rate
         \<and> rate \<le> of_nat (length (rp_arrivals rp')) * 1000000)
    \<and> dgetn workload ''sample_count'' = PInt (int (length (rp_arrivals rp')))"
proof -
  let ?W = "max (rp_workload_window_s rp) 1"
  have window: "arrivals_in_window now W xs = filter (\<lambda>a. now - a \<le> W) xs" if "sorted xs" for W xs
    using that unfolding arrivals_in_window_def
  proof (induction xs)
    case (Cons x xs)
    show ?case
    proof (cases "now - x > W")
      case False
      then have "now - y \<le> W" if "y \<in> set xs" for y using Cons.prems that by (auto intro: order_trans [of _ "now - x"])
      then have "filter (\<lambda>a. now - a \<le> W) xs = xs" by simp
      then show ?thesis using False by simp
    qed (use Cons in auto)
  qed simp
  have rate: "0 \<le> arrival_rate W xs \<and> arrival_rate W xs \<le> of_nat (length xs) * 1000000" if "1 \<le> W" for W xs
  proof (cases "length xs \<ge> 2")
    case True
    let ?m = "max (last xs - hd xs) (1 / 1000000 :: rat)"
    have m: "1 / 1000000 \<le> ?m" "0 < ?m" by (auto simp: max_def)
    have "of_nat (length xs - 1) / ?m \<le> of_nat (length xs - 1) / (1 / 1000000 :: rat)"
      using m by (intro divide_left_mono) auto
    also have "\<dots> \<le> of_nat (length xs) * 1000000" by simp
    finally show ?thesis using True m by (simp add: arrival_rate_def)
  next
    case False
    have "1 / W \<le> 1" using that by simp
    then have "1 / W \<le> of_nat (length xs) * 1000000" if "xs \<noteq> []" using that by (cases xs) auto
    then show ?thesis using False that by (auto simp: arrival_rate_def)
  qed
  have "rp_arrivals rp' = arrivals_in_window now ?W (rp_arrivals rp)"
    "dgetn workload ''arrival_rate_req_s'' = PFloat (arrival_rate ?W (rp_arrivals rp'))"
    "dgetn workload ''sample_count'' = PInt (int (length (rp_arrivals rp')))"
    using assms(2) by (auto simp: reparallelization_workload_snapshot_def Let_def dgetn_def dget_def)
  then show ?thesis using window [OF assms(1), of ?W] rate [of ?W "rp_arrivals rp'"] by auto
qed

section \<open>Concrete replans\<close>

definition example_replanner :: "string list \<Rightarrow> replanner" where
  "example_replanner ready_ids =
     \<lparr>rp_enable_reparallelization = True, rp_model_name = ''m'', rp_backend = ''vllm'', rp_config = [],
      rp_backend_config = va_backend_config example_adapter, rp_resource_requirements = [(''num_cpus'', 1), (''num_gpus'', 2)],
      rp_auto_scaling_config = [], rp_adapter = Some example_adapter, rp_worker_nodes = [], rp_arrivals = [1, 7, 8, 10],
      rp_latencies_ms = [], rp_workload_window_s = 5, rp_starting = [], rp_ready = ready_ids, rp_deleting = [],
      rp_execution_active = False\<rparr>"

definition example_replan_answers :: "nodes res option \<Rightarrow> replan_answers" where
  "example_replan_answers scheduler_nodes =
     \<lparr>ra_scheduler = True, ra_scheduler_nodes = scheduler_nodes, ra_now = 10, ra_metadata = (\<lambda>_. Inr PNone), ra_status_metadata = (\<lambda>_. Inr PNone),
      ra_place = (\<lambda>_ _ _ _ _. Inr None), ra_backend_plans = (\<lambda>_. None), ra_json = (\<lambda>_. ''json''),
      ra_resize = example_resize [Add_Requests (-1)] resized_answer, ra_remap = (\<lambda>_. None),
      ra_apply = (\<lambda>_ s. (Inl (RuntimeError ''apply''), s))\<rparr>"

definition example_decision :: "parallel_plan \<Rightarrow> dict" where
  "example_decision plan =
     [(''action'', PStr ''reparallelize''), (''parallel_plan'', PDict (ParallelPlan_to_dict plan))]"

definition two_nodes :: parallel_plan where
  "two_nodes = example_plan 2 2 [''n0'', ''n1'']"

definition created_example :: "deployment res \<times> world" where
  "created_example = create_workers example_adapter (example_answers True) two_nodes empty_world"

definition switched_example :: "unit res \<times> replanner \<times> world" where
  "switched_example =
     switch_vllm_deployment None (projr (fst created_example)) two_nodes (example_replanner [], snd created_example)"

lemma created_example_facts:
  "\<not> isl (fst created_example) \<and> fst switched_example = Inr () \<and> snd (snd switched_example) = snd created_example
   \<and> replicas_of two_nodes = [0, 1] \<and> plan_per_node two_nodes \<and> placement_replaced example_adapter two_nodes
   \<and> \<not> allocates_distributed example_adapter two_nodes
   \<and> rp_ready (fst (snd switched_example)) = [''a'', ''b'']"
  by code_simp

lemma example_decision_parses: "ParallelPlan_from_dict (dgetn (example_decision two_nodes) ''parallel_plan'') = Inr two_nodes"
  by code_simp

theorem replan_settles_witness:
  "\<exists>decision'. carry_out (example_replan_answers None) (example_decision two_nodes) (snd switched_example)
     = (Inr decision', snd switched_example) \<and> dgetn decision' ''action'' = PStr ''unchanged''"
proof -
  let ?ra = "example_replan_answers None"
  have run: "create_workers example_adapter (example_answers True) two_nodes empty_world
      = (Inr (projr (fst created_example)), snd created_example)"
    using created_example_facts by (simp add: created_example_def [symmetric] prod_eq_iff sum.collapse)
  have ids: "distinct (map (an_instance_id (example_answers True)) (replicas_of two_nodes))"
    using created_example_facts by (simp add: example_answers_def)
  have grant: "an_allocate (example_answers True) k (Some n) = Inr n" for k n by (simp add: example_answers_def)
  have sw: "switched_example = (Inr (), (fst (snd switched_example), snd created_example))"
    using created_example_facts by (simp only: prod_eq_iff fst_conv snd_conv simp_thms)
  define rp' where "rp' = fst (snd switched_example)"
  have switched: "switch_vllm_deployment None (projr (fst created_example)) two_nodes (example_replanner [], snd created_example)
      = (Inr (), (rp', snd created_example))"
    unfolding rp'_def by (rule trans [OF switched_example_def [symmetric] sw])
  have s: "snd switched_example = (rp', snd created_example)"
    unfolding rp'_def using created_example_facts by (simp only: prod_eq_iff fst_conv snd_conv simp_thms)
  have router: "rp_adapter (example_replanner []) = Some example_adapter" "rp_backend (example_replanner []) = ''vllm''"
    "rp_enable_reparallelization (example_replanner [])" by (simp_all add: example_replanner_def)
  have decision: "dgetn (example_decision two_nodes) ''action'' = PStr ''reparallelize''"
    by (simp add: example_decision_def dgetn_def dget_def)
  have plan: "plan_per_node two_nodes" "placement_replaced example_adapter two_nodes" "\<not> allocates_distributed example_adapter two_nodes"
    using created_example_facts by simp_all
  show ?thesis unfolding s
    using replan_settles [OF run ids grant plan switched router decision example_decision_parses, of ?ra]
    by (simp add: plans_match_iff)
qed

text \<open>The single instance of size two, serving on \<open>n0\<close>, and a plan of size four.\<close>

theorem elastic_choice_accepted_witness:
  "elastic_ep_resize (va_backend_config example_adapter) (Some example_deployment) (Some (example_plan 4 1 [''n0''])) serving
   \<and> elastic_ep_refusal example_adapter (example_resize [] resized_answer) example_deployment (example_plan 4 1 [''n0'']) serving = None"
proof -
  have chosen: "elastic_ep_resize (va_backend_config example_adapter) (Some example_deployment) (Some (example_plan 4 1 [''n0''])) serving"
    and hooks: "rz_engine_hook (example_resize [] resized_answer)" "rz_scheduler_hook (example_resize [] resized_answer)"
      "ih_backend_instance (handle_at serving (hd (dp_instances example_deployment))) \<noteq> None" by code_simp+
  show ?thesis using elastic_choice_accepted [OF chosen hooks, of "\<lambda>_. []"] chosen by simp
qed

text \<open>
  The node of the instance is preempted between the resize and the switch of the traffic. The
  execution is reported as failed and requests are routed as before, but the engine, its reservation
  and the adapter have the new size while the router still has the old one.
\<close>

definition lost_node :: nodes where
  "lost_node = [(''n0'', [(''state'', PStr ''preempting'')])]"

definition lost_execution :: "dict res \<times> replanner \<times> world" where
  "lost_execution = run_execution (example_replan_answers (Some (Inr lost_node))) (example_decision (example_plan 4 1 [''n0'']))
     (Some example_deployment) (example_plan 4 1 [''n0'']) (example_replanner [''a''], serving)"

lemma lost_execution_facts:
  "\<not> isl (fst lost_execution) \<and> dgetn (projr (fst lost_execution)) ''status'' = PStr ''failed''
   \<and> dgetn (projr (fst lost_execution)) ''reason'' = PStr ''target_worker_no_longer_ready:n0''
   \<and> engine_after 10 2 (w_calls (snd (snd lost_execution))) = 4 \<and> reserved_after ''a'' 2 (w_calls (snd (snd lost_execution))) = 4
   \<and> map_option va_resource_requirements (rp_adapter (fst (snd lost_execution))) = Some [(''num_gpus'', 4)]
   \<and> rp_resource_requirements (fst (snd lost_execution)) = [(''num_cpus'', 1), (''num_gpus'', 2)]
   \<and> elastic_ep_resize (rp_backend_config (example_replanner [''a''])) (Some example_deployment)
       (Some (example_plan 4 1 [''n0''])) serving"
  by code_simp

theorem failed_execution_keeps_routing_witness:
  "routing (fst (snd lost_execution)) = routing (example_replanner [''a''])
   \<and> dgetn (projr (fst lost_execution)) ''status'' = PStr ''failed''"
proof -
  obtain r rp' w' where run: "lost_execution = (r, (rp', w'))" by (cases lost_execution) auto
  have facts: "r = Inr (projr r)" "dgetn (projr r) ''status'' = PStr ''failed''"
    "elastic_ep_resize (rp_backend_config (example_replanner [''a''])) (Some example_deployment) (Some (example_plan 4 1 [''n0''])) serving"
    using lost_execution_facts by (simp_all add: run sum.collapse)
  have "routing rp' = routing (example_replanner [''a''])
      \<or> (\<exists>d' e. deployment_expert_placement_runtime_status (example_replan_answers (Some (Inr lost_node))) d' w' = Inl e)"
    using failed_execution_keeps_routing [OF run [unfolded lost_execution_def]] facts by blast
  moreover have "deployment_expert_placement_runtime_status (example_replan_answers (Some (Inr lost_node))) d' w' \<noteq> Inl e" for d' e
    using status_without_metadata [of "example_replan_answers (Some (Inr lost_node))" d' w']
    by (auto simp: example_replan_answers_def)
  ultimately show ?thesis using facts by (simp add: run)
qed

text \<open>
  A resize succeeds and the traffic is switched to the new size, but the backend reports a number of
  moved bytes that is no number: the execution is reported as failed although the router has the new
  configuration and stays with it.
\<close>

definition late_failure :: "dict res \<times> replanner \<times> world" where
  "late_failure = run_execution
     ((example_replan_answers None)\<lparr>ra_status_metadata :=
        (\<lambda>_. Inr (PDict [(''expert_placement_runtime_moved_weight_bytes'', PStr ''n/a'')]))\<rparr>)
     (example_decision (example_plan 4 1 [''n0''])) (Some example_deployment) (example_plan 4 1 [''n0''])
     (example_replanner [''a''], serving)"

lemma status_failure_reported_after_switch:
  "\<not> isl (fst late_failure) \<and> dgetn (projr (fst late_failure)) ''status'' = PStr ''failed''
   \<and> rp_ready (fst (snd late_failure)) = [''a'']
   \<and> rp_resource_requirements (fst (snd late_failure)) \<noteq> rp_resource_requirements (example_replanner [''a''])"
  by code_simp

theorem workload_window_exact_witness:
  "map_sum id (rp_arrivals \<circ> snd) (reparallelization_workload_snapshot 10 (example_replanner [])) = Inr [7, 8, 10]"
proof -
  have "\<not> isl (reparallelization_workload_snapshot 10 (example_replanner []))" by code_simp
  then obtain workload rp' where run: "reparallelization_workload_snapshot 10 (example_replanner []) = Inr (workload, rp')"
    by (cases "reparallelization_workload_snapshot 10 (example_replanner [])") auto
  have "sorted (rp_arrivals (example_replanner []))" by (simp add: example_replanner_def)
  from workload_window_exact [OF this run] run show ?thesis by (simp add: example_replanner_def)
qed

text \<open>
  Two replicas on one target node: the snapshot of the deployment names the node once for every
  replica, the plan once, so that the plan in use is never recognised and is created again.
\<close>

lemma shared_node_not_recognised:
  "let plan = example_plan 2 2 [''n0''];
       (r, w) = create_workers example_adapter (example_answers True) plan empty_world;
       d = snapshot (example_adapter\<lparr>va_backend_config := dp_backend_config (projr r)\<rparr>) (dp_instances (projr r)) w
   in \<not> isl r \<and> pp_target_nodes (dp_plan (projr d)) = [''n0'', ''n0'']
      \<and> \<not> parallel_plans_match (\<lambda>_. []) (dp_plan (projr d)) plan"
  by code_simp

text \<open>
  The settings of the executor are validated only when the adapter is built: the first replan with
  contradictory settings raises, the next one goes on with the adapter it left.
\<close>

lemma settings_validated_once:
  "let rp = (example_replanner [])\<lparr>rp_adapter := None, rp_config := [(''transition_mode'', PStr ''break_before_make'')]\<rparr>;
       (r1, s1) = ensure_adapter True (rp, empty_world);
       (r2, s2) = ensure_adapter True s1
   in r1 = Inl (ValueError ''transition_mode_conflicts_with_stop_current_before_create'') \<and> r2 = Inr True"
  by code_simp

end
