(* ===== verification/Controller.thy ===== *)
theory Controller
  imports Py_Effects
begin

text \<open>
  The controller, \<open>src/sllm/controller.py\<close>, with \<open>src/sllm/fine_tuning_job_store.py\<close> and
  \<open>src/sllm/spot/controller_config.py\<close>: it registers models and creates a router for each, passes
  spot events on to the scheduler and the routers, deletes models and runs fine-tuning jobs.

  Routers are actors, here numbers. The calls that leave the controller are recorded in order; what
  they answer is an argument. A coroutine runs without interruption only up to the next call it awaits
  or lock it takes: \<open>register\<close>, \<open>update\<close>, \<open>delete\<close> and the event handlers are split there, one definition
  for every stretch, and \<open>ctl_step\<close> of \<open>Controller_Props\<close> interleaves the stretches.
\<close>

section \<open>State\<close>

record ft_job =
  jb_config :: dict
  jb_status :: string
  jb_priority :: int
  jb_created_time :: string
  jb_error :: "string option"

datatype ctl_call =
    Scheduler_Call string string
  | Router_Call string string nat
  | Store_Register string
  | Store_Register_Lora string string
  | Kill_Actor string

record controller =
  ct_config :: dict
  ct_running :: bool
  ct_registered_models :: "(string \<times> dict) list"
  ct_request_routers :: "(string \<times> nat) list"
  ct_next_router :: nat
  ct_jobs :: "(string \<times> ft_job) list"
  ct_calls :: "ctl_call list"

definition SllmController :: "dict \<Rightarrow> controller" where
  "SllmController config =
     \<lparr>ct_config = config, ct_running = False, ct_registered_models = [], ct_request_routers = [],
      ct_next_router = 0, ct_jobs = [], ct_calls = []\<rparr>"

definition ctl_record :: "ctl_call \<Rightarrow> controller \<Rightarrow> controller" where
  "ctl_record c ct = ct\<lparr>ct_calls := ct_calls ct @ [c]\<rparr>"

definition start_controller :: "(controller, unit) stmt" where
  "start_controller ct =
     (if ct_running ct then (Inl (RuntimeError ''Controller already started''), ct)
      else (Inr (), ct\<lparr>ct_running := True\<rparr>))"

definition spotserve_scheduler_config :: "dict \<Rightarrow> (dict \<times> bool) res" where
  "spotserve_scheduler_config config =
     rbind (py_dict (por (dget config ''scheduler_config'' (PDict [])) (PDict []))) (\<lambda>scheduler_config.
     Inr (AList.update ''enable_migration'' (PBool False) scheduler_config,
          truthy (por (dget config ''enable_migration'' (PBool False)) (dget scheduler_config ''enable_migration'' (PBool False)))))"

section \<open>Registration\<close>

text \<open>The adapters a configuration names; \<open>None\<close> when the entry is \<open>None\<close>.\<close>

definition lora_adapters_of :: "dict \<Rightarrow> dict option" where
  "lora_adapters_of model_config =
     (case dget (dict_of (dget model_config ''backend_config'' (PDict []))) ''lora_adapters'' (PDict []) of
        PDict adapters \<Rightarrow> Some adapters | _ \<Rightarrow> None)"

definition register_lora :: "(string \<Rightarrow> unit res) \<Rightarrow> string \<Rightarrow> string \<times> pyval \<Rightarrow> (controller, unit) stmt" where
  "register_lora store_lora model_name adapter ct =
     (store_lora (fst adapter), ctl_record (Store_Register_Lora model_name (fst adapter)) ct)"

text \<open>
  The first stretch, under the lock: whether there is a new model to register. A model that is
  registered already only gets its adapters.
\<close>

definition register_check :: "(string \<Rightarrow> unit res) \<Rightarrow> dict \<Rightarrow> (controller, bool) stmt" where
  "register_check store_lora model_config ct =
     (let model_name = py_str (dgetn model_config ''model'') in
      if \<not> ct_running ct \<or> dgetn model_config ''backend'' = PNone then (Inr False, ct)
      else if dhas (ct_registered_models ct) model_name
      then (case lora_adapters_of model_config of
              None \<Rightarrow> (Inr False, ct)
            | Some adapters \<Rightarrow>
                sbind (each (register_lora store_lora model_name) adapters) (\<lambda>_.
                sbind (lift (\<lambda>ct. dindex (ct_request_routers ct) model_name)) (\<lambda>r.
                sbind (change (ctl_record (Router_Call ''update'' model_name r))) (\<lambda>_. lift (\<lambda>_. Inr False)))) ct)
      else (Inr True, ct))"

text \<open>The store takes a new model and its adapters, or raises.\<close>

definition register_store :: "unit res \<Rightarrow> (string \<Rightarrow> unit res) \<Rightarrow> dict \<Rightarrow> (controller, unit) stmt" where
  "register_store store_register store_lora model_config =
     (let model_name = py_str (dgetn model_config ''model'') in
      sbind (change (ctl_record (Store_Register model_name))) (\<lambda>_.
      sbind (lift (\<lambda>_. store_register)) (\<lambda>_.
      case lora_adapters_of model_config of
        None \<Rightarrow> lift (\<lambda>_. Inl AttributeError)
      | Some adapters \<Rightarrow> each (register_lora store_lora model_name) adapters)))"

text \<open>The router actor is created, unless Ray refuses, for instance because its name is taken.\<close>

definition construct_router :: "unit res \<Rightarrow> (controller, nat) stmt" where
  "construct_router created ct =
     (case created of
        Inl e \<Rightarrow> (Inl e, ct)
      | Inr _ \<Rightarrow> (Inr (ct_next_router ct), ct\<lparr>ct_next_router := Suc (ct_next_router ct)\<rparr>))"

text \<open>
  The lock is taken again: the router is started, unless another coroutine has registered the model
  meanwhile.
\<close>

definition admit_router :: "dict \<Rightarrow> nat \<Rightarrow> controller \<Rightarrow> bool \<times> controller" where
  "admit_router model_config r ct =
     (let model_name = py_str (dgetn model_config ''model'') in
      if dhas (ct_request_routers ct) model_name then (False, ct)
      else (True, ctl_record (Router_Call ''start'' model_name r) ct))"

text \<open>The lock is taken a third time and the model is entered, without another look at the registry.\<close>

definition enter_router :: "dict \<Rightarrow> nat \<Rightarrow> controller \<Rightarrow> controller" where
  "enter_router model_config r ct =
     (let model_name = py_str (dgetn model_config ''model'') in
      ct\<lparr>ct_registered_models := AList.update model_name model_config (ct_registered_models ct),
         ct_request_routers := AList.update model_name r (ct_request_routers ct)\<rparr>)"

section \<open>Updates\<close>

text \<open>Two stretches under the lock; the model may be deleted between them.\<close>

definition update_check :: "string \<Rightarrow> controller \<Rightarrow> unit res" where
  "update_check model_name ct =
     (if \<not> dhas (ct_registered_models ct) model_name \<or> \<not> dhas (ct_request_routers ct) model_name
      then Inl (ValueError (''Model '' @ model_name @ '' not found, please register first'')) else Inr ())"

definition update_config :: "string \<Rightarrow> dict \<Rightarrow> (controller, unit) stmt" where
  "update_config model_name model_config ct =
     (if dgetn model_config ''auto_scaling_config'' = PNone then (Inr (), ct)
      else (case map_of (ct_registered_models ct) model_name of
              None \<Rightarrow> (Inl (KeyError model_name), ct)
            | Some config \<Rightarrow>
                let ct = ct\<lparr>ct_registered_models := AList.update model_name
                      (AList.update ''auto_scaling_config'' (dgetn model_config ''auto_scaling_config'') config)
                      (ct_registered_models ct)\<rparr>
                in (case map_of (ct_request_routers ct) model_name of
                      None \<Rightarrow> (Inl (KeyError model_name), ct)
                    | Some r \<Rightarrow> (Inr (), ctl_record (Router_Call ''update'' model_name r) ct))))"

definition update_model :: "string \<Rightarrow> dict \<Rightarrow> (controller, unit) stmt" where
  "update_model model_name model_config =
     sbind (lift (update_check model_name)) (\<lambda>_. update_config model_name model_config)"

definition model_exists :: "string \<Rightarrow> controller \<Rightarrow> bool" where
  "model_exists model_name ct = dhas (ct_registered_models ct) model_name"

section \<open>Spot events\<close>

definition target_routers :: "string option \<Rightarrow> controller \<Rightarrow> (string \<times> nat) list res" where
  "target_routers model_name ct =
     (case model_name of
        None \<Rightarrow> Inr (ct_request_routers ct)
      | Some m \<Rightarrow> (case map_of (ct_request_routers ct) m of
                     None \<Rightarrow> Inl (ValueError (''Model '' @ m @ '' not found''))
                   | Some r \<Rightarrow> Inr [(m, r)]))"

text \<open>The scheduler is told first; an exception of it is logged, one of a router becomes its result.\<close>

definition dispatch_to_routers ::
  "string \<Rightarrow> (string \<Rightarrow> pyval res) \<Rightarrow> string option \<Rightarrow> (controller, (string \<times> pyval) list) stmt" where
  "dispatch_to_routers handler answer model_name =
     sbind (lift (target_routers model_name)) (\<lambda>targets.
     sbind (change (\<lambda>ct. ct\<lparr>ct_calls := ct_calls ct @ map (\<lambda>(m, r). Router_Call handler m r) targets\<rparr>)) (\<lambda>_.
     lift (\<lambda>_. Inr (map (\<lambda>(m, r). (m, case answer m of Inr v \<Rightarrow> v | Inl e \<Rightarrow> PDict [(''error'', PStr (exc_text e))])) targets))))"

definition tell_scheduler :: "string \<Rightarrow> string option \<Rightarrow> (controller, unit) stmt" where
  "tell_scheduler operation node_id =
     change (\<lambda>ct. case node_id of None \<Rightarrow> ct | Some n \<Rightarrow> ctl_record (Scheduler_Call operation n) ct)"

definition ctl_handle_preemption ::
  "(string \<Rightarrow> pyval res) \<Rightarrow> string option \<Rightarrow> string option \<Rightarrow> string option \<Rightarrow> (controller, (string \<times> pyval) list) stmt" where
  "ctl_handle_preemption answer node_id instance_id model_name =
     (if node_id = None \<and> instance_id = None
      then lift (\<lambda>_. Inl (ValueError ''Preemption event requires node_id or instance_id''))
      else sbind (tell_scheduler ''mark_node_preempting'' node_id) (\<lambda>_.
           dispatch_to_routers ''handle_preemption'' answer model_name))"

definition ctl_handle_recover ::
  "(string \<Rightarrow> pyval res) \<Rightarrow> string option \<Rightarrow> string option \<Rightarrow> string option \<Rightarrow> (controller, (string \<times> pyval) list) stmt" where
  "ctl_handle_recover answer node_id instance_id model_name =
     (if node_id = None \<and> instance_id = None
      then lift (\<lambda>_. Inl (ValueError ''Recover event requires node_id or instance_id''))
      else sbind (tell_scheduler ''mark_node_recovered'' node_id) (\<lambda>_.
           dispatch_to_routers ''handle_recover'' answer model_name))"

definition ctl_handle_add ::
  "(string \<Rightarrow> pyval res) \<Rightarrow> string \<Rightarrow> string option \<Rightarrow> (controller, (string \<times> pyval) list) stmt" where
  "ctl_handle_add answer node_id model_name =
     sbind (tell_scheduler ''add_worker_node'' (Some node_id)) (\<lambda>_. dispatch_to_routers ''handle_add'' answer model_name)"

definition ctl_handle_remove ::
  "(string \<Rightarrow> pyval res) \<Rightarrow> string \<Rightarrow> string option \<Rightarrow> (controller, (string \<times> pyval) list) stmt" where
  "ctl_handle_remove answer node_id model_name =
     sbind (tell_scheduler ''remove_worker_node'' (Some node_id)) (\<lambda>_. dispatch_to_routers ''handle_remove'' answer model_name)"

definition ctl_handle_instance_dead ::
  "(string \<Rightarrow> pyval res) \<Rightarrow> string option \<Rightarrow> string option \<Rightarrow> string option \<Rightarrow> (controller, (string \<times> pyval) list) stmt" where
  "ctl_handle_instance_dead answer node_id instance_id model_name =
     (if node_id = None \<and> instance_id = None
      then lift (\<lambda>_. Inl (ValueError ''Dead event requires node_id or instance_id''))
      else sbind (tell_scheduler ''mark_node_dead'' node_id) (\<lambda>_.
           dispatch_to_routers ''handle_dead'' answer model_name))"

section \<open>Deletion\<close>

text \<open>
  One look at the actors of the cluster: the time, their names and states, which of them Ray
  resolves, and which it kills.
\<close>

record look =
  lk_now :: rat
  lk_actors :: "(string \<times> string) list"
  lk_resolved :: "string \<Rightarrow> bool"
  lk_killed :: "string \<Rightarrow> bool"

definition alive_actor_names_for_model :: "string \<Rightarrow> (string \<times> string) list \<Rightarrow> string list" where
  "alive_actor_names_for_model model_name actors =
     map fst (filter (\<lambda>(name, state). py_lower state = ''alive'' \<and> (name = model_name \<or> starts_with name (model_name @ ''_''))) actors)"

definition cleanup_setting :: "dict \<Rightarrow> string \<Rightarrow> rat \<Rightarrow> rat res" where
  "cleanup_setting config key standard = except_tv (py_float (dget config key (PFloat standard))) (Inr standard)"

definition kill_actor :: "look \<Rightarrow> string \<Rightarrow> string list \<times> controller \<Rightarrow> string list \<times> controller" where
  "kill_actor lk name s =
     (let (seen, ct) = s in
      if \<not> lk_resolved lk name then (seen @ [name], ct)
      else if lk_killed lk name then (seen @ [name], ctl_record (Kill_Actor name) ct)
      else (seen, ct))"

text \<open>
  The loop that kills the actors a model left, one look for every turn. A turn gives the deadline for
  the actors to be quiet, or \<open>None\<close> when the loop ends with it: when the actors were quiet for long
  enough or at the deadline of the loop.
\<close>

definition kill_turn ::
  "string \<Rightarrow> rat \<Rightarrow> rat \<Rightarrow> look \<Rightarrow> rat \<Rightarrow> string list \<times> controller \<Rightarrow> rat option \<times> string list \<times> controller" where
  "kill_turn model_name deadline quiet_s lk quiet_deadline s =
     (let names = filter (\<lambda>n. n \<notin> set (fst s)) (alive_actor_names_for_model model_name (lk_actors lk)) in
      if names = []
      then (if lk_now lk \<ge> quiet_deadline \<or> lk_now lk \<ge> deadline then None else Some quiet_deadline, s)
      else (if lk_now lk \<ge> deadline then None else Some (lk_now lk + quiet_s), fold (kill_actor lk) names s))"

text \<open>\<open>None\<close> when the looks given are not enough.\<close>

fun kill_loop ::
  "string \<Rightarrow> rat \<Rightarrow> rat \<Rightarrow> look list \<Rightarrow> rat \<Rightarrow> string list \<times> controller \<Rightarrow> (string list \<times> controller) option" where
  "kill_loop model_name deadline quiet_s [] quiet_deadline s = None"
| "kill_loop model_name deadline quiet_s (lk # looks) quiet_deadline s =
     (case kill_turn model_name deadline quiet_s lk quiet_deadline s of
        (None, s') \<Rightarrow> Some s'
      | (Some quiet_deadline', s') \<Rightarrow> kill_loop model_name deadline quiet_s looks quiet_deadline' s')"

definition cleanup_times :: "controller \<Rightarrow> (rat \<times> rat) res" where
  "cleanup_times ct =
     rbind (cleanup_setting (ct_config ct) ''stale_actor_cleanup_timeout_s'' 10) (\<lambda>timeout_s.
     rbind (cleanup_setting (ct_config ct) ''stale_actor_cleanup_quiet_s'' 2) (\<lambda>quiet_s.
     Inr (max timeout_s 0, max quiet_s 0)))"

definition kill_detached_model_actors :: "rat \<Rightarrow> look list \<Rightarrow> string \<Rightarrow> (controller, unit) stmt" where
  "kill_detached_model_actors start_time looks model_name ct =
     (case cleanup_times ct of
        Inl e \<Rightarrow> (Inl e, ct)
      | Inr (timeout_s, quiet_s) \<Rightarrow>
          (case kill_loop model_name (start_time + timeout_s) quiet_s looks (start_time + quiet_s) ([], ct) of
             None \<Rightarrow> (Inl OutOfModel, ct)
           | Some (_, ct') \<Rightarrow> (Inr (), ct')))"

definition clear_scheduler_model_state :: "string \<Rightarrow> (controller, unit) stmt" where
  "clear_scheduler_model_state model_name = change (ctl_record (Scheduler_Call ''clear_model'' model_name))"

text \<open>The stretch under the lock: what is left to do outside of it.\<close>

datatype deletion = Nothing_Left | Router_Gone | Router_Stops

definition delete_entry :: "string \<Rightarrow> string list option \<Rightarrow> (controller, deletion) stmt" where
  "delete_entry model_name lora_adapters ct =
     (case map_of (ct_request_routers ct) model_name of
        None \<Rightarrow> (Inr Router_Gone, ct\<lparr>ct_registered_models := AList.delete model_name (ct_registered_models ct)\<rparr>)
      | Some r \<Rightarrow>
          if lora_adapters \<noteq> None then (Inr Nothing_Left, ctl_record (Router_Call ''delete_adapters'' model_name r) ct)
          else let ct1 = ct\<lparr>ct_request_routers := AList.delete model_name (ct_request_routers ct)\<rparr>
               in if \<not> dhas (ct_registered_models ct) model_name then (Inl (KeyError model_name), ct1)
                  else (Inr Router_Stops, ctl_record (Router_Call ''shutdown'' model_name r)
                         (ct1\<lparr>ct_registered_models := AList.delete model_name (ct_registered_models ct1)\<rparr>)))"

text \<open>A deletion in one piece: the router's shutdown is awaited and may raise.\<close>

definition delete_model ::
  "unit res \<Rightarrow> rat \<Rightarrow> look list \<Rightarrow> string \<Rightarrow> string list option \<Rightarrow> (controller, unit) stmt" where
  "delete_model shutdown_answer start_time looks model_name lora_adapters =
     (let clean = sbind (clear_scheduler_model_state model_name) (\<lambda>_. kill_detached_model_actors start_time looks model_name)
      in sbind (delete_entry model_name lora_adapters) (\<lambda>left.
         case left of
           Nothing_Left \<Rightarrow> lift (\<lambda>_. Inr ())
         | Router_Gone \<Rightarrow> clean
         | Router_Stops \<Rightarrow> sbind (lift (\<lambda>_. shutdown_answer)) (\<lambda>_. clean)))"

text \<open>\<open>shutdown\<close> names a method \<open>_delete\<close> that the controller does not have.\<close>

definition shutdown_controller :: "(controller, unit) stmt" where
  "shutdown_controller ct =
     (if \<not> ct_running ct then (Inl (RuntimeError ''Controller not running''), ct)
      else (if ct_request_routers ct = [] then Inr () else Inl AttributeError, ct\<lparr>ct_running := False\<rparr>))"

section \<open>Fine-tuning jobs\<close>

definition register_ft_job :: "string \<Rightarrow> string \<Rightarrow> dict \<Rightarrow> controller \<Rightarrow> controller" where
  "register_ft_job job_id now job_config ct =
     ct\<lparr>ct_jobs := AList.update job_id
         \<lparr>jb_config = job_config, jb_status = ''pending'',
          jb_priority = (case dget job_config ''priority'' (PInt 0) of PInt p \<Rightarrow> p | _ \<Rightarrow> 0),
          jb_created_time = now, jb_error = None\<rparr> (ct_jobs ct)\<rparr>"

definition get_pending_jobs :: "controller \<Rightarrow> (string \<times> ft_job) list" where
  "get_pending_jobs ct = filter (\<lambda>(_, job). jb_status job = ''pending'') (ct_jobs ct)"

definition update_status :: "string \<Rightarrow> string \<Rightarrow> string option \<Rightarrow> controller \<Rightarrow> controller" where
  "update_status job_id status err ct =
     ct\<lparr>ct_jobs := map (\<lambda>(k, job). (k, if k = job_id
         then job\<lparr>jb_status := status, jb_error := (case err of Some _ \<Rightarrow> err | None \<Rightarrow> jb_error job)\<rparr> else job)) (ct_jobs ct)\<rparr>"

datatype ft_end = Ft_Result pyval | Ft_Timeout | Ft_Raises pyexc

record ft_answers =
  fa_model_info :: bool
  fa_download :: "unit res"
  fa_start :: "unit res"
  fa_fine_tuning :: ft_end

definition start_ft_job :: "ft_answers \<Rightarrow> string \<times> ft_job \<Rightarrow> (controller, unit) stmt" where
  "start_ft_job fa entry =
     (let job_id = fst entry; config = jb_config (snd entry) in
      sbind (change (update_status job_id ''running'' None)) (\<lambda>_.
      sbind (lift (\<lambda>_. dindex config ''model'')) (\<lambda>model.
      sbind (if fa_model_info fa then lift (\<lambda>_. Inr None)
             else sbind (change (ctl_record (Store_Register (py_str model)))) (\<lambda>_.
                  lift (\<lambda>_. Inr (case fa_download fa of Inl e \<Rightarrow> Some e | Inr _ \<Rightarrow> None)))) (\<lambda>failed.
      case failed of
        Some e \<Rightarrow> change (update_status job_id ''failed''
                     (Some (''Failed to download model '' @ py_str model @ '': '' @ exc_text e)))
      | None \<Rightarrow>
          sbind (lift (\<lambda>_. dindex config ''ft_backend'')) (\<lambda>_.
          sbind (lift (\<lambda>_. fa_start fa)) (\<lambda>_.
          case fa_fine_tuning fa of
            Ft_Raises e \<Rightarrow> lift (\<lambda>_. Inl e)
          | Ft_Timeout \<Rightarrow> change (update_status job_id ''failed'' (Some ''Job timed out''))
          | Ft_Result (PDict result) \<Rightarrow>
              (case map_of result ''error'' of
                 Some err \<Rightarrow> change (update_status job_id ''failed'' (Some (py_str err)))
               | None \<Rightarrow> change (update_status job_id ''completed'' None))
          | Ft_Result _ \<Rightarrow> change (update_status job_id ''completed'' None)))))))"

text \<open>A round over the pending jobs, in the order of priority and age, with the resources Ray reports.\<close>

definition job_needs :: "ft_job \<Rightarrow> (int \<times> int)" where
  "job_needs job =
     (let need = (\<lambda>key. case dget (jb_config job) key (PInt 1) of PInt n \<Rightarrow> n | _ \<Rightarrow> 1)
      in (need ''num_cpus'', need ''num_gpus''))"

definition job_order :: "string \<times> ft_job \<Rightarrow> int \<times> string" where
  "job_order entry = (jb_priority (snd entry), jb_created_time (snd entry))"

fun run_jobs ::
  "(string \<Rightarrow> ft_answers) \<Rightarrow> (string \<times> ft_job) list \<Rightarrow> int \<times> int \<Rightarrow> (controller, string list) stmt" where
  "run_jobs fa [] available ct = (Inr [], ct)"
| "run_jobs fa (entry # entries) available ct =
     (let (cpus, gpus) = job_needs (snd entry) in
      if fst available \<ge> cpus \<and> snd available \<ge> gpus
      then sbind (start_ft_job (fa (fst entry)) entry) (\<lambda>_.
           sbind (run_jobs fa entries (fst available - cpus, snd available - gpus)) (\<lambda>started.
           lift (\<lambda>_. Inr (fst entry # started)))) ct
      else run_jobs fa entries available ct)"

definition process_ft_jobs_round :: "(string \<Rightarrow> ft_answers) \<Rightarrow> int \<times> int \<Rightarrow> (controller, string list) stmt" where
  "process_ft_jobs_round fa available ct = run_jobs fa (sort_key job_order (get_pending_jobs ct)) available ct"

text \<open>\<open>None\<close> for a job id that is not known; the routers have no operation \<open>cancel\<close>.\<close>

definition cancel_ft_job :: "string \<Rightarrow> (controller, unit) stmt" where
  "cancel_ft_job job_id ct =
     (case map_of (ct_jobs ct) job_id of
        None \<Rightarrow> (Inl (RuntimeError (''[cancel_ft_job]: Job '' @ job_id @ '' not found'')), ct)
      | Some job \<Rightarrow> if jb_status job = ''running'' then (Inl AttributeError, ct) else (Inr (), ct))"

end
