(* ===== verification/Controller_Props.thy ===== *)
theory Controller_Props
  imports Controller
begin

text \<open>
  The controller: spot events reach every router, the registry of models and of routers agree over
  all interleavings, the clean-up after a deletion ends, and fine-tuning stays within the resources.
\<close>

section \<open>Spot events\<close>

text \<open>
  A spot event is passed on completely. The scheduler is told first, then the router of every
  selected model is called exactly once in the order of the registry, whatever the others answer, and there
  is one result for each: the router's own, or its error. An event for an unknown model raises after the
  scheduler was told.
\<close>

theorem spot_event_reaches_routers:
  assumes "h \<in> {(''mark_node_preempting'', ''handle_preemption'', ctl_handle_preemption),
      (''mark_node_recovered'', ''handle_recover'', ctl_handle_recover), (''mark_node_dead'', ''handle_dead'', ctl_handle_instance_dead)}"
    and "h = (operation, handler, handle)" and "node_id \<noteq> None \<or> instance_id \<noteq> None"
  defines "told \<equiv> (case node_id of None \<Rightarrow> [] | Some n \<Rightarrow> [Scheduler_Call operation n])"
  shows "handle answer node_id instance_id model_name ct =
    (case target_routers model_name ct of
       Inl e \<Rightarrow> (Inl e, ct\<lparr>ct_calls := ct_calls ct @ told\<rparr>)
     | Inr targets \<Rightarrow>
         (Inr (map (\<lambda>(m, r). (m, case answer m of Inr v \<Rightarrow> v | Inl e \<Rightarrow> PDict [(''error'', PStr (exc_text e))])) targets),
          ct\<lparr>ct_calls := ct_calls ct @ told @ map (\<lambda>(m, r). Router_Call handler m r) targets\<rparr>))"
proof -
  have "target_routers model_name (ct\<lparr>ct_calls := cs\<rparr>) = target_routers model_name ct" for cs
    by (simp add: target_routers_def split: option.split)
  then have "sbind (tell_scheduler operation node_id) (\<lambda>_. dispatch_to_routers handler answer model_name) ct =
    (case target_routers model_name ct of
       Inl e \<Rightarrow> (Inl e, ct\<lparr>ct_calls := ct_calls ct @ told\<rparr>)
     | Inr targets \<Rightarrow>
         (Inr (map (\<lambda>(m, r). (m, case answer m of Inr v \<Rightarrow> v | Inl e \<Rightarrow> PDict [(''error'', PStr (exc_text e))])) targets),
          ct\<lparr>ct_calls := ct_calls ct @ told @ map (\<lambda>(m, r). Router_Call handler m r) targets\<rparr>))"
    by (cases node_id; cases "target_routers model_name ct")
      (simp_all add: tell_scheduler_def dispatch_to_routers_def sbind_def lift_def change_def ctl_record_def told_def)
  moreover have "handle answer node_id instance_id model_name =
      sbind (tell_scheduler operation node_id) (\<lambda>_. dispatch_to_routers handler answer model_name)"
    using assms(1-3) by (auto simp: ctl_handle_preemption_def ctl_handle_recover_def ctl_handle_instance_dead_def)
  ultimately show ?thesis by simp
qed

section \<open>The registry\<close>

text \<open>
  What a suspended coroutine of the controller does next: a registration, an update, a spot event on
  its way to the routers, or the clean-up of a deletion.
\<close>

datatype ctl_task =
    Storing dict | Constructing dict | Admitting dict nat | Entering dict nat
  | Updating string dict
  | Selecting string "string option" | Passing string "(string \<times> nat) list"
  | Stopping string | Clearing string | Killing string rat rat rat "string list"

definition spot_operations :: "(string \<times> string) list" where
  "spot_operations =
     [(''mark_node_preempting'', ''handle_preemption''), (''mark_node_recovered'', ''handle_recover''),
      (''add_worker_node'', ''handle_add''), (''remove_worker_node'', ''handle_remove''), (''mark_node_dead'', ''handle_dead'')]"

text \<open>
  The coroutines of the controller, stretch by stretch: every coroutine may be suspended between two of
  its stretches, and any other stretch may run meanwhile. A coroutine that raises ends.
\<close>

inductive ctl_step :: "controller \<times> ctl_task list \<Rightarrow> controller \<times> ctl_task list \<Rightarrow> bool" where
  Start: "start_controller ct = (r, ct') \<Longrightarrow> ctl_step (ct, ts) (ct', ts)"
| Register: "register_check sl config ct = (r, ct') \<Longrightarrow>
    ctl_step (ct, ts) (ct', (if r = Inr True then [Storing config] else []) @ ts)"
| Store: "Storing config \<in> set ts \<Longrightarrow> register_store sr sl config ct = (r, ct') \<Longrightarrow>
    ctl_step (ct, ts) (ct', (if isl r then [] else [Constructing config]) @ remove1 (Storing config) ts)"
| Construct: "Constructing config \<in> set ts \<Longrightarrow> construct_router created ct = (r, ct') \<Longrightarrow>
    ctl_step (ct, ts) (ct', (case r of Inl _ \<Rightarrow> [] | Inr n \<Rightarrow> [Admitting config n]) @ remove1 (Constructing config) ts)"
| Admit: "Admitting config n \<in> set ts \<Longrightarrow> admit_router config n ct = (ok, ct') \<Longrightarrow>
    ctl_step (ct, ts) (ct', (if ok then [Entering config n] else []) @ remove1 (Admitting config n) ts)"
| Enter: "Entering config n \<in> set ts \<Longrightarrow>
    ctl_step (ct, ts) (enter_router config n ct, remove1 (Entering config n) ts)"
| Update: "update_check m ct = Inr () \<Longrightarrow> ctl_step (ct, ts) (ct, Updating m config # ts)"
| Update_Config: "Updating m config \<in> set ts \<Longrightarrow> update_config m config ct = (r, ct') \<Longrightarrow>
    ctl_step (ct, ts) (ct', remove1 (Updating m config) ts)"
| Delete: "delete_entry m lora ct = (r, ct') \<Longrightarrow>
    ctl_step (ct, ts)
      (ct', (case r of Inr Router_Gone \<Rightarrow> [Clearing m] | Inr Router_Stops \<Rightarrow> [Stopping m] | _ \<Rightarrow> []) @ ts)"
| Stopped: "Stopping m \<in> set ts \<Longrightarrow>
    ctl_step (ct, ts) (ct, (if raised then [] else [Clearing m]) @ remove1 (Stopping m) ts)"
| Clear: "Clearing m \<in> set ts \<Longrightarrow> clear_scheduler_model_state m ct = (r, ct') \<Longrightarrow>
    ctl_step (ct, ts)
      (ct', (case cleanup_times ct' of Inl _ \<Rightarrow> [] | Inr (timeout_s, quiet_s) \<Rightarrow> [Killing m (t + timeout_s) quiet_s (t + quiet_s) []])
            @ remove1 (Clearing m) ts)"
| Kill: "Killing m dl q qd seen \<in> set ts \<Longrightarrow> kill_turn m dl q lk qd (seen, ct) = (again, seen', ct') \<Longrightarrow>
    ctl_step (ct, ts)
      (ct', (case again of None \<Rightarrow> [] | Some qd' \<Rightarrow> [Killing m dl q qd' seen']) @ remove1 (Killing m dl q qd seen) ts)"
| Event: "(operation, handler) \<in> set spot_operations \<Longrightarrow> tell_scheduler operation node_id ct = (r, ct') \<Longrightarrow>
    ctl_step (ct, ts) (ct', Selecting handler model_name # ts)"
| Select: "Selecting handler model_name \<in> set ts \<Longrightarrow>
    ctl_step (ct, ts)
      (ct, (case target_routers model_name ct of Inl _ \<Rightarrow> [] | Inr targets \<Rightarrow> [Passing handler targets])
           @ remove1 (Selecting handler model_name) ts)"
| Pass: "Passing handler ((m, n) # targets) \<in> set ts \<Longrightarrow>
    ctl_step (ct, ts) (ctl_record (Router_Call handler m n) ct, Passing handler targets # remove1 (Passing handler ((m, n) # targets)) ts)"
| Shutdown: "shutdown_controller ct = (r, ct') \<Longrightarrow> ctl_step (ct, ts) (ct', ts)"

text \<open>The routers that registrations have created and not yet entered.\<close>

fun task_routers :: "ctl_task \<Rightarrow> nat list" where
  "task_routers (Admitting config n) = [n]"
| "task_routers (Entering config n) = [n]"
| "task_routers t = []"

definition created_routers :: "ctl_task list \<Rightarrow> nat list" where
  "created_routers ts = concat (map task_routers ts)"

lemma created_routers_simps [simp]:
  "created_routers [] = []" "created_routers (t # ts) = task_routers t @ created_routers ts"
  "created_routers (ts @ us) = created_routers ts @ created_routers us"
  by (simp_all add: created_routers_def)

lemma created_routers_remove:
  "t \<in> set ts \<Longrightarrow> mset (created_routers ts) = mset (task_routers t) + mset (created_routers (remove1 t ts))"
  by (induction ts) auto

definition registry_ok :: "controller \<Rightarrow> bool" where
  "registry_ok ct \<longleftrightarrow>
     dom (map_of (ct_registered_models ct)) = dom (map_of (ct_request_routers ct))
     \<and> distinct (map fst (ct_request_routers ct)) \<and> distinct (map snd (ct_request_routers ct))
     \<and> (\<forall>r \<in> set (map snd (ct_request_routers ct)). r < ct_next_router ct)"

definition registry :: "controller \<Rightarrow> (string \<times> dict) list \<times> (string \<times> nat) list \<times> nat" where
  "registry ct = (ct_registered_models ct, ct_request_routers ct, ct_next_router ct)"

lemma registry_ok_cong: "registry ct' = registry ct \<Longrightarrow> registry_ok ct' = registry_ok ct"
  by (simp add: registry_def registry_ok_def)

text \<open>Operations that leave the registry alone.\<close>

definition same_registry :: "controller \<Rightarrow> controller \<Rightarrow> bool" where
  "same_registry ct ct' \<longleftrightarrow> registry ct' = registry ct"

interpretation registry: kept same_registry
  by unfold_locales (simp_all add: same_registry_def)

lemma keeps_registry_ok: "keeps same_registry m \<Longrightarrow> m ct = (r, ct') \<Longrightarrow> registry_ok ct \<Longrightarrow> registry_ok ct'"
  using keepsD [of same_registry m ct r ct'] registry_ok_cong [of ct' ct] by (simp add: same_registry_def)

lemma ctl_record_registry [simp]: "same_registry ct (ctl_record c ct)"
  by (simp add: same_registry_def registry_def ctl_record_def)

lemma register_lora_keeps: "keeps same_registry (register_lora sl m adapter)"
  by (rule keepsI) (simp add: register_lora_def)

lemma record_keeps: "keeps same_registry (change (ctl_record c))"
  by (rule registry.keeps_change) simp

lemma register_loras_keeps: "keeps same_registry (each (register_lora sl m) adapters)"
  by (rule registry.keeps_each) (rule register_lora_keeps)

lemma register_check_keeps: "keeps same_registry (register_check sl config)"
proof (rule keepsI)
  fix ct
  let ?m = "py_str (dgetn config ''model'')"
  have "keeps same_registry (sbind (each (register_lora sl ?m) adapters) (\<lambda>_.
      sbind (lift (\<lambda>ct. dindex (ct_request_routers ct) ?m)) (\<lambda>r.
      sbind (change (ctl_record (Router_Call ''update'' ?m r))) (\<lambda>_. lift (\<lambda>_. Inr False)))))" for adapters
    by (intro registry.keeps_sbind register_loras_keeps record_keeps registry.keeps_lift)
  then show "same_registry ct (snd (register_check sl config ct))"
    using registry.kept_refl by (auto simp: register_check_def Let_def keeps_def split: option.splits)
qed

lemma register_store_keeps: "keeps same_registry (register_store sr sl config)"
  unfolding register_store_def Let_def
  by (cases "lora_adapters_of config") (auto intro!: registry.keeps_sbind register_loras_keeps record_keeps registry.keeps_lift)

text \<open>The clean-up after a deletion touches only the record of calls.\<close>

lemma kill_actor_registry: "registry (snd (kill_actor lk name s)) = registry (snd s)"
  by (auto simp: kill_actor_def registry_def ctl_record_def split: prod.splits)

lemma kill_actors_registry: "registry (snd (fold (kill_actor lk) names s)) = registry (snd s)"
  by (induction names arbitrary: s) (simp_all add: kill_actor_registry)

lemma kill_turn_registry: "kill_turn m dl q lk qd s = (again, s') \<Longrightarrow> registry (snd s') = registry (snd s)"
  by (auto simp: kill_turn_def Let_def kill_actors_registry split: if_splits)

lemma kill_loop_registry: "kill_loop m dl q looks qd s = Some s' \<Longrightarrow> registry (snd s') = registry (snd s)"
  by (induction m dl q looks qd s rule: kill_loop.induct)
    (auto split: prod.splits option.splits dest: kill_turn_registry)

lemma distinct_subset_mset: "distinct xs \<Longrightarrow> mset ys \<subseteq># mset xs \<Longrightarrow> distinct ys"
proof -
  assume d: "distinct xs" and le: "mset ys \<subseteq># mset xs"
  have "count (mset ys) x \<le> 1" for x
    using mset_subset_eq_count [OF le, of x] distinct_count_atmost_1 [THEN iffD1, OF d, rule_format, of x]
    by (cases "x \<in> set xs") (simp_all add: count_mset_0_iff [THEN iffD2])
  then have "count (mset ys) x = (if x \<in> set ys then 1 else 0)" for x
    by (metis count_mset_0_iff le_antisym less_one linorder_not_le)
  then show "distinct ys" by (simp add: distinct_count_atmost_1)
qed

lemma distinct_snd_update:
  assumes "distinct (map snd xs)" and "n \<notin> snd ` set xs"
  shows "distinct (map snd (AList.update k n xs)) \<and> snd ` set (AList.update k n xs) \<subseteq> insert n (snd ` set xs)"
  using assms by (induction xs) (auto simp: subset_iff)

text \<open>The routers under registration are none of those in the registry, nor is one registered twice.\<close>

definition ctl_ok :: "controller \<times> ctl_task list \<Rightarrow> bool" where
  "ctl_ok s \<longleftrightarrow> registry_ok (fst s)
     \<and> distinct (created_routers (snd s)) \<and> set (created_routers (snd s)) \<inter> snd ` set (ct_request_routers (fst s)) = {}
     \<and> (\<forall>n \<in> set (created_routers (snd s)). n < ct_next_router (fst s))"

lemma ctl_ok_fewer:
  assumes ok: "ctl_ok (ct, ts)" and "registry_ok ct'" and "mset (created_routers ts') \<subseteq># mset (created_routers ts)"
    and "snd ` set (ct_request_routers ct') \<subseteq> snd ` set (ct_request_routers ct)" and "ct_next_router ct \<le> ct_next_router ct'"
  shows "ctl_ok (ct', ts')"
proof -
  have sub: "set (created_routers ts') \<subseteq> set (created_routers ts)" using assms(3) by (metis set_mset_mono set_mset_mset)
  have "distinct (created_routers ts')"
    using ok by (intro distinct_subset_mset [OF _ assms(3)]) (simp add: ctl_ok_def)
  moreover have "\<forall>n \<in> set (created_routers ts'). n < ct_next_router ct'"
    using ok assms(5) sub by (auto simp: ctl_ok_def intro: less_le_trans)
  moreover have "set (created_routers ts') \<inter> snd ` set (ct_request_routers ct') = {}"
    using ok sub assms(4) by (simp add: ctl_ok_def) blast
  ultimately show ?thesis using assms(2) by (simp add: ctl_ok_def)
qed

lemma ctl_ok_kept:
  assumes "ctl_ok (ct, ts)" and "same_registry ct ct'" and "mset (created_routers ts') \<subseteq># mset (created_routers ts)"
  shows "ctl_ok (ct', ts')"
proof -
  have same: "registry ct' = registry ct" using assms(2) by (simp add: same_registry_def)
  have "registry_ok ct'" using assms(1) registry_ok_cong [OF same] by (simp add: ctl_ok_def)
  moreover have "ct_request_routers ct' = ct_request_routers ct" "ct_next_router ct' = ct_next_router ct"
    using same by (simp_all add: registry_def)
  ultimately show ?thesis using ctl_ok_fewer [OF assms(1) _ assms(3), of ct'] by simp
qed

text \<open>The stretches that change the registry.\<close>

lemma construct_ok:
  assumes ok: "ctl_ok (ct, ts)" and run: "construct_router created ct = (Inr n, ct')"
    and ts: "task_routers t = []" "t \<in> set ts"
  shows "ctl_ok (ct', Admitting config n # remove1 t ts)"
proof -
  have ct': "n = ct_next_router ct" "ct' = ct\<lparr>ct_next_router := Suc n\<rparr>"
    using run by (auto simp: construct_router_def split: sum.splits)
  have same: "mset (created_routers (remove1 t ts)) = mset (created_routers ts)"
    using created_routers_remove [OF ts(2)] ts(1) by simp
  then have "set (created_routers (remove1 t ts)) = set (created_routers ts)" "distinct (created_routers (remove1 t ts))"
    using ok by (auto simp: ctl_ok_def dest: mset_eq_setD mset_eq_imp_distinct_iff)
  then show ?thesis using ok unfolding ct' by (auto simp: ctl_ok_def registry_ok_def less_Suc_eq)
qed

lemma enter_ok:
  assumes ok: "ctl_ok (ct, ts)" and t: "Entering config n \<in> set ts"
  shows "ctl_ok (enter_router config n ct, remove1 (Entering config n) ts)"
proof -
  let ?m = "py_str (dgetn config ''model'')"
  let ?rest = "created_routers (remove1 (Entering config n) ts)"
  have ms: "mset (created_routers ts) = mset (n # ?rest)" using created_routers_remove [OF t] by simp
  have set: "set (created_routers ts) = insert n (set ?rest)" using mset_eq_setD [OF ms] by simp
  have d: "distinct (n # ?rest)" using ok mset_eq_imp_distinct_iff [OF ms] by (simp add: ctl_ok_def)
  have n: "n \<notin> snd ` set (ct_request_routers ct)" "n < ct_next_router ct" using ok set by (auto simp: ctl_ok_def)
  have routers: "distinct (map snd (AList.update ?m n (ct_request_routers ct)))"
    "snd ` set (AList.update ?m n (ct_request_routers ct)) \<subseteq> insert n (snd ` set (ct_request_routers ct))"
    using distinct_snd_update [of "ct_request_routers ct" n ?m] ok n by (auto simp: ctl_ok_def registry_ok_def)
  have bound: "\<forall>r \<in> snd ` set (ct_request_routers ct). r < ct_next_router ct" using ok by (simp add: ctl_ok_def registry_ok_def)
  have "\<forall>r \<in> snd ` set (AList.update ?m n (ct_request_routers ct)). r < ct_next_router ct"
    using routers(2) bound n(2) by blast
  then have "registry_ok (enter_router config n ct)"
    using ok routers(1) by (simp add: ctl_ok_def registry_ok_def enter_router_def Let_def distinct_update)
  moreover have "set ?rest \<inter> snd ` set (ct_request_routers (enter_router config n ct)) = {}"
  proof -
    have "set ?rest \<inter> snd ` set (ct_request_routers ct) = {}" "n \<notin> set ?rest" using ok set d by (auto simp: ctl_ok_def)
    then show ?thesis using routers(2) by (simp add: enter_router_def Let_def) blast
  qed
  moreover have "\<forall>k \<in> set ?rest. k < ct_next_router (enter_router config n ct)"
    using ok set by (simp add: ctl_ok_def enter_router_def Let_def)
  ultimately show ?thesis using d by (simp add: ctl_ok_def)
qed

lemma update_config_registry:
  "update_config m config ct = (r, ct') \<Longrightarrow> dom (map_of (ct_registered_models ct')) = dom (map_of (ct_registered_models ct))
     \<and> ct_request_routers ct' = ct_request_routers ct \<and> ct_next_router ct' = ct_next_router ct"
  by (auto simp: update_config_def ctl_record_def Let_def split: if_splits option.splits)

lemma delete_entry_ok:
  assumes ok: "registry_ok ct" and run: "delete_entry m lora ct = (r, ct')"
  shows "registry_ok ct' \<and> snd ` set (ct_request_routers ct') \<subseteq> snd ` set (ct_request_routers ct)
    \<and> ct_next_router ct' = ct_next_router ct"
proof (cases "map_of (ct_request_routers ct) m")
  case None
  then have "m \<notin> dom (map_of (ct_registered_models ct))" using ok by (auto simp: registry_ok_def)
  then have "registry_ok (ct\<lparr>ct_registered_models := AList.delete m (ct_registered_models ct)\<rparr>)"
    using ok by (simp add: registry_ok_def delete_conv')
  then show ?thesis using run None by (auto simp: delete_entry_def)
next
  case (Some router)
  then have known: "dhas (ct_registered_models ct) m" using ok by (auto simp: registry_ok_def dhas_def)
  let ?rs = "AList.delete m (ct_request_routers ct)"
  let ?gone = "ct\<lparr>ct_request_routers := ?rs, ct_registered_models := AList.delete m (ct_registered_models ct)\<rparr>"
  have sub: "set ?rs \<subseteq> set (ct_request_routers ct)" by (auto simp: AList.delete_eq)
  have "distinct (map fst ?rs)" "distinct (map snd ?rs)"
    using ok by (auto simp: registry_ok_def AList.delete_eq distinct_map_filter)
  moreover have "dom (map_of (AList.delete m (ct_registered_models ct))) = dom (map_of ?rs)"
    using ok by (simp add: registry_ok_def delete_conv')
  moreover have "\<forall>r \<in> set (map snd ?rs). r < ct_next_router ct" using ok sub unfolding registry_ok_def set_map by blast
  ultimately have gone: "registry_ok (ctl_record c ?gone)" for c unfolding registry_ok_def ctl_record_def by simp
  have "ct' = ctl_record (Router_Call ''shutdown'' m router) ?gone \<or> (\<exists>c. ct' = ctl_record c ct)"
    using run Some known by (auto simp: delete_entry_def Let_def split: if_splits)
  moreover have "registry_ok (ctl_record c ct)" for c using ok registry_ok_cong [of "ctl_record c ct" ct] by (simp add: registry_def ctl_record_def)
  ultimately show ?thesis using gone image_mono [OF sub, of snd] by (elim disjE exE) (simp_all add: ctl_record_def)
qed

lemma ctl_step_ok: "ctl_step s s' \<Longrightarrow> ctl_ok s \<Longrightarrow> ctl_ok s'"
proof (induction rule: ctl_step.induct)
  case (Start ct r ct' ts)
  then show ?case
    by - (rule ctl_ok_kept [of ct ts], auto simp: start_controller_def same_registry_def registry_def split: if_splits)
next
  case (Register sl config ct r ct' ts)
  then show ?case by - (rule ctl_ok_kept [of ct ts], auto dest: keepsD [OF register_check_keeps])
next
  case (Store config ts sr sl ct r ct')
  then show ?case
    by - (rule ctl_ok_kept [of ct ts], auto dest: keepsD [OF register_store_keeps] created_routers_remove)
next
  case (Construct config ts created ct r ct')
  show ?case
  proof (cases r)
    case (Inl e)
    then show ?thesis using Construct created_routers_remove [of "Constructing config" ts]
      by - (rule ctl_ok_kept [of ct ts], auto simp: construct_router_def registry.kept_refl split: sum.splits)
  next
    case (Inr n)
    then show ?thesis using construct_ok [OF Construct(3) Construct(2) [unfolded Inr], of "Constructing config"] Construct(1) by simp
  qed
next
  case (Admit config n ts ct ok ct')
  then show ?case using created_routers_remove [of "Admitting config n" ts]
    by - (rule ctl_ok_kept [of ct ts], auto simp: admit_router_def Let_def registry.kept_refl split: if_splits)
next
  case (Enter config n ts ct)
  then show ?case by (simp add: enter_ok)
next
  case (Update m ct ts config)
  then show ?case by - (rule ctl_ok_kept [of ct ts], auto simp: registry.kept_refl)
next
  case (Update_Config m config ts ct r ct')
  then have "registry_ok ct'" using update_config_registry [OF Update_Config(2)] by (simp add: ctl_ok_def registry_ok_def)
  then show ?case using Update_Config update_config_registry [OF Update_Config(2)] created_routers_remove [of "Updating m config" ts]
    by - (rule ctl_ok_fewer [of ct ts], auto)
next
  case (Delete m lora ct r ct' ts)
  then show ?case using delete_entry_ok [OF _ Delete(1)]
    by - (rule ctl_ok_fewer [of ct ts], auto simp: ctl_ok_def split: sum.splits deletion.splits)
next
  case (Stopped m ts ct raised)
  then show ?case using created_routers_remove [of "Stopping m" ts]
    by - (rule ctl_ok_kept [of ct ts], auto simp: registry.kept_refl)
next
  case (Clear m ts ct r ct' t)
  then show ?case using created_routers_remove [of "Clearing m" ts]
    by - (rule ctl_ok_kept [of ct ts], auto simp: clear_scheduler_model_state_def change_def split: sum.splits)
next
  case (Kill m dl q qd seen ts lk ct again seen' ct')
  then show ?case using created_routers_remove [of "Killing m dl q qd seen" ts] kill_turn_registry [OF Kill(2)]
    by - (rule ctl_ok_kept [of ct ts], auto simp: same_registry_def split: option.splits)
next
  case (Event operation handler node_id ct r ct' ts model_name)
  then show ?case
    by - (rule ctl_ok_kept [of ct ts], auto simp: tell_scheduler_def change_def registry.kept_refl split: option.splits)
next
  case (Select handler model_name ts ct)
  then show ?case using created_routers_remove [of "Selecting handler model_name" ts]
    by - (rule ctl_ok_kept [of ct ts], auto simp: registry.kept_refl split: sum.splits)
next
  case (Pass handler m n targets ts ct)
  then show ?case using created_routers_remove [of "Passing handler ((m, n) # targets)" ts]
    by - (rule ctl_ok_kept [of ct ts], auto)
next
  case (Shutdown ct r ct' ts)
  then show ?case
    by - (rule ctl_ok_kept [of ct ts], auto simp: shutdown_controller_def same_registry_def registry_def split: if_splits)
qed

lemma inj_on_map_of:
  assumes "distinct (map snd xs)"
  shows "inj_on (map_of xs) (dom (map_of xs))"
proof (rule inj_onI)
  fix j k
  assume "j \<in> dom (map_of xs)" "map_of xs j = map_of xs k"
  moreover from this obtain r where "map_of xs j = Some r" by blast
  ultimately have "map_of xs j = Some r" "map_of xs k = Some r" by simp_all
  then have r: "(j, r) \<in> set xs" "(k, r) \<in> set xs" by (simp_all add: map_of_SomeD)
  then show "j = k" using inj_onD [of snd "set xs" "(j, r)" "(k, r)"] assms by (simp add: distinct_map)
qed

text \<open>
  C39. Over all interleavings of the stretches of registrations, updates, deletions with their
  clean-up, all five kinds of spot events and the shutdown, whatever the awaited calls answer or raise, a
  model is registered exactly when it has a router, with one entry each, no two models share a router,
  and a router of a registration that is still under way is in the registry for no model.
\<close>

theorem registry_consistent:
  assumes "ctl_step\<^sup>*\<^sup>* (SllmController config, []) (ct, ts)"
  shows "dom (map_of (ct_registered_models ct)) = dom (map_of (ct_request_routers ct))
    \<and> distinct (map fst (ct_request_routers ct)) \<and> inj_on (map_of (ct_request_routers ct)) (dom (map_of (ct_request_routers ct)))
    \<and> distinct (created_routers ts) \<and> set (created_routers ts) \<inter> ran (map_of (ct_request_routers ct)) = {}"
proof -
  have "ctl_ok s" if "ctl_step\<^sup>*\<^sup>* (SllmController config, []) s" for s
    using that
  proof (induction rule: rtranclp_induct)
    case base
    then show ?case by (simp add: ctl_ok_def registry_ok_def SllmController_def)
  qed (rule ctl_step_ok)
  from this [OF assms] have ok: "ctl_ok (ct, ts)" .
  then have "ran (map_of (ct_request_routers ct)) = snd ` set (ct_request_routers ct)"
    by (simp add: ctl_ok_def registry_ok_def ran_distinct)
  then show ?thesis using ok by (simp add: ctl_ok_def registry_ok_def inj_on_map_of)
qed

section \<open>Deletion\<close>

lemma kill_turn_deadline: "lk_now lk \<ge> deadline \<Longrightarrow> fst (kill_turn m deadline quiet_s lk qd s) = None"
  by (simp add: kill_turn_def Let_def)

lemma kill_loop_ends:
  "\<exists>lk \<in> set looks. lk_now lk \<ge> deadline \<Longrightarrow> kill_loop m deadline quiet_s looks quiet_deadline s \<noteq> None"
proof (induction looks arbitrary: quiet_deadline s)
  case (Cons lk looks)
  obtain again s' where t: "kill_turn m deadline quiet_s lk quiet_deadline s = (again, s')"
    by (cases "kill_turn m deadline quiet_s lk quiet_deadline s")
  show ?case
  proof (cases again)
    case None
    then show ?thesis using t by simp
  next
    case (Some qd)
    then have "\<not> lk_now lk \<ge> deadline" using kill_turn_deadline [of deadline lk m quiet_s quiet_deadline s] t by auto
    then show ?thesis using Cons Some t by simp
  qed
qed simp

text \<open>Everything the clean-up kills was alive at a look and carries the name of the model.\<close>

definition killed_by :: "ctl_call list \<Rightarrow> string set" where
  "killed_by calls = {n. Kill_Actor n \<in> set calls}"

definition adds_kills :: "string set \<Rightarrow> controller \<Rightarrow> controller \<Rightarrow> bool" where
  "adds_kills names ct ct' \<longleftrightarrow> (\<exists>new. ct_calls ct' = ct_calls ct @ new \<and> killed_by new \<subseteq> names)"

lemma adds_kills_refl: "adds_kills names ct ct"
  by (simp add: adds_kills_def killed_by_def)

lemma adds_kills_trans: "adds_kills A ct ct' \<Longrightarrow> adds_kills B ct' ct'' \<Longrightarrow> A \<subseteq> C \<Longrightarrow> B \<subseteq> C \<Longrightarrow> adds_kills C ct ct''"
proof -
  assume "adds_kills A ct ct'" "adds_kills B ct' ct''" and sub: "A \<subseteq> C" "B \<subseteq> C"
  then obtain xs ys where "ct_calls ct'' = ct_calls ct @ (xs @ ys)" "killed_by xs \<subseteq> A" "killed_by ys \<subseteq> B"
    unfolding adds_kills_def by auto
  then show ?thesis using sub unfolding adds_kills_def killed_by_def by (intro exI [of _ "xs @ ys"]) auto
qed

lemma kill_actors_kills: "adds_kills (set names) (snd s) (snd (fold (kill_actor lk) names s))"
proof (induction names arbitrary: s)
  case Nil
  then show ?case by (simp add: adds_kills_refl)
next
  case (Cons n names)
  have "adds_kills {n} (snd s) (snd (kill_actor lk n s))"
    by (cases s) (auto simp: kill_actor_def ctl_record_def adds_kills_def killed_by_def)
  from adds_kills_trans [OF this Cons.IH [of "kill_actor lk n s"], of "set (n # names)"] show ?case by auto
qed

lemma kill_turn_kills:
  assumes "kill_turn m dl q lk qd s = (again, s')"
  shows "adds_kills (set (alive_actor_names_for_model m (lk_actors lk))) (snd s) (snd s')"
proof -
  let ?names = "filter (\<lambda>n. n \<notin> set (fst s)) (alive_actor_names_for_model m (lk_actors lk))"
  have "s' = s \<or> s' = fold (kill_actor lk) ?names s" using assms by (auto simp: kill_turn_def Let_def split: if_splits)
  then show ?thesis
    using kill_actors_kills [of ?names s lk] adds_kills_trans [OF kill_actors_kills [of ?names s lk] adds_kills_refl]
    by (auto simp: adds_kills_refl)
qed

lemma kill_loop_kills:
  "kill_loop m dl q looks qd s = Some s' \<Longrightarrow>
   adds_kills (\<Union>lk \<in> set looks. set (alive_actor_names_for_model m (lk_actors lk))) (snd s) (snd s')"
proof (induction looks arbitrary: qd s)
  case (Cons lk looks)
  obtain again s1 where t: "kill_turn m dl q lk qd s = (again, s1)" by (cases "kill_turn m dl q lk qd s")
  have "adds_kills (\<Union>lk \<in> set looks. set (alive_actor_names_for_model m (lk_actors lk))) (snd s1) (snd s')"
    using Cons t by (cases again) (auto simp: adds_kills_def killed_by_def)
  from adds_kills_trans [OF kill_turn_kills [OF t] this] show ?case by auto
qed simp

text \<open>
  An actor that Ray resolves is counted as dealt with only once it was killed: a turn kills every actor of the
  model that it sees alive and that Ray can kill.
\<close>

definition killed_since :: "nat \<Rightarrow> string list \<times> controller \<Rightarrow> string set" where
  "killed_since b s = killed_by (drop b (ct_calls (snd s)))"

definition settled :: "nat \<Rightarrow> string \<Rightarrow> string list \<times> controller \<Rightarrow> bool" where
  "settled b n s \<longleftrightarrow> b \<le> length (ct_calls (snd s)) \<and> (n \<in> set (fst s) \<longrightarrow> n \<in> killed_since b s)"

lemma kill_actor_settles:
  assumes "lk_resolved lk n" and "settled b n s"
  shows "settled b n (kill_actor lk k s)" and "n \<in> killed_since b s \<Longrightarrow> n \<in> killed_since b (kill_actor lk k s)"
    and "lk_killed lk n \<Longrightarrow> n \<in> killed_since b (kill_actor lk n s)"
  using assms by (cases s; auto simp: kill_actor_def settled_def killed_since_def ctl_record_def killed_by_def)+

lemma kill_actors_settle:
  assumes "lk_resolved lk n" and "settled b n s"
  shows "settled b n (fold (kill_actor lk) names s)"
    and "n \<in> killed_since b s \<or> n \<in> set names \<and> lk_killed lk n \<Longrightarrow> n \<in> killed_since b (fold (kill_actor lk) names s)"
proof -
  have "settled b n (fold (kill_actor lk) names s) \<and>
    (n \<in> killed_since b s \<or> n \<in> set names \<and> lk_killed lk n \<longrightarrow> n \<in> killed_since b (fold (kill_actor lk) names s))"
    using assms(2)
  proof (induction names arbitrary: s)
    case (Cons k names)
    note k = kill_actor_settles [OF assms(1) Cons.prems]
    from Cons.IH [OF k(1)] show ?case using k(2,3) by (cases "k = n") auto
  qed simp
  then show "settled b n (fold (kill_actor lk) names s)"
    and "n \<in> killed_since b s \<or> n \<in> set names \<and> lk_killed lk n \<Longrightarrow> n \<in> killed_since b (fold (kill_actor lk) names s)" by auto
qed

lemma kill_turn_settles:
  assumes "kill_turn m dl q lk qd s = (again, s')" and "lk_resolved lk n" and "settled b n s"
  shows "settled b n s'" and "n \<in> killed_since b s \<Longrightarrow> n \<in> killed_since b s'"
    and "n \<in> set (alive_actor_names_for_model m (lk_actors lk)) \<Longrightarrow> lk_killed lk n \<Longrightarrow> n \<in> killed_since b s'"
proof -
  let ?names = "filter (\<lambda>n. n \<notin> set (fst s)) (alive_actor_names_for_model m (lk_actors lk))"
  have s': "s' = fold (kill_actor lk) ?names s" using assms(1) by (auto simp: kill_turn_def Let_def split: if_splits)
  note names = kill_actors_settle [OF assms(2,3), of ?names, folded s']
  show "settled b n s'" by (rule names(1))
  show "n \<in> killed_since b s \<Longrightarrow> n \<in> killed_since b s'" by (rule names(2)) simp
  assume "n \<in> set (alive_actor_names_for_model m (lk_actors lk))" "lk_killed lk n"
  then show "n \<in> killed_since b s'" using assms(3) by (intro names(2)) (auto simp: settled_def)
qed

text \<open>The looks the loop takes before it ends, and what it kills at them.\<close>

definition must_die :: "string \<Rightarrow> look list \<Rightarrow> string \<Rightarrow> bool" where
  "must_die m looks n \<longleftrightarrow> (\<forall>lk \<in> set looks. lk_resolved lk n)
     \<and> (\<exists>lk \<in> set looks. n \<in> set (alive_actor_names_for_model m (lk_actors lk)) \<and> lk_killed lk n)"

lemma kill_loop_complete:
  assumes "kill_loop m dl q looks qd s = Some s'"
  shows "\<exists>k \<le> length looks. kill_loop m dl q (take k looks) qd s = Some s' \<and> (\<forall>j < k. kill_loop m dl q (take j looks) qd s = None)
    \<and> (\<forall>n b. settled b n s \<longrightarrow> (\<forall>lk \<in> set (take k looks). lk_resolved lk n) \<longrightarrow>
         n \<in> killed_since b s \<or> must_die m (take k looks) n \<longrightarrow> n \<in> killed_since b s')"
  using assms
proof (induction looks arbitrary: qd s)
  case (Cons lk looks)
  obtain again s1 where t: "kill_turn m dl q lk qd s = (again, s1)" by (cases "kill_turn m dl q lk qd s")
  note turn = kill_turn_settles [OF t]
  show ?case
  proof (cases again)
    case None
    then have "s' = s1" using Cons.prems t by simp
    then show ?thesis using None t turn by (intro exI [of _ "Suc 0"]) (auto simp: less_Suc_eq must_die_def)
  next
    case (Some qd1)
    then have "kill_loop m dl q looks qd1 s1 = Some s'" using Cons.prems t by simp
    from Cons.IH [OF this] obtain k where k: "k \<le> length looks" "kill_loop m dl q (take k looks) qd1 s1 = Some s'"
      and least: "\<forall>j < k. kill_loop m dl q (take j looks) qd1 s1 = None"
      and rest: "\<And>n b. settled b n s1 \<Longrightarrow> \<forall>lk \<in> set (take k looks). lk_resolved lk n \<Longrightarrow>
         n \<in> killed_since b s1 \<or> must_die m (take k looks) n \<Longrightarrow> n \<in> killed_since b s'" by blast
    have "kill_loop m dl q (take j (lk # looks)) qd s = None" if "j < Suc k" for j
      using that least t Some by (cases j) auto
    moreover have "n \<in> killed_since b s'"
      if n: "settled b n s" "\<forall>lk \<in> set (take (Suc k) (lk # looks)). lk_resolved lk n"
        "n \<in> killed_since b s \<or> must_die m (take (Suc k) (lk # looks)) n" for n b
    proof -
      have r: "lk_resolved lk n" "\<forall>lk \<in> set (take k looks). lk_resolved lk n" using n(2) by simp_all
      have "n \<in> killed_since b s1 \<or> must_die m (take k looks) n"
        using n(3) r turn(2,3) [OF r(1) n(1)] by (auto simp: must_die_def)
      then show ?thesis by (rule rest [OF turn(1) [OF r(1) n(1)] r(2)])
    qed
    ultimately show ?thesis using k t Some by (intro exI [of _ "Suc k"]) simp
  qed
qed simp

lemma cleanup_ends:
  assumes times: "cleanup_times ct = Inr (timeout_s, quiet_s)" and looks: "\<exists>lk \<in> set looks. lk_now lk \<ge> t + timeout_s"
  obtains k ct' new where "k \<le> length looks" "kill_detached_model_actors t looks m ct = (Inr (), ct')"
    "kill_detached_model_actors t (take k looks) m ct = (Inr (), ct')"
    "\<forall>j < k. fst (kill_detached_model_actors t (take j looks) m ct) = Inl OutOfModel"
    "registry ct' = registry ct" "ct_calls ct' = ct_calls ct @ new"
    "killed_by new \<subseteq> (\<Union>lk \<in> set (take k looks). set (alive_actor_names_for_model m (lk_actors lk)))"
    "{n. must_die m (take k looks) n} \<subseteq> killed_by new"
proof -
  obtain names ct' where loop: "kill_loop m (t + timeout_s) quiet_s looks (t + quiet_s) ([], ct) = Some (names, ct')"
    using kill_loop_ends [OF looks, of m quiet_s "t + quiet_s" "([], ct)"] by auto
  from kill_loop_complete [OF loop] obtain k where k: "k \<le> length looks"
      "kill_loop m (t + timeout_s) quiet_s (take k looks) (t + quiet_s) ([], ct) = Some (names, ct')"
    and least: "\<forall>j < k. kill_loop m (t + timeout_s) quiet_s (take j looks) (t + quiet_s) ([], ct) = None"
    and kills: "\<And>n b. settled b n ([], ct) \<Longrightarrow> \<forall>lk \<in> set (take k looks). lk_resolved lk n \<Longrightarrow>
       n \<in> killed_since b ([], ct) \<or> must_die m (take k looks) n \<Longrightarrow> n \<in> killed_since b (names, ct')"
    by blast
  obtain new where new: "ct_calls ct' = ct_calls ct @ new"
      "killed_by new \<subseteq> (\<Union>lk \<in> set (take k looks). set (alive_actor_names_for_model m (lk_actors lk)))"
    using kill_loop_kills [OF k(2)] by (auto simp: adds_kills_def)
  have "n \<in> killed_by new" if "must_die m (take k looks) n" for n
    using kills [of "length (ct_calls ct)" n] that new(1) by (auto simp: settled_def killed_since_def must_die_def)
  moreover have "kill_detached_model_actors t looks m ct = (Inr (), ct')"
    "kill_detached_model_actors t (take k looks) m ct = (Inr (), ct')"
    "\<forall>j < k. fst (kill_detached_model_actors t (take j looks) m ct) = Inl OutOfModel"
    using loop k(2) least times by (simp_all add: kill_detached_model_actors_def)
  moreover have "registry ct' = registry ct" using kill_loop_registry [OF loop] by simp
  ultimately show thesis using that [OF k(1)] new by blast
qed

text \<open>
  C40. Deleting a registered model. Its entries go first and its router is told to shut down. When the
  shutdown raises, the deletion raises the same and does nothing more. Otherwise the scheduler is
  asked to forget the model and the clean-up ends, at the first look at or after its deadline at the
  latest. Of the looks it takes until then (a shorter prefix of them is not enough): only actors that one
  of them shows alive with the model's name or its prefix are killed, and every one of these is killed that
  Ray resolves at all of them and can kill at one that shows it alive.
\<close>

theorem deletion_complete:
  assumes ok: "registry_ok ct" and known: "map_of (ct_request_routers ct) m = Some router"
    and times: "cleanup_times ct = Inr (timeout_s, quiet_s)"
    and looks: "\<exists>lk \<in> set looks. lk_now lk \<ge> t + timeout_s"
  shows "\<exists>ct' new. \<not> model_exists m ct' \<and> map_of (ct_request_routers ct') m = None
    \<and> ct_calls ct' = ct_calls ct @ Router_Call ''shutdown'' m router # new
    \<and> (case shutdown_answer of
         Inl e \<Rightarrow> delete_model shutdown_answer t looks m None ct = (Inl e, ct') \<and> new = []
       | Inr _ \<Rightarrow>
           delete_model shutdown_answer t looks m None ct = (Inr (), ct') \<and> hd new = Scheduler_Call ''clear_model'' m \<and> new \<noteq> []
           \<and> (\<exists>k \<le> length looks.
                delete_model shutdown_answer t (take k looks) m None ct = (Inr (), ct')
                \<and> (\<forall>j < k. fst (delete_model shutdown_answer t (take j looks) m None ct) = Inl OutOfModel)
                \<and> killed_by new \<subseteq> (\<Union>lk \<in> set (take k looks). set (alive_actor_names_for_model m (lk_actors lk)))
                \<and> {n. must_die m (take k looks) n} \<subseteq> killed_by new))"
proof -
  let ?gone = "ct\<lparr>ct_request_routers := AList.delete m (ct_request_routers ct),
      ct_registered_models := AList.delete m (ct_registered_models ct),
      ct_calls := ct_calls ct @ [Router_Call ''shutdown'' m router]\<rparr>"
  let ?forgot = "ctl_record (Scheduler_Call ''clear_model'' m) ?gone"
  have "dhas (ct_registered_models ct) m" using ok known by (auto simp: registry_ok_def dhas_def)
  then have entry: "delete_entry m None ct = (Inr Router_Stops, ?gone)"
    using known by (simp add: delete_entry_def Let_def ctl_record_def)
  show ?thesis
  proof (cases shutdown_answer)
    case (Inl e)
    then show ?thesis using entry
      by (intro exI [of _ ?gone] exI [of _ "[]"])
        (simp add: delete_model_def sbind_def lift_def Let_def model_exists_def dhas_def delete_conv')
  next
    case (Inr u)
    have forgot: "cleanup_times ?forgot = Inr (timeout_s, quiet_s)" using times by (simp add: cleanup_times_def ctl_record_def)
    have run: "delete_model shutdown_answer t lks m None ct = kill_detached_model_actors t lks m ?forgot" for lks
      using entry Inr by (simp add: delete_model_def sbind_def lift_def change_def Let_def clear_scheduler_model_state_def)
    obtain k ct' new where k: "k \<le> length looks" and ended: "kill_detached_model_actors t looks m ?forgot = (Inr (), ct')"
        "kill_detached_model_actors t (take k looks) m ?forgot = (Inr (), ct')"
        "\<forall>j < k. fst (kill_detached_model_actors t (take j looks) m ?forgot) = Inl OutOfModel"
      and same: "registry ct' = registry ?forgot" and new: "ct_calls ct' = ct_calls ?forgot @ new"
        "killed_by new \<subseteq> (\<Union>lk \<in> set (take k looks). set (alive_actor_names_for_model m (lk_actors lk)))"
        "{n. must_die m (take k looks) n} \<subseteq> killed_by new"
      by (rule cleanup_ends [OF forgot looks])
    let ?new = "Scheduler_Call ''clear_model'' m # new"
    have kills: "killed_by ?new = killed_by new" by (simp add: killed_by_def)
    have gone: "\<not> model_exists m ct'" "map_of (ct_request_routers ct') m = None"
      using same by (auto simp: registry_def ctl_record_def model_exists_def dhas_def delete_conv')
    have calls: "ct_calls ct' = ct_calls ct @ Router_Call ''shutdown'' m router # ?new" using new(1) by (simp add: ctl_record_def)
    show ?thesis
      using gone calls ended k new(2,3) [folded kills] unfolding run unfolding Inr sum.case
      by (intro exI [of _ ct'] exI [of _ ?new] exI [of _ k] conjI) (assumption | simp only: list.sel(1) | simp only: list.distinct not_False_eq_True)+
  qed
qed

section \<open>Fine-tuning jobs\<close>

definition job_status :: "controller \<Rightarrow> string \<Rightarrow> string option" where
  "job_status ct k = map_option jb_status (map_of (ct_jobs ct) k)"

lemma job_status_update:
  "job_status (update_status j st err ct) k = (if k = j then map_option (\<lambda>_. st) (job_status ct k) else job_status ct k)"
proof -
  have "map_of (map (\<lambda>(k, job). (k, if k = j then f job else job)) xs) k
      = (if k = j then map_option f (map_of xs k) else map_of xs k)" for f :: "ft_job \<Rightarrow> ft_job" and xs
    by (induction xs) auto
  then show ?thesis by (simp add: job_status_def update_status_def option.map_comp comp_def)
qed

lemma job_status_record [simp]: "job_status (ctl_record c ct) = job_status ct"
  by (simp add: job_status_def ctl_record_def fun_eq_iff)

text \<open>A job changes only its own status; when it returns, it is completed or failed.\<close>

lemma start_ft_job_status:
  assumes "start_ft_job fa entry ct = (r, ct')"
  shows "k \<noteq> fst entry \<Longrightarrow> job_status ct' k = job_status ct k"
    and "job_status ct (fst entry) \<noteq> None \<Longrightarrow> r = Inr () \<Longrightarrow> job_status ct' (fst entry) \<in> {Some ''completed'', Some ''failed''}"
proof -
  have "(k \<noteq> fst entry \<longrightarrow> job_status ct' k = job_status ct k)
    \<and> (job_status ct (fst entry) \<noteq> None \<longrightarrow> r = Inr () \<longrightarrow> job_status ct' (fst entry) \<in> {Some ''completed'', Some ''failed''})"
    using assms
    by (cases "fa_download fa"; cases "fa_start fa"; cases "fa_fine_tuning fa")
      (auto simp: start_ft_job_def Let_def sbind_def change_def lift_def job_status_update
        split: sum.splits if_splits pyval.splits option.splits prod.splits)
  then show "k \<noteq> fst entry \<Longrightarrow> job_status ct' k = job_status ct k"
    and "job_status ct (fst entry) \<noteq> None \<Longrightarrow> r = Inr () \<Longrightarrow> job_status ct' (fst entry) \<in> {Some ''completed'', Some ''failed''}"
    by blast+
qed

definition used :: "(int \<times> int \<Rightarrow> int) \<Rightarrow> string list \<Rightarrow> (string \<times> ft_job) list \<Rightarrow> int" where
  "used resource started entries =
     sum_list (map (\<lambda>e. resource (job_needs (snd e))) (filter (\<lambda>e. fst e \<in> set started) entries))"

lemma used_Cons:
  "used resource started (e # entries) = (if fst e \<in> set started then resource (job_needs (snd e)) else 0) + used resource started entries"
  by (simp add: used_def)

lemma used_other: "k \<notin> fst ` set entries \<Longrightarrow> used resource (k # started) entries = used resource started entries"
  unfolding used_def by (intro arg_cong [where f = sum_list] arg_cong [where f = "map _"] filter_cong) auto

lemma used_disjoint: "set started \<inter> fst ` set entries = {} \<Longrightarrow> used resource started entries = 0"
  by (induction entries) (auto simp: used_def)

lemma run_jobs_budget:
  assumes "run_jobs fa entries available ct = (Inr started, ct')" and "distinct (map fst entries)"
    and "\<forall>e \<in> set entries. 0 \<le> fst (job_needs (snd e)) \<and> 0 \<le> snd (job_needs (snd e)) \<and> job_status ct (fst e) \<noteq> None"
    and "0 \<le> fst available" "0 \<le> snd available"
  shows "set started \<subseteq> fst ` set entries \<and> used fst started entries \<le> fst available \<and> used snd started entries \<le> snd available
    \<and> (\<forall>k. k \<notin> set started \<longrightarrow> job_status ct' k = job_status ct k)
    \<and> (\<forall>k \<in> set started. job_status ct' k \<in> {Some ''completed'', Some ''failed''})"
  using assms
proof (induction entries arbitrary: available ct started)
  case Nil
  then show ?case by (simp add: used_def)
next
  case (Cons e entries)
  obtain c g where needs: "job_needs (snd e) = (c, g)" by (cases "job_needs (snd e)")
  show ?case
  proof (cases "fst available \<ge> c \<and> snd available \<ge> g")
    case False
    then have run: "run_jobs fa entries available ct = (Inr started, ct')" using Cons.prems(1) needs by (auto split: if_splits)
    from Cons.IH [OF this] Cons.prems(2-5)
    have IH: "set started \<subseteq> fst ` set entries \<and> used fst started entries \<le> fst available \<and> used snd started entries \<le> snd available
      \<and> (\<forall>k. k \<notin> set started \<longrightarrow> job_status ct' k = job_status ct k)
      \<and> (\<forall>k \<in> set started. job_status ct' k \<in> {Some ''completed'', Some ''failed''})" by simp
    then have "fst e \<notin> set started" using Cons.prems(2) by auto
    then show ?thesis using IH by (auto simp: used_Cons)
  next
    case True
    then obtain ct1 rest where step: "start_ft_job (fa (fst e)) e ct = (Inr (), ct1)"
      and run: "run_jobs fa entries (fst available - c, snd available - g) ct1 = (Inr rest, ct')" and st: "started = fst e # rest"
      using Cons.prems(1) needs by (auto simp: sbind_Inr)
    note one = start_ft_job_status [OF step]
    have fresh: "fst e \<notin> fst ` set entries" using Cons.prems(2) by simp
    have "job_status ct1 (fst x) = job_status ct (fst x)" if "x \<in> set entries" for x
      using fresh that by (intro one(1)) (metis image_eqI)
    then have keep: "\<forall>x \<in> set entries. job_status ct1 (fst x) \<noteq> None" using Cons.prems(3) by simp
    have IH: "set rest \<subseteq> fst ` set entries \<and> used fst rest entries \<le> fst available - c \<and> used snd rest entries \<le> snd available - g
      \<and> (\<forall>k. k \<notin> set rest \<longrightarrow> job_status ct' k = job_status ct1 k)
      \<and> (\<forall>k \<in> set rest. job_status ct' k \<in> {Some ''completed'', Some ''failed''})"
      using Cons.IH [OF run] Cons.prems(2,3) keep True by simp
    have "job_status ct' (fst e) = job_status ct1 (fst e)" using IH fresh by auto
    then have "job_status ct' (fst e) \<in> {Some ''completed'', Some ''failed''}" using one(2) Cons.prems(3) by simp
    moreover have "used resource started (e # entries) = resource (c, g) + used resource rest entries" for resource
      using fresh by (simp add: st used_Cons needs used_other)
    ultimately show ?thesis using IH one(1) st by auto
  qed
qed

text \<open>
  A round over the fine-tuning jobs starts only pending jobs, never asks for more CPUs and GPUs
  in all than Ray reported free, and leaves every job it started completed or failed and all others as they
  were.
\<close>

theorem ft_round_within_resources:
  assumes "process_ft_jobs_round fa available ct = (Inr started, ct')" and "distinct (map fst (ct_jobs ct))"
    and "\<forall>e \<in> set (get_pending_jobs ct). 0 \<le> fst (job_needs (snd e)) \<and> 0 \<le> snd (job_needs (snd e))"
    and "0 \<le> fst available" "0 \<le> snd available"
  shows "set started \<subseteq> fst ` set (get_pending_jobs ct)
    \<and> used fst started (get_pending_jobs ct) \<le> fst available \<and> used snd started (get_pending_jobs ct) \<le> snd available
    \<and> (\<forall>k. k \<notin> set started \<longrightarrow> job_status ct' k = job_status ct k)
    \<and> (\<forall>k \<in> set started. job_status ct' k \<in> {Some ''completed'', Some ''failed''})"
proof -
  let ?jobs = "sort_key job_order (get_pending_jobs ct)"
  have perm: "mset ?jobs = mset (get_pending_jobs ct)" by simp
  have same: "used resource st ?jobs = used resource st (get_pending_jobs ct)" for resource st
  proof -
    have "mset (map (\<lambda>e. resource (job_needs (snd e))) (filter (\<lambda>e. fst e \<in> set st) ?jobs))
        = mset (map (\<lambda>e. resource (job_needs (snd e))) (filter (\<lambda>e. fst e \<in> set st) (get_pending_jobs ct)))"
      by simp
    then show ?thesis unfolding used_def by (metis sum_mset_sum_list)
  qed
  have "distinct (map fst (get_pending_jobs ct))" using assms(2) by (simp add: get_pending_jobs_def distinct_map_filter)
  moreover have "mset (map fst ?jobs) = mset (map fst (get_pending_jobs ct))" by simp
  ultimately have d: "distinct (map fst ?jobs)" using mset_eq_imp_distinct_iff by blast
  have known: "job_status ct (fst e) \<noteq> None" if "e \<in> set (get_pending_jobs ct)" for e
    using that by (auto simp: get_pending_jobs_def job_status_def map_of_eq_None_iff image_iff)
  show ?thesis
    using run_jobs_budget [OF assms(1) [unfolded process_ft_jobs_round_def] d] assms(3-5) known by (simp add: same)
qed

section \<open>Concrete runs\<close>

definition two_models :: controller where
  "two_models = (SllmController [])\<lparr>ct_running := True,
     ct_registered_models := [(''opt'', []), (''opt_large'', [])], ct_request_routers := [(''opt'', 0), (''opt_large'', 1)],
     ct_next_router := 2\<rparr>"

theorem spot_event_reaches_routers_witness:
  "ctl_handle_preemption (\<lambda>m. if m = ''opt'' then Inl (RuntimeError ''lost'') else Inr (PInt 1)) (Some ''n0'') None None two_models
   = (Inr [(''opt'', PDict [(''error'', PStr ''lost'')]), (''opt_large'', PInt 1)],
      two_models\<lparr>ct_calls := [Scheduler_Call ''mark_node_preempting'' ''n0'', Router_Call ''handle_preemption'' ''opt'' 0,
        Router_Call ''handle_preemption'' ''opt_large'' 1]\<rparr>)"
proof -
  have targets: "target_routers None two_models = Inr [(''opt'', 0), (''opt_large'', 1)]" and calls: "ct_calls two_models = []"
    by (simp_all add: target_routers_def two_models_def SllmController_def)
  show ?thesis
    using spot_event_reaches_routers [of "(''mark_node_preempting'', ''handle_preemption'', ctl_handle_preemption)"
        "''mark_node_preempting''" "''handle_preemption''" ctl_handle_preemption "Some ''n0''" None
        "\<lambda>m. if m = ''opt'' then Inl (RuntimeError ''lost'') else Inr (PInt 1)" None two_models]
    by (simp add: targets calls)
qed

text \<open>
  A registration that a deletion of the same model overtakes: the deletion finds no router in the
  registry and begins its clean-up, then the registration enters its router.
\<close>

definition opt_config :: dict where
  "opt_config = [(''model'', PStr ''opt''), (''backend'', PStr ''vllm'')]"

definition storing :: controller where
  "storing = snd (register_check (\<lambda>_. Inr ()) opt_config (snd (start_controller (SllmController []))))"

definition constructing :: controller where
  "constructing = snd (register_store (Inr ()) (\<lambda>_. Inr ()) opt_config storing)"

definition constructed :: controller where
  "constructed = snd (construct_router (Inr ()) constructing)"

definition admitted :: controller where
  "admitted = snd (admit_router opt_config 0 constructed)"

definition deleted :: controller where
  "deleted = snd (delete_entry ''opt'' None admitted)"

definition entered :: controller where
  "entered = enter_router opt_config 0 deleted"

lemma overtaken_values:
  "fst (register_check (\<lambda>_. Inr ()) opt_config (snd (start_controller (SllmController [])))) = Inr True"
  "\<not> isl (fst (register_store (Inr ()) (\<lambda>_. Inr ()) opt_config storing))"
  "fst (construct_router (Inr ()) constructing) = Inr 0"
  "fst (admit_router opt_config 0 constructed)"
  "fst (delete_entry ''opt'' None admitted) = Inr Router_Gone"
  "ct_request_routers entered = [(''opt'', 0)]"
  by code_simp+

lemma overtaken_run: "ctl_step\<^sup>*\<^sup>* (SllmController [], []) (entered, [Clearing ''opt''])"
proof -
  let ?a = "snd (start_controller (SllmController []))"
  have "ctl_step (SllmController [], []) (?a, [])" by (rule ctl_step.Start) (rule surjective_pairing)
  moreover have "ctl_step (?a, []) (storing, [Storing opt_config])"
    using ctl_step.Register [OF surjective_pairing [of "register_check (\<lambda>_. Inr ()) opt_config ?a"], of "[]"] overtaken_values(1)
    by (simp add: storing_def)
  moreover have "ctl_step (storing, [Storing opt_config]) (constructing, [Constructing opt_config])"
    using ctl_step.Store [OF _ surjective_pairing [of "register_store (Inr ()) (\<lambda>_. Inr ()) opt_config storing"], of "[Storing opt_config]"]
      overtaken_values(2) by (simp add: constructing_def)
  moreover have "ctl_step (constructing, [Constructing opt_config]) (constructed, [Admitting opt_config 0])"
    using ctl_step.Construct [OF _ surjective_pairing [of "construct_router (Inr ()) constructing"], of opt_config "[Constructing opt_config]"]
      overtaken_values(3) by (simp add: constructed_def)
  moreover have "ctl_step (constructed, [Admitting opt_config 0]) (admitted, [Entering opt_config 0])"
    using ctl_step.Admit [OF _ surjective_pairing [of "admit_router opt_config 0 constructed"], of "[Admitting opt_config 0]"]
      overtaken_values(4) by (simp add: admitted_def)
  moreover have "ctl_step (admitted, [Entering opt_config 0]) (deleted, [Clearing ''opt'', Entering opt_config 0])"
    using ctl_step.Delete [OF surjective_pairing [of "delete_entry ''opt'' None admitted"], of "[Entering opt_config 0]"]
      overtaken_values(5) by (simp add: deleted_def)
  moreover have "ctl_step (deleted, [Clearing ''opt'', Entering opt_config 0]) (entered, [Clearing ''opt''])"
    using ctl_step.Enter [of opt_config 0 "[Clearing ''opt'', Entering opt_config 0]" deleted] by (simp add: entered_def)
  ultimately show ?thesis by (meson converse_rtranclp_into_rtranclp rtranclp.rtrancl_refl)
qed

theorem registry_consistent_witness:
  "dom (map_of (ct_registered_models entered)) = dom (map_of (ct_request_routers entered))
   \<and> ct_request_routers entered = [(''opt'', 0)]"
  using registry_consistent [OF overtaken_run] overtaken_values(6) by simp

text \<open>The clean-up of that deletion kills the router by its name: the model is registered with a dead router.\<close>

lemma deletion_kills_router_under_registration:
  "let lk = \<lparr>lk_now = 1, lk_actors = [(''opt'', ''ALIVE'')], lk_resolved = (\<lambda>_. True), lk_killed = (\<lambda>_. True)\<rparr>;
       ct = snd (snd (kill_turn ''opt'' 10 2 lk 2 ([], snd (clear_scheduler_model_state ''opt'' entered))))
   in model_exists ''opt'' ct \<and> ct_request_routers ct = [(''opt'', 0)] \<and> Kill_Actor ''opt'' \<in> set (ct_calls ct)"
  by code_simp

text \<open>A model that is deleted between the two stretches of an update: the update raises a KeyError.\<close>

lemma update_of_deleted_model_raises:
  "update_check ''opt'' two_models = Inr ()
   \<and> fst (update_config ''opt'' [(''auto_scaling_config'', PDict [])] (snd (delete_entry ''opt'' None two_models))) = Inl (KeyError ''opt'')"
  by code_simp

text \<open>
  The clean-up takes any actor whose name begins with the model's name and an underscore: deleting
  \<open>opt\<close> kills the living router of the model \<open>opt_large\<close>.
\<close>

definition cluster_look :: look where
  "cluster_look = \<lparr>lk_now = 20, lk_actors = [(''opt_large'', ''ALIVE''), (''other'', ''ALIVE'')],
     lk_resolved = (\<lambda>_. True), lk_killed = (\<lambda>_. True)\<rparr>"

lemma deletion_kills_other_model:
  "let (r, ct) = delete_model (Inr ()) 0 [cluster_look] ''opt'' None two_models
   in r = Inr () \<and> model_exists ''opt_large'' ct \<and> Kill_Actor ''opt_large'' \<in> set (ct_calls ct)"
  by code_simp

theorem deletion_complete_witness:
  "\<not> model_exists ''opt'' (snd (delete_model (Inr ()) 0 [cluster_look] ''opt'' None two_models))
   \<and> fst (delete_model (Inr ()) 0 [cluster_look] ''opt'' None two_models) = Inr ()"
proof -
  have ok: "registry_ok two_models"
    by (auto simp: registry_ok_def two_models_def SllmController_def)
  have known: "map_of (ct_request_routers two_models) ''opt'' = Some 0"
    and times: "cleanup_times two_models = Inr (10, 2)"
    by (simp_all add: two_models_def SllmController_def cleanup_setting_def cleanup_times_def dget_def)
  have looks: "\<exists>lk \<in> set [cluster_look]. lk_now lk \<ge> 0 + 10" by (simp add: cluster_look_def)
  from deletion_complete [OF ok known times looks, of "Inr ()"] show ?thesis by auto
qed

text \<open>When the shutdown of the router raises, the model is forgotten but nothing of it is cleaned up.\<close>

lemma deletion_stops_when_shutdown_raises:
  "let (r, ct) = delete_model (Inl TypeError) 0 [cluster_look] ''opt'' None two_models
   in r = Inl TypeError \<and> \<not> model_exists ''opt'' ct \<and> ct_calls ct = [Router_Call ''shutdown'' ''opt'' 0]"
  by code_simp

lemma shutdown_with_models_raises:
  "let (r, ct) = shutdown_controller two_models
   in r = Inl AttributeError \<and> \<not> ct_running ct \<and> ct_request_routers ct = ct_request_routers two_models"
  by code_simp

text \<open>Two jobs with one GPU each where one GPU is free; the older one runs.\<close>

definition queued_jobs :: "dict \<Rightarrow> controller" where
  "queued_jobs config = register_ft_job ''j2'' ''t2'' config (register_ft_job ''j1'' ''t1'' config (SllmController []))"

definition ft_ok :: ft_answers where
  "ft_ok = \<lparr>fa_model_info = True, fa_download = Inr (), fa_start = Inr (), fa_fine_tuning = Ft_Result (PDict [])\<rparr>"

definition ft_config :: dict where
  "ft_config = [(''model'', PStr ''m''), (''ft_backend'', PStr ''peft_lora'')]"

lemma ft_round_example:
  "fst (process_ft_jobs_round (\<lambda>_. ft_ok) (4, 1) (queued_jobs ft_config)) = Inr [''j1'']
   \<and> distinct (map fst (ct_jobs (queued_jobs ft_config)))
   \<and> list_all (\<lambda>e. job_needs (snd e) = (1, 1)) (get_pending_jobs (queued_jobs ft_config))
   \<and> map fst (get_pending_jobs (queued_jobs ft_config)) = [''j1'', ''j2'']"
  by code_simp

theorem ft_round_within_resources_witness:
  "used snd [''j1''] (get_pending_jobs (queued_jobs ft_config)) \<le> 1
   \<and> fst (process_ft_jobs_round (\<lambda>_. ft_ok) (4, 1) (queued_jobs ft_config)) = Inr [''j1'']"
proof -
  obtain ct' where run: "process_ft_jobs_round (\<lambda>_. ft_ok) (4, 1) (queued_jobs ft_config) = (Inr [''j1''], ct')"
    using ft_round_example by (cases "process_ft_jobs_round (\<lambda>_. ft_ok) (4, 1) (queued_jobs ft_config)") simp
  have "\<forall>e \<in> set (get_pending_jobs (queued_jobs ft_config)). 0 \<le> fst (job_needs (snd e)) \<and> 0 \<le> snd (job_needs (snd e))"
    using ft_round_example by (auto simp: list_all_iff)
  from ft_round_within_resources [OF run _ this] ft_round_example show ?thesis by simp
qed

text \<open>
  A job whose configuration leaves out \<open>ft_backend\<close>, for which the download has a default, raises out
  of the round after its status was set: the job stays running and the later jobs are never reached.
\<close>

lemma ft_job_without_backend_ends_processing:
  "let (r, ct) = process_ft_jobs_round (\<lambda>_. ft_ok) (4, 4) (queued_jobs [(''model'', PStr ''m'')])
   in r = Inl (KeyError ''ft_backend'') \<and> job_status ct ''j1'' = Some ''running'' \<and> job_status ct ''j2'' = Some ''pending''"
  by code_simp

lemma cancel_of_running_job_raises:
  "let ct = update_status ''j1'' ''running'' None (queued_jobs ft_config)
   in fst (cancel_ft_job ''j1'' ct) = Inl AttributeError \<and> cancel_ft_job ''j2'' ct = (Inr (), ct)"
  by code_simp

end
