(* ===== verification/Local_Store.thy ===== *)
theory Local_Store
  imports Risk_Scheduling
begin

text \<open>
  The checkpoints on one node, \<open>SllmLocalStore\<close> of \<open>src/sllm/store_manager.py\<close>: which models are
  on its disk, which are in its pinned memory and which wait to be read into it. The daemon that
  holds the memory is reached through a client; what it answers are arguments here, and what it
  was told is kept in a list of calls. Every method runs from one suspension to the next under the
  lock of the store, so that each is one step, and so is one iteration of the loading loop.
\<close>

section \<open>State\<close>

text \<open>A call to the daemon; a load with its answer.\<close>

datatype client_call = Register_model string | Load_into_cpu string bool | Unload_from_cpu string

record io_entry =
  io_model_name :: string
  io_estimated_time :: rat

record local_store =
  ls_node_id :: string
  ls_hardware_info :: dict
  ls_disk_models :: "(string \<times> string list \<times> int) list"
  ls_queued_models :: "(string \<times> bool) list"
  ls_pinned_memory_pool :: "(string \<times> rat) list"
  ls_chunk_size :: int
  ls_pinned_memory_pool_chunks :: int
  ls_pinned_memory_pool_usage :: int
  ls_io_queue :: "io_entry list"
  ls_client_calls :: "client_call list"

text \<open>\<open>(size + chunk_size - 1) // chunk_size\<close>\<close>

definition chunks_of :: "int \<Rightarrow> int \<Rightarrow> int" where
  "chunks_of chunk_size model_size = (model_size + chunk_size - 1) div chunk_size"

definition local_store_init :: "string \<Rightarrow> int \<Rightarrow> int \<Rightarrow> dict \<Rightarrow> local_store res" where
  "local_store_init node_id mem_pool_size chunk_size hardware_info =
     (if chunk_size = 0 then Inl ZeroDivisionError
      else Inr \<lparr>ls_node_id = node_id, ls_hardware_info = hardware_info, ls_disk_models = [],
                ls_queued_models = [], ls_pinned_memory_pool = [], ls_chunk_size = chunk_size,
                ls_pinned_memory_pool_chunks = mem_pool_size div chunk_size,
                ls_pinned_memory_pool_usage = 0, ls_io_queue = [], ls_client_calls = []\<rparr>)"

section \<open>Registering a model\<close>

text \<open>\<open>os.path.join(a, b)\<close>\<close>

definition path_join :: "string \<Rightarrow> string \<Rightarrow> string" where
  "path_join a b =
     (if starts_with ''/'' b then b
      else if a = '''' \<or> last a = CHR ''/'' then a @ b
      else a @ ''/'' @ b)"

definition get_model_path :: "string \<Rightarrow> string \<Rightarrow> string" where
  "get_model_path model_name backend = path_join backend model_name"

text \<open>\<open>range(n)\<close>\<close>

fun py_range :: "pyval \<Rightarrow> int list res" where
  "py_range (PInt n) = Inr [0..n - 1]"
| "py_range (PBool b) = Inr (if b then [0] else [])"
| "py_range v = Inl TypeError"

text \<open>
  What is returned is the size, or \<open>None\<close> when the model is there already. A backend that is
  neither of the two leaves the size unbound.
\<close>

definition register_model ::
  "(string \<Rightarrow> int) \<Rightarrow> string \<Rightarrow> string \<Rightarrow> dict \<Rightarrow> local_store \<Rightarrow> (local_store \<times> int option) res" where
  "register_model client model_name backend backend_config self =
     (if dhas (ls_disk_models self) model_name then Inr (self, None)
      else
        let model_path = get_model_path model_name backend;
            record_model = (\<lambda>paths size.
              self\<lparr>ls_client_calls := ls_client_calls self @ map Register_model paths,
                   ls_disk_models := AList.update model_name (paths, size) (ls_disk_models self)\<rparr>)
        in if backend = ''transformers''
           then Inr (record_model [model_path] (client model_path), Some (client model_path))
           else if backend = ''vllm''
           then rbind (py_range (dget backend_config ''tensor_parallel_size'' (PInt 1))) (\<lambda>ranks.
             let paths = map (\<lambda>rank. path_join model_path (''rank_'' @ int_str rank)) ranks;
                 model_size = sum_list (map client paths)
             in Inr (record_model paths model_size, Some model_size))
           else Inl (UnboundLocalError ''model_size''))"

section \<open>Asking for a model\<close>

type_synonym store_row = "(string \<times> string list \<times> int) list \<times> (string \<times> rat) list \<times> rat"

definition get_store_info :: "rat \<Rightarrow> local_store \<Rightarrow> store_row" where
  "get_store_info now self =
     (ls_disk_models self, ls_pinned_memory_pool self,
      if ls_io_queue self = [] then 0
      else max 0 (io_estimated_time (last (ls_io_queue self)) - now))"

text \<open>\<open>x / y\<close> of numbers\<close>

definition py_div :: "rat \<Rightarrow> pyval \<Rightarrow> rat res" where
  "py_div x y = rbind (py_num y) (\<lambda>b. if b = 0 then Inl ZeroDivisionError else Inr (x / b))"

definition load_to_host :: "rat \<Rightarrow> string \<Rightarrow> local_store \<Rightarrow> (local_store \<times> bool) res" where
  "load_to_host now model_name self =
     (case map_of (ls_disk_models self) model_name of
        None \<Rightarrow> Inr (self, False)
      | Some (_, model_size) \<Rightarrow>
          if dhas (ls_pinned_memory_pool self) model_name then Inr (self, True)
          else if dhas (ls_queued_models self) model_name then Inr (self, True)
          else
            let start_time = (if ls_io_queue self = [] then now
                              else max (io_estimated_time (last (ls_io_queue self))) now)
            in rbind (py_div (of_int model_size) (dget (ls_hardware_info self) ''disk_bandwidth'' (PInt 1)))
                 (\<lambda>loading_time.
               Inr (self\<lparr>ls_io_queue := ls_io_queue self @
                            [\<lparr>io_model_name = model_name, io_estimated_time = start_time + loading_time\<rparr>],
                         ls_queued_models := AList.update model_name True (ls_queued_models self)\<rparr>, True)))"

section \<open>The loading loop\<close>

definition evict_model :: "string \<Rightarrow> local_store \<Rightarrow> local_store res" where
  "evict_model model_name self =
     rbind (dindex (ls_disk_models self) model_name) (\<lambda>(model_path_list, model_size).
     Inr (self\<lparr>ls_client_calls := ls_client_calls self @ map Unload_from_cpu model_path_list,
               ls_pinned_memory_pool := AList.delete model_name (ls_pinned_memory_pool self),
               ls_pinned_memory_pool_usage :=
                 ls_pinned_memory_pool_usage self - chunks_of (ls_chunk_size self) model_size\<rparr>))"

fun evict_models :: "int \<Rightarrow> (string \<times> rat) list \<Rightarrow> local_store \<Rightarrow> local_store res" where
  "evict_models required_chunks [] self = Inr self"
| "evict_models required_chunks ((model_name, _) # sorted_models) self =
     (if ls_pinned_memory_pool_usage self + required_chunks \<le> ls_pinned_memory_pool_chunks self then Inr self
      else if dhas (ls_queued_models self) model_name
      then evict_models required_chunks sorted_models self
      else rbind (evict_model model_name self) (evict_models required_chunks sorted_models))"

definition lru_eviction :: "int \<Rightarrow> local_store \<Rightarrow> (local_store \<times> bool) res" where
  "lru_eviction model_size self =
     (let required_chunks = chunks_of (ls_chunk_size self) model_size in
      rbind (evict_models required_chunks (sort_key snd (ls_pinned_memory_pool self)) self) (\<lambda>self.
      Inr (self, ls_pinned_memory_pool_usage self + required_chunks \<le> ls_pinned_memory_pool_chunks self)))"

text \<open>\<open>ret = ret and self.client.load_into_cpu(model_path)\<close>: after a failure no path is tried.\<close>

fun load_paths :: "(string \<Rightarrow> bool) \<Rightarrow> string list \<Rightarrow> client_call list \<times> bool" where
  "load_paths client [] = ([], True)"
| "load_paths client (path # paths) =
     (if client path then case load_paths client paths of (calls, ret) \<Rightarrow> (Load_into_cpu path True # calls, ret)
      else ([Load_into_cpu path False], False))"

text \<open>
  One iteration of the loop; \<open>now\<close> is the time at which the model is in memory and \<open>client\<close> what
  the daemon answers to each load.
\<close>

definition loading_step :: "rat \<Rightarrow> (string \<Rightarrow> bool) \<Rightarrow> local_store \<Rightarrow> local_store res" where
  "loading_step now client self =
     (case ls_io_queue self of
        [] \<Rightarrow> Inr self
      | model_info # waiting \<Rightarrow>
          let model_name = io_model_name model_info in
          rbind (dindex (ls_disk_models self) model_name) (\<lambda>(model_path_list, model_size).
          rbind (lru_eviction model_size self) (\<lambda>(self, can_load).
          if \<not> can_load then Inr self
          else case load_paths client model_path_list of (calls, ret) \<Rightarrow>
            rbind (dindex (ls_queued_models self) model_name) (\<lambda>_.
            let self = self\<lparr>ls_client_calls := ls_client_calls self @ calls,
                            ls_io_queue := waiting,
                            ls_queued_models := AList.delete model_name (ls_queued_models self)\<rparr>
            in Inr (if \<not> ret then self
                    else self\<lparr>ls_pinned_memory_pool :=
                                AList.update model_name now (ls_pinned_memory_pool self),
                              ls_pinned_memory_pool_usage :=
                                ls_pinned_memory_pool_usage self + chunks_of (ls_chunk_size self) model_size\<rparr>)))))"

section \<open>Runs of a store\<close>

text \<open>
  What happens to a store, in any order. A size the daemon reports is at least -1, which its
  client returns for a failed registration, and a chunk is larger than a model has ranks.
\<close>

definition rank_count :: "string \<Rightarrow> dict \<Rightarrow> int" where
  "rank_count backend backend_config =
     (case py_range (dget backend_config ''tensor_parallel_size'' (PInt 1)) of
        Inr ranks \<Rightarrow> if backend = ''vllm'' then int (length ranks) else 1
      | Inl _ \<Rightarrow> 1)"

inductive store_step :: "local_store \<Rightarrow> local_store \<Rightarrow> bool" where
  st_register:
    "register_model client model_name backend backend_config self = Inr (self', model_size) \<Longrightarrow>
     \<forall>path. - 1 \<le> client path \<Longrightarrow> rank_count backend backend_config < ls_chunk_size self \<Longrightarrow>
     store_step self self'"
| st_load: "load_to_host now model_name self = Inr (self', b) \<Longrightarrow> store_step self self'"
| st_loop: "loading_step now client self = Inr self' \<Longrightarrow> store_step self self'"

inductive store_reachable :: "local_store \<Rightarrow> local_store \<Rightarrow> bool" for self0 where
  sr_start: "store_reachable self0 self0"
| sr_step: "store_reachable self0 self \<Longrightarrow> store_step self self' \<Longrightarrow> store_reachable self0 self'"

end
