(* ===== verification/Local_Store_Props.thy ===== *)
theory Local_Store_Props
  imports Local_Store
begin

text \<open>
  The accounting of the pinned memory: the chunks counted as used are those of the models that
  are in memory, and never more than the node has. What an iteration of the loading loop evicts
  and when it makes progress.
\<close>

section \<open>The invariant of a store\<close>

definition model_chunks :: "local_store \<Rightarrow> string \<Rightarrow> int" where
  "model_chunks self model_name =
     (case map_of (ls_disk_models self) model_name of
        None \<Rightarrow> 0 | Some (_, sz) \<Rightarrow> chunks_of (ls_chunk_size self) sz)"

definition resident_chunks :: "local_store \<Rightarrow> (string \<times> rat) list \<Rightarrow> int" where
  "resident_chunks self models = (\<Sum>(model_name, _)\<leftarrow>models. model_chunks self model_name)"

definition dkeys :: "('k \<times> 'v) list \<Rightarrow> 'k set" where
  "dkeys d = fst ` set d"

definition store_ok :: "local_store \<Rightarrow> bool" where
  "store_ok self \<longleftrightarrow>
     0 < ls_chunk_size self \<and>
     distinct (map fst (ls_pinned_memory_pool self)) \<and>
     distinct (map io_model_name (ls_io_queue self)) \<and>
     map fst (ls_queued_models self) = map io_model_name (ls_io_queue self) \<and>
     dkeys (ls_pinned_memory_pool self) \<inter> dkeys (ls_queued_models self) = {} \<and>
     dkeys (ls_pinned_memory_pool self) \<subseteq> dkeys (ls_disk_models self) \<and>
     dkeys (ls_queued_models self) \<subseteq> dkeys (ls_disk_models self) \<and>
     (\<forall>m. 0 \<le> model_chunks self m) \<and>
     ls_pinned_memory_pool_usage self = resident_chunks self (ls_pinned_memory_pool self) \<and>
     ls_pinned_memory_pool_usage self \<le> ls_pinned_memory_pool_chunks self"

lemma dkeys_update [simp]: "dkeys (AList.update k v d) = insert k (dkeys d)"
  by (auto simp: dkeys_def dom_update)

lemma dkeys_delete [simp]: "dkeys (AList.delete k d) = dkeys d - {k}"
  by (auto simp: dkeys_def AList.delete_eq)

lemma dkeys_dhas: "k \<in> dkeys d \<longleftrightarrow> dhas d k"
  by (simp add: dkeys_def dhas_iff)

lemma dkeys_Nil [simp]: "dkeys [] = {}"
  by (simp add: dkeys_def)

lemma dkeys_Cons [simp]: "dkeys (p # d) = insert (fst p) (dkeys d)"
  by (simp add: dkeys_def)

lemma dkeys_lookup: "k \<in> dkeys d \<longleftrightarrow> (\<exists>v. map_of d k = Some v)"
  by (auto simp: dkeys_dhas dhas_def)

lemma chunks_of_nonneg: "0 < c \<Longrightarrow> - c < sz \<Longrightarrow> 0 \<le> chunks_of c sz"
  by (simp add: chunks_of_def pos_imp_zdiv_nonneg_iff)

lemma chunks_of_enough:
  assumes "0 < c"
  shows "sz \<le> chunks_of c sz * c"
proof -
  have "(sz + c - 1) mod c < c" by (rule pos_mod_bound [OF assms])
  then show ?thesis using div_mult_mod_eq [of "sz + c - 1" c] unfolding chunks_of_def by linarith
qed

lemma resident_chunks_simps [simp]:
  "resident_chunks self [] = 0"
  "resident_chunks self (p # ps) = model_chunks self (fst p) + resident_chunks self ps"
  by (simp_all add: resident_chunks_def case_prod_beta)

lemma resident_chunks_delete:
  assumes "distinct (map fst pool)" and "m \<in> dkeys pool"
  shows "resident_chunks self (AList.delete m pool) = resident_chunks self pool - model_chunks self m"
  using assms
proof (induction pool)
  case Nil
  then show ?case by (simp add: dkeys_def)
next
  case (Cons p pool)
  have "AList.delete m pool = pool" if "m \<notin> dkeys pool"
    using that by (simp add: dkeys_def delete_idem)
  with Cons show ?case by (cases p) (auto simp: dkeys_def)
qed

lemma resident_chunks_new:
  "m \<notin> dkeys pool \<Longrightarrow>
   resident_chunks self (AList.update m now pool) = resident_chunks self pool + model_chunks self m"
  by (simp add: dkeys_def update_new resident_chunks_def)

lemma resident_chunks_mset:
  "resident_chunks self ps = sum_mset (image_mset (model_chunks self \<circ> fst) (mset ps))"
  by (induction ps) auto

lemma resident_chunks_sorted:
  "resident_chunks self (sort_key f pool) = resident_chunks self pool"
  by (simp add: resident_chunks_mset)

lemma resident_chunks_cong:
  "(\<And>m. m \<in> dkeys pool \<Longrightarrow> model_chunks self m = model_chunks self' m) \<Longrightarrow>
   resident_chunks self pool = resident_chunks self' pool"
  by (induction pool) auto


section \<open>Eviction\<close>

lemma evict_model_eq:
  assumes "m \<in> dkeys (ls_disk_models self)"
  shows "\<exists>paths. evict_model m self = Inr (self\<lparr>
    ls_client_calls := ls_client_calls self @ map Unload_from_cpu paths,
    ls_pinned_memory_pool := AList.delete m (ls_pinned_memory_pool self),
    ls_pinned_memory_pool_usage := ls_pinned_memory_pool_usage self - model_chunks self m\<rparr>)"
  using assms by (auto simp: dkeys_lookup evict_model_def dindex_def model_chunks_def)

lemma model_chunks_simps [simp]:
  "model_chunks (self\<lparr>ls_client_calls := a\<rparr>) = model_chunks self"
  "model_chunks (self\<lparr>ls_pinned_memory_pool := b\<rparr>) = model_chunks self"
  "model_chunks (self\<lparr>ls_pinned_memory_pool_usage := c\<rparr>) = model_chunks self"
  "model_chunks (self\<lparr>ls_io_queue := d\<rparr>) = model_chunks self"
  "model_chunks (self\<lparr>ls_queued_models := e\<rparr>) = model_chunks self"
  by (simp_all add: model_chunks_def fun_eq_iff split: option.split)

lemma resident_chunks_frame [simp]:
  "resident_chunks (self\<lparr>ls_client_calls := a\<rparr>) = resident_chunks self"
  "resident_chunks (self\<lparr>ls_pinned_memory_pool := b\<rparr>) = resident_chunks self"
  "resident_chunks (self\<lparr>ls_pinned_memory_pool_usage := c\<rparr>) = resident_chunks self"
  "resident_chunks (self\<lparr>ls_io_queue := d\<rparr>) = resident_chunks self"
  "resident_chunks (self\<lparr>ls_queued_models := e\<rparr>) = resident_chunks self"
  by (simp_all add: resident_chunks_def fun_eq_iff)

text \<open>What eviction leaves alone, and what it takes from the pool.\<close>

definition evicted :: "(string \<times> rat) list \<Rightarrow> local_store \<Rightarrow> local_store \<Rightarrow> bool" where
  "evicted victims self self' \<longleftrightarrow>
     ls_pinned_memory_pool self' = filter (\<lambda>p. fst p \<notin> dkeys victims) (ls_pinned_memory_pool self) \<and>
     ls_pinned_memory_pool_usage self' = ls_pinned_memory_pool_usage self - resident_chunks self victims \<and>
     ls_disk_models self' = ls_disk_models self \<and> ls_queued_models self' = ls_queued_models self \<and>
     ls_io_queue self' = ls_io_queue self \<and> ls_chunk_size self' = ls_chunk_size self \<and>
     ls_pinned_memory_pool_chunks self' = ls_pinned_memory_pool_chunks self \<and>
     ls_hardware_info self' = ls_hardware_info self"

lemma evicted_Nil: "evicted [] self self"
  by (simp add: evicted_def)

lemma evicted_chunks: "evicted victims self self' \<Longrightarrow> model_chunks self' = model_chunks self"
  by (simp add: evicted_def model_chunks_def fun_eq_iff split: option.split)

lemma evicted_Cons:
  assumes "evict_model (fst p) self = Inr self'" and "fst p \<in> dkeys (ls_disk_models self)"
    and "evicted victims self' self''"
  shows "evicted (p # victims) self self''"
proof -
  obtain paths where self': "self' = self\<lparr>
      ls_client_calls := ls_client_calls self @ map Unload_from_cpu paths,
      ls_pinned_memory_pool := AList.delete (fst p) (ls_pinned_memory_pool self),
      ls_pinned_memory_pool_usage := ls_pinned_memory_pool_usage self - model_chunks self (fst p)\<rparr>"
    using evict_model_eq [OF assms(2)] assms(1) by auto
  have "resident_chunks self' = resident_chunks self" by (simp add: self')
  moreover have "filter (\<lambda>q. fst q \<notin> dkeys victims) (AList.delete (fst p) pool) =
      filter (\<lambda>q. fst q \<notin> dkeys (p # victims)) pool" for pool :: "(string \<times> rat) list"
    by (induction pool) auto
  ultimately show ?thesis using assms(3) by (simp add: evicted_def self')
qed

text \<open>
  The loop evicts the shortest prefix of its list after which there is room, or all of it.
\<close>

lemma evict_models_prefix:
  assumes "\<And>m. m \<in> dkeys models \<Longrightarrow> m \<in> dkeys (ls_disk_models self)"
    and "\<And>m. m \<in> dkeys models \<Longrightarrow> m \<notin> dkeys (ls_queued_models self)"
  shows "\<exists>self' k. evict_models required models self = Inr self' \<and> k \<le> length models \<and>
    evicted (take k models) self self' \<and>
    (\<forall>j<k. ls_pinned_memory_pool_chunks self <
       ls_pinned_memory_pool_usage self - resident_chunks self (take j models) + required) \<and>
    (k < length models \<longrightarrow>
       ls_pinned_memory_pool_usage self - resident_chunks self (take k models) + required
         \<le> ls_pinned_memory_pool_chunks self)"
  using assms
proof (induction models arbitrary: self)
  case Nil
  then show ?case by (simp add: evicted_Nil)
next
  case (Cons p models)
  let ?room = "ls_pinned_memory_pool_usage self + required \<le> ls_pinned_memory_pool_chunks self"
  show ?case
  proof (cases ?room)
    case True
    then show ?thesis by (cases p) (auto intro!: exI [of _ self] exI [of _ 0] simp: evicted_Nil)
  next
    case False
    have disk: "fst p \<in> dkeys (ls_disk_models self)" using Cons.prems(1) [of "fst p"] by simp
    have idle: "\<not> dhas (ls_queued_models self) (fst p)"
      using Cons.prems(2) [of "fst p"] by (simp add: dkeys_dhas)
    obtain paths where ev: "evict_model (fst p) self = Inr (self\<lparr>
        ls_client_calls := ls_client_calls self @ map Unload_from_cpu paths,
        ls_pinned_memory_pool := AList.delete (fst p) (ls_pinned_memory_pool self),
        ls_pinned_memory_pool_usage := ls_pinned_memory_pool_usage self - model_chunks self (fst p)\<rparr>)"
      (is "_ = Inr ?next") using evict_model_eq [OF disk] by auto
    have "\<exists>self' k. evict_models required models ?next = Inr self' \<and> k \<le> length models \<and>
      evicted (take k models) ?next self' \<and>
      (\<forall>j<k. ls_pinned_memory_pool_chunks ?next <
         ls_pinned_memory_pool_usage ?next - resident_chunks ?next (take j models) + required) \<and>
      (k < length models \<longrightarrow>
         ls_pinned_memory_pool_usage ?next - resident_chunks ?next (take k models) + required
           \<le> ls_pinned_memory_pool_chunks ?next)"
      by (rule Cons.IH) (use Cons.prems in auto)
    then obtain self' k where step: "evict_models required models ?next = Inr self'"
      and k: "k \<le> length models" and taken: "evicted (take k models) ?next self'"
      and before: "\<forall>j<k. ls_pinned_memory_pool_chunks self <
         ls_pinned_memory_pool_usage self - model_chunks self (fst p) - resident_chunks self (take j models) + required"
      and after: "k < length models \<longrightarrow>
         ls_pinned_memory_pool_usage self - model_chunks self (fst p) - resident_chunks self (take k models) + required
           \<le> ls_pinned_memory_pool_chunks self"
      by auto
    have "evict_models required (p # models) self = Inr self'"
      using False idle ev step by (cases p) auto
    moreover have "evicted (take (Suc k) (p # models)) self self'"
      using evicted_Cons [OF ev disk taken] by simp
    moreover have "\<forall>j<Suc k. ls_pinned_memory_pool_chunks self <
        ls_pinned_memory_pool_usage self - resident_chunks self (take j (p # models)) + required"
    proof (intro allI impI)
      fix j
      assume "j < Suc k"
      then show "ls_pinned_memory_pool_chunks self <
        ls_pinned_memory_pool_usage self - resident_chunks self (take j (p # models)) + required"
        using False before by (cases j) (auto simp: algebra_simps)
    qed
    ultimately show ?thesis
      using k after by (intro exI [of _ self'] exI [of _ "Suc k"]) (simp add: algebra_simps)
  qed
qed

lemma resident_chunks_nonneg: "\<forall>m. 0 \<le> model_chunks self m \<Longrightarrow> 0 \<le> resident_chunks self pool"
  by (induction pool) auto

lemma mset_after_prefix:
  assumes "distinct (map fst pool)"
  shows "mset (filter (\<lambda>p. fst p \<notin> dkeys (take k (sort_key f pool))) pool) = mset (drop k (sort_key f pool))"
proof -
  let ?s = "sort_key f pool" and ?P = "\<lambda>p. fst p \<notin> dkeys (take k (sort_key f pool))"
  have "image_mset fst (mset ?s) = mset (map fst pool)" by simp
  then have "distinct (map fst ?s)" using assms by (metis mset_eq_imp_distinct_iff mset_map)
  then have "distinct (map fst (take k ?s @ drop k ?s))" by simp
  then have disj: "fst ` set (take k ?s) \<inter> fst ` set (drop k ?s) = {}"
    by (simp only: map_append distinct_append set_map)
  have "filter ?P (take k ?s @ drop k ?s) = drop k ?s"
    using disj by (simp only: filter_append) (auto simp: dkeys_def filter_empty_conv filter_id_conv)
  then have "filter ?P ?s = drop k ?s" by simp
  then show ?thesis by (metis mset_filter mset_sort)
qed

lemma resident_chunks_append:
  "resident_chunks self (xs @ ys) = resident_chunks self xs + resident_chunks self ys"
  by (induction xs) auto

lemma resident_chunks_drop:
  "resident_chunks self (drop k (sort_key f pool)) =
   resident_chunks self pool - resident_chunks self (take k (sort_key f pool))"
  using resident_chunks_append [of self "take k (sort_key f pool)" "drop k (sort_key f pool)"]
  by (simp add: resident_chunks_sorted)

lemma resident_after_prefix:
  assumes "distinct (map fst pool)"
  shows "resident_chunks self (filter (\<lambda>p. fst p \<notin> dkeys (take k (sort_key f pool))) pool) =
    resident_chunks self pool - resident_chunks self (take k (sort_key f pool))"
proof -
  have "resident_chunks self (filter (\<lambda>p. fst p \<notin> dkeys (take k (sort_key f pool))) pool) =
      resident_chunks self (drop k (sort_key f pool))"
    by (simp only: resident_chunks_mset mset_after_prefix [OF assms])
  then show ?thesis by (simp only: resident_chunks_drop)
qed

lemma map_of_after_prefix:
  assumes "distinct (map fst pool)"
  shows "map_of (filter (\<lambda>p. fst p \<notin> dkeys (take k (sort_key f pool))) pool) = map_of (drop k (sort_key f pool))"
proof -
  let ?l = "filter (\<lambda>p. fst p \<notin> dkeys (take k (sort_key f pool))) pool" and ?r = "drop k (sort_key f pool)"
  have m: "mset ?l = mset ?r" by (rule mset_after_prefix [OF assms])
  have "distinct (map fst ?l)" using assms by (simp add: distinct_map_filter)
  moreover from this have "distinct (map fst ?r)" using m by (metis mset_eq_imp_distinct_iff mset_map)
  ultimately show ?thesis using mset_eq_setD [OF m] by (simp add: map_of_inject_set)
qed

lemma evicted_ok:
  assumes "store_ok self" and "evicted (take k (sort_key snd (ls_pinned_memory_pool self))) self self'"
  shows "store_ok self'"
    and "ls_pinned_memory_pool_usage self' = resident_chunks self (ls_pinned_memory_pool self')"
proof -
  let ?pool = "ls_pinned_memory_pool self" and ?pool' = "ls_pinned_memory_pool self'"
  note ev = assms(2) [unfolded evicted_def]
  have chunks: "model_chunks self' = model_chunks self" by (rule evicted_chunks [OF assms(2)])
  have pool': "?pool' = filter (\<lambda>p. fst p \<notin> dkeys (take k (sort_key snd ?pool))) ?pool" using ev by simp
  then have sub: "dkeys ?pool' \<subseteq> dkeys ?pool" by (auto simp: dkeys_def)
  show usage: "ls_pinned_memory_pool_usage self' = resident_chunks self ?pool'"
    using assms(1) ev by (simp add: store_ok_def resident_after_prefix)
  moreover have "resident_chunks self' = resident_chunks self"
    by (simp add: resident_chunks_def chunks fun_eq_iff)
  moreover have "distinct (map fst ?pool')"
    using assms(1) by (simp add: store_ok_def pool' distinct_map_filter)
  moreover have "ls_pinned_memory_pool_usage self' \<le> ls_pinned_memory_pool_chunks self'"
    using assms(1) ev resident_chunks_nonneg [of self] by (simp add: store_ok_def) (smt (verit))
  moreover have "dkeys ?pool' \<inter> dkeys (ls_queued_models self) = {}" "dkeys ?pool' \<subseteq> dkeys (ls_disk_models self)"
    using assms(1) sub by (auto simp: store_ok_def)
  moreover have "ls_disk_models self' = ls_disk_models self" "ls_queued_models self' = ls_queued_models self"
    "ls_io_queue self' = ls_io_queue self" "ls_chunk_size self' = ls_chunk_size self"
    using ev by simp_all
  ultimately show "store_ok self'" using assms(1) by (simp add: store_ok_def chunks)
qed

text \<open>Eviction succeeds exactly when the pool could hold the model at all.\<close>

lemma lru_eviction_outcome:
  assumes "store_ok self"
  shows "\<exists>self' k. lru_eviction sz self =
      Inr (self', chunks_of (ls_chunk_size self) sz \<le> ls_pinned_memory_pool_chunks self) \<and>
    evicted (take k (sort_key snd (ls_pinned_memory_pool self))) self self' \<and> store_ok self' \<and>
    (\<forall>j<k. ls_pinned_memory_pool_chunks self < chunks_of (ls_chunk_size self) sz +
       resident_chunks self (drop j (sort_key snd (ls_pinned_memory_pool self)))) \<and>
    (chunks_of (ls_chunk_size self) sz \<le> ls_pinned_memory_pool_chunks self \<longrightarrow>
     ls_pinned_memory_pool_usage self' + chunks_of (ls_chunk_size self) sz \<le> ls_pinned_memory_pool_chunks self)"
proof -
  let ?models = "sort_key snd (ls_pinned_memory_pool self)" and ?req = "chunks_of (ls_chunk_size self) sz"
  let ?cap = "ls_pinned_memory_pool_chunks self"
  have names: "dkeys ?models = dkeys (ls_pinned_memory_pool self)" by (simp add: dkeys_def)
  obtain self' k where run: "evict_models ?req ?models self = Inr self'" and k: "k \<le> length ?models"
    and ev: "evicted (take k ?models) self self'"
    and short: "\<forall>j<k. ?cap < ls_pinned_memory_pool_usage self - resident_chunks self (take j ?models) + ?req"
    and room: "k < length ?models \<longrightarrow> ls_pinned_memory_pool_usage self - resident_chunks self (take k ?models) + ?req \<le> ?cap"
    using evict_models_prefix [of ?models self ?req] assms by (auto simp: store_ok_def names)
  have least: "\<forall>j<k. ?cap < ?req + resident_chunks self (drop j ?models)"
    using short assms by (simp add: store_ok_def resident_chunks_drop algebra_simps)
  have usage: "ls_pinned_memory_pool_usage self' = ls_pinned_memory_pool_usage self - resident_chunks self (take k ?models)"
    and cap: "ls_pinned_memory_pool_chunks self' = ?cap"
    using ev by (simp_all add: evicted_def)
  have all: "ls_pinned_memory_pool_usage self' = 0" if "k = length ?models"
    using assms that usage by (simp add: store_ok_def resident_chunks_sorted)
  have nonneg: "0 \<le> ls_pinned_memory_pool_usage self'"
    using evicted_ok(2) [OF assms ev] assms resident_chunks_nonneg [of self] by (simp add: store_ok_def)
  have fits: "ls_pinned_memory_pool_usage self' + ?req \<le> ?cap \<longleftrightarrow> ?req \<le> ?cap"
    using all nonneg room usage k by (cases "k = length ?models") auto
  then have "lru_eviction sz self = Inr (self', ?req \<le> ?cap)"
    using run cap by (simp add: lru_eviction_def Let_def)
  then show ?thesis using ev evicted_ok(1) [OF assms ev] fits least by blast
qed

section \<open>Every operation keeps the invariant\<close>

lemma init_ok:
  assumes "local_store_init node_id mem_pool_size chunk_size hardware_info = Inr self"
    and "0 < chunk_size" and "0 \<le> mem_pool_size"
  shows "store_ok self"
  using assms
  by (auto simp: local_store_init_def store_ok_def model_chunks_def pos_imp_zdiv_nonneg_iff split: if_splits)

lemma sum_list_ge:
  assumes "\<forall>x\<in>set xs. - 1 \<le> (f x :: int)"
  shows "- int (length xs) \<le> sum_list (map f xs)"
  using assms by (induction xs) auto

lemma register_model_cases:
  assumes "register_model client m backend backend_config self = Inr (self', r)"
  shows "self' = self \<or>
    (\<exists>paths. \<not> dhas (ls_disk_models self) m \<and> int (length paths) = rank_count backend backend_config \<and>
       self' = self\<lparr>ls_client_calls := ls_client_calls self @ map Register_model paths,
         ls_disk_models := AList.update m (paths, sum_list (map client paths)) (ls_disk_models self)\<rparr>)"
proof (cases "dhas (ls_disk_models self) m \<or> backend = ''transformers''")
  case True
  then show ?thesis using assms
    by (auto simp: register_model_def Let_def rank_count_def split: if_splits sum.splits
        intro!: exI [of _ "[get_model_path m backend]"])
next
  case False
  then have vllm: "backend = ''vllm''" using assms by (auto simp: register_model_def Let_def split: if_splits)
  with False assms obtain ranks where
    "py_range (dget backend_config ''tensor_parallel_size'' (PInt 1)) = Inr ranks"
    by (auto simp: register_model_def Let_def)
  with False vllm assms show ?thesis
    by (auto simp: register_model_def Let_def rank_count_def
        intro!: exI [of _ "map (\<lambda>rank. path_join (get_model_path m ''vllm'') (''rank_'' @ int_str rank)) ranks"])
qed

lemma register_model_ok:
  assumes ok: "store_ok self" and reg: "register_model client m backend backend_config self = Inr (self', r)"
    and sizes: "\<forall>path. - 1 \<le> client path" and ranks: "rank_count backend backend_config < ls_chunk_size self"
  shows "store_ok self'"
  using register_model_cases [OF reg]
proof
  assume "self' = self"
  then show ?thesis using ok by simp
next
  assume "\<exists>paths. \<not> dhas (ls_disk_models self) m \<and> int (length paths) = rank_count backend backend_config \<and>
       self' = self\<lparr>ls_client_calls := ls_client_calls self @ map Register_model paths,
         ls_disk_models := AList.update m (paths, sum_list (map client paths)) (ls_disk_models self)\<rparr>"
  then obtain paths where new: "m \<notin> dkeys (ls_disk_models self)"
    and len: "int (length paths) = rank_count backend backend_config"
    and self': "self' = self\<lparr>ls_client_calls := ls_client_calls self @ map Register_model paths,
         ls_disk_models := AList.update m (paths, sum_list (map client paths)) (ls_disk_models self)\<rparr>"
    by (auto simp: dkeys_dhas)
  have "- int (length paths) \<le> sum_list (map client paths)" using sizes by (simp add: sum_list_ge)
  then have "0 \<le> chunks_of (ls_chunk_size self) (sum_list (map client paths))"
    using ok len ranks by (intro chunks_of_nonneg) (simp_all add: store_ok_def)
  moreover have chunks: "model_chunks self' n = (if n = m then chunks_of (ls_chunk_size self) (sum_list (map client paths))
      else model_chunks self n)" for n
    by (simp add: self' model_chunks_def split: option.split)
  moreover have "resident_chunks self' (ls_pinned_memory_pool self) = resident_chunks self (ls_pinned_memory_pool self)"
    using ok new by (intro resident_chunks_cong) (auto simp: chunks store_ok_def)
  moreover have "ls_pinned_memory_pool self' = ls_pinned_memory_pool self" "ls_io_queue self' = ls_io_queue self"
    "ls_queued_models self' = ls_queued_models self" "ls_chunk_size self' = ls_chunk_size self"
    "ls_pinned_memory_pool_usage self' = ls_pinned_memory_pool_usage self"
    "ls_pinned_memory_pool_chunks self' = ls_pinned_memory_pool_chunks self"
    "dkeys (ls_disk_models self') = insert m (dkeys (ls_disk_models self))"
    by (simp_all add: self')
  ultimately show ?thesis using ok by (auto simp: store_ok_def)
qed

lemma load_to_host_ok:
  assumes ok: "store_ok self" and run: "load_to_host now m self = Inr (self', b)"
  shows "store_ok self'"
proof (cases "self' = self")
  case False
  with run obtain t where disk: "m \<in> dkeys (ls_disk_models self)"
    and pool: "m \<notin> dkeys (ls_pinned_memory_pool self)" and queued: "m \<notin> dkeys (ls_queued_models self)"
    and self': "self' = self\<lparr>ls_io_queue := ls_io_queue self @ [\<lparr>io_model_name = m, io_estimated_time = t\<rparr>],
         ls_queued_models := AList.update m True (ls_queued_models self)\<rparr>"
    by (auto simp: load_to_host_def Let_def dkeys_dhas dhas_def split: option.splits if_splits)
  have "m \<notin> set (map io_model_name (ls_io_queue self))"
    using ok queued by (simp add: store_ok_def dkeys_def flip: set_map)
  then show ?thesis using ok disk pool queued
    by (auto simp: store_ok_def self' update_new dkeys_def)
qed (use ok in simp)

text \<open>One iteration on a queue that is not empty: how the state after it comes about.\<close>

definition dequeued :: "client_call list \<Rightarrow> io_entry list \<Rightarrow> string \<Rightarrow> local_store \<Rightarrow> local_store" where
  "dequeued calls waiting m self =
     self\<lparr>ls_client_calls := ls_client_calls self @ calls, ls_io_queue := waiting,
          ls_queued_models := AList.delete m (ls_queued_models self)\<rparr>"

definition pinned :: "rat \<Rightarrow> string \<Rightarrow> local_store \<Rightarrow> local_store" where
  "pinned now m self =
     self\<lparr>ls_pinned_memory_pool := AList.update m now (ls_pinned_memory_pool self),
          ls_pinned_memory_pool_usage := ls_pinned_memory_pool_usage self + model_chunks self m\<rparr>"

lemma queue_head:
  assumes "store_ok self" and "ls_io_queue self = e # waiting"
  obtains paths sz rest where "map_of (ls_disk_models self) (io_model_name e) = Some (paths, sz)"
    and "ls_queued_models self = rest" and "fst (hd rest) = io_model_name e"
    and "AList.delete (io_model_name e) rest = tl rest" and "map fst (tl rest) = map io_model_name waiting"
    and "dhas rest (io_model_name e)" and "io_model_name e \<notin> dkeys (ls_pinned_memory_pool self)"
proof -
  let ?m = "io_model_name e"
  from assms obtain b rest where q: "ls_queued_models self = (?m, b) # rest"
    and rest: "map fst rest = map io_model_name waiting" by (auto simp: store_ok_def)
  have "?m \<notin> set (map io_model_name waiting)" using assms by (simp add: store_ok_def)
  then have "?m \<notin> fst ` set rest" by (simp flip: rest)
  then have del: "AList.delete ?m rest = rest" by (simp add: delete_idem)
  have "?m \<in> dkeys (ls_disk_models self)" and out: "?m \<notin> dkeys (ls_pinned_memory_pool self)"
    using assms(1) by (auto simp: store_ok_def q)
  then obtain paths sz where "map_of (ls_disk_models self) ?m = Some (paths, sz)" by (auto simp: dkeys_lookup)
  then show ?thesis using q rest del out by (intro that [of paths sz "(?m, b) # rest"]) (simp_all add: dhas_def)
qed

lemma dequeued_ok:
  assumes "store_ok self" and "ls_io_queue self = e # waiting"
  shows "store_ok (dequeued calls waiting (io_model_name e) self)"
proof -
  obtain paths sz rest where q: "ls_queued_models self = rest"
    and del: "AList.delete (io_model_name e) rest = tl rest" "map fst (tl rest) = map io_model_name waiting"
    by (rule queue_head [OF assms])
  have "dkeys (tl rest) \<subseteq> dkeys rest" by (cases rest) auto
  then show ?thesis using assms by (simp add: store_ok_def dequeued_def q del) blast
qed

lemma pinned_ok:
  assumes "store_ok self" and "m \<in> dkeys (ls_disk_models self)"
    and "m \<notin> dkeys (ls_pinned_memory_pool self)" and "m \<notin> dkeys (ls_queued_models self)"
    and "ls_pinned_memory_pool_usage self + model_chunks self m \<le> ls_pinned_memory_pool_chunks self"
  shows "store_ok (pinned now m self)"
proof -
  have "distinct (map fst (AList.update m now (ls_pinned_memory_pool self)))"
    using assms(1) by (simp add: store_ok_def distinct_update)
  then show ?thesis using assms by (simp add: store_ok_def pinned_def resident_chunks_new)
qed

lemma loading_step_blocked:
  assumes ok: "store_ok self" and q: "ls_io_queue self = e # waiting"
    and big: "ls_pinned_memory_pool_chunks self < model_chunks self (io_model_name e)"
  obtains self' where "loading_step now client self = Inr self'" and "store_ok self'"
    and "ls_io_queue self' = e # waiting" and "ls_pinned_memory_pool self' = []"
    and "model_chunks self' = model_chunks self"
    and "ls_pinned_memory_pool_chunks self' = ls_pinned_memory_pool_chunks self"
proof -
  obtain paths sz where disk: "map_of (ls_disk_models self) (io_model_name e) = Some (paths, sz)"
    by (rule queue_head [OF ok q])
  let ?pool = "ls_pinned_memory_pool self"
  let ?models = "sort_key snd ?pool" and ?req = "chunks_of (ls_chunk_size self) sz"
  have req: "ls_pinned_memory_pool_chunks self < ?req" using big disk by (simp add: model_chunks_def)
  have names: "dkeys ?models = dkeys ?pool" by (simp add: dkeys_def)
  obtain self' k where run: "evict_models ?req ?models self = Inr self'" and k: "k \<le> length ?models"
    and ev: "evicted (take k ?models) self self'"
    and room: "k < length ?models \<longrightarrow>
      ls_pinned_memory_pool_usage self - resident_chunks self (take k ?models) + ?req \<le> ls_pinned_memory_pool_chunks self"
    using evict_models_prefix [of ?models self ?req] ok by (auto simp: store_ok_def names)
  have usage: "0 \<le> ls_pinned_memory_pool_usage self'"
    using evicted_ok(2) [OF ok ev] ok resident_chunks_nonneg [of self] by (simp add: store_ok_def)
  then have "k = length ?models" using room k ev req by (cases "k < length ?models") (auto simp: evicted_def)
  then have "ls_pinned_memory_pool self' = filter (\<lambda>p. fst p \<notin> dkeys ?pool) ?pool"
    using ev by (simp add: evicted_def names)
  also have "\<dots> = []" by (simp add: filter_empty_conv dkeys_def)
  finally have none: "ls_pinned_memory_pool self' = []" .
  have "loading_step now client self = Inr self'"
    using q disk run req usage ev
    by (simp add: loading_step_def dindex_def lru_eviction_def Let_def evicted_def)
  then show ?thesis
    using none evicted_ok(1) [OF ok ev] evicted_chunks [OF ev] ev q by (intro that [of self']) (simp_all add: evicted_def)
qed

lemma loading_step_room:
  assumes ok: "store_ok self" and q: "ls_io_queue self = e # waiting"
    and fits: "model_chunks self (io_model_name e) \<le> ls_pinned_memory_pool_chunks self"
    and disk: "map_of (ls_disk_models self) (io_model_name e) = Some (paths, sz)"
    and load: "load_paths client paths = (calls, ret)"
  obtains k self1 where "evicted (take k (sort_key snd (ls_pinned_memory_pool self))) self self1"
    and "\<forall>j<k. ls_pinned_memory_pool_chunks self <
           chunks_of (ls_chunk_size self) sz + resident_chunks self (drop j (sort_key snd (ls_pinned_memory_pool self)))"
    and "loading_step now client self = Inr (let self2 = dequeued calls waiting (io_model_name e) self1
           in if ret then pinned now (io_model_name e) self2 else self2)"
    and "store_ok (let self2 = dequeued calls waiting (io_model_name e) self1
           in if ret then pinned now (io_model_name e) self2 else self2)"
proof -
  let ?m = "io_model_name e" and ?models = "sort_key snd (ls_pinned_memory_pool self)"
  have chunks: "model_chunks self ?m = chunks_of (ls_chunk_size self) sz" using disk by (simp add: model_chunks_def)
  obtain self1 k where run: "lru_eviction sz self = Inr (self1, True)"
    and ev: "evicted (take k ?models) self self1" and ok1: "store_ok self1"
    and least: "\<forall>j<k. ls_pinned_memory_pool_chunks self <
      chunks_of (ls_chunk_size self) sz + resident_chunks self (drop j ?models)"
    and room: "ls_pinned_memory_pool_usage self1 + chunks_of (ls_chunk_size self) sz \<le> ls_pinned_memory_pool_chunks self"
    using lru_eviction_outcome [OF ok, of sz] fits chunks by fastforce
  have q1: "ls_io_queue self1 = e # waiting" and c1: "model_chunks self1 = model_chunks self"
    and disk1: "map_of (ls_disk_models self1) ?m = Some (paths, sz)"
    and cap1: "ls_pinned_memory_pool_chunks self1 = ls_pinned_memory_pool_chunks self"
    and size1: "ls_chunk_size self1 = ls_chunk_size self"
    using ev q disk evicted_chunks [OF ev] by (simp_all add: evicted_def)
  let ?self2 = "dequeued calls waiting ?m self1"
  have ok2: "store_ok ?self2" by (rule dequeued_ok [OF ok1 q1])
  obtain rest where queued: "ls_queued_models self1 = rest" "dhas rest ?m"
    and out: "?m \<notin> dkeys (ls_pinned_memory_pool self1)" by (rule queue_head [OF ok1 q1])
  from queued obtain b where waiting: "map_of (ls_queued_models self1) ?m = Some b" by (auto simp: dhas_def)
  have step: "loading_step now client self = Inr (if ret then pinned now ?m ?self2 else ?self2)"
    using q disk run load waiting disk1 size1
    by (simp add: loading_step_def dindex_def dequeued_def pinned_def model_chunks_def Let_def)
  have "store_ok (pinned now ?m ?self2)"
    using out room ok2 disk1 c1 cap1 chunks
    by (intro pinned_ok) (auto simp: dequeued_def dkeys_lookup)
  then show ?thesis using that [OF ev least] step ok2 by (simp add: Let_def)
qed

lemma loading_step_ok:
  assumes ok: "store_ok self"
  obtains self' where "loading_step now client self = Inr self'" and "store_ok self'"
proof (cases "ls_io_queue self")
  case Nil
  then show ?thesis using ok by (intro that [of self]) (simp_all add: loading_step_def)
next
  case (Cons e waiting)
  obtain paths sz where disk: "map_of (ls_disk_models self) (io_model_name e) = Some (paths, sz)"
    by (rule queue_head [OF ok Cons])
  obtain calls ret where load: "load_paths client paths = (calls, ret)" by fastforce
  show ?thesis
  proof (cases "model_chunks self (io_model_name e) \<le> ls_pinned_memory_pool_chunks self")
    case True
    then show ?thesis using loading_step_room [OF ok Cons True disk load, of now] that by blast
  next
    case False
    then show ?thesis using loading_step_blocked [OF ok Cons, of now client] that by fastforce
  qed
qed

lemma store_step_ok: "store_step self self' \<Longrightarrow> store_ok self \<Longrightarrow> store_ok self'"
proof (induction rule: store_step.induct)
  case (st_register client model_name backend backend_config self self' model_size)
  then show ?case using register_model_ok by blast
next
  case (st_load now model_name self self' b)
  then show ?case using load_to_host_ok by blast
next
  case (st_loop now client self self')
  then show ?case using loading_step_ok [of self now client] by auto
qed

lemma store_reachable_ok:
  assumes "local_store_init node_id mem_pool_size chunk_size hardware_info = Inr self0"
    and "0 < chunk_size" and "0 \<le> mem_pool_size" and "store_reachable self0 self"
  shows "store_ok self"
  using assms(4)
proof induction
  case sr_start
  then show ?case by (rule init_ok [OF assms(1-3)])
next
  case (sr_step self self')
  then show ?case by (blast intro: store_step_ok)
qed

text \<open>
  One iteration serves the head of the queue when the pool could hold the model at all and its
  files load: the models that were loaded first are evicted, only as many as needed.
\<close>

lemma loading_step_serves_head:
  assumes ok: "store_ok self" and q: "ls_io_queue self = e # waiting"
    and disk: "map_of (ls_disk_models self) (io_model_name e) = Some (paths, sz)"
    and fits: "chunks_of (ls_chunk_size self) sz \<le> ls_pinned_memory_pool_chunks self"
    and loads: "\<forall>path \<in> set paths. client path"
  shows "\<exists>self' k. loading_step now client self = Inr self' \<and> store_ok self' \<and>
    ls_disk_models self' = ls_disk_models self \<and> ls_chunk_size self' = ls_chunk_size self \<and>
    ls_pinned_memory_pool_chunks self' = ls_pinned_memory_pool_chunks self \<and>
    ls_io_queue self' = waiting \<and> map_of (ls_pinned_memory_pool self') (io_model_name e) = Some now \<and>
    (\<forall>m. m \<noteq> io_model_name e \<longrightarrow>
       map_of (ls_pinned_memory_pool self') m =
       map_of (drop k (sort_key snd (ls_pinned_memory_pool self))) m) \<and>
    (\<forall>j<k. ls_pinned_memory_pool_chunks self < chunks_of (ls_chunk_size self) sz +
       resident_chunks self (drop j (sort_key snd (ls_pinned_memory_pool self))))"
proof -
  have "snd (load_paths client paths)" using loads by (induction paths) (auto split: prod.split)
  then obtain calls where load: "load_paths client paths = (calls, True)" by (cases "load_paths client paths") auto
  have fits': "model_chunks self (io_model_name e) \<le> ls_pinned_memory_pool_chunks self"
    using fits disk by (simp add: model_chunks_def)
  obtain k self1 where ev: "evicted (take k (sort_key snd (ls_pinned_memory_pool self))) self self1"
    and least: "\<forall>j<k. ls_pinned_memory_pool_chunks self <
      chunks_of (ls_chunk_size self) sz + resident_chunks self (drop j (sort_key snd (ls_pinned_memory_pool self)))"
    and step: "loading_step now client self = Inr (pinned now (io_model_name e) (dequeued calls waiting (io_model_name e) self1))"
    and ok': "store_ok (pinned now (io_model_name e) (dequeued calls waiting (io_model_name e) self1))"
    using loading_step_room [OF ok q fits' disk load, of now] by (auto simp: Let_def)
  have "map_of (ls_pinned_memory_pool self1) = map_of (drop k (sort_key snd (ls_pinned_memory_pool self)))"
    using ok ev by (simp add: evicted_def store_ok_def map_of_after_prefix)
  then show ?thesis using step ok' least ev
    by (intro exI [of _ "pinned now (io_model_name e) (dequeued calls waiting (io_model_name e) self1)"] exI [of _ k])
      (simp add: pinned_def dequeued_def evicted_def)
qed

lemma store_queue_drains:
  assumes "store_ok self"
    and "\<forall>e \<in> set (ls_io_queue self). \<forall>paths sz.
      map_of (ls_disk_models self) (io_model_name e) = Some (paths, sz) \<longrightarrow>
      chunks_of (ls_chunk_size self) sz \<le> ls_pinned_memory_pool_chunks self"
    and "length clock = length (ls_io_queue self)"
  shows "\<exists>self'. rfold (\<lambda>now. loading_step now (\<lambda>_. True)) clock self = Inr self' \<and>
    ls_io_queue self' = [] \<and> ls_queued_models self' = [] \<and>
    (clock \<noteq> [] \<longrightarrow>
       map_of (ls_pinned_memory_pool self') (io_model_name (last (ls_io_queue self))) = Some (last clock))"
  using assms
proof (induction clock arbitrary: self)
  case Nil
  then show ?case by (simp add: store_ok_def)
next
  case (Cons now clock)
  obtain e waiting where q: "ls_io_queue self = e # waiting" using Cons.prems(3) by (cases "ls_io_queue self") auto
  obtain paths sz where disk: "map_of (ls_disk_models self) (io_model_name e) = Some (paths, sz)"
    by (rule queue_head [OF Cons.prems(1) q])
  have fits: "chunks_of (ls_chunk_size self) sz \<le> ls_pinned_memory_pool_chunks self"
    using Cons.prems(2) q disk by simp
  obtain self1 where step: "loading_step now (\<lambda>_. True) self = Inr self1" and ok: "store_ok self1"
    and rest: "ls_io_queue self1 = waiting"
    and held: "map_of (ls_pinned_memory_pool self1) (io_model_name e) = Some now"
    and same: "ls_disk_models self1 = ls_disk_models self" "ls_chunk_size self1 = ls_chunk_size self"
      "ls_pinned_memory_pool_chunks self1 = ls_pinned_memory_pool_chunks self"
    using loading_step_serves_head [OF Cons.prems(1) q disk fits, of "\<lambda>_. True" now] by auto
  have "\<exists>self'. rfold (\<lambda>now. loading_step now (\<lambda>_. True)) clock self1 = Inr self' \<and>
    ls_io_queue self' = [] \<and> ls_queued_models self' = [] \<and>
    (clock \<noteq> [] \<longrightarrow>
       map_of (ls_pinned_memory_pool self') (io_model_name (last (ls_io_queue self1))) = Some (last clock))"
    using Cons.prems(2-3) same rest q by (intro Cons.IH [OF ok]) simp_all
  then obtain self' where run: "rfold (\<lambda>now. loading_step now (\<lambda>_. True)) clock self1 = Inr self'"
    and empty: "ls_io_queue self' = []" "ls_queued_models self' = []"
    and final: "clock \<noteq> [] \<longrightarrow>
       map_of (ls_pinned_memory_pool self') (io_model_name (last waiting)) = Some (last clock)"
    using rest by auto
  show ?case
  proof (cases "clock = []")
    case True
    then show ?thesis using Cons.prems(3) q step run empty held rest by auto
  next
    case False
    then have "waiting \<noteq> []" using Cons.prems(3) q by auto
    then show ?thesis using False q step run empty final by auto
  qed
qed

section \<open>Properties\<close>

text \<open>
  Whatever is registered, asked for and loaded in whatever order, the chunks a store counts as
  used are exactly the chunks of the models in its pinned memory, never more than the node has;
  every model in memory is one of the disk, none is there twice, and none is both in memory and
  waiting to be loaded.
\<close>

theorem pinned_memory_accounted:
  assumes "local_store_init node_id mem_pool_size chunk_size hardware_info = Inr self0"
    and "0 < chunk_size" and "0 \<le> mem_pool_size" and "store_reachable self0 self"
  shows "ls_pinned_memory_pool_usage self =
      (\<Sum>(m, _)\<leftarrow>ls_pinned_memory_pool self.
         case map_of (ls_disk_models self) m of
           None \<Rightarrow> 0 | Some (_, sz) \<Rightarrow> chunks_of (ls_chunk_size self) sz) \<and>
    ls_pinned_memory_pool_usage self \<le> ls_pinned_memory_pool_chunks self \<and>
    distinct (map fst (ls_pinned_memory_pool self)) \<and>
    fst ` set (ls_pinned_memory_pool self) \<subseteq> fst ` set (ls_disk_models self) \<and>
    fst ` set (ls_pinned_memory_pool self) \<inter> io_model_name ` set (ls_io_queue self) = {}"
proof -
  note ok = store_reachable_ok [OF assms]
  then have "ls_pinned_memory_pool_usage self =
      (\<Sum>(m, _)\<leftarrow>ls_pinned_memory_pool self.
         case map_of (ls_disk_models self) m of
           None \<Rightarrow> 0 | Some (_, sz) \<Rightarrow> chunks_of (ls_chunk_size self) sz)"
    by (simp add: store_ok_def resident_chunks_def model_chunks_def)
  moreover have "io_model_name ` set (ls_io_queue self) = fst ` set (ls_queued_models self)"
    using ok by (simp add: store_ok_def flip: set_map)
  ultimately show ?thesis using ok by (simp add: store_ok_def dkeys_def)
qed

text \<open>
  The loading loop empties its queue: when every load succeeds and each waiting model fits
  into the pool by itself, as many iterations as models wait leave none waiting, and the model
  that was asked for last is in memory since the last of them.
\<close>

theorem loading_queue_drains:
  assumes "local_store_init node_id mem_pool_size chunk_size hardware_info = Inr self0"
    and "0 < chunk_size" and "0 \<le> mem_pool_size" and "store_reachable self0 self"
    and "\<forall>e \<in> set (ls_io_queue self). \<forall>paths sz.
      map_of (ls_disk_models self) (io_model_name e) = Some (paths, sz) \<longrightarrow>
      chunks_of (ls_chunk_size self) sz \<le> ls_pinned_memory_pool_chunks self"
    and "length clock = length (ls_io_queue self)"
  shows "\<exists>self'. rfold (\<lambda>now. loading_step now (\<lambda>_. True)) clock self = Inr self' \<and>
    ls_io_queue self' = [] \<and> ls_queued_models self' = [] \<and>
    (clock \<noteq> [] \<longrightarrow>
       map_of (ls_pinned_memory_pool self') (io_model_name (last (ls_io_queue self))) = Some (last clock))"
  using store_queue_drains [OF store_reachable_ok [OF assms(1-4)] assms(5-6)] .

section \<open>A store at work\<close>

definition demo_store :: local_store where
  "demo_store = \<lparr>ls_node_id = ''n0'', ls_hardware_info = [(''disk_bandwidth'', PInt 2)],
     ls_disk_models = [(''a'', [''transformers/a''], 5), (''b'', [''transformers/b''], 9)],
     ls_queued_models = [(''b'', True)], ls_pinned_memory_pool = [(''a'', 1)], ls_chunk_size = 4,
     ls_pinned_memory_pool_chunks = 4, ls_pinned_memory_pool_usage = 2,
     ls_io_queue = [\<lparr>io_model_name = ''b'', io_estimated_time = 13/2\<rparr>],
     ls_client_calls = [Register_model ''transformers/a'', Register_model ''transformers/b'',
       Load_into_cpu ''transformers/a'' True]\<rparr>"

definition demo_size :: "string \<Rightarrow> int" where
  "demo_size path = (if path = ''transformers/a'' then 5 else 9)"

definition demo_start :: local_store where
  "demo_start = \<lparr>ls_node_id = ''n0'', ls_hardware_info = [(''disk_bandwidth'', PInt 2)], ls_disk_models = [],
     ls_queued_models = [], ls_pinned_memory_pool = [], ls_chunk_size = 4,
     ls_pinned_memory_pool_chunks = 4, ls_pinned_memory_pool_usage = 0, ls_io_queue = [], ls_client_calls = []\<rparr>"

lemma demo_init: "local_store_init ''n0'' 16 4 [(''disk_bandwidth'', PInt 2)] = Inr demo_start"
  by code_simp

lemma demo_run:
  "rbind (register_model demo_size ''a'' ''transformers'' [] demo_start) (\<lambda>(s, _).
   rbind (register_model demo_size ''b'' ''transformers'' [] s) (\<lambda>(s, _).
   rbind (load_to_host 0 ''a'' s) (\<lambda>(s, _).
   rbind (loading_step 1 (\<lambda>_. True) s) (\<lambda>s.
   rbind (load_to_host 2 ''b'' s) (\<lambda>(s, _). Inr s))))) = Inr demo_store"
  by code_simp

lemma demo_reachable: "store_reachable demo_start demo_store"
proof -
  from demo_run obtain s1 r1 s2 r2 s3 b3 s4 b5 where
    run: "register_model demo_size ''a'' ''transformers'' [] demo_start = Inr (s1, r1)"
    "register_model demo_size ''b'' ''transformers'' [] s1 = Inr (s2, r2)"
    "load_to_host 0 ''a'' s2 = Inr (s3, b3)" "loading_step 1 (\<lambda>_. True) s3 = Inr s4"
    "load_to_host 2 ''b'' s4 = Inr (demo_store, b5)"
    by auto
  have sizes: "\<forall>path. - 1 \<le> demo_size path" by (simp add: demo_size_def)
  have c0: "ls_chunk_size demo_start = 4" by (simp add: demo_start_def)
  then have c1: "ls_chunk_size s1 = 4" using register_model_cases [OF run(1)] by auto
  have "rank_count ''transformers'' [] = 1" by code_simp
  then have "store_step demo_start s1" "store_step s1 s2" using run sizes c0 c1 by (auto intro: st_register)
  moreover have "store_step s2 s3" "store_step s4 demo_store" using run by (auto intro: st_load)
  moreover have "store_step s3 s4" using run by (auto intro: st_loop)
  ultimately show ?thesis by (meson sr_start sr_step)
qed

theorem pinned_memory_accounted_witness:
  "ls_pinned_memory_pool_usage demo_store = 2 \<and> ls_pinned_memory_pool demo_store = [(''a'', 1)] \<and>
   ls_pinned_memory_pool_usage demo_store =
      (\<Sum>(m, _)\<leftarrow>ls_pinned_memory_pool demo_store.
         case map_of (ls_disk_models demo_store) m of
           None \<Rightarrow> 0 | Some (_, sz) \<Rightarrow> chunks_of (ls_chunk_size demo_store) sz)"
  using pinned_memory_accounted [OF demo_init _ _ demo_reachable] by (simp add: demo_store_def)

theorem loading_queue_drains_witness:
  "\<exists>self'. rfold (\<lambda>now. loading_step now (\<lambda>_. True)) [3] demo_store = Inr self' \<and>
    ls_io_queue self' = [] \<and> map_of (ls_pinned_memory_pool self') ''b'' = Some 3"
proof -
  have "\<forall>e \<in> set (ls_io_queue demo_store). \<forall>paths sz.
      map_of (ls_disk_models demo_store) (io_model_name e) = Some (paths, sz) \<longrightarrow>
      chunks_of (ls_chunk_size demo_store) sz \<le> ls_pinned_memory_pool_chunks demo_store"
    by (simp add: demo_store_def chunks_of_def)
  moreover have "length [3::rat] = length (ls_io_queue demo_store)"
    "io_model_name (last (ls_io_queue demo_store)) = ''b''"
    by (simp_all add: demo_store_def)
  ultimately show ?thesis
    using loading_queue_drains [OF demo_init _ _ demo_reachable, of "[3]"] by auto
qed

section \<open>Findings\<close>

text \<open>
  A model that is larger than the pool is never dropped from the head of the queue: every
  iteration first evicts all that is in memory and then gives up, so that no other waiting model
  is ever loaded.
\<close>

lemma oversized_model_blocks_queue:
  assumes "store_ok self" and "ls_io_queue self = e # waiting"
    and "ls_pinned_memory_pool_chunks self < model_chunks self (io_model_name e)" and "attempts \<noteq> []"
  shows "\<exists>self'. rfold (\<lambda>(now, client). loading_step now client) attempts self = Inr self' \<and>
    ls_io_queue self' = e # waiting \<and> ls_pinned_memory_pool self' = []"
  using assms
proof (induction attempts arbitrary: self)
  case (Cons a attempts)
  obtain now client where a: "a = (now, client)" by (cases a)
  obtain self1 where step: "loading_step now client self = Inr self1" and ok: "store_ok self1"
    and q: "ls_io_queue self1 = e # waiting" and none: "ls_pinned_memory_pool self1 = []"
    and big: "ls_pinned_memory_pool_chunks self1 < model_chunks self1 (io_model_name e)"
    using Cons.prems(3) by (metis loading_step_blocked [OF Cons.prems(1,2,3)])
  show ?case
  proof (cases "attempts = []")
    case True
    then show ?thesis using step q none a by simp
  next
    case False
    then show ?thesis using Cons.IH [OF ok q big False] step a by simp
  qed
qed simp

text \<open>
  The store of a node that joined later is made with a pool of one byte, so no chunk fits, and
  every model of at least one byte blocks its queue.
\<close>

lemma late_node_has_no_pool:
  assumes "local_store_init node_id 1 chunk_size hardware_info = Inr self" and "1 < chunk_size" and "0 < sz"
  shows "ls_pinned_memory_pool_chunks self = 0" and "0 < chunks_of (ls_chunk_size self) sz"
proof -
  have self: "ls_pinned_memory_pool_chunks self = 1 div chunk_size" "ls_chunk_size self = chunk_size"
    using assms by (auto simp: local_store_init_def split: if_splits)
  then show "ls_pinned_memory_pool_chunks self = 0" using assms(2) by simp
  show "0 < chunks_of (ls_chunk_size self) sz"
    using assms(2,3) by (simp add: self chunks_of_def pos_imp_zdiv_pos_iff)
qed

text \<open>
  The eviction order is called least recently used; a model that is asked for again while it is in
  memory keeps the time at which it was loaded, so the order is that of loading.
\<close>

lemma use_does_not_refresh:
  assumes "dhas (ls_disk_models self) m" and "dhas (ls_pinned_memory_pool self) m"
  shows "load_to_host now m self = Inr (self, True)"
  using assms by (auto simp: load_to_host_def dhas_def split: prod.split)

text \<open>
  A rank that loads before another rank of the model fails stays in the daemon's memory: it is
  neither counted nor unloaded.
\<close>

lemma failed_rank_leaks:
  "case loading_step 3 (\<lambda>path. path = ''vllm/c/rank_0'')
     (demo_start\<lparr>ls_disk_models := [(''c'', [''vllm/c/rank_0'', ''vllm/c/rank_1''], 8)],
        ls_queued_models := [(''c'', True)],
        ls_io_queue := [\<lparr>io_model_name = ''c'', io_estimated_time = 4\<rparr>]\<rparr>) of
     Inr self \<Rightarrow> ls_client_calls self = [Load_into_cpu ''vllm/c/rank_0'' True, Load_into_cpu ''vllm/c/rank_1'' False] \<and>
       ls_pinned_memory_pool self = [] \<and> ls_pinned_memory_pool_usage self = 0 \<and> ls_io_queue self = []
   | Inl _ \<Rightarrow> False"
  by code_simp

text \<open>
  A registration the daemon refuses is recorded as a model of size -1, and a second attempt finds
  the model registered.
\<close>

lemma refused_registration_recorded:
  "register_model (\<lambda>_. - 1) m ''transformers'' backend_config self = Inr (self', r) \<Longrightarrow>
   \<not> dhas (ls_disk_models self) m \<Longrightarrow>
   map_of (ls_disk_models self') m = Some ([get_model_path m ''transformers''], - 1) \<and>
   register_model client m ''transformers'' backend_config self' = Inr (self', None)"
  by (auto simp: register_model_def Let_def dhas_def)

end
