(* ===== verification/Store_Manager.thy ===== *)
theory Store_Manager
  imports Local_Store_Props Py_Effects
begin

text \<open>
  The manager of the stores, \<open>StoreManager\<close> of \<open>src/sllm/store_manager.py\<close>: one local store per
  worker node, the sizes of the registered models and on which nodes they are. The nodes Ray lists,
  the configurations and the hardware the nodes report, and the outcomes of the downloads are
  arguments. Registering a model waits for a download per node; it is one function up to the first
  download, one for what follows each download and one for the end, and their composition.
\<close>

section \<open>State\<close>

record store_manager =
  sm_hardware_info :: "(string \<times> dict) list"
  sm_round_robin_index :: nat
  sm_local_servers :: "(string \<times> local_store) list"
  sm_model_info :: "(string \<times> int option) list"
  sm_model_storage_info :: "(string \<times> (string \<times> bool) list) list"

definition store_manager_init :: store_manager where
  "store_manager_init = \<lparr>sm_hardware_info = [], sm_round_robin_index = 0, sm_local_servers = [],
     sm_model_info = [], sm_model_storage_info = []\<rparr>"

section \<open>Connecting to the nodes\<close>

text \<open>
  The direct mode keeps the checkpoints on shared storage and starts no local store.
\<close>

definition direct_hardware_info :: "nodes \<Rightarrow> (string \<times> dict) list res" where
  "direct_hardware_info worker_node_info =
     rmap (\<lambda>(node_id, row).
       rbind (dindex row ''ray_node_id'') (\<lambda>ray_node_id.
       rbind (dindex row ''address'') (\<lambda>address.
       Inr (node_id, [(''ray_node_id'', ray_node_id), (''address'', address),
                      (''direct_vllm_shared_checkpoint'', PBool True)])))) worker_node_info"

text \<open>The hardware of the nodes that reported it.\<close>

definition collect_hardware_info :: "(string \<Rightarrow> dict option) \<Rightarrow> nodes \<Rightarrow> (string \<times> dict) list" where
  "collect_hardware_info collect_all_info worker_node_info =
     concat (map (\<lambda>(node_id, _). case collect_all_info node_id of
       None \<Rightarrow> [] | Some hardware_info \<Rightarrow> [(node_id, hardware_info)]) worker_node_info)"

text \<open>
  One pass over the nodes that are not connected yet: the first one that answers with a
  configuration gets its store and ends the pass. A node that does not answer (\<open>None\<close>) is skipped;
  a configuration without one of its fields is logged and then raises.
\<close>

fun connect_pass ::
  "(string \<Rightarrow> (string \<times> int) list option) \<Rightarrow> nodes \<Rightarrow> string list \<Rightarrow> string list \<Rightarrow> store_manager
   \<Rightarrow> (string list \<times> store_manager) res" where
  "connect_pass get_server_config worker_node_info [] uninitialized self = Inr (uninitialized, self)"
| "connect_pass get_server_config worker_node_info (node_id # node_ids) uninitialized self =
     (case map_of worker_node_info node_id of
        None \<Rightarrow> connect_pass get_server_config worker_node_info node_ids uninitialized self
      | Some row \<Rightarrow>
          rbind (dindex row ''address'') (\<lambda>_.
          case get_server_config node_id of
            None \<Rightarrow> connect_pass get_server_config worker_node_info node_ids uninitialized self
          | Some local_server_config \<Rightarrow>
              if local_server_config = []
              then connect_pass get_server_config worker_node_info node_ids uninitialized self
              else
                rbind (dindex local_server_config ''chunk_size'') (\<lambda>chunk_size.
                rbind (dindex local_server_config ''mem_pool_size'') (\<lambda>mem_pool_size.
                rbind (dindex (sm_hardware_info self) node_id) (\<lambda>hardware_info.
                rbind (local_store_init node_id mem_pool_size chunk_size hardware_info) (\<lambda>store.
                Inr (remove1 node_id uninitialized,
                     self\<lparr>sm_local_servers := AList.update node_id store (sm_local_servers self)\<rparr>)))))))"

text \<open>
  The passes go on until every node is connected. \<open>passes\<close> is what the nodes answer in each pass;
  \<open>None\<close> when nodes are still missing after these passes.
\<close>

fun connect_all ::
  "(string \<Rightarrow> (string \<times> int) list option) list \<Rightarrow> nodes \<Rightarrow> string list \<Rightarrow> store_manager
   \<Rightarrow> (store_manager \<times> bool option) res" where
  "connect_all [] worker_node_info uninitialized self =
     Inr (self, if uninitialized = [] then Some True else None)"
| "connect_all (get_server_config # passes) worker_node_info uninitialized self =
     (if uninitialized = [] then Inr (self, Some True)
      else rbind (connect_pass get_server_config worker_node_info uninitialized uninitialized self)
             (\<lambda>(uninitialized, self). connect_all passes worker_node_info uninitialized self))"

definition initialize_cluster ::
  "nodes \<Rightarrow> string \<Rightarrow> (string \<Rightarrow> dict option) \<Rightarrow> (string \<Rightarrow> (string \<times> int) list option) list \<Rightarrow> store_manager
   \<Rightarrow> (store_manager \<times> bool option) res" where
  "initialize_cluster worker_node_info no_store_env collect_all_info passes self =
     (if worker_node_info = [] then Inr (self, Some False)
      else if py_lower (py_strip no_store_env) \<in> {''1'', ''true'', ''yes'', ''on''}
      then rbind (direct_hardware_info worker_node_info) (\<lambda>hardware_info.
             Inr (self\<lparr>sm_hardware_info := hardware_info\<rparr>, Some True))
      else
        let hardware_info = collect_hardware_info collect_all_info worker_node_info
        in connect_all passes worker_node_info (map fst hardware_info) (self\<lparr>sm_hardware_info := hardware_info\<rparr>))"

section \<open>Asking the stores\<close>

definition manager_get_store_info :: "rat \<Rightarrow> store_manager \<Rightarrow> (string \<times> store_row) list" where
  "manager_get_store_info now self = map (\<lambda>(node_id, store). (node_id, get_store_info now store)) (sm_local_servers self)"

definition manager_node_store_info :: "rat \<Rightarrow> string \<Rightarrow> store_manager \<Rightarrow> store_row option" where
  "manager_node_store_info now node_id self = map_option (get_store_info now) (map_of (sm_local_servers self) node_id)"

definition manager_load_to_host :: "rat \<Rightarrow> string \<Rightarrow> string \<Rightarrow> (store_manager, bool) stmt" where
  "manager_load_to_host now node_id model_name self =
     (case map_of (sm_local_servers self) node_id of
        None \<Rightarrow> (Inr False, self)
      | Some store \<Rightarrow>
          (case load_to_host now model_name store of
             Inl e \<Rightarrow> (Inl e, self)
           | Inr (store, found) \<Rightarrow>
               (Inr found, self\<lparr>sm_local_servers := AList.update node_id store (sm_local_servers self)\<rparr>)))"

section \<open>Registering a model\<close>

definition is_direct_vllm_load :: "string \<Rightarrow> dict \<Rightarrow> bool" where
  "is_direct_vllm_load backend backend_config =
     (backend = ''vllm'' \<and> dgetn backend_config ''load_format'' \<noteq> PNone)"

text \<open>A node that joined after the start gets a store like the first one, with a pool of size 1.\<close>

definition add_late_server :: "string \<times> dict \<Rightarrow> (store_manager, unit) stmt" where
  "add_late_server node =
     sbind (lift (\<lambda>_. dindex (snd node) ''address'')) (\<lambda>_.
     sbind (lift (\<lambda>self.
       if dhas (sm_local_servers self) (fst node) then Inr (sm_local_servers self)
       else case sm_local_servers self of
         [] \<Rightarrow> Inl (ValueError (''Node '' @ fst node @ '' not found''))
       | (_, first_node) # _ \<Rightarrow>
           rbind (local_store_init (fst node) 1 (ls_chunk_size first_node) (ls_hardware_info first_node)) (\<lambda>store.
           Inr (AList.update (fst node) store (sm_local_servers self))))) (\<lambda>servers.
     change (\<lambda>self. self\<lparr>sm_local_servers := servers\<rparr>)))"

text \<open>
  The nodes a placement names under \<open>key\<close>, \<open>None\<close> for no such entry, and whether all of them are
  workers; a name that is no text names no worker.
\<close>

definition placed_nodes :: "dict \<Rightarrow> string \<Rightarrow> pyval list option res" where
  "placed_nodes placement_config key =
     (if dhas placement_config key then rbind (py_iter (dgetn placement_config key)) (\<lambda>vs. Inr (Some vs)) else Inr None)"

definition all_workers :: "nodes \<Rightarrow> pyval list \<Rightarrow> bool" where
  "all_workers worker_node_info vs = list_all (\<lambda>v. case v of PStr n \<Rightarrow> dhas worker_node_info n | _ \<Rightarrow> False) vs"

definition node_names :: "pyval list \<Rightarrow> string list" where
  "node_names vs = concat (map (\<lambda>v. case v of PStr n \<Rightarrow> [n] | _ \<Rightarrow> []) vs)"

definition finish_direct :: "string \<Rightarrow> (store_manager, unit) stmt" where
  "finish_direct model_name = change (\<lambda>self. self\<lparr>sm_model_info := AList.update model_name (Some 0) (sm_model_info self)\<rparr>)"

text \<open>
  Up to the downloads: the nodes the model is downloaded to and those it is preloaded on, \<open>None\<close>
  when the registration ends here.
\<close>

definition choose_nodes ::
  "nodes \<Rightarrow> dict \<Rightarrow> (store_manager, (string list \<times> string list) option) stmt" where
  "choose_nodes worker_node_info placement_config =
     sbind (lift (\<lambda>_. placed_nodes placement_config ''local_disk'')) (\<lambda>local_disk.
     if local_disk \<noteq> None \<and> \<not> all_workers worker_node_info (the local_disk) then lift (\<lambda>_. Inr None)
     else
       sbind (case local_disk of
           Some vs \<Rightarrow> lift (\<lambda>_. Inr (node_names vs))
         | None \<Rightarrow> sbind (lift (\<lambda>self.
               Inr [fst (worker_node_info ! (sm_round_robin_index self mod length worker_node_info))])) (\<lambda>chosen.
             sbind (change (\<lambda>self.
               self\<lparr>sm_round_robin_index := sm_round_robin_index self + 1\<rparr>)) (\<lambda>_. lift (\<lambda>_. Inr chosen)))) (\<lambda>local_disk.
       sbind (lift (\<lambda>_. placed_nodes placement_config ''memory_pool'')) (\<lambda>memory_pool.
       lift (\<lambda>_. Inr (case memory_pool of
           None \<Rightarrow> Some (local_disk, [])
         | Some vs \<Rightarrow> if all_workers worker_node_info vs then Some (local_disk, node_names vs) else None)))))"

definition manager_register_begin ::
  "nodes \<Rightarrow> string \<Rightarrow> string \<Rightarrow> dict \<Rightarrow> dict \<Rightarrow> (store_manager, (string list \<times> string list) option) stmt" where
  "manager_register_begin worker_node_info model_name backend backend_config placement_config self =
     (if dhas (sm_model_info self) model_name then (Inr None, self)
      else
        sbind (change (\<lambda>self. self\<lparr>sm_model_storage_info :=
          AList.update model_name [] (sm_model_storage_info self)\<rparr>)) (\<lambda>_.
        if backend = ''dummy'' \<or> is_direct_vllm_load backend backend_config
        then sbind (finish_direct model_name) (\<lambda>_. lift (\<lambda>_. Inr None))
        else if worker_node_info = [] then lift (\<lambda>_. Inl (AssertionError ''No worker nodes found''))
        else
          sbind (each add_late_server worker_node_info) (\<lambda>_.
          choose_nodes worker_node_info placement_config)) self)"

text \<open>Whether the loop over the nodes ends before it downloads anything.\<close>

definition not_downloadable :: "string \<Rightarrow> dict \<Rightarrow> bool" where
  "not_downloadable backend backend_config =
     (backend = ''transformers'' \<and> dgetn backend_config ''hf_model_class'' = PNone \<or>
      backend \<noteq> ''transformers'' \<and> backend \<noteq> ''vllm'')"

text \<open>The model is asked for under its path; a path that is no text is not on the disk.\<close>

definition preload :: "rat \<Rightarrow> dict \<Rightarrow> string list \<Rightarrow> string \<Rightarrow> (store_manager, bool) stmt" where
  "preload now backend_config memory_pool node_id =
     (if node_id \<notin> set memory_pool then lift (\<lambda>_. Inr False)
      else case dgetn backend_config ''pretrained_model_name_or_path'' of
        PStr path \<Rightarrow> manager_load_to_host now node_id path
      | _ \<Rightarrow> lift (\<lambda>_. Inr False))"

text \<open>What follows the download to one node; the size is what the store of the node answered.\<close>

definition register_on_node ::
  "rat \<Rightarrow> (string \<Rightarrow> int) \<Rightarrow> string \<Rightarrow> string \<Rightarrow> dict \<Rightarrow> string list \<Rightarrow> string \<Rightarrow> (store_manager, int option) stmt" where
  "register_on_node now client model_name backend backend_config memory_pool node_id =
     sbind (lift (\<lambda>self. dindex (sm_local_servers self) node_id)) (\<lambda>store.
     sbind (lift (\<lambda>_. register_model client model_name backend backend_config store)) (\<lambda>(store, model_size).
     sbind (change (\<lambda>self. self\<lparr>sm_local_servers := AList.update node_id store (sm_local_servers self)\<rparr>)) (\<lambda>_.
     sbind (lift (\<lambda>self. dindex (sm_model_storage_info self) model_name)) (\<lambda>nodes.
     sbind (change (\<lambda>self. self\<lparr>sm_model_storage_info :=
       AList.update model_name (AList.update node_id True nodes) (sm_model_storage_info self)\<rparr>)) (\<lambda>_.
     sbind (preload now backend_config memory_pool node_id) (\<lambda>_.
     lift (\<lambda>_. Inr model_size)))))))"

text \<open>
  The downloads in turn, with the size bound last; \<open>download\<close> says which of them raises. After
  the loop the size is recorded, which raises when no iteration has bound it.
\<close>

fun register_on_nodes ::
  "rat \<Rightarrow> (string \<Rightarrow> int) \<Rightarrow> (string \<Rightarrow> pyexc option) \<Rightarrow> string \<Rightarrow> string \<Rightarrow> dict \<Rightarrow> string list \<Rightarrow> string list
   \<Rightarrow> int option option \<Rightarrow> (store_manager, int option option) stmt" where
  "register_on_nodes now client download model_name backend backend_config memory_pool [] bound =
     lift (\<lambda>_. Inr bound)"
| "register_on_nodes now client download model_name backend backend_config memory_pool (node_id # node_ids) bound =
     (if not_downloadable backend backend_config then lift (\<lambda>_. Inr bound)
      else case download node_id of
        Some e \<Rightarrow> lift (\<lambda>_. Inl e)
      | None \<Rightarrow>
          sbind (register_on_node now client model_name backend backend_config memory_pool node_id) (\<lambda>model_size.
          register_on_nodes now client download model_name backend backend_config memory_pool node_ids (Some model_size)))"

definition manager_register_end :: "string \<Rightarrow> int option option \<Rightarrow> (store_manager, unit) stmt" where
  "manager_register_end model_name bound =
     (case bound of
        None \<Rightarrow> lift (\<lambda>_. Inl (UnboundLocalError ''model_size''))
      | Some model_size \<Rightarrow> 
          change (\<lambda>self. self\<lparr>sm_model_info := AList.update model_name model_size (sm_model_info self)\<rparr>))"

definition manager_register ::
  "rat \<Rightarrow> (string \<Rightarrow> int) \<Rightarrow> (string \<Rightarrow> pyexc option) \<Rightarrow> nodes \<Rightarrow> string \<Rightarrow> string option \<Rightarrow> dict \<Rightarrow> dict
   \<Rightarrow> (store_manager, unit) stmt" where
  "manager_register now client download worker_node_info model_name backend backend_config placement_config =
     (case backend of
        None \<Rightarrow> lift (\<lambda>_. Inr ())
      | Some backend \<Rightarrow>
          sbind (manager_register_begin worker_node_info model_name backend backend_config placement_config) (\<lambda>chosen.
          case chosen of
            None \<Rightarrow> lift (\<lambda>_. Inr ())
          | Some (local_disk, memory_pool) \<Rightarrow>
              sbind (register_on_nodes now client download model_name backend backend_config memory_pool local_disk None)
                (manager_register_end model_name)))"

text \<open>An adapter goes to the first node that has the base model.\<close>

definition register_lora_adapter ::
  "(string \<Rightarrow> pyexc + int) \<Rightarrow> string \<Rightarrow> (store_manager, int) stmt" where
  "register_lora_adapter download base_model_name =
     lift (\<lambda>self. case map_of (sm_model_storage_info self) base_model_name of
       None \<Rightarrow> Inr (- 1)
     | Some [] \<Rightarrow> Inl (RuntimeError ''coroutine raised StopIteration'')
     | Some ((node_id, _) # _) \<Rightarrow> download node_id)"

end
