(* ===== verification/Store_Manager_Props.thy ===== *)
theory Store_Manager_Props
  imports Store_Manager
begin

text \<open>
  What a registration leaves behind, that the manager keeps the invariant of every store, and that
  connecting to the nodes ends.
\<close>

section \<open>Registration\<close>

definition placed_on :: "string \<Rightarrow> store_manager \<Rightarrow> string \<Rightarrow> bool" where
  "placed_on model_name self node_id \<longleftrightarrow>
     (\<exists>store. map_of (sm_local_servers self) node_id = Some store \<and> dhas (ls_disk_models store) model_name) \<and>
     map_of (dget (sm_model_storage_info self) model_name []) node_id = Some True"

lemma register_model_on_disk:
  assumes "register_model client m backend backend_config self = Inr (self', r)"
  shows "dhas (ls_disk_models self') m"
  using assms by (auto simp: register_model_def Let_def dhas_def split: if_splits)

lemma register_model_keeps_disk:
  assumes "register_model client m backend backend_config self = Inr (self', r)"
    and "dhas (ls_disk_models self) n"
  shows "dhas (ls_disk_models self') n"
  using assms by (auto simp: register_model_def Let_def dhas_def split: if_splits)

lemma load_to_host_disk: "load_to_host now m self = Inr (self', b) \<Longrightarrow> ls_disk_models self' = ls_disk_models self"
  by (auto simp: load_to_host_def Let_def split: option.splits if_splits)

lemma manager_load_to_host_placed:
  assumes "manager_load_to_host now node_id path self = (Inr b, self')"
  shows "placed_on m self' n = placed_on m self n \<and> sm_model_info self' = sm_model_info self"
proof (cases "map_of (sm_local_servers self) node_id")
  case None
  then show ?thesis using assms by (simp add: manager_load_to_host_def)
next
  case (Some store)
  with assms obtain store' where load: "load_to_host now path store = Inr (store', b)"
    and self': "self' = self\<lparr>sm_local_servers := AList.update node_id store' (sm_local_servers self)\<rparr>"
    by (auto simp: manager_load_to_host_def split: sum.splits prod.splits)
  show ?thesis using Some load_to_host_disk [OF load] by (simp add: self' placed_on_def)
qed

lemma preload_placed:
  assumes "preload now backend_config memory_pool node_id self = (Inr b, self')"
  shows "placed_on m self' n = placed_on m self n"
  using assms
  by (auto simp: preload_def split: if_splits pyval.splits dest: manager_load_to_host_placed [of _ _ _ _ _ _ m n])

lemma register_on_node_places:
  assumes "register_on_node now client m backend backend_config memory_pool node_id self = (Inr r, self')"
  shows "placed_on m self' node_id \<and> (\<forall>n. placed_on m self n \<longrightarrow> placed_on m self' n)"
proof -
  from assms obtain store store' nodes where
    store: "map_of (sm_local_servers self) node_id = Some store"
    and reg: "register_model client m backend backend_config store = Inr (store', r)"
    and nodes: "map_of (sm_model_storage_info self) m = Some nodes"
    and load: "\<exists>b. preload now backend_config memory_pool node_id
       (self\<lparr>sm_local_servers := AList.update node_id store' (sm_local_servers self),
             sm_model_storage_info := AList.update m (AList.update node_id True nodes) (sm_model_storage_info self)\<rparr>)
       = (Inr b, self')" (is "\<exists>b. preload _ _ _ _ ?mid = _")
    by (auto simp: register_on_node_def sbind_Inr dindex_def split: option.splits prod.splits)
  have "placed_on m self' n = placed_on m ?mid n" for n
    using load preload_placed by blast
  moreover have "placed_on m ?mid node_id"
    using register_model_on_disk [OF reg] by (simp add: placed_on_def dget_def)
  moreover have "placed_on m ?mid n" if "placed_on m self n" for n
    using that register_model_on_disk [OF reg] nodes by (auto simp: placed_on_def dget_def)
  ultimately show ?thesis by blast
qed

lemma register_on_nodes_places:
  assumes "register_on_nodes now client download m backend backend_config memory_pool node_ids bound self =
      (Inr bound', self')" and "\<not> not_downloadable backend backend_config"
  shows "(\<forall>n \<in> set node_ids. placed_on m self' n) \<and> (\<forall>n. placed_on m self n \<longrightarrow> placed_on m self' n) \<and>
    (bound' = None \<longrightarrow> node_ids = [] \<and> bound = None)"
  using assms
proof (induction node_ids arbitrary: bound self)
  case Nil
  then show ?case by simp
next
  case (Cons n node_ids)
  from Cons.prems obtain r self1 where
    first: "register_on_node now client m backend backend_config memory_pool n self = (Inr r, self1)"
    and rest: "register_on_nodes now client download m backend backend_config memory_pool node_ids (Some r) self1 =
      (Inr bound', self')"
    by (auto simp: sbind_Inr split: option.splits)
  show ?case using register_on_node_places [OF first] Cons.IH [OF rest Cons.prems(2)] by auto
qed

section \<open>The stores of the manager\<close>

text \<open>Every store keeps its invariant, and its chunks are larger than \<open>r\<close>.\<close>

definition stores_ok :: "int \<Rightarrow> store_manager \<Rightarrow> bool" where
  "stores_ok r self \<longleftrightarrow> (\<forall>node_id store. map_of (sm_local_servers self) node_id = Some store \<longrightarrow>
     store_ok store \<and> r < ls_chunk_size store)"

lemma stores_okD:
  "stores_ok r self \<Longrightarrow> map_of (sm_local_servers self) node_id = Some store \<Longrightarrow>
   store_ok store \<and> r < ls_chunk_size store"
  by (simp add: stores_ok_def)

lemma stores_ok_update:
  "stores_ok r self \<Longrightarrow> store_ok store \<Longrightarrow> r < ls_chunk_size store \<Longrightarrow>
   stores_ok r (self\<lparr>sm_local_servers := AList.update node_id store (sm_local_servers self)\<rparr>)"
  by (simp add: stores_ok_def)

lemma load_to_host_chunk: "load_to_host now m self = Inr (self', b) \<Longrightarrow> ls_chunk_size self' = ls_chunk_size self"
  by (auto simp: load_to_host_def Let_def split: option.splits if_splits)

lemma register_model_chunk:
  "register_model client m backend backend_config self = Inr (self', r) \<Longrightarrow> ls_chunk_size self' = ls_chunk_size self"
  by (auto dest!: register_model_cases)

lemma ends_pure: "ends P (lift f) (\<lambda>_. P) P"
  by (intro endsI) auto

lemma ends_seq:
  "ends P m (\<lambda>_. P) P \<Longrightarrow> (\<And>x. ends P (f x) (\<lambda>_. P) P) \<Longrightarrow> ends P (sbind m f) (\<lambda>_. P) P"
  by (rule ends_sbind)

lemma ends_each: "(\<And>x. ends P (f x) (\<lambda>_. P) P) \<Longrightarrow> ends P (each f xs) (\<lambda>_. P) P"
proof (induction xs)
  case Nil
  then show ?case by (auto simp: ends_def)
next
  case (Cons x xs)
  then have "ends P (sbind (f x) (\<lambda>_. each f xs)) (\<lambda>_. P) P" by (intro ends_sbind) auto
  then show ?case by (simp add: ends_def)
qed

lemma ends_frame:
  "(\<And>s. sm_local_servers (f s) = sm_local_servers s) \<Longrightarrow> ends (stores_ok r) (change f) (\<lambda>_. stores_ok r) (stores_ok r)"
  by (intro endsI) (auto simp: stores_ok_def)

lemma manager_load_to_host_ok:
  "ends (stores_ok r) (manager_load_to_host now node_id m) (\<lambda>_. stores_ok r) (stores_ok r)"
proof (rule endsI)
  fix s x t
  assume ok: "stores_ok r s" and run: "manager_load_to_host now node_id m s = (Inr x, t)"
  show "stores_ok r t"
  proof (cases "map_of (sm_local_servers s) node_id")
    case None
    then show ?thesis using ok run by (simp add: manager_load_to_host_def)
  next
    case (Some store)
    then show ?thesis using ok run stores_okD [OF ok Some] load_to_host_ok [of store now m] load_to_host_chunk [of now m store]
      by (auto simp: manager_load_to_host_def intro!: stores_ok_update split: sum.splits prod.splits)
  qed
qed (auto simp: manager_load_to_host_def split: option.splits sum.splits prod.splits)

lemma preload_ok: "ends (stores_ok r) (preload now backend_config memory_pool node_id) (\<lambda>_. stores_ok r) (stores_ok r)"
  by (auto simp: preload_def intro: manager_load_to_host_ok ends_pure split: pyval.split)

lemma add_late_server_ok: "ends (stores_ok r) (add_late_server node) (\<lambda>_. stores_ok r) (stores_ok r)"
proof (rule endsI)
  fix s x t
  assume ok: "stores_ok r s" and run: "add_late_server node s = (Inr x, t)"
  then show "stores_ok r t"
  proof (cases "dhas (sm_local_servers s) (fst node) \<or> sm_local_servers s = []")
    case True
    then show ?thesis using ok run
      by (auto simp: add_late_server_def sbind_Inr stores_ok_def split: list.splits if_splits)
  next
    case False
    then obtain n first servers where servers: "sm_local_servers s = (n, first) # servers"
      by (cases "sm_local_servers s") auto
    then have first: "store_ok first" "r < ls_chunk_size first" using stores_okD [OF ok, of n first] by simp_all
    from False run servers obtain store where
      init: "local_store_init (fst node) 1 (ls_chunk_size first) (ls_hardware_info first) = Inr store"
      and t: "t = s\<lparr>sm_local_servers := AList.update (fst node) store (sm_local_servers s)\<rparr>"
      by (auto simp: add_late_server_def sbind_Inr simp del: AList.update.simps)
    have chunk: "0 < ls_chunk_size first" using first by (simp add: store_ok_def)
    have "ls_chunk_size store = ls_chunk_size first"
      using init by (auto simp: local_store_init_def split: if_splits)
    then show ?thesis using ok first init_ok [OF init chunk] by (simp add: t stores_ok_update)
  qed
qed (auto simp: add_late_server_def sbind_Inl split: list.splits if_splits)

lemma register_on_node_ok:
  assumes sizes: "\<forall>path. - 1 \<le> client path" and ranks: "rank_count backend backend_config \<le> r"
  shows "ends (stores_ok r) (register_on_node now client m backend backend_config memory_pool node_id)
    (\<lambda>_. stores_ok r) (stores_ok r)"
proof -
  let ?fit = "\<lambda>store. store_ok store \<and> r < ls_chunk_size store"
  have look: "ends (stores_ok r) (lift (\<lambda>self. dindex (sm_local_servers self) node_id))
      (\<lambda>store s. stores_ok r s \<and> ?fit store) (stores_ok r)"
    by (intro endsI) (auto simp: dindex_def dest: stores_okD split: option.splits)
  have reg: "ends (\<lambda>s. stores_ok r s \<and> ?fit store) (lift (\<lambda>_. register_model client m backend backend_config store))
      (\<lambda>p s. stores_ok r s \<and> ?fit (fst p)) (stores_ok r)" for store
  proof (rule endsI, goal_cases)
    case (1 s x t)
    then obtain store' sz where x: "x = (store', sz)" and run: "register_model client m backend backend_config store = Inr (store', sz)"
      by (cases x) simp
    with 1 ranks show ?case using register_model_ok [OF _ run sizes] register_model_chunk [OF run] by (simp add: x)
  qed simp
  have put: "ends (\<lambda>s. stores_ok r s \<and> ?fit store)
      (change (\<lambda>self. self\<lparr>sm_local_servers := AList.update node_id store (sm_local_servers self)\<rparr>))
      (\<lambda>_. stores_ok r) (stores_ok r)" for store
    by (intro endsI) (auto simp: stores_ok_update)
  show ?thesis unfolding register_on_node_def case_prod_beta
    by (intro ends_sbind [OF look] ends_sbind [OF reg] ends_sbind [OF put] ends_sbind [OF ends_pure]
        ends_sbind [OF ends_frame] ends_sbind [OF preload_ok] ends_pure) simp
qed

lemma register_on_nodes_ok:
  assumes "\<forall>path. - 1 \<le> client path" and "rank_count backend backend_config \<le> r"
  shows "ends (stores_ok r) (register_on_nodes now client download m backend backend_config memory_pool node_ids bound)
    (\<lambda>_. stores_ok r) (stores_ok r)"
proof (induction node_ids arbitrary: bound)
  case Nil
  then show ?case by (simp add: ends_pure)
next
  case (Cons n node_ids)
  then show ?case using register_on_node_ok [OF assms]
    by (auto simp: ends_pure split: option.split intro: ends_seq)
qed

lemma choose_nodes_ok: "ends (stores_ok r) (choose_nodes worker_node_info placement_config) (\<lambda>_. stores_ok r) (stores_ok r)"
  unfolding choose_nodes_def
  by (intro ends_sbind [OF ends_pure] ends_if ends_pure ends_sbind)
    (auto split: option.split intro!: ends_sbind [OF ends_pure] ends_sbind [OF ends_frame] ends_pure)

lemma register_begin_ok:
  "ends (stores_ok r) (manager_register_begin worker_node_info m backend backend_config placement_config)
    (\<lambda>_. stores_ok r) (stores_ok r)"
proof -
  let ?work = "sbind (change (\<lambda>self. self\<lparr>sm_model_storage_info := AList.update m [] (sm_model_storage_info self)\<rparr>)) (\<lambda>_.
        if backend = ''dummy'' \<or> is_direct_vllm_load backend backend_config
        then sbind (finish_direct m) (\<lambda>_. lift (\<lambda>_. Inr None))
        else if worker_node_info = [] then lift (\<lambda>_. Inl (AssertionError ''No worker nodes found''))
        else sbind (each add_late_server worker_node_info) (\<lambda>_. choose_nodes worker_node_info placement_config))"
  have "ends (stores_ok r) ?work (\<lambda>_. stores_ok r) (stores_ok r)"
    unfolding finish_direct_def
    by (intro ends_sbind [OF ends_frame] ends_if ends_pure ends_sbind [OF ends_each] add_late_server_ok choose_nodes_ok) simp_all
  then show ?thesis by (auto simp: ends_def manager_register_begin_def)
qed

lemma register_ok:
  assumes "\<forall>path. - 1 \<le> client path" and "\<forall>b. backend = Some b \<longrightarrow> rank_count b backend_config \<le> r"
  shows "ends (stores_ok r) (manager_register now client download worker_node_info m backend backend_config placement_config)
    (\<lambda>_. stores_ok r) (stores_ok r)"
proof (cases backend)
  case None
  then show ?thesis by (simp add: manager_register_def ends_pure)
next
  case (Some b)
  have "ends (stores_ok r) (manager_register_end m bound) (\<lambda>_. stores_ok r) (stores_ok r)" for bound
    by (auto simp: manager_register_end_def ends_pure intro: ends_frame split: option.split)
  then show ?thesis using Some assms register_on_nodes_ok [OF assms(1)]
    by (auto simp: manager_register_def ends_pure intro!: ends_seq register_begin_ok split: option.split)
qed

section \<open>Properties\<close>

lemma all_workers_names: "all_workers nodes vs \<Longrightarrow> set (node_names vs) \<subseteq> fst ` set nodes"
  by (induction vs) (auto simp: all_workers_def node_names_def dhas_iff image_iff split: pyval.splits)

lemma choose_nodes_workers:
  assumes "choose_nodes nodes placement_config self = (Inr (Some (local_disk, memory_pool)), self')" and "nodes \<noteq> []"
  shows "set local_disk \<subseteq> fst ` set nodes"
proof (cases "placed_nodes placement_config ''local_disk''")
  case (Inr chosen)
  show ?thesis
  proof (cases chosen)
    case None
    have "sm_round_robin_index self mod length nodes < length nodes" using assms(2) by simp
    then have "fst (nodes ! (sm_round_robin_index self mod length nodes)) \<in> fst ` set nodes" by simp
    moreover have "local_disk = [fst (nodes ! (sm_round_robin_index self mod length nodes))]"
      using assms(1) Inr None by (auto simp: choose_nodes_def sbind_Inr split: option.splits if_splits)
    ultimately show ?thesis by simp
  next
    case (Some vs)
    then have "local_disk = node_names vs" "all_workers nodes vs"
      using assms(1) Inr by (auto simp: choose_nodes_def sbind_Inr split: option.splits if_splits)
    then show ?thesis by (simp only: all_workers_names)
  qed
qed (use assms(1) in \<open>auto simp: choose_nodes_def sbind_Inr\<close>)

lemma register_on_nodes_undownloadable:
  "not_downloadable backend backend_config \<Longrightarrow>
   register_on_nodes now client download m backend backend_config memory_pool node_ids None self = (Inr None, self)"
  by (cases node_ids) simp_all

text \<open>
  A registration that got past the choice of the nodes and returns has the model on the disk of
  every chosen node, all of them workers and at least one, has noted each of them, and knows the
  size of the model.
\<close>

theorem registration_places_model:
  assumes prep: "manager_register_begin nodes m backend backend_config placement_config self =
      (Inr (Some (local_disk, memory_pool)), self1)"
    and run: "manager_register now client download nodes m (Some backend) backend_config placement_config self =
      (Inr (), self')"
  shows "local_disk \<noteq> [] \<and> set local_disk \<subseteq> fst ` set nodes \<and>
    (\<forall>n \<in> set local_disk.
       (\<exists>store. map_of (sm_local_servers self') n = Some store \<and> dhas (ls_disk_models store) m) \<and>
       map_of (dget (sm_model_storage_info self') m []) n = Some True) \<and>
    dhas (sm_model_info self') m"
proof -
  from run prep obtain bound self2 where
    nodes: "register_on_nodes now client download m backend backend_config memory_pool local_disk None self1 = (Inr bound, self2)"
    and last: "manager_register_end m bound self2 = (Inr (), self')"
    by (auto simp: manager_register_def sbind_Inr)
  from last obtain model_size where bound: "bound = Some model_size"
    and self': "self' = self2\<lparr>sm_model_info := AList.update m model_size (sm_model_info self2)\<rparr>"
    by (auto simp: manager_register_end_def split: option.splits)
  have loadable: "\<not> not_downloadable backend backend_config"
    using register_on_nodes_undownloadable nodes bound by (metis Pair_inject option.distinct(1) sum.inject(2))
  have "local_disk \<noteq> []" using nodes bound by auto
  moreover have "set local_disk \<subseteq> fst ` set nodes"
  proof -
    from prep obtain s where "choose_nodes nodes placement_config s = (Inr (Some (local_disk, memory_pool)), self1)" "nodes \<noteq> []"
      by (auto simp: manager_register_begin_def sbind_Inr finish_direct_def split: if_splits)
    then show ?thesis by (rule choose_nodes_workers)
  qed
  moreover have "placed_on m self2 n" if "n \<in> set local_disk" for n
    using register_on_nodes_places [OF nodes loadable] that by blast
  ultimately show ?thesis by (auto simp: placed_on_def self' dhas_def)
qed

definition usable_config :: "(string \<times> int) list \<Rightarrow> bool" where
  "usable_config local_server_config =
     (dhas local_server_config ''mem_pool_size'' \<and> dhas local_server_config ''chunk_size'' \<and>
      map_of local_server_config ''chunk_size'' \<noteq> Some 0)"

lemma connect_pass_head:
  assumes "map_of worker_node_info n = Some row" and "dhas row ''address''"
    and "get_server_config n = Some config" and "usable_config config" and "dhas (sm_hardware_info self) n"
  obtains store where "connect_pass get_server_config worker_node_info (n # ns) (n # ns) self =
      Inr (ns, self\<lparr>sm_local_servers := AList.update n store (sm_local_servers self)\<rparr>)"
proof -
  from assms(4) obtain c p where config: "map_of config ''chunk_size'' = Some c" "c \<noteq> 0"
    "map_of config ''mem_pool_size'' = Some p" by (auto simp: usable_config_def dhas_def)
  then have "config \<noteq> []" by auto
  with assms config show ?thesis
    using that by (auto simp: dindex_def dhas_def local_store_init_def)
qed

text \<open>
  Connecting ends: when in every pass each node that reported its hardware answers with a usable
  configuration, as many passes as there are such nodes connect all of them.
\<close>

theorem cluster_connects:
  assumes "\<forall>n \<in> set uninitialized. dhas (sm_hardware_info self) n \<and>
      (\<exists>row. map_of worker_node_info n = Some row \<and> dhas row ''address'')"
    and "\<forall>get_server_config \<in> set passes. \<forall>n \<in> set uninitialized.
      \<exists>config. get_server_config n = Some config \<and> usable_config config"
    and "length uninitialized \<le> length passes"
  shows "\<exists>self'. connect_all passes worker_node_info uninitialized self = Inr (self', Some True) \<and>
    (\<forall>n \<in> set uninitialized. dhas (sm_local_servers self') n) \<and>
    (\<forall>n. dhas (sm_local_servers self) n \<longrightarrow> dhas (sm_local_servers self') n)"
  using assms
proof (induction uninitialized arbitrary: passes self)
  case Nil
  then show ?case by (cases passes) simp_all
next
  case (Cons n ns)
  obtain get_server_config passes' where passes: "passes = get_server_config # passes'"
    using Cons.prems(3) by (cases passes) auto
  obtain row where row: "map_of worker_node_info n = Some row" "dhas row ''address''"
    using Cons.prems(1) by auto
  obtain config where config: "get_server_config n = Some config" "usable_config config"
    using Cons.prems(2) passes by auto
  have hw: "dhas (sm_hardware_info self) n" using Cons.prems(1) by simp
  obtain store where pass: "connect_pass get_server_config worker_node_info (n # ns) (n # ns) self =
      Inr (ns, self\<lparr>sm_local_servers := AList.update n store (sm_local_servers self)\<rparr>)" (is "_ = Inr (ns, ?next)")
    by (rule connect_pass_head [where get_server_config = get_server_config, OF row config hw])
  have "\<exists>self'. connect_all passes' worker_node_info ns ?next = Inr (self', Some True) \<and>
    (\<forall>n \<in> set ns. dhas (sm_local_servers self') n) \<and>
    (\<forall>n. dhas (sm_local_servers ?next) n \<longrightarrow> dhas (sm_local_servers self') n)"
    using Cons.prems passes by (intro Cons.IH) auto
  then show ?case using pass by (auto simp: passes dhas_update simp del: connect_pass.simps)
qed

section \<open>A manager at work\<close>

definition demo_nodes :: nodes where
  "demo_nodes = [(''0'', [(''ray_node_id'', PStr ''r0''), (''address'', PStr ''10.0.0.1'')]),
                 (''1'', [(''ray_node_id'', PStr ''r1''), (''address'', PStr ''10.0.0.2'')])]"

definition demo_answers :: "string \<Rightarrow> (string \<times> int) list option" where
  "demo_answers node_id = Some [(''chunk_size'', 4), (''mem_pool_size'', 40)]"

definition demo_hardware :: "string \<Rightarrow> dict option" where
  "demo_hardware node_id = Some [(''disk_bandwidth'', PInt 2)]"

definition demo_manager :: store_manager where
  "demo_manager = (case initialize_cluster demo_nodes '''' demo_hardware [demo_answers, demo_answers] store_manager_init of
     Inr (self, Some True) \<Rightarrow> self | _ \<Rightarrow> store_manager_init)"

definition demo_backend_config :: dict where
  "demo_backend_config = [(''pretrained_model_name_or_path'', PStr ''org/m''), (''hf_model_class'', PStr ''AutoModel'')]"

definition demo_placement :: dict where
  "demo_placement = [(''local_disk'', PList [PStr ''0'', PStr ''1'']), (''memory_pool'', PList [PStr ''0''])]"

definition demo_prep :: store_manager where
  "demo_prep = snd (manager_register_begin demo_nodes ''m'' ''transformers'' demo_backend_config demo_placement demo_manager)"

definition demo_registered :: store_manager where
  "demo_registered = snd (manager_register 0 (\<lambda>_. 9) (\<lambda>_. None) demo_nodes ''m'' (Some ''transformers'')
     demo_backend_config demo_placement demo_manager)"

lemma demo_prep_run:
  "manager_register_begin demo_nodes ''m'' ''transformers'' demo_backend_config demo_placement demo_manager =
     (Inr (Some ([''0'', ''1''], [''0''])), demo_prep)"
proof -
  have "fst (manager_register_begin demo_nodes ''m'' ''transformers'' demo_backend_config demo_placement demo_manager) =
     Inr (Some ([''0'', ''1''], [''0'']))" by code_simp
  then show ?thesis unfolding demo_prep_def by (metis prod.collapse)
qed

lemma demo_register_run:
  "manager_register 0 (\<lambda>_. 9) (\<lambda>_. None) demo_nodes ''m'' (Some ''transformers'') demo_backend_config demo_placement
     demo_manager = (Inr (), demo_registered)"
proof -
  have "fst (manager_register 0 (\<lambda>_. 9) (\<lambda>_. None) demo_nodes ''m'' (Some ''transformers'') demo_backend_config
     demo_placement demo_manager) = Inr ()" by code_simp
  then show ?thesis unfolding demo_registered_def by (metis prod.collapse)
qed

theorem registration_places_model_witness:
  "(\<exists>store. map_of (sm_local_servers demo_registered) ''1'' = Some store \<and> dhas (ls_disk_models store) ''m'') \<and>
   dhas (sm_model_info demo_registered) ''m''"
  using registration_places_model [OF demo_prep_run demo_register_run] by simp

definition demo_waiting :: store_manager where
  "demo_waiting = store_manager_init\<lparr>sm_hardware_info := collect_hardware_info demo_hardware demo_nodes\<rparr>"

theorem cluster_connects_witness:
  "\<exists>self'. connect_all [demo_answers, demo_answers] demo_nodes [''0'', ''1''] demo_waiting = Inr (self', Some True) \<and>
     dhas (sm_local_servers self') ''0'' \<and> dhas (sm_local_servers self') ''1''"
proof -
  have hosts: "\<forall>n \<in> set [''0'', ''1'']. dhas (sm_hardware_info demo_waiting) n \<and>
      (\<exists>row. map_of demo_nodes n = Some row \<and> dhas row ''address'')"
    by (simp add: demo_waiting_def demo_nodes_def demo_hardware_def collect_hardware_info_def dhas_def)
  have "\<forall>get_server_config \<in> set [demo_answers, demo_answers]. \<forall>n \<in> set [''0'', ''1''].
      \<exists>config. get_server_config n = Some config \<and> usable_config config"
    by (simp add: demo_answers_def usable_config_def dhas_def)
  from cluster_connects [OF hosts this] obtain self' where
    run: "connect_all [demo_answers, demo_answers] demo_nodes [''0'', ''1''] demo_waiting = Inr (self', Some True)"
    and there: "\<forall>n \<in> set [''0'', ''1'']. dhas (sm_local_servers self') n"
    by (auto simp del: connect_all.simps connect_pass.simps)
  show ?thesis by (rule exI [of _ self']) (use run there in \<open>simp del: connect_all.simps connect_pass.simps\<close>)
qed

section \<open>Findings\<close>

text \<open>
  A model that a placement wants in memory is asked for under its path, but it is registered under
  its name: nothing is loaded.
\<close>

lemma preload_asks_for_path:
  "map_option ls_io_queue (map_of (sm_local_servers demo_registered) ''0'') = Some []"
  by code_simp

text \<open>
  Two registrations of a model that wait for their downloads at the same time: the one that comes
  back last finds the model registered and records no size.
\<close>

lemma concurrent_registration_loses_size:
  "(let first = snd (register_on_nodes 0 (\<lambda>_. 9) (\<lambda>_. None) ''m'' ''transformers'' demo_backend_config [] [''0''] None demo_prep);
        ended = snd (manager_register_end ''m'' (Some (Some 9)) first)
    in sm_model_info ended = [(''m'', Some 9)] \<and>
       (case register_on_nodes 0 (\<lambda>_. 9) (\<lambda>_. None) ''m'' ''transformers'' demo_backend_config [] [''0''] None ended of
          (Inr bound, self) \<Rightarrow> sm_model_info (snd (manager_register_end ''m'' bound self)) = [(''m'', None)]
        | _ \<Rightarrow> False))"
  by code_simp

text \<open>
  With a backend the manager does not know, the registration ends in an unbound variable and
  leaves an entry without nodes, on which registering an adapter then raises.
\<close>

lemma unknown_backend_leaves_entry:
  "case manager_register 0 (\<lambda>_. 9) (\<lambda>_. None) demo_nodes ''m'' (Some ''other'') [] [] demo_manager of
     (r, self) \<Rightarrow> r = Inl (UnboundLocalError ''model_size'') \<and> sm_model_storage_info self = [(''m'', [])] \<and>
       fst (register_lora_adapter (\<lambda>_. Inr 0) ''m'' self) = Inl (RuntimeError ''coroutine raised StopIteration'')"
  by code_simp

end
