(* ===== verification/Storage_Scheduler.thy ===== *)
theory Storage_Scheduler
  imports Fcfs_Control Store_Manager
begin

text \<open>
  The storage-aware scheduler, \<open>src/sllm/schedulers/storage_aware_scheduler.py\<close>: it prefers the
  nodes that load a model fastest and may move other instances away to make room. It extends the
  first-come-first-served scheduler, whose state is its first field. What the store manager says
  of the disks, the sizes and the bandwidths, what the routers say of their instances and the
  outcomes of the migrations they carry out are arguments.
\<close>

section \<open>State\<close>

text \<open>What a router reports of an instance, with the estimate the scheduler adds to it.\<close>

record inst_status =
  is_instance_id :: string
  is_model_name :: string
  is_num_gpu :: int
  is_num_current_tokens :: int
  is_resuming_latency :: rat

record migration_plan_entry =
  mp_target_node_id :: string
  mp_source_instance :: inst_status

type_synonym store_table = "(string \<times> store_row) list"

text \<open>The latency \<open>None\<close> is \<open>float("inf")\<close>.\<close>

record migration_plans =
  ms_total_latency :: "rat option"
  ms_evictedGPUs :: int
  ms_plans :: "migration_plan_entry list"
  ms_store_info :: "store_table option"

record allocation_plan =
  ap_node_id :: string
  ap_latency :: rat
  ap_migration_plans :: "migration_plans option"

record storage_scheduler =
  ss_base :: fcfs
  ss_enable_migration :: bool
  ss_model_scheduler_config :: "(string \<times> dict) list"

definition storage_scheduler_init :: "dict \<Rightarrow> storage_scheduler res" where
  "storage_scheduler_init scheduler_config =
     rbind (fcfs_init scheduler_config) (\<lambda>base.
     Inr \<lparr>ss_base = base, ss_enable_migration = truthy (dget scheduler_config ''enable_migration'' (PBool False)),
          ss_model_scheduler_config = []\<rparr>)"

definition empty_plans :: migration_plans where
  "empty_plans = \<lparr>ms_total_latency = None, ms_evictedGPUs = 0, ms_plans = [], ms_store_info = None\<rparr>"

definition append_plan :: "migration_plan_entry \<Rightarrow> rat option \<Rightarrow> migration_plans \<Rightarrow> migration_plans" where
  "append_plan plan total_latency self =
     self\<lparr>ms_total_latency := total_latency,
          ms_evictedGPUs := ms_evictedGPUs self + is_num_gpu (mp_source_instance plan),
          ms_plans := ms_plans self @ [plan]\<rparr>"

definition mark_resource :: "string \<Rightarrow> string \<Rightarrow> string \<Rightarrow> storage_scheduler \<Rightarrow> storage_scheduler" where
  "mark_resource model_name instance_id node_id self =
     self\<lparr>ss_base := (ss_base self)\<lparr>fs_model_instance :=
       put_instance model_name instance_id node_id (fs_model_instance (ss_base self))\<rparr>\<rparr>"

definition set_model_scheduler_config :: "string \<Rightarrow> dict \<Rightarrow> storage_scheduler \<Rightarrow> storage_scheduler" where
  "set_model_scheduler_config model_name scheduler_config self =
     self\<lparr>ss_model_scheduler_config := AList.update model_name scheduler_config (ss_model_scheduler_config self)\<rparr>"

section \<open>How long a model takes to load\<close>

text \<open>A size that was never recorded is \<open>None\<close>.\<close>

definition loading_seconds :: "int option \<Rightarrow> dict \<Rightarrow> string \<Rightarrow> rat res" where
  "loading_seconds model_size hardware_info key =
     rbind (dindex hardware_info key) (\<lambda>bandwidth.
     case model_size of None \<Rightarrow> Inl TypeError | Some s \<Rightarrow> py_div (of_int s) bandwidth)"

definition get_model_loading_time ::
  "string \<Rightarrow> int option \<Rightarrow> dict \<Rightarrow> rat \<Rightarrow> (string \<times> rat) list \<Rightarrow> rat res" where
  "get_model_loading_time model_name model_size hardware_info node_waiting_time pinned_memory_pool =
     (if \<not> dhas pinned_memory_pool model_name
      then rbind (loading_seconds model_size hardware_info ''disk_bandwidth'') (\<lambda>t. Inr (node_waiting_time + t))
      else loading_seconds model_size hardware_info ''pcie_bandwidth'')"

section \<open>Where an instance can go\<close>

type_synonym node_view = "(string \<times> int option) list \<times> (string \<times> dict) list"

text \<open>
  \<open>None\<close> for the store table is the cell of the table below that was never filled; indexing it
  raises.
\<close>

definition migration_candidate ::
  "string \<Rightarrow> int \<Rightarrow> string \<Rightarrow> node_view \<Rightarrow> store_table option \<Rightarrow> string \<times> dict \<Rightarrow> (string \<times> rat) list \<Rightarrow> (string \<times> rat) list res" where
  "migration_candidate model_name num_gpu source_node_id view store_info node candidates =
     (if fst node = source_node_id then Inr candidates
      else rbind (dindex (snd node) ''free_gpu'') (\<lambda>free.
        rbind (py_ge free (PInt num_gpu)) (\<lambda>enough.
        if \<not> enough then Inr candidates
        else
          rbind (dindex (fst view) model_name) (\<lambda>model_size.
          rbind (dindex (snd view) (fst node)) (\<lambda>hardware_info.
          case store_info of None \<Rightarrow> Inl TypeError
          | Some table \<Rightarrow>
              rbind (dindex table (fst node)) (\<lambda>(_, pinned_memory_pool, waiting_time).
              rbind (get_model_loading_time model_name model_size hardware_info waiting_time pinned_memory_pool)
                (\<lambda>loading_time. Inr (candidates @ [(fst node, loading_time)]))))))))"

definition get_migration_target ::
  "string \<Rightarrow> int \<Rightarrow> string \<Rightarrow> nodes \<Rightarrow> node_view \<Rightarrow> store_table option \<Rightarrow> (string \<times> rat) option res" where
  "get_migration_target model_name num_gpu source_node_id worker_nodes view store_info =
     rbind (rfold (migration_candidate model_name num_gpu source_node_id view store_info) worker_nodes [])
       (\<lambda>candidates. Inr (case sort_key snd candidates of [] \<Rightarrow> None | best # _ \<Rightarrow> Some best))"

section \<open>Which instances to move\<close>

definition resuming_latency :: "dict \<Rightarrow> int \<Rightarrow> rat res" where
  "resuming_latency config num_current_tokens =
     rbind (py_num (dget config ''alpha'' (PFloat (1/100)))) (\<lambda>alpha.
     rbind (py_num (dget config ''beta'' (PFloat (1/10)))) (\<lambda>beta.
     Inr (alpha * of_int num_current_tokens + beta)))"

definition migratable_instances ::
  "(string \<Rightarrow> string \<Rightarrow> inst_status option res) \<Rightarrow> string \<Rightarrow> string \<Rightarrow> storage_scheduler \<Rightarrow> inst_status list res" where
  "migratable_instances get_instance_status model_name source_node_id self =
     rfold (\<lambda>(target_model_name, instances) found.
       if target_model_name = model_name then Inr found
       else rfold (\<lambda>(instance_id, node_id) found.
         if node_id \<noteq> source_node_id then Inr found
         else rbind (get_instance_status target_model_name instance_id) (\<lambda>status.
           case status of None \<Rightarrow> Inr found
           | Some instance_status \<Rightarrow>
               rbind (resuming_latency (dget (ss_model_scheduler_config self) target_model_name [])
                        (is_num_current_tokens instance_status)) (\<lambda>latency.
               Inr (found @ [instance_status\<lparr>is_resuming_latency := latency\<rparr>])))) instances found)
       (fs_model_instance (ss_base self)) []"

text \<open>\<open>x + y\<close> and \<open>x < y\<close> where \<open>None\<close> is infinity\<close>

definition add_latency :: "rat \<Rightarrow> rat option \<Rightarrow> rat option" where
  "add_latency x y = map_option (\<lambda>r. x + r) y"

fun latency_less :: "rat option \<Rightarrow> rat option \<Rightarrow> bool" where
  "latency_less (Some x) (Some y) = (x < y)"
| "latency_less (Some x) None = True"
| "latency_less None y = False"

definition py_nth :: "'a list \<Rightarrow> int \<Rightarrow> 'a res" where
  "py_nth xs i = (if 0 \<le> i \<and> i < int (length xs) then Inr (xs ! nat i)
                  else if i < 0 \<and> - int (length xs) \<le> i then Inr (xs ! nat (int (length xs) + i))
                  else Inl IndexError)"

definition delay_node :: "string \<Rightarrow> rat \<Rightarrow> store_table option \<Rightarrow> store_table option res" where
  "delay_node node_id loading_time store_info =
     (case store_info of None \<Rightarrow> Inl TypeError
      | Some table \<Rightarrow> rbind (dindex table node_id) (\<lambda>(disk, pool, waiting_time).
          Inr (Some (AList.update node_id (disk, pool, waiting_time + loading_time) table))))"

text \<open>One cell of the table: the cheapest way to free \<open>j\<close> GPUs with the instances up to this one.\<close>

definition plan_cell ::
  "inst_status \<Rightarrow> string \<Rightarrow> nodes \<Rightarrow> node_view \<Rightarrow> migration_plans list \<Rightarrow> int \<Rightarrow> migration_plans res" where
  "plan_cell inst source_node_id worker_nodes view previous j =
     (if j < is_num_gpu inst then py_nth previous j
      else
        rbind (py_nth previous (j - is_num_gpu inst)) (\<lambda>base.
        rbind (get_migration_target (is_model_name inst) (is_num_gpu inst) source_node_id worker_nodes view
                 (ms_store_info base)) (\<lambda>target.
        case target of None \<Rightarrow> Inl TypeError
        | Some (target_node_id, loading_time) \<Rightarrow>
            rbind (py_nth previous j) (\<lambda>without.
            let total_latency = add_latency (is_resuming_latency inst + loading_time) (ms_total_latency base);
                plan = \<lparr>mp_target_node_id = target_node_id, mp_source_instance = inst\<rparr>
            in if latency_less total_latency (ms_total_latency without)
               then rbind (delay_node target_node_id loading_time (ms_store_info base)) (\<lambda>store_info.
                      Inr ((append_plan plan total_latency base)\<lparr>ms_store_info := store_info\<rparr>))
               else Inr without))))"

definition plan_row ::
  "string \<Rightarrow> nodes \<Rightarrow> node_view \<Rightarrow> int \<Rightarrow> inst_status \<Rightarrow> migration_plans list \<Rightarrow> migration_plans list res" where
  "plan_row source_node_id worker_nodes view gpu_shortage inst previous =
     rmap (plan_cell inst source_node_id worker_nodes view previous) [0..gpu_shortage]"

definition first_row :: "store_table \<Rightarrow> int \<Rightarrow> migration_plans list res" where
  "first_row store_info gpu_shortage =
     (if gpu_shortage < 0 then Inl IndexError
      else Inr (empty_plans\<lparr>ms_total_latency := Some 0, ms_store_info := Some store_info\<rparr> #
                replicate (nat gpu_shortage) empty_plans))"

definition best_plans :: "int \<Rightarrow> migration_plans list \<Rightarrow> migration_plans option" where
  "best_plans gpu_shortage row =
     snd (fold (\<lambda>plans (minLatency, optimal).
       if latency_less (ms_total_latency plans) minLatency \<and> gpu_shortage \<le> ms_evictedGPUs plans
       then (ms_total_latency plans, Some plans) else (minLatency, optimal)) row (None, None))"

definition plan_migrations ::
  "pyval \<Rightarrow> string \<Rightarrow> nodes \<Rightarrow> node_view \<Rightarrow> store_table \<Rightarrow> inst_status list \<Rightarrow> migration_plans option res" where
  "plan_migrations shortage source_node_id worker_nodes view store_info instances =
     rbind (py_int shortage) (\<lambda>gpu_shortage.
     rbind (first_row store_info gpu_shortage) (\<lambda>row.
     rbind (rfold (plan_row source_node_id worker_nodes view gpu_shortage) instances row) (\<lambda>row.
     Inr (best_plans gpu_shortage row))))"

text \<open>
  Every exception of the planning, though not of the questions to the routers, is caught; the
  answer is then that there is no plan.
\<close>

definition get_migration_plans ::
  "(string \<Rightarrow> string \<Rightarrow> inst_status option res) \<Rightarrow> string \<Rightarrow> pyval \<Rightarrow> string \<Rightarrow> nodes \<Rightarrow> node_view \<Rightarrow> store_table
   \<Rightarrow> storage_scheduler \<Rightarrow> migration_plans option res" where
  "get_migration_plans get_instance_status model_name shortage source_node_id worker_nodes view store_info self =
     rbind (migratable_instances get_instance_status model_name source_node_id self) (\<lambda>instances.
     if instances = [] then Inr None
     else case plan_migrations shortage source_node_id worker_nodes view store_info instances of
       Inr plans \<Rightarrow> Inr plans
     | Inl OutOfModel \<Rightarrow> Inl OutOfModel
     | Inl _ \<Rightarrow> Inr None)"

section \<open>The options for a request\<close>

definition node_options ::
  "(string \<Rightarrow> string \<Rightarrow> inst_status option res) \<Rightarrow> string \<Rightarrow> pyval \<Rightarrow> nodes \<Rightarrow> node_view \<Rightarrow> store_table
   \<Rightarrow> storage_scheduler \<Rightarrow> string \<times> dict \<Rightarrow> allocation_plan list \<Rightarrow> allocation_plan list res" where
  "node_options get_instance_status model_name num_gpus worker_nodes view store_info self node options =
     (case node of (node_id, node_info) \<Rightarrow>
        if \<not> node_is_ready node_info then Inr options
        else case map_of store_info node_id of
          None \<Rightarrow> Inr options
        | Some (node_store_info, pinned_memory_pool, node_waiting_time) \<Rightarrow>
            rbind (dindex node_info ''free_gpu'') (\<lambda>free_gpu.
            if \<not> dhas node_store_info model_name then Inr options
            else
              rbind (dindex (fst view) model_name) (\<lambda>model_size.
              rbind (dindex (snd view) node_id) (\<lambda>hardware_info.
              rbind (get_model_loading_time model_name model_size hardware_info node_waiting_time pinned_memory_pool)
                (\<lambda>latency.
              rbind (py_ge free_gpu num_gpus) (\<lambda>enough.
              if enough
              then Inr (options @ [\<lparr>ap_node_id = node_id, ap_latency = latency, ap_migration_plans = None\<rparr>])
              else if \<not> ss_enable_migration self then Inr options
              else
                rbind (py_sub num_gpus free_gpu) (\<lambda>shortage.
                rbind (get_migration_plans get_instance_status model_name shortage node_id worker_nodes view
                         store_info self) (\<lambda>plans.
                case plans of None \<Rightarrow> Inr options
                | Some plans \<Rightarrow>
                    (case ms_total_latency plans of None \<Rightarrow> Inl OutOfModel
                     | Some total_latency \<Rightarrow>
                         Inr (options @ [\<lparr>ap_node_id = node_id, ap_latency = latency + total_latency,
                                          ap_migration_plans = Some plans\<rparr>]))))))))))"

definition storage_schedule ::
  "(string \<Rightarrow> string \<Rightarrow> inst_status option res) \<Rightarrow> string \<Rightarrow> pyval \<Rightarrow> nodes \<Rightarrow> node_view \<Rightarrow> store_table
   \<Rightarrow> storage_scheduler \<Rightarrow> allocation_plan list res" where
  "storage_schedule get_instance_status model_name num_gpus worker_nodes view store_info self =
     rfold (node_options get_instance_status model_name num_gpus worker_nodes view store_info self) worker_nodes []"

section \<open>The control loop\<close>

text \<open>
  The loop unpacks the queued requests before anything else. It expects four fields; a request
  that \<open>allocate_resource\<close> has queued is a tuple of five.
\<close>

definition unpack_request :: "string \<times> nat \<times> loading_request \<Rightarrow> (string \<times> nat \<times> rat \<times> pyval \<times> nat \<times> string option) res" where
  "unpack_request q =
     (case length [''request_time'', ''instance_id'', ''num_gpus'', ''allocation_result'', ''target_node_id''] = 4 of
        True \<Rightarrow> Inr (fst q, fst (snd q), lr_request_time (snd (snd q)), lr_num_gpus (snd (snd q)),
                     lr_allocation_result (snd (snd q)), lr_target_node_id (snd (snd q)))
      | False \<Rightarrow> Inl (ValueError ''too many values to unpack (expected 4)''))"

text \<open>
  One round, from the top of the loop to its sleep. What it does with a request it could unpack
  follows in the code, but there is none: with no request there is nothing more to do, whether the
  store manager is found or not.
\<close>

definition storage_control_round :: "storage_scheduler \<Rightarrow> storage_scheduler res" where
  "storage_control_round self =
     rbind (rmap unpack_request (collect_loading_requests (ss_base self))) (\<lambda>loading_requests.
     if loading_requests = [] then Inr self else Inl OutOfModel)"

end
