(* ===== verification/Storage_Scheduler_Props.thy ===== *)
theory Storage_Scheduler_Props
  imports Storage_Scheduler
begin

text \<open>
  What the options of the storage-aware scheduler promise, and what keeps it from serving requests.
\<close>

section \<open>The target of a migration\<close>

text \<open>Why a node is a candidate.\<close>

definition can_take ::
  "string \<Rightarrow> int \<Rightarrow> string \<Rightarrow> node_view \<Rightarrow> store_table option \<Rightarrow> nodes \<Rightarrow> string \<times> rat \<Rightarrow> bool" where
  "can_take m g src view store_info nodes c \<longleftrightarrow>
     fst c \<noteq> src \<and> (\<exists>info free. (fst c, info) \<in> set nodes \<and> dindex info ''free_gpu'' = Inr free \<and>
       py_ge free (PInt g) = Inr True) \<and>
     (\<exists>table sz hw d pool w. store_info = Some table \<and> dindex (fst view) m = Inr sz \<and>
        dindex (snd view) (fst c) = Inr hw \<and> dindex table (fst c) = Inr (d, pool, w) \<and>
        get_model_loading_time m sz hw w pool = Inr (snd c))"

lemma migration_candidates:
  assumes "rfold (migration_candidate m g src view store_info) nodes [] = Inr candidates"
  shows "\<forall>c \<in> set candidates. can_take m g src view store_info nodes c"
  using assms
proof (rule rfold_invariant)
  fix n cs cs'
  assume n: "n \<in> set nodes" and all: "\<forall>c \<in> set cs. can_take m g src view store_info nodes c"
    and step: "migration_candidate m g src view store_info n cs = Inr cs'"
  show "\<forall>c \<in> set cs'. can_take m g src view store_info nodes c"
  proof (cases "cs' = cs")
    case False
    then have "\<exists>free sz hw table d pool w t'. fst n \<noteq> src \<and> dindex (snd n) ''free_gpu'' = Inr free \<and>
        py_ge free (PInt g) = Inr True \<and> dindex (fst view) m = Inr sz \<and> dindex (snd view) (fst n) = Inr hw \<and>
        store_info = Some table \<and> dindex table (fst n) = Inr (d, pool, w) \<and>
        get_model_loading_time m sz hw w pool = Inr t' \<and> cs' = cs @ [(fst n, t')]"
      using step by (auto simp: migration_candidate_def split: if_splits option.splits)
    then obtain t' where "can_take m g src view store_info nodes (fst n, t')" and "cs' = cs @ [(fst n, t')]"
      using n by (cases n) (fastforce simp: can_take_def)
    then show ?thesis using all by simp
  qed (use all in simp)
qed simp

lemma migration_target_best:
  assumes "get_migration_target m g src nodes view store_info = Inr (Some best)"
  obtains candidates where "rfold (migration_candidate m g src view store_info) nodes [] = Inr candidates"
    and "best \<in> set candidates" and "\<forall>c \<in> set candidates. snd best \<le> snd c"
proof -
  from assms obtain candidates where
    cs: "rfold (migration_candidate m g src view store_info) nodes [] = Inr candidates"
    and pick: "(case sort_key snd candidates of [] \<Rightarrow> None | best # _ \<Rightarrow> Some best) = Some best"
    unfolding get_migration_target_def by auto
  then obtain rest where first: "sort_key snd candidates = best # rest"
    by (cases "sort_key snd candidates") auto
  have "sorted (map snd (best # rest))" unfolding first [symmetric] by simp
  moreover have "set candidates = set (best # rest)" unfolding first [symmetric] by simp
  ultimately show ?thesis using cs by (intro that) auto
qed

lemma migration_target_enough:
  assumes "get_migration_target m g src nodes view store_info = Inr (Some (t, loading_time))"
  shows "can_take m g src view store_info nodes (t, loading_time)"
  using migration_target_best [OF assms] migration_candidates by metis

lemma migration_target_unfilled:
  assumes "get_migration_target m g src nodes view None = Inr target"
  shows "target = None"
  using assms migration_target_enough [of m g src nodes view None]
  by (cases target) (auto simp: can_take_def)

section \<open>The table of migrations\<close>

text \<open>What a cell of the table says is true of the plans in it.\<close>

definition plans_sound :: "inst_status list \<Rightarrow> string \<Rightarrow> nodes \<Rightarrow> migration_plans \<Rightarrow> bool" where
  "plans_sound instances src nodes plans \<longleftrightarrow>
     ms_evictedGPUs plans = (\<Sum>p\<leftarrow>ms_plans plans. is_num_gpu (mp_source_instance p)) \<and>
     (\<forall>p \<in> set (ms_plans plans). mp_source_instance p \<in> set instances \<and> mp_target_node_id p \<noteq> src \<and>
        (\<exists>info free. (mp_target_node_id p, info) \<in> set nodes \<and> dindex info ''free_gpu'' = Inr free \<and>
           py_ge free (PInt (is_num_gpu (mp_source_instance p))) = Inr True))"

lemma py_nth_mem: "py_nth xs i = Inr x \<Longrightarrow> x \<in> set xs"
  by (auto simp: py_nth_def split: if_splits)

lemma plan_cell_sound:
  assumes cell: "plan_cell inst src nodes view previous j = Inr plans"
    and prev: "\<forall>p \<in> set previous. plans_sound instances src nodes p" and inst: "inst \<in> set instances"
  shows "plans_sound instances src nodes plans"
proof (cases "plans \<in> set previous")
  case False
  then obtain base t loading_time store_info total where base: "base \<in> set previous"
    and target: "get_migration_target (is_model_name inst) (is_num_gpu inst) src nodes view (ms_store_info base) =
      Inr (Some (t, loading_time))"
    and plans: "plans = (append_plan \<lparr>mp_target_node_id = t, mp_source_instance = inst\<rparr> total base)\<lparr>ms_store_info := store_info\<rparr>"
    using cell by (auto simp: plan_cell_def Let_def dest: py_nth_mem split: if_splits option.splits prod.splits)
  show ?thesis using prev base inst migration_target_enough [OF target]
    by (auto simp: plans plans_sound_def append_plan_def can_take_def)
qed (use prev in simp)

lemma plan_rows_sound:
  assumes "rfold (plan_row src nodes view s) instances row = Inr row'"
    and "\<forall>p \<in> set row. plans_sound instances src nodes p"
  shows "\<forall>p \<in> set row'. plans_sound instances src nodes p"
  using assms(1,2)
proof (rule rfold_invariant)
  fix inst row row'
  assume "inst \<in> set instances" "\<forall>p \<in> set row. plans_sound instances src nodes p"
    "plan_row src nodes view s inst row = Inr row'"
  then show "\<forall>p \<in> set row'. plans_sound instances src nodes p"
    unfolding plan_row_def by (blast dest: rmap_Inr_set intro: plan_cell_sound)
qed

lemma first_row_sound: "first_row store_info s = Inr row \<Longrightarrow> \<forall>p \<in> set row. plans_sound instances src nodes p"
  by (auto simp: first_row_def plans_sound_def empty_plans_def split: if_splits)

lemma best_plans_mem:
  assumes "best_plans s row = Some plans"
  shows "plans \<in> set row \<and> s \<le> ms_evictedGPUs plans"
proof -
  let ?step = "\<lambda>plans (minLatency, optimal).
       if latency_less (ms_total_latency plans) minLatency \<and> s \<le> ms_evictedGPUs plans
       then (ms_total_latency plans, Some plans) else (minLatency, optimal)"
  have "snd (fold ?step row acc) = Some plans \<Longrightarrow> plans \<in> set row \<and> s \<le> ms_evictedGPUs plans \<or> snd acc = Some plans" for acc
  proof (induction row arbitrary: acc)
    case (Cons p row)
    from Cons.IH [of "?step p acc"] Cons.prems show ?case by (cases acc) (auto split: if_splits)
  qed simp
  from this [of "(None, None)"] assms show ?thesis by (simp add: best_plans_def)
qed

lemma plan_migrations_sound:
  assumes "plan_migrations shortage src nodes view store_info instances = Inr (Some plans)"
  shows "\<exists>s. py_int shortage = Inr s \<and> s \<le> ms_evictedGPUs plans \<and> plans_sound instances src nodes plans"
proof -
  from assms obtain s row row' where s: "py_int shortage = Inr s" and first: "first_row store_info s = Inr row"
    and rows: "rfold (plan_row src nodes view s) instances row = Inr row'" and best: "best_plans s row' = Some plans"
    by (auto simp: plan_migrations_def)
  show ?thesis
    using s best_plans_mem [OF best] plan_rows_sound [OF rows first_row_sound [OF first]] by blast
qed

section \<open>The options of a request\<close>

definition option_sound ::
  "(string \<Rightarrow> string \<Rightarrow> inst_status option res) \<Rightarrow> string \<Rightarrow> pyval \<Rightarrow> nodes \<Rightarrow> node_view \<Rightarrow> store_table
   \<Rightarrow> storage_scheduler \<Rightarrow> allocation_plan \<Rightarrow> bool" where
  "option_sound get_instance_status m num_gpus nodes view store_info self opt \<longleftrightarrow>
     (\<exists>info disk pool w free latency.
        (ap_node_id opt, info) \<in> set nodes \<and> node_is_ready info \<and>
        map_of store_info (ap_node_id opt) = Some (disk, pool, w) \<and> dhas disk m \<and>
        dindex info ''free_gpu'' = Inr free \<and>
        (\<exists>sz hw. dindex (fst view) m = Inr sz \<and> dindex (snd view) (ap_node_id opt) = Inr hw \<and>
           get_model_loading_time m sz hw w pool = Inr latency) \<and>
        (case ap_migration_plans opt of
           None \<Rightarrow> py_ge free num_gpus = Inr True \<and> ap_latency opt = latency
         | Some plans \<Rightarrow> ss_enable_migration self \<and> py_ge free num_gpus = Inr False \<and>
             (\<exists>shortage s instances total_latency.
                py_sub num_gpus free = Inr shortage \<and> py_int shortage = Inr s \<and> s \<le> ms_evictedGPUs plans \<and>
                migratable_instances get_instance_status m (ap_node_id opt) self = Inr instances \<and>
                plans_sound instances (ap_node_id opt) nodes plans \<and>
                ms_total_latency plans = Some total_latency \<and> ap_latency opt = latency + total_latency)))"

lemma get_migration_plans_sound:
  assumes "get_migration_plans get_instance_status m shortage src nodes view store_info self = Inr (Some plans)"
  shows "\<exists>s instances. py_int shortage = Inr s \<and> s \<le> ms_evictedGPUs plans \<and>
    migratable_instances get_instance_status m src self = Inr instances \<and> plans_sound instances src nodes plans"
proof -
  from assms obtain instances where inst: "migratable_instances get_instance_status m src self = Inr instances"
    and plan: "plan_migrations shortage src nodes view store_info instances = Inr (Some plans)"
    by (auto simp: get_migration_plans_def split: if_splits sum.splits pyexc.splits)
  show ?thesis using inst plan_migrations_sound [OF plan] by blast
qed

lemma node_options_sound:
  assumes step: "node_options get_instance_status m num_gpus nodes view store_info self node options = Inr options'"
    and node: "node \<in> set nodes"
    and sound: "\<forall>opt \<in> set options. option_sound get_instance_status m num_gpus nodes view store_info self opt"
  shows "\<forall>opt \<in> set options'. option_sound get_instance_status m num_gpus nodes view store_info self opt"
proof (cases "options' = options")
  case False
  obtain n info where n: "node = (n, info)" by (cases node)
  from False step obtain disk pool w where ready: "node_is_ready info"
    and row: "map_of store_info n = Some (disk, pool, w)"
    by (auto simp: node_options_def n split: if_splits option.splits)
  from False step obtain free where free: "dindex info ''free_gpu'' = Inr free"
    by (auto simp: node_options_def n ready row)
  from False step have disk: "dhas disk m" by (auto simp: node_options_def n ready row free split: if_splits)
  from False step obtain sz hw latency where time: "dindex (fst view) m = Inr sz" "dindex (snd view) n = Inr hw"
      "get_model_loading_time m sz hw w pool = Inr latency"
    by (auto simp: node_options_def n ready row free disk)
  from False step obtain enough where ge: "py_ge free num_gpus = Inr enough"
    by (auto simp: node_options_def n ready row free disk time)
  note facts = ready row free disk time ge
  show ?thesis
  proof (cases enough)
    case True
    then have new: "options' = options @ [\<lparr>ap_node_id = n, ap_latency = latency, ap_migration_plans = None\<rparr>]"
      using step facts by (simp add: node_options_def n)
    have "option_sound get_instance_status m num_gpus nodes view store_info self
        \<lparr>ap_node_id = n, ap_latency = latency, ap_migration_plans = None\<rparr>"
      using facts True node unfolding option_sound_def n by fastforce
    then show ?thesis using sound new by simp
  next
    case False
    with \<open>options' \<noteq> options\<close> step facts obtain shortage plans total where mig: "ss_enable_migration self"
      and short: "py_sub num_gpus free = Inr shortage"
      and plans: "get_migration_plans get_instance_status m shortage n nodes view store_info self = Inr (Some plans)"
      and total: "ms_total_latency plans = Some total"
      and new: "options' = options @ [\<lparr>ap_node_id = n, ap_latency = latency + total, ap_migration_plans = Some plans\<rparr>]"
      by (auto simp: node_options_def n split: if_splits option.splits)
    have "option_sound get_instance_status m num_gpus nodes view store_info self
        \<lparr>ap_node_id = n, ap_latency = latency + total, ap_migration_plans = Some plans\<rparr>"
      using facts False node mig short total get_migration_plans_sound [OF plans] unfolding option_sound_def n
      by (fastforce simp del: rbind_eq_Inr)
    then show ?thesis using sound new by simp
  qed
qed (use sound in simp)

text \<open>
  Every option the scheduler offers for a request is a ready node that has the checkpoint on
  its disk, rated with the time the model takes to load there. The node has enough free GPUs, or
  migration is on and the option carries plans that free at least the missing whole GPUs: each moves an
  instance of another model from this node to another one with enough free GPUs for it, and their
  latency is added.
\<close>

theorem storage_options_sound:
  assumes "storage_schedule get_instance_status m num_gpus nodes view store_info self = Inr options"
  shows "\<forall>opt \<in> set options. option_sound get_instance_status m num_gpus nodes view store_info self opt"
  using assms [unfolded storage_schedule_def]
proof (rule rfold_invariant)
  fix node options options'
  assume node: "node \<in> set nodes" and sound: "\<forall>opt \<in> set options. option_sound get_instance_status m num_gpus nodes view store_info self opt"
    and step: "node_options get_instance_status m num_gpus nodes view store_info self node options = Inr options'"
  show "\<forall>opt \<in> set options'. option_sound get_instance_status m num_gpus nodes view store_info self opt"
    by (rule node_options_sound [OF step node sound])
qed simp

section \<open>Findings\<close>

text \<open>
  A single queued request ends the control loop, so that no request is ever granted; a round that
  returns has done nothing.
\<close>

lemma queued_request_ends_loop:
  assumes "collect_loading_requests (ss_base self) \<noteq> []"
  shows "storage_control_round self = Inl (ValueError ''too many values to unpack (expected 4)'')"
  using assms by (cases "collect_loading_requests (ss_base self)") (auto simp: storage_control_round_def unpack_request_def)

lemma storage_round_grants_nothing: "storage_control_round self = Inr self' \<Longrightarrow> self' = self"
  by (auto simp: storage_control_round_def split: if_splits)

lemma update_mem: "(k, v) \<in> set (AList.update k v d)"
  by (induction d) auto

lemma allocation_ends_loop:
  assumes "request_allocation now m instance_id resources target (ss_base self) = (base, r)"
  shows "storage_control_round (self\<lparr>ss_base := base\<rparr>) = Inl (ValueError ''too many values to unpack (expected 4)'')"
proof (rule queued_request_ends_loop)
  let ?queue = "dget (fs_model_loading_queues (ss_base self)) m [] @ [r]"
  have base: "fs_model_loading_queues base = AList.update m ?queue (fs_model_loading_queues (ss_base self))"
    using assms by (auto simp: request_allocation_def Let_def)
  have "(m, ?queue) \<in> set (fs_model_loading_queues base)" by (simp only: base update_mem)
  then have "map (\<lambda>(idx, r). (m, idx, r)) (enumerate 0 ?queue) \<in>
      set (map (\<lambda>(model_name, queue). map (\<lambda>(idx, r). (model_name, idx, r)) (enumerate 0 queue)) (fs_model_loading_queues base))"
    by force
  moreover have "map (\<lambda>(idx, r). (m, idx, r)) (enumerate 0 ?queue) \<noteq> []" by (simp add: enumerate_append_eq)
  ultimately show "collect_loading_requests (ss_base (self\<lparr>ss_base := base\<rparr>)) \<noteq> []"
    unfolding collect_loading_requests_def by (metis (no_types, lifting) concat_eq_Nil_conv storage_scheduler.select_convs(1) storage_scheduler.surjective storage_scheduler.update_convs(1))
qed

text \<open>
  To free two or more GPUs the table needs an instance that holds at least as many: as soon as a
  smaller one runs on the node, a cell that was never filled is read and the planning fails, so
  that instances are never combined.
\<close>

definition hollow :: "int \<Rightarrow> migration_plans list \<Rightarrow> bool" where
  "hollow s row \<longleftrightarrow> int (length row) = s + 1 \<and> (\<forall>j. 0 < j \<and> j < s \<longrightarrow> ms_store_info (row ! nat j) = None)"

lemma plan_cell_hollow:
  assumes "hollow s row" and "is_num_gpu inst \<le> j" and "j \<le> s" and "0 < j - is_num_gpu inst" and "j - is_num_gpu inst < s"
  shows "\<exists>e. plan_cell inst src nodes view row j = Inl e"
proof -
  let ?i = "j - is_num_gpu inst"
  have "py_nth row ?i = Inr (row ! nat ?i)" and none: "ms_store_info (row ! nat ?i) = None"
    using assms by (auto simp: py_nth_def hollow_def)
  then show ?thesis
    using assms(2) migration_target_unfilled [of "is_model_name inst" "is_num_gpu inst" src nodes view]
    by (cases "get_migration_target (is_model_name inst) (is_num_gpu inst) src nodes view None")
      (auto simp: plan_cell_def)
qed

lemma rmap_Inl: "x \<in> set xs \<Longrightarrow> f x = Inl e \<Longrightarrow> \<exists>e. rmap f xs = Inl e"
proof (induction xs)
  case (Cons y xs)
  then show ?case by (cases "f y"; cases "rmap f xs") auto
qed simp

lemma plan_row_small:
  assumes "hollow s row" and "2 \<le> s" and "0 \<le> is_num_gpu inst" and "is_num_gpu inst < s"
  shows "\<exists>e. plan_row src nodes view s inst row = Inl e"
proof -
  obtain e where "plan_cell inst src nodes view row (is_num_gpu inst + 1) = Inl e"
    using plan_cell_hollow [OF assms(1), of inst "is_num_gpu inst + 1" src nodes view] assms(2-4) by auto
  moreover have "is_num_gpu inst + 1 \<in> set [0..s]" using assms by simp
  ultimately show ?thesis unfolding plan_row_def by (rule rmap_Inl [rotated])
qed

lemma plan_row_large:
  assumes "hollow s row" and "2 \<le> s" and "s \<le> is_num_gpu inst" and "plan_row src nodes view s inst row = Inr row'"
  shows "hollow s row'"
proof -
  have run: "rmap (plan_cell inst src nodes view row) [0..s] = Inr row'" using assms(4) by (simp add: plan_row_def)
  have len: "int (length row') = s + 1" using rmap_Inr_length [OF run] assms(2) by simp
  have "ms_store_info (row' ! nat j) = None" if j: "0 < j" "j < s" for j
  proof -
    have "plan_cell inst src nodes view row ([0..s] ! nat j) = Inr (row' ! nat j)"
      by (rule rmap_Inr_nth [OF run]) (use j in simp)
    moreover have "[0..s] ! nat j = j" using j by (simp add: nth_upto)
    ultimately have "plan_cell inst src nodes view row j = Inr (row' ! nat j)" by simp
    then have "row' ! nat j = row ! nat j"
      using j assms(1,3) by (auto simp: plan_cell_def py_nth_def hollow_def)
    then show ?thesis using assms(1) j by (simp add: hollow_def)
  qed
  then show ?thesis using len by (simp add: hollow_def)
qed

lemma small_instance_ends_planning:
  assumes "py_int shortage = Inr s" and "2 \<le> s" and "\<forall>inst \<in> set instances. 0 \<le> is_num_gpu inst"
    and "inst \<in> set instances" and "is_num_gpu inst < s"
  shows "\<exists>e. plan_migrations shortage src nodes view store_info instances = Inl e"
proof -
  have rows: "hollow s row \<Longrightarrow> \<forall>inst \<in> set insts. 0 \<le> is_num_gpu inst \<Longrightarrow> inst \<in> set insts \<Longrightarrow>
      \<exists>e. rfold (plan_row src nodes view s) insts row = Inl e" for insts row
  proof (induction insts arbitrary: row)
    case (Cons i insts)
    show ?case
    proof (cases "is_num_gpu i < s")
      case True
      then show ?thesis using plan_row_small [OF Cons.prems(1) assms(2), of i src nodes view] Cons.prems(2) by auto
    next
      case False
      then have "inst \<in> set insts" using Cons.prems(3) assms(5) by auto
      then show ?thesis using Cons False plan_row_large [OF Cons.prems(1) assms(2), of i src nodes view]
        by (cases "plan_row src nodes view s i row") auto
    qed
  qed simp
  have "ms_store_info ((x # replicate (nat s) empty_plans) ! nat j) = None" if "0 < j" "j < s" for x j
    using that by (simp add: nth_Cons' nth_replicate empty_plans_def nat_less_iff)
  then have "\<exists>row. first_row store_info s = Inr row \<and> hollow s row"
    using assms(2) by (auto simp: first_row_def hollow_def)
  then show ?thesis using rows [OF _ assms(3,4)] assms(1) by (auto simp: plan_migrations_def rbind_eq_Inl)
qed

text \<open>
  A shortage below one GPU is truncated to zero, for which the empty plan is enough: the request
  gets the node although nothing was freed.
\<close>

lemma fractional_shortage_frees_nothing:
  assumes "\<forall>inst \<in> set instances. 0 < is_num_gpu inst"
  shows "plan_migrations (PFloat (1/2)) src nodes view store_info instances =
    Inr (Some (empty_plans\<lparr>ms_total_latency := Some 0, ms_store_info := Some store_info\<rparr>))"
proof -
  let ?row = "[empty_plans\<lparr>ms_total_latency := Some 0, ms_store_info := Some store_info\<rparr>]"
  have int0: "py_int (PFloat (1/2)) = Inr 0" by code_simp
  have "plan_row src nodes view 0 inst ?row = Inr ?row" if "0 < is_num_gpu inst" for inst
    using that by (simp add: plan_row_def plan_cell_def py_nth_def)
  then have "rfold (plan_row src nodes view 0) instances ?row = Inr ?row"
    using assms by (induction instances) auto
  then show ?thesis using int0 by (simp add: plan_migrations_def first_row_def best_plans_def empty_plans_def)
qed

end
