(* ===== verification/Spec2Isabelle.thy ===== *)
theory Spec2Isabelle
  imports Context_Migration_Props Stateful_Recovery_Props Reparallelization_Executor_Props
    Gpu_Cluster_Props Reparallelization_Props Fcfs_System Preemption_Simulator_Props Moe_Reparallelization Router_Pools_Props
    Router_Migration_Props Router_Recovery_Props Router_Handover Router_Replan_Props Controller_Props
    Store_Manager_Props Storage_Scheduler_Props
begin

text \<open>
  A verification of the decision logic of ServerlessLLM-SpotServe, which serves language models on
  spot instances that the provider may take away after a short notice.

  \<^bold>\<open>The program.\<close> A trace replayer (or the provider) tells the controller that a node or an
  instance is going to be preempted, is dead, was added or has recovered. The controller passes
  this to the scheduler, which owns the GPUs of the nodes, and to the router of the model, which
  owns its instances. The router then has three decisions to take: to which instances the
  contexts of the running requests move (context migration), from which exported state an
  interrupted request is restored (stateful recovery), and with which parallel configuration on
  which nodes the model goes on (reparallelization), and it carries out the last one by changing
  a deployment in place or replacing it by another (the executor and the vLLM adapter). In between
  it balances and scales, hands requests over and tries them again. Checkpoints come from a store on
  every node, which a manager fills and the storage-aware scheduler consults. The development models
  these decisions, the router, the adapter, the controller, the schedulers, the stores and the replay;
  each is a module under \<open>src/sllm\<close>.

  \<^bold>\<open>Theories.\<close> Each component has a theory with its data and operations, in the order of the
  source, and a theory \<open>_Props\<close> with its lemmas and properties.

  \<^item> \<open>Py_Prelude\<close>: what the sources use of Python: values \<open>pyval\<close>, dictionaries as association lists
    in insertion order, truth values, \<open>int\<close>, \<open>float\<close> and \<open>str\<close> conversions, equality, ordering, stable
    sorting, and \<open>'a res\<close>, a result or the exception raised, with \<open>rbind\<close>, \<open>rmap\<close> and \<open>rfold\<close>. It
    also has the locale \<open>ranking\<close>, the contract of every sort whose first element is chosen.
  \<^item> \<open>Context_Migration\<close>: \<open>spot/context_migration.py\<close>, all of it. \<open>solve\<close> is the exhaustive search with
    memo of \<open>_fixed_warmup_assignment\<close>, \<open>build_plans\<close> the loop that turns an assignment into plans.
  \<^item> \<open>Stateful_Recovery\<close>: \<open>spot/stateful_recovery.py\<close>, all of it.
  \<^item> \<open>Gpu_Cluster\<close>: the first half of \<open>spot/reparallelization.py\<close>: node states under spot events, GPU
    availability, plans and shapes, the choice of target nodes.
  \<^item> \<open>Reparallelization\<close>: its second half: the workload cost model, configurations declared by the
    backend, placement profiles, Algorithm 1, and \<open>plan_dynamic_reparallelization\<close>.
  \<^item> \<open>Moe_Topology\<close>, \<open>Moe_Hotness\<close>, \<open>Moe_Placement\<close>, \<open>Moe_Plan\<close>: \<open>spot/moe_placement.py\<close>, all of it: the shape of a
    mixture-of-experts model, the observed placement and the hotness of its experts, the assignment of
    experts to ranks and the movement it takes, and \<open>build_logical_expert_placement_plan\<close>.
    \<open>Moe_Reparallelization\<close> puts the placement planner into the reparallelization planner.
  \<^item> \<open>Reparallelization_Executor\<close>: \<open>spot/reparallelization_executor.py\<close>. An action is a function of the
    executor's state with an exception or a value and the events it recorded; the deployment hooks
    are a record of arguments, and a call of a hook may raise.
  \<^item> \<open>Risk_Scheduling\<close>: \<open>spot/risk_aware_scheduling.py\<close> and \<open>spot/risk_metadata_provider.py\<close>.
  \<^item> \<open>Fcfs_Scheduler\<close>, \<open>Fcfs_Control\<close>: \<open>schedulers/fcfs_scheduler.py\<close>: node metadata, refresh of the node
    table, capacity, allocation and release; then the queues, the rounds of the control loop and the
    handlers the controller calls. \<open>Fcfs_System\<close> lets the coroutines of the scheduler interleave at
    their awaits: \<open>sched_step\<close> is one atomic stretch of one of them, which may raise and end it, or the
    shutdown; \<open>reachable\<close> is what they lead to, \<open>serving\<close> what they lead to without a shutdown.
  \<^item> \<open>Preemption_Simulator\<close>: \<open>spot/trace_reader.py\<close> and \<open>spot/preemption_simulator.py\<close>. \<open>replay_step\<close> handles
    the next trace event, wakes a deadline task or lets the controller answer it.

  \<^item> \<open>Py_Effects\<close>: statements that change variables and may raise (\<open>sbind\<close>, \<open>lift\<close>, \<open>change\<close>, \<open>each\<close>,
    \<open>on_raise\<close>), relations between the variables before and after that statements keep (the locale
    \<open>kept\<close>), and \<open>ends\<close>, a precondition with a postcondition for a value and one for an exception.
  \<^item> \<open>Instance_Handle\<close>: \<open>InstanceHandle\<close> of \<open>utils.py\<close>: states, admission, number of requests.
  \<^item> The router, \<open>routers/roundrobin_router.py\<close>, in five theories. \<open>Router_Pools\<close>: the pools of instances,
    the request queue, load balancer, auto scaler, start and end of instances, the switch of
    deployments, spot events, shutdown; \<open>router_step\<close> in \<open>Router_Pools_Props\<close> lets them interleave at their
    awaits. \<open>Router_Migration\<close>: which contexts move where after a spot event, with the shared
    prefixes, the placement handshake and the warm-up. \<open>Router_Recovery\<close>: \<open>inference\<close>, the loop that tries
    a request again, with what it saves, restores and replays. \<open>Router_Handover\<close>: requests in
    flight are tracked, exported, aborted, and the old instances released. \<open>Router_Replan\<close>: from a
    spot event over the planner's decision to its execution.
  \<^item> \<open>Vllm_Adapter\<close>: \<open>spot/vllm_deployment_adapter.py\<close>, all of it: workers are created for a plan, probed,
    switched to, remapped or resized in place, drained and stopped. \<open>scale_elastic_ep\<close> is the backend's
    side of a resize (\<open>backends/vllm_backend.py\<close>), with its rollback.
  \<^item> \<open>Controller\<close>: \<open>controller.py\<close> and \<open>fine_tuning_job_store.py\<close>: registration, updates, spot events,
    deletion, fine-tuning jobs. \<open>ctl_step\<close> in \<open>Controller_Props\<close> lets the stretches of its coroutines
    between two awaits or locks interleave.
  \<^item> \<open>Local_Store\<close>, \<open>Store_Manager\<close>: \<open>store_manager.py\<close>: the store of a node with its loading queue and
    pinned memory (\<open>store_step\<close> interleaves its coroutines), and the manager that connects to the nodes
    and registers models on them. \<open>Storage_Scheduler\<close>: \<open>schedulers/storage_aware_scheduler.py\<close>: loading
    times, migration plans, the options for a request, and a round of its control loop.

  \<^bold>\<open>How the code is modelled.\<close> A dataclass is a record, its \<open>from_dict\<close> and \<open>to_dict\<close> are functions to
  and from dictionaries. Every raise is an \<open>Inl\<close>, every \<open>except\<close> a case on it. Floats are exact
  rationals: the properties are about the arithmetic the code means, not about rounding. Where
  Python would go on with a value the model has no counterpart for (a not-a-number, an infinite
  float, an object) the model returns \<open>OutOfModel\<close>, which no handler catches, so a property that
  has a result in its hypothesis says nothing there. Logging and metric events are left out. The
  search over assignments recurses on the sources that are left, its memo is left out because it
  only saves work. Objects that several parts hold (instance handles) are in a store under their ids.

  Loops that wait for others take a list with one entry for every turn, which says what happened
  meanwhile: \<open>inference_loop\<close> the answers of every attempt, \<open>await_requests\<close> and \<open>await_idle\<close> what other
  tasks did in every pause before the deadline, \<open>await_drained\<close> the same while an instance drains,
  \<open>kill_loop\<close> what every look at the cluster showed. \<open>inference_ends\<close> and \<open>deletion_complete\<close> prove how
  many entries are enough; the other lists end with the deadline as in the code. No other
  recursion needs a bound.

  What is not under the modelled files is an argument: the backend's declared configurations and
  capabilities, the hooks of a deployment, what Ray, the routers and the backends answer, the clock,
  and, for the placement planner, the record \<open>moe_env\<close>: the fingerprint of a payload (JSON text and a
  checksum), the square root, the time and the \<open>config.json\<close> of a model. The reparallelization
  planner takes the placement planner as an argument, so that its own properties do not depend on
  it, and a replan takes what the executor does as one. The properties hold for all of their answers
  unless a hypothesis says otherwise.

  \<^bold>\<open>What is shown.\<close>

  \<^item> Context migration: the assignment is optimal among all assignments within the capacities
    (\<open>fixed_warmup_assignment_optimal\<close>), and so is the decision built from it
    (\<open>migration_decision_optimal\<close>, a refinement of the abstract cost of an assignment); no target takes
    more than its capacity, every context is accounted for, the planner returns, the expert
    dispatch estimate adds up, contexts survive a round trip through dictionaries.
  \<^item> Stateful recovery: a restore target is ready, compatible in every checked respect and first in
    the cost order; there is none exactly when no candidate is eligible; the search does not raise
    on distinct ids; which action is taken when.
  \<^item> Executor: the order of the hook calls; under make-before-break the old workers serve until the
    traffic has moved; workers that were created are current or stopped on every path, also over
    sequences of transitions; a live migration is never combined with stopping its source.
  \<^item> Reparallelization: target nodes suffice and are as few as possible; the enumeration of shapes is
    sound and complete; a plan that is returned can be placed; Algorithm 1 picks what it promises;
    every cost is charged once; measured profiles are attached only to the exact configuration;
    placement epochs grow; the node table follows the spot events; GPUs are counted once.
  \<^item> Expert placement: a plan gives every expert of every layer one rank of the target, the same in every
    replica; the hotness is a distribution in every layer; the balancing strategies always find a free
    slot and keep the number of experts of a rank; load imbalance is bounded and zero exactly when the
    ranks are even; experts move only within the configured budgets as far as their cost is known, and
    every expert is counted as moved, stationary or unknown. The reparallelization decision inherits
    the coverage.
  \<^item> Scheduler: a round never gives away more GPUs than a node has beside the instances it knew of,
    leaves no request waiting that would fit, and serves first come first; over all interleavings no
    request is queued twice and, until a shutdown, none is lost;
    deleting a model answers its waiters; a distributed allocation is exact, refused only when
    the targets cannot provide the GPUs, and undone by its release; risk-aware scheduling picks the
    best node that fits.
  \<^item> Replay: an event that ends a preemption ends its deadlines for good, and a deadline that nothing
    ends fires.

  \<^item> Router: over all interleavings the requests an instance counts are those promised to it or
    running on it, within its queue length, no request is lost and none is promised a closed instance;
    the balancer serves while there is room; the auto scaler stays within its bounds. A request
    ends after a bounded number of attempts with its slots given back, a required native restore is
    not replaced by a replay, a restored request continues after its visible tokens. A request is
    aborted for a hand-over only after its export, and old instances are released only when every
    migrated request has arrived. Contexts move only to ready instances with free slots.
  \<^item> Replanning and adapter: workers are created all or none; a resize in place never gives the engine
    more GPUs than are reserved, unless the backend fails to roll the engine back, and asks it only while
    no request runs; a plan in use that gives every replica a node of its own is recognised, so that
    replanning settles; a failed execution in place is reported and leaves the routing as it was, unless
    only the report about a successful one failed.
  \<^item> Controller: models and routers agree over all interleavings; spot events reach every router;
    a deletion ends and is complete, or stops where the router's shutdown raises; fine-tuning stays
    within the free resources.
  \<^item> Stores: the chunks a store counts as used are those of the models in its pool, within the pool, over
    all interleavings (\<open>pinned_memory_accounted\<close>); the loading queue empties when the models fit and
    load (\<open>loading_queue_drains\<close>); a registration that returns has placed the model
    (\<open>registration_places_model\<close>); connecting ends when the nodes answer (\<open>cluster_connects\<close>); an option
    of the storage-aware scheduler is a ready node with the checkpoint and, with its migrations,
    the GPUs (\<open>storage_options_sound\<close>).

  \<^bold>\<open>Interfaces.\<close> \<open>ranking\<close> is interpreted for the shape, offer, configuration, restore and risk orders;
  the properties on what is selected rest on it. \<open>node_lifecycle\<close>, the contract of a table of nodes
  under events, is interpreted for the planner's node table and for the scheduler's. \<open>kept_projection\<close>,
  what the stages of the planner keep of their candidates, is interpreted for their shapes and for
  their placements; \<open>expert_placement\<close>, what the planner relies on in a placement planner, for
  \<open>logical_placement_planner\<close>. \<open>kept\<close>, a relation that sequences and loops of statements inherit, is
  interpreted for the slots, the retry budget and the failures of a request, for steps that answer
  nothing, and for the controller's registry.

  \<^bold>\<open>What modelling showed.\<close> Concrete runs, proved as lemmas, in which the code does not do what it
  means to: \<open>preemption_notice_lost\<close>, \<open>granted_gpu_reserved_again\<close>, \<open>registered_gpu_granted_again\<close> and
  \<open>shutdown_strands_waiters\<close> in \<open>Fcfs_System\<close>, \<open>selector_notice_cancels_other_deadline\<close> in \<open>Preemption_Simulator_Props\<close>,
  \<open>failed_wait_leaves_old_workers\<close> in \<open>Reparallelization_Executor_Props\<close>, \<open>live_remap_enumerates_replicas\<close>
  in \<open>Reparallelization_Props\<close>, \<open>worse_placement_accepted\<close> and \<open>unknown_time_ignores_budget\<close> in
  \<open>Moe_Plan_Props\<close>; \<open>dead_instance_revived\<close> in
  \<open>Instance_Handle\<close>, \<open>slot_lost_when_stopped\<close> and \<open>shutdown_with_queued_request_raises\<close> in
  \<open>Router_Pools_Props\<close>, \<open>exception_restarts_request\<close> in \<open>Router_Recovery_Props\<close>;
  \<open>failed_resize_leaves_instance_closed\<close>, \<open>failed_rollback_overcommits\<close>,
  \<open>recovery_reopens_during_resize\<close>, \<open>failed_remap_is_partial\<close>,
  \<open>stale_expert_placement_carried\<close> and \<open>replicas_in_turn_ignore_capacity\<close> in \<open>Vllm_Adapter_Props\<close>;
  \<open>lost_execution_facts\<close>, \<open>status_failure_reported_after_switch\<close>, \<open>shared_node_not_recognised\<close> and
  \<open>settings_validated_once\<close> in \<open>Router_Replan_Props\<close>; \<open>deletion_kills_router_under_registration\<close>,
  \<open>update_of_deleted_model_raises\<close>, \<open>deletion_kills_other_model\<close>, \<open>deletion_stops_when_shutdown_raises\<close>,
  \<open>shutdown_with_models_raises\<close>, \<open>ft_job_without_backend_ends_processing\<close> and
  \<open>cancel_of_running_job_raises\<close> in \<open>Controller_Props\<close>; \<open>oversized_model_blocks_queue\<close>,
  \<open>late_node_has_no_pool\<close>, \<open>use_does_not_refresh\<close>, \<open>failed_rank_leaks\<close> and
  \<open>refused_registration_recorded\<close> in \<open>Local_Store_Props\<close>; \<open>preload_asks_for_path\<close>,
  \<open>concurrent_registration_loses_size\<close> and \<open>unknown_backend_leaves_entry\<close> in \<open>Store_Manager_Props\<close>;
  \<open>queued_request_ends_loop\<close>, \<open>small_instance_ends_planning\<close> and \<open>fractional_shortage_frees_nothing\<close>
  in \<open>Storage_Scheduler_Props\<close>.

  \<^bold>\<open>Not modelled.\<close> In the router: time stamps, metric events and the report on a runtime's expert
  placement \<open>get_runtime_ep_audit\<close>, which decide nothing, and the pools of fine-tuning instances. Of the
  storage-aware scheduler's control loop what follows the unpacking of requests, which always raises.
  The older migration router and the offline analyses of measured costs are apart from the path of a
  spot event. The backends but for the elastic resize, the store daemons and downloads, the metrics
  files, command lines, experiment scripts and benchmarks are I/O, or glue to libraries that are not
  in the repository.
\<close>

end
